(* ===== verification/Prelude.thy ===== *)
theory Prelude
  imports Main "HOL-Library.Signed_Division" "HOL-Library.Char_ord"
    "HOL-Library.List_Lexorder" "HOL-Library.Multiset"
begin

text \<open>
  Shared vocabulary of the development: Go's 64-bit integers (an \<open>int\<close> with the wrap-around
  written out), its time values, byte strings with the parts of packages \<open>strings\<close> and
  \<open>strconv\<close> the sources call, error values, maps and the order a \<open>range\<close> loop visits them in,
  and the generic lemmas on sums over maps that the component theories rest on.

  \<open>go_arith\<close> collects the facts that remove a wrap-around that cannot happen, \<open>store_simps\<close> the
  facts about the store's private helpers that every component proof uses.
\<close>

named_theorems go_arith \<open>64-bit arithmetic\<close>
named_theorems store_simps \<open>facts about the helpers of the store\<close>

section \<open>64-bit integers\<close>

text \<open>
  Go's \<open>int\<close> and \<open>int64\<close> are two's complement 64-bit integers here; \<open>w64\<close> is what an
  arithmetic result wraps to. Division truncates toward zero: \<open>sdiv\<close>.
\<close>

definition w64 :: "int \<Rightarrow> int" where
  "w64 x = (x + 2 ^ 63) mod 2 ^ 64 - 2 ^ 63"

definition i64 :: "int \<Rightarrow> bool" where
  "i64 x \<longleftrightarrow> - (2 ^ 63) \<le> x \<and> x < 2 ^ 63"

lemma w64_id: "i64 x \<Longrightarrow> w64 x = x"
  by (simp add: w64_def i64_def)

lemma i64_w64 [simp]: "i64 (w64 x)"
proof -
  have "0 \<le> (x + 2 ^ 63) mod 2 ^ 64" and "(x + 2 ^ 63) mod 2 ^ 64 < (2 :: int) ^ 64"
    by simp_all
  then show ?thesis by (simp add: w64_def i64_def)
qed

lemma w64_w64 [simp]: "w64 (w64 x) = w64 x"
  by (simp add: w64_id)

lemma w64_cong: "w64 x = w64 y \<longleftrightarrow> x mod 2 ^ 64 = y mod 2 ^ 64"
proof
  assume "w64 x = w64 y"
  then have "((x + 2 ^ 63) mod 2 ^ 64 - 2 ^ 63) mod 2 ^ 64 = ((y + 2 ^ 63) mod 2 ^ 64 - 2 ^ 63) mod 2 ^ 64"
    by (simp add: w64_def)
  then show "x mod 2 ^ 64 = y mod 2 ^ 64"
    by (simp only: mod_diff_left_eq) simp
next
  assume "x mod 2 ^ 64 = y mod 2 ^ 64"
  then have "(x + 2 ^ 63) mod 2 ^ 64 = (y + 2 ^ 63) mod 2 ^ 64"
    by (metis mod_add_left_eq)
  then show "w64 x = w64 y" by (simp add: w64_def)
qed

lemma w64_mod [simp]: "w64 x mod 2 ^ 64 = x mod 2 ^ 64"
  using w64_cong [of "w64 x" x] by simp

lemma w64_add_left [simp]: "w64 (w64 a + b) = w64 (a + b)"
  unfolding w64_cong by (metis mod_add_left_eq w64_mod)

lemma w64_add_right [simp]: "w64 (a + w64 b) = w64 (a + b)"
  using w64_add_left [of b a] by (simp only: add.commute)

lemma w64_diff_left [simp]: "w64 (w64 a - b) = w64 (a - b)"
  unfolding w64_cong by (metis mod_diff_left_eq w64_mod)

lemma w64_diff_right [simp]: "w64 (a - w64 b) = w64 (a - b)"
  unfolding w64_cong by (metis mod_diff_right_eq w64_mod)

lemma w64_mult_left [simp]: "w64 (w64 a * b) = w64 (a * b)"
  unfolding w64_cong by (metis mod_mult_left_eq w64_mod)

lemma w64_mult_right [simp]: "w64 (a * w64 b) = w64 (a * b)"
  unfolding w64_cong by (metis mod_mult_right_eq w64_mod)

text \<open>An inner wrap-around anywhere in a sum is absorbed by the outer one.\<close>

lemma w64_nested [simp]:
  "w64 (a + (b + w64 c)) = w64 (a + (b + c))"
  "w64 (a + (w64 b + c)) = w64 (a + (b + c))"
  "w64 (a + (w64 b - c)) = w64 (a + (b - c))"
  "w64 (a + (b + (c + w64 d))) = w64 (a + (b + (c + d)))"
  "w64 (a + (b + (w64 c + d))) = w64 (a + (b + (c + d)))"
  by (metis w64_add_left w64_add_right w64_diff_left)+

lemma w64_nested_left [simp]:
  "w64 (w64 a + b + c) = w64 (a + b + c)"
  "w64 (a + w64 b + c) = w64 (a + b + c)"
  "w64 (w64 a + b - c) = w64 (a + b - c)"
  "w64 (a + (b + w64 c) - d) = w64 (a + (b + c) - d)"
  "w64 (a + (w64 b + c) - d) = w64 (a + (b + c) - d)"
  by (metis w64_add_left w64_add_right w64_diff_left)+

lemma w64_nonneg: "0 \<le> x \<Longrightarrow> x < 2 ^ 63 \<Longrightarrow> w64 x = x"
  by (simp add: w64_id i64_def)

declare w64_id [go_arith] w64_nonneg [go_arith]

lemma sdiv_nonneg: "0 \<le> a \<Longrightarrow> 0 < b \<Longrightarrow> a sdiv b = a div (b :: int)"
  by (cases "a = 0") (simp_all add: signed_divide_int_def)

section \<open>Time\<close>

text \<open>
  A \<open>time.Time\<close> is an instant in UTC, in nanoseconds since 1 January of year 1, so that Go's
  zero time is \<open>0\<close>. The sources convert every reading with \<open>UTC()\<close>; locations other than
  UTC are outside this model.
\<close>

type_synonym time = int

definition nanos :: "int \<Rightarrow> int" where "nanos sec = sec * 1000000000"

definition unix_epoch :: time where "unix_epoch = nanos 62135596800"

definition After :: "time \<Rightarrow> time \<Rightarrow> bool" where "After a b \<longleftrightarrow> a > b"

definition Before :: "time \<Rightarrow> time \<Rightarrow> bool" where "Before a b \<longleftrightarrow> a < b"

definition IsZero :: "time \<Rightarrow> bool" where "IsZero t \<longleftrightarrow> t = 0"

text \<open>\<open>time.Duration(n) * time.Second\<close> is an \<open>int64\<close> product.\<close>

definition Seconds :: "int \<Rightarrow> int" where "Seconds n = w64 (n * 1000000000)"

text \<open>
  \<open>sameDay\<close> and \<open>sameHour\<close> of \<open>store.go\<close>: equal calendar date, and equal date and hour. On UTC
  instants two dates are equal when the day numbers are.
\<close>

definition day_nanos :: int where "day_nanos = 86400000000000"

definition hour_nanos :: int where "hour_nanos = 3600000000000"

definition sameDay :: "time \<Rightarrow> time \<Rightarrow> bool" where
  "sameDay a b \<longleftrightarrow> \<not> IsZero a \<and> a div day_nanos = b div day_nanos"

definition sameHour :: "time \<Rightarrow> time \<Rightarrow> bool" where
  "sameHour a b \<longleftrightarrow> \<not> IsZero a \<and> a div day_nanos = b div day_nanos \<and>
     a mod day_nanos div hour_nanos = b mod day_nanos div hour_nanos"

lemmas time_defs = After_def Before_def IsZero_def nanos_def unix_epoch_def

section \<open>Errors\<close>

text \<open>
  The sentinel errors of package \<open>store\<close>, an error made by \<open>errors.New\<close> with its text, and
  the run-time panic of a nil dereference.
  A fallible operation returns \<open>Inl\<close> the error or \<open>Inr\<close> its result.
\<close>

datatype err = ErrNotFound | ErrForbidden | ErrInsufficientBalance | ErrMsg string | Panic

type_synonym 'a result = "err + 'a"

definition is_ok :: "'a result \<Rightarrow> bool" where
  "is_ok r = (case r of Inl _ \<Rightarrow> False | Inr _ \<Rightarrow> True)"

lemma is_ok_simps [simp]: "is_ok (Inr x)" "\<not> is_ok (Inl e)"
  by (simp_all add: is_ok_def)

lemma is_okE: "is_ok r \<Longrightarrow> (\<And>x. r = Inr x \<Longrightarrow> P) \<Longrightarrow> P"
  by (cases r) auto

section \<open>Strings\<close>

text \<open>
  A Go string is a byte sequence, a \<open>char list\<close>. \<open>TrimSpace\<close> removes the runes for which
  \<open>unicode.IsSpace\<close> holds, on their UTF-8 encodings: one ASCII byte, two bytes for U+0085 and
  U+00A0, three for U+1680, U+2000 to U+200A, U+2028, U+2029, U+202F, U+205F and U+3000.
\<close>

definition space1 :: "char \<Rightarrow> bool" where
  "space1 a \<longleftrightarrow> a \<in> {CHR 0x09, CHR 0x0A, CHR 0x0B, CHR 0x0C, CHR 0x0D, CHR 0x20}"

definition space2 :: "char \<Rightarrow> char \<Rightarrow> bool" where
  "space2 a b \<longleftrightarrow> a = CHR 0xC2 \<and> b \<in> {CHR 0x85, CHR 0xA0}"

definition space3 :: "char \<Rightarrow> char \<Rightarrow> char \<Rightarrow> bool" where
  "space3 a b c \<longleftrightarrow>
     (a, b, c) = (CHR 0xE1, CHR 0x9A, CHR 0x80) \<or>
     (a, b) = (CHR 0xE2, CHR 0x80) \<and>
       c \<in> {CHR 0x80, CHR 0x81, CHR 0x82, CHR 0x83, CHR 0x84, CHR 0x85, CHR 0x86, CHR 0x87,
            CHR 0x88, CHR 0x89, CHR 0x8A, CHR 0xA8, CHR 0xA9, CHR 0xAF} \<or>
     (a, b, c) = (CHR 0xE2, CHR 0x81, CHR 0x9F) \<or>
     (a, b, c) = (CHR 0xE3, CHR 0x80, CHR 0x80)"

text \<open>
  \<open>trim_with\<close> drops leading runes; the suffix is dropped by the same loop on the reversed
  bytes with the tests reversed.
\<close>

fun trim_with :: "(char \<Rightarrow> char \<Rightarrow> bool) \<Rightarrow> (char \<Rightarrow> char \<Rightarrow> char \<Rightarrow> bool) \<Rightarrow> string \<Rightarrow> string" where
  "trim_with s2 s3 (a # b # c # s) =
     (if space1 a then trim_with s2 s3 (b # c # s)
      else if s2 a b then trim_with s2 s3 (c # s)
      else if s3 a b c then trim_with s2 s3 s
      else a # b # c # s)"
| "trim_with s2 s3 [a, b] =
     (if space1 a then trim_with s2 s3 [b] else if s2 a b then [] else [a, b])"
| "trim_with s2 s3 [a] = (if space1 a then [] else [a])"
| "trim_with s2 s3 [] = []"

definition TrimSpace :: "string \<Rightarrow> string" where
  "TrimSpace s =
     rev (trim_with (\<lambda>b a. space2 a b) (\<lambda>c b a. space3 a b c)
            (rev (trim_with space2 space3 s)))"

text \<open>A string that starts and ends with a printing ASCII character is its own trim.\<close>

definition plain :: "char \<Rightarrow> bool" where
  "plain a \<longleftrightarrow> of_char a < (128 :: nat) \<and> \<not> space1 a"

lemma plain_not_space:
  assumes "plain a"
  shows "\<not> space1 a" "\<not> space2 a b" "\<not> space2 b a" "\<not> space3 a b c" "\<not> space3 c b a"
  using assms by (auto simp: plain_def space2_def space3_def)

lemma trim_with_plain:
  assumes "plain a"
  shows "trim_with space2 space3 (a # s) = a # s"
    and "trim_with (\<lambda>b a. space2 a b) (\<lambda>c b a. space3 a b c) (a # s) = a # s"
proof -
  consider "s = []" | b where "s = [b]" | b c t where "s = b # c # t"
    by (metis list.exhaust)
  then show "trim_with space2 space3 (a # s) = a # s"
    and "trim_with (\<lambda>b a. space2 a b) (\<lambda>c b a. space3 a b c) (a # s) = a # s"
    by (cases; simp add: plain_not_space [OF assms])+
qed

lemma TrimSpace_plain:
  assumes "plain a" and "plain b"
  shows "TrimSpace (a # s @ [b]) = a # s @ [b]" and "TrimSpace [a] = [a]"
  using assms by (simp_all add: TrimSpace_def trim_with_plain plain_not_space)

lemma TrimSpace_Nil [simp]: "TrimSpace [] = []"
  by (simp add: TrimSpace_def)

text \<open>Trimming twice is trimming once: cutting the end of a string never exposes a leading space.\<close>

fun starts_space :: "(char \<Rightarrow> char \<Rightarrow> bool) \<Rightarrow> (char \<Rightarrow> char \<Rightarrow> char \<Rightarrow> bool) \<Rightarrow> string \<Rightarrow> bool" where
  "starts_space s2 s3 (a # b # c # s) \<longleftrightarrow> space1 a \<or> s2 a b \<or> s3 a b c"
| "starts_space s2 s3 [a, b] \<longleftrightarrow> space1 a \<or> s2 a b"
| "starts_space s2 s3 [a] \<longleftrightarrow> space1 a"
| "starts_space s2 s3 [] \<longleftrightarrow> False"

lemma trim_with_starts: "\<not> starts_space s2 s3 (trim_with s2 s3 s)"
  by (induction s2 s3 s rule: trim_with.induct) auto

lemma trim_with_id: "\<not> starts_space s2 s3 s \<Longrightarrow> trim_with s2 s3 s = s"
  by (cases "(s2, s3, s)" rule: trim_with.cases) auto

lemma starts_space_append: "starts_space s2 s3 s \<Longrightarrow> starts_space s2 s3 (s @ t)"
proof (cases "(s2, s3, s)" rule: trim_with.cases)
  case (2 s2' s3' a b)
  then show "starts_space s2 s3 s \<Longrightarrow> ?thesis" by (cases t) auto
next
  case (3 s2' s3' a)
  then show "starts_space s2 s3 s \<Longrightarrow> ?thesis" by (cases "(s2, s3, a # t)" rule: trim_with.cases) auto
qed auto

lemma trim_with_suffix: "\<exists>p. s = p @ trim_with s2 s3 s"
proof (induction s2 s3 s rule: trim_with.induct)
  case (1 s2 s3 a b c s)
  then show ?case by (auto, (metis append_Cons)+)
qed auto

lemma TrimSpace_idem [simp]: "TrimSpace (TrimSpace s) = TrimSpace s"
proof -
  let ?l = "trim_with space2 space3" and ?r = "trim_with (\<lambda>b a. space2 a b) (\<lambda>c b a. space3 a b c)"
  obtain p where "rev (?l s) = p @ ?r (rev (?l s))" using trim_with_suffix by blast
  then have "?l s = rev (?r (rev (?l s))) @ rev p" by (metis rev_append rev_rev_ident)
  then have "\<not> starts_space space2 space3 (rev (?r (rev (?l s))))"
    using trim_with_starts [of space2 space3 s] starts_space_append by metis
  then have "?l (TrimSpace s) = TrimSpace s" by (simp add: TrimSpace_def trim_with_id)
  moreover have "?r (rev (TrimSpace s)) = rev (TrimSpace s)"
    by (simp add: TrimSpace_def trim_with_id trim_with_starts)
  ultimately show ?thesis by (simp add: TrimSpace_def [of "TrimSpace s"])
qed

text \<open>\<open>[]rune(s)\<close>: UTF-8 decoding; an invalid byte becomes U+FFFD.\<close>

definition byte_in :: "nat \<Rightarrow> nat \<Rightarrow> nat \<Rightarrow> bool" where "byte_in lo hi b \<longleftrightarrow> lo \<le> b \<and> b \<le> hi"

fun utf8_runes :: "nat list \<Rightarrow> nat list" where
  "utf8_runes [] = []"
| "utf8_runes (a # bs) =
     (if a < 128 then a # utf8_runes bs
      else case bs of
        b # bs1 \<Rightarrow>
          if byte_in 0xC2 0xDF a \<and> byte_in 0x80 0xBF b then (a mod 32 * 64 + b mod 64) # utf8_runes bs1
          else (case bs1 of
            c # bs2 \<Rightarrow>
              if byte_in 0xE0 0xEF a \<and> byte_in (if a = 0xE0 then 0xA0 else 0x80) (if a = 0xED then 0x9F else 0xBF) b \<and>
                 byte_in 0x80 0xBF c
              then (a mod 16 * 4096 + b mod 64 * 64 + c mod 64) # utf8_runes bs2
              else (case bs2 of
                d # bs3 \<Rightarrow>
                  if byte_in 0xF0 0xF4 a \<and> byte_in (if a = 0xF0 then 0x90 else 0x80) (if a = 0xF4 then 0x8F else 0xBF) b \<and>
                     byte_in 0x80 0xBF c \<and> byte_in 0x80 0xBF d
                  then (a mod 8 * 262144 + b mod 64 * 4096 + c mod 64 * 64 + d mod 64) # utf8_runes bs3
                  else 0xFFFD # utf8_runes bs
              | [] \<Rightarrow> 0xFFFD # utf8_runes bs)
          | [] \<Rightarrow> 0xFFFD # utf8_runes bs)
      | [] \<Rightarrow> [0xFFFD])"

definition runes :: "string \<Rightarrow> nat list" where "runes s = utf8_runes (map of_char s)"

subsection \<open>Decimal numbers\<close>

text \<open>\<open>strconv.FormatInt(n, 10)\<close>, also the \<open>%d\<close> verb.\<close>

definition digit :: "nat \<Rightarrow> char" where "digit d = char_of (48 + d)"

fun showNat :: "nat \<Rightarrow> string" where
  "showNat n = (if n < 10 then [digit n] else showNat (n div 10) @ [digit (n mod 10)])"

declare showNat.simps [simp del]

definition FormatInt :: "int \<Rightarrow> string" where
  "FormatInt n = (if n < 0 then CHR ''-'' # showNat (nat (- n)) else showNat (nat n))"

definition undigit :: "char \<Rightarrow> nat" where "undigit c = of_char c - 48"

definition readNat :: "string \<Rightarrow> nat" where "readNat s = foldl (\<lambda>n c. 10 * n + undigit c) 0 s"

lemma undigit_digit: "d < 10 \<Longrightarrow> undigit (digit d) = d"
  by (simp add: undigit_def digit_def)

lemma readNat_showNat [simp]: "readNat (showNat n) = n"
proof (induction n rule: showNat.induct)
  case (1 n)
  show ?case
  proof (cases "n < 10")
    case True
    then show ?thesis by (simp add: showNat.simps [of n] readNat_def undigit_digit)
  next
    case False
    with 1 have "readNat (showNat (n div 10)) = n div 10" by simp
    with False show ?thesis
      by (simp add: showNat.simps [of n] readNat_def undigit_digit)
  qed
qed

lemma digits_showNat: "c \<in> set (showNat n) \<Longrightarrow> \<exists>d < 10. c = digit d"
proof (induction n rule: showNat.induct)
  case (1 n)
  then show ?case by (cases "n < 10") (auto simp: showNat.simps [of n] intro: exI [of _ "n mod 10"])
qed

lemma showNat_plain: "c \<in> set (showNat n) \<Longrightarrow> (48 :: nat) \<le> of_char c \<and> of_char c < (58 :: nat)"
  by (auto dest!: digits_showNat simp: digit_def)

lemma showNat_no: "of_char c < (48 :: nat) \<or> 58 \<le> (of_char c :: nat) \<Longrightarrow> c \<notin> set (showNat n)"
  using showNat_plain [of c n] by auto

text \<open>
  \<open>Format("20060102150405")\<close>: year, month, day, hour, minute and second of an instant, with the
  civil date computed from the day number by the 400-year cycle of the Gregorian calendar.
\<close>

definition pad :: "nat \<Rightarrow> int \<Rightarrow> string" where
  "pad w n = (let d = FormatInt n in replicate (w - length d) CHR ''0'' @ d)"

definition civil :: "int \<Rightarrow> int \<times> int \<times> int" where
  "civil days =
     (let z = days + 306;
          era = z div 146097;
          doe = z mod 146097;
          yoe = (doe - doe div 1460 + doe div 36524 - doe div 146096) div 365;
          doy = doe - (365 * yoe + yoe div 4 - yoe div 100);
          mp = (5 * doy + 2) div 153;
          d = doy - (153 * mp + 2) div 5 + 1;
          m = (if mp < 10 then mp + 3 else mp - 9)
      in (yoe + era * 400 + (if m \<le> 2 then 1 else 0), m, d))"

definition FormatStamp :: "time \<Rightarrow> string" where
  "FormatStamp t =
     (let (y, m, d) = civil (t div day_nanos); sec = t mod day_nanos div 1000000000
      in pad 4 y @ pad 2 m @ pad 2 d @ pad 2 (sec div 3600) @ pad 2 (sec div 60 mod 60)
         @ pad 2 (sec mod 60))"

lemma FormatInt_inject [simp]: "FormatInt m = FormatInt n \<longleftrightarrow> m = n"
proof
  assume eq: "FormatInt m = FormatInt n"
  have minus: "CHR ''-'' \<notin> set (showNat k)" for k by (rule showNat_no) simp
  have "showNat (nat \<bar>m\<bar>) = showNat (nat \<bar>n\<bar>) \<and> (m < 0 \<longleftrightarrow> n < 0)"
    using eq minus [of "nat m"] minus [of "nat n"]
    by (cases "m < 0"; cases "n < 0") (auto simp: FormatInt_def, (metis list.set_intros(1))+)
  then have "nat \<bar>m\<bar> = nat \<bar>n\<bar>" and "m < 0 \<longleftrightarrow> n < 0"
    by (metis readNat_showNat)+
  then show "m = n" by linarith
qed simp

lemma FormatInt_no_colon: "CHR '':'' \<notin> set (FormatInt n)"
  by (simp add: FormatInt_def showNat_no)

text \<open>A key built as a number, a colon and a name determines both.\<close>

lemma append_sep_inject:
  "x \<notin> set a \<Longrightarrow> x \<notin> set b \<Longrightarrow> a @ x # s = b @ x # t \<longleftrightarrow> a = b \<and> s = t"
proof (induction a arbitrary: b)
  case Nil
  then show ?case by (cases b) auto
next
  case (Cons y ys)
  then show ?case by (cases b) auto
qed

lemma numbered_key_inject [simp]:
  "FormatInt m @ CHR '':'' # s = FormatInt n @ CHR '':'' # t \<longleftrightarrow> m = n \<and> s = t"
  by (simp add: append_sep_inject FormatInt_no_colon)

section \<open>Maps and iteration order\<close>

text \<open>
  A Go map is a partial function with a finite domain. A \<open>range\<close> loop visits the keys in an
  order the runtime chooses: a loop whose result depends on it takes the visiting order as an
  argument, a list that \<open>enumerates\<close> the map; \<open>sort.Slice\<close> over the visited rows is the
  library's stable \<open>sort_key\<close> (an unstable sort of one visiting order is a stable sort of
  another). A loop whose result does not depend on it (a count, a membership test) runs over
  \<open>keys_of\<close>, the keys in increasing order.
\<close>

definition enumerates :: "'k list \<Rightarrow> ('k \<rightharpoonup> 'v) \<Rightarrow> bool" where
  "enumerates ks m \<longleftrightarrow> distinct ks \<and> set ks = dom m"

definition keys_of :: "('k :: linorder \<rightharpoonup> 'v) \<Rightarrow> 'k list" where
  "keys_of m = sorted_list_of_set (dom m)"

lemma enumerates_keys_of [simp]: "finite (dom m) \<Longrightarrow> enumerates (keys_of m) m"
  by (simp add: enumerates_def keys_of_def)

lemma enumerates_finite: "enumerates ks m \<Longrightarrow> finite (dom m)"
  unfolding enumerates_def by (metis finite_set)

definition map_values :: "('k \<rightharpoonup> 'v) \<Rightarrow> 'k list \<Rightarrow> 'v list" where
  "map_values m ks = List.map_filter m ks"

text \<open>The sum of a quantity over the rows of a map.\<close>

definition msum :: "('v \<Rightarrow> int) \<Rightarrow> ('k \<rightharpoonup> 'v) \<Rightarrow> int" where
  "msum f m = (\<Sum>k \<in> dom m. f (the (m k)))"

lemma msum_empty [simp]: "msum f Map.empty = 0"
  by (simp add: msum_def)

lemma msum_upd:
  assumes "finite (dom m)"
  shows "msum f (m(k \<mapsto> v)) = msum f m - (case m k of None \<Rightarrow> 0 | Some u \<Rightarrow> f u) + f v"
proof -
  have "msum f (m(k \<mapsto> v)) = f v + (\<Sum>j \<in> dom m - {k}. f (the ((m(k \<mapsto> v)) j)))"
    using assms by (simp add: msum_def sum.insert_remove)
  also have "(\<Sum>j \<in> dom m - {k}. f (the ((m(k \<mapsto> v)) j))) = (\<Sum>j \<in> dom m - {k}. f (the (m j)))"
    by (rule sum.cong) auto
  also have "\<dots> = msum f m - (case m k of None \<Rightarrow> 0 | Some u \<Rightarrow> f u)"
    using assms by (cases "m k") (auto simp: msum_def sum_diff1 domIff)
  finally show ?thesis by (simp only: add.commute)
qed

lemma msum_new: "finite (dom m) \<Longrightarrow> m k = None \<Longrightarrow> msum f (m(k \<mapsto> v)) = msum f m + f v"
  by (simp add: msum_upd)

lemma msum_same: "finite (dom m) \<Longrightarrow> m k = Some u \<Longrightarrow> f v = f u \<Longrightarrow> msum f (m(k \<mapsto> v)) = msum f m"
  by (simp add: msum_upd)

lemma msum_nonneg: "(\<And>k v. m k = Some v \<Longrightarrow> 0 \<le> f v) \<Longrightarrow> 0 \<le> msum f m"
  unfolding msum_def by (rule sum_nonneg) auto

lemma msum_mono: "(\<And>k v. m k = Some v \<Longrightarrow> f v \<le> g v) \<Longrightarrow> msum f m \<le> msum g m"
  unfolding msum_def by (rule sum_mono) auto

lemma msum_ge: "finite (dom m) \<Longrightarrow> (\<And>k v. m k = Some v \<Longrightarrow> 0 \<le> f v) \<Longrightarrow> m k = Some v \<Longrightarrow> f v \<le> msum f m"
  unfolding msum_def using member_le_sum [of k "dom m" "\<lambda>k. f (the (m k))"] by (auto simp: domIff)

lemma map_values_eq: "set ks \<subseteq> dom m \<Longrightarrow> map_values m ks = map (\<lambda>k. the (m k)) ks"
  by (induction ks) (auto simp: map_values_def List.map_filter_simps)

lemma sum_map_values: "enumerates ks m \<Longrightarrow> sum_list (map f (map_values m ks)) = msum f m"
  by (simp add: enumerates_def map_values_eq msum_def sum_list_distinct_conv_sum_set comp_def)

lemma dom_upd_existing: "m k = Some v \<Longrightarrow> dom (m(k \<mapsto> w)) = dom m"
  by auto

lemma finite_dom_upd [simp]: "finite (dom (m(k := v))) \<longleftrightarrow> finite (dom m)"
  by (cases v) auto

text \<open>Counting the rows of a map that satisfy a test, as a \<open>range\<close> loop with a counter does.\<close>

definition count_rows :: "('v \<Rightarrow> bool) \<Rightarrow> ('k :: linorder \<rightharpoonup> 'v) \<Rightarrow> int" where
  "count_rows P m = int (length (filter P (map_values m (keys_of m))))"

lemma count_rows_card:
  assumes "finite (dom m)"
  shows "count_rows P m = int (card {k. \<exists>v. m k = Some v \<and> P v})"
proof -
  have dom: "set (keys_of m) = dom m" "distinct (keys_of m)" using assms by (simp_all add: keys_of_def)
  have "length (filter P (map_values m (keys_of m))) = length (filter (\<lambda>k. P (the (m k))) (keys_of m))"
    using dom(1) by (simp add: map_values_eq filter_map comp_def)
  also have "\<dots> = card (set (filter (\<lambda>k. P (the (m k))) (keys_of m)))"
    by (rule distinct_card [symmetric]) (simp add: dom(2))
  also have "set (filter (\<lambda>k. P (the (m k))) (keys_of m)) = {k. \<exists>v. m k = Some v \<and> P v}"
    using dom(1) by auto
  finally show ?thesis by (simp add: count_rows_def)
qed

section \<open>Case conversion\<close>

text \<open>
  \<open>strings.ToUpper\<close> and \<open>strings.ToLower\<close> take the ASCII path on ASCII strings; on other strings
  they use the Unicode tables, which are the argument \<open>uc\<close>.
\<close>

definition ascii :: "string \<Rightarrow> bool" where
  "ascii s \<longleftrightarrow> list_all (\<lambda>c. of_char c < (128 :: nat)) s"

definition upper_char :: "char \<Rightarrow> char" where
  "upper_char c = (let n = of_char c :: nat in if 97 \<le> n \<and> n \<le> 122 then char_of (n - 32) else c)"

definition lower_char :: "char \<Rightarrow> char" where
  "lower_char c = (let n = of_char c :: nat in if 65 \<le> n \<and> n \<le> 90 then char_of (n + 32) else c)"

definition ToUpper :: "(string \<Rightarrow> string) \<Rightarrow> string \<Rightarrow> string" where
  "ToUpper uc s = (if ascii s then map upper_char s else uc s)"

definition ToLower :: "(string \<Rightarrow> string) \<Rightarrow> string \<Rightarrow> string" where
  "ToLower uc s = (if ascii s then map lower_char s else uc s)"

section \<open>Hexadecimal digits\<close>

text \<open>\<open>hex.EncodeToString\<close>: two lower-case digits per byte.\<close>

definition hexdigit :: "nat \<Rightarrow> char" where
  "hexdigit d = (if d < 10 then char_of (48 + d) else char_of (87 + d))"

definition hex_EncodeToString :: "string \<Rightarrow> string" where
  "hex_EncodeToString s = concat (map (\<lambda>c. [hexdigit (of_char c div 16), hexdigit (of_char c mod 16)]) s)"

end
