(* ===== verification/StoreState.thy ===== *)
theory StoreState
  imports Prelude Complex_Main
begin

text \<open>
  The state of the in-memory repository (\<open>src/internal/platform/store/store.go\<close>, type
  \<open>Store\<close>): one record per row type, the record \<open>store\<close> with one field per map or slice of the
  Go struct, and the private helpers every operation uses (\<open>next\<close>, \<open>ensureTokenLocked\<close>,
  \<open>addLedgerLocked\<close>).

  The mutex makes each operation atomic, so an operation is a function from the store and its
  arguments to the new store and its result. A row pointer of the Go maps is the row itself:
  methods return copies, and a row is changed through the map only. The wall clock is part of
  the environment: \<open>clock s n\<close> is the \<open>n\<close>-th reading of \<open>time.Now().UTC()\<close> and \<open>ticks s\<close> counts the
  readings made so far.
\<close>

section \<open>Values of dynamic type\<close>

text \<open>\<open>float64\<close> values are stored and compared, never computed with; \<open>any\<close> values only stored.\<close>

datatype float64 = NaN | NegInf | PosInf | Fin rat

fun float_less :: "float64 \<Rightarrow> float64 \<Rightarrow> bool" where
  "float_less NaN y = False"
| "float_less x NaN = False"
| "float_less (Fin a) (Fin b) = (a < b)"
| "float_less NegInf y = (y \<noteq> NegInf)"
| "float_less x PosInf = (x \<noteq> PosInf)"
| "float_less PosInf y = False"
| "float_less (Fin a) NegInf = False"

datatype json = JNull | JBool bool | JNum float64 | JStr string
  | JArr "json list" | JObj "(string \<times> json) list"

type_synonym attrs = "string \<rightharpoonup> json"

section \<open>Rows\<close>

record WalletLoginNonce =
  wn_Nonce :: string
  wn_Wallet :: string
  wn_Message :: string
  wn_Status :: string
  wn_ExpiresAt :: time
  wn_CreatedAt :: time

record Account =
  ac_ID :: int
  ac_Username :: string
  ac_WalletAddress :: string
  ac_IsBanned :: bool
  ac_CreatedAt :: time
  ac_LastLoginAt :: time

record EquipmentAffix =
  ea_AffixID :: string
  ea_InstanceID :: string
  ea_EnhanceHits :: int
  ea_Stat :: string
  ea_Value :: float64

record InventoryItem =
  it_ID :: int
  it_ItemID :: string
  it_Quantity :: int
  it_Slot :: int
  it_Durability :: int
  it_EnhanceLevel :: int

record EquipmentItem =
  eq_ID :: int
  eq_EquipmentUID :: string
  eq_ItemID :: string
  eq_Rarity :: int
  eq_EnhanceLevel :: int
  eq_Durability :: int
  eq_MaxDurability :: int
  eq_Status :: string
  eq_EquipSlot :: int
  eq_Slot :: int
  eq_WeaponType :: int
  eq_WeaponTypeKey :: string
  eq_NFTContract :: "string option"
  eq_NFTTokenID :: "string option"
  eq_NFTStatus :: "string option"
  eq_Affixes :: "EquipmentAffix list"
  eq_ResolvedBaseFlat :: "string \<rightharpoonup> float64"
  eq_ResolvedBasePercent :: "string \<rightharpoonup> float64"
  eq_ResolvedFlatStats :: "string \<rightharpoonup> float64"
  eq_ResolvedPercentStats :: "string \<rightharpoonup> float64"
  eq_FinalBonuses :: "string \<rightharpoonup> float64"

record Character =
  ch_ID :: int
  ch_AccountID :: int
  ch_Name :: string
  ch_SlotIndex :: int
  ch_Level :: int
  ch_Exp :: int
  ch_HighestClearedChapterID :: int
  ch_HighestClearedFloorID :: int
  ch_Appearance :: attrs
  ch_EquipmentItems :: "EquipmentItem list"
  ch_CreatedAt :: time
  ch_LastPlayed :: time
  ch_HasLastPlayed :: bool
  ch_Deleted :: bool

record PlayerState =
  ps_AccountID :: int
  ps_CharacterID :: int
  ps_PosX :: float64
  ps_PosY :: float64
  ps_CurrentMap :: string
  ps_PlayTimeSec :: int
  ps_Hunger :: float64
  ps_Level :: int
  ps_Exp :: int
  ps_ExpToNextLevel :: int
  ps_Appearance :: attrs
  ps_CharacterName :: string
  ps_LastPlayed :: time
  ps_HasLastPlayed :: bool

record PlayerSaveRequest =
  pr_AccountID :: int
  pr_CharacterID :: int
  pr_PosX :: float64
  pr_PosY :: float64
  pr_CurrentMap :: string
  pr_PlayTimeSec :: int
  pr_Hunger :: float64

record characterStateRecord =
  cs_PosX :: float64
  cs_PosY :: float64
  cs_CurrentMap :: string
  cs_PlayTimeSec :: int
  cs_Hunger :: float64
  cs_LastPlayed :: time
  cs_HasLastPlayed :: bool

record GameTicket =
  tk_Ticket :: string
  tk_AccountID :: int
  tk_CharacterID :: int
  tk_ServerID :: string
  tk_SessionID :: string
  tk_ExpiresAt :: time
  tk_Consumed :: bool

record AccountToken =
  tok_AccountID :: int
  tok_TokenBalance :: int
  tok_WithdrawableBalance :: int
  tok_LockedBalance :: int
  tok_ExternalBalance :: int
  tok_UnlockCredit :: int

record LockedGame =
  lk_ID :: int
  lk_AccountID :: int
  lk_Amount :: int
  lk_Source :: string
  lk_Status :: string
  lk_Ref :: string
  lk_CreatedAt :: time
  lk_UnlockAt :: time

record Withdrawal =
  wd_ID :: int
  wd_AccountID :: int
  wd_Wallet :: string
  wd_Amount :: int
  wd_Status :: string
  wd_Reason :: string
  wd_TxHash :: string
  wd_CreatedAt :: time
  wd_ProcessedAt :: time

record LedgerEntry =
  le_ID :: int
  le_AccountID :: int
  le_Kind :: string
  le_Amount :: int
  le_Ref :: string
  le_Detail :: string
  le_CreatedAt :: time

record AuditEntry =
  au_ID :: int
  au_AdminID :: string
  au_Action :: string
  au_Target :: string
  au_Reason :: string
  au_CreatedAt :: time

record AccountSession =
  se_SessionID :: string
  se_AccountID :: int
  se_WalletPlugin :: string
  se_DeviceID :: string
  se_IPAddress :: string
  se_UserAgent :: string
  se_Status :: string
  se_CreatedAt :: time
  se_LastSeenAt :: "time option"
  se_RevokedAt :: "time option"

record RefreshTokenRecord =
  rt_TokenHash :: string
  rt_AccountID :: int
  rt_SessionID :: string
  rt_ExpiresAt :: time
  rt_RevokedAt :: "time option"
  rt_CreatedAt :: time

record OnlineSession =
  os_AccountID :: int
  os_CharacterID :: int
  os_SessionID :: string
  os_ServerID :: string
  os_ConnectionID :: string
  os_EnteredAt :: time
  os_LastSeenAt :: time

record GameServer =
  gs_ServerID :: string
  gs_DisplayName :: string
  gs_Region :: string
  gs_Host :: string
  gs_Port :: int
  gs_PublicEndpoint :: string
  gs_MaxPlayers :: int
  gs_OnlinePlayers :: int
  gs_Status :: string
  gs_RegisteredAt :: time
  gs_LastHeartbeatAt :: "time option"

record DungeonRunRecovery =
  dr_Required :: bool
  dr_Status :: string
  dr_DungeonRunID :: string
  dr_AccountID :: int
  dr_CharacterID :: int
  dr_ServerID :: string
  dr_ChapterID :: int
  dr_FloorID :: int
  dr_StartedAt :: time

record MysteryShopOffer =
  mo_SlotIndex :: int
  mo_ItemID :: string
  mo_Quantity :: int
  mo_Rarity :: int
  mo_GoldPrice :: int
  mo_TokenPrice :: int
  mo_DiscountBps :: int
  mo_Purchased :: bool

record MysteryShopBoardState =
  mb_ShopID :: string
  mb_CharacterID :: int
  mb_NextFreeRefreshAt :: time
  mb_GeneratedAt :: time
  mb_Offers :: "MysteryShopOffer list"

record AdminUser =
  adu_AdminID :: string
  adu_Username :: string
  adu_PublicKey :: string
  adu_Role :: string
  adu_Status :: string
  adu_CreatedBy :: string
  adu_CreatedAt :: time
  adu_LastLoginAt :: "time option"
  adu_DisabledBy :: string
  adu_DisabledAt :: "time option"
  adu_DisableReason :: string

record AdminLoginNonce =
  an_Nonce :: string
  an_AdminID :: string
  an_Message :: string
  an_Status :: string
  an_ExpiresAt :: time
  an_CreatedAt :: time

record AdminOperation =
  ao_OpID :: string
  ao_AdminID :: string
  ao_Action :: string
  ao_Target :: string
  ao_Response :: string
  ao_CreatedAt :: time

record ServiceIdentity =
  si_ServiceID :: string
  si_Name :: string
  si_Kind :: string
  si_SubjectID :: string
  si_PublicKey :: string
  si_Capabilities :: "string list"
  si_Status :: string
  si_CreatedBy :: string
  si_CreatedAt :: time
  si_DisabledBy :: string
  si_DisabledAt :: "time option"
  si_DisableReason :: string

section \<open>The store\<close>

record store =
  nextID :: int
  nonces :: "string \<rightharpoonup> WalletLoginNonce"
  accounts :: "int \<rightharpoonup> Account"
  byWallet :: "string \<rightharpoonup> int"
  characters :: "int \<rightharpoonup> Character"
  characterStates :: "int \<rightharpoonup> characterStateRecord"
  tickets :: "string \<rightharpoonup> GameTicket"
  tokens :: "int \<rightharpoonup> AccountToken"
  locked :: "int \<rightharpoonup> LockedGame"
  withdrawals :: "int \<rightharpoonup> Withdrawal"
  ledger :: "LedgerEntry list"
  audits :: "AuditEntry list"
  adminUsers :: "string \<rightharpoonup> AdminUser"
  adminLoginNonces :: "string \<rightharpoonup> AdminLoginNonce"
  adminOperations :: "string \<rightharpoonup> AdminOperation"
  sessions :: "string \<rightharpoonup> AccountSession"
  refresh :: "string \<rightharpoonup> RefreshTokenRecord"
  servers :: "string \<rightharpoonup> GameServer"
  online :: "int \<rightharpoonup> OnlineSession"
  serviceIdentities :: "string \<rightharpoonup> ServiceIdentity"
  serviceNonces :: "string \<rightharpoonup> time"
  dungeonRecoveries :: "int \<rightharpoonup> DungeonRunRecovery"
  mysteryShops :: "string \<rightharpoonup> MysteryShopBoardState"
  gatheringSettlements :: "string \<rightharpoonup> time"
  clock :: "nat \<Rightarrow> time"
  ticks :: nat

type_synonym 'a op = "store \<times> 'a result"

definition New :: "(nat \<Rightarrow> time) \<Rightarrow> store" where
  "New clk = \<lparr>
     nextID = 1000,
     nonces = Map.empty, accounts = Map.empty, byWallet = Map.empty,
     characters = Map.empty, characterStates = Map.empty, tickets = Map.empty,
     tokens = Map.empty, locked = Map.empty, withdrawals = Map.empty,
     ledger = [], audits = [],
     adminUsers = Map.empty, adminLoginNonces = Map.empty, adminOperations = Map.empty,
     sessions = Map.empty, refresh = Map.empty, servers = Map.empty, online = Map.empty,
     serviceIdentities = Map.empty, serviceNonces = Map.empty,
     dungeonRecoveries = Map.empty, mysteryShops = Map.empty,
     gatheringSettlements = Map.empty,
     clock = clk, ticks = 0\<rparr>"

text \<open>\<open>time.Now().UTC()\<close>: the current reading; \<open>tick\<close> moves to the next one.\<close>

definition time_Now :: "store \<Rightarrow> time" where "time_Now s = clock s (ticks s)"

definition tick :: "store \<Rightarrow> store" where "tick s = s\<lparr>ticks := Suc (ticks s)\<rparr>"

definition store_next :: "store \<Rightarrow> store \<times> int" where
  "store_next s = (let n = w64 (nextID s + 1) in (s\<lparr>nextID := n\<rparr>, n))"

definition zero_AccountToken :: "int \<Rightarrow> AccountToken" where
  "zero_AccountToken accountID = \<lparr>tok_AccountID = accountID, tok_TokenBalance = 0,
     tok_WithdrawableBalance = 0, tok_LockedBalance = 0, tok_ExternalBalance = 0,
     tok_UnlockCredit = 0\<rparr>"

definition ensureTokenLocked :: "store \<Rightarrow> int \<Rightarrow> store \<times> AccountToken" where
  "ensureTokenLocked s accountID =
     (case tokens s accountID of
        Some row \<Rightarrow> (s, row)
      | None \<Rightarrow> (let row = zero_AccountToken accountID
                in (s\<lparr>tokens := (tokens s)(accountID \<mapsto> row)\<rparr>, row)))"

definition addLedgerLocked :: "store \<Rightarrow> int \<Rightarrow> string \<Rightarrow> int \<Rightarrow> string \<Rightarrow> string \<Rightarrow> store" where
  "addLedgerLocked s accountID kind amount ref detail =
     (let (s1, n) = store_next s in
      tick (s1\<lparr>ledger := ledger s1 @
        [\<lparr>le_ID = n, le_AccountID = accountID, le_Kind = kind, le_Amount = amount,
          le_Ref = ref, le_Detail = detail, le_CreatedAt = time_Now s1\<rparr>]\<rparr>))"

definition Audit :: "store \<Rightarrow> string \<Rightarrow> string \<Rightarrow> string \<Rightarrow> string \<Rightarrow> store \<times> AuditEntry" where
  "Audit s adminID action target reason =
     (let (s1, n) = store_next s;
          row = \<lparr>au_ID = n, au_AdminID = adminID, au_Action = action, au_Target = target,
                 au_Reason = reason, au_CreatedAt = time_Now s1\<rparr>
      in (tick (s1\<lparr>audits := audits s1 @ [row]\<rparr>), row))"

definition Ledger :: "store \<Rightarrow> int \<Rightarrow> LedgerEntry list" where
  "Ledger s accountID = filter (\<lambda>row. accountID = 0 \<or> le_AccountID row = accountID) (ledger s)"

text \<open>The balance row an account reads as, present or not.\<close>

definition token_in :: "(int \<rightharpoonup> AccountToken) \<Rightarrow> int \<Rightarrow> AccountToken" where
  "token_in m a = (case m a of Some row \<Rightarrow> row | None \<Rightarrow> zero_AccountToken a)"

abbreviation token_of :: "store \<Rightarrow> int \<Rightarrow> AccountToken" where
  "token_of s \<equiv> token_in (tokens s)"

section \<open>Facts about the helpers\<close>

lemma ensureTokenLocked_eq [store_simps]:
  "ensureTokenLocked s a = (s\<lparr>tokens := (tokens s)(a \<mapsto> token_of s a)\<rparr>, token_of s a)"
  by (auto simp: ensureTokenLocked_def token_in_def Let_def map_upd_triv split: option.splits)

lemma store_next_eq [store_simps]:
  "store_next s = (s\<lparr>nextID := w64 (nextID s + 1)\<rparr>, w64 (nextID s + 1))"
  by (simp add: store_next_def Let_def)

lemma addLedgerLocked_eq [store_simps]:
  "addLedgerLocked s a kind amount ref detail =
     s\<lparr>nextID := w64 (nextID s + 1), ticks := Suc (ticks s), ledger := ledger s @
       [\<lparr>le_ID = w64 (nextID s + 1), le_AccountID = a, le_Kind = kind, le_Amount = amount,
         le_Ref = ref, le_Detail = detail, le_CreatedAt = time_Now s\<rparr>]\<rparr>"
  by (simp add: addLedgerLocked_def store_next_eq Let_def tick_def time_Now_def)

declare tick_def [store_simps]

text \<open>Reading a balance never depends on whether its row exists yet.\<close>

lemma token_in_upd [simp]: "token_in (m(a \<mapsto> r)) b = (if b = a then r else token_in m b)"
  by (simp add: token_in_def)

lemma token_in_empty [simp]: "token_in Map.empty a = zero_AccountToken a"
  by (simp add: token_in_def)

lemma zero_AccountToken_simps [simp]:
  "tok_TokenBalance (zero_AccountToken a) = 0" "tok_LockedBalance (zero_AccountToken a) = 0"
  "tok_WithdrawableBalance (zero_AccountToken a) = 0" "tok_ExternalBalance (zero_AccountToken a) = 0"
  "tok_AccountID (zero_AccountToken a) = a"
  by (simp_all add: zero_AccountToken_def)

lemma New_simps [simp]:
  "nextID (New c) = 1000" "tokens (New c) = Map.empty" "locked (New c) = Map.empty"
  "withdrawals (New c) = Map.empty" "nonces (New c) = Map.empty" "tickets (New c) = Map.empty"
  "sessions (New c) = Map.empty" "refresh (New c) = Map.empty" "accounts (New c) = Map.empty"
  "characters (New c) = Map.empty" "online (New c) = Map.empty" "servers (New c) = Map.empty"
  "byWallet (New c) = Map.empty" "clock (New c) = c" "ticks (New c) = 0"
  "ledger (New c) = []" "audits (New c) = []" "characterStates (New c) = Map.empty"
  "dungeonRecoveries (New c) = Map.empty" "mysteryShops (New c) = Map.empty"
  "gatheringSettlements (New c) = Map.empty" "adminUsers (New c) = Map.empty"
  "adminLoginNonces (New c) = Map.empty" "adminOperations (New c) = Map.empty"
  "serviceIdentities (New c) = Map.empty" "serviceNonces (New c) = Map.empty"
  by (simp_all add: New_def)

end
