(* ===== verification/Contracts.thy ===== *)
theory Contracts
  imports Prelude
begin

text \<open>
  The interfaces the components share, as locales: \<open>machine\<close>, a transition system with an
  invariant; \<open>single_use\<close>, a credential that a successful use spends (wallet and administrator
  login nonces, launch tickets, refresh tokens).
\<close>

locale machine =
  fixes init :: "'s \<Rightarrow> bool" and step :: "'s \<Rightarrow> 's \<Rightarrow> bool" and inv :: "'s \<Rightarrow> bool"
  assumes inv_init: "init s \<Longrightarrow> inv s"
    and inv_step: "inv s \<Longrightarrow> step s t \<Longrightarrow> inv t"
begin

lemma inv_steps: "step\<^sup>*\<^sup>* s t \<Longrightarrow> inv s \<Longrightarrow> inv t"
  by (induction rule: rtranclp_induct) (auto intro: inv_step)

lemma reachable_inv: "init s \<Longrightarrow> step\<^sup>*\<^sup>* s t \<Longrightarrow> inv t"
  by (blast intro: inv_steps inv_init)

end

text \<open>
  A credential \<open>k\<close> presented with evidence \<open>e\<close>. Once it is \<open>spent\<close> every use fails, a successful
  use spends it, and using any credential does not unspend it. \<open>apart k e\<close> says that evidence
  \<open>e\<close> does not issue \<open>k\<close> anew. Between uses the environment may run any function that keeps \<open>k\<close>
  spent.
\<close>

locale single_use =
  fixes use :: "'s \<Rightarrow> 'k \<Rightarrow> 'e \<Rightarrow> 's \<times> 'r result" and spent :: "'s \<Rightarrow> 'k \<Rightarrow> bool"
    and apart :: "'k \<Rightarrow> 'e \<Rightarrow> bool"
  assumes use_spends: "use s k e = (s', Inr r) \<Longrightarrow> apart k e \<Longrightarrow> spent s' k"
    and spent_refused: "spent s k \<Longrightarrow> \<not> is_ok (snd (use s k e))"
    and use_keeps: "spent s k \<Longrightarrow> apart k e \<Longrightarrow> spent (fst (use s j e)) k"
begin

fun run :: "'s \<Rightarrow> (('s \<Rightarrow> 's) + 'k \<times> 'e) list \<Rightarrow> ('k \<times> bool) list" where
  "run s [] = []"
| "run s (Inl f # es) = run (f s) es"
| "run s (Inr (k, e) # es) = (k, is_ok (snd (use s k e))) # run (fst (use s k e)) es"

definition harmless :: "'k \<Rightarrow> (('s \<Rightarrow> 's) + 'k \<times> 'e) list \<Rightarrow> bool" where
  "harmless k es \<longleftrightarrow> (\<forall>f. Inl f \<in> set es \<longrightarrow> (\<forall>s. spent s k \<longrightarrow> spent (f s) k)) \<and>
     (\<forall>j e. Inr (j, e) \<in> set es \<longrightarrow> apart k e)"

lemma harmless_Cons [simp]:
  "harmless k (Inl f # es) \<longleftrightarrow> (\<forall>s. spent s k \<longrightarrow> spent (f s) k) \<and> harmless k es"
  "harmless k (Inr u # es) \<longleftrightarrow> apart k (snd u) \<and> harmless k es"
  by (cases u; auto simp: harmless_def)+

lemma spent_never_again: "spent s k \<Longrightarrow> harmless k es \<Longrightarrow> (k, True) \<notin> set (run s es)"
proof (induction s es rule: run.induct)
  case (3 s j e es)
  then have "spent (fst (use s j e)) k" by (auto intro: use_keeps)
  with 3 show ?case by (auto simp: spent_refused)
qed auto

lemma at_most_once: "harmless k es \<Longrightarrow> count_list (run s es) (k, True) \<le> 1"
proof (induction s es rule: run.induct)
  case (3 s j e es)
  show ?case
  proof (cases "j = k \<and> is_ok (snd (use s j e))")
    case True
    then obtain r where "use s k e = (fst (use s k e), Inr r)"
      by (metis is_okE prod.collapse)
    then have "spent (fst (use s k e)) k" using 3(2) by (auto intro: use_spends)
    with 3 True have "(k, True) \<notin> set (run (fst (use s j e)) es)"
      by (intro spent_never_again) auto
    with True show ?thesis by (simp add: count_list_0_iff)
  next
    case False
    with 3 show ?thesis by auto
  qed
qed auto

end

end
