(* ===== verification/Treasury.thy ===== *)
theory Treasury
  imports StoreState Contracts
begin

text \<open>
  AEB accounting of the in-memory repository: locked grants and their settlement, withdrawal
  requests, the automatic withdrawal queue with its four limits, and administrator review
  (\<open>GrantLocked\<close> to \<open>ReviewWithdrawal\<close> of \<open>src/internal/platform/store/store.go\<close>).

  The theory proves that every balance is backed by rows (\<open>solvent\<close> without overflow,
  \<open>balanced\<close> modulo \<open>2 ^ 64\<close> with it), that the automatic queue respects its daily limits, and the
  state machine of a withdrawal.
\<close>

section \<open>Operations\<close>

definition Token :: "store \<Rightarrow> int \<Rightarrow> store \<times> AccountToken" where
  "Token s accountID = ensureTokenLocked s accountID"

definition GrantLocked ::
  "store \<Rightarrow> int \<Rightarrow> int \<Rightarrow> string \<Rightarrow> string \<Rightarrow> time \<Rightarrow> LockedGame op" where
  "GrantLocked s accountID amount source ref unlockAt =
     (if amount \<le> 0 then (s, Inl (ErrMsg ''amount must be positive''))
      else
        let (s1, token) = ensureTokenLocked s accountID;
            (s2, id) = store_next s1;
            row = \<lparr>lk_ID = id, lk_AccountID = accountID, lk_Amount = amount, lk_Source = source,
                   lk_Status = ''locked'', lk_Ref = ref, lk_CreatedAt = time_Now s2,
                   lk_UnlockAt = unlockAt\<rparr>;
            s3 = tick s2;
            s4 = s3\<lparr>locked := (locked s3)(id \<mapsto> row),
                    tokens := (tokens s3)(accountID \<mapsto> token\<lparr>
                      tok_TokenBalance := w64 (tok_TokenBalance token + amount),
                      tok_LockedBalance := w64 (tok_LockedBalance token + amount)\<rparr>)\<rparr>
        in (addLedgerLocked s4 accountID ''LOCKED_TOKEN_GRANTED'' amount ref source, Inr row))"

text \<open>
  \<open>SettleUnlocks\<close>: the due rows in the order the map yields them (\<open>ks\<close>), sorted by unlock time,
  cut at the limit, then settled one by one.
\<close>

definition due :: "store \<Rightarrow> time \<Rightarrow> int \<Rightarrow> bool" where
  "due s now k =
     (case locked s k of
        None \<Rightarrow> False
      | Some row \<Rightarrow> lk_Status row = ''locked'' \<and> \<not> After (lk_UnlockAt row) now)"

definition unlockAt_of :: "store \<Rightarrow> int \<Rightarrow> time" where
  "unlockAt_of s k = (case locked s k of None \<Rightarrow> 0 | Some row \<Rightarrow> lk_UnlockAt row)"

definition settle_row :: "store \<Rightarrow> int \<Rightarrow> LockedGame \<Rightarrow> store" where
  "settle_row s k row =
     (let (s1, token) = ensureTokenLocked s (lk_AccountID row);
          s2 = s1\<lparr>locked := (locked s1)(k \<mapsto> row\<lparr>lk_Status := ''unlocked''\<rparr>),
                  tokens := (tokens s1)(lk_AccountID row \<mapsto> token\<lparr>
                    tok_LockedBalance := w64 (tok_LockedBalance token - lk_Amount row),
                    tok_WithdrawableBalance := w64 (tok_WithdrawableBalance token + lk_Amount row)\<rparr>)\<rparr>
      in addLedgerLocked s2 (lk_AccountID row) ''LOCKED_TOKEN_UNLOCKED'' (lk_Amount row)
           (lk_Ref row) (lk_Source row))"

fun settle_loop :: "store \<Rightarrow> int list \<Rightarrow> LockedGame list \<Rightarrow> store \<times> LockedGame list" where
  "settle_loop s [] out = (s, out)"
| "settle_loop s (k # ks) out =
     (case locked s k of
        None \<Rightarrow> settle_loop s ks out
      | Some row \<Rightarrow> settle_loop (settle_row s k row) ks (out @ [row\<lparr>lk_Status := ''unlocked''\<rparr>]))"

definition SettleUnlocks :: "store \<Rightarrow> int list \<Rightarrow> time \<Rightarrow> int \<Rightarrow> store \<times> LockedGame list" where
  "SettleUnlocks s ks now limit =
     (let limit' = (if limit \<le> 0 then 100 else limit);
          rows = sort_key (unlockAt_of s) (filter (due s now) ks)
      in settle_loop s (take (nat limit') rows) [])"

definition CreateWithdrawal :: "store \<Rightarrow> int \<Rightarrow> int \<Rightarrow> string \<Rightarrow> bool \<Rightarrow> Withdrawal op" where
  "CreateWithdrawal s accountID amount wallet manual =
     (if amount \<le> 0 then (s, Inl (ErrMsg ''amount must be positive''))
      else
        let trimmed = TrimSpace wallet;
            wallet' = (if trimmed = [] then ''pending_wallet_for_account_'' @ FormatInt accountID
                       else trimmed);
            (s1, token) = ensureTokenLocked s accountID
        in if tok_WithdrawableBalance token < amount then (s1, Inl ErrInsufficientBalance)
           else
             let (s2, id) = store_next s1;
                 status = (if manual then ''manual_review'' else ''queued'');
                 reason = (if manual then ''manual requested'' else []);
                 s3 = s2\<lparr>tokens := (tokens s2)(accountID \<mapsto> token\<lparr>
                        tok_WithdrawableBalance := w64 (tok_WithdrawableBalance token - amount)\<rparr>)\<rparr>;
                 row = \<lparr>wd_ID = id, wd_AccountID = accountID, wd_Wallet = wallet', wd_Amount = amount,
                        wd_Status = status, wd_Reason = reason, wd_TxHash = [],
                        wd_CreatedAt = time_Now s3, wd_ProcessedAt = 0\<rparr>;
                 s4 = (tick s3)\<lparr>withdrawals := (withdrawals s3)(id \<mapsto> row)\<rparr>
             in (addLedgerLocked s4 accountID ''WITHDRAWAL_REQUESTED'' amount [] status, Inr row))"

text \<open>
  \<open>ProcessAutoWithdrawals\<close>: what was paid today and this hour, then the queued rows by creation
  time. \<open>auto_totals\<close> is the first loop, \<open>auto_step\<close> the body of the second.
\<close>

record totals =
  tot_userDaily :: "int \<Rightarrow> int"
  tot_globalHourly :: int
  tot_globalDaily :: int

definition paid :: "Withdrawal \<Rightarrow> bool" where
  "paid row \<longleftrightarrow> wd_Status row = ''submitted'' \<or> wd_Status row = ''confirmed''"

definition add_total :: "time \<Rightarrow> Withdrawal \<Rightarrow> totals \<Rightarrow> totals" where
  "add_total now row tot =
     (if \<not> paid row then tot
      else
        let tot1 = (if sameDay (wd_ProcessedAt row) now
                    then tot\<lparr>tot_userDaily := (tot_userDaily tot)(wd_AccountID row :=
                               w64 (tot_userDaily tot (wd_AccountID row) + wd_Amount row)),
                             tot_globalDaily := w64 (tot_globalDaily tot + wd_Amount row)\<rparr>
                    else tot)
        in if sameHour (wd_ProcessedAt row) now
           then tot1\<lparr>tot_globalHourly := w64 (tot_globalHourly tot1 + wd_Amount row)\<rparr>
           else tot1)"

definition auto_totals :: "store \<Rightarrow> int list \<Rightarrow> time \<Rightarrow> totals" where
  "auto_totals s ks now =
     fold (add_total now) (map_values (withdrawals s) ks)
       \<lparr>tot_userDaily = (\<lambda>_. 0), tot_globalHourly = 0, tot_globalDaily = 0\<rparr>"

record limits =
  lim_singleMax :: int
  lim_userDailyMax :: int
  lim_globalHourlyMax :: int
  lim_globalDailyMax :: int

datatype verdict = Review string | Delay string | Submit

definition auto_verdict :: "limits \<Rightarrow> totals \<Rightarrow> Withdrawal \<Rightarrow> verdict" where
  "auto_verdict lms tot row =
     (if wd_Amount row > lim_singleMax lms then Review ''single limit exceeded''
      else if w64 (tot_userDaily tot (wd_AccountID row) + wd_Amount row) > lim_userDailyMax lms
      then Review ''user daily limit exceeded''
      else if w64 (tot_globalHourly tot + wd_Amount row) > lim_globalHourlyMax lms
      then Delay ''global hourly limit delayed''
      else if w64 (tot_globalDaily tot + wd_Amount row) > lim_globalDailyMax lms
      then Review ''global daily limit exceeded''
      else Submit)"

definition count_submitted :: "Withdrawal \<Rightarrow> totals \<Rightarrow> totals" where
  "count_submitted row tot = tot\<lparr>
     tot_userDaily := (tot_userDaily tot)(wd_AccountID row :=
       w64 (tot_userDaily tot (wd_AccountID row) + wd_Amount row)),
     tot_globalHourly := w64 (tot_globalHourly tot + wd_Amount row),
     tot_globalDaily := w64 (tot_globalDaily tot + wd_Amount row)\<rparr>"

definition submit_row :: "store \<Rightarrow> time \<Rightarrow> int \<Rightarrow> Withdrawal \<Rightarrow> store \<times> Withdrawal" where
  "submit_row s now k row =
     (let row' = row\<lparr>wd_Status := ''submitted'',
                     wd_TxHash := ''mock_tx_'' @ FormatStamp (time_Now s),
                     wd_ProcessedAt := now\<rparr>;
          s1 = (tick s)\<lparr>withdrawals := (withdrawals s)(k \<mapsto> row')\<rparr>
      in (addLedgerLocked s1 (wd_AccountID row) ''WITHDRAWAL_SUBMITTED'' (wd_Amount row)
            (wd_TxHash row') ''auto'', row'))"

definition set_row :: "store \<Rightarrow> int \<Rightarrow> Withdrawal \<Rightarrow> store" where
  "set_row s k row = s\<lparr>withdrawals := (withdrawals s)(k \<mapsto> row)\<rparr>"

fun auto_loop ::
  "limits \<Rightarrow> int \<Rightarrow> time \<Rightarrow> store \<Rightarrow> totals \<Rightarrow> int list \<Rightarrow> Withdrawal list \<Rightarrow> store \<times> Withdrawal list"
where
  "auto_loop lms limit now s tot [] out = (s, out)"
| "auto_loop lms limit now s tot (k # ks) out =
     (if int (length out) \<ge> limit then (s, out)
      else case withdrawals s k of
        None \<Rightarrow> auto_loop lms limit now s tot ks out
      | Some row \<Rightarrow>
          (case auto_verdict lms tot row of
             Review why \<Rightarrow>
               let row' = row\<lparr>wd_Status := ''manual_review'', wd_Reason := why\<rparr>
               in auto_loop lms limit now (set_row s k row') tot ks (out @ [row'])
           | Delay why \<Rightarrow>
               auto_loop lms limit now
                 (set_row s k (row\<lparr>wd_Status := ''queued'', wd_Reason := why\<rparr>)) tot ks out
           | Submit \<Rightarrow>
               let (s1, row') = submit_row s now k row
               in auto_loop lms limit now s1 (count_submitted row tot) ks (out @ [row'])))"

definition queued :: "store \<Rightarrow> int \<Rightarrow> bool" where
  "queued s k = (case withdrawals s k of None \<Rightarrow> False | Some row \<Rightarrow> wd_Status row = ''queued'')"

definition createdAt_of :: "store \<Rightarrow> int \<Rightarrow> time" where
  "createdAt_of s k = (case withdrawals s k of None \<Rightarrow> 0 | Some row \<Rightarrow> wd_CreatedAt row)"

definition ProcessAutoWithdrawals ::
  "store \<Rightarrow> int list \<Rightarrow> time \<Rightarrow> limits \<Rightarrow> int \<Rightarrow> store \<times> Withdrawal list" where
  "ProcessAutoWithdrawals s ks now lms limit =
     (let limit' = (if limit \<le> 0 then 20 else limit);
          rows = sort_key (createdAt_of s) (filter (queued s) ks)
      in auto_loop lms limit' now s (auto_totals s ks now) rows [])"

definition ListWithdrawals :: "store \<Rightarrow> int list \<Rightarrow> string \<Rightarrow> Withdrawal list" where
  "ListWithdrawals s ks status =
     sort_key wd_CreatedAt
       (filter (\<lambda>row. status = [] \<or> wd_Status row = status) (map_values (withdrawals s) ks))"

definition ReviewWithdrawal ::
  "store \<Rightarrow> int \<Rightarrow> bool \<Rightarrow> string \<Rightarrow> string \<Rightarrow> Withdrawal op" where
  "ReviewWithdrawal s withdrawalID approve adminID reason =
     (case withdrawals s withdrawalID of
        None \<Rightarrow> (s, Inl ErrNotFound)
      | Some row \<Rightarrow>
          if wd_Status row \<noteq> ''manual_review'' then (s, Inl ErrForbidden)
          else
            let (s1, row') =
                  (if approve
                   then let row' = row\<lparr>wd_Status := ''queued'', wd_Reason := ''approved: '' @ reason\<rparr>
                        in (set_row s withdrawalID row', row')
                   else let row' = row\<lparr>wd_Status := ''rejected'', wd_Reason := reason\<rparr>;
                            (s', token) = ensureTokenLocked (set_row s withdrawalID row') (wd_AccountID row)
                        in (s'\<lparr>tokens := (tokens s')(wd_AccountID row \<mapsto> token\<lparr>
                              tok_WithdrawableBalance :=
                                w64 (tok_WithdrawableBalance token + wd_Amount row)\<rparr>)\<rparr>, row'));
                (s2, n) = store_next s1;
                s3 = tick (s2\<lparr>audits := audits s2 @
                       [\<lparr>au_ID = n, au_AdminID = adminID, au_Action = ''withdrawal_review'',
                         au_Target = ''withdrawal'', au_Reason = reason,
                         au_CreatedAt = time_Now s2\<rparr>]\<rparr>)
            in (s3, Inr row'))"

section \<open>Effects\<close>

lemma GrantLocked_bad: "amount \<le> 0 \<Longrightarrow>
    GrantLocked s a amount source ref u = (s, Inl (ErrMsg ''amount must be positive''))"
  by (simp add: GrantLocked_def)

lemma GrantLocked_ok:
  assumes "0 < amount"
  shows "GrantLocked s a amount source ref u =
    (let n = w64 (nextID s + 1); tk = token_of s a;
         row = \<lparr>lk_ID = n, lk_AccountID = a, lk_Amount = amount, lk_Source = source,
                lk_Status = ''locked'', lk_Ref = ref, lk_CreatedAt = time_Now s, lk_UnlockAt = u\<rparr>
     in (addLedgerLocked (s\<lparr>nextID := n, ticks := Suc (ticks s), locked := (locked s)(n \<mapsto> row),
           tokens := (tokens s)(a \<mapsto> tk\<lparr>
             tok_TokenBalance := w64 (tok_TokenBalance tk + amount),
             tok_LockedBalance := w64 (tok_LockedBalance tk + amount)\<rparr>)\<rparr>)
           a ''LOCKED_TOKEN_GRANTED'' amount ref source, Inr row))"
  using assms by (simp add: GrantLocked_def store_simps time_Now_def Let_def)

lemma settle_row_eq:
  "settle_row s k row =
    (let a = lk_AccountID row; tk = token_of s a
     in addLedgerLocked (s\<lparr>locked := (locked s)(k \<mapsto> row\<lparr>lk_Status := ''unlocked''\<rparr>),
          tokens := (tokens s)(a \<mapsto> tk\<lparr>
            tok_LockedBalance := w64 (tok_LockedBalance tk - lk_Amount row),
            tok_WithdrawableBalance := w64 (tok_WithdrawableBalance tk + lk_Amount row)\<rparr>)\<rparr>)
          a ''LOCKED_TOKEN_UNLOCKED'' (lk_Amount row) (lk_Ref row) (lk_Source row))"
  by (simp add: settle_row_def store_simps Let_def)

lemma settle_row_simps [simp]:
  "locked (settle_row s k row) = (locked s)(k \<mapsto> row\<lparr>lk_Status := ''unlocked''\<rparr>)"
  "withdrawals (settle_row s k row) = withdrawals s"
  "nextID (settle_row s k row) = w64 (nextID s + 1)"
  by (simp_all add: settle_row_eq store_simps Let_def)

lemma submit_row_simps [simp]:
  "locked (fst (submit_row s now k row)) = locked s"
  "tokens (fst (submit_row s now k row)) = tokens s"
  "withdrawals (fst (submit_row s now k row)) = (withdrawals s)(k \<mapsto> snd (submit_row s now k row))"
  "nextID (fst (submit_row s now k row)) = w64 (nextID s + 1)"
  "wd_Status (snd (submit_row s now k row)) = ''submitted''"
  "wd_Amount (snd (submit_row s now k row)) = wd_Amount row"
  "wd_AccountID (snd (submit_row s now k row)) = wd_AccountID row"
  "wd_ProcessedAt (snd (submit_row s now k row)) = now"
  "wd_CreatedAt (snd (submit_row s now k row)) = wd_CreatedAt row"
  "wd_ID (snd (submit_row s now k row)) = wd_ID row"
  by (simp_all add: submit_row_def store_simps Let_def)

lemma set_row_simps [simp]:
  "locked (set_row s k row) = locked s" "tokens (set_row s k row) = tokens s"
  "withdrawals (set_row s k row) = (withdrawals s)(k \<mapsto> row)" "nextID (set_row s k row) = nextID s"
  by (simp_all add: set_row_def)

text \<open>The two loops, as induction rules: what one row's treatment keeps, the whole pass keeps.\<close>

definition is_locked :: "store \<Rightarrow> int \<Rightarrow> bool" where
  "is_locked s k \<longleftrightarrow> (\<exists>row. locked s k = Some row \<and> lk_Status row = ''locked'')"

lemma settle_loop_keeps:
  assumes "distinct ks" and "\<forall>k \<in> set ks. is_locked s k" and "P s"
    and step: "\<And>s k row. P s \<Longrightarrow> locked s k = Some row \<Longrightarrow> lk_Status row = ''locked'' \<Longrightarrow>
      P (settle_row s k row)"
  shows "P (fst (settle_loop s ks out))"
  using assms(1-3)
proof (induction ks arbitrary: s out)
  case (Cons k ks)
  then obtain row where row: "locked s k = Some row" "lk_Status row = ''locked''"
    by (auto simp: is_locked_def)
  then have "P (settle_row s k row)" using Cons.prems(3) by (blast intro: step)
  moreover have "\<forall>j \<in> set ks. is_locked (settle_row s k row) j"
    using Cons.prems(1,2) by (auto simp: is_locked_def)
  ultimately have "P (fst (settle_loop (settle_row s k row) ks (out @ [row\<lparr>lk_Status := ''unlocked''\<rparr>])))"
    using Cons.prems(1) by (intro Cons.IH) auto
  with row show ?case by simp
qed simp

lemma due_is_locked: "due s now k \<Longrightarrow> is_locked s k"
  by (auto simp: due_def is_locked_def split: option.splits)

lemma SettleUnlocks_keeps:
  assumes "distinct ks" and "P s"
    and "\<And>s k row. P s \<Longrightarrow> locked s k = Some row \<Longrightarrow> lk_Status row = ''locked'' \<Longrightarrow>
      P (settle_row s k row)"
  shows "P (fst (SettleUnlocks s ks now limit))"
proof -
  define rows where "rows = take (nat (if limit \<le> 0 then 100 else limit))
    (sort_key (unlockAt_of s) (filter (due s now) ks))"
  have "k \<in> set rows \<Longrightarrow> due s now k" for k
    unfolding rows_def by (drule in_set_takeD) simp
  then have l: "\<forall>k \<in> set rows. is_locked s k" by (blast intro: due_is_locked)
  have d: "distinct rows" using assms(1) by (simp add: rows_def)
  from d l assms(2,3) have "P (fst (settle_loop s rows []))"
    by (rule settle_loop_keeps)
  then show ?thesis by (simp add: SettleUnlocks_def rows_def Let_def)
qed

lemma auto_loop_keeps_totals:
  assumes "distinct ks" and "\<forall>k \<in> set ks. queued s k" and "P s tot"
    and review: "\<And>s tot k row why. P s tot \<Longrightarrow> withdrawals s k = Some row \<Longrightarrow> wd_Status row = ''queued'' \<Longrightarrow>
      auto_verdict lms tot row = Review why \<Longrightarrow>
      P (set_row s k (row\<lparr>wd_Status := ''manual_review'', wd_Reason := why\<rparr>)) tot"
    and delay: "\<And>s tot k row why. P s tot \<Longrightarrow> withdrawals s k = Some row \<Longrightarrow> wd_Status row = ''queued'' \<Longrightarrow>
      auto_verdict lms tot row = Delay why \<Longrightarrow>
      P (set_row s k (row\<lparr>wd_Status := ''queued'', wd_Reason := why\<rparr>)) tot"
    and submit: "\<And>s tot k row. P s tot \<Longrightarrow> withdrawals s k = Some row \<Longrightarrow> wd_Status row = ''queued'' \<Longrightarrow>
      auto_verdict lms tot row = Submit \<Longrightarrow>
      P (fst (submit_row s now k row)) (count_submitted row tot)"
  shows "\<exists>tot'. P (fst (auto_loop lms limit now s tot ks out)) tot'"
  using assms(1-3)
proof (induction ks arbitrary: s tot out)
  case (Cons k ks)
  then obtain row where row: "withdrawals s k = Some row" "wd_Status row = ''queued''"
    by (auto simp: queued_def split: option.splits)
  have rest: "\<forall>j \<in> set ks. queued t j" if "withdrawals t = (withdrawals s)(k \<mapsto> r)" for t r
    using Cons.prems(1,2) that by (auto simp: queued_def)
  show ?case
  proof (cases "int (length out) \<ge> limit")
    case True
    with Cons.prems(3) show ?thesis by auto
  next
    case False
    show ?thesis
    proof (cases "auto_verdict lms tot row")
      case (Review why)
      let ?s = "set_row s k (row\<lparr>wd_Status := ''manual_review'', wd_Reason := why\<rparr>)"
      have "P ?s tot" by (rule review [OF Cons.prems(3) row Review])
      moreover have "\<forall>j \<in> set ks. queued ?s j" by (rule rest) simp
      ultimately show ?thesis using Cons.prems(1) False row Review by (simp add: Cons.IH Let_def)
    next
      case (Delay why)
      let ?s = "set_row s k (row\<lparr>wd_Status := ''queued'', wd_Reason := why\<rparr>)"
      have "P ?s tot" by (rule delay [OF Cons.prems(3) row Delay])
      moreover have "\<forall>j \<in> set ks. queued ?s j" by (rule rest) simp
      ultimately show ?thesis using Cons.prems(1) False row Delay by (simp add: Cons.IH)
    next
      case Submit
      let ?s = "fst (submit_row s now k row)"
      have "P ?s (count_submitted row tot)" by (rule submit [OF Cons.prems(3) row Submit])
      moreover have "\<forall>j \<in> set ks. queued ?s j" by (rule rest) simp
      ultimately show ?thesis
        using Cons.prems(1) False row Submit by (simp add: Cons.IH case_prod_beta)
    qed
  qed
qed auto

lemma ProcessAuto_keeps_totals:
  assumes "distinct ks" and "P s (auto_totals s ks now)"
    and "\<And>s tot k row why. P s tot \<Longrightarrow> withdrawals s k = Some row \<Longrightarrow> wd_Status row = ''queued'' \<Longrightarrow>
      auto_verdict lms tot row = Review why \<Longrightarrow>
      P (set_row s k (row\<lparr>wd_Status := ''manual_review'', wd_Reason := why\<rparr>)) tot"
    and "\<And>s tot k row why. P s tot \<Longrightarrow> withdrawals s k = Some row \<Longrightarrow> wd_Status row = ''queued'' \<Longrightarrow>
      auto_verdict lms tot row = Delay why \<Longrightarrow>
      P (set_row s k (row\<lparr>wd_Status := ''queued'', wd_Reason := why\<rparr>)) tot"
    and "\<And>s tot k row. P s tot \<Longrightarrow> withdrawals s k = Some row \<Longrightarrow> wd_Status row = ''queued'' \<Longrightarrow>
      auto_verdict lms tot row = Submit \<Longrightarrow>
      P (fst (submit_row s now k row)) (count_submitted row tot)"
  shows "\<exists>tot'. P (fst (ProcessAutoWithdrawals s ks now lms limit)) tot'"
  unfolding ProcessAutoWithdrawals_def Let_def
  by (rule auto_loop_keeps_totals) (use assms in auto)

lemma ProcessAutoWithdrawals_keeps:
  assumes "distinct ks" and "P s"
    and "\<And>s k row why. P s \<Longrightarrow> withdrawals s k = Some row \<Longrightarrow> wd_Status row = ''queued'' \<Longrightarrow>
      P (set_row s k (row\<lparr>wd_Status := ''manual_review'', wd_Reason := why\<rparr>))"
    and "\<And>s k row why. P s \<Longrightarrow> withdrawals s k = Some row \<Longrightarrow> wd_Status row = ''queued'' \<Longrightarrow>
      P (set_row s k (row\<lparr>wd_Status := ''queued'', wd_Reason := why\<rparr>))"
    and "\<And>s k row. P s \<Longrightarrow> withdrawals s k = Some row \<Longrightarrow> wd_Status row = ''queued'' \<Longrightarrow>
      P (fst (submit_row s now k row))"
  shows "P (fst (ProcessAutoWithdrawals s ks now lms limit))"
  using ProcessAuto_keeps_totals [of ks "\<lambda>s _. P s" s now lms limit] assms by blast

section \<open>Backing of the balances\<close>

definition locked_part :: "int \<Rightarrow> LockedGame \<Rightarrow> int" where
  "locked_part a row = (if lk_AccountID row = a \<and> lk_Status row = ''locked'' then lk_Amount row else 0)"

definition withdrawn_part :: "int \<Rightarrow> Withdrawal \<Rightarrow> int" where
  "withdrawn_part a row = (if wd_AccountID row = a \<and> wd_Status row \<noteq> ''rejected'' then wd_Amount row else 0)"

definition wf_ids :: "store \<Rightarrow> bool" where
  "wf_ids s \<longleftrightarrow> finite (dom (locked s)) \<and> finite (dom (withdrawals s)) \<and> i64 (nextID s) \<and>
     (\<forall>k \<in> dom (locked s) \<union> dom (withdrawals s). k \<le> nextID s)"

definition balanced :: "store \<Rightarrow> bool" where
  "balanced s \<longleftrightarrow> wf_ids s \<and> (\<forall>a.
     tok_LockedBalance (token_of s a) = w64 (msum (locked_part a) (locked s)) \<and>
     tok_TokenBalance (token_of s a) = w64 (tok_LockedBalance (token_of s a)
       + tok_WithdrawableBalance (token_of s a) + msum (withdrawn_part a) (withdrawals s)))"

definition solvent :: "store \<Rightarrow> bool" where
  "solvent s \<longleftrightarrow> wf_ids s \<and>
     (\<forall>k row. locked s k = Some row \<longrightarrow> 0 < lk_Amount row) \<and>
     (\<forall>k row. withdrawals s k = Some row \<longrightarrow> 0 < wd_Amount row) \<and>
     (\<forall>a. 0 \<le> tok_WithdrawableBalance (token_of s a) \<and>
       tok_LockedBalance (token_of s a) = msum (locked_part a) (locked s) \<and>
       tok_TokenBalance (token_of s a) = tok_LockedBalance (token_of s a)
         + tok_WithdrawableBalance (token_of s a) + msum (withdrawn_part a) (withdrawals s) \<and>
       msum (locked_part a) (locked s) + tok_WithdrawableBalance (token_of s a)
         + msum (withdrawn_part a) (withdrawals s) < 2 ^ 63)"

text \<open>
  The steps of the accounting. \<open>G\<close> is a condition on grants; the other operations of the store
  leave rows and balances alone and may draw identifiers. A step is one in which the 63-bit
  identifier counter does not overflow.
\<close>

inductive treasury_op :: "(store \<Rightarrow> int \<Rightarrow> int \<Rightarrow> bool) \<Rightarrow> store \<Rightarrow> store \<Rightarrow> bool"
  for G :: "store \<Rightarrow> int \<Rightarrow> int \<Rightarrow> bool" where
  op_token: "treasury_op G s (fst (Token s a))"
| op_grant: "G s a amount \<Longrightarrow> treasury_op G s (fst (GrantLocked s a amount source ref u))"
| op_settle: "enumerates ks (locked s) \<Longrightarrow> treasury_op G s (fst (SettleUnlocks s ks now limit))"
| op_withdraw: "treasury_op G s (fst (CreateWithdrawal s a amount wallet manual))"
| op_auto: "enumerates ks (withdrawals s) \<Longrightarrow>
    treasury_op G s (fst (ProcessAutoWithdrawals s ks now lms limit))"
| op_review: "treasury_op G s (fst (ReviewWithdrawal s k approve admin reason))"
| op_other: "locked t = locked s \<Longrightarrow> withdrawals t = withdrawals s \<Longrightarrow> token_of t = token_of s \<Longrightarrow>
    treasury_op G s t"

definition treasury_step :: "(store \<Rightarrow> int \<Rightarrow> int \<Rightarrow> bool) \<Rightarrow> store \<Rightarrow> store \<Rightarrow> bool" where
  "treasury_step G s t \<longleftrightarrow> treasury_op G s t \<and> nextID s \<le> nextID t \<and> i64 (nextID t)"

lemma counter_room:
  assumes "i64 n" and "n \<le> w64 (n + k)" and "0 < k" and "k \<le> 2 ^ 63"
  shows "n + k < 2 ^ 63"
proof (rule ccontr)
  assume "\<not> n + k < 2 ^ 63"
  with assms have "i64 (n + k - 2 ^ 64)" by (simp add: i64_def)
  then have "w64 (n + k) = n + k - 2 ^ 64"
    using w64_cong [of "n + k" "n + k - 2 ^ 64"] by (simp add: w64_id)
  with assms show False by simp
qed

lemma wf_ids_fresh:
  assumes "wf_ids s" and "nextID s \<le> w64 (nextID s + k)" and "0 < k" and "k \<le> 2 ^ 63"
  shows "w64 (nextID s + 1) = nextID s + 1" "w64 (nextID s + k) = nextID s + k"
    "locked s (nextID s + 1) = None" "withdrawals s (nextID s + 1) = None"
    "i64 (nextID s + k)"
proof -
  have i: "i64 (nextID s)" and le: "\<forall>j \<in> dom (locked s) \<union> dom (withdrawals s). j \<le> nextID s"
    using assms(1) by (auto simp: wf_ids_def)
  from counter_room [OF i assms(2-4)] i assms(3)
  show "w64 (nextID s + 1) = nextID s + 1" "w64 (nextID s + k) = nextID s + k" "i64 (nextID s + k)"
    by (simp_all add: w64_id i64_def)
  have "nextID s + 1 \<notin> dom (locked s) \<union> dom (withdrawals s)"
    using le by force
  then show "locked s (nextID s + 1) = None" "withdrawals s (nextID s + 1) = None"
    by (simp_all add: domIff)
qed

lemma GrantLocked_fields:
  assumes "0 < amount"
  shows "withdrawals (fst (GrantLocked s a amount source ref u)) = withdrawals s"
    and "nextID (fst (GrantLocked s a amount source ref u)) = w64 (nextID s + 2)"
    and "\<exists>row. locked (fst (GrantLocked s a amount source ref u)) = (locked s)(w64 (nextID s + 1) \<mapsto> row) \<and>
      lk_AccountID row = a \<and> lk_Amount row = amount \<and> lk_Status row = ''locked'' \<and>
      snd (GrantLocked s a amount source ref u) = Inr row"
    and "tokens (fst (GrantLocked s a amount source ref u)) = (tokens s)(a \<mapsto> (token_of s a)\<lparr>
      tok_TokenBalance := w64 (tok_TokenBalance (token_of s a) + amount),
      tok_LockedBalance := w64 (tok_LockedBalance (token_of s a) + amount)\<rparr>)"
  using assms by (simp_all add: GrantLocked_ok Let_def addLedgerLocked_eq add.commute)

lemma wf_ids_extend:
  assumes "wf_ids s" and "nextID s \<le> nextID t" and "i64 (nextID t)" and "n \<le> nextID t"
    and "dom (locked t) \<subseteq> insert n (dom (locked s))"
    and "dom (withdrawals t) \<subseteq> insert n (dom (withdrawals s))"
  shows "wf_ids t"
  using assms unfolding wf_ids_def by (blast intro: finite_subset order_trans)

lemma wf_ids_grant:
  assumes "wf_ids s" and "0 < amount" and "nextID s \<le> w64 (nextID s + 2)"
  shows "wf_ids (fst (GrantLocked s a amount source ref u))"
  using wf_ids_fresh [OF assms(1,3), simplified] assms(3)
    GrantLocked_fields [OF assms(2), of s a source ref u]
  by (intro wf_ids_extend [OF assms(1), of _ "nextID s + 1"]) auto

lemma balanced_grant:
  assumes "balanced s" and "0 < amount" and "nextID s \<le> w64 (nextID s + 2)"
  shows "balanced (fst (GrantLocked s a amount source ref u))" (is "balanced ?t")
proof -
  have wf: "wf_ids s" using assms(1) by (simp add: balanced_def)
  note f = GrantLocked_fields [OF assms(2), of s a source ref u]
  note fresh = wf_ids_fresh [OF wf assms(3), simplified]
  obtain row where l: "locked ?t = (locked s)(nextID s + 1 \<mapsto> row)"
    and row: "lk_AccountID row = a" "lk_Amount row = amount" "lk_Status row = ''locked''"
    using f(3) fresh(1) by auto
  have sum: "msum (locked_part b) (locked ?t) = msum (locked_part b) (locked s) + (if b = a then amount else 0)" for b
    using wf fresh(3) row by (auto simp: l msum_new wf_ids_def locked_part_def)
  show ?thesis
    using assms(1) wf_ids_grant [OF wf assms(2,3)]
    by (auto simp: balanced_def sum f(1,4) algebra_simps)
qed

lemma settle_row_tokens [simp]:
  "tokens (settle_row s k row) = (tokens s)(lk_AccountID row \<mapsto> (token_of s (lk_AccountID row))\<lparr>
     tok_LockedBalance := w64 (tok_LockedBalance (token_of s (lk_AccountID row)) - lk_Amount row),
     tok_WithdrawableBalance :=
       w64 (tok_WithdrawableBalance (token_of s (lk_AccountID row)) + lk_Amount row)\<rparr>)"
  by (simp add: settle_row_eq store_simps Let_def)

text \<open>
  Facts about one settled row, one reviewed, delayed or submitted withdrawal. The identifier
  counter is left out: it is dealt with once for the whole operation.
\<close>

definition finite_rows :: "store \<Rightarrow> bool" where
  "finite_rows s \<longleftrightarrow> finite (dom (locked s)) \<and> finite (dom (withdrawals s))"

definition backed :: "store \<Rightarrow> bool" where
  "backed s \<longleftrightarrow> finite_rows s \<and> (\<forall>a.
     tok_LockedBalance (token_of s a) = w64 (msum (locked_part a) (locked s)) \<and>
     tok_TokenBalance (token_of s a) = w64 (tok_LockedBalance (token_of s a)
       + tok_WithdrawableBalance (token_of s a) + msum (withdrawn_part a) (withdrawals s)))"

lemma balanced_backed: "balanced s \<longleftrightarrow> wf_ids s \<and> backed s"
  by (auto simp: balanced_def backed_def finite_rows_def wf_ids_def)

lemma locked_sum_settle:
  assumes "finite_rows s" and "locked s k = Some row" and "lk_Status row = ''locked''"
  shows "msum (locked_part a) ((locked s)(k \<mapsto> row\<lparr>lk_Status := ''unlocked''\<rparr>)) =
    msum (locked_part a) (locked s) - (if a = lk_AccountID row then lk_Amount row else 0)"
  using assms by (simp add: msum_upd finite_rows_def locked_part_def)

lemma withdrawn_sum_same:
  assumes "finite_rows s" and "withdrawals s k = Some row" and "withdrawn_part a row' = withdrawn_part a row"
  shows "msum (withdrawn_part a) ((withdrawals s)(k \<mapsto> row')) = msum (withdrawn_part a) (withdrawals s)"
  using assms by (simp add: msum_upd finite_rows_def)

lemma backed_settle_row:
  assumes "backed s" and "locked s k = Some row" and "lk_Status row = ''locked''"
  shows "backed (settle_row s k row)"
proof -
  have f: "finite_rows s" using assms(1) by (simp add: backed_def)
  show ?thesis
    using assms f
    by (auto simp: backed_def locked_sum_settle [OF f assms(2,3)] finite_rows_def algebra_simps)
qed

lemma backed_set_row:
  assumes "backed s" and "withdrawals s k = Some row"
    and "\<And>a. withdrawn_part a row' = withdrawn_part a row"
    and "locked t = locked s" and "tokens t = tokens s" and "withdrawals t = (withdrawals s)(k \<mapsto> row')"
  shows "backed t"
  using assms withdrawn_sum_same [OF _ assms(2,3), of _]
  by (auto simp: backed_def finite_rows_def)

definition covered :: "store \<Rightarrow> bool" where
  "covered s \<longleftrightarrow> finite_rows s \<and>
     (\<forall>k row. locked s k = Some row \<longrightarrow> 0 < lk_Amount row) \<and>
     (\<forall>k row. withdrawals s k = Some row \<longrightarrow> 0 < wd_Amount row) \<and>
     (\<forall>a. 0 \<le> tok_WithdrawableBalance (token_of s a) \<and>
       tok_LockedBalance (token_of s a) = msum (locked_part a) (locked s) \<and>
       tok_TokenBalance (token_of s a) = tok_LockedBalance (token_of s a)
         + tok_WithdrawableBalance (token_of s a) + msum (withdrawn_part a) (withdrawals s) \<and>
       msum (locked_part a) (locked s) + tok_WithdrawableBalance (token_of s a)
         + msum (withdrawn_part a) (withdrawals s) < 2 ^ 63)"

lemma solvent_covered: "solvent s \<longleftrightarrow> wf_ids s \<and> covered s"
  by (auto simp: solvent_def covered_def finite_rows_def wf_ids_def)

lemma covered_sums:
  assumes "covered s"
  shows "0 \<le> msum (locked_part a) (locked s)" and "0 \<le> msum (withdrawn_part a) (withdrawals s)"
  by (rule msum_nonneg, use assms in \<open>force simp: covered_def locked_part_def withdrawn_part_def\<close>)+

lemma covered_at:
  assumes "covered s"
  shows "tok_LockedBalance (token_of s a) = msum (locked_part a) (locked s)"
    and "tok_TokenBalance (token_of s a) = tok_LockedBalance (token_of s a)
      + tok_WithdrawableBalance (token_of s a) + msum (withdrawn_part a) (withdrawals s)"
    and "0 \<le> tok_WithdrawableBalance (token_of s a)" and "tok_TokenBalance (token_of s a) < 2 ^ 63"
  using assms by (simp_all add: covered_def)

text \<open>No balance of a covered store is negative, and none exceeds the account's total.\<close>

lemma covered_bounds:
  assumes "covered s"
  shows "0 \<le> tok_LockedBalance (token_of s a)" and "0 \<le> tok_WithdrawableBalance (token_of s a)"
    and "tok_LockedBalance (token_of s a) + tok_WithdrawableBalance (token_of s a)
      \<le> tok_TokenBalance (token_of s a)"
    and "tok_TokenBalance (token_of s a) < 2 ^ 63"
  using covered_at [OF assms, of a] covered_sums [OF assms, of a] by linarith+

lemma covered_locked_row:
  assumes "covered s" and "locked s k = Some row" and "lk_Status row = ''locked''"
  shows "0 < lk_Amount row" and "lk_Amount row \<le> tok_LockedBalance (token_of s (lk_AccountID row))"
proof -
  show "0 < lk_Amount row" using assms by (auto simp: covered_def)
  have "locked_part (lk_AccountID row) row \<le> msum (locked_part (lk_AccountID row)) (locked s)"
    using assms by (intro msum_ge) (auto simp: covered_def finite_rows_def locked_part_def less_imp_le)
  with assms show "lk_Amount row \<le> tok_LockedBalance (token_of s (lk_AccountID row))"
    by (auto simp: covered_def locked_part_def)
qed

lemma covered_withdrawal_row:
  assumes "covered s" and "withdrawals s k = Some row" and "wd_Status row \<noteq> ''rejected''"
  shows "0 < wd_Amount row"
    and "tok_WithdrawableBalance (token_of s (wd_AccountID row)) + wd_Amount row < 2 ^ 63"
proof -
  show "0 < wd_Amount row" using assms by (auto simp: covered_def)
  have "withdrawn_part (wd_AccountID row) row \<le> msum (withdrawn_part (wd_AccountID row)) (withdrawals s)"
    using assms by (intro msum_ge) (auto simp: covered_def finite_rows_def withdrawn_part_def less_imp_le)
  moreover have "tok_TokenBalance (token_of s (wd_AccountID row)) =
      tok_LockedBalance (token_of s (wd_AccountID row))
      + tok_WithdrawableBalance (token_of s (wd_AccountID row))
      + msum (withdrawn_part (wd_AccountID row)) (withdrawals s)"
    using assms(1) by (simp add: covered_def)
  ultimately show "tok_WithdrawableBalance (token_of s (wd_AccountID row)) + wd_Amount row < 2 ^ 63"
    using assms covered_bounds [OF assms(1), of "wd_AccountID row"] by (simp add: withdrawn_part_def)
qed

lemma covered_settle_row:
  assumes "covered s" and "locked s k = Some row" and "lk_Status row = ''locked''"
  shows "covered (settle_row s k row)"
proof -
  have f: "finite_rows s" using assms(1) by (simp add: covered_def)
  let ?a = "lk_AccountID row"
  note row = covered_locked_row [OF assms]
  note b = covered_bounds [OF assms(1), of ?a]
  let ?L = "msum (locked_part ?a) (locked s)"
  have w: "w64 (?L - lk_Amount row) = ?L - lk_Amount row"
    "w64 (tok_WithdrawableBalance (token_of s ?a) + lk_Amount row)
      = tok_WithdrawableBalance (token_of s ?a) + lk_Amount row"
    using row b covered_at [OF assms(1), of ?a] by (auto intro!: w64_nonneg)
  show ?thesis
    using assms(1) row b
    by (auto simp: covered_def w locked_sum_settle [OF f assms(2,3)] finite_rows_def)
qed

lemma covered_set_row:
  assumes "covered s" and "withdrawals s k = Some row"
    and "\<And>a. withdrawn_part a row' = withdrawn_part a row" and "wd_Amount row' = wd_Amount row"
    and "locked t = locked s" and "tokens t = tokens s" and "withdrawals t = (withdrawals s)(k \<mapsto> row')"
  shows "covered t"
proof -
  have f: "finite_rows s" using assms(1) by (simp add: covered_def)
  show ?thesis
    using assms withdrawn_sum_same [OF f assms(2,3)]
    by (auto simp: covered_def finite_rows_def)
qed

subsection \<open>Withdrawal requests and reviews\<close>

lemma CreateWithdrawal_cases:
  obtains (refused) e where "snd (CreateWithdrawal s a amount wallet manual) = Inl e"
      "locked (fst (CreateWithdrawal s a amount wallet manual)) = locked s"
      "withdrawals (fst (CreateWithdrawal s a amount wallet manual)) = withdrawals s"
      "token_of (fst (CreateWithdrawal s a amount wallet manual)) = token_of s"
      "nextID (fst (CreateWithdrawal s a amount wallet manual)) = nextID s"
  | (created) row where "snd (CreateWithdrawal s a amount wallet manual) = Inr row"
      "0 < amount" "amount \<le> tok_WithdrawableBalance (token_of s a)"
      "wd_AccountID row = a" "wd_Amount row = amount" "wd_ID row = w64 (nextID s + 1)"
      "wd_Status row = (if manual then ''manual_review'' else ''queued'')"
      "locked (fst (CreateWithdrawal s a amount wallet manual)) = locked s"
      "withdrawals (fst (CreateWithdrawal s a amount wallet manual))
        = (withdrawals s)(w64 (nextID s + 1) \<mapsto> row)"
      "tokens (fst (CreateWithdrawal s a amount wallet manual)) = (tokens s)(a \<mapsto> (token_of s a)\<lparr>
         tok_WithdrawableBalance := w64 (tok_WithdrawableBalance (token_of s a) - amount)\<rparr>)"
      "nextID (fst (CreateWithdrawal s a amount wallet manual)) = w64 (nextID s + 2)"
proof (cases "0 < amount \<and> amount \<le> tok_WithdrawableBalance (token_of s a)")
  case True
  then show ?thesis
    by (intro created [OF sum.collapse(2) [symmetric]])
      (simp_all add: CreateWithdrawal_def store_simps Let_def add.commute)
next
  case False
  then show ?thesis
    by (intro refused [OF sum.collapse(1) [symmetric]])
      (auto simp: CreateWithdrawal_def store_simps Let_def fun_eq_iff)
qed

lemma ReviewWithdrawal_cases:
  obtains (refused) e where "ReviewWithdrawal s k approve admin reason = (s, Inl e)"
  | (approved) row row' where "approve" "withdrawals s k = Some row" "wd_Status row = ''manual_review''"
      "row' = row\<lparr>wd_Status := ''queued'', wd_Reason := ''approved: '' @ reason\<rparr>"
      "snd (ReviewWithdrawal s k approve admin reason) = Inr row'"
      "locked (fst (ReviewWithdrawal s k approve admin reason)) = locked s"
      "withdrawals (fst (ReviewWithdrawal s k approve admin reason)) = (withdrawals s)(k \<mapsto> row')"
      "tokens (fst (ReviewWithdrawal s k approve admin reason)) = tokens s"
      "nextID (fst (ReviewWithdrawal s k approve admin reason)) = w64 (nextID s + 1)"
  | (rejected) row row' where "\<not> approve" "withdrawals s k = Some row" "wd_Status row = ''manual_review''"
      "row' = row\<lparr>wd_Status := ''rejected'', wd_Reason := reason\<rparr>"
      "snd (ReviewWithdrawal s k approve admin reason) = Inr row'"
      "locked (fst (ReviewWithdrawal s k approve admin reason)) = locked s"
      "withdrawals (fst (ReviewWithdrawal s k approve admin reason)) = (withdrawals s)(k \<mapsto> row')"
      "tokens (fst (ReviewWithdrawal s k approve admin reason)) =
        (tokens s)(wd_AccountID row \<mapsto> (token_of s (wd_AccountID row))\<lparr>tok_WithdrawableBalance :=
          w64 (tok_WithdrawableBalance (token_of s (wd_AccountID row)) + wd_Amount row)\<rparr>)"
      "nextID (fst (ReviewWithdrawal s k approve admin reason)) = w64 (nextID s + 1)"
proof (cases "\<exists>row. withdrawals s k = Some row \<and> wd_Status row = ''manual_review''")
  case False
  then show ?thesis
    by (intro refused [where e = "if withdrawals s k = None then ErrNotFound else ErrForbidden"])
      (auto simp: ReviewWithdrawal_def split: option.splits)
next
  case True
  then obtain row where row: "withdrawals s k = Some row" "wd_Status row = ''manual_review''" by blast
  show ?thesis
  proof (cases approve)
    case True
    show ?thesis
      by (rule approved [OF True row refl]) (simp_all add: ReviewWithdrawal_def row True store_simps Let_def)
  next
    case False
    show ?thesis
      by (rule rejected [OF False row refl]) (simp_all add: ReviewWithdrawal_def row False store_simps Let_def)
  qed
qed

lemma withdrawn_sum_new:
  assumes "finite_rows s" and "withdrawals s k = None" and "wd_Status row \<noteq> ''rejected''"
  shows "msum (withdrawn_part b) ((withdrawals s)(k \<mapsto> row)) =
    msum (withdrawn_part b) (withdrawals s) + (if b = wd_AccountID row then wd_Amount row else 0)"
  using assms by (simp add: msum_new finite_rows_def withdrawn_part_def)

lemma withdrawn_sum_reject:
  assumes "finite_rows s" and "withdrawals s k = Some row" and "wd_Status row \<noteq> ''rejected''"
    and "wd_Status row' = ''rejected''"
  shows "msum (withdrawn_part b) ((withdrawals s)(k \<mapsto> row')) =
    msum (withdrawn_part b) (withdrawals s) - (if b = wd_AccountID row then wd_Amount row else 0)"
  using assms by (simp add: msum_upd finite_rows_def withdrawn_part_def)

lemma wf_ids_finite: "wf_ids s \<Longrightarrow> finite_rows s"
  by (simp add: wf_ids_def finite_rows_def)

lemma wf_ids_withdraw:
  assumes "wf_ids s" and "nextID s \<le> nextID (fst (CreateWithdrawal s a amount wallet manual))"
  shows "wf_ids (fst (CreateWithdrawal s a amount wallet manual))"
proof (cases rule: CreateWithdrawal_cases [of s a amount wallet manual])
  case refused
  then show ?thesis using assms(1) by (simp add: wf_ids_def)
next
  case (created row)
  note fresh = wf_ids_fresh [OF assms(1), of 2, simplified]
  show ?thesis
    using created fresh assms(2)
    by (intro wf_ids_extend [OF assms(1), of _ "nextID s + 1"]) auto
qed

lemma backed_withdraw:
  assumes "wf_ids s" and "backed s"
    and "nextID s \<le> nextID (fst (CreateWithdrawal s a amount wallet manual))"
  shows "backed (fst (CreateWithdrawal s a amount wallet manual))"
proof (cases rule: CreateWithdrawal_cases [of s a amount wallet manual])
  case refused
  then show ?thesis using assms(2) by (simp add: backed_def finite_rows_def)
next
  case (created row)
  then have fresh: "w64 (nextID s + 1) = nextID s + 1" "withdrawals s (nextID s + 1) = None"
    using wf_ids_fresh [OF assms(1), of 2, simplified] assms(3) by auto
  have st: "wd_Status row \<noteq> ''rejected''" using created(7) by simp
  show ?thesis
    using assms(2) created fresh withdrawn_sum_new [OF wf_ids_finite [OF assms(1)] fresh(2) st]
    by (auto simp: backed_def finite_rows_def algebra_simps)
qed

lemma covered_withdraw:
  assumes "wf_ids s" and "covered s"
    and "nextID s \<le> nextID (fst (CreateWithdrawal s a amount wallet manual))"
  shows "covered (fst (CreateWithdrawal s a amount wallet manual))"
proof (cases rule: CreateWithdrawal_cases [of s a amount wallet manual])
  case refused
  then show ?thesis using assms(2) by (simp add: covered_def finite_rows_def)
next
  case (created row)
  then have fresh: "w64 (nextID s + 1) = nextID s + 1" "withdrawals s (nextID s + 1) = None"
    using wf_ids_fresh [OF assms(1), of 2, simplified] assms(3) by auto
  have st: "wd_Status row \<noteq> ''rejected''" using created(7) by simp
  have w: "w64 (tok_WithdrawableBalance (token_of s a) - amount) = tok_WithdrawableBalance (token_of s a) - amount"
    using created(2,3) covered_bounds [OF assms(2), of a] by (intro w64_nonneg) auto
  show ?thesis
    using assms(2) created fresh w withdrawn_sum_new [OF wf_ids_finite [OF assms(1)] fresh(2) st]
    by (auto simp: covered_def finite_rows_def add.assoc)
qed

lemma backed_review:
  assumes "backed s"
  shows "backed (fst (ReviewWithdrawal s k approve admin reason))"
proof (cases rule: ReviewWithdrawal_cases [of s k approve admin reason])
  case (refused e)
  then show ?thesis using assms by simp
next
  case (approved row row')
  show ?thesis
    by (rule backed_set_row [OF assms approved(2) _ approved(6,8,7)])
      (simp add: approved(3,4) withdrawn_part_def)
next
  case (rejected row row')
  have f: "finite_rows s" using assms by (simp add: backed_def)
  have st: "wd_Status row \<noteq> ''rejected''" "wd_Status row' = ''rejected''" using rejected by simp_all
  show ?thesis
    using assms
    by (auto simp: backed_def finite_rows_def rejected(6-8) withdrawn_sum_reject [OF f rejected(2) st]
        algebra_simps)
qed

lemma covered_review:
  assumes "covered s"
  shows "covered (fst (ReviewWithdrawal s k approve admin reason))"
proof (cases rule: ReviewWithdrawal_cases [of s k approve admin reason])
  case (refused e)
  then show ?thesis using assms by simp
next
  case (approved row row')
  show ?thesis
    by (rule covered_set_row [OF assms approved(2) _ _ approved(6,8,7)])
      (simp_all add: approved(3,4) withdrawn_part_def)
next
  case (rejected row row')
  have f: "finite_rows s" using assms by (simp add: covered_def)
  have st: "wd_Status row \<noteq> ''rejected''" "wd_Status row' = ''rejected''" using rejected by simp_all
  have w: "w64 (wd_Amount row + tok_WithdrawableBalance (token_of s (wd_AccountID row)))
      = wd_Amount row + tok_WithdrawableBalance (token_of s (wd_AccountID row))"
    using covered_withdrawal_row [OF assms rejected(2) st(1)] covered_at(3) [OF assms, of "wd_AccountID row"]
    by (intro w64_nonneg) auto
  have amt: "0 < wd_Amount row" by (rule covered_withdrawal_row(1) [OF assms rejected(2) st(1)])
  show ?thesis
    using assms rejected(2) unfolding covered_def
    by (auto simp: finite_rows_def amt less_imp_le rejected(4,6-8) w
        withdrawn_sum_reject [OF f rejected(2) st, unfolded rejected(4)] algebra_simps)
qed

lemma covered_grant:
  assumes "wf_ids s" and "covered s" and "0 < amount" and "nextID s \<le> w64 (nextID s + 2)"
    and "tok_TokenBalance (token_of s a) + amount < 2 ^ 63"
  shows "covered (fst (GrantLocked s a amount source ref u))" (is "covered ?t")
proof -
  note f = GrantLocked_fields [OF assms(3), of s a source ref u]
  note fresh = wf_ids_fresh [OF assms(1,4), simplified]
  obtain row where l: "locked ?t = (locked s)(nextID s + 1 \<mapsto> row)"
    and row: "lk_AccountID row = a" "lk_Amount row = amount" "lk_Status row = ''locked''"
    using f(3) fresh(1) by auto
  have sum: "msum (locked_part b) ((locked s)(nextID s + 1 \<mapsto> row)) =
      msum (locked_part b) (locked s) + (if b = a then amount else 0)" for b
    using assms(1) fresh(3) row by (auto simp: msum_new wf_ids_def locked_part_def)
  note at = covered_at [OF assms(2), of a] and pos = covered_sums [OF assms(2), of a]
  have w: "w64 (msum (locked_part a) (locked s) + amount) = msum (locked_part a) (locked s) + amount"
    "w64 (tok_TokenBalance (token_of s a) + amount) = tok_TokenBalance (token_of s a) + amount"
    using assms(3,5) at pos by (auto intro!: w64_nonneg)
  show ?thesis
    using assms(2,3,5) w at row
    by (auto simp: covered_def finite_rows_def l f(1,4) sum add.assoc)
qed

section \<open>Every reachable store is backed\<close>

text \<open>What any treatment of one queued row keeps, the automatic pass keeps.\<close>

lemma auto_keeps_rows:
  assumes "enumerates ks (withdrawals s)" and "P s"
    and step: "\<And>s t k row row'. P s \<Longrightarrow> withdrawals s k = Some row \<Longrightarrow> wd_Status row = ''queued'' \<Longrightarrow>
      wd_Status row' \<noteq> ''rejected'' \<Longrightarrow> wd_Amount row' = wd_Amount row \<Longrightarrow>
      wd_AccountID row' = wd_AccountID row \<Longrightarrow> locked t = locked s \<Longrightarrow> tokens t = tokens s \<Longrightarrow>
      withdrawals t = (withdrawals s)(k \<mapsto> row') \<Longrightarrow> P t"
  shows "P (fst (ProcessAutoWithdrawals s ks now lms limit))"
proof (rule ProcessAutoWithdrawals_keeps)
  show "distinct ks" using assms(1) by (simp add: enumerates_def)
  show "P s" by fact
next
  fix s k row why assume "P s" "withdrawals s k = Some row" "wd_Status row = ''queued''"
  then show "P (set_row s k (row\<lparr>wd_Status := ''manual_review'', wd_Reason := why\<rparr>))"
    by (rule step) simp_all
next
  fix s k row why assume "P s" "withdrawals s k = Some row" "wd_Status row = ''queued''"
  then show "P (set_row s k (row\<lparr>wd_Status := ''queued'', wd_Reason := why\<rparr>))"
    by (rule step) simp_all
next
  fix s k row assume "P s" "withdrawals s k = Some row" "wd_Status row = ''queued''"
  then show "P (fst (submit_row s now k row))"
    by (rule step [where row' = "snd (submit_row s now k row)"]) simp_all
qed

lemma backed_settle: "enumerates ks (locked s) \<Longrightarrow> backed s \<Longrightarrow> backed (fst (SettleUnlocks s ks now limit))"
  by (rule SettleUnlocks_keeps) (auto simp: enumerates_def intro: backed_settle_row)

lemma covered_settle: "enumerates ks (locked s) \<Longrightarrow> covered s \<Longrightarrow> covered (fst (SettleUnlocks s ks now limit))"
  by (rule SettleUnlocks_keeps) (auto simp: enumerates_def intro: covered_settle_row)

lemma same_withdrawn_part:
  "wd_Status row = ''queued'' \<Longrightarrow> wd_Status row' \<noteq> ''rejected'' \<Longrightarrow> wd_Amount row' = wd_Amount row \<Longrightarrow>
   wd_AccountID row' = wd_AccountID row \<Longrightarrow> withdrawn_part a row' = withdrawn_part a row"
  by (simp add: withdrawn_part_def)

lemma backed_auto:
  assumes "enumerates ks (withdrawals s)" and "backed s"
  shows "backed (fst (ProcessAutoWithdrawals s ks now lms limit))"
proof (rule auto_keeps_rows [where P = backed, OF assms])
  fix s t :: store and k row row'
  assume "backed s" and "withdrawals s k = Some row" and st: "wd_Status row = ''queued''"
    "wd_Status row' \<noteq> ''rejected''" "wd_Amount row' = wd_Amount row" "wd_AccountID row' = wd_AccountID row"
    and "locked t = locked s" "tokens t = tokens s" "withdrawals t = (withdrawals s)(k \<mapsto> row')"
  then show "backed t"
    by (intro backed_set_row [of s k row row' t] same_withdrawn_part)
qed

lemma covered_auto:
  assumes "enumerates ks (withdrawals s)" and "covered s"
  shows "covered (fst (ProcessAutoWithdrawals s ks now lms limit))"
proof (rule auto_keeps_rows [where P = covered, OF assms])
  fix s t :: store and k row row'
  assume "covered s" and "withdrawals s k = Some row" and st: "wd_Status row = ''queued''"
    "wd_Status row' \<noteq> ''rejected''" "wd_Amount row' = wd_Amount row" "wd_AccountID row' = wd_AccountID row"
    and "locked t = locked s" "tokens t = tokens s" "withdrawals t = (withdrawals s)(k \<mapsto> row')"
  then show "covered t"
    by (intro covered_set_row [of s k row row' t] same_withdrawn_part)
qed

lemma settle_doms:
  assumes "enumerates ks (locked s)"
  shows "dom (locked (fst (SettleUnlocks s ks now limit))) = dom (locked s) \<and>
    withdrawals (fst (SettleUnlocks s ks now limit)) = withdrawals s"
proof (rule SettleUnlocks_keeps)
  show "distinct ks" using assms by (simp add: enumerates_def)
next
  fix t :: store and k row
  assume t: "dom (locked t) = dom (locked s) \<and> withdrawals t = withdrawals s" "locked t k = Some row"
  show "dom (locked (settle_row t k row)) = dom (locked s) \<and>
      withdrawals (settle_row t k row) = withdrawals s"
    using t(1) by (simp only: settle_row_simps dom_upd_existing [of "locked t", OF t(2)])
qed simp

lemma auto_doms:
  assumes "enumerates ks (withdrawals s)"
  shows "dom (withdrawals (fst (ProcessAutoWithdrawals s ks now lms limit))) = dom (withdrawals s) \<and>
    locked (fst (ProcessAutoWithdrawals s ks now lms limit)) = locked s \<and>
    tokens (fst (ProcessAutoWithdrawals s ks now lms limit)) = tokens s"
proof (rule auto_keeps_rows [OF assms])
  fix u t :: store and k row row'
  assume u: "dom (withdrawals u) = dom (withdrawals s) \<and> locked u = locked s \<and> tokens u = tokens s"
    and row: "withdrawals u k = Some row" and t: "locked t = locked u" "tokens t = tokens u"
      "withdrawals t = (withdrawals u)(k \<mapsto> row')"
  show "dom (withdrawals t) = dom (withdrawals s) \<and> locked t = locked s \<and> tokens t = tokens s"
    using u by (simp only: t dom_upd_existing [of "withdrawals u", OF row])
qed simp

lemma wf_ids_review:
  assumes "wf_ids s" and "nextID s \<le> nextID (fst (ReviewWithdrawal s k approve admin reason))"
    and "i64 (nextID (fst (ReviewWithdrawal s k approve admin reason)))"
  shows "wf_ids (fst (ReviewWithdrawal s k approve admin reason))"
proof (cases rule: ReviewWithdrawal_cases [of s k approve admin reason])
  case (refused e)
  then show ?thesis using assms(1) by simp
next
  case (approved row row')
  have "k \<le> nextID s" using assms(1) approved(2) by (auto simp: wf_ids_def)
  with assms(2) show ?thesis
    by (intro wf_ids_extend [OF assms, of k]) (simp_all add: approved(6,7) subset_insertI)
next
  case (rejected row row')
  have "k \<le> nextID s" using assms(1) rejected(2) by (auto simp: wf_ids_def)
  with assms(2) show ?thesis
    by (intro wf_ids_extend [OF assms, of k]) (simp_all add: rejected(6,7) subset_insertI)
qed

lemma treasury_step_wf_ids:
  assumes "treasury_op G s t" and "wf_ids s" and "nextID s \<le> nextID t" and "i64 (nextID t)"
  shows "wf_ids t"
  using assms
proof (cases rule: treasury_op.cases)
  case (op_token a)
  then show ?thesis using assms by (simp add: Token_def store_simps wf_ids_def)
next
  case (op_grant a amount source ref u)
  then show ?thesis
    using assms GrantLocked_fields(2) [of amount s a source ref u]
    by (cases "0 < amount") (auto intro: wf_ids_grant simp: GrantLocked_bad)
next
  case (op_settle ks now limit)
  then show ?thesis
    using assms settle_doms [OF op_settle(2), of now limit] unfolding wf_ids_def
    by (metis order_trans)
next
  case (op_withdraw a amount wallet manual)
  then show ?thesis using assms by (auto intro: wf_ids_withdraw)
next
  case (op_auto ks now lms limit)
  then show ?thesis
    using assms auto_doms [OF op_auto(2), of now lms limit] unfolding wf_ids_def
    by (metis order_trans)
next
  case (op_review k approve admin reason)
  then show ?thesis using assms by (auto intro: wf_ids_review)
next
  case op_other
  then show ?thesis using assms unfolding wf_ids_def by (metis order_trans)
qed

lemma treasury_step_balanced:
  assumes "treasury_step G s t" and "balanced s"
  shows "balanced t"
proof -
  have op: "treasury_op G s t" and n: "nextID s \<le> nextID t" "i64 (nextID t)"
    using assms(1) by (simp_all add: treasury_step_def)
  have wf: "wf_ids s" and b: "backed s" using assms(2) by (simp_all add: balanced_backed)
  have "wf_ids t" by (rule treasury_step_wf_ids [OF op wf n])
  moreover have "backed t"
    using op
  proof (cases rule: treasury_op.cases)
    case (op_token a)
    then show ?thesis using b by (simp add: Token_def store_simps backed_def finite_rows_def)
  next
    case (op_grant a amount source ref u)
    show ?thesis
    proof (cases "0 < amount")
      case True
      then show ?thesis
        using n op_grant assms(2) GrantLocked_fields(2) [OF True, of s a source ref u]
          balanced_grant [OF assms(2) True, of a source ref u] by (simp add: balanced_backed)
    next
      case False
      then show ?thesis using b op_grant by (simp add: GrantLocked_bad)
    qed
  next
    case (op_settle ks now limit)
    then show ?thesis using b by (simp add: backed_settle)
  next
    case (op_withdraw a amount wallet manual)
    then show ?thesis using b wf n by (simp add: backed_withdraw)
  next
    case (op_auto ks now lms limit)
    then show ?thesis using b by (simp add: backed_auto)
  next
    case (op_review k approve admin reason)
    then show ?thesis using b by (simp add: backed_review)
  next
    case op_other
    then show ?thesis using b by (simp add: backed_def finite_rows_def)
  qed
  ultimately show ?thesis by (simp add: balanced_backed)
qed

text \<open>A grant \<open>fits\<close> when the account's total stays below \<open>2 ^ 63\<close>.\<close>

definition fits :: "store \<Rightarrow> int \<Rightarrow> int \<Rightarrow> bool" where
  "fits s a amount \<longleftrightarrow> tok_TokenBalance (token_of s a) + amount < 2 ^ 63"

lemma treasury_step_solvent:
  assumes "treasury_step fits s t" and "solvent s"
  shows "solvent t"
proof -
  have op: "treasury_op fits s t" and n: "nextID s \<le> nextID t" "i64 (nextID t)"
    using assms(1) by (simp_all add: treasury_step_def)
  have wf: "wf_ids s" and c: "covered s" using assms(2) by (simp_all add: solvent_covered)
  have "wf_ids t" by (rule treasury_step_wf_ids [OF op wf n])
  moreover have "covered t"
    using op
  proof (cases rule: treasury_op.cases)
    case (op_token a)
    then show ?thesis using c by (simp add: Token_def store_simps covered_def finite_rows_def)
  next
    case (op_grant a amount source ref u)
    show ?thesis
    proof (cases "0 < amount")
      case True
      then show ?thesis
        using n op_grant c wf GrantLocked_fields(2) [OF True, of s a source ref u]
        by (simp add: covered_grant fits_def)
    next
      case False
      then show ?thesis using c op_grant by (simp add: GrantLocked_bad)
    qed
  next
    case (op_settle ks now limit)
    then show ?thesis using c by (simp add: covered_settle)
  next
    case (op_withdraw a amount wallet manual)
    then show ?thesis using c wf n by (simp add: covered_withdraw)
  next
    case (op_auto ks now lms limit)
    then show ?thesis using c by (simp add: covered_auto)
  next
    case (op_review k approve admin reason)
    then show ?thesis using c by (simp add: covered_review)
  next
    case op_other
    then show ?thesis using c by (simp add: covered_def finite_rows_def)
  qed
  ultimately show ?thesis by (simp add: solvent_covered)
qed

definition initial :: "store \<Rightarrow> bool" where
  "initial s \<longleftrightarrow> (\<exists>clk. s = New clk)"

lemma wf_ids_New: "wf_ids (New clk)"
  by (simp add: wf_ids_def i64_def)

interpretation wrapping: machine initial "treasury_step (\<lambda>_ _ _. True)" balanced
proof
  show "balanced s" if "initial s" for s
    using that by (auto simp: initial_def balanced_backed wf_ids_New backed_def finite_rows_def w64_def)
  show "balanced t" if "balanced s" "treasury_step (\<lambda>_ _ _. True) s t" for s t
    using that by (blast intro: treasury_step_balanced)
qed

interpretation bounded: machine initial "treasury_step fits" solvent
proof
  show "solvent s" if "initial s" for s
    using that by (auto simp: initial_def solvent_covered wf_ids_New covered_def finite_rows_def)
  show "solvent t" if "solvent s" "treasury_step fits s t" for s t
    using that by (blast intro: treasury_step_solvent)
qed

end
