(* ===== verification/TreasuryProps.thy ===== *)
theory TreasuryProps
  imports Treasury
begin

text \<open>
  The properties of the accounting component: backing of balances in every reachable store, the
  limits of the automatic withdrawal queue, the withdrawal state machine, settlement order and
  the refund of a rejected withdrawal.
\<close>

section \<open>Limits of the automatic queue\<close>

definition paid_by :: "int \<Rightarrow> time \<Rightarrow> Withdrawal \<Rightarrow> int" where
  "paid_by a now row =
     (if paid row \<and> wd_AccountID row = a \<and> sameDay (wd_ProcessedAt row) now then wd_Amount row else 0)"

definition paid_day :: "time \<Rightarrow> Withdrawal \<Rightarrow> int" where
  "paid_day now row = (if paid row \<and> sameDay (wd_ProcessedAt row) now then wd_Amount row else 0)"

definition paid_hour :: "time \<Rightarrow> Withdrawal \<Rightarrow> int" where
  "paid_hour now row = (if paid row \<and> sameHour (wd_ProcessedAt row) now then wd_Amount row else 0)"

lemma fold_totals:
  "fold (add_total now) rows
     \<lparr>tot_userDaily = (\<lambda>a. w64 (u a)), tot_globalHourly = w64 h, tot_globalDaily = w64 d\<rparr> =
     \<lparr>tot_userDaily = (\<lambda>a. w64 (u a + sum_list (map (paid_by a now) rows))),
      tot_globalHourly = w64 (h + sum_list (map (paid_hour now) rows)),
      tot_globalDaily = w64 (d + sum_list (map (paid_day now) rows))\<rparr>"
proof (induction rows arbitrary: u h d)
  case (Cons row rows)
  have "add_total now row
      \<lparr>tot_userDaily = (\<lambda>a. w64 (u a)), tot_globalHourly = w64 h, tot_globalDaily = w64 d\<rparr> =
      \<lparr>tot_userDaily = (\<lambda>a. w64 (u a + paid_by a now row)),
       tot_globalHourly = w64 (h + paid_hour now row), tot_globalDaily = w64 (d + paid_day now row)\<rparr>"
    by (auto simp: add_total_def Let_def paid_by_def paid_hour_def paid_day_def fun_eq_iff)
  then show ?case by (simp add: Cons.IH add.assoc)
qed simp

lemma auto_totals_eq:
  assumes "enumerates ks (withdrawals s)"
  shows "auto_totals s ks now =
    \<lparr>tot_userDaily = (\<lambda>a. w64 (msum (paid_by a now) (withdrawals s))),
     tot_globalHourly = w64 (msum (paid_hour now) (withdrawals s)),
     tot_globalDaily = w64 (msum (paid_day now) (withdrawals s))\<rparr>"
  using fold_totals [of now "map_values (withdrawals s) ks" "\<lambda>_. 0" 0 0] sum_map_values [OF assms]
  by (simp add: auto_totals_def w64_def [of 0])

text \<open>Amounts are not negative and their sum over all withdrawals fits the 64-bit range.\<close>

definition amounts_fit :: "store \<Rightarrow> bool" where
  "amounts_fit s \<longleftrightarrow> finite (dom (withdrawals s)) \<and>
     (\<forall>k row. withdrawals s k = Some row \<longrightarrow> 0 \<le> wd_Amount row) \<and> msum wd_Amount (withdrawals s) < 2 ^ 63"

definition exact_totals :: "time \<Rightarrow> store \<Rightarrow> totals \<Rightarrow> bool" where
  "exact_totals now s tot \<longleftrightarrow>
     (\<forall>a. tot_userDaily tot a = msum (paid_by a now) (withdrawals s)) \<and>
     tot_globalHourly tot = msum (paid_hour now) (withdrawals s) \<and>
     tot_globalDaily tot = msum (paid_day now) (withdrawals s)"

lemma part_bounds:
  assumes "amounts_fit s" and "\<And>row. f row = 0 \<or> f row = wd_Amount row"
  shows "0 \<le> msum f (withdrawals s)" and "msum f (withdrawals s) < 2 ^ 63"
proof -
  show "0 \<le> msum f (withdrawals s)"
    using assms unfolding amounts_fit_def by (intro msum_nonneg) (metis order_refl)
  have "msum f (withdrawals s) \<le> msum wd_Amount (withdrawals s)"
    using assms unfolding amounts_fit_def by (intro msum_mono) (metis order_refl)
  with assms(1) show "msum f (withdrawals s) < 2 ^ 63" by (simp add: amounts_fit_def)
qed

lemma paid_parts:
  "paid_by a now row = 0 \<or> paid_by a now row = wd_Amount row"
  "paid_day now row = 0 \<or> paid_day now row = wd_Amount row"
  "paid_hour now row = 0 \<or> paid_hour now row = wd_Amount row"
  by (simp_all add: paid_by_def paid_day_def paid_hour_def)

text \<open>A queued row and everything counted so far fit together.\<close>

lemma queued_room:
  assumes "amounts_fit s" and "withdrawals s k = Some row" and "f row = 0"
    and "\<And>row. f row = 0 \<or> f row = wd_Amount row"
  shows "w64 (msum f (withdrawals s) + wd_Amount row) = msum f (withdrawals s) + wd_Amount row"
proof -
  have fin: "finite (dom (withdrawals s))" using assms(1) by (simp add: amounts_fit_def)
  have rest: "f r \<le> wd_Amount r" if "withdrawals s j = Some r" for j r
    using that assms(1) assms(4) [of r] by (auto simp: amounts_fit_def)
  have "msum f (withdrawals s) + wd_Amount row = msum f ((withdrawals s)(k \<mapsto> row)) + wd_Amount row"
    using assms(2) by (simp add: map_upd_triv)
  also have "\<dots> \<le> msum wd_Amount (withdrawals s)"
  proof -
    have "msum wd_Amount (withdrawals s) - msum f (withdrawals s)
        = (\<Sum>j \<in> dom (withdrawals s). wd_Amount (the (withdrawals s j)) - f (the (withdrawals s j)))"
      by (simp add: msum_def sum_subtractf)
    also have "\<dots> \<ge> wd_Amount (the (withdrawals s k)) - f (the (withdrawals s k))"
      using assms(2) fin by (intro member_le_sum) (auto simp: domIff dest: rest)
    finally show ?thesis using assms(2,3) by (simp add: map_upd_triv)
  qed
  finally have "msum f (withdrawals s) + wd_Amount row < 2 ^ 63"
    using assms(1) by (simp add: amounts_fit_def)
  moreover have "0 \<le> msum f (withdrawals s) + wd_Amount row"
    using part_bounds(1) [OF assms(1,4)] assms(1,2) by (auto simp: amounts_fit_def)
  ultimately show ?thesis by (intro w64_nonneg) simp_all
qed

lemma exact_totals_set_row:
  assumes "amounts_fit s" and "exact_totals now s tot" and "withdrawals s k = Some row"
    and "\<not> paid row" and "\<not> paid row'" and "wd_Amount row' = wd_Amount row"
  shows "amounts_fit (set_row s k row')" and "exact_totals now (set_row s k row') tot"
proof -
  have fin: "finite (dom (withdrawals s))" using assms(1) by (simp add: amounts_fit_def)
  note same = msum_same [OF fin assms(3)]
  show "amounts_fit (set_row s k row')"
    using assms(1,3,6) same [of wd_Amount row'] by (auto simp: amounts_fit_def)
  show "exact_totals now (set_row s k row') tot"
    using assms(2,4,5) by (simp add: exact_totals_def same paid_by_def paid_day_def paid_hour_def)
qed

lemma exact_totals_submit:
  assumes "amounts_fit s" and "exact_totals now s tot" and "withdrawals s k = Some row"
    and "wd_Status row = ''queued''" and "\<not> IsZero now"
  shows "amounts_fit (fst (submit_row s now k row))"
    and "exact_totals now (fst (submit_row s now k row)) (count_submitted row tot)"
proof -
  have fin: "finite (dom (withdrawals s))" using assms(1) by (simp add: amounts_fit_def)
  have np: "\<not> paid row" and p: "paid (snd (submit_row s now k row))"
    using assms(4) by (simp_all add: paid_def)
  have day: "sameDay now now" "sameHour now now" using assms(5) by (simp_all add: sameDay_def sameHour_def)
  note room = queued_room [OF assms(1,3)]
  have r: "w64 (msum (paid_by a now) (withdrawals s) + wd_Amount row) = msum (paid_by a now) (withdrawals s) + wd_Amount row"
    "w64 (msum (paid_day now) (withdrawals s) + wd_Amount row) = msum (paid_day now) (withdrawals s) + wd_Amount row"
    "w64 (msum (paid_hour now) (withdrawals s) + wd_Amount row) = msum (paid_hour now) (withdrawals s) + wd_Amount row" for a
    by (rule room; use np in \<open>simp add: paid_by_def paid_day_def paid_hour_def\<close>)+
  show "amounts_fit (fst (submit_row s now k row))"
    using assms(1,3) msum_same [OF fin assms(3), of wd_Amount "snd (submit_row s now k row)"]
    by (auto simp: amounts_fit_def)
  show "exact_totals now (fst (submit_row s now k row)) (count_submitted row tot)"
    using assms(2,3) np p day fin
    by (auto simp: exact_totals_def count_submitted_def msum_upd r paid_by_def [of _ _ row]
        paid_by_def [of _ _ "snd (submit_row s now k row)"] paid_day_def [of _ row]
        paid_day_def [of _ "snd (submit_row s now k row)"] paid_hour_def [of _ row]
        paid_hour_def [of _ "snd (submit_row s now k row)"])
qed

definition inside_limits :: "limits \<Rightarrow> totals \<Rightarrow> totals \<Rightarrow> bool" where
  "inside_limits lms tot0 tot \<longleftrightarrow>
     (\<forall>a. tot_userDaily tot a \<le> max (lim_userDailyMax lms) (tot_userDaily tot0 a)) \<and>
     tot_globalHourly tot \<le> max (lim_globalHourlyMax lms) (tot_globalHourly tot0) \<and>
     tot_globalDaily tot \<le> max (lim_globalDailyMax lms) (tot_globalDaily tot0)"

lemma within_submit:
  "inside_limits lms tot0 tot \<Longrightarrow> auto_verdict lms tot row = Submit \<Longrightarrow> inside_limits lms tot0 (count_submitted row tot)"
  by (auto simp: inside_limits_def auto_verdict_def count_submitted_def split: if_splits)

lemma auto_within:
  assumes "enumerates ks (withdrawals s)" and "\<not> IsZero now" and "amounts_fit s"
  shows "\<exists>tot. amounts_fit (fst (ProcessAutoWithdrawals s ks now lms limit)) \<and>
    exact_totals now (fst (ProcessAutoWithdrawals s ks now lms limit)) tot \<and>
    inside_limits lms (auto_totals s ks now) tot"
proof (rule ProcessAuto_keeps_totals)
  show "distinct ks" using assms(1) by (simp add: enumerates_def)
  have "exact_totals now s (auto_totals s ks now)"
    using part_bounds [OF assms(3) paid_parts(1)] part_bounds [OF assms(3) paid_parts(2)]
      part_bounds [OF assms(3) paid_parts(3)]
    by (simp add: exact_totals_def auto_totals_eq [OF assms(1)] w64_nonneg)
  then show "amounts_fit s \<and> exact_totals now s (auto_totals s ks now) \<and>
      inside_limits lms (auto_totals s ks now) (auto_totals s ks now)"
    using assms(3) by (simp add: inside_limits_def)
qed (auto intro: exact_totals_set_row exact_totals_submit within_submit simp: assms(2) paid_def)

text \<open>
  Property C3. One pass of the automatic withdrawal queue never takes what an account was paid
  today, what everybody was paid today or what everybody was paid this hour beyond the configured
  limit (unless it was beyond it before the pass), whatever order the queue is visited in.
\<close>

theorem auto_withdrawals_respect_limits:
  assumes "enumerates ks (withdrawals s)" and "\<not> IsZero now" and "amounts_fit s"
    and "t = fst (ProcessAutoWithdrawals s ks now lms limit)"
  shows "msum (paid_by a now) (withdrawals t)
      \<le> max (lim_userDailyMax lms) (msum (paid_by a now) (withdrawals s)) \<and>
    msum (paid_day now) (withdrawals t)
      \<le> max (lim_globalDailyMax lms) (msum (paid_day now) (withdrawals s)) \<and>
    msum (paid_hour now) (withdrawals t)
      \<le> max (lim_globalHourlyMax lms) (msum (paid_hour now) (withdrawals s))"
proof -
  obtain tot where e: "exact_totals now t tot" and w: "inside_limits lms (auto_totals s ks now) tot"
    using auto_within [OF assms(1-3)] assms(4) by blast
  have eq: "auto_totals s ks now =
      \<lparr>tot_userDaily = (\<lambda>a. msum (paid_by a now) (withdrawals s)),
       tot_globalHourly = msum (paid_hour now) (withdrawals s),
       tot_globalDaily = msum (paid_day now) (withdrawals s)\<rparr>"
    using part_bounds [OF assms(3) paid_parts(1)] part_bounds [OF assms(3) paid_parts(2)]
      part_bounds [OF assms(3) paid_parts(3)]
    by (simp add: auto_totals_eq [OF assms(1)] w64_nonneg)
  from e w show ?thesis
    by (simp add: eq exact_totals_def inside_limits_def)
qed

text \<open>The bound is not vacuous: two requests of 60 with a daily limit of 100, one is paid.\<close>

definition sample_row :: "int \<Rightarrow> int \<Rightarrow> string \<Rightarrow> Withdrawal" where
  "sample_row n amount status = \<lparr>wd_ID = n, wd_AccountID = 7, wd_Wallet = ''w'', wd_Amount = amount,
     wd_Status = status, wd_Reason = [], wd_TxHash = [], wd_CreatedAt = n, wd_ProcessedAt = 0\<rparr>"

definition sample_store :: store where
  "sample_store = (New (\<lambda>_. day_nanos))\<lparr>withdrawals :=
     [1 \<mapsto> sample_row 1 60 ''queued'', 2 \<mapsto> sample_row 2 60 ''queued'']\<rparr>"

definition sample_limits :: limits where
  "sample_limits = \<lparr>lim_singleMax = 80, lim_userDailyMax = 100, lim_globalHourlyMax = 1000,
     lim_globalDailyMax = 1000\<rparr>"

lemma sample_withdrawals [simp]: "withdrawals sample_store =
    [1 \<mapsto> sample_row 1 60 ''queued'', 2 \<mapsto> sample_row 2 60 ''queued'']"
  by (simp add: sample_store_def)

lemma sample_store_fits:
  "enumerates [1, 2] (withdrawals sample_store)" "amounts_fit sample_store" "\<not> IsZero day_nanos"
  by (auto simp: enumerates_def amounts_fit_def msum_upd sample_row_def IsZero_def day_nanos_def)

theorem auto_withdrawals_respect_limits_witness:
  "msum (paid_by 7 day_nanos)
     (withdrawals (fst (ProcessAutoWithdrawals sample_store [1, 2] day_nanos sample_limits 10))) \<le> 100"
  using auto_withdrawals_respect_limits [OF sample_store_fits(1,3,2) refl, of 7 sample_limits 10]
  by (simp add: sample_limits_def msum_upd paid_by_def sample_row_def paid_def)

section \<open>What one pass does to a row\<close>

definition auto_outcome :: "limits \<Rightarrow> time \<Rightarrow> Withdrawal \<Rightarrow> Withdrawal \<Rightarrow> bool" where
  "auto_outcome lms now row row' \<longleftrightarrow> row' = row \<or>
     wd_Status row = ''queued'' \<and> wd_ID row' = wd_ID row \<and> wd_AccountID row' = wd_AccountID row \<and>
     wd_Wallet row' = wd_Wallet row \<and> wd_Amount row' = wd_Amount row \<and>
     wd_CreatedAt row' = wd_CreatedAt row \<and>
     (wd_Status row' = ''manual_review'' \<and> wd_TxHash row' = wd_TxHash row \<or>
      wd_Status row' = ''queued'' \<and> wd_Amount row \<le> lim_singleMax lms \<and> wd_TxHash row' = wd_TxHash row \<or>
      wd_Status row' = ''submitted'' \<and> wd_Amount row \<le> lim_singleMax lms \<and> wd_ProcessedAt row' = now)"

lemma auto_outcome_refl [simp]: "auto_outcome lms now row row"
  by (simp add: auto_outcome_def)

lemma auto_outcome_trans:
  "auto_outcome lms now r1 r2 \<Longrightarrow> auto_outcome lms now r2 r3 \<Longrightarrow> auto_outcome lms now r1 r3"
  by (auto simp: auto_outcome_def)

lemma auto_outcome_verdicts:
  assumes "wd_Status row = ''queued''"
  shows "auto_outcome lms now row (row\<lparr>wd_Status := ''manual_review'', wd_Reason := why\<rparr>)"
    and "auto_verdict lms tot row = Delay why \<Longrightarrow>
      auto_outcome lms now row (row\<lparr>wd_Status := ''queued'', wd_Reason := why'\<rparr>)"
    and "auto_verdict lms tot row = Submit \<Longrightarrow> auto_outcome lms now row (snd (submit_row s now k row))"
  using assms
  by (auto simp: auto_outcome_def auto_verdict_def submit_row_def Let_def split: if_splits)

definition rows_follow :: "(Withdrawal \<Rightarrow> Withdrawal \<Rightarrow> bool) \<Rightarrow> store \<Rightarrow> store \<Rightarrow> bool" where
  "rows_follow R s t \<longleftrightarrow> dom (withdrawals t) = dom (withdrawals s) \<and>
     (\<forall>k row row'. withdrawals s k = Some row \<longrightarrow> withdrawals t k = Some row' \<longrightarrow> R row row')"

lemma rows_follow_upd:
  assumes "rows_follow (auto_outcome lms now) s t" and "withdrawals t k = Some row"
    and "auto_outcome lms now row row'" and "withdrawals u = (withdrawals t)(k \<mapsto> row')"
  shows "rows_follow (auto_outcome lms now) s u"
  using assms unfolding rows_follow_def
  by (auto intro: auto_outcome_trans [of lms now _ row row'] simp: dom_upd_existing [of "withdrawals t", OF assms(2)] split: if_splits)

lemma auto_rows:
  assumes "distinct ks"
  shows "rows_follow (auto_outcome lms now) s (fst (ProcessAutoWithdrawals s ks now lms limit))"
proof -
  let ?P = "\<lambda>t (_ :: totals). rows_follow (auto_outcome lms now) s t"
  have "\<exists>tot. ?P (fst (ProcessAutoWithdrawals s ks now lms limit)) tot"
  proof (rule ProcessAuto_keeps_totals [OF assms, where P = ?P])
    show "?P s (auto_totals s ks now)" by (auto simp: rows_follow_def)
  next
    fix t tot k row why
    assume "?P t tot" "withdrawals t k = Some row" "wd_Status row = ''queued''"
    then show "?P (set_row t k (row\<lparr>wd_Status := ''manual_review'', wd_Reason := why\<rparr>)) tot"
      by (rule rows_follow_upd [OF _ _ auto_outcome_verdicts(1)]) simp
  next
    fix t tot k row why
    assume "?P t tot" "withdrawals t k = Some row" "wd_Status row = ''queued''"
      "auto_verdict lms tot row = Delay why"
    then show "?P (set_row t k (row\<lparr>wd_Status := ''queued'', wd_Reason := why\<rparr>)) tot"
      by (rule rows_follow_upd [OF _ _ auto_outcome_verdicts(2)]) simp
  next
    fix t tot k row
    assume "?P t tot" "withdrawals t k = Some row" "wd_Status row = ''queued''"
      "auto_verdict lms tot row = Submit"
    then show "?P (fst (submit_row t now k row)) (count_submitted row tot)"
      by (rule rows_follow_upd [OF _ _ auto_outcome_verdicts(3)]) simp
  qed
  then show ?thesis by blast
qed

text \<open>
  What the automatic queue pays was waiting in the queue: a withdrawal that is
  submitted after a pass and was not before it was queued, for the same account, wallet and
  amount, the amount is at most the single limit, and it carries the time of the pass.
\<close>

lemma auto_pays_only_queued:
  assumes "distinct ks" and "withdrawals (fst (ProcessAutoWithdrawals s ks now lms limit)) k = Some row'"
    and "wd_Status row' = ''submitted''"
  shows "\<exists>row. withdrawals s k = Some row \<and> (row' = row \<or>
    wd_Status row = ''queued'' \<and> wd_AccountID row' = wd_AccountID row \<and> wd_Wallet row' = wd_Wallet row \<and>
    wd_Amount row' = wd_Amount row \<and> wd_Amount row \<le> lim_singleMax lms \<and> wd_ProcessedAt row' = now)"
proof -
  note r = auto_rows [OF assms(1), of lms now s limit]
  from r assms(2) obtain row where row: "withdrawals s k = Some row"
    unfolding rows_follow_def by (metis domIff not_None_eq)
  with r assms(2) have "auto_outcome lms now row row'" by (simp add: rows_follow_def)
  with row assms(3) show ?thesis by (auto simp: auto_outcome_def)
qed

lemma auto_pays_only_queued_witness:
  "wd_Amount (the (withdrawals (fst (ProcessAutoWithdrawals sample_store [1] day_nanos sample_limits 10)) 1)) \<le> 80"
proof -
  let ?t = "fst (ProcessAutoWithdrawals sample_store [1] day_nanos sample_limits 10)"
  obtain row' where r: "withdrawals ?t 1 = Some row'" "wd_Status row' = ''submitted''"
    by (simp add: ProcessAutoWithdrawals_def queued_def sample_row_def auto_totals_def map_values_def
        List.map_filter_simps add_total_def paid_def auto_verdict_def sample_limits_def w64_def
        case_prod_beta submit_row_def Let_def addLedgerLocked_eq)
  show ?thesis
    using auto_pays_only_queued [OF _ r] r by (auto simp: sample_row_def sample_limits_def)
qed

text \<open>
  Property C5. The single limit applies to approved withdrawals too. An administrator's approval
  puts a withdrawal back in the queue, and a pass of the queue never pays a queued withdrawal
  above the single limit: it is left alone or returned to review. An approved large withdrawal
  is therefore never paid while the limit stands.
\<close>

theorem approved_large_withdrawal_not_paid:
  assumes "snd (ReviewWithdrawal s k True admin reason) = Inr row" and "lim_singleMax lms < wd_Amount row"
    and "distinct ks" and "t = fst (ReviewWithdrawal s k True admin reason)"
  shows "withdrawals t k = Some row \<and> wd_Status row = ''queued'' \<and>
    (\<exists>row'. withdrawals (fst (ProcessAutoWithdrawals t ks now lms limit)) k = Some row' \<and>
       (row' = row \<or> wd_Status row' = ''manual_review'' \<and> wd_TxHash row' = wd_TxHash row))"
proof (cases rule: ReviewWithdrawal_cases [of s k True admin reason])
  case (refused e)
  with assms(1) show ?thesis by simp
next
  case (approved row0 row0')
  then have row: "withdrawals t k = Some row" "wd_Status row = ''queued''" using assms(1,4) by simp_all
  note r = auto_rows [OF assms(3), of lms now t limit]
  then obtain row' where row': "withdrawals (fst (ProcessAutoWithdrawals t ks now lms limit)) k = Some row'"
    using row(1) unfolding rows_follow_def by (metis domIff not_None_eq)
  with r row have "auto_outcome lms now row row'" by (simp add: rows_follow_def)
  with row row' assms(2) show ?thesis by (auto simp: auto_outcome_def)
qed simp

definition review_store :: store where
  "review_store = (New (\<lambda>_. day_nanos))\<lparr>withdrawals := [1 \<mapsto> sample_row 1 500 ''manual_review'']\<rparr>"

theorem approved_large_withdrawal_not_paid_witness:
  "wd_TxHash (the (withdrawals (fst (ProcessAutoWithdrawals
     (fst (ReviewWithdrawal review_store 1 True ''admin'' ''ok'')) [1] 5 sample_limits 10)) 1)) = []"
proof -
  have r: "snd (ReviewWithdrawal review_store 1 True ''admin'' ''ok'') =
      Inr (sample_row 1 500 ''queued''\<lparr>wd_Reason := ''approved: ok''\<rparr>)"
    by (simp add: review_store_def ReviewWithdrawal_def sample_row_def Let_def store_next_eq case_prod_beta)
  show ?thesis
    using approved_large_withdrawal_not_paid [OF r _ _ refl, of sample_limits "[1]" 5 10]
    by (auto simp: sample_row_def sample_limits_def)
qed

section \<open>Reachable stores\<close>

text \<open>
  While the grants fit (no account's total passes the 63-bit range), in every store reachable
  from an empty one by grants, settlements, withdrawal requests, automatic passes and reviews each account's locked balance is the sum of its locked
  rows, its total is locked plus withdrawable plus the withdrawals not rejected, and no balance is
  negative.
\<close>

lemma bounded_balances_backed:
  assumes "initial s" and "(treasury_step fits)\<^sup>*\<^sup>* s t"
  shows "0 \<le> tok_WithdrawableBalance (token_of t a) \<and> 0 \<le> tok_LockedBalance (token_of t a) \<and>
    tok_LockedBalance (token_of t a) = msum (locked_part a) (locked t) \<and>
    tok_TokenBalance (token_of t a) = tok_LockedBalance (token_of t a)
      + tok_WithdrawableBalance (token_of t a) + msum (withdrawn_part a) (withdrawals t) \<and>
    tok_TokenBalance (token_of t a) < 2 ^ 63"
proof -
  have "solvent t" using bounded.reachable_inv [OF assms] .
  then have c: "covered t" by (simp add: solvent_covered)
  show ?thesis
    using covered_at [OF c, of a] covered_bounds [OF c, of a] covered_sums [OF c, of a] c
    by (simp add: covered_def)
qed

abbreviation granted :: store where
  "granted \<equiv> fst (GrantLocked (New (\<lambda>_. 1)) 7 50 ''boss'' ''r'' 9)"

lemma sample_initial: "initial (New c)"
  by (auto simp: initial_def)

lemma sample_grant: "G (New (\<lambda>_. 1)) 7 50 \<Longrightarrow> (treasury_step G)\<^sup>*\<^sup>* (New (\<lambda>_. 1)) granted"
  by (rule r_into_rtranclp)
    (auto simp: treasury_step_def GrantLocked_fields w64_def i64_def intro: op_grant)

lemma bounded_balances_backed_witness:
  "tok_TokenBalance (token_of granted 7) < 2 ^ 63 \<and> msum (locked_part 7) (locked granted) = 50"
  using bounded_balances_backed [OF sample_initial sample_grant [of fits], of 7]
  by (simp add: fits_def GrantLocked_fields w64_def)

text \<open>
  Without any bound on the grants the same equations hold modulo \<open>2 ^ 64\<close>: wrap-around
  of a balance never loses track of a row.
\<close>

lemma reachable_balances_wrap:
  assumes "initial s" and "(treasury_step (\<lambda>_ _ _. True))\<^sup>*\<^sup>* s t"
  shows "tok_LockedBalance (token_of t a) = w64 (msum (locked_part a) (locked t)) \<and>
    tok_TokenBalance (token_of t a) = w64 (tok_LockedBalance (token_of t a)
      + tok_WithdrawableBalance (token_of t a) + msum (withdrawn_part a) (withdrawals t))"
  using wrapping.reachable_inv [OF assms] by (simp add: balanced_def)

lemma reachable_balances_wrap_witness:
  "w64 (msum (locked_part 7) (locked granted)) = 50"
  using reachable_balances_wrap [OF sample_initial sample_grant, of 7]
  by (simp add: GrantLocked_fields w64_def)

section \<open>The life of a withdrawal\<close>

text \<open>The states of a withdrawal and the moves between them.\<close>

inductive wd_next :: "string \<Rightarrow> string \<Rightarrow> bool" where
  pay: "wd_next ''queued'' ''submitted''"
| hold: "wd_next ''queued'' ''manual_review''"
| approve: "wd_next ''manual_review'' ''queued''"
| reject: "wd_next ''manual_review'' ''rejected''"

inductive_cases wd_next_from: "wd_next x y"

lemmas wd_moves = wd_next.intros [THEN r_into_rtranclp [of wd_next]]

lemma wd_next_final: "wd_next\<^sup>*\<^sup>* x y \<Longrightarrow> x = ''submitted'' \<or> x = ''rejected'' \<Longrightarrow> y = x"
  by (erule converse_rtranclpE) (auto elim: wd_next_from)

definition life :: "Withdrawal \<Rightarrow> Withdrawal \<Rightarrow> bool" where
  "life row row' \<longleftrightarrow> wd_next\<^sup>*\<^sup>* (wd_Status row) (wd_Status row') \<and> wd_ID row' = wd_ID row \<and>
     wd_AccountID row' = wd_AccountID row \<and> wd_Amount row' = wd_Amount row \<and>
     wd_Wallet row' = wd_Wallet row \<and> wd_CreatedAt row' = wd_CreatedAt row"

lemma life_refl [simp]: "life row row"
  by (simp add: life_def)

lemma life_trans: "life a b \<Longrightarrow> life b c \<Longrightarrow> life a c"
  by (auto simp: life_def)

lemma auto_outcome_life: "auto_outcome lms now row row' \<Longrightarrow> life row row'"
  by (auto simp: auto_outcome_def life_def wd_moves)

definition rows_live :: "store \<Rightarrow> store \<Rightarrow> bool" where
  "rows_live s t \<longleftrightarrow> (\<forall>k row. withdrawals s k = Some row \<longrightarrow> (\<exists>row'. withdrawals t k = Some row' \<and> life row row'))"

lemma rows_live_same: "withdrawals t = withdrawals s \<Longrightarrow> rows_live s t"
  by (auto simp: rows_live_def)

lemma rows_live_upd:
  "withdrawals s k = Some row \<Longrightarrow> life row row' \<Longrightarrow> withdrawals t = (withdrawals s)(k \<mapsto> row') \<Longrightarrow> rows_live s t"
  by (auto simp: rows_live_def)

lemma rows_live_auto: "distinct ks \<Longrightarrow> rows_live s (fst (ProcessAutoWithdrawals s ks now lms limit))"
  using auto_rows [of ks lms now s limit] auto_outcome_life
  unfolding rows_live_def rows_follow_def by (metis domIff not_None_eq)

lemma rows_live_review: "rows_live s (fst (ReviewWithdrawal s k approve admin reason))"
proof (cases rule: ReviewWithdrawal_cases [of s k approve admin reason])
  case (refused e)
  then show ?thesis by (simp add: rows_live_same)
next
  case (approved row row')
  have "life row row'" using approved(3,4) by (simp add: life_def wd_moves)
  then show ?thesis using approved(2,7) by (blast intro: rows_live_upd)
next
  case (rejected row row')
  have "life row row'" using rejected(3,4) by (simp add: life_def wd_moves)
  then show ?thesis using rejected(2,7) by (blast intro: rows_live_upd)
qed

lemma rows_live_withdraw:
  assumes "wf_ids s" and "nextID s \<le> nextID (fst (CreateWithdrawal s a amount wallet manual))"
  shows "rows_live s (fst (CreateWithdrawal s a amount wallet manual))"
proof (cases rule: CreateWithdrawal_cases [of s a amount wallet manual])
  case (created row)
  then have "withdrawals s (w64 (nextID s + 1)) = None"
    using wf_ids_fresh [OF assms(1), of 2, simplified] assms(2) by auto
  with created(9) show ?thesis by (auto simp: rows_live_def)
qed (simp add: rows_live_same)

lemma rows_live_step:
  assumes "treasury_step G s t" and "wf_ids s"
  shows "rows_live s t"
  using assms(1) unfolding treasury_step_def
proof (elim conjE)
  assume op: "treasury_op G s t" and n: "nextID s \<le> nextID t"
  from op show ?thesis
  proof (cases rule: treasury_op.cases)
    case (op_token a)
    then show ?thesis by (simp add: rows_live_same Token_def store_simps)
  next
    case (op_grant a amount source ref u)
    then show ?thesis
      using GrantLocked_fields(1) by (cases "0 < amount") (simp_all add: rows_live_same GrantLocked_bad)
  next
    case (op_settle ks now limit)
    then show ?thesis by (simp add: rows_live_same settle_doms)
  next
    case (op_withdraw a amount wallet manual)
    then show ?thesis using assms(2) n rows_live_withdraw by simp
  next
    case (op_auto ks now lms limit)
    then show ?thesis by (simp add: rows_live_auto enumerates_def)
  next
    case (op_review k approve admin reason)
    then show ?thesis by (simp add: rows_live_review)
  next
    case op_other
    then show ?thesis by (simp add: rows_live_same)
  qed
qed

lemma rows_live_trans: "rows_live s t \<Longrightarrow> rows_live t u \<Longrightarrow> rows_live s u"
  unfolding rows_live_def using life_trans by meson

lemma rows_live_steps:
  assumes "(treasury_step G)\<^sup>*\<^sup>* s t" and "balanced s"
  shows "rows_live s t \<and> balanced t"
  using assms
proof (induction rule: rtranclp_induct)
  case (step t u)
  then have b: "balanced t" and l: "rows_live s t" by simp_all
  from b have "wf_ids t" by (simp add: balanced_def)
  with step.hyps(2) have "rows_live t u" by (rule rows_live_step)
  with l b step.hyps(2) show ?case by (blast intro: rows_live_trans treasury_step_balanced)
qed (simp add: rows_live_same)

text \<open>
  Property C6. A withdrawal of a reachable store is never lost and never changes its account,
  amount, wallet or creation time; its status only moves from queued to submitted or review and
  from review to queued or rejected, so submitted and rejected are final whatever is called.
\<close>

theorem withdrawal_state_machine:
  assumes "initial s\<^sub>0" and "(treasury_step (\<lambda>_ _ _. True))\<^sup>*\<^sup>* s\<^sub>0 s" and "(treasury_step (\<lambda>_ _ _. True))\<^sup>*\<^sup>* s t"
    and "withdrawals s k = Some row"
  shows "\<exists>row'. withdrawals t k = Some row' \<and> wd_AccountID row' = wd_AccountID row \<and>
    wd_Amount row' = wd_Amount row \<and> wd_Wallet row' = wd_Wallet row \<and> wd_CreatedAt row' = wd_CreatedAt row \<and>
    wd_next\<^sup>*\<^sup>* (wd_Status row) (wd_Status row') \<and>
    (wd_Status row \<in> {''submitted'', ''rejected''} \<longrightarrow> wd_Status row' = wd_Status row)"
proof -
  have "balanced s" using wrapping.reachable_inv [OF assms(1,2)] .
  then have "rows_live s t" using rows_live_steps [OF assms(3)] by blast
  then obtain row' where "withdrawals t k = Some row'" "life row row'"
    using assms(4) by (auto simp: rows_live_def)
  then show ?thesis by (auto simp: life_def dest: wd_next_final)
qed

text \<open>A store in which the account can withdraw, reached by a grant and its settlement.\<close>

definition unlocked_store :: store where
  "unlocked_store = fst (SettleUnlocks granted [1001] 20 0)"

definition requested_store :: store where
  "requested_store = fst (CreateWithdrawal unlocked_store 7 30 ''w'' True)"

lemma granted_locked: "locked granted = [1001 \<mapsto> \<lparr>lk_ID = 1001, lk_AccountID = 7, lk_Amount = 50, lk_Source = ''boss'', lk_Status = ''locked'', lk_Ref = ''r'', lk_CreatedAt = 1, lk_UnlockAt = 9\<rparr>]"
  by (simp add: GrantLocked_ok addLedgerLocked_eq Let_def w64_def time_Now_def)

lemma granted_rest: "nextID granted = 1002" "tokens granted = [7 \<mapsto> (zero_AccountToken 7)\<lparr>tok_TokenBalance := 50, tok_LockedBalance := 50\<rparr>]" "withdrawals granted = Map.empty"
  by (simp_all add: GrantLocked_ok addLedgerLocked_eq Let_def w64_def time_Now_def)

lemma unlocked_fields: "nextID unlocked_store = 1003" "tokens unlocked_store = [7 \<mapsto> (zero_AccountToken 7)\<lparr>tok_TokenBalance := 50, tok_LockedBalance := 0, tok_WithdrawableBalance := 50\<rparr>]" "withdrawals unlocked_store = Map.empty"
  by (simp_all add: unlocked_store_def SettleUnlocks_def due_def granted_locked granted_rest After_def w64_def token_in_def fun_eq_iff)

lemma requested_fields: "withdrawals requested_store 1004 \<noteq> None" "nextID requested_store = 1005"
  by (simp_all add: requested_store_def CreateWithdrawal_def store_simps unlocked_fields token_in_def w64_def Let_def)

lemma unlocked_clock: "clock unlocked_store = (\<lambda>_. 1)"
  by (simp_all add: unlocked_store_def SettleUnlocks_def due_def granted_locked After_def settle_row_eq addLedgerLocked_eq Let_def GrantLocked_ok)

lemma requested_row: "withdrawals requested_store 1004 = Some \<lparr>wd_ID = 1004, wd_AccountID = 7, wd_Wallet = ''w'', wd_Amount = 30, wd_Status = ''manual_review'', wd_Reason = ''manual requested'', wd_TxHash = [], wd_CreatedAt = 1, wd_ProcessedAt = 0\<rparr>"
  by (simp add: requested_store_def CreateWithdrawal_def store_simps unlocked_fields token_in_def w64_def Let_def time_Now_def unlocked_clock TrimSpace_def space1_def)

lemma requested_reachable: "(treasury_step G)\<^sup>*\<^sup>* granted requested_store"
proof -
  have "treasury_step G granted unlocked_store"
    unfolding treasury_step_def
    by (auto simp: unlocked_fields granted_rest i64_def) (auto simp: unlocked_store_def enumerates_def granted_locked intro: op_settle)
  moreover have "treasury_step G unlocked_store requested_store"
    unfolding treasury_step_def
    by (auto simp: unlocked_fields requested_fields i64_def) (auto simp: requested_store_def intro: op_withdraw)
  ultimately show ?thesis by simp
qed

theorem withdrawal_state_machine_witness:
  "\<exists>row'. withdrawals (fst (ReviewWithdrawal requested_store 1004 False ''admin'' ''no'')) 1004 = Some row' \<and>
     wd_Amount row' = 30"
proof -
  let ?t = "fst (ReviewWithdrawal requested_store 1004 False ''admin'' ''no'')"
  have a: "(treasury_step (\<lambda>_ _ _. True))\<^sup>*\<^sup>* (New (\<lambda>_. 1)) requested_store"
    by (rule rtranclp_trans [OF sample_grant requested_reachable]) simp
  have "nextID ?t = 1006"
    by (simp add: ReviewWithdrawal_def requested_row requested_fields w64_def store_simps Let_def)
  then have "treasury_step (\<lambda>_ _ _. True) requested_store ?t"
    by (simp add: treasury_step_def requested_fields i64_def op_review)
  then have b: "(treasury_step (\<lambda>_ _ _. True))\<^sup>*\<^sup>* requested_store ?t" by simp
  show ?thesis
    using withdrawal_state_machine [OF sample_initial a b requested_row] by auto
qed

section \<open>Settlement\<close>

lemma settle_loop_spec:
  assumes "distinct ks" and "\<forall>k \<in> set ks. is_locked s k" and "settle_loop s ks out = (t, out')"
  shows "(\<forall>k. locked t k = (if k \<in> set ks then map_option (lk_Status_update (\<lambda>_. ''unlocked'')) (locked s k) else locked s k)) \<and>
    out' = out @ map (\<lambda>k. (the (locked s k))\<lparr>lk_Status := ''unlocked''\<rparr>) ks \<and>
    w64 (tok_WithdrawableBalance (token_of t a)) =
      w64 (tok_WithdrawableBalance (token_of s a) + (\<Sum>k \<leftarrow> ks. locked_part a (the (locked s k))))"
  using assms
proof (induction ks arbitrary: s out)
  case (Cons j ks)
  then obtain row where row: "locked s j = Some row" "lk_Status row = ''locked''"
    by (auto simp: is_locked_def)
  let ?s = "settle_row s j row"
  have d: "distinct ks" "j \<notin> set ks" using Cons.prems(1) by simp_all
  have l: "\<forall>k \<in> set ks. is_locked ?s k"
    using Cons.prems(1,2) by (auto simp: is_locked_def)
  have run: "settle_loop ?s ks (out @ [row\<lparr>lk_Status := ''unlocked''\<rparr>]) = (t, out')"
    using Cons.prems(3) row by simp
  have same: "map (\<lambda>k. the (locked ?s k)) ks = map (\<lambda>k. the (locked s k)) ks" using d(2) by auto
  have sum: "(\<Sum>k \<leftarrow> ks. locked_part a (the (locked ?s k))) = (\<Sum>k \<leftarrow> ks. locked_part a (the (locked s k)))"
    using arg_cong [OF same, of "\<lambda>rows. sum_list (map (locked_part a) rows)"] by (simp add: comp_def)
  have rows: "map (\<lambda>k. (the (locked ?s k))\<lparr>lk_Status := ''unlocked''\<rparr>) ks = map (\<lambda>k. (the (locked s k))\<lparr>lk_Status := ''unlocked''\<rparr>) ks"
    using d(2) by auto
  note IH = Cons.IH [OF d(1) l run]
  have "w64 (tok_WithdrawableBalance (token_of t a)) =
      w64 (tok_WithdrawableBalance (token_of ?s a) + (\<Sum>k \<leftarrow> ks. locked_part a (the (locked s k))))"
    using IH by (simp only: sum)
  then have bal: "w64 (tok_WithdrawableBalance (token_of t a)) =
      w64 (tok_WithdrawableBalance (token_of s a) + (\<Sum>k \<leftarrow> j # ks. locked_part a (the (locked s k))))"
    using row by (cases "lk_AccountID row = a") (simp_all add: locked_part_def [of _ row] add.assoc)
  have "locked t k = (if k \<in> set (j # ks) then map_option (lk_Status_update (\<lambda>_. ''unlocked'')) (locked s k) else locked s k)" for k
    using IH row d(2) by auto
  moreover have "out' = out @ map (\<lambda>k. (the (locked s k))\<lparr>lk_Status := ''unlocked''\<rparr>) (j # ks)"
    using IH row by (simp only: rows) simp
  ultimately show ?case using bal by blast
qed simp

lemma sort_take_least:
  assumes "x \<in> set (take n (sort_key f xs))" and "y \<in> set xs" and "y \<notin> set (take n (sort_key f xs))"
  shows "f x \<le> f y"
proof -
  have y: "y \<in> set (drop n (sort_key f xs))"
    using assms(2,3) by (metis UnE append_take_drop_id set_append set_sort)
  have "sorted (map f (take n (sort_key f xs) @ drop n (sort_key f xs)))" by simp
  with assms(1) y show ?thesis unfolding map_append sorted_append by auto
qed

text \<open>
  A settlement pass unlocks exactly as many due rows as its limit allows, the ones
  that became due first, changes nothing but their status, reports them by unlock time, and
  credits their amounts to the withdrawable balance.
\<close>

lemma settle_unlocks_oldest_first:
  assumes "enumerates ks (locked s)" and "SettleUnlocks s ks now limit = (t, out)"
    and "i64 (tok_WithdrawableBalance (token_of s a))" and "i64 (tok_WithdrawableBalance (token_of t a))"
  shows "\<exists>S. S \<subseteq> {k. due s now k} \<and>
    card S = min (nat (if limit \<le> 0 then 100 else limit)) (card {k. due s now k}) \<and> length out = card S \<and>
    (\<forall>j k. j \<in> S \<longrightarrow> due s now k \<longrightarrow> k \<notin> S \<longrightarrow> unlockAt_of s j \<le> unlockAt_of s k) \<and>
    (\<forall>k. locked t k = (if k \<in> S then map_option (lk_Status_update (\<lambda>_. ''unlocked'')) (locked s k) else locked s k)) \<and>
    sorted (map lk_UnlockAt out) \<and>
    tok_WithdrawableBalance (token_of t a) =
      w64 (tok_WithdrawableBalance (token_of s a) + (\<Sum>k \<in> S. locked_part a (the (locked s k))))"
proof -
  define n where "n = nat (if limit \<le> 0 then 100 else limit)"
  define rows where "rows = sort_key (unlockAt_of s) (filter (due s now) ks)"
  have d: "distinct (take n rows)" using assms(1) by (simp add: rows_def enumerates_def)
  have in_ks: "due s now k \<Longrightarrow> k \<in> set ks" for k
    using assms(1) by (auto simp: due_def enumerates_def split: option.splits)
  then have all: "set rows = {k. due s now k}" by (auto simp: rows_def)
  then have sub: "set (take n rows) \<subseteq> {k. due s now k}" by (metis set_take_subset)
  then have l: "\<forall>k \<in> set (take n rows). is_locked s k" by (auto intro: due_is_locked)
  have run: "settle_loop s (take n rows) [] = (t, out)"
    using assms(2) by (simp add: SettleUnlocks_def rows_def n_def Let_def)
  note spec0 = settle_loop_spec [OF d l run]
  note spec = spec0 [THEN conjunct1, rule_format] spec0 [THEN conjunct2, THEN conjunct1] spec0 [THEN conjunct2, THEN conjunct2]
  have "card (set (take n rows)) = min n (card {k. due s now k})"
    using distinct_card [OF d] distinct_card [of rows] all assms(1)
    by (simp add: rows_def enumerates_def min.commute)
  moreover have "length out = card (set (take n rows))" using spec(2) distinct_card [OF d] by simp
  moreover have "\<forall>j k. j \<in> set (take n rows) \<longrightarrow> due s now k \<longrightarrow> k \<notin> set (take n rows) \<longrightarrow>
      unlockAt_of s j \<le> unlockAt_of s k"
    unfolding rows_def using in_ks by (auto intro!: sort_take_least [where f = "unlockAt_of s"])
  moreover have "sorted (map lk_UnlockAt out)"
  proof -
    have "map lk_UnlockAt out = map (unlockAt_of s) (take n rows)"
      using l by (auto simp: spec(2) unlockAt_of_def is_locked_def split: option.splits)
    then show ?thesis by (simp add: rows_def sorted_wrt_take flip: take_map)
  qed
  moreover have "tok_WithdrawableBalance (token_of t a) = w64 (tok_WithdrawableBalance (token_of s a)
      + (\<Sum>k \<in> set (take n rows). locked_part a (the (locked s k))))"
    using spec(3) [of a] assms(4) d by (simp add: w64_id sum_list_distinct_conv_sum_set)
  ultimately show ?thesis using sub spec(1) unfolding n_def by (intro exI [of _ "set (take n rows)"]) (simp add: n_def)
qed
lemma settle_unlocks_oldest_first_witness:
  "locked unlocked_store 1001 \<noteq> locked granted 1001 \<and> tok_WithdrawableBalance (token_of unlocked_store 7) = 50"
proof -
  have e: "enumerates [1001] (locked granted)" by (simp add: enumerates_def granted_locked)
  have d: "{k. due granted 20 k} = {1001}" by (auto simp: due_def granted_locked After_def)
  obtain out where run: "SettleUnlocks granted [1001] 20 0 = (unlocked_store, out)"
    by (metis prod.collapse unlocked_store_def)
  from settle_unlocks_oldest_first [OF e run, of 7]
  obtain S where "S \<subseteq> {1001}" "card S = 1" and l: "locked unlocked_store 1001 =
      (if 1001 \<in> S then map_option (lk_Status_update (\<lambda>_. ''unlocked'')) (locked granted 1001) else locked granted 1001)"
    and b: "tok_WithdrawableBalance (token_of unlocked_store 7) = w64 (\<Sum>k \<in> S. locked_part 7 (the (locked granted k)))"
    by (auto simp: d granted_rest unlocked_fields i64_def)
  then have "S = {1001}" by (auto simp: card_1_singleton_iff)
  with l b show ?thesis by (simp add: granted_locked locked_part_def w64_def)
qed

text \<open>
  Rejecting a withdrawal undoes it: after a request for manual review and its
  rejection every balance is what it was before the request.
\<close>

lemma rejected_withdrawal_refunded:
  assumes "CreateWithdrawal s a amount wallet manual = (t, Inr row)" and "manual"
    and "i64 (tok_WithdrawableBalance (token_of s a))"
  shows "\<exists>u row'. ReviewWithdrawal t (wd_ID row) False admin reason = (u, Inr row') \<and>
    wd_Status row' = ''rejected'' \<and> token_of u = token_of s"
proof (cases rule: CreateWithdrawal_cases [of s a amount wallet manual])
  case refused
  with assms(1) show ?thesis by simp
next
  case (created r)
  then have r: "r = row" and t: "t = fst (CreateWithdrawal s a amount wallet manual)" using assms(1) by simp_all
  have row: "withdrawals t (wd_ID row) = Some row" "wd_Status row = ''manual_review''"
    using created r t assms(2) by simp_all
  have acc: "wd_AccountID row = a" "wd_Amount row = amount" using created(4,5) r by simp_all
  have tok: "tokens t = (tokens s)(a \<mapsto> (token_of s a)\<lparr>
      tok_WithdrawableBalance := w64 (tok_WithdrawableBalance (token_of s a) - amount)\<rparr>)"
    using created(10) t by simp
  have "token_of (fst (ReviewWithdrawal t (wd_ID row) False admin reason)) = token_of s"
    by (simp add: ReviewWithdrawal_def row store_simps Let_def acc tok w64_id [OF assms(3)])
      (simp add: fun_eq_iff)
  then show ?thesis
    by (auto simp: ReviewWithdrawal_def row Let_def case_prod_beta)
qed

lemma rejected_withdrawal_refunded_witness:
  "\<exists>u row'. ReviewWithdrawal requested_store 1004 False ''admin'' ''no'' = (u, Inr row') \<and>
     tok_WithdrawableBalance (token_of u 7) = 50"
proof -
  obtain row where run: "CreateWithdrawal unlocked_store 7 30 ''w'' True = (requested_store, Inr row)" "wd_ID row = 1004"
    by (simp add: requested_store_def CreateWithdrawal_def store_simps unlocked_fields w64_def Let_def)
  show ?thesis
    using rejected_withdrawal_refunded [OF run(1), of "''admin''" "''no''"] run(2)
    by (auto simp: unlocked_fields i64_def)
qed

end
