(* ===== verification/Accounts.thy ===== *)
theory Accounts
  imports StoreState Contracts
begin

text \<open>
  Wallet login nonces, the account registry and the characters of the in-memory repository
  (\<open>SaveWalletNonce\<close> to \<open>SetAccountBan\<close> and \<open>CreateCharacter\<close> to \<open>SavePlayerState\<close> of
  \<open>src/internal/platform/store/store.go\<close>).

  The theory proves that a login nonce is consumed at most once, and the registry invariant: wallets
  and accounts correspond one to one, and an account never has more than three live characters,
  each in its own slot. That it holds in every reachable store is proved in \<open>WholeStore\<close>, over the
  steps of the whole repository.
\<close>

section \<open>Wallet login nonces\<close>

definition SaveWalletNonce :: "store \<Rightarrow> WalletLoginNonce \<Rightarrow> store" where
  "SaveWalletNonce s row =
     (let (s1, row1) = (if IsZero (wn_CreatedAt row)
                        then (tick s, row\<lparr>wn_CreatedAt := time_Now s\<rparr>) else (s, row));
          row2 = (if wn_Status row1 = [] then row1\<lparr>wn_Status := ''PENDING''\<rparr> else row1)
      in s1\<lparr>nonces := (nonces s1)(wn_Nonce row2 \<mapsto> row2)\<rparr>)"

definition set_nonce_status :: "store \<Rightarrow> string \<Rightarrow> WalletLoginNonce \<Rightarrow> string \<Rightarrow> store" where
  "set_nonce_status s nonce row status = s\<lparr>nonces := (nonces s)(nonce \<mapsto> row\<lparr>wn_Status := status\<rparr>)\<rparr>"

definition WalletNonce :: "store \<Rightarrow> string \<Rightarrow> string \<Rightarrow> time \<Rightarrow> WalletLoginNonce op" where
  "WalletNonce s nonce wallet now =
     (case nonces s nonce of
        None \<Rightarrow> (s, Inl ErrNotFound)
      | Some row \<Rightarrow>
          if wn_Wallet row \<noteq> wallet then (s, Inl ErrNotFound)
          else if wn_Status row \<noteq> ''PENDING'' then (s, Inl ErrForbidden)
          else if \<not> After (wn_ExpiresAt row) now
          then (set_nonce_status s nonce row ''EXPIRED'', Inl ErrForbidden)
          else (s, Inr row))"

definition ConsumeWalletNonce :: "store \<Rightarrow> string \<Rightarrow> string \<Rightarrow> time \<Rightarrow> unit op" where
  "ConsumeWalletNonce s nonce wallet now =
     (case nonces s nonce of
        None \<Rightarrow> (s, Inl ErrNotFound)
      | Some row \<Rightarrow>
          if wn_Wallet row \<noteq> wallet then (s, Inl ErrNotFound)
          else if wn_Status row \<noteq> ''PENDING'' \<or> \<not> After (wn_ExpiresAt row) now
          then (if wn_Status row = ''PENDING'' then set_nonce_status s nonce row ''EXPIRED'' else s,
                Inl ErrForbidden)
          else (set_nonce_status s nonce row ''CONSUMED'', Inr ()))"

section \<open>Accounts\<close>

definition walletSuffix :: "string \<Rightarrow> string" where
  "walletSuffix wallet = (if length wallet \<le> 8 then wallet else drop (length wallet - 8) wallet)"

definition UpsertAccountByWallet :: "store \<Rightarrow> string \<Rightarrow> Account op" where
  "UpsertAccountByWallet s wallet =
     (let now = time_Now s; s = tick s in
      case byWallet s wallet of
        Some k \<Rightarrow>
          (case accounts s k of
             None \<Rightarrow> (s, Inl Panic)
           | Some row \<Rightarrow>
               let row' = row\<lparr>ac_LastLoginAt := now\<rparr>
               in (s\<lparr>accounts := (accounts s)(k \<mapsto> row')\<rparr>, Inr row'))
      | None \<Rightarrow>
          let (s1, id) = store_next s;
              row = \<lparr>ac_ID = id, ac_Username = ''wallet_'' @ walletSuffix wallet,
                     ac_WalletAddress = wallet, ac_IsBanned = False,
                     ac_CreatedAt = now, ac_LastLoginAt = now\<rparr>;
              s2 = s1\<lparr>accounts := (accounts s1)(id \<mapsto> row), byWallet := (byWallet s1)(wallet \<mapsto> id)\<rparr>;
              (s3, _) = ensureTokenLocked s2 id
          in (s3, Inr row))"

definition Account_get :: "store \<Rightarrow> int \<Rightarrow> Account option" where
  "Account_get s k = accounts s k"

definition SetAccountBan :: "store \<Rightarrow> int \<Rightarrow> bool \<Rightarrow> string \<Rightarrow> unit op" where
  "SetAccountBan s accountID banned reason =
     (case accounts s accountID of
        None \<Rightarrow> (s, Inl ErrNotFound)
      | Some row \<Rightarrow>
          (s\<lparr>accounts := (accounts s)(accountID \<mapsto> row\<lparr>ac_IsBanned := banned\<rparr>)\<rparr>, Inr ()))"

definition SetBanned :: "store \<Rightarrow> int \<Rightarrow> bool \<Rightarrow> unit op" where
  "SetBanned s accountID banned = SetAccountBan s accountID banned []"

section \<open>Characters\<close>

text \<open>The live characters of an account; the loops that look for them do not depend on the order.\<close>

definition owns :: "int \<Rightarrow> Character \<Rightarrow> bool" where
  "owns accountID row \<longleftrightarrow> ch_AccountID row = accountID \<and> \<not> ch_Deleted row"

definition slot_used :: "store \<Rightarrow> int \<Rightarrow> int \<Rightarrow> bool" where
  "slot_used s accountID slot \<longleftrightarrow>
     (\<exists>row \<in> ran (characters s). owns accountID row \<and> ch_SlotIndex row = slot)"

definition unix_zero :: time where "unix_zero = unix_epoch"

definition zero_Character :: Character where
  "zero_Character = \<lparr>ch_ID = 0, ch_AccountID = 0, ch_Name = [], ch_SlotIndex = 0, ch_Level = 0, ch_Exp = 0,
     ch_HighestClearedChapterID = 0, ch_HighestClearedFloorID = 0, ch_Appearance = Map.empty,
     ch_EquipmentItems = [], ch_CreatedAt = 0, ch_LastPlayed = 0, ch_HasLastPlayed = False,
     ch_Deleted = False\<rparr>"

definition fresh_state :: characterStateRecord where
  "fresh_state = \<lparr>cs_PosX = Fin 0, cs_PosY = Fin 0, cs_CurrentMap = [], cs_PlayTimeSec = 0,
     cs_Hunger = Fin 100, cs_LastPlayed = unix_zero, cs_HasLastPlayed = False\<rparr>"

definition CreateCharacterWithAppearance ::
  "store \<Rightarrow> int \<Rightarrow> string \<Rightarrow> attrs option \<Rightarrow> Character op" where
  "CreateCharacterWithAppearance s accountID name appearance =
     (case accounts s accountID of
        None \<Rightarrow> (s, Inl ErrNotFound)
      | Some _ \<Rightarrow>
          (case find (\<lambda>candidate. \<not> slot_used s accountID candidate) [0, 1, 2] of
             None \<Rightarrow> (s, Inl (ErrMsg ''character slots are full''))
           | Some slotIndex \<Rightarrow>
               let (s1, id) = store_next s;
                   row = zero_Character\<lparr>ch_ID := id, ch_AccountID := accountID, ch_Name := name,
                     ch_SlotIndex := slotIndex, ch_Level := 1,
                     ch_Appearance := (case appearance of None \<Rightarrow> Map.empty | Some a \<Rightarrow> a),
                     ch_CreatedAt := time_Now s1, ch_LastPlayed := unix_zero\<rparr>;
                   s2 = tick s1
               in (s2\<lparr>characters := (characters s2)(id \<mapsto> row),
                      characterStates := (characterStates s2)(id \<mapsto> fresh_state)\<rparr>, Inr row)))"

definition CreateCharacter :: "store \<Rightarrow> int \<Rightarrow> string \<Rightarrow> Character op" where
  "CreateCharacter s accountID name = CreateCharacterWithAppearance s accountID name None"

definition with_last_played :: "store \<Rightarrow> int \<Rightarrow> Character \<Rightarrow> Character" where
  "with_last_played s k row =
     (case characterStates s k of
        None \<Rightarrow> row
      | Some state \<Rightarrow> row\<lparr>ch_LastPlayed := cs_LastPlayed state,
                           ch_HasLastPlayed := cs_HasLastPlayed state\<rparr>)"

definition Characters :: "store \<Rightarrow> int list \<Rightarrow> int \<Rightarrow> Character list" where
  "Characters s ks accountID =
     sort_key ch_ID
       (map (\<lambda>row. with_last_played s (ch_ID row) row)
          (filter (owns accountID) (map_values (characters s) ks)))"

definition Character_get :: "store \<Rightarrow> int \<Rightarrow> int \<Rightarrow> Character option" where
  "Character_get s accountID characterID =
     (case characters s characterID of
        None \<Rightarrow> None
      | Some row \<Rightarrow> if owns accountID row then Some (with_last_played s characterID row) else None)"

definition DeleteCharacter :: "store \<Rightarrow> int \<Rightarrow> int \<Rightarrow> unit op" where
  "DeleteCharacter s accountID characterID =
     (case characters s characterID of
        None \<Rightarrow> (s, Inl ErrNotFound)
      | Some row \<Rightarrow>
          if \<not> owns accountID row then (s, Inl ErrNotFound)
          else (s\<lparr>characters := (characters s)(characterID \<mapsto> row\<lparr>ch_Deleted := True\<rparr>),
                  characterStates := (characterStates s)(characterID := None)\<rparr>, Inr ()))"

definition PlayerProfile :: "store \<Rightarrow> int \<Rightarrow> int \<Rightarrow> PlayerState op" where
  "PlayerProfile s accountID characterID =
     (case characters s characterID of
        None \<Rightarrow> (s, Inl ErrNotFound)
      | Some row \<Rightarrow>
          if \<not> owns accountID row then (s, Inl ErrNotFound)
          else
            let (s1, state) = (case characterStates s characterID of
                 Some state \<Rightarrow> (s, state)
               | None \<Rightarrow> (s\<lparr>characterStates := (characterStates s)(characterID \<mapsto> fresh_state)\<rparr>, fresh_state))
            in (s1, Inr \<lparr>ps_AccountID = accountID, ps_CharacterID = characterID,
                  ps_PosX = cs_PosX state, ps_PosY = cs_PosY state,
                  ps_CurrentMap = cs_CurrentMap state, ps_PlayTimeSec = cs_PlayTimeSec state,
                  ps_Hunger = cs_Hunger state, ps_Level = ch_Level row, ps_Exp = ch_Exp row,
                  ps_ExpToNextLevel = 0, ps_Appearance = ch_Appearance row,
                  ps_CharacterName = ch_Name row, ps_LastPlayed = cs_LastPlayed state,
                  ps_HasLastPlayed = cs_HasLastPlayed state\<rparr>))"

definition SavePlayerState :: "store \<Rightarrow> PlayerSaveRequest \<Rightarrow> unit op" where
  "SavePlayerState s req =
     (case characters s (pr_CharacterID req) of
        None \<Rightarrow> (s, Inl ErrNotFound)
      | Some row \<Rightarrow>
          if \<not> owns (pr_AccountID req) row then (s, Inl ErrNotFound)
          else if pr_PlayTimeSec req < 0 then (s, Inl (ErrMsg ''playTimeSec must be non-negative''))
          else if float_less (pr_Hunger req) (Fin 0)
          then (s, Inl (ErrMsg ''hunger must be non-negative''))
          else ((tick s)\<lparr>characterStates := (characterStates s)(pr_CharacterID req \<mapsto>
                  \<lparr>cs_PosX = pr_PosX req, cs_PosY = pr_PosY req,
                   cs_CurrentMap = TrimSpace (pr_CurrentMap req),
                   cs_PlayTimeSec = pr_PlayTimeSec req, cs_Hunger = pr_Hunger req,
                   cs_LastPlayed = time_Now s, cs_HasLastPlayed = True\<rparr>)\<rparr>, Inr ()))"

section \<open>A nonce is consumed at most once\<close>

definition nonce_spent :: "store \<Rightarrow> string \<Rightarrow> bool" where
  "nonce_spent s nonce \<longleftrightarrow> (case nonces s nonce of None \<Rightarrow> True | Some row \<Rightarrow> wn_Status row \<noteq> ''PENDING'')"

lemma nonces_set_status [simp]:
  "nonces (set_nonce_status s n row st) = (nonces s)(n \<mapsto> row\<lparr>wn_Status := st\<rparr>)"
  by (simp add: set_nonce_status_def)

lemma SaveWalletNonce_eq:
  "nonces (SaveWalletNonce s row) = (nonces s)(wn_Nonce row \<mapsto>
     row\<lparr>wn_CreatedAt := if IsZero (wn_CreatedAt row) then time_Now s else wn_CreatedAt row,
         wn_Status := if wn_Status row = [] then ''PENDING'' else wn_Status row\<rparr>)"
  by (simp add: SaveWalletNonce_def tick_def Let_def)

interpretation nonce: single_use "\<lambda>s n (w, now). ConsumeWalletNonce s n w now" nonce_spent "\<lambda>_ _. True"
proof
  fix s s' n e and r :: unit
  show "nonce_spent s' n" if "(case e of (w, now) \<Rightarrow> ConsumeWalletNonce s n w now) = (s', Inr r)"
    using that by (auto simp: ConsumeWalletNonce_def nonce_spent_def split: prod.splits option.splits if_splits)
  show "\<not> is_ok (snd (case e of (w, now) \<Rightarrow> ConsumeWalletNonce s n w now))" if "nonce_spent s n"
    using that by (auto simp: ConsumeWalletNonce_def nonce_spent_def split: prod.splits option.splits)
  show "nonce_spent (fst (case e of (w, now) \<Rightarrow> ConsumeWalletNonce s j w now)) n" if "nonce_spent s n" for j
    using that by (auto simp: ConsumeWalletNonce_def nonce_spent_def split: prod.splits option.splits if_splits)
qed

text \<open>The calls a client can make, in any order, and whether each consumption succeeds.\<close>

datatype nonce_call =
    Save_nonce WalletLoginNonce
  | Read_nonce string string time
  | Consume_nonce string string time

fun nonce_run :: "store \<Rightarrow> nonce_call list \<Rightarrow> (string \<times> bool) list" where
  "nonce_run s [] = []"
| "nonce_run s (Save_nonce row # cs) = nonce_run (SaveWalletNonce s row) cs"
| "nonce_run s (Read_nonce n w now # cs) = nonce_run (fst (WalletNonce s n w now)) cs"
| "nonce_run s (Consume_nonce n w now # cs) =
     (n, is_ok (snd (ConsumeWalletNonce s n w now))) # nonce_run (fst (ConsumeWalletNonce s n w now)) cs"

fun nonce_event :: "nonce_call \<Rightarrow> (store \<Rightarrow> store) + string \<times> string \<times> time" where
  "nonce_event (Save_nonce row) = Inl (\<lambda>s. SaveWalletNonce s row)"
| "nonce_event (Read_nonce n w now) = Inl (\<lambda>s. fst (WalletNonce s n w now))"
| "nonce_event (Consume_nonce n w now) = Inr (n, w, now)"

lemma nonce_run_eq: "nonce_run s cs = nonce.run s (map nonce_event cs)"
  by (induction s cs rule: nonce_run.induct) simp_all

lemma WalletNonce_keeps: "nonce_spent s n \<Longrightarrow> nonce_spent (fst (WalletNonce s j w now)) n"
  by (auto simp: WalletNonce_def nonce_spent_def split: option.splits)

lemma SaveWalletNonce_keeps: "nonce_spent s n \<Longrightarrow> wn_Nonce row \<noteq> n \<Longrightarrow> nonce_spent (SaveWalletNonce s row) n"
  by (simp add: nonce_spent_def SaveWalletNonce_eq)

lemma nonce_calls_harmless:
  "\<forall>row. Save_nonce row \<in> set cs \<longrightarrow> wn_Nonce row \<noteq> n \<Longrightarrow> nonce.harmless n (map nonce_event cs)"
proof (induction cs)
  case (Cons c cs)
  then show ?case by (cases c) (auto simp: WalletNonce_keeps SaveWalletNonce_keeps)
qed (simp add: nonce.harmless_def)

text \<open>
  Property C9. A wallet login nonce authenticates at most one login: in any sequence of nonce
  calls that does not save the same nonce again, at most one consumption of it succeeds.
\<close>

theorem wallet_nonce_single_use:
  assumes "\<forall>row. Save_nonce row \<in> set cs \<longrightarrow> wn_Nonce row \<noteq> n"
  shows "count_list (nonce_run s cs) (n, True) \<le> 1"
  unfolding nonce_run_eq by (rule nonce.at_most_once) (rule nonce_calls_harmless [OF assms])

definition sample_nonce :: WalletLoginNonce where
  "sample_nonce = \<lparr>wn_Nonce = ''n'', wn_Wallet = ''w'', wn_Message = ''m'', wn_Status = [],
     wn_ExpiresAt = 10, wn_CreatedAt = 1\<rparr>"

theorem wallet_nonce_single_use_witness:
  "count_list (nonce_run (SaveWalletNonce (New (\<lambda>_. 1)) sample_nonce)
     [Consume_nonce ''n'' ''w'' 5, Consume_nonce ''n'' ''w'' 6]) (''n'', True) \<le> 1 \<and>
   is_ok (snd (ConsumeWalletNonce (SaveWalletNonce (New (\<lambda>_. 1)) sample_nonce) ''n'' ''w'' 5))"
proof
  show "count_list (nonce_run (SaveWalletNonce (New (\<lambda>_. 1)) sample_nonce)
     [Consume_nonce ''n'' ''w'' 5, Consume_nonce ''n'' ''w'' 6]) (''n'', True) \<le> 1"
    by (rule wallet_nonce_single_use) simp
  show "is_ok (snd (ConsumeWalletNonce (SaveWalletNonce (New (\<lambda>_. 1)) sample_nonce) ''n'' ''w'' 5))"
    by (simp add: ConsumeWalletNonce_def SaveWalletNonce_eq sample_nonce_def After_def IsZero_def)
qed

section \<open>The registry invariant\<close>

definition numbered :: "store \<Rightarrow> bool" where
  "numbered s \<longleftrightarrow> i64 (nextID s) \<and> (\<forall>k \<in> dom (accounts s) \<union> dom (characters s). k \<le> nextID s)"

definition wallets_ok :: "store \<Rightarrow> bool" where
  "wallets_ok s \<longleftrightarrow>
     (\<forall>w k. byWallet s w = Some k \<longrightarrow> (\<exists>row. accounts s k = Some row \<and> ac_WalletAddress row = w)) \<and>
     (\<forall>k row. accounts s k = Some row \<longrightarrow> ac_ID row = k \<and> byWallet s (ac_WalletAddress row) = Some k)"

definition characters_ok :: "store \<Rightarrow> bool" where
  "characters_ok s \<longleftrightarrow>
     (\<forall>k row. characters s k = Some row \<longrightarrow> ch_ID row = k \<and> ch_AccountID row \<in> dom (accounts s) \<and>
        (\<not> ch_Deleted row \<longrightarrow> ch_SlotIndex row \<in> {0, 1, 2})) \<and>
     (\<forall>j k r r'. characters s j = Some r \<longrightarrow> characters s k = Some r' \<longrightarrow>
        \<not> ch_Deleted r \<longrightarrow> owns (ch_AccountID r) r' \<longrightarrow> ch_SlotIndex r = ch_SlotIndex r' \<longrightarrow> j = k)"

definition registry_ok :: "store \<Rightarrow> bool" where
  "registry_ok s \<longleftrightarrow> numbered s \<and> wallets_ok s \<and> characters_ok s"

text \<open>
  The steps of the registry itself. \<open>WholeStore\<close> shows that every operation of the repository is one of
  these steps, or a finished dungeon run, which changes characters too, and that all of them keep the
  registry in order.
\<close>

inductive registry_op :: "store \<Rightarrow> store \<Rightarrow> bool" where
  upsert: "registry_op s (fst (UpsertAccountByWallet s w))"
| ban: "registry_op s (fst (SetAccountBan s a banned reason))"
| create: "registry_op s (fst (CreateCharacterWithAppearance s a name app))"
| delete: "registry_op s (fst (DeleteCharacter s a c))"
| other: "accounts t = accounts s \<Longrightarrow> byWallet t = byWallet s \<Longrightarrow> characters t = characters s \<Longrightarrow> registry_op s t"

definition registry_step :: "store \<Rightarrow> store \<Rightarrow> bool" where
  "registry_step s t \<longleftrightarrow> registry_op s t \<and> nextID s \<le> nextID t \<and> i64 (nextID t)"

lemma numbered_fresh:
  assumes "numbered s" and "nextID s \<le> w64 (nextID s + 1)"
  shows "w64 (nextID s + 1) = nextID s + 1" "accounts s (nextID s + 1) = None" "characters s (nextID s + 1) = None"
proof -
  have "nextID s + 1 < 2 ^ 63"
  proof (rule ccontr)
    assume "\<not> nextID s + 1 < 2 ^ 63"
    with assms(1) have "nextID s = 2 ^ 63 - 1" by (simp add: numbered_def i64_def)
    with assms(2) show False by (simp add: w64_def)
  qed
  with assms(1) show "w64 (nextID s + 1) = nextID s + 1" by (simp add: numbered_def w64_id i64_def)
  have "nextID s + 1 \<notin> dom (accounts s) \<union> dom (characters s)" using assms(1) by (force simp: numbered_def)
  then show "accounts s (nextID s + 1) = None" "characters s (nextID s + 1) = None" by (simp_all add: domIff)
qed

lemma UpsertAccountByWallet_cases:
  obtains (known) k row where "byWallet s w = Some k" "accounts s k = Some row"
      "snd (UpsertAccountByWallet s w) = Inr (row\<lparr>ac_LastLoginAt := time_Now s\<rparr>)"
      "fst (UpsertAccountByWallet s w) =
         (tick s)\<lparr>accounts := (accounts s)(k \<mapsto> row\<lparr>ac_LastLoginAt := time_Now s\<rparr>)\<rparr>"
  | (dangling) k where "byWallet s w = Some k" "accounts s k = None"
      "UpsertAccountByWallet s w = (tick s, Inl Panic)"
  | (fresh) row where "byWallet s w = None" "snd (UpsertAccountByWallet s w) = Inr row"
      "ac_ID row = w64 (nextID s + 1)" "ac_WalletAddress row = w" "\<not> ac_IsBanned row"
      "accounts (fst (UpsertAccountByWallet s w)) = (accounts s)(w64 (nextID s + 1) \<mapsto> row)"
      "byWallet (fst (UpsertAccountByWallet s w)) = (byWallet s)(w \<mapsto> w64 (nextID s + 1))"
      "characters (fst (UpsertAccountByWallet s w)) = characters s"
      "nextID (fst (UpsertAccountByWallet s w)) = w64 (nextID s + 1)"
proof (cases "byWallet s w")
  case None
  then show ?thesis
    by (intro fresh [OF None sum.collapse(2) [symmetric]])
      (simp_all add: UpsertAccountByWallet_def store_simps Let_def)
next
  case (Some k)
  then show ?thesis
    using known [of k] dangling [of k]
    by (cases "accounts s k") (simp_all add: UpsertAccountByWallet_def tick_def time_Now_def Let_def)
qed

lemma wallets_ok_iff:
  "wallets_ok s \<Longrightarrow> byWallet s w = Some k \<longleftrightarrow> (\<exists>row. accounts s k = Some row \<and> ac_WalletAddress row = w)"
  unfolding wallets_ok_def by blast

lemma wallets_okI:
  assumes "\<And>w k. byWallet s w = Some k \<longleftrightarrow> (\<exists>row. accounts s k = Some row \<and> ac_WalletAddress row = w)"
    and "\<And>k row. accounts s k = Some row \<Longrightarrow> ac_ID row = k"
  shows "wallets_ok s"
  using assms unfolding wallets_ok_def by blast

lemma wallets_ok_ID: "wallets_ok s \<Longrightarrow> accounts s k = Some row \<Longrightarrow> ac_ID row = k"
  unfolding wallets_ok_def by blast

lemma wallets_ok_touch:
  assumes "wallets_ok s" and "accounts s k = Some row" and "ac_ID row' = ac_ID row"
    and "ac_WalletAddress row' = ac_WalletAddress row"
    and "accounts t = (accounts s)(k \<mapsto> row')" and "byWallet t = byWallet s"
  shows "wallets_ok t"
  by (rule wallets_okI)
    (use assms wallets_ok_ID [OF assms(1)] in \<open>auto simp: wallets_ok_iff [OF assms(1)] split: if_splits\<close>)

lemma wallets_ok_new:
  assumes "wallets_ok s" and "byWallet s w = None" and "accounts s k = None" and "ac_ID row = k"
    and "ac_WalletAddress row = w"
    and "accounts t = (accounts s)(k \<mapsto> row)" and "byWallet t = (byWallet s)(w \<mapsto> k)"
  shows "wallets_ok t"
proof (rule wallets_okI)
  have no: "accounts s j = Some r \<Longrightarrow> ac_WalletAddress r \<noteq> w" for j r
    using assms(2) wallets_ok_iff [OF assms(1), of w j] by auto
  show "byWallet t v = Some j \<longleftrightarrow> (\<exists>r. accounts t j = Some r \<and> ac_WalletAddress r = v)" for v j
    using assms(3-) no by (auto simp: wallets_ok_iff [OF assms(1)])
  show "ac_ID r = j" if "accounts t j = Some r" for j r
    using that assms(4,6) wallets_ok_ID [OF assms(1)] by (auto split: if_splits)
qed

lemma characters_ok_accounts:
  "characters_ok s \<Longrightarrow> characters t = characters s \<Longrightarrow> dom (accounts s) \<subseteq> dom (accounts t) \<Longrightarrow> characters_ok t"
  unfolding characters_ok_def by (simp only: subset_iff) blast

lemma registry_upsert:
  assumes "registry_ok s" and "nextID s \<le> nextID (fst (UpsertAccountByWallet s w))"
  shows "registry_ok (fst (UpsertAccountByWallet s w))" (is "registry_ok ?t")
proof (cases rule: UpsertAccountByWallet_cases [of s w])
  case (known k row)
  have t: "accounts ?t = (accounts s)(k \<mapsto> row\<lparr>ac_LastLoginAt := time_Now s\<rparr>)" "byWallet ?t = byWallet s"
    "characters ?t = characters s" "nextID ?t = nextID s"
    using known(4) by (simp_all add: tick_def)
  have "wallets_ok ?t"
    by (rule wallets_ok_touch [OF _ known(2) _ _ t(1,2)]) (use assms(1) in \<open>auto simp: registry_ok_def\<close>)
  moreover have "characters_ok ?t"
    by (rule characters_ok_accounts [OF _ t(3)]) (use assms(1) t(1) in \<open>auto simp: registry_ok_def\<close>)
  ultimately show ?thesis
    using assms(1) known(2) t by (auto simp: registry_ok_def numbered_def)
next
  case (dangling k)
  then show ?thesis using assms(1) wallets_ok_iff [of s w k] by (simp add: registry_ok_def)
next
  case (fresh row)
  note n = numbered_fresh [of s, OF _ assms(2) [unfolded fresh(9)]]
  have k: "w64 (nextID s + 1) = nextID s + 1" "accounts s (nextID s + 1) = None"
    using assms(1) n by (simp_all add: registry_ok_def)
  have "wallets_ok ?t"
    by (rule wallets_ok_new [of s w "nextID s + 1" row]) (use assms(1) fresh k in \<open>auto simp: registry_ok_def\<close>)
  moreover have "characters_ok ?t"
    by (rule characters_ok_accounts [OF _ fresh(8)]) (use assms(1) fresh(6) in \<open>auto simp: registry_ok_def\<close>)
  moreover have "numbered ?t"
    using assms(1) fresh(6,8,9) k i64_w64 [of "nextID s + 1"] by (force simp: registry_ok_def numbered_def)
  ultimately show ?thesis by (simp add: registry_ok_def)
qed

lemma registry_ban:
  assumes "registry_ok s"
  shows "registry_ok (fst (SetAccountBan s a banned reason))" (is "registry_ok ?t")
proof (cases "accounts s a")
  case (Some row)
  have t: "accounts ?t = (accounts s)(a \<mapsto> row\<lparr>ac_IsBanned := banned\<rparr>)" "byWallet ?t = byWallet s"
    "characters ?t = characters s" "nextID ?t = nextID s"
    by (simp_all add: SetAccountBan_def Some)
  have "wallets_ok ?t"
    by (rule wallets_ok_touch [OF _ Some _ _ t(1,2)]) (use assms in \<open>auto simp: registry_ok_def\<close>)
  moreover have "characters_ok ?t"
    by (rule characters_ok_accounts [OF _ t(3)]) (use assms t(1) in \<open>auto simp: registry_ok_def\<close>)
  ultimately show ?thesis using assms Some t by (auto simp: registry_ok_def numbered_def)
qed (simp add: SetAccountBan_def assms)

lemma CreateCharacter_cases:
  obtains (refused) e where "CreateCharacterWithAppearance s a name app = (s, Inl e)"
      "a \<notin> dom (accounts s) \<or> (\<forall>slot \<in> {0, 1, 2}. slot_used s a slot)"
  | (created) row where "snd (CreateCharacterWithAppearance s a name app) = Inr row"
      "a \<in> dom (accounts s)" "ch_SlotIndex row \<in> {0, 1, 2}" "\<not> slot_used s a (ch_SlotIndex row)"
      "ch_ID row = w64 (nextID s + 1)" "owns a row" "ch_Name row = name" "ch_Level row = 1"
      "characters (fst (CreateCharacterWithAppearance s a name app)) = (characters s)(w64 (nextID s + 1) \<mapsto> row)"
      "accounts (fst (CreateCharacterWithAppearance s a name app)) = accounts s"
      "byWallet (fst (CreateCharacterWithAppearance s a name app)) = byWallet s"
      "nextID (fst (CreateCharacterWithAppearance s a name app)) = w64 (nextID s + 1)"
proof (cases "a \<in> dom (accounts s) \<and> (\<exists>slot \<in> {0, 1, 2}. \<not> slot_used s a slot)")
  case True
  then obtain acc where acc: "accounts s a = Some acc" by auto
  have "\<exists>slot. find (\<lambda>c. \<not> slot_used s a c) [0, 1, 2] = Some slot"
    using True by (cases "slot_used s a 0"; cases "slot_used s a 1") auto
  then obtain slot where slot: "find (\<lambda>c. \<not> slot_used s a c) [0, 1, 2] = Some slot" by blast
  then have "slot \<in> {0, 1, 2}" "\<not> slot_used s a slot" by (auto split: if_splits)
  with slot have slot: "find (\<lambda>c. \<not> slot_used s a c) [0, 1, 2] = Some slot" "slot \<in> {0, 1, 2}"
    "\<not> slot_used s a slot" by blast+
  then show ?thesis
    using acc by (intro created [OF sum.collapse(2) [symmetric]])
      (auto simp: CreateCharacterWithAppearance_def store_simps Let_def owns_def zero_Character_def
        simp del: find.simps)
next
  case False
  show ?thesis
  proof (cases "accounts s a")
    case None
    then show ?thesis by (intro refused [of ErrNotFound]) (auto simp: CreateCharacterWithAppearance_def)
  next
    case (Some acc)
    with False have full: "slot_used s a 0" "slot_used s a 1" "slot_used s a 2" by auto
    with Some show ?thesis
      by (intro refused [of "ErrMsg ''character slots are full''"])
        (simp_all add: CreateCharacterWithAppearance_def)
  qed
qed

lemma characters_ok_new:
  assumes "characters_ok s" and "characters s k = None" and "ch_ID row = k" and "a \<in> dom (accounts s)"
    and "owns a row" and "ch_SlotIndex row \<in> {0, 1, 2}" and "\<not> slot_used s a (ch_SlotIndex row)"
    and "characters t = (characters s)(k \<mapsto> row)" and "accounts t = accounts s"
  shows "characters_ok t"
proof -
  have free: "\<not> (owns a r \<and> ch_SlotIndex r = ch_SlotIndex row)" if "characters s j = Some r" for j r
    using assms(7) that by (auto simp: slot_used_def ran_def)
  have a: "ch_AccountID row = a" "\<not> ch_Deleted row" using assms(5) by (auto simp: owns_def)
  have old: "\<And>k r. characters s k = Some r \<Longrightarrow> ch_ID r = k \<and> ch_AccountID r \<in> dom (accounts s) \<and>
      (\<not> ch_Deleted r \<longrightarrow> ch_SlotIndex r \<in> {0, 1, 2})"
    and dist: "\<And>j k r r'. characters s j = Some r \<Longrightarrow> characters s k = Some r' \<Longrightarrow> \<not> ch_Deleted r \<Longrightarrow>
      owns (ch_AccountID r) r' \<Longrightarrow> ch_SlotIndex r = ch_SlotIndex r' \<Longrightarrow> j = k"
    using assms(1) unfolding characters_ok_def by blast+
  show ?thesis
    unfolding characters_ok_def assms(8,9)
  proof (intro conjI allI impI)
    fix j i r r'
    assume r: "((characters s)(k \<mapsto> row)) j = Some r" "((characters s)(k \<mapsto> row)) i = Some r'"
      "\<not> ch_Deleted r" "owns (ch_AccountID r) r'" "ch_SlotIndex r = ch_SlotIndex r'"
    show "j = i"
    proof (cases "j = k \<or> i = k")
      case True
      then show ?thesis using r free a by (auto simp: owns_def split: if_splits)
    next
      case False
      then show ?thesis using r by (auto intro: dist)
    qed
  qed (use old a assms(3,4,6) in \<open>auto split: if_splits\<close>)
qed

lemma registry_create:
  assumes "registry_ok s" and "nextID s \<le> nextID (fst (CreateCharacterWithAppearance s a name app))"
  shows "registry_ok (fst (CreateCharacterWithAppearance s a name app))" (is "registry_ok ?t")
proof (cases rule: CreateCharacter_cases [of s a name app])
  case (refused e)
  then show ?thesis using assms(1) by simp
next
  case (created row)
  note n = numbered_fresh [of s, OF _ assms(2) [unfolded created(12)]]
  have k: "w64 (nextID s + 1) = nextID s + 1" "characters s (nextID s + 1) = None"
    using assms(1) n by (simp_all add: registry_ok_def)
  have "characters_ok ?t"
    by (rule characters_ok_new [of s "nextID s + 1" row a])
      (use assms(1) created k in \<open>simp_all add: registry_ok_def\<close>)
  moreover have "wallets_ok ?t" using assms(1) created(10,11) by (simp add: registry_ok_def wallets_ok_def)
  moreover have "numbered ?t"
    using assms(1) created(9,10,12) k i64_w64 [of "nextID s + 1"] by (force simp: registry_ok_def numbered_def)
  ultimately show ?thesis by (simp add: registry_ok_def)
qed

lemma registry_delete:
  assumes "registry_ok s"
  shows "registry_ok (fst (DeleteCharacter s a c))" (is "registry_ok ?t")
proof (cases "\<exists>row. characters s c = Some row \<and> owns a row")
  case True
  then obtain row where row: "characters s c = Some row" "owns a row" by blast
  have t: "characters ?t = (characters s)(c \<mapsto> row\<lparr>ch_Deleted := True\<rparr>)" "accounts ?t = accounts s"
    "byWallet ?t = byWallet s" "nextID ?t = nextID s"
    using row by (simp_all add: DeleteCharacter_def)
  have "characters_ok ?t"
    using assms row(1) unfolding registry_ok_def characters_ok_def t by (auto simp: owns_def split: if_splits)
  then show ?thesis using assms row(1) t by (auto simp: registry_ok_def numbered_def wallets_ok_def)
next
  case False
  then have "?t = s" by (auto simp: DeleteCharacter_def split: option.splits)
  with assms show ?thesis by simp
qed

lemma registry_other:
  "registry_ok s \<Longrightarrow> accounts t = accounts s \<Longrightarrow> byWallet t = byWallet s \<Longrightarrow> characters t = characters s \<Longrightarrow>
   nextID s \<le> nextID t \<Longrightarrow> i64 (nextID t) \<Longrightarrow> registry_ok t"
  unfolding registry_ok_def numbered_def wallets_ok_def characters_ok_def by (auto intro: order_trans)

lemma registry_step_ok:
  assumes "registry_step s t" and "registry_ok s"
  shows "registry_ok t"
  using assms unfolding registry_step_def
  by (elim conjE registry_op.cases)
    (auto intro: registry_upsert registry_ban registry_create registry_delete registry_other)

definition fresh_store :: "store \<Rightarrow> bool" where
  "fresh_store s \<longleftrightarrow> (\<exists>clk. s = New clk)"

interpretation registry: machine fresh_store registry_step registry_ok
proof
  show "registry_ok s" if "fresh_store s" for s
    using that by (auto simp: fresh_store_def registry_ok_def numbered_def wallets_ok_def characters_ok_def i64_def)
  show "registry_ok t" if "registry_ok s" "registry_step s t" for s t
    using that by (blast intro: registry_step_ok)
qed

section \<open>Logins and character slots\<close>

text \<open>
  In a registry that is in order logging in with a wallet returns the account of that wallet: the
  login never panics, a known wallet gets the account that has it, with its ban flag, and no other
  account of the store has the wallet.
\<close>

lemma registry_login:
  assumes "registry_ok t"
  shows "\<exists>row. snd (UpsertAccountByWallet t w) = Inr row \<and> ac_WalletAddress row = w \<and>
    accounts (fst (UpsertAccountByWallet t w)) (ac_ID row) = Some row \<and>
    (\<forall>k r. accounts t k = Some r \<longrightarrow> ac_WalletAddress r = w \<longrightarrow>
       k = ac_ID row \<and> ac_IsBanned row = ac_IsBanned r)"
proof -
  have ok: "wallets_ok t" using assms by (simp add: registry_ok_def)
  note iff = wallets_ok_iff [OF ok] and ids = wallets_ok_ID [OF ok]
  show ?thesis
  proof (cases rule: UpsertAccountByWallet_cases [of t w])
    case (known k row)
    then have w: "ac_WalletAddress row = w" using iff [of w k] by simp
    let ?row = "row\<lparr>ac_LastLoginAt := time_Now t\<rparr>"
    have "k' = ac_ID ?row \<and> ac_IsBanned ?row = ac_IsBanned r"
      if "accounts t k' = Some r" "ac_WalletAddress r = w" for k' r
    proof -
      have "k' = k" using that iff [of w k'] known(1) by auto
      with that known(2) ids [OF known(2)] show ?thesis by simp
    qed
    with known(3,4) w ids [OF known(2)] show ?thesis by (intro exI [of _ ?row] conjI) simp_all
  next
    case (dangling k)
    then show ?thesis using iff [of w k] by simp
  next
    case (fresh row)
    have "ac_WalletAddress r \<noteq> w" if "accounts t j = Some r" for j r
      using that iff [of w j] fresh(1) by auto
    then show ?thesis using fresh(2-6) by (intro exI [of _ row]) auto
  qed
qed

abbreviation one_account :: store where
  "one_account \<equiv> fst (UpsertAccountByWallet (New (\<lambda>_. 1)) ''w'')"

abbreviation one_hero :: store where
  "one_hero \<equiv> fst (CreateCharacterWithAppearance one_account 1001 ''hero'' None)"

lemma one_account_fields:
  "nextID one_account = 1001" "byWallet one_account = [''w'' \<mapsto> 1001]" "characters one_account = Map.empty"
  "\<exists>row. accounts one_account = [1001 \<mapsto> row] \<and> ac_ID row = 1001 \<and> ac_WalletAddress row = ''w'' \<and> \<not> ac_IsBanned row"
  by (simp_all add: UpsertAccountByWallet_def store_simps Let_def w64_def) (rule exI, rule conjI, rule refl, simp)

lemma one_hero_fields:
  "nextID one_hero = 1002"
  "\<exists>row. characters one_hero = [1002 \<mapsto> row] \<and> owns 1001 row \<and> ch_SlotIndex row = 0 \<and>
    ch_Level row = 1 \<and> ch_Exp row = 0"
  "1001 \<in> dom (accounts one_hero)"
proof -
  obtain acc where "accounts one_account = [1001 \<mapsto> acc]" using one_account_fields(4) by blast
  then show "nextID one_hero = 1002"
    "\<exists>row. characters one_hero = [1002 \<mapsto> row] \<and> owns 1001 row \<and> ch_SlotIndex row = 0 \<and>
    ch_Level row = 1 \<and> ch_Exp row = 0"
    "1001 \<in> dom (accounts one_hero)"
    by (simp_all add: CreateCharacterWithAppearance_def slot_used_def one_account_fields store_simps
        Let_def w64_def owns_def zero_Character_def) (rule exI, rule conjI, rule refl, simp)
qed

definition live_characters :: "store \<Rightarrow> int \<Rightarrow> int set" where
  "live_characters s a = {k. \<exists>row. characters s k = Some row \<and> owns a row}"

definition slot_of :: "store \<Rightarrow> int \<Rightarrow> int" where
  "slot_of s k = (case characters s k of None \<Rightarrow> 0 | Some row \<Rightarrow> ch_SlotIndex row)"

lemma slots_inj:
  assumes "characters_ok s"
  shows "inj_on (slot_of s) (live_characters s a)" and "slot_of s ` live_characters s a \<subseteq> {0, 1, 2}"
proof -
  show "inj_on (slot_of s) (live_characters s a)"
  proof (rule inj_onI)
    fix j k assume "j \<in> live_characters s a" "k \<in> live_characters s a" "slot_of s j = slot_of s k"
    then obtain r r' where "characters s j = Some r" "characters s k = Some r'" "\<not> ch_Deleted r"
      "owns (ch_AccountID r) r'" "ch_SlotIndex r = ch_SlotIndex r'"
      by (auto simp: live_characters_def slot_of_def owns_def)
    then show "j = k" using assms unfolding characters_ok_def by blast
  qed
  have "ch_SlotIndex row \<in> {0, 1, 2}" if "characters s k = Some row" "owns a row" for k row
    using assms that unfolding characters_ok_def owns_def by blast
  then show "slot_of s ` live_characters s a \<subseteq> {0, 1, 2}"
    by (force simp: live_characters_def slot_of_def)
qed

lemma slot_used_iff: "slot_used s a x \<longleftrightarrow> x \<in> slot_of s ` live_characters s a"
  by (force simp: slot_used_def live_characters_def slot_of_def ran_def)

lemma live_at_most_three:
  assumes "characters_ok s"
  shows "finite (live_characters s a)" and "card (live_characters s a) \<le> 3"
    and "card (live_characters s a) = 3 \<longleftrightarrow> (\<forall>x \<in> {0, 1, 2}. slot_used s a x)"
proof -
  note inj = slots_inj(1) [OF assms, of a] and sub = slots_inj(2) [OF assms, of a]
  show fin: "finite (live_characters s a)" using inj sub by (meson finite.simps finite_imageD finite_subset)
  have card: "card (live_characters s a) = card (slot_of s ` live_characters s a)"
    using inj by (simp add: card_image)
  have three: "card {0, 1, 2 :: int} = 3" by simp
  show "card (live_characters s a) \<le> 3"
    unfolding card three [symmetric] by (rule card_mono) (use sub in auto)
  show "card (live_characters s a) = 3 \<longleftrightarrow> (\<forall>x \<in> {0, 1, 2}. slot_used s a x)"
  proof
    assume "card (live_characters s a) = 3"
    then have "slot_of s ` live_characters s a = {0, 1, 2}"
      using card sub by (intro card_subset_eq) simp_all
    then show "\<forall>x \<in> {0, 1, 2}. slot_used s a x" by (simp add: slot_used_iff)
  next
    assume "\<forall>x \<in> {0, 1, 2}. slot_used s a x"
    then have "slot_of s ` live_characters s a = {0, 1, 2}" using sub unfolding slot_used_iff by blast
    then show "card (live_characters s a) = 3" by (simp add: card)
  qed
qed

text \<open>
  In a registry that is in order an account has at most three live characters, in three different
  slots; creating a character succeeds exactly when the account exists and has fewer than three,
  takes a slot that was free, and leaves every other character alone.
\<close>

lemma registry_slots:
  assumes "registry_ok t"
  shows "card (live_characters t a) \<le> 3 \<and> inj_on (slot_of t) (live_characters t a) \<and>
    slot_of t ` live_characters t a \<subseteq> {0, 1, 2} \<and>
    (is_ok (snd (CreateCharacterWithAppearance t a name app)) \<longleftrightarrow>
       a \<in> dom (accounts t) \<and> card (live_characters t a) < 3) \<and>
    (\<forall>row. snd (CreateCharacterWithAppearance t a name app) = Inr row \<longrightarrow>
       ch_SlotIndex row \<notin> slot_of t ` live_characters t a \<and>
       characters (fst (CreateCharacterWithAppearance t a name app)) = (characters t)(ch_ID row \<mapsto> row))"
proof -
  have ok: "characters_ok t" using assms by (simp add: registry_ok_def)
  note live = live_at_most_three [OF ok, of a] and inj = slots_inj [OF ok, of a]
  show ?thesis
  proof (cases rule: CreateCharacter_cases [of t a name app])
    case (refused e)
    then have "a \<notin> dom (accounts t) \<or> card (live_characters t a) = 3" using live(3) by blast
    then show ?thesis using live(2) inj refused(1) by auto
  next
    case (created row)
    have "card (live_characters t a) \<noteq> 3" unfolding live(3) using created(3,4) by blast
    then have "card (live_characters t a) < 3" using live(2) by simp
    then show ?thesis using inj created by (simp add: slot_used_iff)
  qed
qed

text \<open>
  Saving a player's state and reading the profile back returns what was saved (the
  map name trimmed, the time of the save), for a character the account owns; a character that was
  deleted, or that belongs to another account, can neither be saved nor read, before or after.
\<close>

lemma player_state_roundtrip:
  assumes "snd (SavePlayerState s req) = Inr u"
  shows "\<exists>p. snd (PlayerProfile (fst (SavePlayerState s req)) (pr_AccountID req) (pr_CharacterID req)) = Inr p \<and>
      ps_PosX p = pr_PosX req \<and> ps_PosY p = pr_PosY req \<and> ps_CurrentMap p = TrimSpace (pr_CurrentMap req) \<and>
      ps_PlayTimeSec p = pr_PlayTimeSec req \<and> 0 \<le> ps_PlayTimeSec p \<and> ps_Hunger p = pr_Hunger req \<and>
      ps_LastPlayed p = time_Now s \<and> ps_HasLastPlayed p \<and>
      snd (PlayerProfile (fst (DeleteCharacter (fst (SavePlayerState s req)) (pr_AccountID req) (pr_CharacterID req)))
        b (pr_CharacterID req)) = Inl ErrNotFound \<and>
      (b \<noteq> pr_AccountID req \<longrightarrow> snd (SavePlayerState s (req\<lparr>pr_AccountID := b\<rparr>)) = Inl ErrNotFound)"
proof -
  obtain row where row: "characters s (pr_CharacterID req) = Some row" "owns (pr_AccountID req) row"
    "0 \<le> pr_PlayTimeSec req" "\<not> float_less (pr_Hunger req) (Fin 0)"
    using assms by (auto simp: SavePlayerState_def split: option.splits if_splits)
  then have "\<not> owns b row" if "b \<noteq> pr_AccountID req" using that by (auto simp: owns_def)
  then show ?thesis
    using row by (auto simp: SavePlayerState_def PlayerProfile_def DeleteCharacter_def tick_def owns_def)
qed

definition sample_save :: PlayerSaveRequest where
  "sample_save = \<lparr>pr_AccountID = 1001, pr_CharacterID = 1002, pr_PosX = Fin 1, pr_PosY = Fin 2,
     pr_CurrentMap = ''town'', pr_PlayTimeSec = 60, pr_Hunger = Fin 90\<rparr>"

lemma player_state_roundtrip_witness:
  "\<exists>p. snd (PlayerProfile (fst (SavePlayerState one_hero sample_save)) 1001 1002) = Inr p \<and> ps_PlayTimeSec p = 60"
proof -
  have "snd (SavePlayerState one_hero sample_save) = Inr ()"
    using one_hero_fields(2) by (auto simp: SavePlayerState_def sample_save_def owns_def)
  from player_state_roundtrip [OF this] show ?thesis by (auto simp: sample_save_def)
qed

end
