(* ===== verification/Sessions.thy ===== *)
theory Sessions
  imports StoreState Contracts
begin

text \<open>
  Launch tickets, account sessions and refresh tokens of the in-memory repository
  (\<open>SaveTicket\<close> to \<open>RotateRefreshToken\<close> and \<open>AdminRevokeAccountSessions\<close> of
  \<open>src/internal/platform/store/store.go\<close>, \<open>HashToken\<close> of \<open>sessions.go\<close>).

  The SHA-256 digest is an argument, \<open>sha256\<close>: nothing is proved about it, and a theorem that
  needs two tokens to hash differently says so. The theory proves that a ticket and a refresh
  token are used at most once and that revoking a session is final.
\<close>

section \<open>Operations\<close>

record CreateSessionRequest =
  cr_SessionID :: string
  cr_AccountID :: int
  cr_RefreshToken :: string
  cr_WalletPlugin :: string
  cr_DeviceID :: string
  cr_IPAddress :: string
  cr_UserAgent :: string
  cr_ExpiresAt :: time

definition HashToken :: "(string \<Rightarrow> string) \<Rightarrow> string \<Rightarrow> string" where
  "HashToken sha256 raw = hex_EncodeToString (sha256 (TrimSpace raw))"

definition SaveTicket :: "store \<Rightarrow> GameTicket \<Rightarrow> store" where
  "SaveTicket s ticket = s\<lparr>tickets := (tickets s)(tk_Ticket ticket \<mapsto> ticket)\<rparr>"

definition ConsumeTicket :: "store \<Rightarrow> string \<Rightarrow> string \<Rightarrow> time \<Rightarrow> GameTicket op" where
  "ConsumeTicket s ticket serverID0 now =
     (let serverID = TrimSpace serverID0 in
      if serverID = [] then (s, Inl ErrForbidden)
      else case tickets s ticket of
        None \<Rightarrow> (s, Inl ErrNotFound)
      | Some row \<Rightarrow>
          if tk_Consumed row \<or> Before (tk_ExpiresAt row) now then (s, Inl ErrForbidden)
          else if tk_ServerID row = [] \<or> tk_ServerID row \<noteq> serverID then (s, Inl ErrForbidden)
          else (case sessions s (tk_SessionID row) of
              None \<Rightarrow> (s, Inl ErrForbidden)
            | Some session \<Rightarrow>
                if se_AccountID session \<noteq> tk_AccountID row \<or> se_Status session \<noteq> ''ACTIVE''
                then (s, Inl ErrForbidden)
                else let row' = row\<lparr>tk_Consumed := True\<rparr>
                     in (s\<lparr>tickets := (tickets s)(ticket \<mapsto> row')\<rparr>, Inr row')))"

definition CreateAccountSession ::
  "(string \<Rightarrow> string) \<Rightarrow> store \<Rightarrow> CreateSessionRequest \<Rightarrow> AccountSession op" where
  "CreateAccountSession sha256 s req =
     (let now = time_Now s; s = tick s;
          row = \<lparr>se_SessionID = cr_SessionID req, se_AccountID = cr_AccountID req,
                 se_WalletPlugin = cr_WalletPlugin req, se_DeviceID = cr_DeviceID req,
                 se_IPAddress = cr_IPAddress req, se_UserAgent = cr_UserAgent req,
                 se_Status = ''ACTIVE'', se_CreatedAt = now, se_LastSeenAt = Some now,
                 se_RevokedAt = None\<rparr>;
          hash = HashToken sha256 (cr_RefreshToken req);
          token = \<lparr>rt_TokenHash = hash, rt_AccountID = cr_AccountID req,
                   rt_SessionID = cr_SessionID req, rt_ExpiresAt = cr_ExpiresAt req,
                   rt_RevokedAt = None, rt_CreatedAt = now\<rparr>
      in (s\<lparr>sessions := (sessions s)(cr_SessionID req \<mapsto> row),
            refresh := (refresh s)(hash \<mapsto> token)\<rparr>, Inr row))"

definition CountMonthlyActiveAccounts :: "store \<Rightarrow> string list \<Rightarrow> time \<Rightarrow> int" where
  "CountMonthlyActiveAccounts s ks since =
     int (length (remdups (map se_AccountID
       (filter (\<lambda>row. case se_LastSeenAt row of None \<Rightarrow> False | Some t \<Rightarrow> \<not> Before t since)
          (map_values (sessions s) ks)))))"

definition GetAccountSession :: "store \<Rightarrow> string \<Rightarrow> AccountSession result" where
  "GetAccountSession s sessionID =
     (case sessions s sessionID of None \<Rightarrow> Inl ErrNotFound | Some row \<Rightarrow> Inr row)"

definition TouchAccountSession :: "store \<Rightarrow> string \<Rightarrow> time \<Rightarrow> unit op" where
  "TouchAccountSession s sessionID now =
     (case sessions s sessionID of
        None \<Rightarrow> (s, Inl ErrNotFound)
      | Some row \<Rightarrow>
          if se_Status row \<noteq> ''ACTIVE'' then (s, Inl ErrNotFound)
          else (s\<lparr>sessions := (sessions s)(sessionID \<mapsto> row\<lparr>se_LastSeenAt := Some now\<rparr>)\<rparr>, Inr ()))"

definition RevokeAccountSession :: "store \<Rightarrow> string \<Rightarrow> time \<Rightarrow> store" where
  "RevokeAccountSession s sessionID now =
     (let s1 = (case sessions s sessionID of
            None \<Rightarrow> s
          | Some row \<Rightarrow> s\<lparr>sessions := (sessions s)(sessionID \<mapsto>
              row\<lparr>se_Status := ''REVOKED'', se_RevokedAt := Some now\<rparr>)\<rparr>)
      in s1\<lparr>refresh := (\<lambda>h. map_option (\<lambda>rt.
            if rt_SessionID rt = sessionID \<and> rt_RevokedAt rt = None
            then rt\<lparr>rt_RevokedAt := Some now\<rparr> else rt) (refresh s1 h))\<rparr>)"

definition AdminRevokeAccountSessions :: "store \<Rightarrow> string list \<Rightarrow> int \<Rightarrow> store \<times> int" where
  "AdminRevokeAccountSessions s ks accountID =
     (let now = time_Now s; s = tick s;
          hit = (\<lambda>row. se_AccountID row = accountID \<and> se_Status row = ''ACTIVE'')
      in (s\<lparr>sessions := (\<lambda>k. map_option (\<lambda>row.
            if hit row then row\<lparr>se_Status := ''REVOKED'', se_RevokedAt := Some now\<rparr> else row)
            (sessions s k))\<rparr>,
          int (length (filter hit (map_values (sessions s) ks)))))"

definition LookupRefreshToken ::
  "(string \<Rightarrow> string) \<Rightarrow> store \<Rightarrow> string \<Rightarrow> time \<Rightarrow> RefreshTokenRecord result" where
  "LookupRefreshToken sha256 s rawToken now =
     (case refresh s (HashToken sha256 rawToken) of
        None \<Rightarrow> Inl ErrNotFound
      | Some row \<Rightarrow>
          if rt_RevokedAt row \<noteq> None \<or> Before (rt_ExpiresAt row) now then Inl ErrForbidden
          else Inr row)"

definition RotateRefreshToken ::
  "(string \<Rightarrow> string) \<Rightarrow> store \<Rightarrow> string \<Rightarrow> string \<Rightarrow> string \<Rightarrow> int \<Rightarrow> time \<Rightarrow> time \<Rightarrow> unit op" where
  "RotateRefreshToken sha256 s oldRaw newRaw sessionID accountID expiresAt now =
     (case refresh s (HashToken sha256 oldRaw) of
        None \<Rightarrow> (s, Inl ErrForbidden)
      | Some old \<Rightarrow>
          if rt_SessionID old \<noteq> sessionID \<or> rt_RevokedAt old \<noteq> None then (s, Inl ErrForbidden)
          else
            let s1 = s\<lparr>refresh := (refresh s)(HashToken sha256 oldRaw \<mapsto> old\<lparr>rt_RevokedAt := Some now\<rparr>)\<rparr>;
                hash = HashToken sha256 newRaw;
                s2 = s1\<lparr>refresh := (refresh s1)(hash \<mapsto>
                       \<lparr>rt_TokenHash = hash, rt_AccountID = accountID, rt_SessionID = sessionID,
                        rt_ExpiresAt = expiresAt, rt_RevokedAt = None, rt_CreatedAt = now\<rparr>)\<rparr>;
                s3 = (case sessions s2 sessionID of
                        None \<Rightarrow> s2
                      | Some sess \<Rightarrow> s2\<lparr>sessions := (sessions s2)(sessionID \<mapsto>
                          sess\<lparr>se_LastSeenAt := Some now\<rparr>)\<rparr>)
            in (s3, Inr ()))"

section \<open>Sequences of calls\<close>

datatype session_call =
    Save_ticket GameTicket
  | Consume_ticket string string time
  | Create_session CreateSessionRequest
  | Touch_session string time
  | Revoke_session string time
  | Admin_revoke "string list" int
  | Rotate_token string string string int time time

fun session_exec :: "(string \<Rightarrow> string) \<Rightarrow> store \<Rightarrow> session_call \<Rightarrow> store" where
  "session_exec sha s (Save_ticket t) = SaveTicket s t"
| "session_exec sha s (Consume_ticket t srv now) = fst (ConsumeTicket s t srv now)"
| "session_exec sha s (Create_session req) = fst (CreateAccountSession sha s req)"
| "session_exec sha s (Touch_session sid now) = fst (TouchAccountSession s sid now)"
| "session_exec sha s (Revoke_session sid now) = RevokeAccountSession s sid now"
| "session_exec sha s (Admin_revoke ks a) = fst (AdminRevokeAccountSessions s ks a)"
| "session_exec sha s (Rotate_token old new sid a e now) = fst (RotateRefreshToken sha s old new sid a e now)"

definition session_execs :: "(string \<Rightarrow> string) \<Rightarrow> store \<Rightarrow> session_call list \<Rightarrow> store" where
  "session_execs sha = foldl (session_exec sha)"

section \<open>Tickets\<close>

definition ticket_spent :: "store \<Rightarrow> string \<Rightarrow> bool" where
  "ticket_spent s t \<longleftrightarrow> (case tickets s t of None \<Rightarrow> True | Some row \<Rightarrow> tk_Consumed row)"

lemma ConsumeTicket_ok:
  "ConsumeTicket s t srv now = (s', Inr row') \<longleftrightarrow>
    (\<exists>row session. tickets s t = Some row \<and> \<not> tk_Consumed row \<and> now \<le> tk_ExpiresAt row \<and>
       tk_ServerID row \<noteq> [] \<and> tk_ServerID row = TrimSpace srv \<and>
       sessions s (tk_SessionID row) = Some session \<and> se_AccountID session = tk_AccountID row \<and>
       se_Status session = ''ACTIVE'' \<and> row' = row\<lparr>tk_Consumed := True\<rparr> \<and>
       s' = s\<lparr>tickets := (tickets s)(t \<mapsto> row')\<rparr>)"
  by (auto simp: ConsumeTicket_def Let_def Before_def split: option.splits if_splits)

lemma ConsumeTicket_cases:
  obtains (refused) e where "ConsumeTicket s t srv now = (s, Inl e)"
  | (consumed) row where "tickets s t = Some row" "\<not> tk_Consumed row"
      "ConsumeTicket s t srv now =
        (s\<lparr>tickets := (tickets s)(t \<mapsto> row\<lparr>tk_Consumed := True\<rparr>)\<rparr>, Inr (row\<lparr>tk_Consumed := True\<rparr>))"
proof (cases "ConsumeTicket s t srv now")
  case (Pair s' r)
  show ?thesis
  proof (cases r)
    case (Inr row')
    with Pair show ?thesis using consumed by (auto simp: ConsumeTicket_ok)
  next
    case (Inl e)
    with Pair have "s' = s" by (auto simp: ConsumeTicket_def Let_def split: option.splits if_splits)
    with Pair Inl show ?thesis using refused by simp
  qed
qed

interpretation ticket: single_use "\<lambda>s t (srv, now). ConsumeTicket s t srv now" ticket_spent "\<lambda>_ _. True"
proof
  fix s s' t j and e :: "string \<times> time" and r :: GameTicket
  obtain srv now where e: "e = (srv, now)" by (cases e)
  show "ticket_spent s' t" if "(case e of (srv, now) \<Rightarrow> ConsumeTicket s t srv now) = (s', Inr r)"
    using that by (auto simp: e ConsumeTicket_ok ticket_spent_def)
  show "\<not> is_ok (snd (case e of (srv, now) \<Rightarrow> ConsumeTicket s t srv now))" if "ticket_spent s t"
    using that by (cases rule: ConsumeTicket_cases [of s t srv now]) (auto simp: e ticket_spent_def)
  show "ticket_spent (fst (case e of (srv, now) \<Rightarrow> ConsumeTicket s j srv now)) t" if "ticket_spent s t"
    using that by (cases rule: ConsumeTicket_cases [of s j srv now]) (auto simp: e ticket_spent_def)
qed

text \<open>The outcome of every ticket consumption in a sequence of calls.\<close>

fun ticket_run :: "(string \<Rightarrow> string) \<Rightarrow> store \<Rightarrow> session_call list \<Rightarrow> (string \<times> bool) list" where
  "ticket_run sha s [] = []"
| "ticket_run sha s (c # cs) =
     (case c of Consume_ticket t srv now \<Rightarrow> [(t, is_ok (snd (ConsumeTicket s t srv now)))] | _ \<Rightarrow> [])
     @ ticket_run sha (session_exec sha s c) cs"

fun ticket_event :: "(string \<Rightarrow> string) \<Rightarrow> session_call \<Rightarrow> (store \<Rightarrow> store) + string \<times> string \<times> time" where
  "ticket_event sha (Consume_ticket t srv now) = Inr (t, srv, now)"
| "ticket_event sha c = Inl (\<lambda>s. session_exec sha s c)"

lemma ticket_run_eq: "ticket_run sha s cs = ticket.run s (map (ticket_event sha) cs)"
proof (induction cs arbitrary: s)
  case (Cons c cs)
  then show ?case by (cases c) simp_all
qed simp

lemma tickets_kept [simp]:
  "tickets (fst (CreateAccountSession sha s req)) = tickets s"
  "tickets (fst (TouchAccountSession s sid now)) = tickets s"
  "tickets (RevokeAccountSession s sid now) = tickets s"
  "tickets (fst (AdminRevokeAccountSessions s ks a)) = tickets s"
  "tickets (fst (RotateRefreshToken sha s old new sid a e now)) = tickets s"
  by (auto simp: CreateAccountSession_def TouchAccountSession_def RevokeAccountSession_def tick_def
      AdminRevokeAccountSessions_def RotateRefreshToken_def Let_def split: option.splits)

lemma ticket_spent_kept:
  assumes "ticket_spent s t" and "\<forall>row. c = Save_ticket row \<longrightarrow> tk_Ticket row \<noteq> t"
  shows "ticket_spent (session_exec sha s c) t"
proof (cases c)
  case (Save_ticket row)
  with assms show ?thesis by (simp add: SaveTicket_def ticket_spent_def)
next
  case (Consume_ticket j srv now)
  with assms(1) ticket.use_keeps [of s t j "(srv, now)"] show ?thesis by simp
qed (use assms in \<open>simp_all add: ticket_spent_def\<close>)

lemma ticket_calls_harmless:
  "\<forall>row. Save_ticket row \<in> set cs \<longrightarrow> tk_Ticket row \<noteq> t \<Longrightarrow> ticket.harmless t (map (ticket_event sha) cs)"
proof (induction cs)
  case (Cons c cs)
  then have "ticket.harmless t (map (ticket_event sha) cs)" by simp
  moreover have "ticket_spent (session_exec sha s c) t" if "ticket_spent s t" for s
    using that Cons.prems by (intro ticket_spent_kept) auto
  ultimately show ?case by (cases c) simp_all
qed (simp add: ticket.harmless_def)

text \<open>
  Property C13. A launch ticket opens at most one game connection: in any interleaving of the
  ticket and session calls that does not save the same ticket again, at most one consumption of
  it succeeds.
\<close>

theorem ticket_single_use:
  assumes "\<forall>row. Save_ticket row \<in> set cs \<longrightarrow> tk_Ticket row \<noteq> t"
  shows "count_list (ticket_run sha s cs) (t, True) \<le> 1"
  unfolding ticket_run_eq by (rule ticket.at_most_once) (rule ticket_calls_harmless [OF assms])

definition sample_ticket :: GameTicket where
  "sample_ticket = \<lparr>tk_Ticket = ''t'', tk_AccountID = 7, tk_CharacterID = 0, tk_ServerID = ''s1'',
     tk_SessionID = ''sess'', tk_ExpiresAt = 100, tk_Consumed = False\<rparr>"

definition sample_request :: CreateSessionRequest where
  "sample_request = \<lparr>cr_SessionID = ''sess'', cr_AccountID = 7, cr_RefreshToken = ''r1'',
     cr_WalletPlugin = [], cr_DeviceID = [], cr_IPAddress = [], cr_UserAgent = [], cr_ExpiresAt = 1000\<rparr>"

definition logged_in :: store where
  "logged_in = SaveTicket (fst (CreateAccountSession (\<lambda>x. x) (New (\<lambda>_. 1)) sample_request)) sample_ticket"

lemma logged_in_fields:
  "tickets logged_in ''t'' = Some sample_ticket"
  "\<exists>row. sessions logged_in ''sess'' = Some row \<and> se_AccountID row = 7 \<and> se_Status row = ''ACTIVE''"
  "refresh logged_in = [HashToken (\<lambda>x. x) ''r1'' \<mapsto> \<lparr>rt_TokenHash = HashToken (\<lambda>x. x) ''r1'', rt_AccountID = 7,
     rt_SessionID = ''sess'', rt_ExpiresAt = 1000, rt_RevokedAt = None, rt_CreatedAt = 1\<rparr>]"
  by (simp_all add: logged_in_def SaveTicket_def CreateAccountSession_def sample_request_def sample_ticket_def
      tick_def Let_def time_Now_def)

theorem ticket_single_use_witness:
  "count_list (ticket_run (\<lambda>x. x) logged_in [Consume_ticket ''t'' ''s1'' 5, Consume_ticket ''t'' ''s1'' 5]) (''t'', True) \<le> 1 \<and>
   is_ok (snd (ConsumeTicket logged_in ''t'' ''s1'' 5))"
proof
  show "count_list (ticket_run (\<lambda>x. x) logged_in [Consume_ticket ''t'' ''s1'' 5, Consume_ticket ''t'' ''s1'' 5]) (''t'', True) \<le> 1"
    by (rule ticket_single_use) simp
  show "is_ok (snd (ConsumeTicket logged_in ''t'' ''s1'' 5))"
    using logged_in_fields(1,2)
    by (auto simp: ConsumeTicket_def sample_ticket_def Before_def Let_def TrimSpace_def space1_def space2_def)
qed

text \<open>
  A ticket is accepted exactly when it exists, was not consumed, has not expired,
  names the server that presents it, and its session exists, is active and belongs to the
  ticket's account; accepting it marks this ticket and changes nothing else, refusing it changes
  nothing.
\<close>

lemma ticket_accepted_iff:
  "(is_ok (snd (ConsumeTicket s t srv now)) \<longleftrightarrow>
     (\<exists>row session. tickets s t = Some row \<and> \<not> tk_Consumed row \<and> now \<le> tk_ExpiresAt row \<and>
        tk_ServerID row \<noteq> [] \<and> tk_ServerID row = TrimSpace srv \<and>
        sessions s (tk_SessionID row) = Some session \<and> se_AccountID session = tk_AccountID row \<and>
        se_Status session = ''ACTIVE'')) \<and>
   fst (ConsumeTicket s t srv now) =
     (if is_ok (snd (ConsumeTicket s t srv now))
      then s\<lparr>tickets := (tickets s)(t \<mapsto> (the (tickets s t))\<lparr>tk_Consumed := True\<rparr>)\<rparr> else s)"
proof (cases rule: ConsumeTicket_cases [of s t srv now])
  case (refused e)
  then show ?thesis using ConsumeTicket_ok [of s t srv now] by auto
next
  case (consumed row)
  from ConsumeTicket_ok [THEN iffD1, OF consumed(3)]
  show ?thesis using consumed by auto
qed

section \<open>Refresh tokens\<close>

definition token_spent :: "(string \<Rightarrow> string) \<Rightarrow> store \<Rightarrow> string \<Rightarrow> bool" where
  "token_spent sha s raw \<longleftrightarrow>
     (case refresh s (HashToken sha raw) of None \<Rightarrow> True | Some row \<Rightarrow> rt_RevokedAt row \<noteq> None)"

lemma RotateRefreshToken_cases:
  obtains (refused) "RotateRefreshToken sha s old new sid a e now = (s, Inl ErrForbidden)"
  | (rotated) row where "refresh s (HashToken sha old) = Some row" "rt_SessionID row = sid" "rt_RevokedAt row = None"
      "snd (RotateRefreshToken sha s old new sid a e now) = Inr ()"
      "refresh (fst (RotateRefreshToken sha s old new sid a e now)) =
        (refresh s)(HashToken sha old \<mapsto> row\<lparr>rt_RevokedAt := Some now\<rparr>,
          HashToken sha new \<mapsto> \<lparr>rt_TokenHash = HashToken sha new, rt_AccountID = a, rt_SessionID = sid,
            rt_ExpiresAt = e, rt_RevokedAt = None, rt_CreatedAt = now\<rparr>)"
      "sessions (fst (RotateRefreshToken sha s old new sid a e now)) =
        (case sessions s sid of None \<Rightarrow> sessions s
         | Some sess \<Rightarrow> (sessions s)(sid \<mapsto> sess\<lparr>se_LastSeenAt := Some now\<rparr>))"
proof (cases "\<exists>row. refresh s (HashToken sha old) = Some row \<and> rt_SessionID row = sid \<and> rt_RevokedAt row = None")
  case True
  then obtain row where "refresh s (HashToken sha old) = Some row" "rt_SessionID row = sid" "rt_RevokedAt row = None"
    by blast
  then show ?thesis
    by (intro rotated) (auto simp: RotateRefreshToken_def Let_def split: option.splits)
next
  case False
  then show ?thesis by (intro refused) (auto simp: RotateRefreshToken_def split: option.splits)
qed

interpretation token: single_use
  "\<lambda>s old (new, sid, a, e, now). RotateRefreshToken sha s old new sid a e now" "token_spent sha"
  "\<lambda>old (new, _). HashToken sha new \<noteq> HashToken sha old"
  for sha
proof
  fix s s' old j and ev :: "string \<times> string \<times> int \<times> time \<times> time" and r :: unit
  obtain new sid a e now where ev: "ev = (new, sid, a, e, now)" by (cases ev)
  let ?ap = "case ev of (new, _) \<Rightarrow> HashToken sha new \<noteq> HashToken sha old"
  show "token_spent sha s' old"
    if "(case ev of (new, sid, a, e, now) \<Rightarrow> RotateRefreshToken sha s old new sid a e now) = (s', Inr r)" ?ap
    using that
    by (cases rule: RotateRefreshToken_cases [of sha s old new sid a e now]) (auto simp: ev token_spent_def)
  show "\<not> is_ok (snd (case ev of (new, sid, a, e, now) \<Rightarrow> RotateRefreshToken sha s old new sid a e now))"
    if "token_spent sha s old"
    using that by (auto simp: ev token_spent_def RotateRefreshToken_def split: option.splits)
  show "token_spent sha (fst (case ev of (new, sid, a, e, now) \<Rightarrow> RotateRefreshToken sha s j new sid a e now)) old"
    if "token_spent sha s old" ?ap
    using that
    by (cases rule: RotateRefreshToken_cases [of sha s j new sid a e now]) (auto simp: ev token_spent_def)
qed

fun token_run :: "(string \<Rightarrow> string) \<Rightarrow> store \<Rightarrow> session_call list \<Rightarrow> (string \<times> bool) list" where
  "token_run sha s [] = []"
| "token_run sha s (c # cs) =
     (case c of Rotate_token old new sid a e now \<Rightarrow>
          [(old, is_ok (snd (RotateRefreshToken sha s old new sid a e now)))] | _ \<Rightarrow> [])
     @ token_run sha (session_exec sha s c) cs"

fun token_event ::
  "(string \<Rightarrow> string) \<Rightarrow> session_call \<Rightarrow> (store \<Rightarrow> store) + string \<times> string \<times> string \<times> int \<times> time \<times> time"
where
  "token_event sha (Rotate_token old new sid a e now) = Inr (old, new, sid, a, e, now)"
| "token_event sha c = Inl (\<lambda>s. session_exec sha s c)"

lemma token_run_eq: "token_run sha s cs = token.run sha s (map (token_event sha) cs)"
proof (induction cs arbitrary: s)
  case (Cons c cs)
  then show ?case by (cases c) simp_all
qed simp

lemma refresh_kept [simp]:
  "refresh (SaveTicket s row) = refresh s" "sessions (SaveTicket s row) = sessions s"
  "refresh (fst (TouchAccountSession s sid now)) = refresh s"
  "refresh (fst (AdminRevokeAccountSessions s ks a)) = refresh s"
  "refresh (fst (ConsumeTicket s t srv now)) = refresh s"
  "sessions (fst (ConsumeTicket s t srv now)) = sessions s"
  by (auto simp: SaveTicket_def TouchAccountSession_def AdminRevokeAccountSessions_def tick_def Let_def
      ConsumeTicket_def split: option.splits)

lemma refresh_upd [simp]:
  "refresh (fst (CreateAccountSession sha s req)) = (refresh s)(HashToken sha (cr_RefreshToken req) \<mapsto>
     \<lparr>rt_TokenHash = HashToken sha (cr_RefreshToken req), rt_AccountID = cr_AccountID req,
      rt_SessionID = cr_SessionID req, rt_ExpiresAt = cr_ExpiresAt req, rt_RevokedAt = None,
      rt_CreatedAt = time_Now s\<rparr>)"
  "refresh (RevokeAccountSession s sid now) = (\<lambda>h. map_option (\<lambda>rt.
     if rt_SessionID rt = sid \<and> rt_RevokedAt rt = None then rt\<lparr>rt_RevokedAt := Some now\<rparr> else rt) (refresh s h))"
  by (auto simp: CreateAccountSession_def RevokeAccountSession_def tick_def Let_def fun_eq_iff split: option.splits)

text \<open>The raw tokens a call issues.\<close>

fun issues :: "session_call \<Rightarrow> string option" where
  "issues (Create_session req) = Some (cr_RefreshToken req)"
| "issues (Rotate_token old new sid a e now) = Some new"
| "issues c = None"

lemma token_spent_kept:
  assumes "token_spent sha s raw" and "\<forall>new. issues c = Some new \<longrightarrow> HashToken sha new \<noteq> HashToken sha raw"
  shows "token_spent sha (session_exec sha s c) raw"
proof (cases c)
  case (Rotate_token old new sid a e now)
  with assms token.use_keeps [of sha s raw "(new, sid, a, e, now)" old] show ?thesis by simp
qed (use assms in \<open>auto simp: token_spent_def split: option.splits\<close>)

lemma token_calls_harmless:
  "\<forall>c \<in> set cs. \<forall>new. issues c = Some new \<longrightarrow> HashToken sha new \<noteq> HashToken sha raw \<Longrightarrow>
   token.harmless sha raw (map (token_event sha) cs)"
proof (induction cs)
  case (Cons c cs)
  then have "token.harmless sha raw (map (token_event sha) cs)" by simp
  moreover have "token_spent sha (session_exec sha s c) raw" if "token_spent sha s raw" for s
    using that Cons.prems by (intro token_spent_kept) auto
  ultimately show ?case using Cons.prems by (cases c) simp_all
qed (simp add: token.harmless_def)

text \<open>
  Property C15. A refresh token is exchanged at most once: in any interleaving of the session
  calls in which no newly issued token has the same hash, at most one rotation of it succeeds.
\<close>

theorem refresh_token_single_use:
  assumes "\<forall>c \<in> set cs. \<forall>new. issues c = Some new \<longrightarrow> HashToken sha new \<noteq> HashToken sha raw"
  shows "count_list (token_run sha s cs) (raw, True) \<le> 1"
  unfolding token_run_eq by (rule token.at_most_once) (rule token_calls_harmless [OF assms])

lemma sample_hashes: "HashToken (\<lambda>x. x) ''r2'' \<noteq> HashToken (\<lambda>x. x) ''r1''"
  "HashToken (\<lambda>x. x) ''r3'' \<noteq> HashToken (\<lambda>x. x) ''r1''"
  by (simp_all add: HashToken_def TrimSpace_def space1_def space2_def hex_EncodeToString_def hexdigit_def)

theorem refresh_token_single_use_witness:
  "count_list (token_run (\<lambda>x. x) logged_in
     [Rotate_token ''r1'' ''r2'' ''sess'' 7 2000 5, Rotate_token ''r1'' ''r3'' ''sess'' 7 2000 6]) (''r1'', True) \<le> 1 \<and>
   is_ok (snd (RotateRefreshToken (\<lambda>x. x) logged_in ''r1'' ''r2'' ''sess'' 7 2000 5))"
proof
  show "count_list (token_run (\<lambda>x. x) logged_in
     [Rotate_token ''r1'' ''r2'' ''sess'' 7 2000 5, Rotate_token ''r1'' ''r3'' ''sess'' 7 2000 6]) (''r1'', True) \<le> 1"
    by (rule refresh_token_single_use) (simp add: sample_hashes)
  show "is_ok (snd (RotateRefreshToken (\<lambda>x. x) logged_in ''r1'' ''r2'' ''sess'' 7 2000 5))"
    by (simp add: RotateRefreshToken_def logged_in_fields(3) Let_def)
qed

section \<open>Revocation\<close>

definition revoked :: "store \<Rightarrow> string \<Rightarrow> bool" where
  "revoked s sid \<longleftrightarrow>
     (\<forall>row. sessions s sid = Some row \<longrightarrow> se_Status row \<noteq> ''ACTIVE'') \<and>
     (\<forall>h rt. refresh s h = Some rt \<longrightarrow> rt_SessionID rt = sid \<longrightarrow> rt_RevokedAt rt \<noteq> None)"

lemma revoked_token: "revoked s sid \<Longrightarrow> refresh s h = Some rt \<Longrightarrow> rt_SessionID rt = sid \<Longrightarrow> rt_RevokedAt rt \<noteq> None"
  unfolding revoked_def by blast

lemma revoked_RevokeAccountSession: "revoked (RevokeAccountSession s sid now) sid"
proof -
  have "sessions (RevokeAccountSession s sid now) sid =
      map_option (\<lambda>row. row\<lparr>se_Status := ''REVOKED'', se_RevokedAt := Some now\<rparr>) (sessions s sid)"
    by (simp add: RevokeAccountSession_def Let_def split: option.splits)
  then have "se_Status row \<noteq> ''ACTIVE''" if "sessions (RevokeAccountSession s sid now) sid = Some row" for row
    using that by (cases "sessions s sid") auto
  moreover have "rt_RevokedAt rt \<noteq> None"
    if "refresh (RevokeAccountSession s sid now) h = Some rt" "rt_SessionID rt = sid" for h rt
    using that by (cases "refresh s h") (auto split: if_splits)
  ultimately show ?thesis unfolding revoked_def by blast
qed

lemma revoked_rotate:
  assumes "revoked s sid"
  shows "revoked (fst (RotateRefreshToken sha s old new sid' a e now)) sid"
proof (cases rule: RotateRefreshToken_cases [of sha s old new sid' a e now])
  case (rotated row)
  then have "sid' \<noteq> sid" using revoked_token [OF assms rotated(1)] by auto
  then show ?thesis
    using assms rotated(1,2) by (auto simp: revoked_def rotated(5,6) split: if_splits option.splits)
qed (use assms in simp)

lemma revoked_kept:
  assumes "revoked s sid" and "\<forall>req. c = Create_session req \<longrightarrow> cr_SessionID req \<noteq> sid"
  shows "revoked (session_exec sha s c) sid"
proof (cases c)
  case (Create_session req)
  with assms have "cr_SessionID req \<noteq> sid" by simp
  moreover have "sessions (session_exec sha s c) sid = sessions s sid"
    using calculation Create_session by (simp add: CreateAccountSession_def tick_def Let_def)
  ultimately show ?thesis using assms(1) Create_session by (auto simp: revoked_def split: if_splits)
next
  case (Touch_session sid' now)
  with assms(1) show ?thesis
    by (auto simp: revoked_def TouchAccountSession_def split: option.splits if_splits)
next
  case (Revoke_session sid' now)
  with assms(1) show ?thesis
    by (auto simp: revoked_def RevokeAccountSession_def Let_def split: option.splits if_splits)
next
  case (Admin_revoke ks a)
  with assms(1) show ?thesis
    by (auto simp: revoked_def AdminRevokeAccountSessions_def tick_def Let_def split: if_splits)
next
  case (Rotate_token old new sid' a e now)
  with assms(1) show ?thesis by (simp add: revoked_rotate)
qed (use assms(1) in \<open>simp_all add: revoked_def\<close>)

lemma revoked_execs:
  "revoked s sid \<Longrightarrow> \<forall>req. Create_session req \<in> set cs \<longrightarrow> cr_SessionID req \<noteq> sid \<Longrightarrow>
   revoked (session_execs sha s cs) sid"
proof (induction cs arbitrary: s)
  case (Cons c cs)
  have "revoked (session_exec sha s c) sid" using Cons.prems by (intro revoked_kept) auto
  with Cons show ?case by (simp add: session_execs_def)
qed (simp add: session_execs_def)

text \<open>
  Property C16. Logging out is final. After a session is revoked, whatever session calls follow
  (other than creating a session with the same identifier), no ticket of the session is
  accepted, none of its refresh tokens can be looked up or rotated, and the session cannot be
  touched.
\<close>

theorem revocation_is_final:
  assumes "\<forall>req. Create_session req \<in> set cs \<longrightarrow> cr_SessionID req \<noteq> sid"
    and "t = session_execs sha (RevokeAccountSession s sid now) cs"
  shows "(\<forall>k row srv tm. tickets t k = Some row \<longrightarrow> tk_SessionID row = sid \<longrightarrow> \<not> is_ok (snd (ConsumeTicket t k srv tm))) \<and>
    (\<forall>old new a e tm. \<not> is_ok (snd (RotateRefreshToken sha t old new sid a e tm))) \<and>
    (\<forall>raw tm rt. LookupRefreshToken sha t raw tm = Inr rt \<longrightarrow> rt_SessionID rt \<noteq> sid) \<and>
    (\<forall>tm. \<not> is_ok (snd (TouchAccountSession t sid tm)))"
proof -
  have r: "revoked t sid" unfolding assms(2) by (rule revoked_execs [OF revoked_RevokeAccountSession assms(1)])
  have "\<not> is_ok (snd (ConsumeTicket t k srv tm))" if "tickets t k = Some row" "tk_SessionID row = sid" for k row srv tm
  proof (cases rule: ConsumeTicket_cases [of t k srv tm])
    case (consumed row')
    from ConsumeTicket_ok [THEN iffD1, OF consumed(3)] show ?thesis using r that by (auto simp: revoked_def)
  qed simp
  moreover have "\<not> is_ok (snd (RotateRefreshToken sha t old new sid a e tm))" for old new a e tm
    by (cases rule: RotateRefreshToken_cases [of sha t old new sid a e tm]) (use revoked_token [OF r] in auto)
  moreover have "rt_SessionID rt \<noteq> sid" if "LookupRefreshToken sha t raw tm = Inr rt" for raw tm rt
    using that revoked_token [OF r, of "HashToken sha raw"]
    by (auto simp: LookupRefreshToken_def split: option.splits if_splits)
  moreover have "\<not> is_ok (snd (TouchAccountSession t sid tm))" for tm
    using r by (auto simp: TouchAccountSession_def revoked_def split: option.splits)
  ultimately show ?thesis by blast
qed

theorem revocation_is_final_witness:
  "\<not> is_ok (snd (ConsumeTicket (session_execs (\<lambda>x. x) (RevokeAccountSession logged_in ''sess'' 3)
     [Touch_session ''sess'' 4]) ''t'' ''s1'' 5)) \<and> is_ok (snd (ConsumeTicket logged_in ''t'' ''s1'' 5))"
proof
  have "tickets (session_execs (\<lambda>x. x) (RevokeAccountSession logged_in ''sess'' 3) [Touch_session ''sess'' 4]) ''t''
      = Some sample_ticket"
    by (simp add: session_execs_def logged_in_fields(1))
  with revocation_is_final [of "[Touch_session ''sess'' 4]" "''sess''", OF _ refl, of "\<lambda>x. x" logged_in 3]
  show "\<not> is_ok (snd (ConsumeTicket (session_execs (\<lambda>x. x) (RevokeAccountSession logged_in ''sess'' 3)
     [Touch_session ''sess'' 4]) ''t'' ''s1'' 5))"
    by (auto simp: sample_ticket_def)
  show "is_ok (snd (ConsumeTicket logged_in ''t'' ''s1'' 5))"
    using logged_in_fields(1,2)
    by (auto simp: ConsumeTicket_def sample_ticket_def Before_def Let_def TrimSpace_def space1_def space2_def)
qed

end
