(* ===== verification/Progression.thy ===== *)
theory Progression
  imports StoreState
begin

text \<open>
  Level progression (\<open>LevelProgressionRules\<close> of \<open>src/internal/platform/store/store.go\<close>): the
  experience thresholds as the code adds them up, in 64-bit arithmetic, and the level a total of
  experience points gives. The theory proves the closed form of the thresholds modulo \<open>2 ^ 64\<close> and
  that, when the last threshold fits, the level found is the only one the experience belongs to.
\<close>

record LevelProgressionRules =
  lp_MaxLevel :: int
  lp_Base :: int
  lp_Linear :: int
  lp_Quadratic :: int

record LevelProgress =
  pg_Level :: int
  pg_LevelsGained :: int
  pg_ExpToNextLevel :: int

definition enabled :: "LevelProgressionRules \<Rightarrow> bool" where
  "enabled r \<longleftrightarrow> lp_MaxLevel r > 0 \<and> (lp_Base r > 0 \<or> lp_Linear r > 0 \<or> lp_Quadratic r > 0)"

definition expRequiredForNextLevel :: "LevelProgressionRules \<Rightarrow> int \<Rightarrow> int" where
  "expRequiredForNextLevel r level =
     w64 (w64 (lp_Base r + w64 (lp_Linear r * level)) + w64 (w64 (lp_Quadratic r * level) * level))"

definition expRequiredToReachLevel :: "LevelProgressionRules \<Rightarrow> int \<Rightarrow> int" where
  "expRequiredToReachLevel r level =
     (if level \<le> 1 then 0
      else fold (\<lambda>currentLevel total. w64 (total + expRequiredForNextLevel r currentLevel)) [1..level - 1] 0)"

text \<open>
  The loop of \<open>Progress\<close>. It is entered only when \<open>enabled\<close> holds, so \<open>MaxLevel\<close> is positive and
  the loop condition is \<open>level < MaxLevel\<close>; \<open>level + 1\<close> cannot overflow below \<open>MaxLevel\<close>.
\<close>

function progress_loop :: "LevelProgressionRules \<Rightarrow> int \<Rightarrow> int \<Rightarrow> int \<Rightarrow> LevelProgress" where
  "progress_loop r currentLevel xp level =
     (if level < lp_MaxLevel r
      then let nextThreshold = expRequiredToReachLevel r (level + 1) in
           if nextThreshold \<le> 0 \<or> xp < nextThreshold
           then \<lparr>pg_Level = level, pg_LevelsGained = w64 (level - currentLevel),
                 pg_ExpToNextLevel = w64 (nextThreshold - xp)\<rparr>
           else progress_loop r currentLevel xp (level + 1)
      else \<lparr>pg_Level = level, pg_LevelsGained = w64 (level - currentLevel), pg_ExpToNextLevel = - 1\<rparr>)"
  by auto
termination by (relation "measure (\<lambda>(r, _, _, level). nat (lp_MaxLevel r - level))") auto

declare progress_loop.simps [simp del]

definition Progress :: "LevelProgressionRules \<Rightarrow> int \<Rightarrow> int \<Rightarrow> LevelProgress" where
  "Progress r currentLevel0 xp0 =
     (let currentLevel = (if currentLevel0 \<le> 0 then 1 else currentLevel0);
          xp = (if xp0 < 0 then 0 else xp0)
      in if \<not> enabled r then \<lparr>pg_Level = currentLevel, pg_LevelsGained = 0, pg_ExpToNextLevel = 0\<rparr>
         else progress_loop r currentLevel xp currentLevel)"

definition ExpToNextLevel :: "LevelProgressionRules \<Rightarrow> int \<Rightarrow> int \<Rightarrow> int" where
  "ExpToNextLevel r level xp = pg_ExpToNextLevel (Progress r level xp)"

section \<open>Thresholds\<close>

text \<open>The threshold of a level in unbounded arithmetic.\<close>

definition step_exp :: "LevelProgressionRules \<Rightarrow> int \<Rightarrow> int" where
  "step_exp r l = lp_Base r + lp_Linear r * l + lp_Quadratic r * l * l"

definition threshold :: "LevelProgressionRules \<Rightarrow> int \<Rightarrow> int" where
  "threshold r level = (\<Sum>l = 1..level - 1. step_exp r l)"

lemma expRequiredForNextLevel_eq: "expRequiredForNextLevel r l = w64 (step_exp r l)"
  by (simp add: expRequiredForNextLevel_def step_exp_def)

lemma fold_w64: "fold (\<lambda>x t. w64 (t + w64 (f x))) xs (w64 a) = w64 (a + sum_list (map f xs))"
  by (induction xs arbitrary: a) (simp_all add: add.assoc)

lemma expRequiredToReachLevel_eq: "expRequiredToReachLevel r level = w64 (threshold r level)"
proof (cases "level \<le> 1")
  case True
  then show ?thesis by (simp add: expRequiredToReachLevel_def threshold_def w64_def)
next
  case False
  have "sum_list (map (step_exp r) [1..level - 1]) = threshold r level"
    by (simp add: threshold_def interv_sum_list_conv_sum_set_int)
  then show ?thesis
    using False fold_w64 [of "step_exp r" "[1..level - 1]" 0]
    by (simp add: expRequiredToReachLevel_def expRequiredForNextLevel_eq w64_def [of 0])
qed

lemma threshold_Suc: "1 \<le> l \<Longrightarrow> threshold r (l + 1) = threshold r l + step_exp r l"
proof -
  assume "1 \<le> l"
  then have "{1..l} = insert l {1..l - 1}" by auto
  then show ?thesis by (simp add: threshold_def)
qed

lemma threshold_closed_nat:
  "6 * threshold r (1 + int n) = 6 * lp_Base r * int n + 3 * lp_Linear r * int n * (int n + 1)
     + lp_Quadratic r * int n * (int n + 1) * (2 * int n + 1)"
proof (induction n)
  case 0
  then show ?case by (simp add: threshold_def)
next
  case (Suc n)
  have "threshold r (1 + int (Suc n)) = threshold r (1 + int n) + step_exp r (1 + int n)"
    using threshold_Suc [of "1 + int n" r] by (simp add: add.commute add.left_commute)
  then have "6 * threshold r (1 + int (Suc n)) = 6 * threshold r (1 + int n) + 6 * step_exp r (1 + int n)" by simp
  then show ?case unfolding Suc.IH by (simp add: step_exp_def algebra_simps)
qed

lemma threshold_closed:
  assumes "1 \<le> level"
  shows "6 * threshold r level = 6 * lp_Base r * (level - 1) + 3 * lp_Linear r * (level - 1) * level
    + lp_Quadratic r * (level - 1) * level * (2 * level - 1)"
  using threshold_closed_nat [of r "nat (level - 1)"] assms by (simp add: algebra_simps)

text \<open>Sensible rules: no coefficient is negative and the last threshold fits 63 bits.\<close>

definition sound_rules :: "LevelProgressionRules \<Rightarrow> bool" where
  "sound_rules r \<longleftrightarrow> enabled r \<and> 0 \<le> lp_Base r \<and> 0 \<le> lp_Linear r \<and> 0 \<le> lp_Quadratic r \<and>
     lp_MaxLevel r < 2 ^ 63 \<and> threshold r (lp_MaxLevel r) < 2 ^ 63"

lemma step_exp_pos: "sound_rules r \<Longrightarrow> 1 \<le> l \<Longrightarrow> 0 < step_exp r l"
proof -
  assume r: "sound_rules r" and l: "1 \<le> l"
  have "0 \<le> lp_Linear r * l" "0 \<le> lp_Quadratic r * l * l" "0 \<le> lp_Base r"
    using r l by (simp_all add: sound_rules_def)
  moreover have "0 < lp_Base r \<or> 0 < lp_Linear r * l \<or> 0 < lp_Quadratic r * l * l"
    using r l by (auto simp: sound_rules_def enabled_def)
  ultimately show ?thesis by (auto simp: step_exp_def)
qed

lemma threshold_less:
  assumes "sound_rules r" and "1 \<le> a" and "a < b"
  shows "threshold r a < threshold r b"
  using assms(3)
proof (induction b rule: int_gr_induct)
  case base
  then show ?case using threshold_Suc [OF assms(2)] step_exp_pos [OF assms(1,2)] by (simp add: add.commute)
next
  case (step i)
  then show ?case
    using threshold_Suc [of i r] step_exp_pos [OF assms(1), of i] assms(2) by (simp add: add.commute)
qed

lemma threshold_one [simp]: "threshold r 1 = 0"
  by (simp add: threshold_def)

lemma threshold_fits:
  assumes "sound_rules r" and "1 \<le> level" and "level \<le> lp_MaxLevel r"
  shows "expRequiredToReachLevel r level = threshold r level" and "0 \<le> threshold r level" and "threshold r level < 2 ^ 63"
proof -
  have max: "threshold r (lp_MaxLevel r) < 2 ^ 63" using assms(1) by (simp add: sound_rules_def)
  show lo: "0 \<le> threshold r level"
    using threshold_less [OF assms(1), of 1 level] assms(2) by (cases "level = 1") simp_all
  show hi: "threshold r level < 2 ^ 63"
    using threshold_less [OF assms(1,2), of "lp_MaxLevel r"] assms(3) max by (cases "level = lp_MaxLevel r") simp_all
  show "expRequiredToReachLevel r level = threshold r level"
    using lo hi by (simp add: expRequiredToReachLevel_eq w64_nonneg)
qed

section \<open>The level found\<close>

text \<open>
  The levels an experience total belongs to: at or above the level the character has, with the
  threshold of the level reached unless it is the starting one, and the next one not reached.
\<close>

definition level_for :: "LevelProgressionRules \<Rightarrow> int \<Rightarrow> int \<Rightarrow> int \<Rightarrow> bool" where
  "level_for r start xp level \<longleftrightarrow> start \<le> level \<and> (level = start \<or> level \<le> lp_MaxLevel r \<and> threshold r level \<le> xp) \<and>
     (level < lp_MaxLevel r \<longrightarrow> xp < threshold r (level + 1))"

lemma level_for_unique:
  assumes "sound_rules r" and "1 \<le> start" and "level_for r start xp a" and "level_for r start xp b"
  shows "a = b"
proof (rule ccontr)
  assume "a \<noteq> b"
  have less: False if "x < y" "level_for r start xp x" "level_for r start xp y" for x y
  proof -
    have y: "threshold r y \<le> xp" "y \<le> lp_MaxLevel r" "1 \<le> x"
      using that assms(2) by (auto simp: level_for_def)
    have "threshold r (x + 1) \<le> threshold r y"
      using threshold_less [OF assms(1), of "x + 1" y] that(1) y(3) by (cases "x + 1 = y") simp_all
    then show False using that(1,2) y by (simp add: level_for_def)
  qed
  show False using less [of a b] less [of b a] assms(3,4) \<open>a \<noteq> b\<close> by linarith
qed

lemma progress_loop_correct:
  assumes "sound_rules r" and "1 \<le> start" and "start \<le> level" and "level = start \<or> level \<le> lp_MaxLevel r \<and> threshold r level \<le> xp"
    and "0 \<le> xp" and "xp < 2 ^ 63" and "start < 2 ^ 63"
  shows "level_for r start xp (pg_Level (progress_loop r start xp level)) \<and>
    pg_LevelsGained (progress_loop r start xp level) = pg_Level (progress_loop r start xp level) - start \<and>
    pg_ExpToNextLevel (progress_loop r start xp level) =
      (if pg_Level (progress_loop r start xp level) < lp_MaxLevel r
       then threshold r (pg_Level (progress_loop r start xp level) + 1) - xp else - 1)"
  using assms
proof (induction r start xp level rule: progress_loop.induct)
  case (1 r start xp level)
  have small: "w64 (level - start) = level - start"
    using 1(2-5,8) by (intro w64_nonneg) (auto simp: sound_rules_def)
  show ?case
  proof (cases "level < lp_MaxLevel r")
    case False
    then show ?thesis using 1(4,5) small by (simp add: progress_loop.simps [of r start xp level] level_for_def)
  next
    case True
    note fits = threshold_fits [OF 1(2), of "level + 1"]
    have T: "expRequiredToReachLevel r (level + 1) = threshold r (level + 1)" "threshold r (level + 1) < 2 ^ 63"
      using fits True 1(3,4) by simp_all
    have pos: "0 < threshold r (level + 1)" using threshold_less [OF 1(2), of 1 "level + 1"] 1(3,4) by simp
    show ?thesis
    proof (cases "xp < threshold r (level + 1)")
      case xp: True
      have "w64 (threshold r (level + 1) - xp) = threshold r (level + 1) - xp"
        using xp T(2) 1(6) by (intro w64_nonneg) simp_all
      then show ?thesis
        using True xp T(1) 1(4,5) small by (simp add: progress_loop.simps [of r start xp level] level_for_def Let_def)
    next
      case xp: False
      have "progress_loop r start xp level = progress_loop r start xp (level + 1)"
        using True xp T(1) pos by (subst progress_loop.simps) (simp add: Let_def)
      moreover have "level + 1 = start \<or> level + 1 \<le> lp_MaxLevel r \<and> threshold r (level + 1) \<le> xp"
        using True xp by simp
      ultimately show ?thesis
        using 1(1) [OF True refl] T(1) pos xp 1(2-4,6-8) by simp
    qed
  qed
qed

text \<open>
  Property C20. With sensible rules (coefficients not negative, last threshold within 63 bits)
  \<open>Progress\<close> gives the one level the experience belongs to: it is never below the current
  level, the next threshold is not reached, the gain and the experience still missing are exact,
  thresholds have the closed form of the sum of the per-level requirements, and asking again with
  the level found gives it back with no further gain.
\<close>

theorem progress_finds_the_level:
  assumes "sound_rules r" and "1 \<le> start" and "start < 2 ^ 63" and "0 \<le> xp" and "xp < 2 ^ 63"
    and "p = Progress r start xp"
  shows "level_for r start xp (pg_Level p) \<and> (\<forall>l. level_for r start xp l \<longrightarrow> l = pg_Level p) \<and>
    pg_LevelsGained p = pg_Level p - start \<and>
    pg_ExpToNextLevel p = (if pg_Level p < lp_MaxLevel r then threshold r (pg_Level p + 1) - xp else - 1) \<and>
    6 * threshold r (pg_Level p) = 6 * lp_Base r * (pg_Level p - 1) + 3 * lp_Linear r * (pg_Level p - 1) * pg_Level p
      + lp_Quadratic r * (pg_Level p - 1) * pg_Level p * (2 * pg_Level p - 1) \<and>
    pg_Level (Progress r (pg_Level p) xp) = pg_Level p \<and> pg_LevelsGained (Progress r (pg_Level p) xp) = 0"
proof -
  have en: "enabled r" using assms(1) by (simp add: sound_rules_def)
  have run: "Progress r l xp = progress_loop r l xp l" if "1 \<le> l" for l
    using that assms(4) en by (simp add: Progress_def)
  note ok = progress_loop_correct [OF assms(1,2) order_refl _ assms(4,5,3), folded run [OF assms(2)], folded assms(6)]
  have lf: "level_for r start xp (pg_Level p)" using ok by simp
  then have ge: "1 \<le> pg_Level p" "pg_Level p < 2 ^ 63"
    using assms(1-3) by (auto simp: level_for_def sound_rules_def)
  have again: "level_for r (pg_Level p) xp (pg_Level (Progress r (pg_Level p) xp)) \<and>
      pg_LevelsGained (Progress r (pg_Level p) xp) = pg_Level (Progress r (pg_Level p) xp) - pg_Level p"
    using progress_loop_correct [OF assms(1) ge(1) order_refl _ assms(4,5) ge(2)] run [OF ge(1)] by simp
  moreover have "level_for r (pg_Level p) xp (pg_Level p)" using lf by (simp add: level_for_def)
  ultimately have "pg_Level (Progress r (pg_Level p) xp) = pg_Level p"
    using level_for_unique [OF assms(1) ge(1)] by blast
  then show ?thesis
    using ok lf again level_for_unique [OF assms(1,2)] threshold_closed [OF ge(1)] by auto
qed

definition sample_rules :: LevelProgressionRules where
  "sample_rules = \<lparr>lp_MaxLevel = 5, lp_Base = 100, lp_Linear = 50, lp_Quadratic = 10\<rparr>"

theorem progress_finds_the_level_witness:
  "pg_Level (Progress sample_rules 1 300) = 2 \<and> pg_ExpToNextLevel (Progress sample_rules 1 300) = 100"
proof -
  have T: "threshold sample_rules 5 = 1200" "threshold sample_rules 3 = 400" "threshold sample_rules 2 = 160"
    using threshold_closed [of 5 sample_rules] threshold_closed [of 3 sample_rules] threshold_closed [of 2 sample_rules]
    by (simp_all add: sample_rules_def)
  have sound: "sound_rules sample_rules"
    using T(1) by (simp add: sound_rules_def enabled_def) (simp add: sample_rules_def)
  have two: "level_for sample_rules 1 300 2" using T by (simp add: level_for_def) (simp add: sample_rules_def)
  from progress_finds_the_level [OF sound _ _ _ _ refl, of 1 300] two
  have "pg_Level (Progress sample_rules 1 300) = 2" by simp
  with progress_finds_the_level [OF sound _ _ _ _ refl, of 1 300] T(2)
  show ?thesis by (simp add: sample_rules_def)
qed

end
