(* ===== verification/EconomyTypes.thy ===== *)
theory EconomyTypes
  imports Progression
begin

text \<open>
  The requests, reward plans and results of the economy operations
  (\<open>src/internal/platform/store/store.go\<close>), shared by the repository and by the configured rules.
\<close>

record EconomySnapshot =
  sn_AccountID :: int
  sn_CharacterID :: int
  sn_Gold :: int
  sn_Gems :: int
  sn_Stamina :: int
  sn_BagSlots :: int
  sn_BagExpandCount :: int
  sn_HasLicense :: bool
  sn_Level :: int
  sn_Exp :: int
  sn_ExpToNextLevel :: int
  sn_HighestClearedChapterID :: int
  sn_HighestClearedFloorID :: int
  sn_AccountToken :: AccountToken
  sn_Inventory :: "InventoryItem list"
  sn_Warehouse :: "InventoryItem list"
  sn_LootTray :: "InventoryItem list"
  sn_Equipment :: "EquipmentItem list"

record DungeonCost =
  dc_Gold :: int
  dc_Items :: "InventoryItem list"

record DungeonEnterRequest =
  en_OpID :: string
  en_AccountID :: int
  en_CharacterID :: int
  en_ServerID :: string
  en_ChapterID :: int
  en_FloorID :: int
  en_IsBoss :: bool
  en_Cost :: DungeonCost

record DungeonRewardGrant =
  rg_RewardType :: string
  rg_ItemID :: string
  rg_Quantity :: int
  rg_EquipmentUID :: string
  rg_Rarity :: int
  rg_Category :: string
  rg_AffixPoolID :: string
  rg_Affixes :: "EquipmentAffix list"

record DungeonRewardPlan =
  rp_IsBoss :: bool
  rp_Items :: "DungeonRewardGrant list"
  rp_TokenReward :: int

record DungeonFinishRequest =
  fi_OpID :: string
  fi_AccountID :: int
  fi_CharacterID :: int
  fi_DungeonRunID :: string
  fi_ServerID :: string
  fi_ChapterID :: int
  fi_FloorID :: int
  fi_Result :: string
  fi_Exp :: int
  fi_RewardPlan :: DungeonRewardPlan
  fi_LevelProgression :: LevelProgressionRules
  fi_EquipmentWearPoints :: int
  fi_DefaultMaxDurability :: int

record DungeonRewards =
  rw_Exp :: int
  rw_LevelsGained :: int
  rw_Level :: int
  rw_ExpToNextLevel :: int
  rw_TokenReward :: string
  rw_Items :: "InventoryItem list"
  rw_EquipmentItems :: "EquipmentItem list"

record DungeonResult =
  du_DungeonRunID :: string
  du_ChapterID :: int
  du_FloorID :: int
  du_IsBoss :: bool
  du_Status :: string
  du_Result :: string
  du_Cost :: DungeonCost
  du_Rewards :: DungeonRewards
  du_Discarded :: "InventoryItem list"
  du_Snapshot :: EconomySnapshot

record ActivitySettlementRequest =
  as_OpID :: string
  as_AccountID :: int
  as_CharacterID :: int
  as_CharacterLevel :: int
  as_ActivityID :: string
  as_ActivityType :: string
  as_RespawnSeconds :: int
  as_RewardPlan :: DungeonRewardPlan

record ActivitySettlementResult =
  ar_ActivityID :: string
  ar_ActivityType :: string
  ar_Rewards :: DungeonRewards
  ar_Snapshot :: EconomySnapshot

record BossEvent =
  be_ID :: int
  be_BossKey :: string
  be_Status :: string
  be_StartsAt :: time
  be_EndsAt :: time
  be_CreatedAt :: time

record MysteryShopRefreshRequest =
  mr_OpID :: string
  mr_AccountID :: int
  mr_CharacterID :: int
  mr_ShopID :: string
  mr_TokenCost :: int
  mr_NextFreeRefreshAt :: time
  mr_GeneratedAt :: time
  mr_Offers :: "MysteryShopOffer list"

text \<open>A value of type \<open>any\<close> as the requests use it: what a purchase was priced with.\<close>

datatype any_value = AnyString string | AnyInt int | AnyWeights "(string \<times> int) list" | AnyIntWeights "(int \<times> int) list"

record ShopBuyRequest =
  sb_OpID :: string
  sb_AccountID :: int
  sb_CharacterID :: int
  sb_ShopID :: string
  sb_ItemID :: string
  sb_Quantity :: int
  sb_MysterySlotIndex :: int
  sb_ShopSlotIndex :: int
  sb_ShopDailyLimit :: int
  sb_ShopBusinessDate :: string
  sb_GoldCost :: int
  sb_TokenCost :: int
  sb_ReceiverWallet :: string
  sb_GrantGold :: int
  sb_RewardPlan :: DungeonRewardPlan
  sb_ConfigSnapshot :: "(string \<times> any_value) list"

record BossSettleRequest =
  bs_OpID :: string
  bs_AccountID :: int
  bs_CharacterID :: int
  bs_BossEventID :: int
  bs_BossKey :: string
  bs_RewardPlan :: DungeonRewardPlan
  bs_EquipmentWearPoints :: int
  bs_DefaultMaxDurability :: int

end
