(* ===== verification/Dungeon.thy ===== *)
theory Dungeon
  imports Accounts Sessions EconomyTypes
begin

text \<open>
  The economy operations the in-memory repository implements itself: the economy snapshot,
  dungeon runs and their recovery, gathering cooldowns, boss events and the mystery shop
  (\<open>EconomySnapshot\<close> to \<open>BossListActiveEvents\<close> and \<open>activitySettlement\<close> of
  \<open>src/internal/platform/store/store.go\<close>).

  \<open>DungeonEnter\<close>, \<open>DungeonFinish\<close>, \<open>ShopBuyGold\<close> and \<open>activitySettlement\<close> take the lock twice; the
  model runs their critical sections one after the other. A board that was returned shares its
  offers slice with the stored one in Go; here every returned value is a copy.
\<close>

section \<open>Operations\<close>

definition EconomySnapshot_op :: "store \<Rightarrow> int \<Rightarrow> int \<Rightarrow> EconomySnapshot op" where
  "EconomySnapshot_op s accountID characterID =
     (case characters s characterID of
        None \<Rightarrow> (s, Inl ErrNotFound)
      | Some character \<Rightarrow>
          if \<not> owns accountID character then (s, Inl ErrNotFound)
          else
            let (s1, token) = ensureTokenLocked s accountID
            in (s1, Inr \<lparr>sn_AccountID = accountID, sn_CharacterID = characterID, sn_Gold = 0, sn_Gems = 0,
                  sn_Stamina = 0, sn_BagSlots = 25, sn_BagExpandCount = 0, sn_HasLicense = False,
                  sn_Level = ch_Level character, sn_Exp = ch_Exp character, sn_ExpToNextLevel = 0,
                  sn_HighestClearedChapterID = ch_HighestClearedChapterID character,
                  sn_HighestClearedFloorID = ch_HighestClearedFloorID character,
                  sn_AccountToken = token, sn_Inventory = [], sn_Warehouse = [], sn_LootTray = [],
                  sn_Equipment = []\<rparr>))"

definition zero_rewards :: "string \<Rightarrow> DungeonRewards" where
  "zero_rewards tokenReward = \<lparr>rw_Exp = 0, rw_LevelsGained = 0, rw_Level = 0, rw_ExpToNextLevel = 0,
     rw_TokenReward = tokenReward, rw_Items = [], rw_EquipmentItems = []\<rparr>"

definition run_required :: "store \<Rightarrow> int \<Rightarrow> bool" where
  "run_required s characterID =
     (case dungeonRecoveries s characterID of None \<Rightarrow> False | Some row \<Rightarrow> dr_Required row)"

definition DungeonEnter :: "store \<Rightarrow> DungeonEnterRequest \<Rightarrow> DungeonResult op" where
  "DungeonEnter s req =
     (case EconomySnapshot_op s (en_AccountID req) (en_CharacterID req) of
        (s1, Inl e) \<Rightarrow> (s1, Inl e)
      | (s1, Inr snapshot) \<Rightarrow>
          if run_required s1 (en_CharacterID req) then (s1, Inl ErrForbidden)
          else
            let runID = ''memory-'' @ TrimSpace (en_OpID req);
                row = \<lparr>dr_Required = True, dr_Status = [], dr_DungeonRunID = runID,
                       dr_AccountID = en_AccountID req, dr_CharacterID = en_CharacterID req,
                       dr_ServerID = TrimSpace (en_ServerID req), dr_ChapterID = en_ChapterID req,
                       dr_FloorID = en_FloorID req, dr_StartedAt = time_Now s1\<rparr>;
                s2 = (tick s1)\<lparr>dungeonRecoveries := (dungeonRecoveries s1)(en_CharacterID req \<mapsto> row)\<rparr>
            in (s2, Inr \<lparr>du_DungeonRunID = runID, du_ChapterID = en_ChapterID req,
                  du_FloorID = en_FloorID req, du_IsBoss = en_IsBoss req, du_Status = ''IN_PROGRESS'',
                  du_Result = [], du_Cost = en_Cost req, du_Rewards = zero_rewards ''0'',
                  du_Discarded = [], du_Snapshot = snapshot\<rparr>))"

definition ActiveDungeonRun :: "store \<Rightarrow> int \<Rightarrow> int \<Rightarrow> DungeonRunRecovery result" where
  "ActiveDungeonRun s accountID characterID =
     (case dungeonRecoveries s characterID of
        None \<Rightarrow> Inl ErrNotFound
      | Some row \<Rightarrow>
          if \<not> dr_Required row \<or> dr_AccountID row \<noteq> accountID then Inl ErrNotFound else Inr row)"

definition cancel_ticket :: "int \<Rightarrow> int \<Rightarrow> string \<Rightarrow> GameTicket \<Rightarrow> GameTicket" where
  "cancel_ticket accountID characterID serverID ticket =
     (if tk_AccountID ticket = accountID \<and>
         (tk_CharacterID ticket = characterID \<or>
          tk_CharacterID ticket = 0 \<and> tk_ServerID ticket = serverID) \<and> \<not> tk_Consumed ticket
      then ticket\<lparr>tk_Consumed := True\<rparr> else ticket)"

definition CancelDungeonRun :: "store \<Rightarrow> int \<Rightarrow> int \<Rightarrow> string \<Rightarrow> string \<Rightarrow> DungeonRunRecovery op" where
  "CancelDungeonRun s accountID characterID dungeonRunID reason =
     (case dungeonRecoveries s characterID of
        None \<Rightarrow> (s, Inl ErrNotFound)
      | Some row \<Rightarrow>
          if dr_AccountID row \<noteq> accountID \<or> dr_DungeonRunID row \<noteq> TrimSpace dungeonRunID
          then (s, Inl ErrNotFound)
          else if \<not> dr_Required row
          then (s, if dr_Status row = ''CANCELLED'' then Inr row else Inl ErrForbidden)
          else
            let row' = row\<lparr>dr_Required := False, dr_Status := ''CANCELLED''\<rparr>
            in (s\<lparr>dungeonRecoveries := (dungeonRecoveries s)(characterID \<mapsto> row'),
                  tickets := (\<lambda>k. map_option (cancel_ticket accountID characterID (dr_ServerID row))
                    (tickets s k))\<rparr>, Inr row'))"

text \<open>The rewards of a finished run, one by one with their index.\<close>

fun reward_items :: "int \<Rightarrow> DungeonRewardGrant list \<Rightarrow> InventoryItem list" where
  "reward_items index [] = []"
| "reward_items index (reward # rest) =
     (if rg_RewardType reward = ''equipment'' then reward_items (index + 1) rest
      else \<lparr>it_ID = index + 1, it_ItemID = rg_ItemID reward, it_Quantity = rg_Quantity reward,
            it_Slot = - 1, it_Durability = 0, it_EnhanceLevel = 0\<rparr> # reward_items (index + 1) rest)"

fun reward_equipment :: "int \<Rightarrow> DungeonRewardGrant list \<Rightarrow> EquipmentItem list" where
  "reward_equipment index [] = []"
| "reward_equipment index (reward # rest) =
     (if rg_RewardType reward \<noteq> ''equipment'' then reward_equipment (index + 1) rest
      else \<lparr>eq_ID = index + 1, eq_EquipmentUID = rg_EquipmentUID reward, eq_ItemID = rg_ItemID reward,
            eq_Rarity = rg_Rarity reward, eq_EnhanceLevel = 0, eq_Durability = 0, eq_MaxDurability = 0,
            eq_Status = ''IN_LOOT_TRAY'', eq_EquipSlot = - 1, eq_Slot = - 1, eq_WeaponType = 0,
            eq_WeaponTypeKey = [], eq_NFTContract = None, eq_NFTTokenID = None, eq_NFTStatus = None,
            eq_Affixes = rg_Affixes reward, eq_ResolvedBaseFlat = Map.empty,
            eq_ResolvedBasePercent = Map.empty, eq_ResolvedFlatStats = Map.empty,
            eq_ResolvedPercentStats = Map.empty, eq_FinalBonuses = Map.empty\<rparr>
        # reward_equipment (index + 1) rest)"

definition clear_progress :: "DungeonFinishRequest \<Rightarrow> Character \<Rightarrow> Character" where
  "clear_progress req character =
     (if ch_HighestClearedChapterID character < fi_ChapterID req \<or>
         ch_HighestClearedChapterID character = fi_ChapterID req \<and>
         ch_HighestClearedFloorID character < fi_FloorID req
      then character\<lparr>ch_HighestClearedChapterID := fi_ChapterID req,
                     ch_HighestClearedFloorID := fi_FloorID req\<rparr>
      else character)"

definition gain_exp :: "DungeonFinishRequest \<Rightarrow> Character \<Rightarrow> Character \<times> LevelProgress" where
  "gain_exp req character =
     (let xp = (if fi_Exp req > 0 then w64 (ch_Exp character + fi_Exp req) else ch_Exp character);
          progress = Progress (fi_LevelProgression req) (ch_Level character) xp
      in (character\<lparr>ch_Exp := xp, ch_Level := pg_Level progress\<rparr>, progress))"

definition DungeonFinish :: "(string \<Rightarrow> string) \<Rightarrow> store \<Rightarrow> DungeonFinishRequest \<Rightarrow> DungeonResult op" where
  "DungeonFinish uc s req =
     (let result = ToLower uc (TrimSpace (fi_Result req));
          status = (if result = ''victory'' then ''REWARDED'' else ''FAILED'')
      in case dungeonRecoveries s (fi_CharacterID req) of
           None \<Rightarrow> (s, Inl ErrForbidden)
         | Some recovery \<Rightarrow>
             if \<not> dr_Required recovery \<or> dr_AccountID recovery \<noteq> fi_AccountID req \<or>
                dr_DungeonRunID recovery \<noteq> TrimSpace (fi_DungeonRunID req)
             then (s, Inl ErrForbidden)
             else if dr_ServerID recovery \<noteq> [] \<and> TrimSpace (fi_ServerID req) \<noteq> dr_ServerID recovery
             then (s, Inl ErrForbidden)
             else (case characters s (fi_CharacterID req) of
                 None \<Rightarrow> (s, Inl ErrNotFound)
               | Some character \<Rightarrow>
                   if \<not> owns (fi_AccountID req) character then (s, Inl ErrNotFound)
                   else
                     let (character1, levelProgress) = gain_exp req character;
                         character2 = (if result = ''victory'' then clear_progress req character1 else character1);
                         recovery' = recovery\<lparr>dr_Required := False,
                           dr_Status := if result = ''victory'' then ''FINISHED'' else ''FAILED''\<rparr>;
                         s1 = s\<lparr>characters := (characters s)(fi_CharacterID req \<mapsto> character2),
                                dungeonRecoveries := (dungeonRecoveries s)(fi_CharacterID req \<mapsto> recovery')\<rparr>
                     in (case EconomySnapshot_op s1 (fi_AccountID req) (fi_CharacterID req) of
                           (s2, Inl e) \<Rightarrow> (s2, Inl e)
                         | (s2, Inr snapshot) \<Rightarrow>
                             (s2, Inr \<lparr>du_DungeonRunID = TrimSpace (fi_DungeonRunID req),
                               du_ChapterID = fi_ChapterID req, du_FloorID = fi_FloorID req,
                               du_IsBoss = rp_IsBoss (fi_RewardPlan req), du_Status = status,
                               du_Result = result, du_Cost = \<lparr>dc_Gold = 0, dc_Items = []\<rparr>,
                               du_Rewards = \<lparr>rw_Exp = fi_Exp req,
                                 rw_LevelsGained = pg_LevelsGained levelProgress,
                                 rw_Level = sn_Level snapshot, rw_ExpToNextLevel = 0,
                                 rw_TokenReward = FormatInt (rp_TokenReward (fi_RewardPlan req)),
                                 rw_Items = reward_items 0 (rp_Items (fi_RewardPlan req)),
                                 rw_EquipmentItems = reward_equipment 0 (rp_Items (fi_RewardPlan req))\<rparr>,
                               du_Discarded = [], du_Snapshot = snapshot\<rparr>))))"

section \<open>Gathering, bosses and the mystery shop\<close>

definition gatheringSettlementKey :: "int \<Rightarrow> string \<Rightarrow> string" where
  "gatheringSettlementKey characterID nodeID = FormatInt characterID @ '':'' @ TrimSpace nodeID"

text \<open>The cooldown error quotes the node with \<open>%q\<close>; its text is the argument \<open>quote\<close>.\<close>

definition activitySettlement ::
  "(string \<Rightarrow> string) \<Rightarrow> store \<Rightarrow> ActivitySettlementRequest \<Rightarrow> ActivitySettlementResult op" where
  "activitySettlement quote s req =
     (case EconomySnapshot_op s (as_AccountID req) (as_CharacterID req) of
        (s1, Inl e) \<Rightarrow> (s1, Inl e)
      | (s1, Inr snapshot) \<Rightarrow>
          let result = \<lparr>ar_ActivityID = TrimSpace (as_ActivityID req),
                ar_ActivityType = TrimSpace (as_ActivityType req),
                ar_Rewards = zero_rewards (FormatInt (rp_TokenReward (as_RewardPlan req))),
                ar_Snapshot = snapshot\<rparr>
          in if TrimSpace (as_ActivityType req) = ''gathering'' \<and> as_RespawnSeconds req > 0
             then
               let key = gatheringSettlementKey (as_CharacterID req) (as_ActivityID req);
                   now = time_Now s1; s2 = tick s1;
                   cooling = (case gatheringSettlements s2 key of
                       None \<Rightarrow> False
                     | Some settled \<Rightarrow> Before now (settled + Seconds (as_RespawnSeconds req)))
               in if cooling
                  then (s2, Inl (ErrMsg (''gathering node '' @ quote (TrimSpace (as_ActivityID req)) @ '' is on cooldown'')))
                  else (s2\<lparr>gatheringSettlements := (gatheringSettlements s2)(key \<mapsto> now)\<rparr>, Inr result)
             else (s1, Inr result))"

definition BossContribute :: "int \<Rightarrow> int \<Rightarrow> (int \<times> string \<times> int) result" where
  "BossContribute bossEventID contribution =
     (if contribution \<le> 0 then Inl (ErrMsg ''contribution must be positive'')
      else Inr (bossEventID, ''shadow_leviathan'', contribution))"

definition BossOpenEvent :: "store \<Rightarrow> string \<Rightarrow> time \<Rightarrow> time \<Rightarrow> BossEvent op" where
  "BossOpenEvent s bossKey startsAt0 endsAt0 =
     (let now = time_Now s; s1 = tick s;
          startsAt = (if IsZero startsAt0 then now else startsAt0);
          endsAt = (if IsZero endsAt0 then startsAt + 2 * hour_nanos else endsAt0);
          (s2, n) = store_next s1
      in (s2, Inr \<lparr>be_ID = n, be_BossKey = TrimSpace bossKey, be_Status = ''OPEN'',
            be_StartsAt = startsAt, be_EndsAt = endsAt, be_CreatedAt = now\<rparr>))"

definition mysteryShopKey :: "int \<Rightarrow> string \<Rightarrow> string" where
  "mysteryShopKey characterID shopID = FormatInt characterID @ '':'' @ TrimSpace shopID"

definition MysteryShopBoard :: "store \<Rightarrow> int \<Rightarrow> int \<Rightarrow> string \<Rightarrow> MysteryShopBoardState result" where
  "MysteryShopBoard s accountID characterID shopID =
     (case characters s characterID of
        None \<Rightarrow> Inl ErrNotFound
      | Some character \<Rightarrow>
          if \<not> owns accountID character then Inl ErrNotFound
          else (case mysteryShops s (mysteryShopKey characterID shopID) of
                  None \<Rightarrow> Inl ErrNotFound | Some row \<Rightarrow> Inr row))"

definition RefreshMysteryShop :: "store \<Rightarrow> MysteryShopRefreshRequest \<Rightarrow> MysteryShopBoardState op" where
  "RefreshMysteryShop s req =
     (case characters s (mr_CharacterID req) of
        None \<Rightarrow> (s, Inl ErrNotFound)
      | Some character \<Rightarrow>
          if \<not> owns (mr_AccountID req) character then (s, Inl ErrNotFound)
          else
            let state = \<lparr>mb_ShopID = TrimSpace (mr_ShopID req), mb_CharacterID = mr_CharacterID req,
                         mb_NextFreeRefreshAt = mr_NextFreeRefreshAt req,
                         mb_GeneratedAt = mr_GeneratedAt req, mb_Offers = mr_Offers req\<rparr>
            in (s\<lparr>mysteryShops := (mysteryShops s)(mysteryShopKey (mr_CharacterID req) (mr_ShopID req) \<mapsto> state)\<rparr>,
                Inr state))"

text \<open>The loop that marks an offer: the first one with the slot, then it stops.\<close>

fun mark_purchased :: "int \<Rightarrow> MysteryShopOffer list \<Rightarrow> MysteryShopOffer list" where
  "mark_purchased slot [] = []"
| "mark_purchased slot (offer # offers) =
     (if mo_SlotIndex offer = slot then offer\<lparr>mo_Purchased := True\<rparr> # offers
      else offer # mark_purchased slot offers)"

definition ShopBuyGold :: "store \<Rightarrow> ShopBuyRequest \<Rightarrow> EconomySnapshot op" where
  "ShopBuyGold s req =
     (if sb_ShopSlotIndex req > 0 \<and> sb_ShopDailyLimit req > 0 \<and> sb_Quantity req > sb_ShopDailyLimit req
      then (s, Inl (ErrMsg ''shop daily purchase limit reached''))
      else
        let key = mysteryShopKey (sb_CharacterID req) (sb_ShopID req);
            s1 = (if sb_MysterySlotIndex req > 0
                  then (case mysteryShops s key of
                          None \<Rightarrow> s
                        | Some state \<Rightarrow> s\<lparr>mysteryShops := (mysteryShops s)(key \<mapsto>
                            state\<lparr>mb_Offers := mark_purchased (sb_MysterySlotIndex req) (mb_Offers state)\<rparr>)\<rparr>)
                  else s)
        in EconomySnapshot_op s1 (sb_AccountID req) (sb_CharacterID req))"

definition ShopSell :: "store \<Rightarrow> int \<Rightarrow> int \<Rightarrow> EconomySnapshot op" where
  "ShopSell s accountID characterID = EconomySnapshot_op s accountID characterID"

section \<open>A run is finished at most once\<close>

lemma EconomySnapshot_cases:
  obtains (refused) "EconomySnapshot_op s a c = (s, Inl ErrNotFound)"
      "\<not> (\<exists>row. characters s c = Some row \<and> owns a row)"
  | (shown) row sn where "characters s c = Some row" "owns a row" "sn_Level sn = ch_Level row"
      "EconomySnapshot_op s a c = (s\<lparr>tokens := (tokens s)(a \<mapsto> token_of s a)\<rparr>, Inr sn)"
proof (cases "\<exists>row. characters s c = Some row \<and> owns a row")
  case True
  then obtain row where row: "characters s c = Some row" "owns a row" by blast
  then have "\<exists>sn. EconomySnapshot_op s a c = (s\<lparr>tokens := (tokens s)(a \<mapsto> token_of s a)\<rparr>, Inr sn) \<and>
      sn_Level sn = ch_Level row"
    by (simp add: EconomySnapshot_op_def ensureTokenLocked_eq Let_def)
  with row show ?thesis using shown by blast
next
  case False
  then show ?thesis
    using refused by (auto simp: EconomySnapshot_op_def split: option.splits)
qed

definition finished_character :: "(string \<Rightarrow> string) \<Rightarrow> DungeonFinishRequest \<Rightarrow> Character \<Rightarrow> Character" where
  "finished_character uc req ch =
     (if ToLower uc (TrimSpace (fi_Result req)) = ''victory'' then clear_progress req (fst (gain_exp req ch))
      else fst (gain_exp req ch))"

lemma owns_finished [simp]: "owns a (finished_character uc req ch) = owns a ch"
  by (simp add: finished_character_def clear_progress_def gain_exp_def owns_def Let_def)

lemma DungeonFinish_cases:
  obtains (refused) e where "DungeonFinish uc s req = (s, Inl e)"
  | (finished) rec ch r where "dungeonRecoveries s (fi_CharacterID req) = Some rec" "dr_Required rec"
      "characters s (fi_CharacterID req) = Some ch" "owns (fi_AccountID req) ch"
      "dr_AccountID rec = fi_AccountID req" "dr_DungeonRunID rec = TrimSpace (fi_DungeonRunID req)"
      "snd (DungeonFinish uc s req) = Inr r"
      "rw_LevelsGained (du_Rewards r) = pg_LevelsGained (snd (gain_exp req ch))"
      "characters (fst (DungeonFinish uc s req)) = (characters s)(fi_CharacterID req \<mapsto> finished_character uc req ch)"
      "dungeonRecoveries (fst (DungeonFinish uc s req)) = (dungeonRecoveries s)(fi_CharacterID req \<mapsto>
         rec\<lparr>dr_Required := False, dr_Status := if ToLower uc (TrimSpace (fi_Result req)) = ''victory''
           then ''FINISHED'' else ''FAILED''\<rparr>)"
      "token_of (fst (DungeonFinish uc s req)) = token_of s"
proof (cases "\<exists>rec ch. dungeonRecoveries s (fi_CharacterID req) = Some rec \<and> dr_Required rec \<and>
    dr_AccountID rec = fi_AccountID req \<and> dr_DungeonRunID rec = TrimSpace (fi_DungeonRunID req) \<and>
    \<not> (dr_ServerID rec \<noteq> [] \<and> TrimSpace (fi_ServerID req) \<noteq> dr_ServerID rec) \<and>
    characters s (fi_CharacterID req) = Some ch \<and> owns (fi_AccountID req) ch")
  case False
  have "\<exists>e. DungeonFinish uc s req = (s, Inl e)"
  proof (cases "dungeonRecoveries s (fi_CharacterID req)")
    case (Some rec)
    then show ?thesis
      using False by (cases "characters s (fi_CharacterID req)") (auto simp: DungeonFinish_def Let_def)
  qed (simp add: DungeonFinish_def Let_def)
  then show ?thesis using refused by blast
next
  case True
  then obtain rec ch where h: "dungeonRecoveries s (fi_CharacterID req) = Some rec" "dr_Required rec"
    "dr_AccountID rec = fi_AccountID req" "dr_DungeonRunID rec = TrimSpace (fi_DungeonRunID req)"
    "\<not> (dr_ServerID rec \<noteq> [] \<and> TrimSpace (fi_ServerID req) \<noteq> dr_ServerID rec)"
    "characters s (fi_CharacterID req) = Some ch" "owns (fi_AccountID req) ch" by blast
  define s1 where "s1 = s\<lparr>characters := (characters s)(fi_CharacterID req \<mapsto> finished_character uc req ch),
    dungeonRecoveries := (dungeonRecoveries s)(fi_CharacterID req \<mapsto> rec\<lparr>dr_Required := False,
      dr_Status := if ToLower uc (TrimSpace (fi_Result req)) = ''victory'' then ''FINISHED'' else ''FAILED''\<rparr>)\<rparr>"
  obtain sn where sn: "EconomySnapshot_op s1 (fi_AccountID req) (fi_CharacterID req) =
      (s1\<lparr>tokens := (tokens s1)(fi_AccountID req \<mapsto> token_of s1 (fi_AccountID req))\<rparr>, Inr sn)"
    using h(7) by (cases rule: EconomySnapshot_cases [of s1 "fi_AccountID req" "fi_CharacterID req"]) (auto simp: s1_def)
  have run: "\<exists>r. DungeonFinish uc s req = (s1\<lparr>tokens := (tokens s1)(fi_AccountID req \<mapsto> token_of s1 (fi_AccountID req))\<rparr>, Inr r)
      \<and> rw_LevelsGained (du_Rewards r) = pg_LevelsGained (snd (gain_exp req ch))"
    using h(1-7) sn [unfolded s1_def finished_character_def] unfolding s1_def finished_character_def
    by (simp add: DungeonFinish_def Let_def case_prod_beta)
  then obtain r where "DungeonFinish uc s req = (s1\<lparr>tokens := (tokens s1)(fi_AccountID req \<mapsto> token_of s1 (fi_AccountID req))\<rparr>, Inr r)"
      "rw_LevelsGained (du_Rewards r) = pg_LevelsGained (snd (gain_exp req ch))" by blast
  then show ?thesis
    by (intro finished [OF h(1,2,6,7,3,4)]) (simp_all add: s1_def fun_eq_iff)
qed

lemma DungeonFinish_succeeds:
  assumes "dungeonRecoveries s (fi_CharacterID req) = Some rec" and "dr_Required rec"
    and "dr_AccountID rec = fi_AccountID req" and "dr_DungeonRunID rec = TrimSpace (fi_DungeonRunID req)"
    and "dr_ServerID rec = TrimSpace (fi_ServerID req)"
    and "characters s (fi_CharacterID req) = Some ch" and "owns (fi_AccountID req) ch"
  shows "is_ok (snd (DungeonFinish uc s req))"
  using assms
  by (simp add: DungeonFinish_def Let_def case_prod_beta EconomySnapshot_op_def
      ensureTokenLocked_eq flip: finished_character_def)

lemma EconomySnapshot_keeps [simp]:
  "dungeonRecoveries (fst (EconomySnapshot_op s a c)) = dungeonRecoveries s"
  "characters (fst (EconomySnapshot_op s a c)) = characters s"
  "gatheringSettlements (fst (EconomySnapshot_op s a c)) = gatheringSettlements s"
  "mysteryShops (fst (EconomySnapshot_op s a c)) = mysteryShops s"
  "time_Now (fst (EconomySnapshot_op s a c)) = time_Now s"
  by (cases rule: EconomySnapshot_cases [of s a c]; simp add: time_Now_def)+

lemma DungeonFinish_spends:
  "is_ok (snd (DungeonFinish uc s req)) \<Longrightarrow> \<not> run_required (fst (DungeonFinish uc s req)) (fi_CharacterID req)"
  by (cases rule: DungeonFinish_cases [of uc s req]) (simp_all add: run_required_def)

lemma DungeonFinish_refused:
  "\<not> run_required s (fi_CharacterID req) \<Longrightarrow> \<not> is_ok (snd (DungeonFinish uc s req))"
  by (cases rule: DungeonFinish_cases [of uc s req]) (simp_all add: run_required_def)

lemma DungeonFinish_keeps:
  "\<not> run_required s c \<Longrightarrow> \<not> run_required (fst (DungeonFinish uc s req)) c"
  by (cases rule: DungeonFinish_cases [of uc s req]) (auto simp: run_required_def)

interpretation dungeon: single_use
  "\<lambda>s c req. DungeonFinish uc s (req\<lparr>fi_CharacterID := c\<rparr>)" "\<lambda>s c. \<not> run_required s c" "\<lambda>_ _. True"
  for uc
proof
  fix s s' c j and req :: DungeonFinishRequest and r :: DungeonResult
  show "\<not> run_required s' c" if "DungeonFinish uc s (req\<lparr>fi_CharacterID := c\<rparr>) = (s', Inr r)"
    using DungeonFinish_spends [of uc s "req\<lparr>fi_CharacterID := c\<rparr>"] that by simp
  show "\<not> is_ok (snd (DungeonFinish uc s (req\<lparr>fi_CharacterID := c\<rparr>)))" if "\<not> run_required s c"
    using DungeonFinish_refused [of s "req\<lparr>fi_CharacterID := c\<rparr>" uc] that by simp
  show "\<not> run_required (fst (DungeonFinish uc s (req\<lparr>fi_CharacterID := j\<rparr>))) c" if "\<not> run_required s c"
    using DungeonFinish_keeps [OF that] by simp
qed

datatype dungeon_call =
    Enter_dungeon DungeonEnterRequest
  | Cancel_run int int string string
  | Finish_run DungeonFinishRequest

fun dungeon_exec :: "(string \<Rightarrow> string) \<Rightarrow> store \<Rightarrow> dungeon_call \<Rightarrow> store" where
  "dungeon_exec uc s (Enter_dungeon req) = fst (DungeonEnter s req)"
| "dungeon_exec uc s (Cancel_run a c run reason) = fst (CancelDungeonRun s a c run reason)"
| "dungeon_exec uc s (Finish_run req) = fst (DungeonFinish uc s req)"

fun finish_run :: "(string \<Rightarrow> string) \<Rightarrow> store \<Rightarrow> dungeon_call list \<Rightarrow> (int \<times> bool) list" where
  "finish_run uc s [] = []"
| "finish_run uc s (c # cs) =
     (case c of Finish_run req \<Rightarrow> [(fi_CharacterID req, is_ok (snd (DungeonFinish uc s req)))] | _ \<Rightarrow> [])
     @ finish_run uc (dungeon_exec uc s c) cs"

fun finish_event :: "(string \<Rightarrow> string) \<Rightarrow> dungeon_call \<Rightarrow> (store \<Rightarrow> store) + int \<times> DungeonFinishRequest" where
  "finish_event uc (Finish_run req) = Inr (fi_CharacterID req, req)"
| "finish_event uc c = Inl (\<lambda>s. dungeon_exec uc s c)"

lemma finish_run_eq: "finish_run uc s cs = dungeon.run uc s (map (finish_event uc) cs)"
proof (induction cs arbitrary: s)
  case (Cons c cs)
  then show ?case by (cases c) simp_all
qed simp

lemma DungeonEnter_other:
  "en_CharacterID req \<noteq> c \<Longrightarrow> dungeonRecoveries (fst (DungeonEnter s req)) c = dungeonRecoveries s c"
  by (cases rule: EconomySnapshot_cases [of s "en_AccountID req" "en_CharacterID req"])
    (simp_all add: DungeonEnter_def tick_def Let_def)

lemma CancelDungeonRun_keeps: "\<not> run_required s c \<Longrightarrow> \<not> run_required (fst (CancelDungeonRun s a k run reason)) c"
  by (auto simp: CancelDungeonRun_def run_required_def Let_def split: option.splits)

lemma dungeon_calls_harmless:
  "\<forall>req. Enter_dungeon req \<in> set cs \<longrightarrow> en_CharacterID req \<noteq> c \<Longrightarrow> dungeon.harmless c (map (finish_event uc) cs)"
proof (induction cs)
  case (Cons call cs)
  then have "dungeon.harmless c (map (finish_event uc) cs)" by simp
  moreover have "\<not> run_required (fst (DungeonEnter s req)) c" if "\<not> run_required s c" "call = Enter_dungeon req" for s req
    using that Cons.prems by (simp add: run_required_def DungeonEnter_other)
  ultimately show ?case by (cases call) (simp_all add: CancelDungeonRun_keeps)
qed (simp add: dungeon.harmless_def)

text \<open>
  In any sequence of dungeon calls in which the character does not enter again, at most one finish
  succeeds, and none does when no run is active, because it was finished, failed or cancelled.
\<close>

lemma finished_once_without_entry:
  assumes "\<forall>req. Enter_dungeon req \<in> set cs \<longrightarrow> en_CharacterID req \<noteq> c"
  shows "count_list (finish_run uc s cs) (c, True) \<le> 1 \<and>
    (\<not> run_required s c \<longrightarrow> (c, True) \<notin> set (finish_run uc s cs))"
  unfolding finish_run_eq
  using dungeon.at_most_once [OF dungeon_calls_harmless [OF assms]]
    dungeon.spent_never_again [OF _ dungeon_calls_harmless [OF assms]] by blast

definition sample_enter :: DungeonEnterRequest where
  "sample_enter = \<lparr>en_OpID = ''op'', en_AccountID = 1001, en_CharacterID = 1002, en_ServerID = ''s1'',
     en_ChapterID = 2, en_FloorID = 3, en_IsBoss = False, en_Cost = \<lparr>dc_Gold = 0, dc_Items = []\<rparr>\<rparr>"

definition sample_finish :: DungeonFinishRequest where
  "sample_finish = \<lparr>fi_OpID = ''op2'', fi_AccountID = 1001, fi_CharacterID = 1002, fi_DungeonRunID = ''memory-op'',
     fi_ServerID = ''s1'', fi_ChapterID = 2, fi_FloorID = 3, fi_Result = ''victory'', fi_Exp = 300,
     fi_RewardPlan = \<lparr>rp_IsBoss = False, rp_Items = [], rp_TokenReward = 0\<rparr>, fi_LevelProgression = sample_rules,
     fi_EquipmentWearPoints = 0, fi_DefaultMaxDurability = 0\<rparr>"

abbreviation in_dungeon :: store where
  "in_dungeon \<equiv> fst (DungeonEnter one_hero sample_enter)"

lemma finished_once_without_entry_witness:
  "count_list (finish_run (\<lambda>x. x) in_dungeon [Finish_run sample_finish, Finish_run sample_finish]) (1002, True) \<le> 1"
  using finished_once_without_entry [of "[Finish_run sample_finish, Finish_run sample_finish]" 1002 "\<lambda>x. x" in_dungeon]
  by simp

section \<open>What a finish changes\<close>

text \<open>Clear progress is compared by chapter, then by floor.\<close>

definition cleared_le :: "int \<times> int \<Rightarrow> int \<times> int \<Rightarrow> bool" where
  "cleared_le a b \<longleftrightarrow> fst a < fst b \<or> fst a = fst b \<and> snd a \<le> snd b"

definition cleared :: "Character \<Rightarrow> int \<times> int" where
  "cleared ch = (ch_HighestClearedChapterID ch, ch_HighestClearedFloorID ch)"

lemma cleared_le_refl [simp]: "cleared_le a a"
  by (simp add: cleared_le_def)

lemma clear_progress_le:
  "cleared_le (cleared ch) (cleared (clear_progress req ch))"
  "cleared_le (fi_ChapterID req, fi_FloorID req) (cleared (clear_progress req ch))"
  "ch_Level (clear_progress req ch) = ch_Level ch" "ch_Exp (clear_progress req ch) = ch_Exp ch"
  by (auto simp: cleared_le_def cleared_def clear_progress_def)

lemma gain_exp_simps [simp]:
  "cleared (fst (gain_exp req ch)) = cleared ch"
  "ch_Exp (fst (gain_exp req ch)) = (if fi_Exp req > 0 then w64 (ch_Exp ch + fi_Exp req) else ch_Exp ch)"
  "ch_Level (fst (gain_exp req ch)) = pg_Level (snd (gain_exp req ch))"
  by (simp_all add: gain_exp_def cleared_def Let_def)

lemma gain_exp_levels:
  assumes "sound_rules (fi_LevelProgression req)" and "1 \<le> ch_Level ch" and "ch_Level ch < 2 ^ 63"
    and "0 \<le> ch_Exp ch" and "ch_Exp ch + max 0 (fi_Exp req) < 2 ^ 63"
  shows "ch_Level ch \<le> pg_Level (snd (gain_exp req ch))"
    and "pg_LevelsGained (snd (gain_exp req ch)) = pg_Level (snd (gain_exp req ch)) - ch_Level ch"
    and "ch_Exp (fst (gain_exp req ch)) = ch_Exp ch + max 0 (fi_Exp req)"
proof -
  show xp: "ch_Exp (fst (gain_exp req ch)) = ch_Exp ch + max 0 (fi_Exp req)"
    using assms(4,5) by (auto simp: w64_nonneg)
  have en: "enabled (fi_LevelProgression req)" using assms(1) by (simp add: sound_rules_def)
  have run: "snd (gain_exp req ch) =
      progress_loop (fi_LevelProgression req) (ch_Level ch) (ch_Exp ch + max 0 (fi_Exp req)) (ch_Level ch)"
    using xp assms(2,4) en by (simp add: gain_exp_def Progress_def Let_def)
  note ok = progress_loop_correct [OF assms(1,2) order_refl _ _ assms(5,3)]
  show "ch_Level ch \<le> pg_Level (snd (gain_exp req ch))"
    "pg_LevelsGained (snd (gain_exp req ch)) = pg_Level (snd (gain_exp req ch)) - ch_Level ch"
    using ok assms(4) unfolding run by (auto simp: level_for_def)
qed

text \<open>
  A finished run adds its experience exactly once, never lowers the character's level
  and reports the levels gained; clear progress never goes back, and after a victory it is at
  least the floor that was cleared; no other character and no balance changes, and the run is no
  longer active.
\<close>

lemma dungeon_finish_effect:
  assumes "DungeonFinish uc s req = (t, Inr r)" and "characters s (fi_CharacterID req) = Some ch"
    and "sound_rules (fi_LevelProgression req)" and "1 \<le> ch_Level ch" and "ch_Level ch < 2 ^ 63"
    and "0 \<le> ch_Exp ch" and "ch_Exp ch + max 0 (fi_Exp req) < 2 ^ 63"
  shows "\<exists>ch'. characters t = (characters s)(fi_CharacterID req \<mapsto> ch') \<and>
    ch_Exp ch' = ch_Exp ch + max 0 (fi_Exp req) \<and> ch_Level ch \<le> ch_Level ch' \<and>
    rw_LevelsGained (du_Rewards r) = ch_Level ch' - ch_Level ch \<and>
    cleared_le (cleared ch) (cleared ch') \<and>
    (du_Status r = ''REWARDED'' \<longrightarrow> cleared_le (fi_ChapterID req, fi_FloorID req) (cleared ch')) \<and>
    (du_Status r \<noteq> ''REWARDED'' \<longrightarrow> cleared ch' = cleared ch) \<and>
    token_of t = token_of s \<and> \<not> run_required t (fi_CharacterID req)"
proof (cases rule: DungeonFinish_cases [of uc s req])
  case (refused e)
  with assms(1) show ?thesis by simp
next
  case (finished rec ch0 r0)
  then have eq: "ch0 = ch" "r0 = r" using assms(1,2) by simp_all
  have t: "t = fst (DungeonFinish uc s req)" using assms(1) by simp
  have st: "du_Status r = (if ToLower uc (TrimSpace (fi_Result req)) = ''victory'' then ''REWARDED'' else ''FAILED'')"
    using assms(1) by (auto simp: DungeonFinish_def Let_def case_prod_beta split: option.splits if_splits prod.splits sum.splits)
  note lv = gain_exp_levels [OF assms(3-7)]
  have "ch_Exp (finished_character uc req ch) = ch_Exp ch + max 0 (fi_Exp req)"
    "ch_Level (finished_character uc req ch) = pg_Level (snd (gain_exp req ch))"
    using lv(3) by (auto simp: finished_character_def clear_progress_le simp del: gain_exp_simps(2))
  moreover have "cleared_le (cleared ch) (cleared (finished_character uc req ch))"
    using clear_progress_le(1) [of "fst (gain_exp req ch)" req] by (simp add: finished_character_def)
  moreover have "\<not> run_required t (fi_CharacterID req)" using finished(10) by (simp add: t run_required_def)
  ultimately show ?thesis
    using finished(8,9,11) lv(1,2) unfolding t eq st
    by (intro exI [of _ "finished_character uc req ch"])
      (simp add: finished_character_def clear_progress_le split: if_splits)
qed

lemma in_dungeon_fields:
  "\<exists>rec. dungeonRecoveries in_dungeon 1002 = Some rec \<and> dr_Required rec \<and> dr_AccountID rec = 1001 \<and>
     dr_DungeonRunID rec = ''memory-op'' \<and> dr_ServerID rec = ''s1''"
  "characters in_dungeon = characters one_hero"
proof -
  obtain row where row: "characters one_hero 1002 = Some row" "owns 1001 row" using one_hero_fields(2) by auto
  obtain t sn where t: "EconomySnapshot_op one_hero 1001 1002 = (t, Inr sn)" "dungeonRecoveries t = Map.empty"
    "characters t = characters one_hero"
  proof (cases rule: EconomySnapshot_cases [of one_hero 1001 1002])
    case (shown row sn)
    have none: "dungeonRecoveries one_hero = Map.empty"
      by (auto simp: CreateCharacterWithAppearance_def UpsertAccountByWallet_def store_simps Let_def split: option.splits)
    show ?thesis by (rule that [OF shown(4)]) (simp_all add: none)
  qed (use row in auto)
  show "\<exists>rec. dungeonRecoveries in_dungeon 1002 = Some rec \<and> dr_Required rec \<and> dr_AccountID rec = 1001 \<and>
     dr_DungeonRunID rec = ''memory-op'' \<and> dr_ServerID rec = ''s1''"
    "characters in_dungeon = characters one_hero"
    using t by (simp_all add: DungeonEnter_def sample_enter_def run_required_def tick_def Let_def TrimSpace_def
        space1_def space2_def)
qed

lemma dungeon_finish_effect_witness:
  "\<exists>r ch'. snd (DungeonFinish (\<lambda>x. x) in_dungeon sample_finish) = Inr r \<and>
     characters (fst (DungeonFinish (\<lambda>x. x) in_dungeon sample_finish)) 1002 = Some ch' \<and> ch_Exp ch' = 300"
proof -
  obtain rec where rec: "dungeonRecoveries in_dungeon 1002 = Some rec" "dr_Required rec" "dr_AccountID rec = 1001"
    "dr_DungeonRunID rec = ''memory-op''" "dr_ServerID rec = ''s1''" using in_dungeon_fields(1) by blast
  obtain ch where ch: "characters in_dungeon 1002 = Some ch" "owns 1001 ch" "ch_Level ch = 1" "ch_Exp ch = 0"
    using one_hero_fields(2) in_dungeon_fields(2) by auto
  have trims: "TrimSpace ''memory-op'' = ''memory-op''" "TrimSpace ''s1'' = ''s1''"
    by (simp_all add: TrimSpace_def space1_def space2_def space3_def)
  have "is_ok (snd (DungeonFinish (\<lambda>x. x) in_dungeon sample_finish))"
    by (rule DungeonFinish_succeeds) (use rec ch in \<open>simp_all add: sample_finish_def trims\<close>)
  then obtain r where r: "DungeonFinish (\<lambda>x. x) in_dungeon sample_finish =
      (fst (DungeonFinish (\<lambda>x. x) in_dungeon sample_finish), Inr r)"
    by (metis is_okE prod.collapse)
  have T: "threshold sample_rules 5 = 1200" using threshold_closed [of 5 sample_rules] by (simp add: sample_rules_def)
  have sound: "sound_rules (fi_LevelProgression sample_finish)"
    using T by (simp add: sample_finish_def sound_rules_def enabled_def) (simp add: sample_rules_def)
  have c: "characters in_dungeon (fi_CharacterID sample_finish) = Some ch" using ch(1) by (simp add: sample_finish_def)
  have f: "fi_CharacterID sample_finish = 1002" "fi_Exp sample_finish = 300" by (simp_all add: sample_finish_def)
  obtain ch' where ch': "characters (fst (DungeonFinish (\<lambda>x. x) in_dungeon sample_finish)) =
      (characters in_dungeon)(1002 \<mapsto> ch')" "ch_Exp ch' = 300"
    using dungeon_finish_effect [OF r c sound] ch(3,4) unfolding f by auto
  have "snd (DungeonFinish (\<lambda>x. x) in_dungeon sample_finish) = Inr r" using r by (metis snd_conv)
  then show ?thesis by (intro exI [of _ r] exI [of _ ch']) (simp add: ch')
qed

section \<open>Cancelling a run\<close>

text \<open>
  Cancelling an active run ends it and disarms its tickets: afterwards no run is
  active, every ticket of the account for that character (or for no character, on the run's
  server) is refused, every other ticket is as before, and cancelling again changes nothing and
  reports the same run.
\<close>

lemma cancel_disarms_tickets:
  assumes "CancelDungeonRun s a c run reason = (t, Inr row)" and "run_required s c"
  shows "ActiveDungeonRun t a c = Inl ErrNotFound \<and> dr_Status row = ''CANCELLED'' \<and>
    (\<forall>k tk srv now. tickets t k = Some tk \<longrightarrow> tk_AccountID tk = a \<longrightarrow>
       tk_CharacterID tk = c \<or> tk_CharacterID tk = 0 \<and> tk_ServerID tk = dr_ServerID row \<longrightarrow>
       \<not> is_ok (snd (ConsumeTicket t k srv now))) \<and>
    (\<forall>k tk. tickets s k = Some tk \<longrightarrow> \<not> (tk_AccountID tk = a \<and>
       (tk_CharacterID tk = c \<or> tk_CharacterID tk = 0 \<and> tk_ServerID tk = dr_ServerID row)) \<longrightarrow> tickets t k = Some tk) \<and>
    CancelDungeonRun t a c run reason' = (t, Inr row)"
proof -
  obtain row0 where row0: "dungeonRecoveries s c = Some row0" "dr_Required row0"
    using assms(2) by (auto simp: run_required_def split: option.splits)
  have acc: "dr_AccountID row0 = a" "dr_DungeonRunID row0 = TrimSpace run"
    using assms(1) row0 by (auto simp: CancelDungeonRun_def split: if_splits)
  have row: "row = row0\<lparr>dr_Required := False, dr_Status := ''CANCELLED''\<rparr>"
    and t: "t = s\<lparr>dungeonRecoveries := (dungeonRecoveries s)(c \<mapsto> row),
      tickets := (\<lambda>k. map_option (cancel_ticket a c (dr_ServerID row0)) (tickets s k))\<rparr>"
    using assms(1) row0 acc by (auto simp: CancelDungeonRun_def Let_def)
  have "\<not> is_ok (snd (ConsumeTicket t k srv now))"
    if tk: "tickets t k = Some tk" "tk_AccountID tk = a"
      "tk_CharacterID tk = c \<or> tk_CharacterID tk = 0 \<and> tk_ServerID tk = dr_ServerID row" for k tk srv now
  proof -
    have row': "dr_ServerID row = dr_ServerID row0" by (simp add: row)
    obtain tk0 where "tickets s k = Some tk0" "tk = cancel_ticket a c (dr_ServerID row0) tk0"
      using tk(1) by (auto simp: t)
    then have "tk_Consumed tk" using tk(2,3) unfolding row' by (auto simp: cancel_ticket_def split: if_splits)
    then show ?thesis using tk(1) ticket.spent_refused [of t k "(srv, now)"] by (simp add: ticket_spent_def)
  qed
  moreover have "tickets t k = Some tk" if "tickets s k = Some tk" "\<not> (tk_AccountID tk = a \<and>
       (tk_CharacterID tk = c \<or> tk_CharacterID tk = 0 \<and> tk_ServerID tk = dr_ServerID row))" for k tk
    using that by (simp add: t cancel_ticket_def row)
  moreover have "ActiveDungeonRun t a c = Inl ErrNotFound" "dr_Status row = ''CANCELLED''"
    "CancelDungeonRun t a c run reason' = (t, Inr row)"
    by (simp_all add: ActiveDungeonRun_def CancelDungeonRun_def t row acc)
  ultimately show ?thesis by blast
qed

lemma cancel_disarms_tickets_witness:
  "ActiveDungeonRun (fst (CancelDungeonRun in_dungeon 1001 1002 ''memory-op'' [])) 1001 1002 = Inl ErrNotFound \<and>
   is_ok (ActiveDungeonRun in_dungeon 1001 1002)"
proof -
  obtain rec where rec: "dungeonRecoveries in_dungeon 1002 = Some rec" "dr_Required rec" "dr_AccountID rec = 1001"
    "dr_DungeonRunID rec = ''memory-op''" using in_dungeon_fields(1) by blast
  have trim: "TrimSpace ''memory-op'' = ''memory-op''" by (simp add: TrimSpace_def space1_def space2_def space3_def)
  obtain t row where run: "CancelDungeonRun in_dungeon 1001 1002 ''memory-op'' [] = (t, Inr row)"
    using rec by (auto simp: CancelDungeonRun_def trim Let_def)
  show ?thesis
    using cancel_disarms_tickets [OF run] rec run by (simp add: run_required_def ActiveDungeonRun_def)
qed

section \<open>Cooldowns and shop boards\<close>

lemma gatheringSettlementKey_inject:
  "gatheringSettlementKey c n = gatheringSettlementKey c' n' \<longleftrightarrow> c = c' \<and> TrimSpace n = TrimSpace n'"
  by (simp add: gatheringSettlementKey_def)

lemma mysteryShopKey_inject:
  "mysteryShopKey c n = mysteryShopKey c' n' \<longleftrightarrow> c = c' \<and> TrimSpace n = TrimSpace n'"
  by (simp add: mysteryShopKey_def)

definition is_gathering :: "ActivitySettlementRequest \<Rightarrow> bool" where
  "is_gathering req \<longleftrightarrow> TrimSpace (as_ActivityType req) = ''gathering'' \<and> as_RespawnSeconds req > 0"

lemma activitySettlement_ok:
  assumes "activitySettlement quote s req = (t, Inr r)" and "is_gathering req"
    and "key = gatheringSettlementKey (as_CharacterID req) (as_ActivityID req)"
  shows "gatheringSettlements t = (gatheringSettlements s)(key \<mapsto> time_Now s) \<and>
    (\<forall>since. gatheringSettlements s key = Some since \<longrightarrow> since + Seconds (as_RespawnSeconds req) \<le> time_Now s)"
proof (cases rule: EconomySnapshot_cases [of s "as_AccountID req" "as_CharacterID req"])
  case refused
  then show ?thesis using assms(1) by (simp add: activitySettlement_def)
next
  case (shown row sn)
  define s1 where "s1 = s\<lparr>tokens := (tokens s)(as_AccountID req \<mapsto> token_of s (as_AccountID req))\<rparr>"
  define cool where "cool = (case gatheringSettlements s key of
    None \<Rightarrow> False | Some since \<Rightarrow> time_Now s < since + Seconds (as_RespawnSeconds req))"
  have s1: "time_Now s1 = time_Now s" "gatheringSettlements (tick s1) = gatheringSettlements s"
    by (simp_all add: s1_def time_Now_def tick_def)
  have "\<exists>e v. activitySettlement quote s req = (if cool then (tick s1, Inl e)
      else ((tick s1)\<lparr>gatheringSettlements := (gatheringSettlements s)(key \<mapsto> time_Now s)\<rparr>, Inr v))"
    using assms(2) unfolding is_gathering_def
    by (simp add: activitySettlement_def shown(4) Let_def s1 assms(3) cool_def Before_def flip: s1_def
        split: option.split)
  then have "\<not> cool" "gatheringSettlements t = (gatheringSettlements s)(key \<mapsto> time_Now s)"
    unfolding assms(1) by (auto split: if_splits)
  then show ?thesis by (auto simp: cool_def)
qed

text \<open>
  A gathering node is on cooldown per character: after a settlement, any later
  settlement of the same node by the same character that succeeds happens at least the respawn
  time of its request after it, whatever white space the node is written with, and settlements of
  other nodes or characters do not touch the cooldown.
\<close>

lemma gathering_cooldown:
  assumes "activitySettlement quote s req = (t, Inr r)" and "is_gathering req"
    and "is_gathering req'" and "as_CharacterID req' = as_CharacterID req"
    and "TrimSpace (as_ActivityID req') = TrimSpace (as_ActivityID req)"
    and "gatheringSettlements u = gatheringSettlements t"
    and "activitySettlement quote u req' = (v, Inr r')"
  shows "time_Now s + Seconds (as_RespawnSeconds req') \<le> time_Now u \<and>
    (\<forall>c n. c \<noteq> as_CharacterID req \<or> TrimSpace n \<noteq> TrimSpace (as_ActivityID req) \<longrightarrow>
       gatheringSettlements t (gatheringSettlementKey c n) = gatheringSettlements s (gatheringSettlementKey c n))"
proof -
  have key: "gatheringSettlementKey (as_CharacterID req') (as_ActivityID req') =
      gatheringSettlementKey (as_CharacterID req) (as_ActivityID req)"
    using assms(4,5) by (simp add: gatheringSettlementKey_inject)
  note first = activitySettlement_ok [OF assms(1,2) refl]
  note second = activitySettlement_ok [OF assms(7,3) refl, unfolded key assms(6)]
  from first second have "time_Now s + Seconds (as_RespawnSeconds req') \<le> time_Now u" by simp
  moreover have "gatheringSettlements t (gatheringSettlementKey c n) = gatheringSettlements s (gatheringSettlementKey c n)"
    if "c \<noteq> as_CharacterID req \<or> TrimSpace n \<noteq> TrimSpace (as_ActivityID req)" for c n
  proof -
    have "gatheringSettlementKey c n \<noteq> gatheringSettlementKey (as_CharacterID req) (as_ActivityID req)"
      using that unfolding gatheringSettlementKey_inject by blast
    with first show ?thesis by simp
  qed
  ultimately show ?thesis by blast
qed

definition sample_gather :: ActivitySettlementRequest where
  "sample_gather = \<lparr>as_OpID = ''o'', as_AccountID = 7, as_CharacterID = 8, as_CharacterLevel = 1, as_ActivityID = ''ore'',
     as_ActivityType = ''gathering'', as_RespawnSeconds = 60, as_RewardPlan = \<lparr>rp_IsBoss = False, rp_Items = [], rp_TokenReward = 0\<rparr>\<rparr>"

definition gatherer :: "(nat \<Rightarrow> time) \<Rightarrow> store" where
  "gatherer clk = (New clk)\<lparr>characters := [8 \<mapsto> zero_Character\<lparr>ch_ID := 8, ch_AccountID := 7\<rparr>]\<rparr>"

definition minute_clock :: "nat \<Rightarrow> time" where
  "minute_clock n = int n * 60000000000"

lemma sample_gathers:
  "TrimSpace ''gathering'' = ''gathering''" "TrimSpace ''ore'' = ''ore''"
  by (simp_all add: TrimSpace_def space1_def space2_def space3_def)

lemma gathering_cooldown_witness:
  "60000000000 \<le> time_Now (fst (activitySettlement (\<lambda>x. x) (gatherer minute_clock) sample_gather))"
proof -
  let ?s = "gatherer minute_clock"
  let ?t = "fst (activitySettlement (\<lambda>x. x) ?s sample_gather)"
  have first: "is_ok (snd (activitySettlement (\<lambda>x. x) ?s sample_gather))"
    and second: "is_ok (snd (activitySettlement (\<lambda>x. x) ?t sample_gather))"
    and now: "time_Now ?s = 0"
    by (simp_all add: activitySettlement_def sample_gather_def EconomySnapshot_op_def gatherer_def owns_def
        zero_Character_def ensureTokenLocked_eq tick_def time_Now_def sample_gathers minute_clock_def
        Seconds_def w64_def Before_def)
  obtain r r' where "activitySettlement (\<lambda>x. x) ?s sample_gather = (?t, Inr r)"
    "activitySettlement (\<lambda>x. x) ?t sample_gather = (fst (activitySettlement (\<lambda>x. x) ?t sample_gather), Inr r')"
    using first second by (metis is_okE prod.collapse)
  from gathering_cooldown [OF this(1) _ _ refl refl refl this(2)] now
  show ?thesis by (simp add: is_gathering_def sample_gather_def sample_gathers Seconds_def w64_def)
qed

text \<open>
  Mystery shop boards are kept per character and shop: after a refresh the board read
  back is the one that was stored, boards of other characters or shops are untouched, and buying
  a slot marks exactly the first offer of that slot on that board.
\<close>

lemma mystery_board_roundtrip:
  assumes "RefreshMysteryShop s req = (t, Inr state)"
    and "mysteryShops u = mysteryShops t" and "characters u = characters t"
    and "sb_CharacterID buy = mr_CharacterID req" and "TrimSpace (sb_ShopID buy) = TrimSpace (mr_ShopID req)"
    and "sb_MysterySlotIndex buy > 0" and "sb_ShopSlotIndex buy \<le> 0"
  shows "MysteryShopBoard u (mr_AccountID req) (mr_CharacterID req) (mr_ShopID req) = Inr state \<and>
    mb_Offers state = mr_Offers req \<and>
    (\<forall>a c n. c \<noteq> mr_CharacterID req \<or> TrimSpace n \<noteq> TrimSpace (mr_ShopID req) \<longrightarrow>
       MysteryShopBoard t a c n = MysteryShopBoard s a c n) \<and>
    MysteryShopBoard (fst (ShopBuyGold u buy)) (mr_AccountID req) (mr_CharacterID req) (mr_ShopID req) =
      Inr (state\<lparr>mb_Offers := mark_purchased (sb_MysterySlotIndex buy) (mr_Offers req)\<rparr>)"
proof -
  obtain ch where ch: "characters s (mr_CharacterID req) = Some ch" "owns (mr_AccountID req) ch"
    using assms(1) by (auto simp: RefreshMysteryShop_def split: option.splits if_splits)
  define key where "key = mysteryShopKey (mr_CharacterID req) (mr_ShopID req)"
  have t: "t = s\<lparr>mysteryShops := (mysteryShops s)(key \<mapsto> state)\<rparr>" and st: "mb_Offers state = mr_Offers req"
    using assms(1) ch by (auto simp: RefreshMysteryShop_def key_def Let_def)
  have buy_key: "mysteryShopKey (sb_CharacterID buy) (sb_ShopID buy) = key"
    using assms(4,5) by (simp add: key_def mysteryShopKey_inject)
  have mu: "mysteryShops u key = Some state" "characters u = characters s" using assms(2,3) by (simp_all add: t)
  have other: "mysteryShopKey c n \<noteq> key" if "c \<noteq> mr_CharacterID req \<or> TrimSpace n \<noteq> TrimSpace (mr_ShopID req)" for c n
    using that unfolding key_def mysteryShopKey_inject by blast
  have "mysteryShops (fst (ShopBuyGold u buy)) key =
      Some (state\<lparr>mb_Offers := mark_purchased (sb_MysterySlotIndex buy) (mr_Offers req)\<rparr>)"
    "characters (fst (ShopBuyGold u buy)) = characters s"
    using assms(6,7) mu by (simp_all add: ShopBuyGold_def buy_key st Let_def)
  moreover have "MysteryShopBoard t a c n = MysteryShopBoard s a c n"
    if "c \<noteq> mr_CharacterID req \<or> TrimSpace n \<noteq> TrimSpace (mr_ShopID req)" for a c n
    using other [OF that] by (simp add: MysteryShopBoard_def t split: option.split)
  ultimately show ?thesis
    using ch mu by (simp add: MysteryShopBoard_def st flip: key_def)
qed

definition sample_refresh :: MysteryShopRefreshRequest where
  "sample_refresh = \<lparr>mr_OpID = ''o'', mr_AccountID = 7, mr_CharacterID = 8, mr_ShopID = ''shop'', mr_TokenCost = 0,
     mr_NextFreeRefreshAt = 5, mr_GeneratedAt = 1, mr_Offers = [\<lparr>mo_SlotIndex = 1, mo_ItemID = ''i'', mo_Quantity = 1,
       mo_Rarity = 1, mo_GoldPrice = 10, mo_TokenPrice = 0, mo_DiscountBps = 0, mo_Purchased = False\<rparr>]\<rparr>"

definition sample_buy :: ShopBuyRequest where
  "sample_buy = \<lparr>sb_OpID = ''o'', sb_AccountID = 7, sb_CharacterID = 8, sb_ShopID = ''shop'', sb_ItemID = ''i'',
     sb_Quantity = 1, sb_MysterySlotIndex = 1, sb_ShopSlotIndex = 0, sb_ShopDailyLimit = 0,
     sb_ShopBusinessDate = [], sb_GoldCost = 10, sb_TokenCost = 0, sb_ReceiverWallet = [], sb_GrantGold = 0,
     sb_RewardPlan = \<lparr>rp_IsBoss = False, rp_Items = [], rp_TokenReward = 0\<rparr>, sb_ConfigSnapshot = []\<rparr>"

lemma mystery_board_roundtrip_witness:
  "\<exists>b. MysteryShopBoard (fst (ShopBuyGold (fst (RefreshMysteryShop (gatherer minute_clock) sample_refresh)) sample_buy))
     7 8 ''shop'' = Inr b \<and> map mo_Purchased (mb_Offers b) = [True]"
proof -
  obtain t state where run: "RefreshMysteryShop (gatherer minute_clock) sample_refresh = (t, Inr state)"
    by (simp add: RefreshMysteryShop_def gatherer_def sample_refresh_def owns_def zero_Character_def Let_def)
  have f: "mr_AccountID sample_refresh = 7" "mr_CharacterID sample_refresh = 8" "mr_ShopID sample_refresh = ''shop''"
    "sb_MysterySlotIndex sample_buy = 1"
    by (simp_all add: sample_refresh_def sample_buy_def)
  from mystery_board_roundtrip [OF run refl refl, of sample_buy]
  have "MysteryShopBoard (fst (ShopBuyGold t sample_buy)) 7 8 ''shop'' =
      Inr (state\<lparr>mb_Offers := mark_purchased 1 (mr_Offers sample_refresh)\<rparr>)"
    by (simp add: f) (simp add: sample_buy_def)
  then show ?thesis using run by (simp add: sample_refresh_def)
qed

end
