(* ===== verification/Presence.thy ===== *)
theory Presence
  imports StoreState Contracts
begin

text \<open>
  The game server registry and the presence of accounts on servers
  (\<open>UpsertGameServer\<close> to \<open>recountOnlineLocked\<close> of \<open>src/internal/platform/store/store.go\<close>).

  The theory proves what entering, leaving and sweeping do to the presence map and to the player
  counts the launcher reads, including that relocating an account leaves the count of its former
  server behind.
\<close>

section \<open>Operations\<close>

definition UpsertGameServer :: "store \<Rightarrow> GameServer \<Rightarrow> GameServer op" where
  "UpsertGameServer s server0 =
     (let now = time_Now s; s = tick s;
          server1 = (if gs_MaxPlayers server0 \<le> 0 then server0\<lparr>gs_MaxPlayers := 50\<rparr> else server0);
          server2 = (if TrimSpace (gs_Status server1) = [] then server1\<lparr>gs_Status := ''ONLINE''\<rparr> else server1);
          server = (if TrimSpace (gs_DisplayName server2) = []
                    then server2\<lparr>gs_DisplayName := gs_ServerID server2\<rparr> else server2)
      in case servers s (gs_ServerID server) of
           Some existing \<Rightarrow>
             let row = existing\<lparr>gs_DisplayName := gs_DisplayName server, gs_Region := gs_Region server,
                   gs_Host := gs_Host server, gs_Port := gs_Port server,
                   gs_PublicEndpoint := gs_PublicEndpoint server,
                   gs_MaxPlayers := gs_MaxPlayers server, gs_Status := gs_Status server,
                   gs_LastHeartbeatAt := Some now\<rparr>
             in (s\<lparr>servers := (servers s)(gs_ServerID server \<mapsto> row)\<rparr>, Inr row)
         | None \<Rightarrow>
             let row = server\<lparr>gs_RegisteredAt := now, gs_LastHeartbeatAt := Some now\<rparr>
             in (s\<lparr>servers := (servers s)(gs_ServerID server \<mapsto> row)\<rparr>, Inr row))"

definition HeartbeatGameServer :: "store \<Rightarrow> string \<Rightarrow> int \<Rightarrow> time \<Rightarrow> GameServer op" where
  "HeartbeatGameServer s serverID onlinePlayers now =
     (case servers s serverID of
        None \<Rightarrow> (s, Inl ErrNotFound)
      | Some row \<Rightarrow>
          let row1 = row\<lparr>gs_OnlinePlayers := onlinePlayers, gs_LastHeartbeatAt := Some now\<rparr>;
              row2 = (if gs_Status row1 = ''OFFLINE'' then row1\<lparr>gs_Status := ''ONLINE''\<rparr> else row1)
          in (s\<lparr>servers := (servers s)(serverID \<mapsto> row2)\<rparr>, Inr row2))"

definition ListGameServers :: "(string \<Rightarrow> string) \<Rightarrow> store \<Rightarrow> string list \<Rightarrow> string \<Rightarrow> GameServer list" where
  "ListGameServers uc s ks status =
     filter (\<lambda>row. status = [] \<or> gs_Status row = ToUpper uc status) (map_values (servers s) ks)"

definition on_server :: "string \<Rightarrow> OnlineSession \<Rightarrow> bool" where
  "on_server serverID row \<longleftrightarrow> os_ServerID row = serverID"

definition recountOnlineLocked :: "store \<Rightarrow> string \<Rightarrow> store" where
  "recountOnlineLocked s serverID =
     (case servers s serverID of
        None \<Rightarrow> s
      | Some row \<Rightarrow> s\<lparr>servers := (servers s)(serverID \<mapsto>
          row\<lparr>gs_OnlinePlayers := count_rows (on_server serverID) (online s)\<rparr>)\<rparr>)"

definition EnterOnlineSession :: "store \<Rightarrow> OnlineSession \<Rightarrow> OnlineSession op" where
  "EnterOnlineSession s row0 =
     (case servers s (os_ServerID row0) of
        None \<Rightarrow> (s, Inl (ErrMsg ''game server is not registered''))
      | Some _ \<Rightarrow>
          let now = time_Now s; s1 = tick s;
              row = row0\<lparr>os_EnteredAt := now, os_LastSeenAt := now\<rparr>;
              s2 = s1\<lparr>online := (online s1)(os_AccountID row \<mapsto> row)\<rparr>
          in (recountOnlineLocked s2 (os_ServerID row), Inr row))"

definition other_connection :: "string \<Rightarrow> OnlineSession \<Rightarrow> bool" where
  "other_connection connectionID row \<longleftrightarrow> connectionID \<noteq> [] \<and> os_ConnectionID row \<noteq> connectionID"

definition TouchOnlineSession :: "store \<Rightarrow> int \<Rightarrow> string \<Rightarrow> time \<Rightarrow> OnlineSession op" where
  "TouchOnlineSession s accountID connectionID now =
     (case online s accountID of
        None \<Rightarrow> (s, Inl ErrNotFound)
      | Some row \<Rightarrow>
          if other_connection connectionID row then (s, Inl ErrNotFound)
          else let row' = row\<lparr>os_LastSeenAt := now\<rparr>
               in (s\<lparr>online := (online s)(accountID \<mapsto> row')\<rparr>, Inr row'))"

definition LeaveOnlineSession :: "store \<Rightarrow> int \<Rightarrow> string \<Rightarrow> OnlineSession op" where
  "LeaveOnlineSession s accountID connectionID =
     (case online s accountID of
        None \<Rightarrow> (s, Inl ErrNotFound)
      | Some row \<Rightarrow>
          if other_connection connectionID row then (s, Inl ErrNotFound)
          else (recountOnlineLocked (s\<lparr>online := (online s)(accountID := None)\<rparr>) (os_ServerID row), Inr row))"

definition GetOnlineSession :: "store \<Rightarrow> int \<Rightarrow> OnlineSession result" where
  "GetOnlineSession s accountID = (case online s accountID of None \<Rightarrow> Inl ErrNotFound | Some row \<Rightarrow> Inr row)"

definition ListOnlineByServer :: "store \<Rightarrow> int list \<Rightarrow> string \<Rightarrow> OnlineSession list" where
  "ListOnlineByServer s ks serverID = filter (on_server serverID) (map_values (online s) ks)"

text \<open>
  The sweep: the stale rows are removed, then every server one of them was on is recounted. The
  recounts touch different servers, so their order (\<open>touched\<close>) does not matter.
\<close>

definition stale :: "time \<Rightarrow> OnlineSession \<Rightarrow> bool" where
  "stale olderThan row \<longleftrightarrow> Before (os_LastSeenAt row) olderThan"

definition SweepStaleOnlineSessions :: "store \<Rightarrow> time \<Rightarrow> store \<times> int" where
  "SweepStaleOnlineSessions s olderThan =
     (let gone = filter (stale olderThan) (map_values (online s) (keys_of (online s)));
          s1 = s\<lparr>online := (\<lambda>k. case online s k of
                 None \<Rightarrow> None | Some row \<Rightarrow> if stale olderThan row then None else Some row)\<rparr>;
          touched = remdups (map os_ServerID gone)
      in (foldl recountOnlineLocked s1 touched, int (length gone)))"

section \<open>Counts\<close>

definition players_on :: "store \<Rightarrow> string \<Rightarrow> int set" where
  "players_on s serverID = {a. \<exists>row. online s a = Some row \<and> os_ServerID row = serverID}"

definition counted :: "store \<Rightarrow> string \<Rightarrow> bool" where
  "counted s serverID \<longleftrightarrow>
     (\<forall>row. servers s serverID = Some row \<longrightarrow> gs_OnlinePlayers row = int (card (players_on s serverID)))"

lemma recount_online [simp]: "online (recountOnlineLocked s x) = online s"
  by (simp add: recountOnlineLocked_def split: option.splits)

lemma recount_other [simp]: "y \<noteq> x \<Longrightarrow> servers (recountOnlineLocked s x) y = servers s y"
  by (simp add: recountOnlineLocked_def split: option.splits)

lemma recount_counted: "finite (dom (online s)) \<Longrightarrow> counted (recountOnlineLocked s x) x"
  by (auto simp: counted_def recountOnlineLocked_def count_rows_card players_on_def on_server_def
      split: option.splits)

lemma recount_keeps_counted: "counted s y \<Longrightarrow> finite (dom (online s)) \<Longrightarrow> counted (recountOnlineLocked s x) y"
  by (cases "y = x") (simp_all add: recount_counted, simp add: counted_def players_on_def)

lemma recounts:
  assumes "finite (dom (online s))"
  shows "online (foldl recountOnlineLocked s xs) = online s \<and>
    (\<forall>y. (y \<in> set xs \<longrightarrow> counted (foldl recountOnlineLocked s xs) y) \<and>
         (counted s y \<longrightarrow> counted (foldl recountOnlineLocked s xs) y))"
  using assms
proof (induction xs arbitrary: s)
  case (Cons x xs)
  have fin: "finite (dom (online (recountOnlineLocked s x)))" using Cons.prems by simp
  note IH = Cons.IH [OF fin]
  have "counted (recountOnlineLocked s x) x" by (rule recount_counted [OF Cons.prems])
  then show ?case using IH recount_keeps_counted [OF _ Cons.prems] by auto
qed simp

lemma Enter_eq:
  assumes "servers s (os_ServerID row) = Some srv"
  shows "EnterOnlineSession s row = (recountOnlineLocked ((tick s)\<lparr>online := (online s)(os_AccountID row \<mapsto>
      row\<lparr>os_EnteredAt := time_Now s, os_LastSeenAt := time_Now s\<rparr>)\<rparr>) (os_ServerID row),
    Inr (row\<lparr>os_EnteredAt := time_Now s, os_LastSeenAt := time_Now s\<rparr>))"
  using assms by (simp add: EnterOnlineSession_def tick_def Let_def)

text \<open>
  Entering a registered server puts the account on that server and nowhere else,
  makes the server's player count the number of accounts on it, and leaves every other account
  and every other server record alone.
\<close>

lemma enter_online:
  assumes "servers s (os_ServerID row) \<noteq> None" and "finite (dom (online s))"
    and "EnterOnlineSession s row = (t, r)"
  shows "\<exists>r'. r = Inr r' \<and> online t = (online s)(os_AccountID row \<mapsto> r') \<and> os_ServerID r' = os_ServerID row \<and>
    (\<forall>x. os_AccountID row \<in> players_on t x \<longleftrightarrow> x = os_ServerID row) \<and> counted t (os_ServerID row) \<and>
    (\<forall>y. y \<noteq> os_ServerID row \<longrightarrow> servers t y = servers s y)"
proof -
  obtain srv where srv: "servers s (os_ServerID row) = Some srv" using assms(1) by auto
  show ?thesis
    using assms(3) Enter_eq [OF srv] assms(2)
    by (auto simp: players_on_def tick_def intro!: recount_counted)
qed

definition sample_server :: "string \<Rightarrow> GameServer" where
  "sample_server n = \<lparr>gs_ServerID = n, gs_DisplayName = n, gs_Region = [], gs_Host = ''h'', gs_Port = 1,
     gs_PublicEndpoint = [], gs_MaxPlayers = 50, gs_OnlinePlayers = 0, gs_Status = ''ONLINE'',
     gs_RegisteredAt = 1, gs_LastHeartbeatAt = Some 1\<rparr>"

definition two_servers :: store where
  "two_servers = (New (\<lambda>_. 1))\<lparr>servers := [''a'' \<mapsto> sample_server ''a'', ''b'' \<mapsto> sample_server ''b'']\<rparr>"

definition sample_online :: "string \<Rightarrow> OnlineSession" where
  "sample_online n = \<lparr>os_AccountID = 7, os_CharacterID = 8, os_SessionID = ''s'', os_ServerID = n,
     os_ConnectionID = ''c'', os_EnteredAt = 0, os_LastSeenAt = 0\<rparr>"

lemma sample_online_fields [simp]:
  "os_AccountID (sample_online n) = 7" "os_ServerID (sample_online n) = n"
  by (simp_all add: sample_online_def)

lemma two_servers_fields [simp]:
  "servers two_servers = [''a'' \<mapsto> sample_server ''a'', ''b'' \<mapsto> sample_server ''b'']"
  "online two_servers = Map.empty" "clock two_servers = (\<lambda>_. 1)"
  by (simp_all add: two_servers_def)

lemma enter_online_witness:
  "counted (fst (EnterOnlineSession two_servers (sample_online ''a''))) ''a''"
  using enter_online [of two_servers "sample_online ''a''", OF _ _ prod.collapse [symmetric]] by auto

text \<open>
  Moving an account to another server does not recount the server it left: after an
  account enters server a and then server b, a still reports one player and nobody is on it.
\<close>

lemma relocation_leaves_stale_count:
  "\<exists>s row. row = the (servers (fst (EnterOnlineSession
       (fst (EnterOnlineSession s (sample_online ''a''))) (sample_online ''b''))) ''a'') \<and>
     players_on (fst (EnterOnlineSession (fst (EnterOnlineSession s (sample_online ''a'')))
       (sample_online ''b''))) ''a'' = {} \<and> gs_OnlinePlayers row = 1"
proof -
  let ?s = "fst (EnterOnlineSession two_servers (sample_online ''a''))"
  let ?t = "fst (EnterOnlineSession ?s (sample_online ''b''))"
  have a: "servers ?s ''a'' = Some ((sample_server ''a'')\<lparr>gs_OnlinePlayers := 1\<rparr>)"
    "servers ?s ''b'' = Some (sample_server ''b'')"
    "online ?s = [7 \<mapsto> (sample_online ''a'')\<lparr>os_EnteredAt := 1, os_LastSeenAt := 1\<rparr>]"
    by (simp_all add: EnterOnlineSession_def recountOnlineLocked_def count_rows_def keys_of_def map_values_def
        List.map_filter_simps on_server_def tick_def time_Now_def Let_def)
  have "servers ?t ''a'' = servers ?s ''a''" 
    "online ?t = [7 \<mapsto> (sample_online ''b'')\<lparr>os_EnteredAt := time_Now ?s, os_LastSeenAt := time_Now ?s\<rparr>]"
    using a by (simp_all add: Enter_eq [of ?s "sample_online ''b''" "sample_server ''b''"] tick_def)
  then show ?thesis
    using a(1) by (intro exI [of _ two_servers] exI conjI [OF refl])
      (auto simp: players_on_def split: if_splits)
qed

text \<open>
  A sweep removes exactly the accounts not seen since the cutoff, reports how many
  there were, and leaves the player count right on every server one of them was on and on every
  server it was right before.
\<close>

lemma sweep_stale_sessions:
  assumes "finite (dom (online s))" and "SweepStaleOnlineSessions s cutoff = (t, n)"
  shows "(\<forall>a row. online t a = Some row \<longleftrightarrow> online s a = Some row \<and> \<not> os_LastSeenAt row < cutoff) \<and>
    n = int (card {a. \<exists>row. online s a = Some row \<and> os_LastSeenAt row < cutoff}) \<and>
    (\<forall>a row. online s a = Some row \<longrightarrow> os_LastSeenAt row < cutoff \<longrightarrow> counted t (os_ServerID row)) \<and>
    (\<forall>x. counted s x \<longrightarrow> counted t x)"
proof -
  define gone where "gone = filter (stale cutoff) (map_values (online s) (keys_of (online s)))"
  define s1 where "s1 = s\<lparr>online := (\<lambda>k. case online s k of
    None \<Rightarrow> None | Some row \<Rightarrow> if stale cutoff row then None else Some row)\<rparr>"
  have t: "t = foldl recountOnlineLocked s1 (remdups (map os_ServerID gone))" and n: "n = int (length gone)"
    using assms(2) by (simp_all add: SweepStaleOnlineSessions_def gone_def s1_def Let_def)
  have on1: "online s1 a = Some row \<longleftrightarrow> online s a = Some row \<and> \<not> stale cutoff row" for a row
    by (auto simp: s1_def split: option.splits)
  have fin: "finite (dom (online s1))"
    by (rule finite_subset [OF _ assms(1)]) (auto simp: on1)
  have in_gone: "row \<in> set gone \<longleftrightarrow> (\<exists>a. online s a = Some row) \<and> stale cutoff row" for row
    using assms(1) by (auto simp: gone_def map_values_eq keys_of_def image_iff) (metis domI option.sel)
  note rec = recounts [OF fin, of "remdups (map os_ServerID gone)", folded t]
  have "n = int (card {a. \<exists>row. online s a = Some row \<and> os_LastSeenAt row < cutoff})"
    using count_rows_card [OF assms(1), of "stale cutoff"] n
    by (simp add: count_rows_def gone_def stale_def Before_def)
  moreover have "counted t x" if "counted s x" for x
  proof (cases "x \<in> os_ServerID ` set gone")
    case True
    then show ?thesis using rec by auto
  next
    case False
    have "\<not> stale cutoff row" if "online s a = Some row" "os_ServerID row = x" for a row
      using that False in_gone [of row] by auto
    then have "players_on s1 x = players_on s x" unfolding players_on_def on1 by blast
    then have "counted s1 x" using that by (simp add: counted_def s1_def)
    then show ?thesis using rec by blast
  qed
  moreover have "counted t (os_ServerID row)" if "online s a = Some row" "os_LastSeenAt row < cutoff" for a row
    using rec that in_gone [of row] by (auto simp: stale_def Before_def)
  ultimately show ?thesis using rec on1 by (auto simp: stale_def Before_def)
qed

lemma sweep_stale_sessions_witness:
  "snd (SweepStaleOnlineSessions (fst (EnterOnlineSession two_servers (sample_online ''a''))) 9) = 1"
proof -
  let ?s = "fst (EnterOnlineSession two_servers (sample_online ''a''))"
  have on: "online ?s = [7 \<mapsto> (sample_online ''a'')\<lparr>os_EnteredAt := 1, os_LastSeenAt := 1\<rparr>]"
    by (simp add: EnterOnlineSession_def tick_def time_Now_def Let_def)
  have fin: "finite (dom (online ?s))" by (simp add: on)
  have "{a. \<exists>row. online ?s a = Some row \<and> os_LastSeenAt row < 9} = {7}"
    by (auto simp: on split: if_splits)
  then show ?thesis using sweep_stale_sessions [OF fin prod.collapse [symmetric], of 9] by simp
qed

end
