(* ===== verification/Solana.thy ===== *)
theory Solana
  imports Prelude
begin

text \<open>
  Solana addresses and wallet signatures (\<open>src/internal/chain/solana.go\<close>): base58 in both
  directions, address normalisation, the three signature encodings and the check of a signature.
  A byte slice is a list of bytes, as a string is. Ed25519 verification is the argument \<open>verify\<close>.

  The theory proves that base58 decoding and encoding are inverse to each other, so that an
  address determines its key and a key its address.
\<close>

section \<open>Positional notation\<close>

text \<open>
  \<open>big.Int\<close> values are natural numbers: \<open>of_digits\<close> is the accumulation loop (also \<open>SetBytes\<close>),
  \<open>digits\<close> the division loop, least significant digit first.
\<close>

definition of_digits :: "nat \<Rightarrow> nat list \<Rightarrow> nat" where
  "of_digits b ds = foldl (\<lambda>n d. n * b + d) 0 ds"

fun digits :: "nat \<Rightarrow> nat \<Rightarrow> nat list" where
  "digits b n = (if b < 2 \<or> n = 0 then [] else n mod b # digits b (n div b))"

declare digits.simps [simp del]

lemma digits_0 [simp]: "digits b 0 = []"
  by (simp add: digits.simps)

lemma of_digits_Nil [simp]: "of_digits b [] = 0"
  by (simp add: of_digits_def)

lemma of_digits_snoc [simp]: "of_digits b (ds @ [d]) = of_digits b ds * b + d"
  by (simp add: of_digits_def)

lemma of_digits_digits: "2 \<le> b \<Longrightarrow> of_digits b (rev (digits b n)) = n"
proof (induction b n rule: digits.induct)
  case (1 b n)
  then show ?case by (cases "n = 0") (simp_all add: digits.simps [of b n])
qed

lemma digits_less: "d \<in> set (digits b n) \<Longrightarrow> d < b"
proof (induction b n rule: digits.induct)
  case (1 b n)
  then show ?case by (cases "b < 2 \<or> n = 0") (auto simp: digits.simps [of b n])
qed

lemma digits_step: "2 \<le> b \<Longrightarrow> d < b \<Longrightarrow> 0 < n * b + d \<Longrightarrow> digits b (n * b + d) = d # digits b n"
  by (subst digits.simps) auto

text \<open>The digits of a number are its numeral without leading zeros.\<close>

lemma digits_of_digits:
  assumes "2 \<le> b" and "\<forall>d \<in> set ds. d < b"
  shows "rev (digits b (of_digits b ds)) = dropWhile (\<lambda>d. d = 0) ds"
  using assms(2)
proof (induction ds rule: rev_induct)
  case (snoc d ds)
  then have IH: "rev (digits b (of_digits b ds)) = dropWhile (\<lambda>d. d = 0) ds" and d: "d < b" by auto
  show ?case
  proof (cases "of_digits b ds * b + d = 0")
    case True
    then have "of_digits b ds = 0" "d = 0" using assms(1) by auto
    with IH have "dropWhile (\<lambda>d. d = 0) ds = []" by simp
    then show ?thesis using \<open>of_digits b ds = 0\<close> \<open>d = 0\<close> by (simp add: dropWhile_append)
  next
    case False
    have nz: "dropWhile (\<lambda>d. d = 0) (ds @ [d]) = dropWhile (\<lambda>d. d = 0) ds @ [d]"
    proof (cases "dropWhile (\<lambda>d. d = 0) ds = []")
      case True
      with IH have "digits b (of_digits b ds) = []" by simp
      then have "of_digits b ds = 0" using of_digits_digits [OF assms(1), of "of_digits b ds"] by simp
      with False have "d \<noteq> 0" by simp
      with True show ?thesis by (simp add: dropWhile_append)
    next
      case False
      then show ?thesis by (auto simp: dropWhile_append dropWhile_eq_Nil_conv)
    qed
    then show ?thesis using digits_step [OF assms(1) d, of "of_digits b ds"] False IH by simp
  qed
qed simp

lemma hd_digits: "2 \<le> b \<Longrightarrow> 0 < n \<Longrightarrow> \<exists>d ds. rev (digits b n) = d # ds \<and> d \<noteq> 0"
proof -
  assume b: "2 \<le> b" and n: "0 < n"
  have "rev (digits b n) = dropWhile (\<lambda>d. d = 0) (rev (digits b n))"
    using digits_of_digits [OF b, of "rev (digits b n)"] of_digits_digits [OF b, of n] digits_less by simp
  moreover obtain d ds where ds: "rev (digits b n) = d # ds"
    using of_digits_digits [OF b, of n] n by (cases "rev (digits b n)") auto
  ultimately have eq: "d # ds = dropWhile (\<lambda>d. d = 0) (d # ds)" by simp
  have "d \<noteq> 0"
  proof
    assume "d = 0"
    with eq have "0 # ds = dropWhile (\<lambda>d. d = 0) ds" by simp
    then have "length (0 # ds) = length (dropWhile (\<lambda>d. d = 0) ds)" by (rule arg_cong)
    then show False using length_dropWhile_le [of "\<lambda>d. d = 0" ds] by simp
  qed
  with ds show ?thesis by blast
qed

lemma of_digits_leading: "of_digits b (replicate k 0 @ ds) = of_digits b ds"
  unfolding of_digits_def by (induction k) simp_all

section \<open>Base58\<close>

definition solanaBase58Alphabet :: string where
  "solanaBase58Alphabet = ''123456789ABCDEFGHJKLMNPQRSTUVWXYZabcdefghijkmnopqrstuvwxyz''"

fun index_in :: "char \<Rightarrow> string \<Rightarrow> nat option" where
  "index_in c [] = None"
| "index_in c (x # xs) = (if c = x then Some 0 else map_option Suc (index_in c xs))"

text \<open>\<open>big.Int.Bytes\<close>: big-endian, no leading zero byte.\<close>

definition big_Bytes :: "nat \<Rightarrow> string" where
  "big_Bytes n = map char_of (rev (digits 256 n))"

definition SetBytes :: "string \<Rightarrow> nat" where
  "SetBytes data = of_digits 256 (map of_char data)"

fun decode_digits :: "string \<Rightarrow> nat \<Rightarrow> nat result" where
  "decode_digits [] acc = Inr acc"
| "decode_digits (c # cs) acc =
     (case index_in c solanaBase58Alphabet of
        None \<Rightarrow> Inl (ErrMsg ''base58 value contains invalid character'')
      | Some i \<Rightarrow> decode_digits cs (acc * 58 + i))"

definition leading :: "char \<Rightarrow> string \<Rightarrow> nat" where
  "leading c s = length (takeWhile (\<lambda>x. x = c) s)"

definition DecodeBase58 :: "string \<Rightarrow> string result" where
  "DecodeBase58 value0 =
     (let value = TrimSpace value0 in
      if value = [] then Inl (ErrMsg ''base58 value is required'')
      else case decode_digits value 0 of
        Inl e \<Rightarrow> Inl e
      | Inr n \<Rightarrow> Inr (replicate (leading CHR ''1'' value) (char_of (0 :: nat)) @ big_Bytes n))"

definition EncodeBase58 :: "string \<Rightarrow> string" where
  "EncodeBase58 data =
     (if data = [] then []
      else rev (map (\<lambda>d. solanaBase58Alphabet ! d) (digits 58 (SetBytes data))
             @ replicate (leading (char_of (0 :: nat)) data) CHR ''1''))"

section \<open>Addresses and signatures\<close>

definition NormalizeSolanaAddress :: "string \<Rightarrow> string result" where
  "NormalizeSolanaAddress address0 =
     (let address = TrimSpace address0 in
      case DecodeBase58 address of
        Inl _ \<Rightarrow> Inl (ErrMsg ''walletAddress must be a Solana base58 address'')
      | Inr publicKey \<Rightarrow>
          if length publicKey \<noteq> 32 then Inl (ErrMsg ''walletAddress must be a Solana base58 address'')
          else Inr address)"

definition IsLikelySolanaAddress :: "string \<Rightarrow> bool" where
  "IsLikelySolanaAddress address = is_ok (NormalizeSolanaAddress address)"

text \<open>
  \<open>base64.StdEncoding.DecodeString\<close>: line breaks are skipped, padding is required, unused low
  bits of the last digit are ignored.
\<close>

definition b64_value :: "char \<Rightarrow> nat option" where
  "b64_value c = (let n = of_char c :: nat in
     if 65 \<le> n \<and> n \<le> 90 then Some (n - 65)
     else if 97 \<le> n \<and> n \<le> 122 then Some (n - 71)
     else if 48 \<le> n \<and> n \<le> 57 then Some (n + 4)
     else if c = CHR ''+'' then Some 62 else if c = CHR ''/'' then Some 63 else None)"

fun b64_groups :: "string \<Rightarrow> string option" where
  "b64_groups [] = Some []"
| "b64_groups (a # b # c # d # rest) =
     (case (b64_value a, b64_value b, b64_value c, b64_value d) of
        (Some w, Some x, Some y, Some z) \<Rightarrow>
          map_option (\<lambda>out. char_of (w * 4 + x div 16) # char_of (x mod 16 * 16 + y div 4)
            # char_of (y mod 4 * 64 + z) # out) (b64_groups rest)
      | (Some w, Some x, Some y, None) \<Rightarrow>
          if d = CHR ''='' \<and> rest = []
          then Some [char_of (w * 4 + x div 16), char_of (x mod 16 * 16 + y div 4)] else None
      | (Some w, Some x, None, _) \<Rightarrow>
          if c = CHR ''='' \<and> d = CHR ''='' \<and> rest = [] then Some [char_of (w * 4 + x div 16)] else None
      | _ \<Rightarrow> None)"
| "b64_groups s = None"

definition base64_DecodeString :: "string \<Rightarrow> string option" where
  "base64_DecodeString s = b64_groups (filter (\<lambda>c. c \<noteq> CHR 0x0A \<and> c \<noteq> CHR 0x0D) s)"

definition hex_value :: "char \<Rightarrow> nat option" where
  "hex_value c = (let n = of_char c :: nat in
     if 48 \<le> n \<and> n \<le> 57 then Some (n - 48)
     else if 97 \<le> n \<and> n \<le> 102 then Some (n - 87)
     else if 65 \<le> n \<and> n \<le> 70 then Some (n - 55) else None)"

fun hex_DecodeString :: "string \<Rightarrow> string option" where
  "hex_DecodeString [] = Some []"
| "hex_DecodeString (a # b # rest) =
     (case (hex_value a, hex_value b) of
        (Some x, Some y) \<Rightarrow> map_option (\<lambda>out. char_of (x * 16 + y) # out) (hex_DecodeString rest)
      | _ \<Rightarrow> None)"
| "hex_DecodeString [a] = None"

definition DecodeSignature :: "string \<Rightarrow> string result" where
  "DecodeSignature signature0 =
     (let signature1 = TrimSpace signature0 in
      if signature1 = [] then Inl (ErrMsg ''signature is required'')
      else
        let signature = (if take 2 signature1 = ''0x'' \<or> take 2 signature1 = ''0X''
                         then drop 2 signature1 else signature1);
            sized = (\<lambda>d. case d of Some x \<Rightarrow> length x = 64 | None \<Rightarrow> False);
            d58 = (case DecodeBase58 signature of Inl _ \<Rightarrow> None | Inr d \<Rightarrow> Some d);
            d64 = base64_DecodeString signature;
            d16 = hex_DecodeString signature
        in if sized d58 then Inr (the d58)
           else if sized d64 then Inr (the d64)
           else if sized d16 then Inr (the d16)
           else Inl (ErrMsg ''signature must be base58, base64 or hex encoded''))"

definition VerifyWalletSignature ::
  "(string \<Rightarrow> string \<Rightarrow> string \<Rightarrow> bool) \<Rightarrow> string \<Rightarrow> string \<Rightarrow> string \<Rightarrow> unit result" where
  "VerifyWalletSignature verify walletAddress0 message signature =
     (case NormalizeSolanaAddress walletAddress0 of
        Inl e \<Rightarrow> Inl e
      | Inr walletAddress \<Rightarrow>
          (case DecodeBase58 walletAddress of
             Inl e \<Rightarrow> Inl e
           | Inr publicKey \<Rightarrow>
               (case DecodeSignature signature of
                  Inl e \<Rightarrow> Inl e
                | Inr signatureBytes \<Rightarrow>
                    if length signatureBytes \<noteq> 64 then Inl (ErrMsg ''signature must decode to 64 bytes'')
                    else if \<not> verify publicKey message signatureBytes then Inl (ErrMsg ''signature is invalid'')
                    else Inr ())))"

section \<open>Base58 round trips\<close>

lemma index_in_nth: "distinct xs \<Longrightarrow> i < length xs \<Longrightarrow> index_in (xs ! i) xs = Some i"
proof (induction xs arbitrary: i)
  case (Cons x xs)
  then show ?case by (cases i) auto
qed simp

lemma index_in_Some: "index_in c xs = Some i \<Longrightarrow> i < length xs \<and> xs ! i = c"
  by (induction xs arbitrary: i) (auto split: if_splits)

lemma alphabet: "distinct solanaBase58Alphabet" "length solanaBase58Alphabet = 58"
  "solanaBase58Alphabet ! 0 = CHR ''1''" "list_all plain solanaBase58Alphabet"
  by (simp_all add: solanaBase58Alphabet_def plain_def space1_def)

definition alpha :: "nat \<Rightarrow> char" where
  "alpha d = solanaBase58Alphabet ! d"

lemma index_alpha: "d < 58 \<Longrightarrow> index_in (alpha d) solanaBase58Alphabet = Some d"
  unfolding alpha_def by (rule index_in_nth) (simp_all add: alphabet)

lemma index_Some: "index_in c solanaBase58Alphabet = Some d \<Longrightarrow> d < 58 \<and> c = alpha d"
  using index_in_Some [of c solanaBase58Alphabet d] by (simp add: alpha_def alphabet)

lemma alpha_eq_one: "d < 58 \<Longrightarrow> alpha d = CHR ''1'' \<longleftrightarrow> d = 0"
  using index_alpha [of d] index_alpha [of 0] alphabet(3) by (auto simp: alpha_def)

lemma alpha_plain: "d < 58 \<Longrightarrow> plain (alpha d)"
  using alphabet(2,4) by (simp add: alpha_def list_all_length)

lemma decode_digits_alpha:
  "\<forall>d \<in> set ds. d < 58 \<Longrightarrow> decode_digits (map alpha ds) acc = Inr (foldl (\<lambda>n d. n * 58 + d) acc ds)"
  by (induction ds arbitrary: acc) (simp_all add: index_alpha)

lemma decode_digits_Inr:
  "decode_digits s acc = Inr n \<Longrightarrow> \<exists>ds. s = map alpha ds \<and> (\<forall>d \<in> set ds. d < 58) \<and> n = foldl (\<lambda>n d. n * 58 + d) acc ds"
proof (induction s acc rule: decode_digits.induct)
  case (2 c cs acc)
  then obtain d where d: "index_in c solanaBase58Alphabet = Some d" by (auto split: option.splits)
  with 2 obtain ds where "cs = map alpha ds" "\<forall>d \<in> set ds. d < 58" "n = foldl (\<lambda>n d. n * 58 + d) (acc * 58 + d) ds"
    by auto
  with index_Some [OF d] show ?case by (intro exI [of _ "d # ds"]) simp
qed simp

lemma TrimSpace_all_plain: "\<forall>c \<in> set s. plain c \<Longrightarrow> TrimSpace s = s"
proof -
  assume p: "\<forall>c \<in> set s. plain c"
  consider "s = []" | a where "s = [a]" | a t b where "s = a # t @ [b]"
    by (metis append_butlast_last_id list.exhaust)
  then show ?thesis using p TrimSpace_plain by cases simp_all
qed

lemma TrimSpace_alpha: "\<forall>d \<in> set ds. d < 58 \<Longrightarrow> TrimSpace (map alpha ds) = map alpha ds"
  by (rule TrimSpace_all_plain) (auto simp: alpha_plain)

lemma leading_replicate:
  "s = [] \<or> hd s \<noteq> c \<Longrightarrow> leading c (replicate k c @ s) = k"
  by (cases s) (auto simp: leading_def takeWhile_append)

lemma leading_split: "\<exists>t. s = replicate (leading c s) c @ t \<and> (t = [] \<or> hd t \<noteq> c)"
proof -
  have "takeWhile (\<lambda>x. x = c) s = replicate (leading c s) c"
    unfolding leading_def by (rule replicate_eqI) (auto dest: set_takeWhileD)
  moreover have "dropWhile (\<lambda>x. x = c) s = [] \<or> hd (dropWhile (\<lambda>x. x = c) s) \<noteq> c"
    using hd_dropWhile [of "\<lambda>x. x = c" s] by blast
  ultimately show ?thesis
    using takeWhile_dropWhile_id [of "\<lambda>x. x = c" s] by (intro exI [of _ "dropWhile (\<lambda>x. x = c) s"]) simp
qed

lemma nul_iff: "of_char c = (0 :: nat) \<longleftrightarrow> c = char_of (0 :: nat)"
proof
  assume "of_char c = (0 :: nat)"
  then have "char_of (of_char c :: nat) = (char_of (0 :: nat) :: char)" by simp
  then show "c = char_of (0 :: nat)" by (simp only: char_of_char)
qed simp

lemma no_leading_zero:
  assumes "t = [] \<or> hd t \<noteq> char_of (0 :: nat)"
  shows "big_Bytes (SetBytes t) = t"
proof -
  have less: "\<forall>d \<in> set (map of_char t). d < (256 :: nat)" by auto
  have "dropWhile (\<lambda>d. d = 0) (map of_char t) = (map of_char t :: nat list)"
    using assms by (cases t) (auto simp: nul_iff)
  then have "rev (digits 256 (SetBytes t)) = map of_char t"
    using digits_of_digits [OF _ less] by (simp add: SetBytes_def)
  then show ?thesis by (simp add: big_Bytes_def comp_def)
qed

lemma SetBytes_leading: "SetBytes (replicate k (char_of (0 :: nat)) @ t) = SetBytes t"
proof -
  have "of_char (char_of (0 :: nat) :: char) = (0 :: nat)" by simp
  then show ?thesis by (simp add: SetBytes_def of_digits_leading)
qed

lemma encode_shape:
  assumes "data \<noteq> []"
  shows "EncodeBase58 data = map alpha (replicate (leading (char_of (0 :: nat)) data) 0 @ rev (digits 58 (SetBytes data)))"
  using assms alphabet(3) by (simp add: EncodeBase58_def rev_map alpha_def flip: alpha_def)

lemma leading_alpha:
  assumes "\<forall>d \<in> set ds. d < 58" and "ds = [] \<or> hd ds \<noteq> 0"
  shows "leading CHR ''1'' (map alpha (replicate k 0 @ ds)) = k"
proof -
  have "map alpha (replicate k 0 @ ds) = replicate k CHR ''1'' @ map alpha ds"
    using alphabet(3) by (simp add: alpha_def)
  moreover have "map alpha ds = [] \<or> hd (map alpha ds) \<noteq> CHR ''1''"
    using assms alpha_eq_one by (cases ds) auto
  ultimately show ?thesis by (simp only: leading_replicate)
qed

lemma decode_alpha:
  assumes "\<forall>d \<in> set ds. d < 58" and "ds = [] \<or> hd ds \<noteq> 0" and "replicate k 0 @ ds \<noteq> []"
  shows "DecodeBase58 (map alpha (replicate k 0 @ ds)) =
    Inr (replicate k (char_of (0 :: nat)) @ big_Bytes (of_digits 58 ds))"
proof -
  have all: "\<forall>d \<in> set (replicate k 0 @ ds). d < 58" using assms(1) by auto
  have "decode_digits (map alpha (replicate k 0 @ ds)) 0 = Inr (of_digits 58 ds)"
    using decode_digits_alpha [OF all, of 0] of_digits_leading [of 58 k ds] unfolding of_digits_def by simp
  then show ?thesis
    using assms(3) by (simp only: DecodeBase58_def Let_def TrimSpace_alpha [OF all] leading_alpha [OF assms(1,2)]) simp
qed

lemma digits58: "\<forall>d \<in> set (rev (digits 58 n)). d < 58" "rev (digits 58 n) = [] \<or> hd (rev (digits 58 n)) \<noteq> 0"
proof -
  show "\<forall>d \<in> set (rev (digits 58 n)). d < 58" by (auto dest: digits_less)
  show "rev (digits 58 n) = [] \<or> hd (rev (digits 58 n)) \<noteq> 0"
    using hd_digits [of 58 n] by (cases "n = 0") auto
qed

text \<open>
  Base58 loses nothing: decoding the encoding of a byte sequence that is not empty
  gives the sequence back, leading zero bytes included.
\<close>

lemma base58_decode_encode:
  assumes "data \<noteq> []"
  shows "DecodeBase58 (EncodeBase58 data) = Inr data"
proof -
  define k where "k = leading (char_of (0 :: nat)) data"
  obtain t where t: "data = replicate k (char_of (0 :: nat)) @ t" "t = [] \<or> hd t \<noteq> char_of (0 :: nat)"
    using leading_split [of data] by (auto simp: k_def)
  let ?ds = "rev (digits 58 (SetBytes data))"
  have "SetBytes data = SetBytes t" using SetBytes_leading [of k t] t(1) by simp
  then have bytes: "big_Bytes (of_digits 58 ?ds) = t" using no_leading_zero [OF t(2)] by (simp add: of_digits_digits)
  have "replicate k 0 @ ?ds \<noteq> []"
  proof
    assume *: "replicate k 0 @ ?ds = []"
    then have "big_Bytes (of_digits 58 ?ds) = []" by (simp add: big_Bytes_def)
    with * bytes t(1) assms show False by simp
  qed
  from decode_alpha [OF digits58 this] show ?thesis
    unfolding encode_shape [OF assms] k_def [symmetric] bytes by (simp add: t(1))
qed

lemma base58_decode_encode_witness:
  "DecodeBase58 (EncodeBase58 [char_of (0 :: nat), CHR ''A'']) = Inr [char_of (0 :: nat), CHR ''A'']"
  by (rule base58_decode_encode) simp

lemma decode_Inr:
  assumes "DecodeBase58 v = Inr data"
  shows "data \<noteq> [] \<and> EncodeBase58 data = TrimSpace v"
proof -
  obtain n where ne: "TrimSpace v \<noteq> []" and n: "decode_digits (TrimSpace v) 0 = Inr n"
    and data: "data = replicate (leading CHR ''1'' (TrimSpace v)) (char_of (0 :: nat)) @ big_Bytes n"
    using assms by (auto simp: DecodeBase58_def Let_def split: if_splits sum.splits)
  obtain ds where ds: "TrimSpace v = map alpha ds" "\<forall>d \<in> set ds. d < 58" "n = of_digits 58 ds"
    using decode_digits_Inr [OF n] by (auto simp: of_digits_def)
  define es where "es = dropWhile (\<lambda>d. d = 0) ds"
  define j where "j = length (takeWhile (\<lambda>d. d = 0) ds)"
  have split: "ds = replicate j 0 @ es"
  proof -
    have "takeWhile (\<lambda>d. d = 0) ds = replicate j 0"
      unfolding j_def by (rule replicate_eqI) (auto dest: set_takeWhileD)
    then show ?thesis using takeWhile_dropWhile_id [of "\<lambda>d. d = 0" ds] by (simp add: es_def)
  qed
  have es: "\<forall>d \<in> set es. d < 58" "es = [] \<or> hd es \<noteq> 0"
  proof -
    show "\<forall>d \<in> set es. d < 58" using ds(2) by (auto simp: es_def dest: set_dropWhileD)
    show "es = [] \<or> hd es \<noteq> 0" using hd_dropWhile [of "\<lambda>d. d = 0" ds] unfolding es_def by blast
  qed
  have lead: "leading CHR ''1'' (TrimSpace v) = j"
    using leading_alpha [OF es] by (simp add: ds(1) split)
  have n_es: "rev (digits 58 n) = es"
    using digits_of_digits [of 58 ds] ds(2,3) by (simp add: es_def)
  have bytes: "big_Bytes n = [] \<or> hd (big_Bytes n) \<noteq> char_of (0 :: nat)"
  proof (cases "n = 0")
    case False
    then obtain d rest where r: "rev (digits 256 n) = d # rest" "d \<noteq> 0" using hd_digits [of 256 n] by auto
    have "d < 256" using r(1) digits_less [of d 256 n] by (metis list.set_intros(1) set_rev)
    then have "of_char (char_of d :: char) = d" by simp
    with r have "char_of d \<noteq> (char_of (0 :: nat) :: char)" using nul_iff [of "char_of d"] by simp
    with r(1) show ?thesis by (simp add: big_Bytes_def)
  qed (simp add: big_Bytes_def)
  have set: "SetBytes data = n"
  proof -
    have "map of_char (big_Bytes n) = rev (digits 256 n)"
      unfolding big_Bytes_def map_map by (rule map_idI) (auto dest: digits_less)
    then show ?thesis
      unfolding data SetBytes_leading by (simp add: SetBytes_def of_digits_digits)
  qed
  have ne_data: "data \<noteq> []"
  proof
    assume "data = []"
    then have "j = 0" "n = 0" using data lead set by (simp_all add: SetBytes_def)
    then have "es = []" using n_es by simp
    then show False using ne ds(1) split \<open>j = 0\<close> by simp
  qed
  have "leading (char_of (0 :: nat)) data = j"
    unfolding data lead using bytes by (rule leading_replicate)
  then show ?thesis
    using ne_data by (simp add: encode_shape set n_es ds(1) split)
qed

text \<open>
  Property C27. An address is canonical: whatever decodes as base58 is, up to surrounding white
  space, the encoding of what it decodes to, so two addresses with the same key are the same
  address, and normalising returns the encoding of a 32-byte key and is idempotent.
\<close>

theorem base58_canonical:
  assumes "DecodeBase58 v = Inr key" and "DecodeBase58 w = Inr key"
  shows "EncodeBase58 key = TrimSpace v \<and> TrimSpace v = TrimSpace w \<and>
    (length key = 32 \<longrightarrow> NormalizeSolanaAddress v = Inr (EncodeBase58 key) \<and>
       NormalizeSolanaAddress (EncodeBase58 key) = Inr (EncodeBase58 key))"
proof -
  have v: "EncodeBase58 key = TrimSpace v" and w: "EncodeBase58 key = TrimSpace w" and ne: "key \<noteq> []"
    using decode_Inr [OF assms(1)] decode_Inr [OF assms(2)] by simp_all
  have plain: "TrimSpace (EncodeBase58 key) = EncodeBase58 key"
    unfolding encode_shape [OF ne] by (rule TrimSpace_alpha) (use digits58(1) in auto)
  have again: "DecodeBase58 (EncodeBase58 key) = Inr key"
    using assms(1) plain v by (simp add: DecodeBase58_def Let_def)
  then show ?thesis
    using v w plain by (simp add: NormalizeSolanaAddress_def)
qed

theorem base58_canonical_witness:
  "EncodeBase58 [char_of (65 :: nat)] = TrimSpace ''28'' \<and> DecodeBase58 ''28'' = Inr [char_of (65 :: nat)]"
proof -
  have d: "digits 256 65 = [65]" by (simp add: digits.simps)
  have "DecodeBase58 ''28'' = Inr [char_of (65 :: nat)]"
    by (simp add: DecodeBase58_def TrimSpace_def space1_def space2_def solanaBase58Alphabet_def big_Bytes_def d leading_def)
  with base58_canonical [OF this this] show ?thesis by simp
qed

text \<open>
  A wallet signature is accepted exactly when the address is the base58 form of a
  32-byte key, the signature decodes (base58, base64 or hexadecimal) to 64 bytes, and Ed25519
  accepts them for that key and message; every error is reported otherwise.
\<close>

lemma wallet_signature_accepted_iff:
  "is_ok (VerifyWalletSignature verify wallet message signature) \<longleftrightarrow>
    (\<exists>key sig. DecodeBase58 wallet = Inr key \<and> length key = 32 \<and> TrimSpace wallet = EncodeBase58 key \<and>
       DecodeSignature signature = Inr sig \<and> length sig = 64 \<and> verify key message sig)"
proof -
  have trim: "DecodeBase58 (TrimSpace wallet) = DecodeBase58 wallet"
    by (simp add: DecodeBase58_def)
  show ?thesis
    using decode_Inr [of wallet]
    by (auto simp: VerifyWalletSignature_def NormalizeSolanaAddress_def Let_def trim split: sum.splits)
qed

end
