(* ===== verification/AdminStore.thy ===== *)
theory AdminStore
  imports Contracts StoreState Solana
begin

text \<open>
  Administrators, service identities and the operation log of the in-memory repository
  (\<open>admin_users.go\<close>, \<open>service_identities.go\<close>, and \<open>ListAudits\<close>, \<open>AuditTarget\<close>, \<open>AdminOperation\<close>,
  \<open>SaveAdminOperation\<close> of \<open>store.go\<close>, all under \<open>src/internal/platform/store\<close>).

  \<open>uc\<close> is the case mapping outside ASCII, \<open>quote\<close> the verb \<open>%q\<close>, \<open>json_valid\<close> is \<open>json.Valid\<close>. A loop over a
  map takes the visiting order \<open>ks\<close>; it only decides which of two error messages is returned.
\<close>

section \<open>Administrators\<close>

record CreateAdminUserInput =
  cau_AdminID :: string
  cau_Username :: string
  cau_PublicKey :: string
  cau_Role :: string
  cau_CreatedBy :: string
  cau_Reason :: string

text \<open>The pattern \<open>^[a-z0-9][a-z0-9._-]{2,63}$\<close>.\<close>

definition lower_alnum :: "char \<Rightarrow> bool" where
  "lower_alnum c \<longleftrightarrow> (let b = of_char c :: nat in byte_in 97 122 b \<or> byte_in 48 57 b)"

definition idPattern :: "string \<Rightarrow> bool" where
  "idPattern s \<longleftrightarrow> 3 \<le> length s \<and> length s \<le> 64 \<and> lower_alnum (hd s) \<and>
     list_all (\<lambda>c. lower_alnum c \<or> c \<in> set ''._-'') (tl s)"

definition ordinaryAdminRoles :: "string list" where
  "ordinaryAdminRoles = [''OPERATOR'', ''FINANCE'', ''SUPPORT'', ''VIEWER'']"

definition valid_key :: "string \<Rightarrow> bool" where
  "valid_key k \<longleftrightarrow> (case DecodeBase58 k of Inl _ \<Rightarrow> False | Inr key \<Rightarrow> length key = 32)"

definition normalizeAdminUserInput :: "(string \<Rightarrow> string) \<Rightarrow> CreateAdminUserInput \<Rightarrow> CreateAdminUserInput result" where
  "normalizeAdminUserInput uc in0 =
     (let adminID = ToLower uc (TrimSpace (cau_AdminID in0));
          username0 = TrimSpace (cau_Username in0);
          username = (if username0 = [] then adminID else username0);
          publicKey = TrimSpace (cau_PublicKey in0);
          role0 = ToUpper uc (TrimSpace (cau_Role in0));
          role = (if role0 = [] then ''OPERATOR'' else role0);
          createdBy = TrimSpace (cau_CreatedBy in0);
          reason = TrimSpace (cau_Reason in0)
      in if \<not> idPattern adminID
         then Inl (ErrMsg ''adminId must be 3-64 lowercase letters, digits, dot, underscore, or dash'')
         else if length (runes username) > 100 then Inl (ErrMsg ''username must not exceed 100 characters'')
         else if role \<notin> set ordinaryAdminRoles
         then Inl (ErrMsg ''role must be OPERATOR, FINANCE, SUPPORT, or VIEWER'')
         else if \<not> valid_key publicKey
         then Inl (ErrMsg ''publicKey must be a 32-byte Ed25519 base58 public key'')
         else if createdBy = [] then Inl (ErrMsg ''createdBy is required'')
         else if reason = [] \<or> length (runes reason) > 500 then Inl (ErrMsg ''reason must be 1-500 characters'')
         else Inr \<lparr>cau_AdminID = adminID, cau_Username = username, cau_PublicKey = publicKey, cau_Role = role,
                cau_CreatedBy = createdBy, cau_Reason = reason\<rparr>)"

definition push_audit :: "store \<Rightarrow> string \<Rightarrow> string \<Rightarrow> string \<Rightarrow> string \<Rightarrow> time \<Rightarrow> store" where
  "push_audit s adminID action target reason created =
     s\<lparr>nextID := w64 (nextID s + 1), audits := audits s @
       [\<lparr>au_ID = w64 (nextID s + 1), au_AdminID = adminID, au_Action = action, au_Target = target,
         au_Reason = reason, au_CreatedAt = created\<rparr>]\<rparr>"

fun admin_conflict :: "string \<Rightarrow> string \<Rightarrow> AdminUser list \<Rightarrow> err option" where
  "admin_conflict username publicKey [] = None"
| "admin_conflict username publicKey (existing # rows) =
     (if adu_Username existing = username then Some (ErrMsg ''username already registered'')
      else if adu_PublicKey existing = publicKey then Some (ErrMsg ''public key already registered'')
      else admin_conflict username publicKey rows)"

definition CreateAdminUser ::
  "(string \<Rightarrow> string) \<Rightarrow> store \<Rightarrow> string list \<Rightarrow> CreateAdminUserInput \<Rightarrow> AdminUser op" where
  "CreateAdminUser uc s ks in0 =
     (case normalizeAdminUserInput uc in0 of
        Inl e \<Rightarrow> (s, Inl e)
      | Inr inp \<Rightarrow>
          if adminUsers s (cau_AdminID inp) \<noteq> None then (s, Inl (ErrMsg ''admin user already exists''))
          else case admin_conflict (cau_Username inp) (cau_PublicKey inp) (map_values (adminUsers s) ks) of
              Some e \<Rightarrow> (s, Inl e)
            | None \<Rightarrow>
                let row = \<lparr>adu_AdminID = cau_AdminID inp, adu_Username = cau_Username inp,
                      adu_PublicKey = cau_PublicKey inp, adu_Role = cau_Role inp, adu_Status = ''ACTIVE'',
                      adu_CreatedBy = cau_CreatedBy inp, adu_CreatedAt = time_Now s, adu_LastLoginAt = None,
                      adu_DisabledBy = [], adu_DisabledAt = None, adu_DisableReason = []\<rparr>;
                    s1 = (tick s)\<lparr>adminUsers := (adminUsers s)(adu_AdminID row \<mapsto> row)\<rparr>
                in (push_audit s1 (cau_CreatedBy inp) ''admin_user_create'' (''admin_user:'' @ adu_AdminID row)
                      (cau_Reason inp) (adu_CreatedAt row), Inr row))"

definition AdminUser_get :: "(string \<Rightarrow> string) \<Rightarrow> store \<Rightarrow> string \<Rightarrow> AdminUser result" where
  "AdminUser_get uc s adminID =
     (case adminUsers s (ToLower uc (TrimSpace adminID)) of None \<Rightarrow> Inl ErrNotFound | Some row \<Rightarrow> Inr row)"

definition page :: "int \<Rightarrow> int \<Rightarrow> 'a list \<Rightarrow> 'a list" where
  "page limit0 offset0 rows =
     (let offset = (if offset0 < 0 then 0 else offset0);
          limit = (if limit0 \<le> 0 \<or> limit0 > 200 then 50 else limit0)
      in take (nat limit) (drop (nat offset) rows))"

definition ListAdminUsers :: "(string \<Rightarrow> string) \<Rightarrow> store \<Rightarrow> string list \<Rightarrow> string \<Rightarrow> int \<Rightarrow> int \<Rightarrow> AdminUser list" where
  "ListAdminUsers uc s ks status0 limit offset =
     (let status = ToUpper uc (TrimSpace status0)
      in page limit offset (sort_key adu_AdminID
           (filter (\<lambda>row. status = [] \<or> adu_Status row = status) (map_values (adminUsers s) ks))))"

definition DisableAdminUser ::
  "(string \<Rightarrow> string) \<Rightarrow> store \<Rightarrow> string \<Rightarrow> string \<Rightarrow> string \<Rightarrow> AdminUser op" where
  "DisableAdminUser uc s adminID0 disabledBy0 reason0 =
     (let adminID = ToLower uc (TrimSpace adminID0); disabledBy = TrimSpace disabledBy0; reason = TrimSpace reason0
      in if disabledBy = [] \<or> reason = [] \<or> length (runes reason) > 500
         then (s, Inl (ErrMsg ''disabledBy and reason are required''))
         else case adminUsers s adminID of
             None \<Rightarrow> (s, Inl ErrNotFound)
           | Some row \<Rightarrow>
               if adu_Status row = ''DISABLED'' then (s, Inr row)
               else
                 let now = time_Now s;
                     row' = row\<lparr>adu_Status := ''DISABLED'', adu_DisabledBy := disabledBy,
                                adu_DisabledAt := Some now, adu_DisableReason := reason\<rparr>;
                     s1 = (tick s)\<lparr>adminUsers := (adminUsers s)(adminID \<mapsto> row')\<rparr>
                 in (push_audit s1 disabledBy ''admin_user_disable'' (''admin_user:'' @ adminID) reason now, Inr row'))"

definition SaveAdminLoginNonce :: "store \<Rightarrow> AdminLoginNonce \<Rightarrow> store" where
  "SaveAdminLoginNonce s row =
     (let (s1, row1) = (if IsZero (an_CreatedAt row)
                        then (tick s, row\<lparr>an_CreatedAt := time_Now s\<rparr>) else (s, row));
          row2 = (if an_Status row1 = [] then row1\<lparr>an_Status := ''PENDING''\<rparr> else row1)
      in s1\<lparr>adminLoginNonces := (adminLoginNonces s1)(an_Nonce row2 \<mapsto> row2)\<rparr>)"

definition set_admin_nonce :: "store \<Rightarrow> string \<Rightarrow> AdminLoginNonce \<Rightarrow> string \<Rightarrow> store" where
  "set_admin_nonce s nonce row status =
     s\<lparr>adminLoginNonces := (adminLoginNonces s)(nonce \<mapsto> row\<lparr>an_Status := status\<rparr>)\<rparr>"

definition AdminLoginNonce_get ::
  "(string \<Rightarrow> string) \<Rightarrow> store \<Rightarrow> string \<Rightarrow> string \<Rightarrow> time \<Rightarrow> AdminLoginNonce op" where
  "AdminLoginNonce_get uc s nonce adminID now =
     (case adminLoginNonces s (TrimSpace nonce) of
        None \<Rightarrow> (s, Inl ErrNotFound)
      | Some row \<Rightarrow>
          if an_AdminID row \<noteq> ToLower uc (TrimSpace adminID) then (s, Inl ErrNotFound)
          else if an_Status row \<noteq> ''PENDING'' then (s, Inl ErrForbidden)
          else if \<not> After (an_ExpiresAt row) now
          then (set_admin_nonce s (TrimSpace nonce) row ''EXPIRED'', Inl ErrForbidden)
          else (s, Inr row))"

definition ConsumeAdminLoginNonce :: "(string \<Rightarrow> string) \<Rightarrow> store \<Rightarrow> string \<Rightarrow> string \<Rightarrow> time \<Rightarrow> unit op" where
  "ConsumeAdminLoginNonce uc s nonce adminID now =
     (case adminLoginNonces s (TrimSpace nonce) of
        None \<Rightarrow> (s, Inl ErrNotFound)
      | Some row \<Rightarrow>
          if an_AdminID row \<noteq> ToLower uc (TrimSpace adminID) then (s, Inl ErrNotFound)
          else if an_Status row \<noteq> ''PENDING'' \<or> \<not> After (an_ExpiresAt row) now
          then (if an_Status row = ''PENDING'' then set_admin_nonce s (TrimSpace nonce) row ''EXPIRED'' else s,
                Inl ErrForbidden)
          else (set_admin_nonce s (TrimSpace nonce) row ''CONSUMED'', Inr ()))"

definition TouchAdminUserLogin :: "(string \<Rightarrow> string) \<Rightarrow> store \<Rightarrow> string \<Rightarrow> time \<Rightarrow> AdminUser op" where
  "TouchAdminUserLogin uc s adminID now =
     (let k = ToLower uc (TrimSpace adminID) in
      case adminUsers s k of
        None \<Rightarrow> (s, Inl ErrNotFound)
      | Some row \<Rightarrow>
          let row' = row\<lparr>adu_LastLoginAt := Some now\<rparr> in (s\<lparr>adminUsers := (adminUsers s)(k \<mapsto> row')\<rparr>, Inr row'))"

section \<open>Service identities\<close>

record CreateServiceIdentityInput =
  csi_ServiceID :: string
  csi_Name :: string
  csi_Kind :: string
  csi_SubjectID :: string
  csi_PublicKey :: string
  csi_Capabilities :: "string list"
  csi_CreatedBy :: string
  csi_Reason :: string

definition capabilitiesByKind :: "string \<rightharpoonup> string list" where
  "capabilitiesByKind = map_of
     [(''GAME_SERVER'', [''account.gameplay'', ''economy.gameplay'']), (''WORKER'', [''economy.worker'']),
      (''CHAIN_OPERATOR'', [''economy.payments'']), (''MINT_OPERATOR'', [''economy.mint'']),
      (''OPS'', [''account.ops'', ''economy.boss_ops'', ''economy.rewards''])]"

text \<open>The loop over the requested capabilities; \<open>out\<close> collects the different ones.\<close>

fun collect_capabilities ::
  "(string \<Rightarrow> string) \<Rightarrow> (string \<Rightarrow> string) \<Rightarrow> string list \<Rightarrow> string \<Rightarrow> string list \<Rightarrow> string list \<Rightarrow> string list result" where
  "collect_capabilities uc quote allowed kind out [] = Inr out"
| "collect_capabilities uc quote allowed kind out (c # cs) =
     (let capability = ToLower uc (TrimSpace c) in
      if capability \<notin> set allowed
      then Inl (ErrMsg (''capability '' @ quote capability @ '' is not allowed for '' @ kind))
      else collect_capabilities uc quote allowed kind
             (if capability \<in> set out then out else out @ [capability]) cs)"

definition normalizeServiceIdentityInput ::
  "(string \<Rightarrow> string) \<Rightarrow> (string \<Rightarrow> string) \<Rightarrow> CreateServiceIdentityInput \<Rightarrow> CreateServiceIdentityInput result" where
  "normalizeServiceIdentityInput uc quote in0 =
     (let serviceID = ToLower uc (TrimSpace (csi_ServiceID in0));
          name = TrimSpace (csi_Name in0);
          kind = ToUpper uc (TrimSpace (csi_Kind in0));
          subjectID = TrimSpace (csi_SubjectID in0);
          publicKey = TrimSpace (csi_PublicKey in0);
          createdBy = TrimSpace (csi_CreatedBy in0);
          reason = TrimSpace (csi_Reason in0);
          requested = csi_Capabilities in0
      in if \<not> idPattern serviceID
         then Inl (ErrMsg ''serviceId must be 3-64 lowercase letters, digits, dot, underscore, or dash'')
         else if name = [] \<or> length (runes name) > 100 then Inl (ErrMsg ''name must be 1-100 characters'')
         else case capabilitiesByKind kind of
             None \<Rightarrow> Inl (ErrMsg ''kind must be GAME_SERVER, WORKER, CHAIN_OPERATOR, MINT_OPERATOR, or OPS'')
           | Some allowed \<Rightarrow>
               if kind = ''GAME_SERVER'' \<and> subjectID = []
               then Inl (ErrMsg ''subjectId is required for GAME_SERVER'')
               else if length (runes subjectID) > 100 then Inl (ErrMsg ''subjectId must not exceed 100 characters'')
               else if \<not> valid_key publicKey
               then Inl (ErrMsg ''publicKey must be a 32-byte Ed25519 base58 public key'')
               else if createdBy = [] then Inl (ErrMsg ''createdBy is required'')
               else if reason = [] \<or> length (runes reason) > 500
               then Inl (ErrMsg ''reason must be 1-500 characters'')
               else if requested = [] \<or> length requested > length allowed
               then Inl (ErrMsg ''capabilities are required and must match identity kind'')
               else case collect_capabilities uc quote allowed kind [] requested of
                   Inl e \<Rightarrow> Inl e
                 | Inr capabilities \<Rightarrow>
                     Inr \<lparr>csi_ServiceID = serviceID, csi_Name = name, csi_Kind = kind, csi_SubjectID = subjectID,
                       csi_PublicKey = publicKey, csi_Capabilities = sort capabilities, csi_CreatedBy = createdBy,
                       csi_Reason = reason\<rparr>)"

definition HasCapability :: "(string \<Rightarrow> string) \<Rightarrow> ServiceIdentity \<Rightarrow> string \<Rightarrow> bool" where
  "HasCapability uc row capability \<longleftrightarrow> ToLower uc (TrimSpace capability) \<in> set (si_Capabilities row)"

fun service_conflict :: "CreateServiceIdentityInput \<Rightarrow> ServiceIdentity list \<Rightarrow> err option" where
  "service_conflict inp [] = None"
| "service_conflict inp (existing # rows) =
     (if si_PublicKey existing = csi_PublicKey inp then Some (ErrMsg ''public key already registered'')
      else if csi_Kind inp = ''GAME_SERVER'' \<and> si_Kind existing = csi_Kind inp \<and>
              si_SubjectID existing = csi_SubjectID inp \<and> si_Status existing = ''ACTIVE''
      then Some (ErrMsg ''active game server subject already registered'')
      else service_conflict inp rows)"

definition CreateServiceIdentity ::
  "(string \<Rightarrow> string) \<Rightarrow> (string \<Rightarrow> string) \<Rightarrow> store \<Rightarrow> string list \<Rightarrow> CreateServiceIdentityInput \<Rightarrow> ServiceIdentity op" where
  "CreateServiceIdentity uc quote s ks in0 =
     (case normalizeServiceIdentityInput uc quote in0 of
        Inl e \<Rightarrow> (s, Inl e)
      | Inr inp \<Rightarrow>
          if serviceIdentities s (csi_ServiceID inp) \<noteq> None
          then (s, Inl (ErrMsg ''service identity already exists''))
          else case service_conflict inp (map_values (serviceIdentities s) ks) of
              Some e \<Rightarrow> (s, Inl e)
            | None \<Rightarrow>
                let row = \<lparr>si_ServiceID = csi_ServiceID inp, si_Name = csi_Name inp, si_Kind = csi_Kind inp,
                      si_SubjectID = csi_SubjectID inp, si_PublicKey = csi_PublicKey inp,
                      si_Capabilities = csi_Capabilities inp, si_Status = ''ACTIVE'',
                      si_CreatedBy = csi_CreatedBy inp, si_CreatedAt = time_Now s, si_DisabledBy = [],
                      si_DisabledAt = None, si_DisableReason = []\<rparr>;
                    s1 = (tick s)\<lparr>serviceIdentities := (serviceIdentities s)(si_ServiceID row \<mapsto> row)\<rparr>
                in (push_audit s1 (csi_CreatedBy inp) ''service_identity_create''
                      (''service_identity:'' @ si_ServiceID row) (csi_Reason inp) (si_CreatedAt row), Inr row))"

definition ServiceIdentity_get :: "(string \<Rightarrow> string) \<Rightarrow> store \<Rightarrow> string \<Rightarrow> ServiceIdentity result" where
  "ServiceIdentity_get uc s serviceID =
     (case serviceIdentities s (ToLower uc (TrimSpace serviceID)) of None \<Rightarrow> Inl ErrNotFound | Some row \<Rightarrow> Inr row)"

definition ListServiceIdentities ::
  "(string \<Rightarrow> string) \<Rightarrow> store \<Rightarrow> string list \<Rightarrow> string \<Rightarrow> int \<Rightarrow> int \<Rightarrow> ServiceIdentity list" where
  "ListServiceIdentities uc s ks status0 limit offset =
     (let status = ToUpper uc (TrimSpace status0)
      in page limit offset (sort_key si_ServiceID
           (filter (\<lambda>row. status = [] \<or> si_Status row = status) (map_values (serviceIdentities s) ks))))"

definition DisableServiceIdentity ::
  "(string \<Rightarrow> string) \<Rightarrow> store \<Rightarrow> string \<Rightarrow> string \<Rightarrow> string \<Rightarrow> ServiceIdentity op" where
  "DisableServiceIdentity uc s serviceID0 disabledBy0 reason0 =
     (let serviceID = ToLower uc (TrimSpace serviceID0); disabledBy = TrimSpace disabledBy0; reason = TrimSpace reason0
      in if disabledBy = [] \<or> reason = [] \<or> length (runes reason) > 500
         then (s, Inl (ErrMsg ''disabledBy and reason are required''))
         else case serviceIdentities s serviceID of
             None \<Rightarrow> (s, Inl ErrNotFound)
           | Some row \<Rightarrow>
               if si_Status row = ''DISABLED'' then (s, Inr row)
               else
                 let now = time_Now s;
                     row' = row\<lparr>si_Status := ''DISABLED'', si_DisabledBy := disabledBy,
                                si_DisabledAt := Some now, si_DisableReason := reason\<rparr>;
                     s1 = (tick s)\<lparr>serviceIdentities := (serviceIdentities s)(serviceID \<mapsto> row')\<rparr>
                 in (push_audit s1 disabledBy ''service_identity_disable'' (''service_identity:'' @ serviceID) reason now,
                     Inr row'))"

definition service_nonce_key :: "string \<Rightarrow> string \<Rightarrow> string" where
  "service_nonce_key serviceID nonce = serviceID @ [CHR 0x00] @ nonce"

definition live_nonces :: "(string \<rightharpoonup> time) \<Rightarrow> time \<Rightarrow> string \<rightharpoonup> time" where
  "live_nonces m now key = (case m key of None \<Rightarrow> None | Some expiry \<Rightarrow> if After expiry now then Some expiry else None)"

definition ConsumeServiceNonce :: "store \<Rightarrow> string \<Rightarrow> string \<Rightarrow> time \<Rightarrow> unit op" where
  "ConsumeServiceNonce s serviceID0 nonce0 expiresAt =
     (let serviceID = TrimSpace serviceID0; nonce = TrimSpace nonce0 in
      if serviceID = [] \<or> nonce = [] then (s, Inl (ErrMsg ''serviceId and nonce are required''))
      else
        let live = live_nonces (serviceNonces s) (time_Now s); key = service_nonce_key serviceID nonce in
        if live key \<noteq> None then ((tick s)\<lparr>serviceNonces := live\<rparr>, Inl ErrForbidden)
        else ((tick s)\<lparr>serviceNonces := live(key \<mapsto> expiresAt)\<rparr>, Inr ()))"

section \<open>Audit trail and operation log\<close>

definition clampAdminLimit :: "int \<Rightarrow> int" where
  "clampAdminLimit limit = (if limit \<le> 0 then 50 else if limit > 200 then 200 else limit)"

definition ListAudits :: "store \<Rightarrow> int \<Rightarrow> int \<Rightarrow> AuditEntry list" where
  "ListAudits s limit offset =
     take (nat (clampAdminLimit limit)) (drop (nat (if offset < 0 then 0 else offset)) (rev (audits s)))"

definition AuditTarget ::
  "store \<Rightarrow> string \<Rightarrow> string \<Rightarrow> string \<Rightarrow> string \<Rightarrow> string \<Rightarrow> store \<times> AuditEntry" where
  "AuditTarget s adminID action targetType targetID reason =
     Audit s adminID action (if targetID \<noteq> [] then targetType @ '':'' @ targetID else targetType) reason"

definition AdminOperation_get :: "store \<Rightarrow> string \<Rightarrow> AdminOperation result" where
  "AdminOperation_get s opID =
     (case adminOperations s (TrimSpace opID) of None \<Rightarrow> Inl ErrNotFound | Some row \<Rightarrow> Inr row)"

definition SaveAdminOperation :: "(string \<Rightarrow> bool) \<Rightarrow> store \<Rightarrow> AdminOperation \<Rightarrow> AdminOperation op" where
  "SaveAdminOperation json_valid s inp =
     (if TrimSpace (ao_OpID inp) = [] then (s, Inl (ErrMsg ''opId is required''))
      else if ao_Response inp = [] \<or> \<not> json_valid (ao_Response inp)
      then (s, Inl (ErrMsg ''admin operation response is invalid''))
      else case adminOperations s (TrimSpace (ao_OpID inp)) of
          Some existing \<Rightarrow> (s, Inr existing)
        | None \<Rightarrow>
            let row = \<lparr>ao_OpID = TrimSpace (ao_OpID inp), ao_AdminID = TrimSpace (ao_AdminID inp),
                  ao_Action = TrimSpace (ao_Action inp), ao_Target = TrimSpace (ao_Target inp),
                  ao_Response = ao_Response inp, ao_CreatedAt = time_Now s\<rparr>
            in ((tick s)\<lparr>adminOperations := (adminOperations s)(ao_OpID row \<mapsto> row)\<rparr>, Inr row))"

end
