(* ===== verification/Pricing.thy ===== *)
theory Pricing
  imports StoreState
begin

text \<open>
  The price rules of the economy (\<open>EquipmentRules\<close> of \<open>equipment_repair.go\<close>, \<open>NFTRules\<close> of
  \<open>nft.go\<close>, \<open>MarketplaceRules\<close> of \<open>marketplace.go\<close>, \<open>GrowthPaymentRules\<close> of
  \<open>growth_payments.go\<close>), the basis point functions of \<open>token_spend.go\<close>, and the arithmetic with
  which a repair and a marketplace sale divide what was paid.

  The theory proves when the parts of a sale and of a repair add up to the price: a sale's
  always do under the rules the marketplace is configured with, a repair's parts exceed a price
  below five.
\<close>

section \<open>Basis points\<close>

definition bpsAmount :: "int \<Rightarrow> int \<Rightarrow> int" where
  "bpsAmount amount bps = (if amount \<le> 0 \<or> bps \<le> 0 then 0 else w64 (amount * bps) sdiv 10000)"

definition bpsCeil :: "int \<Rightarrow> int \<Rightarrow> int" where
  "bpsCeil amount bps =
     (if amount \<le> 0 \<or> bps \<le> 0 then 0
      else let out = w64 (w64 (amount * bps) + 9999) sdiv 10000 in if out < 1 then 1 else out)"

section \<open>Rules\<close>

record EquipmentRules =
  er_DefaultMaxDurability :: int
  er_RepairCostPerPointToken :: int
  er_RepairMinCostToken :: int
  er_RepairBurnBps :: int
  er_RepairRecycleBps :: int
  er_RepairRewardBps :: int
  er_DungeonWearPoints :: int
  er_BossWearPoints :: int

text \<open>\<open>if x <= 0 { x = d }\<close>, the shape of every default.\<close>

definition or_default :: "int \<Rightarrow> int \<Rightarrow> int" where
  "or_default x d = (if x \<le> 0 then d else x)"

definition EquipmentRules_WithDefaults :: "EquipmentRules \<Rightarrow> EquipmentRules" where
  "EquipmentRules_WithDefaults r =
     r\<lparr>er_DefaultMaxDurability := or_default (er_DefaultMaxDurability r) 100,
       er_RepairCostPerPointToken := or_default (er_RepairCostPerPointToken r) 1,
       er_RepairMinCostToken := or_default (er_RepairMinCostToken r) 1,
       er_RepairBurnBps := or_default (er_RepairBurnBps r) 1000,
       er_RepairRecycleBps := or_default (er_RepairRecycleBps r) 8000,
       er_RepairRewardBps := or_default (er_RepairRewardBps r) 1000,
       er_DungeonWearPoints := or_default (er_DungeonWearPoints r) 5,
       er_BossWearPoints := or_default (er_BossWearPoints r) 8\<rparr>"

definition RepairCost :: "EquipmentRules \<Rightarrow> int \<Rightarrow> int" where
  "RepairCost r0 missingPoints =
     (let r = EquipmentRules_WithDefaults r0 in
      if missingPoints \<le> 0 then 0
      else let cost = w64 (missingPoints * er_RepairCostPerPointToken r)
           in if cost < er_RepairMinCostToken r then er_RepairMinCostToken r else cost)"

text \<open>\<open>burn\<close>, \<open>recycle\<close> and \<open>rewards\<close> of \<open>EquipmentRepair\<close>.\<close>

definition repair_split :: "EquipmentRules \<Rightarrow> int \<Rightarrow> int \<times> int \<times> int" where
  "repair_split rules cost =
     (let burn = bpsCeil cost (er_RepairBurnBps rules);
          recycle = bpsCeil cost (er_RepairRecycleBps rules);
          rewards = w64 (w64 (cost - burn) - recycle)
      in (burn, recycle, if rewards < 0 then 0 else rewards))"

text \<open>The fee table is a map; the loop keeps the highest configured rarity, in any visiting order.\<close>

record NFTRules =
  nr_MintFeesByRarity :: "(int \<times> int) list"
  nr_MinRarity :: int

definition NFTRules_WithDefaults :: "NFTRules \<Rightarrow> NFTRules" where
  "NFTRules_WithDefaults r0 =
     (let r = r0\<lparr>nr_MinRarity := or_default (nr_MinRarity r0) 3\<rparr>
      in if nr_MintFeesByRarity r = [] then r\<lparr>nr_MintFeesByRarity := [(3, 500), (4, 2000), (5, 10000)]\<rparr> else r)"

fun best_fee :: "int \<Rightarrow> int \<Rightarrow> int \<Rightarrow> int \<Rightarrow> (int \<times> int) list \<Rightarrow> int" where
  "best_fee minRarity rarity bestRarity fee [] = fee"
| "best_fee minRarity rarity bestRarity fee ((configuredRarity, configuredFee) # rest) =
     (if configuredRarity \<ge> minRarity \<and> configuredRarity \<le> rarity \<and> configuredRarity > bestRarity \<and> configuredFee > 0
      then best_fee minRarity rarity configuredRarity configuredFee rest
      else best_fee minRarity rarity bestRarity fee rest)"

definition MintFeeForRarity :: "NFTRules \<Rightarrow> int \<Rightarrow> int" where
  "MintFeeForRarity r0 rarity =
     (let r = NFTRules_WithDefaults r0 in best_fee (nr_MinRarity r) rarity (- 1) 0 (nr_MintFeesByRarity r))"

record MarketplaceRules =
  mk_Enabled :: bool
  mk_MinListPrice :: int
  mk_FeeBps :: int
  mk_FeeBurnBps :: int
  mk_FeeTreasuryBps :: int
  mk_FeeRewardsBps :: int
  mk_ListingDepositBps :: int
  mk_BaseListingSlots :: int
  mk_MaterialExpandSlots :: int
  mk_MaterialExpandMaxTimes :: int
  mk_MaterialExpandItemID :: string
  mk_MaterialExpandItemQuantity :: int
  mk_WalletExpandSlots :: int
  mk_WalletExpandMaxTimes :: int
  mk_WalletExpandPriceToken :: int
  mk_WalletExpandPaymentTimeoutSec :: int
  mk_DepositReceiverWallet :: string
  mk_MaxListingsCreatedPerDay :: int
  mk_MaxCancelsPerDay :: int
  mk_MaxPurchasesPerDay :: int
  mk_PurchaseCooldownSeconds :: int
  mk_DailyLimitTimezone :: string
  mk_DefaultCooldownHours :: int

definition MarketplaceRules_withDefaults :: "MarketplaceRules \<Rightarrow> MarketplaceRules" where
  "MarketplaceRules_withDefaults r =
     r\<lparr>mk_MinListPrice := or_default (mk_MinListPrice r) 1,
       mk_FeeBps := or_default (mk_FeeBps r) 500,
       mk_FeeBurnBps := or_default (mk_FeeBurnBps r) 100,
       mk_FeeTreasuryBps := or_default (mk_FeeTreasuryBps r) 300,
       mk_FeeRewardsBps := or_default (mk_FeeRewardsBps r) 100,
       mk_ListingDepositBps := or_default (mk_ListingDepositBps r) 100,
       mk_BaseListingSlots := or_default (mk_BaseListingSlots r) 5,
       mk_MaterialExpandSlots := or_default (mk_MaterialExpandSlots r) 2,
       mk_MaterialExpandMaxTimes := or_default (mk_MaterialExpandMaxTimes r) 5,
       mk_MaterialExpandItemID :=
         if TrimSpace (mk_MaterialExpandItemID r) = [] then ''market_stall_permit'' else mk_MaterialExpandItemID r,
       mk_MaterialExpandItemQuantity := or_default (mk_MaterialExpandItemQuantity r) 1,
       mk_WalletExpandSlots := or_default (mk_WalletExpandSlots r) 2,
       mk_WalletExpandMaxTimes := or_default (mk_WalletExpandMaxTimes r) 5,
       mk_WalletExpandPriceToken := or_default (mk_WalletExpandPriceToken r) 100,
       mk_WalletExpandPaymentTimeoutSec := or_default (mk_WalletExpandPaymentTimeoutSec r) 600,
       mk_MaxListingsCreatedPerDay := or_default (mk_MaxListingsCreatedPerDay r) 50,
       mk_MaxCancelsPerDay := or_default (mk_MaxCancelsPerDay r) 20,
       mk_MaxPurchasesPerDay := or_default (mk_MaxPurchasesPerDay r) 100,
       mk_PurchaseCooldownSeconds := if mk_PurchaseCooldownSeconds r < 0 then 3 else mk_PurchaseCooldownSeconds r,
       mk_DailyLimitTimezone :=
         if TrimSpace (mk_DailyLimitTimezone r) = [] then ''Asia/Shanghai'' else mk_DailyLimitTimezone r,
       mk_DefaultCooldownHours := or_default (mk_DefaultCooldownHours r) 74\<rparr>"

definition SlotCapacity :: "MarketplaceRules \<Rightarrow> int \<Rightarrow> int \<Rightarrow> int" where
  "SlotCapacity r materialExpand walletExpand =
     w64 (w64 (mk_BaseListingSlots r + w64 (materialExpand * mk_MaterialExpandSlots r))
          + w64 (walletExpand * mk_WalletExpandSlots r))"

record MarketplaceSlots =
  sl_AccountID :: int
  sl_BaseSlots :: int
  sl_MaterialExpandCount :: int
  sl_WalletExpandCount :: int
  sl_Capacity :: int
  sl_Used :: int
  sl_Available :: int

definition decorateSlots :: "int \<Rightarrow> MarketplaceSlots \<Rightarrow> MarketplaceRules \<Rightarrow> MarketplaceSlots" where
  "decorateSlots accountID slots rules =
     (let capacity = SlotCapacity rules (sl_MaterialExpandCount slots) (sl_WalletExpandCount slots);
          available = w64 (capacity - sl_Used slots)
      in slots\<lparr>sl_AccountID := accountID, sl_BaseSlots := mk_BaseListingSlots rules, sl_Capacity := capacity,
               sl_Available := if available < 0 then 0 else available\<rparr>)"

text \<open>The amounts of \<open>MarketplaceBuy\<close>: the buyer pays the price, the seller gets \<open>sale_net\<close>.\<close>

record sale =
  sale_fee :: int
  sale_burn :: int
  sale_treasury :: int
  sale_rewards :: int
  sale_net :: int

definition sale_split :: "MarketplaceRules \<Rightarrow> int \<Rightarrow> sale" where
  "sale_split rules price =
     (let f = bpsAmount price (mk_FeeBps rules);
          b = bpsAmount price (mk_FeeBurnBps rules);
          t = bpsAmount price (mk_FeeTreasuryBps rules);
          r = w64 (w64 (f - b) - t)
      in \<lparr>sale_fee = f, sale_burn = b, sale_treasury = t, sale_rewards = if r < 0 then 0 else r,
          sale_net = w64 (price - f)\<rparr>)"

record GrowthPaymentRules =
  gp_DepositReceiverWallet :: string
  gp_BagSlots :: int
  gp_BagExpandSlots :: int
  gp_BagExpandMaxTimes :: int
  gp_BagExpandPriceToken :: int
  gp_BagExpandPaymentTimeoutSec :: int
  gp_TradingLicensePriceToken :: int
  gp_TradingLicensePaymentTimeoutSec :: int

definition GrowthPaymentRules_withDefaults :: "GrowthPaymentRules \<Rightarrow> GrowthPaymentRules" where
  "GrowthPaymentRules_withDefaults r =
     r\<lparr>gp_BagSlots := or_default (gp_BagSlots r) 25,
       gp_BagExpandSlots := or_default (gp_BagExpandSlots r) 5,
       gp_BagExpandMaxTimes := or_default (gp_BagExpandMaxTimes r) 10,
       gp_BagExpandPriceToken := or_default (gp_BagExpandPriceToken r) 50,
       gp_BagExpandPaymentTimeoutSec := or_default (gp_BagExpandPaymentTimeoutSec r) 600,
       gp_TradingLicensePriceToken := or_default (gp_TradingLicensePriceToken r) 100,
       gp_TradingLicensePaymentTimeoutSec := or_default (gp_TradingLicensePaymentTimeoutSec r) 600\<rparr>"

definition GrowthPaymentRules_EffectiveBagSlots :: "GrowthPaymentRules \<Rightarrow> int \<Rightarrow> int" where
  "GrowthPaymentRules_EffectiveBagSlots r0 expandCount =
     (let r = GrowthPaymentRules_withDefaults r0
      in w64 (gp_BagSlots r + w64 ((if expandCount < 0 then 0 else expandCount) * gp_BagExpandSlots r)))"

definition supportedPaymentPurpose :: "string \<Rightarrow> bool" where
  "supportedPaymentPurpose purpose \<longleftrightarrow>
     purpose \<in> {''MARKET_SLOT_WALLET_EXPAND'', ''BAG_EXPAND'', ''TRADING_LICENSE'', ''LOTTERY_DRAW'',
                ''SHOP_BUY'', ''BOUNTY_SLOT_UNLOCK'', ''BOUNTY_PREMIUM_REFRESH''}"

section \<open>Sums\<close>

text \<open>Prices up to \<open>max_price\<close> are those whose products with basis points stay within 64 bits.\<close>

definition max_price :: int where "max_price = 900000000000000"

lemma bps_product:
  assumes "0 \<le> p" "p \<le> max_price" "0 \<le> b" "b \<le> 10000"
  shows "0 \<le> p * b" "p * b \<le> 9000000000000000000"
proof -
  show "0 \<le> p * b" using assms by simp
  have "p * b \<le> max_price * 10000" using assms by (intro mult_mono) (auto simp: max_price_def)
  then show "p * b \<le> 9000000000000000000" by (simp add: max_price_def)
qed

lemma bpsAmount_eq:
  assumes "0 < p" "p \<le> max_price" "0 < b" "b \<le> 10000"
  shows "bpsAmount p b = p * b div 10000"
  using assms bps_product [of p b] by (simp add: bpsAmount_def w64_nonneg sdiv_nonneg)

lemma bpsCeil_eq:
  assumes "0 < p" "p \<le> max_price" "0 < b" "b \<le> 10000"
  shows "bpsCeil p b = (p * b + 9999) div 10000"
proof -
  have "1 \<le> p * b" using assms by (metis mult_pos_pos zle_iff_zadd zless_iff_Suc_zadd add1_zle_eq add_0)
  then have "1 \<le> (p * b + 9999) div 10000" by linarith
  then show ?thesis
    using assms bps_product [of p b] by (simp add: bpsCeil_def w64_nonneg sdiv_nonneg Let_def)
qed

lemma bpsAmount_bounds:
  assumes "0 < p" "p \<le> max_price" "0 < b" "b \<le> 10000"
  shows "0 \<le> bpsAmount p b" "bpsAmount p b \<le> p"
proof -
  have "p * b \<le> p * 10000" using assms by (intro mult_left_mono) auto
  then show "bpsAmount p b \<le> p" using bpsAmount_eq [OF assms] by linarith
  show "0 \<le> bpsAmount p b" using bpsAmount_eq [OF assms] assms by (simp add: pos_imp_zdiv_nonneg_iff)
qed

text \<open>Rounding down twice loses no more than rounding down once.\<close>

lemma bpsAmount_add:
  assumes "0 < p" "p \<le> max_price" "0 < a" "0 < b" "a + b \<le> c" "c \<le> 10000"
  shows "bpsAmount p a + bpsAmount p b \<le> bpsAmount p c"
proof -
  have "p * a + p * b \<le> p * c" using assms by (metis distrib_left mult_left_mono less_imp_le)
  then have "p * a div 10000 + p * b div 10000 \<le> p * c div 10000" by linarith
  then show ?thesis using assms by (simp add: bpsAmount_eq)
qed

text \<open>
  A marketplace sale gives out exactly the price: with fee rules whose burn and
  treasury shares fit in the fee, and a price in the range of the arithmetic, the seller's share,
  the burnt, the treasury and the rewards parts are never negative and add up to what the buyer
  pays; the seller never receives more than the price.
\<close>

lemma sale_split_exact:
  assumes "0 < price" "price \<le> max_price"
    and "0 < mk_FeeBurnBps r" "0 < mk_FeeTreasuryBps r"
    and "mk_FeeBurnBps r + mk_FeeTreasuryBps r \<le> mk_FeeBps r" "mk_FeeBps r \<le> 10000"
  shows "sale_burn (sale_split r price) + sale_treasury (sale_split r price) + sale_rewards (sale_split r price)
      + sale_net (sale_split r price) = price \<and>
    0 \<le> sale_burn (sale_split r price) \<and> 0 \<le> sale_treasury (sale_split r price) \<and> 0 \<le> sale_rewards (sale_split r price) \<and>
    0 \<le> sale_net (sale_split r price) \<and> sale_net (sale_split r price) \<le> price"
proof -
  let ?f = "bpsAmount price (mk_FeeBps r)" and ?b = "bpsAmount price (mk_FeeBurnBps r)"
    and ?t = "bpsAmount price (mk_FeeTreasuryBps r)"
  have bounds: "0 \<le> ?f" "?f \<le> price" "0 \<le> ?b" "0 \<le> ?t" "?b + ?t \<le> ?f"
    using assms by (simp_all add: bpsAmount_bounds bpsAmount_add)
  have small: "price < 2 ^ 63" using assms(2) by (simp add: max_price_def)
  have "w64 (?f - ?b) = ?f - ?b" "w64 (?f - ?b - ?t) = ?f - ?b - ?t" "w64 (price - ?f) = price - ?f"
    using bounds small by (intro w64_nonneg; linarith)+
  then show ?thesis using bounds by (simp add: sale_split_def Let_def)
qed

definition default_market :: MarketplaceRules where
  "default_market = MarketplaceRules_withDefaults
     \<lparr>mk_Enabled = True, mk_MinListPrice = 0, mk_FeeBps = 0, mk_FeeBurnBps = 0, mk_FeeTreasuryBps = 0,
      mk_FeeRewardsBps = 0, mk_ListingDepositBps = 0, mk_BaseListingSlots = 0, mk_MaterialExpandSlots = 0,
      mk_MaterialExpandMaxTimes = 0, mk_MaterialExpandItemID = [], mk_MaterialExpandItemQuantity = 0,
      mk_WalletExpandSlots = 0, mk_WalletExpandMaxTimes = 0, mk_WalletExpandPriceToken = 0,
      mk_WalletExpandPaymentTimeoutSec = 0, mk_DepositReceiverWallet = [], mk_MaxListingsCreatedPerDay = 0,
      mk_MaxCancelsPerDay = 0, mk_MaxPurchasesPerDay = 0, mk_PurchaseCooldownSeconds = 0,
      mk_DailyLimitTimezone = [], mk_DefaultCooldownHours = 0\<rparr>"

lemma default_market_bps [simp]:
  "mk_FeeBps default_market = 500" "mk_FeeBurnBps default_market = 100" "mk_FeeTreasuryBps default_market = 300"
  by (simp_all add: default_market_def MarketplaceRules_withDefaults_def or_default_def)

lemma sale_split_exact_witness:
  "sale_burn (sale_split default_market 1999) + sale_treasury (sale_split default_market 1999)
     + sale_rewards (sale_split default_market 1999) + sale_net (sale_split default_market 1999) = 1999"
  using sale_split_exact [of 1999 default_market] by (simp add: max_price_def)

lemma rounded_up:
  "10000 * x \<le> c * 1000 + 9999 \<Longrightarrow> 10 * x \<le> c + (9 :: int)"
  "10000 * x \<le> c * 8000 + 9999 \<Longrightarrow> 5 * x \<le> 4 * c + (4 :: int)"
  by linarith+

text \<open>
  Property C31. With the default repair rules the recorded burn, recycle and reward parts of a
  repair add up to its cost exactly when the cost is at least five: both rounded-up parts of a
  cost of one to four exceed it by one in sum.
\<close>

theorem repair_split_exact_iff:
  assumes "0 < cost" "cost \<le> max_price" and "er_RepairBurnBps r \<le> 0" "er_RepairRecycleBps r \<le> 0"
  shows "(case repair_split (EquipmentRules_WithDefaults r) cost of (b, c, w) \<Rightarrow> b + c + w) =
    (if cost < 5 then cost + 1 else cost)"
proof -
  let ?b = "(cost * 1000 + 9999) div 10000" and ?c = "(cost * 8000 + 9999) div 10000"
  have eqs: "bpsCeil cost 1000 = ?b" "bpsCeil cost 8000 = ?c" using assms by (simp_all add: bpsCeil_eq)
  have small: "cost < 2 ^ 62" using assms(2) by (simp add: max_price_def)
  have b: "0 \<le> ?b" "?b \<le> cost" "0 \<le> ?c" "?c \<le> cost" using assms(1) by linarith+
  have "w64 (cost - ?b) = cost - ?b" using b(1,2) small by (intro w64_nonneg) simp_all
  moreover have "w64 (cost - ?b - ?c) = cost - ?b - ?c"
    using b small by (intro w64_id, unfold i64_def) simp
  ultimately have split: "repair_split (EquipmentRules_WithDefaults r) cost =
      (?b, ?c, if cost - ?b - ?c < 0 then 0 else cost - ?b - ?c)"
    using assms by (simp add: repair_split_def EquipmentRules_WithDefaults_def or_default_def eqs Let_def)
  show ?thesis
  proof (cases "cost < 5")
    case True
    then have "cost \<in> {1, 2, 3, 4}" using assms(1) by auto
    then show ?thesis using split by auto
  next
    case False
    have parts: "10 * ?b \<le> cost + 9" "5 * ?c \<le> 4 * cost + 4"
      by (rule rounded_up, linarith)+
    consider "cost = 5" | "cost = 6" | "cost = 7" | "8 \<le> cost" using False by linarith
    then have "?b + ?c \<le> cost"
    proof cases
      case 4
      then show ?thesis using parts by linarith
    qed simp_all
    then show ?thesis using split False by simp
  qed
qed

definition unset_equipment_rules :: EquipmentRules where
  "unset_equipment_rules = \<lparr>er_DefaultMaxDurability = 0, er_RepairCostPerPointToken = 0,
     er_RepairMinCostToken = 0, er_RepairBurnBps = 0, er_RepairRecycleBps = 0, er_RepairRewardBps = 0,
     er_DungeonWearPoints = 0, er_BossWearPoints = 0\<rparr>"

theorem repair_split_exact_iff_witness:
  "(case repair_split (EquipmentRules_WithDefaults unset_equipment_rules) (RepairCost unset_equipment_rules 1) of
      (b, c, w) \<Rightarrow> b + c + w) = 2 \<and> RepairCost unset_equipment_rules 1 = 1"
proof -
  have cost: "RepairCost unset_equipment_rules 1 = 1"
    by (simp add: RepairCost_def EquipmentRules_WithDefaults_def or_default_def unset_equipment_rules_def w64_def)
  with repair_split_exact_iff [of "RepairCost unset_equipment_rules 1" unset_equipment_rules]
  show ?thesis by (simp add: unset_equipment_rules_def max_price_def)
qed

end
