(* ===== verification/RulesConfig.thy ===== *)
theory RulesConfig
  imports EconomyTypes Pricing "HOL-Library.AList"
begin

text \<open>
  The economy configuration (\<open>src/internal/economy/rules/config.go\<close>): one record per JSON type,
  and the accessors with their defaults. The loaders are in \<open>ConfigLoader\<close>.

  A configuration map is an association list with one entry per key, which also fixes the order
  in which a \<open>range\<close> loop visits it; \<open>AList.update\<close> is assignment. The text of an error that
  quotes a value with \<open>%q\<close> takes the quoting as the argument \<open>quote\<close>.
\<close>

section \<open>Data\<close>

record Item =
  itm_ItemID :: string
  itm_DisplayName :: string
  itm_Category :: string
  itm_Rarity :: int
  itm_MaxStack :: int
  itm_IsEquipment :: bool
  itm_EquipSlot :: int
  itm_WeaponType :: int
  itm_WeaponTypeKey :: string
  itm_Tradable :: bool
  itm_DefaultBindType :: string
  itm_BuyCurrency :: int
  itm_BuyPrice :: int
  itm_SellPrice :: int
  itm_GrantGold :: int
  itm_GrantLockedAEB :: int

record ShopSellItem =
  ssi_SlotIndex :: int
  ssi_ItemID :: string
  ssi_MinLevel :: int
  ssi_MaxLevel :: int
  ssi_Rarity :: int
  ssi_BuyPrice :: int
  ssi_DailyLimit :: int

record MysteryShopPoolEntry =
  mpe_ItemID :: string
  mpe_Weight :: int
  mpe_Quantity :: int
  mpe_Rarity :: int
  mpe_MinLevel :: int
  mpe_MaxLevel :: int
  mpe_BaseGold :: int
  mpe_BaseToken :: int
  mpe_MinDiscount :: int

record MysteryShopSlot =
  mss_SlotIndex :: int
  mss_UnlockLevel :: int
  mss_Pools :: "MysteryShopPoolEntry list"

record MysteryDiscount =
  mdi_Bps :: int
  mdi_Weight :: int

record MysteryShopConfig =
  msc_ManualRefreshTokenBaseCost :: int
  msc_ManualRefreshTokenStepCost :: int
  msc_ManualRefreshTokenMaxCost :: int
  msc_DailyLimitTimezone :: string
  msc_MaxSlots :: int
  msc_Slots :: "MysteryShopSlot list"
  msc_Discounts :: "MysteryDiscount list"

record Shop =
  shp_ShopID :: string
  shp_DisplayName :: string
  shp_DailyLimitTimezone :: string
  shp_SellAllItems :: bool
  shp_SellItems :: "ShopSellItem list"
  shp_Mystery :: "MysteryShopConfig option"

record EnhancementConfig =
  ehc_MaxLevel :: int
  ehc_GoldCostByStage :: "(int \<times> int list) list"
  ehc_StoneItemByStage :: "(int \<times> string) list"
  ehc_StoneBaseCostByStageRarity :: "(int \<times> int list) list"
  ehc_StoneProgressionByLevel :: "int list"

record EquipmentRarity =
  era_Name :: string
  era_Multiplier :: float64
  era_AffixCount :: int

record EquipmentStageTemplate =
  est_Stage :: int
  est_ItemID :: string
  est_Prefix :: string
  est_BasePercent :: "(string \<times> float64) list"
  est_SellPriceGold :: "(int \<times> int) list"
  est_NPCRecycleGold :: "(int \<times> int) list"

record EquipmentSeries =
  esr_SeriesID :: string
  esr_EquipSlot :: int
  esr_Category :: string
  esr_WeaponType :: int
  esr_WeaponTypeKey :: string
  esr_DisplayType :: string
  esr_AffixPoolID :: string
  esr_BaseFlat :: "(string \<times> float64) list"
  esr_Stages :: "EquipmentStageTemplate list"

record EquipmentTemplate =
  etp_ItemID :: string
  etp_SeriesID :: string
  etp_Stage :: int
  etp_EquipSlot :: int
  etp_Category :: string
  etp_WeaponType :: int
  etp_WeaponTypeKey :: string
  etp_DisplayName :: string
  etp_AffixPoolID :: string
  etp_BaseFlat :: "(string \<times> float64) list"
  etp_BasePercent :: "(string \<times> float64) list"
  etp_SellPriceGold :: "(int \<times> int) list"
  etp_NPCRecycleGold :: "(int \<times> int) list"

record MountTemplate =
  mnt_ItemID :: string
  mnt_DisplayName :: string
  mnt_EquipSlot :: int
  mnt_FinalHPBps :: int
  mnt_FinalAtkBps :: int
  mnt_MoveSpeedBps :: int

record EquipmentConfig =
  eqc_StageMultipliers :: "(int \<times> float64) list"
  eqc_Rarities :: "(int \<times> EquipmentRarity) list"
  eqc_SellPriceGoldByStage :: "(int \<times> (int \<times> int) list) list"
  eqc_NPCRecycleGoldByStage :: "(int \<times> (int \<times> int) list) list"
  eqc_Enhancement :: EnhancementConfig
  eqc_Series :: "EquipmentSeries list"
  eqc_Mounts :: "MountTemplate list"
  eqc_ByItemID :: "(string \<times> EquipmentTemplate) list"

record LotteryConfig =
  lot_PriceAEB :: int
  lot_MaxCount :: int
  lot_CategoryWeight :: "(string \<times> int) list"
  lot_EquipmentRarityWeight :: "(int \<times> int) list"
  lot_RareMaterialItemIDs :: "string list"
  lot_BossTicketItemIDs :: "string list"
  lot_MountItemIDs :: "string list"

record BountySlotConfig =
  bsl_SlotIndex :: int
  bsl_UnlockType :: string
  bsl_GoldCost :: int
  bsl_AEBPrice :: int

record BountyRefreshConfig =
  brf_FreeCooldownSeconds :: int
  brf_GoldCost :: int
  brf_PremiumAEBPrice :: int

record BountyTaskTemplate =
  btt_TemplateID :: string
  btt_Type :: string
  btt_Difficulty :: string
  btt_ItemID :: string
  btt_QuantityMin :: int
  btt_QuantityMax :: int
  btt_MinRarity :: int
  btt_RewardItemID :: string
  btt_RewardQuantity :: int
  btt_Weight :: int

record BountyBadgeReward =
  bbr_Type :: string
  bbr_ItemID :: string
  bbr_Weight :: int
  bbr_Min :: int
  bbr_Max :: int

record BountyBadgeLottery =
  bbl_CostItemID :: string
  bbl_Rewards :: "BountyBadgeReward list"

record BountyConfig =
  bty_Slots :: "BountySlotConfig list"
  bty_Refresh :: BountyRefreshConfig
  bty_TaskTemplates :: "BountyTaskTemplate list"
  bty_BadgeLottery :: "(string \<times> BountyBadgeLottery) list"

record BountyTaskPlan =
  btp_TemplateID :: string
  btp_Type :: string
  btp_Difficulty :: string
  btp_ItemID :: string
  btp_MinRarity :: int
  btp_Required :: int
  btp_RewardItemID :: string
  btp_RewardQuantity :: int

record MarketplaceConfig =
  mkc_Enabled :: bool
  mkc_TokenSymbol :: string
  mkc_MinListPrice :: int
  mkc_FeeBps :: int
  mkc_FeeBurnBps :: int
  mkc_FeeTreasuryBps :: int
  mkc_FeeRewardsBps :: int
  mkc_ListingDepositBps :: int
  mkc_BaseListingSlots :: int
  mkc_MaterialExpandSlots :: int
  mkc_MaterialExpandMaxTimes :: int
  mkc_MaterialExpandItemID :: string
  mkc_MaterialExpandItemQuantity :: int
  mkc_WalletExpandSlots :: int
  mkc_WalletExpandMaxTimes :: int
  mkc_WalletExpandPriceToken :: int
  mkc_WalletExpandPaymentTimeoutSeconds :: int
  mkc_MaxListingsCreatedPerAccountPerDay :: int
  mkc_MaxCancelsPerAccountPerDay :: int
  mkc_MaxPurchasesPerAccountPerDay :: int
  mkc_PurchaseCooldownSeconds :: int
  mkc_DailyLimitTimezone :: string
  mkc_DefaultCooldownHours :: int

record DungeonFloor =
  dfl_ChapterID :: int
  dfl_FloorID :: int
  dfl_IsBoss :: bool
  dfl_EnterCost :: DungeonCost
  dfl_MaxExp :: int
  dfl_LootPoolID :: string
  dfl_EnemyHpScale :: float64
  dfl_EnemyAtkScale :: float64

record LootEntry =
  len_RewardType :: string
  len_ItemID :: string
  len_QuantityMin :: int
  len_QuantityMax :: int
  len_DropChance :: float64
  len_Rarity :: int
  len_AffixPoolID :: string
  len_EquipmentStageMode :: string
  len_EquipmentSeries :: "string list"

record LootPool =
  lpo_LootPoolID :: string
  lpo_Entries :: "LootEntry list"

record AffixRolls =
  aro_Min :: int
  aro_Max :: int

record AffixConfig =
  aco_AffixID :: string
  aco_Stat :: string
  aco_Min :: float64
  aco_Max :: float64
  aco_Weight :: int
  aco_ValueByStage :: "(int \<times> float64 list) list"

record AffixPool =
  apo_AffixPoolID :: string
  apo_Rolls :: AffixRolls
  apo_Affixes :: "AffixConfig list"

record ResolvedEquipmentAffix =
  rea_AffixID :: string
  rea_InstanceID :: string
  rea_EnhanceHits :: int
  rea_Stat :: string
  rea_Value :: float64

record ResolvedEquipment =
  req_ItemID :: string
  req_Rarity :: int
  req_IsMount :: bool
  req_WeaponType :: int
  req_WeaponTypeKey :: string
  req_BaseFlat :: "(string \<times> float64) list"
  req_BasePercent :: "(string \<times> float64) list"
  req_Affixes :: "ResolvedEquipmentAffix list"
  req_TotalFlat :: "(string \<times> float64) list"
  req_TotalPercent :: "(string \<times> float64) list"
  req_FinalBonuses :: "(string \<times> float64) list"

record GatheringNode =
  gnd_NodeID :: string
  gnd_NodeType :: string
  gnd_LootPoolID :: string
  gnd_StaminaCost :: int
  gnd_RespawnSeconds :: int

record Crop =
  crp_CropID :: string
  crp_SeedItemID :: string
  crp_GrowthSeconds :: int
  crp_HarvestLootPoolID :: string

record BossContributionTier =
  bct_MinContribution :: int
  bct_BonusLootPoolID :: string

record BossDefinition =
  bos_BossID :: string
  bos_DisplayName :: string
  bos_ParticipationLootPoolID :: string
  bos_LootPoolID :: string
  bos_ContributionTiers :: "BossContributionTier list"

record RecipeMaterial =
  rmt_ItemID :: string
  rmt_Quantity :: int

record Recipe =
  rcp_RecipeID :: string
  rcp_DisplayName :: string
  rcp_Inputs :: "RecipeMaterial list"
  rcp_Outputs :: "DungeonRewardGrant list"

record LevelExp =
  lx_Base :: int
  lx_Linear :: int
  lx_Quadratic :: int

record EconomyRules =
  ecr_Version :: string
  ecr_MaxLevel :: int
  ecr_LevelExp :: LevelExp
  ecr_DefaultTokenCooldownHours :: int
  ecr_EquipmentUIDPrefix :: string
  ecr_BagSlots :: int
  ecr_WarehouseSlots :: int
  ecr_BagExpandSlots :: int
  ecr_BagExpandMaxTimes :: int
  ecr_BagExpandPriceToken :: int
  ecr_BagExpandPaymentTimeoutSeconds :: int
  ecr_TradingLicensePriceToken :: int
  ecr_TradingLicensePaymentTimeoutSeconds :: int
  ecr_EquipmentDefaultMaxDurability :: int
  ecr_EquipmentRepairCostPerPointToken :: int
  ecr_EquipmentRepairMinCostToken :: int
  ecr_EquipmentRepairBurnBps :: int
  ecr_EquipmentRepairRecycleBps :: int
  ecr_EquipmentRepairRewardBps :: int
  ecr_EquipmentDungeonWearPoints :: int
  ecr_EquipmentBossWearPoints :: int
  ecr_NFTMintFeesTokenByRarity :: "(int \<times> int) list"
  ecr_NFTMintMinRarity :: int

record Config =
  cfg_Dir :: string
  cfg_Items :: "(string \<times> Item) list"
  cfg_Shops :: "(string \<times> Shop) list"
  cfg_Floors :: "(string \<times> DungeonFloor) list"
  cfg_LootPools :: "(string \<times> LootPool) list"
  cfg_AffixPools :: "(string \<times> AffixPool) list"
  cfg_GatherNodes :: "(string \<times> GatheringNode) list"
  cfg_Crops :: "(string \<times> Crop) list"
  cfg_Bosses :: "(string \<times> BossDefinition) list"
  cfg_Recipes :: "(string \<times> Recipe) list"
  cfg_Marketplace :: MarketplaceConfig
  cfg_Rules :: EconomyRules
  cfg_Equipment :: EquipmentConfig
  cfg_Lottery :: LotteryConfig
  cfg_Bounties :: BountyConfig

text \<open>The zero values.\<close>

definition zero_MarketplaceConfig :: MarketplaceConfig where
  "zero_MarketplaceConfig = \<lparr>mkc_Enabled = False, mkc_TokenSymbol = [], mkc_MinListPrice = 0, mkc_FeeBps = 0,
       mkc_FeeBurnBps = 0, mkc_FeeTreasuryBps = 0, mkc_FeeRewardsBps = 0, mkc_ListingDepositBps = 0,
       mkc_BaseListingSlots = 0, mkc_MaterialExpandSlots = 0, mkc_MaterialExpandMaxTimes = 0,
       mkc_MaterialExpandItemID = [], mkc_MaterialExpandItemQuantity = 0, mkc_WalletExpandSlots = 0,
       mkc_WalletExpandMaxTimes = 0, mkc_WalletExpandPriceToken = 0, mkc_WalletExpandPaymentTimeoutSeconds = 0,
       mkc_MaxListingsCreatedPerAccountPerDay = 0, mkc_MaxCancelsPerAccountPerDay = 0,
       mkc_MaxPurchasesPerAccountPerDay = 0, mkc_PurchaseCooldownSeconds = 0, mkc_DailyLimitTimezone = [],
       mkc_DefaultCooldownHours = 0\<rparr>"

definition empty_config :: Config where
  "empty_config = \<lparr>cfg_Dir = [], cfg_Items = [], cfg_Shops = [], cfg_Floors = [], cfg_LootPools = [],
     cfg_AffixPools = [], cfg_GatherNodes = [], cfg_Crops = [], cfg_Bosses = [], cfg_Recipes = [],
     cfg_Marketplace = zero_MarketplaceConfig,
     cfg_Rules = \<lparr>ecr_Version = [], ecr_MaxLevel = 0, ecr_LevelExp = \<lparr>lx_Base = 0, lx_Linear = 0, lx_Quadratic = 0\<rparr>,
       ecr_DefaultTokenCooldownHours = 0, ecr_EquipmentUIDPrefix = [], ecr_BagSlots = 0, ecr_WarehouseSlots = 0,
       ecr_BagExpandSlots = 0, ecr_BagExpandMaxTimes = 0, ecr_BagExpandPriceToken = 0,
       ecr_BagExpandPaymentTimeoutSeconds = 0, ecr_TradingLicensePriceToken = 0,
       ecr_TradingLicensePaymentTimeoutSeconds = 0, ecr_EquipmentDefaultMaxDurability = 0,
       ecr_EquipmentRepairCostPerPointToken = 0, ecr_EquipmentRepairMinCostToken = 0, ecr_EquipmentRepairBurnBps = 0,
       ecr_EquipmentRepairRecycleBps = 0, ecr_EquipmentRepairRewardBps = 0, ecr_EquipmentDungeonWearPoints = 0,
       ecr_EquipmentBossWearPoints = 0, ecr_NFTMintFeesTokenByRarity = [], ecr_NFTMintMinRarity = 0\<rparr>,
     cfg_Equipment = \<lparr>eqc_StageMultipliers = [], eqc_Rarities = [], eqc_SellPriceGoldByStage = [],
       eqc_NPCRecycleGoldByStage = [], eqc_Enhancement = \<lparr>ehc_MaxLevel = 0, ehc_GoldCostByStage = [],
         ehc_StoneItemByStage = [], ehc_StoneBaseCostByStageRarity = [], ehc_StoneProgressionByLevel = []\<rparr>,
       eqc_Series = [], eqc_Mounts = [], eqc_ByItemID = []\<rparr>,
     cfg_Lottery = \<lparr>lot_PriceAEB = 0, lot_MaxCount = 0, lot_CategoryWeight = [], lot_EquipmentRarityWeight = [],
       lot_RareMaterialItemIDs = [], lot_BossTicketItemIDs = [], lot_MountItemIDs = []\<rparr>,
     cfg_Bounties = \<lparr>bty_Slots = [], bty_Refresh = \<lparr>brf_FreeCooldownSeconds = 0, brf_GoldCost = 0,
       brf_PremiumAEBPrice = 0\<rparr>, bty_TaskTemplates = [], bty_BadgeLottery = []\<rparr>\<rparr>"

section \<open>Lookups and defaults\<close>

definition WeaponTypeNone :: int where "WeaponTypeNone = 0"

definition weaponTypeKeys :: "(string \<times> int) list" where
  "weaponTypeKeys = [(''none'', 0), (''sword'', 1), (''axe'', 2), (''bow'', 3), (''staff'', 4)]"

definition floorKey :: "int \<Rightarrow> int \<Rightarrow> string" where
  "floorKey chapterID floorID = FormatInt chapterID @ '':'' @ FormatInt floorID"

definition DungeonFloor_get :: "Config \<Rightarrow> int \<Rightarrow> int \<Rightarrow> DungeonFloor option" where
  "DungeonFloor_get c chapterID floorID = map_of (cfg_Floors c) (floorKey chapterID floorID)"

definition BagSlots :: "Config \<Rightarrow> int" where "BagSlots c = or_default (ecr_BagSlots (cfg_Rules c)) 25"

definition BagExpandSlots :: "Config \<Rightarrow> int" where
  "BagExpandSlots c = or_default (ecr_BagExpandSlots (cfg_Rules c)) 5"

definition EffectiveBagSlots :: "Config \<Rightarrow> int \<Rightarrow> int" where
  "EffectiveBagSlots c expandCount =
     w64 (BagSlots c + w64 ((if expandCount < 0 then 0 else expandCount) * BagExpandSlots c))"

definition LevelProgressionRules_of :: "Config \<Rightarrow> LevelProgressionRules" where
  "LevelProgressionRules_of c = \<lparr>lp_MaxLevel = ecr_MaxLevel (cfg_Rules c),
     lp_Base = lx_Base (ecr_LevelExp (cfg_Rules c)), lp_Linear = lx_Linear (ecr_LevelExp (cfg_Rules c)),
     lp_Quadratic = lx_Quadratic (ecr_LevelExp (cfg_Rules c))\<rparr>"

definition Config_ExpToNextLevel :: "Config \<Rightarrow> int \<Rightarrow> int \<Rightarrow> int" where
  "Config_ExpToNextLevel c level xp = ExpToNextLevel (LevelProgressionRules_of c) level xp"

definition Config_LevelProgress :: "Config \<Rightarrow> int \<Rightarrow> int \<Rightarrow> LevelProgress" where
  "Config_LevelProgress c level xp = Progress (LevelProgressionRules_of c) level xp"

definition BagExpandMaxTimes :: "Config \<Rightarrow> int" where
  "BagExpandMaxTimes c = or_default (ecr_BagExpandMaxTimes (cfg_Rules c)) 10"

definition BagExpandPriceToken :: "Config \<Rightarrow> int" where
  "BagExpandPriceToken c = or_default (ecr_BagExpandPriceToken (cfg_Rules c)) 50"

definition BagExpandPaymentTimeoutSec :: "Config \<Rightarrow> int" where
  "BagExpandPaymentTimeoutSec c = or_default (ecr_BagExpandPaymentTimeoutSeconds (cfg_Rules c)) 600"

definition TradingLicensePriceToken :: "Config \<Rightarrow> int" where
  "TradingLicensePriceToken c = or_default (ecr_TradingLicensePriceToken (cfg_Rules c)) 100"

definition TradingLicensePaymentTimeoutSec :: "Config \<Rightarrow> int" where
  "TradingLicensePaymentTimeoutSec c = or_default (ecr_TradingLicensePaymentTimeoutSeconds (cfg_Rules c)) 600"

definition GrowthPaymentRules_of :: "Config \<Rightarrow> string \<Rightarrow> GrowthPaymentRules" where
  "GrowthPaymentRules_of c depositWallet =
     \<lparr>gp_DepositReceiverWallet = TrimSpace depositWallet, gp_BagSlots = BagSlots c,
      gp_BagExpandSlots = BagExpandSlots c, gp_BagExpandMaxTimes = BagExpandMaxTimes c,
      gp_BagExpandPriceToken = BagExpandPriceToken c,
      gp_BagExpandPaymentTimeoutSec = BagExpandPaymentTimeoutSec c,
      gp_TradingLicensePriceToken = TradingLicensePriceToken c,
      gp_TradingLicensePaymentTimeoutSec = TradingLicensePaymentTimeoutSec c\<rparr>"

definition EquipmentRules_of :: "Config \<Rightarrow> EquipmentRules" where
  "EquipmentRules_of c = (let r = cfg_Rules c in EquipmentRules_WithDefaults
     \<lparr>er_DefaultMaxDurability = ecr_EquipmentDefaultMaxDurability r,
      er_RepairCostPerPointToken = ecr_EquipmentRepairCostPerPointToken r,
      er_RepairMinCostToken = ecr_EquipmentRepairMinCostToken r,
      er_RepairBurnBps = ecr_EquipmentRepairBurnBps r,
      er_RepairRecycleBps = ecr_EquipmentRepairRecycleBps r,
      er_RepairRewardBps = ecr_EquipmentRepairRewardBps r,
      er_DungeonWearPoints = ecr_EquipmentDungeonWearPoints r,
      er_BossWearPoints = ecr_EquipmentBossWearPoints r\<rparr>)"

definition NFTRules_of :: "Config \<Rightarrow> NFTRules" where
  "NFTRules_of c = NFTRules_WithDefaults
     \<lparr>nr_MintFeesByRarity = ecr_NFTMintFeesTokenByRarity (cfg_Rules c),
      nr_MinRarity = ecr_NFTMintMinRarity (cfg_Rules c)\<rparr>"

definition WarehouseSlots :: "Config \<Rightarrow> int" where
  "WarehouseSlots c = or_default (ecr_WarehouseSlots (cfg_Rules c)) 50"

definition MarketplaceRules_of :: "Config \<Rightarrow> MarketplaceRules" where
  "MarketplaceRules_of c = (let m = cfg_Marketplace c in
     \<lparr>mk_Enabled = mkc_Enabled m, mk_MinListPrice = mkc_MinListPrice m, mk_FeeBps = mkc_FeeBps m,
      mk_FeeBurnBps = mkc_FeeBurnBps m, mk_FeeTreasuryBps = mkc_FeeTreasuryBps m,
      mk_FeeRewardsBps = mkc_FeeRewardsBps m, mk_ListingDepositBps = mkc_ListingDepositBps m,
      mk_BaseListingSlots = mkc_BaseListingSlots m, mk_MaterialExpandSlots = mkc_MaterialExpandSlots m,
      mk_MaterialExpandMaxTimes = mkc_MaterialExpandMaxTimes m,
      mk_MaterialExpandItemID = mkc_MaterialExpandItemID m,
      mk_MaterialExpandItemQuantity = mkc_MaterialExpandItemQuantity m,
      mk_WalletExpandSlots = mkc_WalletExpandSlots m, mk_WalletExpandMaxTimes = mkc_WalletExpandMaxTimes m,
      mk_WalletExpandPriceToken = mkc_WalletExpandPriceToken m,
      mk_WalletExpandPaymentTimeoutSec = mkc_WalletExpandPaymentTimeoutSeconds m,
      mk_DepositReceiverWallet = [],
      mk_MaxListingsCreatedPerDay = mkc_MaxListingsCreatedPerAccountPerDay m,
      mk_MaxCancelsPerDay = mkc_MaxCancelsPerAccountPerDay m,
      mk_MaxPurchasesPerDay = mkc_MaxPurchasesPerAccountPerDay m,
      mk_PurchaseCooldownSeconds = mkc_PurchaseCooldownSeconds m,
      mk_DailyLimitTimezone = mkc_DailyLimitTimezone m,
      mk_DefaultCooldownHours = mkc_DefaultCooldownHours m\<rparr>)"

definition EquipmentTemplate_get :: "Config \<Rightarrow> string \<Rightarrow> EquipmentTemplate option" where
  "EquipmentTemplate_get c itemID = map_of (eqc_ByItemID (cfg_Equipment c)) (TrimSpace itemID)"

definition EquipmentRarity_get :: "Config \<Rightarrow> int \<Rightarrow> EquipmentRarity option" where
  "EquipmentRarity_get c rarity = map_of (eqc_Rarities (cfg_Equipment c)) rarity"

text \<open>The price and whether it is valid; a missing price reads as zero.\<close>

definition EquipmentSellPriceGold :: "Config \<Rightarrow> string \<Rightarrow> int \<Rightarrow> int \<times> bool" where
  "EquipmentSellPriceGold c itemID rarity =
     (case EquipmentTemplate_get c itemID of
        None \<Rightarrow> (0, False)
      | Some template \<Rightarrow>
          case map_of (etp_SellPriceGold template) rarity of None \<Rightarrow> (0, False) | Some gold \<Rightarrow> (gold, gold > 0))"

definition Shop_get :: "Config \<Rightarrow> string \<Rightarrow> Shop option" where
  "Shop_get c shopID = map_of (cfg_Shops c) (TrimSpace shopID)"

definition bare_sell_item :: "string \<Rightarrow> ShopSellItem" where
  "bare_sell_item itemID = \<lparr>ssi_SlotIndex = 0, ssi_ItemID = itemID, ssi_MinLevel = 0, ssi_MaxLevel = 0,
     ssi_Rarity = 0, ssi_BuyPrice = 0, ssi_DailyLimit = 0\<rparr>"

definition SellItem :: "Shop \<Rightarrow> string \<Rightarrow> ShopSellItem option" where
  "SellItem shop itemID0 =
     (let itemID = TrimSpace itemID0 in
      if itemID = [] then None
      else if shp_SellAllItems shop then Some (bare_sell_item itemID)
      else List.find (\<lambda>candidate. TrimSpace (ssi_ItemID candidate) = itemID) (shp_SellItems shop))"

definition SellsItem :: "Shop \<Rightarrow> string \<Rightarrow> bool" where
  "SellsItem shop itemID \<longleftrightarrow> SellItem shop itemID \<noteq> None"

definition bossTierPool :: "BossDefinition \<Rightarrow> int \<Rightarrow> string" where
  "bossTierPool boss contribution =
     foldl (\<lambda>poolID tier. if contribution \<ge> bct_MinContribution tier \<and> TrimSpace (bct_BonusLootPoolID tier) \<noteq> []
                          then bct_BonusLootPoolID tier else poolID) [] (bos_ContributionTiers boss)"

definition mergeRewardPlan :: "DungeonRewardPlan \<Rightarrow> DungeonRewardPlan \<Rightarrow> DungeonRewardPlan" where
  "mergeRewardPlan dst src = \<lparr>rp_IsBoss = rp_IsBoss dst \<or> rp_IsBoss src, rp_Items = rp_Items dst @ rp_Items src,
     rp_TokenReward = w64 (rp_TokenReward dst + rp_TokenReward src)\<rparr>"

definition itemRarity :: "(string \<times> Item) list \<Rightarrow> string \<Rightarrow> int \<Rightarrow> int" where
  "itemRarity items itemID fallback =
     (if fallback > 0 then fallback else case map_of items itemID of None \<Rightarrow> 0 | Some item \<Rightarrow> itm_Rarity item)"

definition itemCategory :: "(string \<times> Item) list \<Rightarrow> string \<Rightarrow> string" where
  "itemCategory items itemID =
     (let category = (case map_of items itemID of None \<Rightarrow> [] | Some item \<Rightarrow> itm_Category item)
      in if category = [] then ''misc'' else category)"

definition enterCostHasItem :: "DungeonCost \<Rightarrow> string \<Rightarrow> int \<Rightarrow> bool" where
  "enterCostHasItem cost itemID quantity \<longleftrightarrow>
     list_ex (\<lambda>item. it_ItemID item = itemID \<and> it_Quantity item \<ge> quantity) (dc_Items cost)"

definition normalizeWeaponType :: "int \<Rightarrow> string \<Rightarrow> (int \<times> string) option" where
  "normalizeWeaponType value key0 =
     (let key1 = TrimSpace key0; key = (if key1 = [] then ''none'' else key1)
      in case map_of weaponTypeKeys key of
           None \<Rightarrow> None
         | Some keyValue \<Rightarrow>
             if (if value = 0 then keyValue else value) \<noteq> keyValue then None else Some (keyValue, key))"

definition has_prefix :: "string \<Rightarrow> string \<Rightarrow> bool" where
  "has_prefix s p \<longleftrightarrow> take (length p) s = p"

definition mysteryEntryRequiresToken :: "Item \<Rightarrow> string \<Rightarrow> bool" where
  "mysteryEntryRequiresToken item itemID \<longleftrightarrow>
     itm_Rarity item \<ge> 3 \<or> TrimSpace (itm_Category item) \<in> {''boss_ticket'', ''aeb_voucher''} \<or>
     list_ex (has_prefix (TrimSpace itemID))
       [''enhancement_stone_t10'', ''enhancement_stone_t15'', ''enhancement_stone_t20'',
        ''enhancement_stone_t25'', ''enhancement_stone_t30'']"

definition validateWeights :: "('k \<times> int) list \<Rightarrow> unit result" where
  "validateWeights rows =
     (if list_ex (\<lambda>(_, weight). weight < 0) rows then Inl (ErrMsg ''weight must not be negative'')
      else if foldl (\<lambda>total (_, weight). w64 (total + weight)) 0 rows \<le> 0
      then Inl (ErrMsg ''at least one weight must be positive'') else Inr ())"

definition totalAffixWeight :: "AffixConfig list \<Rightarrow> int" where
  "totalAffixWeight rows = foldl (\<lambda>total row. w64 (total + aco_Weight row)) 0 rows"

definition affixValue :: "(string \<Rightarrow> string) \<Rightarrow> AffixConfig \<Rightarrow> int \<Rightarrow> int \<Rightarrow> float64 result" where
  "affixValue quote affix stage rarity =
     (let missing = Inl (ErrMsg (''affix '' @ quote (aco_AffixID affix) @ '' has no configured value for stage '' @
            FormatInt stage @ '' rarity '' @ FormatInt rarity))
      in case map_of (aco_ValueByStage affix) stage of
           None \<Rightarrow> missing
         | Some values \<Rightarrow>
             if rarity < 1 \<or> rarity > int (length values) then missing else Inr (values ! nat (rarity - 1)))"

text \<open>A configured price list read at a level: Go indexes it, and panics below index zero.\<close>

definition EnhancementRule ::
  "(string \<Rightarrow> string) \<Rightarrow> Config \<Rightarrow> string \<Rightarrow> int \<Rightarrow> int \<Rightarrow> (int \<times> string \<times> int) result" where
  "EnhancementRule quote c itemID rarity nextLevel =
     (case EquipmentTemplate_get c itemID of
        None \<Rightarrow> Inl (ErrMsg (''equipment template '' @ quote itemID @ '' is not configured''))
      | Some template \<Rightarrow>
          if EquipmentRarity_get c rarity = None
          then Inl (ErrMsg (''equipment rarity '' @ FormatInt rarity @ '' is not configured''))
          else
            let enhancement = eqc_Enhancement (cfg_Equipment c); stage = etp_Stage template
            in if nextLevel < 1 \<or> nextLevel > ehc_MaxLevel enhancement
               then Inl (ErrMsg (''enhancement level '' @ FormatInt nextLevel @ '' is not available''))
               else
                 let goldCosts = (case map_of (ehc_GoldCostByStage enhancement) stage of None \<Rightarrow> [] | Some xs \<Rightarrow> xs)
                 in if int (length goldCosts) < nextLevel \<or> goldCosts ! nat (nextLevel - 1) < 0
                    then Inl (ErrMsg (''missing gold enhancement cost for stage '' @ FormatInt stage @
                      '' level '' @ FormatInt nextLevel))
                    else
                      let gold = goldCosts ! nat (nextLevel - 1)
                      in if nextLevel \<le> 5 then Inr (gold, [], 0)
                         else
                           let stoneItemID = (case map_of (ehc_StoneItemByStage enhancement) stage of
                                 None \<Rightarrow> [] | Some x \<Rightarrow> x);
                               baseCosts = (case map_of (ehc_StoneBaseCostByStageRarity enhancement) stage of
                                 None \<Rightarrow> [] | Some xs \<Rightarrow> xs);
                               progression = ehc_StoneProgressionByLevel enhancement
                           in if stoneItemID = [] \<or> int (length baseCosts) < rarity \<or> int (length progression) < nextLevel
                              then Inl (ErrMsg (''missing enhancement stone cost for stage '' @ FormatInt stage @
                                '' rarity '' @ FormatInt rarity))
                              else if rarity < 1 then Inl Panic
                              else
                                let stoneQuantity = w64 (baseCosts ! nat (rarity - 1) + progression ! nat (nextLevel - 1))
                                in if stoneQuantity \<le> 0
                                   then Inl (ErrMsg (''invalid enhancement stone cost for stage '' @ FormatInt stage @
                                     '' rarity '' @ FormatInt rarity))
                                   else Inr (gold, stoneItemID, stoneQuantity))"

text \<open>
  The stages are collected in visiting order and sorted; the loop keeps the last stage the level
  has reached.
\<close>

fun reached_stage :: "int \<Rightarrow> int \<Rightarrow> int list \<Rightarrow> int" where
  "reached_stage characterLevel selected [] = selected"
| "reached_stage characterLevel selected (stage # rest) =
     (if characterLevel < stage then selected else reached_stage characterLevel stage rest)"

definition equipmentStageForCharacterLevel :: "Config \<Rightarrow> int \<Rightarrow> int" where
  "equipmentStageForCharacterLevel c characterLevel =
     (case sort (map fst (eqc_StageMultipliers (cfg_Equipment c))) of
        [] \<Rightarrow> 1
      | first # rest \<Rightarrow>
          if characterLevel \<le> 0 then first else reached_stage characterLevel first (first # rest))"

definition equipmentTemplatesByStageAndSeries :: "Config \<Rightarrow> int \<Rightarrow> string list \<Rightarrow> EquipmentTemplate list" where
  "equipmentTemplatesByStageAndSeries c stage seriesIDs =
     (let allowed = filter (\<lambda>x. x \<noteq> []) (map TrimSpace seriesIDs)
      in sort_key etp_ItemID (filter (\<lambda>template. etp_Stage template = stage \<and>
           (allowed = [] \<or> etp_SeriesID template \<in> set allowed))
           (map snd (eqc_ByItemID (cfg_Equipment c)))))"

end
