(* ===== verification/EconomyRepository.thy ===== *)
theory EconomyRepository
  imports Dungeon Treasury RulesConfig
begin

text \<open>
  The part of the interface \<open>store.Repository\<close> (\<open>src/internal/platform/store/repository.go\<close>) that the
  economy service calls: its request and result types, the operations as the fields of
  records, and the in-memory repository as one value of it.

  An operation takes the state of the repository and returns the new state and a result; reading
  the clock is an operation too. The operations the in-memory repository refuses return its error.
\<close>

section \<open>Chains of calls\<close>

text \<open>One call after another: an error ends the chain.\<close>

definition then_do :: "'s \<times> 'a result \<Rightarrow> ('s \<Rightarrow> 'a \<Rightarrow> 's \<times> 'b result) \<Rightarrow> 's \<times> 'b result" where
  "then_do p k = (case snd p of Inl e \<Rightarrow> (fst p, Inl e) | Inr x \<Rightarrow> k (fst p) x)"

lemma then_do_simps [simp]:
  "then_do (s, Inr x) k = k s x" "then_do (s, Inl e) k = (s, Inl e)"
  by (simp_all add: then_do_def)

lemma then_do_ok: "then_do p k = (t, Inr y) \<longleftrightarrow> (\<exists>s x. p = (s, Inr x) \<and> k s x = (t, Inr y))"
  by (cases p; cases "snd p") (auto simp: then_do_def)

section \<open>Requests and results\<close>

record PaymentOrder =
  po_ID :: string
  po_AccountID :: int
  po_CharacterID :: int
  po_Purpose :: string
  po_PayAsset :: string
  po_Amount :: int
  po_ReceiverWallet :: string
  po_Status :: string
  po_TxSignature :: string
  po_CreatedAt :: time
  po_ExpiresAt :: time
  po_SubmittedAt :: "time option"
  po_ConfirmedAt :: "time option"
  po_FulfilledAt :: "time option"

definition zero_PaymentOrder :: PaymentOrder where
  "zero_PaymentOrder = \<lparr>po_ID = [], po_AccountID = 0, po_CharacterID = 0, po_Purpose = [], po_PayAsset = [], po_Amount = 0,
     po_ReceiverWallet = [], po_Status = [], po_TxSignature = [], po_CreatedAt = 0, po_ExpiresAt = 0, po_SubmittedAt = None,
     po_ConfirmedAt = None, po_FulfilledAt = None\<rparr>"

record EconomyActionRequest =
  eac_OpID :: string
  eac_AccountID :: int
  eac_CharacterID :: int
  eac_SlotIndex :: int
  eac_Quantity :: int
  eac_EquipmentUID :: string
  eac_EquipSlot :: int

record LootActionRequest =
  lac_OpID :: string
  lac_AccountID :: int
  lac_CharacterID :: int
  lac_LootID :: int
  lac_SlotIndex :: int
  lac_Quantity :: int

record InventoryDiscardRequest =
  idr_OpID :: string
  idr_AccountID :: int
  idr_CharacterID :: int
  idr_SlotIndex :: int
  idr_Quantity :: int
  idr_EquipmentUID :: string

record MaterialCost =
  mco_ItemID :: string
  mco_Quantity :: int

record SynthesizeRequest =
  syr_OpID :: string
  syr_AccountID :: int
  syr_CharacterID :: int
  syr_RecipeID :: string
  syr_BatchCount :: int
  syr_Inputs :: "MaterialCost list"
  syr_RewardPlan :: DungeonRewardPlan

record ShopBuyResult =
  sbr_Order :: PaymentOrder
  sbr_Snapshot :: EconomySnapshot

record ShopSellRequest =
  ssr_OpID :: string
  ssr_AccountID :: int
  ssr_CharacterID :: int
  ssr_ShopID :: string
  ssr_SlotIndex :: int
  ssr_Quantity :: int
  ssr_EquipmentUID :: string
  ssr_GoldCredit :: int

record BossSettleResult =
  bsr_BossEventID :: int
  bsr_BossKey :: string
  bsr_Contribution :: int
  bsr_Rewards :: DungeonRewards
  bsr_Snapshot :: EconomySnapshot

record BossOpenEventRequest =
  boe_OpID :: string
  boe_BossKey :: string
  boe_StartsAt :: time
  boe_EndsAt :: time

record EquipmentRepairRequest =
  rpq_OpID :: string
  rpq_AccountID :: int
  rpq_CharacterID :: int
  rpq_EquipmentUID :: string
  rpq_Rules :: EquipmentRules

record EquipmentRepairResult =
  rpr_Equipment :: EquipmentItem
  rpr_CostToken :: int
  rpr_Repaired :: int
  rpr_Snapshot :: EconomySnapshot

record EquipmentEnhanceRequest =
  ehq_OpID :: string
  ehq_AccountID :: int
  ehq_CharacterID :: int
  ehq_EquipmentUID :: string
  ehq_MaxLevel :: int
  ehq_GoldCost :: int
  ehq_StoneItemID :: string
  ehq_StoneQuantity :: int

record EquipmentEnhanceResult =
  ehr_Equipment :: EquipmentItem
  ehr_GoldCost :: int
  ehr_StoneItemID :: string
  ehr_StoneQuantity :: int
  ehr_EnhancedAffix :: EquipmentAffix
  ehr_Snapshot :: EconomySnapshot

record EquipmentNPCRecycleRequest =
  nrq_OpID :: string
  nrq_AccountID :: int
  nrq_CharacterID :: int
  nrq_EquipmentUID :: string
  nrq_GoldCredit :: int

record EquipmentNPCRecycleResult =
  nrr_GoldCredit :: int
  nrr_ExpiresAt :: time
  nrr_Snapshot :: EconomySnapshot

record GrowthPaymentRequest =
  gpq_OpID :: string
  gpq_AccountID :: int
  gpq_CharacterID :: int
  gpq_Rules :: GrowthPaymentRules

record GrowthPaymentResult =
  gpr_Order :: PaymentOrder
  gpr_BagExpandCount :: int
  gpr_BagSlots :: int
  gpr_HasLicense :: bool

record LotteryPaymentRequest =
  lpq_OpID :: string
  lpq_AccountID :: int
  lpq_CharacterID :: int
  lpq_Amount :: int
  lpq_ReceiverWallet :: string
  lpq_Count :: int
  lpq_ConfigSnapshot :: "(string \<times> any_value) list"
  lpq_RewardPlan :: DungeonRewardPlan

record LotteryPaymentResult =
  lpr_Order :: PaymentOrder
  lpr_Rewards :: DungeonRewardPlan

text \<open>The bounty types of \<open>bounty.go\<close>; the task plan of the repository is not the one of the rules.\<close>

record BountyTask =
  bt_ID :: int
  bt_SlotIndex :: int
  bt_TemplateID :: string
  bt_Type :: string
  bt_Difficulty :: string
  bt_ItemID :: string
  bt_MinRarity :: int
  bt_RequiredQuantity :: int
  bt_ProgressQuantity :: int
  bt_Status :: string
  bt_RewardItemID :: string
  bt_RewardQuantity :: int

record StoredTaskPlan =
  stp_TemplateID :: string
  stp_Type :: string
  stp_Difficulty :: string
  stp_ItemID :: string
  stp_RewardItemID :: string
  stp_MinRarity :: int
  stp_RequiredQuantity :: int
  stp_RewardQuantity :: int

record BountySlot =
  bst_SlotIndex :: int
  bst_Unlocked :: bool
  bst_Task :: "BountyTask option"

record BountyBoard =
  bb_Slots :: "BountySlot list"
  bb_FreeRefreshAvailableAt :: time

record BountyBoardRequest =
  bbq_AccountID :: int
  bbq_CharacterID :: int
  bbq_Plans :: "(int \<times> StoredTaskPlan) list"

record BountyGoldUnlockRequest =
  bgu_OpID :: string
  bgu_AccountID :: int
  bgu_CharacterID :: int
  bgu_GoldCost :: int
  bgu_Plans :: "(int \<times> StoredTaskPlan) list"

record BountyPaymentRequest =
  bpq_OpID :: string
  bpq_AccountID :: int
  bpq_CharacterID :: int
  bpq_Purpose :: string
  bpq_SlotIndex :: int
  bpq_Amount :: int
  bpq_ReceiverWallet :: string
  bpq_RefreshPlans :: "(int \<times> StoredTaskPlan) list"

record BountyPaymentResult =
  bpr_Order :: PaymentOrder
  bpr_Board :: "BountyBoard option"

record BountyRefreshRequest =
  brq_OpID :: string
  brq_AccountID :: int
  brq_CharacterID :: int
  brq_Mode :: string
  brq_GoldCost :: int
  brq_CooldownSeconds :: int
  brq_Plans :: "(int \<times> StoredTaskPlan) list"

record BountyBadgeDrawRequest =
  bdq_OpID :: string
  bdq_AccountID :: int
  bdq_CharacterID :: int
  bdq_BadgeItemID :: string
  bdq_RewardType :: string
  bdq_RewardItemID :: string
  bdq_Amount :: int

record BountyBadgeDrawResult =
  bdr_RewardType :: string
  bdr_ItemID :: string
  bdr_Amount :: int
  bdr_UnlockAt :: "time option"

section \<open>The interface\<close>

record 's ItemOps =
  r_WarehouseDeposit :: "'s \<Rightarrow> EconomyActionRequest \<Rightarrow> 's \<times> EconomySnapshot result"
  r_WarehouseWithdraw :: "'s \<Rightarrow> EconomyActionRequest \<Rightarrow> 's \<times> EconomySnapshot result"
  r_EquipItem :: "'s \<Rightarrow> EconomyActionRequest \<Rightarrow> 's \<times> EconomySnapshot result"
  r_UnequipItem :: "'s \<Rightarrow> EconomyActionRequest \<Rightarrow> 's \<times> EconomySnapshot result"
  r_InventoryOrganize :: "'s \<Rightarrow> EconomyActionRequest \<Rightarrow> int \<Rightarrow> 's \<times> EconomySnapshot result"
  r_WarehouseOrganize :: "'s \<Rightarrow> EconomyActionRequest \<Rightarrow> int \<Rightarrow> 's \<times> EconomySnapshot result"
  r_InventoryDiscard :: "'s \<Rightarrow> InventoryDiscardRequest \<Rightarrow> 's \<times> EconomySnapshot result"
  r_Synthesize :: "'s \<Rightarrow> SynthesizeRequest \<Rightarrow> 's \<times> EconomySnapshot result"
  r_LootClaim :: "'s \<Rightarrow> LootActionRequest \<Rightarrow> 's \<times> EconomySnapshot result"
  r_LootClaimAll :: "'s \<Rightarrow> LootActionRequest \<Rightarrow> 's \<times> EconomySnapshot result"
  r_LootDiscard :: "'s \<Rightarrow> LootActionRequest \<Rightarrow> 's \<times> EconomySnapshot result"
  r_EquipmentRepair :: "'s \<Rightarrow> EquipmentRepairRequest \<Rightarrow> 's \<times> EquipmentRepairResult result"
  r_EquipmentEnhance :: "'s \<Rightarrow> EquipmentEnhanceRequest \<Rightarrow> 's \<times> EquipmentEnhanceResult result"
  r_EquipmentNPCRecycle :: "'s \<Rightarrow> EquipmentNPCRecycleRequest \<Rightarrow> 's \<times> EquipmentNPCRecycleResult result"

record 's ShopOps =
  r_ShopBuyGold :: "'s \<Rightarrow> ShopBuyRequest \<Rightarrow> 's \<times> ShopBuyResult result"
  r_CreateShopBuyPayment :: "'s \<Rightarrow> ShopBuyRequest \<Rightarrow> 's \<times> ShopBuyResult result"
  r_ShopDailyPurchaseQuantities :: "'s \<Rightarrow> int \<Rightarrow> int \<Rightarrow> string \<Rightarrow> string \<Rightarrow> 's \<times> (int \<rightharpoonup> int) result"
  r_ShopSell :: "'s \<Rightarrow> ShopSellRequest \<Rightarrow> 's \<times> EconomySnapshot result"
  r_MysteryShopBoard :: "'s \<Rightarrow> int \<Rightarrow> int \<Rightarrow> string \<Rightarrow> 's \<times> MysteryShopBoardState result"
  r_MysteryShopPaidRefreshCount :: "'s \<Rightarrow> int \<Rightarrow> int \<Rightarrow> string \<Rightarrow> time \<Rightarrow> time \<Rightarrow> 's \<times> int result"
  r_RefreshMysteryShop :: "'s \<Rightarrow> MysteryShopRefreshRequest \<Rightarrow> 's \<times> MysteryShopBoardState result"

record 's ActivityOps =
  r_DungeonEnter :: "'s \<Rightarrow> DungeonEnterRequest \<Rightarrow> 's \<times> DungeonResult result"
  r_DungeonFinish :: "'s \<Rightarrow> DungeonFinishRequest \<Rightarrow> 's \<times> DungeonResult result"
  r_GatheringSettle :: "'s \<Rightarrow> ActivitySettlementRequest \<Rightarrow> 's \<times> ActivitySettlementResult result"
  r_FarmingHarvest :: "'s \<Rightarrow> ActivitySettlementRequest \<Rightarrow> 's \<times> ActivitySettlementResult result"
  r_BossContribution :: "'s \<Rightarrow> int \<Rightarrow> int \<Rightarrow> 's \<times> (int \<times> string) result"
  r_BossSettle :: "'s \<Rightarrow> BossSettleRequest \<Rightarrow> 's \<times> BossSettleResult result"
  r_BossOpenEvent :: "'s \<Rightarrow> BossOpenEventRequest \<Rightarrow> 's \<times> BossEvent result"

record 's PaymentOps =
  r_CreateBagExpandPayment :: "'s \<Rightarrow> GrowthPaymentRequest \<Rightarrow> 's \<times> GrowthPaymentResult result"
  r_CreateTradingLicensePayment :: "'s \<Rightarrow> GrowthPaymentRequest \<Rightarrow> 's \<times> GrowthPaymentResult result"
  r_CreateLotteryPayment :: "'s \<Rightarrow> LotteryPaymentRequest \<Rightarrow> 's \<times> LotteryPaymentResult result"
  r_BountyBoard :: "'s \<Rightarrow> BountyBoardRequest \<Rightarrow> 's \<times> BountyBoard result"
  r_UnlockBountyGoldSlot :: "'s \<Rightarrow> BountyGoldUnlockRequest \<Rightarrow> 's \<times> BountyBoard result"
  r_CreateBountyPayment :: "'s \<Rightarrow> BountyPaymentRequest \<Rightarrow> 's \<times> BountyPaymentResult result"
  r_RefreshBounty :: "'s \<Rightarrow> BountyRefreshRequest \<Rightarrow> 's \<times> BountyBoard result"
  r_DrawBountyBadge :: "'s \<Rightarrow> BountyBadgeDrawRequest \<Rightarrow> 's \<times> BountyBadgeDrawResult result"

record 's TreasuryOps =
  r_GrantLocked :: "'s \<Rightarrow> int \<Rightarrow> int \<Rightarrow> string \<Rightarrow> string \<Rightarrow> time \<Rightarrow> 's \<times> LockedGame result"
  r_CreateWithdrawal :: "'s \<Rightarrow> int \<Rightarrow> int \<Rightarrow> string \<Rightarrow> bool \<Rightarrow> 's \<times> Withdrawal result"
  r_SettleUnlocks :: "'s \<Rightarrow> time \<Rightarrow> int \<Rightarrow> 's \<times> LockedGame list"
  r_ProcessAutoWithdrawalsWithChain :: "'s \<Rightarrow> time \<Rightarrow> limits \<Rightarrow> int \<Rightarrow> 's \<times> Withdrawal list"

record 's Repository =
  r_Now :: "'s \<Rightarrow> time \<times> 's"
  r_Account :: "'s \<Rightarrow> int \<Rightarrow> Account option"
  r_EconomySnapshot :: "'s \<Rightarrow> int \<Rightarrow> int \<Rightarrow> 's \<times> EconomySnapshot result"
  r_items :: "'s ItemOps"
  r_shop :: "'s ShopOps"
  r_activity :: "'s ActivityOps"
  r_payment :: "'s PaymentOps"
  r_treasury :: "'s TreasuryOps"

section \<open>The in-memory repository\<close>

definition ShopDailyPurchaseQuantities :: "store \<Rightarrow> int \<Rightarrow> int \<Rightarrow> string \<Rightarrow> string \<Rightarrow> (int \<rightharpoonup> int) op" where
  "ShopDailyPurchaseQuantities s accountID characterID shopID businessDate = (s, Inr Map.empty)"

definition MysteryShopPaidRefreshCount :: "store \<Rightarrow> int \<Rightarrow> int \<Rightarrow> string \<Rightarrow> time \<Rightarrow> time \<Rightarrow> int op" where
  "MysteryShopPaidRefreshCount s accountID characterID shopID dayStart dayEnd = (s, Inr 0)"

definition BossContribution :: "store \<Rightarrow> int \<Rightarrow> int \<Rightarrow> (int \<times> string) op" where
  "BossContribution s accountID bossEventID = (s, Inr (0, ''shadow_leviathan''))"

definition BossSettle :: "store \<Rightarrow> BossSettleRequest \<Rightarrow> BossSettleResult op" where
  "BossSettle s req =
     (case EconomySnapshot_op s (bs_AccountID req) (bs_CharacterID req) of
        (s1, Inl e) \<Rightarrow> (s1, Inl e)
      | (s1, Inr snapshot) \<Rightarrow>
          (s1, Inr \<lparr>bsr_BossEventID = bs_BossEventID req, bsr_BossKey = TrimSpace (bs_BossKey req), bsr_Contribution = 0,
             bsr_Rewards = zero_rewards (FormatInt (rp_TokenReward (bs_RewardPlan req))), bsr_Snapshot = snapshot\<rparr>))"

definition postgres_only :: "string \<Rightarrow> store \<Rightarrow> 'a \<Rightarrow> 'b op" where
  "postgres_only what s req = (s, Inl (ErrMsg (what @ '' postgres store'')))"

text \<open>
  \<open>uc\<close> and \<open>quote\<close> are the case mapping and quoting, \<open>visits\<close> the orders in which the maps of
  locked funds and withdrawals are visited.
\<close>

definition memory_repository ::
  "(string \<Rightarrow> string) \<Rightarrow> (string \<Rightarrow> string) \<Rightarrow> (store \<Rightarrow> int list) \<Rightarrow> (store \<Rightarrow> int list) \<Rightarrow> store Repository" where
  "memory_repository uc quote visits_locked visits_withdrawals = \<lparr>
     r_Now = (\<lambda>s. (time_Now s, tick s)),
     r_Account = Account_get,
     r_EconomySnapshot = EconomySnapshot_op,
     r_items = \<lparr>
       r_WarehouseDeposit = (\<lambda>s req. EconomySnapshot_op s (eac_AccountID req) (eac_CharacterID req)),
       r_WarehouseWithdraw = (\<lambda>s req. EconomySnapshot_op s (eac_AccountID req) (eac_CharacterID req)),
       r_EquipItem = (\<lambda>s req. EconomySnapshot_op s (eac_AccountID req) (eac_CharacterID req)),
       r_UnequipItem = (\<lambda>s req. EconomySnapshot_op s (eac_AccountID req) (eac_CharacterID req)),
       r_InventoryOrganize = (\<lambda>s req _. EconomySnapshot_op s (eac_AccountID req) (eac_CharacterID req)),
       r_WarehouseOrganize = (\<lambda>s req _. EconomySnapshot_op s (eac_AccountID req) (eac_CharacterID req)),
       r_InventoryDiscard = (\<lambda>s req. EconomySnapshot_op s (idr_AccountID req) (idr_CharacterID req)),
       r_Synthesize = (\<lambda>s req. EconomySnapshot_op s (syr_AccountID req) (syr_CharacterID req)),
       r_LootClaim = (\<lambda>s req. EconomySnapshot_op s (lac_AccountID req) (lac_CharacterID req)),
       r_LootClaimAll = (\<lambda>s req. EconomySnapshot_op s (lac_AccountID req) (lac_CharacterID req)),
       r_LootDiscard = (\<lambda>s req. EconomySnapshot_op s (lac_AccountID req) (lac_CharacterID req)),
       r_EquipmentRepair = postgres_only ''equipment repair requires'',
       r_EquipmentEnhance = postgres_only ''equipment enhancement requires'',
       r_EquipmentNPCRecycle = postgres_only ''equipment npc recycle requires''\<rparr>,
     r_shop = \<lparr>
       r_ShopBuyGold = (\<lambda>s req. apsnd (map_sum id (\<lambda>snapshot. \<lparr>sbr_Order = zero_PaymentOrder, sbr_Snapshot = snapshot\<rparr>))
         (ShopBuyGold s req)),
       r_CreateShopBuyPayment = postgres_only ''shop chain payment requires'',
       r_ShopDailyPurchaseQuantities = ShopDailyPurchaseQuantities,
       r_ShopSell = (\<lambda>s req. ShopSell s (ssr_AccountID req) (ssr_CharacterID req)),
       r_MysteryShopBoard = (\<lambda>s accountID characterID shopID. (s, MysteryShopBoard s accountID characterID shopID)),
       r_MysteryShopPaidRefreshCount = MysteryShopPaidRefreshCount,
       r_RefreshMysteryShop = RefreshMysteryShop\<rparr>,
     r_activity = \<lparr>
       r_DungeonEnter = DungeonEnter,
       r_DungeonFinish = DungeonFinish uc,
       r_GatheringSettle = activitySettlement quote,
       r_FarmingHarvest = activitySettlement quote,
       r_BossContribution = BossContribution,
       r_BossSettle = BossSettle,
       r_BossOpenEvent = (\<lambda>s req. BossOpenEvent s (boe_BossKey req) (boe_StartsAt req) (boe_EndsAt req))\<rparr>,
     r_payment = \<lparr>
       r_CreateBagExpandPayment = postgres_only ''bag expand requires'',
       r_CreateTradingLicensePayment = postgres_only ''trading license requires'',
       r_CreateLotteryPayment = postgres_only ''lottery payment requires'',
       r_BountyBoard = postgres_only ''bounty board requires'',
       r_UnlockBountyGoldSlot = postgres_only ''bounty board requires'',
       r_CreateBountyPayment = postgres_only ''bounty board requires'',
       r_RefreshBounty = postgres_only ''bounty board requires'',
       r_DrawBountyBadge = postgres_only ''bounty board requires''\<rparr>,
     r_treasury = \<lparr>
       r_GrantLocked = GrantLocked,
       r_CreateWithdrawal = CreateWithdrawal,
       r_SettleUnlocks = (\<lambda>s. SettleUnlocks s (visits_locked s)),
       r_ProcessAutoWithdrawalsWithChain = (\<lambda>s. ProcessAutoWithdrawals s (visits_withdrawals s))\<rparr>\<rparr>"

end
