(* ===== verification/WholeStore.thy ===== *)
theory WholeStore
  imports TreasuryProps Dungeon Sessions Presence AdminStore EconomyRepository
begin

text \<open>
  The in-memory repository as one machine. \<open>run_step\<close> has a rule for every operation of
  \<open>src/internal/platform/store/store.go\<close>, \<open>admin_users.go\<close> and \<open>service_identities.go\<close> that changes
  the store; the rules \<open>draw_id\<close>, \<open>read_clock\<close> and \<open>log_audit\<close> are what the announcement calls
  (\<open>announcements.go\<close>, with maps of their own) and the clock readings of callers do to the modelled
  fields. There is no rule for an unspecified operation.

  The theory proves the properties of the reachable stores: the balances and what was granted,
  the account of a wallet, the slots of characters, and that a dungeon run is finished at most
  once per entry.
\<close>

section \<open>The steps\<close>

text \<open>
  Operations that touch neither the account registry nor balances nor dungeon runs: login nonces,
  profiles, tickets and sessions, game servers and presence, boards and cooldowns,
  administrators, services and the audit trail.
\<close>

inductive side_op :: "store \<Rightarrow> store \<Rightarrow> bool" where
  save_nonce: "side_op s (SaveWalletNonce s nonce)"
| read_nonce: "side_op s (fst (WalletNonce s n w now))"
| consume_nonce: "side_op s (fst (ConsumeWalletNonce s n w now))"
| profile: "side_op s (fst (PlayerProfile s a c))"
| save_player: "side_op s (fst (SavePlayerState s save))"
| save_ticket: "side_op s (SaveTicket s ticket)"
| consume_ticket: "side_op s (fst (ConsumeTicket s tk srv now))"
| create_session: "side_op s (fst (CreateAccountSession sha s sess))"
| touch_session: "side_op s (fst (TouchAccountSession s sid now))"
| revoke_session: "side_op s (RevokeAccountSession s sid now)"
| admin_revoke: "side_op s (fst (AdminRevokeAccountSessions s ks a))"
| rotate: "side_op s (fst (RotateRefreshToken sha s old new sid a expires now))"
| server_upsert: "side_op s (fst (UpsertGameServer s server))"
| server_beat: "side_op s (fst (HeartbeatGameServer s sv players now))"
| presence_enter: "side_op s (fst (EnterOnlineSession s row))"
| presence_touch: "side_op s (fst (TouchOnlineSession s a conn now))"
| presence_leave: "side_op s (fst (LeaveOnlineSession s a conn))"
| presence_sweep: "side_op s (fst (SweepStaleOnlineSessions s now))"
| snapshot: "side_op s (fst (EconomySnapshot_op s a c))"
| settle_activity: "side_op s (fst (activitySettlement quote s act))"
| settle_boss: "side_op s (fst (BossSettle s boss))"
| open_boss: "side_op s (fst (BossOpenEvent s key from until))"
| refresh_board: "side_op s (fst (RefreshMysteryShop s board))"
| shop_buy: "side_op s (fst (ShopBuyGold s buy))"
| shop_sell: "side_op s (fst (ShopSell s a c))"
| admin_create: "side_op s (fst (CreateAdminUser uc s ks user))"
| admin_disable: "side_op s (fst (DisableAdminUser uc s admin by reason))"
| admin_save_nonce: "side_op s (SaveAdminLoginNonce s anonce)"
| admin_nonce: "side_op s (fst (AdminLoginNonce_get uc s n admin now))"
| admin_consume: "side_op s (fst (ConsumeAdminLoginNonce uc s n admin now))"
| admin_touch: "side_op s (fst (TouchAdminUserLogin uc s admin now))"
| service_create: "side_op s (fst (CreateServiceIdentity uc quote s ks service))"
| service_disable: "side_op s (fst (DisableServiceIdentity uc s sv by reason))"
| service_nonce: "side_op s (fst (ConsumeServiceNonce s sv n expires))"
| audit: "side_op s (fst (Audit s admin action target reason))"
| audit_target: "side_op s (fst (AuditTarget s admin action kind target reason))"
| save_operation: "side_op s (fst (SaveAdminOperation valid s operation))"
| draw_id: "side_op s (fst (store_next s))"
| read_clock: "side_op s (tick s)"
| log_audit: "side_op s (push_audit s admin action target reason created)"

text \<open>
  \<open>SetBanned\<close> is \<open>SetAccountBan\<close> without a reason and \<open>CreateCharacter\<close> is
  \<open>CreateCharacterWithAppearance\<close> without an appearance.
\<close>

inductive account_op :: "store \<Rightarrow> store \<Rightarrow> bool" where
  upsert: "account_op s (fst (UpsertAccountByWallet s w))"
| ban: "account_op s (fst (SetAccountBan s a banned reason))"
| create: "account_op s (fst (CreateCharacterWithAppearance s a name app))"
| delete: "account_op s (fst (DeleteCharacter s a c))"

inductive balance_op :: "store \<Rightarrow> store \<Rightarrow> bool" where
  token: "balance_op s (fst (Token s a))"
| grant: "balance_op s (fst (GrantLocked s a amount source ref u))"
| settle: "enumerates ks (locked s) \<Longrightarrow> balance_op s (fst (SettleUnlocks s ks now limit))"
| withdraw: "balance_op s (fst (CreateWithdrawal s a amount wallet manual))"
| auto_queue: "enumerates ks (withdrawals s) \<Longrightarrow> balance_op s (fst (ProcessAutoWithdrawals s ks now lms limit))"
| review: "balance_op s (fst (ReviewWithdrawal s k approve admin reason))"

text \<open>
  A step of the whole store and what it logs: the successful entries into dungeons and the
  successful finishes, with the character and the run.
\<close>

datatype run_event = Entered int string | Finished int string

inductive run_step :: "store \<Rightarrow> run_event list \<Rightarrow> store \<Rightarrow> bool" where
  aside: "side_op s t \<Longrightarrow> run_step s [] t"
| account: "account_op s t \<Longrightarrow> run_step s [] t"
| balance: "balance_op s t \<Longrightarrow> run_step s [] t"
| cancel: "run_step s [] (fst (CancelDungeonRun s a c run reason))"
| enter: "DungeonEnter s req = (t, Inr res) \<Longrightarrow> run_step s [Entered (en_CharacterID req) (du_DungeonRunID res)] t"
| enter_refused: "DungeonEnter s req = (t, Inl e) \<Longrightarrow> run_step s [] t"
| finish: "DungeonFinish uc s fin = (t, Inr res) \<Longrightarrow> run_step s [Finished (fi_CharacterID fin) (du_DungeonRunID res)] t"
| finish_refused: "DungeonFinish uc s fin = (t, Inl e) \<Longrightarrow> run_step s [] t"

text \<open>A step is one in which the 63-bit identifier counter does not overflow.\<close>

definition store_step :: "store \<Rightarrow> store \<Rightarrow> bool" where
  "store_step s t \<longleftrightarrow> (\<exists>evs. run_step s evs t) \<and> nextID s \<le> nextID t \<and> i64 (nextID t)"

section \<open>What a step leaves alone\<close>

definition same_registry :: "store \<Rightarrow> store \<Rightarrow> bool" where
  "same_registry s t \<longleftrightarrow> accounts t = accounts s \<and> byWallet t = byWallet s \<and> characters t = characters s"

definition same_treasury :: "store \<Rightarrow> store \<Rightarrow> bool" where
  "same_treasury s t \<longleftrightarrow> locked t = locked s \<and> withdrawals t = withdrawals s \<and> token_of t = token_of s"

definition same_runs :: "store \<Rightarrow> store \<Rightarrow> bool" where
  "same_runs s t \<longleftrightarrow> dungeonRecoveries t = dungeonRecoveries s"

definition same_all :: "store \<Rightarrow> store \<Rightarrow> bool" where
  "same_all s t \<longleftrightarrow> same_registry s t \<and> same_treasury s t \<and> same_runs s t"

lemmas same_defs = same_all_def same_registry_def same_treasury_def same_runs_def

lemma same_refl [simp]: "same_registry s s" "same_treasury s s" "same_runs s s" "same_all s s"
  by (simp_all add: same_defs)

lemma same_recounts: "same_all s t \<Longrightarrow> same_all s (foldl recountOnlineLocked t names)"
proof (induction names arbitrary: t)
  case (Cons n names)
  have "same_all s (recountOnlineLocked t n)"
    using Cons.prems by (simp add: recountOnlineLocked_def same_defs split: option.split)
  then show ?case using Cons.IH by simp
qed simp

lemma same_snapshot: "same_all s t \<Longrightarrow> same_all s (fst (EconomySnapshot_op t a c))"
  by (cases rule: EconomySnapshot_cases [of t a c]) (simp_all add: same_defs fun_eq_iff)

lemma same_nonces:
  "same_all s (SaveWalletNonce s row)" "same_all s (fst (WalletNonce s n w now))"
  "same_all s (fst (ConsumeWalletNonce s n w now))"
  by (simp_all add: same_defs SaveWalletNonce_def WalletNonce_def ConsumeWalletNonce_def set_nonce_status_def
      tick_def Let_def split: option.split)

lemma same_profiles:
  "same_all s (fst (PlayerProfile s a c))" "same_all s (fst (SavePlayerState s save))"
  by (simp_all add: same_defs PlayerProfile_def SavePlayerState_def tick_def Let_def split: option.split)

lemma same_sessions:
  "same_all s (SaveTicket s ticket)" "same_all s (fst (ConsumeTicket s tk srv now))"
  "same_all s (fst (CreateAccountSession sha s sess))" "same_all s (fst (TouchAccountSession s sid now))"
  "same_all s (RevokeAccountSession s sid now)" "same_all s (fst (AdminRevokeAccountSessions s ks a))"
  "same_all s (fst (RotateRefreshToken sha s old new sid a expires now))"
  by (simp_all add: same_defs SaveTicket_def ConsumeTicket_def CreateAccountSession_def TouchAccountSession_def
      RevokeAccountSession_def AdminRevokeAccountSessions_def RotateRefreshToken_def tick_def Let_def
      split: option.split)

lemma same_recount: "same_all s t \<Longrightarrow> same_all s (recountOnlineLocked t n)"
  using same_recounts [of s t "[n]"] by simp

lemma same_presence:
  "same_all s (fst (UpsertGameServer s server))" "same_all s (fst (HeartbeatGameServer s sv players now))"
  "same_all s (fst (TouchOnlineSession s a conn now))"
  by (simp_all add: same_defs UpsertGameServer_def HeartbeatGameServer_def TouchOnlineSession_def tick_def Let_def
      split: option.split)

lemma same_presence_counts:
  "same_all s (fst (EnterOnlineSession s row))" "same_all s (fst (LeaveOnlineSession s a conn))"
  "same_all s (fst (SweepStaleOnlineSessions s now))"
proof -
  show "same_all s (fst (EnterOnlineSession s row))"
    by (simp add: EnterOnlineSession_def Let_def split: option.split)
      (intro allI impI same_recount, simp add: same_defs tick_def)
  show "same_all s (fst (LeaveOnlineSession s a conn))"
    by (simp add: LeaveOnlineSession_def split: option.split) (intro allI impI same_recount, simp add: same_defs)
  show "same_all s (fst (SweepStaleOnlineSessions s now))"
    by (simp add: SweepStaleOnlineSessions_def Let_def) (rule same_recounts, simp add: same_defs)
qed

lemma same_activities:
  "same_all s (fst (activitySettlement quote s act))" "same_all s (fst (BossSettle s boss))"
  "same_all s (fst (BossOpenEvent s key from until))" "same_all s (fst (RefreshMysteryShop s board))"
  "same_all s (fst (ShopBuyGold s buy))" "same_all s (fst (ShopSell s a c))"
proof -
  show "same_all s (fst (activitySettlement quote s act))"
    by (cases rule: EconomySnapshot_cases [of s "as_AccountID act" "as_CharacterID act"])
      (simp_all add: activitySettlement_def same_defs fun_eq_iff tick_def Let_def)
  show "same_all s (fst (BossSettle s boss))"
    by (cases rule: EconomySnapshot_cases [of s "bs_AccountID boss" "bs_CharacterID boss"])
      (simp_all add: BossSettle_def same_defs fun_eq_iff)
  show "same_all s (fst (BossOpenEvent s key from until))"
    by (simp add: BossOpenEvent_def same_defs store_simps Let_def)
  show "same_all s (fst (RefreshMysteryShop s board))"
    by (simp add: RefreshMysteryShop_def same_defs Let_def split: option.split)
  show "same_all s (fst (ShopBuyGold s buy))"
    by (simp add: ShopBuyGold_def Let_def)
      (intro conjI impI same_snapshot, simp_all add: same_defs split: option.split)
  show "same_all s (fst (ShopSell s a c))" by (simp add: ShopSell_def same_snapshot)
qed

lemma same_admins:
  "same_all s (fst (CreateAdminUser uc s ks user))" "same_all s (fst (DisableAdminUser uc s admin by reason))"
  "same_all s (SaveAdminLoginNonce s anonce)" "same_all s (fst (AdminLoginNonce_get uc s n admin now))"
  "same_all s (fst (ConsumeAdminLoginNonce uc s n admin now))" "same_all s (fst (TouchAdminUserLogin uc s admin now))"
  by (simp_all add: same_defs CreateAdminUser_def DisableAdminUser_def SaveAdminLoginNonce_def AdminLoginNonce_get_def
      ConsumeAdminLoginNonce_def TouchAdminUserLogin_def push_audit_def set_admin_nonce_def tick_def Let_def
      split: option.split sum.split)

lemma same_services:
  "same_all s (fst (CreateServiceIdentity uc quote s ks service))"
  "same_all s (fst (DisableServiceIdentity uc s sv by reason))" "same_all s (fst (ConsumeServiceNonce s sv n expires))"
  by (simp_all add: same_defs CreateServiceIdentity_def DisableServiceIdentity_def ConsumeServiceNonce_def
      push_audit_def tick_def Let_def split: option.split sum.split)

lemma same_audits:
  "same_all s (fst (Audit s admin action target reason))"
  "same_all s (fst (AuditTarget s admin action kind target reason))"
  "same_all s (fst (SaveAdminOperation valid s operation))" "same_all s (fst (store_next s))" "same_all s (tick s)"
  "same_all s (push_audit s admin action target reason created)"
  by (simp_all add: same_defs Audit_def AuditTarget_def SaveAdminOperation_def push_audit_def store_simps Let_def
      split: option.split)

lemma side_op_same: "side_op s t \<Longrightarrow> same_all s t"
  by (induction rule: side_op.induct)
    (rule same_nonces same_profiles same_sessions same_presence same_presence_counts same_snapshot [OF same_refl(4)]
      same_activities same_admins same_services same_audits)+

lemma account_op_same: "account_op s t \<Longrightarrow> same_treasury s t \<and> same_runs s t"
proof (induction rule: account_op.induct)
  case (upsert s w)
  show ?case
    by (cases rule: UpsertAccountByWallet_cases [of s w])
      (simp_all add: same_defs UpsertAccountByWallet_def store_simps fun_eq_iff Let_def)
next
  case (create s a name app)
  show ?case
    by (simp add: CreateCharacterWithAppearance_def same_defs store_simps Let_def split: option.split)
qed (simp_all add: same_defs SetAccountBan_def DeleteCharacter_def split: option.split)

lemma same_settle_row: "same_registry s t \<and> same_runs s t \<Longrightarrow> same_registry s (settle_row t k row) \<and> same_runs s (settle_row t k row)"
  by (simp add: same_defs settle_row_eq store_simps Let_def)

lemma same_queue_rows:
  "same_registry s t \<and> same_runs s t \<Longrightarrow> same_registry s (set_row t k row) \<and> same_runs s (set_row t k row)"
  "same_registry s t \<and> same_runs s t \<Longrightarrow>
    same_registry s (fst (submit_row t now k row)) \<and> same_runs s (fst (submit_row t now k row))"
  by (simp_all add: same_defs set_row_def submit_row_def store_simps Let_def)

lemma balance_op_same: "balance_op s t \<Longrightarrow> same_registry s t \<and> same_runs s t"
proof (induction rule: balance_op.induct)
  case (settle ks s now limit)
  show ?case
    by (rule SettleUnlocks_keeps [where P = "\<lambda>t. same_registry s t \<and> same_runs s t"])
      (use settle in \<open>simp_all add: enumerates_def same_settle_row\<close>)
next
  case (auto_queue ks s now lms limit)
  show ?case
    by (rule ProcessAutoWithdrawals_keeps [where P = "\<lambda>t. same_registry s t \<and> same_runs s t"])
      (use auto_queue in \<open>simp_all add: enumerates_def same_queue_rows\<close>)
qed (simp_all add: same_defs Token_def GrantLocked_def CreateWithdrawal_def ReviewWithdrawal_def set_row_def
    store_simps Let_def split: option.split)

lemma cancel_same: "same_registry s (fst (CancelDungeonRun s a c run reason)) \<and> same_treasury s (fst (CancelDungeonRun s a c run reason))"
  by (simp add: same_defs CancelDungeonRun_def Let_def split: option.split)

lemma enter_same: "same_registry s (fst (DungeonEnter s req)) \<and> same_treasury s (fst (DungeonEnter s req))"
  by (cases rule: EconomySnapshot_cases [of s "en_AccountID req" "en_CharacterID req"])
    (simp_all add: DungeonEnter_def same_defs fun_eq_iff tick_def Let_def)

lemma finish_same:
  "same_treasury s (fst (DungeonFinish uc s req)) \<and> accounts (fst (DungeonFinish uc s req)) = accounts s \<and>
   byWallet (fst (DungeonFinish uc s req)) = byWallet s"
proof (cases "dungeonRecoveries s (fi_CharacterID req)")
  case (Some rec)
  show ?thesis
  proof (cases "characters s (fi_CharacterID req)")
    case (Some ch)
    with \<open>dungeonRecoveries s (fi_CharacterID req) = Some rec\<close> show ?thesis
      by (simp add: DungeonFinish_def EconomySnapshot_op_def same_defs store_simps fun_eq_iff Let_def case_prod_beta)
  qed (simp add: DungeonFinish_def same_defs Some Let_def)
qed (simp add: DungeonFinish_def same_defs Let_def)

text \<open>Every step is a step of the accounting.\<close>

lemma treasury_op_same: "same_treasury s t \<Longrightarrow> treasury_op (\<lambda>_ _ _. True) s t"
  by (simp add: same_treasury_def treasury_op.op_other)

lemma balance_op_treasury: "balance_op s t \<Longrightarrow> treasury_op (\<lambda>_ _ _. True) s t"
  by (induction rule: balance_op.induct) (blast intro: treasury_op.intros)+

lemma run_step_treasury: "run_step s evs t \<Longrightarrow> treasury_op (\<lambda>_ _ _. True) s t"
proof (induction rule: run_step.induct)
  case (aside s t)
  then show ?case using side_op_same by (auto simp: same_all_def intro: treasury_op_same)
next
  case (account s t)
  then show ?case using account_op_same by (blast intro: treasury_op_same)
next
  case (balance s t)
  then show ?case by (rule balance_op_treasury)
next
  case (cancel s a c run reason)
  show ?case using cancel_same by (blast intro: treasury_op_same)
next
  case (enter s req t res)
  then show ?case using enter_same [of s req] by (auto intro: treasury_op_same)
next
  case (enter_refused s req t e)
  then show ?case using enter_same [of s req] by (auto intro: treasury_op_same)
next
  case (finish uc s fin t res)
  then show ?case using finish_same [of s uc fin] by (auto intro: treasury_op_same)
next
  case (finish_refused uc s fin t e)
  then show ?case using finish_same [of s uc fin] by (auto intro: treasury_op_same)
qed

lemma store_step_treasury: "store_step s t \<Longrightarrow> treasury_step (\<lambda>_ _ _. True) s t"
  by (auto simp: store_step_def treasury_step_def intro: run_step_treasury)

text \<open>A finished dungeon run keeps the identity, the account, the slot and the deleted flag of its character.\<close>

lemma finished_character_keeps [simp]:
  "ch_ID (finished_character uc req ch) = ch_ID ch" "ch_AccountID (finished_character uc req ch) = ch_AccountID ch"
  "ch_Deleted (finished_character uc req ch) = ch_Deleted ch"
  "ch_SlotIndex (finished_character uc req ch) = ch_SlotIndex ch"
  by (simp_all add: finished_character_def clear_progress_def gain_exp_def Let_def)

lemma characters_ok_touch:
  assumes "characters_ok s" and "characters s k = Some row" and "ch_ID row' = ch_ID row"
    and "ch_AccountID row' = ch_AccountID row" and "ch_Deleted row' = ch_Deleted row"
    and "ch_SlotIndex row' = ch_SlotIndex row"
    and "characters t = (characters s)(k \<mapsto> row')" and "accounts t = accounts s"
  shows "characters_ok t"
proof -
  have old: "\<exists>r. characters s j = Some r \<and> ch_ID r' = ch_ID r \<and> ch_AccountID r' = ch_AccountID r \<and>
      ch_Deleted r' = ch_Deleted r \<and> ch_SlotIndex r' = ch_SlotIndex r" if "characters t j = Some r'" for j r'
    using that assms(2-7) by (auto split: if_splits)
  have each: "ch_ID r = j \<and> ch_AccountID r \<in> dom (accounts s) \<and> (\<not> ch_Deleted r \<longrightarrow> ch_SlotIndex r \<in> {0, 1, 2})"
    if row: "characters t j = Some r" for j r
  proof -
    obtain q where q: "characters s j = Some q" "ch_ID r = ch_ID q" "ch_AccountID r = ch_AccountID q"
      "ch_Deleted r = ch_Deleted q" "ch_SlotIndex r = ch_SlotIndex q" using old [OF row] by blast
    with assms(1) show ?thesis unfolding characters_ok_def by simp
  qed
  show ?thesis
    unfolding characters_ok_def assms(8)
  proof (intro conjI allI impI)
    fix j i r r'
    assume r: "characters t j = Some r" "characters t i = Some r'" "\<not> ch_Deleted r" "owns (ch_AccountID r) r'"
      "ch_SlotIndex r = ch_SlotIndex r'"
    obtain q q' where "characters s j = Some q" "characters s i = Some q'" "\<not> ch_Deleted q" "owns (ch_AccountID q) q'"
      "ch_SlotIndex q = ch_SlotIndex q'"
      using old [OF r(1)] old [OF r(2)] r(3-5) by (auto simp: owns_def)
    then show "j = i" using assms(1) unfolding characters_ok_def by blast
  qed (use each in blast)+
qed

lemma registry_finish:
  assumes "registry_ok s" and "nextID s \<le> nextID (fst (DungeonFinish uc s req))" and "i64 (nextID (fst (DungeonFinish uc s req)))"
  shows "registry_ok (fst (DungeonFinish uc s req))" (is "registry_ok ?t")
proof (cases rule: DungeonFinish_cases [of uc s req])
  case (refused e)
  then show ?thesis using assms(1) by simp
next
  case (finished rec ch r)
  note same = finish_same [of s uc req]
  have c: "characters_ok ?t"
    by (rule characters_ok_touch [OF _ finished(3) _ _ _ _ finished(9)])
      (use assms(1) same in \<open>simp_all add: registry_ok_def\<close>)
  have "dom (characters ?t) = dom (characters s)" using finished(3) by (auto simp: finished(9))
  with c show ?thesis
    using assms same by (auto simp: registry_ok_def numbered_def wallets_ok_def intro: order_trans)
qed

lemma registry_account: "account_op s t \<Longrightarrow> registry_op s t"
  by (induction rule: account_op.induct) (blast intro: registry_op.intros)+

lemma registry_same: "same_registry s t \<Longrightarrow> registry_op s t"
  by (simp add: same_registry_def registry_op.other)

lemma run_step_registry:
  assumes "run_step s evs t"
  shows "registry_op s t \<or> (\<exists>uc req. t = fst (DungeonFinish uc s req))"
  using assms
proof (induction rule: run_step.induct)
  case (aside s t)
  then show ?case using side_op_same by (auto simp: same_all_def intro: registry_same)
next
  case (account s t)
  then show ?case by (simp add: registry_account)
next
  case (balance s t)
  then show ?case using balance_op_same by (blast intro: registry_same)
next
  case (cancel s a c run reason)
  show ?case using cancel_same by (blast intro: registry_same)
next
  case (enter s req t res)
  then show ?case using enter_same [of s req] by (auto intro: registry_same)
next
  case (enter_refused s req t e)
  then show ?case using enter_same [of s req] by (auto intro: registry_same)
next
  case (finish uc s fin t res)
  then have "t = fst (DungeonFinish uc s fin)" by simp
  then show ?case by blast
next
  case (finish_refused uc s fin t e)
  then have "t = fst (DungeonFinish uc s fin)" by simp
  then show ?case by blast
qed

lemma store_step_registry:
  assumes "store_step s t" and "registry_ok s"
  shows "registry_ok t"
proof -
  obtain evs where run: "run_step s evs t" and n: "nextID s \<le> nextID t" "i64 (nextID t)"
    using assms(1) by (auto simp: store_step_def)
  from run_step_registry [OF run] show ?thesis
  proof
    assume "registry_op s t"
    with n have "registry_step s t" by (simp add: registry_step_def)
    then show ?thesis by (rule registry_step_ok [OF _ assms(2)])
  next
    assume "\<exists>uc req. t = fst (DungeonFinish uc s req)"
    then obtain uc req where t: "t = fst (DungeonFinish uc s req)" by blast
    show ?thesis unfolding t by (rule registry_finish [OF assms(2) n [unfolded t]])
  qed
qed

interpretation whole: machine fresh_store store_step registry_ok
proof
  show "registry_ok s" if "fresh_store s" for s using registry.inv_init [OF that] .
  show "registry_ok t" if "registry_ok s" "store_step s t" for s t using store_step_registry [OF that(2,1)] .
qed

section \<open>Balances and grants\<close>

text \<open>What an account was granted so far: locked rows are settled, never removed.\<close>

definition granted_part :: "int \<Rightarrow> LockedGame \<Rightarrow> int" where
  "granted_part a row = (if lk_AccountID row = a then lk_Amount row else 0)"

abbreviation granted_to :: "store \<Rightarrow> int \<Rightarrow> int" where
  "granted_to s a \<equiv> msum (granted_part a) (locked s)"

definition amounts_positive :: "store \<Rightarrow> bool" where
  "amounts_positive s \<longleftrightarrow> (\<forall>row \<in> ran (locked s). 0 < lk_Amount row)"

text \<open>The accounting of grants: what a step leaves, or a grant adds.\<close>

definition grants_kept :: "store \<Rightarrow> store \<Rightarrow> bool" where
  "grants_kept s t \<longleftrightarrow> (amounts_positive s \<longrightarrow> amounts_positive t) \<and> (finite (dom (locked s)) \<longrightarrow> finite (dom (locked t))) \<and>
     (finite (dom (locked s)) \<longrightarrow> (\<forall>a. granted_to t a = granted_to s a)) \<and>
     (\<forall>a. tok_TokenBalance (token_of t a) = tok_TokenBalance (token_of s a))"

lemma grants_kept_refl [simp]: "grants_kept s s"
  by (simp add: grants_kept_def)

lemma grants_kept_trans: "grants_kept s t \<Longrightarrow> grants_kept t u \<Longrightarrow> grants_kept s u"
  by (simp add: grants_kept_def)

lemma grants_kept_same:
  "locked t = locked s \<Longrightarrow> (\<And>a. tok_TokenBalance (token_of t a) = tok_TokenBalance (token_of s a)) \<Longrightarrow> grants_kept s t"
  by (simp add: grants_kept_def amounts_positive_def)

lemma grants_kept_settle_row:
  assumes "locked t k = Some row"
  shows "grants_kept t (settle_row t k row)"
proof -
  have "amounts_positive (settle_row t k row)" if "amounts_positive t"
    using that assms by (auto simp: amounts_positive_def ran_def)
  then show ?thesis
    using assms by (auto simp: grants_kept_def granted_part_def msum_same)
qed

lemma treasury_op_grants:
  assumes "treasury_op G s t"
  shows "grants_kept s t \<or> (\<exists>a amount source ref u. 0 < amount \<and> G s a amount \<and> t = fst (GrantLocked s a amount source ref u))"
  using assms
proof (cases rule: treasury_op.cases)
  case (op_token a)
  then show ?thesis by (simp add: Token_def store_simps grants_kept_same)
next
  case (op_grant a amount source ref u)
  show ?thesis
  proof (cases "0 < amount")
    case True
    with op_grant show ?thesis by blast
  qed (simp add: op_grant GrantLocked_bad)
next
  case (op_settle ks now limit)
  have "grants_kept s (fst (SettleUnlocks s ks now limit))"
    by (rule SettleUnlocks_keeps)
      (use op_settle in \<open>auto simp: enumerates_def intro: grants_kept_trans grants_kept_settle_row\<close>)
  with op_settle show ?thesis by simp
next
  case (op_withdraw a amount wallet manual)
  have "grants_kept s (fst (CreateWithdrawal s a amount wallet manual))"
    by (cases rule: CreateWithdrawal_cases [of s a amount wallet manual]) (simp_all add: grants_kept_same)
  with op_withdraw show ?thesis by simp
next
  case (op_auto ks now lms limit)
  then show ?thesis using auto_doms [OF op_auto(2), of now lms limit] by (simp add: grants_kept_same)
next
  case (op_review k approve admin reason)
  have "grants_kept s (fst (ReviewWithdrawal s k approve admin reason))"
    by (cases rule: ReviewWithdrawal_cases [of s k approve admin reason]) (simp_all add: grants_kept_same)
  with op_review show ?thesis by simp
next
  case op_other
  then show ?thesis by (simp add: grants_kept_same)
qed

definition grants_ok :: "store \<Rightarrow> bool" where
  "grants_ok s \<longleftrightarrow> balanced s \<and> amounts_positive s \<and>
     (\<forall>a. tok_TokenBalance (token_of s a) = w64 (granted_to s a))"

lemma grants_okD:
  assumes "grants_ok s"
  shows "balanced s" and "wf_ids s" and "amounts_positive s" and "finite (dom (locked s))"
    and "tok_TokenBalance (token_of s a) = w64 (granted_to s a)"
    and "tok_LockedBalance (token_of s a) = w64 (msum (locked_part a) (locked s))"
    and "tok_TokenBalance (token_of s a) = w64 (tok_LockedBalance (token_of s a)
      + tok_WithdrawableBalance (token_of s a) + msum (withdrawn_part a) (withdrawals s))"
  using assms unfolding grants_ok_def balanced_def wf_ids_def by blast+

lemma grant_step:
  assumes "wf_ids s" and "0 < amount" and "nextID s \<le> nextID t" and "t = fst (GrantLocked s a amount source ref u)"
  shows "amounts_positive s \<Longrightarrow> amounts_positive t"
    and "granted_to t b = granted_to s b + (if b = a then amount else 0)"
    and "tok_TokenBalance (token_of t b) =
      (if b = a then w64 (tok_TokenBalance (token_of s b) + amount) else tok_TokenBalance (token_of s b))"
proof -
  note f = GrantLocked_fields [OF assms(2), of s a source ref u]
  note fresh = wf_ids_fresh [OF assms(1), of 2, simplified]
  have n: "nextID s \<le> w64 (nextID s + 2)" using assms(3,4) f(2) by simp
  obtain row where l: "locked t = (locked s)(nextID s + 1 \<mapsto> row)"
    and row: "lk_AccountID row = a" "lk_Amount row = amount"
    using f(3) fresh(1) [OF n] assms(4) by auto
  have none: "locked s (nextID s + 1) = None" using fresh(3) [OF n] .
  show "amounts_positive t" if "amounts_positive s"
    using that row assms(2) by (auto simp: amounts_positive_def l ran_def)
  show "granted_to t b = granted_to s b + (if b = a then amount else 0)"
    using assms(1) none row by (auto simp: l msum_new wf_ids_def granted_part_def)
  show "tok_TokenBalance (token_of t b) =
      (if b = a then w64 (tok_TokenBalance (token_of s b) + amount) else tok_TokenBalance (token_of s b))"
    using f(4) assms(4) by simp
qed

lemma treasury_step_grants:
  assumes "treasury_step (\<lambda>_ _ _. True) s t" and "grants_ok s"
  shows "grants_ok t" and "granted_to s b \<le> granted_to t b"
proof -
  have op: "treasury_op (\<lambda>_ _ _. True) s t" and n: "nextID s \<le> nextID t"
    using assms(1) by (simp_all add: treasury_step_def)
  note s = grants_okD(2,3,5,4) [OF assms(2)]
  have "balanced t" using assms by (auto simp: grants_ok_def intro: treasury_step_balanced)
  moreover have "amounts_positive t \<and> (\<forall>a. tok_TokenBalance (token_of t a) = w64 (granted_to t a) \<and> granted_to s a \<le> granted_to t a)"
    using treasury_op_grants [OF op]
  proof
    assume "grants_kept s t"
    with s show ?thesis by (simp add: grants_kept_def)
  next
    assume "\<exists>a amount source ref u. 0 < amount \<and> True \<and> t = fst (GrantLocked s a amount source ref u)"
    then obtain a amount source ref u where g: "0 < amount" "t = fst (GrantLocked s a amount source ref u)" by blast
    note grant = grant_step [OF s(1) g(1) n g(2)]
    have "tok_TokenBalance (token_of t b) = w64 (granted_to t b) \<and> granted_to s b \<le> granted_to t b" for b
      unfolding grant(2,3) using s(3) g(1) by simp
    with grant(1) [OF s(2)] show ?thesis by blast
  qed
  ultimately show "grants_ok t" and "granted_to s b \<le> granted_to t b" by (simp_all add: grants_ok_def)
qed

text \<open>As long as every account's grants fit, the balances are exact.\<close>

definition grants_fit :: "store \<Rightarrow> bool" where
  "grants_fit s \<longleftrightarrow> (\<forall>a. granted_to s a < 2 ^ 63)"

lemma granted_nonneg: "amounts_positive s \<Longrightarrow> 0 \<le> granted_to s a"
  by (rule msum_nonneg) (auto simp: granted_part_def amounts_positive_def ran_def less_imp_le)

lemma fitting_step:
  assumes "treasury_step (\<lambda>_ _ _. True) s t" and "grants_ok s" and "solvent s" and "grants_fit s" and "grants_fit t"
  shows "treasury_step fits s t"
proof -
  have op: "treasury_op (\<lambda>_ _ _. True) s t" and n: "nextID s \<le> nextID t" "i64 (nextID t)"
    using assms(1) by (simp_all add: treasury_step_def)
  have wf: "wf_ids s" using assms(3) by (simp add: solvent_def)
  have tok: "tok_TokenBalance (token_of s a) = granted_to s a" for a
    using assms(2,4) granted_nonneg [of s a] by (simp add: grants_ok_def grants_fit_def w64_nonneg)
  have "treasury_op fits s t"
    using op
  proof (cases rule: treasury_op.cases)
    case (op_grant a amount source ref u)
    have "fits s a amount"
    proof (cases "0 < amount")
      case True
      have "granted_to t a < 2 ^ 63" using assms(5) by (simp add: grants_fit_def)
      then show ?thesis using grant_step(2) [OF wf True n(1) op_grant(1), of a] by (simp add: fits_def tok)
    next
      case False
      have "granted_to s a < 2 ^ 63" using assms(4) by (simp add: grants_fit_def)
      with False show ?thesis by (simp add: fits_def tok)
    qed
    then show ?thesis unfolding op_grant(1) by (rule treasury_op.op_grant)
  qed (blast intro: treasury_op.intros)+
  with n show ?thesis by (simp add: treasury_step_def)
qed

definition accounts_exact :: "store \<Rightarrow> bool" where
  "accounts_exact s \<longleftrightarrow> grants_ok s \<and> (grants_fit s \<longrightarrow> solvent s)"

interpretation books: machine fresh_store store_step accounts_exact
proof
  show "accounts_exact s" if "fresh_store s" for s
  proof -
    have i: "initial s" using that by (simp add: fresh_store_def initial_def)
    then obtain clk where "s = New clk" by (auto simp: initial_def)
    then show ?thesis
      using wrapping.inv_init [OF i] bounded.inv_init [OF i]
      by (simp add: accounts_exact_def grants_ok_def amounts_positive_def w64_def)
  qed
  show "accounts_exact t" if ok: "accounts_exact s" and step: "store_step s t" for s t
  proof -
    note step' = store_step_treasury [OF step]
    have g: "grants_ok s" using ok by (simp add: accounts_exact_def)
    have "solvent t" if "grants_fit t"
    proof -
      have "grants_fit s"
        using that treasury_step_grants(2) [OF step' g] unfolding grants_fit_def by (meson le_less_trans)
      with ok have "solvent s" by (simp add: accounts_exact_def)
      then show ?thesis
        using fitting_step [OF step' g _ \<open>grants_fit s\<close> that] by (blast intro: treasury_step_solvent)
    qed
    with treasury_step_grants(1) [OF step' g] show ?thesis by (simp add: accounts_exact_def)
  qed
qed

text \<open>
  Property C1. In every store the repository can reach, whatever is called (the identifier counter
  not overflowing), each account's total is
  what it was granted, its locked balance is the sum of its locked rows, and its total is locked plus
  withdrawable plus the withdrawals not rejected, all in 64-bit arithmetic (a total that passes
  \<open>2 ^ 63\<close> wraps around and loses no row). In a store where no account was granted
  \<open>2 ^ 63\<close> or more these equations hold of the integers, and no balance is negative.
\<close>

theorem balances_backed:
  assumes "fresh_store s" and "store_step\<^sup>*\<^sup>* s t"
  shows "tok_TokenBalance (token_of t a) = w64 (granted_to t a) \<and>
    tok_LockedBalance (token_of t a) = w64 (msum (locked_part a) (locked t)) \<and>
    tok_TokenBalance (token_of t a) = w64 (tok_LockedBalance (token_of t a)
      + tok_WithdrawableBalance (token_of t a) + msum (withdrawn_part a) (withdrawals t)) \<and>
    ((\<forall>b. granted_to t b < 2 ^ 63) \<longrightarrow>
       tok_TokenBalance (token_of t a) = granted_to t a \<and>
       tok_LockedBalance (token_of t a) = msum (locked_part a) (locked t) \<and>
       tok_TokenBalance (token_of t a) = tok_LockedBalance (token_of t a)
         + tok_WithdrawableBalance (token_of t a) + msum (withdrawn_part a) (withdrawals t) \<and>
       0 \<le> tok_LockedBalance (token_of t a) \<and> 0 \<le> tok_WithdrawableBalance (token_of t a) \<and>
       0 \<le> msum (withdrawn_part a) (withdrawals t))"
proof -
  have ok: "accounts_exact t" by (rule books.reachable_inv [OF assms])
  then have g: "grants_ok t" by (simp add: accounts_exact_def)
  note wrap = grants_okD(5-7) [OF g, of a]
  have exact: "covered t \<and> w64 (granted_to t a) = granted_to t a" if "\<forall>b. granted_to t b < 2 ^ 63"
    using that ok g granted_nonneg [of t a]
    by (simp add: accounts_exact_def grants_fit_def grants_ok_def solvent_covered w64_nonneg)
  show ?thesis
    using wrap exact covered_at [of t a] covered_bounds [of t a] covered_sums [of t a] by metis
qed

text \<open>The sample stores are reachable.\<close>

lemma account_step:
  "account_op s t \<Longrightarrow> nextID s \<le> nextID t \<Longrightarrow> i64 (nextID t) \<Longrightarrow> store_step s t"
  by (auto simp: store_step_def intro: run_step.account)

lemma balance_step:
  "balance_op s t \<Longrightarrow> nextID s \<le> nextID t \<Longrightarrow> i64 (nextID t) \<Longrightarrow> store_step s t"
  by (auto simp: store_step_def intro: run_step.balance)

lemma fresh_New: "fresh_store (New c)"
  by (auto simp: fresh_store_def)

lemma one_account_reachable: "store_step\<^sup>*\<^sup>* (New (\<lambda>_. 1)) one_account"
  by (rule r_into_rtranclp, rule account_step [OF account_op.upsert])
    (simp_all add: one_account_fields(1) i64_def)

lemma one_hero_reachable: "store_step\<^sup>*\<^sup>* (New (\<lambda>_. 1)) one_hero"
  by (rule rtranclp.rtrancl_into_rtrancl [OF one_account_reachable], rule account_step [OF account_op.create])
    (simp_all add: one_account_fields(1) one_hero_fields(1) i64_def)

lemma granted_reachable: "store_step\<^sup>*\<^sup>* (New (\<lambda>_. 1)) granted"
  by (rule r_into_rtranclp, rule balance_step [OF balance_op.grant])
    (simp_all add: GrantLocked_fields w64_def i64_def)

lemma granted_row: "\<exists>row. locked granted = [1001 \<mapsto> row] \<and> lk_AccountID row = 7 \<and> lk_Amount row = 50"
  using GrantLocked_fields(3) [of 50 "New (\<lambda>_. 1)" 7 "''boss''" "''r''" 9] by (auto simp: w64_def)

theorem balances_backed_witness:
  "tok_TokenBalance (token_of granted 7) = 50 \<and> granted_to granted 7 = 50 \<and>
   0 \<le> tok_WithdrawableBalance (token_of granted 7)"
proof -
  obtain row where row: "locked granted = [1001 \<mapsto> row]" "lk_AccountID row = 7" "lk_Amount row = 50"
    using granted_row by blast
  have g: "granted_to granted b = (if b = 7 then 50 else 0)" for b
    using row by (simp add: msum_upd granted_part_def)
  have fit: "\<forall>b. granted_to granted b < 2 ^ 63" by (simp add: g)
  show ?thesis
    using balances_backed [OF fresh_New granted_reachable, of 7] fit g [of 7] by simp
qed

section \<open>Accounts and characters\<close>

text \<open>
  Property C10. In every store the repository can reach (the identifier counter not overflowing),
  logging in with a wallet returns the account of that wallet: the login never panics, a known wallet gets the account that has it, with
  its ban flag, and no other account of the store has the wallet.
\<close>

theorem login_returns_the_account_of_the_wallet:
  assumes "fresh_store s" and "store_step\<^sup>*\<^sup>* s t"
  shows "\<exists>row. snd (UpsertAccountByWallet t w) = Inr row \<and> ac_WalletAddress row = w \<and>
    accounts (fst (UpsertAccountByWallet t w)) (ac_ID row) = Some row \<and>
    (\<forall>k r. accounts t k = Some r \<longrightarrow> ac_WalletAddress r = w \<longrightarrow>
       k = ac_ID row \<and> ac_IsBanned row = ac_IsBanned r)"
  by (rule registry_login [OF whole.reachable_inv [OF assms]])

theorem login_returns_the_account_of_the_wallet_witness:
  "\<exists>row. snd (UpsertAccountByWallet one_account ''w'') = Inr row \<and> ac_ID row = 1001"
proof -
  obtain r where r: "accounts one_account 1001 = Some r" "ac_WalletAddress r = ''w''"
    using one_account_fields(4) by auto
  from login_returns_the_account_of_the_wallet [OF fresh_New one_account_reachable, of "''w''"]
  obtain row where "snd (UpsertAccountByWallet one_account ''w'') = Inr row"
    "\<forall>k r. accounts one_account k = Some r \<longrightarrow> ac_WalletAddress r = ''w'' \<longrightarrow>
      k = ac_ID row \<and> ac_IsBanned row = ac_IsBanned r"
    by blast
  with r show ?thesis by metis
qed

text \<open>
  Property C11. In every store the repository can reach (the identifier counter not overflowing) an
  account has at most three live characters, in three different slots; creating a character succeeds exactly when the account
  exists and has fewer than three, takes a slot that was free, and leaves every other character
  alone.
\<close>

theorem character_slots:
  assumes "fresh_store s" and "store_step\<^sup>*\<^sup>* s t"
  shows "card (live_characters t a) \<le> 3 \<and> inj_on (slot_of t) (live_characters t a) \<and>
    slot_of t ` live_characters t a \<subseteq> {0, 1, 2} \<and>
    (is_ok (snd (CreateCharacterWithAppearance t a name app)) \<longleftrightarrow>
       a \<in> dom (accounts t) \<and> card (live_characters t a) < 3) \<and>
    (\<forall>row. snd (CreateCharacterWithAppearance t a name app) = Inr row \<longrightarrow>
       ch_SlotIndex row \<notin> slot_of t ` live_characters t a \<and>
       characters (fst (CreateCharacterWithAppearance t a name app)) = (characters t)(ch_ID row \<mapsto> row))"
  by (rule registry_slots [OF whole.reachable_inv [OF assms]])

text \<open>The witness finishes a dungeon run, which rewrites the row of the character.\<close>

abbreviation after_dungeon :: store where
  "after_dungeon \<equiv> fst (DungeonFinish (\<lambda>x. x) in_dungeon sample_finish)"

lemma DungeonEnter_nextID [simp]: "nextID (fst (DungeonEnter s req)) = nextID s"
  by (cases rule: EconomySnapshot_cases [of s "en_AccountID req" "en_CharacterID req"])
    (simp_all add: DungeonEnter_def tick_def Let_def)

lemma DungeonFinish_nextID [simp]: "nextID (fst (DungeonFinish uc s req)) = nextID s"
proof (cases "dungeonRecoveries s (fi_CharacterID req)")
  case (Some rec)
  then show ?thesis
    by (cases "characters s (fi_CharacterID req)")
      (simp_all add: DungeonFinish_def EconomySnapshot_op_def store_simps Let_def case_prod_beta)
qed (simp add: DungeonFinish_def Let_def)

lemma run_step_enter: "\<exists>evs. run_step s evs (fst (DungeonEnter s req))"
  by (cases "DungeonEnter s req"; cases "snd (DungeonEnter s req)") (auto intro: enter enter_refused)

lemma run_step_finish: "\<exists>evs. run_step s evs (fst (DungeonFinish uc s req))"
  by (cases "DungeonFinish uc s req"; cases "snd (DungeonFinish uc s req)") (auto intro: finish finish_refused)

lemma after_dungeon_fields:
  "nextID after_dungeon = 1002" "accounts after_dungeon = accounts one_hero"
  "\<exists>row. characters after_dungeon = [1002 \<mapsto> row] \<and> owns 1001 row \<and> ch_Exp row = 300"
  "is_ok (snd (DungeonFinish (\<lambda>x. x) in_dungeon sample_finish))"
proof -
  obtain rec where rec: "dungeonRecoveries in_dungeon 1002 = Some rec" "dr_Required rec" "dr_AccountID rec = 1001"
    "dr_DungeonRunID rec = ''memory-op''" "dr_ServerID rec = ''s1''" using in_dungeon_fields(1) by blast
  obtain ch where ch: "characters in_dungeon = [1002 \<mapsto> ch]" "owns 1001 ch" "ch_Exp ch = 0"
    using one_hero_fields(2) in_dungeon_fields(2) by auto
  have trims: "TrimSpace ''memory-op'' = ''memory-op''" "TrimSpace ''s1'' = ''s1''"
    by (simp_all add: TrimSpace_def space1_def space2_def space3_def)
  show ok: "is_ok (snd (DungeonFinish (\<lambda>x. x) in_dungeon sample_finish))"
    by (rule DungeonFinish_succeeds) (use rec ch in \<open>simp_all add: sample_finish_def trims\<close>)
  show "accounts after_dungeon = accounts one_hero"
    using finish_same [of in_dungeon "\<lambda>x. x" sample_finish] enter_same [of one_hero sample_enter]
    by (simp add: same_registry_def)
  show "nextID after_dungeon = 1002" by (simp add: one_hero_fields(1))
  show "\<exists>row. characters after_dungeon = [1002 \<mapsto> row] \<and> owns 1001 row \<and> ch_Exp row = 300"
  proof (cases rule: DungeonFinish_cases [of "\<lambda>x. x" in_dungeon sample_finish])
    case (refused e)
    with ok show ?thesis by simp
  next
    case (finished rec' ch' r)
    have f: "fi_CharacterID sample_finish = 1002" "fi_Exp sample_finish = 300" by (simp_all add: sample_finish_def)
    have "ch' = ch" using finished(3) ch(1) by (simp add: f)
    moreover have "ch_Exp (finished_character (\<lambda>x. x) sample_finish ch) = 300"
      using ch(3) by (simp add: finished_character_def clear_progress_le f w64_def)
    ultimately show ?thesis
      using finished(9) ch(1,2) by (intro exI [of _ "finished_character (\<lambda>x. x) sample_finish ch"]) (simp add: f)
  qed
qed

lemma after_dungeon_reachable: "store_step\<^sup>*\<^sup>* (New (\<lambda>_. 1)) after_dungeon"
proof -
  have "store_step one_hero in_dungeon"
    using run_step_enter by (simp add: store_step_def one_hero_fields(1) i64_def)
  moreover have "store_step in_dungeon after_dungeon"
    using run_step_finish by (simp add: store_step_def one_hero_fields(1) after_dungeon_fields(1) i64_def)
  ultimately show ?thesis
    using one_hero_reachable by (meson rtranclp.rtrancl_into_rtrancl)
qed

theorem character_slots_witness:
  "card (live_characters after_dungeon 1001) = 1 \<and>
   is_ok (snd (CreateCharacterWithAppearance after_dungeon 1001 ''two'' None))"
proof -
  have "live_characters after_dungeon 1001 = {1002}"
    using after_dungeon_fields(3) by (auto simp: live_characters_def split: if_splits)
  then show ?thesis
    using character_slots [OF fresh_New after_dungeon_reachable, of 1001 "''two''" None]
      one_hero_fields(3) after_dungeon_fields(2) by simp
qed

section \<open>Dungeon runs\<close>

text \<open>Sequences of steps of the whole store, with what they log.\<close>

inductive run_trace :: "store \<Rightarrow> run_event list \<Rightarrow> store \<Rightarrow> bool" where
  done_here: "run_trace s [] s"
| then_step: "run_trace s evs t \<Longrightarrow> run_step t evs' u \<Longrightarrow> run_trace s (evs @ evs') u"

definition active_run :: "store \<Rightarrow> int \<Rightarrow> string \<Rightarrow> bool" where
  "active_run s c run \<longleftrightarrow>
     (case dungeonRecoveries s c of None \<Rightarrow> False | Some row \<Rightarrow> dr_Required row \<and> dr_DungeonRunID row = run)"

lemma active_run_required: "active_run s c run \<Longrightarrow> run_required s c"
  by (simp add: active_run_def run_required_def split: option.splits)

lemma active_run_same: "same_runs s t \<Longrightarrow> active_run t c run = active_run s c run"
  by (simp add: same_runs_def active_run_def)

lemma DungeonEnter_runs:
  assumes "DungeonEnter s req = (t, Inr res)"
  shows "\<not> run_required s (en_CharacterID req)"
    and "active_run t c run \<longleftrightarrow> (if c = en_CharacterID req then run = du_DungeonRunID res else active_run s c run)"
  by (cases rule: EconomySnapshot_cases [of s "en_AccountID req" "en_CharacterID req"];
      use assms in \<open>auto simp: DungeonEnter_def run_required_def active_run_def tick_def Let_def split: if_splits\<close>)+

lemma DungeonEnter_refused_runs: "DungeonEnter s req = (t, Inl e) \<Longrightarrow> same_runs s t"
  by (cases rule: EconomySnapshot_cases [of s "en_AccountID req" "en_CharacterID req"])
    (auto simp: DungeonEnter_def same_runs_def Let_def split: if_splits)

lemma DungeonFinish_runs:
  assumes "DungeonFinish uc s req = (t, Inr res)"
  shows "active_run s (fi_CharacterID req) (du_DungeonRunID res)"
    and "active_run t c run \<longleftrightarrow> c \<noteq> fi_CharacterID req \<and> active_run s c run"
proof -
  have id: "du_DungeonRunID res = TrimSpace (fi_DungeonRunID req)"
    using assms by (auto simp: DungeonFinish_def Let_def case_prod_beta split: option.splits if_splits prod.splits sum.splits)
  show "active_run s (fi_CharacterID req) (du_DungeonRunID res)"
    "active_run t c run \<longleftrightarrow> c \<noteq> fi_CharacterID req \<and> active_run s c run"
    by (cases rule: DungeonFinish_cases [of uc s req]; use assms id in \<open>simp add: active_run_def\<close>)+
qed

lemma DungeonFinish_refused_same: "DungeonFinish uc s req = (t, Inl e) \<Longrightarrow> t = s"
  by (cases rule: DungeonFinish_cases [of uc s req]) simp_all

lemma CancelDungeonRun_runs: "active_run (fst (CancelDungeonRun s a k run' reason)) c run \<Longrightarrow> active_run s c run"
  by (auto simp: CancelDungeonRun_def active_run_def Let_def split: option.splits if_splits)

text \<open>One step: a finish uses up the active run it names, an entry makes one where none was.\<close>

lemma run_step_counts:
  assumes "run_step s evs t"
  shows "count_list evs (Finished c run) + of_bool (active_run t c run)
    \<le> count_list evs (Entered c run) + (of_bool (active_run s c run) :: nat)"
  using assms
proof (cases rule: run_step.cases)
  case aside
  then have "same_runs s t" using side_op_same by (simp add: same_all_def)
  with aside show ?thesis by (simp add: active_run_same)
next
  case account
  then have "same_runs s t" using account_op_same by blast
  with account show ?thesis by (simp add: active_run_same)
next
  case balance
  then have "same_runs s t" using balance_op_same by blast
  with balance show ?thesis by (simp add: active_run_same)
next
  case (cancel a k run' reason)
  then show ?thesis using CancelDungeonRun_runs [of s a k run' reason c run] by (simp add: of_bool_def)
next
  case (enter req res)
  have "\<not> active_run s (en_CharacterID req) run" using DungeonEnter_runs(1) [OF enter(2)] active_run_required by blast
  then show ?thesis by (simp add: enter(1) DungeonEnter_runs(2) [OF enter(2)] of_bool_def)
next
  case (enter_refused req e)
  then have "same_runs s t" using DungeonEnter_refused_runs by blast
  with enter_refused show ?thesis by (simp add: active_run_same)
next
  case (finish uc fin res)
  note run = DungeonFinish_runs [OF finish(2)]
  show ?thesis using run(1) by (auto simp: finish(1) run(2) of_bool_def)
next
  case (finish_refused uc fin e)
  then have "t = s" using DungeonFinish_refused_same by blast
  with finish_refused show ?thesis by simp
qed

text \<open>
  Property C21. A dungeon run pays out at most once per entry: in any sequence of calls to the
  repository, whatever the other calls are, a character finishes a run successfully at most as
  often as it entered that run, and a run that is still open at the end is not counted twice (a
  run that was open at the start counts as entered). A finish therefore never succeeds for a run
  that was finished, failed or cancelled before. A run is named after the operation id of its
  entry, so entering again with the same operation id opens the same name once more, and that
  entry is counted again.
\<close>

theorem finishes_per_entry:
  assumes "run_trace s evs t"
  shows "count_list evs (Finished c run) + of_bool (active_run t c run)
    \<le> count_list evs (Entered c run) + (of_bool (active_run s c run) :: nat)"
  using assms
proof (induction rule: run_trace.induct)
  case (then_step s evs t evs' u)
  with run_step_counts [OF then_step.hyps(2), of c run] show ?case by simp
qed simp

text \<open>The sample run is entered and finished once; a second finish of it logs nothing.\<close>

theorem finishes_per_entry_witness:
  "run_trace one_hero [Entered 1002 ''memory-op'', Finished 1002 ''memory-op'']
     (fst (DungeonFinish (\<lambda>x. x) after_dungeon sample_finish)) \<and>
   \<not> active_run (fst (DungeonFinish (\<lambda>x. x) after_dungeon sample_finish)) 1002 ''memory-op''"
proof -
  obtain rec where rec: "dungeonRecoveries in_dungeon 1002 = Some rec" "dr_Required rec" "dr_DungeonRunID rec = ''memory-op''"
    using in_dungeon_fields(1) by blast
  have start: "\<not> active_run one_hero 1002 ''memory-op''"
    by (auto simp: active_run_def CreateCharacterWithAppearance_def UpsertAccountByWallet_def store_simps Let_def
        split: option.splits)
  have "is_ok (snd (DungeonEnter one_hero sample_enter))"
  proof (rule ccontr)
    assume "\<not> ?thesis"
    then obtain t e where "DungeonEnter one_hero sample_enter = (t, Inl e)"
      by (cases "DungeonEnter one_hero sample_enter"; cases "snd (DungeonEnter one_hero sample_enter)") auto
    from DungeonEnter_refused_runs [OF this] \<open>DungeonEnter one_hero sample_enter = (t, Inl e)\<close>
    show False using rec start by (simp add: same_runs_def active_run_def)
  qed
  then obtain res where enter: "DungeonEnter one_hero sample_enter = (in_dungeon, Inr res)" by (metis is_okE prod.collapse)
  obtain fin where finish: "DungeonFinish (\<lambda>x. x) in_dungeon sample_finish = (after_dungeon, Inr fin)"
    using after_dungeon_fields(4) by (metis is_okE prod.collapse)
  let ?after = "fst (DungeonFinish (\<lambda>x. x) after_dungeon sample_finish)"
  have f: "en_CharacterID sample_enter = 1002" "fi_CharacterID sample_finish = 1002"
    by (simp_all add: sample_enter_def sample_finish_def)
  have active: "active_run in_dungeon 1002 ''memory-op''" using rec by (simp add: active_run_def)
  have ids: "du_DungeonRunID res = ''memory-op''"
    using DungeonEnter_runs(2) [OF enter, of 1002 "''memory-op''"] active by (simp add: f)
  have idf: "du_DungeonRunID fin = ''memory-op''"
    using DungeonFinish_runs(1) [OF finish] rec by (simp add: f active_run_def)
  have over: "\<not> run_required after_dungeon (fi_CharacterID sample_finish)"
    using DungeonFinish_spends [of "\<lambda>x. x" in_dungeon sample_finish] after_dungeon_fields(4) by simp
  obtain e where refused: "DungeonFinish (\<lambda>x. x) after_dungeon sample_finish = (?after, Inl e)"
    using DungeonFinish_refused [OF over, of "\<lambda>x. x"]
    by (cases "DungeonFinish (\<lambda>x. x) after_dungeon sample_finish"; cases "snd (DungeonFinish (\<lambda>x. x) after_dungeon sample_finish)") auto
  have "run_trace one_hero (([] @ [Entered 1002 ''memory-op'']) @ [Finished 1002 ''memory-op'']) after_dungeon"
    using then_step [OF then_step [OF done_here run_step.enter [OF enter]] run_step.finish [OF finish]]
    unfolding f ids idf .
  from then_step [OF this run_step.finish_refused [OF refused]]
  have trace: "run_trace one_hero [Entered 1002 ''memory-op'', Finished 1002 ''memory-op''] ?after" by simp
  show ?thesis
    using trace finishes_per_entry [OF trace, of 1002 "''memory-op''"] start by (simp add: of_bool_def split: if_splits)
qed

end
