(* ===== verification/TokenSpend.thy ===== *)
theory TokenSpend
  imports Pricing
begin

text \<open>
  Spending AEB in the SQL repository (\<open>spendTokenInTx\<close> and \<open>consumeLockedTokenFIFO\<close> of
  \<open>src/internal/platform/store/token_spend.go\<close>): a purchase debits the locked balance first, from
  the records that unlock first, then the withdrawable and then the external balance.

  The two tables are a map of balance rows and a list of lock records. The functions run inside
  one transaction with the rows locked, so they are functions of the tables; the caller rolls the
  transaction back on an error, so an error leaves no tables behind. \<open>NOW()\<close> is the argument
  \<open>now\<close>. Failures of the database connection are outside the model.
\<close>

section \<open>Tables\<close>

record LockedSpendSegment =
  sg_Amount :: int
  sg_UnlockAt :: time

record TokenSpendBreakdown =
  ts_Locked :: int
  ts_Withdrawable :: int
  ts_External :: int
  ts_SpendSource :: string
  ts_LockedSegments :: "LockedSpendSegment list"

record locked_record =
  lr_id :: int
  lr_account_id :: int
  lr_remaining_amount :: int
  lr_status :: string
  lr_unlock_at :: time
  lr_settled_at :: "time option"

record token_tables =
  account_tokens :: "int \<rightharpoonup> AccountToken"
  locked_token_records :: "locked_record list"

definition spendSourceLabel :: "int \<Rightarrow> int \<Rightarrow> int \<Rightarrow> string" where
  "spendSourceLabel l w x =
     (let n = (if l > 0 then 1 else 0) + (if w > 0 then 1 else 0) + (if x > 0 then 1 else 0 :: int)
      in if n > 1 then ''MIXED'' else if l > 0 then ''LOCKED_TOKEN''
         else if w > 0 then ''WITHDRAWABLE_TOKEN'' else if x > 0 then ''EXTERNAL_TOKEN'' else ''MIXED'')"

text \<open>\<open>WHERE account_id = $1 AND status = 'LOCKED' AND remaining_amount > 0 ORDER BY unlock_at, id\<close>.\<close>

definition spendable :: "int \<Rightarrow> locked_record \<Rightarrow> bool" where
  "spendable accountID r \<longleftrightarrow> lr_account_id r = accountID \<and> lr_status r = ''LOCKED'' \<and> lr_remaining_amount r > 0"

definition fifo :: "int \<Rightarrow> locked_record list \<Rightarrow> locked_record list" where
  "fifo accountID rs = sort_key lr_unlock_at (sort_key lr_id (filter (spendable accountID) rs))"

text \<open>The two \<open>UPDATE\<close> statements of the loop, on the record with the given identifier.\<close>

definition take_from :: "time \<Rightarrow> int \<Rightarrow> int \<Rightarrow> locked_record \<Rightarrow> locked_record" where
  "take_from now rid newRem r =
     (if lr_id r \<noteq> rid then r
      else if newRem = 0
      then r\<lparr>lr_remaining_amount := 0, lr_status := ''CONSUMED'', lr_settled_at := Some now\<rparr>
      else r\<lparr>lr_remaining_amount := newRem\<rparr>)"

fun consume_rows ::
  "time \<Rightarrow> int \<Rightarrow> locked_record list \<Rightarrow> locked_record list \<Rightarrow>
   locked_record list \<times> int \<times> LockedSpendSegment list" where
  "consume_rows now remaining [] rs = (rs, remaining, [])"
| "consume_rows now remaining (row # rest) rs =
     (if remaining \<le> 0 then (rs, remaining, [])
      else
        let taken = (if remaining > lr_remaining_amount row then lr_remaining_amount row else remaining);
            newRem = w64 (lr_remaining_amount row - taken);
            (rs', left, segs) = consume_rows now (w64 (remaining - taken)) rest
              (map (take_from now (lr_id row) newRem) rs)
        in (rs', left, \<lparr>sg_Amount = taken, sg_UnlockAt = lr_unlock_at row\<rparr> # segs))"

definition consumeLockedTokenFIFO ::
  "time \<Rightarrow> locked_record list \<Rightarrow> int \<Rightarrow> int \<Rightarrow> (locked_record list \<times> LockedSpendSegment list) result" where
  "consumeLockedTokenFIFO now rs accountID amount =
     (case consume_rows now amount (fifo accountID rs) rs of
        (rs', left, segs) \<Rightarrow> if left > 0 then Inl ErrInsufficientBalance else Inr (rs', segs))"

definition spendTokenInTx ::
  "time \<Rightarrow> token_tables \<Rightarrow> int \<Rightarrow> int \<Rightarrow> (token_tables \<times> TokenSpendBreakdown) result" where
  "spendTokenInTx now t accountID amount =
     (if amount \<le> 0 then Inl (ErrMsg ''spend amount must be positive'')
      else
        let bal = token_in (account_tokens t) accountID;
            lockedBal = tok_LockedBalance bal;
            withdrawableBal = tok_WithdrawableBalance bal;
            externalBal = tok_ExternalBalance bal
        in if w64 (w64 (lockedBal + withdrawableBal) + externalBal) < amount then Inl ErrInsufficientBalance
           else
             let takeL = (if lockedBal > 0 then (if amount > lockedBal then lockedBal else amount) else 0)
             in case (if lockedBal > 0 then consumeLockedTokenFIFO now (locked_token_records t) accountID takeL
                      else Inr (locked_token_records t, [])) of
                  Inl e \<Rightarrow> Inl e
                | Inr (rs, segs) \<Rightarrow>
                    let rem1 = w64 (amount - takeL);
                        takeW = (if rem1 > 0 \<and> withdrawableBal > 0
                                 then (if rem1 > withdrawableBal then withdrawableBal else rem1) else 0);
                        rem2 = w64 (rem1 - takeW);
                        takeX = (if rem2 > 0 then rem2 else 0)
                    in if rem2 > 0 \<and> rem2 > externalBal then Inl ErrInsufficientBalance
                       else if \<not> (lockedBal \<ge> takeL \<and> withdrawableBal \<ge> takeW \<and> externalBal \<ge> takeX \<and>
                                  tok_TokenBalance bal \<ge> amount)
                       then Inl ErrInsufficientBalance
                       else Inr (t\<lparr>account_tokens := (account_tokens t)(accountID \<mapsto>
                              bal\<lparr>tok_LockedBalance := lockedBal - takeL,
                                  tok_WithdrawableBalance := withdrawableBal - takeW,
                                  tok_ExternalBalance := externalBal - takeX,
                                  tok_TokenBalance := tok_TokenBalance bal - amount\<rparr>),
                              locked_token_records := rs\<rparr>,
                            \<lparr>ts_Locked = takeL, ts_Withdrawable = takeW, ts_External = takeX,
                             ts_SpendSource = spendSourceLabel takeL takeW takeX, ts_LockedSegments = segs\<rparr>))"

section \<open>The records\<close>

definition rem_of :: "int \<Rightarrow> locked_record \<Rightarrow> int" where
  "rem_of a r = (if spendable a r then lr_remaining_amount r else 0)"

definition locked_sum :: "int \<Rightarrow> locked_record list \<Rightarrow> int" where
  "locked_sum a rs = sum_list (map (rem_of a) rs)"

text \<open>
  Consistent tables: identifiers are a key, every balance is the sum of its parts, none is
  negative or beyond 64 bits, and the locked balance is the sum of the open lock records.
\<close>

definition backed :: "token_tables \<Rightarrow> bool" where
  "backed t \<longleftrightarrow> distinct (map lr_id (locked_token_records t)) \<and>
     (\<forall>a. let b = token_in (account_tokens t) a in
        0 \<le> tok_LockedBalance b \<and> 0 \<le> tok_WithdrawableBalance b \<and> 0 \<le> tok_ExternalBalance b \<and>
        tok_TokenBalance b = tok_LockedBalance b + tok_WithdrawableBalance b + tok_ExternalBalance b \<and>
        tok_TokenBalance b < 2 ^ 63 \<and> tok_LockedBalance b = locked_sum a (locked_token_records t))"

lemma set_fifo: "set (fifo a rs) = {r \<in> set rs. spendable a r}"
  by (auto simp: fifo_def)

lemma distinct_fifo: "distinct (map lr_id rs) \<Longrightarrow> distinct (map lr_id (fifo a rs))"
proof -
  assume "distinct (map lr_id rs)"
  then have "distinct (map lr_id (filter (spendable a) rs))" by (simp add: distinct_map_filter)
  moreover have "mset (map lr_id (fifo a rs)) = mset (map lr_id (filter (spendable a) rs))"
    by (simp add: fifo_def)
  ultimately show ?thesis using mset_eq_imp_distinct_iff by blast
qed

lemma sum_fifo: "sum_list (map lr_remaining_amount (fifo a rs)) = locked_sum a rs"
proof -
  have "mset (map lr_remaining_amount (fifo a rs)) = mset (map lr_remaining_amount (filter (spendable a) rs))"
    by (simp add: fifo_def)
  then have "sum_list (map lr_remaining_amount (fifo a rs)) = sum_list (map lr_remaining_amount (filter (spendable a) rs))"
    by (metis sum_mset_sum_list)
  also have "\<dots> = locked_sum a rs" by (induction rs) (auto simp: locked_sum_def rem_of_def)
  finally show ?thesis .
qed

text \<open>Updating the one record with a given identifier changes a sum by that record's difference.\<close>

lemma sum_update:
  fixes g :: "'a \<Rightarrow> int"
  assumes "distinct (map f rs)" and "row \<in> set rs" and "\<And>r. f r \<noteq> f row \<Longrightarrow> h r = r"
  shows "sum_list (map (\<lambda>r. g (h r)) rs) = sum_list (map g rs) - g row + g (h row)"
  using assms(1,2)
proof (induction rs)
  case (Cons r rs)
  show ?case
  proof (cases "r = row")
    case True
    have "h r' = r'" if "r' \<in> set rs" for r'
    proof (rule assms(3))
      show "f r' \<noteq> f row" using True Cons.prems(1) that by (metis distinct.simps(2) image_eqI list.set_map list.simps(9))
    qed
    then have "map (\<lambda>r. g (h r)) rs = map g rs" by (intro map_cong) simp_all
    with True show ?thesis by (simp only: list.map sum_list.Cons)
  next
    case False
    with Cons.prems have "f r \<noteq> f row" by auto
    then show ?thesis using Cons False assms(3) by simp
  qed
qed simp

lemma locked_sum_take:
  assumes "distinct (map lr_id rs)" "row \<in> set rs" "spendable a row" "0 \<le> m" "m \<le> lr_remaining_amount row"
  shows "locked_sum b (map (take_from now (lr_id row) (lr_remaining_amount row - m)) rs) =
    locked_sum b rs - (if b = a then m else 0)"
proof -
  let ?h = "take_from now (lr_id row) (lr_remaining_amount row - m)"
  have "sum_list (map (\<lambda>r. rem_of b (?h r)) rs) = sum_list (map (rem_of b) rs) - rem_of b row + rem_of b (?h row)"
    by (rule sum_update [OF assms(1,2)]) (simp add: take_from_def)
  moreover have "rem_of b (?h row) = rem_of b row - (if b = a then m else 0)"
    using assms(3-5) by (auto simp: rem_of_def take_from_def spendable_def)
  ultimately show ?thesis by (simp add: locked_sum_def comp_def)
qed

definition open_rows :: "int \<Rightarrow> locked_record list \<Rightarrow> locked_record list \<Rightarrow> bool" where
  "open_rows a rows rs \<longleftrightarrow> distinct (map lr_id rows) \<and> distinct (map lr_id rs) \<and>
     (\<forall>r \<in> set rows. r \<in> set rs \<and> spendable a r \<and> lr_remaining_amount r < 2 ^ 63)"

lemma open_rows_step:
  assumes "open_rows a (row # rest) rs"
  shows "open_rows a rest (map (take_from now (lr_id row) m) rs)"
proof -
  have "r \<in> set (map (take_from now (lr_id row) m) rs)" if "r \<in> set rest" for r
  proof -
    have "lr_id row \<notin> lr_id ` set rest" using assms by (simp add: open_rows_def)
    then have "lr_id r \<noteq> lr_id row" using that by (metis image_eqI)
    then have "take_from now (lr_id row) m r = r" by (simp add: take_from_def)
    then show ?thesis using assms that by (force simp: open_rows_def image_iff)
  qed
  moreover have "map lr_id (map (take_from now (lr_id row) m) rs) = map lr_id rs"
    by (simp add: take_from_def)
  ultimately show ?thesis using assms unfolding open_rows_def by (metis distinct.simps(2) list.set_intros(2) list.simps(9))
qed

lemma open_rows_fifo:
  assumes "distinct (map lr_id rs)" "locked_sum a rs < 2 ^ 63"
  shows "open_rows a (fifo a rs) rs"
proof -
  have "lr_remaining_amount r < 2 ^ 63" if "r \<in> set (fifo a rs)" for r
  proof -
    have "\<And>x. x \<in> set (map lr_remaining_amount (fifo a rs)) \<Longrightarrow> 0 \<le> x"
      by (auto simp: set_fifo spendable_def)
    moreover have "lr_remaining_amount r \<in> set (map lr_remaining_amount (fifo a rs))" using that by simp
    ultimately have "lr_remaining_amount r \<le> sum_list (map lr_remaining_amount (fifo a rs))"
      by (rule member_le_sum_list [rotated])
    then show ?thesis using assms(2) by (simp add: sum_fifo)
  qed
  then show ?thesis using assms(1) by (auto simp: open_rows_def set_fifo distinct_fifo)
qed

text \<open>
  The loop takes what is asked for or all there is, in the order of the rows: every segment but
  the last empties its row.
\<close>

lemma consume_rows_spec:
  assumes "open_rows a rows rs" and "0 \<le> remaining" "remaining < 2 ^ 63"
    and "consume_rows now remaining rows rs = (rs', left, segs)"
  shows "left = max 0 (remaining - sum_list (map lr_remaining_amount rows)) \<and>
    sum_list (map sg_Amount segs) = remaining - left \<and>
    map lr_id rs' = map lr_id rs \<and>
    (\<forall>b. locked_sum b rs' = locked_sum b rs - (if b = a then remaining - left else 0)) \<and>
    map sg_UnlockAt segs = map lr_unlock_at (take (length segs) rows) \<and>
    butlast (map sg_Amount segs) = map lr_remaining_amount (take (length segs - 1) rows)"
  using assms
proof (induction now remaining rows rs arbitrary: rs' left segs rule: consume_rows.induct)
  case (1 now remaining rs)
  then show ?case by (auto simp: max_def)
next
  case (2 now remaining row rest rs)
  have "0 \<le> sum_list (map lr_remaining_amount rest)"
    using 2(2) by (intro sum_list_nonneg) (auto simp: open_rows_def spendable_def)
  moreover have "0 < lr_remaining_amount row" "lr_remaining_amount row < 2 ^ 63" "row \<in> set rs"
      "spendable a row" "distinct (map lr_id rs)"
    using 2(2) by (auto simp: open_rows_def spendable_def)
  ultimately have nonneg: "0 \<le> sum_list (map lr_remaining_amount rest)" "0 < lr_remaining_amount row"
      "lr_remaining_amount row < 2 ^ 63" "row \<in> set rs" "spendable a row" "distinct (map lr_id rs)" .
  show ?case
  proof (cases "remaining \<le> 0")
    case True
    with 2(3,5) nonneg show ?thesis by (auto simp: max_def)
  next
    case False
    define taken where "taken = (if remaining > lr_remaining_amount row then lr_remaining_amount row else remaining)"
    have taken: "0 < taken" "taken \<le> lr_remaining_amount row" "taken \<le> remaining"
      using False nonneg by (auto simp: taken_def)
    have w: "w64 (lr_remaining_amount row - taken) = lr_remaining_amount row - taken"
        "w64 (remaining - taken) = remaining - taken"
      using taken nonneg(3) 2(4) by (simp_all add: w64_nonneg)
    define rs1 where "rs1 = map (take_from now (lr_id row) (lr_remaining_amount row - taken)) rs"
    obtain rs2 left2 segs2 where rec: "consume_rows now (remaining - taken) rest rs1 = (rs2, left2, segs2)"
      by (metis prod_cases3)
    have out: "rs' = rs2" "left = left2" "segs = \<lparr>sg_Amount = taken, sg_UnlockAt = lr_unlock_at row\<rparr> # segs2"
      using 2(5) False rec w by (simp_all add: taken_def [symmetric] rs1_def Let_def)
    have IH: "left2 = max 0 (remaining - taken - sum_list (map lr_remaining_amount rest)) \<and>
      sum_list (map sg_Amount segs2) = remaining - taken - left2 \<and> map lr_id rs2 = map lr_id rs1 \<and>
      (\<forall>b. locked_sum b rs2 = locked_sum b rs1 - (if b = a then remaining - taken - left2 else 0)) \<and>
      map sg_UnlockAt segs2 = map lr_unlock_at (take (length segs2) rest) \<and>
      butlast (map sg_Amount segs2) = map lr_remaining_amount (take (length segs2 - 1) rest)"
      using 2(1) [OF False taken_def refl, unfolded w] open_rows_step [OF 2(2)] rec taken 2(4)
      by (simp add: rs1_def)
    have ids: "map lr_id rs1 = map lr_id rs" by (simp add: rs1_def take_from_def)
    have ls: "locked_sum b rs1 = locked_sum b rs - (if b = a then taken else 0)" for b
      unfolding rs1_def using nonneg taken by (intro locked_sum_take) auto
    have last_row: "taken = lr_remaining_amount row" if "segs2 \<noteq> []"
    proof (rule ccontr)
      assume "taken \<noteq> lr_remaining_amount row"
      then have "remaining - taken = 0" using taken by (auto simp: taken_def split: if_splits)
      then have "segs2 = []" using rec by (cases rest) auto
      with that show False by simp
    qed
    have left: "left2 = max 0 (remaining - (lr_remaining_amount row + sum_list (map lr_remaining_amount rest)))"
      using IH nonneg(1) taken by (auto simp: taken_def max_def split: if_splits)
    have "butlast (map sg_Amount segs) = map lr_remaining_amount (take (length segs - 1) (row # rest))"
    proof (cases segs2)
      case (Cons y ys)
      have "butlast (map sg_Amount segs2) = map lr_remaining_amount (take (length segs2 - 1) rest)" using IH by simp
      then show ?thesis using last_row Cons by (simp add: out)
    qed (simp add: out)
    moreover have "map sg_UnlockAt segs = map lr_unlock_at (take (length segs) (row # rest))"
      using IH out by simp
    moreover have "locked_sum b rs' = locked_sum b rs - (if b = a then remaining - left else 0)" for b
      using IH ls [of b] out by simp
    ultimately show ?thesis using IH ids out left by simp
  qed
qed

section \<open>Spending\<close>

lemma consumeLockedTokenFIFO_spec:
  assumes "distinct (map lr_id rs)" "locked_sum a rs < 2 ^ 63" "0 \<le> amount" "amount \<le> locked_sum a rs"
  obtains rs' segs where "consumeLockedTokenFIFO now rs a amount = Inr (rs', segs)"
    "map lr_id rs' = map lr_id rs" "\<And>b. locked_sum b rs' = locked_sum b rs - (if b = a then amount else 0)"
    "sum_list (map sg_Amount segs) = amount"
    "map sg_UnlockAt segs = map lr_unlock_at (take (length segs) (fifo a rs))"
    "butlast (map sg_Amount segs) = map lr_remaining_amount (take (length segs - 1) (fifo a rs))"
proof -
  obtain rs' left segs where run: "consume_rows now amount (fifo a rs) rs = (rs', left, segs)"
    by (metis prod_cases3)
  have bound: "amount < 2 ^ 63" using assms(2,4) by linarith
  note spec = consume_rows_spec [OF open_rows_fifo [OF assms(1,2)] assms(3) bound run]
  then have "left = 0" using assms(4) by (simp add: sum_fifo)
  then show ?thesis using that [of rs' segs] spec run by (simp add: consumeLockedTokenFIFO_def)
qed

definition fifo_segments :: "locked_record list \<Rightarrow> LockedSpendSegment list \<Rightarrow> bool" where
  "fifo_segments rows segs \<longleftrightarrow>
     map sg_UnlockAt segs = map lr_unlock_at (take (length segs) rows) \<and>
     butlast (map sg_Amount segs) = map lr_remaining_amount (take (length segs - 1) rows)"

definition oldest_first :: "locked_record list \<Rightarrow> bool" where
  "oldest_first rows \<longleftrightarrow> sorted (map lr_unlock_at rows) \<and>
     (\<forall>u. sorted (map lr_id (filter (\<lambda>r. lr_unlock_at r = u) rows)))"

lemma fifo_oldest_first: "oldest_first (fifo a rs)" "mset (fifo a rs) = mset (filter (spendable a) rs)"
proof -
  have "sorted (map lr_id (filter (\<lambda>r. lr_unlock_at r = u) (fifo a rs)))" for u
    unfolding fifo_def sort_key_stable by (rule sorted_filter) simp
  then show "oldest_first (fifo a rs)" by (simp add: oldest_first_def fifo_def)
qed (simp add: fifo_def)

lemma backedD:
  assumes "backed t"
  shows "0 \<le> tok_LockedBalance (token_in (account_tokens t) a)"
    "0 \<le> tok_WithdrawableBalance (token_in (account_tokens t) a)"
    "0 \<le> tok_ExternalBalance (token_in (account_tokens t) a)"
    "tok_TokenBalance (token_in (account_tokens t) a) = tok_LockedBalance (token_in (account_tokens t) a)
       + tok_WithdrawableBalance (token_in (account_tokens t) a) + tok_ExternalBalance (token_in (account_tokens t) a)"
    "tok_TokenBalance (token_in (account_tokens t) a) < 2 ^ 63"
    "tok_LockedBalance (token_in (account_tokens t) a) = locked_sum a (locked_token_records t)"
  using assms unfolding backed_def Let_def by blast+

lemma backed_ids: "backed t \<Longrightarrow> distinct (map lr_id (locked_token_records t))"
  by (simp add: backed_def)

text \<open>What a payment takes from each of the three balances.\<close>

abbreviation from_locked :: "AccountToken \<Rightarrow> int \<Rightarrow> int" where
  "from_locked b amount \<equiv> min amount (tok_LockedBalance b)"

abbreviation from_withdrawable :: "AccountToken \<Rightarrow> int \<Rightarrow> int" where
  "from_withdrawable b amount \<equiv> min (amount - from_locked b amount) (tok_WithdrawableBalance b)"

lemma spend_covered:
  assumes "backed t" "0 < amount" and b: "b = token_in (account_tokens t) a" and "amount \<le> tok_TokenBalance b"
  obtains rs segs where "spendTokenInTx now t a amount =
      Inr (t\<lparr>account_tokens := (account_tokens t)(a \<mapsto>
          b\<lparr>tok_LockedBalance := tok_LockedBalance b - from_locked b amount,
            tok_WithdrawableBalance := tok_WithdrawableBalance b - from_withdrawable b amount,
            tok_ExternalBalance := tok_ExternalBalance b
              - (amount - from_locked b amount - from_withdrawable b amount),
            tok_TokenBalance := tok_TokenBalance b - amount\<rparr>), locked_token_records := rs\<rparr>,
        \<lparr>ts_Locked = from_locked b amount, ts_Withdrawable = from_withdrawable b amount,
         ts_External = amount - from_locked b amount - from_withdrawable b amount,
         ts_SpendSource = spendSourceLabel (from_locked b amount) (from_withdrawable b amount)
           (amount - from_locked b amount - from_withdrawable b amount), ts_LockedSegments = segs\<rparr>)"
    "map lr_id rs = map lr_id (locked_token_records t)"
    "\<And>c. locked_sum c rs = locked_sum c (locked_token_records t) - (if c = a then from_locked b amount else 0)"
    "sum_list (map sg_Amount segs) = from_locked b amount" "fifo_segments (fifo a (locked_token_records t)) segs"
proof -
  note bal = backedD [OF assms(1), of a, folded b]
  have w: "w64 (w64 (tok_LockedBalance b + tok_WithdrawableBalance b) + tok_ExternalBalance b) = tok_TokenBalance b"
    using bal by (simp add: w64_nonneg)
  have rem: "w64 (amount - from_locked b amount) = amount - from_locked b amount"
      "w64 (amount - from_locked b amount - from_withdrawable b amount) =
        amount - from_locked b amount - from_withdrawable b amount"
    using assms(2,4) bal by (intro w64_nonneg; simp add: min_def)+
  have parts: "amount - from_locked b amount - from_withdrawable b amount \<le> tok_ExternalBalance b"
      "0 \<le> amount - from_locked b amount - from_withdrawable b amount" "0 \<le> from_withdrawable b amount"
      "0 \<le> from_locked b amount"
    using assms(2,4) bal by (auto simp: min_def)
  obtain rs segs where run: "(if tok_LockedBalance b > 0
        then consumeLockedTokenFIFO now (locked_token_records t) a (from_locked b amount)
        else Inr (locked_token_records t, [])) = Inr (rs, segs)"
      and facts: "map lr_id rs = map lr_id (locked_token_records t)"
        "\<And>c. locked_sum c rs = locked_sum c (locked_token_records t) - (if c = a then from_locked b amount else 0)"
        "sum_list (map sg_Amount segs) = from_locked b amount"
        "fifo_segments (fifo a (locked_token_records t)) segs"
  proof (cases "tok_LockedBalance b > 0")
    case True
    show ?thesis
      by (rule consumeLockedTokenFIFO_spec [where rs = "locked_token_records t" and a = a and amount = "from_locked b amount" and now = now])
        (use backed_ids [OF assms(1)] bal parts True that in \<open>auto simp: fifo_segments_def\<close>)
  next
    case False
    then have "tok_LockedBalance b = 0" using bal(1) by simp
    then show ?thesis using that [of "locked_token_records t" "[]"] assms(2) by (simp add: fifo_segments_def)
  qed
  have takeL: "(if tok_LockedBalance b > 0 then (if amount > tok_LockedBalance b then tok_LockedBalance b else amount)
      else 0) = from_locked b amount"
    using bal(1) assms(2) by (auto simp: min_def)
  have takeW: "(if amount - from_locked b amount > 0 \<and> tok_WithdrawableBalance b > 0
      then (if amount - from_locked b amount > tok_WithdrawableBalance b then tok_WithdrawableBalance b
        else amount - from_locked b amount) else 0) = from_withdrawable b amount"
    using bal(2) assms(2) by (auto simp: min_def)
  have takeX: "(if amount - from_locked b amount - from_withdrawable b amount > 0
      then amount - from_locked b amount - from_withdrawable b amount else 0) =
      amount - from_locked b amount - from_withdrawable b amount"
    using parts(2) by auto
  have "spendTokenInTx now t a amount =
      Inr (t\<lparr>account_tokens := (account_tokens t)(a \<mapsto>
          b\<lparr>tok_LockedBalance := tok_LockedBalance b - from_locked b amount,
            tok_WithdrawableBalance := tok_WithdrawableBalance b - from_withdrawable b amount,
            tok_ExternalBalance := tok_ExternalBalance b
              - (amount - from_locked b amount - from_withdrawable b amount),
            tok_TokenBalance := tok_TokenBalance b - amount\<rparr>), locked_token_records := rs\<rparr>,
        \<lparr>ts_Locked = from_locked b amount, ts_Withdrawable = from_withdrawable b amount,
         ts_External = amount - from_locked b amount - from_withdrawable b amount,
         ts_SpendSource = spendSourceLabel (from_locked b amount) (from_withdrawable b amount)
           (amount - from_locked b amount - from_withdrawable b amount), ts_LockedSegments = segs\<rparr>)"
    using assms(2,4) parts
    unfolding spendTokenInTx_def b [symmetric] Let_def w takeL run rem takeW takeX
    by (simp add: run not_le)
  with facts show ?thesis by (rule that [rotated])
qed

lemma spend_refused:
  assumes "backed t" "\<not> (0 < amount \<and> amount \<le> tok_TokenBalance (token_in (account_tokens t) a))"
  shows "spendTokenInTx now t a amount =
    Inl (if amount \<le> 0 then ErrMsg ''spend amount must be positive'' else ErrInsufficientBalance)"
proof -
  note bal = backedD [OF assms(1), of a]
  let ?b = "token_in (account_tokens t) a"
  have "w64 (w64 (tok_LockedBalance ?b + tok_WithdrawableBalance ?b) + tok_ExternalBalance ?b) = tok_TokenBalance ?b"
    using bal by (simp add: w64_nonneg)
  then show ?thesis using assms(2) by (auto simp: spendTokenInTx_def Let_def)
qed

text \<open>
  Property C29. A payment against consistent tables succeeds exactly when its amount is positive
  and covered by the account's total balance. It then takes the amount from the locked balance
  first, from the withdrawable balance next and from the external balance last; the locked part
  is taken from the account's open lock records in the order in which they unlock (those that
  unlock together by identifier), each but the last to its end;
  the tables stay consistent and no other account's balance changes.
\<close>

theorem spend_takes_locked_first:
  assumes "backed t" and "b = token_in (account_tokens t) a"
  shows "case spendTokenInTx now t a amount of
      Inl e \<Rightarrow> amount \<le> 0 \<or> tok_TokenBalance b < amount
    | Inr (t', s) \<Rightarrow> 0 < amount \<and> amount \<le> tok_TokenBalance b \<and>
        ts_Locked s + ts_Withdrawable s + ts_External s = amount \<and>
        ts_Locked s = min amount (tok_LockedBalance b) \<and>
        ts_Withdrawable s = min (amount - ts_Locked s) (tok_WithdrawableBalance b) \<and>
        sum_list (map sg_Amount (ts_LockedSegments s)) = ts_Locked s \<and>
        (\<exists>rows. mset rows = mset (filter (spendable a) (locked_token_records t)) \<and> oldest_first rows \<and>
           fifo_segments rows (ts_LockedSegments s)) \<and>
        backed t' \<and> tok_TokenBalance (token_in (account_tokens t') a) = tok_TokenBalance b - amount \<and>
        (\<forall>c. c \<noteq> a \<longrightarrow> account_tokens t' c = account_tokens t c)"
proof (cases "0 < amount \<and> amount \<le> tok_TokenBalance b")
  case False
  then show ?thesis using spend_refused [OF assms(1), where amount = amount and a = a and now = now] assms(2) by (auto split: sum.split)
next
  case True
  show ?thesis
  proof (rule spend_covered [OF assms(1) _ assms(2), where amount = amount and now = now], goal_cases)
    case (3 rs segs)
    have "backed (t\<lparr>account_tokens := (account_tokens t)(a \<mapsto>
          b\<lparr>tok_LockedBalance := tok_LockedBalance b - from_locked b amount,
            tok_WithdrawableBalance := tok_WithdrawableBalance b - from_withdrawable b amount,
            tok_ExternalBalance := tok_ExternalBalance b
              - (amount - from_locked b amount - from_withdrawable b amount),
            tok_TokenBalance := tok_TokenBalance b - amount\<rparr>), locked_token_records := rs\<rparr>)"
      using True backedD [OF assms(1), of a, folded assms(2)] backedD [OF assms(1)] backed_ids [OF assms(1)]
      by (auto simp: backed_def 3(2,3) Let_def min_def)
    moreover note fifo_oldest_first [of a "locked_token_records t"]
    ultimately show ?case using 3 True by auto
  qed (use True in auto)
qed

definition sample_lock :: "int \<Rightarrow> int \<Rightarrow> time \<Rightarrow> locked_record" where
  "sample_lock i n u = \<lparr>lr_id = i, lr_account_id = 7, lr_remaining_amount = n, lr_status = ''LOCKED'',
     lr_unlock_at = u, lr_settled_at = None\<rparr>"

definition sample_tables :: token_tables where
  "sample_tables = \<lparr>account_tokens = [7 \<mapsto> (zero_AccountToken 7)\<lparr>tok_TokenBalance := 130,
       tok_WithdrawableBalance := 20, tok_LockedBalance := 100, tok_ExternalBalance := 10\<rparr>],
     locked_token_records = [sample_lock 1 60 500, sample_lock 2 40 300]\<rparr>"

lemma sample_tables_backed: "backed sample_tables"
  by (simp add: backed_def sample_tables_def sample_lock_def locked_sum_def rem_of_def spendable_def Let_def)

theorem spend_takes_locked_first_witness:
  "\<exists>t' s. spendTokenInTx 0 sample_tables 7 115 = Inr (t', s) \<and> ts_Locked s = 100 \<and> ts_Withdrawable s = 15 \<and>
     ts_External s = 0 \<and> backed t'"
proof (cases "spendTokenInTx 0 sample_tables 7 115")
  case (Inl e)
  with spend_takes_locked_first [OF sample_tables_backed refl, where now = 0 and a = 7 and amount = 115]
  show ?thesis by (simp add: sample_tables_def)
next
  case (Inr p)
  with spend_takes_locked_first [OF sample_tables_backed refl, where now = 0 and a = 7 and amount = 115]
  show ?thesis by (cases p) (auto simp: sample_tables_def)
qed

end
