(* ===== verification/RewardPlans.thy ===== *)
theory RewardPlans
  imports RulesConfig "HOL-Library.Word"
begin

text \<open>
  The reward plans of the economy rules (\<open>src/internal/economy/rules/config.go\<close>): loot pools,
  dungeon, gathering, farming, boss and recipe rewards, shop purchases, the lottery and bounty
  tasks, with the weighted draws and affix rolls they use.

  The generator of \<open>math/rand/v2\<close> is an argument of type \<open>rand\<close>: how it is seeded and what each
  draw returns. What the proofs rely on is its documented range, the hypothesis \<open>lawful\<close>; a draw
  from an empty range panics, which is written out in \<open>IntN\<close> and \<open>Int64N\<close>. The seed itself, FNV-1a
  over a formatted key, is computed as in the source. Floating-point operations are the argument
  \<open>float_ops\<close>.
\<close>

section \<open>Random draws\<close>

record 'g rand =
  NewPCG :: "64 word \<Rightarrow> 64 word \<Rightarrow> 'g"
  draw_IntN :: "'g \<Rightarrow> int \<Rightarrow> int \<times> 'g"
  draw_Int64N :: "'g \<Rightarrow> int \<Rightarrow> int \<times> 'g"
  draw_Float64 :: "'g \<Rightarrow> float64 \<times> 'g"

record float_ops =
  f_add :: "float64 \<Rightarrow> float64 \<Rightarrow> float64"
  f_sub :: "float64 \<Rightarrow> float64 \<Rightarrow> float64"
  f_mul :: "float64 \<Rightarrow> float64 \<Rightarrow> float64"
  f_div :: "float64 \<Rightarrow> float64 \<Rightarrow> float64"
  f_of_int :: "int \<Rightarrow> float64"

definition lawful :: "'g rand \<Rightarrow> bool" where
  "lawful R \<longleftrightarrow> (\<forall>g n. 0 < n \<longrightarrow> 0 \<le> fst (draw_IntN R g n) \<and> fst (draw_IntN R g n) < n \<and>
     0 \<le> fst (draw_Int64N R g n) \<and> fst (draw_Int64N R g n) < n)"

definition IntN :: "'g rand \<Rightarrow> 'g \<Rightarrow> int \<Rightarrow> (int \<times> 'g) result" where
  "IntN R g n = (if n \<le> 0 then Inl Panic else Inr (draw_IntN R g n))"

definition Int64N :: "'g rand \<Rightarrow> 'g \<Rightarrow> int \<Rightarrow> (int \<times> 'g) result" where
  "Int64N R g n = (if n \<le> 0 then Inl Panic else Inr (draw_Int64N R g n))"

text \<open>\<open>hash/fnv\<close>'s \<open>New64a\<close>: FNV-1a over the bytes.\<close>

definition fnv64a :: "string \<Rightarrow> 64 word" where
  "fnv64a s = foldl (\<lambda>h c. xor h (of_char c) * 1099511628211) 14695981039346656037 s"

definition seed :: "string \<Rightarrow> string \<Rightarrow> int \<Rightarrow> int \<Rightarrow> int \<Rightarrow> 64 word" where
  "seed opID dungeonRunID characterID chapterID floorID =
     fnv64a (opID @ '':'' @ dungeonRunID @ '':'' @ FormatInt characterID @ '':'' @ FormatInt chapterID
             @ '':'' @ FormatInt floorID)"

fun hex_pad :: "nat \<Rightarrow> nat \<Rightarrow> string" where
  "hex_pad 0 n = []"
| "hex_pad (Suc w) n = hex_pad w (n div 16) @ [hexdigit (n mod 16)]"

definition equipmentUID :: "string \<Rightarrow> string \<Rightarrow> string \<Rightarrow> int \<Rightarrow> int \<Rightarrow> string" where
  "equipmentUID prefix0 opID dungeonRunID entryIndex rollIndex =
     (let prefix1 = TrimSpace prefix0; prefix2 = (if prefix1 = [] then ''equipment'' else prefix1)
      in prefix2 @ ''-'' @ hex_pad 16 (unat (fnv64a (opID @ '':'' @ dungeonRunID @ '':'' @ FormatInt entryIndex
           @ '':'' @ FormatInt rollIndex))))"

definition golden :: "64 word" where "golden = 0x9e3779b97f4a7c15"

definition shop_stream :: "64 word" where "shop_stream = 0x4cf5ad432745937f"

definition bounty_stream :: "64 word" where "bounty_stream = 0x517cc1b727220a95"

definition rollQuantity :: "'g rand \<Rightarrow> 'g \<Rightarrow> int \<Rightarrow> int \<Rightarrow> (int \<times> 'g) result" where
  "rollQuantity R g min0 max0 =
     (let lo = (if min0 \<le> 0 then 1 else min0); hi = (if max0 < lo then lo else max0)
      in if hi = lo then Inr (lo, g)
         else case Int64N R g (w64 (w64 (hi - lo) + 1)) of
                Inl e \<Rightarrow> Inl e
              | Inr (n, g') \<Rightarrow> Inr (w64 (lo + n), g'))"

section \<open>Weighted choice\<close>

text \<open>The scan that all weighted choices share: the first row whose weight exceeds what is left.\<close>

fun pick_weighted :: "('a \<Rightarrow> int) \<Rightarrow> int \<Rightarrow> 'a list \<Rightarrow> 'a option" where
  "pick_weighted w pick [] = None"
| "pick_weighted w pick (row # rows) =
     (if pick < w row then Some row else pick_weighted w (w64 (pick - w row)) rows)"

definition weight_total :: "('a \<Rightarrow> int) \<Rightarrow> 'a list \<Rightarrow> int" where
  "weight_total w rows = foldl (\<lambda>total row. w64 (total + w row)) 0 rows"

text \<open>\<open>weightedString\<close> and \<open>weightedInt\<close>: the keys in increasing order, the zero value if none is hit.\<close>

definition weightedString :: "'g rand \<Rightarrow> 'g \<Rightarrow> (string \<times> int) list \<Rightarrow> (string \<times> 'g) result" where
  "weightedString R g rows =
     (case IntN R g (weight_total snd rows) of
        Inl e \<Rightarrow> Inl e
      | Inr (pick, g') \<Rightarrow> Inr (case pick_weighted snd pick (sort_key fst rows) of None \<Rightarrow> [] | Some (k, _) \<Rightarrow> k, g'))"

definition weightedInt :: "'g rand \<Rightarrow> 'g \<Rightarrow> (int \<times> int) list \<Rightarrow> (int \<times> 'g) result" where
  "weightedInt R g rows =
     (case IntN R g (weight_total snd rows) of
        Inl e \<Rightarrow> Inl e
      | Inr (pick, g') \<Rightarrow> Inr (case pick_weighted snd pick (sort_key fst rows) of None \<Rightarrow> 0 | Some (k, _) \<Rightarrow> k, g'))"

section \<open>Affixes\<close>

text \<open>Rows without a positive weight are skipped.\<close>

definition weightedAffix :: "'g rand \<Rightarrow> 'g \<Rightarrow> AffixConfig list \<Rightarrow> (AffixConfig \<times> 'g) result" where
  "weightedAffix R g rows =
     (let live = filter (\<lambda>row. aco_Weight row > 0) rows; total = weight_total aco_Weight live
      in if total \<le> 0
         then case IntN R g (int (length rows)) of Inl e \<Rightarrow> Inl e | Inr (i, g') \<Rightarrow> Inr (rows ! nat i, g')
         else case IntN R g total of
                Inl e \<Rightarrow> Inl e
              | Inr (pick, g') \<Rightarrow> Inr (case pick_weighted aco_Weight pick live of None \<Rightarrow> last rows | Some row \<Rightarrow> row, g'))"

definition eligible :: "(string \<Rightarrow> int) \<Rightarrow> AffixConfig \<Rightarrow> bool" where
  "eligible counts row \<longleftrightarrow> aco_Weight row > 0 \<and> counts (aco_AffixID row) < 2"

definition weightedEligibleAffix ::
  "'g rand \<Rightarrow> 'g \<Rightarrow> AffixConfig list \<Rightarrow> (string \<Rightarrow> int) \<Rightarrow> (AffixConfig option \<times> 'g) result" where
  "weightedEligibleAffix R g rows counts =
     (let live = filter (eligible counts) rows; total = weight_total aco_Weight live
      in if total \<le> 0 then Inr (None, g)
         else case IntN R g total of Inl e \<Rightarrow> Inl e | Inr (pick, g') \<Rightarrow> Inr (pick_weighted aco_Weight pick live, g'))"

fun roll_semantic ::
  "'g rand \<Rightarrow> AffixConfig list \<Rightarrow> nat \<Rightarrow> int \<Rightarrow> (string \<Rightarrow> int) \<Rightarrow> 'g \<Rightarrow> (EquipmentAffix list \<times> 'g) result" where
  "roll_semantic R rows 0 i counts g = Inr ([], g)"
| "roll_semantic R rows (Suc n) i counts g =
     (case weightedEligibleAffix R g rows counts of
        Inl e \<Rightarrow> Inl e
      | Inr (None, g') \<Rightarrow> Inr ([], g')
      | Inr (Some affix, g') \<Rightarrow>
          case roll_semantic R rows n (i + 1) (counts(aco_AffixID affix := counts (aco_AffixID affix) + 1)) g' of
            Inl e \<Rightarrow> Inl e
          | Inr (rest, g'') \<Rightarrow> Inr (\<lparr>ea_AffixID = aco_AffixID affix, ea_InstanceID = ''a'' @ FormatInt (i + 1),
              ea_EnhanceHits = 0, ea_Stat = [], ea_Value = Fin 0\<rparr> # rest, g''))"

definition rollEquipmentAffixes :: "'g rand \<Rightarrow> Config \<Rightarrow> 'g \<Rightarrow> string \<Rightarrow> int \<Rightarrow> (EquipmentAffix list \<times> 'g) result" where
  "rollEquipmentAffixes R c g itemID rarity =
     (case EquipmentTemplate_get c itemID of
        None \<Rightarrow> Inr ([], g)
      | Some template \<Rightarrow>
          case EquipmentRarity_get c rarity of
            None \<Rightarrow> Inr ([], g)
          | Some rarityConfig \<Rightarrow>
              case map_of (cfg_AffixPools c) (etp_AffixPoolID template) of
                None \<Rightarrow> Inr ([], g)
              | Some pool \<Rightarrow> roll_semantic R (apo_Affixes pool) (nat (era_AffixCount rarityConfig)) 0 (\<lambda>_. 0) g)"

fun roll_values ::
  "'g rand \<Rightarrow> float_ops \<Rightarrow> AffixConfig list \<Rightarrow> nat \<Rightarrow> 'g \<Rightarrow> (EquipmentAffix list \<times> 'g) result" where
  "roll_values R fo rows 0 g = Inr ([], g)"
| "roll_values R fo rows (Suc n) g =
     (case weightedAffix R g rows of
        Inl e \<Rightarrow> Inl e
      | Inr (affix, g1) \<Rightarrow>
          let (value, g2) =
                (if float_less (aco_Min affix) (aco_Max affix)
                 then let (x, g') = draw_Float64 R g1
                      in (f_add fo (aco_Min affix) (f_mul fo x (f_sub fo (aco_Max affix) (aco_Min affix))), g')
                 else (aco_Min affix, g1))
          in case roll_values R fo rows n g2 of
               Inl e \<Rightarrow> Inl e
             | Inr (rest, g3) \<Rightarrow> Inr (\<lparr>ea_AffixID = aco_AffixID affix, ea_InstanceID = [], ea_EnhanceHits = 0,
                 ea_Stat = aco_Stat affix, ea_Value = value\<rparr> # rest, g3))"

definition rollAffixes :: "'g rand \<Rightarrow> float_ops \<Rightarrow> Config \<Rightarrow> 'g \<Rightarrow> string \<Rightarrow> (EquipmentAffix list \<times> 'g) result" where
  "rollAffixes R fo c g affixPoolID =
     (case map_of (cfg_AffixPools c) affixPoolID of
        None \<Rightarrow> Inr ([], g)
      | Some pool \<Rightarrow>
          if apo_Affixes pool = [] then Inr ([], g)
          else
            let lo = aro_Min (apo_Rolls pool); hi = aro_Max (apo_Rolls pool)
            in case (if hi > lo
                     then case IntN R g (w64 (w64 (hi - lo) + 1)) of
                            Inl e \<Rightarrow> Inl e | Inr (n, g') \<Rightarrow> Inr (w64 (lo + n), g')
                     else Inr (lo, g)) of
                 Inl e \<Rightarrow> Inl e
               | Inr (rolls, g') \<Rightarrow>
                   if rolls \<le> 0 then Inr ([], g') else roll_values R fo (apo_Affixes pool) (nat rolls) g')"

definition rollRewardAffixes ::
  "'g rand \<Rightarrow> float_ops \<Rightarrow> Config \<Rightarrow> 'g \<Rightarrow> string \<Rightarrow> int \<Rightarrow> string \<Rightarrow> (EquipmentAffix list \<times> 'g) result" where
  "rollRewardAffixes R fo c g itemID rarity fallbackPoolID =
     (if EquipmentTemplate_get c itemID \<noteq> None then rollEquipmentAffixes R c g itemID rarity
      else rollAffixes R fo c g fallbackPoolID)"

section \<open>Loot pools\<close>

definition empty_plan :: DungeonRewardPlan where
  "empty_plan = \<lparr>rp_IsBoss = False, rp_Items = [], rp_TokenReward = 0\<rparr>"

definition item_grant :: "Config \<Rightarrow> string \<Rightarrow> int \<Rightarrow> int \<Rightarrow> DungeonRewardGrant" where
  "item_grant c itemID quantity fallback = \<lparr>rg_RewardType = ''item'', rg_ItemID = itemID, rg_Quantity = quantity,
     rg_EquipmentUID = [], rg_Rarity = itemRarity (cfg_Items c) itemID fallback,
     rg_Category = itemCategory (cfg_Items c) itemID, rg_AffixPoolID = [], rg_Affixes = []\<rparr>"

definition equipment_grant ::
  "string \<Rightarrow> int \<Rightarrow> string \<Rightarrow> string \<Rightarrow> EquipmentAffix list \<Rightarrow> DungeonRewardGrant" where
  "equipment_grant itemID rarity category uid affixes = \<lparr>rg_RewardType = ''equipment'', rg_ItemID = itemID,
     rg_Quantity = 1, rg_EquipmentUID = uid, rg_Rarity = rarity, rg_Category = category,
     rg_AffixPoolID = [], rg_Affixes = affixes\<rparr>"

definition rollLevelScaledEquipmentTemplate ::
  "(string \<Rightarrow> string) \<Rightarrow> 'g rand \<Rightarrow> Config \<Rightarrow> 'g \<Rightarrow> LootEntry \<Rightarrow> int \<Rightarrow> (EquipmentTemplate \<times> 'g) result" where
  "rollLevelScaledEquipmentTemplate quote R c g entry characterLevel =
     (if TrimSpace (len_EquipmentStageMode entry) \<noteq> ''character_level_floor''
      then Inl (ErrMsg (''unsupported equipmentStageMode '' @ quote (len_EquipmentStageMode entry)))
      else
        let stage = equipmentStageForCharacterLevel c characterLevel;
            candidates = equipmentTemplatesByStageAndSeries c stage (len_EquipmentSeries entry)
        in if candidates = []
           then Inl (ErrMsg (''no level-scaled equipment candidates for stage '' @ FormatInt stage))
           else case IntN R g (int (length candidates)) of
                  Inl e \<Rightarrow> Inl e | Inr (i, g') \<Rightarrow> Inr (candidates ! nat i, g'))"

text \<open>The equipment loop of \<open>lootPoolRewards\<close>: \<open>n\<close> pieces, numbered from \<open>i\<close>.\<close>

fun loot_equipment ::
  "(string \<Rightarrow> string) \<Rightarrow> 'g rand \<Rightarrow> float_ops \<Rightarrow> Config \<Rightarrow> string \<Rightarrow> string \<Rightarrow> int \<Rightarrow> int \<Rightarrow> LootEntry \<Rightarrow>
   nat \<Rightarrow> int \<Rightarrow> 'g \<Rightarrow> (DungeonRewardGrant list \<times> 'g) result" where
  "loot_equipment quote R fo c opID refID characterLevel index entry 0 i g = Inr ([], g)"
| "loot_equipment quote R fo c opID refID characterLevel index entry (Suc n) i g =
     (case (if TrimSpace (len_EquipmentStageMode entry) \<noteq> []
            then case rollLevelScaledEquipmentTemplate quote R c g entry characterLevel of
                   Inl e \<Rightarrow> Inl e | Inr (template, g') \<Rightarrow> Inr (etp_ItemID template, g')
            else Inr (len_ItemID entry, g)) of
        Inl e \<Rightarrow> Inl e
      | Inr (itemID, g1) \<Rightarrow>
          case rollRewardAffixes R fo c g1 itemID (len_Rarity entry) (len_AffixPoolID entry) of
            Inl e \<Rightarrow> Inl e
          | Inr (affixes, g2) \<Rightarrow>
              case loot_equipment quote R fo c opID refID characterLevel index entry n (i + 1) g2 of
                Inl e \<Rightarrow> Inl e
              | Inr (rest, g3) \<Rightarrow>
                  Inr (equipment_grant itemID (itemRarity (cfg_Items c) itemID (len_Rarity entry))
                         (itemCategory (cfg_Items c) itemID)
                         (equipmentUID (ecr_EquipmentUIDPrefix (cfg_Rules c)) opID refID index i) affixes # rest, g3))"

fun loot_entries ::
  "(string \<Rightarrow> string) \<Rightarrow> (string \<Rightarrow> string) \<Rightarrow> 'g rand \<Rightarrow> float_ops \<Rightarrow> Config \<Rightarrow> string \<Rightarrow> string \<Rightarrow> int \<Rightarrow> int \<Rightarrow>
   LootEntry list \<Rightarrow> DungeonRewardPlan \<Rightarrow> 'g \<Rightarrow> DungeonRewardPlan result" where
  "loot_entries uc quote R fo c opID refID characterLevel index [] plan g = Inr plan"
| "loot_entries uc quote R fo c opID refID characterLevel index (entry # entries) plan g =
     (let (dropped, g1) =
            (if float_less (len_DropChance entry) (Fin 1)
             then let (x, g') = draw_Float64 R g in (float_less (len_DropChance entry) x, g')
             else (False, g))
      in if dropped then loot_entries uc quote R fo c opID refID characterLevel (index + 1) entries plan g1
         else
           case rollQuantity R g1 (len_QuantityMin entry) (len_QuantityMax entry) of
             Inl e \<Rightarrow> Inl e
           | Inr (quantity, g2) \<Rightarrow>
               if quantity \<le> 0 then loot_entries uc quote R fo c opID refID characterLevel (index + 1) entries plan g2
               else
                 let kind = ToLower uc (len_RewardType entry)
                 in if kind = ''item''
                    then loot_entries uc quote R fo c opID refID characterLevel (index + 1) entries
                           (plan\<lparr>rp_Items := rp_Items plan @ [item_grant c (len_ItemID entry) quantity (len_Rarity entry)]\<rparr>) g2
                    else if kind = ''equipment''
                    then (case loot_equipment quote R fo c opID refID characterLevel index entry (nat quantity) 0 g2 of
                            Inl e \<Rightarrow> Inl e
                          | Inr (grants, g3) \<Rightarrow>
                              loot_entries uc quote R fo c opID refID characterLevel (index + 1) entries
                                (plan\<lparr>rp_Items := rp_Items plan @ grants\<rparr>) g3)
                    else if kind = ''token''
                    then loot_entries uc quote R fo c opID refID characterLevel (index + 1) entries
                           (plan\<lparr>rp_TokenReward := w64 (rp_TokenReward plan + quantity)\<rparr>) g2
                    else Inl (ErrMsg (''unsupported reward type '' @ quote (len_RewardType entry))))"

definition lootPoolRewards ::
  "(string \<Rightarrow> string) \<Rightarrow> (string \<Rightarrow> string) \<Rightarrow> 'g rand \<Rightarrow> float_ops \<Rightarrow> Config \<Rightarrow> string \<Rightarrow> string \<Rightarrow> string \<Rightarrow> int \<Rightarrow>
   int \<Rightarrow> int \<Rightarrow> int \<Rightarrow> DungeonRewardPlan result" where
  "lootPoolRewards uc quote R fo c lootPoolID opID refID characterID characterLevel chapterID floorID =
     (case map_of (cfg_LootPools c) lootPoolID of
        None \<Rightarrow> Inl (ErrMsg (''loot pool '' @ quote lootPoolID @ '' is not configured''))
      | Some pool \<Rightarrow>
          loot_entries uc quote R fo c opID refID characterLevel 0 (lpo_Entries pool) empty_plan
            (NewPCG R (seed opID refID characterID chapterID floorID) golden))"

definition DungeonRewards_plan ::
  "(string \<Rightarrow> string) \<Rightarrow> (string \<Rightarrow> string) \<Rightarrow> 'g rand \<Rightarrow> float_ops \<Rightarrow> Config \<Rightarrow> DungeonFinishRequest \<Rightarrow>
   DungeonRewardPlan result" where
  "DungeonRewards_plan uc quote R fo c req =
     (case DungeonFloor_get c (fi_ChapterID req) (fi_FloorID req) of
        None \<Rightarrow> Inl (ErrMsg (''dungeon floor '' @ FormatInt (fi_ChapterID req) @ ''/'' @ FormatInt (fi_FloorID req)
          @ '' is not configured''))
      | Some dfloor \<Rightarrow>
          if fi_Exp req > dfl_MaxExp dfloor
          then Inl (ErrMsg (''exp exceeds configured cap '' @ FormatInt (dfl_MaxExp dfloor)))
          else if fi_Result req \<noteq> ''victory'' \<or> dfl_LootPoolID dfloor = []
          then Inr (empty_plan\<lparr>rp_IsBoss := dfl_IsBoss dfloor\<rparr>)
          else case lootPoolRewards uc quote R fo c (dfl_LootPoolID dfloor) (fi_OpID req) (fi_DungeonRunID req)
                      (fi_CharacterID req) 0 (fi_ChapterID req) (fi_FloorID req) of
                 Inl e \<Rightarrow> Inl e
               | Inr rewards \<Rightarrow> Inr \<lparr>rp_IsBoss = dfl_IsBoss dfloor, rp_Items = rp_Items rewards,
                   rp_TokenReward = rp_TokenReward rewards\<rparr>)"

definition GatheringRewards ::
  "(string \<Rightarrow> string) \<Rightarrow> (string \<Rightarrow> string) \<Rightarrow> 'g rand \<Rightarrow> float_ops \<Rightarrow> Config \<Rightarrow> ActivitySettlementRequest \<Rightarrow>
   DungeonRewardPlan result" where
  "GatheringRewards uc quote R fo c req =
     (case map_of (cfg_GatherNodes c) (TrimSpace (as_ActivityID req)) of
        None \<Rightarrow> Inl (ErrMsg (''gathering node '' @ quote (as_ActivityID req) @ '' is not configured''))
      | Some node \<Rightarrow> lootPoolRewards uc quote R fo c (gnd_LootPoolID node) (as_OpID req) (as_ActivityID req)
          (as_CharacterID req) (as_CharacterLevel req) 0 0)"

definition FarmingRewards ::
  "(string \<Rightarrow> string) \<Rightarrow> (string \<Rightarrow> string) \<Rightarrow> 'g rand \<Rightarrow> float_ops \<Rightarrow> Config \<Rightarrow> ActivitySettlementRequest \<Rightarrow>
   DungeonRewardPlan result" where
  "FarmingRewards uc quote R fo c req =
     (case map_of (cfg_Crops c) (TrimSpace (as_ActivityID req)) of
        None \<Rightarrow> Inl (ErrMsg (''crop '' @ quote (as_ActivityID req) @ '' is not configured''))
      | Some crop \<Rightarrow> lootPoolRewards uc quote R fo c (crp_HarvestLootPoolID crop) (as_OpID req) (as_ActivityID req)
          (as_CharacterID req) 0 0 0)"

text \<open>One optional pool of \<open>BossRewards\<close>, merged into the plan.\<close>

definition merge_pool ::
  "(string \<Rightarrow> string) \<Rightarrow> (string \<Rightarrow> string) \<Rightarrow> 'g rand \<Rightarrow> float_ops \<Rightarrow> Config \<Rightarrow> bool \<Rightarrow> string \<Rightarrow> string \<Rightarrow> string \<Rightarrow>
   int \<Rightarrow> int \<Rightarrow> int \<Rightarrow> DungeonRewardPlan result \<Rightarrow> DungeonRewardPlan result" where
  "merge_pool uc quote R fo c wanted poolID opID refID characterID chapterID floorID acc =
     (case acc of
        Inl e \<Rightarrow> Inl e
      | Inr plan \<Rightarrow>
          if wanted
          then (case lootPoolRewards uc quote R fo c poolID opID refID characterID 0 chapterID floorID of
                  Inl e \<Rightarrow> Inl e | Inr part \<Rightarrow> Inr (mergeRewardPlan plan part))
          else Inr plan)"

definition BossRewards ::
  "(string \<Rightarrow> string) \<Rightarrow> (string \<Rightarrow> string) \<Rightarrow> 'g rand \<Rightarrow> float_ops \<Rightarrow> Config \<Rightarrow> BossSettleRequest \<Rightarrow> int \<Rightarrow>
   DungeonRewardPlan result" where
  "BossRewards uc quote R fo c req contribution =
     (let bossKey = TrimSpace (bs_BossKey req) in
      if bossKey = [] then Inl (ErrMsg ''bossKey is required'')
      else case map_of (cfg_Bosses c) bossKey of
             None \<Rightarrow> Inl (ErrMsg (''boss '' @ quote bossKey @ '' is not configured''))
           | Some boss \<Rightarrow>
               let refID = ''boss-'' @ FormatInt (bs_BossEventID req);
                   plan0 = Inr (empty_plan\<lparr>rp_IsBoss := True\<rparr>);
                   plan1 = merge_pool uc quote R fo c (bos_ParticipationLootPoolID boss \<noteq> [])
                     (bos_ParticipationLootPoolID boss) (bs_OpID req @ '':participation'') refID (bs_CharacterID req) 0 0 plan0;
                   plan2 = merge_pool uc quote R fo c (contribution > 0 \<and> bos_LootPoolID boss \<noteq> [])
                     (bos_LootPoolID boss) (bs_OpID req @ '':main'') refID (bs_CharacterID req) contribution 0 plan1
               in merge_pool uc quote R fo c (bossTierPool boss contribution \<noteq> [])
                    (bossTierPool boss contribution) (bs_OpID req @ '':tier'') refID (bs_CharacterID req) contribution 1 plan2)"

section \<open>Recipes, shops, lottery and bounties\<close>

fun recipe_equipment ::
  "'g rand \<Rightarrow> float_ops \<Rightarrow> Config \<Rightarrow> string \<Rightarrow> string \<Rightarrow> int \<Rightarrow> DungeonRewardGrant \<Rightarrow> nat \<Rightarrow> int \<Rightarrow> 'g \<Rightarrow>
   (DungeonRewardGrant list \<times> 'g) result" where
  "recipe_equipment R fo c opID refID index output 0 i g = Inr ([], g)"
| "recipe_equipment R fo c opID refID index output (Suc n) i g =
     (case rollRewardAffixes R fo c g (rg_ItemID output) (rg_Rarity output) (rg_AffixPoolID output) of
        Inl e \<Rightarrow> Inl e
      | Inr (affixes, g1) \<Rightarrow>
          case recipe_equipment R fo c opID refID index output n (i + 1) g1 of
            Inl e \<Rightarrow> Inl e
          | Inr (rest, g2) \<Rightarrow>
              Inr (equipment_grant (rg_ItemID output) (itemRarity (cfg_Items c) (rg_ItemID output) (rg_Rarity output))
                     (itemCategory (cfg_Items c) (rg_ItemID output))
                     (equipmentUID (ecr_EquipmentUIDPrefix (cfg_Rules c)) opID refID index i) affixes # rest, g2))"

fun recipe_outputs ::
  "(string \<Rightarrow> string) \<Rightarrow> (string \<Rightarrow> string) \<Rightarrow> 'g rand \<Rightarrow> float_ops \<Rightarrow> Config \<Rightarrow> string \<Rightarrow> string \<Rightarrow> int \<Rightarrow> int \<Rightarrow>
   DungeonRewardGrant list \<Rightarrow> 'g \<Rightarrow> DungeonRewardGrant list result" where
  "recipe_outputs uc quote R fo c opID recipeID batchCount index [] g = Inr []"
| "recipe_outputs uc quote R fo c opID recipeID batchCount index (output # outputs) g =
     (let totalQty = w64 (rg_Quantity output * batchCount);
          kind = ToLower uc (TrimSpace (rg_RewardType output))
      in if totalQty \<le> 0 then recipe_outputs uc quote R fo c opID recipeID batchCount (index + 1) outputs g
         else
           case (if kind = ''item'' then Inr ([item_grant c (rg_ItemID output) totalQty (rg_Rarity output)], g)
                 else if kind = ''equipment''
                 then recipe_equipment R fo c opID (''recipe:'' @ recipeID) index output (nat totalQty) 0 g
                 else Inl (ErrMsg (''recipe '' @ quote recipeID @ '' has unsupported output type ''
                        @ quote (rg_RewardType output)))) of
             Inl e \<Rightarrow> Inl e
           | Inr (grants, g') \<Rightarrow>
               case recipe_outputs uc quote R fo c opID recipeID batchCount (index + 1) outputs g' of
                 Inl e \<Rightarrow> Inl e | Inr rest \<Rightarrow> Inr (grants @ rest))"

definition RecipePlan ::
  "(string \<Rightarrow> string) \<Rightarrow> (string \<Rightarrow> string) \<Rightarrow> 'g rand \<Rightarrow> float_ops \<Rightarrow> Config \<Rightarrow> string \<Rightarrow> string \<Rightarrow> int \<Rightarrow> int \<Rightarrow>
   (DungeonRewardPlan \<times> RecipeMaterial list) result" where
  "RecipePlan uc quote R fo c recipeID0 opID characterID batchCount0 =
     (let recipeID = TrimSpace recipeID0; batchCount = (if batchCount0 \<le> 0 then 1 else batchCount0) in
      if recipeID = [] then Inl (ErrMsg ''recipeId is required'')
      else case map_of (cfg_Recipes c) recipeID of
             None \<Rightarrow> Inl (ErrMsg (''recipe '' @ quote recipeID @ '' is not configured''))
           | Some recipe \<Rightarrow>
               let inputs = map (\<lambda>input. \<lparr>rmt_ItemID = rmt_ItemID input,
                     rmt_Quantity = w64 (rmt_Quantity input * batchCount)\<rparr>) (rcp_Inputs recipe)
               in case recipe_outputs uc quote R fo c opID recipeID batchCount 0 (rcp_Outputs recipe)
                         (NewPCG R (seed opID recipeID characterID batchCount 0) golden) of
                    Inl e \<Rightarrow> Inl e
                  | Inr grants \<Rightarrow> Inr (empty_plan\<lparr>rp_Items := grants\<rparr>, inputs))"

fun shop_equipment ::
  "'g rand \<Rightarrow> Config \<Rightarrow> string \<Rightarrow> int \<Rightarrow> string \<Rightarrow> int \<Rightarrow> string \<Rightarrow> nat \<Rightarrow> int \<Rightarrow> DungeonRewardGrant list result" where
  "shop_equipment R c opID characterID itemID rarity category 0 i = Inr []"
| "shop_equipment R c opID characterID itemID rarity category (Suc n) i =
     (case (if EquipmentTemplate_get c itemID = None then Inr []
            else case rollEquipmentAffixes R c (NewPCG R (seed opID ''shop'' characterID i 0) shop_stream) itemID rarity of
                   Inl e \<Rightarrow> Inl e | Inr (affixes, _) \<Rightarrow> Inr affixes) of
        Inl e \<Rightarrow> Inl e
      | Inr affixes \<Rightarrow>
          case shop_equipment R c opID characterID itemID rarity category n (i + 1) of
            Inl e \<Rightarrow> Inl e
          | Inr rest \<Rightarrow> Inr (equipment_grant itemID rarity category
              (equipmentUID (ecr_EquipmentUIDPrefix (cfg_Rules c)) opID ''shop'' i 0) affixes # rest))"

definition ShopPurchasePlan ::
  "(string \<Rightarrow> string) \<Rightarrow> 'g rand \<Rightarrow> Config \<Rightarrow> string \<Rightarrow> int \<Rightarrow> string \<Rightarrow> int \<Rightarrow> int \<Rightarrow> DungeonRewardPlan result" where
  "ShopPurchasePlan quote R c opID characterID itemID quantity rarityOverride =
     (case map_of (cfg_Items c) (TrimSpace itemID) of
        None \<Rightarrow> Inl (ErrMsg (''unknown item '' @ quote itemID))
      | Some item \<Rightarrow>
          if quantity \<le> 0 then Inl (ErrMsg ''quantity must be positive'')
          else if itm_GrantGold item > 0 then Inr empty_plan
          else if itm_GrantLockedAEB item > 0
          then Inr (empty_plan\<lparr>rp_TokenReward := w64 (itm_GrantLockedAEB item * quantity)\<rparr>)
          else
            let category = (if TrimSpace (itm_Category item) = [] then ''item'' else TrimSpace (itm_Category item))
            in if \<not> itm_IsEquipment item
               then Inr (empty_plan\<lparr>rp_Items := [\<lparr>rg_RewardType = ''item'', rg_ItemID = itm_ItemID item,
                      rg_Quantity = quantity, rg_EquipmentUID = [], rg_Rarity = itm_Rarity item,
                      rg_Category = category, rg_AffixPoolID = [], rg_Affixes = []\<rparr>]\<rparr>)
               else
                 let rarity = (if rarityOverride \<le> 0 then (if itm_Rarity item \<le> 0 then 1 else itm_Rarity item)
                               else rarityOverride)
                 in case shop_equipment R c opID characterID (itm_ItemID item) rarity category (nat quantity) 0 of
                      Inl e \<Rightarrow> Inl e | Inr grants \<Rightarrow> Inr (empty_plan\<lparr>rp_Items := grants\<rparr>))"

text \<open>\<open>strings.EqualFold(x, "equipment")\<close>: none of its letters folds with a rune outside ASCII.\<close>

definition is_equipment :: "string \<Rightarrow> bool" where
  "is_equipment x \<longleftrightarrow> map lower_char x = ''equipment''"

fun reroll ::
  "'g rand \<Rightarrow> Config \<Rightarrow> string \<Rightarrow> int \<Rightarrow> int \<Rightarrow> int \<Rightarrow> DungeonRewardGrant list \<Rightarrow> DungeonRewardGrant list result" where
  "reroll R c opID characterID rarity index [] = Inr []"
| "reroll R c opID characterID rarity index (grant # grants) =
     (case (if is_equipment (rg_RewardType grant)
            then case rollEquipmentAffixes R c (NewPCG R (seed opID ''mystery'' characterID index 0) shop_stream)
                        (rg_ItemID grant) rarity of
                   Inl e \<Rightarrow> Inl e
                 | Inr (affixes, _) \<Rightarrow> Inr (grant\<lparr>rg_Rarity := rarity, rg_Affixes := affixes\<rparr>)
            else Inr grant) of
        Inl e \<Rightarrow> Inl e
      | Inr grant' \<Rightarrow>
          case reroll R c opID characterID rarity (index + 1) grants of
            Inl e \<Rightarrow> Inl e | Inr rest \<Rightarrow> Inr (grant' # rest))"

definition MysteryShopPurchasePlan ::
  "(string \<Rightarrow> string) \<Rightarrow> 'g rand \<Rightarrow> Config \<Rightarrow> string \<Rightarrow> int \<Rightarrow> MysteryShopOffer \<Rightarrow> DungeonRewardPlan result" where
  "MysteryShopPurchasePlan quote R c opID characterID offer =
     (case ShopPurchasePlan quote R c opID characterID (TrimSpace (mo_ItemID offer))
             (if mo_Quantity offer \<le> 0 then 1 else mo_Quantity offer) 0 of
        Inl e \<Rightarrow> Inl e
      | Inr plan \<Rightarrow>
          if mo_Rarity offer > 0
          then (case reroll R c opID characterID (mo_Rarity offer) 0 (rp_Items plan) of
                  Inl e \<Rightarrow> Inl e | Inr items \<Rightarrow> Inr (plan\<lparr>rp_Items := items\<rparr>))
          else Inr plan)"

text \<open>
  One draw of the lottery. The candidates are collected in the order a \<open>range\<close> loop visits the
  template map and are not sorted: \<open>visit\<close> is that order in this draw.
\<close>

definition pick_item :: "'g rand \<Rightarrow> Config \<Rightarrow> 'g \<Rightarrow> string list \<Rightarrow> (DungeonRewardGrant \<times> 'g) result" where
  "pick_item R c g ids =
     (case IntN R g (int (length ids)) of
        Inl e \<Rightarrow> Inl e | Inr (i, g') \<Rightarrow> Inr (item_grant c (ids ! nat i) 1 0, g'))"

definition lottery_draw ::
  "(string \<Rightarrow> string) \<Rightarrow> 'g rand \<Rightarrow> Config \<Rightarrow> (string \<times> EquipmentTemplate) list \<Rightarrow> string \<Rightarrow> int \<Rightarrow> int \<Rightarrow> 'g \<Rightarrow>
   (DungeonRewardGrant \<times> 'g) result" where
  "lottery_draw quote R c visit opID characterLevel index g =
     (case weightedString R g (lot_CategoryWeight (cfg_Lottery c)) of
        Inl e \<Rightarrow> Inl e
      | Inr (category, g1) \<Rightarrow>
          if category = ''equipment''
          then (case weightedInt R g1 (lot_EquipmentRarityWeight (cfg_Lottery c)) of
                  Inl e \<Rightarrow> Inl e
                | Inr (rarity, g2) \<Rightarrow>
                    let candidates = filter (\<lambda>template. etp_Stage template \<le> characterLevel) (map snd visit)
                    in if candidates = []
                       then Inl (ErrMsg ''no lottery equipment is available at character level'')
                       else case IntN R g2 (int (length candidates)) of
                              Inl e \<Rightarrow> Inl e
                            | Inr (i, g3) \<Rightarrow>
                                let template = candidates ! nat i
                                in case rollEquipmentAffixes R c g3 (etp_ItemID template) rarity of
                                     Inl e \<Rightarrow> Inl e
                                   | Inr (affixes, g4) \<Rightarrow>
                                       Inr (equipment_grant (etp_ItemID template) rarity (etp_Category template)
                                         (equipmentUID (ecr_EquipmentUIDPrefix (cfg_Rules c)) opID ''lottery'' index 0)
                                         affixes, g4))
          else if category = ''rare_material'' then pick_item R c g1 (lot_RareMaterialItemIDs (cfg_Lottery c))
          else if category = ''boss_ticket'' then pick_item R c g1 (lot_BossTicketItemIDs (cfg_Lottery c))
          else if category = ''mount''
          then (case IntN R g1 (int (length (lot_MountItemIDs (cfg_Lottery c)))) of
                  Inl e \<Rightarrow> Inl e
                | Inr (i, g2) \<Rightarrow>
                    Inr (equipment_grant (lot_MountItemIDs (cfg_Lottery c) ! nat i) 5 ''mount''
                      (equipmentUID (ecr_EquipmentUIDPrefix (cfg_Rules c)) opID ''lottery-mount'' index 0) [], g2))
          else Inl (ErrMsg (''unsupported lottery category '' @ quote category)))"

fun lottery_draws ::
  "(string \<Rightarrow> string) \<Rightarrow> 'g rand \<Rightarrow> Config \<Rightarrow> (int \<Rightarrow> (string \<times> EquipmentTemplate) list) \<Rightarrow> string \<Rightarrow> int \<Rightarrow> nat \<Rightarrow>
   int \<Rightarrow> 'g \<Rightarrow> DungeonRewardGrant list result" where
  "lottery_draws quote R c visits opID characterLevel 0 index g = Inr []"
| "lottery_draws quote R c visits opID characterLevel (Suc n) index g =
     (case lottery_draw quote R c (visits index) opID characterLevel index g of
        Inl e \<Rightarrow> Inl e
      | Inr (grant, g') \<Rightarrow>
          case lottery_draws quote R c visits opID characterLevel n (index + 1) g' of
            Inl e \<Rightarrow> Inl e | Inr rest \<Rightarrow> Inr (grant # rest))"

definition LotteryPlan ::
  "(string \<Rightarrow> string) \<Rightarrow> 'g rand \<Rightarrow> Config \<Rightarrow> (int \<Rightarrow> (string \<times> EquipmentTemplate) list) \<Rightarrow> string \<Rightarrow> int \<Rightarrow> int \<Rightarrow>
   int \<Rightarrow> DungeonRewardPlan result" where
  "LotteryPlan quote R c visits opID characterID characterLevel cnt =
     (if cnt < 1 \<or> cnt > lot_MaxCount (cfg_Lottery c)
      then Inl (ErrMsg (''lottery count must be 1..'' @ FormatInt (lot_MaxCount (cfg_Lottery c))))
      else case lottery_draws quote R c visits opID characterLevel (nat cnt) 0
                  (NewPCG R (seed opID ''lottery'' characterID characterLevel cnt) golden) of
             Inl e \<Rightarrow> Inl e | Inr grants \<Rightarrow> Inr (empty_plan\<lparr>rp_Items := grants\<rparr>))"

definition BountyTaskPlan_of ::
  "'g rand \<Rightarrow> Config \<Rightarrow> string \<Rightarrow> int \<Rightarrow> int \<Rightarrow> bool \<Rightarrow> BountyTaskPlan result" where
  "BountyTaskPlan_of R c opID characterID slotIndex premium =
     (if slotIndex < 1 \<or> slotIndex > 5 then Inl (ErrMsg ''bounty slot must be 1..5'')
      else
        let open_tasks = filter (\<lambda>task. btt_Difficulty task = (if premium then ''rare'' else ''normal''))
              (bty_TaskTemplates (cfg_Bounties c))
        in if open_tasks = [] then Inl (ErrMsg ''no bounty template is available'')
           else case IntN R (NewPCG R (seed opID ''bounty'' characterID slotIndex 0) bounty_stream)
                       (weight_total btt_Weight open_tasks) of
                  Inl e \<Rightarrow> Inl e
                | Inr (pick, g1) \<Rightarrow>
                    let selected = (case pick_weighted btt_Weight pick open_tasks of
                          None \<Rightarrow> last open_tasks | Some task \<Rightarrow> task)
                    in case rollQuantity R g1 (btt_QuantityMin selected) (btt_QuantityMax selected) of
                         Inl e \<Rightarrow> Inl e
                       | Inr (required, _) \<Rightarrow>
                           Inr \<lparr>btp_TemplateID = btt_TemplateID selected, btp_Type = btt_Type selected,
                             btp_Difficulty = btt_Difficulty selected, btp_ItemID = btt_ItemID selected,
                             btp_MinRarity = btt_MinRarity selected, btp_Required = required,
                             btp_RewardItemID = btt_RewardItemID selected,
                             btp_RewardQuantity = btt_RewardQuantity selected\<rparr>)"

end
