(* ===== verification/RewardProps.thy ===== *)
theory RewardProps
  imports RewardPlans
begin

text \<open>
  Properties of the reward plans: weighted choice never panics and never misses when the weights
  fit, the rolled affixes of a piece of equipment, the bounds of rolled quantities, the stage a
  character level gives, and what the lottery returns.
\<close>

section \<open>Weighted choice\<close>

text \<open>A chain of fallible draws succeeds when every link does.\<close>

lemma case_result_Inr:
  "(case r of Inl e \<Rightarrow> Inl e | Inr x \<Rightarrow> k x) = Inr y \<longleftrightarrow> (\<exists>x. r = Inr x \<and> k x = Inr y)"
  by (cases r) auto

lemma foldl_w64: "foldl (\<lambda>total row. w64 (total + w row)) a rows = (if rows = [] then a else w64 (a + sum_list (map w rows)))"
  by (induction rows arbitrary: a) (auto simp: add.assoc)

lemma weight_total_eq:
  assumes "\<And>row. row \<in> set rows \<Longrightarrow> 0 \<le> w row" "sum_list (map w rows) < 2 ^ 63"
  shows "weight_total w rows = sum_list (map w rows)"
proof -
  have "0 \<le> sum_list (map w rows)" using assms(1) by (intro sum_list_nonneg) auto
  with assms(2) show ?thesis by (auto simp: weight_total_def foldl_w64 w64_nonneg)
qed

lemma pick_weighted_hits:
  assumes "\<And>row. row \<in> set rows \<Longrightarrow> 0 \<le> w row" "0 \<le> pick" "pick < sum_list (map w rows)" "pick < 2 ^ 63"
  obtains row where "pick_weighted w pick rows = Some row" "row \<in> set rows" "0 < w row"
  using assms
proof (induction rows arbitrary: pick thesis)
  case (Cons r rows)
  show ?case
  proof (cases "pick < w r")
    case True
    then show ?thesis using Cons.prems by (intro Cons.prems(1) [of r]) auto
  next
    case False
    have r: "0 \<le> w r" using Cons.prems(2) by simp
    have eq: "w64 (pick - w r) = pick - w r" using False Cons.prems(5) r by (simp add: w64_nonneg)
    have "0 \<le> pick - w r" "pick - w r < sum_list (map w rows)" "pick - w r < 2 ^ 63"
      using False r Cons.prems(4,5) by simp_all
    then obtain row where "pick_weighted w (pick - w r) rows = Some row" "row \<in> set rows" "0 < w row"
      using Cons.IH [of "pick - w r"] Cons.prems(2) by (metis list.set_intros(2))
    then show ?thesis using False eq by (intro Cons.prems(1) [of row]) auto
  qed
qed simp

lemma IntN_lawful:
  assumes "lawful R" "0 < n"
  obtains i g' where "IntN R g n = Inr (i, g')" "0 \<le> i" "i < n"
proof -
  have "IntN R g n = Inr (fst (draw_IntN R g n), snd (draw_IntN R g n))" using assms(2) by (simp add: IntN_def)
  then show ?thesis using assms that unfolding lawful_def by blast
qed

lemma rollQuantity_bounds:
  assumes "lawful R" "mx < 2 ^ 63" "mn < 2 ^ 63"
  obtains q g' where "rollQuantity R g mn mx = Inr (q, g')" "max 1 mn \<le> q" "q \<le> max (max 1 mn) mx"
proof -
  define lo where "lo = (if mn \<le> 0 then 1 else mn)"
  define hi where "hi = (if mx < lo then lo else mx)"
  have b: "1 \<le> lo" "lo \<le> hi" "hi < 2 ^ 63" using assms(2,3) by (auto simp: lo_def hi_def)
  have as_max: "max 1 mn = lo" "max lo mx = hi" by (auto simp: lo_def hi_def)
  have def: "rollQuantity R g mn mx = (if hi = lo then Inr (lo, g) else case Int64N R g (w64 (w64 (hi - lo) + 1)) of
      Inl e \<Rightarrow> Inl e | Inr (n, g') \<Rightarrow> Inr (w64 (lo + n), g'))"
    by (simp only: rollQuantity_def Let_def lo_def [symmetric] hi_def [symmetric])
  show ?thesis
  proof (cases "hi = lo")
    case True
    then show ?thesis using that [of lo g] b by (simp add: def as_max)
  next
    case False
    let ?n = "hi - lo + 1" and ?d = "draw_Int64N R g (hi - lo + 1)"
    have "w64 (w64 (hi - lo) + 1) = ?n" using b by (simp add: w64_nonneg)
    moreover have "0 \<le> fst ?d" "fst ?d < ?n" using assms(1) b unfolding lawful_def by (metis add_pos_nonneg diff_ge_0_iff_ge zero_less_one add.commute)+
    moreover have "w64 (lo + fst ?d) = lo + fst ?d" using b calculation by (simp add: w64_nonneg)
    ultimately have "rollQuantity R g mn mx = Inr (lo + fst ?d, snd ?d)"
      using False b by (simp add: def Int64N_def case_prod_beta)
    then show ?thesis using that [of "lo + fst ?d"] \<open>0 \<le> fst ?d\<close> \<open>fst ?d < ?n\<close>
      by (simp add: as_max)
  qed
qed

section \<open>Affix rolls\<close>

abbreviation live_weight :: "AffixConfig list \<Rightarrow> int" where
  "live_weight rows \<equiv> sum_list (map aco_Weight (filter (\<lambda>row. aco_Weight row > 0) rows))"

lemma eligible_weight: "sum_list (map aco_Weight (filter (eligible counts) rows)) \<le> live_weight rows"
  by (induction rows) (auto simp: eligible_def)

lemma weightedEligibleAffix_cases:
  assumes "lawful R" "live_weight rows < 2 ^ 63"
  obtains (none) "weightedEligibleAffix R g rows counts = Inr (None, g)" "filter (eligible counts) rows = []"
  | (some) row g' where "weightedEligibleAffix R g rows counts = Inr (Some row, g')" "row \<in> set rows" "eligible counts row"
proof -
  let ?live = "filter (eligible counts) rows"
  have pos: "\<And>row. row \<in> set ?live \<Longrightarrow> 0 \<le> aco_Weight row" by (auto simp: eligible_def)
  have bound: "sum_list (map aco_Weight ?live) < 2 ^ 63" using eligible_weight [of counts rows] assms(2) by linarith
  have total: "weight_total aco_Weight ?live = sum_list (map aco_Weight ?live)"
    by (rule weight_total_eq [OF pos bound])
  show ?thesis
  proof (cases "?live = []")
    case True
    then show ?thesis by (intro none) (simp_all add: weightedEligibleAffix_def weight_total_def)
  next
    case False
    then obtain row rest where live: "?live = row # rest" by (cases ?live) auto
    have "0 < aco_Weight row" using live by (metis eligible_def filter_eq_ConsD)
    moreover have "0 \<le> sum_list (map aco_Weight rest)" using pos live by (intro sum_list_nonneg) auto
    ultimately have tpos: "0 < sum_list (map aco_Weight ?live)" by (simp add: live)
    obtain i g' where i: "IntN R g (sum_list (map aco_Weight ?live)) = Inr (i, g')" "0 \<le> i"
        "i < sum_list (map aco_Weight ?live)"
      using IntN_lawful [OF assms(1) tpos] by metis
    have "i < 2 ^ 63" using i(3) bound by linarith
    with pick_weighted_hits [OF pos i(2,3)] obtain row' where
      "pick_weighted aco_Weight i ?live = Some row'" "row' \<in> set ?live" by metis
    then show ?thesis using i(1) tpos
      by (intro some [of row' g']) (auto simp: weightedEligibleAffix_def total Let_def)
  qed
qed

text \<open>What the roll loop returns from a state in which \<open>counts\<close> were already given out.\<close>

definition rolled ::
  "AffixConfig list \<Rightarrow> nat \<Rightarrow> int \<Rightarrow> (string \<Rightarrow> int) \<Rightarrow> EquipmentAffix list \<Rightarrow> bool" where
  "rolled rows n i counts out \<longleftrightarrow> length out \<le> n \<and>
     (\<forall>a \<in> set out. \<exists>row \<in> set rows. aco_AffixID row = ea_AffixID a \<and> 0 < aco_Weight row) \<and>
     (\<forall>k. counts k + int (count_list (map ea_AffixID out) k) \<le> 2) \<and>
     map ea_InstanceID out = map (\<lambda>k. ''a'' @ FormatInt (i + 1 + int k)) [0..<length out] \<and>
     (length out < n \<longrightarrow> (\<forall>row \<in> set rows. 0 < aco_Weight row \<longrightarrow>
        counts (aco_AffixID row) + int (count_list (map ea_AffixID out) (aco_AffixID row)) = 2))"

lemma rolled_Cons:
  assumes "rolled rows n (i + 1) (counts(k := counts k + 1)) out" and "row \<in> set rows" "aco_AffixID row = k" "0 < aco_Weight row"
    and a: "ea_AffixID a = k" "ea_InstanceID a = ''a'' @ FormatInt (i + 1)"
  shows "rolled rows (Suc n) i counts (a # out)"
proof -
  have shift: "counts j + int (count_list (map ea_AffixID (a # out)) j) =
      (counts(k := counts k + 1)) j + int (count_list (map ea_AffixID out) j)" for j using a(1) by simp
  have "map (\<lambda>j. ''a'' @ FormatInt (i + 1 + int j)) [0..<Suc (length out)] =
      (''a'' @ FormatInt (i + 1)) # map (\<lambda>j. ''a'' @ FormatInt (i + 1 + 1 + int j)) [0..<length out]"
    by (simp only: map_upt_Suc) (simp add: algebra_simps)
  then have "map ea_InstanceID (a # out) = map (\<lambda>j. ''a'' @ FormatInt (i + 1 + int j)) [0..<length (a # out)]"
    using assms(1) a(2) by (simp add: rolled_def)
  then show ?thesis
    using assms(1-4) a(1) unfolding rolled_def shift by auto
qed

lemma roll_semantic_spec:
  assumes "lawful R" "live_weight rows < 2 ^ 63" "\<And>k. 0 \<le> counts k \<and> counts k \<le> 2"
  shows "\<exists>out g'. roll_semantic R rows n i counts g = Inr (out, g') \<and> rolled rows n i counts out"
  using assms(3)
proof (induction n arbitrary: i counts g)
  case 0
  then show ?case by (auto simp: rolled_def)
next
  case (Suc n)
  show ?case
  proof (rule weightedEligibleAffix_cases [OF assms(1,2), where g = g and counts = counts])
    assume none: "weightedEligibleAffix R g rows counts = Inr (None, g)" "filter (eligible counts) rows = []"
    then have "counts (aco_AffixID row) = 2" if "row \<in> set rows" "0 < aco_Weight row" for row
      using that Suc.prems [of "aco_AffixID row"] by (auto simp: filter_empty_conv eligible_def)
    with none(1) Suc.prems show ?thesis by (auto simp: rolled_def)
  next
    fix row g1
    assume some: "weightedEligibleAffix R g rows counts = Inr (Some row, g1)" "row \<in> set rows" "eligible counts row"
    let ?counts = "counts(aco_AffixID row := counts (aco_AffixID row) + 1)"
    have "\<And>k. 0 \<le> ?counts k \<and> ?counts k \<le> 2" using Suc.prems some(3) by (auto simp: eligible_def add_nonneg_nonneg)
    from Suc.IH [where counts = ?counts and i = "i + 1" and g = g1, OF this] obtain out g2 where
      out: "roll_semantic R rows n (i + 1) ?counts g1 = Inr (out, g2)" "rolled rows n (i + 1) ?counts out"
      by (elim exE conjE)
    then show ?thesis using some
      by (auto intro!: rolled_Cons [OF out(2) some(2) refl] simp: eligible_def)
  qed
qed

text \<open>
  Rolling the affixes of a piece of equipment whose template, rarity and pool are
  configured never panics. It gives at most the configured number of affixes, each a key of the
  pool with a positive weight, no key more than twice, numbered a1, a2, and so on; it gives fewer
  only when every key that can be drawn has been drawn twice.
\<close>

lemma equipment_affixes_rolled:
  assumes "lawful R" and "EquipmentTemplate_get c itemID = Some template"
    and "EquipmentRarity_get c rarity = Some rc" and "map_of (cfg_AffixPools c) (etp_AffixPoolID template) = Some pool"
    and "live_weight (apo_Affixes pool) < 2 ^ 63"
  shows "\<exists>out g'. rollEquipmentAffixes R c g itemID rarity = Inr (out, g') \<and>
    int (length out) \<le> max 0 (era_AffixCount rc) \<and>
    (\<forall>a \<in> set out. \<exists>row \<in> set (apo_Affixes pool). aco_AffixID row = ea_AffixID a \<and> 0 < aco_Weight row) \<and>
    (\<forall>k. count_list (map ea_AffixID out) k \<le> 2) \<and>
    map ea_InstanceID out = map (\<lambda>k. ''a'' @ FormatInt (1 + int k)) [0..<length out] \<and>
    (int (length out) < era_AffixCount rc \<longrightarrow>
       (\<forall>row \<in> set (apo_Affixes pool). 0 < aco_Weight row \<longrightarrow> count_list (map ea_AffixID out) (aco_AffixID row) = 2))"
proof -
  obtain out g' where out: "roll_semantic R (apo_Affixes pool) (nat (era_AffixCount rc)) 0 (\<lambda>_. 0) g = Inr (out, g')"
      "rolled (apo_Affixes pool) (nat (era_AffixCount rc)) 0 (\<lambda>_. 0) out"
    using roll_semantic_spec [OF assms(1,5), of "\<lambda>_. 0" "nat (era_AffixCount rc)" 0 g] by auto
  have "rollEquipmentAffixes R c g itemID rarity = Inr (out, g')"
    using out(1) assms(2-4) by (simp add: rollEquipmentAffixes_def)
  moreover have "int (length out) \<le> max 0 (era_AffixCount rc)" using out(2) by (auto simp: rolled_def)
  moreover have "\<forall>k. count_list (map ea_AffixID out) k \<le> 2" using out(2) by (simp add: rolled_def)
  moreover have "int (length out) < era_AffixCount rc \<longrightarrow> (\<forall>row \<in> set (apo_Affixes pool). 0 < aco_Weight row \<longrightarrow>
      count_list (map ea_AffixID out) (aco_AffixID row) = 2)" using out(2) by (auto simp: rolled_def)
  ultimately show ?thesis using out(2) by (auto simp: rolled_def)
qed

definition sample_template :: "string \<Rightarrow> EquipmentTemplate" where
  "sample_template n = \<lparr>etp_ItemID = n, etp_SeriesID = ''s'', etp_Stage = 1, etp_EquipSlot = 0,
     etp_Category = ''weapon'', etp_WeaponType = 1, etp_WeaponTypeKey = ''sword'', etp_DisplayName = n,
     etp_AffixPoolID = ''p'', etp_BaseFlat = [], etp_BasePercent = [], etp_SellPriceGold = [], etp_NPCRecycleGold = []\<rparr>"

definition sample_affix :: "string \<Rightarrow> int \<Rightarrow> AffixConfig" where
  "sample_affix n w = \<lparr>aco_AffixID = n, aco_Stat = ''attack'', aco_Min = Fin 0, aco_Max = Fin 0, aco_Weight = w,
     aco_ValueByStage = []\<rparr>"

definition sample_pool :: AffixPool where
  "sample_pool = \<lparr>apo_AffixPoolID = ''p'', apo_Rolls = \<lparr>aro_Min = 0, aro_Max = 0\<rparr>,
     apo_Affixes = [sample_affix ''x'' 3, sample_affix ''y'' 1]\<rparr>"

definition sample_rarity :: EquipmentRarity where
  "sample_rarity = \<lparr>era_Name = ''rare'', era_Multiplier = Fin 1, era_AffixCount = 5\<rparr>"

definition sample_loot :: LootPool where
  "sample_loot = \<lparr>lpo_LootPoolID = ''l'', lpo_Entries = [\<lparr>len_RewardType = ''item'', len_ItemID = ''ore'',
     len_QuantityMin = 2, len_QuantityMax = 4, len_DropChance = Fin 1, len_Rarity = 0, len_AffixPoolID = [],
     len_EquipmentStageMode = [], len_EquipmentSeries = []\<rparr>]\<rparr>"

definition sample_config :: Config where
  "sample_config = empty_config\<lparr>cfg_AffixPools := [(''p'', sample_pool)], cfg_LootPools := [(''l'', sample_loot)],
     cfg_Equipment := (cfg_Equipment empty_config)\<lparr>eqc_Rarities := [(3, sample_rarity)],
       eqc_ByItemID := [(''ta'', sample_template ''ta''), (''tb'', sample_template ''tb'')]\<rparr>,
     cfg_Lottery := (cfg_Lottery empty_config)\<lparr>lot_MaxCount := 10, lot_CategoryWeight := [(''equipment'', 1)],
       lot_EquipmentRarityWeight := [(9, 1)]\<rparr>\<rparr>"

definition sample_rand :: "nat rand" where
  "sample_rand = \<lparr>NewPCG = (\<lambda>_ _. 0), draw_IntN = (\<lambda>g n. (int g mod n, Suc g)),
     draw_Int64N = (\<lambda>g n. (int g mod n, Suc g)), draw_Float64 = (\<lambda>g. (Fin 0, Suc g))\<rparr>"

lemma sample_rand_lawful: "lawful sample_rand"
  by (simp add: lawful_def sample_rand_def)

lemma sample_config_fields [simp]:
  "cfg_AffixPools sample_config = [(''p'', sample_pool)]" "cfg_LootPools sample_config = [(''l'', sample_loot)]"
  "eqc_Rarities (cfg_Equipment sample_config) = [(3, sample_rarity)]"
  "eqc_ByItemID (cfg_Equipment sample_config) = [(''ta'', sample_template ''ta''), (''tb'', sample_template ''tb'')]"
  "lot_MaxCount (cfg_Lottery sample_config) = 10" "lot_CategoryWeight (cfg_Lottery sample_config) = [(''equipment'', 1)]"
  "lot_EquipmentRarityWeight (cfg_Lottery sample_config) = [(9, 1)]"
  by (simp_all add: sample_config_def)

lemma trim_ta [simp]: "TrimSpace ''ta'' = ''ta''"
  by (simp add: TrimSpace_def space1_def space2_def)

lemma equipment_affixes_rolled_witness:
  "\<exists>out g'. rollEquipmentAffixes sample_rand sample_config 0 ''ta'' 3 = Inr (out, g') \<and> length out \<le> 5 \<and>
     (\<forall>k. count_list (map ea_AffixID out) k \<le> 2)"
  using equipment_affixes_rolled [OF sample_rand_lawful, of sample_config "''ta''" "sample_template ''ta''" 3
      sample_rarity sample_pool 0]
  by (auto simp: EquipmentTemplate_get_def EquipmentRarity_get_def sample_template_def sample_rarity_def
      sample_pool_def sample_affix_def)

section \<open>Loot pools\<close>

definition quantity_of :: "LootEntry \<Rightarrow> int \<Rightarrow> bool" where
  "quantity_of entry q \<longleftrightarrow> max 1 (len_QuantityMin entry) \<le> q \<and>
     q \<le> max (max 1 (len_QuantityMin entry)) (len_QuantityMax entry)"

definition granted_by :: "(string \<Rightarrow> string) \<Rightarrow> Config \<Rightarrow> int \<Rightarrow> LootEntry \<Rightarrow> DungeonRewardGrant \<Rightarrow> bool" where
  "granted_by uc c level entry grant \<longleftrightarrow>
     ToLower uc (len_RewardType entry) = ''item'' \<and> rg_RewardType grant = ''item'' \<and>
       rg_ItemID grant = len_ItemID entry \<and> quantity_of entry (rg_Quantity grant) \<or>
     ToLower uc (len_RewardType entry) = ''equipment'' \<and> rg_RewardType grant = ''equipment'' \<and> rg_Quantity grant = 1 \<and>
       (if TrimSpace (len_EquipmentStageMode entry) = [] then rg_ItemID grant = len_ItemID entry
        else \<exists>template \<in> set (equipmentTemplatesByStageAndSeries c (equipmentStageForCharacterLevel c level)
               (len_EquipmentSeries entry)). rg_ItemID grant = etp_ItemID template)"

definition token_cap :: "(string \<Rightarrow> string) \<Rightarrow> LootEntry list \<Rightarrow> int" where
  "token_cap uc entries = sum_list (map (\<lambda>entry. max (max 1 (len_QuantityMin entry)) (len_QuantityMax entry))
     (filter (\<lambda>entry. ToLower uc (len_RewardType entry) = ''token'') entries))"

definition in_range :: "LootEntry \<Rightarrow> bool" where
  "in_range entry \<longleftrightarrow> i64 (len_QuantityMin entry) \<and> i64 (len_QuantityMax entry)"

lemma level_scaled_from:
  assumes "lawful R" "rollLevelScaledEquipmentTemplate quote R c g entry level = Inr (template, g')"
  shows "template \<in> set (equipmentTemplatesByStageAndSeries c (equipmentStageForCharacterLevel c level)
    (len_EquipmentSeries entry))"
proof -
  let ?cs = "equipmentTemplatesByStageAndSeries c (equipmentStageForCharacterLevel c level) (len_EquipmentSeries entry)"
  have ne: "?cs \<noteq> []" using assms(2) by (auto simp: rollLevelScaledEquipmentTemplate_def Let_def split: if_splits)
  then obtain i g1 where i: "IntN R g (int (length ?cs)) = Inr (i, g1)" "0 \<le> i" "i < int (length ?cs)"
    using IntN_lawful [OF assms(1), of "int (length ?cs)" g] by (metis length_greater_0_conv of_nat_0_less_iff)
  then have "template = ?cs ! nat i"
    using assms(2) ne by (auto simp: rollLevelScaledEquipmentTemplate_def Let_def split: if_splits)
  then show ?thesis using i(2,3) by (metis nat_less_iff nth_mem)
qed

lemma loot_equipment_grants:
  assumes "lawful R" "ToLower uc (len_RewardType entry) = ''equipment''"
    "loot_equipment quote R fo c opID refID level index entry n i g = Inr (grants, g')"
  shows "length grants = n \<and> (\<forall>grant \<in> set grants. granted_by uc c level entry grant)"
  using assms(3)
proof (induction n arbitrary: i g grants)
  case (Suc n)
  define chosen where "chosen = (if TrimSpace (len_EquipmentStageMode entry) \<noteq> []
        then case rollLevelScaledEquipmentTemplate quote R c g entry level of
               Inl e \<Rightarrow> Inl e | Inr (template, g') \<Rightarrow> Inr (etp_ItemID template, g')
        else Inr (len_ItemID entry, g))"
  obtain itemID g1 affixes g2 rest where
    item: "chosen = Inr (itemID, g1)"
    and rec: "loot_equipment quote R fo c opID refID level index entry n (i + 1) g2 = Inr (rest, g')"
    and grants: "grants = equipment_grant itemID (itemRarity (cfg_Items c) itemID (len_Rarity entry))
        (itemCategory (cfg_Items c) itemID) (equipmentUID (ecr_EquipmentUIDPrefix (cfg_Rules c)) opID refID index i)
        affixes # rest"
    using Suc.prems unfolding loot_equipment.simps chosen_def [symmetric]
    by (auto simp: case_result_Inr)
  have "granted_by uc c level entry (hd grants)"
    using item assms(2) level_scaled_from [OF assms(1)]
    by (auto simp: granted_by_def grants equipment_grant_def chosen_def case_result_Inr split: if_splits)
  then show ?case using Suc.IH [OF rec] by (auto simp: grants)
qed simp

text \<open>One entry: what it adds to the plan.\<close>

definition adds :: "(string \<Rightarrow> string) \<Rightarrow> Config \<Rightarrow> int \<Rightarrow> LootEntry list \<Rightarrow> DungeonRewardPlan \<Rightarrow> DungeonRewardPlan \<Rightarrow> bool" where
  "adds uc c level entries plan plan' \<longleftrightarrow>
     (\<exists>extra. rp_Items plan' = rp_Items plan @ extra \<and>
        (\<forall>grant \<in> set extra. \<exists>entry \<in> set entries. granted_by uc c level entry grant)) \<and>
     rp_TokenReward plan \<le> rp_TokenReward plan' \<and> rp_TokenReward plan' \<le> rp_TokenReward plan + token_cap uc entries \<and>
     rp_IsBoss plan' = rp_IsBoss plan"

lemma token_cap_Cons: "token_cap uc (entry # entries) =
    (if ToLower uc (len_RewardType entry) = ''token''
     then max (max 1 (len_QuantityMin entry)) (len_QuantityMax entry) else 0) + token_cap uc entries"
  by (simp add: token_cap_def)

lemma token_cap_nonneg: "0 \<le> token_cap uc entries"
  unfolding token_cap_def by (intro sum_list_nonneg) auto

lemma adds_mono:
  assumes "adds uc c level entries plan1 plan'" "adds uc c level [entry] plan plan1"
  shows "adds uc c level (entry # entries) plan plan'"
  using assms token_cap_Cons [of uc entry entries] token_cap_Cons [of uc entry "[]"]
  by (fastforce simp: adds_def token_cap_def)

lemma adds_skip: "adds uc c level entries plan plan' \<Longrightarrow> adds uc c level (entry # entries) plan plan'"
  using token_cap_Cons [of uc entry entries] by (fastforce simp: adds_def)

lemma loot_entries_adds:
  assumes "lawful R" "\<And>entry. entry \<in> set entries \<Longrightarrow> in_range entry"
    and "0 \<le> rp_TokenReward plan" "rp_TokenReward plan + token_cap uc entries < 2 ^ 63"
    and "loot_entries uc quote R fo c opID refID level index entries plan g = Inr plan'"
  shows "adds uc c level entries plan plan'"
  using assms(2-)
proof (induction entries arbitrary: index plan g)
  case Nil
  then show ?case by (simp add: adds_def token_cap_def)
next
  case (Cons entry entries)
  define drop where "drop = (if float_less (len_DropChance entry) (Fin 1)
    then let (x, g') = draw_Float64 R g in (float_less (len_DropChance entry) x, g') else (False, g))"
  have capped: "rp_TokenReward p + token_cap uc entries < 2 ^ 63" if "rp_TokenReward p = rp_TokenReward plan" for p :: DungeonRewardPlan
    using Cons.prems(3) that by (simp add: token_cap_Cons split: if_splits)
  obtain dropped g1 where d: "drop = (dropped, g1)" by (cases drop)
  show ?case
  proof (cases dropped)
    case True
    have "loot_entries uc quote R fo c opID refID level (index + 1) entries plan g1 = Inr plan'"
      using Cons.prems(4) True d by (simp add: drop_def [symmetric] del: loot_entries.simps add: loot_entries.simps(2))
    then show ?thesis using Cons.prems(1,2) capped by (intro adds_skip Cons.IH) auto
  next
    case False
    have range: "len_QuantityMax entry < 2 ^ 63" "len_QuantityMin entry < 2 ^ 63"
      using Cons.prems(1) [of entry] by (auto simp: in_range_def i64_def)
    obtain q g2 where q: "rollQuantity R g1 (len_QuantityMin entry) (len_QuantityMax entry) = Inr (q, g2)"
        "max 1 (len_QuantityMin entry) \<le> q" "q \<le> max (max 1 (len_QuantityMin entry)) (len_QuantityMax entry)"
      using rollQuantity_bounds [OF assms(1) range] by metis
    have qpos: "\<not> q \<le> 0" using q(2) by simp
    define kind where "kind = ToLower uc (len_RewardType entry)"
    let ?rec = "loot_entries uc quote R fo c opID refID level (index + 1) entries"
    have step: "(if kind = ''item''
        then ?rec (plan\<lparr>rp_Items := rp_Items plan @ [item_grant c (len_ItemID entry) q (len_Rarity entry)]\<rparr>) g2
        else if kind = ''equipment''
        then (case loot_equipment quote R fo c opID refID level index entry (nat q) 0 g2 of
                Inl e \<Rightarrow> Inl e | Inr (grants, g3) \<Rightarrow> ?rec (plan\<lparr>rp_Items := rp_Items plan @ grants\<rparr>) g3)
        else if kind = ''token'' then ?rec (plan\<lparr>rp_TokenReward := w64 (rp_TokenReward plan + q)\<rparr>) g2
        else Inl (ErrMsg (''unsupported reward type '' @ quote (len_RewardType entry)))) = Inr plan'"
      using Cons.prems(4) q(1) qpos False
      unfolding loot_entries.simps drop_def [symmetric] d kind_def by (simp add: Let_def)
    note IH = Cons.IH [OF Cons.prems(1), OF list.set_intros(2)]
    consider (item) "kind = ''item''" | (equipment) "kind = ''equipment''" | (token) "kind = ''token''"
      using step by (auto split: if_splits)
    then show ?thesis
    proof cases
      case item
      have "adds uc c level [entry] plan
          (plan\<lparr>rp_Items := rp_Items plan @ [item_grant c (len_ItemID entry) q (len_Rarity entry)]\<rparr>)"
        using item q(2,3) token_cap_nonneg [of uc "[entry]"]
        by (simp add: adds_def granted_by_def quantity_of_def item_grant_def kind_def)
      moreover have "?rec (plan\<lparr>rp_Items := rp_Items plan @ [item_grant c (len_ItemID entry) q (len_Rarity entry)]\<rparr>) g2
          = Inr plan'" using step item by simp
      ultimately show ?thesis using Cons.prems(2) capped by (intro adds_mono [OF IH]) auto
    next
      case equipment
      then obtain grants g3 where
        run: "loot_equipment quote R fo c opID refID level index entry (nat q) 0 g2 = Inr (grants, g3)"
          "?rec (plan\<lparr>rp_Items := rp_Items plan @ grants\<rparr>) g3 = Inr plan'"
        using step by (auto simp: case_result_Inr)
      have "adds uc c level [entry] plan (plan\<lparr>rp_Items := rp_Items plan @ grants\<rparr>)"
        using loot_equipment_grants [OF assms(1) equipment [unfolded kind_def] run(1)] token_cap_nonneg [of uc "[entry]"]
        by (simp add: adds_def)
      with run(2) show ?thesis using Cons.prems(2) capped by (intro adds_mono [OF IH]) auto
    next
      case token
      have small: "rp_TokenReward plan + q + token_cap uc entries < 2 ^ 63"
        using Cons.prems(3) token q(3) by (simp add: token_cap_Cons kind_def)
      then have w: "w64 (rp_TokenReward plan + q) = rp_TokenReward plan + q"
        using Cons.prems(2) qpos token_cap_nonneg [of uc entries] by (intro w64_nonneg) linarith+
      have "adds uc c level [entry] plan (plan\<lparr>rp_TokenReward := rp_TokenReward plan + q\<rparr>)"
        using token q(3) qpos by (simp add: adds_def token_cap_Cons [of uc entry "[]"] token_cap_def kind_def)
      moreover have "?rec (plan\<lparr>rp_TokenReward := rp_TokenReward plan + q\<rparr>) g2 = Inr plan'" using step token w by simp
      ultimately show ?thesis using Cons.prems(2) small qpos by (intro adds_mono [OF IH]) auto
    qed
  qed
qed

text \<open>
  A plan rolled from a loot pool contains nothing the pool does not allow: every
  item in it is the item of an entry in a quantity within that entry's range, every piece of
  equipment comes one at a time from an equipment entry (the configured item, or a template of the
  stage the character's level gives), and the AEB reward lies between zero and the sum of the
  token entries' maxima.
\<close>

lemma loot_plan_within_pool:
  assumes "lawful R" and "map_of (cfg_LootPools c) poolID = Some pool"
    and "\<forall>entry \<in> set (lpo_Entries pool). in_range entry" and "token_cap uc (lpo_Entries pool) < 2 ^ 63"
    and "lootPoolRewards uc quote R fo c poolID opID refID characterID level chapterID floorID = Inr plan"
  shows "(\<forall>grant \<in> set (rp_Items plan). \<exists>entry \<in> set (lpo_Entries pool). granted_by uc c level entry grant) \<and>
    0 \<le> rp_TokenReward plan \<and> rp_TokenReward plan \<le> token_cap uc (lpo_Entries pool) \<and> \<not> rp_IsBoss plan"
proof -
  have "adds uc c level (lpo_Entries pool) empty_plan plan"
    by (rule loot_entries_adds [OF assms(1)])
      (use assms(2-5) in \<open>auto simp: lootPoolRewards_def empty_plan_def\<close>)
  then show ?thesis by (auto simp: adds_def empty_plan_def)
qed

definition sample_floats :: float_ops where
  "sample_floats = \<lparr>f_add = (\<lambda>x _. x), f_sub = (\<lambda>x _. x), f_mul = (\<lambda>x _. x), f_div = (\<lambda>x _. x), f_of_int = (\<lambda>_. Fin 0)\<rparr>"

lemma loot_plan_within_pool_witness:
  "\<exists>plan. lootPoolRewards (\<lambda>x. x) (\<lambda>x. x) sample_rand sample_floats sample_config ''l'' ''op'' ''ref'' 1 1 0 0 = Inr plan \<and>
     rp_Items plan \<noteq> [] \<and>
     (\<forall>grant \<in> set (rp_Items plan). \<exists>entry \<in> set (lpo_Entries sample_loot). granted_by (\<lambda>x. x) sample_config 1 entry grant)"
proof -
  have "ToLower (\<lambda>x. x) ''item'' = ''item''" by (simp add: ToLower_def ascii_def lower_char_def)
  then obtain plan where plan:
    "lootPoolRewards (\<lambda>x. x) (\<lambda>x. x) sample_rand sample_floats sample_config ''l'' ''op'' ''ref'' 1 1 0 0 = Inr plan"
    "rp_Items plan \<noteq> []"
    by (simp add: lootPoolRewards_def sample_loot_def empty_plan_def rollQuantity_def Int64N_def w64_def
        sample_rand_def Let_def item_grant_def)
  moreover have "\<forall>grant \<in> set (rp_Items plan). \<exists>entry \<in> set (lpo_Entries sample_loot).
      granted_by (\<lambda>x. x) sample_config 1 entry grant"
    using loot_plan_within_pool [OF sample_rand_lawful _ _ _ plan(1), of sample_loot]
    by (simp add: sample_loot_def in_range_def i64_def token_cap_def ToLower_def ascii_def lower_char_def)
  ultimately show ?thesis by blast
qed

section \<open>The lottery\<close>

text \<open>
  Property C38. Two runs of the lottery with the same operation, character, level and count and
  the same generator can give different rewards: the equipment candidates are drawn from in the
  order in which the runtime visits the template map.
\<close>

theorem lottery_depends_on_visiting_order:
  "\<exists>(R :: nat rand) c v1 v2 p1 p2. lawful R \<and> mset v1 = mset v2 \<and> mset v1 = mset (eqc_ByItemID (cfg_Equipment c)) \<and>
     LotteryPlan (\<lambda>x. x) R c (\<lambda>_. v1) ''op'' 1 1 1 = Inr p1 \<and> LotteryPlan (\<lambda>x. x) R c (\<lambda>_. v2) ''op'' 1 1 1 = Inr p2 \<and>
     map rg_ItemID (rp_Items p1) \<noteq> map rg_ItemID (rp_Items p2)"
proof -
  let ?a = "(''ta'', sample_template ''ta'')" and ?b = "(''tb'', sample_template ''tb'')"
  have run: "\<exists>p. LotteryPlan (\<lambda>x. x) sample_rand sample_config (\<lambda>_. [x, y]) ''op'' 1 1 1 = Inr p \<and>
      map rg_ItemID (rp_Items p) = [etp_ItemID (snd x)]"
    if "x \<in> {?a, ?b}" "y \<in> {?a, ?b}" for x y
  proof -
    have "rollEquipmentAffixes sample_rand sample_config g i 9 = Inr ([], g)" for g i
      by (simp add: rollEquipmentAffixes_def EquipmentRarity_get_def split: option.split)
    then show ?thesis using that
      by (auto simp: LotteryPlan_def lottery_draw_def weightedString_def weightedInt_def IntN_def weight_total_def
          sample_rand_def w64_def Let_def sample_template_def equipment_grant_def empty_plan_def)
  qed
  obtain p1 p2 where
    "LotteryPlan (\<lambda>x. x) sample_rand sample_config (\<lambda>_. [?a, ?b]) ''op'' 1 1 1 = Inr p1"
    "map rg_ItemID (rp_Items p1) = [''ta'']"
    "LotteryPlan (\<lambda>x. x) sample_rand sample_config (\<lambda>_. [?b, ?a]) ''op'' 1 1 1 = Inr p2"
    "map rg_ItemID (rp_Items p2) = [''tb'']"
    using run [of ?a ?b] run [of ?b ?a] by (auto simp: sample_template_def)
  then show ?thesis
    by (intro exI [of _ sample_rand] exI [of _ sample_config] exI [of _ "[?a, ?b]"] exI [of _ "[?b, ?a]"]
        exI [of _ p1] exI [of _ p2]) (simp add: sample_rand_lawful)
qed

end
