(* ===== verification/Security.thy ===== *)
theory Security
  imports Solana StoreState
begin

text \<open>
  Bearer tokens and signed service requests (\<open>src/internal/platform/security/token.go\<close> and
  \<open>service_request.go\<close>).

  HMAC-SHA256 is the argument \<open>hmac\<close> (secret, text, digest), SHA-256 the argument \<open>sha256\<close>, Ed25519
  verification \<open>verify\<close>; the JSON encoding and decoding of the claims are the arguments \<open>enc\<close> and
  \<open>dec\<close>, of which the round trip theorem assumes \<open>dec (enc c) = Inr c\<close>. Unpadded URL-safe base64,
  \<open>strings.Split\<close> and \<open>strconv.ParseInt\<close> are written out.
\<close>

section \<open>Unpadded URL-safe base64\<close>

definition b64url_alphabet :: string where
  "b64url_alphabet = ''ABCDEFGHIJKLMNOPQRSTUVWXYZabcdefghijklmnopqrstuvwxyz0123456789-_''"

definition b64url :: "nat \<Rightarrow> char" where "b64url d = b64url_alphabet ! d"

fun RawURL_EncodeToString :: "string \<Rightarrow> string" where
  "RawURL_EncodeToString (a # b # c # s) =
     (let x = of_char a; y = of_char b; z = of_char c in
      b64url (x div 4) # b64url (x mod 4 * 16 + y div 16) # b64url (y mod 16 * 4 + z div 64) # b64url (z mod 64)
      # RawURL_EncodeToString s)"
| "RawURL_EncodeToString [a, b] =
     (let x = of_char a; y = of_char b in
      [b64url (x div 4), b64url (x mod 4 * 16 + y div 16), b64url (y mod 16 * 4)])"
| "RawURL_EncodeToString [a] = (let x = of_char a in [b64url (x div 4), b64url (x mod 4 * 16)])"
| "RawURL_EncodeToString [] = []"

fun b64url_bytes :: "nat list \<Rightarrow> string option" where
  "b64url_bytes (w # x # y # z # s) =
     map_option (\<lambda>out. char_of (w * 4 + x div 16) # char_of (x mod 16 * 16 + y div 4) # char_of (y mod 4 * 64 + z) # out)
       (b64url_bytes s)"
| "b64url_bytes [w, x, y] = Some [char_of (w * 4 + x div 16), char_of (x mod 16 * 16 + y div 4)]"
| "b64url_bytes [w, x] = Some [char_of (w * 4 + x div 16)]"
| "b64url_bytes [w] = None"
| "b64url_bytes [] = Some []"

text \<open>Line breaks are skipped; unused low bits of the last digit are ignored.\<close>

definition RawURL_DecodeString :: "string \<Rightarrow> string result" where
  "RawURL_DecodeString s =
     (case those (map (\<lambda>c. index_in c b64url_alphabet) (filter (\<lambda>c. c \<noteq> CHR 0x0A \<and> c \<noteq> CHR 0x0D) s)) of
        None \<Rightarrow> Inl (ErrMsg ''illegal base64 data'')
      | Some ds \<Rightarrow> case b64url_bytes ds of None \<Rightarrow> Inl (ErrMsg ''illegal base64 data'') | Some out \<Rightarrow> Inr out)"

section \<open>Strings and numbers\<close>

text \<open>\<open>strings.Split\<close> at a one-byte separator.\<close>

fun Split :: "char \<Rightarrow> string \<Rightarrow> string list" where
  "Split sep [] = [[]]"
| "Split sep (c # s) =
     (if c = sep then [] # Split sep s
      else case Split sep s of [] \<Rightarrow> [[c]] | p # ps \<Rightarrow> (c # p) # ps)"

definition is_digit :: "char \<Rightarrow> bool" where
  "is_digit c \<longleftrightarrow> (48 :: nat) \<le> of_char c \<and> of_char c < (58 :: nat)"

text \<open>\<open>strconv.ParseInt(s, 10, 64)\<close>.\<close>

definition ParseInt :: "string \<Rightarrow> int option" where
  "ParseInt s =
     (let neg = (s \<noteq> [] \<and> hd s = CHR ''-'');
          ds = (if s \<noteq> [] \<and> (hd s = CHR ''-'' \<or> hd s = CHR ''+'') then tl s else s);
          n = (if neg then - int (readNat ds) else int (readNat ds))
      in if ds = [] \<or> \<not> list_all is_digit ds \<or> \<not> i64 n then None else Some n)"

definition Unix :: "time \<Rightarrow> int" where "Unix t = (t - unix_epoch) div 1000000000"

section \<open>Tokens\<close>

record Claims =
  cl_Subject :: int
  cl_Username :: string
  cl_ExpiresAt :: int

record AdminClaims =
  acl_Subject :: string
  acl_Username :: string
  acl_Role :: string
  acl_ExpiresAt :: int

definition sign :: "(string \<Rightarrow> string \<Rightarrow> string) \<Rightarrow> string \<Rightarrow> string \<Rightarrow> string" where
  "sign hmac secret value = RawURL_EncodeToString (hmac secret value)"

text \<open>Signing reads the clock once; \<open>now\<close> is that reading. Encoding these claims cannot fail.\<close>

definition SignAccessToken ::
  "(string \<Rightarrow> string \<Rightarrow> string) \<Rightarrow> (Claims \<Rightarrow> string) \<Rightarrow> time \<Rightarrow> string \<Rightarrow> int \<Rightarrow> string \<Rightarrow> int \<Rightarrow> string" where
  "SignAccessToken hmac enc now secret accountID username ttl =
     (let claims = \<lparr>cl_Subject = accountID, cl_Username = username, cl_ExpiresAt = Unix (now + ttl)\<rparr>;
          encoded = RawURL_EncodeToString (enc claims)
      in encoded @ ''.'' @ sign hmac secret encoded)"

definition SignAdminAccessToken ::
  "(string \<Rightarrow> string) \<Rightarrow> (string \<Rightarrow> string \<Rightarrow> string) \<Rightarrow> (AdminClaims \<Rightarrow> string) \<Rightarrow> time \<Rightarrow> string \<Rightarrow> string \<Rightarrow> string \<Rightarrow>
   string \<Rightarrow> int \<Rightarrow> string \<times> time" where
  "SignAdminAccessToken uc hmac enc now secret adminID username role ttl =
     (let claims = \<lparr>acl_Subject = TrimSpace adminID, acl_Username = TrimSpace username,
                    acl_Role = ToUpper uc (TrimSpace role), acl_ExpiresAt = Unix (now + ttl)\<rparr>;
          encoded = RawURL_EncodeToString (enc claims)
      in (encoded @ ''.'' @ sign hmac secret encoded, now + ttl))"

definition VerifyAccessToken ::
  "(string \<Rightarrow> string \<Rightarrow> string) \<Rightarrow> (string \<Rightarrow> Claims result) \<Rightarrow> time \<Rightarrow> string \<Rightarrow> string \<Rightarrow> Claims result" where
  "VerifyAccessToken hmac dec now secret token =
     (let parts = Split CHR ''.'' token in
      if length parts \<noteq> 2 then Inl (ErrMsg ''token is malformed'')
      else if sign hmac secret (parts ! 0) \<noteq> parts ! 1 then Inl (ErrMsg ''token signature is invalid'')
      else case RawURL_DecodeString (parts ! 0) of
             Inl e \<Rightarrow> Inl e
           | Inr payload \<Rightarrow>
               case dec payload of
                 Inl e \<Rightarrow> Inl e
               | Inr claims \<Rightarrow>
                   if cl_Subject claims \<le> 0 \<or> cl_ExpiresAt claims < Unix now
                   then Inl (ErrMsg ''token is expired'') else Inr claims)"

definition VerifyAdminAccessToken ::
  "(string \<Rightarrow> string) \<Rightarrow> (string \<Rightarrow> string \<Rightarrow> string) \<Rightarrow> (string \<Rightarrow> AdminClaims result) \<Rightarrow> time \<Rightarrow> string \<Rightarrow> string \<Rightarrow>
   AdminClaims result" where
  "VerifyAdminAccessToken uc hmac dec now secret token =
     (let parts = Split CHR ''.'' token in
      if length parts \<noteq> 2 then Inl (ErrMsg ''token is malformed'')
      else if sign hmac secret (parts ! 0) \<noteq> parts ! 1 then Inl (ErrMsg ''token signature is invalid'')
      else case RawURL_DecodeString (parts ! 0) of
             Inl e \<Rightarrow> Inl e
           | Inr payload \<Rightarrow>
               case dec payload of
                 Inl e \<Rightarrow> Inl e
               | Inr claims0 \<Rightarrow>
                   let claims = claims0\<lparr>acl_Subject := TrimSpace (acl_Subject claims0),
                                        acl_Role := ToUpper uc (TrimSpace (acl_Role claims0))\<rparr>
                   in if acl_Subject claims = [] \<or> acl_ExpiresAt claims < Unix now
                      then Inl (ErrMsg ''token is expired'') else Inr claims)"

definition BearerToken :: "string \<Rightarrow> string" where
  "BearerToken header =
     (if take 7 header \<noteq> ''Bearer '' then [] else TrimSpace (drop 7 header))"

definition TicketMessage :: "int \<Rightarrow> int \<Rightarrow> string \<Rightarrow> string" where
  "TicketMessage accountID characterID nonce =
     ''Aeonblight game ticket account='' @ FormatInt accountID @ '' character='' @ FormatInt characterID
     @ '' nonce='' @ nonce"

definition newline :: string where "newline = [CHR 0x0A]"

definition AdminLoginMessage :: "string \<Rightarrow> string \<Rightarrow> string" where
  "AdminLoginMessage adminID nonce =
     ''Sign in to Aeonblight Admin'' @ newline @ ''Admin: '' @ TrimSpace adminID @ newline @ ''Nonce: '' @ TrimSpace nonce
     @ newline @ ''This signature authorizes a short-lived admin session only.''"

definition VerifyEd25519Signature ::
  "(string \<Rightarrow> string \<Rightarrow> string \<Rightarrow> bool) \<Rightarrow> string \<Rightarrow> string \<Rightarrow> string \<Rightarrow> unit result" where
  "VerifyEd25519Signature verify publicKey message signatureText =
     (let bad_key = Inl (ErrMsg ''public key must be a 32-byte Ed25519 base58 public key'') in
      case DecodeBase58 (TrimSpace publicKey) of
        Inl _ \<Rightarrow> bad_key
      | Inr key \<Rightarrow>
          if length key \<noteq> 32 then bad_key
          else case DecodeSignature (TrimSpace signatureText) of
                 Inl e \<Rightarrow> Inl e
               | Inr signature \<Rightarrow>
                   if \<not> verify key message signature then Inl (ErrMsg ''signature is invalid'') else Inr ())"

definition ParseID :: "string \<Rightarrow> int result" where
  "ParseID value =
     (case ParseInt (TrimSpace value) of
        None \<Rightarrow> Inl (ErrMsg ''invalid id'')
      | Some n \<Rightarrow> if n \<le> 0 then Inl (ErrMsg ''invalid id'') else Inr n)"

section \<open>Signed service requests\<close>

text \<open>
  What the two functions read of an \<open>http.Request\<close>: the four headers (empty when missing), the
  method, the escaped path, the raw query and the body (\<open>None\<close> when nil).
\<close>

record request =
  rq_ServiceID :: string
  rq_Timestamp :: string
  rq_Nonce :: string
  rq_Signature :: string
  rq_Method :: string
  rq_EscapedPath :: string
  rq_RawQuery :: string
  rq_Body :: "string option"

definition MaxSignedServiceBodyBytes :: int where "MaxSignedServiceBodyBytes = 2 ^ 20"

definition signedRequestBody :: "request \<Rightarrow> string result" where
  "signedRequestBody req =
     (case rq_Body req of
        None \<Rightarrow> Inr []
      | Some body \<Rightarrow>
          if int (length body) > MaxSignedServiceBodyBytes
          then Inl (ErrMsg (''request body exceeds '' @ FormatInt MaxSignedServiceBodyBytes @ '' bytes''))
          else Inr body)"

definition requestTarget :: "request \<Rightarrow> string" where
  "requestTarget req = rq_EscapedPath req @ (if rq_RawQuery req \<noteq> [] then ''?'' @ rq_RawQuery req else [])"

definition join_lines :: "string list \<Rightarrow> string" where
  "join_lines ss = (case ss of [] \<Rightarrow> [] | s # rest \<Rightarrow> s @ concat (map (\<lambda>x. newline @ x) rest))"

definition serviceRequestMessage ::
  "(string \<Rightarrow> string) \<Rightarrow> (string \<Rightarrow> string) \<Rightarrow> string \<Rightarrow> string \<Rightarrow> string \<Rightarrow> string \<Rightarrow> string \<Rightarrow> string \<Rightarrow> string" where
  "serviceRequestMessage uc sha256 serviceID timestamp nonce method target body =
     join_lines [''AEONBLIGHT-SERVICE-V1'', serviceID, timestamp, nonce, ToUpper uc (TrimSpace method), target,
       hex_EncodeToString (sha256 body)]"

definition nonce_char :: "char \<Rightarrow> bool" where
  "nonce_char c \<longleftrightarrow> (let n = of_char c :: nat in
     97 \<le> n \<and> n \<le> 122 \<or> 65 \<le> n \<and> n \<le> 90 \<or> 48 \<le> n \<and> n \<le> 57 \<or> c \<in> set ''._:-'')"

definition validServiceNonce :: "string \<Rightarrow> bool" where
  "validServiceNonce nonce \<longleftrightarrow> 16 \<le> length nonce \<and> length nonce \<le> 128 \<and> list_all nonce_char nonce"

definition SignServiceRequest ::
  "(string \<Rightarrow> string) \<Rightarrow> (string \<Rightarrow> string) \<Rightarrow> (string \<Rightarrow> string \<Rightarrow> string) \<Rightarrow> request option \<Rightarrow> string \<Rightarrow> string \<Rightarrow> time \<Rightarrow>
   string \<Rightarrow> request result" where
  "SignServiceRequest uc sha256 ed_sign req0 serviceID0 privateKey now nonce0 =
     (case req0 of
        None \<Rightarrow> Inl (ErrMsg ''request is required'')
      | Some req \<Rightarrow>
          if length privateKey \<noteq> 64 then Inl (ErrMsg ''private key must be a 64-byte Ed25519 private key'')
          else
            let serviceID = ToLower uc (TrimSpace serviceID0); nonce = TrimSpace nonce0
            in if serviceID = [] \<or> \<not> validServiceNonce nonce
               then Inl (ErrMsg ''serviceId and a 16-128 character nonce are required'')
               else
                 let timestamp = FormatInt (Unix now)
                 in case signedRequestBody req of
                      Inl e \<Rightarrow> Inl e
                    | Inr body \<Rightarrow>
                        let message = serviceRequestMessage uc sha256 serviceID timestamp nonce (rq_Method req)
                              (requestTarget req) body
                        in Inr (req\<lparr>rq_ServiceID := serviceID, rq_Timestamp := timestamp, rq_Nonce := nonce,
                             rq_Signature := EncodeBase58 (ed_sign privateKey message)\<rparr>))"

definition ParseEd25519PrivateKey :: "string \<Rightarrow> string result" where
  "ParseEd25519PrivateKey value =
     (let bad = Inl (ErrMsg ''private key must be a 64-byte Ed25519 base58 private key'') in
      case DecodeBase58 (TrimSpace value) of
        Inl _ \<Rightarrow> bad
      | Inr decoded \<Rightarrow> if length decoded \<noteq> 64 then bad else Inr decoded)"

definition VerifyServiceRequest ::
  "(string \<Rightarrow> string) \<Rightarrow> (string \<Rightarrow> string) \<Rightarrow> (string \<Rightarrow> string \<Rightarrow> string \<Rightarrow> bool) \<Rightarrow> request option \<Rightarrow> string \<Rightarrow> time \<Rightarrow>
   int \<Rightarrow> time result" where
  "VerifyServiceRequest uc sha256 verify req0 publicKey now maxSkew0 =
     (case req0 of
        None \<Rightarrow> Inl (ErrMsg ''request is required'')
      | Some req \<Rightarrow>
          let maxSkew = (if maxSkew0 \<le> 0 then nanos 120 else maxSkew0);
              serviceID = ToLower uc (TrimSpace (rq_ServiceID req));
              timestamp = TrimSpace (rq_Timestamp req);
              nonce = TrimSpace (rq_Nonce req);
              signatureText = TrimSpace (rq_Signature req)
          in if serviceID = [] \<or> timestamp = [] \<or> \<not> validServiceNonce nonce \<or> signatureText = []
             then Inl (ErrMsg ''service signature headers are incomplete'')
             else case ParseInt timestamp of
                 None \<Rightarrow> Inl (ErrMsg ''service timestamp is invalid'')
               | Some seconds \<Rightarrow>
                   let signedAt = unix_epoch + nanos seconds
                   in if Before signedAt (now - maxSkew) \<or> After signedAt (now + maxSkew)
                      then Inl (ErrMsg ''service signature timestamp is outside the allowed window'')
                      else case DecodeBase58 (TrimSpace publicKey) of
                          Inl _ \<Rightarrow> Inl (ErrMsg ''service public key is invalid'')
                        | Inr key \<Rightarrow>
                            if length key \<noteq> 32 then Inl (ErrMsg ''service public key is invalid'')
                            else case DecodeSignature signatureText of
                                Inl e \<Rightarrow> Inl e
                              | Inr signature \<Rightarrow>
                                  case signedRequestBody req of
                                    Inl e \<Rightarrow> Inl e
                                  | Inr body \<Rightarrow>
                                      if \<not> verify key (serviceRequestMessage uc sha256 serviceID timestamp nonce
                                           (rq_Method req) (requestTarget req) body) signature
                                      then Inl (ErrMsg ''service signature is invalid'')
                                      else Inr (now + maxSkew))"

section \<open>Base64 round trip\<close>

lemma b64url_alphabet_facts: "length b64url_alphabet = 64" "distinct b64url_alphabet"
  "CHR ''.'' \<notin> set b64url_alphabet" "CHR 0x0A \<notin> set b64url_alphabet" "CHR 0x0D \<notin> set b64url_alphabet"
  by (simp_all add: b64url_alphabet_def)

lemma index_b64url: "d < 64 \<Longrightarrow> index_in (b64url d) b64url_alphabet = Some d"
  by (simp add: b64url_def index_in_nth b64url_alphabet_facts)

lemma b64url_in: "d < 64 \<Longrightarrow> b64url d \<in> set b64url_alphabet"
  by (simp add: b64url_def b64url_alphabet_facts)

text \<open>The digits the encoder writes, before they become characters.\<close>

fun b64_digits :: "nat list \<Rightarrow> nat list" where
  "b64_digits (x # y # z # s) =
     x div 4 # (x mod 4 * 16 + y div 16) # (y mod 16 * 4 + z div 64) # z mod 64 # b64_digits s"
| "b64_digits [x, y] = [x div 4, x mod 4 * 16 + y div 16, y mod 16 * 4]"
| "b64_digits [x] = [x div 4, x mod 4 * 16]"
| "b64_digits [] = []"

lemma encode_digits: "RawURL_EncodeToString s = map b64url (b64_digits (map of_char s))"
  by (induction s rule: RawURL_EncodeToString.induct) (simp_all add: Let_def)

lemma pack: "b < m \<Longrightarrow> (a * m + b) div m = (a :: nat)" "b < m \<Longrightarrow> (a * m + b) mod m = (b :: nat)"
  by simp_all

lemma of_char_small [simp]: "of_char c < (256 :: nat)"
  by (cases c) (simp only: of_char_def char.case, rule horner_sum_of_bool_2_less [THEN less_le_trans], simp)

lemma b64_digits_small: "\<forall>x \<in> set xs. x < 256 \<Longrightarrow> d \<in> set (b64_digits xs) \<Longrightarrow> d < 64"
proof (induction xs rule: b64_digits.induct)
  case (1 x y z s)
  have small: "x div 4 < 64" "y div 16 < 16" "z div 64 < 4" "x mod 4 < 4" "y mod 16 < 16" "z mod 64 < 64"
    using 1(2) by (simp_all add: less_mult_imp_div_less)
  then have "x mod 4 * 16 + y div 16 < 64" "y mod 16 * 4 + z div 64 < 64" by linarith+
  with small 1 show ?case by auto
next
  case (2 x y)
  have small: "x div 4 < 64" "y div 16 < 16" "x mod 4 < 4" "y mod 16 < 16"
    using 2(1) by (simp_all add: less_mult_imp_div_less)
  then have "x mod 4 * 16 + y div 16 < 64" "y mod 16 * 4 < 64" by linarith+
  with small 2(2) show ?case by auto
next
  case (3 x)
  have "x div 4 < 64" "x mod 4 < 4" using 3(1) by (simp_all add: less_mult_imp_div_less)
  then have "x div 4 < 64" "x mod 4 * 16 < 64" by linarith+
  with 3(2) show ?case by auto
qed simp

lemma unpack3:
  assumes "y < 256" "z < 256"
  shows "x div 4 * 4 + (x mod 4 * 16 + y div 16) div 16 = (x :: nat)"
    "(x mod 4 * 16 + y div 16) mod 16 * 16 + (y mod 16 * 4 + z div 64) div 4 = y"
    "(y mod 16 * 4 + z div 64) mod 4 * 64 + z mod 64 = (z :: nat)"
proof -
  have "y div 16 < 16" "z div 64 < 4" using assms by (simp_all add: less_mult_imp_div_less)
  then show "x div 4 * 4 + (x mod 4 * 16 + y div 16) div 16 = x"
    "(x mod 4 * 16 + y div 16) mod 16 * 16 + (y mod 16 * 4 + z div 64) div 4 = y"
    "(y mod 16 * 4 + z div 64) mod 4 * 64 + z mod 64 = z" by (simp_all only: pack div_mult_mod_eq)
qed

lemma unpack2: "y < 256 \<Longrightarrow> (x mod 4 * 16 + y div 16) mod 16 * 16 + y mod 16 * 4 div 4 = (y :: nat)"
proof -
  assume "y < 256"
  then have "y div 16 < 16" by (simp add: less_mult_imp_div_less)
  then have "(x mod 4 * 16 + y div 16) mod 16 = y div 16" by (rule pack)
  then show ?thesis by simp
qed

lemma b64url_bytes_digits: "b64url_bytes (b64_digits (map of_char s)) = Some s"
proof (induction s rule: RawURL_EncodeToString.induct)
  case (1 a b c s)
  then show ?case
    by (simp only: list.map b64_digits.simps b64url_bytes.simps unpack3 [OF of_char_small of_char_small]) simp
next
  case (2 a b)
  show ?case
    by (simp only: list.map b64_digits.simps b64url_bytes.simps unpack3(1) [OF of_char_small of_char_small]
        unpack2 [OF of_char_small]) simp
next
  case (3 a)
  have "of_char a div 4 * 4 + of_char a mod 4 * 16 div 16 = (of_char a :: nat)" by simp
  then show ?case by (simp only: list.map b64_digits.simps b64url_bytes.simps) simp
qed simp

lemma those_map_Some: "(\<And>x. x \<in> set xs \<Longrightarrow> f (g x) = Some x) \<Longrightarrow> those (map f (map g xs)) = Some xs"
  by (induction xs) auto

lemma encode_chars: "c \<in> set (RawURL_EncodeToString s) \<Longrightarrow> c \<in> set b64url_alphabet"
  using b64_digits_small [of "map of_char s"] by (auto simp: encode_digits intro!: b64url_in)


lemma RawURL_roundtrip: "RawURL_DecodeString (RawURL_EncodeToString s) = Inr s"
proof -
  have small: "\<And>d. d \<in> set (b64_digits (map of_char s)) \<Longrightarrow> d < 64"
    by (rule b64_digits_small [of "map of_char s"]) auto
  have "filter (\<lambda>c. c \<noteq> CHR 0x0A \<and> c \<noteq> CHR 0x0D) (RawURL_EncodeToString s) = RawURL_EncodeToString s"
    using encode_chars [of _ s] b64url_alphabet_facts(4,5) by (intro filter_True) metis
  moreover have "those (map (\<lambda>c. index_in c b64url_alphabet) (RawURL_EncodeToString s)) = Some (b64_digits (map of_char s))"
    unfolding encode_digits by (rule those_map_Some) (rule index_b64url [OF small])
  ultimately show ?thesis by (simp add: RawURL_DecodeString_def b64url_bytes_digits)
qed

section \<open>Tokens\<close>

lemma Split_none: "sep \<notin> set s \<Longrightarrow> Split sep s = [s]"
  by (induction s) auto

lemma Split_two: "sep \<notin> set a \<Longrightarrow> sep \<notin> set b \<Longrightarrow> Split sep (a @ sep # b) = [a, b]"
  by (induction a) (auto simp: Split_none)

lemma Split_ne [simp]: "Split sep s \<noteq> []"
  by (cases s) (auto split: list.splits)

lemma Split_one: "Split sep s = [u] \<Longrightarrow> u = s \<and> sep \<notin> set s"
  by (induction s arbitrary: u) (auto split: if_splits list.splits)

lemma Split_join: "Split sep s = [a, b] \<Longrightarrow> s = a @ sep # b \<and> sep \<notin> set a \<and> sep \<notin> set b"
proof (induction s arbitrary: a)
  case (Cons c s)
  then show ?case using Split_one [of sep s] by (auto simp: Split_ne split: if_splits list.splits)
qed simp

lemma encode_no_dot: "CHR ''.'' \<notin> set (RawURL_EncodeToString s)"
  using encode_chars b64url_alphabet_facts(3) by blast

text \<open>
  Property C39. A signed access token is accepted with the claims it was issued for until it
  expires, and nothing else is accepted: an accepted token is a payload followed by the dot and
  exactly the signature of that payload under the secret, whose claims name an account and have
  not expired. Of JSON it is only asked that it reads back the claims signed here; it does so when the
  username is valid UTF-8 (other bytes are replaced by the encoder).
\<close>

theorem access_token_roundtrip:
  assumes "claims = \<lparr>cl_Subject = accountID, cl_Username = username, cl_ExpiresAt = Unix (now + ttl)\<rparr>"
    and "dec (enc claims) = Inr claims" and "0 < accountID" and "Unix now' \<le> Unix (now + ttl)"
  shows "VerifyAccessToken hmac dec now' secret (SignAccessToken hmac enc now secret accountID username ttl) =
      Inr claims \<and>
    (\<forall>token claims'. VerifyAccessToken hmac dec now' secret token = Inr claims' \<longrightarrow>
       (\<exists>payload. token = payload @ ''.'' @ sign hmac secret payload \<and>
          (\<exists>raw. RawURL_DecodeString payload = Inr raw \<and> dec raw = Inr claims') \<and>
          0 < cl_Subject claims' \<and> Unix now' \<le> cl_ExpiresAt claims'))"
proof
  show "VerifyAccessToken hmac dec now' secret (SignAccessToken hmac enc now secret accountID username ttl) =
      Inr claims"
    using assms(2-) unfolding assms(1) by (simp add: VerifyAccessToken_def SignAccessToken_def Let_def sign_def Split_two encode_no_dot
        RawURL_roundtrip)
  have "\<exists>payload. token = payload @ ''.'' @ sign hmac secret payload \<and>
      (\<exists>raw. RawURL_DecodeString payload = Inr raw \<and> dec raw = Inr claims) \<and>
      0 < cl_Subject claims \<and> Unix now' \<le> cl_ExpiresAt claims"
    if ok: "VerifyAccessToken hmac dec now' secret token = Inr claims" for token claims
  proof -
    have "length (Split CHR ''.'' token) = 2" using ok by (auto simp: VerifyAccessToken_def Let_def split: if_splits)
    then obtain a b where ab: "Split CHR ''.'' token = [a, b]"
      by (auto simp: numeral_2_eq_2 length_Suc_conv)
    then show ?thesis using ok Split_join [OF ab]
      by (auto simp: VerifyAccessToken_def Let_def split: if_splits sum.splits)
  qed
  then show "\<forall>token claims'. VerifyAccessToken hmac dec now' secret token = Inr claims' \<longrightarrow>
       (\<exists>payload. token = payload @ ''.'' @ sign hmac secret payload \<and>
          (\<exists>raw. RawURL_DecodeString payload = Inr raw \<and> dec raw = Inr claims') \<and>
          0 < cl_Subject claims' \<and> Unix now' \<le> cl_ExpiresAt claims')" by blast
qed

text \<open>A lossless encoding of claims, to show that the hypothesis can hold.\<close>

definition sample_enc :: "Claims \<Rightarrow> string" where
  "sample_enc c = FormatInt (cl_Subject c) @ '':'' @ FormatInt (cl_ExpiresAt c) @ '':'' @ cl_Username c"

definition read_number :: "string \<Rightarrow> int" where
  "read_number t = (if t \<noteq> [] \<and> hd t = CHR ''-'' then - int (readNat (tl t)) else int (readNat t))"

definition sample_dec :: "string \<Rightarrow> Claims result" where
  "sample_dec s =
     (let a = takeWhile (\<lambda>c. c \<noteq> CHR '':'') s; s' = drop (Suc (length a)) s;
          b = takeWhile (\<lambda>c. c \<noteq> CHR '':'') s'; u = drop (Suc (length b)) s'
      in Inr \<lparr>cl_Subject = read_number a, cl_Username = u, cl_ExpiresAt = read_number b\<rparr>)"

lemma FormatInt_read: "read_number (FormatInt n) = n"
proof (cases "n < 0")
  case False
  have "CHR ''-'' \<notin> set (showNat (nat n))" by (rule showNat_no) simp
  then have "showNat (nat n) \<noteq> [] \<Longrightarrow> hd (showNat (nat n)) \<noteq> CHR ''-''" by (metis hd_in_set)
  with False show ?thesis by (auto simp: FormatInt_def read_number_def)
qed (simp add: FormatInt_def read_number_def)

lemma sample_dec_enc: "sample_dec (sample_enc c) = Inr c"
proof -
  have tw: "takeWhile (\<lambda>x. x \<noteq> CHR '':'') (FormatInt n @ CHR '':'' # t) = FormatInt n" for n t
    using FormatInt_no_colon [of n] by (subst takeWhile_append2) auto
  show ?thesis
    unfolding sample_dec_def sample_enc_def Let_def append_Cons append_Nil tw
    by (simp add: tw FormatInt_read)
qed

theorem access_token_roundtrip_witness:
  "VerifyAccessToken (\<lambda>k t. rev k @ t) sample_dec unix_epoch ''secret''
     (SignAccessToken (\<lambda>k t. rev k @ t) sample_enc unix_epoch ''secret'' 7 ''bob'' (nanos 7200)) =
   Inr \<lparr>cl_Subject = 7, cl_Username = ''bob'', cl_ExpiresAt = 7200\<rparr>"
  using access_token_roundtrip [OF refl, of sample_dec sample_enc 7 "''bob''" unix_epoch "nanos 7200" unix_epoch
      "\<lambda>k t. rev k @ t" "''secret''"] sample_dec_enc
  by (simp add: Unix_def nanos_def)

section \<open>Service requests\<close>

text \<open>What a service signs: service, timestamp, nonce, method, target and body.\<close>

type_synonym signed_content = "string \<times> string \<times> string \<times> string \<times> string \<times> string"

definition content_message :: "(string \<Rightarrow> string) \<Rightarrow> (string \<Rightarrow> string) \<Rightarrow> signed_content \<Rightarrow> string" where
  "content_message uc sha256 = (\<lambda>(serviceID, timestamp, nonce, method, target, body).
     serviceRequestMessage uc sha256 serviceID timestamp nonce method target body)"

definition one_line :: "string \<Rightarrow> bool" where "one_line s \<longleftrightarrow> CHR 0x0A \<notin> set s"

definition one_line_content :: "(string \<Rightarrow> string) \<Rightarrow> signed_content \<Rightarrow> bool" where
  "one_line_content uc = (\<lambda>(serviceID, timestamp, nonce, method, target, body).
     one_line serviceID \<and> one_line timestamp \<and> one_line nonce \<and> one_line (ToUpper uc (TrimSpace method)) \<and>
     one_line target)"

lemma content_message_inject:
  assumes "one_line_content uc (a, b, c, d, e, f)" "one_line_content uc (a', b', c', d', e', f')"
    and "content_message uc sha (a, b, c, d, e, f) = content_message uc sha (a', b', c', d', e', f')"
  shows "a = a' \<and> b = b' \<and> c = c' \<and> ToUpper uc (TrimSpace d) = ToUpper uc (TrimSpace d') \<and> e = e' \<and>
    hex_EncodeToString (sha f) = hex_EncodeToString (sha f')"
  using assms
  by (simp add: content_message_def serviceRequestMessage_def join_lines_def newline_def one_line_content_def one_line_def
      append_sep_inject)

lemma ParseInt_one_line:
  assumes "ParseInt s = Some n"
  shows "one_line s"
proof -
  have "list_all is_digit (if s \<noteq> [] \<and> (hd s = CHR ''-'' \<or> hd s = CHR ''+'') then tl s else s)"
    using assms by (simp add: ParseInt_def Let_def split: if_splits)
  then show ?thesis by (cases s) (auto simp: one_line_def list_all_iff is_digit_def split: if_splits)
qed

lemma nonce_one_line: "validServiceNonce s \<Longrightarrow> one_line s"
  by (auto simp: validServiceNonce_def one_line_def list_all_iff nonce_char_def)

lemma VerifyServiceRequest_ok:
  assumes "VerifyServiceRequest uc sha verify (Some req) publicKey now maxSkew = Inr expires"
  obtains seconds key body signature where
    "ParseInt (TrimSpace (rq_Timestamp req)) = Some seconds" "validServiceNonce (TrimSpace (rq_Nonce req))"
    "now - (if maxSkew \<le> 0 then nanos 120 else maxSkew) \<le> unix_epoch + nanos seconds"
    "unix_epoch + nanos seconds \<le> now + (if maxSkew \<le> 0 then nanos 120 else maxSkew)"
    "expires = now + (if maxSkew \<le> 0 then nanos 120 else maxSkew)"
    "DecodeBase58 (TrimSpace publicKey) = Inr key" "signedRequestBody req = Inr body"
    "verify key (content_message uc sha (ToLower uc (TrimSpace (rq_ServiceID req)), TrimSpace (rq_Timestamp req),
       TrimSpace (rq_Nonce req), rq_Method req, requestTarget req, body)) signature"
proof -
  let ?skew = "if maxSkew \<le> 0 then nanos 120 else maxSkew"
  note ok = assms [unfolded VerifyServiceRequest_def option.case Let_def]
  have heads: "\<not> (ToLower uc (TrimSpace (rq_ServiceID req)) = [] \<or> TrimSpace (rq_Timestamp req) = [] \<or>
      \<not> validServiceNonce (TrimSpace (rq_Nonce req)) \<or> TrimSpace (rq_Signature req) = [])"
    by (rule notI) (use ok in simp)
  note ok1 = ok [unfolded if_not_P [OF heads]]
  obtain seconds where sec: "ParseInt (TrimSpace (rq_Timestamp req)) = Some seconds"
    using ok1 by (cases "ParseInt (TrimSpace (rq_Timestamp req))") auto
  note ok2 = ok1 [unfolded sec option.case]
  have window: "\<not> (Before (unix_epoch + nanos seconds) (now - ?skew) \<or> After (unix_epoch + nanos seconds) (now + ?skew))"
    by (rule notI) (use ok2 in simp)
  note ok3 = ok2 [unfolded if_not_P [OF window]]
  obtain key where key: "DecodeBase58 (TrimSpace publicKey) = Inr key"
    using ok3 by (cases "DecodeBase58 (TrimSpace publicKey)") auto
  have len: "\<not> length key \<noteq> 32" by (rule notI) (use ok3 key in simp)
  note ok4 = ok3 [unfolded key sum.case if_not_P [OF len]]
  obtain signature where sig: "DecodeSignature (TrimSpace (rq_Signature req)) = Inr signature"
    using ok4 by (cases "DecodeSignature (TrimSpace (rq_Signature req))") auto
  note ok5 = ok4 [unfolded sig sum.case]
  obtain body where body: "signedRequestBody req = Inr body" using ok5 by (cases "signedRequestBody req") auto
  note ok6 = ok5 [unfolded body sum.case]
  show ?thesis
  proof (rule that [OF sec _ _ _ _ key body])
    show "verify key (content_message uc sha (ToLower uc (TrimSpace (rq_ServiceID req)), TrimSpace (rq_Timestamp req),
       TrimSpace (rq_Nonce req), rq_Method req, requestTarget req, body)) signature"
      unfolding content_message_def prod.case by (rule ccontr) (use ok6 in simp)
    then show "expires = now + ?skew" using ok6 unfolding content_message_def prod.case by simp
  qed (use heads window in \<open>simp_all add: Before_def After_def\<close>)
qed

text \<open>
  Property C40. An accepted service request is one the service signed. If the signature scheme
  accepts under the service's key only messages that were signed with it, then an accepted request
  has the service, timestamp, nonce, method, target and body digest of a signed one, its timestamp
  lies within the allowed skew of the current time, and the acceptance expires one skew later.
\<close>

theorem service_request_authentic:
  assumes "VerifyServiceRequest uc sha verify (Some req) publicKey now maxSkew = Inr expires"
    and "DecodeBase58 (TrimSpace publicKey) = Inr key"
    and unforgeable: "\<forall>m signature. verify key m signature \<longrightarrow> m \<in> content_message uc sha ` signed"
    and "\<forall>c \<in> signed. one_line_content uc c"
    and "one_line (ToLower uc (TrimSpace (rq_ServiceID req)))" "one_line (ToUpper uc (TrimSpace (rq_Method req)))"
      "one_line (requestTarget req)"
  shows "\<exists>serviceID timestamp nonce method target body seconds. (serviceID, timestamp, nonce, method, target, body) \<in> signed \<and>
    serviceID = ToLower uc (TrimSpace (rq_ServiceID req)) \<and> timestamp = TrimSpace (rq_Timestamp req) \<and>
    nonce = TrimSpace (rq_Nonce req) \<and> validServiceNonce nonce \<and>
    ToUpper uc (TrimSpace method) = ToUpper uc (TrimSpace (rq_Method req)) \<and> target = requestTarget req \<and>
    (\<exists>sent. signedRequestBody req = Inr sent \<and> hex_EncodeToString (sha body) = hex_EncodeToString (sha sent)) \<and>
    ParseInt timestamp = Some seconds \<and>
    \<bar>unix_epoch + nanos seconds - now\<bar> \<le> (if maxSkew \<le> 0 then nanos 120 else maxSkew) \<and>
    expires = now + (if maxSkew \<le> 0 then nanos 120 else maxSkew)"
proof -
  obtain seconds key' sent signature where v:
    "ParseInt (TrimSpace (rq_Timestamp req)) = Some seconds" "validServiceNonce (TrimSpace (rq_Nonce req))"
    "now - (if maxSkew \<le> 0 then nanos 120 else maxSkew) \<le> unix_epoch + nanos seconds"
    "unix_epoch + nanos seconds \<le> now + (if maxSkew \<le> 0 then nanos 120 else maxSkew)"
    "expires = now + (if maxSkew \<le> 0 then nanos 120 else maxSkew)"
    "DecodeBase58 (TrimSpace publicKey) = Inr key'" "signedRequestBody req = Inr sent"
    "verify key' (content_message uc sha (ToLower uc (TrimSpace (rq_ServiceID req)), TrimSpace (rq_Timestamp req),
       TrimSpace (rq_Nonce req), rq_Method req, requestTarget req, sent)) signature"
    by (rule VerifyServiceRequest_ok [OF assms(1)])
  have "key' = key" using v(6) assms(2) by simp
  with v(8) unforgeable have "content_message uc sha (ToLower uc (TrimSpace (rq_ServiceID req)),
      TrimSpace (rq_Timestamp req), TrimSpace (rq_Nonce req), rq_Method req, requestTarget req, sent)
      \<in> content_message uc sha ` signed" by blast
  then obtain x where x: "x \<in> signed" "content_message uc sha x = content_message uc sha
      (ToLower uc (TrimSpace (rq_ServiceID req)), TrimSpace (rq_Timestamp req), TrimSpace (rq_Nonce req), rq_Method req,
       requestTarget req, sent)" by (rule imageE) simp
  obtain a b c d e f where "x = (a, b, c, d, e, f)" by (cases x)
  with x have c: "(a, b, c, d, e, f) \<in> signed"
    "content_message uc sha (a, b, c, d, e, f) = content_message uc sha (ToLower uc (TrimSpace (rq_ServiceID req)),
       TrimSpace (rq_Timestamp req), TrimSpace (rq_Nonce req), rq_Method req, requestTarget req, sent)" by simp_all
  have "one_line_content uc (ToLower uc (TrimSpace (rq_ServiceID req)), TrimSpace (rq_Timestamp req),
      TrimSpace (rq_Nonce req), rq_Method req, requestTarget req, sent)"
    using assms(5-7) ParseInt_one_line [OF v(1)] nonce_one_line [OF v(2)] by (simp add: one_line_content_def)
  from content_message_inject [OF _ this c(2)] c(1) assms(4)
  have "a = ToLower uc (TrimSpace (rq_ServiceID req)) \<and> b = TrimSpace (rq_Timestamp req) \<and> c = TrimSpace (rq_Nonce req) \<and>
      ToUpper uc (TrimSpace d) = ToUpper uc (TrimSpace (rq_Method req)) \<and> e = requestTarget req \<and>
      hex_EncodeToString (sha f) = hex_EncodeToString (sha sent)" by blast
  then have mem: "(ToLower uc (TrimSpace (rq_ServiceID req)), TrimSpace (rq_Timestamp req), TrimSpace (rq_Nonce req), d,
        requestTarget req, f) \<in> signed"
      and same: "ToUpper uc (TrimSpace d) = ToUpper uc (TrimSpace (rq_Method req))"
        "hex_EncodeToString (sha f) = hex_EncodeToString (sha sent)"
    using c(1) by auto
  have window: "\<bar>unix_epoch + nanos seconds - now\<bar> \<le> (if maxSkew \<le> 0 then nanos 120 else maxSkew)"
    using v(3,4) unfolding abs_le_iff by linarith
  show ?thesis by (intro exI conjI) (rule mem refl v same window)+
qed

text \<open>A request signed at the epoch by a scheme whose signatures carry their message.\<close>

definition sample_key :: string where "sample_key = replicate 32 CHR ''1''"

lemma sample_key_decodes: "DecodeBase58 (TrimSpace sample_key) = Inr (replicate 32 (char_of (0 :: nat)))"
proof -
  have trim: "TrimSpace sample_key = sample_key"
    using TrimSpace_plain(1) [of "CHR ''1''" "CHR ''1''" "replicate 30 CHR ''1''"]
    by (simp add: sample_key_def plain_def space1_def numeral_eq_Suc)
  have "leading CHR ''1'' sample_key = 32" by (simp add: leading_def sample_key_def numeral_eq_Suc)
  moreover have "decode_digits (replicate n CHR ''1'') 0 = Inr 0" for n
    by (induction n) (simp_all add: solanaBase58Alphabet_def)
  ultimately show ?thesis
    unfolding DecodeBase58_def trim Let_def by (simp add: sample_key_def big_Bytes_def digits.simps)
qed

definition sample_signed :: request where
  "sample_signed = \<lparr>rq_ServiceID = ''worker'', rq_Timestamp = ''0'', rq_Nonce = ''abcdefghijklmnop'',
     rq_Signature = replicate 64 CHR ''1'', rq_Method = ''GET'', rq_EscapedPath = ''/job'', rq_RawQuery = [], rq_Body = None\<rparr>"

lemma trim_plain_string:
  assumes "s \<noteq> []" "plain (hd s)" "plain (last s)"
  shows "TrimSpace s = s"
proof (cases "butlast s = []")
  case True
  then show ?thesis using assms TrimSpace_plain(2) by (metis append_butlast_last_id append_Nil list.sel(1))
next
  case False
  have "s = hd s # tl (butlast s) @ [last s]"
    using assms(1) False by (metis append_Cons append_butlast_last_id hd_append2 list.collapse)
  then show ?thesis using TrimSpace_plain(1) assms(2,3) by metis
qed

definition sample_content :: signed_content where
  "sample_content = (''worker'', ''0'', ''abcdefghijklmnop'', ''GET'', ''/job'', [])"

definition sample_verify :: "string \<Rightarrow> string \<Rightarrow> string \<Rightarrow> bool" where
  "sample_verify key m signature \<longleftrightarrow> m = content_message (\<lambda>x. x) (\<lambda>x. x) sample_content"

lemma sample_trims [simp]:
  "TrimSpace ''worker'' = ''worker''" "TrimSpace ''0'' = ''0''" "TrimSpace ''abcdefghijklmnop'' = ''abcdefghijklmnop''"
  "TrimSpace ''GET'' = ''GET''"
  by (rule trim_plain_string; simp add: plain_def space1_def)+

lemma sample_signature: "TrimSpace (replicate 64 CHR ''1'') = replicate 64 CHR ''1''"
  by (rule trim_plain_string) (simp_all add: plain_def space1_def numeral_eq_Suc)

lemma sample_signature_decodes: "DecodeSignature (replicate 64 CHR ''1'') = Inr (replicate 64 (char_of (0 :: nat)))"
proof -
  have digits: "decode_digits (replicate n CHR ''1'') 0 = Inr 0" for n
    by (induction n) (simp_all add: solanaBase58Alphabet_def)
  have "leading CHR ''1'' (replicate n CHR ''1'') = n" for n by (induction n) (simp_all add: leading_def)
  then have "DecodeBase58 (replicate 64 CHR ''1'') = Inr (replicate 64 (char_of (0 :: nat)))"
    unfolding DecodeBase58_def sample_signature Let_def by (simp add: digits big_Bytes_def digits.simps)
  moreover have "take 2 (replicate 64 CHR ''1'') = [CHR ''1'', CHR ''1'']" by (simp add: numeral_eq_Suc)
  ultimately show ?thesis unfolding DecodeSignature_def sample_signature Let_def by simp
qed

theorem service_request_authentic_witness:
  "\<exists>expires. VerifyServiceRequest (\<lambda>x. x) (\<lambda>x. x) sample_verify (Some sample_signed) sample_key (unix_epoch + nanos 60) 0 =
      Inr expires \<and> expires = unix_epoch + nanos 180 \<and>
      (\<exists>method body. (''worker'', ''0'', ''abcdefghijklmnop'', method, ''/job'', body) \<in> {sample_content})"
proof -
  let ?now = "unix_epoch + nanos 60"
  have low: "ToLower (\<lambda>x. x) ''worker'' = ''worker''" by (simp add: ToLower_def ascii_def lower_char_def)
  have up: "ToUpper (\<lambda>x. x) ''GET'' = ''GET''" by (simp add: ToUpper_def ascii_def upper_char_def)
  have ts: "ParseInt ''0'' = Some 0" by (simp add: ParseInt_def is_digit_def readNat_def undigit_def i64_def)
  have nonce: "validServiceNonce ''abcdefghijklmnop''" by (simp add: validServiceNonce_def nonce_char_def)
  have message: "content_message (\<lambda>x. x) (\<lambda>x. x) sample_content =
      serviceRequestMessage (\<lambda>x. x) (\<lambda>x. x) ''worker'' ''0'' ''abcdefghijklmnop'' ''GET'' ''/job'' []"
    by (simp add: content_message_def sample_content_def)
  have run: "VerifyServiceRequest (\<lambda>x. x) (\<lambda>x. x) sample_verify (Some sample_signed) sample_key ?now 0 = Inr (?now + nanos 120)"
    by (simp add: VerifyServiceRequest_def sample_signed_def low ts nonce sample_signature sample_key_decodes
        sample_signature_decodes signedRequestBody_def requestTarget_def sample_verify_def message Before_def After_def
        nanos_def Let_def)
  have "one_line_content (\<lambda>x. x) sample_content" by (simp add: one_line_content_def sample_content_def one_line_def up)
  then have "\<exists>method body. (''worker'', ''0'', ''abcdefghijklmnop'', method, ''/job'', body) \<in> {sample_content}"
    using service_request_authentic [OF run sample_key_decodes, of "{sample_content}"]
    by (auto simp: sample_verify_def sample_signed_def low up one_line_def requestTarget_def)
  with run show ?thesis by (simp add: nanos_def)
qed

end
