(* ===== verification/RedisCache.thy ===== *)
theory RedisCache
  imports StoreState
begin

text \<open>
  The cache of the account service (\<open>src/internal/platform/redisx/client.go\<close>): the interface
  \<open>Client\<close> as a record of operations on a cache state, the in-process \<open>MemoryClient\<close> and the
  disabled \<open>NopClient\<close>. A client for a Redis server is any other value of the record; the server is
  not part of the repository.

  The clients store JSON; the model stores the value itself, one constructor per type the service
  caches, and \<open>as_online\<close> is what decoding one of them into an \<open>OnlineSession\<close> gives. An operation
  that consults the clock gets its reading as the argument \<open>now\<close>. A set of members is listed in
  increasing order; no caller depends on it.

  The locale \<open>expiring_cache\<close> states what a client promises its users; \<open>memory\<close> interprets it on
  \<open>MemoryClient\<close>.
\<close>

section \<open>Values\<close>

record cachedSession =
  cse_SessionID :: string
  cse_AccountID :: int
  cse_Status :: string

record cachedRefresh =
  cre_SessionID :: string
  cre_AccountID :: int

datatype cached = CSession cachedSession | CRefresh cachedRefresh | COnline OnlineSession
  | CServer GameServer | CRun DungeonRunRecovery

definition zero_OnlineSession :: OnlineSession where
  "zero_OnlineSession = \<lparr>os_AccountID = 0, os_CharacterID = 0, os_SessionID = [], os_ServerID = [],
     os_ConnectionID = [], os_EnteredAt = 0, os_LastSeenAt = 0\<rparr>"

fun as_online :: "cached \<Rightarrow> OnlineSession" where
  "as_online (COnline row) = row"
| "as_online (CSession s) = zero_OnlineSession\<lparr>os_SessionID := cse_SessionID s, os_AccountID := cse_AccountID s\<rparr>"
| "as_online (CRefresh r) = zero_OnlineSession\<lparr>os_SessionID := cre_SessionID r, os_AccountID := cre_AccountID r\<rparr>"
| "as_online (CServer g) = zero_OnlineSession\<lparr>os_ServerID := gs_ServerID g\<rparr>"
| "as_online (CRun d) = zero_OnlineSession\<lparr>os_AccountID := dr_AccountID d, os_CharacterID := dr_CharacterID d,
     os_ServerID := dr_ServerID d\<rparr>"

datatype cache_err = KeyNotFound | CacheErr string

section \<open>Clients\<close>

record 'r Client =
  Enabled :: "'r \<Rightarrow> bool"
  Ping :: "'r \<Rightarrow> cache_err option"
  SetJSON :: "'r \<Rightarrow> time \<Rightarrow> string \<Rightarrow> cached \<Rightarrow> int \<Rightarrow> 'r \<times> cache_err option"
  GetJSON :: "'r \<Rightarrow> time \<Rightarrow> string \<Rightarrow> 'r \<times> (cache_err + cached)"
  Delete :: "'r \<Rightarrow> string list \<Rightarrow> 'r \<times> cache_err option"
  Expire :: "'r \<Rightarrow> time \<Rightarrow> string \<Rightarrow> int \<Rightarrow> 'r \<times> cache_err option"
  SAdd :: "'r \<Rightarrow> string \<Rightarrow> string list \<Rightarrow> 'r \<times> cache_err option"
  SRem :: "'r \<Rightarrow> string \<Rightarrow> string list \<Rightarrow> 'r \<times> cache_err option"
  SMembers :: "'r \<Rightarrow> string \<Rightarrow> cache_err + string list"

record memValue =
  mv_raw :: cached
  mv_expiresAt :: time

record MemoryClient =
  mc_values :: "string \<rightharpoonup> memValue"
  mc_sets :: "string \<rightharpoonup> (string \<rightharpoonup> unit)"
  mc_enabled :: bool

definition NewMemoryClient :: MemoryClient where
  "NewMemoryClient = \<lparr>mc_values = Map.empty, mc_sets = Map.empty, mc_enabled = True\<rparr>"

definition mc_SetJSON :: "MemoryClient \<Rightarrow> time \<Rightarrow> string \<Rightarrow> cached \<Rightarrow> int \<Rightarrow> MemoryClient \<times> cache_err option" where
  "mc_SetJSON m now key value ttl =
     (m\<lparr>mc_values := (mc_values m)(key \<mapsto> \<lparr>mv_raw = value, mv_expiresAt = if ttl > 0 then now + ttl else 0\<rparr>)\<rparr>, None)"

definition mc_live :: "memValue \<Rightarrow> time \<Rightarrow> bool" where
  "mc_live v now \<longleftrightarrow> IsZero (mv_expiresAt v) \<or> \<not> After now (mv_expiresAt v)"

definition mc_GetJSON :: "MemoryClient \<Rightarrow> time \<Rightarrow> string \<Rightarrow> MemoryClient \<times> (cache_err + cached)" where
  "mc_GetJSON m now key =
     (case mc_values m key of
        None \<Rightarrow> (m\<lparr>mc_values := (mc_values m)(key := None)\<rparr>, Inl KeyNotFound)
      | Some v \<Rightarrow> if mc_live v now then (m, Inr (mv_raw v))
                  else (m\<lparr>mc_values := (mc_values m)(key := None)\<rparr>, Inl KeyNotFound))"

definition mc_Delete :: "MemoryClient \<Rightarrow> string list \<Rightarrow> MemoryClient \<times> cache_err option" where
  "mc_Delete m keys =
     (m\<lparr>mc_values := (\<lambda>k. if k \<in> set keys then None else mc_values m k),
        mc_sets := (\<lambda>k. if k \<in> set keys then None else mc_sets m k)\<rparr>, None)"

definition mc_Expire :: "MemoryClient \<Rightarrow> time \<Rightarrow> string \<Rightarrow> int \<Rightarrow> MemoryClient \<times> cache_err option" where
  "mc_Expire m now key ttl =
     (case mc_values m key of
        None \<Rightarrow> (m, None)
      | Some v \<Rightarrow> (m\<lparr>mc_values := (mc_values m)(key \<mapsto> v\<lparr>mv_expiresAt := if ttl > 0 then now + ttl else 0\<rparr>)\<rparr>, None))"

definition mc_SAdd :: "MemoryClient \<Rightarrow> string \<Rightarrow> string list \<Rightarrow> MemoryClient \<times> cache_err option" where
  "mc_SAdd m key members =
     (let old = (case mc_sets m key of None \<Rightarrow> Map.empty | Some st \<Rightarrow> st)
      in (m\<lparr>mc_sets := (mc_sets m)(key \<mapsto> foldl (\<lambda>st member. st(member \<mapsto> ())) old members)\<rparr>, None))"

definition mc_SRem :: "MemoryClient \<Rightarrow> string \<Rightarrow> string list \<Rightarrow> MemoryClient \<times> cache_err option" where
  "mc_SRem m key members =
     (case mc_sets m key of
        None \<Rightarrow> (m, None)
      | Some old \<Rightarrow>
          (m\<lparr>mc_sets := (mc_sets m)(key \<mapsto> foldl (\<lambda>st member. st(member := None)) old members)\<rparr>, None))"

definition mc_SMembers :: "MemoryClient \<Rightarrow> string \<Rightarrow> cache_err + string list" where
  "mc_SMembers m key = Inr (case mc_sets m key of None \<Rightarrow> [] | Some st \<Rightarrow> keys_of st)"

definition memory_client :: "MemoryClient Client" where
  "memory_client = \<lparr>Enabled = mc_enabled, Ping = (\<lambda>_. None), SetJSON = mc_SetJSON, GetJSON = mc_GetJSON,
     Delete = mc_Delete, Expire = mc_Expire, SAdd = mc_SAdd, SRem = mc_SRem, SMembers = mc_SMembers\<rparr>"

definition NopClient :: "unit Client" where
  "NopClient = \<lparr>Enabled = (\<lambda>_. False), Ping = (\<lambda>_. None), SetJSON = (\<lambda>r _ _ _ _. (r, None)),
     GetJSON = (\<lambda>r _ _. (r, Inl KeyNotFound)), Delete = (\<lambda>r _. (r, None)), Expire = (\<lambda>r _ _ _. (r, None)),
     SAdd = (\<lambda>r _ _. (r, None)), SRem = (\<lambda>r _ _. (r, None)), SMembers = (\<lambda>_ _. Inr [])\<rparr>"

section \<open>The contract\<close>

text \<open>
  \<open>view r now k\<close> is the live value under a key. A value set with a positive time to live is read
  until it expires, others are untouched; deleting removes; reading and the set operations keep
  what is live later.
\<close>

locale expiring_cache =
  fixes C :: "'r Client" and view :: "'r \<Rightarrow> time \<Rightarrow> string \<Rightarrow> cached option"
    and members :: "'r \<Rightarrow> string \<Rightarrow> string set"
  assumes get_value: "snd (GetJSON C r now k) = (case view r now k of None \<Rightarrow> Inl KeyNotFound | Some v \<Rightarrow> Inr v)"
    and get_keeps: "now \<le> now' \<Longrightarrow> view (fst (GetJSON C r now k)) now' k' = view r now' k'"
    and set_value: "0 < now \<Longrightarrow> 0 < ttl \<Longrightarrow> view (fst (SetJSON C r now k v ttl)) now' k' =
        (if k' = k then (if now' \<le> now + ttl then Some v else None) else view r now' k')"
    and delete_value: "view (fst (Delete C r ks)) now k' = (if k' \<in> set ks then None else view r now k')"
    and sadd_keeps: "view (fst (SAdd C r k ms)) now k' = view r now k'"
    and srem_keeps: "view (fst (SRem C r k ms)) now k' = view r now k'"
    and sadd_members: "members (fst (SAdd C r k ms)) k' = (if k' = k then members r k' \<union> set ms else members r k')"
    and srem_members: "members (fst (SRem C r k ms)) k' = (if k' = k then members r k' - set ms else members r k')"
begin

text \<open>A value is read back until its time to live has passed, whatever keys were read before.\<close>

lemma set_get:
  assumes "0 < now" "0 < ttl" "now' \<le> now + ttl"
  shows "snd (GetJSON C (fst (SetJSON C r now k v ttl)) now' k) = Inr v"
  using assms by (simp add: get_value set_value)

lemma delete_get: "k \<in> set ks \<Longrightarrow> snd (GetJSON C (fst (Delete C r ks)) now k) = Inl KeyNotFound"
  by (simp add: get_value delete_value)

end

definition mc_view :: "MemoryClient \<Rightarrow> time \<Rightarrow> string \<Rightarrow> cached option" where
  "mc_view m now k = (case mc_values m k of None \<Rightarrow> None | Some v \<Rightarrow> if mc_live v now then Some (mv_raw v) else None)"

definition mc_members :: "MemoryClient \<Rightarrow> string \<Rightarrow> string set" where
  "mc_members m k = (case mc_sets m k of None \<Rightarrow> {} | Some st \<Rightarrow> dom st)"

lemma foldl_insert_dom: "dom (foldl (\<lambda>st x. st(x \<mapsto> ())) st xs) = dom st \<union> set xs"
  by (induction xs arbitrary: st) auto

lemma foldl_remove_dom: "dom (foldl (\<lambda>st x. st(x := None)) st xs) = dom st - set xs"
  by (induction xs arbitrary: st) auto

interpretation memory: expiring_cache memory_client mc_view mc_members
proof
  fix r :: MemoryClient and now now' ttl k k' v ks ms
  show "snd (GetJSON memory_client r now k) = (case mc_view r now k of None \<Rightarrow> Inl KeyNotFound | Some v \<Rightarrow> Inr v)"
    by (simp add: memory_client_def mc_GetJSON_def mc_view_def split: option.splits)
  show "mc_view (fst (GetJSON memory_client r now k)) now' k' = mc_view r now' k'" if "now \<le> now'"
    using that by (auto simp: memory_client_def mc_GetJSON_def mc_view_def mc_live_def After_def split: option.splits)
  show "mc_view (fst (SetJSON memory_client r now k v ttl)) now' k' =
      (if k' = k then (if now' \<le> now + ttl then Some v else None) else mc_view r now' k')" if "0 < now" "0 < ttl"
    using that by (auto simp: memory_client_def mc_SetJSON_def mc_view_def mc_live_def After_def IsZero_def)
  show "mc_view (fst (Delete memory_client r ks)) now k' = (if k' \<in> set ks then None else mc_view r now k')"
    by (simp add: memory_client_def mc_Delete_def mc_view_def)
  show "mc_view (fst (SAdd memory_client r k ms)) now k' = mc_view r now k'"
    by (simp add: memory_client_def mc_SAdd_def mc_view_def Let_def)
  show "mc_view (fst (SRem memory_client r k ms)) now k' = mc_view r now k'"
    by (cases "mc_sets r k") (simp_all add: memory_client_def mc_SRem_def mc_view_def)
  show "mc_members (fst (SAdd memory_client r k ms)) k' = (if k' = k then mc_members r k' \<union> set ms else mc_members r k')"
    by (auto simp: memory_client_def mc_SAdd_def mc_members_def foldl_insert_dom Let_def split: option.splits)
  show "mc_members (fst (SRem memory_client r k ms)) k' = (if k' = k then mc_members r k' - set ms else mc_members r k')"
    by (auto simp: memory_client_def mc_SRem_def mc_members_def foldl_remove_dom split: option.splits)
qed

end
