(* ===== verification/EquipmentView.thy ===== *)
theory EquipmentView
  imports RewardPlans
begin

text \<open>
  The live view of equipment (\<open>ResolveEquipment\<close> and \<open>ResolveEquipmentItem\<close> of
  \<open>src/internal/economy/rules/config.go\<close>): statistics are computed from the configuration whenever
  a piece is read. Floating-point operations are the argument \<open>float_ops\<close>.
\<close>

text \<open>The nearest double to one tenth, the bonus of one enhancement hit.\<close>

definition tenth :: float64 where "tenth = Fin (3602879701896397 / 36028797018963968)"

definition stat_of :: "(string \<times> float64) list \<Rightarrow> string \<Rightarrow> float64" where
  "stat_of stats stat = (case map_of stats stat of None \<Rightarrow> Fin 0 | Some v \<Rightarrow> v)"

definition addResolvedStat :: "float_ops \<Rightarrow> ResolvedEquipment \<Rightarrow> string \<Rightarrow> float64 \<Rightarrow> ResolvedEquipment" where
  "addResolvedStat fo resolved stat value =
     (if stat \<in> {''attack'', ''defense'', ''maxHp'', ''regen''}
      then resolved\<lparr>req_TotalFlat :=
        AList.update stat (f_add fo (stat_of (req_TotalFlat resolved) stat) value) (req_TotalFlat resolved)\<rparr>
      else resolved\<lparr>req_TotalPercent :=
        AList.update stat (f_add fo (stat_of (req_TotalPercent resolved) stat) value) (req_TotalPercent resolved)\<rparr>)"

fun resolve_affixes ::
  "(string \<Rightarrow> string) \<Rightarrow> float_ops \<Rightarrow> (string \<rightharpoonup> AffixConfig) \<Rightarrow> int \<Rightarrow> int \<Rightarrow> string \<Rightarrow> int \<Rightarrow> EquipmentAffix list \<Rightarrow>
   ResolvedEquipment \<Rightarrow> ResolvedEquipment result" where
  "resolve_affixes quote fo byID stage rarity itemID index [] resolved = Inr resolved"
| "resolve_affixes quote fo byID stage rarity itemID index (inst # insts) resolved =
     (case byID (ea_AffixID inst) of
        None \<Rightarrow>
          if ea_Stat inst \<noteq> []
          then resolve_affixes quote fo byID stage rarity itemID (index + 1) insts
                 (addResolvedStat fo (resolved\<lparr>req_Affixes := req_Affixes resolved @
                    [\<lparr>rea_AffixID = ea_AffixID inst, rea_InstanceID = ea_InstanceID inst,
                      rea_EnhanceHits = ea_EnhanceHits inst, rea_Stat = ea_Stat inst, rea_Value = ea_Value inst\<rparr>]\<rparr>)
                    (ea_Stat inst) (ea_Value inst))
          else Inl (ErrMsg (''equipment '' @ quote itemID @ '' contains unknown affix '' @ quote (ea_AffixID inst)))
      | Some affix \<Rightarrow>
          case affixValue quote affix stage rarity of
            Inl e \<Rightarrow> Inl e
          | Inr value0 \<Rightarrow>
              if ea_EnhanceHits inst < 0
              then Inl (ErrMsg (''equipment '' @ quote itemID @ '' affix '' @ quote (ea_AffixID inst) @
                     '' has negative enhancement''))
              else
                let value = f_mul fo value0 (f_add fo (Fin 1) (f_mul fo (f_of_int fo (ea_EnhanceHits inst)) tenth));
                    instanceID = (if ea_InstanceID inst = [] then ''legacy-'' @ FormatInt (index + 1)
                                  else ea_InstanceID inst)
                in resolve_affixes quote fo byID stage rarity itemID (index + 1) insts
                     (addResolvedStat fo (resolved\<lparr>req_Affixes := req_Affixes resolved @
                        [\<lparr>rea_AffixID = aco_AffixID affix, rea_InstanceID = instanceID,
                          rea_EnhanceHits = ea_EnhanceHits inst, rea_Stat = aco_Stat affix, rea_Value = value\<rparr>]\<rparr>)
                        (aco_Stat affix) value))"

definition ResolveEquipment ::
  "(string \<Rightarrow> string) \<Rightarrow> float_ops \<Rightarrow> Config \<Rightarrow> string \<Rightarrow> int \<Rightarrow> EquipmentAffix list \<Rightarrow> ResolvedEquipment result" where
  "ResolveEquipment quote fo c itemID0 rarity affixes =
     (let itemID = TrimSpace itemID0 in
      case List.find (\<lambda>mount. mnt_ItemID mount = itemID) (eqc_Mounts (cfg_Equipment c)) of
        Some mount \<Rightarrow>
          Inr \<lparr>req_ItemID = itemID, req_Rarity = 5, req_IsMount = True, req_WeaponType = WeaponTypeNone,
            req_WeaponTypeKey = ''none'', req_BaseFlat = [], req_BasePercent = [], req_Affixes = [],
            req_TotalFlat = [], req_TotalPercent = [],
            req_FinalBonuses = [(''finalMaxHp'', f_div fo (f_of_int fo (mnt_FinalHPBps mount)) (Fin 10000)),
              (''finalAttack'', f_div fo (f_of_int fo (mnt_FinalAtkBps mount)) (Fin 10000)),
              (''moveSpeed'', f_div fo (f_of_int fo (mnt_MoveSpeedBps mount)) (Fin 10000))]\<rparr>
      | None \<Rightarrow>
          case EquipmentTemplate_get c itemID of
            None \<Rightarrow> Inl (ErrMsg (''equipment template '' @ quote itemID @ '' is not configured''))
          | Some template \<Rightarrow>
              case EquipmentRarity_get c rarity of
                None \<Rightarrow> Inl (ErrMsg (''equipment rarity '' @ FormatInt rarity @ '' is not configured''))
              | Some rarityConfig \<Rightarrow>
                  let stageMultiplier = (case map_of (eqc_StageMultipliers (cfg_Equipment c)) (etp_Stage template) of
                        None \<Rightarrow> Fin 0 | Some v \<Rightarrow> v);
                      flat = map (\<lambda>(stat, value). (stat,
                        f_mul fo (f_mul fo value stageMultiplier) (era_Multiplier rarityConfig))) (etp_BaseFlat template);
                      pool_affixes = (case map_of (cfg_AffixPools c) (etp_AffixPoolID template) of
                        None \<Rightarrow> [] | Some pool \<Rightarrow> apo_Affixes pool);
                      byID = map_of (rev (map (\<lambda>affix. (aco_AffixID affix, affix)) pool_affixes))
                  in resolve_affixes quote fo byID (etp_Stage template) rarity itemID 0 affixes
                       \<lparr>req_ItemID = itemID, req_Rarity = rarity, req_IsMount = False,
                        req_WeaponType = etp_WeaponType template, req_WeaponTypeKey = etp_WeaponTypeKey template,
                        req_BaseFlat = flat, req_BasePercent = etp_BasePercent template, req_Affixes = [],
                        req_TotalFlat = flat, req_TotalPercent = etp_BasePercent template, req_FinalBonuses = []\<rparr>)"

definition ResolveEquipmentItem ::
  "(string \<Rightarrow> string) \<Rightarrow> float_ops \<Rightarrow> Config \<Rightarrow> EquipmentItem \<Rightarrow> EquipmentItem result" where
  "ResolveEquipmentItem quote fo c item0 =
     (let item = (if eq_WeaponTypeKey item0 = [] then item0\<lparr>eq_WeaponTypeKey := ''none''\<rparr> else item0);
          isMount = list_ex (\<lambda>mount. mnt_ItemID mount = eq_ItemID item) (eqc_Mounts (cfg_Equipment c))
      in if EquipmentTemplate_get c (eq_ItemID item) = None \<and> \<not> isMount
         then Inr (case map_of (cfg_Items c) (eq_ItemID item) of
                 None \<Rightarrow> item
               | Some itemDef \<Rightarrow>
                   case normalizeWeaponType (itm_WeaponType itemDef) (itm_WeaponTypeKey itemDef) of
                     None \<Rightarrow> item
                   | Some (weaponType, weaponTypeKey) \<Rightarrow>
                       if weaponType \<noteq> WeaponTypeNone
                       then item\<lparr>eq_WeaponType := weaponType, eq_WeaponTypeKey := weaponTypeKey\<rparr> else item)
         else
           case ResolveEquipment quote fo c (eq_ItemID item) (eq_Rarity item) (eq_Affixes item) of
             Inl e \<Rightarrow> Inl e
           | Inr resolved \<Rightarrow>
               Inr (item\<lparr>eq_ResolvedBaseFlat := map_of (req_BaseFlat resolved),
                 eq_ResolvedBasePercent := map_of (req_BasePercent resolved),
                 eq_ResolvedFlatStats := map_of (req_TotalFlat resolved),
                 eq_ResolvedPercentStats := map_of (req_TotalPercent resolved),
                 eq_FinalBonuses := map_of (req_FinalBonuses resolved),
                 eq_WeaponType := req_WeaponType resolved, eq_WeaponTypeKey := req_WeaponTypeKey resolved,
                 eq_Affixes := map (\<lambda>affix. \<lparr>ea_AffixID = rea_AffixID affix, ea_InstanceID = rea_InstanceID affix,
                   ea_EnhanceHits = rea_EnhanceHits affix, ea_Stat = rea_Stat affix, ea_Value = rea_Value affix\<rparr>)
                   (req_Affixes resolved)\<rparr>))"

end
