(* ===== verification/AccountService.thy ===== *)
theory AccountService
  imports Accounts Sessions Presence Dungeon Solana Security RedisCache EquipmentView "HOL-Library.Product_Lexorder"
begin

text \<open>
  The account service (\<open>src/internal/account/service.go\<close> and \<open>sessions.go\<close>) over the in-memory
  repository: wallet login, sessions, launch tickets, characters, presence and dungeon recovery.

  A call runs in a \<open>world\<close>: the repository, the cache and the source of random bytes. What the
  service calls outside the repository's own code is the record \<open>library\<close>; the cache is any
  \<open>Client\<close>. The service never holds a nil client: \<open>NewServiceWithCache\<close> replaces it. Each call of a
  repository method is atomic; the model runs one service call at a time.
\<close>

section \<open>Environment\<close>

record library =
  L_sha256 :: "string \<Rightarrow> string"
  L_case :: "string \<Rightarrow> string"
  L_verify :: "string \<Rightarrow> string \<Rightarrow> string \<Rightarrow> bool"
  L_hmac :: "string \<Rightarrow> string \<Rightarrow> string"
  L_enc :: "Claims \<Rightarrow> string"
  L_quote :: "string \<Rightarrow> string"
  L_float :: float_ops
  L_letter :: "nat \<Rightarrow> bool"

record 'r Service =
  sv_redis :: "'r Client"
  sv_jwtSecret :: string
  sv_sessionTTLHours :: int
  sv_onlineTTLSec :: int
  sv_economyRules :: "Config option"
  sv_economyRulesErr :: "err option"

record 'r world =
  db :: store
  cache :: 'r
  entropy :: "nat \<Rightarrow> string"
  drawn :: nat

type_synonym ('r, 'a) act = "'r world \<times> 'a result"

text \<open>Read the clock, draw a token, run a repository call.\<close>

definition clk :: "'r world \<Rightarrow> time \<times> 'r world" where
  "clk w = (time_Now (db w), w\<lparr>db := tick (db w)\<rparr>)"

definition RandomToken :: "'r world \<Rightarrow> string \<Rightarrow> string \<times> 'r world" where
  "RandomToken w prefix =
     (prefix @ ''_'' @ RawURL_EncodeToString (entropy w (drawn w)), w\<lparr>drawn := Suc (drawn w)\<rparr>)"

definition on_db :: "'r world \<Rightarrow> store \<times> 'a \<Rightarrow> 'r world \<times> 'a" where
  "on_db w p = (w\<lparr>db := fst p\<rparr>, snd p)"

definition NewServiceWithCache :: "'r Client \<Rightarrow> string \<Rightarrow> int \<Rightarrow> int \<Rightarrow> 'r Service" where
  "NewServiceWithCache client jwtSecret sessionTTLHours onlineTTLSec =
     \<lparr>sv_redis = client, sv_jwtSecret = jwtSecret,
      sv_sessionTTLHours = if sessionTTLHours \<le> 0 then 168 else sessionTTLHours,
      sv_onlineTTLSec = if onlineTTLSec \<le> 0 then 90 else onlineTTLSec,
      sv_economyRules = None, sv_economyRulesErr = None\<rparr>"

definition NewService :: "string \<Rightarrow> unit Service" where
  "NewService jwtSecret = NewServiceWithCache NopClient jwtSecret 168 90"

text \<open>\<open>rules.LoadDir\<close> reads files; what it returns is the argument \<open>loaded\<close>.\<close>

definition LoadEconomyRules :: "(string \<Rightarrow> Config option \<times> err option) \<Rightarrow> 'r Service \<Rightarrow> string \<Rightarrow> 'r Service" where
  "LoadEconomyRules loaded sv configDir0 =
     (let configDir = TrimSpace configDir0 in
      if configDir = [] then sv
      else sv\<lparr>sv_economyRules := fst (loaded configDir), sv_economyRulesErr := snd (loaded configDir)\<rparr>)"

definition sessionTTL :: "'r Service \<Rightarrow> int" where
  "sessionTTL sv = w64 ((if sv_sessionTTLHours sv \<le> 0 then 168 else sv_sessionTTLHours sv) * hour_nanos)"

definition onlineTTL :: "'r Service \<Rightarrow> int" where
  "onlineTTL sv = Seconds (if sv_onlineTTLSec sv \<le> 0 then 90 else sv_onlineTTLSec sv)"

section \<open>Results\<close>

record WalletLoginResult =
  lr_Account :: Account
  lr_AccessToken :: string
  lr_RefreshToken :: string
  lr_SessionID :: string
  lr_WalletPlugin :: string
  lr_ExpiresAt :: time

record LaunchResult =
  la_Status :: string
  la_Ticket :: string
  la_ExpiresIn :: int
  la_ExpiresAt :: time
  la_ServerID :: string
  la_Host :: string
  la_Port :: int
  la_WalletAddress :: string
  la_WalletPlugin :: string
  la_GameURL :: string

record DungeonRecoveryDecision =
  dd_Action :: string
  dd_Status :: string
  dd_DungeonRunID :: string
  dd_ServerID :: string
  dd_Ticket :: string
  dd_ExpiresAt :: time

record WalletNonceResult =
  nr_Nonce :: string
  nr_Message :: string
  nr_ExpiresAt :: time

record LoginMeta =
  lm_WalletPlugin :: string
  lm_DeviceID :: string
  lm_IPAddress :: string
  lm_UserAgent :: string

record ConsumeTicketResult =
  ct_AccountID :: int
  ct_WalletAddress :: string
  ct_WalletPlugin :: string
  ct_SessionID :: string
  ct_ServerID :: string

record PublicServerView =
  pv_ServerID :: string
  pv_Name :: string
  pv_CurPlayers :: int
  pv_MaxPlayers :: int
  pv_Status :: string
  pv_QueueLength :: int
  pv_Region :: string

record HomeStatsResult =
  hs_OnlinePlayers :: int
  hs_MonthlyActivePlayers :: int
  hs_UpdatedAt :: time

record RefreshResult =
  rr_AccessToken :: string
  rr_RefreshToken :: string
  rr_SessionID :: string
  rr_ExpiresIn :: int

record LogoutResult =
  lo_Status :: string
  lo_SessionID :: string

section \<open>Cache\<close>

definition redis_on :: "'r Service \<Rightarrow> 'r world \<Rightarrow> bool" where
  "redis_on sv w = Enabled (sv_redis sv) (cache w)"

definition redis_set :: "'r Service \<Rightarrow> 'r world \<Rightarrow> string \<Rightarrow> cached \<Rightarrow> int \<Rightarrow> 'r world" where
  "redis_set sv w key value ttl =
     (let (t, w1) = clk w in w1\<lparr>cache := fst (SetJSON (sv_redis sv) (cache w1) t key value ttl)\<rparr>)"

definition redis_get :: "'r Service \<Rightarrow> 'r world \<Rightarrow> string \<Rightarrow> 'r world \<times> (cache_err + cached)" where
  "redis_get sv w key =
     (let (t, w1) = clk w; (c, res) = GetJSON (sv_redis sv) (cache w1) t key in (w1\<lparr>cache := c\<rparr>, res))"

definition redis_del :: "'r Service \<Rightarrow> 'r world \<Rightarrow> string list \<Rightarrow> 'r world" where
  "redis_del sv w keys = w\<lparr>cache := fst (Delete (sv_redis sv) (cache w) keys)\<rparr>"

definition redis_sadd :: "'r Service \<Rightarrow> 'r world \<Rightarrow> string \<Rightarrow> string list \<Rightarrow> 'r world" where
  "redis_sadd sv w key ms = w\<lparr>cache := fst (SAdd (sv_redis sv) (cache w) key ms)\<rparr>"

definition redis_srem :: "'r Service \<Rightarrow> 'r world \<Rightarrow> string \<Rightarrow> string list \<Rightarrow> 'r world" where
  "redis_srem sv w key ms = w\<lparr>cache := fst (SRem (sv_redis sv) (cache w) key ms)\<rparr>"

definition session_key :: "string \<Rightarrow> string" where "session_key sid = ''aeon:session:'' @ sid"

definition refresh_key :: "library \<Rightarrow> string \<Rightarrow> string" where
  "refresh_key L raw = ''aeon:refresh:'' @ HashToken (L_sha256 L) raw"

definition online_key :: "int \<Rightarrow> string" where "online_key a = ''aeon:online:acct:'' @ FormatInt a"

definition server_set_key :: "string \<Rightarrow> string" where "server_set_key sid = ''aeon:online:server:'' @ sid"

definition server_key :: "string \<Rightarrow> string" where "server_key sid = ''aeon:server:'' @ sid"

definition resume_key :: "int \<Rightarrow> int \<Rightarrow> string" where
  "resume_key a ch = ''aeon:dungeon:resume:'' @ FormatInt a @ '':'' @ FormatInt ch"

definition cacheSession :: "library \<Rightarrow> 'r Service \<Rightarrow> 'r world \<Rightarrow> AccountSession \<Rightarrow> string \<Rightarrow> time \<Rightarrow> 'r world" where
  "cacheSession L sv w session refreshRaw expiresAt =
     (if \<not> redis_on sv w then w
      else
        let (t, w1) = clk w;
            ttl = (if expiresAt - t \<le> 0 then sessionTTL sv else expiresAt - t);
            w2 = redis_set sv w1 (session_key (se_SessionID session))
              (CSession \<lparr>cse_SessionID = se_SessionID session, cse_AccountID = se_AccountID session,
                         cse_Status = se_Status session\<rparr>) ttl
        in redis_set sv w2 (refresh_key L refreshRaw)
             (CRefresh \<lparr>cre_SessionID = se_SessionID session, cre_AccountID = se_AccountID session\<rparr>) ttl)"

definition dropSessionCache :: "library \<Rightarrow> 'r Service \<Rightarrow> 'r world \<Rightarrow> string \<Rightarrow> string \<Rightarrow> 'r world" where
  "dropSessionCache L sv w sessionID refreshRaw =
     (if \<not> redis_on sv w then w
      else redis_del sv w (session_key sessionID # (if refreshRaw \<noteq> [] then [refresh_key L refreshRaw] else [])))"

definition cacheOnline :: "'r Service \<Rightarrow> 'r world \<Rightarrow> OnlineSession \<Rightarrow> 'r world" where
  "cacheOnline sv w row =
     (if \<not> redis_on sv w then w
      else
        let w1 = redis_set sv w (online_key (os_AccountID row)) (COnline row) (onlineTTL sv)
        in redis_sadd sv w1 (server_set_key (os_ServerID row)) [FormatInt (os_AccountID row)])"

definition dropOnlineCache :: "'r Service \<Rightarrow> 'r world \<Rightarrow> OnlineSession \<Rightarrow> 'r world" where
  "dropOnlineCache sv w row =
     (if \<not> redis_on sv w then w
      else redis_srem sv (redis_del sv w [online_key (os_AccountID row)]) (server_set_key (os_ServerID row))
             [FormatInt (os_AccountID row)])"

section \<open>Login and sessions\<close>

definition WalletNonce_svc :: "'r world \<Rightarrow> string \<Rightarrow> ('r, WalletNonceResult) act" where
  "WalletNonce_svc w wallet =
     (case NormalizeSolanaAddress wallet of
        Inl e \<Rightarrow> (w, Inl e)
      | Inr normalized \<Rightarrow>
          let (nonce, w1) = RandomToken w ''nonce''; (t, w2) = clk w1; expiresAt = t + nanos 300;
              message = ''Sign in to Aeonblight'' @ newline @ ''Wallet: '' @ normalized @ newline @ ''Nonce: '' @ nonce
                @ newline @ ''This signature does not authorize any transaction.'';
              (created, w3) = clk w2
          in (w3\<lparr>db := SaveWalletNonce (db w3) \<lparr>wn_Nonce = nonce, wn_Wallet = normalized, wn_Message = message,
                 wn_Status = ''PENDING'', wn_ExpiresAt = expiresAt, wn_CreatedAt = created\<rparr>\<rparr>,
              Inr \<lparr>nr_Nonce = nonce, nr_Message = message, nr_ExpiresAt = expiresAt\<rparr>))"

definition issueSession ::
  "library \<Rightarrow> 'r Service \<Rightarrow> 'r world \<Rightarrow> Account \<Rightarrow> string \<Rightarrow> string \<Rightarrow> string \<Rightarrow> string \<Rightarrow> ('r, WalletLoginResult) act" where
  "issueSession L sv w account walletPlugin deviceID ip userAgent =
     (let (t, w1) = clk w;
          access = SignAccessToken (L_hmac L) (L_enc L) t (sv_jwtSecret sv) (ac_ID account) (ac_Username account) (nanos 7200);
          (sessionID, w2) = RandomToken w1 ''session'';
          (refreshTok, w3) = RandomToken w2 ''refresh'';
          (t3, w4) = clk w3;
          expiresAt = t3 + sessionTTL sv;
          (w5, res) = on_db w4 (CreateAccountSession (L_sha256 L) (db w4)
            \<lparr>cr_SessionID = sessionID, cr_AccountID = ac_ID account, cr_RefreshToken = refreshTok,
             cr_WalletPlugin = walletPlugin, cr_DeviceID = deviceID, cr_IPAddress = ip, cr_UserAgent = userAgent,
             cr_ExpiresAt = expiresAt\<rparr>)
      in case res of
           Inl e \<Rightarrow> (w5, Inl e)
         | Inr session \<Rightarrow>
             (cacheSession L sv w5 session refreshTok expiresAt,
              Inr \<lparr>lr_Account = account, lr_AccessToken = access, lr_RefreshToken = refreshTok,
                lr_SessionID = sessionID, lr_WalletPlugin = TrimSpace walletPlugin, lr_ExpiresAt = expiresAt\<rparr>))"

definition WalletLogin ::
  "library \<Rightarrow> 'r Service \<Rightarrow> 'r world \<Rightarrow> string \<Rightarrow> string \<Rightarrow> string \<Rightarrow> LoginMeta \<Rightarrow> ('r, WalletLoginResult) act" where
  "WalletLogin L sv w wallet nonce signature meta =
     (case NormalizeSolanaAddress wallet of
        Inl e \<Rightarrow> (w, Inl e)
      | Inr normalized \<Rightarrow>
          let (now, w1) = clk w; (w2, found) = on_db w1 (WalletNonce (db w1) (TrimSpace nonce) normalized now)
          in case found of
               Inl _ \<Rightarrow> (w2, Inl (ErrMsg ''wallet nonce is invalid or expired''))
             | Inr loginNonce \<Rightarrow>
                 case VerifyWalletSignature (L_verify L) normalized (wn_Message loginNonce) signature of
                   Inl e \<Rightarrow> (w2, Inl e)
                 | Inr _ \<Rightarrow>
                     let (w3, used) = on_db w2 (ConsumeWalletNonce (db w2) (wn_Nonce loginNonce) normalized now)
                     in case used of
                          Inl _ \<Rightarrow> (w3, Inl (ErrMsg ''wallet nonce is invalid or already consumed''))
                        | Inr _ \<Rightarrow>
                            let (w4, acct) = on_db w3 (UpsertAccountByWallet (db w3) normalized)
                            in case acct of
                                 Inl e \<Rightarrow> (w4, Inl e)
                               | Inr account \<Rightarrow>
                                   if ac_IsBanned account then (w4, Inl (ErrMsg ''account is banned''))
                                   else issueSession L sv w4 account (lm_WalletPlugin meta) (lm_DeviceID meta)
                                          (lm_IPAddress meta) (lm_UserAgent meta))"

definition RequireActiveSession :: "library \<Rightarrow> 'r Service \<Rightarrow> 'r world \<Rightarrow> string \<Rightarrow> int \<Rightarrow> ('r, unit) act" where
  "RequireActiveSession L sv w sessionID0 accountID =
     (let sessionID = TrimSpace sessionID0 in
      if sessionID = [] then (w, Inl (ErrMsg ''sessionId is required''))
      else
        let w1 = (if redis_on sv w then fst (redis_get sv w (session_key sessionID)) else w)
        in case GetAccountSession (db w1) sessionID of
             Inl _ \<Rightarrow> (w1, Inl (ErrMsg ''session not found''))
           | Inr session \<Rightarrow>
               if se_Status session \<noteq> ''ACTIVE'' \<or> se_AccountID session \<noteq> accountID
               then (w1, Inl (ErrMsg ''session is not active''))
               else
                 let (t, w2) = clk w1; (w3, _) = on_db w2 (TouchAccountSession (db w2) sessionID t); (t', w4) = clk w3
                 in (cacheSession L sv w4 session [] (t' + sessionTTL sv), Inr ()))"

definition Refresh :: "library \<Rightarrow> 'r Service \<Rightarrow> 'r world \<Rightarrow> string \<Rightarrow> ('r, RefreshResult) act" where
  "Refresh L sv w refreshToken0 =
     (let refreshToken = TrimSpace refreshToken0 in
      if refreshToken = [] then (w, Inl (ErrMsg ''refreshToken is required''))
      else
        let (now, w1) = clk w
        in case LookupRefreshToken (L_sha256 L) (db w1) refreshToken now of
             Inl _ \<Rightarrow> (w1, Inl (ErrMsg ''refresh token is invalid or expired''))
           | Inr rec \<Rightarrow>
               case GetAccountSession (db w1) (rt_SessionID rec) of
                 Inl _ \<Rightarrow> (w1, Inl (ErrMsg ''session is not active''))
               | Inr session \<Rightarrow>
                   if se_Status session \<noteq> ''ACTIVE'' then (w1, Inl (ErrMsg ''session is not active''))
                   else case Account_get (db w1) (rt_AccountID rec) of
                       None \<Rightarrow> (w1, Inl (ErrMsg ''account unavailable''))
                     | Some account \<Rightarrow>
                         if ac_IsBanned account then (w1, Inl (ErrMsg ''account unavailable''))
                         else
                           let (newRefresh, w2) = RandomToken w1 ''refresh'';
                               expiresAt = now + sessionTTL sv;
                               (w3, rotated) = on_db w2 (RotateRefreshToken (L_sha256 L) (db w2) refreshToken newRefresh
                                 (rt_SessionID rec) (rt_AccountID rec) expiresAt now)
                           in case rotated of
                                Inl e \<Rightarrow> (w3, Inl e)
                              | Inr _ \<Rightarrow>
                                  let (t, w4) = clk w3;
                                      access = SignAccessToken (L_hmac L) (L_enc L) t (sv_jwtSecret sv) (ac_ID account)
                                        (ac_Username account) (nanos 7200);
                                      w5 = dropSessionCache L sv w4 (rt_SessionID rec) refreshToken
                                  in (cacheSession L sv w5 session newRefresh expiresAt,
                                      Inr \<lparr>rr_AccessToken = access, rr_RefreshToken = newRefresh,
                                        rr_SessionID = rt_SessionID rec, rr_ExpiresIn = 7200\<rparr>))"

definition Logout :: "library \<Rightarrow> 'r Service \<Rightarrow> 'r world \<Rightarrow> string \<Rightarrow> string \<Rightarrow> ('r, LogoutResult) act" where
  "Logout L sv w sessionID0 refreshToken =
     (let sessionID1 = TrimSpace sessionID0;
          (w1, sessionID) =
            (if sessionID1 = [] \<and> refreshToken \<noteq> []
             then let (t, w') = clk w
                  in (w', case LookupRefreshToken (L_sha256 L) (db w') refreshToken t of
                            Inl _ \<Rightarrow> sessionID1 | Inr rec \<Rightarrow> rt_SessionID rec)
             else (w, sessionID1))
      in if sessionID = [] then (w1, Inl (ErrMsg ''sessionId or refreshToken is required''))
         else
           let (now, w2) = clk w1; w3 = w2\<lparr>db := RevokeAccountSession (db w2) sessionID now\<rparr>
           in (dropSessionCache L sv w3 sessionID refreshToken,
               Inr \<lparr>lo_Status = ''revoked'', lo_SessionID = sessionID\<rparr>))"

section \<open>Characters\<close>

text \<open>
  \<open>L_letter\<close> is \<open>unicode.IsLetter\<close>, \<open>IsDigit\<close> or membership in \<open>unicode.Han\<close> for a rune outside ASCII.
\<close>

definition name_rune :: "library \<Rightarrow> nat \<Rightarrow> bool" where
  "name_rune L r \<longleftrightarrow> r = 95 \<or>
     (if r < 128 then byte_in 65 90 r \<or> byte_in 97 122 r \<or> byte_in 48 57 r else L_letter L r)"

definition validCharacterName :: "library \<Rightarrow> string \<Rightarrow> bool" where
  "validCharacterName L name =
     (let rs = runes name
      in \<not> (length rs < 2 \<or> length rs > 12) \<and> list_all (name_rune L) rs)"

definition CreateCharacterWithAppearance_svc ::
  "library \<Rightarrow> 'r world \<Rightarrow> int \<Rightarrow> string \<Rightarrow> attrs option \<Rightarrow> ('r, Character) act" where
  "CreateCharacterWithAppearance_svc L w accountID name0 appearance =
     (let name = TrimSpace name0 in
      if \<not> validCharacterName L name
      then (w, Inl (ErrMsg ''character name must be 2-12 Chinese characters, letters, digits, or underscores''))
      else on_db w (CreateCharacterWithAppearance (db w) accountID name appearance))"

definition CreateCharacter_svc :: "library \<Rightarrow> 'r world \<Rightarrow> int \<Rightarrow> string \<Rightarrow> ('r, Character) act" where
  "CreateCharacter_svc L w accountID name = CreateCharacterWithAppearance_svc L w accountID name None"

definition rules_of :: "'r Service \<Rightarrow> Config option" where
  "rules_of sv = (if sv_economyRulesErr sv \<noteq> None then None else sv_economyRules sv)"

definition resolve_or_keep :: "library \<Rightarrow> Config \<Rightarrow> EquipmentItem \<Rightarrow> EquipmentItem" where
  "resolve_or_keep L c item =
     (case ResolveEquipmentItem (L_quote L) (L_float L) c item of Inl _ \<Rightarrow> item | Inr resolved \<Rightarrow> resolved)"

definition resolveCharacterEquipment :: "library \<Rightarrow> 'r Service \<Rightarrow> Character \<Rightarrow> Character" where
  "resolveCharacterEquipment L sv character =
     (case rules_of sv of
        None \<Rightarrow> character
      | Some c \<Rightarrow> character\<lparr>ch_EquipmentItems := map (resolve_or_keep L c) (ch_EquipmentItems character)\<rparr>)"

definition Characters_svc :: "library \<Rightarrow> 'r Service \<Rightarrow> 'r world \<Rightarrow> int list \<Rightarrow> int \<Rightarrow> Character list" where
  "Characters_svc L sv w ks accountID = map (resolveCharacterEquipment L sv) (Characters (db w) ks accountID)"

definition DeleteCharacter_svc :: "'r world \<Rightarrow> int \<Rightarrow> int \<Rightarrow> ('r, unit) act" where
  "DeleteCharacter_svc w accountID characterID = on_db w (DeleteCharacter (db w) accountID characterID)"

definition resolveEconomySnapshot :: "library \<Rightarrow> 'r Service \<Rightarrow> EconomySnapshot \<Rightarrow> EconomySnapshot" where
  "resolveEconomySnapshot L sv snapshot =
     (case rules_of sv of
        None \<Rightarrow> snapshot
      | Some c \<Rightarrow>
          let progress = Config_LevelProgress c (sn_Level snapshot) (sn_Exp snapshot)
          in snapshot\<lparr>sn_Level := pg_Level progress, sn_ExpToNextLevel := pg_ExpToNextLevel progress,
                      sn_Equipment := map (resolve_or_keep L c) (sn_Equipment snapshot)\<rparr>)"

definition PlayerProfile_svc ::
  "library \<Rightarrow> 'r Service \<Rightarrow> 'r world \<Rightarrow> int \<Rightarrow> int \<Rightarrow> ('r, PlayerState \<times> EconomySnapshot) act" where
  "PlayerProfile_svc L sv w accountID characterID =
     (case on_db w (PlayerProfile (db w) accountID characterID) of
        (w1, Inl e) \<Rightarrow> (w1, Inl e)
      | (w1, Inr player) \<Rightarrow>
          (case on_db w1 (EconomySnapshot_op (db w1) accountID characterID) of
             (w2, Inl e) \<Rightarrow> (w2, Inl e)
           | (w2, Inr economy0) \<Rightarrow>
               let economy = resolveEconomySnapshot L sv economy0
               in (w2, Inr (player\<lparr>ps_Level := sn_Level economy, ps_Exp := sn_Exp economy,
                    ps_ExpToNextLevel := sn_ExpToNextLevel economy\<rparr>, economy))))"

definition SavePlayerState_svc :: "'r world \<Rightarrow> PlayerSaveRequest \<Rightarrow> ('r, unit) act" where
  "SavePlayerState_svc w req = on_db w (SavePlayerState (db w) req)"

section \<open>Presence and servers\<close>

text \<open>
  The number of players per server. Without the cache it counts the fresh rows of the repository;
  with it, the members of each server's set whose own entry confirms them, and the others are
  removed from the set.
\<close>

definition store_count :: "'r Service \<Rightarrow> 'r world \<Rightarrow> time \<Rightarrow> string \<Rightarrow> int" where
  "store_count sv w now serverID =
     int (length (filter (\<lambda>row. \<not> Before (os_LastSeenAt row) (now - onlineTTL sv))
       (ListOnlineByServer (db w) (keys_of (online (db w))) serverID)))"

fun member_scan ::
  "'r Service \<Rightarrow> string \<Rightarrow> 'r world \<Rightarrow> string list \<Rightarrow> 'r world \<times> (err + int \<times> string list)" where
  "member_scan sv serverID w [] = (w, Inr (0, []))"
| "member_scan sv serverID w (member # ms) =
     (let rest = (\<lambda>w' hit. case member_scan sv serverID w' ms of
            (w'', Inl e) \<Rightarrow> (w'', Inl e)
          | (w'', Inr (n, gone)) \<Rightarrow> (w'', Inr (if hit then (n + 1, gone) else (n, member # gone))))
      in case ParseInt member of
           None \<Rightarrow> rest w False
         | Some accountID \<Rightarrow>
             if accountID \<le> 0 then rest w False
             else case redis_get sv w (''aeon:online:acct:'' @ member) of
                 (w1, Inl KeyNotFound) \<Rightarrow> rest w1 False
               | (w1, Inl (CacheErr m)) \<Rightarrow> (w1, Inl (ErrMsg m))
               | (w1, Inr v) \<Rightarrow>
                   rest w1 (os_AccountID (as_online v) = accountID \<and> os_ServerID (as_online v) = serverID))"

fun cache_counts ::
  "'r Service \<Rightarrow> 'r world \<Rightarrow> GameServer list \<Rightarrow> (string \<Rightarrow> int) \<Rightarrow> 'r world \<times> (string \<Rightarrow> int) result" where
  "cache_counts sv w [] counts = (w, Inr counts)"
| "cache_counts sv w (server # rows) counts =
     (let sid = gs_ServerID server in
      case SMembers (sv_redis sv) (cache w) (server_set_key sid) of
        Inl KeyNotFound \<Rightarrow> (w, Inl (ErrMsg ''redis key not found''))
      | Inl (CacheErr m) \<Rightarrow> (w, Inl (ErrMsg m))
      | Inr ms \<Rightarrow>
          (case member_scan sv sid w ms of
             (w1, Inl e) \<Rightarrow> (w1, Inl e)
           | (w1, Inr (n, gone)) \<Rightarrow>
               let w2 = (if gone \<noteq> [] then redis_srem sv w1 (server_set_key sid) gone else w1)
               in cache_counts sv w2 rows (counts(sid := counts sid + n))))"

definition onlinePresenceCounts ::
  "'r Service \<Rightarrow> 'r world \<Rightarrow> GameServer list \<Rightarrow> time \<Rightarrow> 'r world \<times> (string \<Rightarrow> int) result" where
  "onlinePresenceCounts sv w rows now =
     (if \<not> redis_on sv w
      then (w, Inr (\<lambda>sid. if sid \<in> gs_ServerID ` set rows then store_count sv w now sid else 0))
      else cache_counts sv w rows (\<lambda>_. 0))"

definition launchServerHeartbeatWindow :: int where "launchServerHeartbeatWindow = 30000000000"

definition publicFullThreshold :: "int \<Rightarrow> int" where
  "publicFullThreshold maxPlayers =
     (if maxPlayers \<le> 0 then 0 else w64 (w64 (maxPlayers * 95) + 99) sdiv 100)"

definition publicServerStatus :: "library \<Rightarrow> GameServer \<Rightarrow> time \<Rightarrow> int \<Rightarrow> string" where
  "publicServerStatus L server now curPlayers =
     (let live = (case gs_LastHeartbeatAt server of
            None \<Rightarrow> False | Some t \<Rightarrow> \<not> Before t (now - launchServerHeartbeatWindow))
      in if ToUpper (L_case L) (TrimSpace (gs_Status server)) \<noteq> ''ONLINE'' \<or> \<not> live then ''offline''
         else if gs_MaxPlayers server > 0 \<and> curPlayers \<ge> publicFullThreshold (gs_MaxPlayers server) then ''full''
         else ''online'')"

definition publicStatusRank :: "string \<Rightarrow> int" where
  "publicStatusRank status = (if status = ''online'' then 0 else if status = ''full'' then 1 else 2)"

definition publicServerView :: "library \<Rightarrow> GameServer \<Rightarrow> time \<Rightarrow> int \<Rightarrow> PublicServerView" where
  "publicServerView L server now curPlayers =
     \<lparr>pv_ServerID = gs_ServerID server, pv_Name = gs_DisplayName server, pv_CurPlayers = curPlayers,
      pv_MaxPlayers = gs_MaxPlayers server, pv_Status = publicServerStatus L server now curPlayers,
      pv_QueueLength = 0, pv_Region = gs_Region server\<rparr>"

definition PublicGameServers ::
  "library \<Rightarrow> 'r Service \<Rightarrow> 'r world \<Rightarrow> string list \<Rightarrow> bool \<Rightarrow> ('r, PublicServerView list) act" where
  "PublicGameServers L sv w ks onlineOnly =
     (let rows = ListGameServers (L_case L) (db w) ks []; (now, w1) = clk w
      in case onlinePresenceCounts sv w1 rows now of
           (w2, Inl e) \<Rightarrow> (w2, Inl e)
         | (w2, Inr counts) \<Rightarrow>
             (w2, Inr (sort_key (\<lambda>v. (publicStatusRank (pv_Status v), pv_CurPlayers v, pv_ServerID v))
               (filter (\<lambda>v. \<not> (onlineOnly \<and> pv_Status v \<noteq> ''online''))
                 (map (\<lambda>row. publicServerView L row now (counts (gs_ServerID row))) rows)))))"

definition HomeStats :: "library \<Rightarrow> 'r Service \<Rightarrow> 'r world \<Rightarrow> string list \<Rightarrow> ('r, HomeStatsResult) act" where
  "HomeStats L sv w ks =
     (let (now, w1) = clk w; rows = ListGameServers (L_case L) (db w1) ks []
      in case onlinePresenceCounts sv w1 rows now of
           (w2, Inl e) \<Rightarrow> (w2, Inl e)
         | (w2, Inr counts) \<Rightarrow>
             (w2, Inr \<lparr>hs_OnlinePlayers = sum_list (map counts (remdups (map gs_ServerID rows))),
               hs_MonthlyActivePlayers =
                 CountMonthlyActiveAccounts (db w2) (keys_of (sessions (db w2))) (now - 30 * day_nanos),
               hs_UpdatedAt = now\<rparr>))"

definition selectLaunchServer ::
  "library \<Rightarrow> 'r Service \<Rightarrow> 'r world \<Rightarrow> string list \<Rightarrow> string \<Rightarrow> ('r, GameServer) act" where
  "selectLaunchServer L sv w ks serverID0 =
     (let serverID = TrimSpace serverID0;
          rows = ListGameServers (L_case L) (db w) ks []; (now, w1) = clk w
      in case onlinePresenceCounts sv w1 rows now of
           (w2, Inl e) \<Rightarrow> (w2, Inl e)
         | (w2, Inr counts) \<Rightarrow>
             let is_online = (\<lambda>row. publicServerStatus L row now (counts (gs_ServerID row)) = ''online'')
             in if serverID \<noteq> []
                then (w2, case List.find (\<lambda>row. gs_ServerID row = serverID) rows of
                            None \<Rightarrow> Inl (ErrMsg ''serverId is unavailable'')
                          | Some row \<Rightarrow> if is_online row then Inr row else Inl (ErrMsg ''serverId is unavailable''))
                else (w2, case sort_key (\<lambda>row. (counts (gs_ServerID row), gs_ServerID row)) (filter is_online rows) of
                            [] \<Rightarrow> Inl (ErrMsg ''no available game server'')
                          | row # _ \<Rightarrow> Inr row))"

definition RegisterGameServer :: "'r Service \<Rightarrow> 'r world \<Rightarrow> GameServer \<Rightarrow> ('r, GameServer) act" where
  "RegisterGameServer sv w server0 =
     (let server = server0\<lparr>gs_ServerID := TrimSpace (gs_ServerID server0)\<rparr> in
      if gs_ServerID server = [] then (w, Inl (ErrMsg ''serverId is required''))
      else if TrimSpace (gs_Host server) = [] then (w, Inl (ErrMsg ''host is required''))
      else if gs_Port server \<le> 0 then (w, Inl (ErrMsg ''port is required''))
      else case on_db w (UpsertGameServer (db w) server) of
             (w1, Inl e) \<Rightarrow> (w1, Inl e)
           | (w1, Inr out) \<Rightarrow>
               (if redis_on sv w1 then redis_set sv w1 (server_key (gs_ServerID out)) (CServer out) (nanos 300) else w1,
                Inr out))"

definition HeartbeatGameServer_svc :: "'r Service \<Rightarrow> 'r world \<Rightarrow> string \<Rightarrow> int \<Rightarrow> ('r, GameServer) act" where
  "HeartbeatGameServer_svc sv w serverID0 onlinePlayers =
     (let serverID = TrimSpace serverID0 in
      if serverID = [] then (w, Inl (ErrMsg ''serverId is required''))
      else
        let (t, w1) = clk w
        in case on_db w1 (HeartbeatGameServer (db w1) serverID onlinePlayers t) of
             (w2, Inl e) \<Rightarrow> (w2, Inl e)
           | (w2, Inr out) \<Rightarrow>
               (if redis_on sv w2 then redis_set sv w2 (server_key (gs_ServerID out)) (CServer out) (nanos 300) else w2,
                Inr out))"

definition EnterOnline ::
  "library \<Rightarrow> 'r Service \<Rightarrow> 'r world \<Rightarrow> int \<Rightarrow> int \<Rightarrow> string \<Rightarrow> string \<Rightarrow> string \<Rightarrow> ('r, OnlineSession) act" where
  "EnterOnline L sv w accountID characterID sessionID serverID connectionID0 =
     (let (connectionID, w0) = (if connectionID0 = [] then RandomToken w ''conn'' else (connectionID0, w)) in
      if TrimSpace serverID = [] then (w0, Inl (ErrMsg ''serverId is required''))
      else case RequireActiveSession L sv w0 sessionID accountID of
          (w1, Inl e) \<Rightarrow> (w1, Inl e)
        | (w1, Inr _) \<Rightarrow>
            if Character_get (db w1) accountID characterID = None then (w1, Inl (ErrMsg ''character not found''))
            else
              let w2 = (case GetOnlineSession (db w1) accountID of Inl _ \<Rightarrow> w1 | Inr prev \<Rightarrow> dropOnlineCache sv w1 prev)
              in case on_db w2 (EnterOnlineSession (db w2) \<lparr>os_AccountID = accountID, os_CharacterID = characterID,
                        os_SessionID = sessionID, os_ServerID = serverID, os_ConnectionID = connectionID,
                        os_EnteredAt = 0, os_LastSeenAt = 0\<rparr>) of
                   (w3, Inl e) \<Rightarrow> (w3, Inl e)
                 | (w3, Inr row) \<Rightarrow> (cacheOnline sv w3 row, Inr row))"

definition OnlineHeartbeat :: "'r Service \<Rightarrow> 'r world \<Rightarrow> int \<Rightarrow> string \<Rightarrow> ('r, OnlineSession) act" where
  "OnlineHeartbeat sv w accountID connectionID =
     (let (t, w1) = clk w
      in case on_db w1 (TouchOnlineSession (db w1) accountID connectionID t) of
           (w2, Inl e) \<Rightarrow> (w2, Inl e) | (w2, Inr row) \<Rightarrow> (cacheOnline sv w2 row, Inr row))"

definition LeaveOnline :: "'r Service \<Rightarrow> 'r world \<Rightarrow> int \<Rightarrow> string \<Rightarrow> ('r, OnlineSession) act" where
  "LeaveOnline sv w accountID connectionID =
     (case on_db w (LeaveOnlineSession (db w) accountID connectionID) of
        (w1, Inl e) \<Rightarrow> (w1, Inl e) | (w1, Inr row) \<Rightarrow> (dropOnlineCache sv w1 row, Inr row))"

definition GetOnline :: "'r Service \<Rightarrow> 'r world \<Rightarrow> int \<Rightarrow> ('r, OnlineSession) act" where
  "GetOnline sv w accountID =
     (if redis_on sv w
      then (case redis_get sv w (online_key accountID) of
              (w1, Inr v) \<Rightarrow> (w1, Inr (as_online v))
            | (w1, Inl _) \<Rightarrow> (w1, GetOnlineSession (db w1) accountID))
      else (w, GetOnlineSession (db w) accountID))"

definition ListOnline :: "'r world \<Rightarrow> int list \<Rightarrow> string \<Rightarrow> OnlineSession list" where
  "ListOnline w ks serverID = ListOnlineByServer (db w) ks (TrimSpace serverID)"

definition SweepStaleOnline :: "'r Service \<Rightarrow> 'r world \<Rightarrow> 'r world \<times> int" where
  "SweepStaleOnline sv w =
     (let (t, w1) = clk w in on_db w1 (SweepStaleOnlineSessions (db w1) (t + w64 (- onlineTTL sv * 2))))"

section \<open>Launching and dungeon recovery\<close>

definition ticket_row :: "string \<Rightarrow> int \<Rightarrow> string \<Rightarrow> string \<Rightarrow> time \<Rightarrow> GameTicket" where
  "ticket_row ticket accountID serverID sessionID expiresAt =
     \<lparr>tk_Ticket = ticket, tk_AccountID = accountID, tk_CharacterID = 0, tk_ServerID = serverID,
      tk_SessionID = sessionID, tk_ExpiresAt = expiresAt, tk_Consumed = False\<rparr>"

definition Launch ::
  "library \<Rightarrow> 'r Service \<Rightarrow> 'r world \<Rightarrow> string list \<Rightarrow> int \<Rightarrow> string \<Rightarrow> string \<Rightarrow> ('r, LaunchResult) act" where
  "Launch L sv w ks accountID sessionID serverID =
     (case Account_get (db w) accountID of
        None \<Rightarrow> (w, Inl ErrNotFound)
      | Some account \<Rightarrow>
          if ac_IsBanned account then (w, Inl (ErrMsg ''account is banned''))
          else case RequireActiveSession L sv w sessionID accountID of
              (w1, Inl e) \<Rightarrow> (w1, Inl e)
            | (w1, Inr _) \<Rightarrow>
                (case GetAccountSession (db w1) (TrimSpace sessionID) of
                   Inl e \<Rightarrow> (w1, Inl e)
                 | Inr session \<Rightarrow>
                     (case selectLaunchServer L sv w1 ks serverID of
                        (w2, Inl e) \<Rightarrow> (w2, Inl e)
                      | (w2, Inr server) \<Rightarrow>
                          let (ticket, w3) = RandomToken w2 ''ticket''; (t, w4) = clk w3; expiresAt = t + Seconds 90;
                              w5 = w4\<lparr>db := SaveTicket (db w4)
                                (ticket_row ticket accountID (gs_ServerID server) (TrimSpace sessionID) expiresAt)\<rparr>
                          in (w5, Inr \<lparr>la_Status = ''ready'', la_Ticket = ticket, la_ExpiresIn = 90,
                               la_ExpiresAt = expiresAt, la_ServerID = gs_ServerID server, la_Host = gs_Host server,
                               la_Port = gs_Port server, la_WalletAddress = ac_WalletAddress account,
                               la_WalletPlugin = TrimSpace (se_WalletPlugin session), la_GameURL = []\<rparr>))))"

definition ConsumeTicket_svc :: "'r world \<Rightarrow> string \<Rightarrow> string \<Rightarrow> ('r, ConsumeTicketResult) act" where
  "ConsumeTicket_svc w ticket serverID0 =
     (let serverID = TrimSpace serverID0 in
      if serverID = [] then (w, Inl (ErrMsg ''serverId is required''))
      else
        let (t, w1) = clk w
        in case on_db w1 (ConsumeTicket (db w1) (TrimSpace ticket) serverID t) of
             (w2, Inl e) \<Rightarrow> (w2, Inl e)
           | (w2, Inr row) \<Rightarrow>
               if tk_ServerID row \<noteq> serverID then (w2, Inl ErrForbidden)
               else (case Account_get (db w2) (tk_AccountID row) of
                   None \<Rightarrow> (w2, Inl (ErrMsg ''account unavailable''))
                 | Some account \<Rightarrow>
                     if ac_IsBanned account then (w2, Inl (ErrMsg ''account unavailable''))
                     else (case GetAccountSession (db w2) (tk_SessionID row) of
                         Inl e \<Rightarrow> (w2, Inl e)
                       | Inr session \<Rightarrow>
                           (w2, Inr \<lparr>ct_AccountID = tk_AccountID row, ct_WalletAddress = ac_WalletAddress account,
                             ct_WalletPlugin = TrimSpace (se_WalletPlugin session), ct_SessionID = tk_SessionID row,
                             ct_ServerID = tk_ServerID row\<rparr>))))"

definition zero_recovery :: DungeonRunRecovery where
  "zero_recovery = \<lparr>dr_Required = False, dr_Status = [], dr_DungeonRunID = [], dr_AccountID = 0, dr_CharacterID = 0,
     dr_ServerID = [], dr_ChapterID = 0, dr_FloorID = 0, dr_StartedAt = 0\<rparr>"

definition DungeonRecovery :: "'r Service \<Rightarrow> 'r world \<Rightarrow> int \<Rightarrow> int \<Rightarrow> ('r, DungeonRunRecovery) act" where
  "DungeonRecovery sv w accountID characterID =
     (if accountID \<le> 0 \<or> characterID \<le> 0 then (w, Inl (ErrMsg ''accountId and characterId are required''))
      else
        let key = resume_key accountID characterID;
            w1 = (if redis_on sv w then fst (redis_get sv w key) else w)
        in case ActiveDungeonRun (db w1) accountID characterID of
             Inl ErrNotFound \<Rightarrow> (if redis_on sv w1 then redis_del sv w1 [key] else w1, Inr zero_recovery)
           | Inl e \<Rightarrow> (w1, Inl e)
           | Inr row \<Rightarrow> (if redis_on sv w1 then redis_set sv w1 key (CRun row) (nanos 300) else w1, Inr row))"

definition ResolveDungeonRecovery ::
  "library \<Rightarrow> 'r Service \<Rightarrow> 'r world \<Rightarrow> int \<Rightarrow> int \<Rightarrow> string \<Rightarrow> string \<Rightarrow> string \<Rightarrow> ('r, DungeonRecoveryDecision) act" where
  "ResolveDungeonRecovery L sv w accountID characterID dungeonRunID action0 sessionID =
     (let action = ToLower (L_case L) (TrimSpace action0) in
      if action \<noteq> ''abandon'' \<and> action \<noteq> ''resume'' then (w, Inl (ErrMsg ''action must be abandon or resume''))
      else case RequireActiveSession L sv w sessionID accountID of
          (w1, Inl e) \<Rightarrow> (w1, Inl e)
        | (w1, Inr _) \<Rightarrow>
            if action = ''resume''
            then (case ActiveDungeonRun (db w1) accountID characterID of
                Inl e \<Rightarrow> (w1, Inl e)
              | Inr row \<Rightarrow>
                  if dr_DungeonRunID row \<noteq> TrimSpace dungeonRunID then (w1, Inl ErrForbidden)
                  else if TrimSpace (dr_ServerID row) = []
                  then (w1, Inl (ErrMsg ''dungeon origin server is unavailable''))
                  else
                    let (ticket, w2) = RandomToken w1 ''ticket''; (t, w3) = clk w2; expiresAt = t + nanos 90
                    in (w3\<lparr>db := SaveTicket (db w3)
                          (ticket_row ticket accountID (dr_ServerID row) (TrimSpace sessionID) expiresAt)\<rparr>,
                        Inr \<lparr>dd_Action = ''resume'', dd_Status = ''RESUME_READY'', dd_DungeonRunID = dr_DungeonRunID row,
                          dd_ServerID = dr_ServerID row, dd_Ticket = ticket, dd_ExpiresAt = expiresAt\<rparr>))
            else (case on_db w1 (CancelDungeonRun (db w1) accountID characterID (TrimSpace dungeonRunID)
                           ''player declined reconnect'') of
                (w2, Inl e) \<Rightarrow> (w2, Inl e)
              | (w2, Inr row) \<Rightarrow>
                  (if redis_on sv w2 then redis_del sv w2 [resume_key accountID characterID] else w2,
                   Inr \<lparr>dd_Action = ''abandon'', dd_Status = dr_Status row, dd_DungeonRunID = dr_DungeonRunID row,
                     dd_ServerID = dr_ServerID row, dd_Ticket = [], dd_ExpiresAt = 0\<rparr>)))"

end
