(* ===== verification/AccountServiceProps.thy ===== *)
theory AccountServiceProps
  imports AccountService
begin

text \<open>
  Properties of the account service: a session is decided by the repository and never by the
  cache, a wallet login spends its challenge and opens a session of the wallet's account, a launch
  ticket admits the player at the chosen server, and the server a launch chooses.

  \<open>untimed\<close> forgets the position of the clock, so that \<open>untimed s = untimed t\<close> says that two stores
  differ at most in how often the time was read.
\<close>

section \<open>Calls that leave the repository alone\<close>

definition untimed :: "store \<Rightarrow> store" where "untimed s = s\<lparr>ticks := 0\<rparr>"

lemma untimed_tick [simp]: "untimed (tick s) = untimed s"
  by (simp add: untimed_def tick_def)

lemma untimed_fields:
  assumes "untimed s = untimed t"
  shows "sessions s = sessions t" "accounts s = accounts t" "tickets s = tickets t" "nonces s = nonces t"
    "servers s = servers t" "clock s = clock t" "refresh s = refresh t" "online s = online t"
proof -
  have "sessions (untimed s) = sessions (untimed t)" "accounts (untimed s) = accounts (untimed t)"
    "tickets (untimed s) = tickets (untimed t)" "nonces (untimed s) = nonces (untimed t)"
    "servers (untimed s) = servers (untimed t)" "clock (untimed s) = clock (untimed t)"
    "refresh (untimed s) = refresh (untimed t)" "online (untimed s) = online (untimed t)"
    using assms by simp_all
  then show "sessions s = sessions t" "accounts s = accounts t" "tickets s = tickets t" "nonces s = nonces t"
    "servers s = servers t" "clock s = clock t" "refresh s = refresh t" "online s = online t"
    by (simp_all add: untimed_def)
qed

lemma db_clk [simp]: "db (snd (clk w)) = tick (db w)" "fst (clk w) = time_Now (db w)"
  by (simp_all add: clk_def)

lemma db_RandomToken [simp]: "db (snd (RandomToken w p)) = db w"
  by (simp add: RandomToken_def)

lemma untimed_cache_calls [simp]:
  "untimed (db (redis_set sv w k v ttl)) = untimed (db w)"
  "untimed (db (fst (redis_get sv w k))) = untimed (db w)"
  "db (redis_del sv w ks) = db w"
  "db (redis_sadd sv w k ms) = db w"
  "db (redis_srem sv w k ms) = db w"
  by (simp_all add: redis_set_def redis_get_def redis_del_def redis_sadd_def redis_srem_def clk_def
      split: prod.splits)

lemma untimed_cacheSession [simp]: "untimed (db (cacheSession L sv w x r e)) = untimed (db w)"
  by (simp add: cacheSession_def Let_def clk_def)

lemma db_dropSessionCache [simp]: "db (dropSessionCache L sv w x r) = db w"
  by (simp add: dropSessionCache_def)

lemma untimed_member_scan: "member_scan sv sid w ms = (w1, r) \<Longrightarrow> untimed (db w1) = untimed (db w)"
proof (induction ms arbitrary: sid w w1 r)
  case (Cons m ms)
  have got: "untimed (db w1) = untimed (db w)" if "redis_get sv w k = (w1, r)" for k w1 r
    using untimed_cache_calls(2) [of sv w k] that by simp
  show ?case
    using Cons.prems
    by (auto simp: Let_def dest!: Cons.IH got split: option.splits prod.splits sum.splits cache_err.splits if_splits)
qed simp

lemma untimed_cache_counts: "cache_counts sv w rows c = (w1, r) \<Longrightarrow> untimed (db w1) = untimed (db w)"
proof (induction rows arbitrary: w c w1 r)
  case (Cons x rows)
  from Cons.prems show ?case
    by (auto simp: Let_def dest!: Cons.IH untimed_member_scan
        split: prod.splits sum.splits cache_err.splits if_splits)
qed simp

lemma untimed_presence: "onlinePresenceCounts sv w rows now = (w1, r) \<Longrightarrow> untimed (db w1) = untimed (db w)"
  by (auto simp: onlinePresenceCounts_def dest: untimed_cache_counts split: if_splits)

lemma untimed_select: "selectLaunchServer L sv w ks srv = (w1, r) \<Longrightarrow> untimed (db w1) = untimed (db w)"
  by (auto simp: selectLaunchServer_def Let_def clk_def dest!: untimed_presence
      split: prod.splits sum.splits if_splits)

section \<open>Sessions\<close>

text \<open>What the repository says of a session.\<close>

definition active_session :: "store \<Rightarrow> string \<Rightarrow> int \<Rightarrow> bool" where
  "active_session s sid a \<longleftrightarrow> sid \<noteq> [] \<and>
     (case sessions s sid of None \<Rightarrow> False | Some row \<Rightarrow> se_Status row = ''ACTIVE'' \<and> se_AccountID row = a)"

lemma RequireActiveSession_iff:
  "is_ok (snd (RequireActiveSession L sv w sid a)) \<longleftrightarrow> active_session (db w) (TrimSpace sid) a"
proof -
  let ?w = "if redis_on sv w then fst (redis_get sv w (session_key (TrimSpace sid))) else w"
  have "untimed (db ?w) = untimed (db w)" by simp
  then have [simp]: "sessions (db ?w) = sessions (db w)" by (rule untimed_fields)
  show ?thesis
    unfolding RequireActiveSession_def Let_def clk_def on_db_def
    by (auto simp: GetAccountSession_def active_session_def simp del: if_split split: option.splits if_split_asm)
qed

text \<open>
  A call that needs a session. Its provider promises to succeed only for an active session of the
  account; then it refuses the session after a logout, whatever the cache contains.
\<close>

locale session_guard =
  fixes call :: "'r world \<Rightarrow> string \<Rightarrow> int \<Rightarrow> ('r, 'a) act"
  assumes guarded: "is_ok (snd (call w sid a)) \<Longrightarrow> active_session (db w) (TrimSpace sid) a"
begin

lemma refused_when_inactive: "\<not> active_session (db w) (TrimSpace sid) a \<Longrightarrow> \<not> is_ok (snd (call w sid a))"
  using guarded by blast

end

interpretation require: session_guard "RequireActiveSession L sv" for L sv
  by unfold_locales (simp add: RequireActiveSession_iff)

lemma require_first:
  assumes "is_ok (snd (case RequireActiveSession L sv w sid a of (w1, Inl e) \<Rightarrow> (w1, Inl e) | (w1, Inr u) \<Rightarrow> f w1 u))"
  shows "active_session (db w) (TrimSpace sid) a"
  using assms RequireActiveSession_iff [of L sv w sid a] by (auto split: prod.splits sum.splits)

interpretation launch: session_guard "\<lambda>w sid a. Launch L sv w ks a sid srv" for L sv ks srv
  by unfold_locales (auto simp: Launch_def dest!: require_first split: option.splits if_splits)

interpretation enter: session_guard "\<lambda>w sid a. EnterOnline L sv w a ch sid srv conn" for L sv ch srv conn
proof
  fix w :: "'a world" and sid a
  assume ok: "is_ok (snd (EnterOnline L sv w a ch sid srv conn))"
  obtain c w0 where w0: "(if conn = [] then RandomToken w ''conn'' else (conn, w)) = (c, w0)" by (metis surj_pair)
  then have "db w0 = db w" by (auto simp: RandomToken_def split: if_splits)
  with ok show "active_session (db w) (TrimSpace sid) a"
    by (auto simp: EnterOnline_def w0 Let_def dest!: require_first split: if_splits)
qed

interpretation recover: session_guard
  "\<lambda>w sid a. ResolveDungeonRecovery L sv w a ch run act sid" for L sv ch run act
  by unfold_locales (auto simp: ResolveDungeonRecovery_def Let_def dest!: require_first
      split: if_splits)

lemma Logout_db:
  assumes "Logout L sv w sid tok = (w1, Inr lo)"
  obtains now where "sessions (db w1) = sessions (RevokeAccountSession (db w) (lo_SessionID lo) now)"
    "lo_SessionID lo \<noteq> []"
proof -
  have *: "sessions (RevokeAccountSession (tick s) x now) = sessions (RevokeAccountSession s x now)" for s x now
    by (simp add: RevokeAccountSession_def tick_def Let_def split: option.splits)
  show ?thesis
    using assms that by (auto simp: Logout_def Let_def clk_def * split: if_splits prod.splits)
qed

lemma inactive_after_logout:
  assumes "Logout L sv w sid tok = (w1, Inr lo)"
  shows "\<not> active_session (db w1) (lo_SessionID lo) a"
  by (rule Logout_db [OF assms])
    (auto simp: active_session_def RevokeAccountSession_def Let_def split: option.splits)

text \<open>
  Property C32. The cache is only a hint. Whatever client the service uses and whatever the cache
  contains, a session is accepted exactly when the repository has it, active and of that account;
  so after a logout the session opens nothing any more (it is not accepted, starts no launch,
  enters no server and resolves no dungeon recovery), even if the cache still says it is active.
\<close>

theorem cache_is_only_a_hint:
  assumes "Logout L sv w sid0 tok = (w1, Inr lo)" and "TrimSpace sid = lo_SessionID lo"
  shows "(is_ok (snd (RequireActiveSession L' sv' u sid' a')) \<longleftrightarrow> active_session (db u) (TrimSpace sid') a') \<and>
    \<not> is_ok (snd (RequireActiveSession L' sv' (w1\<lparr>cache := c\<rparr>) sid a)) \<and>
    \<not> is_ok (snd (Launch L' sv' (w1\<lparr>cache := c\<rparr>) ks a sid srv)) \<and>
    \<not> is_ok (snd (EnterOnline L' sv' (w1\<lparr>cache := c\<rparr>) a ch sid srv conn)) \<and>
    \<not> is_ok (snd (ResolveDungeonRecovery L' sv' (w1\<lparr>cache := c\<rparr>) a ch run act sid))"
proof -
  have off: "\<not> active_session (db (w1\<lparr>cache := c\<rparr>)) (TrimSpace sid) a"
    using inactive_after_logout [OF assms(1)] assms(2) by simp
  show ?thesis
    by (intro conjI RequireActiveSession_iff require.refused_when_inactive [OF off] launch.refused_when_inactive [OF off]
        enter.refused_when_inactive [OF off] recover.refused_when_inactive [OF off])
qed

definition sample_library :: library where
  "sample_library = \<lparr>L_sha256 = (\<lambda>x. x), L_case = (\<lambda>x. x), L_verify = (\<lambda>_ _ _. True), L_hmac = (\<lambda>_ x. x),
     L_enc = (\<lambda>_. []), L_quote = (\<lambda>x. x),
     L_float = \<lparr>f_add = (\<lambda>x _. x), f_sub = (\<lambda>x _. x), f_mul = (\<lambda>x _. x), f_div = (\<lambda>x _. x), f_of_int = (\<lambda>_. Fin 0)\<rparr>,
     L_letter = (\<lambda>_. False)\<rparr>"

definition sample_service :: "MemoryClient Service" where
  "sample_service = NewServiceWithCache memory_client ''secret'' 168 90"

definition world_of :: "store \<Rightarrow> MemoryClient world" where
  "world_of s = \<lparr>db = s, cache = NewMemoryClient, entropy = (\<lambda>n. [char_of n]), drawn = 0\<rparr>"

lemma sess_trim [simp]: "TrimSpace ''sess'' = ''sess''"
  by (rule trim_plain_string; simp add: plain_def space1_def)

theorem cache_is_only_a_hint_witness:
  "let w = world_of logged_in; (w0, ok) = RequireActiveSession sample_library sample_service w ''sess'' 7;
       (w1, out) = Logout sample_library sample_service w ''sess'' []
   in is_ok ok \<and> is_ok out \<and>
      \<not> is_ok (snd (RequireActiveSession sample_library sample_service (w1\<lparr>cache := cache w0\<rparr>) ''sess'' 7)) \<and>
      \<not> is_ok (snd (Launch sample_library sample_service (w1\<lparr>cache := cache w0\<rparr>) [] 7 ''sess'' []))"
proof -
  let ?w = "world_of logged_in"
  obtain w1 where out: "Logout sample_library sample_service ?w ''sess'' [] = (w1, Inr \<lparr>lo_Status = ''revoked'', lo_SessionID = ''sess''\<rparr>)"
    by (auto simp: Logout_def Let_def clk_def)
  have "active_session (db ?w) (TrimSpace ''sess'') 7"
    using logged_in_fields(2) by (auto simp: active_session_def world_of_def)
  then obtain w0 u where ok: "RequireActiveSession sample_library sample_service ?w ''sess'' 7 = (w0, Inr u)"
    by (metis RequireActiveSession_iff is_okE prod.collapse)
  note off = cache_is_only_a_hint [OF out, of "''sess''", THEN conjunct2]
  show ?thesis by (simp add: Let_def ok out off [THEN conjunct1] off [THEN conjunct2, THEN conjunct1])
qed

section \<open>Wallet login\<close>

lemma b64url_plain: "d < 64 \<Longrightarrow> plain (b64url d)"
proof -
  have "\<forall>c \<in> set b64url_alphabet. plain c" by (simp add: b64url_alphabet_def plain_def space1_def)
  then show "d < 64 \<Longrightarrow> plain (b64url d)" using b64url_in by blast
qed

lemma encoded_plain: "c \<in> set (RawURL_EncodeToString s) \<Longrightarrow> plain c"
  using b64_digits_small [of "map of_char s"] by (auto simp: encode_digits b64url_plain)

lemma RandomToken_trim: "\<forall>c \<in> set p. plain c \<Longrightarrow> TrimSpace (fst (RandomToken w p)) = fst (RandomToken w p)"
proof -
  assume "\<forall>c \<in> set p. plain c"
  moreover have "plain CHR ''_''" by (simp add: plain_def space1_def)
  ultimately have "\<forall>c \<in> set (fst (RandomToken w p)). plain c" by (auto simp: RandomToken_def encoded_plain)
  then show ?thesis by (rule TrimSpace_all_plain)
qed

text \<open>Every stored challenge is stored under its own nonce; the repository's nonce calls keep it so.\<close>

definition nonces_keyed :: "store \<Rightarrow> bool" where
  "nonces_keyed s \<longleftrightarrow> (\<forall>n row. nonces s n = Some row \<longrightarrow> wn_Nonce row = n)"

lemma nonces_keyed_ops:
  "nonces_keyed (New c)"
  "nonces_keyed s \<Longrightarrow> nonces_keyed (SaveWalletNonce s row)"
  "nonces_keyed s \<Longrightarrow> nonces_keyed (fst (WalletNonce s n a now))"
  "nonces_keyed s \<Longrightarrow> nonces_keyed (fst (ConsumeWalletNonce s n a now))"
  by (auto simp: nonces_keyed_def New_def SaveWalletNonce_eq WalletNonce_def ConsumeWalletNonce_def split: option.splits)

lemma issueSession_ok:
  assumes "issueSession L sv w account plugin device ip agent = (w', Inr r)"
  shows "lr_Account r = account" "nonces (db w') = nonces (db w)" "accounts (db w') = accounts (db w)"
    "active_session (db w') (lr_SessionID r) (ac_ID account)"
proof -
  let ?sid = "fst (RandomToken (snd (clk w)) ''session'')"
  let ?req = "\<lparr>cr_SessionID = ?sid, cr_AccountID = ac_ID account,
    cr_RefreshToken = fst (RandomToken (snd (RandomToken (snd (clk w)) ''session'')) ''refresh''),
    cr_WalletPlugin = plugin, cr_DeviceID = device, cr_IPAddress = ip, cr_UserAgent = agent,
    cr_ExpiresAt = time_Now (tick (db w)) + sessionTTL sv\<rparr>"
  let ?new = "CreateAccountSession (L_sha256 L) (tick (tick (db w))) ?req"
  obtain x where x: "snd ?new = Inr x" by (simp add: CreateAccountSession_def Let_def)
  have r: "lr_Account r = account" "lr_SessionID r = ?sid" and w': "untimed (db w') = untimed (fst ?new)"
    using assms x by (auto simp: issueSession_def Let_def clk_def on_db_def RandomToken_def)
  note f = untimed_fields [OF w']
  have "?sid \<noteq> []" by (simp add: RandomToken_def)
  with f r show "lr_Account r = account" "nonces (db w') = nonces (db w)" "accounts (db w') = accounts (db w)"
    "active_session (db w') (lr_SessionID r) (ac_ID account)"
    by (simp_all add: CreateAccountSession_def Let_def tick_def active_session_def)
qed

lemma WalletLogin_ok:
  assumes "WalletLogin L sv w wallet nonce sig meta = (w', Inr r)"
  obtains n row account where "NormalizeSolanaAddress wallet = Inr n" "nonces (db w) (TrimSpace nonce) = Some row"
    "wn_Wallet row = n" "wn_Status row = ''PENDING''" "time_Now (db w) < wn_ExpiresAt row"
    "VerifyWalletSignature (L_verify L) n (wn_Message row) sig = Inr ()"
    "snd (ConsumeWalletNonce (tick (db w)) (wn_Nonce row) n (time_Now (db w))) = Inr ()"
    "snd (UpsertAccountByWallet (fst (ConsumeWalletNonce (tick (db w)) (wn_Nonce row) n (time_Now (db w)))) n) = Inr account"
    "\<not> ac_IsBanned account"
    "issueSession L sv
       (w\<lparr>db := fst (UpsertAccountByWallet (fst (ConsumeWalletNonce (tick (db w)) (wn_Nonce row) n (time_Now (db w)))) n)\<rparr>)
       account (lm_WalletPlugin meta) (lm_DeviceID meta) (lm_IPAddress meta) (lm_UserAgent meta) = (w', Inr r)"
  using assms that
  by (auto simp: WalletLogin_def Let_def clk_def on_db_def WalletNonce_def tick_def After_def
      split: sum.splits option.splits if_splits)

lemma tick_fields [simp]:
  "nonces (tick s) = nonces s" "byWallet (tick s) = byWallet s" "accounts (tick s) = accounts s"
  "sessions (tick s) = sessions s" "tickets (tick s) = tickets s"
  by (simp_all add: tick_def)

lemma nonces_upsert: "nonces (fst (UpsertAccountByWallet s n)) = nonces s"
  by (simp add: UpsertAccountByWallet_def store_simps Let_def split: option.splits)

lemma upsert_account:
  assumes "wallets_ok s" "snd (UpsertAccountByWallet s n) = Inr account"
  shows "ac_WalletAddress account = n" "accounts (fst (UpsertAccountByWallet s n)) (ac_ID account) = Some account"
proof -
  have "ac_WalletAddress account = n \<and> accounts (fst (UpsertAccountByWallet s n)) (ac_ID account) = Some account"
  proof (cases rule: UpsertAccountByWallet_cases [of s n])
    case (known k row)
    with wallets_ok_iff [OF assms(1), of n k] wallets_ok_ID [OF assms(1) known(2)] assms(2) show ?thesis by auto
  qed (use assms(2) in auto)
  then show "ac_WalletAddress account = n"
    "accounts (fst (UpsertAccountByWallet s n)) (ac_ID account) = Some account" by simp_all
qed

lemma WalletLogin_spent:
  assumes "nonce_spent (db w) (TrimSpace nonce)"
  shows "\<not> is_ok (snd (WalletLogin L sv w wallet nonce sig meta))"
proof
  assume "is_ok (snd (WalletLogin L sv w wallet nonce sig meta))"
  then obtain w' r where "WalletLogin L sv w wallet nonce sig meta = (w', Inr r)" by (metis is_okE prod.collapse)
  then show False using assms by (elim WalletLogin_ok) (simp add: nonce_spent_def)
qed

text \<open>
  Property C33. A wallet login is authentic. When it succeeds, the wallet is a valid address, the
  nonce is a pending, unexpired challenge issued to that wallet and the signature of its message
  verifies under the wallet's key; the account is the wallet's own and is not banned; the session
  is active and belongs to that account; and the challenge is spent: no login with the same nonce
  succeeds afterwards, whoever presents it.
\<close>

theorem wallet_login_authentic:
  assumes "nonces_keyed (db w)" and "wallets_ok (db w)"
    and "WalletLogin L sv w wallet nonce sig meta = (w', Inr r)"
  shows "\<exists>n row. NormalizeSolanaAddress wallet = Inr n \<and> nonces (db w) (TrimSpace nonce) = Some row \<and>
      wn_Wallet row = n \<and> wn_Status row = ''PENDING'' \<and> time_Now (db w) < wn_ExpiresAt row \<and>
      VerifyWalletSignature (L_verify L) n (wn_Message row) sig = Inr () \<and>
      ac_WalletAddress (lr_Account r) = n \<and> \<not> ac_IsBanned (lr_Account r) \<and>
      accounts (db w') (ac_ID (lr_Account r)) = Some (lr_Account r) \<and>
      active_session (db w') (lr_SessionID r) (ac_ID (lr_Account r)) \<and>
      (\<forall>L2 sv2 wallet2 sig2 meta2. \<not> is_ok (snd (WalletLogin L2 sv2 w' wallet2 nonce sig2 meta2)))"
  using assms(3)
proof (rule WalletLogin_ok)
  fix n and row :: WalletLoginNonce and account
  let ?c = "ConsumeWalletNonce (tick (db w)) (wn_Nonce row) n (time_Now (db w))"
  assume row: "nonces (db w) (TrimSpace nonce) = Some row"
    and used: "snd ?c = Inr ()" and acct: "snd (UpsertAccountByWallet (fst ?c) n) = Inr account"
    and issued: "issueSession L sv (w\<lparr>db := fst (UpsertAccountByWallet (fst ?c) n)\<rparr>) account (lm_WalletPlugin meta)
       (lm_DeviceID meta) (lm_IPAddress meta) (lm_UserAgent meta) = (w', Inr r)"
    and rest: "NormalizeSolanaAddress wallet = Inr n" "wn_Wallet row = n" "wn_Status row = ''PENDING''"
      "time_Now (db w) < wn_ExpiresAt row" "VerifyWalletSignature (L_verify L) n (wn_Message row) sig = Inr ()"
      "\<not> ac_IsBanned account"
  note issue = issueSession_ok [OF issued]
  have key: "wn_Nonce row = TrimSpace nonce" using assms(1) row by (simp add: nonces_keyed_def)
  have "nonce_spent (fst ?c) (TrimSpace nonce)"
    using used nonce.use_spends [of "tick (db w)" "wn_Nonce row" "(n, time_Now (db w))" "fst ?c" "()"] key
    by (simp add: prod_eq_iff)
  then have "nonce_spent (db w') (TrimSpace nonce)" using issue(2) by (simp add: nonce_spent_def nonces_upsert)
  moreover have "wallets_ok (fst ?c)"
    using assms(2) by (auto simp: wallets_ok_def ConsumeWalletNonce_def set_nonce_status_def split: option.splits)
  note upsert_account [OF this acct]
  ultimately show ?thesis using row rest issue by (auto simp: WalletLogin_spent)
qed

text \<open>Conversely a signed, pending challenge of an account that is not banned logs in.\<close>

lemma WalletLogin_succeeds:
  assumes "NormalizeSolanaAddress wallet = Inr n" "nonces (db w) (TrimSpace nonce) = Some row" "wn_Wallet row = n"
    "wn_Status row = ''PENDING''" "time_Now (db w) < wn_ExpiresAt row" "wn_Nonce row = TrimSpace nonce"
    "VerifyWalletSignature (L_verify L) n (wn_Message row) sig = Inr ()"
    "byWallet (db w) n = None"
  obtains w' r where "WalletLogin L sv w wallet nonce sig meta = (w', Inr r)"
proof -
  let ?s = "set_nonce_status (tick (db w)) (TrimSpace nonce) row ''CONSUMED''"
  have found: "WalletNonce (tick (db w)) (TrimSpace nonce) n (time_Now (db w)) = (tick (db w), Inr row)"
    using assms by (simp add: WalletNonce_def After_def)
  have used: "ConsumeWalletNonce (tick (db w)) (wn_Nonce row) n (time_Now (db w)) = (?s, Inr ())"
    using assms by (simp add: ConsumeWalletNonce_def After_def)
  have "byWallet ?s n = None" using assms(8) by (simp add: set_nonce_status_def)
  then obtain account where acct: "snd (UpsertAccountByWallet ?s n) = Inr account" "\<not> ac_IsBanned account"
    by (cases rule: UpsertAccountByWallet_cases [of ?s n]) auto
  have issue: "\<exists>x r. issueSession L sv v account a b c d = (x, Inr r)" for v a b c d
    by (simp add: issueSession_def Let_def clk_def on_db_def RandomToken_def CreateAccountSession_def)
  have "WalletLogin L sv w wallet nonce sig meta =
      issueSession L sv (w\<lparr>db := fst (UpsertAccountByWallet ?s n)\<rparr>) account (lm_WalletPlugin meta)
        (lm_DeviceID meta) (lm_IPAddress meta) (lm_UserAgent meta)"
    using assms(1,7) by (simp add: WalletLogin_def clk_def on_db_def found used acct)
  then show ?thesis using issue that by metis
qed

definition challenged :: "MemoryClient world" where
  "challenged = fst (WalletNonce_svc (world_of (New (\<lambda>_. 1))) sample_key)"

definition sample_meta :: LoginMeta where
  "sample_meta = \<lparr>lm_WalletPlugin = [], lm_DeviceID = [], lm_IPAddress = [], lm_UserAgent = []\<rparr>"

lemma sample_key_normal: "NormalizeSolanaAddress sample_key = Inr sample_key"
proof -
  have "TrimSpace sample_key = sample_key"
    by (rule TrimSpace_all_plain) (simp add: sample_key_def plain_def space1_def)
  then show ?thesis using sample_key_decodes by (simp add: NormalizeSolanaAddress_def Let_def)
qed

lemma challenged_db:
  "\<exists>row. nonces (db challenged) = [''nonce_AA'' \<mapsto> row] \<and> wn_Nonce row = ''nonce_AA'' \<and> wn_Wallet row = sample_key \<and>
     wn_Status row = ''PENDING'' \<and> wn_ExpiresAt row = 1 + nanos 300"
  "accounts (db challenged) = Map.empty" "byWallet (db challenged) = Map.empty" "time_Now (db challenged) = 1"
proof -
  have t: "fst (RandomToken (world_of (New (\<lambda>_. 1))) ''nonce'') = ''nonce_AA''"
    by (simp add: RandomToken_def world_of_def b64url_def b64url_alphabet_def Let_def)
  have d: "db challenged = SaveWalletNonce (tick (tick (New (\<lambda>_. 1)))) \<lparr>wn_Nonce = ''nonce_AA'', wn_Wallet = sample_key,
      wn_Message = ''Sign in to Aeonblight'' @ newline @ ''Wallet: '' @ sample_key @ newline @ ''Nonce: '' @ ''nonce_AA''
        @ newline @ ''This signature does not authorize any transaction.'',
      wn_Status = ''PENDING'', wn_ExpiresAt = 1 + nanos 300, wn_CreatedAt = 1\<rparr>"
    using t unfolding challenged_def WalletNonce_svc_def sample_key_normal
    by (simp add: Let_def RandomToken_def clk_def world_of_def tick_def time_Now_def)
  show "\<exists>row. nonces (db challenged) = [''nonce_AA'' \<mapsto> row] \<and> wn_Nonce row = ''nonce_AA'' \<and> wn_Wallet row = sample_key \<and>
     wn_Status row = ''PENDING'' \<and> wn_ExpiresAt row = 1 + nanos 300"
    unfolding d SaveWalletNonce_eq by (rule exI, rule conjI, simp add: tick_def IsZero_def) simp
  show "accounts (db challenged) = Map.empty" "byWallet (db challenged) = Map.empty" "time_Now (db challenged) = 1"
    unfolding d by (simp_all add: SaveWalletNonce_def tick_def IsZero_def Let_def time_Now_def)
qed

theorem wallet_login_authentic_witness:
  "\<exists>w' r. WalletLogin sample_library sample_service challenged sample_key ''nonce_AA'' (replicate 64 CHR ''1'') sample_meta
      = (w', Inr r) \<and> ac_WalletAddress (lr_Account r) = sample_key \<and>
    \<not> is_ok (snd (WalletLogin sample_library sample_service w' sample_key ''nonce_AA'' (replicate 64 CHR ''1'') sample_meta))"
proof -
  let ?sig = "replicate 64 CHR ''1''"
  obtain row where row: "nonces (db challenged) = [''nonce_AA'' \<mapsto> row]" "wn_Nonce row = ''nonce_AA''"
    "wn_Wallet row = sample_key" "wn_Status row = ''PENDING''" "wn_ExpiresAt row = 1 + nanos 300"
    using challenged_db(1) by blast
  have trim: "TrimSpace ''nonce_AA'' = ''nonce_AA''" by (rule trim_plain_string) (simp_all add: plain_def space1_def)
  have "TrimSpace sample_key = sample_key"
    by (rule TrimSpace_all_plain) (simp add: sample_key_def plain_def space1_def)
  then have "VerifyWalletSignature (L_verify sample_library) sample_key m ?sig = Inr ()" for m
    using sample_key_decodes sample_signature_decodes
    by (simp add: VerifyWalletSignature_def sample_key_normal sample_library_def)
  note signed = this
  obtain w' r where login:
    "WalletLogin sample_library sample_service challenged sample_key ''nonce_AA'' ?sig sample_meta = (w', Inr r)"
    by (rule WalletLogin_succeeds [where w = challenged and nonce = "''nonce_AA''" and row = row and sig = ?sig
          and L = sample_library, OF sample_key_normal])
      (simp_all add: row trim challenged_db nanos_def signed)
  have "nonces_keyed (db challenged)" "wallets_ok (db challenged)"
    using row by (simp_all add: nonces_keyed_def wallets_ok_def challenged_db)
  from wallet_login_authentic [OF this login] login sample_key_normal show ?thesis by auto
qed

section \<open>Launch tickets\<close>

lemma RequireActiveSession_db:
  assumes "RequireActiveSession L sv w sid a = (w1, Inr u)"
  shows "accounts (db w1) = accounts (db w)" "active_session (db w1) (TrimSpace sid) a"
proof -
  let ?w = "if redis_on sv w then fst (redis_get sv w (session_key (TrimSpace sid))) else w"
  have "untimed (db ?w) = untimed (db w)" by simp
  note f = untimed_fields [OF this]
  obtain row t where row: "sessions (db ?w) (TrimSpace sid) = Some row" "se_Status row = ''ACTIVE''" "se_AccountID row = a"
      "TrimSpace sid \<noteq> []"
    and "untimed (db w1) = untimed (fst (TouchAccountSession (tick (db ?w)) (TrimSpace sid) t))"
    using assms
    by (auto simp: RequireActiveSession_def Let_def GetAccountSession_def clk_def on_db_def
        simp del: if_split split: option.splits if_split_asm)
  note g = untimed_fields [OF this(5)]
  have "tick (db ?w) = (db ?w)\<lparr>ticks := Suc (ticks (db ?w))\<rparr>" by (simp add: tick_def)
  with g f row show "accounts (db w1) = accounts (db w)" "active_session (db w1) (TrimSpace sid) a"
    by (simp_all add: TouchAccountSession_def active_session_def del: if_split)
qed

lemma Launch_ok:
  assumes "Launch L sv w ks a sid srv = (w1, Inr r)"
  obtains account session where "accounts (db w1) a = Some account" "\<not> ac_IsBanned account"
    "sessions (db w1) (TrimSpace sid) = Some session" "se_Status session = ''ACTIVE''" "se_AccountID session = a"
    "tickets (db w1) (la_Ticket r) = Some (ticket_row (la_Ticket r) a (la_ServerID r) (TrimSpace sid) (la_ExpiresAt r))"
    "la_WalletAddress r = ac_WalletAddress account" "la_WalletPlugin r = TrimSpace (se_WalletPlugin session)"
    "TrimSpace (la_Ticket r) = la_Ticket r" "la_ExpiresAt r = clock (db w1) (ticks (db w1) - 1) + nanos 90"
proof -
  obtain account w2 u session w3 server where
      account: "accounts (db w) a = Some account" "\<not> ac_IsBanned account"
    and req: "RequireActiveSession L sv w sid a = (w2, Inr u)"
    and session: "sessions (db w2) (TrimSpace sid) = Some session"
    and sel: "selectLaunchServer L sv w2 ks srv = (w3, Inr server)"
    and w1: "w1 = (let (ticket, w3) = RandomToken w3 ''ticket''; (t, w4) = clk w3
        in w4\<lparr>db := SaveTicket (db w4) (ticket_row ticket a (gs_ServerID server) (TrimSpace sid) (t + Seconds 90))\<rparr>)"
    and r: "la_Ticket r = fst (RandomToken w3 ''ticket'')" "la_ServerID r = gs_ServerID server"
      "la_ExpiresAt r = time_Now (db w3) + Seconds 90" "la_WalletAddress r = ac_WalletAddress account"
      "la_WalletPlugin r = TrimSpace (se_WalletPlugin session)"
    using assms
    by (auto simp: Launch_def Account_get_def GetAccountSession_def Let_def clk_def RandomToken_def
        split: option.splits if_splits prod.splits sum.splits)
  note f = untimed_fields [OF untimed_select [OF sel]] and g = RequireActiveSession_db [OF req]
  have "TrimSpace (la_Ticket r) = la_Ticket r"
    unfolding r by (rule RandomToken_trim) (simp add: plain_def space1_def)
  moreover have "db w1 = SaveTicket (tick (db w3))
      (ticket_row (la_Ticket r) a (la_ServerID r) (TrimSpace sid) (la_ExpiresAt r))"
    unfolding w1 r by (simp add: clk_def RandomToken_def Let_def)
  ultimately show ?thesis
    using account session f g r
    by (intro that [of account session])
      (simp_all add: active_session_def SaveTicket_def ticket_row_def tick_def time_Now_def Seconds_def nanos_def w64_def)
qed

lemma ConsumeTicket_svc_spent:
  assumes "ticket_spent (db w) (TrimSpace t)"
  shows "\<not> is_ok (snd (ConsumeTicket_svc w t srv))"
proof -
  have "ticket_spent (tick (db w)) (TrimSpace t)" using assms by (simp add: ticket_spent_def tick_def)
  from ticket.spent_refused [OF this] have "\<not> is_ok (snd (ConsumeTicket (tick (db w)) (TrimSpace t) x now))" for x now
    by (metis case_prod_conv)
  then show ?thesis
    by (auto simp: ConsumeTicket_svc_def Let_def clk_def on_db_def split: sum.splits) (metis is_ok_simps(1))
qed

text \<open>
  Property C34. A ticket from a successful launch admits the player exactly as announced. Whenever
  it is presented later with nothing but time passed (and whatever the cache contains), it is
  accepted if and only if it is presented by the announced, named server no later than the
  announced expiry, 90 seconds after it was issued; the answer then carries the account, the
  wallet, the plugin and the session of the launch; and it is not accepted a second time.
\<close>

theorem launch_ticket_admits:
  assumes "Launch L sv w ks a sid srv = (w1, Inr r)" and "db v = (db w1)\<lparr>ticks := n\<rparr>"
  shows "la_ExpiresAt r = clock (db w1) (ticks (db w1) - 1) + nanos 90 \<and>
    (is_ok (snd (ConsumeTicket_svc v (la_Ticket r) srv')) \<longleftrightarrow>
       TrimSpace srv' = la_ServerID r \<and> la_ServerID r \<noteq> [] \<and> time_Now (db v) \<le> la_ExpiresAt r) \<and>
    (\<forall>v' res. ConsumeTicket_svc v (la_Ticket r) srv' = (v', Inr res) \<longrightarrow>
       res = \<lparr>ct_AccountID = a, ct_WalletAddress = la_WalletAddress r, ct_WalletPlugin = la_WalletPlugin r,
         ct_SessionID = TrimSpace sid, ct_ServerID = la_ServerID r\<rparr> \<and>
       (\<forall>srv''. \<not> is_ok (snd (ConsumeTicket_svc v' (la_Ticket r) srv''))))"
proof -
  obtain account session where
      ok: "accounts (db w1) a = Some account" "\<not> ac_IsBanned account" "sessions (db w1) (TrimSpace sid) = Some session"
        "se_Status session = ''ACTIVE''" "se_AccountID session = a"
        "tickets (db w1) (la_Ticket r) = Some (ticket_row (la_Ticket r) a (la_ServerID r) (TrimSpace sid) (la_ExpiresAt r))"
    and r: "la_WalletAddress r = ac_WalletAddress account" "la_WalletPlugin r = TrimSpace (se_WalletPlugin session)"
    and trim: "TrimSpace (la_Ticket r) = la_Ticket r"
    and due: "la_ExpiresAt r = clock (db w1) (ticks (db w1) - 1) + nanos 90"
    using assms(1) by (rule Launch_ok)
  have same: "accounts (db v) = accounts (db w1)" "sessions (db v) = sessions (db w1)" "tickets (db v) = tickets (db w1)"
    using assms(2) by simp_all
  let ?row = "ticket_row (la_Ticket r) a (la_ServerID r) (TrimSpace sid) (la_ExpiresAt r)\<lparr>tk_Consumed := True\<rparr>"
  let ?s = "(tick (db v))\<lparr>tickets := (tickets (db v))(la_Ticket r \<mapsto> ?row)\<rparr>"
  let ?res = "\<lparr>ct_AccountID = a, ct_WalletAddress = la_WalletAddress r, ct_WalletPlugin = la_WalletPlugin r,
         ct_SessionID = TrimSpace sid, ct_ServerID = la_ServerID r\<rparr>"
  have take: "ConsumeTicket (tick (db v)) (la_Ticket r) (TrimSpace srv') (time_Now (db v)) =
      (if TrimSpace srv' = la_ServerID r \<and> la_ServerID r \<noteq> [] \<and> time_Now (db v) \<le> la_ExpiresAt r
       then (?s, Inr ?row) else (tick (db v), Inl ErrForbidden))"
    using ok same by (simp add: ConsumeTicket_def Let_def ticket_row_def Before_def tick_def)
  have run: "ConsumeTicket_svc v (la_Ticket r) srv' =
      (if TrimSpace srv' = [] then (v, Inl (ErrMsg ''serverId is required''))
       else if TrimSpace srv' = la_ServerID r \<and> la_ServerID r \<noteq> [] \<and> time_Now (db v) \<le> la_ExpiresAt r
       then (v\<lparr>db := ?s\<rparr>, Inr ?res) else (v\<lparr>db := tick (db v)\<rparr>, Inl ErrForbidden))"
  proof (cases "TrimSpace srv' = la_ServerID r \<and> la_ServerID r \<noteq> [] \<and> time_Now (db v) \<le> la_ExpiresAt r")
    case True
    then have "ConsumeTicket (tick (db v)) (la_Ticket r) (la_ServerID r) (time_Now (db v)) = (?s, Inr ?row)"
      using take by simp
    with True ok same r show ?thesis
      by (simp add: ConsumeTicket_svc_def Let_def clk_def on_db_def trim Account_get_def GetAccountSession_def ticket_row_def)
  next
    case False
    then have "ConsumeTicket (tick (db v)) (la_Ticket r) (TrimSpace srv') (time_Now (db v)) = (tick (db v), Inl ErrForbidden)"
      using take by (simp only: if_False)
    with False show ?thesis
      by (simp only: ConsumeTicket_svc_def Let_def clk_def on_db_def trim if_False split: if_split) simp
  qed
  have "\<not> is_ok (snd (ConsumeTicket_svc (v\<lparr>db := ?s\<rparr>) (la_Ticket r) srv''))" for srv''
    by (rule ConsumeTicket_svc_spent) (simp add: ticket_spent_def trim)
  with due run show ?thesis by auto
qed

definition lobby :: store where
  "lobby = (New (\<lambda>_. 1))\<lparr>
     accounts := [7 \<mapsto> \<lparr>ac_ID = 7, ac_Username = ''u'', ac_WalletAddress = ''w'', ac_IsBanned = False,
       ac_CreatedAt = 1, ac_LastLoginAt = 1\<rparr>],
     sessions := [''sess'' \<mapsto> \<lparr>se_SessionID = ''sess'', se_AccountID = 7, se_WalletPlugin = [], se_DeviceID = [],
       se_IPAddress = [], se_UserAgent = [], se_Status = ''ACTIVE'', se_CreatedAt = 1, se_LastSeenAt = None,
       se_RevokedAt = None\<rparr>],
     servers := [''a'' \<mapsto> sample_server ''a'', ''b'' \<mapsto> sample_server ''b'']\<rparr>"

definition plain_world :: "store \<Rightarrow> unit world" where
  "plain_world s = \<lparr>db = s, cache = (), entropy = (\<lambda>n. [char_of n]), drawn = 0\<rparr>"

lemma ab_trim [simp]: "TrimSpace ''a'' = ''a''" "TrimSpace ''ONLINE'' = ''ONLINE''"
  by (rule trim_plain_string; simp add: plain_def space1_def)+

lemma nop_off [simp]: "\<not> redis_on (NewService k) w"
  by (simp add: redis_on_def NewService_def NewServiceWithCache_def NopClient_def)

lemma lobby_launch:
  "\<exists>w1 r. Launch sample_library (NewService ''k'') (plain_world lobby) [''a'', ''b''] 7 ''sess'' ''a'' = (w1, Inr r) \<and>
     la_ServerID r = ''a'' \<and> la_ExpiresAt r = 1 + nanos 90 \<and> clock (db w1) = (\<lambda>_. 1)"
  by (simp add: Launch_def plain_world_def lobby_def Account_get_def RequireActiveSession_def GetAccountSession_def
      clk_def on_db_def TouchAccountSession_def tick_def time_Now_def cacheSession_def selectLaunchServer_def
      ListGameServers_def map_values_def List.map_filter_def onlinePresenceCounts_def publicServerStatus_def
      sample_library_def sample_server_def ToUpper_def ascii_def upper_char_def Before_def
      launchServerHeartbeatWindow_def RandomToken_def SaveTicket_def ticket_row_def Seconds_def w64_def nanos_def
      store_count_def ListOnlineByServer_def keys_of_def publicFullThreshold_def Let_def)

theorem launch_ticket_admits_witness:
  "\<exists>w1 r. Launch sample_library (NewService ''k'') (plain_world lobby) [''a'', ''b''] 7 ''sess'' ''a'' = (w1, Inr r) \<and>
     is_ok (snd (ConsumeTicket_svc w1 (la_Ticket r) ''a'')) \<and> \<not> is_ok (snd (ConsumeTicket_svc w1 (la_Ticket r) ''b''))"
proof -
  obtain w1 r where run: "Launch sample_library (NewService ''k'') (plain_world lobby) [''a'', ''b''] 7 ''sess'' ''a'' = (w1, Inr r)"
    and r: "la_ServerID r = ''a''" "la_ExpiresAt r = 1 + nanos 90" "clock (db w1) = (\<lambda>_. 1)"
    using lobby_launch by blast
  have "TrimSpace ''b'' = ''b''" by (rule trim_plain_string) (simp_all add: plain_def space1_def)
  with launch_ticket_admits [OF run, of w1 "ticks (db w1)" "''a''"] launch_ticket_admits [OF run, of w1 "ticks (db w1)" "''b''"] r
  have "is_ok (snd (ConsumeTicket_svc w1 (la_Ticket r) ''a''))" "\<not> is_ok (snd (ConsumeTicket_svc w1 (la_Ticket r) ''b''))"
    by (simp_all add: time_Now_def nanos_def)
  with run show ?thesis by blast
qed

section \<open>The server a launch chooses\<close>

text \<open>A server takes players when it is online, heard from in the last 30 seconds and under 95 percent full.\<close>

definition joinable :: "library \<Rightarrow> time \<Rightarrow> (string \<Rightarrow> int) \<Rightarrow> GameServer \<Rightarrow> bool" where
  "joinable L now counts row \<longleftrightarrow> ToUpper (L_case L) (TrimSpace (gs_Status row)) = ''ONLINE'' \<and>
     (\<exists>t. gs_LastHeartbeatAt row = Some t \<and> now - nanos 30 \<le> t) \<and>
     (gs_MaxPlayers row > 0 \<longrightarrow> 100 * counts (gs_ServerID row) < 95 * gs_MaxPlayers row)"

lemma publicFullThreshold_le:
  assumes "0 < m" "m * 95 + 99 < 2 ^ 63"
  shows "publicFullThreshold m \<le> n \<longleftrightarrow> 95 * m \<le> 100 * n"
proof -
  have "w64 (m * 95) = m * 95" "w64 (m * 95 + 99) = m * 95 + 99" using assms by (auto intro!: w64_id simp: i64_def)
  then have "publicFullThreshold m = (m * 95 + 99) div 100" using assms by (simp add: publicFullThreshold_def sdiv_nonneg)
  moreover have "100 * ((m * 95 + 99) div 100) \<le> m * 95 + 99" "m * 95 + 99 < 100 * ((m * 95 + 99) div 100) + 100"
    by (simp_all add: minus_mod_eq_mult_div [symmetric])
  ultimately show ?thesis by linarith
qed

lemma sort_key_head:
  assumes "sort_key f xs = x # ys"
  shows "x \<in> set xs \<and> (\<forall>y \<in> set xs. f x \<le> f y)"
proof -
  have set: "set xs = insert x (set ys)" using set_sort [of f xs] assms by simp
  have "sorted (map f (x # ys))" using sorted_sort_key [of f xs] assms by simp
  with set show ?thesis by auto
qed

lemma pick_least:
  assumes r: "r = (case sort_key f (filter P xs) of [] \<Rightarrow> Inl e | x # _ \<Rightarrow> Inr x)"
  shows "(is_ok r \<longleftrightarrow> (\<exists>x \<in> set xs. P x)) \<and>
    (\<forall>x. r = Inr x \<longrightarrow> x \<in> set xs \<and> P x \<and> (\<forall>y \<in> set xs. P y \<longrightarrow> f x \<le> f y))"
proof (cases "sort_key f (filter P xs)")
  case Nil
  then have "filter P xs = []" by (simp flip: length_0_conv)
  with Nil show ?thesis by (simp add: r filter_empty_conv)
next
  case (Cons x ys)
  with sort_key_head [OF Cons] show ?thesis by (auto simp: r)
qed

lemma find_unique:
  "inj_on f (set xs) \<Longrightarrow> List.find (\<lambda>x. f x = k) xs = Some y \<longleftrightarrow> y \<in> set xs \<and> f y = k"
  by (induction xs) (auto simp: inj_on_def)

lemma status_online:
  assumes "gs_MaxPlayers row * 95 + 99 < 2 ^ 63"
  shows "publicServerStatus L row now (counts (gs_ServerID row)) = ''online'' \<longleftrightarrow> joinable L now counts row"
  using publicFullThreshold_le [of "gs_MaxPlayers row" "counts (gs_ServerID row)"] assms
  by (auto simp: publicServerStatus_def joinable_def Before_def launchServerHeartbeatWindow_def nanos_def Let_def not_le
      split: option.splits)

text \<open>
  Property C35. The server a launch chooses. With the player counts the service has just read, a
  launch that names no server gets a server that takes players and no other such server has
  fewer players, ties going to the smaller identifier, and it fails only when no server takes
  players; a launch that names a server gets that server exactly when it takes players. A server
  takes players when it is online, heard from in the last 30 seconds and under 95 percent of its
  capacity. (The capacities stay below the bound at which 95 times a capacity overflows.)
\<close>

theorem launch_server_choice:
  assumes "rows = ListGameServers (L_case L) (db w) ks []" and "now = time_Now (db w)"
    and "onlinePresenceCounts sv (snd (clk w)) rows now = (w', Inr counts)"
    and "\<forall>row \<in> set rows. gs_MaxPlayers row * 95 + 99 < 2 ^ 63" and "inj_on gs_ServerID (set rows)"
  shows "(TrimSpace srv = [] \<longrightarrow>
      (is_ok (snd (selectLaunchServer L sv w ks srv)) \<longleftrightarrow> (\<exists>row \<in> set rows. joinable L now counts row)) \<and>
      (\<forall>row. snd (selectLaunchServer L sv w ks srv) = Inr row \<longrightarrow> row \<in> set rows \<and> joinable L now counts row \<and>
         (\<forall>other \<in> set rows. joinable L now counts other \<longrightarrow>
            (counts (gs_ServerID row), gs_ServerID row) \<le> (counts (gs_ServerID other), gs_ServerID other)))) \<and>
    (TrimSpace srv \<noteq> [] \<longrightarrow>
      (\<forall>row. snd (selectLaunchServer L sv w ks srv) = Inr row \<longleftrightarrow>
         row \<in> set rows \<and> gs_ServerID row = TrimSpace srv \<and> joinable L now counts row))"
proof -
  let ?on = "\<lambda>row. publicServerStatus L row now (counts (gs_ServerID row)) = ''online''"
  let ?key = "\<lambda>row. (counts (gs_ServerID row), gs_ServerID row)"
  let ?named = "List.find (\<lambda>row. gs_ServerID row = TrimSpace srv) rows"
  have on: "?on row \<longleftrightarrow> joinable L now counts row" if "row \<in> set rows" for row
    using assms(4) that by (intro status_online) blast
  have sel: "snd (selectLaunchServer L sv w ks srv) =
      (if TrimSpace srv \<noteq> []
       then (case ?named of None \<Rightarrow> Inl (ErrMsg ''serverId is unavailable'')
             | Some row \<Rightarrow> if ?on row then Inr row else Inl (ErrMsg ''serverId is unavailable''))
       else (case sort_key ?key (filter ?on rows) of [] \<Rightarrow> Inl (ErrMsg ''no available game server'') | row # _ \<Rightarrow> Inr row))"
    unfolding assms(1,2) using assms(3) [unfolded assms(1,2)] by (simp add: selectLaunchServer_def Let_def clk_def)
  have find: "?named = Some row \<longleftrightarrow> row \<in> set rows \<and> gs_ServerID row = TrimSpace srv" for row
    using assms(5) by (rule find_unique)
  have "snd (selectLaunchServer L sv w ks srv) = Inr row \<longleftrightarrow>
      row \<in> set rows \<and> gs_ServerID row = TrimSpace srv \<and> joinable L now counts row" if "TrimSpace srv \<noteq> []" for row
  proof -
    have "snd (selectLaunchServer L sv w ks srv) = Inr row \<longleftrightarrow> ?named = Some row \<and> ?on row"
      using that by (auto simp: sel split: option.splits)
    then show ?thesis using find [of row] on [of row] by blast
  qed
  moreover have "filter ?on rows = filter (joinable L now counts) rows" using on by (intro filter_cong) simp_all
  then have "snd (selectLaunchServer L sv w ks srv) = (case sort_key ?key (filter (joinable L now counts) rows) of
      [] \<Rightarrow> Inl (ErrMsg ''no available game server'') | row # _ \<Rightarrow> Inr row)" if "TrimSpace srv = []"
    using that by (simp add: sel)
  note pick_least [OF this]
  ultimately show ?thesis by blast
qed

lemma lobby_rows: "ListGameServers (L_case sample_library) (db (plain_world lobby)) [''a'', ''b''] [] = [sample_server ''a'', sample_server ''b'']"
  by (simp add: ListGameServers_def plain_world_def lobby_def map_values_def List.map_filter_def)

theorem launch_server_choice_witness:
  "snd (selectLaunchServer sample_library (NewService ''k'') (plain_world lobby) [''a'', ''b''] []) = Inr (sample_server ''a'')"
proof -
  let ?rows = "[sample_server ''a'', sample_server ''b'']" and ?w = "plain_world lobby"
  let ?sel = "snd (selectLaunchServer sample_library (NewService ''k'') ?w [''a'', ''b''] [])"
  obtain counts where counts: "onlinePresenceCounts (NewService ''k'') (snd (clk ?w)) ?rows (time_Now (db ?w)) = (snd (clk ?w), Inr counts)"
    and zero: "counts ''a'' = 0" "counts ''b'' = 0"
    by (simp add: onlinePresenceCounts_def store_count_def ListOnlineByServer_def clk_def plain_world_def lobby_def tick_def
        map_values_def keys_of_def sample_server_def)
  have join: "joinable sample_library (time_Now (db ?w)) counts (sample_server x)" if "x \<in> {''a'', ''b''}" for x
    using that zero by (auto simp: joinable_def sample_server_def sample_library_def ToUpper_def ascii_def upper_char_def
        time_Now_def plain_world_def lobby_def nanos_def)
  note choice = launch_server_choice [OF lobby_rows [symmetric] refl counts, of "[]", THEN conjunct1, THEN mp]
  have side: "\<forall>row \<in> set ?rows. gs_MaxPlayers row * 95 + 99 < 2 ^ 63" "inj_on gs_ServerID (set ?rows)"
    by (simp_all add: sample_server_def inj_on_def)
  obtain row where row: "?sel = Inr row" using choice [OF side] join by (auto elim: is_okE)
  with choice [OF side] join have "row \<in> set ?rows"
    "(counts (gs_ServerID row), gs_ServerID row) \<le> (counts ''a'', ''a'')" by (auto simp: sample_server_def)
  with zero have "row = sample_server ''a''" by (auto simp: sample_server_def)
  with row show ?thesis by simp
qed

end
