(* ===== verification/Middleware.thy ===== *)
theory Middleware
  imports AdminStore Security
begin

text \<open>
  Who may call: the authorisation middleware (\<open>src/internal/platform/httpx/middleware.go\<close>) and the
  administrator login of \<open>src/internal/admin/http.go\<close>, over the in-memory repository.

  A handler is modelled by its decision: an HTTP status, an error code and the error, or the value
  that is put into the request's context (or answered). The random nonce of a challenge is an argument.
  \<open>uc\<close>, \<open>sha256\<close>, \<open>hmac\<close>, \<open>verify\<close> and the claims codecs are arguments as in \<open>Security\<close>.
\<close>

section \<open>Requests and configuration\<close>

record ServerConfig =
  sc_Profile :: string
  sc_InternalKey :: string
  sc_JWTSecret :: string
  sc_AdminToken :: string
  sc_SuperAdminOpsKey :: string
  sc_AdminSessionTTLMin :: int
  sc_ServiceAuthMaxSkewSec :: int

record http_request =
  hr_Signed :: request
  hr_InternalKey :: string
  hr_Authorization :: string
  hr_SuperAdminKey :: string

type_synonym 'a decision = "(int \<times> int \<times> err) + 'a"

definition reject :: "int \<Rightarrow> int \<Rightarrow> string \<Rightarrow> 'a decision" where
  "reject status code message = Inl (status, code, ErrMsg message)"

definition passes :: "'a decision \<Rightarrow> bool" where
  "passes d = (case d of Inl _ \<Rightarrow> False | Inr _ \<Rightarrow> True)"

lemma passes_simps [simp]: "passes (Inr x)" "\<not> passes (Inl e)" "\<not> passes (reject a b c)"
  by (simp_all add: passes_def reject_def)

definition ServiceAuthMaxSkew :: "ServerConfig \<Rightarrow> int" where
  "ServiceAuthMaxSkew cfg = Seconds (if sc_ServiceAuthMaxSkewSec cfg \<le> 0 then 120 else sc_ServiceAuthMaxSkewSec cfg)"

definition AdminSessionTTL :: "ServerConfig \<Rightarrow> int" where
  "AdminSessionTTL cfg =
     w64 ((if sc_AdminSessionTTLMin cfg \<le> 0 then 30 else sc_AdminSessionTTLMin cfg) * 60000000000)"

section \<open>Middleware\<close>

definition RequireInternal :: "ServerConfig \<Rightarrow> http_request \<Rightarrow> unit decision" where
  "RequireInternal cfg r =
     (if hr_InternalKey r \<noteq> sc_InternalKey cfg then reject 401 4010 ''internal key is invalid'' else Inr ())"

definition legacy_key :: "ServerConfig \<Rightarrow> http_request \<Rightarrow> bool" where
  "legacy_key cfg r \<longleftrightarrow> (sc_Profile cfg = ''test'' \<or> sc_Profile cfg = ''development'') \<and>
     TrimSpace (sc_InternalKey cfg) \<noteq> [] \<and> hr_InternalKey r = sc_InternalKey cfg"

definition legacy_identity :: "string \<Rightarrow> ServiceIdentity" where
  "legacy_identity capability = \<lparr>si_ServiceID = ''legacy-internal-key'', si_Name = [], si_Kind = ''LEGACY'',
     si_SubjectID = [], si_PublicKey = [], si_Capabilities = [capability], si_Status = ''ACTIVE'', si_CreatedBy = [],
     si_CreatedAt = 0, si_DisabledBy = [], si_DisabledAt = None, si_DisableReason = []\<rparr>"

definition RequireService ::
  "(string \<Rightarrow> string) \<Rightarrow> (string \<Rightarrow> string) \<Rightarrow> (string \<Rightarrow> string \<Rightarrow> string \<Rightarrow> bool) \<Rightarrow> ServerConfig \<Rightarrow> string \<Rightarrow> store \<Rightarrow>
   http_request \<Rightarrow> store \<times> ServiceIdentity decision" where
  "RequireService uc sha256 verify cfg capability s r =
     (if legacy_key cfg r then (s, Inr (legacy_identity capability))
      else
        let serviceID = ToLower uc (TrimSpace (rq_ServiceID (hr_Signed r))) in
        case ServiceIdentity_get uc s serviceID of
          Inl _ \<Rightarrow> (s, reject 401 4010 ''service identity is invalid or disabled'')
        | Inr identity \<Rightarrow>
            if si_Status identity \<noteq> ''ACTIVE''
            then (s, reject 401 4010 ''service identity is invalid or disabled'')
            else
              let now = time_Now s; s1 = tick s in
              case VerifyServiceRequest uc sha256 verify (Some (hr_Signed r)) (si_PublicKey identity) now
                     (ServiceAuthMaxSkew cfg) of
                Inl e \<Rightarrow> (s1, Inl (401, 4010, e))
              | Inr expiresAt \<Rightarrow>
                  if \<not> HasCapability uc identity capability
                  then (s1, reject 403 4030 ''service identity lacks required capability'')
                  else case ConsumeServiceNonce s1 (si_ServiceID identity) (rq_Nonce (hr_Signed r)) expiresAt of
                      (s2, Inl _) \<Rightarrow> (s2, reject 401 4010 ''service request nonce was already used'')
                    | (s2, Inr _) \<Rightarrow> (s2, Inr identity))"

definition RequireJWT ::
  "(string \<Rightarrow> string \<Rightarrow> string) \<Rightarrow> (string \<Rightarrow> Claims result) \<Rightarrow> ServerConfig \<Rightarrow> time \<Rightarrow> http_request \<Rightarrow> int decision" where
  "RequireJWT hmac dec cfg now r =
     (let token = BearerToken (hr_Authorization r) in
      if token = [] then reject 401 401 ''Authorization header is required''
      else case VerifyAccessToken hmac dec now (sc_JWTSecret cfg) token of
             Inl _ \<Rightarrow> reject 401 401 ''Token is invalid or expired''
           | Inr claims \<Rightarrow> Inr (cl_Subject claims))"

record AdminActor =
  aa_ID :: string
  aa_Role :: string

definition allowStaticAdminToken :: "ServerConfig \<Rightarrow> bool" where
  "allowStaticAdminToken cfg \<longleftrightarrow> sc_Profile cfg = ''test'' \<or> sc_Profile cfg = ''development'' \<or> sc_Profile cfg = []"

definition super_key :: "ServerConfig \<Rightarrow> http_request \<Rightarrow> bool" where
  "super_key cfg r \<longleftrightarrow> (let superKey = TrimSpace (sc_SuperAdminOpsKey cfg) in superKey \<noteq> [] \<and> hr_SuperAdminKey r = superKey)"

definition static_token :: "ServerConfig \<Rightarrow> http_request \<Rightarrow> bool" where
  "static_token cfg r \<longleftrightarrow> allowStaticAdminToken cfg \<and> TrimSpace (sc_AdminToken cfg) \<noteq> [] \<and>
     BearerToken (hr_Authorization r) \<noteq> [] \<and> BearerToken (hr_Authorization r) = sc_AdminToken cfg"

definition RequireAdmin ::
  "(string \<Rightarrow> string) \<Rightarrow> (string \<Rightarrow> string \<Rightarrow> string) \<Rightarrow> (string \<Rightarrow> AdminClaims result) \<Rightarrow> ServerConfig \<Rightarrow> time \<Rightarrow> store \<Rightarrow>
   http_request \<Rightarrow> AdminActor decision" where
  "RequireAdmin uc hmac dec cfg now s r =
     (if super_key cfg r then Inr \<lparr>aa_ID = ''super-admin-ops'', aa_Role = ''SUPER_ADMIN''\<rparr>
      else
        let token = BearerToken (hr_Authorization r) in
        if token = [] then reject 401 401 ''admin token is invalid''
        else if static_token cfg r
        then Inr (if TrimSpace (sc_SuperAdminOpsKey cfg) = []
                  then \<lparr>aa_ID = ''bootstrap-super-admin'', aa_Role = ''SUPER_ADMIN''\<rparr>
                  else \<lparr>aa_ID = ''admin-token'', aa_Role = ''ADMIN''\<rparr>)
        else if TrimSpace (sc_JWTSecret cfg) = [] then reject 401 401 ''admin token is invalid''
        else case VerifyAdminAccessToken uc hmac dec now (sc_JWTSecret cfg) token of
            Inl _ \<Rightarrow> reject 401 401 ''admin token is invalid or expired''
          | Inr claims \<Rightarrow>
              (case AdminUser_get uc s (acl_Subject claims) of
                 Inl _ \<Rightarrow> reject 401 401 ''admin user is invalid or disabled''
               | Inr admin \<Rightarrow>
                   if adu_Status admin \<noteq> ''ACTIVE'' then reject 401 401 ''admin user is invalid or disabled''
                   else let role = ToUpper uc (TrimSpace (adu_Role admin))
                        in Inr \<lparr>aa_ID = adu_AdminID admin, aa_Role = if role = [] then ''ADMIN'' else role\<rparr>))"

definition RequireSuperAdmin ::
  "(string \<Rightarrow> string) \<Rightarrow> (string \<Rightarrow> string \<Rightarrow> string) \<Rightarrow> (string \<Rightarrow> AdminClaims result) \<Rightarrow> ServerConfig \<Rightarrow> time \<Rightarrow> store \<Rightarrow>
   http_request \<Rightarrow> AdminActor decision" where
  "RequireSuperAdmin uc hmac dec cfg now s r =
     (case RequireAdmin uc hmac dec cfg now s r of
        Inl e \<Rightarrow> Inl e
      | Inr actor \<Rightarrow>
          if aa_Role actor \<noteq> ''SUPER_ADMIN'' then reject 403 403 ''super admin role is required'' else Inr actor)"

section \<open>Administrator login\<close>

definition writeStoreErr :: "err \<Rightarrow> 'a decision" where
  "writeStoreErr e = (if e = ErrNotFound then Inl (404, 404, e) else if e = ErrForbidden then Inl (403, 403, e)
     else Inl (400, 4001, e))"

lemma passes_writeStoreErr [simp]: "\<not> passes (writeStoreErr e)"
  by (simp add: writeStoreErr_def)

definition adminLoginNonce ::
  "(string \<Rightarrow> string) \<Rightarrow> store \<Rightarrow> string \<Rightarrow> string \<Rightarrow> store \<times> (string \<times> string \<times> string \<times> time) decision" where
  "adminLoginNonce uc s nonce adminID0 =
     (let adminID = ToLower uc (TrimSpace adminID0) in
      if adminID = [] then (s, reject 400 400 ''adminId is required'')
      else case AdminUser_get uc s adminID of
          Inl e \<Rightarrow> (s, writeStoreErr e)
        | Inr admin \<Rightarrow>
            if adu_Status admin \<noteq> ''ACTIVE'' then (s, reject 401 401 ''admin user is disabled'')
            else
              let expiresAt = time_Now s + nanos 300; s1 = tick s;
                  message = AdminLoginMessage (adu_AdminID admin) nonce;
                  s2 = SaveAdminLoginNonce (tick s1) \<lparr>an_Nonce = nonce, an_AdminID = adu_AdminID admin,
                    an_Message = message, an_Status = ''PENDING'', an_ExpiresAt = expiresAt, an_CreatedAt = time_Now s1\<rparr>
              in (s2, Inr (adu_AdminID admin, nonce, message, expiresAt)))"

definition zero_AdminUser :: AdminUser where
  "zero_AdminUser = \<lparr>adu_AdminID = [], adu_Username = [], adu_PublicKey = [], adu_Role = [], adu_Status = [],
     adu_CreatedBy = [], adu_CreatedAt = 0, adu_LastLoginAt = None, adu_DisabledBy = [], adu_DisabledAt = None,
     adu_DisableReason = []\<rparr>"

record adminLoginBody =
  lb_AdminID :: string
  lb_Nonce :: string
  lb_Signature :: string

text \<open>The answer: the administrator, the access token and its expiry. The second reading of the clock is \<open>SignAdminAccessToken\<close>'s.\<close>

definition adminLogin ::
  "(string \<Rightarrow> string) \<Rightarrow> (string \<Rightarrow> string \<Rightarrow> string) \<Rightarrow> (AdminClaims \<Rightarrow> string) \<Rightarrow> (string \<Rightarrow> string \<Rightarrow> string \<Rightarrow> bool) \<Rightarrow>
   ServerConfig \<Rightarrow> store \<Rightarrow> adminLoginBody option \<Rightarrow> store \<times> (AdminUser \<times> string \<times> time) decision" where
  "adminLogin uc hmac enc verify cfg s body0 =
     (case body0 of
        None \<Rightarrow> (s, reject 400 400 ''invalid JSON body'')
      | Some body \<Rightarrow>
          let adminID = ToLower uc (TrimSpace (lb_AdminID body)) in
          if adminID = [] \<or> TrimSpace (lb_Nonce body) = [] \<or> TrimSpace (lb_Signature body) = []
          then (s, reject 400 400 ''adminId, nonce, and signature are required'')
          else case AdminUser_get uc s adminID of
              Inl e \<Rightarrow> (s, writeStoreErr e)
            | Inr admin \<Rightarrow>
                if adu_Status admin \<noteq> ''ACTIVE'' then (s, reject 401 401 ''admin user is disabled'')
                else if adu_Role admin = ''SUPER_ADMIN''
                then (s, reject 403 403 ''super admin must use the super-admin operations key'')
                else
                  let now = time_Now s in
                  (case AdminLoginNonce_get uc (tick s) (lb_Nonce body) (adu_AdminID admin) now of
                     (s1, Inl _) \<Rightarrow> (s1, reject 401 401 ''admin login nonce is invalid or expired'')
                   | (s1, Inr nonce) \<Rightarrow>
                       (case VerifyEd25519Signature verify (adu_PublicKey admin) (an_Message nonce) (lb_Signature body) of
                          Inl e \<Rightarrow> (s1, Inl (401, 401, e))
                        | Inr _ \<Rightarrow>
                            (case ConsumeAdminLoginNonce uc s1 (an_Nonce nonce) (adu_AdminID admin) now of
                               (s2, Inl _) \<Rightarrow> (s2, reject 401 401 ''admin login nonce is invalid or already consumed'')
                             | (s2, Inr _) \<Rightarrow>
                                 let (s3, touched) = TouchAdminUserLogin uc s2 (adu_AdminID admin) now;
                                     row = (case touched of Inl _ \<Rightarrow> zero_AdminUser | Inr row \<Rightarrow> row);
                                     (token, expiresAt) = SignAdminAccessToken uc hmac enc (time_Now s3) (sc_JWTSecret cfg)
                                       (adu_AdminID row) (adu_Username row) (adu_Role row) (AdminSessionTTL cfg)
                                 in (tick s3, Inr (row, token, expiresAt))))))"

end
