(* ===== verification/MiddlewareProps.thy ===== *)
theory MiddlewareProps
  imports Middleware
begin

text \<open>
  Properties of the authorisation middleware: when a signed service request can be replayed, and that
  disabling an administrator is final. Both are invariants of the repository under any sequence of
  calls, by the locale \<open>machine\<close>.
\<close>

section \<open>Service nonces\<close>

text \<open>
  What other requests may do to the store meanwhile: consume nonces, read the clock, and change
  anything else.
\<close>

inductive service_step :: "store \<Rightarrow> store \<Rightarrow> bool" where
  consume: "service_step s (fst (ConsumeServiceNonce s sid nonce expiry))"
| other: "serviceNonces t = serviceNonces s \<Longrightarrow> clock t = clock s \<Longrightarrow> ticks s \<le> ticks t \<Longrightarrow> service_step s t"

text \<open>
  A nonce stored until \<open>e\<close> is stored still, or a reading of the clock has reached \<open>e\<close>.
\<close>

definition burned :: "string \<Rightarrow> time \<Rightarrow> store \<Rightarrow> bool" where
  "burned key e s \<longleftrightarrow> mono (clock s) \<and> (serviceNonces s key = Some e \<or> (\<exists>k < ticks s. e \<le> clock s k))"

lemma burned_consume:
  assumes "burned key e s"
  shows "burned key e (fst (ConsumeServiceNonce s sid nonce expiry))"
proof (cases "serviceNonces s key = Some e \<and> time_Now s < e")
  case True
  then have "live_nonces (serviceNonces s) (time_Now s) key = Some e" by (simp add: live_nonces_def After_def)
  with assms True show ?thesis by (auto simp: burned_def ConsumeServiceNonce_def Let_def tick_def)
next
  case False
  then have "\<exists>k < Suc (ticks s). e \<le> clock s k"
    using assms by (auto simp: burned_def time_Now_def not_less intro: less_SucI)
  with assms show ?thesis by (auto simp: burned_def ConsumeServiceNonce_def Let_def tick_def)
qed

lemma burned_step: "burned key e s \<Longrightarrow> service_step s t \<Longrightarrow> burned key e t"
  by (erule service_step.cases) (auto simp: burned_consume, auto simp: burned_def)

interpretation replay: machine "\<lambda>s. mono (clock s) \<and> serviceNonces s key = Some e" service_step "burned key e" for key e
  by unfold_locales (simp add: burned_def, rule burned_step)

lemma burned_refused:
  assumes "burned (service_nonce_key (TrimSpace sid) (TrimSpace nonce)) e s" "time_Now s < e"
  shows "\<not> is_ok (snd (ConsumeServiceNonce s sid nonce expiry))"
proof -
  have "\<not> e \<le> clock s k" if "k < ticks s" for k
  proof -
    have "clock s k \<le> clock s (ticks s)" using assms(1) that by (auto simp: burned_def mono_def)
    with assms(2) show ?thesis by (simp add: time_Now_def)
  qed
  with assms show ?thesis by (auto simp: burned_def ConsumeServiceNonce_def Let_def live_nonces_def After_def)
qed

section \<open>Signed requests\<close>

definition services_keyed :: "store \<Rightarrow> bool" where
  "services_keyed s \<longleftrightarrow> (\<forall>k row. serviceIdentities s k = Some row \<longrightarrow> si_ServiceID row = k)"

lemma services_keyed_ops:
  "services_keyed (New c)"
  "services_keyed s \<Longrightarrow> services_keyed (fst (CreateServiceIdentity uc quote s ks inp))"
  "services_keyed s \<Longrightarrow> services_keyed (fst (DisableServiceIdentity uc s sid who reason))"
  by (auto simp: services_keyed_def CreateServiceIdentity_def DisableServiceIdentity_def push_audit_def tick_def Let_def
      split: sum.splits option.splits)

definition skew :: "ServerConfig \<Rightarrow> int" where
  "skew cfg = (if ServiceAuthMaxSkew cfg \<le> 0 then nanos 120 else ServiceAuthMaxSkew cfg)"

lemma VerifyServiceRequest_window:
  assumes "VerifyServiceRequest uc sha verify (Some req) key now (ServiceAuthMaxSkew cfg) = Inr expires"
  obtains seconds where "ParseInt (TrimSpace (rq_Timestamp req)) = Some seconds"
    "now - skew cfg \<le> unix_epoch + nanos seconds" "expires = now + skew cfg"
  using assms that
  by (auto simp: VerifyServiceRequest_def Let_def Before_def After_def skew_def not_less
      split: if_splits option.splits sum.splits)

definition named_service :: "(string \<Rightarrow> string) \<Rightarrow> http_request \<Rightarrow> string" where
  "named_service uc r = ToLower uc (TrimSpace (ToLower uc (TrimSpace (rq_ServiceID (hr_Signed r)))))"

lemma RequireService_ok:
  assumes "RequireService uc sha verify cfg cap s r = (s1, Inr identity)" "\<not> legacy_key cfg r" "services_keyed s"
  shows "\<exists>seconds. ParseInt (TrimSpace (rq_Timestamp (hr_Signed r))) = Some seconds \<and>
      time_Now s - skew cfg \<le> unix_epoch + nanos seconds"
    and "ConsumeServiceNonce (tick s) (named_service uc r) (rq_Nonce (hr_Signed r)) (time_Now s + skew cfg) = (s1, Inr ())"
proof -
  obtain expires where found: "serviceIdentities s (named_service uc r) = Some identity"
    and ok: "VerifyServiceRequest uc sha verify (Some (hr_Signed r)) (si_PublicKey identity) (time_Now s)
        (ServiceAuthMaxSkew cfg) = Inr expires"
    and used: "ConsumeServiceNonce (tick s) (si_ServiceID identity) (rq_Nonce (hr_Signed r)) expires = (s1, Inr ())"
    using assms(1,2)
    by (auto simp: RequireService_def Let_def ServiceIdentity_get_def reject_def named_service_def
        split: if_splits option.splits sum.splits prod.splits)
  moreover have "si_ServiceID identity = named_service uc r" using found assms(3) by (simp add: services_keyed_def)
  ultimately show "\<exists>seconds. ParseInt (TrimSpace (rq_Timestamp (hr_Signed r))) = Some seconds \<and>
      time_Now s - skew cfg \<le> unix_epoch + nanos seconds"
    and "ConsumeServiceNonce (tick s) (named_service uc r) (rq_Nonce (hr_Signed r)) (time_Now s + skew cfg) = (s1, Inr ())"
    using VerifyServiceRequest_window [OF ok] by (blast, metis)
qed

lemma ConsumeServiceNonce_stored:
  assumes "ConsumeServiceNonce s sid nonce e = (t, Inr ())"
  shows "serviceNonces t (service_nonce_key (TrimSpace sid) (TrimSpace nonce)) = Some e" "clock t = clock s"
  using assms by (auto simp: ConsumeServiceNonce_def Let_def tick_def split: if_splits)

text \<open>
  Property C14. A signed service request is not accepted twice. Suppose a request is accepted, the
  clock never runs backwards, and it had been signed more than \<open>lag\<close> before it was accepted. Then
  whatever other requests are handled meanwhile, and for whatever capability it is presented again,
  it is refused, as long as the repeated call itself takes at most \<open>lag\<close> between its two readings of the
  clock.
\<close>

theorem service_request_not_replayed:
  assumes "\<not> legacy_key cfg r" and "RequireService uc sha verify cfg cap s r = (s1, Inr identity)"
    and "mono (clock s)" and "services_keyed s" and "services_keyed t" and "service_step\<^sup>*\<^sup>* s1 t"
    and "ParseInt (TrimSpace (rq_Timestamp (hr_Signed r))) = Some seconds"
    and "unix_epoch + nanos seconds + lag < time_Now s"
    and "clock t (Suc (ticks t)) \<le> clock t (ticks t) + lag"
  shows "\<not> passes (snd (RequireService uc sha verify cfg cap' t r))"
proof
  let ?key = "service_nonce_key (TrimSpace (named_service uc r)) (TrimSpace (rq_Nonce (hr_Signed r)))"
  let ?e = "time_Now s + skew cfg"
  assume "passes (snd (RequireService uc sha verify cfg cap' t r))"
  then obtain t1 other where again: "RequireService uc sha verify cfg cap' t r = (t1, Inr other)"
    by (cases "RequireService uc sha verify cfg cap' t r") (auto simp: passes_def split: sum.splits)
  have "serviceNonces s1 ?key = Some ?e" "clock s1 = clock s"
    using ConsumeServiceNonce_stored [OF RequireService_ok(2) [OF assms(2,1,4)]] by (simp_all add: tick_def)
  with assms(3) have "burned ?key ?e t" by (intro replay.reachable_inv [OF _ assms(6)]) simp
  then have burned: "burned ?key ?e (tick t)" by (rule burned_step) (rule service_step.other, simp_all add: tick_def)
  have late: "time_Now t - skew cfg \<le> unix_epoch + nanos seconds"
    using RequireService_ok(1) [OF again assms(1,5)] assms(7) by auto
  note taken = RequireService_ok(2) [OF again assms(1,5)]
  have "time_Now (tick t) \<le> time_Now t + lag" using assms(9) by (simp add: time_Now_def tick_def)
  then have "time_Now (tick t) < ?e" using late assms(8) by linarith
  from burned_refused [OF burned this] taken show False by (metis is_ok_simps(1) snd_conv)
qed

text \<open>A worker that signed one request, at the given time.\<close>

definition worker :: ServiceIdentity where
  "worker = \<lparr>si_ServiceID = ''worker'', si_Name = ''w'', si_Kind = ''WORKER'', si_SubjectID = [], si_PublicKey = sample_key,
     si_Capabilities = [''economy.worker''], si_Status = ''ACTIVE'', si_CreatedBy = ''a'', si_CreatedAt = 0, si_DisabledBy = [],
     si_DisabledAt = None, si_DisableReason = []\<rparr>"

definition worker_request :: "string \<Rightarrow> http_request" where
  "worker_request ts = \<lparr>hr_Signed = sample_signed\<lparr>rq_Timestamp := ts\<rparr>, hr_InternalKey = [], hr_Authorization = [],
     hr_SuperAdminKey = []\<rparr>"

definition worker_signed :: "string \<Rightarrow> string \<Rightarrow> string \<Rightarrow> string \<Rightarrow> bool" where
  "worker_signed ts key m sig \<longleftrightarrow>
     m = serviceRequestMessage (\<lambda>x. x) (\<lambda>x. x) ''worker'' ts ''abcdefghijklmnop'' ''GET'' ''/job'' []"

definition worker_config :: ServerConfig where
  "worker_config = \<lparr>sc_Profile = ''production'', sc_InternalKey = [], sc_JWTSecret = ''k'', sc_AdminToken = [],
     sc_SuperAdminOpsKey = [], sc_AdminSessionTTLMin = 30, sc_ServiceAuthMaxSkewSec = 120\<rparr>"

definition worker_store :: "(nat \<Rightarrow> time) \<Rightarrow> store" where
  "worker_store c = (New c)\<lparr>serviceIdentities := [''worker'' \<mapsto> worker]\<rparr>"

abbreviation worker_key :: string where
  "worker_key \<equiv> service_nonce_key ''worker'' ''abcdefghijklmnop''"

abbreviation worker_call :: "string \<Rightarrow> store \<Rightarrow> store \<times> ServiceIdentity decision" where
  "worker_call ts s \<equiv> RequireService (\<lambda>x. x) (\<lambda>x. x) (worker_signed ts) worker_config ''economy.worker'' s (worker_request ts)"

lemma worker_trims [simp]: "TrimSpace ''economy.worker'' = ''economy.worker''" "TrimSpace ''120'' = ''120''"
  by (rule trim_plain_string; simp add: plain_def space1_def)+

lemma worker_lower [simp]: "ToLower (\<lambda>x. x) ''worker'' = ''worker''"
    "ToLower (\<lambda>x. x) ''economy.worker'' = ''economy.worker''"
  by (simp_all add: ToLower_def ascii_def lower_char_def)

lemma worker_call_eq:
  assumes "TrimSpace ts = ts" "ts \<noteq> []" "ParseInt ts = Some n" "serviceIdentities s = [''worker'' \<mapsto> worker]"
    "\<bar>unix_epoch + nanos n - time_Now s\<bar> \<le> nanos 120" "live_nonces (serviceNonces s) (time_Now (tick s)) worker_key = None"
  shows "worker_call ts s = ((tick (tick s))\<lparr>serviceNonces :=
      (live_nonces (serviceNonces s) (time_Now (tick s)))(worker_key \<mapsto> time_Now s + nanos 120)\<rparr>, Inr worker)"
proof -
  have nonce: "validServiceNonce ''abcdefghijklmnop''" by (simp add: validServiceNonce_def nonce_char_def)
  have "VerifyServiceRequest (\<lambda>x. x) (\<lambda>x. x) (worker_signed ts) (Some (hr_Signed (worker_request ts))) sample_key (time_Now s)
      (nanos 120) = Inr (time_Now s + nanos 120)"
    using assms
    by (simp add: VerifyServiceRequest_def worker_request_def sample_signed_def nonce sample_signature sample_key_decodes
        sample_signature_decodes signedRequestBody_def requestTarget_def worker_signed_def Before_def After_def
        nanos_def Let_def abs_if split: if_splits)
  moreover have "ServiceAuthMaxSkew worker_config = nanos 120"
    by (simp add: ServiceAuthMaxSkew_def worker_config_def Seconds_def nanos_def w64_def)
  moreover have "\<not> legacy_key worker_config (worker_request ts)" by (simp add: legacy_key_def worker_config_def)
  ultimately show ?thesis
    using assms(4,6)
    by (simp add: RequireService_def ServiceIdentity_get_def worker_request_def sample_signed_def HasCapability_def
        ConsumeServiceNonce_def worker_def Let_def tick_def)
qed

theorem service_request_not_replayed_witness:
  "let s = worker_store (\<lambda>_. unix_epoch + nanos 60); (s1, d) = worker_call ''0'' s
   in passes d \<and> \<not> passes (snd (worker_call ''0'' s1))"
proof -
  let ?s = "worker_store (\<lambda>_. unix_epoch + nanos 60)"
  have zero: "ParseInt ''0'' = Some 0" by (simp add: ParseInt_def is_digit_def readNat_def undigit_def i64_def)
  let ?s1 = "(tick (tick ?s))\<lparr>serviceNonces := [worker_key \<mapsto> unix_epoch + nanos 180]\<rparr>"
  have run: "worker_call ''0'' ?s = (?s1, Inr worker)"
    by (subst worker_call_eq [OF _ _ zero])
      (simp_all add: worker_store_def time_Now_def tick_def live_nonces_def nanos_def fun_eq_iff)
  have "\<not> passes (snd (worker_call ''0'' ?s1))"
    by (rule service_request_not_replayed [OF _ run, where t = ?s1 and seconds = 0 and lag = "nanos 1"])
      (simp_all add: legacy_key_def worker_config_def worker_store_def services_keyed_def worker_def
        worker_request_def time_Now_def nanos_def mono_def zero tick_def)
  with run show ?thesis by simp
qed

lemma VerifyServiceRequest_later:
  assumes "VerifyServiceRequest uc sha verify (Some req) key now (ServiceAuthMaxSkew cfg) = Inr expires"
    and "ParseInt (TrimSpace (rq_Timestamp req)) = Some seconds"
  shows "VerifyServiceRequest uc sha verify (Some req) key now' (ServiceAuthMaxSkew cfg) =
      (if unix_epoch + nanos seconds < now' - skew cfg \<or> now' + skew cfg < unix_epoch + nanos seconds
       then Inl (ErrMsg ''service signature timestamp is outside the allowed window'') else Inr (now' + skew cfg))"
    and "unix_epoch + nanos seconds \<le> now + skew cfg" and "expires = now + skew cfg"
  using assms
  by (auto simp: VerifyServiceRequest_def Let_def Before_def After_def skew_def split: if_splits option.splits sum.splits)

lemma ConsumeServiceNonce_ok_iff:
  assumes "TrimSpace sid \<noteq> []" "TrimSpace nonce \<noteq> []"
  shows "is_ok (snd (ConsumeServiceNonce s sid nonce e)) \<longleftrightarrow>
    live_nonces (serviceNonces s) (time_Now s) (service_nonce_key (TrimSpace sid) (TrimSpace nonce)) = None"
  using assms by (simp add: ConsumeServiceNonce_def Let_def)

lemma ConsumeServiceNonce_named:
  assumes "ConsumeServiceNonce s sid nonce e = (t, Inr ())"
  shows "TrimSpace sid \<noteq> []" "TrimSpace nonce \<noteq> []"
  using assms by (auto simp: ConsumeServiceNonce_def Let_def split: if_splits)

text \<open>
  Property C17. The replay window. The timestamp of a request may lie up to the allowed skew in the
  future, and the request then stays valid until its timestamp plus the skew, but its nonce is kept
  only until its acceptance plus the skew. Suppose a request is accepted in \<open>s\<close> and presented again
  in a later store \<open>t\<close>, in which the service is registered as before and nothing else was stored under
  its nonce. It is accepted again exactly when the nonce has run out by the second clock reading of
  the call while the first lies within the skew of the timestamp. A request signed by a clock that
  runs ahead can therefore be replayed for as long as the clock ran ahead.
\<close>

theorem early_request_replayed:
  assumes "\<not> legacy_key cfg r" and "RequireService uc sha verify cfg cap s r = (s1, Inr identity)"
    and "ParseInt (TrimSpace (rq_Timestamp (hr_Signed r))) = Some seconds"
    and "serviceIdentities t (named_service uc r) = serviceIdentities s (named_service uc r)"
    and "key = service_nonce_key (TrimSpace (si_ServiceID identity)) (TrimSpace (rq_Nonce (hr_Signed r)))"
    and "serviceNonces t key = serviceNonces s1 key" and "time_Now s \<le> time_Now t"
  shows "passes (snd (RequireService uc sha verify cfg cap t r)) \<longleftrightarrow>
    time_Now s + skew cfg \<le> time_Now (tick t) \<and> time_Now t \<le> unix_epoch + nanos seconds + skew cfg"
proof -
  obtain expires where found: "serviceIdentities s (named_service uc r) = Some identity"
    and ok: "VerifyServiceRequest uc sha verify (Some (hr_Signed r)) (si_PublicKey identity) (time_Now s)
        (ServiceAuthMaxSkew cfg) = Inr expires"
    and active: "si_Status identity = ''ACTIVE''" "HasCapability uc identity cap"
    and used: "ConsumeServiceNonce (tick s) (si_ServiceID identity) (rq_Nonce (hr_Signed r)) expires = (s1, Inr ())"
    using assms(1,2)
    by (auto simp: RequireService_def Let_def ServiceIdentity_get_def reject_def named_service_def
        split: if_splits option.splits sum.splits prod.splits)
  note later = VerifyServiceRequest_later [OF ok assms(3)]
  have row: "serviceNonces t key = Some (time_Now s + skew cfg)"
    using ConsumeServiceNonce_stored(1) [OF used] later(3) assms(5,6) by simp
  note named = ConsumeServiceNonce_named [OF used]
  have free: "is_ok (snd (ConsumeServiceNonce (tick t) (si_ServiceID identity) (rq_Nonce (hr_Signed r)) e)) \<longleftrightarrow>
      time_Now s + skew cfg \<le> time_Now (tick t)" for e
    using row unfolding ConsumeServiceNonce_ok_iff [OF named]
    by (auto simp: assms(5) live_nonces_def After_def tick_def)
  have get: "ServiceIdentity_get uc t (ToLower uc (TrimSpace (rq_ServiceID (hr_Signed r)))) = Inr identity"
    using found assms(4) by (simp add: ServiceIdentity_get_def named_service_def)
  show ?thesis
  proof (cases "time_Now t \<le> unix_epoch + nanos seconds + skew cfg")
    case True
    then have "VerifyServiceRequest uc sha verify (Some (hr_Signed r)) (si_PublicKey identity) (time_Now t)
        (ServiceAuthMaxSkew cfg) = Inr (time_Now t + skew cfg)"
      using later(1) [of "time_Now t"] later(2) assms(7) by simp
    then have "passes (snd (RequireService uc sha verify cfg cap t r)) \<longleftrightarrow>
        is_ok (snd (ConsumeServiceNonce (tick t) (si_ServiceID identity) (rq_Nonce (hr_Signed r)) (time_Now t + skew cfg)))"
      using assms(1) get active
      by (auto simp: RequireService_def Let_def passes_def reject_def split: prod.splits sum.splits)
    with True free show ?thesis by simp
  next
    case False
    then obtain e where "VerifyServiceRequest uc sha verify (Some (hr_Signed r)) (si_PublicKey identity) (time_Now t)
        (ServiceAuthMaxSkew cfg) = Inl e"
      using later(1) [of "time_Now t"] by simp
    then have "\<not> passes (snd (RequireService uc sha verify cfg cap t r))"
      using assms(1) get active by (simp add: RequireService_def Let_def passes_def)
    with False show ?thesis by simp
  qed
qed

text \<open>
  A worker whose clock is two minutes ahead signs one request; it is accepted, and 121 seconds later
  the very same request is accepted again.
\<close>

theorem early_request_replayed_witness:
  "let s = worker_store (\<lambda>n. if n < 2 then unix_epoch else unix_epoch + nanos 121);
       (s1, first) = worker_call ''120'' s
   in mono (clock s) \<and> passes first \<and> passes (snd (worker_call ''120'' s1))"
proof -
  let ?s = "worker_store (\<lambda>n. if n < 2 then unix_epoch else unix_epoch + nanos 121)"
  let ?s1 = "(tick (tick ?s))\<lparr>serviceNonces := [worker_key \<mapsto> unix_epoch + nanos 120]\<rparr>"
  have ahead: "ParseInt ''120'' = Some 120" by (simp add: ParseInt_def is_digit_def readNat_def undigit_def i64_def)
  have first: "worker_call ''120'' ?s = (?s1, Inr worker)"
    by (subst worker_call_eq [OF _ _ ahead])
      (simp_all add: worker_store_def time_Now_def tick_def live_nonces_def nanos_def fun_eq_iff)
  have times: "time_Now ?s = unix_epoch" "time_Now ?s1 = unix_epoch + nanos 121" "time_Now (tick ?s1) = unix_epoch + nanos 121"
    by (simp_all add: worker_store_def time_Now_def tick_def)
  have skew: "skew worker_config = nanos 120"
    by (simp add: skew_def ServiceAuthMaxSkew_def worker_config_def Seconds_def nanos_def w64_def)
  have no_key: "\<not> legacy_key worker_config (worker_request ''120'')" by (simp add: legacy_key_def worker_config_def)
  have stamp: "ParseInt (TrimSpace (rq_Timestamp (hr_Signed (worker_request ''120'')))) = Some 120"
    by (simp add: worker_request_def ahead)
  have "passes (snd (worker_call ''120'' ?s1)) \<longleftrightarrow>
      time_Now ?s + skew worker_config \<le> time_Now (tick ?s1) \<and> time_Now ?s1 \<le> unix_epoch + nanos 120 + skew worker_config"
    by (rule early_request_replayed [OF no_key first stamp _ refl])
      (simp_all add: time_Now_def tick_def worker_store_def nanos_def)
  then have "passes (snd (worker_call ''120'' ?s1))" unfolding times skew by (simp add: nanos_def)
  moreover have "mono (clock ?s)" by (simp add: worker_store_def mono_def nanos_def)
  ultimately show ?thesis using first by (simp add: Let_def)
qed

section \<open>Disabled administrators\<close>

inductive admin_step :: "(string \<Rightarrow> string) \<Rightarrow> store \<Rightarrow> store \<Rightarrow> bool" for uc where
  create: "admin_step uc s (fst (CreateAdminUser uc s ks inp))"
| disable: "admin_step uc s (fst (DisableAdminUser uc s a who reason))"
| touch: "admin_step uc s (fst (TouchAdminUserLogin uc s a now))"
| other: "adminUsers t = adminUsers s \<Longrightarrow> admin_step uc s t"

definition locked_out :: "string \<Rightarrow> store \<Rightarrow> bool" where
  "locked_out k s \<longleftrightarrow> (case adminUsers s k of None \<Rightarrow> False | Some row \<Rightarrow> adu_Status row = ''DISABLED'')"

lemma locked_out_step: "locked_out k s \<Longrightarrow> admin_step uc s t \<Longrightarrow> locked_out k t"
  by (erule admin_step.cases)
    (auto simp: locked_out_def CreateAdminUser_def DisableAdminUser_def TouchAdminUserLogin_def push_audit_def tick_def
      Let_def split: option.splits sum.splits if_splits)

interpretation lockout: machine "locked_out k" "admin_step uc" "locked_out k" for k uc
  by unfold_locales (simp, rule locked_out_step)

lemma idPattern_fixed:
  assumes "idPattern k"
  shows "ToLower uc (TrimSpace k) = k"
proof -
  have chars: "\<forall>c \<in> set k. lower_alnum c \<or> c \<in> set ''._-''"
    using assms by (cases k) (auto simp: idPattern_def list_all_iff)
  have "plain c \<and> lower_char c = c" if "c \<in> set k" for c
  proof -
    have "lower_alnum c \<or> c \<in> set ''._-''" using chars that by blast
    then show ?thesis
      by (auto simp: lower_alnum_def byte_in_def plain_def space1_def lower_char_def Let_def)
  qed
  then have "TrimSpace k = k" "map lower_char k = k" "ascii k"
    by (auto simp: list_all_iff ascii_def plain_def intro!: TrimSpace_all_plain map_idI)
  then show ?thesis by (simp add: ToLower_def)
qed

lemma RequireAdmin_locked_out:
  assumes "locked_out k t" "\<not> super_key cfg r" "\<not> static_token cfg r"
    "VerifyAdminAccessToken uc hmac dec now (sc_JWTSecret cfg) (BearerToken (hr_Authorization r)) = Inr claims"
    "ToLower uc (TrimSpace (acl_Subject claims)) = k"
  shows "\<not> passes (RequireAdmin uc hmac dec cfg now t r)"
  using assms by (auto simp: RequireAdmin_def AdminUser_get_def locked_out_def Let_def split: option.splits)

lemma adminLogin_locked_out:
  assumes "locked_out k t" "idPattern k" "ToLower uc (TrimSpace (lb_AdminID body)) = k"
  shows "\<not> passes (snd (adminLogin uc hmac enc verify cfg t (Some body)))"
  using assms idPattern_fixed [OF assms(2), of uc]
  by (auto simp: adminLogin_def AdminUser_get_def locked_out_def Let_def split: option.splits)

text \<open>
  Property C12. Disabling an administrator is final. Whatever administrator calls follow, an access
  token of that administrator that still verifies no longer authorises a request (unless the request
  carries the super-administrator key or the static development token), and the administrator can no
  longer log in, not even with a valid signature.
\<close>

theorem disabled_admin_locked_out:
  assumes "DisableAdminUser uc s adminID who reason = (s1, Inr row)" and "(admin_step uc)\<^sup>*\<^sup>* s1 t"
    and "k = ToLower uc (TrimSpace adminID)" and "idPattern k"
  shows "(\<not> super_key cfg r \<longrightarrow> \<not> static_token cfg r \<longrightarrow>
      VerifyAdminAccessToken uc hmac dec now (sc_JWTSecret cfg) (BearerToken (hr_Authorization r)) = Inr claims \<longrightarrow>
      ToLower uc (TrimSpace (acl_Subject claims)) = k \<longrightarrow> \<not> passes (RequireAdmin uc hmac dec cfg now t r)) \<and>
    (ToLower uc (TrimSpace (lb_AdminID body)) = k \<longrightarrow> \<not> passes (snd (adminLogin uc hmac enc verify cfg t (Some body))))"
proof -
  have "locked_out k s1"
    using assms(1,3) by (auto simp: DisableAdminUser_def locked_out_def push_audit_def Let_def split: if_splits option.splits)
  from lockout.reachable_inv [OF this assms(2)] have "locked_out k t" .
  then show ?thesis using RequireAdmin_locked_out adminLogin_locked_out [OF _ assms(4)] by blast
qed

definition one_admin :: store where
  "one_admin = (New (\<lambda>_. 1))\<lparr>adminUsers := [''ops'' \<mapsto> zero_AdminUser\<lparr>adu_AdminID := ''ops'', adu_Role := ''VIEWER'',
     adu_Status := ''ACTIVE''\<rparr>]\<rparr>"

definition ops_claims :: AdminClaims where
  "ops_claims = \<lparr>acl_Subject = ''ops'', acl_Username = ''ops'', acl_Role = ''VIEWER'', acl_ExpiresAt = 0\<rparr>"

definition ops_request :: http_request where
  "ops_request = (worker_request ''0'')\<lparr>hr_Authorization := ''Bearer .''\<rparr>"

lemma ops_trims [simp]:
  "TrimSpace ''ops'' = ''ops''" "TrimSpace ''root'' = ''root''" "TrimSpace ''left'' = ''left''" "TrimSpace ''.'' = ''.''"
  "TrimSpace ''k'' = ''k''" "TrimSpace ''VIEWER'' = ''VIEWER''"
  by (rule trim_plain_string; simp add: plain_def space1_def)+

lemma ops_case [simp]: "ToLower (\<lambda>x. x) ''ops'' = ''ops''" "ToUpper (\<lambda>x. x) ''VIEWER'' = ''VIEWER''"
  by (simp_all add: ToLower_def ToUpper_def ascii_def lower_char_def upper_char_def)

theorem disabled_admin_locked_out_witness:
  "let s1 = fst (DisableAdminUser (\<lambda>x. x) one_admin ''ops'' ''root'' ''left'')
   in passes (RequireAdmin (\<lambda>x. x) (\<lambda>_ _. []) (\<lambda>_. Inr ops_claims) worker_config 0 one_admin ops_request) \<and>
      \<not> passes (RequireAdmin (\<lambda>x. x) (\<lambda>_ _. []) (\<lambda>_. Inr ops_claims) worker_config 0 s1 ops_request)"
proof -
  have id: "idPattern ''ops''" by (simp add: idPattern_def lower_alnum_def byte_in_def Let_def)
  obtain s1 row where run: "DisableAdminUser (\<lambda>x. x) one_admin ''ops'' ''root'' ''left'' = (s1, Inr row)"
    by (simp add: DisableAdminUser_def one_admin_def runes_def zero_AdminUser_def Let_def)
  have token: "VerifyAdminAccessToken (\<lambda>x. x) (\<lambda>_ _. []) (\<lambda>_. Inr ops_claims) 0 (sc_JWTSecret worker_config)
      (BearerToken (hr_Authorization ops_request)) = Inr ops_claims"
    by (simp add: VerifyAdminAccessToken_def BearerToken_def ops_request_def sign_def RawURL_DecodeString_def
        ops_claims_def Unix_def unix_epoch_def nanos_def worker_config_def worker_request_def)
  have keys: "\<not> super_key worker_config ops_request" "\<not> static_token worker_config ops_request"
    by (simp_all add: super_key_def static_token_def allowStaticAdminToken_def worker_config_def)
  have sub: "ToLower (\<lambda>x. x) (TrimSpace (acl_Subject ops_claims)) = ''ops''" by (simp add: ops_claims_def)
  have "passes (RequireAdmin (\<lambda>x. x) (\<lambda>_ _. []) (\<lambda>_. Inr ops_claims) worker_config 0 one_admin ops_request)"
    using keys token by (simp add: RequireAdmin_def AdminUser_get_def one_admin_def ops_claims_def worker_config_def
        BearerToken_def ops_request_def Let_def)
  moreover have "\<not> passes (RequireAdmin (\<lambda>x. x) (\<lambda>_ _. []) (\<lambda>_. Inr ops_claims) worker_config 0 s1 ops_request)"
    using disabled_admin_locked_out [OF run rtranclp.rtrancl_refl, of "''ops''"] id keys token sub by simp
  ultimately show ?thesis by (simp add: run)
qed

section \<open>Administrator nonces\<close>

definition admin_nonce_spent :: "store \<Rightarrow> string \<Rightarrow> bool" where
  "admin_nonce_spent s n \<longleftrightarrow>
     (case adminLoginNonces s (TrimSpace n) of None \<Rightarrow> True | Some row \<Rightarrow> an_Status row \<noteq> ''PENDING'')"

interpretation admin_nonce: single_use "\<lambda>s n (a, now). ConsumeAdminLoginNonce uc s n a now" admin_nonce_spent "\<lambda>_ _. True" for uc
proof
  fix s s' n e and r :: unit
  show "admin_nonce_spent s' n" if "(case e of (a, now) \<Rightarrow> ConsumeAdminLoginNonce uc s n a now) = (s', Inr r)"
    using that by (auto simp: ConsumeAdminLoginNonce_def admin_nonce_spent_def set_admin_nonce_def
        split: prod.splits option.splits if_splits)
  show "\<not> is_ok (snd (case e of (a, now) \<Rightarrow> ConsumeAdminLoginNonce uc s n a now))" if "admin_nonce_spent s n"
    using that by (auto simp: ConsumeAdminLoginNonce_def admin_nonce_spent_def split: prod.splits option.splits)
  show "admin_nonce_spent (fst (case e of (a, now) \<Rightarrow> ConsumeAdminLoginNonce uc s j a now)) n" if "admin_nonce_spent s n" for j
    using that by (auto simp: ConsumeAdminLoginNonce_def admin_nonce_spent_def set_admin_nonce_def
        split: prod.splits option.splits if_splits)
qed

end
