(* ===== verification/Deposits.thy ===== *)
theory Deposits
  imports Solana "HOL-Library.Word"
begin

text \<open>
  Deposits and payments on the chain: the token credits of a transaction (\<open>InboundTokenCredits\<close>,
  \<open>findDecreasedOwner\<close>, \<open>RawToGameAmount\<close> of \<open>src/internal/chain/rpc.go\<close>) and the check of a payment
  (\<open>GameToRawAmount\<close>, \<open>VerifyInboundPayment\<close> of \<open>payout.go\<close>). Raw amounts are \<open>uint64\<close>, words of 64 bits.

  Looking for the payer, \<open>findDecreasedOwner\<close> visits a map; the visiting order is the argument \<open>ks\<close>, one for each
  row it is called for (\<open>ord\<close>).
\<close>

section \<open>Transactions\<close>

type_synonym uint64 = "64 word"

record TokenBalance =
  tb_AccountIndex :: int
  tb_Mint :: string
  tb_Owner :: string
  tb_Amount :: uint64
  tb_Decimals :: int
  tb_UITokenAmount :: string

record TransactionDetail =
  td_Signature :: string
  td_Slot :: uint64
  td_PreTokenBalances :: "TokenBalance list"
  td_PostTokenBalances :: "TokenBalance list"

record TokenCredit =
  tc_Signature :: string
  tc_Slot :: uint64
  tc_Mint :: string
  tc_FromOwner :: string
  tc_ToOwner :: string
  tc_ToTokenAccount :: string
  tc_AmountRaw :: uint64

definition skip_mint :: "string \<Rightarrow> TokenBalance \<Rightarrow> bool" where
  "skip_mint mint row \<longleftrightarrow> mint \<noteq> [] \<and> tb_Mint row \<noteq> mint"

text \<open>The map \<open>pre\<close>: a later row of the same key overwrites an earlier one.\<close>

definition balance_map :: "(TokenBalance \<Rightarrow> string) \<Rightarrow> string \<Rightarrow> TokenBalance list \<Rightarrow> string \<rightharpoonup> uint64" where
  "balance_map key mint rows =
     foldl (\<lambda>m row. if skip_mint mint row then m else m(key row \<mapsto> tb_Amount row)) Map.empty rows"

definition amount_at :: "(string \<rightharpoonup> uint64) \<Rightarrow> string \<Rightarrow> uint64" where
  "amount_at m k = (case m k of None \<Rightarrow> 0 | Some x \<Rightarrow> x)"

fun exact_payer :: "(string \<rightharpoonup> uint64) \<Rightarrow> string \<Rightarrow> string \<Rightarrow> uint64 \<Rightarrow> TokenBalance list \<Rightarrow> string option" where
  "exact_payer pre mint excludeOwner delta [] = None"
| "exact_payer pre mint excludeOwner delta (row # rows) =
     (if skip_mint mint row \<or> tb_Owner row = excludeOwner then exact_payer pre mint excludeOwner delta rows
      else let before = amount_at pre (tb_Owner row)
           in if before \<ge> tb_Amount row \<and> before - tb_Amount row = delta then Some (tb_Owner row)
              else exact_payer pre mint excludeOwner delta rows)"

text \<open>One round of the last loop: whether the owner lost tokens or left the transaction with some.\<close>

definition lost_tokens :: "string \<Rightarrow> TokenBalance list \<Rightarrow> string \<Rightarrow> uint64 \<Rightarrow> bool" where
  "lost_tokens mint rows owner before =
     (let own = filter (\<lambda>row. tb_Owner row = owner \<and> (mint = [] \<or> tb_Mint row = mint)) rows
      in (\<exists>row \<in> set own. before > tb_Amount row) \<or> own = [] \<and> before > 0)"

definition findDecreasedOwner :: "TransactionDetail \<Rightarrow> string list \<Rightarrow> string \<Rightarrow> string \<Rightarrow> uint64 \<Rightarrow> string" where
  "findDecreasedOwner tx ks mint excludeOwner delta =
     (let pre = balance_map tb_Owner mint (td_PreTokenBalances tx) in
      case exact_payer pre mint excludeOwner delta (td_PostTokenBalances tx) of
        Some owner \<Rightarrow> owner
      | None \<Rightarrow>
          (case List.find (\<lambda>owner. pre owner \<noteq> None \<and> owner \<noteq> excludeOwner \<and>
                    lost_tokens mint (td_PostTokenBalances tx) owner (amount_at pre owner)) ks of
             Some owner \<Rightarrow> owner | None \<Rightarrow> []))"

definition owner_mint :: "TokenBalance \<Rightarrow> string" where
  "owner_mint row = tb_Owner row @ ''|'' @ tb_Mint row"

definition InboundTokenCredits ::
  "(TokenBalance \<Rightarrow> string list) \<Rightarrow> TransactionDetail option \<Rightarrow> string \<Rightarrow> string \<Rightarrow> TokenCredit list" where
  "InboundTokenCredits ord tx0 depositOwner0 mint0 =
     (case tx0 of
        None \<Rightarrow> []
      | Some tx \<Rightarrow>
          let depositOwner = TrimSpace depositOwner0; mint = TrimSpace mint0;
              pre = balance_map owner_mint mint (td_PreTokenBalances tx);
              rows = filter (\<lambda>row. \<not> skip_mint mint row \<and> \<not> (depositOwner \<noteq> [] \<and> tb_Owner row \<noteq> depositOwner) \<and>
                \<not> tb_Amount row \<le> amount_at pre (owner_mint row)) (td_PostTokenBalances tx)
          in map (\<lambda>row. let delta = tb_Amount row - amount_at pre (owner_mint row) in
               \<lparr>tc_Signature = td_Signature tx, tc_Slot = td_Slot tx, tc_Mint = tb_Mint row,
                tc_FromOwner = findDecreasedOwner tx (ord row) mint (tb_Owner row) delta,
                tc_ToOwner = tb_Owner row, tc_ToTokenAccount = [], tc_AmountRaw = delta\<rparr>) rows)"

section \<open>Amounts\<close>

text \<open>The divisor is computed in 64 bits; dividing by zero panics.\<close>

definition RawToGameAmount :: "uint64 \<Rightarrow> int \<Rightarrow> int result" where
  "RawToGameAmount raw decimals =
     (if decimals \<le> 0 then Inr (sint raw)
      else let d = ((\<lambda>x. x * 10) ^^ nat decimals) (1 :: uint64)
           in if d = 0 then Inl Panic else Inr (sint (raw div d)))"

definition GameToRawAmount :: "int \<Rightarrow> int \<Rightarrow> uint64 result" where
  "GameToRawAmount amount decimals =
     (if amount \<le> 0 then Inl (ErrMsg ''amount must be positive'')
      else if decimals < 0 \<or> decimals > 18 then Inl (ErrMsg ''decimals out of range'')
      else let raw = amount * 10 ^ nat decimals
           in if raw < 2 ^ 64 then Inr (word_of_int raw)
              else Inl (ErrMsg ''amount overflows uint64 raw units''))"

definition VerifyInboundPayment ::
  "(TokenBalance \<Rightarrow> string list) \<Rightarrow> TransactionDetail option \<Rightarrow> string \<Rightarrow> string \<Rightarrow> string \<Rightarrow> int \<Rightarrow> int \<Rightarrow> unit result" where
  "VerifyInboundPayment ord tx depositOwner mint expectedPayer0 minGameAmount decimals =
     (if tx = None then Inl (ErrMsg ''transaction not found'')
      else let credits = InboundTokenCredits ord tx depositOwner mint in
        if credits = [] then Inl (ErrMsg ''transaction has no inbound token transfer to deposit wallet'')
        else case GameToRawAmount minGameAmount decimals of
            Inl e \<Rightarrow> Inl e
          | Inr needRaw \<Rightarrow>
              let expectedPayer = TrimSpace expectedPayer0 in
              if list_ex (\<lambda>credit. \<not> tc_AmountRaw credit < needRaw \<and>
                   \<not> (expectedPayer \<noteq> [] \<and> tc_FromOwner credit \<noteq> [] \<and> tc_FromOwner credit \<noteq> expectedPayer)) credits
              then Inr ()
              else Inl (ErrMsg (''payment amount/payer mismatch (need >= '' @ FormatInt minGameAmount @ '' game units)'')))"

section \<open>Converting amounts\<close>

lemma power_by_tens: "((\<lambda>x. x * 10) ^^ n) (1 :: uint64) = 10 ^ n"
  by (induction n) (simp_all add: mult.commute)

lemma uint_of_int: "0 \<le> x \<Longrightarrow> x < 2 ^ 64 \<Longrightarrow> uint (word_of_int x :: uint64) = x"
  by (simp add: uint_word_of_int_eq take_bit_int_eq_self)

lemma GameToRawAmount_ok:
  assumes "GameToRawAmount a d = Inr raw"
  shows "0 < a" "0 \<le> d" "d \<le> 18" "uint raw = a * 10 ^ nat d"
proof -
  have *: "0 < a" "0 \<le> d" "d \<le> 18" "a * 10 ^ nat d < 2 ^ 64" "raw = word_of_int (a * 10 ^ nat d)"
    using assms by (auto simp only: GameToRawAmount_def Let_def sum.inject split: if_splits)
  then show "0 < a" "0 \<le> d" "d \<le> 18" by simp_all
  from *(1) have "0 \<le> a * 10 ^ nat d" by simp
  from uint_of_int [OF this *(4)] *(5) show "uint raw = a * 10 ^ nat d" by (simp only:)
qed

text \<open>An amount converted to raw units and back is itself.\<close>

lemma amount_roundtrip:
  assumes "GameToRawAmount a d = Inr raw" "a < 2 ^ 63"
  shows "RawToGameAmount raw d = Inr a"
proof -
  note ok = GameToRawAmount_ok [OF assms(1)]
  have "(10 :: int) ^ nat d \<le> 10 ^ 18" using ok(2,3) by (intro power_increasing) auto
  then have "(10 :: int) ^ nat d < 2 ^ 64" by (rule le_less_trans) simp
  then have "uint (word_of_int (10 ^ nat d) :: uint64) = 10 ^ nat d" by (intro uint_of_int) simp_all
  then have ten: "uint ((10 :: uint64) ^ nat d) = 10 ^ nat d" by simp
  then have "uint (raw div 10 ^ nat d) = a" using ok(1,4) by (simp add: uint_div_distrib)
  moreover have "sint w = uint w" if "uint w < 2 ^ 63" for w :: uint64
  proof -
    have "- (2 ^ 63) \<le> uint w" by (rule order_trans [OF _ uint_ge_0]) simp
    with that have "signed_take_bit 63 (uint w) = uint w" by (rule signed_take_bit_int_eq_self [rotated])
    then show ?thesis by (simp add: sint_uint)
  qed
  ultimately have "sint (raw div 10 ^ nat d) = a" using assms(2) by simp
  moreover have "(10 :: uint64) ^ nat d \<noteq> 0" using ten by (metis power_not_zero uint_0_eq zero_neq_numeral)
  ultimately show ?thesis
    using ok(2) \<open>uint raw = _\<close> by (cases "d = 0") (auto simp: RawToGameAmount_def power_by_tens)
qed

section \<open>What a deposit is credited\<close>

text \<open>The tokens of a mint an owner holds, over all token accounts listed.\<close>

definition held :: "TokenBalance list \<Rightarrow> string \<Rightarrow> string \<Rightarrow> nat" where
  "held rows owner mint = sum_list (map (unat \<circ> tb_Amount) (filter (\<lambda>row. tb_Owner row = owner \<and> tb_Mint row = mint) rows))"

text \<open>At most one token account of the mint per owner.\<close>

definition one_account_each :: "string \<Rightarrow> TokenBalance list \<Rightarrow> bool" where
  "one_account_each mint rows \<longleftrightarrow> distinct (map tb_Owner (filter (\<lambda>row. tb_Mint row = mint) rows))"

lemma one_account_split:
  assumes "one_account_each mint rows"
  shows "filter (\<lambda>row. tb_Owner row = owner \<and> tb_Mint row = mint) rows = [] \<or>
    (\<exists>row. filter (\<lambda>row. tb_Owner row = owner \<and> tb_Mint row = mint) rows = [row])"
proof -
  let ?own = "filter (\<lambda>row. tb_Owner row = owner \<and> tb_Mint row = mint) rows"
  have "distinct (map tb_Owner (filter (\<lambda>row. tb_Owner row = owner) (filter (\<lambda>row. tb_Mint row = mint) rows)))"
    using assms unfolding one_account_each_def by (rule distinct_map_filter)
  then have "distinct (map tb_Owner ?own)" by (simp add: conj_commute)
  moreover have "map tb_Owner ?own = replicate (length ?own) owner" by (intro replicate_eqI) auto
  ultimately have "distinct (replicate (length ?own) owner)" by simp
  moreover have "\<not> distinct (replicate (Suc (Suc n)) owner)" for n by simp
  ultimately have "length ?own < 2" by (metis One_nat_def add_2_eq_Suc le_Suc_ex not_less plus_1_eq_Suc)
  then show ?thesis by (cases ?own; cases "tl ?own") auto
qed

text \<open>The last row of a key decides; with a mint the key determines the owner.\<close>

lemma balance_map_last:
  "balance_map key mint rows k = map_option tb_Amount
     (case filter (\<lambda>row. \<not> skip_mint mint row \<and> key row = k) rows of [] \<Rightarrow> None | xs \<Rightarrow> Some (last xs))"
proof (induction rows rule: rev_induct)
  case (snoc row rows)
  then show ?case by (auto simp: balance_map_def split: list.splits)
qed (simp add: balance_map_def)

lemma held_before:
  assumes "mint \<noteq> []" "one_account_each mint rows" "tb_Mint row = mint"
  shows "unat (amount_at (balance_map owner_mint mint rows) (owner_mint row)) = held rows (tb_Owner row) mint"
proof -
  have "filter (\<lambda>x. \<not> skip_mint mint x \<and> owner_mint x = owner_mint row) rows =
      filter (\<lambda>x. tb_Owner x = tb_Owner row \<and> tb_Mint x = mint) rows"
    using assms(1,3) by (intro filter_cong) (auto simp: skip_mint_def owner_mint_def)
  with one_account_split [OF assms(2), of "tb_Owner row"] show ?thesis
    by (auto simp: amount_at_def balance_map_last held_def)
qed

lemma credits_exact:
  assumes "mint = TrimSpace mint0" "mint \<noteq> []" "owner = TrimSpace owner0" "owner \<noteq> []"
    "one_account_each mint (td_PreTokenBalances tx)" "one_account_each mint (td_PostTokenBalances tx)"
    and credits: "credits = InboundTokenCredits ord (Some tx) owner0 mint0"
  shows "sum_list (map (unat \<circ> tc_AmountRaw) credits) =
      held (td_PostTokenBalances tx) owner mint - held (td_PreTokenBalances tx) owner mint"
    and "length credits \<le> 1" and "\<forall>c \<in> set credits. tc_ToOwner c = owner \<and> tc_Mint c = mint"
proof -
  let ?before = "\<lambda>row. amount_at (balance_map owner_mint mint (td_PreTokenBalances tx)) (owner_mint row)"
  let ?own = "filter (\<lambda>row. tb_Owner row = owner \<and> tb_Mint row = mint) (td_PostTokenBalances tx)"
  have rows: "filter (\<lambda>row. \<not> skip_mint mint row \<and> \<not> (owner \<noteq> [] \<and> tb_Owner row \<noteq> owner) \<and> \<not> tb_Amount row \<le> ?before row)
      (td_PostTokenBalances tx) = filter (\<lambda>row. \<not> tb_Amount row \<le> ?before row) ?own"
    using assms(2,4) by (auto simp: skip_mint_def intro!: filter_cong)
  let ?credit = "\<lambda>row. let delta = tb_Amount row - ?before row in
    \<lparr>tc_Signature = td_Signature tx, tc_Slot = td_Slot tx, tc_Mint = tb_Mint row,
     tc_FromOwner = findDecreasedOwner tx (ord row) mint (tb_Owner row) delta,
     tc_ToOwner = tb_Owner row, tc_ToTokenAccount = [], tc_AmountRaw = delta\<rparr>"
  have list: "credits = map ?credit (filter (\<lambda>row. \<not> tb_Amount row \<le> ?before row) ?own)"
    unfolding credits InboundTokenCredits_def option.case assms(1,3) [symmetric] rows Let_def ..
  have before: "unat (?before row) = held (td_PreTokenBalances tx) owner mint" if "row \<in> set ?own" for row
    using held_before [OF assms(2,5)] that by auto
  show "sum_list (map (unat \<circ> tc_AmountRaw) credits) =
      held (td_PostTokenBalances tx) owner mint - held (td_PreTokenBalances tx) owner mint"
  proof (cases "?own = []")
    case True
    then show ?thesis by (simp add: list held_def)
  next
    case False
    then obtain row where own: "?own = [row]" using one_account_split [OF assms(6)] by blast
    then have "unat (?before row) = held (td_PreTokenBalances tx) owner mint" by (intro before) simp
    then show ?thesis
      by (simp add: list own held_def [of "td_PostTokenBalances tx"] Let_def word_le_nat_alt unat_sub_if')
  qed
  show "length credits \<le> 1"
    using one_account_split [OF assms(6), of owner] unfolding list by (auto simp del: filter_filter)
  show "\<forall>c \<in> set credits. tc_ToOwner c = owner \<and> tc_Mint c = mint" unfolding list by (auto simp: Let_def)
qed

section \<open>Payments\<close>

lemma VerifyInboundPayment_ok:
  assumes "VerifyInboundPayment ord (Some tx) owner mint payer amount decimals = Inr ()"
  obtains need credit where "GameToRawAmount amount decimals = Inr need"
    "credit \<in> set (InboundTokenCredits ord (Some tx) owner mint)" "need \<le> tc_AmountRaw credit"
    "TrimSpace payer = [] \<or> tc_FromOwner credit = [] \<or> tc_FromOwner credit = TrimSpace payer"
  using assms that
  by (auto simp: VerifyInboundPayment_def Let_def list_ex_iff not_less split: if_splits sum.splits)

text \<open>
  Property C25. A payment is only accepted when the deposit wallet received it. If no owner has more
  than one token account of the mint in the transaction, an accepted payment names a positive
  amount and a precision of at most 18 decimals, and the transaction raised the tokens the deposit
  wallet holds by at least that amount, in raw units and without overflow. The credits found are
  then exactly that increase, and all to the deposit wallet and in the mint asked for.
\<close>

theorem accepted_payment_received:
  assumes "mint = TrimSpace mint0" and "mint \<noteq> []" and "owner = TrimSpace owner0" and "owner \<noteq> []"
    and "one_account_each mint (td_PreTokenBalances tx)" and "one_account_each mint (td_PostTokenBalances tx)"
    and "VerifyInboundPayment ord (Some tx) owner0 mint0 payer amount decimals = Inr ()"
    and "credits = InboundTokenCredits ord (Some tx) owner0 mint0"
  shows "0 < amount \<and> 0 \<le> decimals \<and> decimals \<le> 18 \<and>
    int (held (td_PreTokenBalances tx) owner mint) + amount * 10 ^ nat decimals \<le>
      int (held (td_PostTokenBalances tx) owner mint) \<and>
    held (td_PreTokenBalances tx) owner mint + sum_list (map (unat \<circ> tc_AmountRaw) credits) =
      held (td_PostTokenBalances tx) owner mint \<and>
    (\<forall>c \<in> set credits. tc_ToOwner c = owner \<and> tc_Mint c = mint)"
proof -
  note exact = credits_exact [OF assms(1-6,8)]
  obtain need credit where need: "GameToRawAmount amount decimals = Inr need"
    and credit: "credit \<in> set credits" "need \<le> tc_AmountRaw credit"
    using VerifyInboundPayment_ok [OF assms(7)] unfolding assms(8) by metis
  note raw = GameToRawAmount_ok [OF need]
  from credit(1) exact(2) have "credits = [credit]" by (cases credits) auto
  with exact(1) have gain: "unat (tc_AmountRaw credit) =
      held (td_PostTokenBalances tx) owner mint - held (td_PreTokenBalances tx) owner mint" by simp
  have "uint need \<le> uint (tc_AmountRaw credit)" using credit(2) by (simp add: word_le_def)
  then have paid: "amount * 10 ^ nat decimals \<le> int (unat (tc_AmountRaw credit))" using raw(4) by simp
  moreover have "0 < amount * 10 ^ nat decimals" using raw(1) by simp
  ultimately have "held (td_PreTokenBalances tx) owner mint < held (td_PostTokenBalances tx) owner mint"
    using gain by linarith
  then show ?thesis using raw(1-3) paid gain exact \<open>credits = [credit]\<close> by auto
qed

definition balance_row :: "int \<Rightarrow> string \<Rightarrow> uint64 \<Rightarrow> TokenBalance" where
  "balance_row i owner amount =
     \<lparr>tb_AccountIndex = i, tb_Mint = ''M'', tb_Owner = owner, tb_Amount = amount, tb_Decimals = 2, tb_UITokenAmount = []\<rparr>"

definition transfer :: "TokenBalance list \<Rightarrow> TokenBalance list \<Rightarrow> TransactionDetail" where
  "transfer pre post =
     \<lparr>td_Signature = ''S'', td_Slot = 7, td_PreTokenBalances = pre, td_PostTokenBalances = post\<rparr>"

definition honest_transfer :: TransactionDetail where
  "honest_transfer = transfer [balance_row 1 ''P'' 900, balance_row 2 ''D'' 50] [balance_row 1 ''P'' 400, balance_row 2 ''D'' 550]"

lemma deposit_trims [simp]: "TrimSpace ''M'' = ''M''" "TrimSpace ''D'' = ''D''" "TrimSpace ''P'' = ''P''"
  by (rule TrimSpace_all_plain; simp add: plain_def space1_def)+

lemmas deposit_run = VerifyInboundPayment_def InboundTokenCredits_def findDecreasedOwner_def balance_map_def owner_mint_def
  skip_mint_def amount_at_def lost_tokens_def GameToRawAmount_def transfer_def balance_row_def Let_def

theorem accepted_payment_received_witness:
  "VerifyInboundPayment (\<lambda>_. []) (Some honest_transfer) ''D'' ''M'' ''P'' 5 2 = Inr () \<and>
   int (held (td_PreTokenBalances honest_transfer) ''D'' ''M'') + 5 * 10 ^ nat 2 \<le>
     int (held (td_PostTokenBalances honest_transfer) ''D'' ''M'')"
proof -
  have run: "VerifyInboundPayment (\<lambda>_. []) (Some honest_transfer) ''D'' ''M'' ''P'' 5 2 = Inr ()"
    by (simp add: honest_transfer_def deposit_run)
  have one: "one_account_each ''M'' (td_PreTokenBalances honest_transfer)"
      "one_account_each ''M'' (td_PostTokenBalances honest_transfer)"
    by (simp_all add: one_account_each_def honest_transfer_def transfer_def balance_row_def)
  from accepted_payment_received [OF _ _ _ _ one run refl] run show ?thesis by simp
qed

section \<open>Deposits that never happened\<close>

text \<open>When nothing moves, an owner with one account of the mint holds what the account shows.\<close>

lemma unmoved_owner:
  assumes "mint \<noteq> []" "one_account_each mint (filter (\<lambda>row. tb_Owner row \<noteq> owner) rows)"
    and "row \<in> set rows" "tb_Mint row = mint" "tb_Owner row \<noteq> owner"
  shows "balance_map tb_Owner mint rows (tb_Owner row) = Some (tb_Amount row)"
    and "filter (\<lambda>x. tb_Owner x = tb_Owner row \<and> tb_Mint x = mint) rows = [row]"
proof -
  let ?others = "filter (\<lambda>row. tb_Owner row \<noteq> owner) rows"
  have "filter (\<lambda>x. tb_Owner x = tb_Owner row \<and> tb_Mint x = mint) ?others =
      filter (\<lambda>x. tb_Owner x = tb_Owner row \<and> tb_Mint x = mint) rows"
    using assms(5) by (auto intro!: filter_cong)
  with one_account_split [OF assms(2), of "tb_Owner row"] obtain row' where
    own: "filter (\<lambda>x. tb_Owner x = tb_Owner row \<and> tb_Mint x = mint) rows = [row']"
    using assms(3,4) by (metis (mono_tags, lifting) filter_empty_conv)
  have "row \<in> set (filter (\<lambda>x. tb_Owner x = tb_Owner row \<and> tb_Mint x = mint) rows)" using assms(3,4) by simp
  then have "row' = row" unfolding own by simp
  with own show own': "filter (\<lambda>x. tb_Owner x = tb_Owner row \<and> tb_Mint x = mint) rows = [row]" by simp
  have "filter (\<lambda>x. \<not> skip_mint mint x \<and> tb_Owner x = tb_Owner row) rows =
      filter (\<lambda>x. tb_Owner x = tb_Owner row \<and> tb_Mint x = mint) rows"
    using assms(1) by (intro filter_cong) (auto simp: skip_mint_def)
  then show "balance_map tb_Owner mint rows (tb_Owner row) = Some (tb_Amount row)"
    by (simp add: balance_map_last own')
qed

lemma exact_payer_none:
  assumes "\<And>row. row \<in> set rows \<Longrightarrow> \<not> skip_mint mint row \<Longrightarrow> tb_Owner row \<noteq> owner \<Longrightarrow>
      amount_at pre (tb_Owner row) = tb_Amount row" and "delta \<noteq> 0"
  shows "exact_payer pre mint owner delta rows = None"
  using assms by (induction rows) (auto simp: Let_def)

text \<open>So nobody is found to have paid.\<close>

lemma nobody_paid:
  assumes "mint \<noteq> []" "td_PreTokenBalances tx = td_PostTokenBalances tx" "delta \<noteq> 0"
    and "one_account_each mint (filter (\<lambda>row. tb_Owner row \<noteq> owner) (td_PostTokenBalances tx))"
  shows "findDecreasedOwner tx ks mint owner delta = []"
proof -
  let ?rows = "td_PostTokenBalances tx" and ?pre = "balance_map tb_Owner mint (td_PostTokenBalances tx)"
  note unmoved = unmoved_owner [OF assms(1,4)]
  have "exact_payer ?pre mint owner delta ?rows = None"
    using assms(1,3) unmoved(1) by (intro exact_payer_none) (auto simp: amount_at_def skip_mint_def)
  moreover have "\<not> lost_tokens mint ?rows k (amount_at ?pre k)" if k: "?pre k \<noteq> None" "k \<noteq> owner" for k
  proof -
    from k(1) have "filter (\<lambda>x. \<not> skip_mint mint x \<and> tb_Owner x = k) ?rows \<noteq> []"
      by (auto simp: balance_map_last)
    then obtain row where row: "row \<in> set ?rows" "tb_Mint row = mint" "tb_Owner row = k"
      using assms(1) by (auto simp: skip_mint_def filter_empty_conv)
    from unmoved [OF row(1,2)] k(2) row(3) assms(1) show ?thesis
      by (simp add: lost_tokens_def amount_at_def)
  qed
  then have "List.find (\<lambda>k. ?pre k \<noteq> None \<and> k \<noteq> owner \<and> lost_tokens mint ?rows k (amount_at ?pre k)) ks = None"
    by (auto simp: find_None_iff)
  ultimately show ?thesis by (simp add: findDecreasedOwner_def assms(2))
qed

text \<open>The balance before, of a deposit wallet whose accounts did not change, is that of the last account.\<close>

lemma unmoved_credits:
  assumes "td_PreTokenBalances tx = td_PostTokenBalances tx"
    and "mint = TrimSpace mint0" "mint \<noteq> []" "owner = TrimSpace owner0" "owner \<noteq> []"
    and "own = filter (\<lambda>row. tb_Owner row = owner \<and> tb_Mint row = mint) (td_PostTokenBalances tx)"
  shows "InboundTokenCredits ord (Some tx) owner0 mint0 =
    map (\<lambda>row. let delta = tb_Amount row - tb_Amount (last own) in
      \<lparr>tc_Signature = td_Signature tx, tc_Slot = td_Slot tx, tc_Mint = mint,
       tc_FromOwner = findDecreasedOwner tx (ord row) mint owner delta,
       tc_ToOwner = owner, tc_ToTokenAccount = [], tc_AmountRaw = delta\<rparr>)
    (filter (\<lambda>row. tb_Amount (last own) < tb_Amount row) own)"
proof -
  let ?before = "\<lambda>row. amount_at (balance_map owner_mint mint (td_PostTokenBalances tx)) (owner_mint row)"
  have before: "?before row = tb_Amount (last own)" if "row \<in> set own" for row
  proof -
    have row: "tb_Owner row = owner" "tb_Mint row = mint" using that unfolding assms(6) by simp_all
    have "filter (\<lambda>x. \<not> skip_mint mint x \<and> owner_mint x = owner_mint row) (td_PostTokenBalances tx) = own"
      unfolding assms(6) using assms(3) row by (intro filter_cong) (auto simp: skip_mint_def owner_mint_def)
    with that show ?thesis by (cases own) (simp_all add: balance_map_last amount_at_def)
  qed
  have "filter (\<lambda>row. \<not> skip_mint mint row \<and> \<not> (owner \<noteq> [] \<and> tb_Owner row \<noteq> owner) \<and> \<not> tb_Amount row \<le> ?before row)
      (td_PostTokenBalances tx) = filter (\<lambda>row. \<not> tb_Amount row \<le> ?before row) own"
    unfolding assms(6) using assms(3,5) by (auto simp: skip_mint_def intro!: filter_cong)
  also have "\<dots> = filter (\<lambda>row. tb_Amount (last own) < tb_Amount row) own"
    using before by (intro filter_cong) (auto simp: not_le)
  finally have rows: "filter (\<lambda>row. \<not> skip_mint mint row \<and> \<not> (owner \<noteq> [] \<and> tb_Owner row \<noteq> owner) \<and>
      \<not> tb_Amount row \<le> ?before row) (td_PostTokenBalances tx) =
    filter (\<lambda>row. tb_Amount (last own) < tb_Amount row) own" .
  have "tb_Owner row = owner" "tb_Mint row = mint" if "row \<in> set own" for row
    using that unfolding assms(6) by simp_all
  then show ?thesis
    unfolding InboundTokenCredits_def option.case assms(1) assms(2,4) [symmetric] Let_def rows
    by (auto simp: before)
qed

text \<open>
  Property C28. Why one account per owner matters. A token account is identified on the chain by its
  own address, but the balances before the transaction are kept per owner and mint, the last
  account listed winning. Take any transaction that moves nothing, and in it the deposit wallet's accounts of the
  mint, in the order listed. Every account that holds more than the last one is credited with
  the difference, and no other: there is a credit exactly if some account holds more than the last. If one of
  these differences reaches the amount asked for, and no other owner has two accounts of the
  mint in the transaction (or no payer is asked for), the transaction is accepted as a payment, by
  anybody.
\<close>

theorem phantom_deposit:
  assumes "td_PreTokenBalances tx = td_PostTokenBalances tx"
    and "mint = TrimSpace mint0" and "mint \<noteq> []" and "owner = TrimSpace owner0" and "owner \<noteq> []"
    and "own = filter (\<lambda>row. tb_Owner row = owner \<and> tb_Mint row = mint) (td_PostTokenBalances tx)"
    and "credits = InboundTokenCredits ord (Some tx) owner0 mint0"
  shows "map tc_AmountRaw credits =
      map (\<lambda>row. tb_Amount row - tb_Amount (last own)) (filter (\<lambda>row. tb_Amount (last own) < tb_Amount row) own) \<and>
    (credits \<noteq> [] \<longleftrightarrow> (\<exists>row \<in> set own. tb_Amount (last own) < tb_Amount row)) \<and>
    (\<forall>amount decimals need row payer.
       GameToRawAmount amount decimals = Inr need \<and> row \<in> set own \<and> tb_Amount (last own) < tb_Amount row \<and>
       need \<le> tb_Amount row - tb_Amount (last own) \<and>
       (TrimSpace payer = [] \<or>
        one_account_each mint (filter (\<lambda>row. tb_Owner row \<noteq> owner) (td_PostTokenBalances tx))) \<longrightarrow>
       VerifyInboundPayment ord (Some tx) owner0 mint0 payer amount decimals = Inr ())"
proof (intro conjI allI impI)
  note list = unmoved_credits [OF assms(1-6), of ord, folded assms(7)]
  show "map tc_AmountRaw credits =
      map (\<lambda>row. tb_Amount row - tb_Amount (last own)) (filter (\<lambda>row. tb_Amount (last own) < tb_Amount row) own)"
    unfolding list by (simp add: Let_def)
  show "credits \<noteq> [] \<longleftrightarrow> (\<exists>row \<in> set own. tb_Amount (last own) < tb_Amount row)"
    unfolding list by (auto simp: filter_empty_conv)
  fix amount decimals need row payer
  assume asked: "GameToRawAmount amount decimals = Inr need \<and> row \<in> set own \<and> tb_Amount (last own) < tb_Amount row \<and>
       need \<le> tb_Amount row - tb_Amount (last own) \<and>
       (TrimSpace payer = [] \<or>
        one_account_each mint (filter (\<lambda>row. tb_Owner row \<noteq> owner) (td_PostTokenBalances tx)))"
  let ?delta = "tb_Amount row - tb_Amount (last own)"
  from asked have "?delta \<noteq> 0" by auto
  then have payer: "TrimSpace payer = [] \<or> findDecreasedOwner tx (ord row) mint owner ?delta = []"
    using asked nobody_paid [OF assms(3,1)] by blast
  from asked have "row \<in> set (filter (\<lambda>row. tb_Amount (last own) < tb_Amount row) own)" by simp
  then obtain credit where credit: "credit \<in> set credits" "tc_AmountRaw credit = ?delta"
    "tc_FromOwner credit = findDecreasedOwner tx (ord row) mint owner ?delta"
    unfolding list set_map Let_def by fastforce
  have "need \<le> ?delta" using asked by blast
  then have "\<not> tc_AmountRaw credit < need \<and> \<not> (TrimSpace payer \<noteq> [] \<and> tc_FromOwner credit \<noteq> [] \<and>
      tc_FromOwner credit \<noteq> TrimSpace payer)"
    using payer unfolding credit(2,3) by (auto simp only: not_less)
  with credit(1) have "list_ex (\<lambda>credit. \<not> tc_AmountRaw credit < need \<and> \<not> (TrimSpace payer \<noteq> [] \<and>
      tc_FromOwner credit \<noteq> [] \<and> tc_FromOwner credit \<noteq> TrimSpace payer)) credits"
    unfolding list_ex_iff by blast
  moreover have "credits \<noteq> []" using credit(1) by auto
  ultimately show "VerifyInboundPayment ord (Some tx) owner0 mint0 payer amount decimals = Inr ()"
    using asked unfolding VerifyInboundPayment_def Let_def assms(7) [symmetric] by simp
qed

text \<open>Two accounts of the deposit wallet, the fuller one first: ten are accepted from any payer.\<close>

theorem phantom_deposit_witness:
  "let rows = [balance_row 1 ''P'' 5, balance_row 2 ''D'' 1000, balance_row 3 ''D'' 0]; tx = transfer rows rows
   in map tc_AmountRaw (InboundTokenCredits (\<lambda>_. [''P'', ''D'']) (Some tx) ''D'' ''M'') = [1000] \<and>
      VerifyInboundPayment (\<lambda>_. [''P'', ''D'']) (Some tx) ''D'' ''M'' ''Q'' 10 2 = Inr ()"
proof -
  let ?rows = "[balance_row 1 ''P'' 5, balance_row 2 ''D'' 1000, balance_row 3 ''D'' 0]"
  let ?tx = "transfer ?rows ?rows" and ?own = "[balance_row 2 ''D'' 1000, balance_row 3 ''D'' 0]"
  have own: "?own = filter (\<lambda>row. tb_Owner row = ''D'' \<and> tb_Mint row = ''M'') (td_PostTokenBalances ?tx)"
    by (simp add: transfer_def balance_row_def)
  have "td_PreTokenBalances ?tx = td_PostTokenBalances ?tx" by (simp add: transfer_def)
  note phantom = phantom_deposit [OF this deposit_trims(1) [symmetric] _ deposit_trims(2) [symmetric] _ own refl,
      of "\<lambda>_. [''P'', ''D'']", OF list.distinct(2) list.distinct(2)]
  have paid: "GameToRawAmount 10 2 = Inr 1000 \<and> balance_row 2 ''D'' 1000 \<in> set ?own \<and>
      tb_Amount (last ?own) < tb_Amount (balance_row 2 ''D'' 1000) \<and>
      1000 \<le> tb_Amount (balance_row 2 ''D'' 1000) - tb_Amount (last ?own) \<and>
      (TrimSpace ''Q'' = [] \<or> one_account_each ''M'' (filter (\<lambda>row. tb_Owner row \<noteq> ''D'') (td_PostTokenBalances ?tx)))"
    by (simp add: GameToRawAmount_def one_account_each_def balance_row_def transfer_def)
  have "map tc_AmountRaw (InboundTokenCredits (\<lambda>_. [''P'', ''D'']) (Some ?tx) ''D'' ''M'') = [1000]"
    using phantom by (simp add: balance_row_def)
  moreover from paid phantom have "VerifyInboundPayment (\<lambda>_. [''P'', ''D'']) (Some ?tx) ''D'' ''M'' ''Q'' 10 2 = Inr ()"
    by blast
  ultimately show ?thesis by (simp add: Let_def)
qed

end
