(* ===== verification/ConfigLoader.thy ===== *)
theory ConfigLoader
  imports RulesConfig
begin

text \<open>
  Loading and validating the economy configuration (\<open>LoadDir\<close>, the loaders and \<open>validate\<close> of
  \<open>src/internal/economy/rules/config.go\<close>). Reading and decoding a file is an argument: the files of a
  directory, each its error or its decoded rows; a decoded Go map has one entry per key.

  \<open>validate\<close> is a long sequence of checks that returns the first error. Each loop is \<open>each\<close>, a sequence
  of checks is \<open>all_of\<close>, a loop that remembers what it has seen is \<open>each_after\<close>, which hands the earlier
  rows to the check.
\<close>

section \<open>Checks\<close>

fun each :: "('a \<Rightarrow> unit result) \<Rightarrow> 'a list \<Rightarrow> unit result" where
  "each f [] = Inr ()"
| "each f (x # xs) = (case f x of Inl e \<Rightarrow> Inl e | Inr _ \<Rightarrow> each f xs)"

definition all_of :: "unit result list \<Rightarrow> unit result" where
  "all_of checks = each (\<lambda>x. x) checks"

fun each_after :: "('a list \<Rightarrow> 'a \<Rightarrow> unit result) \<Rightarrow> 'a list \<Rightarrow> 'a list \<Rightarrow> unit result" where
  "each_after f seen [] = Inr ()"
| "each_after f seen (x # xs) = (case f seen x of Inl e \<Rightarrow> Inl e | Inr _ \<Rightarrow> each_after f (x # seen) xs)"

definition reject_if :: "bool \<Rightarrow> string \<Rightarrow> unit result" where
  "reject_if bad message = (if bad then Inl (ErrMsg message) else Inr ())"

text \<open>\<open>fmt.Errorf\<close> with \<open>%w\<close>.\<close>

definition wrap_err :: "string \<Rightarrow> unit result \<Rightarrow> unit result" where
  "wrap_err context r = (case r of Inl (ErrMsg m) \<Rightarrow> Inl (ErrMsg (context @ '': '' @ m)) | _ \<Rightarrow> r)"

definition known :: "(string \<times> 'a) list \<Rightarrow> string \<Rightarrow> bool" where
  "known rows k \<longleftrightarrow> map_of rows k \<noteq> None"

definition float_le0 :: "float64 \<Rightarrow> bool" where
  "float_le0 x \<longleftrightarrow> float_less x (Fin 0) \<or> x = Fin 0"

lemma each_ok: "each f xs = Inr u \<longleftrightarrow> (\<forall>x \<in> set xs. f x = Inr ())"
  by (induction xs) (auto split: sum.splits)

declare each.simps(2) [simp del]

lemma all_of_ok [simp]: "all_of checks = Inr u \<longleftrightarrow> (\<forall>r \<in> set checks. r = Inr ())"
  by (simp add: all_of_def each_ok)

lemma reject_if_ok [simp]: "reject_if bad m = Inr u \<longleftrightarrow> \<not> bad"
  by (simp add: reject_if_def)

lemma wrap_err_ok [simp]: "wrap_err context r = Inr u \<longleftrightarrow> r = Inr ()"
  by (auto simp: wrap_err_def split: sum.splits err.splits)

lemma each_after_ok: "each_after f seen xs = Inr u \<Longrightarrow> x \<in> set xs \<Longrightarrow> \<exists>before. f before x = Inr ()"
  by (induction xs arbitrary: seen) (auto split: sum.splits)

section \<open>The files\<close>

record DungeonChapter =
  dch_ChapterID :: int
  dch_Name :: string
  dch_Floors :: "DungeonFloor list"

record recipeOutputJSON =
  roj_RewardType :: string
  roj_ItemID :: string
  roj_Quantity :: int
  roj_Rarity :: int
  roj_AffixPoolID :: string

record RecipeJSON =
  rcj_RecipeID :: string
  rcj_DisplayName :: string
  rcj_Inputs :: "RecipeMaterial list"
  rcj_Outputs :: "recipeOutputJSON list"

text \<open>What \<open>readJSON\<close> returns for each file; \<open>marketplace.json\<close> may be missing.\<close>

record economy_files =
  ef_items :: "Item list result"
  ef_rules :: "EconomyRules result"
  ef_equipment :: "EquipmentConfig result"
  ef_shops :: "Shop list result"
  ef_lottery :: "LotteryConfig result"
  ef_bounties :: "BountyConfig result"
  ef_affixes :: "AffixPool list result"
  ef_loot_pools :: "LootPool list result"
  ef_dungeons :: "DungeonChapter list result"
  ef_gathering :: "GatheringNode list result"
  ef_farming :: "Crop list result"
  ef_bosses :: "BossDefinition list result"
  ef_recipes :: "RecipeJSON list result"
  ef_marketplace :: "MarketplaceConfig result option"

section \<open>Loaders\<close>

fun load_rows :: "('b \<Rightarrow> 'a \<Rightarrow> 'b result) \<Rightarrow> 'b \<Rightarrow> 'a list \<Rightarrow> 'b result" where
  "load_rows f m [] = Inr m"
| "load_rows f m (row # rows) = (case f m row of Inl e \<Rightarrow> Inl e | Inr m' \<Rightarrow> load_rows f m' rows)"

text \<open>
  The loop five loaders share: the identifier is trimmed, an empty one is refused, a later row of the
  same identifier replaces an earlier one.
\<close>

definition load_keyed ::
  "('a \<Rightarrow> string) \<Rightarrow> (string \<Rightarrow> 'a \<Rightarrow> 'b) \<Rightarrow> string \<Rightarrow> 'a list result \<Rightarrow> (string \<times> 'b) list \<Rightarrow> (string \<times> 'b) list result" where
  "load_keyed name put message file m =
     (case file of
        Inl e \<Rightarrow> Inl e
      | Inr rows \<Rightarrow> load_rows (\<lambda>m row. let k = TrimSpace (name row) in
          if k = [] then Inl (ErrMsg message) else Inr (AList.update k (put k row) m)) m rows)"

definition loadItems :: "economy_files \<Rightarrow> Config \<Rightarrow> Config result" where
  "loadItems fs c = map_sum id (\<lambda>items. c\<lparr>cfg_Items := items\<rparr>)
     (load_keyed itm_ItemID (\<lambda>itemID row. row\<lparr>itm_ItemID := itemID\<rparr>) ''items.json contains empty itemId''
       (ef_items fs) (cfg_Items c))"

definition with_timezone :: "string \<Rightarrow> string" where
  "with_timezone tz = (if TrimSpace tz = [] then ''Asia/Shanghai'' else tz)"

definition default_timezone :: "Shop \<Rightarrow> Shop" where
  "default_timezone row =
     (case shp_Mystery row of
        None \<Rightarrow> row\<lparr>shp_DailyLimitTimezone := with_timezone (shp_DailyLimitTimezone row)\<rparr>
      | Some m \<Rightarrow> row\<lparr>shp_Mystery := Some (m\<lparr>msc_DailyLimitTimezone := with_timezone (msc_DailyLimitTimezone m)\<rparr>)\<rparr>)"

definition loadShops :: "(string \<Rightarrow> string) \<Rightarrow> economy_files \<Rightarrow> Config \<Rightarrow> Config result" where
  "loadShops quote fs c =
     (case ef_shops fs of
        Inl e \<Rightarrow> Inl e
      | Inr rows \<Rightarrow>
          case load_rows (\<lambda>shops row. let shopID = TrimSpace (shp_ShopID row) in
                 if shopID = [] then Inl (ErrMsg ''shops.json contains empty shopId'')
                 else if known shops shopID
                 then Inl (ErrMsg (''shops.json contains duplicate shopId '' @ quote shopID))
                 else Inr (AList.update shopID (default_timezone (row\<lparr>shp_ShopID := shopID\<rparr>)) shops)) (cfg_Shops c) rows of
            Inl e \<Rightarrow> Inl e | Inr shops \<Rightarrow> Inr (c\<lparr>cfg_Shops := shops\<rparr>))"

definition loadRules :: "economy_files \<Rightarrow> Config \<Rightarrow> Config result" where
  "loadRules fs c = map_sum id (\<lambda>rules. c\<lparr>cfg_Rules := rules\<rparr>) (ef_rules fs)"

text \<open>The first price table that is not empty.\<close>

definition price_table :: "(int \<times> int) list \<Rightarrow> (int \<times> int) list \<Rightarrow> (int \<times> int) list" where
  "price_table first second = (if first = [] then second else first)"

definition by_stage :: "(int \<times> 'a list) list \<Rightarrow> int \<Rightarrow> 'a list" where
  "by_stage table stage = (case map_of table stage of None \<Rightarrow> [] | Some row \<Rightarrow> row)"

definition stage_template ::
  "EquipmentConfig \<Rightarrow> EquipmentSeries \<Rightarrow> int \<times> string \<Rightarrow> EquipmentStageTemplate \<Rightarrow> EquipmentTemplate" where
  "stage_template eqc series weapon stage =
     (let sellPriceGold = price_table (price_table (price_table (est_SellPriceGold stage)
            (by_stage (eqc_SellPriceGoldByStage eqc) (est_Stage stage))) (est_NPCRecycleGold stage))
            (by_stage (eqc_NPCRecycleGoldByStage eqc) (est_Stage stage));
          npcRecycleGold = price_table (price_table (est_NPCRecycleGold stage)
            (by_stage (eqc_NPCRecycleGoldByStage eqc) (est_Stage stage))) sellPriceGold
      in \<lparr>etp_ItemID = TrimSpace (est_ItemID stage), etp_SeriesID = TrimSpace (esr_SeriesID series),
          etp_Stage = est_Stage stage, etp_EquipSlot = esr_EquipSlot series, etp_Category = TrimSpace (esr_Category series),
          etp_WeaponType = fst weapon, etp_WeaponTypeKey = snd weapon,
          etp_DisplayName = TrimSpace (est_Prefix stage) @ TrimSpace (esr_DisplayType series),
          etp_AffixPoolID = esr_AffixPoolID series, etp_BaseFlat = esr_BaseFlat series,
          etp_BasePercent = est_BasePercent stage, etp_SellPriceGold = sellPriceGold,
          etp_NPCRecycleGold = npcRecycleGold\<rparr>)"

definition equipment_item :: "string \<Rightarrow> string \<Rightarrow> string \<Rightarrow> int \<Rightarrow> int \<Rightarrow> int \<Rightarrow> string \<Rightarrow> Item" where
  "equipment_item itemID name category rarity slot weaponType weaponTypeKey =
     \<lparr>itm_ItemID = itemID, itm_DisplayName = name, itm_Category = category, itm_Rarity = rarity, itm_MaxStack = 1,
      itm_IsEquipment = True, itm_EquipSlot = slot, itm_WeaponType = weaponType, itm_WeaponTypeKey = weaponTypeKey,
      itm_Tradable = True, itm_DefaultBindType = ''UNBOUND'', itm_BuyCurrency = 0, itm_BuyPrice = 0, itm_SellPrice = 0,
      itm_GrantGold = 0, itm_GrantLockedAEB = 0\<rparr>"

definition add_missing :: "string \<Rightarrow> Item \<Rightarrow> (string \<times> Item) list \<Rightarrow> (string \<times> Item) list" where
  "add_missing itemID item items = (if known items itemID then items else AList.update itemID item items)"

definition load_stage ::
  "(string \<Rightarrow> string) \<Rightarrow> EquipmentConfig \<Rightarrow> EquipmentSeries \<Rightarrow> int \<times> string \<Rightarrow>
   (string \<times> EquipmentTemplate) list \<times> (string \<times> Item) list \<Rightarrow> EquipmentStageTemplate \<Rightarrow>
   ((string \<times> EquipmentTemplate) list \<times> (string \<times> Item) list) result" where
  "load_stage quote eqc series weapon st stage =
     (let (byItemID, items) = st; itemID = TrimSpace (est_ItemID stage) in
      if itemID = [] \<or> est_Stage stage \<le> 0
      then Inl (ErrMsg (''equipment series '' @ quote (TrimSpace (esr_SeriesID series)) @ '' contains an incomplete stage''))
      else if known byItemID itemID
      then Inl (ErrMsg (''equipment template itemId '' @ quote itemID @ '' is duplicated''))
      else
        let template = stage_template eqc series weapon stage
        in Inr (AList.update itemID template byItemID,
             add_missing itemID (equipment_item itemID (etp_DisplayName template) (TrimSpace (esr_Category series)) 1
               (esr_EquipSlot series) (etp_WeaponType template) (etp_WeaponTypeKey template)) items))"

definition load_series ::
  "(string \<Rightarrow> string) \<Rightarrow> EquipmentConfig \<Rightarrow> (string \<times> EquipmentTemplate) list \<times> (string \<times> Item) list \<Rightarrow>
   EquipmentSeries \<Rightarrow> ((string \<times> EquipmentTemplate) list \<times> (string \<times> Item) list) result" where
  "load_series quote eqc st series =
     (let seriesID = TrimSpace (esr_SeriesID series);
          weapon = (if TrimSpace (esr_Category series) = ''weapon''
                    then normalizeWeaponType (esr_WeaponType series) (TrimSpace (esr_WeaponTypeKey series))
                    else Some (WeaponTypeNone, ''none''))
      in case weapon of
           None \<Rightarrow> Inl (ErrMsg (''weapon equipment series '' @ quote seriesID @ '' has invalid weaponType/weaponTypeKey''))
         | Some w \<Rightarrow>
             if TrimSpace (esr_Category series) = ''weapon'' \<and> fst w = WeaponTypeNone
             then Inl (ErrMsg (''weapon equipment series '' @ quote seriesID @ '' has invalid weaponType/weaponTypeKey''))
             else if seriesID = [] \<or> esr_EquipSlot series < 0 \<or> esr_BaseFlat series = []
             then Inl (ErrMsg ''equipment_templates.json contains an incomplete equipment series'')
             else load_rows (load_stage quote eqc series w) st (esr_Stages series))"

definition load_mount :: "(string \<times> Item) list \<Rightarrow> MountTemplate \<Rightarrow> (string \<times> Item) list result" where
  "load_mount items mount =
     (let itemID = TrimSpace (mnt_ItemID mount) in
      if itemID = [] \<or> mnt_EquipSlot mount < 0
      then Inl (ErrMsg ''equipment_templates.json contains an incomplete mount'')
      else Inr (add_missing itemID (equipment_item itemID (mnt_DisplayName mount) ''mount'' 5 (mnt_EquipSlot mount)
             WeaponTypeNone ''none'') items))"

definition loadEquipment :: "(string \<Rightarrow> string) \<Rightarrow> economy_files \<Rightarrow> Config \<Rightarrow> Config result" where
  "loadEquipment quote fs c =
     (case ef_equipment fs of
        Inl e \<Rightarrow> Inl e
      | Inr eqc \<Rightarrow>
          case load_rows (load_series quote eqc) ([], cfg_Items c) (eqc_Series eqc) of
            Inl e \<Rightarrow> Inl e
          | Inr (byItemID, items) \<Rightarrow>
              case load_rows load_mount items (eqc_Mounts eqc) of
                Inl e \<Rightarrow> Inl e
              | Inr items' \<Rightarrow> Inr (c\<lparr>cfg_Items := items', cfg_Equipment := eqc\<lparr>eqc_ByItemID := byItemID\<rparr>\<rparr>))"

definition loadLottery :: "economy_files \<Rightarrow> Config \<Rightarrow> Config result" where
  "loadLottery fs c = map_sum id (\<lambda>lottery. c\<lparr>cfg_Lottery := lottery\<rparr>) (ef_lottery fs)"

definition loadBounties :: "economy_files \<Rightarrow> Config \<Rightarrow> Config result" where
  "loadBounties fs c = map_sum id (\<lambda>bounties. c\<lparr>cfg_Bounties := bounties\<rparr>) (ef_bounties fs)"

definition loadAffixes :: "economy_files \<Rightarrow> Config \<Rightarrow> Config result" where
  "loadAffixes fs c = map_sum id (\<lambda>rows. c\<lparr>cfg_AffixPools := rows\<rparr>)
     (load_keyed apo_AffixPoolID (\<lambda>poolID row. row\<lparr>apo_AffixPoolID := poolID\<rparr>) ''equipment_affixes.json contains empty affixPoolId''
       (ef_affixes fs) (cfg_AffixPools c))"

definition loadLootPools :: "economy_files \<Rightarrow> Config \<Rightarrow> Config result" where
  "loadLootPools fs c = map_sum id (\<lambda>rows. c\<lparr>cfg_LootPools := rows\<rparr>)
     (load_keyed lpo_LootPoolID (\<lambda>poolID row. row\<lparr>lpo_LootPoolID := poolID\<rparr>) ''loot_pools.json contains empty lootPoolId''
       (ef_loot_pools fs) (cfg_LootPools c))"

definition loadDungeons :: "economy_files \<Rightarrow> Config \<Rightarrow> Config result" where
  "loadDungeons fs c = map_sum id (\<lambda>chapters. c\<lparr>cfg_Floors :=
       foldl (\<lambda>floors chapter. foldl (\<lambda>floors dfloor.
           AList.update (floorKey (dch_ChapterID chapter) (dfl_FloorID dfloor))
             (dfloor\<lparr>dfl_ChapterID := dch_ChapterID chapter\<rparr>) floors)
         floors (dch_Floors chapter)) (cfg_Floors c) chapters\<rparr>) (ef_dungeons fs)"

definition loadGathering :: "economy_files \<Rightarrow> Config \<Rightarrow> Config result" where
  "loadGathering fs c = map_sum id (\<lambda>rows. c\<lparr>cfg_GatherNodes :=
     foldl (\<lambda>nodes row. AList.update (gnd_NodeID row) row nodes) (cfg_GatherNodes c) rows\<rparr>) (ef_gathering fs)"

definition loadFarming :: "economy_files \<Rightarrow> Config \<Rightarrow> Config result" where
  "loadFarming fs c = map_sum id (\<lambda>rows. c\<lparr>cfg_Crops :=
     foldl (\<lambda>crops row. AList.update (crp_CropID row) row crops) (cfg_Crops c) rows\<rparr>) (ef_farming fs)"

definition loadBosses :: "economy_files \<Rightarrow> Config \<Rightarrow> Config result" where
  "loadBosses fs c = map_sum id (\<lambda>rows. c\<lparr>cfg_Bosses := rows\<rparr>)
     (load_keyed bos_BossID (\<lambda>bossID row. row\<lparr>bos_BossID := bossID\<rparr>) ''bosses.json contains empty bossId''
       (ef_bosses fs) (cfg_Bosses c))"

definition recipe_of :: "string \<Rightarrow> RecipeJSON \<Rightarrow> Recipe" where
  "recipe_of recipeID row = \<lparr>rcp_RecipeID = recipeID, rcp_DisplayName = rcj_DisplayName row, rcp_Inputs = rcj_Inputs row,
     rcp_Outputs = map (\<lambda>output. \<lparr>rg_RewardType = roj_RewardType output, rg_ItemID = roj_ItemID output,
       rg_Quantity = roj_Quantity output, rg_EquipmentUID = [], rg_Rarity = roj_Rarity output, rg_Category = [],
       rg_AffixPoolID = roj_AffixPoolID output, rg_Affixes = []\<rparr>) (rcj_Outputs row)\<rparr>"

definition loadRecipes :: "economy_files \<Rightarrow> Config \<Rightarrow> Config result" where
  "loadRecipes fs c = map_sum id (\<lambda>rows. c\<lparr>cfg_Recipes := rows\<rparr>)
     (load_keyed rcj_RecipeID recipe_of ''recipes.json contains empty recipeId''
       (ef_recipes fs) (cfg_Recipes c))"

definition loadMarketplace :: "economy_files \<Rightarrow> Config \<Rightarrow> Config result" where
  "loadMarketplace fs c =
     (case ef_marketplace fs of
        None \<Rightarrow> Inr (c\<lparr>cfg_Marketplace := zero_MarketplaceConfig\<rparr>)
      | Some file \<Rightarrow> map_sum id (\<lambda>m. c\<lparr>cfg_Marketplace :=
          (if TrimSpace (mkc_TokenSymbol m) = [] then m\<lparr>mkc_TokenSymbol := ''AEB''\<rparr> else m)\<rparr>) file)"

section \<open>Validation\<close>

definition validate_item :: "(string \<Rightarrow> string) \<Rightarrow> string \<times> Item \<Rightarrow> unit result" where
  "validate_item quote row = (let (itemID, item) = row in all_of
     [reject_if (itm_BuyCurrency item < 0 \<or> itm_BuyPrice item < 0 \<or> itm_SellPrice item < 0 \<or> itm_GrantGold item < 0 \<or>
        itm_GrantLockedAEB item < 0) (''item '' @ quote itemID @ '' has invalid shop pricing fields''),
      reject_if (itm_BuyCurrency item > 1)
        (''item '' @ quote itemID @ '' has unsupported buyCurrency '' @ FormatInt (itm_BuyCurrency item)),
      reject_if ((itm_WeaponType item \<noteq> 0 \<or> TrimSpace (itm_WeaponTypeKey item) \<noteq> []) \<and>
        normalizeWeaponType (itm_WeaponType item) (itm_WeaponTypeKey item) = None)
        (''item '' @ quote itemID @ '' has invalid weaponType/weaponTypeKey'')])"

definition validate_sell_item ::
  "(string \<Rightarrow> string) \<Rightarrow> Config \<Rightarrow> string \<Rightarrow> Shop \<Rightarrow> ShopSellItem list \<Rightarrow> ShopSellItem \<Rightarrow> unit result" where
  "validate_sell_item quote c shopID shop seen sellItem =
     (let itemID = TrimSpace (ssi_ItemID sellItem); shop_item = ''shop '' @ quote shopID @ '' item '' @ quote itemID in all_of
     [reject_if (itemID = []) (''shop '' @ quote shopID @ '' contains an empty sellItems entry''),
      reject_if (\<not> known (cfg_Items c) itemID) (''shop '' @ quote shopID @ '' references unknown item '' @ quote itemID),
      reject_if (ssi_MinLevel sellItem < 0 \<or> ssi_MaxLevel sellItem < 0 \<or> ssi_Rarity sellItem < 0 \<or>
        ssi_BuyPrice sellItem < 0 \<or> ssi_DailyLimit sellItem < 0) (shop_item @ '' has invalid sell item fields''),
      reject_if (shp_Mystery shop = None \<and> (ssi_SlotIndex sellItem \<le> 0 \<or> ssi_DailyLimit sellItem \<le> 0))
        (shop_item @ '' requires slotIndex and dailyLimit''),
      reject_if (shp_Mystery shop = None \<and> ssi_SlotIndex sellItem \<in> ssi_SlotIndex ` set seen)
        (''shop '' @ quote shopID @ '' duplicates slot '' @ FormatInt (ssi_SlotIndex sellItem)),
      reject_if (ssi_MaxLevel sellItem > 0 \<and> ssi_MinLevel sellItem > ssi_MaxLevel sellItem)
        (shop_item @ '' has invalid level range''),
      reject_if (ssi_Rarity sellItem > 0 \<and> map_of (eqc_Rarities (cfg_Equipment c)) (ssi_Rarity sellItem) = None)
        (shop_item @ '' has unknown rarity '' @ FormatInt (ssi_Rarity sellItem))])"

definition total64 :: "('a \<Rightarrow> int) \<Rightarrow> 'a list \<Rightarrow> int" where
  "total64 w rows = foldl (\<lambda>total row. w64 (total + w row)) 0 rows"

definition validate_mystery_entry ::
  "(string \<Rightarrow> string) \<Rightarrow> Config \<Rightarrow> string \<Rightarrow> MysteryShopSlot \<Rightarrow> MysteryShopPoolEntry \<Rightarrow> unit result" where
  "validate_mystery_entry quote c shopID slot entry =
     (let itemID = TrimSpace (mpe_ItemID entry);
          slot_text = ''mystery shop '' @ quote shopID @ '' slot '' @ FormatInt (mss_SlotIndex slot) in all_of
     [reject_if (itemID = [] \<or> mpe_Weight entry \<le> 0 \<or> mpe_Quantity entry \<le> 0) (slot_text @ '' has invalid pool entry''),
      reject_if (mpe_BaseGold entry \<le> 0 \<and> mpe_BaseToken entry \<le> 0)
        (slot_text @ '' item '' @ quote itemID @ '' requires a price''),
      (case map_of (cfg_Items c) itemID of
         None \<Rightarrow> Inl (ErrMsg (slot_text @ '' references unknown item '' @ quote itemID))
       | Some item \<Rightarrow> reject_if (mysteryEntryRequiresToken item itemID \<and> mpe_BaseToken entry \<le> 0)
           (slot_text @ '' item '' @ quote itemID @ '' must use token pricing'')),
      reject_if (mpe_MinDiscount entry < 0 \<or> mpe_MinDiscount entry > 10000)
        (slot_text @ '' item '' @ quote itemID @ '' has invalid minDiscount'')])"

definition validate_mystery_slot ::
  "(string \<Rightarrow> string) \<Rightarrow> Config \<Rightarrow> string \<Rightarrow> MysteryShopConfig \<Rightarrow> MysteryShopSlot list \<Rightarrow> MysteryShopSlot \<Rightarrow> unit result" where
  "validate_mystery_slot quote c shopID m seen slot =
     (let shop_text = ''mystery shop '' @ quote shopID; index = FormatInt (mss_SlotIndex slot) in all_of
     [reject_if (mss_SlotIndex slot \<le> 0 \<or> mss_SlotIndex slot > msc_MaxSlots m \<or> mss_UnlockLevel slot < 0 \<or>
        mss_Pools slot = []) (shop_text @ '' has invalid slot '' @ index),
      reject_if (mss_SlotIndex slot \<in> mss_SlotIndex ` set seen) (shop_text @ '' duplicates slot '' @ index),
      each (validate_mystery_entry quote c shopID slot) (mss_Pools slot),
      reject_if (total64 mpe_Weight (mss_Pools slot) \<le> 0)
        (shop_text @ '' slot '' @ index @ '' requires positive pool weight'')])"

definition validate_mystery :: "(string \<Rightarrow> string) \<Rightarrow> Config \<Rightarrow> string \<Rightarrow> MysteryShopConfig \<Rightarrow> unit result" where
  "validate_mystery quote c shopID m =
     (let shop_text = ''mystery shop '' @ quote shopID in all_of
     [reject_if (msc_ManualRefreshTokenBaseCost m < 0 \<or> msc_ManualRefreshTokenStepCost m < 0 \<or>
        msc_ManualRefreshTokenMaxCost m < 0 \<or> msc_MaxSlots m \<le> 0) (shop_text @ '' has invalid refresh cost or maxSlots''),
      reject_if (msc_ManualRefreshTokenMaxCost m > 0 \<and> msc_ManualRefreshTokenMaxCost m < msc_ManualRefreshTokenBaseCost m)
        (shop_text @ '' has invalid refresh max cost''),
      reject_if (msc_Slots m = [] \<or> int (length (msc_Slots m)) > msc_MaxSlots m) (shop_text @ '' has invalid slot count''),
      each (\<lambda>discount. reject_if (mdi_Bps discount \<le> 0 \<or> mdi_Bps discount > 10000 \<or> mdi_Weight discount \<le> 0)
        (shop_text @ '' has invalid discount'')) (msc_Discounts m),
      reject_if (total64 mdi_Weight (msc_Discounts m) \<le> 0) (shop_text @ '' requires discount weights''),
      each_after (validate_mystery_slot quote c shopID m) [] (msc_Slots m)])"

definition validate_shop :: "(string \<Rightarrow> string) \<Rightarrow> Config \<Rightarrow> string \<times> Shop \<Rightarrow> unit result" where
  "validate_shop quote c row = (let (shopID, shop) = row in all_of
     [each_after (validate_sell_item quote c shopID shop) [] (shp_SellItems shop),
      (case shp_Mystery shop of None \<Rightarrow> Inr () | Some m \<Rightarrow> validate_mystery quote c shopID m)])"

definition validate_template :: "(string \<Rightarrow> string) \<Rightarrow> Config \<Rightarrow> string \<times> EquipmentTemplate \<Rightarrow> unit result" where
  "validate_template quote c row = (let (itemID, template) = row; eqc = cfg_Equipment c;
       name = ''equipment template '' @ quote itemID in all_of
     [reject_if (map_of (eqc_StageMultipliers eqc) (etp_Stage template) = None)
        (name @ '' has unsupported stage '' @ FormatInt (etp_Stage template)),
      reject_if (\<not> known (cfg_AffixPools c) (etp_AffixPoolID template))
        (name @ '' references unknown affix pool '' @ quote (etp_AffixPoolID template)),
      reject_if (length (etp_SellPriceGold template) \<noteq> 6) (name @ '' must define six sellPriceGold values''),
      each (\<lambda>(rarity, gold). reject_if (map_of (eqc_Rarities eqc) rarity = None \<or> gold \<le> 0)
        (name @ '' has invalid sellPriceGold'')) (etp_SellPriceGold template),
      reject_if (length (etp_NPCRecycleGold template) \<noteq> 6) (name @ '' must define six npcRecycleGold values''),
      each (\<lambda>(rarity, gold). reject_if (map_of (eqc_Rarities eqc) rarity = None \<or> gold < 0)
        (name @ '' has invalid npcRecycleGold'')) (etp_NPCRecycleGold template)])"

definition validate_equipment :: "(string \<Rightarrow> string) \<Rightarrow> Config \<Rightarrow> unit result" where
  "validate_equipment quote c = (let eqc = cfg_Equipment c; enhancement = eqc_Enhancement eqc in all_of
     [reject_if (length (eqc_StageMultipliers eqc) \<noteq> 7 \<or> length (eqc_Rarities eqc) \<noteq> 6)
        ''equipment_templates.json must define seven stages and six rarities'',
      each (\<lambda>(stage, multiplier). reject_if (stage \<le> 0 \<or> float_le0 multiplier)
        ''equipment stage multipliers must be positive'') (eqc_StageMultipliers eqc),
      each (\<lambda>(rarity, row). reject_if (rarity \<le> 0 \<or> float_le0 (era_Multiplier row) \<or> era_AffixCount row \<le> 0)
        ''equipment rarities must have positive multiplier and affixCount'') (eqc_Rarities eqc),
      each (validate_template quote c) (eqc_ByItemID eqc),
      each (\<lambda>mount. reject_if (mnt_EquipSlot mount \<noteq> 7 \<or> mnt_FinalHPBps mount \<noteq> 500 \<or> mnt_FinalAtkBps mount \<noteq> 500 \<or>
        mnt_MoveSpeedBps mount \<noteq> 2500) (''mount '' @ quote (mnt_ItemID mount) @ '' must use the fixed current mount bonuses''))
        (eqc_Mounts eqc),
      reject_if (ehc_MaxLevel enhancement \<noteq> 10 \<or>
        int (length (ehc_StoneProgressionByLevel enhancement)) \<noteq> ehc_MaxLevel enhancement)
        ''equipment enhancement must define the current +10 progression'',
      each (\<lambda>(stage, _). let stoneID = (case map_of (ehc_StoneItemByStage enhancement) stage of None \<Rightarrow> [] | Some x \<Rightarrow> x) in all_of
        [reject_if (int (length (by_stage (ehc_GoldCostByStage enhancement) stage)) \<noteq> ehc_MaxLevel enhancement \<or>
           length (by_stage (ehc_StoneBaseCostByStageRarity enhancement) stage) \<noteq> length (eqc_Rarities eqc))
           (''equipment enhancement is incomplete for stage '' @ FormatInt stage),
         reject_if (\<not> known (cfg_Items c) stoneID)
           (''equipment enhancement stage '' @ FormatInt stage @ '' references unknown stone '' @ quote stoneID)])
        (eqc_StageMultipliers eqc)])"

definition validate_lottery :: "(string \<Rightarrow> string) \<Rightarrow> Config \<Rightarrow> unit result" where
  "validate_lottery quote c = (let lottery = cfg_Lottery c in all_of
     [reject_if (lot_PriceAEB lottery \<le> 0 \<or> lot_MaxCount lottery < 1 \<or> lot_CategoryWeight lottery = [] \<or>
        lot_EquipmentRarityWeight lottery = []) ''lottery.json is incomplete'',
      wrap_err ''lottery category weights'' (validateWeights (lot_CategoryWeight lottery)),
      wrap_err ''lottery equipment rarity weights'' (validateWeights (lot_EquipmentRarityWeight lottery)),
      each (\<lambda>itemID. reject_if (\<not> known (cfg_Items c) itemID) (''lottery.json references unknown item '' @ quote itemID))
        (lot_RareMaterialItemIDs lottery @ lot_BossTicketItemIDs lottery @ lot_MountItemIDs lottery)])"

definition validate_task :: "(string \<Rightarrow> string) \<Rightarrow> Config \<Rightarrow> BountyTaskTemplate \<Rightarrow> unit result" where
  "validate_task quote c task = (let name = ''bounty task '' @ quote (btt_TemplateID task) in all_of
     [reject_if (TrimSpace (btt_TemplateID task) = [] \<or> btt_QuantityMin task \<le> 0 \<or>
        btt_QuantityMax task < btt_QuantityMin task \<or> btt_Weight task \<le> 0)
        ''bounties.json contains an invalid task template'',
      reject_if (btt_ItemID task \<noteq> [] \<and> \<not> known (cfg_Items c) (btt_ItemID task))
        (name @ '' references unknown item '' @ quote (btt_ItemID task)),
      reject_if (\<not> known (cfg_Items c) (btt_RewardItemID task))
        (name @ '' references unknown reward '' @ quote (btt_RewardItemID task))])"

definition validate_badge :: "(string \<Rightarrow> string) \<Rightarrow> Config \<Rightarrow> string \<times> BountyBadgeLottery \<Rightarrow> unit result" where
  "validate_badge quote c row = (let (badge, lottery) = row; name = ''bounty badge lottery '' @ quote badge in all_of
     [reject_if (\<not> known (cfg_Items c) (bbl_CostItemID lottery))
        (name @ '' references unknown cost item '' @ quote (bbl_CostItemID lottery)),
      each (\<lambda>reward. all_of
        [reject_if (bbr_Weight reward \<le> 0 \<or> bbr_Min reward < 0 \<or> bbr_Max reward < bbr_Min reward)
           (name @ '' has invalid reward''),
         reject_if (bbr_Type reward = ''item'' \<and> \<not> known (cfg_Items c) (bbr_ItemID reward))
           (name @ '' references unknown reward '' @ quote (bbr_ItemID reward))]) (bbl_Rewards lottery),
      wrap_err name (validateWeights (map (\<lambda>reward. ((), bbr_Weight reward)) (bbl_Rewards lottery)))])"

definition validate_bounties :: "(string \<Rightarrow> string) \<Rightarrow> Config \<Rightarrow> unit result" where
  "validate_bounties quote c = (let bounties = cfg_Bounties c in all_of
     [reject_if (length (bty_Slots bounties) \<noteq> 5 \<or> brf_FreeCooldownSeconds (bty_Refresh bounties) \<le> 0)
        ''bounties.json is incomplete'',
      each (validate_task quote c) (bty_TaskTemplates bounties),
      each (validate_badge quote c) (bty_BadgeLottery bounties)])"

definition validate_entry ::
  "(string \<Rightarrow> string) \<Rightarrow> (string \<Rightarrow> string) \<Rightarrow> Config \<Rightarrow> string \<Rightarrow> LootEntry \<Rightarrow> unit result" where
  "validate_entry uc quote c poolID entry =
     (let rewardType = ToLower uc (TrimSpace (len_RewardType entry)); stageMode = TrimSpace (len_EquipmentStageMode entry);
          pool_text = ''loot pool '' @ quote poolID; eqc = cfg_Equipment c in all_of
     [(if stageMode = [] then Inr () else all_of
        [reject_if (rewardType \<noteq> ''equipment'') (pool_text @ '' item '' @ quote (len_ItemID entry) @
           '' uses equipmentStageMode with reward type '' @ quote (len_RewardType entry)),
         reject_if (map_of (eqc_Rarities eqc) (len_Rarity entry) = None)
           (pool_text @ '' level-scaled equipment has unknown rarity '' @ FormatInt (len_Rarity entry)),
         reject_if (stageMode \<noteq> ''character_level_floor'') (pool_text @ '' item '' @ quote (len_ItemID entry) @
           '' has unsupported equipmentStageMode '' @ quote (len_EquipmentStageMode entry)),
         each (\<lambda>(stage, _). reject_if (equipmentTemplatesByStageAndSeries c stage (len_EquipmentSeries entry) = [])
           (pool_text @ '' has no level-scaled equipment candidates for stage '' @ FormatInt stage))
           (eqc_StageMultipliers eqc)]),
      reject_if (rewardType \<noteq> ''token'' \<and> stageMode = [] \<and> \<not> known (cfg_Items c) (len_ItemID entry))
        (pool_text @ '' references unknown item '' @ quote (len_ItemID entry)),
      reject_if (len_AffixPoolID entry \<noteq> [] \<and> \<not> known (cfg_AffixPools c) (len_AffixPoolID entry))
        (pool_text @ '' references unknown affix pool '' @ quote (len_AffixPoolID entry))])"

definition validateAffixPool :: "(string \<Rightarrow> string) \<Rightarrow> AffixPool \<Rightarrow> (int \<times> EquipmentRarity) list \<Rightarrow> unit result" where
  "validateAffixPool quote pool rarities = all_of
     [validateWeights [(''pool'', totalAffixWeight (apo_Affixes pool))],
      each (\<lambda>affix. all_of
        [reject_if (TrimSpace (aco_AffixID affix) = [] \<or> TrimSpace (aco_Stat affix) = [] \<or> aco_Weight affix < 0)
           ''contains invalid affix identity or weight'',
         each (\<lambda>(stage, vals). all_of
           [reject_if (stage \<le> 0 \<or> length vals \<noteq> length rarities)
              (''affix '' @ quote (aco_AffixID affix) @ '' must define one value per rarity at every stage''),
            each (\<lambda>value. reject_if (float_less value (Fin 0))
              (''affix '' @ quote (aco_AffixID affix) @ '' has negative configured value'')) vals])
           (aco_ValueByStage affix)]) (apo_Affixes pool)]"

definition requiredBossTickets :: "(string \<times> string) list" where
  "requiredBossTickets = [(floorKey 0 10, ''boss_ticket_ashen_threshold''), (floorKey 1 20, ''boss_ticket_gloomwood''),
     (floorKey 2 30, ''boss_ticket_voidscar'')]"

definition validate_floor :: "(string \<Rightarrow> string) \<Rightarrow> Config \<Rightarrow> int \<Rightarrow> unit result" where
  "validate_floor quote c floorID =
     (let key = floorKey ((floorID - 1) div 10) floorID in
      case map_of (cfg_Floors c) key of
        None \<Rightarrow> Inl (ErrMsg (''dungeons.json missing floor '' @ key))
      | Some dfloor \<Rightarrow> all_of
          [reject_if (dfl_MaxExp dfloor \<le> 0) (''dungeon floor '' @ key @ '' has invalid maxExp''),
           reject_if (TrimSpace (dfl_LootPoolID dfloor) = []) (''dungeon floor '' @ key @ '' is missing lootPoolId''),
           reject_if (\<not> known (cfg_LootPools c) (dfl_LootPoolID dfloor))
             (''dungeon floor '' @ key @ '' references unknown loot pool '' @ quote (dfl_LootPoolID dfloor)),
           (case map_of requiredBossTickets key of
              None \<Rightarrow> Inr ()
            | Some ticketID \<Rightarrow> all_of
                [reject_if (\<not> dfl_IsBoss dfloor) (''dungeon floor '' @ key @ '' must be marked isBoss''),
                 reject_if (\<not> enterCostHasItem (dfl_EnterCost dfloor) ticketID 1)
                   (''dungeon floor '' @ key @ '' must require '' @ ticketID)])])"

definition validate_boss :: "(string \<Rightarrow> string) \<Rightarrow> Config \<Rightarrow> string \<times> BossDefinition \<Rightarrow> unit result" where
  "validate_boss quote c row = (let (bossID, boss) = row;
       missing = (\<lambda>poolID. poolID \<noteq> [] \<and> \<not> known (cfg_LootPools c) poolID); name = ''boss '' @ quote bossID in all_of
     [reject_if (missing (bos_ParticipationLootPoolID boss))
        (name @ '' references unknown participation loot pool '' @ quote (bos_ParticipationLootPoolID boss)),
      reject_if (missing (bos_LootPoolID boss)) (name @ '' references unknown loot pool '' @ quote (bos_LootPoolID boss)),
      each (\<lambda>tier. reject_if (missing (bct_BonusLootPoolID tier))
        (name @ '' references unknown tier loot pool '' @ quote (bct_BonusLootPoolID tier))) (bos_ContributionTiers boss)])"

definition validate_recipe :: "(string \<Rightarrow> string) \<Rightarrow> (string \<Rightarrow> string) \<Rightarrow> Config \<Rightarrow> string \<times> Recipe \<Rightarrow> unit result" where
  "validate_recipe uc quote c row = (let (recipeID, recipe) = row; name = ''recipe '' @ quote recipeID in all_of
     [each (\<lambda>input. reject_if (\<not> known (cfg_Items c) (rmt_ItemID input))
        (name @ '' references unknown input item '' @ quote (rmt_ItemID input))) (rcp_Inputs recipe),
      each (\<lambda>output. all_of
        [reject_if (ToLower uc (rg_RewardType output) \<noteq> ''token'' \<and> \<not> known (cfg_Items c) (rg_ItemID output))
           (name @ '' references unknown output item '' @ quote (rg_ItemID output)),
         reject_if (rg_AffixPoolID output \<noteq> [] \<and> \<not> known (cfg_AffixPools c) (rg_AffixPoolID output))
           (name @ '' references unknown affix pool '' @ quote (rg_AffixPoolID output))]) (rcp_Outputs recipe)])"

definition validate_marketplace :: "(string \<Rightarrow> string) \<Rightarrow> Config \<Rightarrow> unit result" where
  "validate_marketplace quote c =
     (let configured = TrimSpace (mkc_MaterialExpandItemID (cfg_Marketplace c));
          itemID = (if configured = [] then ''market_stall_permit'' else configured)
      in reject_if (mkc_Enabled (cfg_Marketplace c) \<and> \<not> known (cfg_Items c) itemID)
           (''marketplace materialExpandItemId '' @ quote itemID @ '' is not configured in items.json''))"

text \<open>
  The whole of \<open>validate\<close>. It also fills in the time zone of a mystery shop that has none; after
  \<open>loadShops\<close> there is no such shop, and the result is the error alone.
\<close>

definition validate :: "(string \<Rightarrow> string) \<Rightarrow> (string \<Rightarrow> string) \<Rightarrow> Config \<Rightarrow> unit result" where
  "validate uc quote c = all_of
     [each (validate_item quote) (cfg_Items c),
      each (validate_shop quote c) (cfg_Shops c),
      validate_equipment quote c,
      validate_lottery quote c,
      validate_bounties quote c,
      each (\<lambda>(poolID, pool). each (validate_entry uc quote c poolID) (lpo_Entries pool)) (cfg_LootPools c),
      each (\<lambda>(poolID, pool). let name = ''affix pool '' @ quote poolID in all_of
        [reject_if (apo_Affixes pool = []) (name @ '' has no affixes''),
         wrap_err name (validateAffixPool quote pool (eqc_Rarities (cfg_Equipment c)))]) (cfg_AffixPools c),
      reject_if (length (cfg_Floors c) \<noteq> 30)
        (''dungeons.json must define 30 floors, got '' @ FormatInt (int (length (cfg_Floors c)))),
      each (validate_floor quote c) [1..30],
      each (\<lambda>(nodeID, node). reject_if (\<not> known (cfg_LootPools c) (gnd_LootPoolID node))
        (''gathering node '' @ quote nodeID @ '' references unknown loot pool '' @ quote (gnd_LootPoolID node)))
        (cfg_GatherNodes c),
      each (\<lambda>(cropID, crop). all_of
        [reject_if (\<not> known (cfg_Items c) (crp_SeedItemID crop))
           (''crop '' @ quote cropID @ '' references unknown seed item '' @ quote (crp_SeedItemID crop)),
         reject_if (\<not> known (cfg_LootPools c) (crp_HarvestLootPoolID crop))
           (''crop '' @ quote cropID @ '' references unknown harvest loot pool '' @ quote (crp_HarvestLootPoolID crop))])
        (cfg_Crops c),
      each (validate_boss quote c) (cfg_Bosses c),
      each (validate_recipe uc quote c) (cfg_Recipes c),
      validate_marketplace quote c]"

section \<open>LoadDir\<close>

fun run_loaders :: "(Config \<Rightarrow> Config result) list \<Rightarrow> Config \<Rightarrow> Config result" where
  "run_loaders [] c = Inr c"
| "run_loaders (load # loads) c = (case load c of Inl e \<Rightarrow> Inl e | Inr c' \<Rightarrow> run_loaders loads c')"

definition LoadDir ::
  "(string \<Rightarrow> string) \<Rightarrow> (string \<Rightarrow> string) \<Rightarrow> (string \<Rightarrow> economy_files) \<Rightarrow> string \<Rightarrow> Config result" where
  "LoadDir uc quote files dir0 =
     (let dir = (if TrimSpace dir0 = [] then ''configs/economy'' else TrimSpace dir0); fs = files dir in
      run_loaders [loadItems fs, loadRules fs, loadEquipment quote fs, loadShops quote fs, loadLottery fs, loadBounties fs,
        loadAffixes fs, loadLootPools fs, loadDungeons fs, loadGathering fs, loadFarming fs, loadBosses fs, loadRecipes fs,
        loadMarketplace fs, \<lambda>c. map_sum id (\<lambda>_. c) (validate uc quote c)] (empty_config\<lparr>cfg_Dir := dir\<rparr>))"

end
