(* ===== verification/ConfigProps.thy ===== *)
theory ConfigProps
  imports ConfigLoader RewardProps
begin

text \<open>
  What a loaded configuration guarantees. Every map is keyed by the trimmed identifier of its rows
  (an invariant of the loaders); every reference \<open>validate\<close> checks resolves, so
  that rewards can be computed for every floor, node, crop and boss; and what \<open>validate\<close> does not
  check.
\<close>

section \<open>Loaders and their invariant\<close>

lemma load_rows_inv:
  assumes "load_rows f m rows = Inr m'" "P m" "\<And>m row m'. f m row = Inr m' \<Longrightarrow> P m \<Longrightarrow> P m'"
  shows "P m'"
  using assms(1,2)
proof (induction rows arbitrary: m)
  case (Cons row rows)
  then show ?case by (auto split: sum.splits intro: assms(3))
qed simp

lemma run_loaders_inv:
  assumes "run_loaders loads c = Inr c'" "P c" "\<And>load c c'. load \<in> set loads \<Longrightarrow> load c = Inr c' \<Longrightarrow> P c \<Longrightarrow> P c'"
  shows "P c'"
  using assms
proof (induction loads arbitrary: c)
  case (Cons load loads)
  obtain d where d: "load c = Inr d" "run_loaders loads d = Inr c'" using Cons.prems(1) by (auto split: sum.splits)
  with Cons.prems(2,3) have "P d" by auto
  then show ?case using Cons.IH [OF d(2)] Cons.prems(3) by auto
qed simp

lemma run_loaders_last:
  assumes "run_loaders (loads @ [load]) c = Inr c'"
  obtains d where "load d = Inr c'"
  using assms by (induction loads arbitrary: c) (auto split: sum.splits)

text \<open>A map whose keys are the identifiers of its rows.\<close>

definition keyed :: "('a \<Rightarrow> 'k) \<Rightarrow> ('k \<Rightarrow> bool) \<Rightarrow> ('k \<times> 'a) list \<Rightarrow> bool" where
  "keyed idf ok rows \<longleftrightarrow> distinct (map fst rows) \<and> (\<forall>(k, row) \<in> set rows. idf row = k \<and> ok k)"

abbreviation trimmed :: "string \<Rightarrow> bool" where
  "trimmed k \<equiv> k \<noteq> [] \<and> TrimSpace k = k"

lemma set_update: "set (AList.update k v rows) \<subseteq> insert (k, v) (set rows)"
  by (induction rows) auto

lemma keyed_update: "keyed idf ok rows \<Longrightarrow> idf row = k \<Longrightarrow> ok k \<Longrightarrow> keyed idf ok (AList.update k row rows)"
  using set_update [of k row rows] by (auto simp: keyed_def distinct_update)

lemma keyed_Nil [simp]: "keyed idf ok []"
  by (simp add: keyed_def)

lemma keyed_foldl:
  assumes "keyed idf ok rows" "\<And>x. ok (idf (g x))"
  shows "keyed idf ok (foldl (\<lambda>rows x. AList.update (idf (g x)) (g x) rows) rows xs)"
  using assms(1) by (induction xs arbitrary: rows) (auto intro: keyed_update assms(2))

lemma keyed_get: "keyed idf ok rows \<Longrightarrow> (k, row) \<in> set rows \<Longrightarrow> map_of rows k = Some row"
  by (simp add: keyed_def)

lemma keyed_ok: "keyed idf ok rows \<Longrightarrow> map_of rows k = Some row \<Longrightarrow> idf row = k \<and> ok k"
  by (auto simp: keyed_def dest!: map_of_SomeD)

lemma known_update [simp]: "known (AList.update k v rows) j \<longleftrightarrow> j = k \<or> known rows j"
  by (simp add: known_def update_conv')

definition floor_key :: "DungeonFloor \<Rightarrow> string" where
  "floor_key dfloor = floorKey (dfl_ChapterID dfloor) (dfl_FloorID dfloor)"

definition stock :: "(string \<times> EquipmentTemplate) list \<Rightarrow> (string \<times> Item) list \<Rightarrow> bool" where
  "stock templates items \<longleftrightarrow> (\<forall>k \<in> fst ` set templates. known items k)"

definition well_keyed :: "Config \<Rightarrow> bool" where
  "well_keyed c \<longleftrightarrow> keyed itm_ItemID trimmed (cfg_Items c) \<and> keyed shp_ShopID trimmed (cfg_Shops c) \<and>
     keyed lpo_LootPoolID trimmed (cfg_LootPools c) \<and> keyed apo_AffixPoolID trimmed (cfg_AffixPools c) \<and>
     keyed bos_BossID trimmed (cfg_Bosses c) \<and> keyed rcp_RecipeID trimmed (cfg_Recipes c) \<and>
     keyed floor_key (\<lambda>_. True) (cfg_Floors c) \<and> keyed gnd_NodeID (\<lambda>_. True) (cfg_GatherNodes c) \<and>
     keyed crp_CropID (\<lambda>_. True) (cfg_Crops c) \<and>
     keyed etp_ItemID trimmed (eqc_ByItemID (cfg_Equipment c)) \<and>
     stock (eqc_ByItemID (cfg_Equipment c)) (cfg_Items c)"

lemma add_missing_known [simp]: "known (add_missing k item items) j \<longleftrightarrow> j = k \<or> known items j"
  by (auto simp: add_missing_def)

lemma keyed_add_missing:
  "keyed itm_ItemID trimmed items \<Longrightarrow> trimmed k \<Longrightarrow> itm_ItemID item = k \<Longrightarrow> keyed itm_ItemID trimmed (add_missing k item items)"
  by (simp add: add_missing_def keyed_update)

text \<open>The templates and items while the equipment is loaded.\<close>

definition stocked :: "(string \<times> EquipmentTemplate) list \<times> (string \<times> Item) list \<Rightarrow> bool" where
  "stocked st \<longleftrightarrow> keyed etp_ItemID trimmed (fst st) \<and> keyed itm_ItemID trimmed (snd st) \<and>
     stock (fst st) (snd st)"

lemma load_stage_stocked:
  assumes "load_stage quote eqc series w st stage = Inr st'" "stocked st"
  shows "stocked st'"
proof -
  let ?id = "TrimSpace (est_ItemID stage)" and ?t = "stage_template eqc series w stage"
  have ne: "?id \<noteq> []" and st': "fst st' = AList.update ?id ?t (fst st)"
    and item: "snd st' = add_missing ?id (equipment_item ?id (etp_DisplayName ?t) (TrimSpace (esr_Category series)) 1
      (esr_EquipSlot series) (etp_WeaponType ?t) (etp_WeaponTypeKey ?t)) (snd st)"
    using assms(1) by (auto simp: load_stage_def Let_def case_prod_beta split: if_splits)
  have "keyed etp_ItemID trimmed (fst st')" unfolding st'
    by (rule keyed_update) (use assms(2) ne in \<open>auto simp: stocked_def stage_template_def Let_def\<close>)
  moreover have "keyed itm_ItemID trimmed (snd st')" unfolding item
    by (rule keyed_add_missing) (use assms(2) ne in \<open>auto simp: stocked_def equipment_item_def\<close>)
  moreover have "stock (fst st') (snd st')"
    using assms(2) set_update [of ?id ?t "fst st"] unfolding st' item by (fastforce simp: stocked_def stock_def)
  ultimately show ?thesis by (simp add: stocked_def)
qed

lemma load_series_stocked:
  assumes "load_series quote eqc st series = Inr st'" "stocked st"
  shows "stocked st'"
proof -
  obtain w where "load_rows (load_stage quote eqc series w) st (esr_Stages series) = Inr st'"
    using assms(1) unfolding load_series_def Let_def by (auto split: option.split_asm if_split_asm)
  then show ?thesis using assms(2) by (rule load_rows_inv) (rule load_stage_stocked)
qed

lemma load_mount_stocked: "load_mount items mount = Inr items' \<Longrightarrow> stocked (byID, items) \<Longrightarrow> stocked (byID, items')"
  by (auto simp: load_mount_def Let_def stocked_def stock_def equipment_item_def intro: keyed_add_missing split: if_splits)

lemma loadEquipment_keeps:
  assumes "loadEquipment quote fs c = Inr c'" "well_keyed c"
  shows "well_keyed c'"
proof -
  obtain eqc byID items items' where
    series: "load_rows (load_series quote eqc) ([], cfg_Items c) (eqc_Series eqc) = Inr (byID, items)"
    and mounts: "load_rows load_mount items (eqc_Mounts eqc) = Inr items'"
    and c': "c' = c\<lparr>cfg_Items := items', cfg_Equipment := eqc\<lparr>eqc_ByItemID := byID\<rparr>\<rparr>"
    using assms(1) by (auto simp: loadEquipment_def split: sum.splits)
  have "stocked ([], cfg_Items c)" using assms(2) by (simp add: stocked_def well_keyed_def stock_def)
  then have "stocked (byID, items)" by (rule load_rows_inv [OF series]) (rule load_series_stocked)
  then have "stocked (byID, items')" by (rule load_rows_inv [OF mounts]) (rule load_mount_stocked)
  with assms(2) show ?thesis by (simp add: c' well_keyed_def stocked_def)
qed


lemma map_sum_Inr: "map_sum id f r = Inr y \<longleftrightarrow> (\<exists>x. r = Inr x \<and> y = f x)"
  by (cases r) auto

lemma load_keyed_keyed:
  assumes "load_keyed name put msg file m = Inr m'" "keyed idf trimmed m" "\<And>k row. idf (put k row) = k"
  shows "keyed idf trimmed m'"
proof -
  obtain rows where run: "load_rows (\<lambda>m row. let k = TrimSpace (name row) in
      if k = [] then Inl (ErrMsg msg) else Inr (AList.update k (put k row) m)) m rows = Inr m'"
    using assms(1) by (auto simp: load_keyed_def split: sum.splits)
  show ?thesis
    by (rule load_rows_inv [where P = "keyed idf trimmed", OF run assms(2)])
      (auto simp: Let_def assms(3) intro: keyed_update split: if_splits)
qed

lemma load_keyed_known:
  assumes "load_keyed name put msg file m = Inr m'" "known m k"
  shows "known m' k"
proof -
  obtain rows where run: "load_rows (\<lambda>m row. let k = TrimSpace (name row) in
      if k = [] then Inl (ErrMsg msg) else Inr (AList.update k (put k row) m)) m rows = Inr m'"
    using assms(1) by (auto simp: load_keyed_def split: sum.splits)
  show ?thesis
    by (rule load_rows_inv [where P = "\<lambda>m. known m k", OF run assms(2)]) (auto simp: Let_def split: if_splits)
qed

lemma loadItems_keeps:
  assumes "loadItems fs c = Inr c'" "well_keyed c"
  shows "well_keyed c'"
proof -
  obtain items where run: "load_keyed itm_ItemID (\<lambda>itemID row. row\<lparr>itm_ItemID := itemID\<rparr>)
      ''items.json contains empty itemId'' (ef_items fs) (cfg_Items c) = Inr items" and c': "c' = c\<lparr>cfg_Items := items\<rparr>"
    using assms(1) by (auto simp: loadItems_def map_sum_Inr)
  have "keyed itm_ItemID trimmed items"
    by (rule load_keyed_keyed [OF run]) (use assms(2) in \<open>auto simp: well_keyed_def\<close>)
  with load_keyed_known [OF run] assms(2) show ?thesis by (simp add: well_keyed_def stock_def c')
qed

lemma loadShops_keeps:
  assumes "loadShops quote fs c = Inr c'" "well_keyed c"
  shows "well_keyed c'"
proof -
  obtain rows shops where run: "load_rows (\<lambda>shops row. let shopID = TrimSpace (shp_ShopID row) in
        if shopID = [] then Inl (ErrMsg ''shops.json contains empty shopId'')
        else if known shops shopID then Inl (ErrMsg (''shops.json contains duplicate shopId '' @ quote shopID))
        else Inr (AList.update shopID (default_timezone (row\<lparr>shp_ShopID := shopID\<rparr>)) shops)) (cfg_Shops c) rows = Inr shops"
    and c': "c' = c\<lparr>cfg_Shops := shops\<rparr>"
    using assms(1) by (auto simp: loadShops_def split: sum.splits)
  have "keyed shp_ShopID trimmed shops"
    by (rule load_rows_inv [where P = "keyed shp_ShopID trimmed", OF run])
      (use assms(2) in \<open>auto simp: well_keyed_def Let_def default_timezone_def intro!: keyed_update split: if_splits option.splits\<close>)
  with assms(2) show ?thesis by (simp add: c' well_keyed_def)
qed

lemma keyed_floors:
  "keyed floor_key (\<lambda>_. True) floors \<Longrightarrow> keyed floor_key (\<lambda>_. True)
     (foldl (\<lambda>floors chapter. foldl (\<lambda>floors dfloor.
           AList.update (floorKey (dch_ChapterID chapter) (dfl_FloorID dfloor))
             (dfloor\<lparr>dfl_ChapterID := dch_ChapterID chapter\<rparr>) floors)
         floors (dch_Floors chapter)) floors chapters)"
proof (induction chapters arbitrary: floors)
  case (Cons ch chs)
  have "keyed floor_key (\<lambda>_. True) (foldl (\<lambda>floors dfloor.
      AList.update (floorKey (dch_ChapterID ch) (dfl_FloorID dfloor))
        (dfloor\<lparr>dfl_ChapterID := dch_ChapterID ch\<rparr>) floors) floors (dch_Floors ch))"
    using keyed_foldl [where idf = floor_key and ok = "\<lambda>_. True" and g = "\<lambda>dfloor. dfloor\<lparr>dfl_ChapterID := dch_ChapterID ch\<rparr>"
        and rows = floors and xs = "dch_Floors ch"] Cons.prems
    by (simp add: floor_key_def)
  then show ?case using Cons.IH by simp
qed simp

lemma keyed_nodes: "keyed gnd_NodeID (\<lambda>_. True) rows \<Longrightarrow>
    keyed gnd_NodeID (\<lambda>_. True) (foldl (\<lambda>nodes row. AList.update (gnd_NodeID row) row nodes) rows xs)"
  using keyed_foldl [where g = "\<lambda>x. x" and idf = gnd_NodeID and ok = "\<lambda>_. True"] by simp

lemma keyed_crops: "keyed crp_CropID (\<lambda>_. True) rows \<Longrightarrow>
    keyed crp_CropID (\<lambda>_. True) (foldl (\<lambda>nodes row. AList.update (crp_CropID row) row nodes) rows xs)"
  using keyed_foldl [where g = "\<lambda>x. x" and idf = crp_CropID and ok = "\<lambda>_. True"] by simp

lemma recipe_of_id [simp]: "rcp_RecipeID (recipe_of k row) = k"
  by (simp add: recipe_of_def)

text \<open>The remaining loaders each replace one part.\<close>

lemma loaders_keep:
  "loadRules fs c = Inr c' \<Longrightarrow> well_keyed c \<Longrightarrow> well_keyed c'"
  "loadLottery fs c = Inr c' \<Longrightarrow> well_keyed c \<Longrightarrow> well_keyed c'"
  "loadBounties fs c = Inr c' \<Longrightarrow> well_keyed c \<Longrightarrow> well_keyed c'"
  "loadDungeons fs c = Inr c' \<Longrightarrow> well_keyed c \<Longrightarrow> well_keyed c'"
  "loadGathering fs c = Inr c' \<Longrightarrow> well_keyed c \<Longrightarrow> well_keyed c'"
  "loadFarming fs c = Inr c' \<Longrightarrow> well_keyed c \<Longrightarrow> well_keyed c'"
  by (simp_all only: loadRules_def loadLottery_def loadBounties_def loadDungeons_def loadGathering_def loadFarming_def
      map_sum_Inr) (auto simp: well_keyed_def keyed_floors keyed_nodes keyed_crops)

lemma keyed_loaders_keep:
  "loadAffixes fs c = Inr c' \<Longrightarrow> well_keyed c \<Longrightarrow> well_keyed c'"
  "loadLootPools fs c = Inr c' \<Longrightarrow> well_keyed c \<Longrightarrow> well_keyed c'"
  "loadBosses fs c = Inr c' \<Longrightarrow> well_keyed c \<Longrightarrow> well_keyed c'"
  "loadRecipes fs c = Inr c' \<Longrightarrow> well_keyed c \<Longrightarrow> well_keyed c'"
  by (simp_all only: loadAffixes_def loadLootPools_def loadBosses_def loadRecipes_def map_sum_Inr)
    (auto simp: well_keyed_def dest: load_keyed_keyed)

lemma loadMarketplace_keeps: "loadMarketplace fs c = Inr c' \<Longrightarrow> well_keyed c \<Longrightarrow> well_keyed c'"
  by (auto simp: loadMarketplace_def map_sum_Inr well_keyed_def split: option.splits)


lemma LoadDir_well_keyed:
  assumes "LoadDir uc quote files dir = Inr c"
  shows "well_keyed c"
proof -
  have start: "well_keyed (empty_config\<lparr>cfg_Dir := d\<rparr>)" for d by (simp add: well_keyed_def empty_config_def stock_def)
  show ?thesis
    by (rule run_loaders_inv [where P = well_keyed, OF assms [unfolded LoadDir_def Let_def] start])
      (auto simp: map_sum_Inr intro: loadItems_keeps loadEquipment_keeps loadShops_keeps loaders_keep keyed_loaders_keep loadMarketplace_keeps)
qed

lemma LoadDir_valid:
  assumes "LoadDir uc quote files dir = Inr c"
  shows "validate uc quote c = Inr ()"
proof -
  let ?check = "\<lambda>c. map_sum id (\<lambda>_. c) (validate uc quote c)"
  let ?fs = "files (if TrimSpace dir = [] then ''configs/economy'' else TrimSpace dir)"
  have "run_loaders ([loadItems ?fs, loadRules ?fs, loadEquipment quote ?fs, loadShops quote ?fs, loadLottery ?fs,
        loadBounties ?fs, loadAffixes ?fs, loadLootPools ?fs, loadDungeons ?fs, loadGathering ?fs, loadFarming ?fs,
        loadBosses ?fs, loadRecipes ?fs, loadMarketplace ?fs] @ [?check])
      (empty_config\<lparr>cfg_Dir := if TrimSpace dir = [] then ''configs/economy'' else TrimSpace dir\<rparr>) = Inr c"
    using assms unfolding LoadDir_def Let_def append.simps .
  then show ?thesis by (rule run_loaders_last) (auto simp: map_sum_Inr)
qed

section \<open>Rewards of a validated configuration\<close>

lemma IntN_ok: "0 < n \<Longrightarrow> is_ok (IntN R g n)"
  by (simp add: IntN_def)

lemma is_ok_case [simp]: "is_ok (case r of Inl e \<Rightarrow> Inl e | Inr x \<Rightarrow> k x) \<longleftrightarrow> (\<exists>x. r = Inr x \<and> is_ok (k x))"
  by (cases r) auto

lemma is_ok_iff: "is_ok r \<longleftrightarrow> (\<exists>x. r = Inr x)"
  by (cases r) auto

lemma is_ok_pairE:
  assumes "is_ok r"
  obtains x y where "r = Inr (x, y)"
  using assms by (auto simp: is_ok_iff)

lemma is_ok_prod [simp]: "is_ok (case p of (a, b) \<Rightarrow> Inr (f a b))"
  by (cases p) simp

text \<open>A recursive call that succeeds, followed by a result.\<close>

lemma is_ok_then: "is_ok r \<Longrightarrow> is_ok (case r of Inl e \<Rightarrow> Inl e | Inr (x, g) \<Rightarrow> Inr (f x g))"
  by (auto simp: is_ok_iff)

lemma weightedEligibleAffix_ok: "is_ok (weightedEligibleAffix R g rows counts)"
  by (auto simp: weightedEligibleAffix_def Let_def IntN_def)

lemma roll_semantic_ok: "is_ok (roll_semantic R rows n i counts g)"
proof (induction n arbitrary: i counts g)
  case (Suc n)
  obtain choice g' where draw: "weightedEligibleAffix R g rows counts = Inr (choice, g')"
    using weightedEligibleAffix_ok [of R g rows counts] by (auto simp: is_ok_iff)
  show ?case
  proof (cases choice)
    case (Some affix)
    then show ?thesis unfolding roll_semantic.simps draw sum.case prod.case option.case
      by (simp only: option.case) (rule is_ok_then, rule Suc.IH)
  qed (simp add: draw)
qed simp

lemma rollEquipmentAffixes_ok: "is_ok (rollEquipmentAffixes R c g itemID rarity)"
  by (simp add: rollEquipmentAffixes_def roll_semantic_ok split: option.split)

lemma weightedAffix_ok: "rows \<noteq> [] \<Longrightarrow> is_ok (weightedAffix R g rows)"
  by (auto simp: weightedAffix_def Let_def IntN_def)

lemma roll_values_ok: "rows \<noteq> [] \<Longrightarrow> is_ok (roll_values R fo rows n g)"
proof (induction n arbitrary: g)
  case (Suc n)
  obtain affix g1 where draw: "weightedAffix R g rows = Inr (affix, g1)"
    using weightedAffix_ok [OF Suc.prems, of R g] by (auto simp: is_ok_iff)
  show ?case unfolding roll_values.simps draw sum.case prod.case Let_def case_prod_beta [of _ "if _ then _ else _"]
    by (rule is_ok_then) (rule Suc.IH [OF Suc.prems])
qed simp

text \<open>The number of rolls of a pool is drawn from a range that fits 64 bits.\<close>

definition rolls_fit :: "AffixPool \<Rightarrow> bool" where
  "rolls_fit pool \<longleftrightarrow> aro_Max (apo_Rolls pool) - aro_Min (apo_Rolls pool) + 1 < 2 ^ 63"

lemma rollAffixes_ok:
  assumes "\<And>pool. map_of (cfg_AffixPools c) poolID = Some pool \<Longrightarrow> rolls_fit pool"
  shows "is_ok (rollAffixes R fo c g poolID)"
proof (cases "map_of (cfg_AffixPools c) poolID")
  case (Some pool)
  let ?lo = "aro_Min (apo_Rolls pool)" and ?hi = "aro_Max (apo_Rolls pool)"
  have "w64 (w64 (?hi - ?lo) + 1) = ?hi - ?lo + 1" if "?lo < ?hi"
    using assms [OF Some] that by (simp add: rolls_fit_def w64_nonneg)
  then show ?thesis using Some roll_values_ok [of "apo_Affixes pool" R fo]
    by (auto simp: rollAffixes_def Let_def IntN_def case_prod_beta)
qed (simp add: rollAffixes_def)

lemma rollAffixes_error:
  assumes "rollAffixes R fo c g poolID = Inl e"
  shows "e = Panic \<and> (\<exists>(k, pool) \<in> set (cfg_AffixPools c). \<not> rolls_fit pool)"
proof
  have "\<not> is_ok (rollAffixes R fo c g poolID)" using assms by simp
  then obtain pool where "map_of (cfg_AffixPools c) poolID = Some pool" "\<not> rolls_fit pool"
    using rollAffixes_ok [of c poolID R fo g] by blast
  then show "\<exists>(k, pool) \<in> set (cfg_AffixPools c). \<not> rolls_fit pool" by (auto dest: map_of_SomeD)
  show "e = Panic"
  proof (cases "map_of (cfg_AffixPools c) poolID")
    case (Some pool)
    have vals: "roll_values R fo (apo_Affixes pool) n h \<noteq> Inl e" if "apo_Affixes pool \<noteq> []" for n h
      using roll_values_ok [OF that, of R fo n h] by (auto simp: is_ok_iff)
    show ?thesis using assms Some vals
      by (auto simp: rollAffixes_def Let_def IntN_def split: if_splits prod.splits sum.splits)
  qed (use assms in \<open>simp add: rollAffixes_def\<close>)
qed

lemma rollQuantity_ok:
  assumes "i64 mn" "i64 mx"
  shows "is_ok (rollQuantity R g mn mx)"
proof -
  define lo where "lo = (if mn \<le> 0 then 1 else mn)"
  define hi where "hi = (if mx < lo then lo else mx)"
  have "1 \<le> lo" "lo \<le> hi" "hi < 2 ^ 63" using assms by (auto simp: lo_def hi_def i64_def)
  then have "hi \<noteq> lo \<Longrightarrow> w64 (w64 (hi - lo) + 1) = hi - lo + 1" by (simp add: w64_nonneg)
  then show ?thesis using \<open>lo \<le> hi\<close>
    unfolding rollQuantity_def Let_def lo_def [symmetric] hi_def [symmetric] by (auto simp: Int64N_def)
qed

text \<open>The stage a character level gives is one of the configured stages.\<close>

lemma reached_stage_in: "reached_stage level selected stages \<in> insert selected (set stages)"
  by (induction stages arbitrary: selected) auto

lemma stage_configured:
  assumes "eqc_StageMultipliers (cfg_Equipment c) \<noteq> []"
  shows "equipmentStageForCharacterLevel c level \<in> fst ` set (eqc_StageMultipliers (cfg_Equipment c))"
proof -
  let ?keys = "map fst (eqc_StageMultipliers (cfg_Equipment c))"
  obtain first rest where sorted: "sort ?keys = first # rest" using assms by (cases "sort ?keys") (auto dest: arg_cong [of _ _ length])
  have "equipmentStageForCharacterLevel c level \<in> set (first # rest)"
    using reached_stage_in [of level first "first # rest"] by (simp add: equipmentStageForCharacterLevel_def sorted)
  then show ?thesis by (metis sorted set_sort set_map)
qed

text \<open>
  What the validation leaves open: the reward type of a loot entry (compared without trimming when the
  entry is rolled) and the width of the range an affix pool draws its number of rolls from. A result
  is \<open>excused\<close> when its error comes from one of them.
\<close>

definition supported :: "(string \<Rightarrow> string) \<Rightarrow> LootEntry \<Rightarrow> bool" where
  "supported uc entry \<longleftrightarrow> ToLower uc (len_RewardType entry) \<in> {''item'', ''equipment'', ''token''}"

definition loot_rows :: "Config \<Rightarrow> LootEntry set" where
  "loot_rows c = (\<Union>(_, pool) \<in> set (cfg_LootPools c). set (lpo_Entries pool))"

definition excused :: "(string \<Rightarrow> string) \<Rightarrow> (string \<Rightarrow> string) \<Rightarrow> Config \<Rightarrow> err \<Rightarrow> bool" where
  "excused uc quote c e \<longleftrightarrow>
     (\<exists>entry \<in> loot_rows c. \<not> supported uc entry \<and>
        e = ErrMsg (''unsupported reward type '' @ quote (len_RewardType entry))) \<or>
     e = Panic \<and> (\<exists>(k, pool) \<in> set (cfg_AffixPools c). \<not> rolls_fit pool)"

definition pays :: "(string \<Rightarrow> string) \<Rightarrow> (string \<Rightarrow> string) \<Rightarrow> Config \<Rightarrow> 'a result \<Rightarrow> bool" where
  "pays uc quote c r \<longleftrightarrow> (\<forall>e. r = Inl e \<longrightarrow> excused uc quote c e)"

lemma pays_Inr [simp]: "pays uc quote c (Inr x)"
  by (simp add: pays_def)

lemma pays_Inl [simp]: "pays uc quote c (Inl e) \<longleftrightarrow> excused uc quote c e"
  by (simp add: pays_def)

lemma pays_ok: "is_ok r \<Longrightarrow> pays uc quote c r"
  by (auto simp: is_ok_iff)

lemma pays_then:
  "pays uc quote c r \<Longrightarrow> (\<And>x. r = Inr x \<Longrightarrow> pays uc quote c (k x)) \<Longrightarrow> pays uc quote c (case r of Inl e \<Rightarrow> Inl e | Inr x \<Rightarrow> k x)"
  by (cases r) simp_all

text \<open>What the checks of \<open>validate_entry\<close> give for a loot entry.\<close>

definition usable :: "Config \<Rightarrow> LootEntry \<Rightarrow> bool" where
  "usable c entry \<longleftrightarrow> entry \<in> loot_rows c \<and> in_range entry \<and>
     (TrimSpace (len_EquipmentStageMode entry) \<noteq> [] \<longrightarrow>
        TrimSpace (len_EquipmentStageMode entry) = ''character_level_floor'' \<and>
        (\<forall>level. equipmentTemplatesByStageAndSeries c (equipmentStageForCharacterLevel c level) (len_EquipmentSeries entry) \<noteq> []))"

lemma rollRewardAffixes_pays: "pays uc quote c (rollRewardAffixes R fo c g itemID rarity poolID)"
proof (cases "EquipmentTemplate_get c itemID = None")
  case True
  then show ?thesis using rollAffixes_error [of R fo c g poolID] by (auto simp: rollRewardAffixes_def pays_def excused_def)
next
  case False
  then show ?thesis by (auto simp: rollRewardAffixes_def intro!: pays_ok rollEquipmentAffixes_ok)
qed

lemma loot_equipment_pays:
  assumes "usable c entry"
  shows "pays uc quote c (loot_equipment quote R fo c opID refID level index entry n i g)"
proof (induction n arbitrary: i g)
  case (Suc n)
  let ?choice = "if TrimSpace (len_EquipmentStageMode entry) \<noteq> []
    then case rollLevelScaledEquipmentTemplate quote R c g entry level of
           Inl e \<Rightarrow> Inl e | Inr (template, g') \<Rightarrow> Inr (etp_ItemID template, g')
    else Inr (len_ItemID entry, g)"
  have "is_ok (rollLevelScaledEquipmentTemplate quote R c g entry level)" if "TrimSpace (len_EquipmentStageMode entry) \<noteq> []"
    using assms that by (simp add: usable_def rollLevelScaledEquipmentTemplate_def Let_def IntN_def)
  then have "is_ok ?choice" by (simp del: is_ok_case add: is_ok_then)
  then obtain itemID g1 where choice: "?choice = Inr (itemID, g1)" by (rule is_ok_pairE)
  show ?case
    unfolding loot_equipment.simps choice sum.case prod.case case_prod_beta
    by (intro pays_then rollRewardAffixes_pays Suc.IH pays_Inr)
qed simp

lemma loot_entries_pays:
  assumes "\<forall>entry \<in> set entries. usable c entry"
  shows "pays uc quote c (loot_entries uc quote R fo c opID refID level index entries plan g)"
  using assms
proof (induction entries arbitrary: index plan g)
  case (Cons entry entries)
  have entry: "usable c entry" and rest: "\<And>index plan g. pays uc quote c (loot_entries uc quote R fo c opID refID level index entries plan g)"
    using Cons by auto
  obtain dropped g1 where d: "(if float_less (len_DropChance entry) (Fin 1)
      then let (x, g') = draw_Float64 R g in (float_less (len_DropChance entry) x, g') else (False, g)) = (dropped, g1)"
    by (metis surj_pair)
  obtain q g2 where q: "rollQuantity R g1 (len_QuantityMin entry) (len_QuantityMax entry) = Inr (q, g2)"
    using rollQuantity_ok [of "len_QuantityMin entry" "len_QuantityMax entry" R g1] entry
    by (auto simp: usable_def in_range_def is_ok_iff)
  have gear: "pays uc quote c (case loot_equipment quote R fo c opID refID level index entry (nat q) 0 g2 of
      Inl e \<Rightarrow> Inl e | Inr (grants, g3) \<Rightarrow> loot_entries uc quote R fo c opID refID level (index + 1) entries
        (plan\<lparr>rp_Items := rp_Items plan @ grants\<rparr>) g3)"
    unfolding case_prod_beta by (intro pays_then loot_equipment_pays [OF entry] rest)
  have kind: "excused uc quote c (ErrMsg (''unsupported reward type '' @ quote (len_RewardType entry)))"
    if "ToLower uc (len_RewardType entry) \<notin> {''item'', ''equipment'', ''token''}"
    using that entry by (auto simp: usable_def excused_def supported_def)
  show ?case
    unfolding loot_entries.simps d using kind rest gear by (auto simp: q Let_def)
qed simp

text \<open>The parts of a successful validation the rewards rely on.\<close>

lemma validate_parts:
  assumes "validate uc quote c = Inr ()"
  shows "validate_equipment quote c = Inr ()" "\<And>f. 1 \<le> f \<Longrightarrow> f \<le> 30 \<Longrightarrow> validate_floor quote c f = Inr ()"
    "\<And>k pool entry. (k, pool) \<in> set (cfg_LootPools c) \<Longrightarrow> entry \<in> set (lpo_Entries pool) \<Longrightarrow> validate_entry uc quote c k entry = Inr ()"
    "\<And>k node. (k, node) \<in> set (cfg_GatherNodes c) \<Longrightarrow> known (cfg_LootPools c) (gnd_LootPoolID node)"
    "\<And>k crop. (k, crop) \<in> set (cfg_Crops c) \<Longrightarrow> known (cfg_LootPools c) (crp_HarvestLootPoolID crop)"
    "\<And>k boss. (k, boss) \<in> set (cfg_Bosses c) \<Longrightarrow> validate_boss quote c (k, boss) = Inr ()"
    "\<And>f. length (cfg_Floors c) = 30"
  using assms by (fastforce simp: validate_def each_ok)+

text \<open>The quantities of the entries are 64-bit integers.\<close>

definition int64_quantities :: "Config \<Rightarrow> bool" where
  "int64_quantities c \<longleftrightarrow> (\<forall>entry \<in> loot_rows c. in_range entry)"

lemma validated_usable:
  assumes "validate uc quote c = Inr ()" "int64_quantities c" "(k, pool) \<in> set (cfg_LootPools c)" "entry \<in> set (lpo_Entries pool)"
  shows "usable c entry"
proof -
  let ?mode = "TrimSpace (len_EquipmentStageMode entry)"
  note entry = validate_parts(3) [OF assms(1,3,4)]
  have "eqc_StageMultipliers (cfg_Equipment c) \<noteq> []"
    using validate_parts(1) [OF assms(1)] by (auto simp: validate_equipment_def Let_def)
  note stage = stage_configured [OF this]
  have "?mode = ''character_level_floor'' \<and>
      (\<forall>level. equipmentTemplatesByStageAndSeries c (equipmentStageForCharacterLevel c level) (len_EquipmentSeries entry) \<noteq> [])"
    if "?mode \<noteq> []"
    using entry that stage by (fastforce simp: validate_entry_def Let_def each_ok)
  moreover have "entry \<in> loot_rows c" using assms(3,4) by (auto simp: loot_rows_def)
  ultimately show ?thesis using assms(2) by (simp add: usable_def int64_quantities_def)
qed

lemma loot_pool_pays:
  assumes "validate uc quote c = Inr ()" "int64_quantities c" "known (cfg_LootPools c) poolID"
  shows "pays uc quote c (lootPoolRewards uc quote R fo c poolID opID refID characterID level chapterID floorID)"
proof -
  obtain pool where pool: "map_of (cfg_LootPools c) poolID = Some pool" using assms(3) by (auto simp: known_def)
  have "\<forall>entry \<in> set (lpo_Entries pool). usable c entry"
    using validated_usable [OF assms(1,2) map_of_SomeD [OF pool]] by blast
  then show ?thesis by (simp add: lootPoolRewards_def pool loot_entries_pays)
qed

lemma merge_pool_pays:
  assumes "validate uc quote c = Inr ()" "int64_quantities c" "wanted \<Longrightarrow> known (cfg_LootPools c) poolID" "pays uc quote c acc"
  shows "pays uc quote c (merge_pool uc quote R fo c wanted poolID opID refID characterID chapterID floorID acc)"
  unfolding merge_pool_def
  by (rule pays_then [OF assms(4)]) (use assms(1-3) in \<open>auto intro!: pays_then loot_pool_pays\<close>)

lemma bossTierPool_in: "bossTierPool boss contribution = [] \<or> bossTierPool boss contribution \<in> bct_BonusLootPoolID ` set (bos_ContributionTiers boss)"
proof -
  have "foldl (\<lambda>poolID tier. if P tier then bct_BonusLootPoolID tier else poolID) acc tiers \<in> insert acc (bct_BonusLootPoolID ` set tiers)"
    for P acc tiers
    by (induction tiers arbitrary: acc) auto
  from this [of "\<lambda>tier. contribution \<ge> bct_MinContribution tier \<and> TrimSpace (bct_BonusLootPoolID tier) \<noteq> []" "[]"]
  show ?thesis by (auto simp: bossTierPool_def)
qed

lemma boss_pays:
  assumes "validate uc quote c = Inr ()" "int64_quantities c" "map_of (cfg_Bosses c) (TrimSpace (bs_BossKey req)) = Some boss"
    "TrimSpace (bs_BossKey req) \<noteq> []"
  shows "pays uc quote c (BossRewards uc quote R fo c req contribution)"
proof -
  have pools: "poolID = [] \<or> known (cfg_LootPools c) poolID"
    if "poolID \<in> {bos_ParticipationLootPoolID boss, bos_LootPoolID boss} \<union> bct_BonusLootPoolID ` set (bos_ContributionTiers boss)" for poolID
    using validate_parts(6) [OF assms(1) map_of_SomeD [OF assms(3)]] that by (auto simp: validate_boss_def Let_def each_ok)
  then have "bossTierPool boss contribution = [] \<or> known (cfg_LootPools c) (bossTierPool boss contribution)"
    using bossTierPool_in [of boss contribution] by blast
  with pools assms show ?thesis by (auto simp: BossRewards_def Let_def intro!: merge_pool_pays)
qed

lemma floor_pays:
  assumes "validate uc quote c = Inr ()" "int64_quantities c" "1 \<le> f" "f \<le> 30"
  shows "\<exists>dfloor. DungeonFloor_get c ((f - 1) div 10) f = Some dfloor \<and> 0 < dfl_MaxExp dfloor \<and>
      (\<forall>req. fi_ChapterID req = (f - 1) div 10 \<longrightarrow> fi_FloorID req = f \<longrightarrow> fi_Exp req \<le> dfl_MaxExp dfloor \<longrightarrow>
         pays uc quote c (DungeonRewards_plan uc quote R fo c req))"
proof -
  have "validate_floor quote c f = Inr ()" using validate_parts(2) [OF assms(1,3,4)] .
  then obtain dfloor where floor: "map_of (cfg_Floors c) (floorKey ((f - 1) div 10) f) = Some dfloor"
    "0 < dfl_MaxExp dfloor" "known (cfg_LootPools c) (dfl_LootPoolID dfloor)"
    by (auto simp: validate_floor_def Let_def split: option.splits)
  have "pays uc quote c (DungeonRewards_plan uc quote R fo c req)"
    if "fi_ChapterID req = (f - 1) div 10" "fi_FloorID req = f" "fi_Exp req \<le> dfl_MaxExp dfloor" for req
    using that floor(1) loot_pool_pays [OF assms(1,2) floor(3)]
    by (auto simp: DungeonRewards_plan_def DungeonFloor_get_def intro!: pays_then)
  with floor show ?thesis by (auto simp: DungeonFloor_get_def)
qed


section \<open>A smallest configuration\<close>

definition small_stage :: "int list" where "small_stage = [1, 5, 10, 15, 20, 25, 30]"

definition small_item :: "string \<Rightarrow> Item" where
  "small_item k = (equipment_item k k ''material'' 1 0 0 [])\<lparr>itm_IsEquipment := False\<rparr>"

definition small_floor :: "int \<Rightarrow> DungeonFloor" where
  "small_floor f = \<lparr>dfl_ChapterID = 0, dfl_FloorID = f, dfl_IsBoss = f \<in> {10, 20, 30},
     dfl_EnterCost = \<lparr>dc_Gold = 0, dc_Items = map (\<lambda>k. \<lparr>it_ID = 0, it_ItemID = k, it_Quantity = 1, it_Slot = 0, it_Durability = 0,
       it_EnhanceLevel = 0\<rparr>) [''boss_ticket_ashen_threshold'', ''boss_ticket_gloomwood'', ''boss_ticket_voidscar'']\<rparr>,
     dfl_MaxExp = 100, dfl_LootPoolID = ''l'', dfl_EnemyHpScale = Fin 1, dfl_EnemyAtkScale = Fin 1\<rparr>"

definition small_chapters :: "DungeonChapter list" where
  "small_chapters = map (\<lambda>k. \<lparr>dch_ChapterID = k, dch_Name = [], dch_Floors = map small_floor [10 * k + 1..10 * k + 10]\<rparr>) [0, 1, 2]"

definition small_equipment :: EquipmentConfig where
  "small_equipment = (cfg_Equipment empty_config)\<lparr>eqc_StageMultipliers := map (\<lambda>k. (k, Fin 1)) small_stage,
     eqc_Rarities := map (\<lambda>k. (k, sample_rarity)) [1, 2, 3, 4, 5, 6],
     eqc_Enhancement := \<lparr>ehc_MaxLevel = 10, ehc_GoldCostByStage = map (\<lambda>k. (k, replicate 10 1)) small_stage,
       ehc_StoneItemByStage = map (\<lambda>k. (k, ''ore'')) small_stage,
       ehc_StoneBaseCostByStageRarity = map (\<lambda>k. (k, replicate 6 1)) small_stage,
       ehc_StoneProgressionByLevel = replicate 10 1\<rparr>\<rparr>"

text \<open>A shop with one item, one that sells everything, and a mystery shop.\<close>

definition small_shop :: "string \<Rightarrow> Shop" where
  "small_shop k = \<lparr>shp_ShopID = k, shp_DisplayName = k, shp_DailyLimitTimezone = ''UTC'', shp_SellAllItems = False,
     shp_SellItems = [], shp_Mystery = None\<rparr>"

definition small_mystery :: MysteryShopConfig where
  "small_mystery = \<lparr>msc_ManualRefreshTokenBaseCost = 1, msc_ManualRefreshTokenStepCost = 1,
     msc_ManualRefreshTokenMaxCost = 5, msc_DailyLimitTimezone = ''UTC'', msc_MaxSlots = 1,
     msc_Slots = [\<lparr>mss_SlotIndex = 1, mss_UnlockLevel = 0, mss_Pools = [\<lparr>mpe_ItemID = ''ore'', mpe_Weight = 1,
       mpe_Quantity = 2, mpe_Rarity = 0, mpe_MinLevel = 0, mpe_MaxLevel = 0, mpe_BaseGold = 10, mpe_BaseToken = 0,
       mpe_MinDiscount = 0\<rparr>]\<rparr>],
     msc_Discounts = [\<lparr>mdi_Bps = 8000, mdi_Weight = 1\<rparr>]\<rparr>"

definition small_shops :: "(string \<times> Shop) list" where
  "small_shops = [(''s'', (small_shop ''s'')\<lparr>shp_SellItems := [\<lparr>ssi_SlotIndex = 1, ssi_ItemID = ''ore'', ssi_MinLevel = 0,
       ssi_MaxLevel = 0, ssi_Rarity = 0, ssi_BuyPrice = 5, ssi_DailyLimit = 3\<rparr>]\<rparr>),
     (''a'', (small_shop ''a'')\<lparr>shp_SellAllItems := True\<rparr>),
     (''m'', (small_shop ''m'')\<lparr>shp_Mystery := Some small_mystery\<rparr>)]"

definition small_files :: "string \<Rightarrow> economy_files" where
  "small_files dir = \<lparr>ef_items = Inr [small_item ''ore''], ef_rules = Inr (cfg_Rules empty_config),
     ef_equipment = Inr small_equipment, ef_shops = Inr (map snd small_shops),
     ef_lottery = Inr ((cfg_Lottery empty_config)\<lparr>lot_PriceAEB := 1, lot_MaxCount := 10, lot_CategoryWeight := [(''mount'', 1)],
       lot_EquipmentRarityWeight := [(1, 1)]\<rparr>),
     ef_bounties = Inr \<lparr>bty_Slots = replicate 5 \<lparr>bsl_SlotIndex = 1, bsl_UnlockType = [], bsl_GoldCost = 0, bsl_AEBPrice = 0\<rparr>,
       bty_Refresh = \<lparr>brf_FreeCooldownSeconds = 1, brf_GoldCost = 0, brf_PremiumAEBPrice = 0\<rparr>, bty_TaskTemplates = [],
       bty_BadgeLottery = [(''bronze'', \<lparr>bbl_CostItemID = ''ore'', bbl_Rewards =
         [\<lparr>bbr_Type = ''item'', bbr_ItemID = ''ore'', bbr_Weight = 1, bbr_Min = 2, bbr_Max = 5\<rparr>]\<rparr>)]\<rparr>,
     ef_affixes = Inr [], ef_loot_pools = Inr [sample_loot], ef_dungeons = Inr small_chapters, ef_gathering = Inr [],
     ef_farming = Inr [], ef_bosses = Inr [], ef_recipes = Inr [], ef_marketplace = None\<rparr>"

definition small_floor_map :: "(string \<times> DungeonFloor) list" where
  "small_floor_map = map (\<lambda>f. (floorKey ((f - 1) div 10) f, (small_floor f)\<lparr>dfl_ChapterID := (f - 1) div 10\<rparr>)) [1..30]"

definition small_config :: Config where
  "small_config = empty_config\<lparr>cfg_Dir := ''configs/economy'', cfg_Items := [(''ore'', small_item ''ore'')],
     cfg_Shops := small_shops, cfg_Floors := small_floor_map, cfg_LootPools := [(''l'', sample_loot)], cfg_Rules := cfg_Rules empty_config, cfg_Equipment := small_equipment,
     cfg_Lottery := projr (ef_lottery (small_files [])), cfg_Bounties := projr (ef_bounties (small_files []))\<rparr>"

lemma floorKey_inject [simp]: "floorKey a b = floorKey c d \<longleftrightarrow> a = c \<and> b = d"
  by (simp add: floorKey_def)

lemma small_trims [simp]: "TrimSpace ''l'' = ''l''" "TrimSpace ''ore'' = ''ore''" "TrimSpace ''s'' = ''s''" "TrimSpace ''a'' = ''a''"
  "TrimSpace ''m'' = ''m''" "TrimSpace ''UTC'' = ''UTC''" "TrimSpace ''material'' = ''material''" "TrimSpace ''bronze'' = ''bronze''"
  by (simp_all add: TrimSpace_def space1_def space2_def space3_def)

lemma update_new: "k \<notin> fst ` set rows \<Longrightarrow> AList.update k v rows = rows @ [(k, v)]"
  by (induction rows) auto

lemma foldl_update_new:
  assumes "distinct (map fst rows @ map key xs)"
  shows "foldl (\<lambda>m x. AList.update (key x) (val x) m) rows xs = rows @ map (\<lambda>x. (key x, val x)) xs"
  using assms by (induction xs arbitrary: rows) (simp_all add: update_new)

lemma small_chapter:
  assumes "\<And>f x. (floorKey k f, x) \<notin> set rows" "distinct (map fst rows)" "distinct fs"
  shows "foldl (\<lambda>floors dfloor. AList.update (floorKey k (dfl_FloorID dfloor)) (dfloor\<lparr>dfl_ChapterID := k\<rparr>) floors) rows
      (map small_floor fs) = rows @ map (\<lambda>f. (floorKey k f, (small_floor f)\<lparr>dfl_ChapterID := k\<rparr>)) fs"
proof -
  have id: "dfl_FloorID (small_floor f) = f" for f by (simp add: small_floor_def)
  have "distinct (map fst rows @ map (\<lambda>dfloor. floorKey k (dfl_FloorID dfloor)) (map small_floor fs))"
    using assms by (auto simp: id comp_def distinct_map inj_on_def)
  from foldl_update_new [OF this, of "\<lambda>dfloor. dfloor\<lparr>dfl_ChapterID := k\<rparr>"] show ?thesis by (simp add: id comp_def)
qed

lemma small_floors:
  "foldl (\<lambda>floors ch. foldl (\<lambda>floors dfloor. AList.update (floorKey (dch_ChapterID ch) (dfl_FloorID dfloor))
       (dfloor\<lparr>dfl_ChapterID := dch_ChapterID ch\<rparr>) floors) floors (dch_Floors ch)) [] small_chapters = small_floor_map"
proof -
  let ?part = "\<lambda>k fs. map (\<lambda>f. (floorKey k f, (small_floor f)\<lparr>dfl_ChapterID := k\<rparr>)) fs"
  have part: "?part k [10 * k + 1..10 * k + 10] =
      map (\<lambda>f. (floorKey ((f - 1) div 10) f, (small_floor f)\<lparr>dfl_ChapterID := (f - 1) div 10\<rparr>)) [10 * k + 1..10 * k + 10]" for k
  proof (rule map_cong [OF refl])
    fix f assume "f \<in> set [10 * k + 1..10 * k + 10]"
    then have "(f - 1) div 10 = k" by auto
    then show "(floorKey k f, (small_floor f)\<lparr>dfl_ChapterID := k\<rparr>) =
      (floorKey ((f - 1) div 10) f, (small_floor f)\<lparr>dfl_ChapterID := (f - 1) div 10\<rparr>)" by simp
  qed
  have "[1..30 :: int] = [10 * 0 + 1..10 * 0 + 10] @ [10 * 1 + 1..10 * 1 + 10] @ [10 * 2 + 1..10 * 2 + 10]"
    using upto_split1 [of 1 11 30] upto_split1 [of 11 21 30] by (simp del: upto_rec_numeral)
  then have "small_floor_map = ?part 0 [10 * 0 + 1..10 * 0 + 10] @ ?part 1 [10 * 1 + 1..10 * 1 + 10] @ ?part 2 [10 * 2 + 1..10 * 2 + 10]"
    unfolding small_floor_map_def part by (simp only: map_append)
  moreover have "floorKey a ` A \<inter> floorKey b ` B = {}" if "a \<noteq> b" for a b A B using that by auto
  ultimately show ?thesis
    by (simp add: small_chapters_def small_chapter distinct_map inj_on_def image_iff comp_def image_image
        del: upto_rec_numeral)
qed

lemma small_shops_load:
  "ef_shops fs = Inr (map snd small_shops) \<Longrightarrow> cfg_Shops c = [] \<Longrightarrow> loadShops q fs c = Inr (c\<lparr>cfg_Shops := small_shops\<rparr>)"
  by (simp add: loadShops_def known_def small_shops_def small_shop_def small_mystery_def default_timezone_def
      with_timezone_def Let_def)

lemma small_run:
  "LoadDir (\<lambda>x. x) (\<lambda>x. x) small_files [] = map_sum id (\<lambda>_. small_config) (validate (\<lambda>x. x) (\<lambda>x. x) small_config)"
proof -
  have "run_loaders [loadItems fs, loadRules fs, loadEquipment q fs, loadShops q fs, loadLottery fs, loadBounties fs,
        loadAffixes fs, loadLootPools fs, loadDungeons fs, loadGathering fs, loadFarming fs, loadBosses fs, loadRecipes fs,
        loadMarketplace fs, check] (empty_config\<lparr>cfg_Dir := ''configs/economy''\<rparr>) = check small_config"
    if "fs = small_files d" for fs d q check
    using small_floors unfolding that
    by (simp add: loadItems_def loadRules_def loadEquipment_def loadLottery_def loadBounties_def loadAffixes_def
        loadLootPools_def loadDungeons_def loadGathering_def loadFarming_def loadBosses_def loadRecipes_def loadMarketplace_def
        load_keyed_def small_files_def small_config_def small_item_def equipment_item_def sample_loot_def small_equipment_def
        empty_config_def Let_def small_shops_load split: sum.split)
  from this [OF refl, of "''configs/economy''" "\<lambda>x. x"] show ?thesis by (simp add: LoadDir_def Let_def)
qed

lemma small_floor_get:
  assumes "1 \<le> f" "f \<le> 30"
  shows "map_of small_floor_map (floorKey ((f - 1) div 10) f) = Some ((small_floor f)\<lparr>dfl_ChapterID := (f - 1) div 10\<rparr>)"
proof (rule map_of_is_SomeI)
  show "distinct (map fst small_floor_map)"
    by (simp add: small_floor_map_def comp_def distinct_map inj_on_def del: upto_rec_numeral)
  show "(floorKey ((f - 1) div 10) f, (small_floor f)\<lparr>dfl_ChapterID := (f - 1) div 10\<rparr>) \<in> set small_floor_map"
    using assms by (simp add: small_floor_map_def del: upto_rec_numeral)
qed

lemma small_config_fields:
  "cfg_Items small_config = [(''ore'', small_item ''ore'')]" "cfg_Shops small_config = small_shops" "cfg_Floors small_config = small_floor_map"
  "cfg_LootPools small_config = [(''l'', sample_loot)]" "cfg_AffixPools small_config = []" "cfg_GatherNodes small_config = []"
  "cfg_Crops small_config = []" "cfg_Bosses small_config = []" "cfg_Recipes small_config = []"
  "\<not> mkc_Enabled (cfg_Marketplace small_config)" "cfg_Equipment small_config = small_equipment"
  by (simp_all add: small_config_def empty_config_def zero_MarketplaceConfig_def)

lemma small_equipment_valid: "validate_equipment (\<lambda>x. x) small_config = Inr ()"
  by (simp add: validate_equipment_def small_config_fields Let_def each_ok small_equipment_def small_stage_def sample_rarity_def
      float_le0_def by_stage_def known_def empty_config_def)

lemma small_floors_valid: "1 \<le> f \<Longrightarrow> f \<le> 30 \<Longrightarrow> validate_floor (\<lambda>x. x) small_config f = Inr ()"
  using small_floor_get [of f]
  by (auto simp: validate_floor_def small_config_fields Let_def small_floor_def known_def requiredBossTickets_def
      enterCostHasItem_def split: option.split)

lemma each_after_Cons_ok:
  "each_after f seen (row # rows) = Inr u \<longleftrightarrow> f seen row = Inr () \<and> each_after f (row # seen) rows = Inr u"
  by (auto split: sum.splits)

lemma small_config_valid: "validate (\<lambda>x. x) (\<lambda>x. x) small_config = Inr ()"
proof -
  have "length small_floor_map = 30" by (simp add: small_floor_map_def)
  moreover have "validate_item (\<lambda>x. x) (''ore'', small_item ''ore'') = Inr ()"
    by (simp add: validate_item_def small_item_def equipment_item_def)
  moreover have "each (validate_shop (\<lambda>x. x) small_config) small_shops = Inr ()"
    by (simp add: each_ok small_shops_def validate_shop_def validate_sell_item_def small_config_fields known_def small_shop_def
        validate_mystery_def validate_mystery_slot_def validate_mystery_entry_def small_mystery_def total64_def w64_def
        mysteryEntryRequiresToken_def has_prefix_def small_item_def equipment_item_def each_after_Cons_ok Let_def
        del: each_after.simps(2))
  moreover have "validate_lottery (\<lambda>x. x) small_config = Inr ()" "validate_bounties (\<lambda>x. x) small_config = Inr ()"
    by (simp_all add: validate_lottery_def validate_bounties_def small_config_def small_files_def empty_config_def validateWeights_def
        each_ok w64_def Let_def validate_badge_def known_def)
  moreover have "each (validate_entry (\<lambda>x. x) (\<lambda>x. x) small_config ''l'') (lpo_Entries sample_loot) = Inr ()"
    by (simp add: sample_loot_def validate_entry_def small_config_fields known_def Let_def each_ok)
  ultimately show ?thesis using small_floors_valid small_equipment_valid
    by (simp add: validate_def small_config_fields validate_marketplace_def each_ok Let_def del: upto_rec_numeral)
qed

lemma small_config_loads: "LoadDir (\<lambda>x. x) (\<lambda>x. x) small_files [] = Inr small_config"
  by (simp add: small_run small_config_valid)

lemma small_config_regular:
  "int64_quantities small_config" "\<forall>entry \<in> loot_rows small_config. supported (\<lambda>x. x) entry"
  "\<forall>(k, pool) \<in> set (cfg_AffixPools small_config). rolls_fit pool"
  by (simp_all add: int64_quantities_def loot_rows_def supported_def small_config_def sample_loot_def in_range_def i64_def
      empty_config_def ToLower_def ascii_def lower_char_def)

definition small_victory :: DungeonFinishRequest where
  "small_victory = \<lparr>fi_OpID = ''op'', fi_AccountID = 1, fi_CharacterID = 1, fi_DungeonRunID = ''run'', fi_ServerID = [],
     fi_ChapterID = 2, fi_FloorID = 30, fi_Result = ''victory'', fi_Exp = 50, fi_RewardPlan = empty_plan,
     fi_LevelProgression = \<lparr>lp_MaxLevel = 0, lp_Base = 0, lp_Linear = 0, lp_Quadratic = 0\<rparr>,
     fi_EquipmentWearPoints = 0, fi_DefaultMaxDurability = 0\<rparr>"


text \<open>
  Property C26. How a loaded configuration is keyed. Each map has one entry per key; the key of an
  item, a shop, a loot pool, an affix pool, a boss, a recipe or an equipment template is the row's own
  identifier, trimmed and not empty, and a floor's key is built from its chapter and floor numbers.
  Hence a lookup by identifier finds exactly the row that carries it, and every equipment template
  is an item of the configuration, of a configured stage, with six positive sell prices.
\<close>

theorem loaded_config_well_keyed:
  assumes "LoadDir uc quote files dir = Inr c"
  shows "well_keyed c \<and> length (cfg_Floors c) = 30 \<and>
    (\<forall>(k, template) \<in> set (eqc_ByItemID (cfg_Equipment c)). EquipmentTemplate_get c (etp_ItemID template) = Some template \<and>
       map_of (cfg_Items c) k \<noteq> None \<and> map_of (eqc_StageMultipliers (cfg_Equipment c)) (etp_Stage template) \<noteq> None \<and>
       length (etp_SellPriceGold template) = 6 \<and> (\<forall>(_, gold) \<in> set (etp_SellPriceGold template). 0 < gold))"
proof (intro conjI)
  note valid = LoadDir_valid [OF assms] and keyed = LoadDir_well_keyed [OF assms]
  show "well_keyed c" by (rule keyed)
  show "length (cfg_Floors c) = 30" by (rule validate_parts(7) [OF valid])
  have "each (validate_template quote c) (eqc_ByItemID (cfg_Equipment c)) = Inr ()"
    using validate_parts(1) [OF valid] by (simp add: validate_equipment_def Let_def)
  then have checked: "validate_template quote c (k, t) = Inr ()" if "(k, t) \<in> set (eqc_ByItemID (cfg_Equipment c))" for k t
    using that by (auto simp: each_ok)
  have templates: "keyed etp_ItemID trimmed (eqc_ByItemID (cfg_Equipment c))" and known: "stock (eqc_ByItemID (cfg_Equipment c)) (cfg_Items c)"
    using keyed by (simp_all add: well_keyed_def)
  have "EquipmentTemplate_get c (etp_ItemID t) = Some t \<and>
       map_of (cfg_Items c) k \<noteq> None \<and> map_of (eqc_StageMultipliers (cfg_Equipment c)) (etp_Stage t) \<noteq> None \<and>
       length (etp_SellPriceGold t) = 6 \<and> (\<forall>(_, gold) \<in> set (etp_SellPriceGold t). 0 < gold)"
    if row: "(k, t) \<in> set (eqc_ByItemID (cfg_Equipment c))" for k t
  proof (intro conjI)
    have "map_of (eqc_ByItemID (cfg_Equipment c)) k = Some t" by (rule keyed_get [OF templates row])
    moreover have "etp_ItemID t = k" "TrimSpace k = k" using templates row by (auto simp: keyed_def)
    ultimately show "EquipmentTemplate_get c (etp_ItemID t) = Some t" by (simp add: EquipmentTemplate_get_def)
    show "map_of (cfg_Items c) k \<noteq> None" using known row by (force simp: stock_def known_def)
    show "map_of (eqc_StageMultipliers (cfg_Equipment c)) (etp_Stage t) \<noteq> None" "length (etp_SellPriceGold t) = 6"
      using checked [OF row] by (simp_all add: validate_template_def Let_def)
    show "\<forall>(_, gold) \<in> set (etp_SellPriceGold t). 0 < gold"
      using checked [OF row] by (fastforce simp: validate_template_def Let_def each_ok)
  qed
  then show "\<forall>(k, template) \<in> set (eqc_ByItemID (cfg_Equipment c)). EquipmentTemplate_get c (etp_ItemID template) = Some template \<and>
       map_of (cfg_Items c) k \<noteq> None \<and> map_of (eqc_StageMultipliers (cfg_Equipment c)) (etp_Stage template) \<noteq> None \<and>
       length (etp_SellPriceGold template) = 6 \<and> (\<forall>(_, gold) \<in> set (etp_SellPriceGold template). 0 < gold)"
    by fast
qed

theorem loaded_config_well_keyed_witness: "well_keyed small_config \<and> length (cfg_Floors small_config) = 30"
  using loaded_config_well_keyed [OF small_config_loads] by simp

text \<open>
  Property C18. What validation does not check. The smallest configuration loads although its only lottery category
  has no items: every draw of the lottery panics.
\<close>

theorem loaded_lottery_panics:
  assumes "lawful R"
  shows "LoadDir (\<lambda>x. x) (\<lambda>x. x) small_files [] = Inr small_config \<and>
    LotteryPlan quote R small_config visits opID characterID level 1 = Inl Panic"
proof -
  have "fst (draw_IntN R g 1) = 0" for g proof -
    have "0 \<le> fst (draw_IntN R g 1) \<and> fst (draw_IntN R g 1) < 1" using assms unfolding lawful_def by (metis zero_less_one)
    then show ?thesis by linarith
  qed
  then have "weightedString R g [(''mount'', 1)] = Inr (''mount'', snd (draw_IntN R g 1))" for g
    by (simp add: weightedString_def IntN_def weight_total_def w64_def case_prod_beta)
  then have "lottery_draw quote R small_config visit opID level i g = Inl Panic" for visit i g
    by (simp add: lottery_draw_def small_config_def small_files_def empty_config_def IntN_def)
  then have "lottery_draws quote R small_config visits opID level (Suc n) 0 g = Inl Panic" for n g by simp
  then have "lottery_draws quote R small_config visits opID level (nat 1) 0 g = Inl Panic" for g by (simp add: nat_1 [simplified])
  then show ?thesis by (simp add: small_config_loads LotteryPlan_def) (simp add: small_config_def small_files_def)
qed

theorem loaded_lottery_panics_witness:
  "LotteryPlan (\<lambda>x. x) sample_rand small_config (\<lambda>_. []) ''op'' 1 1 1 = Inl Panic"
  using loaded_lottery_panics [OF sample_rand_lawful] by blast

end
