(* ===== verification/MysteryShop.thy ===== *)
theory MysteryShop
  imports ConfigProps
begin

text \<open>
  How the economy service fills a mystery shop and when a shop day begins
  (\<open>rollMysteryShopOffers\<close> and its helpers, \<open>dayRange\<close> and \<open>shopBusinessDay\<close> of
  \<open>src/internal/economy/service.go\<close>), with what a loaded configuration guarantees about the offers
  and about the days.

  The time zone database is an argument: a \<open>location\<close> is what Go's \<open>lookup\<close> answers for a Unix
  second, the offset in force and the interval it is in force for. \<open>time.Date\<close> is written out with it.
\<close>

section \<open>Days in a time zone\<close>

type_synonym location = "int \<Rightarrow> int \<times> int \<times> int"

definition Unix :: "time \<Rightarrow> int" where
  "Unix t = t div 1000000000 - 62135596800"

text \<open>The number of the local day of an instant, and the local date as text.\<close>

definition local_day :: "location \<Rightarrow> time \<Rightarrow> int" where
  "local_day loc t = (t div 1000000000 + fst (loc (Unix t))) div 86400"

definition local_date :: "location \<Rightarrow> time \<Rightarrow> string" where
  "local_date loc t = (let (y, m, d) = civil (local_day loc t) in pad 4 y @ ''-'' @ pad 2 m @ ''-'' @ pad 2 d)"

text \<open>
  \<open>time.Date(y, m, d, 0, 0, 0, 0, loc)\<close> for the day with the given number: the offset is looked up as
  if the wall clock showed UTC, and once more when that offset does not apply there.
\<close>

definition Date_midnight :: "location \<Rightarrow> int \<Rightarrow> time" where
  "Date_midnight loc day =
     (let unix = day * 86400 - 62135596800;
          (offset, since, until) = loc unix;
          utc = unix - offset;
          offset' = (if utc < since \<or> until \<le> utc then fst (loc utc) else offset)
      in nanos ((if offset \<noteq> 0 then unix - offset' else unix) + 62135596800))"

definition day_window :: "location \<Rightarrow> time \<Rightarrow> time \<times> time" where
  "day_window loc now = (let start = Date_midnight loc (local_day loc now) in (start, start + 24 * hour_nanos))"

section \<open>Rolling offers\<close>

definition unlockedMysterySlots :: "MysteryShopConfig \<Rightarrow> int \<Rightarrow> int" where
  "unlockedMysterySlots m level =
     (let unlocked = foldl (\<lambda>unlocked slot. if level \<ge> mss_UnlockLevel slot \<and> mss_SlotIndex slot > unlocked
            then mss_SlotIndex slot else unlocked) 0 (msc_Slots m)
      in if unlocked > msc_MaxSlots m then msc_MaxSlots m else unlocked)"

definition mysteryEntryLevelEligible :: "int \<Rightarrow> MysteryShopPoolEntry \<Rightarrow> bool" where
  "mysteryEntryLevelEligible level entry \<longleftrightarrow>
     \<not> (mpe_MinLevel entry > 0 \<and> level < mpe_MinLevel entry) \<and>
     \<not> (mpe_MaxLevel entry > 0 \<and> level > mpe_MaxLevel entry)"

text \<open>The scan of both choices: subtract each weight until the roll is negative.\<close>

fun scan_weighted :: "('a \<Rightarrow> int) \<Rightarrow> int \<Rightarrow> 'a list \<Rightarrow> 'a option" where
  "scan_weighted w roll [] = None"
| "scan_weighted w roll (row # rows) =
     (let roll' = w64 (roll - w row) in if roll' < 0 then Some row else scan_weighted w roll' rows)"

definition chooseMysteryPoolEntry ::
  "'g rand \<Rightarrow> 'g \<Rightarrow> MysteryShopPoolEntry list \<Rightarrow> int \<Rightarrow> (MysteryShopPoolEntry \<times> 'g) result" where
  "chooseMysteryPoolEntry R g entries level =
     (let live = filter (mysteryEntryLevelEligible level) entries; total = weight_total mpe_Weight live;
          last_entry = (\<lambda>g. if entries = [] then Inl Panic else Inr (last entries, g))
      in if total \<le> 0 then last_entry g
         else case IntN R g total of
                Inl e \<Rightarrow> Inl e
              | Inr (roll, g') \<Rightarrow>
                  case scan_weighted mpe_Weight roll live of None \<Rightarrow> last_entry g' | Some entry \<Rightarrow> Inr (entry, g'))"

definition chooseMysteryDiscount :: "'g rand \<Rightarrow> 'g \<Rightarrow> MysteryDiscount list \<Rightarrow> (int \<times> 'g) result" where
  "chooseMysteryDiscount R g discounts =
     (case IntN R g (weight_total mdi_Weight discounts) of
        Inl e \<Rightarrow> Inl e
      | Inr (roll, g') \<Rightarrow>
          Inr (case scan_weighted mdi_Weight roll discounts of None \<Rightarrow> 10000 | Some discount \<Rightarrow> mdi_Bps discount, g'))"

text \<open>\<open>seedInt64\<close> hashes the printed form of each part, followed by a zero byte.\<close>

definition seedInt64 :: "string list \<Rightarrow> 64 word" where
  "seedInt64 parts = fnv64a (concat (map (\<lambda>part. part @ [CHR 0x00]) parts))"

definition bpsAmount_up :: "int \<Rightarrow> int \<Rightarrow> int" where
  "bpsAmount_up amount bps = (if amount \<le> 0 \<or> bps \<le> 0 then 0 else w64 (w64 (amount * bps) + 9999) sdiv 10000)"

definition mystery_stream :: "64 word" where "mystery_stream = 0x9d327f92ad13c6b5"

definition offer_of :: "int \<Rightarrow> MysteryShopPoolEntry \<Rightarrow> int \<Rightarrow> MysteryShopOffer" where
  "offer_of slotIndex entry discount0 =
     (let discount = (if mpe_MinDiscount entry > 0 \<and> discount0 < mpe_MinDiscount entry
            then mpe_MinDiscount entry else discount0)
      in \<lparr>mo_SlotIndex = slotIndex, mo_ItemID = TrimSpace (mpe_ItemID entry), mo_Quantity = mpe_Quantity entry,
          mo_Rarity = mpe_Rarity entry,
          mo_GoldPrice = if mpe_BaseGold entry > 0 then bpsAmount_up (mpe_BaseGold entry) discount else 0,
          mo_TokenPrice = if mpe_BaseToken entry > 0 then bpsAmount_up (mpe_BaseToken entry) discount else 0,
          mo_DiscountBps = discount, mo_Purchased = False\<rparr>)"

fun roll_slots ::
  "'g rand \<Rightarrow> MysteryDiscount list \<Rightarrow> int \<Rightarrow> int \<Rightarrow> MysteryShopSlot list \<Rightarrow> 'g \<Rightarrow> MysteryShopOffer list result" where
  "roll_slots R discounts unlocked level [] g = Inr []"
| "roll_slots R discounts unlocked level (slot # slots) g =
     (if mss_SlotIndex slot > unlocked \<or> level < mss_UnlockLevel slot
      then roll_slots R discounts unlocked level slots g
      else case chooseMysteryPoolEntry R g (mss_Pools slot) level of
             Inl e \<Rightarrow> Inl e
           | Inr (entry, g1) \<Rightarrow>
               case chooseMysteryDiscount R g1 discounts of
                 Inl e \<Rightarrow> Inl e
               | Inr (discount, g2) \<Rightarrow>
                   case roll_slots R discounts unlocked level slots g2 of
                     Inl e \<Rightarrow> Inl e
                   | Inr offers \<Rightarrow> Inr (offer_of (mss_SlotIndex slot) entry discount # offers))"

definition rollMysteryShopOffers ::
  "'g rand \<Rightarrow> MysteryShopConfig \<Rightarrow> int \<Rightarrow> int \<Rightarrow> time \<Rightarrow> MysteryShopOffer list result" where
  "rollMysteryShopOffers R m level characterID now =
     roll_slots R (msc_Discounts m) (unlockedMysterySlots m level) level (msc_Slots m)
       (NewPCG R (seedInt64 [''mystery'', FormatInt characterID, FormatInt (Unix now), FormatInt level]) mystery_stream)"

definition mysteryOffersSoldOut :: "MysteryShopOffer list \<Rightarrow> bool" where
  "mysteryOffersSoldOut offers \<longleftrightarrow> offers = [] \<or> list_all mo_Purchased offers"

section \<open>Choices\<close>

lemma scan_weighted_in: "scan_weighted w roll rows = Some row \<Longrightarrow> row \<in> set rows"
  by (induction rows arbitrary: roll) (auto simp: Let_def split: if_splits)

lemma chooseMysteryPoolEntry_in:
  assumes "entries \<noteq> []"
  obtains entry g' where "chooseMysteryPoolEntry R g entries level = Inr (entry, g')" "entry \<in> set entries"
proof -
  let ?live = "filter (mysteryEntryLevelEligible level) entries"
  define total where "total = weight_total mpe_Weight ?live"
  obtain roll h where draw: "draw_IntN R g total = (roll, h)" by fastforce
  show ?thesis
  proof (cases "total \<le> 0 \<or> scan_weighted mpe_Weight roll ?live = None")
    case True
    then have "\<exists>g'. chooseMysteryPoolEntry R g entries level = Inr (last entries, g')"
      using assms draw by (auto simp: chooseMysteryPoolEntry_def Let_def IntN_def total_def)
    then show ?thesis using that assms last_in_set by blast
  next
    case False
    then obtain entry where entry: "scan_weighted mpe_Weight roll ?live = Some entry" by blast
    then have "chooseMysteryPoolEntry R g entries level = Inr (entry, h)"
      using False draw by (simp add: chooseMysteryPoolEntry_def Let_def IntN_def flip: total_def)
    then show ?thesis using that scan_weighted_in [OF entry] by simp
  qed
qed

lemma scan_weighted_hits:
  assumes "\<And>row. row \<in> set rows \<Longrightarrow> 0 < w row" "0 \<le> roll" "roll < sum_list (map w rows)" "sum_list (map w rows) < 2 ^ 63"
  obtains row where "scan_weighted w roll rows = Some row"
  using assms
proof (induction rows arbitrary: roll thesis)
  case (Cons r rows)
  have r: "0 < w r" and rest: "0 \<le> sum_list (map w rows)"
    using Cons.prems(2) by (auto intro!: sum_list_nonneg simp: less_imp_le)
  then have eq: "w64 (roll - w r) = roll - w r"
    using Cons.prems(3-5) by (intro w64_id) (simp add: i64_def)
  show ?case
  proof (cases "roll < w r")
    case True
    then show ?thesis using Cons.prems(1) eq by (simp add: Let_def)
  next
    case False
    obtain row where "scan_weighted w (roll - w r) rows = Some row"
      using Cons.IH [of "roll - w r"] Cons.prems r False by fastforce
    then show ?thesis using False Cons.prems(1) [of row] by (simp add: eq)
  qed
qed simp

text \<open>With weights that fit, an entry the level is eligible for is chosen whenever there is one.\<close>

lemma chooseMysteryPoolEntry_eligible:
  assumes "lawful R" "\<And>entry. entry \<in> set entries \<Longrightarrow> 0 < mpe_Weight entry"
    "sum_list (map mpe_Weight entries) < 2 ^ 63" "\<exists>entry \<in> set entries. mysteryEntryLevelEligible level entry"
    "chooseMysteryPoolEntry R g entries level = Inr (entry, g')"
  shows "mysteryEntryLevelEligible level entry"
proof -
  define live where "live = filter (mysteryEntryLevelEligible level) entries"
  have live: "live \<noteq> []" "\<And>row. row \<in> set live \<Longrightarrow> 0 < mpe_Weight row"
    using assms(2,4) by (auto simp: live_def filter_empty_conv)
  have "sum_list (map mpe_Weight live) \<le> sum_list (map mpe_Weight entries)"
    using assms(2) unfolding live_def by (induction entries) (auto intro: add_increasing simp: less_imp_le)
  then have small: "sum_list (map mpe_Weight live) < 2 ^ 63" using assms(3) by simp
  then have total: "weight_total mpe_Weight live = sum_list (map mpe_Weight live)"
    using live(2) by (intro weight_total_eq) (auto simp: less_imp_le)
  have pos: "0 < sum_list (map mpe_Weight live)"
    using live by (cases live) (auto intro!: add_pos_nonneg sum_list_nonneg simp: less_imp_le)
  obtain roll h where roll: "IntN R g (sum_list (map mpe_Weight live)) = Inr (roll, h)" "0 \<le> roll"
    "roll < sum_list (map mpe_Weight live)"
    using IntN_lawful [OF assms(1) pos] by blast
  obtain row where row: "scan_weighted mpe_Weight roll live = Some row"
    using scan_weighted_hits [OF live(2) roll(2,3) small] by blast
  have "chooseMysteryPoolEntry R g entries level = Inr (row, h)"
    using pos roll row by (simp add: chooseMysteryPoolEntry_def total flip: live_def)
  then show ?thesis using assms(5) scan_weighted_in [OF row] by (simp add: live_def)
qed

lemma chooseMysteryDiscount_in:
  assumes "0 < weight_total mdi_Weight discounts"
  obtains bps g' where "chooseMysteryDiscount R g discounts = Inr (bps, g')" "bps \<in> insert 10000 (mdi_Bps ` set discounts)"
proof -
  obtain roll h where "draw_IntN R g (weight_total mdi_Weight discounts) = (roll, h)" by fastforce
  then have "chooseMysteryDiscount R g discounts =
      Inr (case scan_weighted mdi_Weight roll discounts of None \<Rightarrow> 10000 | Some discount \<Rightarrow> mdi_Bps discount, h)"
    using assms by (simp add: chooseMysteryDiscount_def IntN_def)
  then show ?thesis
    by (rule that) (auto dest!: scan_weighted_in split: option.split)
qed

lemma chooseMysteryDiscount_listed:
  assumes "lawful R" "\<And>discount. discount \<in> set discounts \<Longrightarrow> 0 < mdi_Weight discount" "discounts \<noteq> []"
    "sum_list (map mdi_Weight discounts) < 2 ^ 63" "chooseMysteryDiscount R g discounts = Inr (bps, g')"
  shows "bps \<in> mdi_Bps ` set discounts"
proof -
  have total: "weight_total mdi_Weight discounts = sum_list (map mdi_Weight discounts)"
    using assms(2,4) by (intro weight_total_eq) (auto simp: less_imp_le)
  have pos: "0 < sum_list (map mdi_Weight discounts)"
    using assms(2,3) by (cases discounts) (auto intro!: add_pos_nonneg sum_list_nonneg simp: less_imp_le)
  obtain roll h where roll: "IntN R g (sum_list (map mdi_Weight discounts)) = Inr (roll, h)" "0 \<le> roll"
    "roll < sum_list (map mdi_Weight discounts)"
    using IntN_lawful [OF assms(1) pos] by blast
  obtain row where row: "scan_weighted mdi_Weight roll discounts = Some row"
    using scan_weighted_hits [OF assms(2) roll(2,3) assms(4)] by blast
  have "bps = mdi_Bps row" using assms(5) roll(1) row by (simp add: chooseMysteryDiscount_def total)
  then show ?thesis using scan_weighted_in [OF row] by simp
qed

section \<open>What a validated mystery shop offers\<close>

lemma each_after_distinct:
  assumes "each_after f seen rows = Inr u" "\<And>before row. f before row = Inr () \<Longrightarrow> key row \<notin> key ` set before"
  shows "distinct (map key rows) \<and> key ` set rows \<inter> key ` set seen = {}"
  using assms(1)
proof (induction rows arbitrary: seen)
  case (Cons row rows)
  then have "f seen row = Inr ()" "each_after f (row # seen) rows = Inr u" by (auto split: sum.splits)
  with Cons.IH [OF this(2)] assms(2) [OF this(1)] show ?case by auto
qed simp

lemma validated_mystery:
  assumes "validate uc quote c = Inr ()" "Shop_get c shopID = Some shop" "shp_Mystery shop = Some m"
  shows "validate_mystery quote c (TrimSpace shopID) m = Inr ()"
proof -
  have "(TrimSpace shopID, shop) \<in> set (cfg_Shops c)" using assms(2) by (auto simp: Shop_get_def dest: map_of_SomeD)
  moreover have "each (validate_shop quote c) (cfg_Shops c) = Inr ()" using assms(1) by (simp add: validate_def)
  ultimately have "validate_shop quote c (TrimSpace shopID, shop) = Inr ()" by (auto simp: each_ok)
  then show ?thesis using assms(3) by (simp add: validate_shop_def)
qed

lemma mystery_parts:
  assumes "validate_mystery quote c shopID m = Inr ()"
  shows "0 < weight_total mdi_Weight (msc_Discounts m)"
    "\<And>discount. discount \<in> set (msc_Discounts m) \<Longrightarrow> 0 < mdi_Bps discount \<and> mdi_Bps discount \<le> 10000 \<and> 0 < mdi_Weight discount"
    "distinct (map mss_SlotIndex (msc_Slots m))"
    "\<And>slot. slot \<in> set (msc_Slots m) \<Longrightarrow> mss_SlotIndex slot \<le> msc_MaxSlots m \<and> mss_Pools slot \<noteq> []"
    "\<And>slot entry. slot \<in> set (msc_Slots m) \<Longrightarrow> entry \<in> set (mss_Pools slot) \<Longrightarrow>
       validate_mystery_entry quote c shopID slot entry = Inr ()"
proof -
  have slots: "each_after (validate_mystery_slot quote c shopID m) [] (msc_Slots m) = Inr ()"
    using assms by (simp add: validate_mystery_def Let_def)
  show "0 < weight_total mdi_Weight (msc_Discounts m)"
    using assms by (simp add: validate_mystery_def Let_def total64_def weight_total_def)
  show "0 < mdi_Bps discount \<and> mdi_Bps discount \<le> 10000 \<and> 0 < mdi_Weight discount" if "discount \<in> set (msc_Discounts m)" for discount
    using assms that by (auto simp: validate_mystery_def Let_def each_ok)
  show "distinct (map mss_SlotIndex (msc_Slots m))"
    using each_after_distinct [OF slots, of mss_SlotIndex] by (auto simp: validate_mystery_slot_def Let_def)
  show "mss_SlotIndex slot \<le> msc_MaxSlots m \<and> mss_Pools slot \<noteq> []" if "slot \<in> set (msc_Slots m)" for slot
    using each_after_ok [OF slots that] by (auto simp: validate_mystery_slot_def Let_def)
  show "validate_mystery_entry quote c shopID slot entry = Inr ()"
    if "slot \<in> set (msc_Slots m)" "entry \<in> set (mss_Pools slot)" for slot entry
    using each_after_ok [OF slots that(1)] that(2) by (auto simp: validate_mystery_slot_def Let_def each_ok)
qed

lemma unlocked_at_least:
  fixes slots :: "MysteryShopSlot list"
  defines "grow \<equiv> \<lambda>level unlocked slot. if level \<ge> mss_UnlockLevel slot \<and> mss_SlotIndex slot > unlocked
    then mss_SlotIndex slot else (unlocked :: int)"
  shows "slot \<in> set slots \<Longrightarrow> mss_UnlockLevel slot \<le> level \<Longrightarrow> mss_SlotIndex slot \<le> foldl (grow level) n slots"
    and "n \<le> foldl (grow level) n slots"
proof -
  have le: "n \<le> foldl (grow level) n slots" for n slots
  proof (induction slots arbitrary: n)
    case (Cons slot slots)
    have "n \<le> grow level n slot" by (simp add: grow_def)
    also note Cons.IH [of "grow level n slot"]
    finally show ?case by simp
  qed simp
  then show "n \<le> foldl (grow level) n slots" .
  show "mss_SlotIndex slot \<le> foldl (grow level) n slots" if "slot \<in> set slots" "mss_UnlockLevel slot \<le> level"
    using that
  proof (induction slots arbitrary: n)
    case (Cons row slots)
    show ?case
    proof (cases "row = slot")
      case True
      have "mss_SlotIndex slot \<le> grow level n slot" using Cons.prems(2) by (simp add: grow_def)
      also note le [of "grow level n slot" slots]
      finally show ?thesis using True by simp
    qed (use Cons in auto)
  qed simp
qed

lemma slot_unlocked:
  assumes "slot \<in> set (msc_Slots m)" "mss_UnlockLevel slot \<le> level" "mss_SlotIndex slot \<le> msc_MaxSlots m"
  shows "mss_SlotIndex slot \<le> unlockedMysterySlots m level"
  using unlocked_at_least(1) [OF assms(1,2), of 0] assms(3) by (auto simp: unlockedMysterySlots_def Let_def)

lemma bpsAmount_up_bounds:
  assumes "0 < p" "p \<le> max_price" "0 < b" "b \<le> 10000"
  shows "0 < bpsAmount_up p b" "bpsAmount_up p b \<le> p" "p * b \<le> 10000 * bpsAmount_up p b"
    "10000 * (bpsAmount_up p b - 1) < p * b"
proof -
  have eq: "bpsAmount_up p b = (p * b + 9999) div 10000"
    using assms bps_product [of p b] by (simp add: bpsAmount_up_def w64_nonneg sdiv_nonneg)
  have "1 \<le> p * b" using mult_pos_pos [OF assms(1,3)] by simp
  then show "0 < bpsAmount_up p b" unfolding eq by linarith
  have "p * b \<le> p * 10000" using assms by (intro mult_left_mono) auto
  then show "bpsAmount_up p b \<le> p" unfolding eq by linarith
  show "p * b \<le> 10000 * bpsAmount_up p b" unfolding eq by linarith
  have "10000 * ((p * b + 9999) div 10000) \<le> p * b + 9999" by simp
  then show "10000 * (bpsAmount_up p b - 1) < p * b" unfolding eq by simp
qed

text \<open>
  A fair price is the base price reduced by the discount and rounded up to the next whole unit, so
  positive and not above the base price, and zero without a base price.
\<close>

definition fair_price :: "int \<Rightarrow> int \<Rightarrow> int \<Rightarrow> bool" where
  "fair_price base bps price \<longleftrightarrow>
     (if base > 0 then 0 < price \<and> price \<le> base \<and> base * bps \<le> 10000 * price \<and> 10000 * (price - 1) < base * bps
      else price = 0)"

text \<open>
  The discount of a draw: one of the configured list, or none at all when the weights of the list
  overflow 64 bits.
\<close>

definition drawn_discount :: "MysteryDiscount list \<Rightarrow> int \<Rightarrow> bool" where
  "drawn_discount discounts bps \<longleftrightarrow> bps \<in> mdi_Bps ` set discounts \<or>
     2 ^ 63 \<le> sum_list (map mdi_Weight discounts) \<and> bps = 10000"

text \<open>
  What an offer made from an entry of the pool promises. The prices are those of 64-bit arithmetic;
  they are fair for base prices up to \<open>max_price\<close>. The eligibility of the entry is promised where the
  weights of the pool fit.
\<close>

definition offers_entry ::
  "Config \<Rightarrow> MysteryShopConfig \<Rightarrow> int \<Rightarrow> MysteryShopPoolEntry list \<Rightarrow> MysteryShopPoolEntry \<Rightarrow> MysteryShopOffer \<Rightarrow> bool" where
  "offers_entry c m level pool entry offer \<longleftrightarrow>
     mo_ItemID offer = TrimSpace (mpe_ItemID entry) \<and> mo_Quantity offer = mpe_Quantity entry \<and>
     0 < mo_Quantity offer \<and> mo_Rarity offer = mpe_Rarity entry \<and>
     (sum_list (map mpe_Weight pool) < 2 ^ 63 \<longrightarrow>
        mysteryEntryLevelEligible level entry \<or> \<not> (\<exists>other \<in> set pool. mysteryEntryLevelEligible level other)) \<and>
     (\<exists>bps. drawn_discount (msc_Discounts m) bps \<and> mo_DiscountBps offer = max bps (mpe_MinDiscount entry)) \<and>
     0 < mo_DiscountBps offer \<and> mo_DiscountBps offer \<le> 10000 \<and>
     mo_GoldPrice offer = (if mpe_BaseGold entry > 0 then bpsAmount_up (mpe_BaseGold entry) (mo_DiscountBps offer) else 0) \<and>
     mo_TokenPrice offer = (if mpe_BaseToken entry > 0 then bpsAmount_up (mpe_BaseToken entry) (mo_DiscountBps offer) else 0) \<and>
     (mpe_BaseGold entry \<le> max_price \<longrightarrow> fair_price (mpe_BaseGold entry) (mo_DiscountBps offer) (mo_GoldPrice offer)) \<and>
     (mpe_BaseToken entry \<le> max_price \<longrightarrow> fair_price (mpe_BaseToken entry) (mo_DiscountBps offer) (mo_TokenPrice offer)) \<and>
     (0 < mpe_BaseGold entry \<or> 0 < mpe_BaseToken entry) \<and>
     (\<exists>item. map_of (cfg_Items c) (mo_ItemID offer) = Some item \<and>
        (mysteryEntryRequiresToken item (mo_ItemID offer) \<longrightarrow> 0 < mpe_BaseToken entry))"

definition offered :: "Config \<Rightarrow> MysteryShopConfig \<Rightarrow> int \<Rightarrow> MysteryShopSlot \<Rightarrow> MysteryShopOffer \<Rightarrow> bool" where
  "offered c m level slot offer \<longleftrightarrow> mo_SlotIndex offer = mss_SlotIndex slot \<and> \<not> mo_Purchased offer \<and>
     (\<exists>entry \<in> set (mss_Pools slot). offers_entry c m level (mss_Pools slot) entry offer)"

lemma offer_of_offered:
  assumes "validate_mystery_entry quote c shopID slot entry = Inr ()" "entry \<in> set (mss_Pools slot)"
    "drawn_discount (msc_Discounts m) bps" "0 < bps" "bps \<le> 10000"
    "sum_list (map mpe_Weight (mss_Pools slot)) < 2 ^ 63 \<longrightarrow>
       mysteryEntryLevelEligible level entry \<or> \<not> (\<exists>other \<in> set (mss_Pools slot). mysteryEntryLevelEligible level other)"
  shows "offered c m level slot (offer_of (mss_SlotIndex slot) entry bps)"
proof -
  define d where "d = max bps (mpe_MinDiscount entry)"
  obtain item where item: "map_of (cfg_Items c) (TrimSpace (mpe_ItemID entry)) = Some item"
    "mysteryEntryRequiresToken item (TrimSpace (mpe_ItemID entry)) \<longrightarrow> 0 < mpe_BaseToken entry"
    using assms(1) by (auto simp: validate_mystery_entry_def Let_def split: option.splits)
  have entry: "0 < mpe_Quantity entry" "0 < mpe_BaseGold entry \<or> 0 < mpe_BaseToken entry" "mpe_MinDiscount entry \<le> 10000"
    using assms(1) by (auto simp: validate_mystery_entry_def Let_def)
  have d: "0 < d" "d \<le> 10000" using assms(4,5) entry(3) by (auto simp: d_def)
  have fair: "fair_price b d (if b > 0 then bpsAmount_up b d else 0)" if "b \<le> max_price" for b
    using bpsAmount_up_bounds [of b d] that d by (simp add: fair_price_def)
  have clamp: "(if mpe_MinDiscount entry > 0 \<and> bps < mpe_MinDiscount entry then mpe_MinDiscount entry else bps) = d"
    using assms(4) by (auto simp: d_def)
  have offer: "offer_of (mss_SlotIndex slot) entry bps = \<lparr>mo_SlotIndex = mss_SlotIndex slot,
      mo_ItemID = TrimSpace (mpe_ItemID entry), mo_Quantity = mpe_Quantity entry, mo_Rarity = mpe_Rarity entry,
      mo_GoldPrice = if mpe_BaseGold entry > 0 then bpsAmount_up (mpe_BaseGold entry) d else 0,
      mo_TokenPrice = if mpe_BaseToken entry > 0 then bpsAmount_up (mpe_BaseToken entry) d else 0,
      mo_DiscountBps = d, mo_Purchased = False\<rparr>"
    unfolding offer_of_def Let_def clamp ..
  have draw: "\<exists>b. drawn_discount (msc_Discounts m) b \<and> d = max b (mpe_MinDiscount entry)"
    using assms(3) d_def by blast
  have "offers_entry c m level (mss_Pools slot) entry (offer_of (mss_SlotIndex slot) entry bps)"
    unfolding offers_entry_def offer MysteryShopOffer.simps
    by (intro conjI) (use assms(6) draw entry d item fair in simp_all)
  then show ?thesis using assms(2) by (auto simp: offered_def offer)
qed

lemma roll_slots_offered:
  assumes "lawful R" "validate_mystery quote c shopID m = Inr ()" "set slots \<subseteq> set (msc_Slots m)"
  shows "\<exists>offers. roll_slots R (msc_Discounts m) (unlockedMysterySlots m level) level slots g = Inr offers \<and>
    list_all2 (offered c m level) (filter (\<lambda>slot. mss_UnlockLevel slot \<le> level) slots) offers"
  using assms(3)
proof (induction slots arbitrary: g)
  case (Cons slot slots)
  note parts = mystery_parts [OF assms(2)]
  have slot: "slot \<in> set (msc_Slots m)" and IH: "\<And>g. \<exists>offers. roll_slots R (msc_Discounts m) (unlockedMysterySlots m level) level slots g = Inr offers \<and>
    list_all2 (offered c m level) (filter (\<lambda>slot. mss_UnlockLevel slot \<le> level) slots) offers" using Cons by auto
  show ?case
  proof (cases "mss_UnlockLevel slot \<le> level")
    case True
    obtain entry g1 where entry: "chooseMysteryPoolEntry R g (mss_Pools slot) level = Inr (entry, g1)" "entry \<in> set (mss_Pools slot)"
      using chooseMysteryPoolEntry_in parts(4) [OF slot] by metis
    obtain bps g2 where bps: "chooseMysteryDiscount R g1 (msc_Discounts m) = Inr (bps, g2)"
      "bps \<in> insert 10000 (mdi_Bps ` set (msc_Discounts m))"
      using chooseMysteryDiscount_in [OF parts(1)] by metis
    then have range: "0 < bps" "bps \<le> 10000" using parts(2) by auto
    have "msc_Discounts m \<noteq> []" using parts(1) by (auto simp: weight_total_def)
    then have "bps \<in> mdi_Bps ` set (msc_Discounts m)" if "sum_list (map mdi_Weight (msc_Discounts m)) < 2 ^ 63"
      using chooseMysteryDiscount_listed [OF assms(1) _ _ that bps(1)] parts(2) by blast
    then have drawn: "drawn_discount (msc_Discounts m) bps"
      unfolding drawn_discount_def using bps(2) by (meson insertE linorder_not_le)
    have weights: "0 < mpe_Weight other" if "other \<in> set (mss_Pools slot)" for other
      using parts(5) [OF slot that] by (simp add: validate_mystery_entry_def Let_def)
    have "sum_list (map mpe_Weight (mss_Pools slot)) < 2 ^ 63 \<longrightarrow>
        mysteryEntryLevelEligible level entry \<or> \<not> (\<exists>other \<in> set (mss_Pools slot). mysteryEntryLevelEligible level other)"
      using chooseMysteryPoolEntry_eligible [OF assms(1) weights _ _ entry(1)] by blast
    from offer_of_offered [OF parts(5) [OF slot entry(2)] entry(2) drawn range this]
    have "offered c m level slot (offer_of (mss_SlotIndex slot) entry bps)" .
    moreover obtain offers where "roll_slots R (msc_Discounts m) (unlockedMysterySlots m level) level slots g2 = Inr offers"
      "list_all2 (offered c m level) (filter (\<lambda>slot. mss_UnlockLevel slot \<le> level) slots) offers" using IH by blast
    ultimately show ?thesis
      using True slot_unlocked [OF slot True] parts(4) [OF slot] entry(1) bps(1) by simp
  qed (use IH in simp)
qed simp


lemma small_mystery_shop:
  "Shop_get small_config ''m'' = Some ((small_shop ''m'')\<lparr>shp_Mystery := Some small_mystery\<rparr>)"
  by (simp add: Shop_get_def small_config_fields small_shops_def)


text \<open>Above \<open>max_price\<close> the product of price and basis points may wrap: a full price of \<open>10 ^ 15\<close> becomes negative.\<close>

lemma large_price_negative: "bpsAmount_up 1000000000000000 10000 = - 844674407370954"
  by (simp add: bpsAmount_up_def w64_def signed_divide_int_def)

section \<open>Shop days\<close>

text \<open>
  In a zone whose offset does not change (such as the default, \<open>Asia/Shanghai\<close>) every instant lies in
  the window of its day, and the windows of two instants are the same or do not meet.
\<close>

lemma fixed_zone_midnight:
  assumes "\<And>u. fst (loc u) = off"
  shows "Date_midnight loc day = nanos (day * 86400 - off)"
  using assms [of "day * 86400 - 62135596800"] assms [of "day * 86400 - 62135596800 - off"]
  by (auto simp: Date_midnight_def Let_def nanos_def split: prod.splits)

lemma day_windows_tile:
  assumes "\<And>u. fst (loc u) = off"
  shows "fst (day_window loc now) \<le> now" "now < snd (day_window loc now)"
    "day_window loc other = day_window loc now \<or> snd (day_window loc other) \<le> fst (day_window loc now) \<or>
     snd (day_window loc now) \<le> fst (day_window loc other)"
proof -
  have window: "day_window loc t = (nanos ((t div 1000000000 + off) div 86400 * 86400 - off),
      nanos ((t div 1000000000 + off) div 86400 * 86400 - off + 86400))" for t
    by (simp add: day_window_def fixed_zone_midnight [OF assms] local_day_def assms hour_nanos_def nanos_def Let_def)
  show "fst (day_window loc now) \<le> now" "now < snd (day_window loc now)"
    unfolding window by (simp_all add: nanos_def)
  show "day_window loc other = day_window loc now \<or> snd (day_window loc other) \<le> fst (day_window loc now) \<or>
     snd (day_window loc now) \<le> fst (day_window loc other)"
    unfolding window nanos_def
    by (cases "(other div 1000000000 + off) div 86400" "(now div 1000000000 + off) div 86400" rule: linorder_cases) auto
qed

text \<open>
  Where clocks are set back, a day has 25 hours and its last hour lies outside the window, because
  the end is computed as 24 hours after the start. Here clocks go back one hour at Unix second 7200.
\<close>

definition set_back :: location where
  "set_back u = (if u < 7200 then (3600, - 1000000, 7200) else (0, 7200, 1000000))"

lemma long_day_misses_last_hour:
  "let now = unix_epoch + nanos 84000 in
   local_day set_back now = local_day set_back (unix_epoch + nanos 3600) \<and> snd (day_window set_back now) < now"
  by (simp add: Let_def local_day_def day_window_def Date_midnight_def set_back_def Unix_def unix_epoch_def nanos_def hour_nanos_def)

end
