(* ===== verification/EconomyService.thy ===== *)
theory EconomyService
  imports EconomyRepository MysteryShop EquipmentView
begin

text \<open>
  The economy service (\<open>src/internal/economy/service.go\<close>) over any repository: it looks prices, costs
  and rewards up in the configuration, passes them to the repository with the request, and resolves
  the levels and equipment of what comes back.

  A call returns the state of the repository, also when it fails, and a result. What the service
  takes from elsewhere is the record \<open>econ_lib\<close>: case mapping, quoting, the random generator,
  floating-point arithmetic, the time zone database and the visiting orders of the template map.
  The calls that only hand a request to the marketplace, to NFT minting or to the chain are left out.
\<close>

section \<open>Service and environment\<close>

record 'g econ_lib =
  X_case :: "string \<Rightarrow> string"
  X_quote :: "string \<Rightarrow> string"
  X_rand :: "'g rand"
  X_float :: float_ops
  X_zone :: "string \<Rightarrow> location result"
  X_visits :: "int \<Rightarrow> (string \<times> EquipmentTemplate) list"

record 's EconService =
  es_SolanaDepositWallet :: string
  es_limits :: limits
  es_store :: "'s Repository"
  es_economyRules :: "Config option"
  es_rulesErr :: "err option"

definition NewEconService ::
  "(string \<Rightarrow> string) \<Rightarrow> (string \<Rightarrow> string) \<Rightarrow> (string \<Rightarrow> economy_files) \<Rightarrow> string \<Rightarrow> string \<Rightarrow> limits \<Rightarrow> 's Repository \<Rightarrow>
   's EconService" where
  "NewEconService uc quote files economyConfigDir depositWallet lms repo =
     (let loaded = LoadDir uc quote files economyConfigDir
      in \<lparr>es_SolanaDepositWallet = depositWallet, es_limits = lms, es_store = repo,
          es_economyRules = (case loaded of Inl _ \<Rightarrow> None | Inr c \<Rightarrow> Some c),
          es_rulesErr = (case loaded of Inl e \<Rightarrow> Some e | Inr _ \<Rightarrow> None)\<rparr>)"

definition Service_Ready :: "'s EconService \<Rightarrow> unit result" where
  "Service_Ready sv = (case es_rulesErr sv of None \<Rightarrow> Inr () | Some e \<Rightarrow> Inl e)"

text \<open>
  The guard of most calls; the configuration is missing only when loading it failed.
\<close>

definition with_rules :: "'s EconService \<Rightarrow> 's \<Rightarrow> (Config \<Rightarrow> 's \<times> 'b result) \<Rightarrow> 's \<times> 'b result" where
  "with_rules sv s k =
     (case es_rulesErr sv of
        Some e \<Rightarrow> (s, Inl e)
      | None \<Rightarrow> case es_economyRules sv of None \<Rightarrow> (s, Inl Panic) | Some c \<Rightarrow> k c)"

section \<open>Resolving what comes back\<close>

fun resolve_items :: "'g econ_lib \<Rightarrow> Config \<Rightarrow> EquipmentItem list \<Rightarrow> EquipmentItem list result" where
  "resolve_items L c [] = Inr []"
| "resolve_items L c (item # items) =
     (case ResolveEquipmentItem (X_quote L) (X_float L) c item of
        Inl e \<Rightarrow> Inl e
      | Inr resolved \<Rightarrow> case resolve_items L c items of Inl e \<Rightarrow> Inl e | Inr rest \<Rightarrow> Inr (resolved # rest))"

definition resolveSnapshot :: "'g econ_lib \<Rightarrow> 's EconService \<Rightarrow> EconomySnapshot \<Rightarrow> EconomySnapshot result" where
  "resolveSnapshot L sv snapshot =
     (case es_economyRules sv of
        None \<Rightarrow> (case es_rulesErr sv of None \<Rightarrow> Inr snapshot | Some e \<Rightarrow> Inl e)
      | Some c \<Rightarrow>
          let progress = Config_LevelProgress c (sn_Level snapshot) (sn_Exp snapshot)
          in case resolve_items L c (sn_Equipment snapshot) of
               Inl e \<Rightarrow> Inl e
             | Inr items \<Rightarrow> Inr (snapshot\<lparr>sn_BagSlots := EffectiveBagSlots c (sn_BagExpandCount snapshot),
                 sn_Level := pg_Level progress, sn_ExpToNextLevel := pg_ExpToNextLevel progress,
                 sn_Equipment := items\<rparr>))"

definition resolved :: "'g econ_lib \<Rightarrow> 's EconService \<Rightarrow> 's \<times> EconomySnapshot result \<Rightarrow> 's \<times> EconomySnapshot result" where
  "resolved L sv p = then_do p (\<lambda>s snapshot. (s, resolveSnapshot L sv snapshot))"

definition rewardProgress :: "DungeonRewards \<Rightarrow> EconomySnapshot \<Rightarrow> DungeonRewards" where
  "rewardProgress rewards snapshot =
     rewards\<lparr>rw_Level := sn_Level snapshot, rw_ExpToNextLevel := sn_ExpToNextLevel snapshot\<rparr>"

definition resolveDungeonResult :: "'g econ_lib \<Rightarrow> 's EconService \<Rightarrow> DungeonResult \<Rightarrow> DungeonResult result" where
  "resolveDungeonResult L sv result =
     (case resolveSnapshot L sv (du_Snapshot result) of
        Inl e \<Rightarrow> Inl e
      | Inr snapshot \<Rightarrow>
          let rewards = rewardProgress (du_Rewards result) snapshot;
              items = (case es_economyRules sv of
                  None \<Rightarrow> if rw_EquipmentItems rewards = [] then Inr [] else Inl Panic
                | Some c \<Rightarrow> resolve_items L c (rw_EquipmentItems rewards))
          in case items of
               Inl e \<Rightarrow> Inl e
             | Inr equipment \<Rightarrow> Inr (result\<lparr>du_Snapshot := snapshot,
                 du_Rewards := rewards\<lparr>rw_EquipmentItems := equipment\<rparr>\<rparr>))"

section \<open>Snapshots, items and equipment\<close>

definition Service_Snapshot :: "'g econ_lib \<Rightarrow> 's EconService \<Rightarrow> 's \<Rightarrow> int \<Rightarrow> int \<Rightarrow> 's \<times> EconomySnapshot result" where
  "Service_Snapshot L sv s accountID characterID =
     resolved L sv (r_EconomySnapshot (es_store sv) s accountID characterID)"

definition Service_WarehouseDeposit where
  "Service_WarehouseDeposit L sv s req = resolved L sv (r_WarehouseDeposit (r_items (es_store sv)) s req)"

definition Service_WarehouseWithdraw where
  "Service_WarehouseWithdraw L sv s req = resolved L sv (r_WarehouseWithdraw (r_items (es_store sv)) s req)"

definition Service_EquipItem where
  "Service_EquipItem L sv s req = resolved L sv (r_EquipItem (r_items (es_store sv)) s req)"

definition Service_UnequipItem where
  "Service_UnequipItem L sv s req = resolved L sv (r_UnequipItem (r_items (es_store sv)) s req)"

definition Service_LootClaim where
  "Service_LootClaim L sv s req = resolved L sv (r_LootClaim (r_items (es_store sv)) s req)"

definition Service_LootClaimAll where
  "Service_LootClaimAll L sv s req = resolved L sv (r_LootClaimAll (r_items (es_store sv)) s req)"

definition Service_LootDiscard where
  "Service_LootDiscard L sv s req = resolved L sv (r_LootDiscard (r_items (es_store sv)) s req)"

definition Service_InventoryDiscard where
  "Service_InventoryDiscard L sv s req = resolved L sv (r_InventoryDiscard (r_items (es_store sv)) s req)"

definition Service_InventoryOrganize ::
  "'g econ_lib \<Rightarrow> 's EconService \<Rightarrow> 's \<Rightarrow> EconomyActionRequest \<Rightarrow> 's \<times> EconomySnapshot result" where
  "Service_InventoryOrganize L sv s req =
     then_do (case es_economyRules sv of
         None \<Rightarrow> (s, Inr 25)
       | Some c \<Rightarrow> then_do (r_EconomySnapshot (es_store sv) s (eac_AccountID req) (eac_CharacterID req))
           (\<lambda>s snap. (s, Inr (EffectiveBagSlots c (sn_BagExpandCount snap)))))
       (\<lambda>s bagSlots. resolved L sv (r_InventoryOrganize (r_items (es_store sv)) s req bagSlots))"

definition Service_WarehouseOrganize ::
  "'g econ_lib \<Rightarrow> 's EconService \<Rightarrow> 's \<Rightarrow> EconomyActionRequest \<Rightarrow> 's \<times> EconomySnapshot result" where
  "Service_WarehouseOrganize L sv s req =
     resolved L sv (r_WarehouseOrganize (r_items (es_store sv)) s req
       (case es_economyRules sv of None \<Rightarrow> 50 | Some c \<Rightarrow> WarehouseSlots c))"

definition Service_Synthesize ::
  "'g econ_lib \<Rightarrow> 's EconService \<Rightarrow> 's \<Rightarrow> SynthesizeRequest \<Rightarrow> 's \<times> EconomySnapshot result" where
  "Service_Synthesize L sv s req0 = with_rules sv s (\<lambda>c.
     let req = (if syr_BatchCount req0 \<le> 0 then req0\<lparr>syr_BatchCount := 1\<rparr> else req0)
     in case RecipePlan (X_case L) (X_quote L) (X_rand L) (X_float L) c (syr_RecipeID req) (syr_OpID req)
               (syr_CharacterID req) (syr_BatchCount req) of
          Inl e \<Rightarrow> (s, Inl e)
        | Inr (plan, inputs) \<Rightarrow>
            resolved L sv (r_Synthesize (r_items (es_store sv)) s (req\<lparr>syr_RewardPlan := plan,
              syr_Inputs := map (\<lambda>input. \<lparr>mco_ItemID = rmt_ItemID input, mco_Quantity = rmt_Quantity input\<rparr>) inputs\<rparr>)))"

definition Service_EquipmentRepair ::
  "'g econ_lib \<Rightarrow> 's EconService \<Rightarrow> 's \<Rightarrow> EquipmentRepairRequest \<Rightarrow> 's \<times> EquipmentRepairResult result" where
  "Service_EquipmentRepair L sv s req = with_rules sv s (\<lambda>c.
     then_do (r_EquipmentRepair (r_items (es_store sv)) s (req\<lparr>rpq_Rules := EquipmentRules_of c\<rparr>)) (\<lambda>s result.
     then_do (s, resolveSnapshot L sv (rpr_Snapshot result)) (\<lambda>s snapshot.
     (s, Inr (result\<lparr>rpr_Snapshot := snapshot\<rparr>)))))"

text \<open>The first piece of a snapshot with a uid.\<close>

definition find_equipment :: "string \<Rightarrow> EconomySnapshot \<Rightarrow> EquipmentItem option" where
  "find_equipment uid snapshot = List.find (\<lambda>e. eq_EquipmentUID e = TrimSpace uid) (sn_Equipment snapshot)"

definition Service_EquipmentEnhance ::
  "'g econ_lib \<Rightarrow> 's EconService \<Rightarrow> 's \<Rightarrow> string \<Rightarrow> int \<Rightarrow> int \<Rightarrow> string \<Rightarrow> 's \<times> EquipmentEnhanceResult result" where
  "Service_EquipmentEnhance L sv s opID accountID characterID uid = with_rules sv s (\<lambda>c.
     then_do (r_EconomySnapshot (es_store sv) s accountID characterID) (\<lambda>s snapshot.
     case find_equipment uid snapshot of
       None \<Rightarrow> (s, Inl ErrNotFound)
     | Some equipment \<Rightarrow>
         if eq_NFTContract equipment \<noteq> None then (s, Inl (ErrMsg ''nft-linked equipment cannot be enhanced''))
         else
           then_do (s, EnhancementRule (X_quote L) c (eq_ItemID equipment) (eq_Rarity equipment)
             (w64 (eq_EnhanceLevel equipment + 1))) (\<lambda>s (gold, stoneID, stoneQuantity).
           then_do (r_EquipmentEnhance (r_items (es_store sv)) s
             \<lparr>ehq_OpID = opID, ehq_AccountID = accountID, ehq_CharacterID = characterID, ehq_EquipmentUID = uid,
              ehq_MaxLevel = ehc_MaxLevel (eqc_Enhancement (cfg_Equipment c)), ehq_GoldCost = gold,
              ehq_StoneItemID = stoneID, ehq_StoneQuantity = stoneQuantity\<rparr>) (\<lambda>s result.
           then_do (s, ResolveEquipmentItem (X_quote L) (X_float L) c (ehr_Equipment result)) (\<lambda>s item.
           then_do (s, resolveSnapshot L sv (ehr_Snapshot result)) (\<lambda>s snapshot.
           (s, Inr (result\<lparr>ehr_Equipment := item, ehr_Snapshot := snapshot\<rparr>))))))))"

definition Service_EquipmentNPCRecycle ::
  "'g econ_lib \<Rightarrow> 's EconService \<Rightarrow> 's \<Rightarrow> string \<Rightarrow> int \<Rightarrow> int \<Rightarrow> string \<Rightarrow> 's \<times> EquipmentNPCRecycleResult result" where
  "Service_EquipmentNPCRecycle L sv s opID accountID characterID uid = with_rules sv s (\<lambda>c.
     then_do (r_EconomySnapshot (es_store sv) s accountID characterID) (\<lambda>s snapshot.
     case find_equipment uid snapshot of
       None \<Rightarrow> (s, Inl ErrNotFound)
     | Some equipment \<Rightarrow>
         if eq_NFTContract equipment \<noteq> None then (s, Inl (ErrMsg ''nft-linked equipment cannot be sold to an npc''))
         else if EquipmentTemplate_get c (eq_ItemID equipment) = None
         then (s, Inl (ErrMsg ''only current equipment templates can be sold to an npc''))
         else
           let (gold, ok) = EquipmentSellPriceGold c (eq_ItemID equipment) (eq_Rarity equipment)
           in if \<not> ok then (s, Inl (ErrMsg ''npc recycle value is not configured''))
              else
                then_do (r_EquipmentNPCRecycle (r_items (es_store sv)) s
                  \<lparr>nrq_OpID = opID, nrq_AccountID = accountID, nrq_CharacterID = characterID,
                   nrq_EquipmentUID = uid, nrq_GoldCredit = gold\<rparr>) (\<lambda>s result.
                then_do (s, resolveSnapshot L sv (nrr_Snapshot result)) (\<lambda>s snapshot.
                (s, Inr (result\<lparr>nrr_Snapshot := snapshot\<rparr>))))))"

section \<open>Shop days and the mystery shop\<close>

definition now_or_clock :: "'s EconService \<Rightarrow> 's \<Rightarrow> time \<Rightarrow> time \<times> 's" where
  "now_or_clock sv s now = (if IsZero now then r_Now (es_store sv) s else (now, s))"

definition dayRange :: "'g econ_lib \<Rightarrow> 's EconService \<Rightarrow> 's \<Rightarrow> time \<Rightarrow> string \<Rightarrow> 's \<times> (time \<times> time) result" where
  "dayRange L sv s now0 timezone =
     (let (now, s1) = now_or_clock sv s now0
      in case X_zone L (TrimSpace timezone) of Inl e \<Rightarrow> (s1, Inl e) | Inr loc \<Rightarrow> (s1, Inr (day_window loc now)))"

definition shopBusinessDay ::
  "'g econ_lib \<Rightarrow> 's EconService \<Rightarrow> 's \<Rightarrow> time \<Rightarrow> string \<Rightarrow> 's \<times> (string \<times> time \<times> time) result" where
  "shopBusinessDay L sv s now timezone0 =
     (let timezone = (if TrimSpace timezone0 = [] then ''Asia/Shanghai'' else timezone0)
      in then_do (dayRange L sv s now timezone) (\<lambda>s (start, stop).
         case X_zone L (TrimSpace timezone) of
           Inl e \<Rightarrow> (s, Inl e) | Inr loc \<Rightarrow> (s, Inr (local_date loc start, start, stop))))"

definition nextMysteryRefreshTokenCost ::
  "'g econ_lib \<Rightarrow> 's EconService \<Rightarrow> 's \<Rightarrow> MysteryShopConfig \<Rightarrow> int \<Rightarrow> int \<Rightarrow> string \<Rightarrow> time \<Rightarrow> 's \<times> int result" where
  "nextMysteryRefreshTokenCost L sv s m accountID characterID shopID now =
     then_do (dayRange L sv s now (msc_DailyLimitTimezone m)) (\<lambda>s (start, stop).
     then_do (r_MysteryShopPaidRefreshCount (r_shop (es_store sv)) s accountID characterID shopID start stop) (\<lambda>s cnt.
     let cost = w64 (msc_ManualRefreshTokenBaseCost m + w64 (cnt * msc_ManualRefreshTokenStepCost m))
     in (s, Inr (if msc_ManualRefreshTokenMaxCost m > 0 \<and> cost > msc_ManualRefreshTokenMaxCost m
                 then msc_ManualRefreshTokenMaxCost m else cost))))"

record MysteryShopBoardView =
  mbv_ShopID :: string
  mbv_CharacterID :: int
  mbv_CharacterLevel :: int
  mbv_UnlockedSlots :: int
  mbv_MaxSlots :: int
  mbv_NextManualRefreshTokenCost :: int
  mbv_SoldOut :: bool
  mbv_NextFreeRefreshAt :: time
  mbv_FreeRefreshAvailable :: bool
  mbv_GeneratedAt :: time
  mbv_Offers :: "MysteryShopOffer list"

definition mysteryShopBoardView ::
  "Shop \<Rightarrow> MysteryShopConfig \<Rightarrow> MysteryShopBoardState \<Rightarrow> int \<Rightarrow> int \<Rightarrow> MysteryShopBoardView" where
  "mysteryShopBoardView shop m state level nextCost =
     \<lparr>mbv_ShopID = shp_ShopID shop, mbv_CharacterID = mb_CharacterID state, mbv_CharacterLevel = level,
      mbv_UnlockedSlots = unlockedMysterySlots m level, mbv_MaxSlots = msc_MaxSlots m,
      mbv_NextManualRefreshTokenCost = nextCost, mbv_SoldOut = mysteryOffersSoldOut (mb_Offers state),
      mbv_NextFreeRefreshAt = mb_NextFreeRefreshAt state,
      mbv_FreeRefreshAvailable = mysteryOffersSoldOut (mb_Offers state),
      mbv_GeneratedAt = mb_GeneratedAt state, mbv_Offers = mb_Offers state\<rparr>"

definition mystery_shop :: "Config \<Rightarrow> string \<Rightarrow> (Shop \<times> MysteryShopConfig) option" where
  "mystery_shop c shopID =
     (case Shop_get c shopID of
        None \<Rightarrow> None | Some shop \<Rightarrow> case shp_Mystery shop of None \<Rightarrow> None | Some m \<Rightarrow> Some (shop, m))"

text \<open>
  Whether the board must be filled again: it was not found, or nothing is left. After any other error
  the board Go holds is the zero value, which has no offers.
\<close>

definition board_stale :: "MysteryShopBoardState result \<Rightarrow> bool" where
  "board_stale board =
     (case board of
        Inl e \<Rightarrow> e = ErrNotFound \<or> mysteryOffersSoldOut [] | Inr state \<Rightarrow> mysteryOffersSoldOut (mb_Offers state))"

definition Service_MysteryShopBoard ::
  "'g econ_lib \<Rightarrow> 's EconService \<Rightarrow> 's \<Rightarrow> int \<Rightarrow> int \<Rightarrow> string \<Rightarrow> time \<Rightarrow> 's \<times> MysteryShopBoardView result" where
  "Service_MysteryShopBoard L sv s accountID characterID shopID now0 = with_rules sv s (\<lambda>c.
     case mystery_shop c shopID of
       None \<Rightarrow> (s, Inl (ErrMsg ''mystery shop does not exist''))
     | Some (shop, m) \<Rightarrow>
         let (now, s0) = now_or_clock sv s now0 in
         then_do (r_EconomySnapshot (es_store sv) s0 accountID characterID) (\<lambda>s snapshot.
         then_do (let (s1, board) = r_MysteryShopBoard (r_shop (es_store sv)) s accountID characterID (shp_ShopID shop) in
                  if board_stale board
                  then then_do (s1, rollMysteryShopOffers (X_rand L) m (sn_Level snapshot) characterID now) (\<lambda>s offers.
                       r_RefreshMysteryShop (r_shop (es_store sv)) s
                         \<lparr>mr_OpID = ''mystery-free-'' @ FormatInt characterID @ ''-'' @ shp_ShopID shop @ ''-'' @
                            FormatInt (Unix now),
                          mr_AccountID = accountID, mr_CharacterID = characterID, mr_ShopID = shp_ShopID shop,
                          mr_TokenCost = 0, mr_NextFreeRefreshAt = now, mr_GeneratedAt = now, mr_Offers = offers\<rparr>)
                  else (s1, board)) (\<lambda>s state.
         then_do (nextMysteryRefreshTokenCost L sv s m accountID characterID (shp_ShopID shop) now) (\<lambda>s nextCost.
         (s, Inr (mysteryShopBoardView shop m state (sn_Level snapshot) nextCost))))))"

definition Service_RefreshMysteryShop ::
  "'g econ_lib \<Rightarrow> 's EconService \<Rightarrow> 's \<Rightarrow> string \<Rightarrow> int \<Rightarrow> int \<Rightarrow> string \<Rightarrow> time \<Rightarrow> 's \<times> MysteryShopBoardView result" where
  "Service_RefreshMysteryShop L sv s opID accountID characterID shopID now0 = with_rules sv s (\<lambda>c.
     case mystery_shop c shopID of
       None \<Rightarrow> (s, Inl (ErrMsg ''mystery shop does not exist''))
     | Some (shop, m) \<Rightarrow>
         let (now, s0) = now_or_clock sv s now0 in
         then_do (r_EconomySnapshot (es_store sv) s0 accountID characterID) (\<lambda>s snapshot.
         then_do (s, rollMysteryShopOffers (X_rand L) m (sn_Level snapshot) characterID now) (\<lambda>s offers.
         then_do (nextMysteryRefreshTokenCost L sv s m accountID characterID (shp_ShopID shop) now) (\<lambda>s tokenCost.
         then_do (r_RefreshMysteryShop (r_shop (es_store sv)) s
           \<lparr>mr_OpID = opID, mr_AccountID = accountID, mr_CharacterID = characterID, mr_ShopID = shp_ShopID shop,
            mr_TokenCost = tokenCost, mr_NextFreeRefreshAt = now, mr_GeneratedAt = now, mr_Offers = offers\<rparr>) (\<lambda>s state.
         then_do (nextMysteryRefreshTokenCost L sv s m accountID characterID (shp_ShopID shop) now) (\<lambda>s nextCost.
         (s, Inr (mysteryShopBoardView shop m state (sn_Level snapshot) nextCost))))))))"

text \<open>The loop over the offers stops at the first unsold one with the item and the quantity.\<close>

definition pick_offer :: "string \<Rightarrow> int \<Rightarrow> MysteryShopOffer list \<Rightarrow> MysteryShopOffer result" where
  "pick_offer itemID quantity offers =
     (case List.find (\<lambda>offer. \<not> mo_Purchased offer \<and> TrimSpace (mo_ItemID offer) = TrimSpace itemID \<and>
             mo_Quantity offer = quantity) offers of
        None \<Rightarrow> Inl (ErrMsg ''item is not available in the current mystery shop'')
      | Some offer \<Rightarrow>
          if mo_GoldPrice offer \<le> 0 \<and> mo_TokenPrice offer \<le> 0
          then Inl (ErrMsg ''mystery shop offer price is not configured'') else Inr offer)"

definition availableMysteryOffer ::
  "'g econ_lib \<Rightarrow> 's EconService \<Rightarrow> 's \<Rightarrow> int \<Rightarrow> int \<Rightarrow> string \<Rightarrow> string \<Rightarrow> int \<Rightarrow> 's \<times> MysteryShopOffer result" where
  "availableMysteryOffer L sv s accountID characterID shopID itemID quantity =
     (let (now, s0) = r_Now (es_store sv) s in
      then_do (Service_MysteryShopBoard L sv s0 accountID characterID shopID now) (\<lambda>s board.
      (s, pick_offer itemID quantity (mbv_Offers board))))"

section \<open>Shops\<close>

text \<open>The currency, the unit price and the total price of a purchase.\<close>

definition shop_price :: "Item \<Rightarrow> ShopSellItem option \<Rightarrow> int \<Rightarrow> MysteryShopOffer option \<Rightarrow> int \<times> int \<times> int" where
  "shop_price item sold quantity mysteryOffer =
     (case mysteryOffer of
        Some offer \<Rightarrow>
          if mo_TokenPrice offer > 0 then (1, mo_TokenPrice offer, mo_TokenPrice offer)
          else (0, mo_GoldPrice offer, mo_GoldPrice offer)
      | None \<Rightarrow>
          let unit_price = (case sold of
                None \<Rightarrow> itm_BuyPrice item
              | Some sellItem \<Rightarrow> if ssi_BuyPrice sellItem > 0 then ssi_BuyPrice sellItem else itm_BuyPrice item)
          in (itm_BuyCurrency item, unit_price, w64 (unit_price * quantity)))"

text \<open>The slot, the daily limit and the day of a regular purchase; zero values in a mystery shop.\<close>

definition shop_day ::
  "'g econ_lib \<Rightarrow> 's EconService \<Rightarrow> 's \<Rightarrow> Shop \<Rightarrow> ShopSellItem option \<Rightarrow> 's \<times> (int \<times> int \<times> string) result" where
  "shop_day L sv s shop sold =
     (case sold of
        None \<Rightarrow> (s, Inr (0, 0, []))
      | Some sellItem \<Rightarrow>
          if shp_Mystery shop \<noteq> None then (s, Inr (0, 0, []))
          else if ssi_SlotIndex sellItem \<le> 0 \<or> ssi_DailyLimit sellItem \<le> 0
          then (s, Inl (ErrMsg ''shop item daily limit is not configured''))
          else
            let (now, s1) = r_Now (es_store sv) s in
            then_do (shopBusinessDay L sv s1 now (shp_DailyLimitTimezone shop)) (\<lambda>s (day, _, _).
            (s, Inr (ssi_SlotIndex sellItem, ssi_DailyLimit sellItem, day))))"

definition level_refusal :: "Shop \<Rightarrow> ShopSellItem option \<Rightarrow> int \<Rightarrow> err option" where
  "level_refusal shop sold level =
     (case sold of
        None \<Rightarrow> None
      | Some sellItem \<Rightarrow>
          if shp_Mystery shop \<noteq> None then None
          else if ssi_MinLevel sellItem > 0 \<and> level < ssi_MinLevel sellItem
          then Some (ErrMsg ''character level is too low for this shop item'')
          else if ssi_MaxLevel sellItem > 0 \<and> level > ssi_MaxLevel sellItem
          then Some (ErrMsg ''character level is too high for this shop item'') else None)"

definition Service_ShopBuy ::
  "'g econ_lib \<Rightarrow> 's EconService \<Rightarrow> 's \<Rightarrow> string \<Rightarrow> int \<Rightarrow> int \<Rightarrow> string \<Rightarrow> string \<Rightarrow> int \<Rightarrow> 's \<times> ShopBuyResult result" where
  "Service_ShopBuy L sv s opID accountID characterID shopID itemID quantity = with_rules sv s (\<lambda>c.
     case Shop_get c shopID of
       None \<Rightarrow> (s, Inl (ErrMsg ''shop does not exist''))
     | Some shop \<Rightarrow>
     case map_of (cfg_Items c) (TrimSpace itemID) of
       None \<Rightarrow> (s, Inl (ErrMsg ''item does not exist''))
     | Some item \<Rightarrow>
     if \<not> SellsItem shop (itm_ItemID item) \<and> shp_Mystery shop = None
     then (s, Inl (ErrMsg ''item is not sold by this shop''))
     else if quantity \<le> 0 then (s, Inl (ErrMsg ''quantity must be positive''))
     else
       let sold = SellItem shop (itm_ItemID item) in
       then_do (r_EconomySnapshot (es_store sv) s accountID characterID) (\<lambda>s snapshot.
       case level_refusal shop sold (sn_Level snapshot) of
         Some e \<Rightarrow> (s, Inl e)
       | None \<Rightarrow>
       then_do (if shp_Mystery shop = None then (s, Inr None)
                else then_do (availableMysteryOffer L sv s accountID characterID (shp_ShopID shop) (itm_ItemID item) quantity)
                       (\<lambda>s offer. (s, Inr (Some offer)))) (\<lambda>s mysteryOffer.
       let (buyCurrency, unitPrice, totalPrice) = shop_price item sold quantity mysteryOffer;
           mysterySlotIndex = (case mysteryOffer of None \<Rightarrow> 0 | Some offer \<Rightarrow> mo_SlotIndex offer) in
       if totalPrice \<le> 0 then (s, Inl (ErrMsg ''buy price is not configured''))
       else
         then_do (shop_day L sv s shop sold) (\<lambda>s (shopSlotIndex, shopDailyLimit, shopBusinessDate).
         then_do (s, case mysteryOffer of
             Some offer \<Rightarrow> MysteryShopPurchasePlan (X_quote L) (X_rand L) c opID characterID offer
           | None \<Rightarrow> ShopPurchasePlan (X_quote L) (X_rand L) c opID characterID (itm_ItemID item) quantity
               (case sold of None \<Rightarrow> 0 | Some sellItem \<Rightarrow> ssi_Rarity sellItem)) (\<lambda>s plan.
         let req = \<lparr>sb_OpID = opID, sb_AccountID = accountID, sb_CharacterID = characterID,
               sb_ShopID = TrimSpace shopID, sb_ItemID = itm_ItemID item, sb_Quantity = quantity,
               sb_MysterySlotIndex = mysterySlotIndex, sb_ShopSlotIndex = shopSlotIndex,
               sb_ShopDailyLimit = shopDailyLimit, sb_ShopBusinessDate = shopBusinessDate,
               sb_GoldCost = 0, sb_TokenCost = 0, sb_ReceiverWallet = [],
               sb_GrantGold = w64 (itm_GrantGold item * quantity), sb_RewardPlan = plan,
               sb_ConfigSnapshot = [(''shopId'', AnyString (TrimSpace shopID)), (''itemId'', AnyString (itm_ItemID item)),
                 (''quantity'', AnyInt quantity), (''unitPrice'', AnyInt unitPrice), (''totalPrice'', AnyInt totalPrice),
                 (''buyCurrency'', AnyInt buyCurrency), (''mysterySlotIndex'', AnyInt mysterySlotIndex),
                 (''shopSlotIndex'', AnyInt shopSlotIndex), (''shopBusinessDate'', AnyString shopBusinessDate)]\<rparr>
         in if buyCurrency = 1
            then r_CreateShopBuyPayment (r_shop (es_store sv)) s
                   (req\<lparr>sb_TokenCost := totalPrice, sb_ReceiverWallet := TrimSpace (es_SolanaDepositWallet sv)\<rparr>)
            else
              then_do (r_ShopBuyGold (r_shop (es_store sv)) s (req\<lparr>sb_GoldCost := totalPrice\<rparr>)) (\<lambda>s result.
              then_do (s, resolveSnapshot L sv (sbr_Snapshot result)) (\<lambda>s snapshot.
              (s, Inr (result\<lparr>sbr_Snapshot := snapshot\<rparr>)))))))))"

record ShopCatalogItem =
  sci_SlotIndex :: int
  sci_ItemID :: string
  sci_DisplayName :: string
  sci_Quantity :: int
  sci_Rarity :: int
  sci_BuyCurrency :: int
  sci_BuyPrice :: int
  sci_MinLevel :: int
  sci_MaxLevel :: int
  sci_DailyLimit :: int
  sci_PurchasedToday :: int
  sci_RemainingToday :: int
  sci_Available :: bool

record ShopCatalog =
  scg_ShopID :: string
  scg_DisplayName :: string
  scg_CharacterID :: int
  scg_CharacterLevel :: int
  scg_BusinessDate :: string
  scg_NextResetAt :: time
  scg_Items :: "ShopCatalogItem list"

definition catalog_item :: "(int \<rightharpoonup> int) \<Rightarrow> Item \<Rightarrow> ShopSellItem \<Rightarrow> ShopCatalogItem" where
  "catalog_item purchased item sellItem =
     (let buyPrice = (if ssi_BuyPrice sellItem > 0 then ssi_BuyPrice sellItem else itm_BuyPrice item);
          bought = (case purchased (ssi_SlotIndex sellItem) of None \<Rightarrow> 0 | Some n \<Rightarrow> n);
          left = w64 (ssi_DailyLimit sellItem - bought); remaining = (if left < 0 then 0 else left)
      in \<lparr>sci_SlotIndex = ssi_SlotIndex sellItem, sci_ItemID = itm_ItemID item, sci_DisplayName = itm_DisplayName item,
          sci_Quantity = 1, sci_Rarity = if ssi_Rarity sellItem > 0 then ssi_Rarity sellItem else itm_Rarity item,
          sci_BuyCurrency = itm_BuyCurrency item, sci_BuyPrice = buyPrice, sci_MinLevel = ssi_MinLevel sellItem,
          sci_MaxLevel = ssi_MaxLevel sellItem, sci_DailyLimit = ssi_DailyLimit sellItem, sci_PurchasedToday = bought,
          sci_RemainingToday = remaining, sci_Available = buyPrice > 0 \<and> remaining > 0\<rparr>)"

fun catalog_items :: "Config \<Rightarrow> (int \<rightharpoonup> int) \<Rightarrow> int \<Rightarrow> ShopSellItem list \<Rightarrow> ShopCatalogItem list" where
  "catalog_items c purchased level [] = []"
| "catalog_items c purchased level (sellItem # rest) =
     (case map_of (cfg_Items c) (TrimSpace (ssi_ItemID sellItem)) of
        None \<Rightarrow> catalog_items c purchased level rest
      | Some item \<Rightarrow>
          if ssi_MinLevel sellItem > 0 \<and> level < ssi_MinLevel sellItem \<or>
             ssi_MaxLevel sellItem > 0 \<and> level > ssi_MaxLevel sellItem
          then catalog_items c purchased level rest
          else catalog_item purchased item sellItem # catalog_items c purchased level rest)"

definition Service_ShopCatalog ::
  "'g econ_lib \<Rightarrow> 's EconService \<Rightarrow> 's \<Rightarrow> int \<Rightarrow> int \<Rightarrow> string \<Rightarrow> time \<Rightarrow> 's \<times> ShopCatalog result" where
  "Service_ShopCatalog L sv s accountID characterID shopID now0 = with_rules sv s (\<lambda>c.
     case Shop_get c shopID of
       None \<Rightarrow> (s, Inl (ErrMsg ''shop does not exist''))
     | Some shop \<Rightarrow>
     if shp_Mystery shop \<noteq> None then (s, Inl (ErrMsg ''use mystery shop endpoint for this shop''))
     else
       let (now, s0) = now_or_clock sv s now0 in
       then_do (r_EconomySnapshot (es_store sv) s0 accountID characterID) (\<lambda>s snapshot.
       then_do (shopBusinessDay L sv s now (shp_DailyLimitTimezone shop)) (\<lambda>s (businessDate, _, nextResetAt).
       then_do (r_ShopDailyPurchaseQuantities (r_shop (es_store sv)) s accountID characterID (shp_ShopID shop) businessDate)
         (\<lambda>s purchased.
       (s, Inr \<lparr>scg_ShopID = shp_ShopID shop, scg_DisplayName = shp_DisplayName shop, scg_CharacterID = characterID,
          scg_CharacterLevel = sn_Level snapshot, scg_BusinessDate = businessDate, scg_NextResetAt = nextResetAt,
          scg_Items = catalog_items c purchased (sn_Level snapshot) (shp_SellItems shop)\<rparr>)))))"

definition shopSellEquipment ::
  "'g econ_lib \<Rightarrow> 's EconService \<Rightarrow> Config \<Rightarrow> 's \<Rightarrow> string \<Rightarrow> int \<Rightarrow> int \<Rightarrow> string \<Rightarrow> string \<Rightarrow> 's \<times> EconomySnapshot result" where
  "shopSellEquipment L sv c s opID accountID characterID shopID uid =
     then_do (r_EconomySnapshot (es_store sv) s accountID characterID) (\<lambda>s snapshot.
     case find_equipment uid snapshot of
       None \<Rightarrow> (s, Inl ErrNotFound)
     | Some equipment \<Rightarrow>
         if eq_Status equipment \<noteq> ''IN_BAG'' then (s, Inl ErrNotFound)
         else if eq_NFTContract equipment \<noteq> None
         then (s, Inl (ErrMsg ''nft-linked equipment cannot be sold to a shop''))
         else if EquipmentTemplate_get c (eq_ItemID equipment) = None
         then (s, Inl (ErrMsg ''only current equipment templates can be sold to a shop''))
         else
           let (gold, ok) = EquipmentSellPriceGold c (eq_ItemID equipment) (eq_Rarity equipment)
           in if \<not> ok then (s, Inl (ErrMsg ''sell price is not configured''))
              else resolved L sv (r_ShopSell (r_shop (es_store sv)) s
                \<lparr>ssr_OpID = opID, ssr_AccountID = accountID, ssr_CharacterID = characterID, ssr_ShopID = TrimSpace shopID,
                 ssr_SlotIndex = 0, ssr_Quantity = 1, ssr_EquipmentUID = TrimSpace uid, ssr_GoldCredit = gold\<rparr>))"

definition Service_ShopSell ::
  "'g econ_lib \<Rightarrow> 's EconService \<Rightarrow> 's \<Rightarrow> string \<Rightarrow> int \<Rightarrow> int \<Rightarrow> string \<Rightarrow> int \<Rightarrow> int \<Rightarrow> string \<Rightarrow>
   's \<times> EconomySnapshot result" where
  "Service_ShopSell L sv s opID accountID characterID shopID slotIndex quantity uid = with_rules sv s (\<lambda>c.
     if Shop_get c shopID = None then (s, Inl (ErrMsg ''shop does not exist''))
     else if TrimSpace uid \<noteq> [] then shopSellEquipment L sv c s opID accountID characterID shopID uid
     else if slotIndex < 0 then (s, Inl (ErrMsg ''slotIndex is required''))
     else if quantity \<le> 0 then (s, Inl (ErrMsg ''quantity must be positive''))
     else
       then_do (r_EconomySnapshot (es_store sv) s accountID characterID) (\<lambda>s snapshot.
       case List.find (\<lambda>row. it_Slot row = slotIndex) (sn_Inventory snapshot) of
         None \<Rightarrow> (s, Inl ErrNotFound)
       | Some inventory \<Rightarrow>
           case map_of (cfg_Items c) (it_ItemID inventory) of
             None \<Rightarrow> (s, Inl (ErrMsg ''item is not configured''))
           | Some item \<Rightarrow>
               if itm_SellPrice item \<le> 0 then (s, Inl (ErrMsg ''sell price is not configured''))
               else resolved L sv (r_ShopSell (r_shop (es_store sv)) s
                 \<lparr>ssr_OpID = opID, ssr_AccountID = accountID, ssr_CharacterID = characterID, ssr_ShopID = TrimSpace shopID,
                  ssr_SlotIndex = slotIndex, ssr_Quantity = quantity, ssr_EquipmentUID = [],
                  ssr_GoldCredit = w64 (itm_SellPrice item * quantity)\<rparr>)))"

section \<open>Dungeons, gathering, farming and bosses\<close>

definition Service_DungeonEnter ::
  "'g econ_lib \<Rightarrow> 's EconService \<Rightarrow> 's \<Rightarrow> DungeonEnterRequest \<Rightarrow> 's \<times> DungeonResult result" where
  "Service_DungeonEnter L sv s req = with_rules sv s (\<lambda>c.
     case DungeonFloor_get c (en_ChapterID req) (en_FloorID req) of
       None \<Rightarrow> (s, Inl (ErrMsg (''dungeon floor '' @ FormatInt (en_ChapterID req) @ ''/'' @ FormatInt (en_FloorID req)
         @ '' is not configured'')))
     | Some dfloor \<Rightarrow>
         then_do (r_DungeonEnter (r_activity (es_store sv)) s
           (req\<lparr>en_IsBoss := dfl_IsBoss dfloor, en_Cost := dfl_EnterCost dfloor\<rparr>)) (\<lambda>s result.
         (s, resolveDungeonResult L sv result)))"

definition finish_request :: "Config \<Rightarrow> DungeonRewardPlan \<Rightarrow> DungeonFinishRequest \<Rightarrow> DungeonFinishRequest" where
  "finish_request c plan req =
     req\<lparr>fi_RewardPlan := plan, fi_LevelProgression := LevelProgressionRules_of c,
       fi_EquipmentWearPoints := er_DungeonWearPoints (EquipmentRules_of c),
       fi_DefaultMaxDurability := er_DefaultMaxDurability (EquipmentRules_of c)\<rparr>"

definition Service_DungeonFinish ::
  "'g econ_lib \<Rightarrow> 's EconService \<Rightarrow> 's \<Rightarrow> DungeonFinishRequest \<Rightarrow> 's \<times> DungeonResult result" where
  "Service_DungeonFinish L sv s req0 = with_rules sv s (\<lambda>c.
     let req = req0\<lparr>fi_Result := ToLower (X_case L) (TrimSpace (fi_Result req0))\<rparr> in
     then_do (s, DungeonRewards_plan (X_case L) (X_quote L) (X_rand L) (X_float L) c req) (\<lambda>s plan.
     then_do (r_DungeonFinish (r_activity (es_store sv)) s (finish_request c plan req)) (\<lambda>s result.
     (s, resolveDungeonResult L sv result))))"

definition settled ::
  "'g econ_lib \<Rightarrow> 's EconService \<Rightarrow> 's \<times> ActivitySettlementResult result \<Rightarrow> 's \<times> ActivitySettlementResult result" where
  "settled L sv p =
     then_do p (\<lambda>s result.
     then_do (s, resolveSnapshot L sv (ar_Snapshot result)) (\<lambda>s snapshot.
     (s, Inr (result\<lparr>ar_Snapshot := snapshot, ar_Rewards := rewardProgress (ar_Rewards result) snapshot\<rparr>))))"

definition Service_GatheringSettle ::
  "'g econ_lib \<Rightarrow> 's EconService \<Rightarrow> 's \<Rightarrow> ActivitySettlementRequest \<Rightarrow> 's \<times> ActivitySettlementResult result" where
  "Service_GatheringSettle L sv s req = with_rules sv s (\<lambda>c.
     then_do (r_EconomySnapshot (es_store sv) s (as_AccountID req) (as_CharacterID req)) (\<lambda>s snapshot.
     let req1 = req\<lparr>as_ActivityType := ''gathering'', as_CharacterLevel := sn_Level snapshot,
           as_RespawnSeconds := (case map_of (cfg_GatherNodes c) (TrimSpace (as_ActivityID req)) of
             None \<Rightarrow> as_RespawnSeconds req | Some node \<Rightarrow> gnd_RespawnSeconds node)\<rparr> in
     then_do (s, GatheringRewards (X_case L) (X_quote L) (X_rand L) (X_float L) c req1) (\<lambda>s plan.
     settled L sv (r_GatheringSettle (r_activity (es_store sv)) s (req1\<lparr>as_RewardPlan := plan\<rparr>)))))"

definition Service_FarmingHarvest ::
  "'g econ_lib \<Rightarrow> 's EconService \<Rightarrow> 's \<Rightarrow> ActivitySettlementRequest \<Rightarrow> 's \<times> ActivitySettlementResult result" where
  "Service_FarmingHarvest L sv s req = with_rules sv s (\<lambda>c.
     let req1 = req\<lparr>as_ActivityType := ''farming''\<rparr> in
     then_do (s, FarmingRewards (X_case L) (X_quote L) (X_rand L) (X_float L) c req1) (\<lambda>s plan.
     settled L sv (r_FarmingHarvest (r_activity (es_store sv)) s (req1\<lparr>as_RewardPlan := plan\<rparr>))))"

definition Service_BossSettle ::
  "'g econ_lib \<Rightarrow> 's EconService \<Rightarrow> 's \<Rightarrow> BossSettleRequest \<Rightarrow> 's \<times> BossSettleResult result" where
  "Service_BossSettle L sv s req0 = with_rules sv s (\<lambda>c.
     then_do (r_BossContribution (r_activity (es_store sv)) s (bs_AccountID req0) (bs_BossEventID req0))
       (\<lambda>s (contribution, bossKey).
     let req = (if TrimSpace (bs_BossKey req0) = [] then req0\<lparr>bs_BossKey := bossKey\<rparr> else req0) in
     then_do (s, BossRewards (X_case L) (X_quote L) (X_rand L) (X_float L) c req contribution) (\<lambda>s plan.
     then_do (r_BossSettle (r_activity (es_store sv)) s (req\<lparr>bs_RewardPlan := plan,
       bs_EquipmentWearPoints := er_BossWearPoints (EquipmentRules_of c),
       bs_DefaultMaxDurability := er_DefaultMaxDurability (EquipmentRules_of c)\<rparr>)) (\<lambda>s result.
     then_do (s, resolveSnapshot L sv (bsr_Snapshot result)) (\<lambda>s snapshot.
     (s, Inr (result\<lparr>bsr_Snapshot := snapshot, bsr_Rewards := rewardProgress (bsr_Rewards result) snapshot\<rparr>)))))))"

definition Service_BossOpenEvent ::
  "'s EconService \<Rightarrow> 's \<Rightarrow> BossOpenEventRequest \<Rightarrow> 's \<times> BossEvent result" where
  "Service_BossOpenEvent sv s req = with_rules sv s (\<lambda>c.
     let bossKey = TrimSpace (boe_BossKey req) in
     if bossKey = [] then (s, Inl (ErrMsg ''bossKey is required''))
     else if map_of (cfg_Bosses c) bossKey = None then (s, Inl (ErrMsg ''bossKey is not configured''))
     else
       let (startsAt, s1) = now_or_clock sv s (boe_StartsAt req);
           endsAt = (if IsZero (boe_EndsAt req) then startsAt + 2 * hour_nanos else boe_EndsAt req)
       in r_BossOpenEvent (r_activity (es_store sv)) s1
            (req\<lparr>boe_BossKey := bossKey, boe_StartsAt := startsAt, boe_EndsAt := endsAt\<rparr>))"

section \<open>Payments, lottery and bounties\<close>

definition marketplaceRules :: "'s EconService \<Rightarrow> MarketplaceRules" where
  "marketplaceRules sv =
     (case es_economyRules sv of
        None \<Rightarrow> MarketplaceRules_of empty_config
      | Some c \<Rightarrow> (MarketplaceRules_of c)\<lparr>mk_DepositReceiverWallet := TrimSpace (es_SolanaDepositWallet sv)\<rparr>)"

definition growthPaymentRules :: "'s EconService \<Rightarrow> GrowthPaymentRules" where
  "growthPaymentRules sv =
     (case es_economyRules sv of
        None \<Rightarrow> \<lparr>gp_DepositReceiverWallet = TrimSpace (es_SolanaDepositWallet sv), gp_BagSlots = 0, gp_BagExpandSlots = 0,
          gp_BagExpandMaxTimes = 0, gp_BagExpandPriceToken = 0, gp_BagExpandPaymentTimeoutSec = 0,
          gp_TradingLicensePriceToken = 0, gp_TradingLicensePaymentTimeoutSec = 0\<rparr>
      | Some c \<Rightarrow> GrowthPaymentRules_of c (es_SolanaDepositWallet sv))"

definition Service_CreateBagExpandPayment ::
  "'s EconService \<Rightarrow> 's \<Rightarrow> GrowthPaymentRequest \<Rightarrow> 's \<times> GrowthPaymentResult result" where
  "Service_CreateBagExpandPayment sv s req =
     (case es_rulesErr sv of
        Some e \<Rightarrow> (s, Inl e)
      | None \<Rightarrow> r_CreateBagExpandPayment (r_payment (es_store sv)) s (req\<lparr>gpq_Rules := growthPaymentRules sv\<rparr>))"

definition Service_CreateTradingLicensePayment ::
  "'s EconService \<Rightarrow> 's \<Rightarrow> GrowthPaymentRequest \<Rightarrow> 's \<times> GrowthPaymentResult result" where
  "Service_CreateTradingLicensePayment sv s req =
     (case es_rulesErr sv of
        Some e \<Rightarrow> (s, Inl e)
      | None \<Rightarrow> r_CreateTradingLicensePayment (r_payment (es_store sv)) s (req\<lparr>gpq_Rules := growthPaymentRules sv\<rparr>))"

definition Service_CreateLotteryPayment ::
  "'g econ_lib \<Rightarrow> 's EconService \<Rightarrow> 's \<Rightarrow> string \<Rightarrow> int \<Rightarrow> int \<Rightarrow> int \<Rightarrow> 's \<times> LotteryPaymentResult result" where
  "Service_CreateLotteryPayment L sv s opID accountID characterID cnt = with_rules sv s (\<lambda>c.
     then_do (r_EconomySnapshot (es_store sv) s accountID characterID) (\<lambda>s snapshot.
     then_do (s, LotteryPlan (X_quote L) (X_rand L) c (X_visits L) opID characterID (sn_Level snapshot) cnt) (\<lambda>s plan.
     let lottery = cfg_Lottery c in
     r_CreateLotteryPayment (r_payment (es_store sv)) s
       \<lparr>lpq_OpID = opID, lpq_AccountID = accountID, lpq_CharacterID = characterID,
        lpq_Amount = w64 (lot_PriceAEB lottery * cnt), lpq_ReceiverWallet = es_SolanaDepositWallet sv, lpq_Count = cnt,
        lpq_ConfigSnapshot = [(''priceAeb'', AnyInt (lot_PriceAEB lottery)), (''count'', AnyInt cnt),
          (''categoryWeights'', AnyWeights (lot_CategoryWeight lottery)),
          (''equipmentRarityWeights'', AnyIntWeights (lot_EquipmentRarityWeight lottery))],
        lpq_RewardPlan = plan\<rparr>)))"

definition zero_plan :: StoredTaskPlan where
  "zero_plan = \<lparr>stp_TemplateID = [], stp_Type = [], stp_Difficulty = [], stp_ItemID = [], stp_RewardItemID = [],
     stp_MinRarity = 0, stp_RequiredQuantity = 0, stp_RewardQuantity = 0\<rparr>"

text \<open>An error gives the zero plan; a panic of the generator is not caught.\<close>

definition bountyPlan :: "'g econ_lib \<Rightarrow> Config \<Rightarrow> string \<Rightarrow> int \<Rightarrow> int \<Rightarrow> bool \<Rightarrow> StoredTaskPlan result" where
  "bountyPlan L c opID characterID slot premium =
     (case BountyTaskPlan_of (X_rand L) c opID characterID slot premium of
        Inl Panic \<Rightarrow> Inl Panic
      | Inl _ \<Rightarrow> Inr zero_plan
      | Inr plan \<Rightarrow> Inr \<lparr>stp_TemplateID = btp_TemplateID plan, stp_Type = btp_Type plan,
          stp_Difficulty = btp_Difficulty plan, stp_ItemID = btp_ItemID plan, stp_RewardItemID = btp_RewardItemID plan,
          stp_MinRarity = btp_MinRarity plan, stp_RequiredQuantity = btp_Required plan,
          stp_RewardQuantity = btp_RewardQuantity plan\<rparr>)"

fun plan_slots ::
  "'g econ_lib \<Rightarrow> Config \<Rightarrow> string \<Rightarrow> int \<Rightarrow> bool \<Rightarrow> int list \<Rightarrow> (int \<times> StoredTaskPlan) list \<Rightarrow>
   (int \<times> StoredTaskPlan) list result" where
  "plan_slots L c opID characterID premium [] plans = Inr plans"
| "plan_slots L c opID characterID premium (slot # slots) plans =
     (case bountyPlan L c opID characterID slot premium of
        Inl e \<Rightarrow> Inl e
      | Inr plan \<Rightarrow> plan_slots L c opID characterID premium slots (AList.update slot plan plans))"

definition bountyPlans ::
  "'g econ_lib \<Rightarrow> Config \<Rightarrow> string \<Rightarrow> int \<Rightarrow> bool \<Rightarrow> (int \<times> StoredTaskPlan) list result" where
  "bountyPlans L c opID characterID premium = plan_slots L c opID characterID premium [1, 2, 3, 4, 5] []"

definition Service_BountyBoard ::
  "'g econ_lib \<Rightarrow> 's EconService \<Rightarrow> 's \<Rightarrow> int \<Rightarrow> int \<Rightarrow> 's \<times> BountyBoard result" where
  "Service_BountyBoard L sv s accountID characterID = with_rules sv s (\<lambda>c.
     then_do (s, bountyPlans L c ''bounty-board'' characterID False) (\<lambda>s plans.
     r_BountyBoard (r_payment (es_store sv)) s
       \<lparr>bbq_AccountID = accountID, bbq_CharacterID = characterID, bbq_Plans = plans\<rparr>))"

text \<open>The loops over the configured slots keep the last one with the index.\<close>

definition slot_price :: "(BountySlotConfig \<Rightarrow> int) \<Rightarrow> int \<Rightarrow> BountySlotConfig list \<Rightarrow> int" where
  "slot_price price index slots =
     foldl (\<lambda>cost slot. if bsl_SlotIndex slot = index then price slot else cost) 0 slots"

definition Service_UnlockBountyGoldSlot ::
  "'g econ_lib \<Rightarrow> 's EconService \<Rightarrow> 's \<Rightarrow> string \<Rightarrow> int \<Rightarrow> int \<Rightarrow> 's \<times> BountyBoard result" where
  "Service_UnlockBountyGoldSlot L sv s opID accountID characterID = with_rules sv s (\<lambda>c.
     then_do (s, bountyPlans L c opID characterID False) (\<lambda>s plans.
     r_UnlockBountyGoldSlot (r_payment (es_store sv)) s
       \<lparr>bgu_OpID = opID, bgu_AccountID = accountID, bgu_CharacterID = characterID,
        bgu_GoldCost = slot_price bsl_GoldCost 2 (bty_Slots (cfg_Bounties c)), bgu_Plans = plans\<rparr>))"

definition Service_CreateBountySlotPayment ::
  "'s EconService \<Rightarrow> 's \<Rightarrow> string \<Rightarrow> int \<Rightarrow> int \<Rightarrow> int \<Rightarrow> 's \<times> BountyPaymentResult result" where
  "Service_CreateBountySlotPayment sv s opID accountID characterID slotIndex = with_rules sv s (\<lambda>c.
     r_CreateBountyPayment (r_payment (es_store sv)) s
       \<lparr>bpq_OpID = opID, bpq_AccountID = accountID, bpq_CharacterID = characterID,
        bpq_Purpose = ''BOUNTY_SLOT_UNLOCK'', bpq_SlotIndex = slotIndex,
        bpq_Amount = slot_price bsl_AEBPrice slotIndex (bty_Slots (cfg_Bounties c)),
        bpq_ReceiverWallet = es_SolanaDepositWallet sv, bpq_RefreshPlans = []\<rparr>)"

definition refreshable :: "BountySlot \<Rightarrow> bool" where
  "refreshable slot =
     (case bst_Task slot of None \<Rightarrow> False | Some task \<Rightarrow> bt_Status task = ''ACTIVE'' \<and> bt_Difficulty task = ''normal'')"

definition first_slot :: "(int \<times> StoredTaskPlan) list \<Rightarrow> int" where
  "first_slot plans = foldl (\<lambda>first slot. if slot < first then slot else first) 6 (map fst plans)"

definition zero_BountyBoard :: BountyBoard where
  "zero_BountyBoard = \<lparr>bb_Slots = [], bb_FreeRefreshAvailableAt = 0\<rparr>"

definition Service_RefreshBounty ::
  "'g econ_lib \<Rightarrow> 's EconService \<Rightarrow> 's \<Rightarrow> string \<Rightarrow> int \<Rightarrow> int \<Rightarrow> string \<Rightarrow> 's \<times> (BountyBoard \<times> PaymentOrder option) result" where
  "Service_RefreshBounty L sv s opID accountID characterID mode0 = with_rules sv s (\<lambda>c.
     then_do (Service_BountyBoard L sv s accountID characterID) (\<lambda>s board.
     then_do (s, plan_slots L c opID characterID False (map bst_SlotIndex (filter refreshable (bb_Slots board))) [])
       (\<lambda>s plans.
     let mode = ToLower (X_case L) (TrimSpace mode0); refresh = bty_Refresh (cfg_Bounties c) in
     if mode = ''premium''
     then
       if plans = [] then (s, Inl (ErrMsg ''no normal active bounty task can be refreshed''))
       else
         then_do (s, bountyPlan L c opID characterID (first_slot plans) True) (\<lambda>s premium.
         then_do (r_CreateBountyPayment (r_payment (es_store sv)) s
           \<lparr>bpq_OpID = opID, bpq_AccountID = accountID, bpq_CharacterID = characterID,
            bpq_Purpose = ''BOUNTY_PREMIUM_REFRESH'', bpq_SlotIndex = 0, bpq_Amount = brf_PremiumAEBPrice refresh,
            bpq_ReceiverWallet = es_SolanaDepositWallet sv,
            bpq_RefreshPlans = AList.update (first_slot plans) premium plans\<rparr>) (\<lambda>s result.
         (s, Inr (zero_BountyBoard, Some (bpr_Order result)))))
     else if mode \<noteq> ''free'' \<and> mode \<noteq> ''gold''
     then (s, Inl (ErrMsg ''refresh mode must be free, gold, or premium''))
     else
       then_do (r_RefreshBounty (r_payment (es_store sv)) s
         \<lparr>brq_OpID = opID, brq_AccountID = accountID, brq_CharacterID = characterID, brq_Mode = mode,
          brq_GoldCost = brf_GoldCost refresh, brq_CooldownSeconds = brf_FreeCooldownSeconds refresh,
          brq_Plans = plans\<rparr>) (\<lambda>s board. (s, Inr (board, None))))))"

text \<open>
  The badge draw: the hash of the operation picks a reward by weight and an amount from its range.
  The remainder by a total of zero is a run-time panic; conversions between \<open>int\<close> and \<open>uint64\<close> wrap.
\<close>

definition bountyWeight :: "BountyBadgeReward list \<Rightarrow> int" where
  "bountyWeight rows = foldl (\<lambda>total row. w64 (total + bbr_Weight row)) 0 rows"

definition badge_draw :: "64 word \<Rightarrow> BountyBadgeReward list \<Rightarrow> (BountyBadgeReward \<times> int) result" where
  "badge_draw h rewards =
     (let total = bountyWeight rewards in
      if total = 0 then Inl Panic
      else
        let pick = w64 (uint (h mod of_int total));
            chosen = (case pick_weighted bbr_Weight pick rewards of None \<Rightarrow> last rewards | Some reward \<Rightarrow> reward);
            span = w64 (w64 (bbr_Max chosen - bbr_Min chosen) + 1)
        in Inr (chosen, if span > 1 then w64 (bbr_Min chosen + w64 (uint (drop_bit 16 h mod of_int span))) else bbr_Min chosen))"

definition Service_DrawBountyBadge ::
  "'g econ_lib \<Rightarrow> 's EconService \<Rightarrow> 's \<Rightarrow> string \<Rightarrow> int \<Rightarrow> int \<Rightarrow> string \<Rightarrow> 's \<times> BountyBadgeDrawResult result" where
  "Service_DrawBountyBadge L sv s opID accountID characterID badge = with_rules sv s (\<lambda>c.
     case map_of (bty_BadgeLottery (cfg_Bounties c)) (ToLower (X_case L) (TrimSpace badge)) of
       None \<Rightarrow> (s, Inl (ErrMsg ''unknown bounty badge''))
     | Some lottery \<Rightarrow>
         if bbl_Rewards lottery = [] then (s, Inl (ErrMsg ''empty bounty badge lottery''))
         else
           then_do (s, badge_draw (fnv64a (opID @ '':'' @ FormatInt accountID @ '':'' @ FormatInt characterID))
             (bbl_Rewards lottery)) (\<lambda>s (chosen, amount).
           r_DrawBountyBadge (r_payment (es_store sv)) s
             \<lparr>bdq_OpID = opID, bdq_AccountID = accountID, bdq_CharacterID = characterID,
              bdq_BadgeItemID = bbl_CostItemID lottery, bdq_RewardType = bbr_Type chosen,
              bdq_RewardItemID = bbr_ItemID chosen, bdq_Amount = amount\<rparr>))"

section \<open>Token balances\<close>

definition defaultSource :: "string \<Rightarrow> string" where
  "defaultSource source = (if TrimSpace source = [] then ''manual_reward'' else TrimSpace source)"

definition Service_GrantLocked ::
  "'s EconService \<Rightarrow> 's \<Rightarrow> int \<Rightarrow> int \<Rightarrow> string \<Rightarrow> string \<Rightarrow> int \<Rightarrow> 's \<times> LockedGame result" where
  "Service_GrantLocked sv s accountID amount source ref cooldownHours =
     (let (now, s1) = r_Now (es_store sv) s in
      r_GrantLocked (r_treasury (es_store sv)) s1 accountID amount (defaultSource source) ref
        (now + w64 ((if cooldownHours \<le> 0 then 74 else cooldownHours) * hour_nanos)))"

definition Service_RequestWithdrawal ::
  "'s EconService \<Rightarrow> 's \<Rightarrow> int \<Rightarrow> int \<Rightarrow> string \<Rightarrow> 's \<times> Withdrawal result" where
  "Service_RequestWithdrawal sv s accountID amount wallet0 =
     (if amount \<le> 0 then (s, Inl (ErrMsg ''amount must be positive''))
      else
        then_do (s, if TrimSpace wallet0 \<noteq> [] then Inr (TrimSpace wallet0)
                    else case r_Account (es_store sv) s accountID of
                           None \<Rightarrow> Inl ErrNotFound | Some account \<Rightarrow> Inr (ac_WalletAddress account)) (\<lambda>s wallet.
        if wallet = [] then (s, Inl (ErrMsg ''wallet is required''))
        else r_CreateWithdrawal (r_treasury (es_store sv)) s accountID amount wallet
               (amount > lim_singleMax (es_limits sv))))"

definition Service_SettleUnlocks :: "'s EconService \<Rightarrow> 's \<Rightarrow> int \<Rightarrow> 's \<times> LockedGame list" where
  "Service_SettleUnlocks sv s limit =
     (let (now, s1) = r_Now (es_store sv) s in r_SettleUnlocks (r_treasury (es_store sv)) s1 now limit)"

definition Service_ProcessWithdrawals :: "'s EconService \<Rightarrow> 's \<Rightarrow> int \<Rightarrow> 's \<times> Withdrawal list" where
  "Service_ProcessWithdrawals sv s limit =
     (let (now, s1) = r_Now (es_store sv) s in
      r_ProcessAutoWithdrawalsWithChain (r_treasury (es_store sv)) s1 now (es_limits sv) limit)"

end
