(* ===== verification/EconomyServiceProps.thy ===== *)
theory EconomyServiceProps
  imports EconomyService
begin

text \<open>
  Properties of the economy service over any repository: what a purchase in a regular shop charges
  and what a badge draw pays.
\<close>

section \<open>A loaded service\<close>

text \<open>A service whose configuration has been loaded.\<close>

definition ready :: "'s EconService \<Rightarrow> Config \<Rightarrow> bool" where
  "ready sv c \<longleftrightarrow> es_rulesErr sv = None \<and> es_economyRules sv = Some c"

lemma with_rules_ready: "ready sv c \<Longrightarrow> with_rules sv s k = k c"
  by (simp add: with_rules_def ready_def)

lemma new_service_ready: "LoadDir uc quote files dir = Inr c \<Longrightarrow> ready (NewEconService uc quote files dir wallet lms repo) c"
  by (simp add: NewEconService_def ready_def)

section \<open>Badge draws\<close>

lemma uint_mod_of_int:
  fixes h :: "64 word"
  assumes "0 < n" "n < 2 ^ 63"
  shows "0 \<le> uint (h mod of_int n) \<and> uint (h mod of_int n) < n"
proof -
  have "uint (of_int n :: 64 word) = n" using assms by (simp add: unsigned_of_int take_bit_int_eq_self)
  then have "uint (h mod of_int n) = uint h mod n" by (simp add: uint_mod)
  then show ?thesis using assms(1) by simp
qed

lemma pick_weighted_in: "pick_weighted w pick rows = Some row \<Longrightarrow> row \<in> set rows"
  by (induction rows arbitrary: pick) (auto split: if_splits)

lemma i64_range: "i64 x \<longleftrightarrow> - (2 ^ 63) \<le> x \<and> x < 2 ^ 63"
  by (auto simp: i64_def)

lemma badge_draw_in:
  assumes "rewards \<noteq> []" "0 < bountyWeight rewards"
    and "\<And>reward. reward \<in> set rewards \<Longrightarrow> 0 \<le> bbr_Min reward \<and> bbr_Min reward \<le> bbr_Max reward \<and> bbr_Max reward < 2 ^ 63"
  obtains reward amount where "badge_draw h rewards = Inr (reward, amount)" "reward \<in> set rewards"
    "bbr_Min reward \<le> amount" "amount \<le> bbr_Max reward"
proof -
  define pick where "pick = w64 (uint (h mod of_int (bountyWeight rewards)))"
  define chosen where "chosen = (case pick_weighted bbr_Weight pick rewards of None \<Rightarrow> last rewards | Some reward \<Rightarrow> reward)"
  define span where "span = w64 (w64 (bbr_Max chosen - bbr_Min chosen) + 1)"
  define amount where "amount = (if span > 1 then w64 (bbr_Min chosen + w64 (uint (drop_bit 16 h mod of_int span))) else bbr_Min chosen)"
  have draw: "badge_draw h rewards = Inr (chosen, amount)"
    using assms(2) by (simp add: badge_draw_def Let_def pick_def chosen_def span_def amount_def)
  have chosen: "chosen \<in> set rewards"
    using assms(1) by (auto simp: chosen_def dest: pick_weighted_in split: option.split)
  note bounds = assms(3) [OF chosen]
  have "bbr_Min chosen \<le> amount \<and> amount \<le> bbr_Max chosen"
  proof (cases "span > 1")
    case True
    have diff: "w64 (bbr_Max chosen - bbr_Min chosen) = bbr_Max chosen - bbr_Min chosen"
      using bounds by (intro w64_id) (simp add: i64_range)
    have span: "span = bbr_Max chosen - bbr_Min chosen + 1"
    proof (cases "bbr_Max chosen - bbr_Min chosen + 1 < 2 ^ 63")
      case True
      then show ?thesis using bounds unfolding span_def diff by (intro w64_id) (simp add: i64_range)
    next
      case False
      then have "bbr_Max chosen - bbr_Min chosen + 1 = 2 ^ 63" using bounds by linarith
      then have "span = - (2 ^ 63)" unfolding span_def diff by (simp add: w64_def)
      with True show ?thesis by simp
    qed
    have "span < 2 ^ 63" using i64_w64 [of "w64 (bbr_Max chosen - bbr_Min chosen) + 1"] by (simp add: span_def i64_range)
    then have n: "0 \<le> uint (drop_bit 16 h mod of_int span)" "uint (drop_bit 16 h mod of_int span) < span"
      using uint_mod_of_int [of span "drop_bit 16 h"] True by simp_all
    define k where "k = uint (drop_bit 16 h mod of_int span)"
    have k: "0 \<le> k" "k < span" using n by (simp_all add: k_def)
    have "w64 k = k" "w64 (bbr_Min chosen + k) = bbr_Min chosen + k"
      using k span bounds by (auto intro!: w64_id simp: i64_range)
    then have "amount = bbr_Min chosen + k" using True by (simp add: amount_def k_def)
    then show ?thesis using k span by simp
  qed (use bounds in \<open>simp add: amount_def\<close>)
  with draw chosen that show ?thesis by blast
qed

text \<open>
  Property C36. A badge draw with a configuration that loads never fails on its own account: for every
  configured badge it asks the repository, exactly once, to pay one of the badge's rewards, with an
  amount between the reward's minimum and maximum, against the badge's own cost item; the reward is
  a known item where it is an item.
\<close>

theorem badge_draw_pays_configured_reward:
  assumes "LoadDir uc quote files dir = Inr c" and "ready sv c"
    and "map_of (bty_BadgeLottery (cfg_Bounties c)) (ToLower (X_case L) (TrimSpace badge)) = Some lottery"
    and "\<forall>reward \<in> set (bbl_Rewards lottery). bbr_Max reward < 2 ^ 63"
  shows "\<exists>reward amount. reward \<in> set (bbl_Rewards lottery) \<and> bbr_Min reward \<le> amount \<and> amount \<le> bbr_Max reward \<and>
    (bbr_Type reward = ''item'' \<longrightarrow> known (cfg_Items c) (bbr_ItemID reward)) \<and> known (cfg_Items c) (bbl_CostItemID lottery) \<and>
    Service_DrawBountyBadge L sv s opID accountID characterID badge =
      r_DrawBountyBadge (r_payment (es_store sv)) s
        \<lparr>bdq_OpID = opID, bdq_AccountID = accountID, bdq_CharacterID = characterID,
         bdq_BadgeItemID = bbl_CostItemID lottery, bdq_RewardType = bbr_Type reward,
         bdq_RewardItemID = bbr_ItemID reward, bdq_Amount = amount\<rparr>"
proof -
  have "validate_bounties quote c = Inr ()" using LoadDir_valid [OF assms(1)] by (simp add: validate_def)
  then have badge: "validate_badge quote c (ToLower (X_case L) (TrimSpace badge), lottery) = Inr ()"
    using map_of_SomeD [OF assms(3)] by (auto simp: validate_bounties_def Let_def each_ok)
  have rewards: "0 \<le> bbr_Min reward \<and> bbr_Min reward \<le> bbr_Max reward \<and>
      (bbr_Type reward = ''item'' \<longrightarrow> known (cfg_Items c) (bbr_ItemID reward))" if "reward \<in> set (bbl_Rewards lottery)" for reward
    using badge that by (auto simp: validate_badge_def Let_def each_ok)
  have "validateWeights (map (\<lambda>reward. ((), bbr_Weight reward)) (bbl_Rewards lottery)) = Inr ()"
    and cost: "known (cfg_Items c) (bbl_CostItemID lottery)"
    using badge by (simp_all add: validate_badge_def Let_def)
  then have weight: "0 < bountyWeight (bbl_Rewards lottery)"
    by (auto simp: validateWeights_def bountyWeight_def foldl_map split: if_splits)
  then have "bbl_Rewards lottery \<noteq> []" by (auto simp: bountyWeight_def)
  then obtain reward amount where draw: "reward \<in> set (bbl_Rewards lottery)" "bbr_Min reward \<le> amount" "amount \<le> bbr_Max reward"
    "badge_draw (fnv64a (opID @ '':'' @ FormatInt accountID @ '':'' @ FormatInt characterID)) (bbl_Rewards lottery) = Inr (reward, amount)"
    using badge_draw_in [OF _ weight] rewards assms(4) by metis
  then show ?thesis
    using rewards [OF draw(1)] cost \<open>bbl_Rewards lottery \<noteq> []\<close>
    by (auto simp: Service_DrawBountyBadge_def with_rules_ready [OF assms(2)] assms(3) intro!: exI [of _ reward] exI [of _ amount])
qed


definition sample_lib :: "nat econ_lib" where
  "sample_lib = \<lparr>X_case = (\<lambda>x. x), X_quote = (\<lambda>x. x), X_rand = sample_rand, X_float = sample_floats,
     X_zone = (\<lambda>_. Inr (\<lambda>_. (0, 0, 1))), X_visits = (\<lambda>_. [])\<rparr>"

definition sample_service :: "store EconService" where
  "sample_service = NewEconService (\<lambda>x. x) (\<lambda>x. x) small_files [] ''w''
     \<lparr>lim_singleMax = 1, lim_userDailyMax = 1, lim_globalHourlyMax = 1, lim_globalDailyMax = 1\<rparr>
     (memory_repository (\<lambda>x. x) (\<lambda>x. x) (\<lambda>_. []) (\<lambda>_. []))"

lemma sample_ready: "ready sample_service small_config"
  unfolding sample_service_def by (rule new_service_ready) (rule small_config_loads)

text \<open>A repository that pays every badge draw as asked.\<close>

definition paying_service :: "store EconService" where
  "paying_service = sample_service\<lparr>es_store := (es_store sample_service)\<lparr>r_payment := (r_payment (es_store sample_service))
     \<lparr>r_DrawBountyBadge := \<lambda>s req. (s, Inr \<lparr>bdr_RewardType = bdq_RewardType req,
        bdr_ItemID = bdq_RewardItemID req, bdr_Amount = bdq_Amount req, bdr_UnlockAt = None\<rparr>)\<rparr>\<rparr>\<rparr>"

lemma paying_ready: "ready paying_service small_config"
  using sample_ready by (simp add: paying_service_def ready_def)

theorem badge_draw_pays_configured_reward_witness:
  "\<exists>t r. Service_DrawBountyBadge sample_lib paying_service (gatherer minute_clock) ''op'' 7 8 ''bronze'' = (t, Inr r) \<and>
     bdr_ItemID r = ''ore'' \<and> 2 \<le> bdr_Amount r \<and> bdr_Amount r \<le> 5"
proof -
  obtain lottery where lottery: "map_of (bty_BadgeLottery (cfg_Bounties small_config)) (ToLower (X_case sample_lib) (TrimSpace ''bronze''))
      = Some lottery" "bbl_Rewards lottery = [\<lparr>bbr_Type = ''item'', bbr_ItemID = ''ore'', bbr_Weight = 1, bbr_Min = 2, bbr_Max = 5\<rparr>]"
    by (simp add: small_config_def small_files_def sample_lib_def ToLower_def ascii_def lower_char_def)
  have "\<forall>reward \<in> set (bbl_Rewards lottery). bbr_Max reward < 2 ^ 63" by (simp add: lottery(2))
  from badge_draw_pays_configured_reward [OF small_config_loads paying_ready lottery(1) this, of "gatherer minute_clock" "''op''" 7 8]
  obtain amount where "2 \<le> amount" "amount \<le> 5" "Service_DrawBountyBadge sample_lib paying_service (gatherer minute_clock) ''op'' 7 8 ''bronze'' =
      r_DrawBountyBadge (r_payment (es_store paying_service)) (gatherer minute_clock)
        \<lparr>bdq_OpID = ''op'', bdq_AccountID = 7, bdq_CharacterID = 8, bdq_BadgeItemID = bbl_CostItemID lottery,
         bdq_RewardType = ''item'', bdq_RewardItemID = ''ore'', bdq_Amount = amount\<rparr>"
    by (auto simp: lottery(2))
  then show ?thesis by (simp add: paying_service_def)
qed

section \<open>Purchases in a regular shop\<close>

definition unit_price :: "Item \<Rightarrow> ShopSellItem \<Rightarrow> int" where
  "unit_price item sellItem = (if ssi_BuyPrice sellItem > 0 then ssi_BuyPrice sellItem else itm_BuyPrice item)"

definition level_fits :: "ShopSellItem \<Rightarrow> int \<Rightarrow> bool" where
  "level_fits sellItem level \<longleftrightarrow> (ssi_MinLevel sellItem \<le> 0 \<or> ssi_MinLevel sellItem \<le> level) \<and>
     (ssi_MaxLevel sellItem \<le> 0 \<or> level \<le> ssi_MaxLevel sellItem)"

lemma level_refusal_None:
  "shp_Mystery shop = None \<Longrightarrow> level_refusal shop (Some sellItem) level = None \<longleftrightarrow> level_fits sellItem level"
  by (auto simp: level_refusal_def level_fits_def split: if_splits)

text \<open>What the repository is asked, and how its answer is passed on.\<close>

definition charged ::
  "'g econ_lib \<Rightarrow> 's EconService \<Rightarrow> Item \<Rightarrow> ShopSellItem \<Rightarrow> 's \<Rightarrow> ShopBuyRequest \<Rightarrow> 's \<Rightarrow> ShopBuyResult \<Rightarrow> bool" where
  "charged L sv item sellItem u req t r \<longleftrightarrow>
     (let price = w64 (unit_price item sellItem * sb_Quantity req) in 0 < price \<and>
      (if itm_BuyCurrency item = 1
       then sb_TokenCost req = price \<and> sb_GoldCost req = 0 \<and> sb_ReceiverWallet req = TrimSpace (es_SolanaDepositWallet sv) \<and>
         r_CreateShopBuyPayment (r_shop (es_store sv)) u req = (t, Inr r)
       else sb_GoldCost req = price \<and> sb_TokenCost req = 0 \<and>
         (\<exists>r0. r_ShopBuyGold (r_shop (es_store sv)) u req = (t, Inr r0) \<and>
            resolveSnapshot L sv (sbr_Snapshot r0) = Inr (sbr_Snapshot r) \<and> sbr_Order r = sbr_Order r0)))"

lemma SellItem_listed:
  assumes "SellItem shop itemID = Some sellItem" "0 < ssi_SlotIndex sellItem"
  shows "sellItem \<in> set (shp_SellItems shop)" "TrimSpace (ssi_ItemID sellItem) = TrimSpace itemID" "\<not> shp_SellAllItems shop"
  using assms by (auto simp: SellItem_def Let_def bare_sell_item_def find_Some_iff in_set_conv_nth split: if_splits)

lemma shop_day_listed:
  assumes "shp_Mystery shop = None" "shop_day L sv s shop (Some sellItem) = (t, Inr (slot, limit, day))"
  shows "slot = ssi_SlotIndex sellItem" "limit = ssi_DailyLimit sellItem" "0 < slot" "0 < limit"
  using assms by (auto simp: shop_day_def then_do_ok split: if_splits prod.splits)

text \<open>
  Property C4. In a regular shop, over any repository, a purchase that succeeds was for an item the shop
  lists by name (a shop that only sets sellAllItems sells nothing), at a character level in the item's
  range and with a positive quantity, slot and daily limit; and the repository was asked exactly for
  it: the account, the character, the item, the quantity, the slot and its limit, the planned goods,
  and the unit price of the shop (or else of the item) times the quantity, in tokens to the deposit
  wallet or in gold as the item's currency says.
\<close>

theorem shop_charges_the_configured_price:
  assumes "ready sv c" and "Shop_get c shopID = Some shop" and "shp_Mystery shop = None"
    and "Service_ShopBuy L sv s opID accountID characterID shopID itemID quantity = (t, Inr r)"
  shows "\<exists>item sellItem s1 snapshot u req. map_of (cfg_Items c) (TrimSpace itemID) = Some item \<and>
    sellItem \<in> set (shp_SellItems shop) \<and> TrimSpace (ssi_ItemID sellItem) = TrimSpace (itm_ItemID item) \<and>
    \<not> shp_SellAllItems shop \<and>
    r_EconomySnapshot (es_store sv) s accountID characterID = (s1, Inr snapshot) \<and> level_fits sellItem (sn_Level snapshot) \<and>
    sb_AccountID req = accountID \<and> sb_CharacterID req = characterID \<and> sb_ShopID req = TrimSpace shopID \<and>
    sb_ItemID req = itm_ItemID item \<and> 0 < quantity \<and> sb_Quantity req = quantity \<and> sb_MysterySlotIndex req = 0 \<and>
    0 < ssi_SlotIndex sellItem \<and> sb_ShopSlotIndex req = ssi_SlotIndex sellItem \<and>
    0 < ssi_DailyLimit sellItem \<and> sb_ShopDailyLimit req = ssi_DailyLimit sellItem \<and>
    ShopPurchasePlan (X_quote L) (X_rand L) c opID characterID (itm_ItemID item) quantity (ssi_Rarity sellItem) =
      Inr (sb_RewardPlan req) \<and>
    sb_GrantGold req = w64 (itm_GrantGold item * quantity) \<and> charged L sv item sellItem u req t r"
proof -
  note run = assms(4) [unfolded Service_ShopBuy_def with_rules_ready [OF assms(1)] assms(2) option.case]
  obtain item where item: "map_of (cfg_Items c) (TrimSpace itemID) = Some item" using run by (auto split: option.splits)
  obtain sellItem where sold: "SellItem shop (itm_ItemID item) = Some sellItem" and quantity: "0 < quantity"
    using run assms(3) by (auto simp: item SellsItem_def split: if_splits)
  obtain s1 snapshot where snapshot: "r_EconomySnapshot (es_store sv) s accountID characterID = (s1, Inr snapshot)"
    and level: "level_refusal shop (Some sellItem) (sn_Level snapshot) = None"
    using run assms(3) quantity by (auto simp: item sold SellsItem_def then_do_ok Let_def split: option.splits)
  obtain u slot limit day plan where day: "shop_day L sv s1 shop (Some sellItem) = (u, Inr (slot, limit, day))"
    and price: "0 < w64 (unit_price item sellItem * quantity)"
    and plan: "ShopPurchasePlan (X_quote L) (X_rand L) c opID characterID (itm_ItemID item) quantity (ssi_Rarity sellItem) = Inr plan"
    using run assms(3) quantity
    by (auto simp: item sold SellsItem_def then_do_ok Let_def snapshot level shop_price_def unit_price_def split: if_splits)
  note listed = shop_day_listed [OF assms(3) day] 
  define req where "req = \<lparr>sb_OpID = opID, sb_AccountID = accountID, sb_CharacterID = characterID,
    sb_ShopID = TrimSpace shopID, sb_ItemID = itm_ItemID item, sb_Quantity = quantity, sb_MysterySlotIndex = 0,
    sb_ShopSlotIndex = slot, sb_ShopDailyLimit = limit, sb_ShopBusinessDate = day,
    sb_GoldCost = if itm_BuyCurrency item = 1 then 0 else w64 (unit_price item sellItem * quantity),
    sb_TokenCost = if itm_BuyCurrency item = 1 then w64 (unit_price item sellItem * quantity) else 0,
    sb_ReceiverWallet = if itm_BuyCurrency item = 1 then TrimSpace (es_SolanaDepositWallet sv) else [],
    sb_GrantGold = w64 (itm_GrantGold item * quantity), sb_RewardPlan = plan,
    sb_ConfigSnapshot = [(''shopId'', AnyString (TrimSpace shopID)), (''itemId'', AnyString (itm_ItemID item)),
      (''quantity'', AnyInt quantity), (''unitPrice'', AnyInt (unit_price item sellItem)),
      (''totalPrice'', AnyInt (w64 (unit_price item sellItem * quantity))),
      (''buyCurrency'', AnyInt (itm_BuyCurrency item)), (''mysterySlotIndex'', AnyInt 0),
      (''shopSlotIndex'', AnyInt slot), (''shopBusinessDate'', AnyString day)]\<rparr>"
  have "charged L sv item sellItem u req t r"
    using run assms(3) quantity price unfolding charged_def req_def
    by (auto simp: item sold SellsItem_def then_do_ok Let_def snapshot level shop_price_def day plan simp flip: unit_price_def
        split: if_splits)
  then show ?thesis
    using item snapshot quantity plan listed SellItem_listed [OF sold] level_refusal_None [OF assms(3)] level
    by (intro exI [of _ item] exI [of _ sellItem] exI [of _ s1] exI [of _ snapshot] exI [of _ u] exI [of _ req])
      (simp add: req_def)
qed

lemma sample_store:
  "r_Now (es_store sample_service) = (\<lambda>s. (time_Now s, tick s))" "r_EconomySnapshot (es_store sample_service) = EconomySnapshot_op"
  "r_ShopBuyGold (r_shop (es_store sample_service)) = (\<lambda>s req. apsnd (map_sum id (\<lambda>snapshot.
     \<lparr>sbr_Order = zero_PaymentOrder, sbr_Snapshot = snapshot\<rparr>)) (ShopBuyGold s req))"
  by (simp_all add: sample_service_def NewEconService_def memory_repository_def Let_def)

lemma sample_resolves: "sn_Equipment sn = [] \<Longrightarrow> \<exists>sn'. resolveSnapshot L sample_service sn = Inr sn'"
  using sample_ready by (simp add: resolveSnapshot_def ready_def Let_def)

lemma sample_shop:
  "Shop_get small_config ''s'' = Some ((small_shop ''s'')\<lparr>shp_SellItems := [\<lparr>ssi_SlotIndex = 1, ssi_ItemID = ''ore'', ssi_MinLevel = 0,
       ssi_MaxLevel = 0, ssi_Rarity = 0, ssi_BuyPrice = 5, ssi_DailyLimit = 3\<rparr>]\<rparr>)"
  "map_of (cfg_Items small_config) ''ore'' = Some (small_item ''ore'')" "shp_Mystery (small_shop k) = None" "shp_SellAllItems (small_shop k) = False"
  "itm_ItemID (small_item k) = k" "itm_BuyCurrency (small_item k) = 0" "itm_GrantGold (small_item k) = 0" "itm_GrantLockedAEB (small_item k) = 0"
  "itm_IsEquipment (small_item k) = False"
  by (simp_all add: Shop_get_def small_config_fields small_shops_def small_item_def equipment_item_def small_shop_def)

lemma snapshot_of_owner:
  assumes "characters s characterID = Some row" "owns accountID row"
  obtains sn where "EconomySnapshot_op s accountID characterID =
      (s\<lparr>tokens := (tokens s)(accountID \<mapsto> token_of s accountID)\<rparr>, Inr sn)" "sn_Equipment sn = []"
    "sn_Level sn = ch_Level row"
proof -
  have "\<exists>sn. EconomySnapshot_op s accountID characterID = (s\<lparr>tokens := (tokens s)(accountID \<mapsto> token_of s accountID)\<rparr>, Inr sn) \<and>
      sn_Equipment sn = [] \<and> sn_Level sn = ch_Level row"
    using assms by (simp add: EconomySnapshot_op_def ensureTokenLocked_eq Let_def)
  then show ?thesis using that by blast
qed

lemma sample_day:
  "\<exists>t day start stop. shopBusinessDay sample_lib sample_service s now tz = (t, Inr (day, start, stop)) \<and> characters t = characters s"
  by (simp add: shopBusinessDay_def dayRange_def sample_lib_def now_or_clock_def sample_store then_do_def day_window_def tick_def Let_def)

lemma sample_purchase:
  "\<exists>t r. Service_ShopBuy sample_lib sample_service (gatherer minute_clock) ''op'' 7 8 ''s'' ''ore'' 2 = (t, Inr r)"
proof -
  have owner: "characters (gatherer minute_clock) 8 = Some (zero_Character\<lparr>ch_ID := 8, ch_AccountID := 7\<rparr>)"
    "owns 7 (zero_Character\<lparr>ch_ID := 8, ch_AccountID := 7\<rparr>)"
    by (simp_all add: gatherer_def owns_def zero_Character_def)
  obtain sn where sn: "EconomySnapshot_op (gatherer minute_clock) 7 8 =
      ((gatherer minute_clock)\<lparr>tokens := (tokens (gatherer minute_clock))(7 \<mapsto> token_of (gatherer minute_clock) 7)\<rparr>, Inr sn)"
    using snapshot_of_owner [OF owner] by blast
  define s1 where "s1 = (gatherer minute_clock)\<lparr>tokens := (tokens (gatherer minute_clock))(7 \<mapsto> token_of (gatherer minute_clock) 7)\<rparr>"
  obtain t day start stop where day: "shopBusinessDay sample_lib sample_service (tick s1) (time_Now s1) ''UTC'' = (t, Inr (day, start, stop))"
    "characters t = characters (tick s1)" using sample_day by blast
  have "characters t 8 = Some (zero_Character\<lparr>ch_ID := 8, ch_AccountID := 7\<rparr>)" using owner(1) day(2) by (simp add: s1_def tick_def)
  from snapshot_of_owner [OF this owner(2)] obtain sn' where sn':
    "EconomySnapshot_op t 7 8 = (t\<lparr>tokens := (tokens t)(7 \<mapsto> token_of t 7)\<rparr>, Inr sn')" "sn_Equipment sn' = []" by blast
  obtain sn'' where "resolveSnapshot sample_lib sample_service sn' = Inr sn''" using sample_resolves [OF sn'(2)] by blast
  moreover have "X_quote sample_lib = (\<lambda>x. x)" "shp_DailyLimitTimezone (small_shop ''s'') = ''UTC''"
    by (simp_all add: sample_lib_def small_shop_def)
  ultimately show ?thesis
    using day(1) sn'(1)
    by (simp add: Service_ShopBuy_def with_rules_ready [OF sample_ready] sample_shop SellsItem_def SellItem_def sample_store
        sn level_refusal_def shop_price_def w64_def shop_day_def ShopPurchasePlan_def ShopBuyGold_def Let_def flip: s1_def)
qed

theorem shop_charges_the_configured_price_witness:
  "\<exists>t u req r. sb_GoldCost req = 10 \<and> sb_ShopSlotIndex req = 1 \<and> r_ShopBuyGold (r_shop (es_store sample_service)) u req = (t, Inr r)"
proof -
  obtain t r where buy: "Service_ShopBuy sample_lib sample_service (gatherer minute_clock) ''op'' 7 8 ''s'' ''ore'' 2 = (t, Inr r)"
    using sample_purchase by blast
  obtain item sellItem u req where "map_of (cfg_Items small_config) (TrimSpace ''ore'') = Some item"
    "sellItem \<in> set (shp_SellItems ((small_shop ''s'')\<lparr>shp_SellItems := [\<lparr>ssi_SlotIndex = 1, ssi_ItemID = ''ore'', ssi_MinLevel = 0,
       ssi_MaxLevel = 0, ssi_Rarity = 0, ssi_BuyPrice = 5, ssi_DailyLimit = 3\<rparr>]\<rparr>))"
    "sb_Quantity req = 2" "sb_ShopSlotIndex req = ssi_SlotIndex sellItem" "charged sample_lib sample_service item sellItem u req t r"
    using shop_charges_the_configured_price [OF sample_ready sample_shop(1) _ buy] by (auto simp: sample_shop)
  then show ?thesis
    by (intro exI [of _ t] exI [of _ u] exI [of _ req]) (auto simp: sample_shop charged_def unit_price_def w64_def Let_def)
qed

end
