(* ===== verification/MysteryBoardProps.thy ===== *)
theory MysteryBoardProps
  imports EconomyServiceProps
begin

text \<open>
  Buying from the mystery shop. The locale \<open>board_repository\<close> is what the service relies on: which
  calls keep the boards, what a refresh stores and what a purchase marks. Its lemmas follow the
  service through a board request and a purchase; the interpretation is the in-memory repository.
\<close>

section \<open>Boards\<close>

text \<open>Slot numbers that identify the offers of a board.\<close>

definition slots_sound :: "int list \<Rightarrow> bool" where
  "slots_sound slots \<longleftrightarrow> distinct slots \<and> (\<forall>i \<in> set slots. 0 < i)"

definition board_sound :: "MysteryShopOffer list \<Rightarrow> bool" where
  "board_sound offers \<longleftrightarrow> slots_sound (map mo_SlotIndex offers)"

lemma mark_purchased_eq:
  assumes "distinct (map mo_SlotIndex offers)" "offer \<in> set offers"
  shows "mark_purchased (mo_SlotIndex offer) offers = map (\<lambda>x. if x = offer then x\<lparr>mo_Purchased := True\<rparr> else x) offers"
  using assms
proof (induction offers)
  case (Cons first offers)
  have rest: "map (\<lambda>x. if x = offer then x\<lparr>mo_Purchased := True\<rparr> else x) offers = offers" if "first = offer"
    using Cons.prems(1) that by (intro map_idI) auto
  show ?case
  proof (cases "first = offer")
    case False
    then have "mo_SlotIndex first \<noteq> mo_SlotIndex offer" using Cons.prems by (auto simp: rev_image_eqI)
    then show ?thesis using Cons False by auto
  qed (use rest in auto)
qed simp

lemma mark_purchased_slots: "map mo_SlotIndex (mark_purchased slot offers) = map mo_SlotIndex offers"
  by (induction offers) auto

lemma board_sound_mark: "board_sound offers \<Longrightarrow> board_sound (mark_purchased slot offers)"
  by (simp add: board_sound_def mark_purchased_slots)

lemma roll_slots_index:
  assumes "roll_slots R discounts unlocked level slots g = Inr offers"
  shows "\<exists>kept. map mo_SlotIndex offers = map mss_SlotIndex (filter kept slots)"
proof -
  let ?kept = "\<lambda>slot. \<not> (mss_SlotIndex slot > unlocked \<or> level < mss_UnlockLevel slot)"
  have "map mo_SlotIndex offers = map mss_SlotIndex (filter ?kept slots)"
    using assms
    by (induction slots arbitrary: g offers) (auto simp: offer_of_def Let_def split: if_splits sum.splits)
  then show ?thesis by blast
qed

lemma rolled_board_sound:
  assumes "validate uc quote c = Inr ()" "mystery_shop c shopID = Some (shop, m)"
    "rollMysteryShopOffers R m level characterID now = Inr offers"
  shows "board_sound offers"
proof -
  have shop: "Shop_get c shopID = Some shop" "shp_Mystery shop = Some m"
    using assms(2) by (auto simp: mystery_shop_def split: option.splits)
  note valid = validated_mystery [OF assms(1) shop]
  obtain kept where index: "map mo_SlotIndex offers = map mss_SlotIndex (filter kept (msc_Slots m))"
    by (rule exE [OF roll_slots_index [OF assms(3) [unfolded rollMysteryShopOffers_def]]])
  have "0 < mss_SlotIndex slot" if "slot \<in> set (msc_Slots m)" for slot
  proof -
    have "each_after (validate_mystery_slot quote c (TrimSpace shopID) m) [] (msc_Slots m) = Inr ()"
      using valid by (simp add: validate_mystery_def Let_def)
    from each_after_ok [OF this that] show ?thesis by (auto simp: validate_mystery_slot_def Let_def)
  qed
  then show ?thesis
    using mystery_parts(3) [OF valid] by (auto simp: board_sound_def slots_sound_def index distinct_map_filter)
qed

section \<open>What the service relies on\<close>

definition left_nothing :: "MysteryShopOffer list option \<Rightarrow> bool" where
  "left_nothing board \<longleftrightarrow> (case board of None \<Rightarrow> True | Some offers \<Rightarrow> mysteryOffersSoldOut offers)"

type_synonym boards = "int \<times> string \<Rightarrow> MysteryShopOffer list option"

locale board_repository =
  fixes repo :: "'s Repository" and boards :: "'s \<Rightarrow> boards"
  assumes now_keeps: "boards (snd (r_Now repo s)) = boards s"
    and snapshot_keeps: "boards (fst (r_EconomySnapshot repo s a ch)) = boards s"
    and count_keeps: "boards (fst (r_MysteryShopPaidRefreshCount (r_shop repo) s a ch k start stop)) = boards s"
    and read_keeps: "boards (fst (r_MysteryShopBoard (r_shop repo) s a ch k)) = boards s"
    and read_back: "snd (r_MysteryShopBoard (r_shop repo) s a ch k) = Inr state \<Longrightarrow>
      boards s (ch, TrimSpace k) = Some (mb_Offers state)"
    and read_owner: "r_EconomySnapshot repo s a ch = (u, Inr sn) \<Longrightarrow> snd (r_MysteryShopBoard (r_shop repo) u a ch k) = Inl e \<Longrightarrow>
      boards u (ch, TrimSpace k) = None"
    and refresh_stores: "r_RefreshMysteryShop (r_shop repo) s req = (t, Inr state) \<Longrightarrow>
      mb_Offers state = mr_Offers req \<and>
      boards t = (boards s)((mr_CharacterID req, TrimSpace (mr_ShopID req)) \<mapsto> mr_Offers req)"
    and buy_marks: "r_ShopBuyGold (r_shop repo) s buy = (t, Inr r) \<Longrightarrow> 0 < sb_MysterySlotIndex buy \<Longrightarrow>
      boards t = (boards s)((sb_CharacterID buy, TrimSpace (sb_ShopID buy)) :=
        map_option (mark_purchased (sb_MysterySlotIndex buy)) (boards s (sb_CharacterID buy, TrimSpace (sb_ShopID buy))))"
begin

lemma day_keeps:
  assumes "es_store sv = repo" "dayRange L sv s now tz = (t, r)"
  shows "boards t = boards s"
proof -
  have "boards (snd (now_or_clock sv s now)) = boards s" by (simp add: now_or_clock_def assms(1) now_keeps)
  then show ?thesis using assms(2) by (auto simp: dayRange_def split: prod.splits sum.splits)
qed

lemma next_cost_keeps:
  assumes "es_store sv = repo" "nextMysteryRefreshTokenCost L sv s m a ch k now = (t, Inr cost)"
  shows "boards t = boards s"
proof -
  obtain u start stop n where u: "dayRange L sv s now (msc_DailyLimitTimezone m) = (u, Inr (start, stop))"
    "r_MysteryShopPaidRefreshCount (r_shop repo) u a ch k start stop = (t, Inr n)"
    using assms by (auto simp: nextMysteryRefreshTokenCost_def then_do_ok Let_def)
  have "boards t = boards u" using count_keeps [of u a ch k start stop] unfolding u(2) by simp
  with day_keeps [OF assms(1) u(1)] show ?thesis by simp
qed

text \<open>A board the service shows is the stored one, or freshly rolled because nothing was left.\<close>

lemma shown_board:
  assumes "es_store sv = repo" "ready sv c" "mystery_shop c shopID = Some (shop, m)"
    "Service_MysteryShopBoard L sv s a ch shopID now = (t, Inr view)"
  defines "key \<equiv> (ch, TrimSpace (shp_ShopID shop))"
  shows "boards t = (boards s)(key \<mapsto> mbv_Offers view)" (is ?stored)
    and "boards s key = Some (mbv_Offers view) \<and> \<not> mysteryOffersSoldOut (mbv_Offers view) \<or>
      left_nothing (boards s key) \<and> (\<exists>level now'. rollMysteryShopOffers (X_rand L) m level ch now' = Inr (mbv_Offers view))"
      (is ?origin)
proof -
  define now' where "now' = fst (now_or_clock sv s now)"
  define s0 where "s0 = snd (now_or_clock sv s now)"
  have s0: "boards s0 = boards s" by (simp add: s0_def now_or_clock_def assms(1) now_keeps)
  have "now_or_clock sv s now = (now', s0)" by (simp add: now'_def s0_def)
  note run = assms(4) [unfolded Service_MysteryShopBoard_def with_rules_ready [OF assms(2)] assms(1,3) option.case prod.case
      this Let_def]
  obtain s1 sn where sn: "r_EconomySnapshot repo s0 a ch = (s1, Inr sn)" using run by (auto simp: then_do_ok)
  have s1: "boards s1 = boards s" using snapshot_keeps [of s0 a ch] by (simp add: sn s0)
  obtain s2 board where board: "r_MysteryShopBoard (r_shop repo) s1 a ch (shp_ShopID shop) = (s2, board)" by fastforce
  have s2: "boards s2 = boards s" using read_keeps [of s1 a ch "shp_ShopID shop"] by (simp add: board s1)
  obtain u state cost where state: "(if board_stale board then then_do (s2, rollMysteryShopOffers (X_rand L) m (sn_Level sn) ch now')
      (\<lambda>s offers. r_RefreshMysteryShop (r_shop repo) s
        \<lparr>mr_OpID = ''mystery-free-'' @ FormatInt ch @ ''-'' @ shp_ShopID shop @ ''-'' @ FormatInt (Unix now'),
         mr_AccountID = a, mr_CharacterID = ch, mr_ShopID = shp_ShopID shop, mr_TokenCost = 0,
         mr_NextFreeRefreshAt = now', mr_GeneratedAt = now', mr_Offers = offers\<rparr>) else (s2, board)) = (u, Inr state)"
    and cost: "nextMysteryRefreshTokenCost L sv u m a ch (shp_ShopID shop) now' = (t, Inr cost)"
    and view: "mbv_Offers view = mb_Offers state"
    using run by (auto simp: then_do_ok sn board mysteryShopBoardView_def)
  have t: "boards t = boards u" by (rule next_cost_keeps [OF assms(1) cost])
  have "?stored \<and> ?origin"
  proof (cases "board_stale board")
    case True
    then obtain rolled where roll: "rollMysteryShopOffers (X_rand L) m (sn_Level sn) ch now' = Inr rolled" and fresh: "r_RefreshMysteryShop (r_shop repo) s2
        \<lparr>mr_OpID = ''mystery-free-'' @ FormatInt ch @ ''-'' @ shp_ShopID shop @ ''-'' @ FormatInt (Unix now'),
         mr_AccountID = a, mr_CharacterID = ch, mr_ShopID = shp_ShopID shop, mr_TokenCost = 0,
         mr_NextFreeRefreshAt = now', mr_GeneratedAt = now', mr_Offers = rolled\<rparr> = (u, Inr state)"
      using state by (auto simp: then_do_ok)
    from refresh_stores [OF fresh] have "mb_Offers state = rolled" "boards u = (boards s)(key \<mapsto> rolled)"
      by (simp_all add: s2 key_def)
    moreover have "left_nothing (boards s key)"
      using True read_owner [OF sn, of "shp_ShopID shop"] read_back [of s1 a ch "shp_ShopID shop"]
      by (cases board) (auto simp: board s1 key_def board_stale_def left_nothing_def)
    ultimately show ?thesis using roll by (auto simp: t view)
  next
    case False
    then have st: "board = Inr state" "u = s2" using state by simp_all
    have "boards s key = Some (mb_Offers state)"
      using read_back [of s1 a ch "shp_ShopID shop" state] by (simp add: board st(1) s1 key_def)
    then show ?thesis using False st by (simp add: t s2 view board_stale_def fun_upd_idem)
  qed
  then show ?stored and ?origin by blast+
qed

text \<open>A purchase for gold marks the offer that was picked from the board the service showed.\<close>

lemma bought_offer:
  assumes "es_store sv = repo" "ready sv c" "Shop_get c shopID = Some shop" "shp_Mystery shop = Some m"
    "mystery_shop c (shp_ShopID shop) = Some (shop, m)" "TrimSpace (shp_ShopID shop) = TrimSpace shopID"
    "Service_ShopBuy L sv s opID a ch shopID itemID quantity = (t, Inr r)"
  defines "key \<equiv> (ch, TrimSpace shopID)"
  obtains item offers offer where "map_of (cfg_Items c) (TrimSpace itemID) = Some item"
    "pick_offer (itm_ItemID item) quantity offers = Inr offer"
    "boards s key = Some offers \<and> \<not> mysteryOffersSoldOut offers \<or>
      left_nothing (boards s key) \<and> (\<exists>level now. rollMysteryShopOffers (X_rand L) m level ch now = Inr offers)"
    "mo_TokenPrice offer \<le> 0 \<Longrightarrow> 0 < mo_SlotIndex offer \<Longrightarrow>
      boards t = (boards s)(key \<mapsto> mark_purchased (mo_SlotIndex offer) offers)"
    "0 < mo_TokenPrice offer \<Longrightarrow> \<exists>u req. r_CreateShopBuyPayment (r_shop repo) u req = (t, Inr r)"
proof -
  note run = assms(7) [unfolded Service_ShopBuy_def with_rules_ready [OF assms(2)] assms(3) option.case]
  obtain item where item: "map_of (cfg_Items c) (TrimSpace itemID) = Some item" using run by (auto split: option.splits)
  define sold where "sold = SellItem shop (itm_ItemID item)"
  have level: "level_refusal shop sold x = None" for x by (simp add: level_refusal_def assms(4) split: option.split)
  have day: "shop_day L sv u shop sold = (u, Inr (0, 0, []))" for u by (simp add: shop_day_def assms(4) split: option.split)
  obtain s1 sn s2 offer where sn: "r_EconomySnapshot repo s a ch = (s1, Inr sn)"
    and offer: "availableMysteryOffer L sv s1 a ch (shp_ShopID shop) (itm_ItemID item) quantity = (s2, Inr offer)"
    using run assms(4) level by (auto simp: item then_do_ok assms(1) Let_def simp flip: sold_def split: if_splits)
  obtain view where view: "Service_MysteryShopBoard L sv (snd (r_Now repo s1)) a ch (shp_ShopID shop) (fst (r_Now repo s1)) = (s2, Inr view)"
    and pick: "pick_offer (itm_ItemID item) quantity (mbv_Offers view) = Inr offer"
    using offer by (auto simp: availableMysteryOffer_def assms(1) then_do_ok Let_def case_prod_beta)
  have s1: "boards (snd (r_Now repo s1)) = boards s" using snapshot_keeps [of s a ch] by (simp add: now_keeps sn)
  note shown = shown_board [OF assms(1,2,5) view, unfolded s1 assms(6), folded key_def]
  show ?thesis
  proof (rule that [OF item pick shown(2)])
    assume gold: "mo_TokenPrice offer \<le> 0" "0 < mo_SlotIndex offer"
    obtain req r0 where buy: "r_ShopBuyGold (r_shop repo) s2 req = (t, Inr r0)" "sb_MysterySlotIndex req = mo_SlotIndex offer"
      "sb_CharacterID req = ch" "sb_ShopID req = TrimSpace shopID"
      using run assms(4) gold(1) level day
      by (auto simp: item then_do_ok assms(1) sn offer shop_price_def Let_def simp flip: sold_def split: if_splits)
    from buy_marks [OF buy(1)] gold(2) buy(2-4) shown(1)
    show "boards t = (boards s)(key \<mapsto> mark_purchased (mo_SlotIndex offer) (mbv_Offers view))" by (simp add: key_def)
  next
    assume "0 < mo_TokenPrice offer"
    then show "\<exists>u req. r_CreateShopBuyPayment (r_shop repo) u req = (t, Inr r)"
      using run assms(4) level day
      by (auto simp: item then_do_ok assms(1) sn offer shop_price_def Let_def simp flip: sold_def split: if_splits)
  qed
qed

end

section \<open>The in-memory repository\<close>

definition board_of :: "store \<Rightarrow> boards" where
  "board_of s = (\<lambda>(ch, k). if TrimSpace k = k then map_option mb_Offers (mysteryShops s (mysteryShopKey ch k)) else None)"

lemma board_of_cong: "mysteryShops s = mysteryShops t \<Longrightarrow> board_of s = board_of t"
  by (auto simp: board_of_def fun_eq_iff)

lemma mysteryShopKey_trim: "mysteryShopKey ch (TrimSpace k) = mysteryShopKey ch k"
  by (simp add: mysteryShopKey_def)

lemma board_of_update:
  assumes "mysteryShops t = (mysteryShops s)(mysteryShopKey ch k := state)"
  shows "board_of t = (board_of s)((ch, TrimSpace k) := map_option mb_Offers state)"
  using assms by (auto simp: board_of_def fun_eq_iff mysteryShopKey_inject mysteryShopKey_trim)

lemma snapshot_boards: "mysteryShops (fst (EconomySnapshot_op s a ch)) = mysteryShops s"
  by (cases rule: EconomySnapshot_cases [of s a ch]) auto

lemma ShopBuyGold_boards:
  assumes "ShopBuyGold s buy = (t, Inr sn)" "0 < sb_MysterySlotIndex buy"
  shows "board_of t = (board_of s)((sb_CharacterID buy, TrimSpace (sb_ShopID buy)) :=
    map_option (mark_purchased (sb_MysterySlotIndex buy)) (board_of s (sb_CharacterID buy, TrimSpace (sb_ShopID buy))))"
proof -
  let ?key = "mysteryShopKey (sb_CharacterID buy) (sb_ShopID buy)"
  define mark where "mark state = state\<lparr>mb_Offers := mark_purchased (sb_MysterySlotIndex buy) (mb_Offers state)\<rparr>" for state :: MysteryShopBoardState
  define s1 where "s1 = (case mysteryShops s ?key of None \<Rightarrow> s | Some state \<Rightarrow> s\<lparr>mysteryShops := (mysteryShops s)(?key \<mapsto> mark state)\<rparr>)"
  have "EconomySnapshot_op s1 (sb_AccountID buy) (sb_CharacterID buy) = (t, Inr sn)"
    using assms unfolding s1_def mark_def by (simp add: ShopBuyGold_def Let_def split: if_splits)
  then have "mysteryShops t = mysteryShops s1" by (metis fst_conv snapshot_boards)
  also have "\<dots> = (mysteryShops s)(?key := map_option mark (mysteryShops s ?key))"
    by (auto simp: s1_def split: option.split)
  finally have "board_of t = (board_of s)((sb_CharacterID buy, TrimSpace (sb_ShopID buy)) := map_option mb_Offers (map_option mark (mysteryShops s ?key)))"
    by (rule board_of_update)
  moreover have "board_of s (sb_CharacterID buy, TrimSpace (sb_ShopID buy)) = map_option mb_Offers (mysteryShops s ?key)"
    by (simp add: board_of_def mysteryShopKey_trim)
  ultimately show ?thesis by (simp add: option.map_comp comp_def mark_def)
qed

interpretation memory_boards: board_repository "memory_repository uc quote vl vw" board_of for uc quote vl vw
proof
  fix s :: store and a ch k start stop
  show "board_of (snd (r_Now (memory_repository uc quote vl vw) s)) = board_of s"
    by (rule board_of_cong) (simp add: memory_repository_def tick_def)
  show "board_of (fst (r_EconomySnapshot (memory_repository uc quote vl vw) s a ch)) = board_of s"
    by (rule board_of_cong) (simp add: memory_repository_def snapshot_boards)
  show "board_of (fst (r_MysteryShopPaidRefreshCount (r_shop (memory_repository uc quote vl vw)) s a ch k start stop)) = board_of s"
    by (simp add: memory_repository_def MysteryShopPaidRefreshCount_def)
  show "board_of (fst (r_MysteryShopBoard (r_shop (memory_repository uc quote vl vw)) s a ch k)) = board_of s"
    by (simp add: memory_repository_def)
next
  fix s a ch k state
  assume "snd (r_MysteryShopBoard (r_shop (memory_repository uc quote vl vw)) s a ch k) = Inr state"
  then have "mysteryShops s (mysteryShopKey ch k) = Some state"
    by (auto simp: memory_repository_def MysteryShopBoard_def split: option.splits if_splits)
  then show "board_of s (ch, TrimSpace k) = Some (mb_Offers state)" by (simp add: board_of_def mysteryShopKey_trim)
next
  fix s a ch u sn k e
  assume "r_EconomySnapshot (memory_repository uc quote vl vw) s a ch = (u, Inr sn)"
    and read: "snd (r_MysteryShopBoard (r_shop (memory_repository uc quote vl vw)) u a ch k) = Inl e"
  then have "\<exists>row. characters u ch = Some row \<and> owns a row"
    by (cases rule: EconomySnapshot_cases [of s a ch]) (auto simp: memory_repository_def)
  with read have "mysteryShops u (mysteryShopKey ch k) = None"
    by (auto simp: memory_repository_def MysteryShopBoard_def split: option.splits)
  then show "board_of u (ch, TrimSpace k) = None" by (simp add: board_of_def mysteryShopKey_trim)
next
  fix s req t state
  assume "r_RefreshMysteryShop (r_shop (memory_repository uc quote vl vw)) s req = (t, Inr state)"
  then have "mysteryShops t = (mysteryShops s)(mysteryShopKey (mr_CharacterID req) (mr_ShopID req) := Some state)"
    "mb_Offers state = mr_Offers req"
    by (auto simp: memory_repository_def RefreshMysteryShop_def Let_def split: option.splits if_splits)
  then show "mb_Offers state = mr_Offers req \<and>
      board_of t = (board_of s)((mr_CharacterID req, TrimSpace (mr_ShopID req)) \<mapsto> mr_Offers req)"
    using board_of_update [of t s "mr_CharacterID req" "mr_ShopID req" "Some state"] by simp
next
  fix s buy t r
  assume buy: "r_ShopBuyGold (r_shop (memory_repository uc quote vl vw)) s buy = (t, Inr r)" "0 < sb_MysterySlotIndex buy"
  obtain sn where "ShopBuyGold s buy = (t, Inr sn)"
    using buy(1) by (cases "ShopBuyGold s buy"; cases "snd (ShopBuyGold s buy)") (auto simp: memory_repository_def)
  from ShopBuyGold_boards [OF this buy(2)]
  show "board_of t = (board_of s)((sb_CharacterID buy, TrimSpace (sb_ShopID buy)) :=
    map_option (mark_purchased (sb_MysterySlotIndex buy)) (board_of s (sb_CharacterID buy, TrimSpace (sb_ShopID buy))))" .
qed

text \<open>Every stored board identifies its offers.\<close>

definition boards_sound :: "boards \<Rightarrow> bool" where
  "boards_sound b \<longleftrightarrow> (\<forall>key offers. b key = Some offers \<longrightarrow> board_sound offers)"

text \<open>
  Property C8. In the mystery shop an offer is sold at most once, over the in-memory repository with a
  loaded configuration. A purchase that succeeds was for an offer with the item and the quantity that
  stood unsold, with a price, on the board: the stored one, or a fresh one when nothing was left of it. Afterwards
  the stored board is that board with this offer marked as sold and every other offer as it was; no
  other board has changed; and again every board identifies its offers by their slots.
\<close>

theorem mystery_offer_sold_once:
  assumes "LoadDir uc quote files dir = Inr c" and "ready sv c" and "es_store sv = memory_repository ucr qr vl vw"
    and "Shop_get c shopID = Some shop" and "shp_Mystery shop = Some m" and "boards_sound (board_of s)"
    and "Service_ShopBuy L sv s opID a ch shopID itemID quantity = (t, Inr r)"
  shows "\<exists>offers offer. offer \<in> set offers \<and> \<not> mo_Purchased offer \<and> TrimSpace (mo_ItemID offer) = TrimSpace itemID \<and>
    mo_Quantity offer = quantity \<and> 0 < mo_GoldPrice offer \<and>
    (board_of s (ch, TrimSpace shopID) = Some offers \<or>
       left_nothing (board_of s (ch, TrimSpace shopID)) \<and> (\<exists>level now. rollMysteryShopOffers (X_rand L) m level ch now = Inr offers)) \<and>
    board_of t = (board_of s)((ch, TrimSpace shopID) \<mapsto>
      map (\<lambda>x. if x = offer then x\<lparr>mo_Purchased := True\<rparr> else x) offers) \<and>
    boards_sound (board_of t)"
proof -
  have keyed: "keyed shp_ShopID trimmed (cfg_Shops c)" "keyed itm_ItemID trimmed (cfg_Items c)"
    using LoadDir_well_keyed [OF assms(1)] by (simp_all add: well_keyed_def)
  have id: "shp_ShopID shop = TrimSpace shopID" using keyed_ok [OF keyed(1)] assms(4) by (auto simp: Shop_get_def)
  have shop: "mystery_shop c shopID = Some (shop, m)" "mystery_shop c (shp_ShopID shop) = Some (shop, m)"
    using assms(4,5) by (simp_all add: mystery_shop_def id Shop_get_def)
  from memory_boards.bought_offer [OF assms(3,2,4,5) shop(2) _ assms(7)] id
  obtain item offers offer where item: "map_of (cfg_Items c) (TrimSpace itemID) = Some item"
    and pick: "pick_offer (itm_ItemID item) quantity offers = Inr offer"
    and origin: "board_of s (ch, TrimSpace shopID) = Some offers \<or>
      left_nothing (board_of s (ch, TrimSpace shopID)) \<and> (\<exists>level now. rollMysteryShopOffers (X_rand L) m level ch now = Inr offers)"
    and gold: "mo_TokenPrice offer \<le> 0 \<Longrightarrow> 0 < mo_SlotIndex offer \<Longrightarrow>
      board_of t = (board_of s)((ch, TrimSpace shopID) \<mapsto> mark_purchased (mo_SlotIndex offer) offers)"
    and token: "0 < mo_TokenPrice offer \<Longrightarrow>
      \<exists>u req. r_CreateShopBuyPayment (r_shop (memory_repository ucr qr vl vw)) u req = (t, Inr r)"
    by (metis TrimSpace_idem)
  have sound: "board_sound offers"
    using origin assms(6) rolled_board_sound [OF LoadDir_valid [OF assms(1)] shop(1)] by (auto simp: boards_sound_def)
  have offer: "offer \<in> set offers" "\<not> mo_Purchased offer" "TrimSpace (mo_ItemID offer) = TrimSpace (itm_ItemID item)"
    "mo_Quantity offer = quantity" "0 < mo_GoldPrice offer \<or> 0 < mo_TokenPrice offer"
    using pick by (auto simp: pick_offer_def find_Some_iff split: option.splits if_splits)
  have "itm_ItemID item = TrimSpace itemID" using keyed_ok [OF keyed(2) item] by simp
  then have "TrimSpace (mo_ItemID offer) = TrimSpace itemID" using offer(3) by simp
  moreover have "\<not> 0 < mo_TokenPrice offer" using token by (auto simp: memory_repository_def postgres_only_def)
  moreover have slot: "0 < mo_SlotIndex offer" "distinct (map mo_SlotIndex offers)"
    using sound offer(1) by (auto simp: board_sound_def slots_sound_def)
  moreover have "boards_sound (board_of t)" if "board_of t = (board_of s)((ch, TrimSpace shopID) \<mapsto> mark_purchased (mo_SlotIndex offer) offers)"
    using assms(6) board_sound_mark [OF sound] by (auto simp: that boards_sound_def)
  ultimately show ?thesis
    using gold offer origin mark_purchased_eq [OF slot(2) offer(1)]
    by (intro exI [of _ offers] exI [of _ offer]) auto
qed

definition sample_offer :: MysteryShopOffer where
  "sample_offer = \<lparr>mo_SlotIndex = 1, mo_ItemID = ''ore'', mo_Quantity = 2, mo_Rarity = 0, mo_GoldPrice = 8, mo_TokenPrice = 0,
     mo_DiscountBps = 8000, mo_Purchased = False\<rparr>"

lemma sample_roll: "0 \<le> level \<Longrightarrow> rollMysteryShopOffers sample_rand small_mystery level ch now = Inr [sample_offer]"
  by (simp add: rollMysteryShopOffers_def small_mystery_def unlockedMysterySlots_def sample_rand_def chooseMysteryPoolEntry_def
      mysteryEntryLevelEligible_def weight_total_def w64_def IntN_def chooseMysteryDiscount_def offer_of_def sample_offer_def
      bpsAmount_up_def sdiv_nonneg Let_def)

lemma sample_next_cost:
  "\<exists>cost t. nextMysteryRefreshTokenCost sample_lib sample_service s m a ch k now = (t, Inr cost) \<and> characters t = characters s \<and>
     mysteryShops t = mysteryShops s"
proof -
  have "r_MysteryShopPaidRefreshCount (r_shop (es_store sample_service)) = MysteryShopPaidRefreshCount"
    by (simp add: sample_service_def NewEconService_def memory_repository_def Let_def)
  then show ?thesis
    by (simp add: nextMysteryRefreshTokenCost_def dayRange_def now_or_clock_def sample_store sample_lib_def day_window_def
        MysteryShopPaidRefreshCount_def tick_def Let_def)
qed

lemma sample_board:
  assumes "characters s 8 = Some row" "owns 7 row" "0 \<le> ch_Level row" "mysteryShops s (mysteryShopKey 8 ''m'') = None"
  shows "\<exists>t view. Service_MysteryShopBoard sample_lib sample_service s 7 8 ''m'' now = (t, Inr view) \<and>
    mbv_Offers view = [sample_offer] \<and> characters t = characters s"
proof -
  obtain now' s0 where s0: "now_or_clock sample_service s now = (now', s0)" "characters s0 = characters s" "mysteryShops s0 = mysteryShops s"
    by (cases "IsZero now") (auto simp: now_or_clock_def sample_store tick_def)
  obtain sn where sn: "EconomySnapshot_op s0 7 8 = (s0\<lparr>tokens := (tokens s0)(7 \<mapsto> token_of s0 7)\<rparr>, Inr sn)" "sn_Level sn = ch_Level row"
    using snapshot_of_owner [of s0 8 row 7] assms(1,2) s0(2) by metis
  define s1 where "s1 = s0\<lparr>tokens := (tokens s0)(7 \<mapsto> token_of s0 7)\<rparr>"
  have mem: "r_MysteryShopBoard (r_shop (es_store sample_service)) = (\<lambda>s a ch k. (s, MysteryShopBoard s a ch k))"
    "r_RefreshMysteryShop (r_shop (es_store sample_service)) = RefreshMysteryShop" "X_rand sample_lib = sample_rand"
    by (simp_all add: sample_service_def NewEconService_def memory_repository_def sample_lib_def Let_def)
  have shop: "mystery_shop small_config ''m'' = Some ((small_shop ''m'')\<lparr>shp_Mystery := Some small_mystery\<rparr>, small_mystery)"
    "shp_ShopID (small_shop ''m'') = ''m''"
    by (simp_all add: mystery_shop_def small_mystery_shop small_shop_def)
  have "MysteryShopBoard s1 7 8 ''m'' = Inl ErrNotFound" using assms s0 by (simp add: MysteryShopBoard_def s1_def)
  moreover have "characters s1 8 = Some row" using assms(1) s0(2) by (simp add: s1_def)
  moreover define state where "state = \<lparr>mb_ShopID = ''m'', mb_CharacterID = 8, mb_NextFreeRefreshAt = now', mb_GeneratedAt = now',
    mb_Offers = [sample_offer]\<rparr>"
  moreover define s2 where "s2 = s1\<lparr>mysteryShops := (mysteryShops s1)(mysteryShopKey 8 ''m'' \<mapsto> state)\<rparr>"
  moreover obtain cost t where cost: "nextMysteryRefreshTokenCost sample_lib sample_service s2 small_mystery 7 8 ''m'' now' = (t, Inr cost)"
    "characters t = characters s2" using sample_next_cost by blast
  ultimately have "Service_MysteryShopBoard sample_lib sample_service s 7 8 ''m'' now =
      (t, Inr (mysteryShopBoardView ((small_shop ''m'')\<lparr>shp_Mystery := Some small_mystery\<rparr>) small_mystery state (sn_Level sn) cost))"
    using sample_roll [of "sn_Level sn"] assms(2,3) sn(2)
    by (simp add: Service_MysteryShopBoard_def with_rules_ready [OF sample_ready] shop s0(1) sample_store sn(1) mem board_stale_def
        RefreshMysteryShop_def Let_def flip: s1_def)
  then show ?thesis using cost(2) s0(2) by (simp add: mysteryShopBoardView_def state_def s2_def s1_def)
qed

lemma sample_mystery_purchase:
  "\<exists>t r. Service_ShopBuy sample_lib sample_service (gatherer minute_clock) ''op'' 7 8 ''m'' ''ore'' 2 = (t, Inr r)"
proof -
  define row where "row = zero_Character\<lparr>ch_ID := 8, ch_AccountID := 7\<rparr>"
  have row: "owns 7 row" "0 \<le> ch_Level row" by (simp_all add: row_def owns_def zero_Character_def)
  define s where "s = gatherer minute_clock"
  have s: "characters s 8 = Some row" "mysteryShops s k = None" for k by (simp_all add: s_def gatherer_def row_def New_def)
  obtain sn where sn: "EconomySnapshot_op s 7 8 = (s\<lparr>tokens := (tokens s)(7 \<mapsto> token_of s 7)\<rparr>, Inr sn)"
    using snapshot_of_owner [OF s(1) row(1)] by blast
  define s1 where "s1 = tick (s\<lparr>tokens := (tokens s)(7 \<mapsto> token_of s 7)\<rparr>)"
  have s1: "characters s1 8 = Some row" "mysteryShops s1 k = None" for k using s by (simp_all add: s1_def tick_def)
  obtain t view where board: "Service_MysteryShopBoard sample_lib sample_service s1 7 8 ''m''
      (time_Now (s\<lparr>tokens := (tokens s)(7 \<mapsto> token_of s 7)\<rparr>)) = (t, Inr view)"
    "mbv_Offers view = [sample_offer]" "characters t = characters s1"
    using sample_board [OF s1(1) row s1(2)] by blast
  have offer: "availableMysteryOffer sample_lib sample_service (s\<lparr>tokens := (tokens s)(7 \<mapsto> token_of s 7)\<rparr>) 7 8 ''m'' ''ore'' 2 =
      (t, Inr sample_offer)"
    using board by (simp add: availableMysteryOffer_def sample_store pick_offer_def sample_offer_def flip: s1_def)
  have shop: "shp_ShopID (small_shop ''m'') = ''m''" "shp_SellItems (small_shop ''m'') = []" by (simp_all add: small_shop_def)
  have day: "shop_day sample_lib sample_service u ((small_shop ''m'')\<lparr>shp_Mystery := Some small_mystery\<rparr>) None = (u, Inr (0, 0, []))" for u
    by (simp add: shop_day_def)
  have bought: "\<exists>u sn. ShopBuyGold t buy = (u, Inr sn) \<and> sn_Equipment sn = []"
    if "sb_AccountID buy = 7" "sb_CharacterID buy = 8" "sb_ShopSlotIndex buy = 0" for buy
  proof -
    define t1 where "t1 = (if sb_MysterySlotIndex buy > 0 then (case mysteryShops t (mysteryShopKey 8 (sb_ShopID buy)) of None \<Rightarrow> t
        | Some state \<Rightarrow> t\<lparr>mysteryShops := (mysteryShops t)(mysteryShopKey 8 (sb_ShopID buy) \<mapsto>
            state\<lparr>mb_Offers := mark_purchased (sb_MysterySlotIndex buy) (mb_Offers state)\<rparr>)\<rparr>) else t)"
    have "characters t1 8 = Some row" using board(3) s1(1) by (simp add: t1_def split: option.split)
    from snapshot_of_owner [OF this row(1)] show ?thesis unfolding t1_def
      using that by (fastforce simp: ShopBuyGold_def Let_def)
  qed
  have paid: "\<exists>u r. then_do (r_ShopBuyGold (r_shop (es_store sample_service)) t buy) (\<lambda>s result.
      then_do (s, resolveSnapshot sample_lib sample_service (sbr_Snapshot result)) (\<lambda>s snapshot.
      (s, Inr (result\<lparr>sbr_Snapshot := snapshot\<rparr>)))) = (u, Inr r)"
    if "sb_AccountID buy = 7" "sb_CharacterID buy = 8" "sb_ShopSlotIndex buy = 0" for buy
  proof -
    from bought [OF that] obtain u sn where sn: "ShopBuyGold t buy = (u, Inr sn)" "sn_Equipment sn = []" by blast
    obtain sn' where "resolveSnapshot sample_lib sample_service sn = Inr sn'" using sample_resolves [OF sn(2)] by blast
    then show ?thesis by (simp add: sample_store sn(1))
  qed
  obtain plan where plan: "MysteryShopPurchasePlan (X_quote sample_lib) (X_rand sample_lib) small_config ''op'' 8 sample_offer = Inr plan"
    by (simp add: MysteryShopPurchasePlan_def ShopPurchasePlan_def sample_shop sample_offer_def Let_def)
  have price: "mo_TokenPrice sample_offer = 0" "mo_GoldPrice sample_offer = 8" by (simp_all add: sample_offer_def)
  show ?thesis
    unfolding Service_ShopBuy_def with_rules_ready [OF sample_ready] small_mystery_shop option.case s_def [symmetric]
    by (simp add: sample_shop SellItem_def shop sample_store(2) sn level_refusal_def offer shop_price_def price day plan Let_def)
      (rule paid; simp)
qed

text \<open>A first purchase fills the board and sells its only offer.\<close>

theorem mystery_offer_sold_once_witness:
  "\<exists>offer. board_of (fst (Service_ShopBuy sample_lib sample_service (gatherer minute_clock) ''op'' 7 8 ''m'' ''ore'' 2)) (8, ''m'') =
     Some [offer\<lparr>mo_Purchased := True\<rparr>] \<and> mo_ItemID offer = ''ore''"
proof -
  obtain t r where buy: "Service_ShopBuy sample_lib sample_service (gatherer minute_clock) ''op'' 7 8 ''m'' ''ore'' 2 = (t, Inr r)"
    using sample_mystery_purchase by blast
  have empty: "board_of (gatherer minute_clock) key = None" for key
    by (simp add: board_of_def gatherer_def New_def split: prod.split)
  have repo: "es_store sample_service = memory_repository (\<lambda>x. x) (\<lambda>x. x) (\<lambda>_. []) (\<lambda>_. [])"
    by (simp add: sample_service_def NewEconService_def Let_def)
  obtain offers offer level now where "offer \<in> set offers" and
    rolled: "rollMysteryShopOffers (X_rand sample_lib) small_mystery level 8 now = Inr offers"
    and board: "board_of t = (board_of (gatherer minute_clock))((8, TrimSpace ''m'') \<mapsto>
      map (\<lambda>x. if x = offer then x\<lparr>mo_Purchased := True\<rparr> else x) offers)"
    using mystery_offer_sold_once [OF small_config_loads sample_ready repo small_mystery_shop(1) _ _ buy] empty
    by (auto simp: boards_sound_def)
  have "0 \<le> level"
  proof (rule ccontr)
    assume "\<not> 0 \<le> level"
    with rolled have "offers = []" by (simp add: rollMysteryShopOffers_def small_mystery_def)
    with \<open>offer \<in> set offers\<close> show False by simp
  qed
  with rolled have "offers = [sample_offer]" using sample_roll by (simp add: sample_lib_def)
  with \<open>offer \<in> set offers\<close> have "board_of t (8, ''m'') = Some [sample_offer\<lparr>mo_Purchased := True\<rparr>]" by (simp add: board)
  then show ?thesis unfolding buy by (intro exI [of _ sample_offer]) (simp add: sample_offer_def)
qed

end
