(* ===== verification/Database.thy ===== *)
theory Database
  imports TokenSpend EconomyRepository MysteryShop
begin

text \<open>
  The SQL repository (\<open>PostgresStore\<close>, \<open>src/internal/platform/store/postgres.go\<close>): its tables, the
  statements the operations use, transactions, and the idempotent execution of an action.

  A table is the list of its rows, or a map where the key is all that is looked up; columns that no
  modelled statement reads are left out. The statements are those of the source: a query filters
  rows, an update maps them and counts the matching ones, an insert appends a row with the next number
  of the table's sequence. A statement that would break a unique index, a check or the range of a
  column fails (\<open>inventory_ok\<close>, \<open>equipment_ok\<close> and the like); foreign keys are not modelled. JSON
  columns keep the value itself. An operation is one transaction: it sees the tables as they are, \<open>NOW()\<close> is
  the time it began, and an error leaves the tables as they were, but for the sequences. Transactions
  follow one another, since each locks the rows it decides on; failures of the connection are outside
  the model. An error that wraps another is that other error.
\<close>

section \<open>Requests and results of the marketplace\<close>

record MarketplaceListRequest =
  mlq_OpID :: string
  mlq_AccountID :: int
  mlq_CharacterID :: int
  mlq_AssetType :: string
  mlq_EquipmentUID :: string
  mlq_SourceLocation :: string
  mlq_SlotIndex :: int
  mlq_Quantity :: int
  mlq_PriceToken :: int
  mlq_Rules :: MarketplaceRules

record MarketplaceBuyRequest =
  mbq_OpID :: string
  mbq_AccountID :: int
  mbq_CharacterID :: int
  mbq_ListingID :: int
  mbq_Rules :: MarketplaceRules

record MarketplaceCancelRequest =
  mcq_OpID :: string
  mcq_AccountID :: int
  mcq_ListingID :: int
  mcq_Rules :: MarketplaceRules

record MarketplaceExpandSlotsRequest =
  meq_OpID :: string
  meq_AccountID :: int
  meq_CharacterID :: int
  meq_Rules :: MarketplaceRules

record MarketplaceSubmitPaymentRequest =
  msq_OpID :: string
  msq_AccountID :: int
  msq_OrderID :: string
  msq_TxSignature :: string

record MarketplaceListing =
  ml_ID :: int
  ml_SellerAccountID :: int
  ml_SellerCharacterID :: int
  ml_AssetType :: string
  ml_AssetID :: int
  ml_ItemID :: string
  ml_Quantity :: int
  ml_PriceToken :: int
  ml_ListingDepositToken :: int
  ml_FeeBps :: int
  ml_Status :: string
  ml_CreatedAt :: time
  ml_UpdatedAt :: time
  ml_CancelledAt :: "time option"
  ml_SoldAt :: "time option"

record MarketplaceOrder =
  mor_ID :: string
  mor_ListingID :: int
  mor_BuyerAccountID :: int
  mor_BuyerCharacterID :: int
  mor_AmountToken :: int
  mor_FeeToken :: int
  mor_BurnToken :: int
  mor_TreasuryToken :: int
  mor_RewardsToken :: int
  mor_SellerProceedsToken :: int
  mor_DepositReturnedToken :: int
  mor_SpendSource :: string
  mor_Status :: string
  mor_CreatedAt :: time
  mor_CompletedAt :: "time option"

record MarketplaceListResult =
  mlr_Listing :: MarketplaceListing
  mlr_Snapshot :: EconomySnapshot

record MarketplaceBuyResult =
  mbr_Listing :: MarketplaceListing
  mbr_Order :: MarketplaceOrder
  mbr_Snapshot :: EconomySnapshot

record MarketplaceExpandResult =
  mer_Slots :: MarketplaceSlots
  mer_Snapshot :: EconomySnapshot

record MarketplaceExpandWalletResult =
  mwr_Order :: PaymentOrder
  mwr_Slots :: MarketplaceSlots

text \<open>
  What a call sends as its request and gets as its response, for the idempotency table. The
  result of a cancellation has the fields of the result of a listing.
\<close>

datatype db_request =
    ReqAction EconomyActionRequest
  | ReqLoot LootActionRequest
  | ReqDiscard InventoryDiscardRequest
  | ReqEnhance EquipmentEnhanceRequest
  | ReqRecycle EquipmentNPCRecycleRequest
  | ReqRepair EquipmentRepairRequest
  | ReqShopBuy ShopBuyRequest
  | ReqShopSell ShopSellRequest
  | ReqRefresh MysteryShopRefreshRequest
  | ReqMarketList MarketplaceListRequest
  | ReqMarketBuy MarketplaceBuyRequest
  | ReqMarketCancel MarketplaceCancelRequest
  | ReqMarketExpand MarketplaceExpandSlotsRequest
  | ReqMarketSubmit MarketplaceSubmitPaymentRequest
  | ReqGrowth GrowthPaymentRequest

datatype db_response =
    RespSnapshot EconomySnapshot
  | RespEnhance EquipmentEnhanceResult
  | RespRecycle EquipmentNPCRecycleResult
  | RespRepair EquipmentRepairResult
  | RespShopBuy ShopBuyResult
  | RespBoard MysteryShopBoardState
  | RespMarketList MarketplaceListResult
  | RespMarketBuy MarketplaceBuyResult
  | RespMarketExpand MarketplaceExpandResult
  | RespMarketWallet MarketplaceExpandWalletResult
  | RespOrder PaymentOrder
  | RespGrowth GrowthPaymentResult

section \<open>Tables\<close>

record character_row =
  cr_account_id :: int
  cr_is_deleted :: bool
  cr_level :: int
  cr_exp :: int
  cr_highest_cleared_chapter :: int
  cr_highest_cleared_floor :: int
  cr_bag_expand_count :: int

record wallet_row =
  wl_gold :: int
  wl_gems :: int
  wl_stamina :: int

record catalog_row =
  ic_category :: string
  ic_rarity :: int
  ic_stackable :: bool
  ic_tradable :: bool

record inventory_row =
  iv_id :: int
  iv_character_id :: int
  iv_item_id :: string
  iv_quantity :: int
  iv_location :: string
  iv_slot :: "int option"
  iv_bind_type :: string

record equipment_row =
  ew_id :: int
  ew_equipment_uid :: string
  ew_account_id :: int
  ew_character_id :: "int option"
  ew_item_id :: string
  ew_location :: string
  ew_slot :: "int option"
  ew_equip_slot :: "int option"
  ew_rarity :: int
  ew_enhance_level :: int
  ew_durability :: "int option"
  ew_max_durability :: "int option"
  ew_affixes :: "EquipmentAffix list"
  ew_bind_type :: string
  ew_npc_recycle_expires_at :: "time option"

record nft_row =
  na_source_asset_type :: string
  na_source_asset_id :: int
  na_status :: string
  na_mint_address :: "string option"

record loot_row =
  lt_id :: int
  lt_account_id :: int
  lt_character_id :: int
  lt_item_type :: string
  lt_item_id :: "string option"
  lt_equipment_id :: "int option"
  lt_quantity :: int
  lt_status :: string
  lt_created_at :: time

record restriction_row =
  mx_account_id :: int
  mx_restriction_type :: string
  mx_expires_at :: "time option"
  mx_revoked_at :: "time option"

datatype payload =
    NoPayload
  | SlotsPayload int string
  | OpPayload string
  | ShopPayload ShopBuyRequest

record payment_row = PaymentOrder +
  pw_payload :: payload

record consumption_row =
  sc_op_id :: string
  sc_account_id :: int
  sc_character_id :: int
  sc_spend_source :: string
  sc_purpose :: string
  sc_amount_token :: int
  sc_burn_amount :: int
  sc_recycle_amount :: int
  sc_reward_pool_amount :: int

record ledger_row =
  lg_account_id :: int
  lg_character_id :: int
  lg_kind :: string
  lg_amount :: int
  lg_ref_id :: string
  lg_reason :: string
  lg_created_at :: time

record board_row =
  br_account_id :: int
  br_state :: MysteryShopBoardState

record idempotency_row =
  ik_scope :: string
  ik_account_id :: int
  ik_character_id :: int
  ik_request_hash :: string
  ik_response :: db_response

text \<open>
  \<open>db_seq\<close> holds the last number of each sequence and the number of UUIDs generated. \<open>db_clock\<close> is the clock
  of the program, \<open>db_NOW\<close> that of the database; \<open>db_ticks\<close> counts the readings of both.
\<close>

record db =
  db_accounts :: "int \<rightharpoonup> bool"
  db_characters :: "int \<rightharpoonup> character_row"
  db_wallets :: "int \<rightharpoonup> wallet_row"
  db_catalog :: "string \<rightharpoonup> catalog_row"
  db_inventory :: "inventory_row list"
  db_equipment :: "equipment_row list"
  db_nfts :: "nft_row list"
  db_loot :: "loot_row list"
  db_tokens :: token_tables
  db_listings :: "(string \<times> MarketplaceListing) list"
  db_orders :: "(string \<times> MarketplaceOrder) list"
  db_market_slots :: "int \<rightharpoonup> int \<times> int"
  db_restrictions :: "restriction_row list"
  db_payments :: "payment_row list"
  db_boards :: "int \<times> string \<rightharpoonup> board_row"
  db_daily :: "int \<times> string \<times> int \<times> string \<rightharpoonup> int \<times> int"
  db_consumptions :: "consumption_row list"
  db_ledger :: "ledger_row list"
  db_idempotency :: "string \<rightharpoonup> idempotency_row"
  db_seq :: "string \<Rightarrow> int"
  db_uuid :: "int \<Rightarrow> string"
  db_clock :: "nat \<Rightarrow> time"
  db_NOW :: "nat \<Rightarrow> time"
  db_ticks :: nat
  db_txnow :: time

type_synonym 'a tx = "db \<times> 'a result"

text \<open>
  What the repository takes from elsewhere: the SHA-256 hash of an encoded request, case mapping, the
  time zone database, and the order of text columns (the collation of the database) in the one query
  that sorts by one.
\<close>

record pg =
  pg_hash :: "db_request \<Rightarrow> string"
  pg_case :: "string \<Rightarrow> string"
  pg_zone :: "string \<Rightarrow> location result"
  pg_order :: "equipment_row list \<Rightarrow> equipment_row list"

section \<open>Statements\<close>

definition refused :: err where
  "refused = ErrMsg ''the statement breaks a constraint''"

definition modify :: "('r \<Rightarrow> bool) \<Rightarrow> ('r \<Rightarrow> 'r) \<Rightarrow> 'r list \<Rightarrow> 'r list" where
  "modify P f rows = map (\<lambda>r. if P r then f r else r) rows"

definition db_now :: "db \<Rightarrow> time \<times> db" where
  "db_now s = (db_clock s (db_ticks s), s\<lparr>db_ticks := Suc (db_ticks s)\<rparr>)"

definition nextval :: "string \<Rightarrow> db \<Rightarrow> int \<times> db" where
  "nextval table s = (db_seq s table + 1, s\<lparr>db_seq := (db_seq s)(table := db_seq s table + 1)\<rparr>)"

text \<open>The unique indexes on slots, the checks on quantities and bind types, and the ranges of the columns.\<close>

definition int4 :: "int option \<Rightarrow> bool" where
  "int4 n \<longleftrightarrow> (case n of None \<Rightarrow> True | Some k \<Rightarrow> - (2 ^ 31) \<le> k \<and> k < 2 ^ 31)"

definition stack_ok :: "inventory_row \<Rightarrow> bool" where
  "stack_ok r \<longleftrightarrow> 0 < iv_quantity r \<and> iv_quantity r < 2 ^ 63 \<and> int4 (iv_slot r) \<and>
     iv_bind_type r \<in> {''BOUND'', ''ACCOUNT_BOUND'', ''UNBOUND''}"

definition in_slot :: "inventory_row \<Rightarrow> bool" where
  "in_slot r \<longleftrightarrow> iv_slot r \<noteq> None \<and> iv_location r \<in> {''BAG'', ''WAREHOUSE'', ''LOOT_TRAY''}"

definition inventory_ok :: "inventory_row list \<Rightarrow> bool" where
  "inventory_ok rows \<longleftrightarrow> distinct (map iv_id rows) \<and> (\<forall>r \<in> set rows. stack_ok r) \<and>
     distinct (map (\<lambda>r. (iv_character_id r, iv_location r, iv_slot r)) (filter in_slot rows))"

definition stored :: "equipment_row \<Rightarrow> bool" where
  "stored r \<longleftrightarrow> ew_character_id r \<noteq> None \<and> ew_slot r \<noteq> None \<and> ew_location r \<in> {''IN_BAG'', ''IN_WAREHOUSE''}"

definition worn :: "equipment_row \<Rightarrow> bool" where
  "worn r \<longleftrightarrow> ew_character_id r \<noteq> None \<and> ew_equip_slot r \<noteq> None \<and> ew_location r = ''EQUIPPED''"

definition equipment_ok :: "equipment_row list \<Rightarrow> bool" where
  "equipment_ok rows \<longleftrightarrow> distinct (map ew_id rows) \<and> distinct (map ew_equipment_uid rows) \<and>
     (\<forall>r \<in> set rows. int4 (ew_slot r) \<and> int4 (ew_equip_slot r)) \<and>
     distinct (map (\<lambda>r. (ew_character_id r, ew_location r, ew_slot r)) (filter stored rows)) \<and>
     distinct (map (\<lambda>r. (ew_character_id r, ew_equip_slot r)) (filter worn rows))"

definition put_inventory :: "db \<Rightarrow> inventory_row list \<Rightarrow> unit tx" where
  "put_inventory s rows =
     (if inventory_ok rows then (s\<lparr>db_inventory := rows\<rparr>, Inr ()) else (s, Inl refused))"

definition put_equipment :: "db \<Rightarrow> equipment_row list \<Rightarrow> unit tx" where
  "put_equipment s rows =
     (if equipment_ok rows then (s\<lparr>db_equipment := rows\<rparr>, Inr ()) else (s, Inl refused))"

text \<open>An \<open>UPDATE\<close> with its \<open>WHERE\<close> clause; the result is the number of rows affected.\<close>

definition update_inventory :: "db \<Rightarrow> (inventory_row \<Rightarrow> bool) \<Rightarrow> (inventory_row \<Rightarrow> inventory_row) \<Rightarrow> nat tx" where
  "update_inventory s P f =
     then_do (put_inventory s (modify P f (db_inventory s))) (\<lambda>s1 _. (s1, Inr (length (filter P (db_inventory s)))))"

definition update_equipment :: "db \<Rightarrow> (equipment_row \<Rightarrow> bool) \<Rightarrow> (equipment_row \<Rightarrow> equipment_row) \<Rightarrow> nat tx" where
  "update_equipment s P f =
     then_do (put_equipment s (modify P f (db_equipment s))) (\<lambda>s1 _. (s1, Inr (length (filter P (db_equipment s)))))"

text \<open>\<open>if tag.RowsAffected() == 0\<close>.\<close>

definition or_fail :: "nat tx \<Rightarrow> err \<Rightarrow> unit tx" where
  "or_fail p e = then_do p (\<lambda>s n. (s, if n = 0 then Inl e else Inr ()))"

text \<open>\<open>INSERT INTO inventory_items ... RETURNING id\<close>.\<close>

definition insert_inventory :: "db \<Rightarrow> int \<Rightarrow> string \<Rightarrow> int \<Rightarrow> string \<Rightarrow> int option \<Rightarrow> string \<Rightarrow> int tx" where
  "insert_inventory s characterID itemID quantity location slot bindType =
     (let (n, s1) = nextval ''inventory_items'' s in
      then_do (put_inventory s1 (db_inventory s1 @
        [\<lparr>iv_id = n, iv_character_id = characterID, iv_item_id = itemID, iv_quantity = quantity,
          iv_location = location, iv_slot = slot, iv_bind_type = bindType\<rparr>])) (\<lambda>s _. (s, Inr n)))"

definition insert_equipment ::
  "db \<Rightarrow> string \<Rightarrow> int \<Rightarrow> int \<Rightarrow> string \<Rightarrow> string \<Rightarrow> int option \<Rightarrow> int \<Rightarrow> EquipmentAffix list \<Rightarrow> int tx" where
  "insert_equipment s uid accountID characterID itemID location slot rarity affixes =
     (let (n, s1) = nextval ''equipment_items'' s in
      then_do (put_equipment s1 (db_equipment s1 @
        [\<lparr>ew_id = n, ew_equipment_uid = uid, ew_account_id = accountID, ew_character_id = Some characterID,
          ew_item_id = itemID, ew_location = location, ew_slot = slot, ew_equip_slot = None, ew_rarity = rarity,
          ew_enhance_level = 0, ew_durability = Some 100, ew_max_durability = Some 100, ew_affixes = affixes,
          ew_bind_type = ''BOUND'', ew_npc_recycle_expires_at = None\<rparr>])) (\<lambda>s _. (s, Inr n)))"

text \<open>\<open>INSERT INTO character_wallets ... ON CONFLICT DO NOTHING\<close>, and the balance row alike.\<close>

definition wallet_in :: "(int \<rightharpoonup> wallet_row) \<Rightarrow> int \<Rightarrow> wallet_row" where
  "wallet_in m c = (case m c of None \<Rightarrow> \<lparr>wl_gold = 0, wl_gems = 0, wl_stamina = 0\<rparr> | Some row \<Rightarrow> row)"

definition ensure_wallet :: "int \<Rightarrow> db \<Rightarrow> db" where
  "ensure_wallet c s = s\<lparr>db_wallets := (db_wallets s)(c \<mapsto> wallet_in (db_wallets s) c)\<rparr>"

definition ensure_token :: "int \<Rightarrow> db \<Rightarrow> db" where
  "ensure_token a s = s\<lparr>db_tokens := (db_tokens s)\<lparr>account_tokens :=
     (account_tokens (db_tokens s))(a \<mapsto> token_in (account_tokens (db_tokens s)) a)\<rparr>\<rparr>"

text \<open>\<open>UPDATE character_wallets SET gold = gold - $2 WHERE character_id = $1 AND gold >= $2\<close>.\<close>

definition debit_gold :: "db \<Rightarrow> int \<Rightarrow> int \<Rightarrow> unit tx" where
  "debit_gold s characterID amount =
     (case db_wallets s characterID of
        None \<Rightarrow> (s, Inl ErrInsufficientBalance)
      | Some row \<Rightarrow>
          if wl_gold row < amount then (s, Inl ErrInsufficientBalance)
          else (s\<lparr>db_wallets := (db_wallets s)(characterID \<mapsto> row\<lparr>wl_gold := wl_gold row - amount\<rparr>)\<rparr>, Inr ()))"

text \<open>\<open>UPDATE character_wallets SET gold = gold + $2\<close>: the number of rows, or an overflow of the column.\<close>

definition credit_gold :: "db \<Rightarrow> int \<Rightarrow> int \<Rightarrow> nat tx" where
  "credit_gold s characterID amount =
     (case db_wallets s characterID of
        None \<Rightarrow> (s, Inr 0)
      | Some row \<Rightarrow>
          if wl_gold row + amount \<ge> 2 ^ 63 then (s, Inl refused)
          else (s\<lparr>db_wallets := (db_wallets s)(characterID \<mapsto> row\<lparr>wl_gold := wl_gold row + amount\<rparr>)\<rparr>, Inr 1))"

section \<open>Shared steps of the operations\<close>

definition lockCharacter :: "db \<Rightarrow> int \<Rightarrow> int \<Rightarrow> unit tx" where
  "lockCharacter s accountID characterID =
     (s, case db_characters s characterID of
           None \<Rightarrow> Inl ErrNotFound
         | Some row \<Rightarrow> if cr_account_id row = accountID \<and> \<not> cr_is_deleted row then Inr () else Inl ErrNotFound)"

definition insertEconomyLedger :: "db \<Rightarrow> int \<Rightarrow> int \<Rightarrow> string \<Rightarrow> string \<Rightarrow> int \<Rightarrow> string \<Rightarrow> unit tx" where
  "insertEconomyLedger s accountID characterID kind ref amount opID =
     (s\<lparr>db_ledger := db_ledger s @ [\<lparr>lg_account_id = accountID, lg_character_id = characterID, lg_kind = kind,
        lg_amount = amount, lg_ref_id = ref, lg_reason = opID, lg_created_at = db_txnow s\<rparr>]\<rparr>, Inr ())"

definition equipmentStorageLocation :: "string \<Rightarrow> string result" where
  "equipmentStorageLocation location =
     (if location = ''BAG'' then Inr ''IN_BAG''
      else if location = ''WAREHOUSE'' then Inr ''IN_WAREHOUSE''
      else Inl (ErrMsg ''unsupported storage location''))"

definition storageSlotFree :: "db \<Rightarrow> int \<Rightarrow> string \<Rightarrow> int \<Rightarrow> bool result" where
  "storageSlotFree s characterID location slot =
     (case equipmentStorageLocation location of
        Inl e \<Rightarrow> Inl e
      | Inr equipmentLocation \<Rightarrow>
          Inr (length (filter (\<lambda>r. iv_character_id r = characterID \<and> iv_location r = location \<and> iv_slot r = Some slot)
                 (db_inventory s)) +
               length (filter (\<lambda>r. ew_character_id r = Some characterID \<and> ew_location r = equipmentLocation \<and>
                 ew_slot r = Some slot) (db_equipment s)) = 0))"

text \<open>The loop over the slots from 0 to 999; \<open>n\<close> counts those left.\<close>

fun first_free :: "db \<Rightarrow> int \<Rightarrow> string \<Rightarrow> nat \<Rightarrow> int \<Rightarrow> int result" where
  "first_free s characterID location n slot =
     (if n = 0 then Inl (ErrMsg ''no available slot'')
      else case storageSlotFree s characterID location slot of
             Inl e \<Rightarrow> Inl e
           | Inr free \<Rightarrow> if free then Inr slot else first_free s characterID location (n - 1) (slot + 1))"

declare first_free.simps [simp del]

definition resolveStorageSlot :: "db \<Rightarrow> int \<Rightarrow> string \<Rightarrow> int \<Rightarrow> int result" where
  "resolveStorageSlot s characterID location requested =
     (if requested \<ge> 0
      then case storageSlotFree s characterID location requested of
             Inl e \<Rightarrow> Inl e
           | Inr free \<Rightarrow> if free then Inr requested else Inl (ErrMsg ''target slot is occupied'')
      else first_free s characterID location 1000 0)"

definition insertSystemConsumption ::
  "db \<Rightarrow> string \<Rightarrow> int \<Rightarrow> int \<Rightarrow> TokenSpendBreakdown \<Rightarrow> string \<Rightarrow> int \<Rightarrow> int \<Rightarrow> int \<Rightarrow> int \<Rightarrow> unit tx" where
  "insertSystemConsumption s opID accountID characterID spend purpose amount burn recycle rewards =
     (if opID \<in> sc_op_id ` set (db_consumptions s) \<or> amount \<le> 0 \<or> burn < 0 \<or> recycle < 0 \<or> rewards < 0
      then (s, Inl refused)
      else (s\<lparr>db_consumptions := db_consumptions s @ [\<lparr>sc_op_id = opID, sc_account_id = accountID,
        sc_character_id = characterID, sc_spend_source = ts_SpendSource spend, sc_purpose = purpose,
        sc_amount_token = amount, sc_burn_amount = burn, sc_recycle_amount = recycle,
        sc_reward_pool_amount = rewards\<rparr>]\<rparr>, Inr ()))"

definition spendToken :: "db \<Rightarrow> int \<Rightarrow> int \<Rightarrow> TokenSpendBreakdown tx" where
  "spendToken s accountID amount =
     (case spendTokenInTx (db_txnow s) (db_tokens s) accountID amount of
        Inl e \<Rightarrow> (s, Inl e)
      | Inr (t, spend) \<Rightarrow> (s\<lparr>db_tokens := t\<rparr>, Inr spend))"

definition grantLockedTokenInTxAt :: "db \<Rightarrow> int \<Rightarrow> int \<Rightarrow> time \<Rightarrow> unit tx" where
  "grantLockedTokenInTxAt s accountID amount unlockAt =
     (if amount \<le> 0 then (s, Inr ())
      else
        let s1 = ensure_token accountID s; (n, s2) = nextval ''locked_token_records'' s1;
            t = db_tokens s2; row = token_in (account_tokens t) accountID in
        (s2\<lparr>db_tokens := t\<lparr>
           locked_token_records := locked_token_records t @ [\<lparr>lr_id = n, lr_account_id = accountID,
             lr_remaining_amount = amount, lr_status = ''LOCKED'', lr_unlock_at = unlockAt, lr_settled_at = None\<rparr>],
           account_tokens := (account_tokens t)(accountID \<mapsto> row\<lparr>
             tok_TokenBalance := tok_TokenBalance row + amount,
             tok_LockedBalance := tok_LockedBalance row + amount\<rparr>)\<rparr>\<rparr>, Inr ()))"

definition grantLockedTokenInTx :: "db \<Rightarrow> int \<Rightarrow> int \<Rightarrow> unit tx" where
  "grantLockedTokenInTx s accountID amount =
     (let (now, s1) = db_now s in grantLockedTokenInTxAt s1 accountID amount (now + 74 * hour_nanos))"

definition dayRangeInLocation :: "pg \<Rightarrow> time \<Rightarrow> string \<Rightarrow> (time \<times> time) result" where
  "dayRangeInLocation G now tzName =
     (case pg_zone G (if tzName = [] then ''Asia/Shanghai'' else tzName) of
        Inl e \<Rightarrow> Inl e | Inr loc \<Rightarrow> Inr (day_window loc now))"

section \<open>The snapshot of a character\<close>

definition by_slot :: "('r \<Rightarrow> int option) \<Rightarrow> ('r \<Rightarrow> int) \<Rightarrow> 'r list \<Rightarrow> 'r list" where
  "by_slot slot key rows =
     sort_key (\<lambda>r. if slot r = None then 1 else (0 :: int))
       (sort_key (\<lambda>r. case slot r of None \<Rightarrow> 0 | Some n \<Rightarrow> n) (sort_key key rows))"

definition coalesce :: "'a \<Rightarrow> 'a option \<Rightarrow> 'a" where
  "coalesce d x = (case x of None \<Rightarrow> d | Some y \<Rightarrow> y)"

definition item_of :: "inventory_row \<Rightarrow> InventoryItem" where
  "item_of r = \<lparr>it_ID = iv_id r, it_ItemID = iv_item_id r, it_Quantity = iv_quantity r,
     it_Slot = coalesce (- 1) (iv_slot r), it_Durability = 0, it_EnhanceLevel = 0\<rparr>"

definition items_in :: "db \<Rightarrow> int \<Rightarrow> string \<Rightarrow> InventoryItem list" where
  "items_in s characterID location = map item_of (by_slot iv_slot iv_id
     (filter (\<lambda>r. iv_character_id r = characterID \<and> iv_location r = location) (db_inventory s)))"

definition pending_loot :: "db \<Rightarrow> int \<Rightarrow> loot_row list" where
  "pending_loot s characterID = sort_key lt_created_at (sort_key lt_id
     (filter (\<lambda>r. lt_character_id r = characterID \<and> lt_status r = ''PENDING'') (db_loot s)))"

definition loot_item :: "loot_row \<Rightarrow> InventoryItem" where
  "loot_item r = \<lparr>it_ID = lt_id r, it_ItemID = coalesce [] (lt_item_id r), it_Quantity = lt_quantity r,
     it_Slot = - 1, it_Durability = 0, it_EnhanceLevel = 0\<rparr>"

definition minting :: "db \<Rightarrow> int \<Rightarrow> nft_row list" where
  "minting s equipmentID = filter (\<lambda>n. na_source_asset_type n = ''EQUIPMENT'' \<and> na_source_asset_id n = equipmentID \<and>
     na_status n \<in> {''MINT_REQUESTED'', ''MINTED''}) (db_nfts s)"

definition equipment_item_of :: "equipment_row \<Rightarrow> string \<Rightarrow> EquipmentItem" where
  "equipment_item_of r nftContract =
     \<lparr>eq_ID = ew_id r, eq_EquipmentUID = ew_equipment_uid r, eq_ItemID = ew_item_id r, eq_Rarity = ew_rarity r,
      eq_EnhanceLevel = ew_enhance_level r, eq_Durability = coalesce 0 (ew_durability r),
      eq_MaxDurability = coalesce 0 (ew_max_durability r), eq_Status = ew_location r,
      eq_EquipSlot = coalesce (- 1) (ew_equip_slot r), eq_Slot = coalesce (- 1) (ew_slot r), eq_WeaponType = 0,
      eq_WeaponTypeKey = [], eq_NFTContract = (if nftContract = [] then None else Some nftContract),
      eq_NFTTokenID = None, eq_NFTStatus = None, eq_Affixes = ew_affixes r, eq_ResolvedBaseFlat = Map.empty,
      eq_ResolvedBasePercent = Map.empty, eq_ResolvedFlatStats = Map.empty, eq_ResolvedPercentStats = Map.empty,
      eq_FinalBonuses = Map.empty\<rparr>"

definition shown_equipment :: "pg \<Rightarrow> db \<Rightarrow> int \<Rightarrow> EquipmentItem list" where
  "shown_equipment G s characterID =
     concat (map (\<lambda>r. if minting s (ew_id r) = [] then [equipment_item_of r []]
         else map (\<lambda>n. equipment_item_of r (coalesce [] (na_mint_address n))) (minting s (ew_id r)))
       (pg_order G (filter (\<lambda>r. ew_character_id r = Some characterID \<and> ew_location r \<notin>
         {''CONSUMED'', ''DELETED'', ''BURNED'', ''LISTED'', ''MARKET_CLAIM_PENDING'', ''NPC_RECYCLED''}) (db_equipment s))))"

definition zero_GrowthPaymentRules :: GrowthPaymentRules where
  "zero_GrowthPaymentRules = \<lparr>gp_DepositReceiverWallet = [], gp_BagSlots = 0, gp_BagExpandSlots = 0,
     gp_BagExpandMaxTimes = 0, gp_BagExpandPriceToken = 0, gp_BagExpandPaymentTimeoutSec = 0,
     gp_TradingLicensePriceToken = 0, gp_TradingLicensePaymentTimeoutSec = 0\<rparr>"

definition economySnapshot :: "pg \<Rightarrow> db \<Rightarrow> int \<Rightarrow> int \<Rightarrow> EconomySnapshot tx" where
  "economySnapshot G s accountID characterID =
     (case db_characters s characterID of
        None \<Rightarrow> (s, Inl ErrNotFound)
      | Some c \<Rightarrow>
          if cr_account_id c \<noteq> accountID \<or> cr_is_deleted c then (s, Inl ErrNotFound)
          else case db_accounts s accountID of
            None \<Rightarrow> (s, Inl ErrNotFound)
          | Some license \<Rightarrow>
              let w = wallet_in (db_wallets s) characterID; s1 = ensure_token accountID s in
              (s1, Inr \<lparr>sn_AccountID = accountID, sn_CharacterID = characterID, sn_Gold = wl_gold w, sn_Gems = wl_gems w,
                sn_Stamina = wl_stamina w,
                sn_BagSlots = GrowthPaymentRules_EffectiveBagSlots (GrowthPaymentRules_withDefaults zero_GrowthPaymentRules)
                  (cr_bag_expand_count c),
                sn_BagExpandCount = cr_bag_expand_count c, sn_HasLicense = license, sn_Level = cr_level c,
                sn_Exp = cr_exp c, sn_ExpToNextLevel = 0, sn_HighestClearedChapterID = cr_highest_cleared_chapter c,
                sn_HighestClearedFloorID = cr_highest_cleared_floor c,
                sn_AccountToken = token_in (account_tokens (db_tokens s1)) accountID,
                sn_Inventory = items_in s1 characterID ''BAG'', sn_Warehouse = items_in s1 characterID ''WAREHOUSE'',
                sn_LootTray = map loot_item (pending_loot s1 characterID),
                sn_Equipment = shown_equipment G s1 characterID\<rparr>))"

section \<open>Transactions and idempotent actions\<close>

definition begin_tx :: "db \<Rightarrow> db" where
  "begin_tx s = s\<lparr>db_txnow := db_NOW s (db_ticks s), db_ticks := Suc (db_ticks s)\<rparr>"

definition rollback :: "db \<Rightarrow> db \<Rightarrow> db" where
  "rollback before s = before\<lparr>db_seq := db_seq s, db_ticks := db_ticks s, db_txnow := db_txnow s\<rparr>"

text \<open>
  The response column is JSON; the model keeps the response with its type, which the scope determines:
  \<open>wrap\<close> and \<open>unwrap\<close> are the encoding and decoding of one result type.
\<close>

definition runIdempotentAction ::
  "pg \<Rightarrow> ('a \<Rightarrow> db_response) \<Rightarrow> (db_response \<Rightarrow> 'a option) \<Rightarrow> string \<Rightarrow> string \<Rightarrow> int \<Rightarrow> int \<Rightarrow> db_request \<Rightarrow>
   (db \<Rightarrow> 'a tx) \<Rightarrow> db \<Rightarrow> 'a tx" where
  "runIdempotentAction G wrap unwrap scope opID0 accountID characterID request run s =
     (let opID = TrimSpace opID0; requestHash = pg_hash G request in
      if opID = [] then (s, Inl (ErrMsg ''opId is required''))
      else
        let s0 = begin_tx s in
        case db_idempotency s0 opID of
          Some row \<Rightarrow>
            if ik_scope row \<noteq> scope then (rollback s s0, Inl (ErrMsg ''opId already used for another operation''))
            else if ik_account_id row \<noteq> accountID \<or> ik_character_id row \<noteq> characterID
            then (rollback s s0, Inl (ErrMsg ''opId already belongs to another account or character''))
            else if ik_request_hash row \<noteq> [] \<and> ik_request_hash row \<noteq> requestHash
            then (rollback s s0, Inl (ErrMsg ''opId already used with different request parameters''))
            else (case unwrap (ik_response row) of
                    None \<Rightarrow> (rollback s s0, Inl (ErrMsg ''json: cannot unmarshal''))
                  | Some result \<Rightarrow> (s0, Inr result))
        | None \<Rightarrow>
            case run s0 of
              (s1, Inl e) \<Rightarrow> (rollback s s1, Inl e)
            | (s1, Inr result) \<Rightarrow>
                (s1\<lparr>db_idempotency := (db_idempotency s1)(opID \<mapsto> \<lparr>ik_scope = scope, ik_account_id = accountID,
                   ik_character_id = characterID, ik_request_hash = requestHash, ik_response = wrap result\<rparr>)\<rparr>,
                 Inr result))"

definition snapshot_of :: "db_response \<Rightarrow> EconomySnapshot option" where
  "snapshot_of r = (case r of RespSnapshot x \<Rightarrow> Some x | _ \<Rightarrow> None)"

definition runEconomyAction ::
  "pg \<Rightarrow> string \<Rightarrow> EconomyActionRequest \<Rightarrow> (db \<Rightarrow> unit tx) \<Rightarrow> db \<Rightarrow> EconomySnapshot tx" where
  "runEconomyAction G scope req mutate =
     runIdempotentAction G RespSnapshot snapshot_of scope (eac_OpID req) (eac_AccountID req) (eac_CharacterID req)
       (ReqAction req)
       (\<lambda>s. then_do (mutate s) (\<lambda>s _. economySnapshot G s (eac_AccountID req) (eac_CharacterID req)))"

end
