(* ===== verification/ItemStore.thy ===== *)
theory ItemStore
  imports Database
begin

text \<open>
  Items and equipment in the SQL repository: warehouse, equipping, the loot tray, rewards into the bag
  (\<open>postgres.go\<close>), discarding, organising and consuming items (\<open>inventory.go\<close>). The functions with the
  prefix \<open>Pg_\<close> are the operations of \<open>PostgresStore\<close>; the others are the steps they share.
\<close>

section \<open>Warehouse\<close>

definition row_at :: "int \<Rightarrow> string \<Rightarrow> int \<Rightarrow> inventory_row \<Rightarrow> bool" where
  "row_at characterID location slot r \<longleftrightarrow>
     iv_character_id r = characterID \<and> iv_location r = location \<and> iv_slot r = Some slot"

definition moveInventory :: "db \<Rightarrow> EconomyActionRequest \<Rightarrow> string \<Rightarrow> string \<Rightarrow> string \<Rightarrow> unit tx" where
  "moveInventory s req fromLocation toLocation ledgerKind =
     (if eac_SlotIndex req < 0 then (s, Inl (ErrMsg ''slotIndex is required''))
      else if eac_Quantity req \<le> 0 then (s, Inl (ErrMsg ''quantity must be positive''))
      else case List.find (row_at (eac_CharacterID req) fromLocation (eac_SlotIndex req)) (db_inventory s) of
        None \<Rightarrow> (s, Inl ErrNotFound)
      | Some row \<Rightarrow>
          if eac_Quantity req > iv_quantity row then (s, Inl ErrInsufficientBalance)
          else
            then_do (s, resolveStorageSlot s (eac_CharacterID req) toLocation (- 1)) (\<lambda>s targetSlot.
            then_do (if eac_Quantity req = iv_quantity row
              then update_inventory s (\<lambda>r. iv_id r = iv_id row)
                (\<lambda>r. r\<lparr>iv_location := toLocation, iv_slot := Some targetSlot\<rparr>)
              else
                then_do (update_inventory s (\<lambda>r. iv_id r = iv_id row)
                  (\<lambda>r. r\<lparr>iv_quantity := iv_quantity r - eac_Quantity req\<rparr>)) (\<lambda>s n.
                then_do (insert_inventory s (eac_CharacterID req) (iv_item_id row) (eac_Quantity req) toLocation
                  (Some targetSlot) ''BOUND'') (\<lambda>s _. (s, Inr n)))) (\<lambda>s _.
            insertEconomyLedger s (eac_AccountID req) (eac_CharacterID req) ledgerKind (iv_item_id row)
              (eac_Quantity req) (eac_OpID req))))"

definition owned_at :: "int \<Rightarrow> int \<Rightarrow> string \<Rightarrow> string \<Rightarrow> equipment_row \<Rightarrow> bool" where
  "owned_at accountID characterID uid location r \<longleftrightarrow> ew_account_id r = accountID \<and>
     ew_character_id r = Some characterID \<and> ew_equipment_uid r = uid \<and> ew_location r = location"

definition Pg_WarehouseDeposit :: "pg \<Rightarrow> EconomyActionRequest \<Rightarrow> db \<Rightarrow> EconomySnapshot tx" where
  "Pg_WarehouseDeposit G req = runEconomyAction G ''warehouse_deposit'' req (\<lambda>s.
     then_do (lockCharacter s (eac_AccountID req) (eac_CharacterID req)) (\<lambda>s _.
     if TrimSpace (eac_EquipmentUID req) \<noteq> []
     then
       then_do (s, resolveStorageSlot s (eac_CharacterID req) ''WAREHOUSE'' (eac_SlotIndex req)) (\<lambda>s targetSlot.
       then_do (or_fail (update_equipment s
         (owned_at (eac_AccountID req) (eac_CharacterID req) (TrimSpace (eac_EquipmentUID req)) ''IN_BAG'')
         (\<lambda>r. r\<lparr>ew_location := ''IN_WAREHOUSE'', ew_slot := Some targetSlot\<rparr>)) ErrForbidden) (\<lambda>s _.
       insertEconomyLedger s (eac_AccountID req) (eac_CharacterID req) ''EQUIPMENT_WAREHOUSE_DEPOSIT'' ''equipment'' 1
         (eac_OpID req)))
     else moveInventory s req ''BAG'' ''WAREHOUSE'' ''INVENTORY_WAREHOUSE_DEPOSIT''))"

definition Pg_WarehouseWithdraw :: "pg \<Rightarrow> EconomyActionRequest \<Rightarrow> db \<Rightarrow> EconomySnapshot tx" where
  "Pg_WarehouseWithdraw G req = runEconomyAction G ''warehouse_withdraw'' req (\<lambda>s.
     then_do (lockCharacter s (eac_AccountID req) (eac_CharacterID req)) (\<lambda>s _.
     if TrimSpace (eac_EquipmentUID req) \<noteq> []
     then
       then_do (s, resolveStorageSlot s (eac_CharacterID req) ''BAG'' (eac_SlotIndex req)) (\<lambda>s targetSlot.
       then_do (or_fail (update_equipment s
         (owned_at (eac_AccountID req) (eac_CharacterID req) (TrimSpace (eac_EquipmentUID req)) ''IN_WAREHOUSE'')
         (\<lambda>r. r\<lparr>ew_location := ''IN_BAG'', ew_slot := Some targetSlot\<rparr>)) ErrForbidden) (\<lambda>s _.
       insertEconomyLedger s (eac_AccountID req) (eac_CharacterID req) ''EQUIPMENT_WAREHOUSE_WITHDRAW'' ''equipment'' 1
         (eac_OpID req)))
     else moveInventory s req ''WAREHOUSE'' ''BAG'' ''INVENTORY_WAREHOUSE_WITHDRAW''))"

section \<open>Equipping\<close>

fun put_back :: "db \<Rightarrow> int \<Rightarrow> int list \<Rightarrow> unit tx" where
  "put_back s characterID [] = (s, Inr ())"
| "put_back s characterID (n # ns) =
     then_do (s, resolveStorageSlot s characterID ''BAG'' (- 1)) (\<lambda>s targetSlot.
     then_do (update_equipment s (\<lambda>r. ew_id r = n)
       (\<lambda>r. r\<lparr>ew_location := ''IN_BAG'', ew_slot := Some targetSlot\<rparr>)) (\<lambda>s _.
     put_back s characterID ns))"

definition Pg_EquipItem :: "pg \<Rightarrow> EconomyActionRequest \<Rightarrow> db \<Rightarrow> EconomySnapshot tx" where
  "Pg_EquipItem G req = runEconomyAction G ''equipment_equip'' req (\<lambda>s.
     then_do (lockCharacter s (eac_AccountID req) (eac_CharacterID req)) (\<lambda>s _.
     let uid = TrimSpace (eac_EquipmentUID req) in
     if uid = [] then (s, Inl (ErrMsg ''equipmentUid is required''))
     else case List.find (owned_at (eac_AccountID req) (eac_CharacterID req) uid ''IN_BAG'') (db_equipment s) of
       None \<Rightarrow> (s, Inl ErrForbidden)
     | Some row \<Rightarrow>
         if coalesce 0 (ew_max_durability row) > 0 \<and> coalesce 0 (ew_durability row) \<le> 0
         then (s, Inl (ErrMsg ''equipment is broken and must be repaired''))
         else
           let targetEquipSlot = (if eac_EquipSlot req < 0 then coalesce (- 1) (ew_equip_slot row) else eac_EquipSlot req) in
           if targetEquipSlot < 0 then (s, Inl (ErrMsg ''equipSlot is required''))
           else
             then_do (put_back s (eac_CharacterID req) (map ew_id (filter (\<lambda>r. ew_character_id r = Some (eac_CharacterID req) \<and>
               ew_location r = ''EQUIPPED'' \<and> ew_equip_slot r = Some targetEquipSlot) (db_equipment s)))) (\<lambda>s _.
             then_do (or_fail (update_equipment s (\<lambda>r. ew_id r = ew_id row \<and> ew_character_id r = Some (eac_CharacterID req))
               (\<lambda>r. r\<lparr>ew_location := ''EQUIPPED'', ew_slot := None, ew_equip_slot := Some targetEquipSlot\<rparr>)) ErrForbidden) (\<lambda>s _.
             insertEconomyLedger s (eac_AccountID req) (eac_CharacterID req) ''EQUIPMENT_EQUIPPED'' ''equipment'' 1
               (eac_OpID req)))))"

definition Pg_UnequipItem :: "pg \<Rightarrow> EconomyActionRequest \<Rightarrow> db \<Rightarrow> EconomySnapshot tx" where
  "Pg_UnequipItem G req = runEconomyAction G ''equipment_unequip'' req (\<lambda>s.
     then_do (lockCharacter s (eac_AccountID req) (eac_CharacterID req)) (\<lambda>s _.
     then_do (s, resolveStorageSlot s (eac_CharacterID req) ''BAG'' (eac_SlotIndex req)) (\<lambda>s targetSlot.
     let uid = TrimSpace (eac_EquipmentUID req) in
     if uid = [] \<and> eac_EquipSlot req < 0 then (s, Inl (ErrMsg ''equipmentUid or equipSlot is required''))
     else
       then_do (or_fail (update_equipment s
         (if uid \<noteq> [] then owned_at (eac_AccountID req) (eac_CharacterID req) uid ''EQUIPPED''
          else (\<lambda>r. ew_account_id r = eac_AccountID req \<and> ew_character_id r = Some (eac_CharacterID req) \<and>
            ew_equip_slot r = Some (eac_EquipSlot req) \<and> ew_location r = ''EQUIPPED''))
         (\<lambda>r. r\<lparr>ew_location := ''IN_BAG'', ew_slot := Some targetSlot\<rparr>)) ErrForbidden) (\<lambda>s _.
       insertEconomyLedger s (eac_AccountID req) (eac_CharacterID req) ''EQUIPMENT_UNEQUIPPED'' ''equipment'' 1
         (eac_OpID req)))))"

section \<open>Adding and consuming items\<close>

definition ensureItemCatalog :: "db \<Rightarrow> string \<Rightarrow> string \<Rightarrow> int \<Rightarrow> bool \<Rightarrow> unit tx" where
  "ensureItemCatalog s itemID0 category rarity stackable =
     (let itemID = TrimSpace itemID0 in
      if itemID = [] then (s, Inl (ErrMsg ''reward itemId is required''))
      else if db_catalog s itemID \<noteq> None then (s, Inr ())
      else (s\<lparr>db_catalog := (db_catalog s)(itemID \<mapsto> \<lparr>ic_category = (if category = [] then ''misc'' else category),
        ic_rarity = rarity, ic_stackable = stackable, ic_tradable = False\<rparr>)\<rparr>, Inr ()))"

text \<open>The row a stackable item is added to: the first bound one by slot.\<close>

definition stack_row :: "db \<Rightarrow> int \<Rightarrow> string \<Rightarrow> string \<Rightarrow> inventory_row option" where
  "stack_row s characterID location itemID =
     (case by_slot iv_slot iv_id (filter (\<lambda>r. iv_character_id r = characterID \<and> iv_location r = location \<and>
             iv_item_id r = itemID \<and> iv_bind_type r = ''BOUND'') (db_inventory s)) of
        [] \<Rightarrow> None | row # _ \<Rightarrow> Some row)"

definition addInventoryItemToStorage :: "db \<Rightarrow> int \<Rightarrow> string \<Rightarrow> string \<Rightarrow> int \<Rightarrow> InventoryItem tx" where
  "addInventoryItemToStorage s characterID location0 itemID0 quantity =
     (let location = TrimSpace location0; itemID = TrimSpace itemID0 in
      if itemID = [] then (s, Inl (ErrMsg ''itemId is required''))
      else if quantity \<le> 0 then (s, Inl (ErrMsg ''quantity must be positive''))
      else
        let stackable = (case db_catalog s itemID of None \<Rightarrow> False | Some row \<Rightarrow> ic_stackable row) in
        case (if stackable then stack_row s characterID location itemID else None) of
          Some row \<Rightarrow>
            then_do (update_inventory s (\<lambda>r. iv_id r = iv_id row) (\<lambda>r. r\<lparr>iv_quantity := iv_quantity r + quantity\<rparr>)) (\<lambda>s _.
            (s, Inr (item_of (row\<lparr>iv_quantity := quantity\<rparr>))))
        | None \<Rightarrow>
            then_do (s, resolveStorageSlot s characterID location (- 1)) (\<lambda>s targetSlot.
            then_do (insert_inventory s characterID itemID quantity location (Some targetSlot) ''BOUND'') (\<lambda>s n.
            (s, Inr \<lparr>it_ID = n, it_ItemID = itemID, it_Quantity = quantity, it_Slot = targetSlot,
               it_Durability = 0, it_EnhanceLevel = 0\<rparr>))))"

fun consume_stacks :: "db \<Rightarrow> int \<Rightarrow> inventory_row list \<Rightarrow> int tx" where
  "consume_stacks s remaining [] = (s, Inr remaining)"
| "consume_stacks s remaining (row # rows) =
     (if remaining \<le> 0 then (s, Inr remaining)
      else
        let use = (if iv_quantity row > remaining then remaining else iv_quantity row) in
        then_do (if use = iv_quantity row
          then update_inventory s (\<lambda>r. iv_id r = iv_id row) (\<lambda>r. r\<lparr>iv_location := ''CONSUMED'', iv_slot := None\<rparr>)
          else update_inventory s (\<lambda>r. iv_id r = iv_id row) (\<lambda>r. r\<lparr>iv_quantity := iv_quantity r - use\<rparr>)) (\<lambda>s _.
        consume_stacks s (remaining - use) rows))"

definition consumeBagItem :: "db \<Rightarrow> int \<Rightarrow> string \<Rightarrow> int \<Rightarrow> unit tx" where
  "consumeBagItem s characterID itemID quantity =
     (if quantity \<le> 0 then (s, Inl (ErrMsg ''quantity must be positive''))
      else
        then_do (consume_stacks s quantity (by_slot iv_slot iv_id (filter (\<lambda>r. iv_character_id r = characterID \<and>
          iv_location r = ''BAG'' \<and> iv_item_id r = itemID) (db_inventory s)))) (\<lambda>s remaining.
        (s, if remaining > 0 then Inl ErrInsufficientBalance else Inr ())))"

section \<open>Rewards into the bag\<close>

definition reward_uid :: "string \<Rightarrow> string \<Rightarrow> DungeonRewardGrant \<Rightarrow> string" where
  "reward_uid source opID reward =
     (if TrimSpace (rg_EquipmentUID reward) = [] then source @ ''-'' @ TrimSpace opID @ ''-'' @ rg_ItemID reward
      else TrimSpace (rg_EquipmentUID reward))"

definition bag_equipment :: "db \<Rightarrow> int \<Rightarrow> int \<Rightarrow> string \<Rightarrow> string \<Rightarrow> DungeonRewardGrant \<Rightarrow> EquipmentItem tx" where
  "bag_equipment s accountID characterID opID source reward =
     then_do (s, resolveStorageSlot s characterID ''BAG'' (- 1)) (\<lambda>s targetSlot.
     then_do (insert_equipment s (reward_uid source opID reward) accountID characterID (rg_ItemID reward) ''IN_BAG''
       (Some targetSlot) (rg_Rarity reward) (rg_Affixes reward)) (\<lambda>s n.
     (s, Inr \<lparr>eq_ID = n, eq_EquipmentUID = reward_uid source opID reward, eq_ItemID = rg_ItemID reward,
        eq_Rarity = rg_Rarity reward, eq_EnhanceLevel = 0, eq_Durability = 0, eq_MaxDurability = 0, eq_Status = ''IN_BAG'',
        eq_EquipSlot = - 1, eq_Slot = targetSlot, eq_WeaponType = 0, eq_WeaponTypeKey = [], eq_NFTContract = None,
        eq_NFTTokenID = None, eq_NFTStatus = None, eq_Affixes = rg_Affixes reward, eq_ResolvedBaseFlat = Map.empty,
        eq_ResolvedBasePercent = Map.empty, eq_ResolvedFlatStats = Map.empty, eq_ResolvedPercentStats = Map.empty,
        eq_FinalBonuses = Map.empty\<rparr>)))"

fun bag_rewards ::
  "pg \<Rightarrow> db \<Rightarrow> int \<Rightarrow> int \<Rightarrow> string \<Rightarrow> string \<Rightarrow> DungeonRewardGrant list \<Rightarrow> DungeonRewards \<Rightarrow> DungeonRewards tx" where
  "bag_rewards G s accountID characterID opID source [] out = (s, Inr out)"
| "bag_rewards G s accountID characterID opID source (reward # rewards) out =
     (let kind = ToLower (pg_case G) (TrimSpace (rg_RewardType reward));
          category = (if TrimSpace (rg_Category reward) = [] then kind else TrimSpace (rg_Category reward)) in
      if rg_Quantity reward \<le> 0 then bag_rewards G s accountID characterID opID source rewards out
      else if kind = ''equipment''
      then
        then_do (ensureItemCatalog s (rg_ItemID reward) category (rg_Rarity reward) False) (\<lambda>s _.
        then_do (bag_equipment s accountID characterID opID source reward) (\<lambda>s item.
        bag_rewards G s accountID characterID opID source rewards
          (out\<lparr>rw_EquipmentItems := rw_EquipmentItems out @ [item]\<rparr>)))
      else
        then_do (ensureItemCatalog s (rg_ItemID reward) category (rg_Rarity reward) True) (\<lambda>s _.
        then_do (addInventoryItemToStorage s characterID ''BAG'' (rg_ItemID reward) (rg_Quantity reward)) (\<lambda>s item.
        bag_rewards G s accountID characterID opID source rewards (out\<lparr>rw_Items := rw_Items out @ [item]\<rparr>))))"

definition applyRewardsToBag ::
  "pg \<Rightarrow> db \<Rightarrow> int \<Rightarrow> int \<Rightarrow> string \<Rightarrow> string \<Rightarrow> DungeonRewardPlan \<Rightarrow> DungeonRewards tx" where
  "applyRewardsToBag G s accountID characterID opID source plan =
     then_do (bag_rewards G s accountID characterID opID source (rp_Items plan) (zero_rewards (FormatInt (rp_TokenReward plan))))
       (\<lambda>s out.
     then_do (if rp_TokenReward plan > 0 then grantLockedTokenInTx s accountID (rp_TokenReward plan) else (s, Inr ())) (\<lambda>s _.
     (s, Inr out)))"

section \<open>The loot tray\<close>

definition resolveLootID :: "db \<Rightarrow> LootActionRequest \<Rightarrow> int result" where
  "resolveLootID s req =
     (if lac_LootID req > 0 then Inr (lac_LootID req)
      else if lac_SlotIndex req < 0 then Inl (ErrMsg ''lootId or slotIndex is required'')
      else case drop (nat (lac_SlotIndex req)) (filter (\<lambda>r. lt_account_id r = lac_AccountID req)
                  (pending_loot s (lac_CharacterID req))) of
             [] \<Rightarrow> Inl ErrNotFound | row # _ \<Rightarrow> Inr (lt_id row))"

definition pending_row :: "LootActionRequest \<Rightarrow> int \<Rightarrow> loot_row \<Rightarrow> bool" where
  "pending_row req lootID r \<longleftrightarrow> lt_id r = lootID \<and> lt_account_id r = lac_AccountID req \<and>
     lt_character_id r = lac_CharacterID req \<and> lt_status r = ''PENDING''"

definition claimLootRow :: "pg \<Rightarrow> db \<Rightarrow> LootActionRequest \<Rightarrow> int \<Rightarrow> unit tx" where
  "claimLootRow G s req lootID =
     (case List.find (pending_row req lootID) (db_loot s) of
        None \<Rightarrow> (s, Inl ErrNotFound)
      | Some row \<Rightarrow>
          if ToUpper (pg_case G) (TrimSpace (lt_item_type row)) = ''EQUIPMENT''
          then (case lt_equipment_id row of
              None \<Rightarrow> (s, Inl (ErrMsg ''loot equipment_id is required''))
            | Some equipmentID \<Rightarrow>
                then_do (s, resolveStorageSlot s (lac_CharacterID req) ''BAG'' (- 1)) (\<lambda>s targetSlot.
                then_do (or_fail (update_equipment s (\<lambda>r. ew_id r = equipmentID \<and> ew_account_id r = lac_AccountID req \<and>
                  ew_character_id r = Some (lac_CharacterID req) \<and> ew_location r = ''IN_LOOT_TRAY'')
                  (\<lambda>r. r\<lparr>ew_location := ''IN_BAG'', ew_slot := Some targetSlot\<rparr>)) ErrForbidden) (\<lambda>s _.
                insertEconomyLedger (s\<lparr>db_loot := modify (\<lambda>r. lt_id r = lootID) (\<lambda>r. r\<lparr>lt_status := ''CLAIMED''\<rparr>) (db_loot s)\<rparr>)
                  (lac_AccountID req) (lac_CharacterID req) ''LOOT_CLAIMED'' (FormatInt lootID) 1 (lac_OpID req))))
          else if TrimSpace (coalesce [] (lt_item_id row)) = [] then (s, Inl (ErrMsg ''loot item_id is required''))
          else
            let quantity = (if lac_Quantity req \<le> 0 then lt_quantity row else lac_Quantity req) in
            if quantity \<le> 0 \<or> quantity > lt_quantity row then (s, Inl ErrInsufficientBalance)
            else
              then_do (addInventoryItemToStorage s (lac_CharacterID req) ''BAG'' (coalesce [] (lt_item_id row)) quantity) (\<lambda>s _.
              insertEconomyLedger (s\<lparr>db_loot := modify (\<lambda>r. lt_id r = lootID)
                  (\<lambda>r. if quantity = lt_quantity row then r\<lparr>lt_status := ''CLAIMED''\<rparr>
                    else r\<lparr>lt_quantity := lt_quantity r - quantity\<rparr>) (db_loot s)\<rparr>)
                (lac_AccountID req) (lac_CharacterID req) ''LOOT_CLAIMED'' (FormatInt lootID) quantity (lac_OpID req)))"

definition run_loot :: "pg \<Rightarrow> string \<Rightarrow> LootActionRequest \<Rightarrow> (db \<Rightarrow> unit tx) \<Rightarrow> db \<Rightarrow> EconomySnapshot tx" where
  "run_loot G scope req run =
     runIdempotentAction G RespSnapshot snapshot_of scope (lac_OpID req) (lac_AccountID req) (lac_CharacterID req) (ReqLoot req)
       (\<lambda>s. then_do (lockCharacter s (lac_AccountID req) (lac_CharacterID req)) (\<lambda>s _.
         then_do (run s) (\<lambda>s _. economySnapshot G s (lac_AccountID req) (lac_CharacterID req))))"

definition Pg_LootClaim :: "pg \<Rightarrow> LootActionRequest \<Rightarrow> db \<Rightarrow> EconomySnapshot tx" where
  "Pg_LootClaim G req = run_loot G ''loot_claim'' req (\<lambda>s.
     then_do (s, resolveLootID s req) (\<lambda>s lootID. claimLootRow G s req lootID))"

fun claim_all :: "pg \<Rightarrow> db \<Rightarrow> LootActionRequest \<Rightarrow> int list \<Rightarrow> unit tx" where
  "claim_all G s req [] = (s, Inr ())"
| "claim_all G s req (n # ns) =
     then_do (claimLootRow G s (req\<lparr>lac_Quantity := 0, lac_SlotIndex := - 1\<rparr>) n) (\<lambda>s _. claim_all G s req ns)"

definition Pg_LootClaimAll :: "pg \<Rightarrow> LootActionRequest \<Rightarrow> db \<Rightarrow> EconomySnapshot tx" where
  "Pg_LootClaimAll G req = run_loot G ''loot_claim_all'' req (\<lambda>s.
     claim_all G s req (map lt_id (filter (\<lambda>r. lt_account_id r = lac_AccountID req) (pending_loot s (lac_CharacterID req)))))"

definition Pg_LootDiscard :: "pg \<Rightarrow> LootActionRequest \<Rightarrow> db \<Rightarrow> EconomySnapshot tx" where
  "Pg_LootDiscard G req = run_loot G ''loot_discard'' req (\<lambda>s.
     then_do (s, resolveLootID s req) (\<lambda>s lootID.
     case List.find (pending_row req lootID) (db_loot s) of
       None \<Rightarrow> (s, Inl ErrNotFound)
     | Some row \<Rightarrow>
         then_do (case lt_equipment_id row of
             None \<Rightarrow> (s, Inr 0)
           | Some equipmentID \<Rightarrow> update_equipment s (\<lambda>r. ew_id r = equipmentID \<and> ew_account_id r = lac_AccountID req \<and>
               ew_character_id r = Some (lac_CharacterID req) \<and> ew_location r = ''IN_LOOT_TRAY'')
               (\<lambda>r. r\<lparr>ew_location := ''DELETED''\<rparr>)) (\<lambda>s _.
         insertEconomyLedger (s\<lparr>db_loot := modify (pending_row req lootID) (\<lambda>r. r\<lparr>lt_status := ''DISCARDED''\<rparr>) (db_loot s)\<rparr>)
           (lac_AccountID req) (lac_CharacterID req) ''LOOT_DISCARDED'' (FormatInt lootID) 1 (lac_OpID req))))"

section \<open>Discarding\<close>

definition Pg_InventoryDiscard :: "pg \<Rightarrow> InventoryDiscardRequest \<Rightarrow> db \<Rightarrow> EconomySnapshot tx" where
  "Pg_InventoryDiscard G req =
     runIdempotentAction G RespSnapshot snapshot_of ''inventory_discard'' (idr_OpID req) (idr_AccountID req)
       (idr_CharacterID req) (ReqDiscard req) (\<lambda>s.
     then_do (lockCharacter s (idr_AccountID req) (idr_CharacterID req)) (\<lambda>s _.
     let uid = TrimSpace (idr_EquipmentUID req) in
     if uid \<noteq> []
     then
       then_do (or_fail (update_equipment s (owned_at (idr_AccountID req) (idr_CharacterID req) uid ''IN_BAG'')
         (\<lambda>r. r\<lparr>ew_location := ''DELETED'', ew_slot := None\<rparr>)) ErrForbidden) (\<lambda>s _.
       then_do (insertEconomyLedger s (idr_AccountID req) (idr_CharacterID req) ''INVENTORY_DISCARDED'' uid 1 (idr_OpID req))
         (\<lambda>s _. economySnapshot G s (idr_AccountID req) (idr_CharacterID req)))
     else if idr_SlotIndex req < 0 then (s, Inl (ErrMsg ''slotIndex or equipmentUid is required''))
     else case List.find (row_at (idr_CharacterID req) ''BAG'' (idr_SlotIndex req)) (db_inventory s) of
       None \<Rightarrow> (s, Inl ErrNotFound)
     | Some row \<Rightarrow>
         let quantity = (if idr_Quantity req \<le> 0 then iv_quantity row else idr_Quantity req) in
         if quantity \<le> 0 \<or> quantity > iv_quantity row then (s, Inl ErrInsufficientBalance)
         else
           then_do (if quantity = iv_quantity row
             then update_inventory s (\<lambda>r. iv_id r = iv_id row) (\<lambda>r. r\<lparr>iv_location := ''DELETED'', iv_slot := None\<rparr>)
             else update_inventory s (\<lambda>r. iv_id r = iv_id row) (\<lambda>r. r\<lparr>iv_quantity := iv_quantity r - quantity\<rparr>)) (\<lambda>s _.
           then_do (insertEconomyLedger s (idr_AccountID req) (idr_CharacterID req) ''INVENTORY_DISCARDED'' (iv_item_id row)
             quantity (idr_OpID req)) (\<lambda>s _.
           economySnapshot G s (idr_AccountID req) (idr_CharacterID req)))))"

section \<open>Organising\<close>

record mergedStack =
  ms_ItemID :: string
  ms_BindType :: string
  ms_Quantity :: int

fun splitPair :: "string \<Rightarrow> string \<times> string" where
  "splitPair [] = ([], ''BOUND'')"
| "splitPair (c # cs) =
     (if c = CHR ''|'' then ([], cs)
      else if CHR ''|'' \<in> set cs then (c # fst (splitPair cs), snd (splitPair cs)) else (c # cs, ''BOUND''))"

definition add_group :: "(string \<times> int) list \<Rightarrow> inventory_row \<Rightarrow> (string \<times> int) list" where
  "add_group groups row =
     (let key = iv_item_id row @ ''|'' @ iv_bind_type row
      in AList.update key (w64 (coalesce 0 (map_of groups key) + iv_quantity row)) groups)"

function split_stack :: "int \<Rightarrow> int \<Rightarrow> int list" where
  "split_stack maxStack remaining =
     (if remaining \<le> 0 \<or> maxStack \<le> 0 then []
      else let qty = (if remaining > maxStack then maxStack else remaining)
           in qty # split_stack maxStack (remaining - qty))"
  by pat_completeness auto
termination by (relation "measure (\<lambda>(m, n). nat n)") auto

declare split_stack.simps [simp del]

definition merge_group :: "db \<Rightarrow> string \<times> int \<Rightarrow> mergedStack list" where
  "merge_group s g =
     (let (key, total) = g; (itemID, bindType) = splitPair key;
          maxStack = (case db_catalog s itemID of None \<Rightarrow> 999 | Some row \<Rightarrow> if ic_stackable row then 999 else 1)
      in map (\<lambda>qty. \<lparr>ms_ItemID = itemID, ms_BindType = bindType, ms_Quantity = qty\<rparr>) (split_stack maxStack total))"

fun insert_stacks :: "db \<Rightarrow> int \<Rightarrow> string \<Rightarrow> int \<Rightarrow> mergedStack list \<Rightarrow> unit tx" where
  "insert_stacks s characterID location slot [] = (s, Inr ())"
| "insert_stacks s characterID location slot (stack # stacks) =
     then_do (insert_inventory s characterID (ms_ItemID stack) (ms_Quantity stack) location (Some slot) (ms_BindType stack)) (\<lambda>s _.
     insert_stacks s characterID location (slot + 1) stacks)"

fun clear_slots :: "db \<Rightarrow> int list \<Rightarrow> unit tx" where
  "clear_slots s [] = (s, Inr ())"
| "clear_slots s (n # ns) =
     then_do (update_equipment s (\<lambda>r. ew_id r = n) (\<lambda>r. r\<lparr>ew_slot := None\<rparr>)) (\<lambda>s _. clear_slots s ns)"

fun number_slots :: "db \<Rightarrow> int \<Rightarrow> int list \<Rightarrow> unit tx" where
  "number_slots s slot [] = (s, Inr ())"
| "number_slots s slot (n # ns) =
     then_do (update_equipment s (\<lambda>r. ew_id r = n) (\<lambda>r. r\<lparr>ew_slot := Some slot\<rparr>)) (\<lambda>s _. number_slots s (slot + 1) ns)"

text \<open>
  The stacks come from a Go map and are sorted by \<open>sort.Slice\<close>, which need not be stable: \<open>arrange\<close> stands
  for the order that results.
\<close>

definition organizeStorage ::
  "pg \<Rightarrow> (mergedStack list \<Rightarrow> mergedStack list) \<Rightarrow> db \<Rightarrow> int \<Rightarrow> int \<Rightarrow> string \<Rightarrow> int \<Rightarrow> string \<Rightarrow> unit tx" where
  "organizeStorage G arrange s accountID characterID location slotLimit opID =
     then_do (s, equipmentStorageLocation location) (\<lambda>s equipmentLocation.
     let here = (\<lambda>r. iv_character_id r = characterID \<and> iv_location r = location);
         rows = sort_key iv_id (filter here (db_inventory s));
         equipmentIDs = sort (map ew_id (filter (\<lambda>r. ew_character_id r = Some characterID \<and>
           ew_location r = equipmentLocation) (db_equipment s)));
         merged = arrange (concat (map (merge_group s) (foldl add_group [] rows)));
         needed = int (length merged) + int (length equipmentIDs) in
     if needed > slotLimit
     then (s, Inl (ErrMsg (ToLower (pg_case G) location @ '' does not have enough slots after organize: need '' @
       FormatInt needed @ '', have '' @ FormatInt slotLimit)))
     else
       then_do (put_inventory s (filter (\<lambda>r. \<not> here r) (db_inventory s))) (\<lambda>s _.
       then_do (insert_stacks s characterID location 0 merged) (\<lambda>s _.
       then_do (clear_slots s equipmentIDs) (\<lambda>s _.
       then_do (number_slots s (int (length merged)) equipmentIDs) (\<lambda>s _.
       insertEconomyLedger s accountID characterID
         (if location = ''WAREHOUSE'' then ''WAREHOUSE_ORGANIZED'' else ''INVENTORY_ORGANIZED'') location needed opID)))))"

definition Pg_InventoryOrganize ::
  "pg \<Rightarrow> (mergedStack list \<Rightarrow> mergedStack list) \<Rightarrow> EconomyActionRequest \<Rightarrow> int \<Rightarrow> db \<Rightarrow> EconomySnapshot tx" where
  "Pg_InventoryOrganize G arrange req bagSlots = runEconomyAction G ''inventory_organize'' req (\<lambda>s.
     then_do (lockCharacter s (eac_AccountID req) (eac_CharacterID req)) (\<lambda>s _.
     organizeStorage G arrange s (eac_AccountID req) (eac_CharacterID req) ''BAG'' (if bagSlots \<le> 0 then 25 else bagSlots)
       (eac_OpID req)))"

definition Pg_WarehouseOrganize ::
  "pg \<Rightarrow> (mergedStack list \<Rightarrow> mergedStack list) \<Rightarrow> EconomyActionRequest \<Rightarrow> int \<Rightarrow> db \<Rightarrow> EconomySnapshot tx" where
  "Pg_WarehouseOrganize G arrange req warehouseSlots = runEconomyAction G ''warehouse_organize'' req (\<lambda>s.
     then_do (lockCharacter s (eac_AccountID req) (eac_CharacterID req)) (\<lambda>s _.
     organizeStorage G arrange s (eac_AccountID req) (eac_CharacterID req) ''WAREHOUSE''
       (if warehouseSlots \<le> 0 then 50 else warehouseSlots) (eac_OpID req)))"

end
