(* ===== verification/MarketStore.thy ===== *)
theory MarketStore
  imports ItemStore
begin

text \<open>
  The marketplace of the SQL repository (\<open>marketplace.go\<close>): listing an item or a piece of equipment,
  buying and cancelling a listing, the limits on all three, and the slots for listings, which are expanded
  with an item or with a payment (\<open>growth_payments.go\<close> has the payments of the same kind).
\<close>

section \<open>Guards\<close>

definition assertHasTradingLicense :: "db \<Rightarrow> int \<Rightarrow> unit result" where
  "assertHasTradingLicense s accountID =
     (case db_accounts s accountID of
        None \<Rightarrow> Inl (ErrMsg ''no rows in result set'')
      | Some has \<Rightarrow> if has then Inr () else Inl (ErrMsg ''trading license required''))"

definition assertMarketNotRestricted :: "db \<Rightarrow> int \<Rightarrow> string \<Rightarrow> unit result" where
  "assertMarketNotRestricted s accountID action =
     (if list_ex (\<lambda>r. mx_account_id r = accountID \<and> mx_revoked_at r = None \<and>
           (case mx_expires_at r of None \<Rightarrow> True | Some e \<Rightarrow> e > db_txnow s) \<and>
           mx_restriction_type r \<in> {action, ''ALL''}) (db_restrictions s)
      then Inl (ErrMsg ''account marketplace access is restricted'') else Inr ())"

definition count_created :: "(MarketplaceListing \<Rightarrow> bool) \<Rightarrow> db \<Rightarrow> int" where
  "count_created P s = int (length (filter (P \<circ> snd) (db_listings s)))"

definition within_day :: "time \<times> time \<Rightarrow> time \<Rightarrow> bool" where
  "within_day w t \<longleftrightarrow> fst w \<le> t \<and> t < snd w"

definition assertDailyListingCreateLimit :: "pg \<Rightarrow> db \<Rightarrow> int \<Rightarrow> MarketplaceRules \<Rightarrow> unit tx" where
  "assertDailyListingCreateLimit G s accountID rules =
     (let (now, s1) = db_now s in
      then_do (s1, dayRangeInLocation G now (mk_DailyLimitTimezone rules)) (\<lambda>s w.
      (s, if count_created (\<lambda>l. ml_SellerAccountID l = accountID \<and> within_day w (ml_CreatedAt l)) s
               \<ge> mk_MaxListingsCreatedPerDay rules
          then Inl (ErrMsg ''daily listing create limit reached'') else Inr ())))"

definition assertDailyCancelLimit :: "pg \<Rightarrow> db \<Rightarrow> int \<Rightarrow> MarketplaceRules \<Rightarrow> unit tx" where
  "assertDailyCancelLimit G s accountID rules =
     (let (now, s1) = db_now s in
      then_do (s1, dayRangeInLocation G now (mk_DailyLimitTimezone rules)) (\<lambda>s w.
      (s, if count_created (\<lambda>l. ml_SellerAccountID l = accountID \<and>
               (case ml_CancelledAt l of None \<Rightarrow> False | Some t \<Rightarrow> within_day w t)) s \<ge> mk_MaxCancelsPerDay rules
          then Inl (ErrMsg ''daily cancel limit reached'') else Inr ())))"

definition assertDailyPurchaseLimit :: "pg \<Rightarrow> db \<Rightarrow> int \<Rightarrow> MarketplaceRules \<Rightarrow> unit tx" where
  "assertDailyPurchaseLimit G s accountID rules =
     (let (now, s1) = db_now s in
      then_do (s1, dayRangeInLocation G now (mk_DailyLimitTimezone rules)) (\<lambda>s w.
      (s, if int (length (filter (\<lambda>(_, o'). mor_BuyerAccountID o' = accountID \<and> within_day w (mor_CreatedAt o')) (db_orders s)))
               \<ge> mk_MaxPurchasesPerDay rules
          then Inl (ErrMsg ''daily purchase limit reached'') else Inr ())))"

text \<open>The time since the latest purchase, compared in nanoseconds.\<close>

definition assertPurchaseCooldown :: "db \<Rightarrow> int \<Rightarrow> MarketplaceRules \<Rightarrow> unit tx" where
  "assertPurchaseCooldown s accountID rules =
     (if mk_PurchaseCooldownSeconds rules \<le> 0 then (s, Inr ())
      else case map mor_CreatedAt (filter (\<lambda>o'. mor_BuyerAccountID o' = accountID) (map snd (db_orders s))) of
        [] \<Rightarrow> (s, Inr ())
      | t # ts \<Rightarrow>
          let (now, s1) = db_now s in
          (s1, if now - Max (set (t # ts)) < mk_PurchaseCooldownSeconds rules * nanos 1
               then Inl (ErrMsg ''purchase cooldown active'') else Inr ()))"

definition ensureMarketSlots :: "db \<Rightarrow> int \<Rightarrow> MarketplaceSlots \<times> db" where
  "ensureMarketSlots s accountID =
     (let counts = coalesce (0, 0) (db_market_slots s accountID) in
      (\<lparr>sl_AccountID = accountID, sl_BaseSlots = 0, sl_MaterialExpandCount = fst counts, sl_WalletExpandCount = snd counts,
        sl_Capacity = 0, sl_Used = 0, sl_Available = 0\<rparr>,
       s\<lparr>db_market_slots := (db_market_slots s)(accountID \<mapsto> counts)\<rparr>))"

definition countActiveListings :: "db \<Rightarrow> int \<Rightarrow> int" where
  "countActiveListings s accountID =
     count_created (\<lambda>l. ml_SellerAccountID l = accountID \<and> ml_Status l \<in> {''LISTED'', ''LOCKED''}) s"

definition assertListingSlotAvailable :: "db \<Rightarrow> int \<Rightarrow> MarketplaceRules \<Rightarrow> unit tx" where
  "assertListingSlotAvailable s accountID rules =
     (let (slots, s1) = ensureMarketSlots s accountID;
          capacity = SlotCapacity rules (sl_MaterialExpandCount slots) (sl_WalletExpandCount slots) in
      (s1, if countActiveListings s1 accountID \<ge> capacity
           then Inl (ErrMsg (''active listings at capacity ('' @ FormatInt capacity @ '')'')) else Inr ()))"

section \<open>Listing\<close>

definition live_equipment :: "MarketplaceListing \<Rightarrow> bool" where
  "live_equipment l \<longleftrightarrow> ml_AssetType l = ''EQUIPMENT'' \<and> ml_Status l \<in> {''LISTED'', ''LOCKED''}"

text \<open>\<open>INSERT INTO marketplace_listings\<close> with its unique indexes and checks.\<close>

definition insertListing ::
  "db \<Rightarrow> MarketplaceListRequest \<Rightarrow> string \<Rightarrow> int \<Rightarrow> string \<Rightarrow> int \<Rightarrow> int \<Rightarrow> int \<Rightarrow> MarketplaceListing tx" where
  "insertListing s req assetType assetID itemID quantity deposit feeBps =
     (let (n, s1) = nextval ''marketplace_listings'' s;
          row = \<lparr>ml_ID = n, ml_SellerAccountID = mlq_AccountID req, ml_SellerCharacterID = mlq_CharacterID req,
            ml_AssetType = assetType, ml_AssetID = assetID, ml_ItemID = itemID, ml_Quantity = quantity,
            ml_PriceToken = mlq_PriceToken req, ml_ListingDepositToken = deposit, ml_FeeBps = feeBps, ml_Status = ''LISTED'',
            ml_CreatedAt = db_txnow s1, ml_UpdatedAt = db_txnow s1, ml_CancelledAt = None, ml_SoldAt = None\<rparr> in
      if mlq_OpID req \<in> fst ` set (db_listings s1) \<or> quantity \<le> 0 \<or> mlq_PriceToken req \<le> 0 \<or>
         live_equipment row \<and> (\<exists>l \<in> snd ` set (db_listings s1). live_equipment l \<and> ml_AssetID l = assetID)
      then (s1, Inl refused)
      else (s1\<lparr>db_listings := db_listings s1 @ [(mlq_OpID req, row)]\<rparr>, Inr row))"

definition tradable :: "db \<Rightarrow> string \<Rightarrow> bool" where
  "tradable s itemID = (case db_catalog s itemID of None \<Rightarrow> False | Some row \<Rightarrow> ic_tradable row)"

definition lockEquipmentForListing :: "db \<Rightarrow> MarketplaceListRequest \<Rightarrow> int \<Rightarrow> int \<Rightarrow> MarketplaceListing tx" where
  "lockEquipmentForListing s req deposit feeBps =
     (let uid = TrimSpace (mlq_EquipmentUID req) in
      if uid = [] then (s, Inl (ErrMsg ''equipmentUid is required''))
      else case List.find (\<lambda>r. ew_account_id r = mlq_AccountID req \<and> ew_character_id r = Some (mlq_CharacterID req) \<and>
             ew_equipment_uid r = uid) (db_equipment s) of
        None \<Rightarrow> (s, Inl ErrNotFound)
      | Some row \<Rightarrow>
          if ew_location row \<noteq> ''IN_BAG'' \<and> ew_location row \<noteq> ''IN_WAREHOUSE''
          then (s, Inl (ErrMsg ''equipment must be in bag or warehouse to list''))
          else if ew_bind_type row \<noteq> ''UNBOUND'' then (s, Inl (ErrMsg ''only UNBOUND equipment can be listed''))
          else if \<not> tradable s (ew_item_id row) then (s, Inl (ErrMsg ''equipment item is not tradable''))
          else
            then_do (or_fail (update_equipment s
              (\<lambda>r. ew_id r = ew_id row \<and> ew_location r \<in> {''IN_BAG'', ''IN_WAREHOUSE''})
              (\<lambda>r. r\<lparr>ew_location := ''LISTED'', ew_slot := None\<rparr>)) (ErrMsg ''equipment could not be listed'')) (\<lambda>s _.
            insertListing s req ''EQUIPMENT'' (ew_id row) (ew_item_id row) 1 deposit feeBps))"

definition lockItemForListing :: "pg \<Rightarrow> db \<Rightarrow> MarketplaceListRequest \<Rightarrow> int \<Rightarrow> int \<Rightarrow> MarketplaceListing tx" where
  "lockItemForListing G s req deposit feeBps =
     (let location0 = ToUpper (pg_case G) (TrimSpace (mlq_SourceLocation req));
          location = (if location0 = [] then ''BAG'' else location0) in
      if mlq_SlotIndex req < 0 then (s, Inl (ErrMsg ''slotIndex is required''))
      else if mlq_Quantity req \<le> 0 then (s, Inl (ErrMsg ''quantity must be positive''))
      else if location \<noteq> ''BAG'' \<and> location \<noteq> ''WAREHOUSE''
      then (s, Inl (ErrMsg ''sourceLocation must be BAG or WAREHOUSE''))
      else case List.find (row_at (mlq_CharacterID req) location (mlq_SlotIndex req)) (db_inventory s) of
        None \<Rightarrow> (s, Inl ErrNotFound)
      | Some row \<Rightarrow>
          if iv_bind_type row \<noteq> ''UNBOUND'' then (s, Inl (ErrMsg ''only UNBOUND items can be listed''))
          else if \<not> tradable s (iv_item_id row) then (s, Inl (ErrMsg ''item is not tradable''))
          else if mlq_Quantity req > iv_quantity row then (s, Inl ErrInsufficientBalance)
          else
            then_do (if mlq_Quantity req = iv_quantity row
              then then_do (update_inventory s (\<lambda>r. iv_id r = iv_id row)
                (\<lambda>r. r\<lparr>iv_location := ''LISTED'', iv_slot := None\<rparr>)) (\<lambda>s _. (s, Inr (iv_id row)))
              else
                then_do (update_inventory s (\<lambda>r. iv_id r = iv_id row)
                  (\<lambda>r. r\<lparr>iv_quantity := iv_quantity r - mlq_Quantity req\<rparr>)) (\<lambda>s _.
                insert_inventory s (mlq_CharacterID req) (iv_item_id row) (mlq_Quantity req) ''LISTED'' None ''UNBOUND'')) (\<lambda>s listedID.
            insertListing s req ''ITEM'' listedID (iv_item_id row) (mlq_Quantity req) deposit feeBps))"

definition listing_of :: "db_response \<Rightarrow> MarketplaceListResult option" where
  "listing_of r = (case r of RespMarketList x \<Rightarrow> Some x | _ \<Rightarrow> None)"

definition create_listing :: "pg \<Rightarrow> MarketplaceRules \<Rightarrow> MarketplaceListRequest \<Rightarrow> db \<Rightarrow> MarketplaceListResult tx" where
  "create_listing G rules req s =
     (if \<not> mk_Enabled rules then (s, Inl (ErrMsg ''marketplace is disabled''))
      else
        then_do (lockCharacter s (mlq_AccountID req) (mlq_CharacterID req)) (\<lambda>s _.
        then_do (s, assertHasTradingLicense s (mlq_AccountID req)) (\<lambda>s _.
        then_do (s, assertMarketNotRestricted s (mlq_AccountID req) ''SELL'') (\<lambda>s _.
        if mlq_PriceToken req < mk_MinListPrice rules
        then (s, Inl (ErrMsg (''price below minimum '' @ FormatInt (mk_MinListPrice rules))))
        else
          then_do (assertDailyListingCreateLimit G s (mlq_AccountID req) rules) (\<lambda>s _.
          then_do (assertListingSlotAvailable s (mlq_AccountID req) rules) (\<lambda>s _.
          let deposit = bpsCeil (mlq_PriceToken req) (mk_ListingDepositBps rules) in
          then_do (spendToken s (mlq_AccountID req) deposit) (\<lambda>s spend.
          then_do (insertSystemConsumption s (mlq_OpID req @ ''#deposit'') (mlq_AccountID req) (mlq_CharacterID req) spend
            ''MARKET_LISTING_DEPOSIT'' deposit 0 deposit 0) (\<lambda>s _.
          then_do (insertEconomyLedger s (mlq_AccountID req) (mlq_CharacterID req) ''MARKET_LISTING_DEPOSIT'' (mlq_OpID req)
            deposit (mlq_OpID req)) (\<lambda>s _.
          then_do (if mlq_AssetType req = ''EQUIPMENT'' then lockEquipmentForListing s req deposit (mk_FeeBps rules)
             else if mlq_AssetType req = ''ITEM'' then lockItemForListing G s req deposit (mk_FeeBps rules)
             else (s, Inl (ErrMsg ''assetType must be EQUIPMENT or ITEM''))) (\<lambda>s listing.
          then_do (economySnapshot G s (mlq_AccountID req) (mlq_CharacterID req)) (\<lambda>s snapshot.
          (s, Inr \<lparr>mlr_Listing = listing, mlr_Snapshot = snapshot\<rparr>))))))))))))"

definition Pg_MarketplaceCreateListing :: "pg \<Rightarrow> MarketplaceListRequest \<Rightarrow> db \<Rightarrow> MarketplaceListResult tx" where
  "Pg_MarketplaceCreateListing G req0 =
     (let rules = MarketplaceRules_withDefaults (mlq_Rules req0);
          req = req0\<lparr>mlq_AssetType := ToUpper (pg_case G) (TrimSpace (mlq_AssetType req0))\<rparr> in
      runIdempotentAction G RespMarketList listing_of ''marketplace_list'' (mlq_OpID req) (mlq_AccountID req)
        (mlq_CharacterID req) (ReqMarketList req) (create_listing G rules req))"

section \<open>Buying\<close>

definition lockListing :: "db \<Rightarrow> int \<Rightarrow> MarketplaceListing tx" where
  "lockListing s listingID =
     (s, case List.find (\<lambda>l. ml_ID l = listingID) (map snd (db_listings s)) of
           None \<Rightarrow> Inl ErrNotFound | Some l \<Rightarrow> Inr l)"

definition close_listing :: "db \<Rightarrow> int \<Rightarrow> (MarketplaceListing \<Rightarrow> MarketplaceListing) \<Rightarrow> nat tx" where
  "close_listing s listingID f =
     (let P = (\<lambda>l. ml_ID l = listingID \<and> ml_Status l = ''LISTED'') in
      (s\<lparr>db_listings := map (apsnd (\<lambda>l. if P l then f l else l)) (db_listings s)\<rparr>,
       Inr (length (filter (P \<circ> snd) (db_listings s)))))"

definition transferListedAssetToBuyer :: "db \<Rightarrow> MarketplaceListing \<Rightarrow> int \<Rightarrow> int \<Rightarrow> unit tx" where
  "transferListedAssetToBuyer s listing buyerAccountID buyerCharacterID =
     (if ml_AssetType listing = ''EQUIPMENT''
      then
        then_do (s, resolveStorageSlot s buyerCharacterID ''BAG'' (- 1)) (\<lambda>s targetSlot.
        or_fail (update_equipment s (\<lambda>r. ew_id r = ml_AssetID listing \<and> ew_location r = ''LISTED'')
          (\<lambda>r. r\<lparr>ew_account_id := buyerAccountID, ew_character_id := Some buyerCharacterID, ew_location := ''IN_BAG'',
            ew_slot := Some targetSlot\<rparr>)) (ErrMsg ''listed equipment missing''))
      else if ml_AssetType listing = ''ITEM''
      then
        then_do (s, resolveStorageSlot s buyerCharacterID ''BAG'' (- 1)) (\<lambda>s targetSlot.
        or_fail (update_inventory s (\<lambda>r. iv_id r = ml_AssetID listing \<and> iv_location r = ''LISTED'')
          (\<lambda>r. r\<lparr>iv_character_id := buyerCharacterID, iv_location := ''BAG'', iv_slot := Some targetSlot\<rparr>))
          (ErrMsg ''listed item missing''))
      else (s, Inl (ErrMsg ''unsupported asset type'')))"

definition insert_order :: "db \<Rightarrow> string \<Rightarrow> (string \<Rightarrow> MarketplaceOrder) \<Rightarrow> MarketplaceOrder tx" where
  "insert_order s opID row =
     (let (n, s1) = nextval ''uuid'' s; r = row (db_uuid s1 n) in
      if opID \<in> fst ` set (db_orders s1) then (s1, Inl refused)
      else (s1\<lparr>db_orders := db_orders s1 @ [(opID, r)]\<rparr>, Inr r))"

definition pay_seller :: "db \<Rightarrow> MarketplaceListing \<Rightarrow> int \<Rightarrow> string \<Rightarrow> MarketplaceRules \<Rightarrow> unit tx" where
  "pay_seller s listing sellerNet opID rules =
     (let (now, s1) = db_now s; unlockAt = now + w64 (mk_DefaultCooldownHours rules * hour_nanos);
          depositReturn = ml_ListingDepositToken listing in
      then_do (grantLockedTokenInTxAt s1 (ml_SellerAccountID listing) sellerNet unlockAt) (\<lambda>s _.
      then_do (if depositReturn > 0 then grantLockedTokenInTxAt s (ml_SellerAccountID listing) depositReturn unlockAt
               else (s, Inr ())) (\<lambda>s _.
      insertEconomyLedger s (ml_SellerAccountID listing) (ml_SellerCharacterID listing) ''MARKET_SALE_PROCEEDS'' opID
        (w64 (sellerNet + depositReturn)) opID)))"

definition sale_of :: "db_response \<Rightarrow> MarketplaceBuyResult option" where
  "sale_of r = (case r of RespMarketBuy x \<Rightarrow> Some x | _ \<Rightarrow> None)"

definition buy_listing :: "pg \<Rightarrow> MarketplaceRules \<Rightarrow> MarketplaceBuyRequest \<Rightarrow> db \<Rightarrow> MarketplaceBuyResult tx" where
  "buy_listing G rules req s =
     (if \<not> mk_Enabled rules then (s, Inl (ErrMsg ''marketplace is disabled''))
      else
        then_do (s, assertHasTradingLicense s (mbq_AccountID req)) (\<lambda>s _.
        then_do (lockCharacter s (mbq_AccountID req) (mbq_CharacterID req)) (\<lambda>s _.
        then_do (s, assertMarketNotRestricted s (mbq_AccountID req) ''BUY'') (\<lambda>s _.
        then_do (assertDailyPurchaseLimit G s (mbq_AccountID req) rules) (\<lambda>s _.
        then_do (assertPurchaseCooldown s (mbq_AccountID req) rules) (\<lambda>s _.
        then_do (lockListing s (mbq_ListingID req)) (\<lambda>s listing.
        if ml_Status listing \<noteq> ''LISTED'' then (s, Inl (ErrMsg ''listing is not available''))
        else if ml_SellerAccountID listing = mbq_AccountID req then (s, Inl (ErrMsg ''cannot buy own listing''))
        else
          let price = ml_PriceToken listing; split = sale_split rules price in
          then_do (spendToken s (mbq_AccountID req) price) (\<lambda>s spend.
          then_do (insertSystemConsumption s (mbq_OpID req) (mbq_AccountID req) (mbq_CharacterID req) spend ''MARKET_BUY'' price
            (sale_burn split) (sale_treasury split) (sale_rewards split)) (\<lambda>s _.
          then_do (insertEconomyLedger s (mbq_AccountID req) (mbq_CharacterID req) ''MARKET_BUY'' (FormatInt (ml_ID listing))
            price (mbq_OpID req)) (\<lambda>s _.
          then_do (pay_seller s listing (sale_net split) (mbq_OpID req) rules) (\<lambda>s _.
          then_do (transferListedAssetToBuyer s listing (mbq_AccountID req) (mbq_CharacterID req)) (\<lambda>s _.
          let (now, s) = db_now s in
          then_do (or_fail (close_listing s (ml_ID listing) (\<lambda>l. l\<lparr>ml_Status := ''SOLD'', ml_SoldAt := Some now, ml_UpdatedAt := now\<rparr>))
            (ErrMsg ''listing is not available'')) (\<lambda>s _.
          then_do (insert_order s (mbq_OpID req) (\<lambda>n. \<lparr>mor_ID = n, mor_ListingID = ml_ID listing,
             mor_BuyerAccountID = mbq_AccountID req, mor_BuyerCharacterID = mbq_CharacterID req, mor_AmountToken = price,
             mor_FeeToken = sale_fee split, mor_BurnToken = sale_burn split, mor_TreasuryToken = sale_treasury split,
             mor_RewardsToken = sale_rewards split, mor_SellerProceedsToken = sale_net split,
             mor_DepositReturnedToken = ml_ListingDepositToken listing, mor_SpendSource = ts_SpendSource spend,
             mor_Status = ''COMPLETED'', mor_CreatedAt = db_txnow s, mor_CompletedAt = Some now\<rparr>)) (\<lambda>s stored_order.
          then_do (economySnapshot G s (mbq_AccountID req) (mbq_CharacterID req)) (\<lambda>s snapshot.
          (s, Inr \<lparr>mbr_Listing = listing\<lparr>ml_Status := ''SOLD'', ml_SoldAt := Some now, ml_UpdatedAt := now\<rparr>,
             mbr_Order = stored_order\<lparr>mor_CreatedAt := now\<rparr>, mbr_Snapshot = snapshot\<rparr>))))))))))))))))"

definition Pg_MarketplaceBuy :: "pg \<Rightarrow> MarketplaceBuyRequest \<Rightarrow> db \<Rightarrow> MarketplaceBuyResult tx" where
  "Pg_MarketplaceBuy G req =
     runIdempotentAction G RespMarketBuy sale_of ''marketplace_buy'' (mbq_OpID req) (mbq_AccountID req) (mbq_CharacterID req)
       (ReqMarketBuy req) (buy_listing G (MarketplaceRules_withDefaults (mbq_Rules req)) req)"

section \<open>Cancelling\<close>

definition returnListedAssetToSellerBag :: "db \<Rightarrow> MarketplaceListing \<Rightarrow> unit tx" where
  "returnListedAssetToSellerBag s listing =
     (if ml_AssetType listing = ''EQUIPMENT''
      then
        then_do (s, resolveStorageSlot s (ml_SellerCharacterID listing) ''BAG'' (- 1)) (\<lambda>s targetSlot.
        or_fail (update_equipment s (\<lambda>r. ew_id r = ml_AssetID listing \<and> ew_location r = ''LISTED'' \<and>
            ew_account_id r = ml_SellerAccountID listing)
          (\<lambda>r. r\<lparr>ew_location := ''IN_BAG'', ew_slot := Some targetSlot, ew_character_id := Some (ml_SellerCharacterID listing)\<rparr>))
          (ErrMsg ''listed equipment missing''))
      else if ml_AssetType listing = ''ITEM''
      then
        then_do (s, resolveStorageSlot s (ml_SellerCharacterID listing) ''BAG'' (- 1)) (\<lambda>s targetSlot.
        or_fail (update_inventory s (\<lambda>r. iv_id r = ml_AssetID listing \<and> iv_location r = ''LISTED'')
          (\<lambda>r. r\<lparr>iv_character_id := ml_SellerCharacterID listing, iv_location := ''BAG'', iv_slot := Some targetSlot\<rparr>))
          (ErrMsg ''listed item missing''))
      else (s, Inl (ErrMsg ''unsupported asset type'')))"

definition cancel_listing :: "pg \<Rightarrow> MarketplaceRules \<Rightarrow> MarketplaceCancelRequest \<Rightarrow> db \<Rightarrow> MarketplaceListResult tx" where
  "cancel_listing G rules req s =
     (if \<not> mk_Enabled rules then (s, Inl (ErrMsg ''marketplace is disabled''))
      else
        then_do (assertDailyCancelLimit G s (mcq_AccountID req) rules) (\<lambda>s _.
        then_do (lockListing s (mcq_ListingID req)) (\<lambda>s listing.
        if ml_SellerAccountID listing \<noteq> mcq_AccountID req then (s, Inl ErrForbidden)
        else if ml_Status listing \<noteq> ''LISTED'' then (s, Inl (ErrMsg ''listing is not cancellable''))
        else if ml_SellerCharacterID listing \<le> 0 then (s, Inl (ErrMsg ''listing missing seller character''))
        else
          then_do (lockCharacter s (mcq_AccountID req) (ml_SellerCharacterID listing)) (\<lambda>s _.
          then_do (returnListedAssetToSellerBag s listing) (\<lambda>s _.
          let (now, s) = db_now s in
          then_do (or_fail (close_listing s (ml_ID listing) (\<lambda>l. l\<lparr>ml_Status := ''CANCELLED'', ml_CancelledAt := Some now,
            ml_UpdatedAt := now\<rparr>)) (ErrMsg ''listing is not cancellable'')) (\<lambda>s _.
          then_do (if ml_ListingDepositToken listing > 0
            then insertEconomyLedger s (mcq_AccountID req) (ml_SellerCharacterID listing) ''MARKET_LISTING_DEPOSIT_TREASURY''
              (FormatInt (ml_ID listing)) (ml_ListingDepositToken listing) (mcq_OpID req)
            else (s, Inr ())) (\<lambda>s _.
          then_do (economySnapshot G s (mcq_AccountID req) (ml_SellerCharacterID listing)) (\<lambda>s snapshot.
          (s, Inr \<lparr>mlr_Listing = listing\<lparr>ml_Status := ''CANCELLED'', ml_CancelledAt := Some now, ml_UpdatedAt := now\<rparr>,
             mlr_Snapshot = snapshot\<rparr>)))))))))"

definition Pg_MarketplaceCancel :: "pg \<Rightarrow> MarketplaceCancelRequest \<Rightarrow> db \<Rightarrow> MarketplaceListResult tx" where
  "Pg_MarketplaceCancel G req =
     runIdempotentAction G RespMarketList listing_of ''marketplace_cancel'' (mcq_OpID req) (mcq_AccountID req) 0
       (ReqMarketCancel req) (cancel_listing G (MarketplaceRules_withDefaults (mcq_Rules req)) req)"

section \<open>Slots for listings\<close>

definition expansion_of :: "db_response \<Rightarrow> MarketplaceExpandResult option" where
  "expansion_of r = (case r of RespMarketExpand x \<Rightarrow> Some x | _ \<Rightarrow> None)"

definition Pg_MarketplaceExpandMaterialSlots :: "pg \<Rightarrow> MarketplaceExpandSlotsRequest \<Rightarrow> db \<Rightarrow> MarketplaceExpandResult tx" where
  "Pg_MarketplaceExpandMaterialSlots G req =
     (let rules = MarketplaceRules_withDefaults (meq_Rules req) in
      runIdempotentAction G RespMarketExpand expansion_of ''marketplace_expand_material'' (meq_OpID req) (meq_AccountID req)
        (meq_CharacterID req) (ReqMarketExpand req) (\<lambda>s.
      if \<not> mk_Enabled rules then (s, Inl (ErrMsg ''marketplace is disabled''))
      else
        then_do (lockCharacter s (meq_AccountID req) (meq_CharacterID req)) (\<lambda>s _.
        let (slots, s) = ensureMarketSlots s (meq_AccountID req) in
        if sl_MaterialExpandCount slots \<ge> mk_MaterialExpandMaxTimes rules
        then (s, Inl (ErrMsg ''material market slot expands exhausted''))
        else
          then_do (consumeBagItem s (meq_CharacterID req) (mk_MaterialExpandItemID rules) (mk_MaterialExpandItemQuantity rules)) (\<lambda>s _.
          let s = s\<lparr>db_market_slots := (db_market_slots s)(meq_AccountID req \<mapsto>
                (sl_MaterialExpandCount slots + 1, sl_WalletExpandCount slots))\<rparr>;
              expanded = decorateSlots (meq_AccountID req) (slots\<lparr>sl_MaterialExpandCount := sl_MaterialExpandCount slots + 1\<rparr>) rules in
          then_do (insertEconomyLedger s (meq_AccountID req) (meq_CharacterID req) ''MARKET_SLOTS_EXPANDED''
            (mk_MaterialExpandItemID rules) 1 (meq_OpID req)) (\<lambda>s _.
          then_do (economySnapshot G s (meq_AccountID req) (meq_CharacterID req)) (\<lambda>s snapshot.
          (s, Inr \<lparr>mer_Slots = expanded, mer_Snapshot = snapshot\<rparr>)))))))"

definition Pg_MarketplaceSlots :: "int \<Rightarrow> MarketplaceRules \<Rightarrow> db \<Rightarrow> MarketplaceSlots tx" where
  "Pg_MarketplaceSlots accountID rules0 s =
     (let rules = MarketplaceRules_withDefaults rules0; (slots, s1) = ensureMarketSlots (begin_tx s) accountID in
      (s1, Inr (decorateSlots accountID (slots\<lparr>sl_Used := countActiveListings s1 accountID\<rparr>) rules)))"

section \<open>Payment orders\<close>

definition insertPaymentOrder ::
  "db \<Rightarrow> int \<Rightarrow> int \<Rightarrow> string \<Rightarrow> int \<Rightarrow> string \<Rightarrow> time \<Rightarrow> payload \<Rightarrow> PaymentOrder tx" where
  "insertPaymentOrder s accountID characterID purpose amount receiver expires data =
     (let (n, s1) = nextval ''uuid'' s;
          row = \<lparr>po_ID = db_uuid s1 n, po_AccountID = accountID, po_CharacterID = (if characterID > 0 then characterID else 0),
            po_Purpose = purpose, po_PayAsset = ''AEB'', po_Amount = amount, po_ReceiverWallet = receiver,
            po_Status = ''PENDING_PAYMENT'', po_TxSignature = [], po_CreatedAt = db_txnow s1, po_ExpiresAt = expires,
            po_SubmittedAt = None, po_ConfirmedAt = None, po_FulfilledAt = None, pw_payload = data\<rparr> in
      (s1\<lparr>db_payments := db_payments s1 @ [row]\<rparr>, Inr (PaymentOrder.truncate row)))"

definition open_orders :: "(payment_row \<Rightarrow> bool) \<Rightarrow> db \<Rightarrow> nat" where
  "open_orders P s = length (filter (\<lambda>r. P r \<and> po_Status r \<in> {''PENDING_PAYMENT'', ''SUBMITTED'', ''CONFIRMED''}) (db_payments s))"

definition wallet_expansion_of :: "db_response \<Rightarrow> MarketplaceExpandWalletResult option" where
  "wallet_expansion_of r = (case r of RespMarketWallet x \<Rightarrow> Some x | _ \<Rightarrow> None)"

definition Pg_MarketplaceExpandWalletSlots ::
  "pg \<Rightarrow> MarketplaceExpandSlotsRequest \<Rightarrow> db \<Rightarrow> MarketplaceExpandWalletResult tx" where
  "Pg_MarketplaceExpandWalletSlots G req =
     (let rules = MarketplaceRules_withDefaults (meq_Rules req) in
      runIdempotentAction G RespMarketWallet wallet_expansion_of ''marketplace_expand_wallet'' (meq_OpID req)
        (meq_AccountID req) (meq_CharacterID req) (ReqMarketExpand req) (\<lambda>s.
      if \<not> mk_Enabled rules then (s, Inl (ErrMsg ''marketplace is disabled''))
      else if TrimSpace (mk_DepositReceiverWallet rules) = []
      then (s, Inl (ErrMsg ''deposit receiver wallet is not configured''))
      else
        then_do (lockCharacter s (meq_AccountID req) (meq_CharacterID req)) (\<lambda>s _.
        let (slots, s) = ensureMarketSlots s (meq_AccountID req) in
        if sl_WalletExpandCount slots \<ge> mk_WalletExpandMaxTimes rules
        then (s, Inl (ErrMsg ''wallet market slot expands exhausted''))
        else if open_orders (\<lambda>r. po_AccountID r = meq_AccountID req \<and> po_Purpose r = ''MARKET_SLOT_WALLET_EXPAND'') s > 0
        then (s, Inl (ErrMsg ''open wallet expand payment already exists''))
        else
          let (now, s) = db_now s in
          then_do (insertPaymentOrder s (meq_AccountID req) (meq_CharacterID req) ''MARKET_SLOT_WALLET_EXPAND''
            (mk_WalletExpandPriceToken rules) (mk_DepositReceiverWallet rules)
            (now + w64 (mk_WalletExpandPaymentTimeoutSec rules * nanos 1))
            (SlotsPayload (mk_WalletExpandSlots rules) (meq_OpID req))) (\<lambda>s order.
          (s, Inr \<lparr>mwr_Order = order, mwr_Slots = decorateSlots (meq_AccountID req) slots rules\<rparr>)))))"

definition growth_of :: "db_response \<Rightarrow> GrowthPaymentResult option" where
  "growth_of r = (case r of RespGrowth x \<Rightarrow> Some x | _ \<Rightarrow> None)"

definition Pg_CreateBagExpandPayment :: "pg \<Rightarrow> GrowthPaymentRequest \<Rightarrow> db \<Rightarrow> GrowthPaymentResult tx" where
  "Pg_CreateBagExpandPayment G req =
     (let rules = GrowthPaymentRules_withDefaults (gpq_Rules req) in
      runIdempotentAction G RespGrowth growth_of ''bag_expand_create'' (gpq_OpID req) (gpq_AccountID req) (gpq_CharacterID req)
        (ReqGrowth req) (\<lambda>s.
      if TrimSpace (gp_DepositReceiverWallet rules) = [] then (s, Inl (ErrMsg ''deposit receiver wallet is not configured''))
      else
        then_do (lockCharacter s (gpq_AccountID req) (gpq_CharacterID req)) (\<lambda>s _.
        let expandCount = (case db_characters s (gpq_CharacterID req) of None \<Rightarrow> 0 | Some row \<Rightarrow> cr_bag_expand_count row) in
        if expandCount \<ge> gp_BagExpandMaxTimes rules then (s, Inl (ErrMsg ''bag expands exhausted''))
        else if open_orders (\<lambda>r. po_AccountID r = gpq_AccountID req \<and> po_CharacterID r = gpq_CharacterID req \<and>
               po_Purpose r = ''BAG_EXPAND'') s > 0
        then (s, Inl (ErrMsg ''open bag expand payment already exists''))
        else
          let (now, s) = db_now s in
          then_do (insertPaymentOrder s (gpq_AccountID req) (gpq_CharacterID req) ''BAG_EXPAND''
            (gp_BagExpandPriceToken rules) (gp_DepositReceiverWallet rules)
            (now + w64 (gp_BagExpandPaymentTimeoutSec rules * nanos 1))
            (SlotsPayload (gp_BagExpandSlots rules) (gpq_OpID req))) (\<lambda>s order.
          (s, Inr \<lparr>gpr_Order = order, gpr_BagExpandCount = expandCount,
             gpr_BagSlots = GrowthPaymentRules_EffectiveBagSlots rules expandCount, gpr_HasLicense = False\<rparr>)))))"

definition Pg_CreateTradingLicensePayment :: "pg \<Rightarrow> GrowthPaymentRequest \<Rightarrow> db \<Rightarrow> GrowthPaymentResult tx" where
  "Pg_CreateTradingLicensePayment G req =
     (let rules = GrowthPaymentRules_withDefaults (gpq_Rules req) in
      runIdempotentAction G RespGrowth growth_of ''trading_license_create'' (gpq_OpID req) (gpq_AccountID req) 0
        (ReqGrowth req) (\<lambda>s.
      if TrimSpace (gp_DepositReceiverWallet rules) = [] then (s, Inl (ErrMsg ''deposit receiver wallet is not configured''))
      else case db_accounts s (gpq_AccountID req) of
        None \<Rightarrow> (s, Inl ErrNotFound)
      | Some hasLicense \<Rightarrow>
          if hasLicense then (s, Inl (ErrMsg ''trading license already owned''))
          else if open_orders (\<lambda>r. po_AccountID r = gpq_AccountID req \<and> po_Purpose r = ''TRADING_LICENSE'') s > 0
          then (s, Inl (ErrMsg ''open trading license payment already exists''))
          else
            let (now, s) = db_now s in
            then_do (insertPaymentOrder s (gpq_AccountID req) (gpq_CharacterID req) ''TRADING_LICENSE''
              (gp_TradingLicensePriceToken rules) (gp_DepositReceiverWallet rules)
              (now + w64 (gp_TradingLicensePaymentTimeoutSec rules * nanos 1)) (OpPayload (gpq_OpID req))) (\<lambda>s order.
            (s, Inr \<lparr>gpr_Order = order, gpr_BagExpandCount = 0, gpr_BagSlots = 0, gpr_HasLicense = False\<rparr>))))"

definition lockPaymentOrder :: "db \<Rightarrow> string \<Rightarrow> PaymentOrder tx" where
  "lockPaymentOrder s orderID =
     (s, case List.find (\<lambda>r. po_ID r = orderID) (db_payments s) of
           None \<Rightarrow> Inl ErrNotFound | Some r \<Rightarrow> Inr (PaymentOrder.truncate r))"

definition order_of :: "db_response \<Rightarrow> PaymentOrder option" where
  "order_of r = (case r of RespOrder x \<Rightarrow> Some x | _ \<Rightarrow> None)"

text \<open>The unique index on signatures makes the statement fail if another order has the signature.\<close>

definition Pg_MarketplaceSubmitWalletExpandPayment :: "pg \<Rightarrow> MarketplaceSubmitPaymentRequest \<Rightarrow> db \<Rightarrow> PaymentOrder tx" where
  "Pg_MarketplaceSubmitWalletExpandPayment G req =
     runIdempotentAction G RespOrder order_of ''payment_submit'' (msq_OpID req) (msq_AccountID req) 0 (ReqMarketSubmit req) (\<lambda>s.
     let sig = TrimSpace (msq_TxSignature req) in
     if sig = [] then (s, Inl (ErrMsg ''txSignature is required''))
     else
       then_do (lockPaymentOrder s (msq_OrderID req)) (\<lambda>s order.
       if po_AccountID order \<noteq> msq_AccountID req then (s, Inl ErrForbidden)
       else if \<not> supportedPaymentPurpose (po_Purpose order) then (s, Inl (ErrMsg ''order purpose mismatch''))
       else if po_Status order \<noteq> ''PENDING_PAYMENT'' \<and> po_Status order \<noteq> ''SUBMITTED''
       then (s, Inl (ErrMsg (''order status '' @ po_Status order @ '' cannot accept signature'')))
       else
         let (now, s) = db_now s in
         if now > po_ExpiresAt order
         then (s\<lparr>db_payments := modify (\<lambda>r. po_ID r = po_ID order) (\<lambda>r. r\<lparr>po_Status := ''EXPIRED''\<rparr>) (db_payments s)\<rparr>,
           Inl (ErrMsg ''payment order expired''))
         else
           let (now, s) = db_now s;
               P = (\<lambda>r. po_ID r = po_ID order \<and> po_Status r \<in> {''PENDING_PAYMENT'', ''SUBMITTED''}) in
           if \<exists>r \<in> set (db_payments s). po_ID r \<noteq> po_ID order \<and> po_TxSignature r = sig then (s, Inl refused)
           else
             then_do (or_fail (s\<lparr>db_payments := modify P
                 (\<lambda>r. r\<lparr>po_Status := ''SUBMITTED'', po_TxSignature := sig, po_SubmittedAt := Some now\<rparr>) (db_payments s)\<rparr>,
               Inr (length (filter P (db_payments s)))) (ErrMsg ''payment order update failed'')) (\<lambda>s _.
             lockPaymentOrder s (po_ID order))))"

end
