(* ===== verification/StorageProps.thy ===== *)
theory StorageProps
  imports MarketStore
begin

text \<open>
  What the item operations of the SQL repository keep: every slot of a bag or a warehouse holds one
  thing, a stack or a piece of equipment. The unique indexes of the schema see one table each, so this
  is the work of \<open>storageSlotFree\<close>; the rows in the marketplace's hands are touched by no item operation.
\<close>

section \<open>Outcomes of a chain of calls\<close>

text \<open>
  \<open>ends I b p\<close>: if the transaction \<open>p\<close>, begun in \<open>b\<close>, succeeds, \<open>I\<close> holds of its tables; either way no sequence
  goes back, which matters because a rolled back transaction keeps the sequences.
\<close>

definition grows :: "db \<Rightarrow> db \<Rightarrow> bool" where
  "grows b t \<longleftrightarrow> (\<forall>x. db_seq b x \<le> db_seq t x)"

definition ends :: "(db \<Rightarrow> bool) \<Rightarrow> db \<Rightarrow> 'a tx \<Rightarrow> bool" where
  "ends I b p \<longleftrightarrow> grows b (fst p) \<and> (\<forall>x. snd p = Inr x \<longrightarrow> I (fst p))"

lemma grows_refl [simp]: "grows s s"
  by (simp add: grows_def)

lemma grows_trans: "grows a b \<Longrightarrow> grows b c \<Longrightarrow> grows a c"
  unfolding grows_def by (meson order_trans)

lemma ends_pair [simp]:
  "ends I b (s, Inl e) \<longleftrightarrow> grows b s" "ends I b (s, Inr x) \<longleftrightarrow> grows b s \<and> I s"
  by (auto simp: ends_def)

lemma ends_result: "I s \<Longrightarrow> grows b s \<Longrightarrow> ends I b (s, r)"
  by (simp add: ends_def)

lemma ends_then_do:
  assumes "ends I b p" and "\<And>t x. p = (t, Inr x) \<Longrightarrow> I t \<Longrightarrow> grows b t \<Longrightarrow> ends J b (k t x)"
  shows "ends J b (then_do p k)"
  using assms by (cases p; cases "snd p") (auto simp: ends_def)

lemma endsD: "ends I b p \<Longrightarrow> p = (t, Inr x) \<Longrightarrow> I t"
  by (simp add: ends_def)

lemma ends_weaken: "ends I b p \<Longrightarrow> (\<And>t. I t \<Longrightarrow> J t) \<Longrightarrow> ends J b p"
  by (simp add: ends_def)

lemma ends_or_fail: "ends I b p \<Longrightarrow> ends I b (or_fail p e)"
  unfolding or_fail_def by (erule ends_then_do) (simp split: if_split)

lemma ends_if: "(c \<Longrightarrow> ends I b p) \<Longrightarrow> (\<not> c \<Longrightarrow> ends I b q) \<Longrightarrow> ends I b (if c then p else q)"
  by simp

section \<open>Rows and places\<close>

definition inv_place :: "inventory_row \<Rightarrow> (int \<times> string \<times> int) option" where
  "inv_place r = (if iv_location r \<in> {''BAG'', ''WAREHOUSE''}
     then map_option (\<lambda>k. (iv_character_id r, iv_location r, k)) (iv_slot r) else None)"

definition equ_place :: "equipment_row \<Rightarrow> (int \<times> string \<times> int) option" where
  "equ_place r = (case ew_character_id r of
       None \<Rightarrow> None
     | Some c \<Rightarrow>
         if ew_location r = ''IN_BAG'' then map_option (\<lambda>k. (c, ''BAG'', k)) (ew_slot r)
         else if ew_location r = ''IN_WAREHOUSE'' then map_option (\<lambda>k. (c, ''WAREHOUSE'', k)) (ew_slot r)
         else None)"

definition places :: "db \<Rightarrow> (int \<times> string \<times> int) list" where
  "places s = List.map_filter inv_place (db_inventory s) @ List.map_filter equ_place (db_equipment s)"

definition storage_sound :: "db \<Rightarrow> bool" where
  "storage_sound s \<longleftrightarrow> inventory_ok (db_inventory s) \<and> equipment_ok (db_equipment s) \<and>
     (\<forall>r \<in> set (db_inventory s). iv_id r \<le> db_seq s ''inventory_items'') \<and>
     (\<forall>r \<in> set (db_equipment s). ew_id r \<le> db_seq s ''equipment_items'') \<and>
     distinct (places s) \<and> (\<forall>p \<in> set (places s). 0 \<le> snd (snd p))"

lemma set_map_filter: "set (List.map_filter f xs) = {y. \<exists>x \<in> set xs. f x = Some y}"
  by (force simp: List.map_filter_def)

lemma map_filter_append: "List.map_filter f (xs @ ys) = List.map_filter f xs @ List.map_filter f ys"
  by (simp add: List.map_filter_def)

lemma map_filter_Cons:
  "List.map_filter f (x # xs) = (case f x of None \<Rightarrow> List.map_filter f xs | Some y \<Rightarrow> y # List.map_filter f xs)"
  by (simp add: List.map_filter_def split: option.split)

lemma filter_length_0: "length (filter P xs) = 0 \<longleftrightarrow> (\<forall>x \<in> set xs. \<not> P x)"
  by (auto simp: filter_empty_conv)

lemma storageSlotFree_iff:
  "L \<in> {''BAG'', ''WAREHOUSE''} \<Longrightarrow> storageSlotFree s c L k = Inr ((c, L, k) \<notin> set (places s))"
  by (auto simp: storageSlotFree_def equipmentStorageLocation_def places_def set_map_filter inv_place_def equ_place_def
    filter_empty_conv split: option.splits if_splits)

lemma first_free_sound:
  "first_free s c L n k = Inr m \<Longrightarrow> L \<in> {''BAG'', ''WAREHOUSE''} \<Longrightarrow> (c, L, m) \<notin> set (places s) \<and> k \<le> m"
proof (induction n arbitrary: k)
  case 0
  then show ?case by (simp add: first_free.simps)
next
  case (Suc n)
  then show ?case by (subst (asm) first_free.simps) (fastforce simp: storageSlotFree_iff split: if_splits)
qed

lemma resolveStorageSlot_free:
  "resolveStorageSlot s c L n = Inr m \<Longrightarrow> L \<in> {''BAG'', ''WAREHOUSE''} \<Longrightarrow> (c, L, m) \<notin> set (places s) \<and> 0 \<le> m"
  by (auto simp: resolveStorageSlot_def storageSlotFree_iff dest: first_free_sound split: if_splits)

text \<open>An update of the one row that a condition on a key can match.\<close>

definition one_row :: "('r \<Rightarrow> bool) \<Rightarrow> 'r list \<Rightarrow> bool" where
  "one_row P rows \<longleftrightarrow> length (filter P rows) \<le> 1"

lemma one_row_key:
  "distinct (map key rows) \<Longrightarrow> (\<And>r. P r \<Longrightarrow> key r = k) \<Longrightarrow> one_row P rows"
proof (induction rows)
  case (Cons r rows)
  have "filter P rows = []" if "P r"
  proof -
    have "\<not> P r'" if "r' \<in> set rows" for r'
      using that Cons.prems \<open>P r\<close> by (metis distinct.simps(2) image_eqI list.set_map list.simps(9))
    then show ?thesis by (simp add: filter_empty_conv)
  qed
  with Cons show ?case by (auto simp: one_row_def)
qed (simp add: one_row_def)

lemma modify_one:
  assumes "one_row P rows"
  obtains "modify P f rows = rows" "filter P rows = []"
  | us row vs where "rows = us @ row # vs" "P row" "modify P f rows = us @ f row # vs" "filter P rows = [row]"
    "\<forall>r \<in> set us \<union> set vs. \<not> P r"
proof -
  have same: "modify P f xs = xs" if "filter P xs = []" for xs
    using that by (auto simp: modify_def filter_empty_conv intro: map_idI)
  show ?thesis
  proof (cases "filter P rows")
    case Nil
    then show ?thesis using that(1) same by blast
  next
    case (Cons row xs)
    then have one: "filter P rows = [row]" using assms by (simp add: one_row_def)
    then obtain us vs where split: "rows = us @ row # vs" "\<forall>u \<in> set us. \<not> P u" "P row" "[] = filter P vs"
      by (auto simp: filter_eq_Cons_iff)
    then have "modify P f rows = us @ f row # vs"
      using same [of us] same [of vs] by (simp add: modify_def filter_empty_conv)
    moreover have "\<forall>r \<in> set us \<union> set vs. \<not> P r" using split(2,4) by (metis UnE filter_empty_conv)
    ultimately show ?thesis using that(2) split one by blast
  qed
qed

definition place_ok :: "'p list \<Rightarrow> 'p option \<Rightarrow> 'p option \<Rightarrow> bool" where
  "place_ok ps p q \<longleftrightarrow> q = None \<or> q = p \<or> (\<exists>x. q = Some x \<and> x \<notin> set ps)"

lemma places_update:
  assumes "distinct (xs @ List.map_filter g (us @ row # vs) @ ys)"
    and "place_ok (xs @ List.map_filter g (us @ row # vs) @ ys) (g row) (g row')"
  shows "distinct (xs @ List.map_filter g (us @ row' # vs) @ ys)"
    "set (xs @ List.map_filter g (us @ row' # vs) @ ys) \<subseteq>
      set (xs @ List.map_filter g (us @ row # vs) @ ys) \<union> set_option (g row')"
  using assms by (auto simp: place_ok_def map_filter_append map_filter_Cons split: option.splits)

section \<open>What item operations leave alone\<close>

text \<open>
  The rows in the marketplace's hands, the listings, orders, payments and stored answers. A bind type other than \<open>BOUND\<close>
  is never introduced.
\<close>

definition binds :: "db \<Rightarrow> string set" where
  "binds s = iv_bind_type ` set (db_inventory s) \<union> ew_bind_type ` set (db_equipment s)"

definition listed_items :: "inventory_row list \<Rightarrow> inventory_row list" where
  "listed_items rows = filter (\<lambda>r. iv_location r = ''LISTED'') rows"

definition listed_equipment :: "equipment_row list \<Rightarrow> equipment_row list" where
  "listed_equipment rows = filter (\<lambda>r. ew_location r = ''LISTED'') rows"

definition apart_from_market :: "db \<Rightarrow> db \<Rightarrow> bool" where
  "apart_from_market b t \<longleftrightarrow>
     listed_items (db_inventory t) = listed_items (db_inventory b) \<and>
     listed_equipment (db_equipment t) = listed_equipment (db_equipment b) \<and>
     db_listings t = db_listings b \<and> db_orders t = db_orders b \<and> db_payments t = db_payments b \<and>
     db_idempotency t = db_idempotency b \<and>
     db_seq b ''marketplace_listings'' \<le> db_seq t ''marketplace_listings'' \<and>
     binds t \<subseteq> insert ''BOUND'' (binds b)"

definition kept :: "db \<Rightarrow> db \<Rightarrow> bool" where
  "kept b t \<longleftrightarrow> storage_sound t \<and> apart_from_market b t"

lemmas kept_unfold = kept_def apart_from_market_def storage_sound_def places_def binds_def

lemma kept_refl [simp]: "kept b b \<longleftrightarrow> storage_sound b"
  by (auto simp: kept_def apart_from_market_def)

lemma kept_other [simp]:
  "kept b (s\<lparr>db_ledger := x1\<rparr>) = kept b s" "kept b (s\<lparr>db_loot := x2\<rparr>) = kept b s"
  "kept b (s\<lparr>db_tokens := x3\<rparr>) = kept b s" "kept b (s\<lparr>db_catalog := x4\<rparr>) = kept b s"
  "kept b (s\<lparr>db_market_slots := x5\<rparr>) = kept b s" "kept b (s\<lparr>db_ticks := x6\<rparr>) = kept b s"
  "kept b (s\<lparr>db_wallets := x7\<rparr>) = kept b s" "kept b (s\<lparr>db_consumptions := x8\<rparr>) = kept b s"
  by (simp_all add: kept_unfold)

lemma grows_other [simp]:
  "grows b (s\<lparr>db_ledger := x1\<rparr>) = grows b s" "grows b (s\<lparr>db_loot := x2\<rparr>) = grows b s"
  "grows b (s\<lparr>db_tokens := x3\<rparr>) = grows b s" "grows b (s\<lparr>db_catalog := x4\<rparr>) = grows b s"
  "grows b (s\<lparr>db_market_slots := x5\<rparr>) = grows b s" "grows b (s\<lparr>db_ticks := x6\<rparr>) = grows b s"
  "grows b (s\<lparr>db_wallets := x7\<rparr>) = grows b s" "grows b (s\<lparr>db_consumptions := x8\<rparr>) = grows b s"
  "grows b (s\<lparr>db_inventory := x9\<rparr>) = grows b s" "grows b (s\<lparr>db_equipment := x10\<rparr>) = grows b s"
  "grows b (s\<lparr>db_listings := x11\<rparr>) = grows b s" "grows b (s\<lparr>db_orders := x12\<rparr>) = grows b s"
  "grows b (s\<lparr>db_payments := x13\<rparr>) = grows b s"
  by (simp_all add: grows_def)

text \<open>What an update may do to a row: keep its identity and bind type, stay out of the market, and go to a free slot if to any.\<close>

definition stack_change :: "db \<Rightarrow> inventory_row \<Rightarrow> inventory_row \<Rightarrow> bool" where
  "stack_change s r r' \<longleftrightarrow> iv_id r' = iv_id r \<and> iv_bind_type r' = iv_bind_type r \<and>
     iv_location r \<noteq> ''LISTED'' \<and> iv_location r' \<noteq> ''LISTED'' \<and> place_ok (places s) (inv_place r) (inv_place r') \<and>
     (\<forall>p. inv_place r' = Some p \<longrightarrow> inv_place r = Some p \<or> 0 \<le> snd (snd p))"

definition equipment_change :: "db \<Rightarrow> equipment_row \<Rightarrow> equipment_row \<Rightarrow> bool" where
  "equipment_change s r r' \<longleftrightarrow> ew_id r' = ew_id r \<and> ew_bind_type r' = ew_bind_type r \<and>
     ew_location r \<noteq> ''LISTED'' \<and> ew_location r' \<noteq> ''LISTED'' \<and> place_ok (places s) (equ_place r) (equ_place r') \<and>
     (\<forall>p. equ_place r' = Some p \<longrightarrow> equ_place r = Some p \<or> 0 \<le> snd (snd p))"

lemma update_inventory_outcome:
  "update_inventory s P f = (if inventory_ok (modify P f (db_inventory s))
     then (s\<lparr>db_inventory := modify P f (db_inventory s)\<rparr>, Inr (length (filter P (db_inventory s))))
     else (s, Inl refused))"
  by (simp add: update_inventory_def put_inventory_def)

lemma update_equipment_outcome:
  "update_equipment s P f = (if equipment_ok (modify P f (db_equipment s))
     then (s\<lparr>db_equipment := modify P f (db_equipment s)\<rparr>, Inr (length (filter P (db_equipment s))))
     else (s, Inl refused))"
  by (simp add: update_equipment_def put_equipment_def)

lemma kept_inventory:
  assumes "kept b s" "inventory_ok rows" "\<forall>r \<in> set rows. iv_id r \<le> db_seq s ''inventory_items''"
    and "distinct (List.map_filter inv_place rows @ List.map_filter equ_place (db_equipment s))"
    and "\<forall>p \<in> set (List.map_filter inv_place rows). 0 \<le> snd (snd p)"
    and "listed_items rows = listed_items (db_inventory s)"
    and "iv_bind_type ` set rows \<subseteq> insert ''BOUND'' (iv_bind_type ` set (db_inventory s))"
  shows "kept b (s\<lparr>db_inventory := rows\<rparr>)"
proof -
  have "binds (s\<lparr>db_inventory := rows\<rparr>) \<subseteq> insert ''BOUND'' (binds s)" using assms(7) by (auto simp: binds_def)
  then show ?thesis using assms(1-6) by (simp add: kept_def apart_from_market_def storage_sound_def places_def) blast
qed

lemma kept_equipment:
  assumes "kept b s" "equipment_ok rows" "\<forall>r \<in> set rows. ew_id r \<le> db_seq s ''equipment_items''"
    and "distinct (List.map_filter inv_place (db_inventory s) @ List.map_filter equ_place rows)"
    and "\<forall>p \<in> set (List.map_filter equ_place rows). 0 \<le> snd (snd p)"
    and "listed_equipment rows = listed_equipment (db_equipment s)"
    and "ew_bind_type ` set rows \<subseteq> insert ''BOUND'' (ew_bind_type ` set (db_equipment s))"
  shows "kept b (s\<lparr>db_equipment := rows\<rparr>)"
proof -
  have "binds (s\<lparr>db_equipment := rows\<rparr>) \<subseteq> insert ''BOUND'' (binds s)" using assms(7) by (auto simp: binds_def)
  then show ?thesis using assms(1-6) by (simp add: kept_def apart_from_market_def storage_sound_def places_def) blast
qed

lemma kept_sound: "kept b s \<Longrightarrow> storage_sound s"
  by (simp add: kept_def)

lemma soundD:
  assumes "storage_sound s"
  shows "inventory_ok (db_inventory s)" "equipment_ok (db_equipment s)"
    "\<And>r. r \<in> set (db_inventory s) \<Longrightarrow> iv_id r \<le> db_seq s ''inventory_items''"
    "\<And>r. r \<in> set (db_equipment s) \<Longrightarrow> ew_id r \<le> db_seq s ''equipment_items''"
    "distinct (List.map_filter inv_place (db_inventory s) @ List.map_filter equ_place (db_equipment s))"
    "\<And>p. p \<in> set (List.map_filter inv_place (db_inventory s)) \<Longrightarrow> 0 \<le> snd (snd p)"
    "\<And>p. p \<in> set (List.map_filter equ_place (db_equipment s)) \<Longrightarrow> 0 \<le> snd (snd p)"
  using assms by (simp_all add: storage_sound_def places_def)

lemma stack_changed:
  assumes "kept b s" "db_inventory s = us @ row # vs" "stack_change s row row'" "inventory_ok (us @ row' # vs)"
  shows "kept b (s\<lparr>db_inventory := us @ row' # vs\<rparr>)"
proof (rule kept_inventory [OF assms(1,4)])
  note sound = soundD [OF kept_sound, OF assms(1), unfolded assms(2)]
  have ok: "place_ok (places s) (inv_place row) (inv_place row')" "iv_id row' = iv_id row" "iv_bind_type row' = iv_bind_type row"
    using assms(3) by (simp_all add: stack_change_def)
  note split = places_update [where xs = "[]" and g = inv_place and us = us and row = row and vs = vs and row' = row'
    and ys = "List.map_filter equ_place (db_equipment s)"]
  show "distinct (List.map_filter inv_place (us @ row' # vs) @ List.map_filter equ_place (db_equipment s))"
    using split(1) sound(5) ok(1) by (simp add: places_def assms(2))
  show "\<forall>r \<in> set (us @ row' # vs). iv_id r \<le> db_seq s ''inventory_items''" using sound(3) ok(2) by auto
  show "\<forall>p \<in> set (List.map_filter inv_place (us @ row' # vs)). 0 \<le> snd (snd p)"
    using sound(6) assms(3) by (fastforce simp: set_map_filter stack_change_def)
  show "listed_items (us @ row' # vs) = listed_items (db_inventory s)"
    using assms(3) by (simp add: listed_items_def assms(2) stack_change_def)
  show "iv_bind_type ` set (us @ row' # vs) \<subseteq> insert ''BOUND'' (iv_bind_type ` set (db_inventory s))"
    using ok(3) by (simp add: assms(2)) blast
qed

lemma equipment_changed:
  assumes "kept b s" "db_equipment s = us @ row # vs" "equipment_change s row row'" "equipment_ok (us @ row' # vs)"
  shows "kept b (s\<lparr>db_equipment := us @ row' # vs\<rparr>)"
proof (rule kept_equipment [OF assms(1,4)])
  note sound = soundD [OF kept_sound, OF assms(1), unfolded assms(2)]
  have ok: "place_ok (places s) (equ_place row) (equ_place row')" "ew_id row' = ew_id row" "ew_bind_type row' = ew_bind_type row"
    using assms(3) by (simp_all add: equipment_change_def)
  note split = places_update [where ys = "[]" and g = equ_place and us = us and row = row and vs = vs and row' = row'
    and xs = "List.map_filter inv_place (db_inventory s)"]
  show "distinct (List.map_filter inv_place (db_inventory s) @ List.map_filter equ_place (us @ row' # vs))"
    using split(1) sound(5) ok(1) by (simp add: places_def assms(2))
  show "\<forall>r \<in> set (us @ row' # vs). ew_id r \<le> db_seq s ''equipment_items''" using sound(4) ok(2) by auto
  show "\<forall>p \<in> set (List.map_filter equ_place (us @ row' # vs)). 0 \<le> snd (snd p)"
    using sound(7) assms(3) by (fastforce simp: set_map_filter equipment_change_def)
  show "listed_equipment (us @ row' # vs) = listed_equipment (db_equipment s)"
    using assms(3) by (simp add: listed_equipment_def assms(2) equipment_change_def)
  show "ew_bind_type ` set (us @ row' # vs) \<subseteq> insert ''BOUND'' (ew_bind_type ` set (db_equipment s))"
    using ok(3) by (simp add: assms(2)) blast
qed

lemma update_inventory_kept:
  assumes s: "kept b s" "grows b s" and one: "one_row P (db_inventory s)"
    and change: "\<And>r. r \<in> set (db_inventory s) \<Longrightarrow> P r \<Longrightarrow> stack_change s r (f r)"
  shows "ends (kept b) b (update_inventory s P f)"
proof -
  have "kept b (s\<lparr>db_inventory := modify P f (db_inventory s)\<rparr>)" if "inventory_ok (modify P f (db_inventory s))"
    using one
  proof (cases rule: modify_one [where f = f])
    case 1
    then show ?thesis using s(1) by simp
  next
    case (2 us row vs)
    then show ?thesis using that stack_changed [OF s(1) 2(1)] change by simp
  qed
  then show ?thesis using s(2) by (simp add: update_inventory_outcome)
qed

lemma update_equipment_kept:
  assumes s: "kept b s" "grows b s" and one: "one_row P (db_equipment s)"
    and change: "\<And>r. r \<in> set (db_equipment s) \<Longrightarrow> P r \<Longrightarrow> equipment_change s r (f r)"
  shows "ends (kept b) b (update_equipment s P f)"
proof -
  have "kept b (s\<lparr>db_equipment := modify P f (db_equipment s)\<rparr>)" if "equipment_ok (modify P f (db_equipment s))"
    using one
  proof (cases rule: modify_one [where f = f])
    case 1
    then show ?thesis using s(1) by simp
  next
    case (2 us row vs)
    then show ?thesis using that equipment_changed [OF s(1) 2(1)] change by simp
  qed
  then show ?thesis using s(2) by (simp add: update_equipment_outcome)
qed

lemma insert_inventory_kept:
  assumes s: "kept b s" "grows b s" and free: "(c, L, k) \<notin> set (places s)" "0 \<le> k" and L: "L \<in> {''BAG'', ''WAREHOUSE''}"
  shows "ends (kept b) b (insert_inventory s c itemID quantity L (Some k) ''BOUND'')"
proof -
  define row where "row = \<lparr>iv_id = db_seq s ''inventory_items'' + 1, iv_character_id = c, iv_item_id = itemID,
    iv_quantity = quantity, iv_location = L, iv_slot = Some k, iv_bind_type = ''BOUND''\<rparr>"
  define s1 where "s1 = s\<lparr>db_seq := (db_seq s)(''inventory_items'' := db_seq s ''inventory_items'' + 1)\<rparr>"
  have place: "inv_place row = Some (c, L, k)" using L by (auto simp: inv_place_def row_def)
  have g: "grows b s1" using s(2) by (auto simp: grows_def s1_def intro: order_trans)
  note sound = soundD [OF kept_sound, OF s(1)]
  have le: "iv_id r \<le> db_seq s ''inventory_items'' + 1" if "r \<in> set (db_inventory s)" for r
    using sound(3) [OF that] by simp
  have s1: "kept b s1"
    using s(1) le by (simp add: kept_unfold s1_def)
  have "kept b (s1\<lparr>db_inventory := db_inventory s @ [row]\<rparr>)" if ok: "inventory_ok (db_inventory s @ [row])"
  proof (rule kept_inventory [OF s1 ok])
    show "\<forall>r \<in> set (db_inventory s @ [row]). iv_id r \<le> db_seq s1 ''inventory_items''"
      using le by (auto simp: s1_def row_def)
    show "distinct (List.map_filter inv_place (db_inventory s @ [row]) @ List.map_filter equ_place (db_equipment s1))"
      using sound(5) free(1) by (auto simp: s1_def map_filter_append map_filter_Cons place places_def)
    show "\<forall>p \<in> set (List.map_filter inv_place (db_inventory s @ [row])). 0 \<le> snd (snd p)"
      using sound(6) free(2) by (auto simp: map_filter_append map_filter_Cons place)
    show "listed_items (db_inventory s @ [row]) = listed_items (db_inventory s1)"
      using L by (auto simp: listed_items_def row_def s1_def)
    show "iv_bind_type ` set (db_inventory s @ [row]) \<subseteq> insert ''BOUND'' (iv_bind_type ` set (db_inventory s1))"
      by (auto simp: s1_def row_def)
  qed
  then show ?thesis using g
    by (simp add: insert_inventory_def nextval_def put_inventory_def row_def [symmetric] s1_def [symmetric] grows_def)
      (simp add: s1_def)
qed

lemma insert_equipment_kept:
  assumes s: "kept b s" "grows b s" and free: "(c, ''BAG'', k) \<notin> set (places s)" "0 \<le> k"
  shows "ends (kept b) b (insert_equipment s uid a c itemID ''IN_BAG'' (Some k) rarity affixes)"
proof -
  define row where "row = \<lparr>ew_id = db_seq s ''equipment_items'' + 1, ew_equipment_uid = uid, ew_account_id = a,
    ew_character_id = Some c, ew_item_id = itemID, ew_location = ''IN_BAG'', ew_slot = Some k, ew_equip_slot = None,
    ew_rarity = rarity, ew_enhance_level = 0, ew_durability = Some 100, ew_max_durability = Some 100,
    ew_affixes = affixes, ew_bind_type = ''BOUND'', ew_npc_recycle_expires_at = None\<rparr>"
  define s1 where "s1 = s\<lparr>db_seq := (db_seq s)(''equipment_items'' := db_seq s ''equipment_items'' + 1)\<rparr>"
  have place: "equ_place row = Some (c, ''BAG'', k)" by (simp add: equ_place_def row_def)
  have g: "grows b s1" using s(2) by (auto simp: grows_def s1_def intro: order_trans)
  note sound = soundD [OF kept_sound, OF s(1)]
  have le: "ew_id r \<le> db_seq s ''equipment_items'' + 1" if "r \<in> set (db_equipment s)" for r
    using sound(4) [OF that] by simp
  have s1: "kept b s1"
    using s(1) le by (simp add: kept_unfold s1_def)
  have "kept b (s1\<lparr>db_equipment := db_equipment s @ [row]\<rparr>)" if ok: "equipment_ok (db_equipment s @ [row])"
  proof (rule kept_equipment [OF s1 ok])
    show "\<forall>r \<in> set (db_equipment s @ [row]). ew_id r \<le> db_seq s1 ''equipment_items''"
      using le by (auto simp: s1_def row_def)
    show "distinct (List.map_filter inv_place (db_inventory s1) @ List.map_filter equ_place (db_equipment s @ [row]))"
      using sound(5) free(1) by (auto simp: s1_def map_filter_append map_filter_Cons place places_def)
    show "\<forall>p \<in> set (List.map_filter equ_place (db_equipment s @ [row])). 0 \<le> snd (snd p)"
      using sound(7) free(2) by (auto simp: map_filter_append map_filter_Cons place)
    show "listed_equipment (db_equipment s @ [row]) = listed_equipment (db_equipment s1)"
      by (simp add: listed_equipment_def row_def s1_def)
    show "ew_bind_type ` set (db_equipment s @ [row]) \<subseteq> insert ''BOUND'' (ew_bind_type ` set (db_equipment s1))"
      by (auto simp: s1_def row_def)
  qed
  then show ?thesis using g
    by (simp add: insert_equipment_def nextval_def put_equipment_def row_def [symmetric] s1_def [symmetric] grows_def)
      (simp add: s1_def)
qed

section \<open>The steps that operations share\<close>

lemma ids_one_row:
  assumes "kept b s"
  shows "one_row (\<lambda>r. iv_id r = n) (db_inventory s)" "one_row (\<lambda>r. ew_id r = m) (db_equipment s)"
    "one_row (\<lambda>r. ew_id r = m \<and> Q r) (db_equipment s)" "one_row (owned_at a c uid L) (db_equipment s)"
proof -
  have ok: "inventory_ok (db_inventory s)" "equipment_ok (db_equipment s)" using assms by (simp_all add: kept_def storage_sound_def)
  show "one_row (\<lambda>r. iv_id r = n) (db_inventory s)" using ok by (intro one_row_key [of iv_id]) (auto simp: inventory_ok_def)
  show "one_row (\<lambda>r. ew_id r = m) (db_equipment s)" "one_row (\<lambda>r. ew_id r = m \<and> Q r) (db_equipment s)"
    using ok by (intro one_row_key [of ew_id]; auto simp: equipment_ok_def)+
  show "one_row (owned_at a c uid L) (db_equipment s)"
    using ok by (intro one_row_key [of ew_equipment_uid]) (auto simp: equipment_ok_def owned_at_def)
qed

lemma lockCharacter_kept: "kept b s \<Longrightarrow> grows b s \<Longrightarrow> ends (kept b) b (lockCharacter s a c)"
  by (simp add: lockCharacter_def ends_result)

lemma insertEconomyLedger_kept: "kept b s \<Longrightarrow> grows b s \<Longrightarrow> ends (kept b) b (insertEconomyLedger s a c k r n op)"
  by (simp add: insertEconomyLedger_def)

lemma economySnapshot_kept: "kept b s \<Longrightarrow> grows b s \<Longrightarrow> ends (kept b) b (economySnapshot G s a c)"
  by (simp add: economySnapshot_def ensure_token_def Let_def split: option.split)

lemma ensureItemCatalog_kept: "kept b s \<Longrightarrow> grows b s \<Longrightarrow> ends (kept b) b (ensureItemCatalog s i c r f)"
  by (simp add: ensureItemCatalog_def Let_def)

lemma find_SomeD: "List.find P xs = Some x \<Longrightarrow> x \<in> set xs \<and> P x"
  by (auto simp: find_Some_iff)

text \<open>The slot that \<open>resolveStorageSlot\<close> chose, in the chain that goes on with it.\<close>

lemma ends_resolve:
  assumes "kept b s" "grows b s" "L \<in> {''BAG'', ''WAREHOUSE''}"
    and "\<And>k. (c, L, k) \<notin> set (places s) \<Longrightarrow> 0 \<le> k \<Longrightarrow> ends J b (f s k)"
  shows "ends J b (then_do (s, resolveStorageSlot s c L n) f)"
  using assms(2-4) by (cases "resolveStorageSlot s c L n") (auto dest: resolveStorageSlot_free)

lemma stack_change_quantity:
  "iv_location r \<noteq> ''LISTED'' \<Longrightarrow> stack_change s r (r\<lparr>iv_quantity := q\<rparr>)"
  by (simp add: stack_change_def place_ok_def inv_place_def)

lemma stack_change_gone:
  "iv_location r \<noteq> ''LISTED'' \<Longrightarrow> L \<noteq> ''LISTED'' \<Longrightarrow> stack_change s r (r\<lparr>iv_location := L, iv_slot := None\<rparr>)"
  by (simp add: stack_change_def place_ok_def inv_place_def)

lemma stack_change_move:
  "iv_location r \<noteq> ''LISTED'' \<Longrightarrow> L \<in> {''BAG'', ''WAREHOUSE''} \<Longrightarrow> (iv_character_id r, L, k) \<notin> set (places s) \<Longrightarrow> 0 \<le> k \<Longrightarrow>
   stack_change s r (r\<lparr>iv_location := L, iv_slot := Some k\<rparr>)"
  by (auto simp: stack_change_def place_ok_def inv_place_def)

lemma equipment_change_move:
  assumes "ew_location r \<noteq> ''LISTED''" "ew_character_id r = Some c" "(c, L, k) \<notin> set (places s)" "0 \<le> k"
    "(L', L) \<in> {(''IN_BAG'', ''BAG''), (''IN_WAREHOUSE'', ''WAREHOUSE'')}"
  shows "equipment_change s r (r\<lparr>ew_location := L', ew_slot := Some k\<rparr>)"
  using assms by (auto simp: equipment_change_def place_ok_def equ_place_def)

lemma equipment_change_gone:
  "ew_location r \<noteq> ''LISTED'' \<Longrightarrow> L \<notin> {''LISTED'', ''IN_BAG'', ''IN_WAREHOUSE''} \<Longrightarrow>
   equipment_change s r (r\<lparr>ew_location := L\<rparr>)"
  "ew_location r \<noteq> ''LISTED'' \<Longrightarrow> L \<noteq> ''LISTED'' \<Longrightarrow>
   equipment_change s r (r\<lparr>ew_location := L, ew_slot := None, ew_equip_slot := e\<rparr>)"
  "ew_location r \<noteq> ''LISTED'' \<Longrightarrow> L \<noteq> ''LISTED'' \<Longrightarrow> equipment_change s r (r\<lparr>ew_location := L, ew_slot := None\<rparr>)"
  by (auto simp: equipment_change_def place_ok_def equ_place_def split: option.split)

lemma places_unchanged:
  assumes "update_inventory s P f = (t, Inr n)" "\<And>r. inv_place (f r) = inv_place r"
  shows "places t = places s"
proof -
  have "List.map_filter inv_place (modify P f rows) = List.map_filter inv_place rows" for rows
    using assms(2) by (induction rows) (simp_all add: modify_def map_filter_Cons split: option.split)
  then show ?thesis using assms(1) by (auto simp: update_inventory_outcome places_def split: if_splits)
qed

text \<open>The statements that operations run on the one stack they have read.\<close>

lemma stack_update_kept:
  assumes "kept b s" "grows b s" "row \<in> set (db_inventory s)" "stack_change s row (f row)"
  shows "ends (kept b) b (update_inventory s (\<lambda>r. iv_id r = iv_id row) f)"
  using assms(1,2) ids_one_row(1) [OF assms(1)]
proof (rule update_inventory_kept)
  fix r assume "r \<in> set (db_inventory s)" "iv_id r = iv_id row"
  then have "r = row"
    using assms(1,3) by (auto simp: kept_def storage_sound_def inventory_ok_def distinct_map inj_on_def)
  with assms(4) show "stack_change s r (f r)" by simp
qed

section \<open>Item operations\<close>

lemma moveInventory_kept:
  assumes "kept b s" "grows b s" "from \<in> {''BAG'', ''WAREHOUSE''}" "to \<in> {''BAG'', ''WAREHOUSE''}"
  shows "ends (kept b) b (moveInventory s req from to kind)"
proof (cases "List.find (row_at (eac_CharacterID req) from (eac_SlotIndex req)) (db_inventory s)")
  case None
  then show ?thesis using assms by (simp add: moveInventory_def)
next
  case (Some row)
  have row: "row \<in> set (db_inventory s)" "iv_character_id row = eac_CharacterID req" "iv_location row \<noteq> ''LISTED''"
    using find_SomeD [OF Some] assms(3) by (auto simp: row_at_def)
  let ?less = "update_inventory s (\<lambda>r. iv_id r = iv_id row) (\<lambda>r. r\<lparr>iv_quantity := iv_quantity r - eac_Quantity req\<rparr>)"
  have same: "places t = places s" if "?less = (t, Inr n)" for t n
    by (rule places_unchanged [OF that]) (simp add: inv_place_def)
  have less: "ends (kept b) b ?less"
    using assms(1,2) row(1,3) by (intro stack_update_kept stack_change_quantity)
  show ?thesis
    unfolding moveInventory_def Some option.case
  proof (intro ends_if ends_resolve ends_then_do [OF _ insertEconomyLedger_kept])
    fix k assume free: "(eac_CharacterID req, to, k) \<notin> set (places s)" "0 \<le> k"
    show "ends (kept b) b (update_inventory s (\<lambda>r. iv_id r = iv_id row) (\<lambda>r. r\<lparr>iv_location := to, iv_slot := Some k\<rparr>))"
      using assms row free by (intro stack_update_kept stack_change_move) simp_all
    show "ends (kept b) b (then_do ?less (\<lambda>s n.
        then_do (insert_inventory s (eac_CharacterID req) (iv_item_id row) (eac_Quantity req) to (Some k) ''BOUND'')
          (\<lambda>s _. (s, Inr n))))"
      using free assms(4) by (intro ends_then_do [OF less] ends_then_do [OF insert_inventory_kept]) (auto dest: same)
  qed (use assms in auto)
qed

text \<open>Moving a piece of equipment that is not in the market's hands to a slot.\<close>

lemma equipment_to_slot_kept:
  assumes "kept b s" "grows b s" "(c, L, k) \<notin> set (places s)" "0 \<le> k"
    and "(L', L) \<in> {(''IN_BAG'', ''BAG''), (''IN_WAREHOUSE'', ''WAREHOUSE'')}"
    and "one_row P (db_equipment s)" "\<And>r. r \<in> set (db_equipment s) \<Longrightarrow> P r \<Longrightarrow> ew_character_id r = Some c \<and> ew_location r \<noteq> ''LISTED''"
  shows "ends (kept b) b (update_equipment s P (\<lambda>r. r\<lparr>ew_location := L', ew_slot := Some k\<rparr>))"
  using assms(1,2,6) by (rule update_equipment_kept) (use assms in \<open>blast intro: equipment_change_move\<close>)

text \<open>The operations that run as an economy action: what the action keeps, the operation keeps.\<close>

definition warehouse_run :: "EconomyActionRequest \<Rightarrow> string \<times> string \<times> string \<times> string \<Rightarrow> string \<Rightarrow> string \<Rightarrow> db \<Rightarrow> unit tx" where
  "warehouse_run req k kind kind' s = (case k of (from, to, from', to') \<Rightarrow>
     then_do (lockCharacter s (eac_AccountID req) (eac_CharacterID req)) (\<lambda>s _.
     if TrimSpace (eac_EquipmentUID req) \<noteq> []
     then
       then_do (s, resolveStorageSlot s (eac_CharacterID req) to (eac_SlotIndex req)) (\<lambda>s targetSlot.
       then_do (or_fail (update_equipment s
         (owned_at (eac_AccountID req) (eac_CharacterID req) (TrimSpace (eac_EquipmentUID req)) from')
         (\<lambda>r. r\<lparr>ew_location := to', ew_slot := Some targetSlot\<rparr>)) ErrForbidden) (\<lambda>s _.
       insertEconomyLedger s (eac_AccountID req) (eac_CharacterID req) kind ''equipment'' 1 (eac_OpID req)))
     else moveInventory s req from to kind'))"

lemma warehouse_run_kept:
  assumes "kept b s" "grows b s" "k \<in> {(''BAG'', ''WAREHOUSE'', ''IN_BAG'', ''IN_WAREHOUSE''), (''WAREHOUSE'', ''BAG'', ''IN_WAREHOUSE'', ''IN_BAG'')}"
  shows "ends (kept b) b (warehouse_run req k kind kind' s)"
proof -
  obtain L L' M M' where k: "k = (L, L', M, M')" by (cases k) auto
  have move: "ends (kept b) b (or_fail (update_equipment t (owned_at (eac_AccountID req) (eac_CharacterID req)
      (TrimSpace (eac_EquipmentUID req)) M) (\<lambda>r. r\<lparr>ew_location := M', ew_slot := Some n\<rparr>)) ErrForbidden)"
    if "kept b t" "grows b t" "(eac_CharacterID req, L', n) \<notin> set (places t)" "0 \<le> n" for t n
    by (intro ends_or_fail equipment_to_slot_kept [OF that]) (use assms(3) k ids_one_row [OF that(1)] in \<open>auto simp: owned_at_def\<close>)
  show ?thesis
    unfolding warehouse_run_def k prod.case
    by (intro ends_then_do [OF lockCharacter_kept] ends_if ends_resolve ends_then_do [OF move insertEconomyLedger_kept]
        moveInventory_kept)
      (use assms k in auto)
qed

text \<open>What was not in the market's hands before a transaction's step is not after it.\<close>

lemma still_unlisted:
  assumes "kept b s" "kept b t"
  shows "\<And>r row. r \<in> set (db_equipment t) \<Longrightarrow> row \<in> set (db_equipment s) \<Longrightarrow> ew_id r = ew_id row \<Longrightarrow>
      ew_location row \<noteq> ''LISTED'' \<Longrightarrow> ew_location r \<noteq> ''LISTED''"
    and "\<And>r row. r \<in> set (db_inventory t) \<Longrightarrow> row \<in> set (db_inventory s) \<Longrightarrow> iv_id r = iv_id row \<Longrightarrow>
      iv_location row \<noteq> ''LISTED'' \<Longrightarrow> iv_location r \<noteq> ''LISTED''"
proof -
  have same: "listed_equipment (db_equipment t) = listed_equipment (db_equipment s)"
      "listed_items (db_inventory t) = listed_items (db_inventory s)"
    and ok: "inventory_ok (db_inventory s)" "equipment_ok (db_equipment s)"
    using assms by (simp_all add: kept_def apart_from_market_def storage_sound_def)
  show "ew_location r \<noteq> ''LISTED''" if "r \<in> set (db_equipment t)" "row \<in> set (db_equipment s)" "ew_id r = ew_id row"
      "ew_location row \<noteq> ''LISTED''" for r row
  proof
    assume "ew_location r = ''LISTED''"
    then have "r \<in> set (listed_equipment (db_equipment t))" using that(1) by (simp add: listed_equipment_def)
    then have "r \<in> set (listed_equipment (db_equipment s))" by (simp add: same)
    then show False using that ok(2) \<open>ew_location r = _\<close>
      by (auto simp: listed_equipment_def equipment_ok_def distinct_map inj_on_def)
  qed
  show "iv_location r \<noteq> ''LISTED''" if "r \<in> set (db_inventory t)" "row \<in> set (db_inventory s)" "iv_id r = iv_id row"
      "iv_location row \<noteq> ''LISTED''" for r row
  proof
    assume "iv_location r = ''LISTED''"
    then have "r \<in> set (listed_items (db_inventory t))" using that(1) by (simp add: listed_items_def)
    then have "r \<in> set (listed_items (db_inventory s))" by (simp add: same)
    then show False using that ok(1) \<open>iv_location r = _\<close>
      by (auto simp: listed_items_def inventory_ok_def distinct_map inj_on_def)
  qed
qed

definition wearer :: "db \<Rightarrow> int \<Rightarrow> int \<Rightarrow> bool" where
  "wearer s c n \<longleftrightarrow> (\<forall>r \<in> set (db_equipment s). ew_id r = n \<longrightarrow> ew_character_id r = Some c \<and> ew_location r \<noteq> ''LISTED'')"

lemma put_back_kept:
  "kept b s \<Longrightarrow> grows b s \<Longrightarrow> \<forall>n \<in> set ns. wearer s c n \<Longrightarrow> ends (kept b) b (put_back s c ns)"
proof (induction ns arbitrary: s)
  case (Cons n ns)
  let ?f = "\<lambda>k r. r\<lparr>ew_location := ''IN_BAG'', ew_slot := Some k\<rparr>"
  have still: "\<forall>n \<in> set ns. wearer t c n" if "update_equipment s (\<lambda>r. ew_id r = n) (?f k) = (t, Inr m)" for t k m
    using that Cons.prems(3)
    by (auto simp: update_equipment_outcome wearer_def modify_def split: if_splits)
  have move: "ends (kept b) b (update_equipment s (\<lambda>r. ew_id r = n) (?f k))"
    if "(c, ''BAG'', k) \<notin> set (places s)" "0 \<le> k" for k
    by (rule equipment_to_slot_kept [OF Cons.prems(1,2) that])
      (use Cons.prems(3) ids_one_row [OF Cons.prems(1)] in \<open>auto simp: wearer_def\<close>)
  show ?case
    unfolding put_back.simps
    by (intro ends_resolve ends_then_do [OF move] Cons.IH) (use Cons.prems still in auto)
qed simp

lemma addInventoryItemToStorage_kept:
  assumes "kept b s" "grows b s" "TrimSpace L \<in> {''BAG'', ''WAREHOUSE''}"
  shows "ends (kept b) b (addInventoryItemToStorage s c L i q)"
proof -
  have row: "row \<in> set (db_inventory s) \<and> iv_location row \<noteq> ''LISTED''"
    if "stack_row s c (TrimSpace L) j = Some row" for row j
  proof -
    have "row \<in> set (by_slot iv_slot iv_id (filter (\<lambda>r. iv_character_id r = c \<and> iv_location r = TrimSpace L \<and>
        iv_item_id r = j \<and> iv_bind_type r = ''BOUND'') (db_inventory s)))"
      using that by (auto simp: stack_row_def split: list.splits)
    then show ?thesis using assms(3) by (auto simp: by_slot_def)
  qed
  have more: "ends (kept b) b (update_inventory s (\<lambda>r. iv_id r = iv_id row) (\<lambda>r. r\<lparr>iv_quantity := iv_quantity r + q\<rparr>))"
    if "stack_row s c (TrimSpace L) j = Some row" for row j
    using row [OF that] assms by (intro stack_update_kept stack_change_quantity) auto
  show ?thesis
    unfolding addInventoryItemToStorage_def Let_def
  proof (intro ends_if)
    let ?i = "TrimSpace i"
    let ?found = "if case db_catalog s ?i of None \<Rightarrow> False | Some row \<Rightarrow> ic_stackable row
      then stack_row s c (TrimSpace L) ?i else None"
    show "ends (kept b) b (case ?found of
        None \<Rightarrow> then_do (s, resolveStorageSlot s c (TrimSpace L) (- 1)) (\<lambda>s targetSlot.
          then_do (insert_inventory s c ?i q (TrimSpace L) (Some targetSlot) ''BOUND'') (\<lambda>s n.
          (s, Inr \<lparr>it_ID = n, it_ItemID = ?i, it_Quantity = q, it_Slot = targetSlot, it_Durability = 0, it_EnhanceLevel = 0\<rparr>)))
      | Some row \<Rightarrow> then_do (update_inventory s (\<lambda>r. iv_id r = iv_id row) (\<lambda>r. r\<lparr>iv_quantity := iv_quantity r + q\<rparr>))
          (\<lambda>s _. (s, Inr (item_of (row\<lparr>iv_quantity := q\<rparr>)))))"
    proof (cases ?found)
      case None
      show ?thesis unfolding None option.case
        by (intro ends_resolve ends_then_do [OF insert_inventory_kept]) (use assms in auto)
    next
      case (Some row)
      show ?thesis unfolding Some option.case
        by (intro ends_then_do [OF more]) (use Some in \<open>auto split: if_splits\<close>)
    qed
  qed (use assms in auto)
qed

lemma consume_stacks_kept:
  "kept b s \<Longrightarrow> grows b s \<Longrightarrow> kept b s0 \<Longrightarrow> \<forall>row \<in> set rows. row \<in> set (db_inventory s0) \<and> iv_location row = ''BAG'' \<Longrightarrow>
   ends (kept b) b (consume_stacks s n rows)"
proof (induction rows arbitrary: s n)
  case (Cons row rows)
  have "iv_location r \<noteq> ''LISTED''" if "r \<in> set (db_inventory s)" "iv_id r = iv_id row" for r
    using still_unlisted(2) [OF Cons.prems(3,1) that(1) _ that(2)] Cons.prems(4) by simp
  then have change: "ends (kept b) b (update_inventory s (\<lambda>r. iv_id r = iv_id row) (\<lambda>r. r\<lparr>iv_location := ''CONSUMED'', iv_slot := None\<rparr>))"
      "ends (kept b) b (update_inventory s (\<lambda>r. iv_id r = iv_id row) (\<lambda>r. r\<lparr>iv_quantity := iv_quantity r - m\<rparr>))" for m
    using Cons.prems(1,2) by (intro update_inventory_kept ids_one_row stack_change_gone stack_change_quantity; simp)+
  show ?case
    unfolding consume_stacks.simps Let_def
    by (intro ends_if ends_then_do [where I = "kept b"] Cons.IH change) (use Cons.prems in auto)
qed simp

lemma consumeBagItem_kept:
  assumes "kept b s" "grows b s"
  shows "ends (kept b) b (consumeBagItem s c i q)"
  unfolding consumeBagItem_def
  by (intro ends_if ends_then_do [OF consume_stacks_kept] ends_result) (use assms in \<open>auto simp: by_slot_def\<close>)

lemma trim_bag [simp]: "TrimSpace ''BAG'' = ''BAG''"
  by code_simp

lemma claimLootRow_kept:
  assumes "kept b s" "grows b s"
  shows "ends (kept b) b (claimLootRow G s req n)"
proof (cases "List.find (pending_row req n) (db_loot s)")
  case None
  then show ?thesis using assms by (simp add: claimLootRow_def)
next
  case (Some row)
  have move: "ends (kept b) b (or_fail (update_equipment s (\<lambda>r. ew_id r = m \<and> ew_account_id r = lac_AccountID req \<and>
      ew_character_id r = Some (lac_CharacterID req) \<and> ew_location r = ''IN_LOOT_TRAY'')
      (\<lambda>r. r\<lparr>ew_location := ''IN_BAG'', ew_slot := Some k\<rparr>)) ErrForbidden)"
    if "(lac_CharacterID req, ''BAG'', k) \<notin> set (places s)" "0 \<le> k" for k m
    by (intro ends_or_fail equipment_to_slot_kept [OF assms that]) (use ids_one_row [OF assms(1)] in auto)
  show ?thesis
    unfolding claimLootRow_def Some option.case Let_def
    by (cases "lt_equipment_id row", simp_all only: option.case)
      (intro ends_if ends_resolve ends_then_do [OF move insertEconomyLedger_kept]
        ends_then_do [OF addInventoryItemToStorage_kept insertEconomyLedger_kept]; use assms in simp)+
qed

lemma claim_all_kept: "kept b s \<Longrightarrow> grows b s \<Longrightarrow> ends (kept b) b (claim_all G s req ns)"
proof (induction ns arbitrary: s)
  case (Cons n ns)
  show ?case
    unfolding claim_all.simps by (intro ends_then_do [OF claimLootRow_kept] Cons.IH) (use Cons.prems in auto)
qed simp

lemma discard_loot_kept:
  assumes "kept b s" "grows b s"
  shows "ends (kept b) b (update_equipment s (\<lambda>r. ew_id r = m \<and> ew_account_id r = lac_AccountID req \<and>
      ew_character_id r = Some (lac_CharacterID req) \<and> ew_location r = ''IN_LOOT_TRAY'') (\<lambda>r. r\<lparr>ew_location := ''DELETED''\<rparr>))"
  by (intro update_equipment_kept ids_one_row(3) [OF assms(1)] assms equipment_change_gone) auto

section \<open>Operations as a whole\<close>

text \<open>
  An operation changes nothing but sequences and clocks, or it runs its body to the end and stores the
  answer under an operation identifier that had none.
\<close>

definition same_tables :: "db \<Rightarrow> db \<Rightarrow> bool" where
  "same_tables s t \<longleftrightarrow> t = s\<lparr>db_seq := db_seq t, db_ticks := db_ticks t, db_txnow := db_txnow t\<rparr> \<and> grows s t"

lemma runIdempotentAction_cases:
  assumes "grows s (fst (run (begin_tx s)))"
  obtains (unchanged) "same_tables s (fst (runIdempotentAction G wrap unwrap scope op a c req run s))"
  | (ran) t x where "run (begin_tx s) = (t, Inr x)" "db_idempotency s (TrimSpace op) = None" "TrimSpace op \<noteq> []"
      "runIdempotentAction G wrap unwrap scope op a c req run s =
        (t\<lparr>db_idempotency := (db_idempotency t)(TrimSpace op \<mapsto> \<lparr>ik_scope = scope, ik_account_id = a, ik_character_id = c,
           ik_request_hash = pg_hash G req, ik_response = wrap x\<rparr>)\<rparr>, Inr x)"
proof (cases "TrimSpace op = [] \<or> db_idempotency s (TrimSpace op) \<noteq> None")
  case True
  have "same_tables s s" "same_tables s (begin_tx s)" "same_tables s (rollback s (begin_tx s))"
    by (simp_all add: same_tables_def begin_tx_def rollback_def grows_def)
  moreover have "db_idempotency (begin_tx s) = db_idempotency s" by (simp add: begin_tx_def)
  ultimately show ?thesis
    using True unchanged by (auto simp: runIdempotentAction_def Let_def split: option.splits if_splits)
next
  case False
  then have none: "db_idempotency (begin_tx s) (TrimSpace op) = None" "TrimSpace op \<noteq> []" by (auto simp: begin_tx_def)
  obtain t r where run: "run (begin_tx s) = (t, r)" by fastforce
  show ?thesis
  proof (cases r)
    case (Inl e)
    have "same_tables s (rollback s t)"
      using assms run by (simp add: same_tables_def rollback_def grows_def)
    then show ?thesis using unchanged none run Inl by (simp add: runIdempotentAction_def Let_def)
  next
    case (Inr x)
    show ?thesis
      by (rule ran) (use none run Inr False in \<open>simp_all add: runIdempotentAction_def Let_def\<close>)
  qed
qed

definition body_kept :: "(db \<Rightarrow> 'a tx) \<Rightarrow> bool" where
  "body_kept run \<longleftrightarrow> (\<forall>b s. kept b s \<longrightarrow> grows b s \<longrightarrow> ends (kept b) b (run s))"

lemma body_keptI: "(\<And>b s. kept b s \<Longrightarrow> grows b s \<Longrightarrow> ends (kept b) b (run s)) \<Longrightarrow> body_kept run"
  by (simp add: body_kept_def)

lemma body_keptD: "body_kept run \<Longrightarrow> kept b s \<Longrightarrow> grows b s \<Longrightarrow> ends (kept b) b (run s)"
  by (simp add: body_kept_def)

definition item_op :: "db \<Rightarrow> db \<Rightarrow> bool" where
  "item_op s t \<longleftrightarrow> storage_sound t \<and> apart_from_market s (t\<lparr>db_idempotency := db_idempotency s\<rparr>) \<and>
     db_idempotency s \<subseteq>\<^sub>m db_idempotency t"

lemma same_tables_item_op:
  assumes "same_tables s t" "storage_sound s"
  shows "item_op s t"
proof -
  obtain q n u where t: "t = s\<lparr>db_seq := q, db_ticks := n, db_txnow := u\<rparr>" and q: "\<And>x. db_seq s x \<le> q x"
    using assms(1) unfolding same_tables_def grows_def by metis
  note sound = soundD [OF assms(2)]
  have "iv_id r \<le> q ''inventory_items''" if "r \<in> set (db_inventory s)" for r
    using sound(3) [OF that] q order_trans by blast
  moreover have "ew_id r \<le> q ''equipment_items''" if "r \<in> set (db_equipment s)" for r
    using sound(4) [OF that] q order_trans by blast
  ultimately have "storage_sound t" using assms(2) by (simp add: storage_sound_def t places_def)
  moreover have "apart_from_market s (t\<lparr>db_idempotency := db_idempotency s\<rparr>)"
    by (auto simp: apart_from_market_def t q binds_def)
  ultimately show ?thesis by (simp add: item_op_def t)
qed

lemma storage_sound_clock [simp]: "storage_sound (begin_tx s) = storage_sound s"
  by (simp add: begin_tx_def storage_sound_def places_def)

lemma body_item_op:
  assumes "body_kept run" "storage_sound s"
  shows "item_op s (fst (runIdempotentAction G wrap unwrap scope op a c req run s))"
proof -
  have body: "ends (kept (begin_tx s)) (begin_tx s) (run (begin_tx s))"
    using body_keptD [OF assms(1)] assms(2) by simp
  then have "grows s (fst (run (begin_tx s)))"
    by (simp add: ends_def grows_def begin_tx_def)
  then show ?thesis
  proof (cases rule: runIdempotentAction_cases
      [where G = G and wrap = wrap and unwrap = unwrap and scope = scope and op = op and a = a and c = c and req = req])
    case unchanged
    then show ?thesis using assms(2) by (rule same_tables_item_op)
  next
    case (ran t x)
    have k: "kept (begin_tx s) t" by (rule endsD [OF body ran(1)])
    then have "storage_sound (t\<lparr>db_idempotency := i\<rparr>)" for i
      by (simp add: kept_def storage_sound_def places_def)
    moreover have "apart_from_market s (t\<lparr>db_idempotency := db_idempotency s\<rparr>)" "db_idempotency t = db_idempotency s"
      using k by (simp_all add: kept_def apart_from_market_def begin_tx_def binds_def)
    ultimately show ?thesis using ran by (auto simp: item_op_def map_le_def)
  qed
qed

lemma economy_action_kept:
  assumes "body_kept mutate" "storage_sound s"
  shows "item_op s (fst (runEconomyAction G scope req mutate s))"
  unfolding runEconomyAction_def
  by (intro body_item_op body_keptI ends_then_do [OF body_keptD [OF assms(1)] economySnapshot_kept] assms(2))

lemma loot_action_kept:
  assumes "body_kept run" "storage_sound s"
  shows "item_op s (fst (run_loot G scope req run s))"
  unfolding run_loot_def
  by (intro body_item_op body_keptI ends_then_do [OF lockCharacter_kept] ends_then_do [OF body_keptD [OF assms(1)] economySnapshot_kept] assms(2))

lemma same_row:
  assumes "kept b s"
  shows "\<And>r r'. r \<in> set (db_equipment s) \<Longrightarrow> r' \<in> set (db_equipment s) \<Longrightarrow> ew_id r = ew_id r' \<Longrightarrow> r = r'"
    "\<And>r r'. r \<in> set (db_inventory s) \<Longrightarrow> r' \<in> set (db_inventory s) \<Longrightarrow> iv_id r = iv_id r' \<Longrightarrow> r = r'"
  using assms by (auto simp: kept_def storage_sound_def equipment_ok_def inventory_ok_def distinct_map inj_on_def)

lemma Pg_WarehouseDeposit_kept: "storage_sound s \<Longrightarrow> item_op s (fst (Pg_WarehouseDeposit G req s))"
  unfolding Pg_WarehouseDeposit_def
  by (rule economy_action_kept, rule body_keptI,
    rule warehouse_run_kept [where k = "(''BAG'', ''WAREHOUSE'', ''IN_BAG'', ''IN_WAREHOUSE'')", unfolded warehouse_run_def prod.case])
    simp_all

lemma Pg_WarehouseWithdraw_kept: "storage_sound s \<Longrightarrow> item_op s (fst (Pg_WarehouseWithdraw G req s))"
  unfolding Pg_WarehouseWithdraw_def
  by (rule economy_action_kept, rule body_keptI,
    rule warehouse_run_kept [where k = "(''WAREHOUSE'', ''BAG'', ''IN_WAREHOUSE'', ''IN_BAG'')", unfolded warehouse_run_def prod.case])
    simp_all

lemma Pg_EquipItem_kept: "storage_sound s \<Longrightarrow> item_op s (fst (Pg_EquipItem G req s))"
  unfolding Pg_EquipItem_def
proof (rule economy_action_kept, rule body_keptI, rule ends_then_do [OF lockCharacter_kept], goal_cases)
  case (3 b s0 s u)
  let ?worn = "\<lambda>e r. ew_character_id r = Some (eac_CharacterID req) \<and> ew_location r = ''EQUIPPED'' \<and> ew_equip_slot r = Some e"
  show ?case
  proof (cases "List.find (owned_at (eac_AccountID req) (eac_CharacterID req) (TrimSpace (eac_EquipmentUID req)) ''IN_BAG'') (db_equipment s)")
    case None
    then show ?thesis using 3 by (simp add: Let_def)
  next
    case (Some row)
    have row: "row \<in> set (db_equipment s)" "ew_location row \<noteq> ''LISTED''"
      using find_SomeD [OF Some] by (auto simp: owned_at_def)
    have wear: "wearer s (eac_CharacterID req) n" if "n \<in> set (map ew_id (filter (?worn e) (db_equipment s)))" for n e
    proof -
      obtain r where r: "r \<in> set (db_equipment s)" "?worn e r" "n = ew_id r" using \<open>n \<in> _\<close> by auto
      show ?thesis unfolding wearer_def
      proof (intro ballI impI)
        fix r' assume "r' \<in> set (db_equipment s)" "ew_id r' = n"
        then have "r' = r" using same_row(1) [OF 3(5) _ r(1)] r(3) by simp
        then show "ew_character_id r' = Some (eac_CharacterID req) \<and> ew_location r' \<noteq> ''LISTED''" using r(2) by simp
      qed
    qed
    have equip: "ends (kept b) b (or_fail (update_equipment t (\<lambda>r. ew_id r = ew_id row \<and> ew_character_id r = Some (eac_CharacterID req))
        (\<lambda>r. r\<lparr>ew_location := ''EQUIPPED'', ew_slot := None, ew_equip_slot := Some e\<rparr>)) ErrForbidden)"
      if "kept b t" "grows b t" for t e
      by (intro ends_or_fail update_equipment_kept ids_one_row(3) [OF that(1)] that equipment_change_gone)
        (use still_unlisted(1) [OF 3(5) that(1) _ row(1)] row(2) in auto)
    show ?thesis
      unfolding Let_def Some option.case
      by (intro ends_if ends_then_do [OF put_back_kept] ends_then_do [OF equip insertEconomyLedger_kept]) (use 3 wear in auto)
  qed
qed

lemma worn_one_row:
  assumes "kept b s"
  shows "one_row (\<lambda>r. ew_account_id r = a \<and> ew_character_id r = Some c \<and> ew_equip_slot r = Some e \<and> ew_location r = ''EQUIPPED'')
    (db_equipment s)"
proof -
  have "one_row (\<lambda>r. ew_account_id r = a \<and> ew_character_id r = Some c \<and> ew_equip_slot r = Some e) (filter worn (db_equipment s))"
    by (rule one_row_key [where key = "\<lambda>r. (ew_character_id r, ew_equip_slot r)" and k = "(Some c, Some e)"])
      (use assms in \<open>auto simp: kept_def storage_sound_def equipment_ok_def\<close>)
  moreover have "filter (\<lambda>r. ew_account_id r = a \<and> ew_character_id r = Some c \<and> ew_equip_slot r = Some e)
      (filter worn (db_equipment s)) = filter (\<lambda>r. ew_account_id r = a \<and> ew_character_id r = Some c \<and>
      ew_equip_slot r = Some e \<and> ew_location r = ''EQUIPPED'') (db_equipment s)"
    by (auto simp: worn_def intro: filter_cong)
  ultimately show ?thesis by (simp only: one_row_def)
qed

lemma Pg_UnequipItem_kept: "storage_sound s \<Longrightarrow> item_op s (fst (Pg_UnequipItem G req s))"
  unfolding Pg_UnequipItem_def
proof (rule economy_action_kept, rule body_keptI, rule ends_then_do [OF lockCharacter_kept], goal_cases)
  case (3 b s0 s u)
  let ?P = "if TrimSpace (eac_EquipmentUID req) \<noteq> []
    then owned_at (eac_AccountID req) (eac_CharacterID req) (TrimSpace (eac_EquipmentUID req)) ''EQUIPPED''
    else (\<lambda>r. ew_account_id r = eac_AccountID req \<and> ew_character_id r = Some (eac_CharacterID req) \<and>
      ew_equip_slot r = Some (eac_EquipSlot req) \<and> ew_location r = ''EQUIPPED'')"
  have move: "ends (kept b) b (or_fail (update_equipment s ?P (\<lambda>r. r\<lparr>ew_location := ''IN_BAG'', ew_slot := Some k\<rparr>)) ErrForbidden)"
    if "(eac_CharacterID req, ''BAG'', k) \<notin> set (places s)" "0 \<le> k" for k
    by (intro ends_or_fail equipment_to_slot_kept [OF 3(5,6) that])
      (use ids_one_row(4) [OF 3(5)] worn_one_row [OF 3(5)] in \<open>auto simp: owned_at_def split: if_splits\<close>)
  show ?case
    unfolding Let_def by (intro ends_resolve ends_if ends_then_do [OF move insertEconomyLedger_kept]) (use 3 in auto)
qed

lemma Pg_LootClaim_kept: "storage_sound s \<Longrightarrow> item_op s (fst (Pg_LootClaim G req s))"
  unfolding Pg_LootClaim_def
  by (intro loot_action_kept body_keptI ends_then_do [OF ends_result claimLootRow_kept])

lemma Pg_LootClaimAll_kept: "storage_sound s \<Longrightarrow> item_op s (fst (Pg_LootClaimAll G req s))"
  unfolding Pg_LootClaimAll_def by (intro loot_action_kept body_keptI claim_all_kept)

lemma Pg_LootDiscard_kept: "storage_sound s \<Longrightarrow> item_op s (fst (Pg_LootDiscard G req s))"
  unfolding Pg_LootDiscard_def
proof (rule loot_action_kept, rule body_keptI, rule ends_then_do [where I = "kept b" for b, OF ends_result], assumption, assumption, goal_cases)
  case (1 b s0 s n)
  have gone: "ends (kept b) b (case e of None \<Rightarrow> (s, Inr 0)
      | Some m \<Rightarrow> update_equipment s (\<lambda>r. ew_id r = m \<and> ew_account_id r = lac_AccountID req \<and>
          ew_character_id r = Some (lac_CharacterID req) \<and> ew_location r = ''IN_LOOT_TRAY'') (\<lambda>r. r\<lparr>ew_location := ''DELETED''\<rparr>))" for e
    using discard_loot_kept [OF 1(5,6)] 1(5,6) by (cases e) simp_all
  show ?case
  proof (cases "List.find (pending_row req n) (db_loot s)")
    case None
    then show ?thesis using 1 by simp
  next
    case (Some row)
    show ?thesis unfolding Some option.case(2) by (intro ends_then_do [OF gone insertEconomyLedger_kept]) simp_all
  qed
qed simp_all

lemma Pg_InventoryDiscard_kept: "storage_sound s \<Longrightarrow> item_op s (fst (Pg_InventoryDiscard G req s))"
  unfolding Pg_InventoryDiscard_def
proof (rule body_item_op, rule body_keptI, rule ends_then_do [OF lockCharacter_kept], goal_cases)
  case (3 b s0 s u)
  note snap = ends_then_do [OF insertEconomyLedger_kept economySnapshot_kept]
  have equipment: "ends (kept b) b (or_fail (update_equipment s (owned_at a c uid ''IN_BAG'')
      (\<lambda>r. r\<lparr>ew_location := ''DELETED'', ew_slot := None\<rparr>)) ErrForbidden)" for a c uid
    by (intro ends_or_fail update_equipment_kept 3(5,6) ids_one_row(4) [OF 3(5)] equipment_change_gone) (auto simp: owned_at_def)
  show ?case
  proof (cases "List.find (row_at (idr_CharacterID req) ''BAG'' (idr_SlotIndex req)) (db_inventory s)")
    case None
    then show ?thesis unfolding Let_def None option.case
      by (intro ends_if ends_then_do [OF equipment snap]) (use 3 in auto)
  next
    case (Some row)
    then have row: "row \<in> set (db_inventory s)" "iv_location row \<noteq> ''LISTED''"
      using find_SomeD [OF Some] by (auto simp: row_at_def)
    have stack: "ends (kept b) b (update_inventory s (\<lambda>r. iv_id r = iv_id row) (\<lambda>r. r\<lparr>iv_location := ''DELETED'', iv_slot := None\<rparr>))"
        "ends (kept b) b (update_inventory s (\<lambda>r. iv_id r = iv_id row) (\<lambda>r. r\<lparr>iv_quantity := iv_quantity r - q\<rparr>))" for q
      using row by (intro stack_update_kept 3(5,6) stack_change_gone stack_change_quantity; simp)+
    show ?thesis unfolding Let_def Some option.case
      by (intro ends_if ends_then_do [OF equipment snap] ends_then_do [where I = "kept b", OF _ snap] stack) (use 3 in auto)
  qed
qed

end
