(* ===== verification/OrganizeProps.thy ===== *)
theory OrganizeProps
  imports StorageProps
begin

text \<open>
  Organising a bag or a warehouse (\<open>organizeStorage\<close> of \<open>inventory.go\<close>): the stacks of a storage are merged
  by item and bind type, split into full stacks and stored anew, and everything gets the first slots. Between
  its statements two things may share a slot; at the end no two do, and nothing is lost.
\<close>

section \<open>The statements of the last phase\<close>

fun stack_rows :: "int \<Rightarrow> string \<Rightarrow> int \<Rightarrow> int \<Rightarrow> mergedStack list \<Rightarrow> inventory_row list" where
  "stack_rows c L k n [] = []"
| "stack_rows c L k n (x # xs) =
     \<lparr>iv_id = n + 1, iv_character_id = c, iv_item_id = ms_ItemID x, iv_quantity = ms_Quantity x, iv_location = L,
      iv_slot = Some k, iv_bind_type = ms_BindType x\<rparr> # stack_rows c L (k + 1) (n + 1) xs"

lemma insert_inventory_ok:
  "insert_inventory s c i q L k bind = (t, Inr m) \<longleftrightarrow>
     (let n = db_seq s ''inventory_items'' + 1;
          rows = db_inventory s @ [\<lparr>iv_id = n, iv_character_id = c, iv_item_id = i, iv_quantity = q, iv_location = L,
            iv_slot = k, iv_bind_type = bind\<rparr>]
      in m = n \<and> inventory_ok rows \<and> t = s\<lparr>db_seq := (db_seq s)(''inventory_items'' := n), db_inventory := rows\<rparr>)"
  by (auto simp: insert_inventory_def nextval_def put_inventory_def Let_def)

lemma insert_stacks_ok:
  "insert_stacks s c L k xs = (t, Inr u) \<Longrightarrow> inventory_ok (db_inventory s) \<Longrightarrow>
   t = s\<lparr>db_inventory := db_inventory s @ stack_rows c L k (db_seq s ''inventory_items'') xs,
     db_seq := (db_seq s)(''inventory_items'' := db_seq s ''inventory_items'' + int (length xs))\<rparr> \<and>
   inventory_ok (db_inventory t)"
proof (induction xs arbitrary: s k)
  case (Cons x xs)
  obtain s1 m where ins: "insert_inventory s c (ms_ItemID x) (ms_Quantity x) L (Some k) (ms_BindType x) = (s1, Inr m)"
    and rest: "insert_stacks s1 c L (k + 1) xs = (t, Inr u)"
    using Cons.prems(1) by (auto simp: then_do_ok)
  define row where "row = \<lparr>iv_id = db_seq s ''inventory_items'' + 1, iv_character_id = c, iv_item_id = ms_ItemID x,
    iv_quantity = ms_Quantity x, iv_location = L, iv_slot = Some k, iv_bind_type = ms_BindType x\<rparr>"
  have s1: "inventory_ok (db_inventory s1)" "s1 = s\<lparr>db_seq := (db_seq s)(''inventory_items'' := db_seq s ''inventory_items'' + 1),
      db_inventory := db_inventory s @ [row]\<rparr>"
    using ins unfolding insert_inventory_ok Let_def by (simp_all add: row_def)
  have "(db_seq s1)(''inventory_items'' := db_seq s1 ''inventory_items'' + int (length xs)) =
      (db_seq s)(''inventory_items'' := db_seq s ''inventory_items'' + int (length (x # xs)))"
    by (simp add: s1(2) add.assoc)
  moreover have "db_inventory s1 @ stack_rows c L (k + 1) (db_seq s1 ''inventory_items'') xs =
      db_inventory s @ stack_rows c L k (db_seq s ''inventory_items'') (x # xs)"
    by (simp add: s1(2) row_def)
  moreover have "s1\<lparr>db_inventory := i, db_seq := q\<rparr> = s\<lparr>db_inventory := i, db_seq := q\<rparr>" for i q
    by (simp add: s1(2))
  ultimately show ?case using Cons.IH [OF rest s1(1)] by (simp only:) blast
qed simp

lemma insert_stacks_grows: "grows b s \<Longrightarrow> grows b (fst (insert_stacks s c L k xs))"
proof (induction xs arbitrary: s k)
  case (Cons x xs)
  obtain t r where ins: "insert_inventory s c (ms_ItemID x) (ms_Quantity x) L (Some k) (ms_BindType x) = (t, r)" by fastforce
  then have t: "grows b t"
    using Cons.prems by (auto simp: insert_inventory_def nextval_def put_inventory_def grows_def Let_def split: if_splits
      intro: order_trans)
  show ?case
  proof (cases r)
    case (Inl e)
    then show ?thesis using ins t by simp
  next
    case (Inr m)
    then show ?thesis using ins Cons.IH [OF t] by simp
  qed
qed simp

fun numbered :: "int \<Rightarrow> int list \<Rightarrow> equipment_row \<Rightarrow> equipment_row" where
  "numbered k [] r = r"
| "numbered k (n # ns) r = numbered (k + 1) ns (if ew_id r = n then r\<lparr>ew_slot := Some k\<rparr> else r)"

definition cleared :: "int list \<Rightarrow> equipment_row \<Rightarrow> equipment_row" where
  "cleared ns r = (if ew_id r \<in> set ns then r\<lparr>ew_slot := None\<rparr> else r)"

lemma clear_slots_ok:
  "clear_slots s ns = (t, Inr u) \<Longrightarrow> t = s\<lparr>db_equipment := map (cleared ns) (db_equipment s)\<rparr> \<and>
   (equipment_ok (db_equipment s) \<longrightarrow> equipment_ok (db_equipment t))"
proof (induction ns arbitrary: s)
  case (Cons n ns)
  obtain s1 m where up: "update_equipment s (\<lambda>r. ew_id r = n) (\<lambda>r. r\<lparr>ew_slot := None\<rparr>) = (s1, Inr m)"
    and rest: "clear_slots s1 ns = (t, Inr u)"
    using Cons.prems(1) by (auto simp: then_do_ok)
  from up show ?case using Cons.IH [OF rest]
    by (auto simp: update_equipment_outcome modify_def cleared_def split: if_splits)
qed (simp add: cleared_def map_idI)

lemma number_slots_ok:
  "number_slots s k ns = (t, Inr u) \<Longrightarrow> t = s\<lparr>db_equipment := map (numbered k ns) (db_equipment s)\<rparr> \<and>
   (equipment_ok (db_equipment s) \<longrightarrow> equipment_ok (db_equipment t))"
proof (induction ns arbitrary: s k)
  case (Cons n ns)
  obtain s1 m where up: "update_equipment s (\<lambda>r. ew_id r = n) (\<lambda>r. r\<lparr>ew_slot := Some k\<rparr>) = (s1, Inr m)"
    and rest: "number_slots s1 (k + 1) ns = (t, Inr u)"
    using Cons.prems(1) by (auto simp: then_do_ok)
  from up show ?case using Cons.IH [OF rest]
    by (auto simp: update_equipment_outcome modify_def split: if_splits)
qed (simp add: map_idI)

lemma slots_grow:
  "db_seq (fst (clear_slots s ns)) = db_seq s" "db_seq (fst (number_slots s k ns)) = db_seq s"
  by (induction ns arbitrary: s k) (auto simp: then_do_def update_equipment_outcome split: sum.split)

section \<open>The result\<close>

definition here :: "int \<Rightarrow> string \<Rightarrow> inventory_row \<Rightarrow> bool" where
  "here c L r \<longleftrightarrow> iv_character_id r = c \<and> iv_location r = L"

definition equipment_here :: "int \<Rightarrow> string \<Rightarrow> equipment_row \<Rightarrow> bool" where
  "equipment_here c L r \<longleftrightarrow> ew_character_id r = Some c \<and> Inr (ew_location r) = equipmentStorageLocation L"

definition merged_stacks :: "(mergedStack list \<Rightarrow> mergedStack list) \<Rightarrow> db \<Rightarrow> int \<Rightarrow> string \<Rightarrow> mergedStack list" where
  "merged_stacks arrange s c L =
     arrange (concat (map (merge_group s) (foldl add_group [] (sort_key iv_id (filter (here c L) (db_inventory s))))))"

definition equipment_ids :: "db \<Rightarrow> int \<Rightarrow> string \<Rightarrow> int list" where
  "equipment_ids s c L = sort (map ew_id (filter (equipment_here c L) (db_equipment s)))"

definition organized :: "(mergedStack list \<Rightarrow> mergedStack list) \<Rightarrow> db \<Rightarrow> int \<Rightarrow> string \<Rightarrow> db \<Rightarrow> bool" where
  "organized arrange s c L t \<longleftrightarrow>
     (let merged = merged_stacks arrange s c L; ids = equipment_ids s c L; n = db_seq s ''inventory_items'' in
      t = s\<lparr>db_inventory := filter (\<lambda>r. \<not> here c L r) (db_inventory s) @ stack_rows c L 0 n merged,
        db_seq := (db_seq s)(''inventory_items'' := n + int (length merged)),
        db_equipment := map (\<lambda>r. numbered (int (length merged)) ids (cleared ids r)) (db_equipment s),
        db_ledger := db_ledger t\<rparr> \<and> inventory_ok (db_inventory t) \<and> equipment_ok (db_equipment t))"

lemma inventory_ok_filter: "inventory_ok rows \<Longrightarrow> inventory_ok (filter P rows)"
  by (auto simp: inventory_ok_def distinct_map_filter filter_filter)
    (metis (no_types, lifting) distinct_map_filter filter_filter conj_commute filter_cong)

lemma organizeStorage_eq:
  assumes "L \<in> {''BAG'', ''WAREHOUSE''}"
  obtains e kind where "organizeStorage G arrange s a c L limit op =
    (let needed = int (length (merged_stacks arrange s c L)) + int (length (equipment_ids s c L)) in
     if needed > limit then (s, Inl e)
     else
       then_do (put_inventory s (filter (\<lambda>r. \<not> here c L r) (db_inventory s))) (\<lambda>s1 _.
       then_do (insert_stacks s1 c L 0 (merged_stacks arrange s c L)) (\<lambda>s1 _.
       then_do (clear_slots s1 (equipment_ids s c L)) (\<lambda>s1 _.
       then_do (number_slots s1 (int (length (merged_stacks arrange s c L))) (equipment_ids s c L)) (\<lambda>s1 _.
       insertEconomyLedger s1 a c kind L needed op)))))"
proof -
  obtain E where E: "equipmentStorageLocation L = Inr E" using assms by (auto simp: equipmentStorageLocation_def)
  have fold: "(\<lambda>r. ew_character_id r = Some c \<and> ew_location r = E) = equipment_here c L"
      "(\<lambda>r. iv_character_id r = c \<and> iv_location r = L) = here c L"
    by (simp_all add: equipment_here_def [abs_def] here_def [abs_def] E)
  show ?thesis
    by (rule that)
      (simp only: organizeStorage_def E then_do_simps Let_def fold merged_stacks_def [symmetric] equipment_ids_def [symmetric])
qed

lemma organizeStorage_ok:
  assumes "storage_sound s" "L \<in> {''BAG'', ''WAREHOUSE''}" "organizeStorage G arrange s a c L limit op = (t, Inr u)"
  shows "organized arrange s c L t" "int (length (merged_stacks arrange s c L)) + int (length (equipment_ids s c L)) \<le> limit"
proof -
  let ?m = "merged_stacks arrange s c L" and ?ids = "equipment_ids s c L"
  let ?s1 = "s\<lparr>db_inventory := filter (\<lambda>r. \<not> here c L r) (db_inventory s)\<rparr>"
  have keep: "inventory_ok (filter (\<lambda>r. \<not> here c L r) (db_inventory s))"
    using soundD(1) [OF assms(1)] by (rule inventory_ok_filter)
  obtain e kind where eq: "organizeStorage G arrange s a c L limit op =
    (let needed = int (length ?m) + int (length ?ids) in
     if needed > limit then (s, Inl e)
     else
       then_do (put_inventory s (filter (\<lambda>r. \<not> here c L r) (db_inventory s))) (\<lambda>s1 _.
       then_do (insert_stacks s1 c L 0 ?m) (\<lambda>s1 _.
       then_do (clear_slots s1 ?ids) (\<lambda>s1 _.
       then_do (number_slots s1 (int (length ?m)) ?ids) (\<lambda>s1 _.
       insertEconomyLedger s1 a c kind L needed op)))))"
    by (rule organizeStorage_eq [OF assms(2)])
  show limit: "int (length ?m) + int (length ?ids) \<le> limit"
    using assms(3) by (simp add: eq Let_def split: if_splits)
  obtain s2 u2 s3 u3 s4 u4 where
    run: "insert_stacks ?s1 c L 0 ?m = (s2, Inr u2)" "clear_slots s2 ?ids = (s3, Inr u3)"
      "number_slots s3 (int (length ?m)) ?ids = (s4, Inr u4)" "t = s4\<lparr>db_ledger := db_ledger t\<rparr>"
  proof -
    from assms(3) limit keep have "then_do (insert_stacks ?s1 c L 0 ?m) (\<lambda>s1 _. then_do (clear_slots s1 ?ids) (\<lambda>s1 _.
       then_do (number_slots s1 (int (length ?m)) ?ids) (\<lambda>s1 _.
       insertEconomyLedger s1 a c kind L (int (length ?m) + int (length ?ids)) op))) = (t, Inr u)"
      by (simp add: eq Let_def put_inventory_def)
    then show ?thesis using that by (fastforce simp: then_do_ok insertEconomyLedger_def)
  qed
  note step1 = insert_stacks_ok [OF run(1), simplified, OF keep]
  note step2 = clear_slots_ok [OF run(2)]
  note step3 = number_slots_ok [OF run(3)]
  have "db_equipment s2 = db_equipment s" using step1 by simp
  then have ok: "equipment_ok (db_equipment s4)" using step2 step3 soundD(2) [OF assms(1)] by metis
  have s4: "s4 = s\<lparr>db_inventory := filter (\<lambda>r. \<not> here c L r) (db_inventory s) @ stack_rows c L 0 (db_seq s ''inventory_items'') ?m,
      db_seq := (db_seq s)(''inventory_items'' := db_seq s ''inventory_items'' + int (length ?m)),
      db_equipment := map (\<lambda>r. numbered (int (length ?m)) ?ids (cleared ?ids r)) (db_equipment s)\<rparr>"
    using step1 step2 step3 by (simp add: comp_def)
  have "db_inventory s4 = db_inventory s3" "db_inventory s3 = db_inventory s2"
    by (subst conjunct1 [OF step3], simp) (subst conjunct1 [OF step2], simp)
  then have "inventory_ok (db_inventory s4)" using conjunct2 [OF step1] by (simp only:)
  moreover have "db_inventory t = db_inventory s4" "db_equipment t = db_equipment s4"
    by (subst run(4), simp)+
  moreover note ok
  moreover have "t = s\<lparr>db_inventory := filter (\<lambda>r. \<not> here c L r) (db_inventory s) @ stack_rows c L 0 (db_seq s ''inventory_items'') ?m,
      db_seq := (db_seq s)(''inventory_items'' := db_seq s ''inventory_items'' + int (length ?m)),
      db_equipment := map (\<lambda>r. numbered (int (length ?m)) ?ids (cleared ?ids r)) (db_equipment s), db_ledger := db_ledger t\<rparr>"
    using run(4) unfolding s4 by simp
  ultimately show "organized arrange s c L t" unfolding organized_def Let_def by simp
qed

lemma organizeStorage_ledger:
  assumes "storage_sound s" "L \<in> {''BAG'', ''WAREHOUSE''}" "organizeStorage G arrange s a c L limit op = (t, Inr u)"
  obtains entry where "db_ledger t = db_ledger s @ [entry]" "lg_account_id entry = a" "lg_character_id entry = c"
proof -
  have keep: "inventory_ok (filter (\<lambda>r. \<not> here c L r) (db_inventory s))"
    using soundD(1) [OF assms(1)] by (rule inventory_ok_filter)
  obtain e kind where eq: "organizeStorage G arrange s a c L limit op =
    (let needed = int (length (merged_stacks arrange s c L)) + int (length (equipment_ids s c L)) in
     if needed > limit then (s, Inl e)
     else
       then_do (put_inventory s (filter (\<lambda>r. \<not> here c L r) (db_inventory s))) (\<lambda>s1 _.
       then_do (insert_stacks s1 c L 0 (merged_stacks arrange s c L)) (\<lambda>s1 _.
       then_do (clear_slots s1 (equipment_ids s c L)) (\<lambda>s1 _.
       then_do (number_slots s1 (int (length (merged_stacks arrange s c L))) (equipment_ids s c L)) (\<lambda>s1 _.
       insertEconomyLedger s1 a c kind L needed op)))))"
    by (rule organizeStorage_eq [OF assms(2)])
  let ?s1 = "s\<lparr>db_inventory := filter (\<lambda>r. \<not> here c L r) (db_inventory s)\<rparr>"
  obtain n s2 u2 s3 u3 s4 u4 where run: "insert_stacks ?s1 c L 0 (merged_stacks arrange s c L) = (s2, Inr u2)"
      "clear_slots s2 (equipment_ids s c L) = (s3, Inr u3)"
      "number_slots s3 (int (length (merged_stacks arrange s c L))) (equipment_ids s c L) = (s4, Inr u4)"
      "insertEconomyLedger s4 a c kind L n op = (t, Inr u)"
    using assms(3) keep that unfolding eq
    by (auto simp: Let_def put_inventory_def then_do_ok split: if_splits)
  have "s4 = s3\<lparr>db_equipment := db_equipment s4\<rparr>" "s3 = s2\<lparr>db_equipment := db_equipment s3\<rparr>"
    using number_slots_ok [OF run(3)] clear_slots_ok [OF run(2)] by (auto simp: db.update_convs)
  then have "db_ledger s4 = db_ledger s2" by (metis db.select_convs(18) db.update_convs(6) db.surjective)
  moreover have "db_ledger s2 = db_ledger s"
    using conjunct1 [OF insert_stacks_ok [OF run(1), simplified, OF keep]] by simp
  ultimately have "db_ledger s4 = db_ledger s" by simp
  then show ?thesis using run(4) by (intro that) (auto simp: insertEconomyLedger_def)
qed

lemma organizeStorage_grows:
  assumes "L \<in> {''BAG'', ''WAREHOUSE''}"
  shows "grows s (fst (organizeStorage G arrange s a c L limit op))"
proof -
  have ins: "grows s (fst (insert_stacks s1 c L 0 xs))" if "grows s s1" for s1 xs by (rule insert_stacks_grows [OF that])
  have slots: "grows s (fst (clear_slots s1 ns))" "grows s (fst (number_slots s1 k ns))" if "grows s s1" for s1 k ns
    using that by (simp_all add: grows_def slots_grow)
  show ?thesis
    by (rule organizeStorage_eq [OF assms, where G = G and arrange = arrange and s = s and a = a and c = c and limit = limit and op = op])
      (auto simp: then_do_def Let_def put_inventory_def insertEconomyLedger_def ins slots split: sum.split)
qed

section \<open>One thing per slot\<close>

lemma numbered_same:
  "ew_id (numbered k ns r) = ew_id r" "ew_bind_type (numbered k ns r) = ew_bind_type r"
  "ew_location (numbered k ns r) = ew_location r" "ew_character_id (numbered k ns r) = ew_character_id r"
  "ew_id r \<notin> set ns \<Longrightarrow> numbered k ns r = r"
  by (induction k ns r rule: numbered.induct) auto

lemma cleared_same:
  "ew_id (cleared ns r) = ew_id r" "ew_bind_type (cleared ns r) = ew_bind_type r"
  "ew_location (cleared ns r) = ew_location r" "ew_character_id (cleared ns r) = ew_character_id r"
  "ew_id r \<notin> set ns \<Longrightarrow> cleared ns r = r"
  by (auto simp: cleared_def)

lemma numbered_slot:
  "ew_id r \<in> set ns \<Longrightarrow> \<exists>j. ew_slot (numbered k ns r) = Some j \<and> k \<le> j \<and> j < k + int (length ns)"
proof (induction k ns r rule: numbered.induct)
  case (2 k n ns r)
  show ?case
  proof (cases "ew_id r \<in> set ns")
    case True
    then have "ew_id (if ew_id r = n then r\<lparr>ew_slot := Some k\<rparr> else r) \<in> set ns" by auto
    from 2(1) [OF this] show ?thesis by auto
  next
    case False
    then show ?thesis using 2(2) by (auto simp: numbered_same(5))
  qed
qed simp

lemma stack_rows_facts:
  assumes "r \<in> set (stack_rows c L k n xs)"
  shows "iv_character_id r = c" "iv_location r = L" "n < iv_id r" "iv_id r \<le> n + int (length xs)"
    "\<exists>j. iv_slot r = Some j \<and> k \<le> j \<and> j < k + int (length xs)"
    "\<exists>x \<in> set xs. iv_item_id r = ms_ItemID x \<and> iv_bind_type r = ms_BindType x \<and> iv_quantity r = ms_Quantity x"
proof -
  have "iv_character_id r = c \<and> iv_location r = L \<and> n < iv_id r \<and> iv_id r \<le> n + int (length xs) \<and>
      (\<exists>j. iv_slot r = Some j \<and> k \<le> j \<and> j < k + int (length xs)) \<and>
      (\<exists>x \<in> set xs. iv_item_id r = ms_ItemID x \<and> iv_bind_type r = ms_BindType x \<and> iv_quantity r = ms_Quantity x)"
    using assms
  proof (induction xs arbitrary: k n)
    case (Cons x xs)
    show ?case
    proof (cases "r \<in> set (stack_rows c L (k + 1) (n + 1) xs)")
      case True
      from Cons.IH [OF this] show ?thesis by auto
    next
      case False
      with Cons.prems show ?thesis by auto
    qed
  qed simp
  then show "iv_character_id r = c" "iv_location r = L" "n < iv_id r" "iv_id r \<le> n + int (length xs)"
    "\<exists>j. iv_slot r = Some j \<and> k \<le> j \<and> j < k + int (length xs)"
    "\<exists>x \<in> set xs. iv_item_id r = ms_ItemID x \<and> iv_bind_type r = ms_BindType x \<and> iv_quantity r = ms_Quantity x"
    by blast+
qed

lemma distinct_keys_places:
  assumes "distinct (map key (filter P rows))" "\<And>r p. place r = Some p \<Longrightarrow> P r"
    and "\<And>r r' p. place r = Some p \<Longrightarrow> place r' = Some p \<Longrightarrow> key r = key r'"
  shows "distinct (List.map_filter place rows)"
  using assms(1)
proof (induction rows)
  case (Cons r rows)
  show ?case
  proof (cases "place r")
    case None
    with Cons show ?thesis by (cases "P r") (simp_all add: map_filter_Cons)
  next
    case (Some p)
    then have "P r" by (rule assms(2))
    have "p \<notin> set (List.map_filter place rows)"
    proof
      assume "p \<in> set (List.map_filter place rows)"
      then obtain r' where r': "r' \<in> set rows" "place r' = Some p" by (auto simp: set_map_filter)
      then have "key r' \<in> key ` set (filter P rows)" using assms(2) by auto
      then show False using Cons.prems \<open>P r\<close> assms(3) [OF Some r'(2)] by simp
    qed
    with Cons Some \<open>P r\<close> show ?thesis by (simp add: map_filter_Cons)
  qed
qed simp

lemma inventory_ok_places: "inventory_ok rows \<Longrightarrow> distinct (List.map_filter inv_place rows)"
  by (rule distinct_keys_places [where P = in_slot and key = "\<lambda>r. (iv_character_id r, iv_location r, iv_slot r)"])
    (auto simp: inventory_ok_def inv_place_def in_slot_def split: if_splits)

lemma equipment_ok_places: "equipment_ok rows \<Longrightarrow> distinct (List.map_filter equ_place rows)"
  by (rule distinct_keys_places [where P = stored and key = "\<lambda>r. (ew_character_id r, ew_location r, ew_slot r)"])
    (auto simp: equipment_ok_def equ_place_def stored_def split: if_splits option.splits)

text \<open>Afterwards the stacks of the storage have the first slots and its equipment the next ones.\<close>

lemma organized_equipment_id:
  assumes "equipment_ok (db_equipment s)" "r \<in> set (db_equipment s)"
  shows "ew_id r \<in> set (equipment_ids s c L) \<longleftrightarrow> equipment_here c L r"
proof
  assume "ew_id r \<in> set (equipment_ids s c L)"
  then obtain r' where r': "r' \<in> set (db_equipment s)" "equipment_here c L r'" "ew_id r = ew_id r'"
    by (auto simp: equipment_ids_def)
  then have "r = r'" using assms by (auto simp: equipment_ok_def distinct_map inj_on_def)
  then show "equipment_here c L r" using r' by simp
qed (use assms in \<open>auto simp: equipment_ids_def\<close>)

lemma organized_places:
  assumes "organized arrange s c L t" "storage_sound s" "L \<in> {''BAG'', ''WAREHOUSE''}"
  shows "\<And>p. p \<in> set (List.map_filter inv_place (db_inventory t)) \<Longrightarrow>
      (\<exists>k. p = (c, L, k) \<and> 0 \<le> k \<and> k < int (length (merged_stacks arrange s c L))) \<or>
      (\<nexists>k. p = (c, L, k)) \<and> p \<in> set (List.map_filter inv_place (db_inventory s))"
    and "\<And>p. p \<in> set (List.map_filter equ_place (db_equipment t)) \<Longrightarrow>
      (\<exists>k. p = (c, L, k) \<and> int (length (merged_stacks arrange s c L)) \<le> k) \<or>
      (\<nexists>k. p = (c, L, k)) \<and> p \<in> set (List.map_filter equ_place (db_equipment s))"
proof -
  let ?m = "merged_stacks arrange s c L" and ?ids = "equipment_ids s c L"
  have inv: "db_inventory t = filter (\<lambda>r. \<not> here c L r) (db_inventory s) @ stack_rows c L 0 (db_seq s ''inventory_items'') ?m"
    and equ: "db_equipment t = map (\<lambda>r. numbered (int (length ?m)) ?ids (cleared ?ids r)) (db_equipment s)"
    using arg_cong [OF conjunct1 [OF assms(1) [unfolded organized_def Let_def]], of db_inventory]
      arg_cong [OF conjunct1 [OF assms(1) [unfolded organized_def Let_def]], of db_equipment] by simp_all
  fix p
  show "(\<exists>k. p = (c, L, k) \<and> 0 \<le> k \<and> k < int (length ?m)) \<or>
      (\<nexists>k. p = (c, L, k)) \<and> p \<in> set (List.map_filter inv_place (db_inventory s))"
    if p: "p \<in> set (List.map_filter inv_place (db_inventory t))"
  proof -
    obtain r where r: "r \<in> set (db_inventory t)" "inv_place r = Some p" using p by (auto simp: set_map_filter)
    show ?thesis
    proof (cases "r \<in> set (stack_rows c L 0 (db_seq s ''inventory_items'') ?m)")
      case True
      from stack_rows_facts [OF this] r(2) show ?thesis by (auto simp: inv_place_def split: if_splits)
    next
      case False
      then have "r \<in> set (db_inventory s)" "\<not> here c L r" using r(1) by (auto simp: inv)
      then have "p \<in> set (List.map_filter inv_place (db_inventory s))" "\<nexists>k. p = (c, L, k)"
        using r(2) by (auto simp: set_map_filter) (auto simp: here_def inv_place_def split: if_splits)
      then show ?thesis by blast
    qed
  qed
  show "(\<exists>k. p = (c, L, k) \<and> int (length ?m) \<le> k) \<or>
      (\<nexists>k. p = (c, L, k)) \<and> p \<in> set (List.map_filter equ_place (db_equipment s))"
    if p: "p \<in> set (List.map_filter equ_place (db_equipment t))"
  proof -
    obtain r where r: "r \<in> set (db_equipment s)" "equ_place (numbered (int (length ?m)) ?ids (cleared ?ids r)) = Some p"
      using p by (auto simp: set_map_filter equ)
    note here = organized_equipment_id [OF soundD(2) [OF assms(2)] r(1), of c L]
    show ?thesis
    proof (cases "equipment_here c L r")
      case True
      then have "ew_id (cleared ?ids r) \<in> set ?ids" using here by (simp add: cleared_same)
      from numbered_slot [OF this, where k = "int (length ?m)"] True r(2) assms(3) show ?thesis
        by (auto simp: equ_place_def numbered_same(3,4) cleared_same equipment_here_def equipmentStorageLocation_def split: if_splits)
    next
      case False
      then have "numbered (int (length ?m)) ?ids (cleared ?ids r) = r" using here by (simp add: numbered_same(5) cleared_same)
      then have "p \<in> set (List.map_filter equ_place (db_equipment s))" "equ_place r = Some p"
        using r by (auto simp: set_map_filter)
      moreover have "\<nexists>k. p = (c, L, k)" using False \<open>equ_place r = Some p\<close> assms(3)
        by (auto simp: equ_place_def equipment_here_def equipmentStorageLocation_def split: if_splits option.splits)
      ultimately show ?thesis by blast
    qed
  qed
qed

section \<open>Groups of stacks\<close>

definition group_key :: "inventory_row \<Rightarrow> string" where
  "group_key r = iv_item_id r @ ''|'' @ iv_bind_type r"

definition group_total :: "inventory_row list \<Rightarrow> string \<Rightarrow> int" where
  "group_total rows k = sum_list (map iv_quantity (filter (\<lambda>r. group_key r = k) rows))"

lemma splitPair_key: "CHR ''|'' \<notin> set i \<Longrightarrow> splitPair (i @ ''|'' @ b) = (i, b)"
  by (induction i) auto

lemma splitPair_odd: "CHR ''|'' \<in> set i \<Longrightarrow> CHR ''|'' \<in> set (snd (splitPair (i @ ''|'' @ b)))"
  by (induction i) auto

lemma group_total_mono:
  assumes "\<forall>r \<in> set (xs @ ys). 0 < iv_quantity r"
  shows "0 \<le> group_total xs k \<and> group_total xs k \<le> group_total (xs @ ys) k"
proof -
  have "\<forall>r \<in> set (xs @ ys). 0 \<le> iv_quantity r" using assms by fastforce
  then show ?thesis by (auto simp: group_total_def intro!: sum_list_nonneg)
qed

lemma groups_totals:
  assumes "\<forall>r \<in> set rows. 0 < iv_quantity r" "\<forall>k. group_total rows k < 2 ^ 63"
  shows "distinct (map fst (foldl add_group [] rows)) \<and> fst ` set (foldl add_group [] rows) = group_key ` set rows \<and>
    (\<forall>k. coalesce 0 (map_of (foldl add_group [] rows) k) = group_total rows k)"
  using assms
proof (induction rows rule: rev_induct)
  case Nil
  show ?case by (simp add: group_total_def coalesce_def)
next
  case (snoc r rows)
  let ?g = "foldl add_group [] rows"
  have mono: "0 \<le> group_total rows k" "group_total rows k \<le> group_total (rows @ [r]) k" for k
    using group_total_mono [OF snoc.prems(1)] by auto
  then have "\<forall>k. group_total rows k < 2 ^ 63" using snoc.prems(2) order_le_less_trans by blast
  then have IH: "distinct (map fst ?g)" "fst ` set ?g = group_key ` set rows"
      "\<And>k. coalesce 0 (map_of ?g k) = group_total rows k"
    using snoc.IH snoc.prems(1) by auto
  have total: "w64 (group_total rows (group_key r) + iv_quantity r) = group_total (rows @ [r]) (group_key r)"
  proof -
    have step: "group_total (rows @ [r]) (group_key r) = group_total rows (group_key r) + iv_quantity r"
      by (simp add: group_total_def)
    have "0 \<le> group_total (rows @ [r]) (group_key r)" "group_total (rows @ [r]) (group_key r) < 2 ^ 63"
      using snoc.prems(2) mono order_trans by blast+
    then show ?thesis unfolding step by (rule w64_nonneg)
  qed
  then have "map_of (foldl add_group [] (rows @ [r])) = (map_of ?g)(group_key r \<mapsto> group_total (rows @ [r]) (group_key r))"
    using IH(3) [of "group_key r"] by (simp add: add_group_def Let_def update_conv' group_key_def)
  then have "coalesce 0 (map_of (foldl add_group [] (rows @ [r])) k) = group_total (rows @ [r]) k" for k
    using IH(3) [of k] by (auto simp: coalesce_def group_total_def)
  moreover have "distinct (map fst (foldl add_group [] (rows @ [r])))"
    using IH(1) by (simp add: add_group_def Let_def distinct_update)
  moreover have "fst ` set (foldl add_group [] (rows @ [r])) = group_key ` set (rows @ [r])"
    using IH(2) by (simp add: add_group_def Let_def dom_update group_key_def)
  ultimately show ?case by blast
qed

lemma split_stack_sum: "0 < m \<Longrightarrow> 0 \<le> n \<Longrightarrow> sum_list (split_stack m n) = n"
  by (induction m n rule: split_stack.induct) (subst split_stack.simps, auto simp: Let_def split: if_splits)

lemma split_stack_bounds: "0 < m \<Longrightarrow> \<forall>q \<in> set (split_stack m n). 0 < q \<and> q \<le> m"
  by (induction m n rule: split_stack.induct) (subst split_stack.simps, auto simp: Let_def split: if_splits)

lemma groups_keys: "fst ` set (foldl add_group [] rows) = group_key ` set rows"
  by (induction rows rule: rev_induct) (simp_all add: add_group_def Let_def dom_update group_key_def)

definition permutes :: "(mergedStack list \<Rightarrow> mergedStack list) \<Rightarrow> bool" where
  "permutes arrange \<longleftrightarrow> (\<forall>xs. mset (arrange xs) = mset xs)"

lemma permutes_set: "permutes arrange \<Longrightarrow> set (arrange xs) = set xs"
  by (metis permutes_def set_mset_mset)

lemma merged_stack_origin:
  assumes "x \<in> set (merged_stacks arrange s c L)" "permutes arrange"
  obtains r where "r \<in> set (db_inventory s)" "here c L r" "splitPair (group_key r) = (ms_ItemID x, ms_BindType x)"
proof -
  let ?rows = "sort_key iv_id (filter (here c L) (db_inventory s))"
  obtain g where g: "g \<in> set (foldl add_group [] ?rows)" "x \<in> set (merge_group s g)"
    using assms by (auto simp: merged_stacks_def permutes_set)
  have "fst g \<in> fst ` set (foldl add_group [] ?rows)" using g(1) by simp
  then obtain r where r: "r \<in> set ?rows" "fst g = group_key r" unfolding groups_keys by blast
  show ?thesis by (rule that [of r]) (use r g(2) in \<open>auto simp: merge_group_def Let_def split: prod.splits\<close>)
qed

text \<open>An item identifier with a bar in it would come back with another bind type, which the schema refuses.\<close>

lemma merged_stack_bind:
  assumes "x \<in> set (merged_stacks arrange s c L)" "permutes arrange" "CHR ''|'' \<notin> set (ms_BindType x)"
  obtains r where "r \<in> set (db_inventory s)" "here c L r" "iv_item_id r = ms_ItemID x" "iv_bind_type r = ms_BindType x"
    "CHR ''|'' \<notin> set (iv_item_id r)"
proof -
  obtain r where r: "r \<in> set (db_inventory s)" "here c L r" "splitPair (group_key r) = (ms_ItemID x, ms_BindType x)"
    using merged_stack_origin [OF assms(1,2)] .
  have "CHR ''|'' \<notin> set (iv_item_id r)" using splitPair_odd [of "iv_item_id r" "iv_bind_type r"] r(3) assms(3)
    by (auto simp: group_key_def)
  moreover from splitPair_key [OF this] r(3) have "iv_item_id r = ms_ItemID x" "iv_bind_type r = ms_BindType x"
    by (simp_all add: group_key_def)
  ultimately show ?thesis using that r by blast
qed

lemma organized_fields:
  assumes "organized arrange s c L t"
  shows "db_inventory t = filter (\<lambda>r. \<not> here c L r) (db_inventory s) @
      stack_rows c L 0 (db_seq s ''inventory_items'') (merged_stacks arrange s c L)"
    "db_equipment t = map (\<lambda>r. numbered (int (length (merged_stacks arrange s c L))) (equipment_ids s c L)
      (cleared (equipment_ids s c L) r)) (db_equipment s)"
    "db_seq t = (db_seq s)(''inventory_items'' := db_seq s ''inventory_items'' + int (length (merged_stacks arrange s c L)))"
    "db_listings t = db_listings s" "db_orders t = db_orders s" "db_payments t = db_payments s" "db_idempotency t = db_idempotency s"
    "inventory_ok (db_inventory t)" "equipment_ok (db_equipment t)"
proof -
  note t = conjunct1 [OF assms [unfolded organized_def Let_def]]
  show "inventory_ok (db_inventory t)" "equipment_ok (db_equipment t)" using assms by (simp_all only: organized_def Let_def)
  show "db_inventory t = filter (\<lambda>r. \<not> here c L r) (db_inventory s) @
      stack_rows c L 0 (db_seq s ''inventory_items'') (merged_stacks arrange s c L)"
    "db_equipment t = map (\<lambda>r. numbered (int (length (merged_stacks arrange s c L))) (equipment_ids s c L)
      (cleared (equipment_ids s c L) r)) (db_equipment s)"
    "db_seq t = (db_seq s)(''inventory_items'' := db_seq s ''inventory_items'' + int (length (merged_stacks arrange s c L)))"
    "db_listings t = db_listings s" "db_orders t = db_orders s" "db_payments t = db_payments s" "db_idempotency t = db_idempotency s"
    by (subst t, simp)+
qed

lemma organized_unlisted:
  assumes "organized arrange s c L t" "storage_sound s" "L \<in> {''BAG'', ''WAREHOUSE''}"
  shows "listed_items (db_inventory t) = listed_items (db_inventory s)"
    "listed_equipment (db_equipment t) = listed_equipment (db_equipment s)"
proof -
  have "filter (\<lambda>r. iv_location r = ''LISTED'') (stack_rows c L k n xs) = []" for k n xs
    using assms(3) stack_rows_facts(2) by (fastforce simp: filter_empty_conv)
  moreover have "filter (\<lambda>r. iv_location r = ''LISTED'') (filter (\<lambda>r. \<not> here c L r) rows) =
      filter (\<lambda>r. iv_location r = ''LISTED'') rows" for rows
    using assms(3) by (auto simp: here_def intro: filter_cong)
  ultimately show "listed_items (db_inventory t) = listed_items (db_inventory s)"
    by (simp add: organized_fields(1) [OF assms(1)] listed_items_def)
  have "filter (\<lambda>r. ew_location r = ''LISTED'') (map f rows) = filter (\<lambda>r. ew_location r = ''LISTED'') rows"
    if "\<forall>r \<in> set rows. ew_location (f r) = ew_location r \<and> (ew_location r = ''LISTED'' \<longrightarrow> f r = r)" for f and rows :: "equipment_row list"
    using that by (induction rows) auto
  moreover have "numbered k (equipment_ids s c L) (cleared (equipment_ids s c L) r) = r"
    if "r \<in> set (db_equipment s)" "ew_location r = ''LISTED''" for r k
  proof -
    have "\<not> equipment_here c L r" using that(2) assms(3) by (auto simp: equipment_here_def equipmentStorageLocation_def)
    then have "ew_id r \<notin> set (equipment_ids s c L)" using organized_equipment_id [OF soundD(2) [OF assms(2)] that(1)] by simp
    then show ?thesis by (simp add: numbered_same(5) cleared_same)
  qed
  ultimately show "listed_equipment (db_equipment t) = listed_equipment (db_equipment s)"
    by (simp add: organized_fields(2) [OF assms(1)] listed_equipment_def numbered_same cleared_same)
qed

lemma organized_kept:
  assumes "organized arrange s c L t" "kept b s" "L \<in> {''BAG'', ''WAREHOUSE''}" "permutes arrange"
  shows "kept b t"
proof -
  note sound = soundD [OF kept_sound, OF assms(2)] and f = organized_fields [OF assms(1)]
    and place = organized_places [OF assms(1) kept_sound [OF assms(2)] assms(3)]
  have "\<forall>r \<in> set (db_inventory t). iv_id r \<le> db_seq t ''inventory_items''"
    using sound(3) stack_rows_facts(4) by (fastforce simp: f(1,3))
  moreover have "\<forall>r \<in> set (db_equipment t). ew_id r \<le> db_seq t ''equipment_items''"
    using sound(4) by (auto simp: f(2,3) numbered_same cleared_same)
  moreover have "distinct (places t)"
    using inventory_ok_places [OF f(8)] equipment_ok_places [OF f(9)] place sound(5)
    unfolding places_def distinct_append by fastforce
  moreover have "\<forall>p \<in> set (places t). 0 \<le> snd (snd p)"
    using place sound(6,7) unfolding places_def set_append by fastforce
  ultimately have "storage_sound t" using f(8,9) by (simp add: storage_sound_def)
  moreover have "iv_bind_type r \<in> iv_bind_type ` set (db_inventory s)" if r: "r \<in> set (db_inventory t)" for r
  proof (cases "r \<in> set (db_inventory s)")
    case False
    then have "r \<in> set (stack_rows c L 0 (db_seq s ''inventory_items'') (merged_stacks arrange s c L))"
      using r by (simp add: f(1))
    from stack_rows_facts(6) [OF this] obtain x where x: "x \<in> set (merged_stacks arrange s c L)" "iv_bind_type r = ms_BindType x"
      by blast
    have "stack_ok r" using r f(8) by (simp add: inventory_ok_def)
    then have "CHR ''|'' \<notin> set (ms_BindType x)" using x(2) by (auto simp: stack_ok_def)
    from merged_stack_bind [OF x(1) assms(4) this] show ?thesis by (metis image_eqI x(2))
  qed simp
  then have "binds t \<subseteq> binds s" by (auto simp: binds_def f(2) numbered_same cleared_same)
  ultimately show ?thesis
    using assms(2) organized_unlisted [OF assms(1) kept_sound [OF assms(2)] assms(3)] f(3-7)
    by (auto simp: kept_def apart_from_market_def)
qed

lemma organizeStorage_kept:
  assumes "kept b s" "grows b s" "L \<in> {''BAG'', ''WAREHOUSE''}" "permutes arrange"
  shows "ends (kept b) b (organizeStorage G arrange s a c L limit op)"
  unfolding ends_def
  using organized_kept [OF organizeStorage_ok(1) [OF kept_sound [OF assms(1)] assms(3)] assms(1,3,4)]
    grows_trans [OF assms(2) organizeStorage_grows [OF assms(3)]]
  by (metis prod.collapse)

lemma Pg_Organize_kept:
  assumes "storage_sound s" "permutes arrange"
  shows "item_op s (fst (Pg_InventoryOrganize G arrange req n s))" "item_op s (fst (Pg_WarehouseOrganize G arrange req n s))"
  unfolding Pg_InventoryOrganize_def Pg_WarehouseOrganize_def
  by (intro economy_action_kept body_keptI ends_then_do [OF lockCharacter_kept] organizeStorage_kept assms; simp add: assms)+

section \<open>Nothing is lost\<close>

definition stock :: "inventory_row list \<Rightarrow> int \<Rightarrow> string \<Rightarrow> string \<Rightarrow> string \<Rightarrow> int" where
  "stock rows c L i bind =
     sum_list (map iv_quantity (filter (\<lambda>r. here c L r \<and> iv_item_id r = i \<and> iv_bind_type r = bind) rows))"

definition slots_used :: "db \<Rightarrow> int \<Rightarrow> string \<Rightarrow> int set" where
  "slots_used s c L = {k. (c, L, k) \<in> set (places s)}"

definition stacked :: "string \<Rightarrow> string \<Rightarrow> mergedStack list \<Rightarrow> int" where
  "stacked i bind xs = sum_list (map ms_Quantity (filter (\<lambda>x. ms_ItemID x = i \<and> ms_BindType x = bind) xs))"

lemma stacked_mset: "mset xs = mset ys \<Longrightarrow> stacked i bind xs = stacked i bind ys"
  unfolding stacked_def sum_mset_sum_list [symmetric] by simp

lemma stacked_concat: "stacked i bind (concat xss) = sum_list (map (stacked i bind) xss)"
  by (induction xss) (simp_all add: stacked_def)

lemma stock_rows: "stock (stack_rows c L k n xs) c L i bind = stacked i bind xs"
  by (induction xs arbitrary: k n) (simp_all add: stock_def stacked_def here_def)

lemma stacked_group:
  assumes "0 \<le> snd g"
  shows "stacked i bind (merge_group s g) = (if splitPair (fst g) = (i, bind) then snd g else 0)"
proof -
  obtain key total where g: "g = (key, total)" by (cases g)
  obtain i' b' where k: "splitPair key = (i', b')" by (cases "splitPair key")
  let ?m = "(case db_catalog s i' of None \<Rightarrow> 999 | Some row \<Rightarrow> if ic_stackable row then 999 else 1) :: int"
  have "0 < ?m" by (auto split: option.split)
  then have "sum_list (split_stack ?m total) = total" using assms g by (simp add: split_stack_sum)
  then show ?thesis by (auto simp: stacked_def merge_group_def g k comp_def)
qed

lemma sum_over_key:
  "distinct (map fst gs) \<Longrightarrow> sum_list (map (\<lambda>g. if fst g = k then snd g else 0) gs) = coalesce 0 (map_of gs k)"
proof (induction gs)
  case (Cons g gs)
  have "sum_list (map (\<lambda>g. if fst g = k then snd g else 0) gs) = 0" if "k = fst g"
  proof -
    have "\<forall>g' \<in> set gs. fst g' \<noteq> k" using Cons.prems that by (auto simp: image_iff)
    then show ?thesis by (induction gs) auto
  qed
  with Cons show ?case by (cases g) (auto simp: coalesce_def)
qed (simp add: coalesce_def)

lemma sum_list_filter_sorted:
  fixes f :: "inventory_row \<Rightarrow> int"
  shows "sum_list (map f (filter P (sort_key iv_id rows))) = sum_list (map f (filter P rows))"
  unfolding sum_mset_sum_list [symmetric] by simp

lemma groups_bounded:
  assumes "\<forall>r \<in> set rows. 0 < iv_quantity r" "sum_list (map iv_quantity rows) < 2 ^ 63"
  shows "\<forall>k. group_total rows k < 2 ^ 63"
proof
  fix k
  have "group_total rows k \<le> sum_list (map iv_quantity rows)"
    using assms(1) by (induction rows) (auto simp: group_total_def)
  then show "group_total rows k < 2 ^ 63" using assms(2) by simp
qed

definition groups_of :: "db \<Rightarrow> int \<Rightarrow> string \<Rightarrow> (string \<times> int) list" where
  "groups_of s c L = foldl add_group [] (sort_key iv_id (filter (here c L) (db_inventory s)))"

definition storage_total :: "inventory_row list \<Rightarrow> int \<Rightarrow> string \<Rightarrow> int" where
  "storage_total rows c L = sum_list (map iv_quantity (filter (here c L) rows))"

lemma groups_of_facts:
  assumes sound: "inventory_ok (db_inventory s)" and bound: "storage_total (db_inventory s) c L < 2 ^ 63"
  defines "rows \<equiv> sort_key iv_id (filter (here c L) (db_inventory s))"
  shows "distinct (map fst (groups_of s c L))" "fst ` set (groups_of s c L) = group_key ` set rows"
    "\<And>k. coalesce 0 (map_of (groups_of s c L) k) = group_total rows k"
    "\<And>g. g \<in> set (groups_of s c L) \<Longrightarrow> 0 < snd g"
proof -
  have pos: "\<forall>r \<in> set rows. 0 < iv_quantity r" using sound by (auto simp: rows_def inventory_ok_def stack_ok_def)
  have "sum_list (map iv_quantity rows) < 2 ^ 63"
    using bound sum_list_filter_sorted [where P = "\<lambda>_. True" and f = iv_quantity and rows = "filter (here c L) (db_inventory s)"]
    by (simp add: rows_def storage_total_def)
  from groups_totals [OF pos groups_bounded [OF pos this]]
  show facts: "distinct (map fst (groups_of s c L))" "fst ` set (groups_of s c L) = group_key ` set rows"
      "\<And>k. coalesce 0 (map_of (groups_of s c L) k) = group_total rows k"
    by (simp_all add: groups_of_def rows_def)
  fix g assume g: "g \<in> set (groups_of s c L)"
  then have "fst g \<in> group_key ` set rows" using facts(2) by blast
  then obtain r where r: "r \<in> set rows" "fst g = group_key r" by blast
  then have "iv_quantity r \<in> set (map iv_quantity (filter (\<lambda>r. group_key r = fst g) rows))" by simp
  moreover have "\<And>q. q \<in> set (map iv_quantity (filter (\<lambda>r. group_key r = fst g) rows)) \<Longrightarrow> 0 \<le> q" using pos by fastforce
  ultimately have "iv_quantity r \<le> group_total rows (fst g)" unfolding group_total_def
    by (intro member_le_sum_list) auto
  moreover have "map_of (groups_of s c L) (fst g) = Some (snd g)" using g facts(1) by simp
  ultimately show "0 < snd g" using facts(3) [of "fst g"] pos r(1) by (fastforce simp: coalesce_def)
qed

lemma merged_totals:
  assumes sound: "inventory_ok (db_inventory s)" and "permutes arrange" and bound: "storage_total (db_inventory s) c L < 2 ^ 63"
    and plain: "\<And>r. r \<in> set (db_inventory s) \<Longrightarrow> here c L r \<Longrightarrow> CHR ''|'' \<notin> set (iv_item_id r)"
  shows "stacked i bind (merged_stacks arrange s c L) = stock (db_inventory s) c L i bind"
proof -
  define rows where "rows = sort_key iv_id (filter (here c L) (db_inventory s))"
  define gs where "gs = groups_of s c L"
  have rows: "set rows = {r \<in> set (db_inventory s). here c L r}" by (auto simp: rows_def)
  have split: "splitPair (group_key r) = (iv_item_id r, iv_bind_type r)" if "r \<in> set rows" for r
  proof -
    have "CHR ''|'' \<notin> set (iv_item_id r)" using plain that by (simp add: rows)
    then show ?thesis unfolding group_key_def by (rule splitPair_key)
  qed
  have total: "sum_list (map iv_quantity (filter (\<lambda>r. splitPair (group_key r) = (j, bj)) rows)) = stock (db_inventory s) c L j bj"
    for j bj
  proof -
    have "filter (\<lambda>r. splitPair (group_key r) = (j, bj)) rows = filter (\<lambda>r. iv_item_id r = j \<and> iv_bind_type r = bj) rows"
      using split by (intro filter_cong) auto
    then show ?thesis by (simp add: stock_def rows_def sum_list_filter_sorted conj_commute)
  qed
  note groups = groups_of_facts [OF sound bound, folded gs_def rows_def]
  have "stacked i bind (merged_stacks arrange s c L) = stacked i bind (concat (map (merge_group s) gs))"
    by (rule stacked_mset) (use assms(2) in \<open>simp add: merged_stacks_def permutes_def gs_def groups_of_def\<close>)
  also have "\<dots> = sum_list (map (\<lambda>g. if splitPair (fst g) = (i, bind) then snd g else 0) gs)"
  proof -
    have "map (stacked i bind \<circ> merge_group s) gs = map (\<lambda>g. if splitPair (fst g) = (i, bind) then snd g else 0) gs"
      using groups(4) by (intro map_cong refl) (simp add: stacked_group less_imp_le)
    then show ?thesis unfolding stacked_concat map_map by (rule arg_cong)
  qed
  also have "\<dots> = stock (db_inventory s) c L i bind"
  proof (cases "\<exists>r \<in> set rows. splitPair (group_key r) = (i, bind)")
    case True
    then obtain r where r: "r \<in> set rows" "splitPair (group_key r) = (i, bind)" by blast
    have key: "splitPair (group_key r') = (i, bind) \<longleftrightarrow> group_key r' = group_key r" if "r' \<in> set rows" for r'
    proof
      assume "splitPair (group_key r') = (i, bind)"
      then have "iv_item_id r' = iv_item_id r" "iv_bind_type r' = iv_bind_type r" using split [OF that] split [OF r(1)] r(2) by simp_all
      then show "group_key r' = group_key r" by (simp add: group_key_def)
    qed (use r(2) in simp)
    have "splitPair (fst g) = (i, bind) \<longleftrightarrow> fst g = group_key r" if "g \<in> set gs" for g
    proof -
      have "fst g \<in> group_key ` set rows" using that groups(2) by blast
      then show ?thesis using key by auto
    qed
    then have "sum_list (map (\<lambda>g. if splitPair (fst g) = (i, bind) then snd g else 0) gs) = group_total rows (group_key r)"
      using sum_over_key [OF groups(1), of "group_key r"] groups(3) by (simp cong: map_cong)
    moreover have "filter (\<lambda>r'. group_key r' = group_key r) rows = filter (\<lambda>r'. splitPair (group_key r') = (i, bind)) rows"
      using key by (intro filter_cong) auto
    ultimately show ?thesis using total [of i bind] by (simp add: group_total_def)
  next
    case False
    have "splitPair (fst g) \<noteq> (i, bind)" if "g \<in> set gs" for g
    proof -
      have "fst g \<in> group_key ` set rows" using that groups(2) by blast
      then show ?thesis using False by auto
    qed
    then have "sum_list (map (\<lambda>g. if splitPair (fst g) = (i, bind) then snd g else 0) gs) = 0"
      by (induction gs) auto
    moreover have "filter (\<lambda>r. splitPair (group_key r) = (i, bind)) rows = []" using False by (auto simp: filter_empty_conv)
    ultimately show ?thesis using total [of i bind] by simp
  qed
  finally show ?thesis .
qed

lemma stack_rows_onto: "x \<in> set xs \<Longrightarrow> \<exists>r \<in> set (stack_rows c L k n xs). iv_bind_type r = ms_BindType x"
  by (induction xs arbitrary: k n) fastforce+

lemma organized_plain:
  assumes "organized arrange s c L t" "inventory_ok (db_inventory s)" "permutes arrange"
    and "storage_total (db_inventory s) c L < 2 ^ 63" "r \<in> set (db_inventory s)" "here c L r"
  shows "CHR ''|'' \<notin> set (iv_item_id r)"
proof
  assume odd: "CHR ''|'' \<in> set (iv_item_id r)"
  note groups = groups_of_facts [OF assms(2,4)] and f = organized_fields [OF assms(1)]
  have "group_key r \<in> fst ` set (groups_of s c L)" using groups(2) assms(5,6) by simp
  then obtain total where g: "(group_key r, total) \<in> set (groups_of s c L)" by auto
  then have total: "0 < total" using groups(4) by fastforce
  obtain i bind where k: "splitPair (group_key r) = (i, bind)" by (cases "splitPair (group_key r)")
  let ?m = "(case db_catalog s i of None \<Rightarrow> 999 | Some row \<Rightarrow> if ic_stackable row then 999 else 1) :: int"
  have "0 < ?m" by (auto split: option.split)
  then have "split_stack ?m total \<noteq> []" using total by (subst split_stack.simps) (simp add: Let_def)
  then obtain q where "q \<in> set (split_stack ?m total)" by (metis last_in_set)
  then have "\<lparr>ms_ItemID = i, ms_BindType = bind, ms_Quantity = q\<rparr> \<in> set (merge_group s (group_key r, total))"
    by (simp add: merge_group_def k)
  then have "\<lparr>ms_ItemID = i, ms_BindType = bind, ms_Quantity = q\<rparr> \<in> set (merged_stacks arrange s c L)"
    using g by (auto simp: merged_stacks_def groups_of_def permutes_set [OF assms(3)])
  from stack_rows_onto [OF this] obtain r' where
    r': "r' \<in> set (stack_rows c L 0 (db_seq s ''inventory_items'') (merged_stacks arrange s c L))" "iv_bind_type r' = bind"
    by (metis mergedStack.select_convs(2))
  then have "stack_ok r'" using f(8) by (simp add: f(1) inventory_ok_def)
  then have "CHR ''|'' \<notin> set bind" using r'(2) by (auto simp: stack_ok_def)
  then show False using splitPair_odd [OF odd, of "iv_bind_type r"] k by (simp add: group_key_def)
qed

lemma stack_rows_slots: "iv_slot ` set (stack_rows c L k n xs) = Some ` {k..<k + int (length xs)}"
proof (induction xs arbitrary: k n)
  case (Cons x xs)
  have "{k..<k + int (length (x # xs))} = insert k {k + 1..<k + 1 + int (length xs)}" by auto
  then show ?case by (simp add: Cons.IH)
qed simp

lemma numbered_exact:
  "distinct ns \<Longrightarrow> i < length ns \<Longrightarrow> ew_id r = ns ! i \<Longrightarrow> ew_slot (numbered k ns r) = Some (k + int i)"
proof (induction ns arbitrary: k r i)
  case (Cons n ns)
  show ?case
  proof (cases i)
    case 0
    then show ?thesis using Cons.prems by (simp add: numbered_same(5))
  next
    case (Suc j)
    then have "ew_id r \<noteq> n" using Cons.prems by (auto simp: in_set_conv_nth)
    then show ?thesis using Cons.IH [of j r "k + 1"] Cons.prems Suc by simp
  qed
qed simp

lemma organized_slots:
  assumes "organized arrange s c L t" "storage_sound s" "L \<in> {''BAG'', ''WAREHOUSE''}"
  shows "slots_used t c L = {0..<int (length (merged_stacks arrange s c L)) + int (length (equipment_ids s c L))}"
proof -
  let ?m = "int (length (merged_stacks arrange s c L))" and ?ids = "equipment_ids s c L"
  note f = organized_fields [OF assms(1)] and sound = soundD [OF assms(2)]
  have ids: "distinct ?ids" using sound(2) by (simp add: equipment_ids_def equipment_ok_def distinct_map_filter)
  have inv: "(c, L, k) \<in> set (List.map_filter inv_place (db_inventory t)) \<longleftrightarrow> 0 \<le> k \<and> k < ?m" for k
  proof
    assume "(c, L, k) \<in> set (List.map_filter inv_place (db_inventory t))"
    then show "0 \<le> k \<and> k < ?m" using organized_places(1) [OF assms] by blast
  next
    assume "0 \<le> k \<and> k < ?m"
    then have "Some k \<in> iv_slot ` set (stack_rows c L 0 (db_seq s ''inventory_items'') (merged_stacks arrange s c L))"
      by (simp add: stack_rows_slots)
    then obtain r where "Some k = iv_slot r"
      and r: "r \<in> set (stack_rows c L 0 (db_seq s ''inventory_items'') (merged_stacks arrange s c L))"
      by (rule imageE)
    then have "inv_place r = Some (c, L, k)" using stack_rows_facts(1,2) [OF r] assms(3) by (auto simp: inv_place_def)
    then show "(c, L, k) \<in> set (List.map_filter inv_place (db_inventory t))" using r by (auto simp: set_map_filter f(1))
  qed
  have here: "equ_place (numbered ?m ?ids (cleared ?ids r)) = map_option (\<lambda>k. (c, L, k)) (ew_slot (numbered ?m ?ids (cleared ?ids r)))"
    if "equipment_here c L r" for r
    using that assms(3)
    by (auto simp: equ_place_def numbered_same(3,4) cleared_same equipment_here_def equipmentStorageLocation_def split: if_splits)
  have equ: "(c, L, k) \<in> set (List.map_filter equ_place (db_equipment t)) \<longleftrightarrow> ?m \<le> k \<and> k < ?m + int (length ?ids)" for k
  proof
    assume k: "(c, L, k) \<in> set (List.map_filter equ_place (db_equipment t))"
    then obtain r where r: "r \<in> set (db_equipment s)" "equ_place (numbered ?m ?ids (cleared ?ids r)) = Some (c, L, k)"
      by (auto simp: set_map_filter f(2))
    have "equipment_here c L r"
      using r(2) assms(3)
      by (auto simp: equ_place_def numbered_same(3,4) cleared_same equipment_here_def equipmentStorageLocation_def
        split: if_splits option.splits)
    then have "ew_id (cleared ?ids r) \<in> set ?ids" "map_option (\<lambda>k. (c, L, k)) (ew_slot (numbered ?m ?ids (cleared ?ids r))) = Some (c, L, k)"
      using organized_equipment_id [OF sound(2) r(1)] here [of r] r(2) by (simp_all add: cleared_same)
    then have "ew_id (cleared ?ids r) \<in> set ?ids" "ew_slot (numbered ?m ?ids (cleared ?ids r)) = Some k" by auto
    then show "?m \<le> k \<and> k < ?m + int (length ?ids)" using numbered_slot [of "cleared ?ids r" ?ids ?m] by simp
  next
    assume k: "?m \<le> k \<and> k < ?m + int (length ?ids)"
    define i where "i = nat (k - ?m)"
    have i: "i < length ?ids" "k = ?m + int i" using k by (auto simp: i_def)
    then have "?ids ! i \<in> set ?ids" by simp
    then obtain r where r: "r \<in> set (db_equipment s)" "equipment_here c L r" "ew_id r = ?ids ! i" by (auto simp: equipment_ids_def)
    have "ew_slot (numbered ?m ?ids (cleared ?ids r)) = Some k"
      using numbered_exact [OF ids i(1), of "cleared ?ids r" ?m] r(3) i(2) by (simp add: cleared_same)
    then have "equ_place (numbered ?m ?ids (cleared ?ids r)) = Some (c, L, k)" using here [OF r(2)] by simp
    then show "(c, L, k) \<in> set (List.map_filter equ_place (db_equipment t))" using r(1) by (auto simp: set_map_filter f(2))
  qed
  show ?thesis using inv equ by (auto simp: slots_used_def places_def)
qed

section \<open>The operation\<close>

text \<open>A successful action under a new operation identifier ran its body once.\<close>

lemma runIdempotentAction_fresh:
  assumes "runIdempotentAction G wrap unwrap scope op a c req run s = (t, Inr x)" "db_idempotency s (TrimSpace op) = None"
  obtains t1 where "run (begin_tx s) = (t1, Inr x)" "t = t1\<lparr>db_idempotency := db_idempotency t\<rparr>"
proof -
  have "db_idempotency (begin_tx s) (TrimSpace op) = None" using assms(2) by (simp add: begin_tx_def)
  then show ?thesis using assms(1) that
    by (auto simp: runIdempotentAction_def Let_def split: if_splits prod.splits sum.splits)
qed

lemma runIdempotentAction_runs:
  assumes "run (begin_tx s) = (t, Inr x)" "TrimSpace op \<noteq> []" "db_idempotency s (TrimSpace op) = None"
  shows "is_ok (snd (runIdempotentAction G wrap unwrap scope op a c req run s))"
  using assms by (simp add: runIdempotentAction_def Let_def begin_tx_def)

lemma economySnapshot_runs:
  assumes "db_characters s c = Some row" "cr_account_id row = a" "\<not> cr_is_deleted row" "db_accounts s a \<noteq> None"
  shows "\<exists>x. economySnapshot G s a c = (ensure_token a s, Inr x)"
  using assms by (auto simp: economySnapshot_def Let_def)

lemma economySnapshot_state: "economySnapshot G s a c = (t, Inr x) \<Longrightarrow> t = s\<lparr>db_tokens := db_tokens t\<rparr>"
  by (auto simp: economySnapshot_def ensure_token_def Let_def split: option.splits if_splits)

lemma lockCharacter_state: "lockCharacter s a c = (t, Inr x) \<Longrightarrow> t = s"
  by (simp add: lockCharacter_def)

lemma runEconomyAction_fresh:
  assumes "runEconomyAction G scope req mutate s = (t, Inr x)" "db_idempotency s (TrimSpace (eac_OpID req)) = None"
  obtains t1 u where "mutate (begin_tx s) = (t1, Inr u)" "t = t1\<lparr>db_tokens := db_tokens t, db_idempotency := db_idempotency t\<rparr>"
proof -
  obtain t2 where "then_do (mutate (begin_tx s)) (\<lambda>s _. economySnapshot G s (eac_AccountID req) (eac_CharacterID req)) = (t2, Inr x)"
      and t: "t = t2\<lparr>db_idempotency := db_idempotency t\<rparr>"
    using runIdempotentAction_fresh [OF assms(1) [unfolded runEconomyAction_def] assms(2)] .
  then obtain t1 u where "mutate (begin_tx s) = (t1, Inr u)" "economySnapshot G t1 (eac_AccountID req) (eac_CharacterID req) = (t2, Inr x)"
    by (auto simp: then_do_ok)
  moreover from economySnapshot_state [OF this(2)] have "t2 = t1\<lparr>db_tokens := db_tokens t2\<rparr>" .
  moreover from this t have "t = t1\<lparr>db_tokens := db_tokens t, db_idempotency := db_idempotency t\<rparr>"
    by (metis db.ext_inject db.surjective db.update_convs(9) db.update_convs(19))
  ultimately show ?thesis using that by blast
qed

lemma economySnapshot_exact: "economySnapshot G s a c = (t, Inr x) \<Longrightarrow> t = ensure_token a s"
  by (auto simp: economySnapshot_def Let_def split: option.splits if_splits)

lemma runEconomyAction_exact:
  assumes "runEconomyAction G scope req mutate s = (t, Inr x)" "db_idempotency s (TrimSpace (eac_OpID req)) = None"
  obtains t1 u row where "mutate (begin_tx s) = (t1, Inr u)"
    "t = (ensure_token (eac_AccountID req) t1)\<lparr>db_idempotency := (db_idempotency t1)(TrimSpace (eac_OpID req) \<mapsto> row)\<rparr>"
proof -
  have none: "db_idempotency (begin_tx s) (TrimSpace (eac_OpID req)) = None" using assms(2) by (simp add: begin_tx_def)
  obtain t2 row where run: "then_do (mutate (begin_tx s)) (\<lambda>s _. economySnapshot G s (eac_AccountID req) (eac_CharacterID req)) = (t2, Inr x)"
      and t: "t = t2\<lparr>db_idempotency := (db_idempotency t2)(TrimSpace (eac_OpID req) \<mapsto> row)\<rparr>"
    using assms(1) none
    by (auto simp: runEconomyAction_def runIdempotentAction_def Let_def split: if_splits prod.splits sum.splits)
  then obtain t1 u where "mutate (begin_tx s) = (t1, Inr u)" "economySnapshot G t1 (eac_AccountID req) (eac_CharacterID req) = (t2, Inr x)"
    by (auto simp: then_do_ok)
  moreover from economySnapshot_exact [OF this(2)] have "t2 = ensure_token (eac_AccountID req) t1" .
  ultimately show ?thesis using that [of t1 u row] t by (simp add: ensure_token_def)
qed

text \<open>What is not in the storage keeps its slot.\<close>

lemma organized_elsewhere:
  assumes "organized arrange s c L t" "equipment_ok (db_equipment s)"
  shows "map (\<lambda>r. if equipment_here c L r then r\<lparr>ew_slot := None\<rparr> else r) (db_equipment t) =
    map (\<lambda>r. if equipment_here c L r then r\<lparr>ew_slot := None\<rparr> else r) (db_equipment s)"
proof -
  let ?ids = "equipment_ids s c L" and ?k = "int (length (merged_stacks arrange s c L))"
  have slot: "(numbered k ns r)\<lparr>ew_slot := None\<rparr> = r\<lparr>ew_slot := None\<rparr>" for k ns r
    by (induction k ns r rule: numbered.induct) auto
  have same: "equipment_here c L (numbered ?k ?ids (cleared ?ids r)) = equipment_here c L r" for r
    by (simp add: equipment_here_def numbered_same cleared_same)
  have kept: "numbered ?k ?ids (cleared ?ids r) = r" if "r \<in> set (db_equipment s)" "\<not> equipment_here c L r" for r
  proof -
    have "ew_id r \<notin> set ?ids" using organized_equipment_id [OF assms(2) that(1), of c L] that(2) by simp
    then show ?thesis by (simp add: numbered_same(5) cleared_same)
  qed
  show ?thesis
    unfolding organized_fields(2) [OF assms(1)] map_map comp_def same
    by (rule map_cong [OF refl]) (use kept in \<open>simp add: slot cleared_def\<close>)
qed

lemma organized_items:
  assumes "organized arrange s c L t" "storage_sound s" "L \<in> {''BAG'', ''WAREHOUSE''}" "permutes arrange"
    and "storage_total (db_inventory s) c L < 2 ^ 63"
  shows "stock (db_inventory t) c L i bind = stock (db_inventory s) c L i bind"
    "filter (\<lambda>r. \<not> here c L r) (db_inventory t) = filter (\<lambda>r. \<not> here c L r) (db_inventory s)"
    "r \<in> set (db_inventory t) \<Longrightarrow> here c L r \<Longrightarrow> iv_quantity r \<le> 999"
    "map (\<lambda>r. r\<lparr>ew_slot := None\<rparr>) (db_equipment t) = map (\<lambda>r. r\<lparr>ew_slot := None\<rparr>) (db_equipment s)"
proof -
  note f = organized_fields [OF assms(1)] and sound = soundD [OF assms(2)]
  have plain: "CHR ''|'' \<notin> set (iv_item_id r)" if "r \<in> set (db_inventory s)" "here c L r" for r
    by (rule organized_plain [OF assms(1) sound(1) assms(4,5) that])
  have none: "filter (\<lambda>r. here c L r \<and> iv_item_id r = i \<and> iv_bind_type r = bind) (filter (\<lambda>r. \<not> here c L r) rows) = []" for rows
    by (auto simp: filter_empty_conv)
  show "stock (db_inventory t) c L i bind = stock (db_inventory s) c L i bind"
    using merged_totals [OF sound(1) assms(4,5) plain] stock_rows [of c L 0 "db_seq s ''inventory_items''"]
    by (simp add: f(1) stock_def none)
  have all: "filter (\<lambda>r. \<not> here c L r) (stack_rows c L k n xs) = []" for k n xs
    using stack_rows_facts(1,2) by (fastforce simp: filter_empty_conv here_def)
  show "filter (\<lambda>r. \<not> here c L r) (db_inventory t) = filter (\<lambda>r. \<not> here c L r) (db_inventory s)"
    by (simp add: f(1) all)
  show "iv_quantity r \<le> 999" if "r \<in> set (db_inventory t)" "here c L r"
  proof -
    have "r \<in> set (stack_rows c L 0 (db_seq s ''inventory_items'') (merged_stacks arrange s c L))" using that by (simp add: f(1))
    from stack_rows_facts(6) [OF this] obtain x where "x \<in> set (merged_stacks arrange s c L)" "iv_quantity r = ms_Quantity x" by blast
    then obtain g where x: "x \<in> set (merge_group s g)" "iv_quantity r = ms_Quantity x"
      by (auto simp: merged_stacks_def permutes_set [OF assms(4)])
    obtain key total where g: "g = (key, total)" by (cases g)
    let ?m = "(case db_catalog s (fst (splitPair key)) of None \<Rightarrow> 999 | Some row \<Rightarrow> if ic_stackable row then 999 else 1) :: int"
    have m: "0 < ?m" "?m \<le> 999" by (auto split: option.split)
    have "ms_Quantity x \<in> set (split_stack ?m total)" using x(1)
      by (cases "splitPair key") (auto simp: merge_group_def g)
    then show ?thesis using split_stack_bounds [OF m(1), of total] m(2) x(2) by fastforce
  qed
  have "(numbered k ns r)\<lparr>ew_slot := None\<rparr> = r\<lparr>ew_slot := None\<rparr>" for k ns r
    by (induction k ns r rule: numbered.induct) auto
  then show "map (\<lambda>r. r\<lparr>ew_slot := None\<rparr>) (db_equipment t) = map (\<lambda>r. r\<lparr>ew_slot := None\<rparr>) (db_equipment s)"
    by (simp add: f(2) cleared_def)
qed

lemma storage_total_begin [simp]:
  "db_inventory (begin_tx s) = db_inventory s" "db_equipment (begin_tx s) = db_equipment s"
  by (simp_all add: begin_tx_def)

text \<open>
  Property C22. Organising a bag loses nothing and touches nothing else. When it succeeds for a new operation,
  the bag holds as much of every item with every bind type as before, in stacks of at most 999, provided the
  quantities in the bag sum to less than \<open>2 ^ 63\<close>; its pieces of equipment are the same but for their slots; the
  things in the bag have the slots from 0 on without a gap, as many as the bag may have. Stacks and equipment
  elsewhere keep their rows unchanged, slots included, and the rest of the database is as before but for the
  clock, the identifiers of new stacks, one ledger entry, the row of the operation and the account's token
  row, which is created where it was missing and reads the same. The order the program sorts the stacks by
  does not matter.
\<close>

theorem organize_keeps_items:
  assumes "storage_sound s" and "permutes arrange"
    and "Pg_InventoryOrganize G arrange req bagSlots s = (t, Inr snapshot)"
    and "db_idempotency s (TrimSpace (eac_OpID req)) = None"
    and "storage_total (db_inventory s) (eac_CharacterID req) ''BAG'' < 2 ^ 63"
  shows "(\<forall>i bind. stock (db_inventory t) (eac_CharacterID req) ''BAG'' i bind =
        stock (db_inventory s) (eac_CharacterID req) ''BAG'' i bind) \<and>
    (\<forall>r \<in> set (db_inventory t). here (eac_CharacterID req) ''BAG'' r \<longrightarrow> iv_quantity r \<le> 999) \<and>
    map (\<lambda>r. if equipment_here (eac_CharacterID req) ''BAG'' r then r\<lparr>ew_slot := None\<rparr> else r) (db_equipment t) =
      map (\<lambda>r. if equipment_here (eac_CharacterID req) ''BAG'' r then r\<lparr>ew_slot := None\<rparr> else r) (db_equipment s) \<and>
    (\<exists>n. slots_used t (eac_CharacterID req) ''BAG'' = {0..<n} \<and> n \<le> (if bagSlots \<le> 0 then 25 else bagSlots)) \<and>
    filter (\<lambda>r. \<not> here (eac_CharacterID req) ''BAG'' r) (db_inventory t) =
      filter (\<lambda>r. \<not> here (eac_CharacterID req) ''BAG'' r) (db_inventory s) \<and>
    (\<exists>entry row. t = (begin_tx (ensure_token (eac_AccountID req) s))\<lparr>db_inventory := db_inventory t,
       db_equipment := db_equipment t, db_ledger := db_ledger s @ [entry],
       db_idempotency := (db_idempotency s)(TrimSpace (eac_OpID req) \<mapsto> row),
       db_seq := (db_seq s)(''inventory_items'' := db_seq t ''inventory_items'')\<rparr>)"
proof -
  let ?c = "eac_CharacterID req" and ?s = "begin_tx s"
  obtain t1 u row where run: "then_do (lockCharacter ?s (eac_AccountID req) ?c) (\<lambda>s _. organizeStorage G arrange s (eac_AccountID req)
        ?c ''BAG'' (if bagSlots \<le> 0 then 25 else bagSlots) (eac_OpID req)) = (t1, Inr u)"
      and t: "t = (ensure_token (eac_AccountID req) t1)\<lparr>db_idempotency := (db_idempotency t1)(TrimSpace (eac_OpID req) \<mapsto> row)\<rparr>"
    by (rule runEconomyAction_exact [OF assms(3) [unfolded Pg_InventoryOrganize_def] assms(4)]) blast
  then have org: "organizeStorage G arrange ?s (eac_AccountID req) ?c ''BAG'' (if bagSlots \<le> 0 then 25 else bagSlots) (eac_OpID req) = (t1, Inr u)"
    by (auto simp: then_do_ok dest!: lockCharacter_state)
  have sound: "storage_sound ?s" using assms(1) by simp
  note fin = organizeStorage_ok [OF sound _ org, simplified]
  have total: "storage_total (db_inventory ?s) ?c ''BAG'' < 2 ^ 63" using assms(5) by simp
  have same: "db_inventory t = db_inventory t1" "db_equipment t = db_equipment t1" "db_seq t = db_seq t1"
    by (simp_all add: t ensure_token_def)
  then have slots: "slots_used t ?c ''BAG'' = slots_used t1 ?c ''BAG''" by (simp add: slots_used_def places_def)
  obtain entry where ledger: "db_ledger t1 = db_ledger ?s @ [entry]" by (rule organizeStorage_ledger [OF sound _ org]) auto
  obtain inv seq equ where t1: "t1 = ?s\<lparr>db_inventory := inv, db_seq := (db_seq ?s)(''inventory_items'' := seq),
      db_equipment := equ, db_ledger := db_ledger ?s @ [entry]\<rparr>"
    using conjunct1 [OF fin(1) [unfolded organized_def Let_def]] unfolding ledger by blast
  have "t = (begin_tx (ensure_token (eac_AccountID req) s))\<lparr>db_inventory := db_inventory t,
       db_equipment := db_equipment t, db_ledger := db_ledger s @ [entry],
       db_idempotency := (db_idempotency s)(TrimSpace (eac_OpID req) \<mapsto> row),
       db_seq := (db_seq s)(''inventory_items'' := db_seq t ''inventory_items'')\<rparr>"
    unfolding same by (subst t) (simp add: t1 ensure_token_def begin_tx_def)
  moreover note organized_items(1-3) [OF fin(1) sound _ assms(2) total, simplified]
    organized_elsewhere [OF fin(1) soundD(2) [OF sound], simplified] organized_slots [OF fin(1) sound, simplified] fin(2)
  ultimately show ?thesis unfolding same slots by auto
qed

definition sample_stack :: "int \<Rightarrow> int \<Rightarrow> string \<Rightarrow> int \<Rightarrow> int \<Rightarrow> string \<Rightarrow> inventory_row" where
  "sample_stack n c i q k bind = \<lparr>iv_id = n, iv_character_id = c, iv_item_id = i, iv_quantity = q, iv_location = ''BAG'',
     iv_slot = Some k, iv_bind_type = bind\<rparr>"

definition sample_sword :: equipment_row where
  "sample_sword = \<lparr>ew_id = 1, ew_equipment_uid = ''sword-1'', ew_account_id = 7, ew_character_id = Some 5, ew_item_id = ''sword'',
     ew_location = ''IN_BAG'', ew_slot = Some 4, ew_equip_slot = None, ew_rarity = 1, ew_enhance_level = 0, ew_durability = Some 100,
     ew_max_durability = Some 100, ew_affixes = [], ew_bind_type = ''UNBOUND'', ew_npc_recycle_expires_at = None\<rparr>"

definition sample_character :: "int \<Rightarrow> character_row" where
  "sample_character a = \<lparr>cr_account_id = a, cr_is_deleted = False, cr_level = 1, cr_exp = 0, cr_highest_cleared_chapter = 0,
     cr_highest_cleared_floor = 0, cr_bag_expand_count = 0\<rparr>"

text \<open>Two players with a trading licence: the first has stacks and a sword, the second tokens.\<close>

definition sample_db :: db where
  "sample_db = \<lparr>db_accounts = [7 \<mapsto> True, 8 \<mapsto> True], db_characters = [5 \<mapsto> sample_character 7, 6 \<mapsto> sample_character 8],
     db_wallets = Map.empty,
     db_catalog = [''ore'' \<mapsto> \<lparr>ic_category = ''material'', ic_rarity = 1, ic_stackable = True, ic_tradable = True\<rparr>,
       ''sword'' \<mapsto> \<lparr>ic_category = ''weapon'', ic_rarity = 1, ic_stackable = False, ic_tradable = True\<rparr>],
     db_inventory = [sample_stack 1 5 ''ore'' 600 9 ''UNBOUND'', sample_stack 2 5 ''ore'' 700 2 ''UNBOUND'',
       sample_stack 3 5 ''ore'' 10 7 ''BOUND''],
     db_equipment = [sample_sword], db_nfts = [], db_loot = [],
     db_tokens = \<lparr>account_tokens = [7 \<mapsto> (zero_AccountToken 7)\<lparr>tok_TokenBalance := 50, tok_WithdrawableBalance := 50\<rparr>,
         8 \<mapsto> (zero_AccountToken 8)\<lparr>tok_TokenBalance := 1000, tok_WithdrawableBalance := 1000\<rparr>],
       locked_token_records = []\<rparr>,
     db_listings = [], db_orders = [], db_market_slots = Map.empty, db_restrictions = [], db_payments = [], db_boards = Map.empty,
     db_daily = Map.empty, db_consumptions = [], db_ledger = [], db_idempotency = Map.empty,
     db_seq = (\<lambda>_. 3), db_uuid = FormatInt, db_clock = (\<lambda>n. int n), db_NOW = (\<lambda>n. int n), db_ticks = 0, db_txnow = 0\<rparr>"

definition sample_pg :: pg where
  "sample_pg = \<lparr>pg_hash = (\<lambda>_. ''h''), pg_case = (\<lambda>x. x), pg_zone = (\<lambda>_. Inr (\<lambda>t. (0, t, t + 1))), pg_order = (\<lambda>rows. rows)\<rparr>"

definition sample_action :: EconomyActionRequest where
  "sample_action = \<lparr>eac_OpID = ''op1'', eac_AccountID = 7, eac_CharacterID = 5, eac_SlotIndex = 9,
     eac_Quantity = 100, eac_EquipmentUID = [], eac_EquipSlot = - 1\<rparr>"

lemma sample_db_sound: "storage_sound sample_db"
  by (simp add: storage_sound_def sample_db_def sample_stack_def sample_sword_def inventory_ok_def equipment_ok_def places_def
    map_filter_Cons inv_place_def equ_place_def stack_ok_def int4_def in_slot_def stored_def worn_def List.map_filter_def)

text \<open>
  Evaluating an operation on given tables: the simplifier computes a call before it looks into what
  follows, and takes the tables from the initial ones.
\<close>

lemma then_do_weak_cong: "p = p' \<Longrightarrow> then_do p k = then_do p' k"
  by simp

lemmas statements = put_inventory_def insert_inventory_def nextval_def Let_def inventory_ok_def stack_ok_def int4_def in_slot_def
  update_inventory_outcome update_equipment_outcome put_equipment_def equipment_ok_def stored_def worn_def modify_def or_fail_def
  insertEconomyLedger_def fun_upd_same lockCharacter_def equipmentStorageLocation_def

lemma sample_db_fields [simp]:
  "db_inventory sample_db = [sample_stack 1 5 ''ore'' 600 9 ''UNBOUND'', sample_stack 2 5 ''ore'' 700 2 ''UNBOUND'',
       sample_stack 3 5 ''ore'' 10 7 ''BOUND'']"
  "db_equipment sample_db = [sample_sword]" "db_seq sample_db x = 3" "db_txnow sample_db = 0" "db_ledger sample_db = []"
  "db_idempotency sample_db = Map.empty" "db_NOW sample_db n = int n" "db_clock sample_db n = int n" "db_ticks sample_db = 0"
  "db_characters sample_db 5 = Some (sample_character 7)" "db_characters sample_db 6 = Some (sample_character 8)"
  "db_accounts sample_db 7 = Some True" "db_accounts sample_db 8 = Some True" "db_listings sample_db = []" "db_orders sample_db = []"
  "db_catalog sample_db ''ore'' = Some \<lparr>ic_category = ''material'', ic_rarity = 1, ic_stackable = True, ic_tradable = True\<rparr>"
  "db_payments sample_db = []" "db_restrictions sample_db = []" "db_consumptions sample_db = []" "db_market_slots sample_db = Map.empty"
  by (simp_all add: sample_db_def)

lemma sample_character_fields [simp]:
  "cr_account_id (sample_character a) = a" "\<not> cr_is_deleted (sample_character a)"
  by (simp_all add: sample_character_def)

lemma sample_begin: "begin_tx sample_db = sample_db\<lparr>db_txnow := 0, db_ticks := 1\<rparr>"
  by (simp add: begin_tx_def)

lemma sample_organized:
  "is_ok (snd (organizeStorage sample_pg (\<lambda>xs. xs) (begin_tx sample_db) 7 5 ''BAG'' 25 ''op1''))"
proof -
  have groups: "foldl add_group [] (sort_key iv_id (filter (\<lambda>r. iv_character_id r = 5 \<and> iv_location r = ''BAG'')
      (db_inventory (begin_tx sample_db)))) = [(''ore|UNBOUND'', 1300), (''ore|BOUND'', 10)]"
    by code_simp
  have merged: "merge_group (begin_tx sample_db) (''ore|UNBOUND'', 1300) = [\<lparr>ms_ItemID = ''ore'', ms_BindType = ''UNBOUND'', ms_Quantity = 999\<rparr>,
        \<lparr>ms_ItemID = ''ore'', ms_BindType = ''UNBOUND'', ms_Quantity = 301\<rparr>]"
      "merge_group (begin_tx sample_db) (''ore|BOUND'', 10) = [\<lparr>ms_ItemID = ''ore'', ms_BindType = ''BOUND'', ms_Quantity = 10\<rparr>]"
    by code_simp+
  have rows: "sort (map ew_id (filter (\<lambda>r. ew_character_id r = Some 5 \<and> ew_location r = ''IN_BAG'') (db_equipment (begin_tx sample_db)))) = [1]"
      "filter (\<lambda>r. \<not> (iv_character_id r = 5 \<and> iv_location r = ''BAG'')) (db_inventory (begin_tx sample_db)) = []"
    by code_simp+
  show ?thesis
    unfolding organizeStorage_def Let_def equipmentStorageLocation_def
    apply (simp only: if_True if_False refl then_do_simps Let_def groups rows list.map concat.simps merged append.simps list.size)
    apply (simp add: statements sample_begin sample_sword_def del: fun_upd_apply set_filter cong: then_do_weak_cong)
    done
qed

lemma sample_organize_runs: "is_ok (snd (Pg_InventoryOrganize sample_pg (\<lambda>xs. xs) sample_action 25 sample_db))"
proof -
  obtain t u where run: "organizeStorage sample_pg (\<lambda>xs. xs) (begin_tx sample_db) 7 5 ''BAG'' 25 ''op1'' = (t, Inr u)"
    using sample_organized by (metis is_okE prod.collapse)
  have "storage_sound (begin_tx sample_db)" by (simp add: sample_db_sound)
  from organizeStorage_ok(1) [OF this _ run] have t: "organized (\<lambda>xs. xs) (begin_tx sample_db) 5 ''BAG'' t" by simp
  have "db_characters t 5 = db_characters (begin_tx sample_db) 5" "db_accounts t 7 = db_accounts (begin_tx sample_db) 7"
    by (subst conjunct1 [OF t [unfolded organized_def Let_def]], simp)+
  then have "db_characters t 5 = Some (sample_character 7)" "db_accounts t 7 \<noteq> None" by (simp_all add: begin_tx_def)
  then obtain x where "economySnapshot sample_pg t 7 5 = (ensure_token 7 t, Inr x)"
    using economySnapshot_runs [of t 5 "sample_character 7" 7 sample_pg] by auto
  moreover have "lockCharacter (begin_tx sample_db) 7 5 = (begin_tx sample_db, Inr ())" by (simp add: lockCharacter_def begin_tx_def)
  moreover have "TrimSpace ''op1'' = ''op1''" by code_simp
  ultimately show ?thesis
    unfolding Pg_InventoryOrganize_def runEconomyAction_def
    by (intro runIdempotentAction_runs) (simp_all add: sample_action_def run)
qed

theorem organize_keeps_items_witness:
  "\<exists>t snapshot. Pg_InventoryOrganize sample_pg (\<lambda>xs. xs) sample_action 25 sample_db = (t, Inr snapshot) \<and>
     stock (db_inventory t) 5 ''BAG'' ''ore'' ''UNBOUND'' = 1300"
proof -
  obtain t snapshot where run: "Pg_InventoryOrganize sample_pg (\<lambda>xs. xs) sample_action 25 sample_db = (t, Inr snapshot)"
    using sample_organize_runs by (metis is_okE prod.collapse)
  have "stock (db_inventory sample_db) 5 ''BAG'' ''ore'' ''UNBOUND'' = 1300"
      "storage_total (db_inventory sample_db) 5 ''BAG'' < 2 ^ 63" "db_idempotency sample_db (TrimSpace (eac_OpID sample_action)) = None"
    by (simp_all add: sample_db_def sample_stack_def stock_def storage_total_def here_def)
  then show ?thesis
    using run organize_keeps_items [OF sample_db_sound _ run] by (simp add: permutes_def sample_action_def)
qed

end
