(* ===== verification/ShopStore.thy ===== *)
theory ShopStore
  imports MarketStore
begin

text \<open>
  Shops and the care of equipment in the SQL repository: buying with gold, payment orders for purchases, selling, the
  boards of the mystery shop (\<open>shop.go\<close>), enhancing, recycling and repairing equipment
  (\<open>equipment_enhance.go\<close>, \<open>equipment_recycle.go\<close>, \<open>equipment_repair.go\<close>). The date of a purchase is the text that
  the economy service formats.
\<close>

section \<open>Daily limits and offers\<close>

definition daily_key :: "ShopBuyRequest \<Rightarrow> int \<times> string \<times> int \<times> string" where
  "daily_key req = (sb_CharacterID req, TrimSpace (sb_ShopID req), sb_ShopSlotIndex req, TrimSpace (sb_ShopBusinessDate req))"

definition recordShopDailyPurchase :: "db \<Rightarrow> ShopBuyRequest \<Rightarrow> unit tx" where
  "recordShopDailyPurchase s req =
     (if sb_ShopSlotIndex req \<le> 0 then (s, Inr ())
      else if sb_ShopDailyLimit req \<le> 0 \<or> TrimSpace (sb_ShopBusinessDate req) = []
      then (s, Inl (ErrMsg ''shop daily limit is not configured''))
      else if sb_ShopSlotIndex req \<ge> 2 ^ 31 then (s, Inl refused)
      else case db_daily s (daily_key req) of
        None \<Rightarrow>
          if sb_Quantity req > sb_ShopDailyLimit req then (s, Inl (ErrMsg ''shop daily purchase limit reached''))
          else if sb_Quantity req < 0 then (s, Inl refused)
          else (s\<lparr>db_daily := (db_daily s)(daily_key req \<mapsto> (sb_AccountID req, sb_Quantity req))\<rparr>, Inr ())
      | Some (account, current) \<Rightarrow>
          if w64 (current + sb_Quantity req) > sb_ShopDailyLimit req
          then (s, Inl (ErrMsg ''shop daily purchase limit reached''))
          else if current + sb_Quantity req < 0 \<or> current + sb_Quantity req \<ge> 2 ^ 63 then (s, Inl refused)
          else (s\<lparr>db_daily := (db_daily s)(daily_key req \<mapsto> (account, current + sb_Quantity req))\<rparr>, Inr ()))"

text \<open>The loop over the offers, up to the first one in the slot.\<close>

fun mark_offer :: "int \<Rightarrow> string \<Rightarrow> int \<Rightarrow> MysteryShopOffer list \<Rightarrow> MysteryShopOffer list result" where
  "mark_offer slotIndex itemID quantity [] = Inl ErrNotFound"
| "mark_offer slotIndex itemID quantity (offer # offers) =
     (if mo_SlotIndex offer \<noteq> slotIndex
      then (case mark_offer slotIndex itemID quantity offers of Inl e \<Rightarrow> Inl e | Inr os \<Rightarrow> Inr (offer # os))
      else if TrimSpace (mo_ItemID offer) \<noteq> TrimSpace itemID \<or> mo_Quantity offer \<noteq> quantity
      then Inl (ErrMsg ''mystery shop offer changed'')
      else if mo_Purchased offer then Inl (ErrMsg ''mystery shop offer already purchased'')
      else Inr (offer\<lparr>mo_Purchased := True\<rparr> # offers))"

definition markMysteryShopOfferPurchased :: "db \<Rightarrow> int \<Rightarrow> string \<Rightarrow> int \<Rightarrow> string \<Rightarrow> int \<Rightarrow> unit tx" where
  "markMysteryShopOfferPurchased s characterID shopID slotIndex itemID quantity =
     (case db_boards s (characterID, TrimSpace shopID) of
        None \<Rightarrow> (s, Inl ErrNotFound)
      | Some row \<Rightarrow>
          then_do (s, mark_offer slotIndex itemID quantity (mb_Offers (br_state row))) (\<lambda>s offers.
          (s\<lparr>db_boards := (db_boards s)((characterID, TrimSpace shopID) \<mapsto>
             row\<lparr>br_state := (br_state row)\<lparr>mb_Offers := offers\<rparr>\<rparr>)\<rparr>, Inr ())))"

section \<open>Buying\<close>

definition deliverShopPurchase :: "pg \<Rightarrow> db \<Rightarrow> ShopBuyRequest \<Rightarrow> string \<Rightarrow> unit tx" where
  "deliverShopPurchase G s req source =
     (if sb_GrantGold req > 0
      then then_do (credit_gold (ensure_wallet (sb_CharacterID req) s) (sb_CharacterID req) (sb_GrantGold req)) (\<lambda>s _. (s, Inr ()))
      else if rp_Items (sb_RewardPlan req) = [] \<and> rp_TokenReward (sb_RewardPlan req) \<le> 0
      then (s, Inl (ErrMsg ''shop purchase reward is not configured''))
      else then_do (applyRewardsToBag G s (sb_AccountID req) (sb_CharacterID req) (sb_OpID req) source (sb_RewardPlan req))
        (\<lambda>s _. (s, Inr ())))"

definition purchase_of :: "db_response \<Rightarrow> ShopBuyResult option" where
  "purchase_of r = (case r of RespShopBuy x \<Rightarrow> Some x | _ \<Rightarrow> None)"

definition buy_with_gold :: "pg \<Rightarrow> ShopBuyRequest \<Rightarrow> db \<Rightarrow> ShopBuyResult tx" where
  "buy_with_gold G req s =
     then_do (lockCharacter s (sb_AccountID req) (sb_CharacterID req)) (\<lambda>s _.
     then_do (if sb_ShopSlotIndex req > 0 then recordShopDailyPurchase (ensure_wallet (sb_CharacterID req) s) req
              else (ensure_wallet (sb_CharacterID req) s, Inr ())) (\<lambda>s _.
     then_do (debit_gold s (sb_CharacterID req) (sb_GoldCost req)) (\<lambda>s _.
     then_do (deliverShopPurchase G s req ''shop_buy'') (\<lambda>s _.
     then_do (if sb_MysterySlotIndex req > 0
              then markMysteryShopOfferPurchased s (sb_CharacterID req) (sb_ShopID req) (sb_MysterySlotIndex req)
                (sb_ItemID req) (sb_Quantity req)
              else (s, Inr ())) (\<lambda>s _.
     then_do (insertEconomyLedger s (sb_AccountID req) (sb_CharacterID req) ''SHOP_BUY_GOLD'' (sb_ItemID req) (sb_GoldCost req)
       (sb_OpID req)) (\<lambda>s _.
     then_do (economySnapshot G s (sb_AccountID req) (sb_CharacterID req)) (\<lambda>s snapshot.
     (s, Inr \<lparr>sbr_Order = zero_PaymentOrder, sbr_Snapshot = snapshot\<rparr>))))))))"

definition Pg_ShopBuyGold :: "pg \<Rightarrow> ShopBuyRequest \<Rightarrow> db \<Rightarrow> ShopBuyResult tx" where
  "Pg_ShopBuyGold G req s =
     (if sb_GoldCost req \<le> 0 then (s, Inl (ErrMsg ''gold price is not configured''))
      else if sb_Quantity req \<le> 0 \<or> TrimSpace (sb_ItemID req) = [] \<or> TrimSpace (sb_ShopID req) = []
      then (s, Inl (ErrMsg ''invalid shop buy request''))
      else runIdempotentAction G RespShopBuy purchase_of ''shop_buy_gold'' (sb_OpID req) (sb_AccountID req) (sb_CharacterID req)
        (ReqShopBuy req) (buy_with_gold G req) s)"

text \<open>What the payload of the order keeps of the request.\<close>

definition shopBuyPaymentPayload :: "ShopBuyRequest \<Rightarrow> ShopBuyRequest" where
  "shopBuyPaymentPayload req = req\<lparr>sb_OpID := [], sb_AccountID := 0, sb_CharacterID := 0, sb_ShopID := TrimSpace (sb_ShopID req),
     sb_ItemID := TrimSpace (sb_ItemID req), sb_GoldCost := 0, sb_TokenCost := 0, sb_ReceiverWallet := []\<rparr>"

definition zero_EconomySnapshot :: EconomySnapshot where
  "zero_EconomySnapshot = \<lparr>sn_AccountID = 0, sn_CharacterID = 0, sn_Gold = 0, sn_Gems = 0, sn_Stamina = 0, sn_BagSlots = 0,
     sn_BagExpandCount = 0, sn_HasLicense = False, sn_Level = 0, sn_Exp = 0, sn_ExpToNextLevel = 0,
     sn_HighestClearedChapterID = 0, sn_HighestClearedFloorID = 0, sn_AccountToken = zero_AccountToken 0, sn_Inventory = [],
     sn_Warehouse = [], sn_LootTray = [], sn_Equipment = []\<rparr>"

definition Pg_CreateShopBuyPayment :: "pg \<Rightarrow> ShopBuyRequest \<Rightarrow> db \<Rightarrow> ShopBuyResult tx" where
  "Pg_CreateShopBuyPayment G req s =
     (if sb_TokenCost req \<le> 0 then (s, Inl (ErrMsg ''token price is not configured''))
      else if sb_Quantity req \<le> 0 \<or> TrimSpace (sb_ItemID req) = [] \<or> TrimSpace (sb_ShopID req) = [] \<or>
        TrimSpace (sb_ReceiverWallet req) = []
      then (s, Inl (ErrMsg ''invalid shop payment request''))
      else runIdempotentAction G RespShopBuy purchase_of ''shop_buy_payment_create'' (sb_OpID req) (sb_AccountID req)
        (sb_CharacterID req) (ReqShopBuy req) (\<lambda>s.
        then_do (lockCharacter s (sb_AccountID req) (sb_CharacterID req)) (\<lambda>s _.
        let (now, s) = db_now s in
        then_do (insertPaymentOrder s (sb_AccountID req) (sb_CharacterID req) ''SHOP_BUY'' (sb_TokenCost req)
          (sb_ReceiverWallet req) (now + 10 * 60 * nanos 1) (ShopPayload (shopBuyPaymentPayload req))) (\<lambda>s order.
        (s, Inr \<lparr>sbr_Order = order, sbr_Snapshot = zero_EconomySnapshot\<rparr>)))) s)"

section \<open>Selling\<close>

definition sellShopEquipment :: "db \<Rightarrow> ShopSellRequest \<Rightarrow> unit tx" where
  "sellShopEquipment s req =
     (case List.find (\<lambda>r. owned_at (ssr_AccountID req) (ssr_CharacterID req) (TrimSpace (ssr_EquipmentUID req)) ''IN_BAG'' r \<and>
         minting s (ew_id r) = []) (db_equipment s) of
        None \<Rightarrow> (s, Inl ErrNotFound)
      | Some row \<Rightarrow> or_fail (update_equipment s (\<lambda>r. ew_id r = ew_id row)
          (\<lambda>r. r\<lparr>ew_location := ''CONSUMED'', ew_slot := None, ew_equip_slot := None\<rparr>)) ErrForbidden)"

definition sellShopInventory :: "db \<Rightarrow> ShopSellRequest \<Rightarrow> unit tx" where
  "sellShopInventory s req =
     (if ssr_SlotIndex req < 0 then (s, Inl (ErrMsg ''slotIndex is required''))
      else if ssr_Quantity req \<le> 0 then (s, Inl (ErrMsg ''quantity must be positive''))
      else case List.find (row_at (ssr_CharacterID req) ''BAG'' (ssr_SlotIndex req)) (db_inventory s) of
        None \<Rightarrow> (s, Inl ErrNotFound)
      | Some row \<Rightarrow>
          if ssr_Quantity req > iv_quantity row then (s, Inl ErrInsufficientBalance)
          else
            then_do (if ssr_Quantity req = iv_quantity row
              then update_inventory s (\<lambda>r. iv_id r = iv_id row) (\<lambda>r. r\<lparr>iv_location := ''CONSUMED'', iv_slot := None\<rparr>)
              else update_inventory s (\<lambda>r. iv_id r = iv_id row) (\<lambda>r. r\<lparr>iv_quantity := iv_quantity r - ssr_Quantity req\<rparr>))
            (\<lambda>s _. (s, Inr ())))"

definition sell_to_shop :: "pg \<Rightarrow> ShopSellRequest \<Rightarrow> db \<Rightarrow> EconomySnapshot tx" where
  "sell_to_shop G req s =
     then_do (lockCharacter s (ssr_AccountID req) (ssr_CharacterID req)) (\<lambda>s _.
     then_do (if TrimSpace (ssr_EquipmentUID req) \<noteq> [] then sellShopEquipment s req else sellShopInventory s req) (\<lambda>s _.
     then_do (credit_gold (ensure_wallet (ssr_CharacterID req) s) (ssr_CharacterID req) (ssr_GoldCredit req)) (\<lambda>s _.
     then_do (insertEconomyLedger s (ssr_AccountID req) (ssr_CharacterID req) ''SHOP_SELL'' (ssr_ShopID req) (ssr_GoldCredit req)
       (ssr_OpID req)) (\<lambda>s _.
     economySnapshot G s (ssr_AccountID req) (ssr_CharacterID req)))))"

definition Pg_ShopSell :: "pg \<Rightarrow> ShopSellRequest \<Rightarrow> db \<Rightarrow> EconomySnapshot tx" where
  "Pg_ShopSell G req s =
     (if ssr_GoldCredit req \<le> 0 then (s, Inl (ErrMsg ''sell price is not configured''))
      else runIdempotentAction G RespSnapshot snapshot_of ''shop_sell'' (ssr_OpID req) (ssr_AccountID req) (ssr_CharacterID req)
        (ReqShopSell req) (sell_to_shop G req) s)"

section \<open>The mystery shop\<close>

definition Pg_MysteryShopBoard :: "db \<Rightarrow> int \<Rightarrow> int \<Rightarrow> string \<Rightarrow> MysteryShopBoardState result" where
  "Pg_MysteryShopBoard s accountID characterID shopID =
     (case db_boards s (characterID, TrimSpace shopID) of
        None \<Rightarrow> Inl ErrNotFound
      | Some row \<Rightarrow> if br_account_id row = accountID then Inr (br_state row) else Inl ErrNotFound)"

definition Pg_MysteryShopPaidRefreshCount :: "db \<Rightarrow> int \<Rightarrow> int \<Rightarrow> string \<Rightarrow> time \<Rightarrow> time \<Rightarrow> int" where
  "Pg_MysteryShopPaidRefreshCount s accountID characterID shopID dayStart dayEnd =
     int (length (filter (\<lambda>r. lg_account_id r = accountID \<and> lg_character_id r = characterID \<and>
       lg_kind r = ''MYSTERY_SHOP_REFRESH'' \<and> lg_ref_id r = TrimSpace shopID \<and> within_day (dayStart, dayEnd) (lg_created_at r))
       (db_ledger s)))"

definition Pg_ShopDailyPurchaseQuantities :: "db \<Rightarrow> int \<Rightarrow> int \<Rightarrow> string \<Rightarrow> string \<Rightarrow> int \<rightharpoonup> int" where
  "Pg_ShopDailyPurchaseQuantities s accountID characterID shopID businessDate slotIndex =
     (case db_daily s (characterID, TrimSpace shopID, slotIndex, TrimSpace businessDate) of
        None \<Rightarrow> None
      | Some (account, quantity) \<Rightarrow> if account = accountID then Some quantity else None)"

definition board_of_response :: "db_response \<Rightarrow> MysteryShopBoardState option" where
  "board_of_response r = (case r of RespBoard x \<Rightarrow> Some x | _ \<Rightarrow> None)"

definition zero_spend :: TokenSpendBreakdown where
  "zero_spend = \<lparr>ts_Locked = 0, ts_Withdrawable = 0, ts_External = 0, ts_SpendSource = [], ts_LockedSegments = []\<rparr>"

definition refresh_board :: "MysteryShopRefreshRequest \<Rightarrow> db \<Rightarrow> MysteryShopBoardState tx" where
  "refresh_board req s =
     then_do (lockCharacter s (mr_AccountID req) (mr_CharacterID req)) (\<lambda>s _.
     then_do (if mr_TokenCost req > 0 then spendToken s (mr_AccountID req) (mr_TokenCost req) else (s, Inr zero_spend)) (\<lambda>s spend.
     let shop = TrimSpace (mr_ShopID req);
         state = \<lparr>mb_ShopID = shop, mb_CharacterID = mr_CharacterID req, mb_NextFreeRefreshAt = mr_NextFreeRefreshAt req,
           mb_GeneratedAt = mr_GeneratedAt req, mb_Offers = mr_Offers req\<rparr>;
         s = s\<lparr>db_boards := (db_boards s)((mr_CharacterID req, shop) \<mapsto> \<lparr>br_account_id = mr_AccountID req, br_state = state\<rparr>)\<rparr> in
     if mr_TokenCost req > 0
     then
       then_do (insertSystemConsumption s (mr_OpID req) (mr_AccountID req) (mr_CharacterID req) spend ''MYSTERY_SHOP_REFRESH''
         (mr_TokenCost req) 0 (mr_TokenCost req) 0) (\<lambda>s _.
       then_do (insertEconomyLedger s (mr_AccountID req) (mr_CharacterID req) ''MYSTERY_SHOP_REFRESH'' (mr_ShopID req)
         (mr_TokenCost req) (mr_OpID req)) (\<lambda>s _. (s, Inr state)))
     else (s, Inr state)))"

definition Pg_RefreshMysteryShop :: "pg \<Rightarrow> MysteryShopRefreshRequest \<Rightarrow> db \<Rightarrow> MysteryShopBoardState tx" where
  "Pg_RefreshMysteryShop G req s =
     (if TrimSpace (mr_ShopID req) = [] \<or> mr_CharacterID req = 0 then (s, Inl (ErrMsg ''invalid mystery shop refresh request''))
      else if mr_TokenCost req < 0 then (s, Inl (ErrMsg ''invalid mystery shop refresh cost''))
      else runIdempotentAction G RespBoard board_of_response ''mystery_shop_refresh'' (mr_OpID req) (mr_AccountID req)
        (mr_CharacterID req) (ReqRefresh req) (refresh_board req) s)"

section \<open>Enhancing, recycling and repairing\<close>

text \<open>\<open>fmt.Errorf\<close> with \<open>%w\<close>: the sentinel errors stay recognisable.\<close>

definition wrapped :: "string \<Rightarrow> 'a tx \<Rightarrow> 'a tx" where
  "wrapped context p = (fst p, case snd p of Inl (ErrMsg m) \<Rightarrow> Inl (ErrMsg (context @ '': '' @ m)) | r \<Rightarrow> r)"

definition deterministicAffixIndex :: "string \<Rightarrow> string \<Rightarrow> nat \<Rightarrow> nat" where
  "deterministicAffixIndex opID uid n = (if n \<le> 1 then 0 else unat (fnv64a (opID @ [CHR 0x00] @ uid)) mod n)"

definition loadEquipmentByUID :: "db \<Rightarrow> string \<Rightarrow> EquipmentItem tx" where
  "loadEquipmentByUID s uid =
     (s, case List.find (\<lambda>r. ew_equipment_uid r = uid) (db_equipment s) of
           None \<Rightarrow> Inl ErrNotFound | Some r \<Rightarrow> Inr (equipment_item_of r []))"

definition enhancement_of :: "db_response \<Rightarrow> EquipmentEnhanceResult option" where
  "enhancement_of r = (case r of RespEnhance x \<Rightarrow> Some x | _ \<Rightarrow> None)"

definition hit_affix :: "nat \<Rightarrow> EquipmentAffix \<Rightarrow> EquipmentAffix" where
  "hit_affix index a = a\<lparr>ea_EnhanceHits := w64 (ea_EnhanceHits a + 1),
     ea_InstanceID := if TrimSpace (ea_InstanceID a) = [] then ''legacy-'' @ FormatInt (int index + 1) else ea_InstanceID a\<rparr>"

definition enhance :: "pg \<Rightarrow> EquipmentEnhanceRequest \<Rightarrow> string \<Rightarrow> db \<Rightarrow> EquipmentEnhanceResult tx" where
  "enhance G req uid s =
     then_do (lockCharacter s (ehq_AccountID req) (ehq_CharacterID req)) (\<lambda>s _.
     case List.find (\<lambda>r. ew_equipment_uid r = uid \<and> ew_account_id r = ehq_AccountID req \<and>
         ew_character_id r = Some (ehq_CharacterID req) \<and> ew_location r \<in> {''IN_BAG'', ''IN_WAREHOUSE''} \<and>
         minting s (ew_id r) = []) (db_equipment s) of
       None \<Rightarrow> (s, Inl ErrForbidden)
     | Some row \<Rightarrow>
         let nextLevel = ew_enhance_level row + 1; affixes = ew_affixes row;
             index = deterministicAffixIndex (ehq_OpID req) uid (length affixes) in
         if nextLevel > ehq_MaxLevel req
         then (s, Inl (ErrMsg (''equipment is already at enhancement cap +'' @ FormatInt (ehq_MaxLevel req))))
         else if affixes = [] then (s, Inl (ErrMsg ''equipment has no affixes to enhance''))
         else
           then_do (if ehq_GoldCost req > 0 then debit_gold s (ehq_CharacterID req) (ehq_GoldCost req) else (s, Inr ())) (\<lambda>s _.
           then_do (if ehq_StoneQuantity req > 0
             then wrapped ''enhancement stone'' (consumeBagItem s (ehq_CharacterID req) (ehq_StoneItemID req) (ehq_StoneQuantity req))
             else (s, Inr ())) (\<lambda>s _.
           let enhanced = affixes[index := hit_affix index (affixes ! index)] in
           then_do (if nextLevel \<ge> 2 ^ 31 then (s, Inl refused)
             else update_equipment s (\<lambda>r. ew_id r = ew_id row) (\<lambda>r. r\<lparr>ew_enhance_level := nextLevel, ew_affixes := enhanced\<rparr>)) (\<lambda>s _.
           then_do (insertEconomyLedger s (ehq_AccountID req) (ehq_CharacterID req) ''EQUIPMENT_ENHANCED'' uid nextLevel
             (ehq_OpID req)) (\<lambda>s _.
           then_do (loadEquipmentByUID s uid) (\<lambda>s equipment.
           then_do (economySnapshot G s (ehq_AccountID req) (ehq_CharacterID req)) (\<lambda>s snapshot.
           (s, Inr \<lparr>ehr_Equipment = equipment, ehr_GoldCost = ehq_GoldCost req, ehr_StoneItemID = ehq_StoneItemID req,
              ehr_StoneQuantity = ehq_StoneQuantity req, ehr_EnhancedAffix = enhanced ! index, ehr_Snapshot = snapshot\<rparr>))))))))"

definition Pg_EquipmentEnhance :: "pg \<Rightarrow> EquipmentEnhanceRequest \<Rightarrow> db \<Rightarrow> EquipmentEnhanceResult tx" where
  "Pg_EquipmentEnhance G req s =
     (let uid = TrimSpace (ehq_EquipmentUID req) in
      if uid = [] then (s, Inl (ErrMsg ''equipmentUid is required''))
      else if ehq_MaxLevel req \<le> 0 \<or> ehq_GoldCost req < 0 \<or> ehq_StoneQuantity req < 0
      then (s, Inl (ErrMsg ''invalid enhancement rule''))
      else if ehq_StoneQuantity req > 0 \<and> TrimSpace (ehq_StoneItemID req) = []
      then (s, Inl (ErrMsg ''enhancement stone item is required''))
      else runIdempotentAction G RespEnhance enhancement_of ''equipment_enhance'' (ehq_OpID req) (ehq_AccountID req)
        (ehq_CharacterID req) (ReqEnhance req) (enhance G req uid) s)"

definition recycling_of :: "db_response \<Rightarrow> EquipmentNPCRecycleResult option" where
  "recycling_of r = (case r of RespRecycle x \<Rightarrow> Some x | _ \<Rightarrow> None)"

definition recycle :: "pg \<Rightarrow> EquipmentNPCRecycleRequest \<Rightarrow> string \<Rightarrow> db \<Rightarrow> EquipmentNPCRecycleResult tx" where
  "recycle G req uid s =
     then_do (lockCharacter s (nrq_AccountID req) (nrq_CharacterID req)) (\<lambda>s _.
     let (now, s) = db_now s; expiresAt = now + 7 * 24 * hour_nanos in
     then_do (or_fail (update_equipment s (\<lambda>r. owned_at (nrq_AccountID req) (nrq_CharacterID req) uid ''IN_BAG'' r \<and>
         minting s (ew_id r) = [])
       (\<lambda>r. r\<lparr>ew_location := ''NPC_RECYCLED'', ew_slot := None, ew_equip_slot := None, ew_npc_recycle_expires_at := Some expiresAt\<rparr>))
       ErrForbidden) (\<lambda>s _.
     then_do (if nrq_GoldCredit req > 0
       then or_fail (credit_gold s (nrq_CharacterID req) (nrq_GoldCredit req)) (ErrMsg ''character wallet is missing'')
       else (s, Inr ())) (\<lambda>s _.
     then_do (insertEconomyLedger s (nrq_AccountID req) (nrq_CharacterID req) ''EQUIPMENT_NPC_RECYCLED'' uid (nrq_GoldCredit req)
       (nrq_OpID req)) (\<lambda>s _.
     then_do (economySnapshot G s (nrq_AccountID req) (nrq_CharacterID req)) (\<lambda>s snapshot.
     (s, Inr \<lparr>nrr_GoldCredit = nrq_GoldCredit req, nrr_ExpiresAt = expiresAt, nrr_Snapshot = snapshot\<rparr>))))))"

definition Pg_EquipmentNPCRecycle :: "pg \<Rightarrow> EquipmentNPCRecycleRequest \<Rightarrow> db \<Rightarrow> EquipmentNPCRecycleResult tx" where
  "Pg_EquipmentNPCRecycle G req s =
     (let uid = TrimSpace (nrq_EquipmentUID req) in
      if uid = [] \<or> nrq_GoldCredit req < 0 then (s, Inl (ErrMsg ''invalid npc recycle request''))
      else runIdempotentAction G RespRecycle recycling_of ''equipment_npc_recycle'' (nrq_OpID req) (nrq_AccountID req)
        (nrq_CharacterID req) (ReqRecycle req) (recycle G req uid) s)"

text \<open>
  The rows deleted, oldest first. A deleted row leaves the loot tray without its equipment
  (\<open>ON DELETE SET NULL\<close>).
\<close>

definition purged :: "db \<Rightarrow> time \<Rightarrow> nat \<Rightarrow> int list" where
  "purged s now limit = take limit (map ew_id (sort_key (\<lambda>r. coalesce 0 (ew_npc_recycle_expires_at r)) (sort_key ew_id
     (filter (\<lambda>r. ew_location r = ''NPC_RECYCLED'' \<and> (case ew_npc_recycle_expires_at r of None \<Rightarrow> False | Some e \<Rightarrow> e \<le> now))
       (db_equipment s)))))"

definition Pg_PurgeExpiredNPCRecycledEquipment :: "time \<Rightarrow> int \<Rightarrow> db \<Rightarrow> int tx" where
  "Pg_PurgeExpiredNPCRecycledEquipment now limit s =
     (let n = (if limit \<le> 0 \<or> limit > 1000 then 1000 else limit);
          (now, s) = (if IsZero now then db_now s else (now, s));
          s = begin_tx s; ids = purged s now (nat n);
          gone = (\<lambda>r. ew_id r \<in> set ids \<and> ew_location r = ''NPC_RECYCLED'') in
      (s\<lparr>db_equipment := filter (\<lambda>r. \<not> gone r) (db_equipment s),
         db_loot := modify (\<lambda>r. \<exists>e \<in> set (db_equipment s). gone e \<and> lt_equipment_id r = Some (ew_id e))
           (\<lambda>r. r\<lparr>lt_equipment_id := None\<rparr>) (db_loot s)\<rparr>,
       Inr (int (length (filter gone (db_equipment s))))))"

definition repair_of :: "db_response \<Rightarrow> EquipmentRepairResult option" where
  "repair_of r = (case r of RespRepair x \<Rightarrow> Some x | _ \<Rightarrow> None)"

definition durable :: "int option \<Rightarrow> int \<Rightarrow> int" where
  "durable maxDurability d = (case maxDurability of None \<Rightarrow> d | Some m \<Rightarrow> if m = 0 then d else m)"

definition repair :: "pg \<Rightarrow> EquipmentRepairRequest \<Rightarrow> string \<Rightarrow> db \<Rightarrow> EquipmentRepairResult tx" where
  "repair G req uid s =
     (let rules = EquipmentRules_WithDefaults (rpq_Rules req) in
      then_do (lockCharacter s (rpq_AccountID req) (rpq_CharacterID req)) (\<lambda>s _.
      case List.find (\<lambda>r. ew_equipment_uid r = uid \<and> ew_account_id r = rpq_AccountID req \<and>
          ew_character_id r = Some (rpq_CharacterID req) \<and> ew_location r \<notin> {''DELETED'', ''BURNED'', ''CONSUMED'', ''LISTED'',
            ''ON_CHAIN'', ''MINT_PENDING'', ''LOCKED_FOR_MINT''}) (db_equipment s) of
        None \<Rightarrow> (s, Inl ErrNotFound)
      | Some row \<Rightarrow>
          let maxD = (case ew_max_durability row of None \<Rightarrow> er_DefaultMaxDurability rules
                | Some m \<Rightarrow> if m > 0 then m else er_DefaultMaxDurability rules);
              cur = coalesce 0 (ew_durability row) in
          if maxD \<le> 0 then (s, Inl (ErrMsg ''equipment has no durability''))
          else if cur \<ge> maxD then (s, Inl (ErrMsg ''equipment does not need repair''))
          else
            let missing = w64 (maxD - cur); cost = RepairCost rules missing; (burn, recycled, rewards) = repair_split rules cost in
            then_do (wrapped ''repair cost'' (spendToken s (rpq_AccountID req) cost)) (\<lambda>s spend.
            then_do (insertSystemConsumption s (rpq_OpID req) (rpq_AccountID req) (rpq_CharacterID req) spend ''EQUIPMENT_REPAIR'' cost
              burn recycled rewards) (\<lambda>s _.
            then_do (if maxD \<ge> 2 ^ 31 then (s, Inl refused)
              else or_fail (update_equipment s (\<lambda>r. ew_id r = ew_id row)
                (\<lambda>r. r\<lparr>ew_durability := Some maxD, ew_max_durability := Some (durable (ew_max_durability r) maxD)\<rparr>))
                (ErrMsg ''equipment update failed'')) (\<lambda>s _.
            then_do (insertEconomyLedger s (rpq_AccountID req) (rpq_CharacterID req) ''EQUIPMENT_REPAIRED'' ''AEB'' cost (rpq_OpID req)) (\<lambda>s _.
            then_do (loadEquipmentByUID s uid) (\<lambda>s equip.
            then_do (economySnapshot G s (rpq_AccountID req) (rpq_CharacterID req)) (\<lambda>s snapshot.
            (s, Inr \<lparr>rpr_Equipment = equip, rpr_CostToken = cost, rpr_Repaired = missing, rpr_Snapshot = snapshot\<rparr>)))))))))"

definition Pg_EquipmentRepair :: "pg \<Rightarrow> EquipmentRepairRequest \<Rightarrow> db \<Rightarrow> EquipmentRepairResult tx" where
  "Pg_EquipmentRepair G req s =
     (let uid = TrimSpace (rpq_EquipmentUID req) in
      if uid = [] then (s, Inl (ErrMsg ''equipmentUid is required''))
      else runIdempotentAction G RespRepair repair_of ''equipment_repair'' (rpq_OpID req) (rpq_AccountID req)
        (rpq_CharacterID req) (ReqRepair req) (repair G req uid) s)"

text \<open>The wear of what a character has on, after a dungeon or a boss.\<close>

definition wearEquippedGear :: "db \<Rightarrow> int \<Rightarrow> int \<Rightarrow> int \<Rightarrow> int \<Rightarrow> unit tx" where
  "wearEquippedGear s accountID characterID points defaultMax =
     (if points \<le> 0 then (s, Inr ())
      else
        let d = (if defaultMax \<le> 0 then 100 else defaultMax) in
        if points \<ge> 2 ^ 31 \<or> d \<ge> 2 ^ 31 then (s, Inl refused)
        else then_do (update_equipment s (\<lambda>r. ew_account_id r = accountID \<and> ew_character_id r = Some characterID \<and>
            ew_location r = ''EQUIPPED'')
          (\<lambda>r. let m = durable (ew_max_durability r) d in
            r\<lparr>ew_max_durability := Some m, ew_durability := Some (max 0 (coalesce m (ew_durability r) - points))\<rparr>)) (\<lambda>s _. (s, Inr ())))"

end
