(* ===== verification/ShopProps.thy ===== *)
theory ShopProps
  imports OrganizeProps ShopStore
begin

text \<open>
  What shops, rewards and the care of equipment keep of the tables of items, and what a purchase with gold does.
\<close>

section \<open>Steps\<close>

lemma kept_shop [simp]:
  "kept b (s\<lparr>db_boards := x1\<rparr>) = kept b s" "kept b (s\<lparr>db_daily := x2\<rparr>) = kept b s"
  "grows b (s\<lparr>db_boards := x1\<rparr>) = grows b s" "grows b (s\<lparr>db_daily := x2\<rparr>) = grows b s"
  by (simp_all add: kept_unfold grows_def)

lemma item_op_refl: "storage_sound s \<Longrightarrow> item_op s s"
  by (rule same_tables_item_op) (simp_all add: same_tables_def)

lemma item_op_if: "(c \<Longrightarrow> item_op s (fst p)) \<Longrightarrow> (\<not> c \<Longrightarrow> item_op s (fst q)) \<Longrightarrow> item_op s (fst (if c then p else q))"
  by simp

lemma ends_option:
  "(x = None \<Longrightarrow> ends I b p) \<Longrightarrow> (\<And>y. x = Some y \<Longrightarrow> ends I b (q y)) \<Longrightarrow> ends I b (case x of None \<Rightarrow> p | Some y \<Rightarrow> q y)"
  by (simp split: option.split)

lemma ends_prod: "(\<And>x y. p = (x, y) \<Longrightarrow> ends I b (f x y)) \<Longrightarrow> ends I b (case p of (x, y) \<Rightarrow> f x y)"
  by (simp split: prod.split)

lemma ends_wrapped: "ends I b p \<Longrightarrow> ends I b (wrapped context p)"
  by (auto simp: ends_def wrapped_def split: sum.splits err.splits)

lemma wallet_kept:
  assumes "kept b s" "grows b s"
  shows "ends (kept b) b (debit_gold s c n)" "ends (kept b) b (credit_gold s c n)" "kept b (ensure_wallet c s)" "grows b (ensure_wallet c s)"
  using assms by (simp_all add: debit_gold_def credit_gold_def ensure_wallet_def split: option.split)

lemma payment_kept:
  assumes "kept b s" "grows b s"
  shows "ends (kept b) b (spendToken s a n)" "ends (kept b) b (insertSystemConsumption s op a c spend purpose m x y z)"
    "ends (kept b) b (loadEquipmentByUID s uid)"
  using assms by (simp_all add: spendToken_def insertSystemConsumption_def loadEquipmentByUID_def ends_result split: sum.split prod.split)

lemma equipment_update_kept:
  assumes "kept b s" "grows b s" "\<And>r. r \<in> set (db_equipment s) \<Longrightarrow> ew_id r = n \<Longrightarrow> Q r \<Longrightarrow> equipment_change s r (f r)"
  shows "ends (kept b) b (update_equipment s (\<lambda>r. ew_id r = n \<and> Q r) f)"
  using assms(1,2) ids_one_row(3) [OF assms(1)] by (rule update_equipment_kept) (use assms(3) in blast)

text \<open>A change of what a row says about the thing, not of where it is.\<close>

definition same_spot :: "(equipment_row \<Rightarrow> equipment_row) \<Rightarrow> bool" where
  "same_spot f \<longleftrightarrow> (\<forall>r. ew_id (f r) = ew_id r \<and> ew_bind_type (f r) = ew_bind_type r \<and> ew_location (f r) = ew_location r \<and>
     ew_slot (f r) = ew_slot r \<and> ew_character_id (f r) = ew_character_id r)"

lemma same_spot_place: "same_spot f \<Longrightarrow> equ_place (f r) = equ_place r"
  by (cases "ew_character_id r") (simp_all add: same_spot_def equ_place_def cong: if_cong)

lemma same_spot_change: "same_spot f \<Longrightarrow> ew_location r \<noteq> ''LISTED'' \<Longrightarrow> equipment_change s r (f r)"
  using same_spot_place [of f r] by (simp add: same_spot_def equipment_change_def place_ok_def)

section \<open>Rewards\<close>

lemma bag_rewards_kept:
  "kept b s \<Longrightarrow> grows b s \<Longrightarrow> ends (kept b) b (bag_rewards G s a c op source rewards out)"
proof (induction rewards arbitrary: s out)
  case (Cons reward rewards)
  have equipment: "ends (kept b) b (bag_equipment t a c op source reward)" if "kept b t" "grows b t" for t
    unfolding bag_equipment_def by (intro ends_resolve ends_then_do [OF insert_equipment_kept]) (use that in auto)
  show ?case
    unfolding bag_rewards.simps Let_def
    by (intro ends_if ends_then_do [OF ensureItemCatalog_kept] ends_then_do [OF equipment]
      ends_then_do [OF addInventoryItemToStorage_kept] Cons.IH) (use Cons.prems in simp_all)
qed simp

lemma grantLockedTokenInTx_kept:
  assumes "kept b s" "grows b s"
  shows "ends (kept b) b (grantLockedTokenInTx s a n)"
proof -
  have "kept b (s\<lparr>db_seq := (db_seq s)(''locked_token_records'' := x)\<rparr>)" for x
    using assms(1) by (simp add: kept_unfold)
  moreover have "grows b (s\<lparr>db_seq := (db_seq s)(''locked_token_records'' := db_seq s ''locked_token_records'' + 1)\<rparr>)"
    using assms(2) by (auto simp: grows_def intro: order_trans)
  ultimately show ?thesis using assms(2)
    by (simp add: grantLockedTokenInTx_def grantLockedTokenInTxAt_def db_now_def nextval_def ensure_token_def Let_def kept_unfold grows_def)
qed

lemma applyRewardsToBag_kept:
  "kept b s \<Longrightarrow> grows b s \<Longrightarrow> ends (kept b) b (applyRewardsToBag G s a c op source plan)"
  unfolding applyRewardsToBag_def
  by (intro ends_then_do [OF bag_rewards_kept] ends_then_do [where I = "kept b"] ends_if grantLockedTokenInTx_kept) simp_all

lemma rewards_kept:
  assumes "storage_sound s" "applyRewardsToBag G (begin_tx s) a c op source plan = (t, Inr out)"
  shows "item_op s t"
proof -
  have "ends (kept (begin_tx s)) (begin_tx s) (applyRewardsToBag G (begin_tx s) a c op source plan)"
    using assms(1) by (intro applyRewardsToBag_kept) simp_all
  then have "kept (begin_tx s) t" using assms(2) by (rule endsD)
  then show ?thesis by (simp add: item_op_def kept_unfold begin_tx_def)
qed

section \<open>Buying, selling and refreshing\<close>

lemma deliverShopPurchase_kept:
  assumes "kept b s" "grows b s"
  shows "ends (kept b) b (deliverShopPurchase G s req source)"
  unfolding deliverShopPurchase_def
  by (intro ends_if ends_then_do [OF wallet_kept(2)] ends_then_do [OF applyRewardsToBag_kept]) (use assms wallet_kept in auto)

lemma recordShopDailyPurchase_kept: "kept b s \<Longrightarrow> grows b s \<Longrightarrow> ends (kept b) b (recordShopDailyPurchase s req)"
  by (simp add: recordShopDailyPurchase_def split: option.split prod.split)

lemma markMysteryShopOfferPurchased_kept:
  "kept b s \<Longrightarrow> grows b s \<Longrightarrow> ends (kept b) b (markMysteryShopOfferPurchased s c shop k i q)"
  unfolding markMysteryShopOfferPurchased_def by (intro ends_option ends_then_do [OF ends_result]) simp_all

lemma Pg_ShopBuyGold_kept: "storage_sound s \<Longrightarrow> item_op s (fst (Pg_ShopBuyGold G req s))"
  unfolding Pg_ShopBuyGold_def buy_with_gold_def
  by (intro item_op_if body_item_op body_keptI ends_then_do [OF lockCharacter_kept] ends_then_do [where I = "kept b" and b = b for b]
      ends_if recordShopDailyPurchase_kept wallet_kept deliverShopPurchase_kept markMysteryShopOfferPurchased_kept
      insertEconomyLedger_kept economySnapshot_kept)
    (simp_all add: item_op_refl wallet_kept)

lemma sold_kept:
  assumes "kept b s" "grows b s"
  shows "ends (kept b) b (sellShopEquipment s req)" "ends (kept b) b (sellShopInventory s req)"
proof -
  have "ends (kept b) b (or_fail (update_equipment s (\<lambda>r. ew_id r = ew_id row)
      (\<lambda>r. r\<lparr>ew_location := ''CONSUMED'', ew_slot := None, ew_equip_slot := None\<rparr>)) ErrForbidden)"
    if "row \<in> set (db_equipment s)" "ew_location row \<noteq> ''LISTED''" for row
    using that assms same_row(1) [OF assms(1) _ that(1)]
    by (intro ends_or_fail update_equipment_kept ids_one_row equipment_change_gone) auto
  then show "ends (kept b) b (sellShopEquipment s req)"
    unfolding sellShopEquipment_def using assms by (intro ends_option) (auto simp: owned_at_def dest!: find_SomeD)
  have "ends (kept b) b (update_inventory s (\<lambda>r. iv_id r = iv_id row) (\<lambda>r. r\<lparr>iv_location := ''CONSUMED'', iv_slot := None\<rparr>))"
      "ends (kept b) b (update_inventory s (\<lambda>r. iv_id r = iv_id row) (\<lambda>r. r\<lparr>iv_quantity := iv_quantity r - n\<rparr>))"
    if "List.find (row_at c ''BAG'' k) (db_inventory s) = Some row" for row c k n
    using find_SomeD [OF that] assms
    by (intro stack_update_kept stack_change_gone stack_change_quantity; auto simp: row_at_def)+
  then show "ends (kept b) b (sellShopInventory s req)"
    unfolding sellShopInventory_def using assms
    by (intro ends_if ends_option ends_then_do [where I = "kept b"]) auto
qed

lemma Pg_ShopSell_kept: "storage_sound s \<Longrightarrow> item_op s (fst (Pg_ShopSell G req s))"
  unfolding Pg_ShopSell_def sell_to_shop_def
  by (intro item_op_if body_item_op body_keptI ends_then_do [OF lockCharacter_kept] ends_then_do [where I = "kept b" and b = b for b]
      ends_if sold_kept wallet_kept insertEconomyLedger_kept economySnapshot_kept)
    (simp_all add: item_op_refl wallet_kept)

lemma Pg_RefreshMysteryShop_kept: "storage_sound s \<Longrightarrow> item_op s (fst (Pg_RefreshMysteryShop G req s))"
  unfolding Pg_RefreshMysteryShop_def refresh_board_def Let_def
  by (intro item_op_if body_item_op body_keptI ends_then_do [OF lockCharacter_kept] ends_then_do [where I = "kept b" and b = b for b]
      ends_if payment_kept insertEconomyLedger_kept)
    (simp_all add: item_op_refl)

section \<open>The care of equipment\<close>

lemma enhance_kept:
  assumes "kept b s" "grows b s"
  shows "ends (kept b) b (enhance G req uid s)"
proof -
  have update: "ends (kept b) b (update_equipment t (\<lambda>r. ew_id r = ew_id row) (\<lambda>r. r\<lparr>ew_enhance_level := n, ew_affixes := xs\<rparr>))"
    if t: "kept b t" "grows b t" and row: "row \<in> set (db_equipment s')" "ew_location row \<noteq> ''LISTED''" "kept b s'" for t row n xs s'
  proof -
    have "ew_location r \<noteq> ''LISTED''" if "r \<in> set (db_equipment t)" "ew_id r = ew_id row" for r
      using still_unlisted(1) [OF row(3) t(1) that(1) row(1) that(2) row(2)] .
    then show ?thesis
      using t by (intro update_equipment_kept ids_one_row same_spot_change) (auto simp: same_spot_def)
  qed
  show ?thesis
    unfolding enhance_def Let_def
    by (intro ends_then_do [OF lockCharacter_kept] ends_option ends_if ends_then_do [where I = "kept b"] wallet_kept ends_wrapped
        consumeBagItem_kept insertEconomyLedger_kept payment_kept economySnapshot_kept)
      (use assms update in \<open>auto dest!: find_SomeD\<close>)
qed

lemma Pg_EquipmentEnhance_kept: "storage_sound s \<Longrightarrow> item_op s (fst (Pg_EquipmentEnhance G req s))"
  unfolding Pg_EquipmentEnhance_def Let_def
  by (intro item_op_if body_item_op body_keptI enhance_kept) (simp_all add: item_op_refl)

lemma Pg_EquipmentNPCRecycle_kept: "storage_sound s \<Longrightarrow> item_op s (fst (Pg_EquipmentNPCRecycle G req s))"
proof -
  let ?f = "\<lambda>e r. r\<lparr>ew_location := ''NPC_RECYCLED'', ew_slot := None, ew_equip_slot := None, ew_npc_recycle_expires_at := Some e\<rparr>"
  have gone: "ends (kept b) b (update_equipment s (\<lambda>r. owned_at a c uid ''IN_BAG'' r \<and> Q r) (?f e))"
    if "kept b s" "grows b s" for b s a c uid Q e
  proof (rule update_equipment_kept [OF that])
    have "distinct (map ew_equipment_uid (db_equipment s))" using that(1) by (simp add: kept_def storage_sound_def equipment_ok_def)
    then show "one_row (\<lambda>r. owned_at a c uid ''IN_BAG'' r \<and> Q r) (db_equipment s)" by (rule one_row_key) (simp add: owned_at_def)
  qed (auto simp: owned_at_def equipment_change_def place_ok_def equ_place_def split: option.split)
  assume "storage_sound s"
  then show ?thesis
    unfolding Pg_EquipmentNPCRecycle_def recycle_def Let_def db_now_def prod.case
    by (intro item_op_if body_item_op body_keptI ends_then_do [OF lockCharacter_kept] ends_then_do [where I = "kept b" and b = b for b]
        ends_if ends_or_fail gone wallet_kept insertEconomyLedger_kept economySnapshot_kept)
      (simp_all add: item_op_refl)
qed

lemma Pg_EquipmentRepair_kept: "storage_sound s \<Longrightarrow> item_op s (fst (Pg_EquipmentRepair G req s))"
proof -
  have update: "ends (kept b) b (or_fail (update_equipment t (\<lambda>r. ew_id r = ew_id row) f) e)"
    if t: "kept b t" "grows b t" and row: "row \<in> set (db_equipment s')" "ew_location row \<noteq> ''LISTED''" "kept b s'" and f: "same_spot f"
    for b t row s' f e
  proof -
    have "ew_location r \<noteq> ''LISTED''" if "r \<in> set (db_equipment t)" "ew_id r = ew_id row" for r
      using still_unlisted(1) [OF row(3) t(1) that(1) row(1) that(2) row(2)] .
    then show ?thesis using t f by (intro ends_or_fail update_equipment_kept ids_one_row same_spot_change) auto
  qed
  have spot: "same_spot (\<lambda>r. r\<lparr>ew_durability := d, ew_max_durability := m r\<rparr>)" for d m by (simp add: same_spot_def)
  assume "storage_sound s"
  then show ?thesis
    unfolding Pg_EquipmentRepair_def repair_def Let_def
    by (intro item_op_if body_item_op body_keptI ends_then_do [OF lockCharacter_kept] ends_option ends_prod
        ends_then_do [where I = "kept b" and b = b for b] ends_if ends_wrapped payment_kept insertEconomyLedger_kept economySnapshot_kept)
      (auto simp: item_op_refl intro: update spot dest!: find_SomeD)
qed

lemma distinct_filter_filter:
  assumes "distinct (map f (filter Q rows))"
  shows "distinct (map f (filter Q (filter P rows)))"
proof -
  have "filter Q (filter P rows) = filter P (filter Q rows)" by (simp add: conj_commute)
  then show ?thesis using assms by (simp only: distinct_map_filter)
qed

lemma equipment_ok_filter: "equipment_ok rows \<Longrightarrow> equipment_ok (filter P rows)"
  unfolding equipment_ok_def by (simp add: distinct_map_filter distinct_filter_filter del: filter_filter)

text \<open>Deleting rows that are in no slot and not on the market.\<close>

lemma Pg_PurgeExpiredNPCRecycledEquipment_kept:
  assumes "storage_sound s"
  shows "item_op s (fst (Pg_PurgeExpiredNPCRecycledEquipment now limit s))"
proof -
  let ?rows = "\<lambda>P s. filter (\<lambda>r. \<not> (P r \<and> ew_location r = ''NPC_RECYCLED'')) (db_equipment s)"
  have kept: "kept b (s\<lparr>db_equipment := ?rows P s\<rparr>)" if k: "kept b s" for b s and P :: "equipment_row \<Rightarrow> bool"
  proof (rule kept_equipment [OF k])
    note sound = soundD [OF kept_sound [OF k]]
    show "equipment_ok (?rows P s)" using sound(2) by (rule equipment_ok_filter)
    show "\<forall>r \<in> set (?rows P s). ew_id r \<le> db_seq s ''equipment_items''" using sound(4) by simp
    have place: "List.map_filter equ_place (?rows P s) = List.map_filter equ_place (db_equipment s)"
    proof -
      have "List.map_filter equ_place (filter (\<lambda>r. \<not> (P r \<and> ew_location r = ''NPC_RECYCLED'')) rows) = List.map_filter equ_place rows" for rows
        by (induction rows) (auto simp: map_filter_Cons equ_place_def split: option.split)
      then show ?thesis .
    qed
    show "distinct (List.map_filter inv_place (db_inventory s) @ List.map_filter equ_place (?rows P s))"
      unfolding place by (rule sound(5))
    show "\<forall>p \<in> set (List.map_filter equ_place (?rows P s)). 0 \<le> snd (snd p)" unfolding place using sound(7) by blast
    show "listed_equipment (?rows P s) = listed_equipment (db_equipment s)"
      unfolding listed_equipment_def filter_filter by (rule filter_cong) auto
    show "ew_bind_type ` set (?rows P s) \<subseteq> insert ''BOUND'' (ew_bind_type ` set (db_equipment s))" by auto
  qed
  have "item_op s (t\<lparr>db_equipment := ?rows P t, db_loot := x\<rparr>)" if "same_tables s t" for t x P
  proof -
    have t: "storage_sound t" "apart_from_market s (t\<lparr>db_idempotency := db_idempotency s\<rparr>)" "db_idempotency s \<subseteq>\<^sub>m db_idempotency t"
      using same_tables_item_op [OF that assms] by (simp_all add: item_op_def)
    have "kept t (t\<lparr>db_equipment := ?rows P t\<rparr>)" using t(1) by (intro kept) simp
    then show ?thesis using t by (auto simp: item_op_def kept_unfold)
  qed
  moreover have "same_tables s (begin_tx s)" "same_tables s (begin_tx (snd (db_now s)))"
    by (simp_all add: same_tables_def begin_tx_def db_now_def grows_def)
  ultimately show ?thesis
    unfolding Pg_PurgeExpiredNPCRecycledEquipment_def Let_def by (simp add: db_now_def del: storage_total_begin)
qed

lemma same_spot_rows:
  assumes "same_spot f" "\<And>r. P r \<Longrightarrow> ew_location r \<noteq> ''LISTED''"
  shows "List.map_filter equ_place (modify P f rows) = List.map_filter equ_place rows"
    "listed_equipment (modify P f rows) = listed_equipment rows" "map ew_id (modify P f rows) = map ew_id rows"
    "map ew_bind_type (modify P f rows) = map ew_bind_type rows"
  using assms(2) same_spot_place [OF assms(1)] assms(1)
  by (induction rows) (auto simp: modify_def map_filter_Cons same_spot_def listed_equipment_def split: option.split)

lemma wearEquippedGear_kept:
  assumes "kept b s" "grows b s"
  shows "ends (kept b) b (wearEquippedGear s a c points d)"
proof -
  let ?P = "\<lambda>r. ew_account_id r = a \<and> ew_character_id r = Some c \<and> ew_location r = ''EQUIPPED''"
  have "ends (kept b) b (update_equipment s ?P f)" if f: "same_spot f" for f
  proof -
    let ?rows = "modify ?P f (db_equipment s)"
    have rows: "List.map_filter equ_place ?rows = List.map_filter equ_place (db_equipment s)"
        "listed_equipment ?rows = listed_equipment (db_equipment s)" "map ew_id ?rows = map ew_id (db_equipment s)"
        "map ew_bind_type ?rows = map ew_bind_type (db_equipment s)"
      by (rule same_spot_rows [OF f], simp)+
    have "kept b (s\<lparr>db_equipment := modify ?P f (db_equipment s)\<rparr>)" if "equipment_ok (modify ?P f (db_equipment s))"
    proof (rule kept_equipment [OF assms(1) that])
      note sound = soundD [OF kept_sound [OF assms(1)]]
      have ids: "ew_id ` set ?rows = ew_id ` set (db_equipment s)" and binds: "ew_bind_type ` set ?rows = ew_bind_type ` set (db_equipment s)"
        using arg_cong [OF rows(3), of set] arg_cong [OF rows(4), of set] by (simp_all only: set_map)
      have "\<forall>n \<in> ew_id ` set (db_equipment s). n \<le> db_seq s ''equipment_items''" using sound(4) by blast
      then show "\<forall>r \<in> set ?rows. ew_id r \<le> db_seq s ''equipment_items''" unfolding ids [symmetric] by (simp only: ball_simps)
      show "ew_bind_type ` set ?rows \<subseteq> insert ''BOUND'' (ew_bind_type ` set (db_equipment s))" unfolding binds by (rule subset_insertI)
    qed (use rows soundD [OF kept_sound [OF assms(1)]] in simp_all)
    then show ?thesis using assms(2) by (simp add: update_equipment_outcome)
  qed
  then show ?thesis
    unfolding wearEquippedGear_def Let_def
    by (intro ends_if ends_then_do [where I = "kept b"]) (use assms in \<open>auto simp: same_spot_def\<close>)
qed

lemma wear_kept:
  assumes "storage_sound s" "wearEquippedGear (begin_tx s) a c points d = (t, Inr x)"
  shows "item_op s t"
proof -
  have "ends (kept (begin_tx s)) (begin_tx s) (wearEquippedGear (begin_tx s) a c points d)"
    using assms(1) by (intro wearEquippedGear_kept) simp_all
  then have "kept (begin_tx s) t" using assms(2) by (rule endsD)
  then show ?thesis by (simp add: item_op_def kept_unfold begin_tx_def)
qed

section \<open>What a purchase with gold does\<close>

definition same_shop :: "db \<Rightarrow> db \<Rightarrow> bool" where
  "same_shop b t \<longleftrightarrow> db_wallets t = db_wallets b \<and> db_daily t = db_daily b \<and> db_boards t = db_boards b"

lemma then_do_shop:
  "same_shop b (fst p) \<Longrightarrow> (\<And>t x. same_shop b t \<Longrightarrow> same_shop b (fst (k t x))) \<Longrightarrow> same_shop b (fst (then_do p k))"
  by (cases p; cases "snd p") auto

lemma shop_statements:
  assumes "same_shop b s"
  shows "same_shop b (fst (s, r))" "same_shop b (fst (update_inventory s P f))" "same_shop b (fst (update_equipment s P' f'))"
    "same_shop b (fst (insert_inventory s c i q L k bind))" "same_shop b (fst (insert_equipment s uid a c i L k rarity affixes))"
    "same_shop b (fst (ensureItemCatalog s i category rarity stackable))" "same_shop b (fst (grantLockedTokenInTx s a n))"
    "same_shop b (fst (insertEconomyLedger s a c kind ref m op))" "same_shop b (fst (economySnapshot G s a c))"
    "same_shop b (fst (lockCharacter s a c))"
  using assms
  by (simp_all add: same_shop_def update_inventory_outcome update_equipment_outcome insert_inventory_def insert_equipment_def
    put_inventory_def put_equipment_def nextval_def ensureItemCatalog_def grantLockedTokenInTx_def grantLockedTokenInTxAt_def db_now_def
    ensure_token_def insertEconomyLedger_def economySnapshot_def lockCharacter_def Let_def split: option.split)

lemma shop_if: "(c \<Longrightarrow> same_shop b (fst p)) \<Longrightarrow> (\<not> c \<Longrightarrow> same_shop b (fst q)) \<Longrightarrow> same_shop b (fst (if c then p else q))"
  by simp

lemma shop_option:
  "(x = None \<Longrightarrow> same_shop b (fst p)) \<Longrightarrow> (\<And>y. x = Some y \<Longrightarrow> same_shop b (fst (q y))) \<Longrightarrow>
   same_shop b (fst (case x of None \<Rightarrow> p | Some y \<Rightarrow> q y))"
  by (simp split: option.split)

lemma applyRewardsToBag_shop:
  assumes "same_shop b s"
  shows "same_shop b (fst (applyRewardsToBag G s a c op source plan))"
proof -
  have bag: "same_shop b (fst (bag_equipment t a c op source r))" if "same_shop b t" for t r
    unfolding bag_equipment_def by (intro then_do_shop shop_statements that)
  have add: "same_shop b (fst (addInventoryItemToStorage t c L i q))" if "same_shop b t" for t L i q
    unfolding addInventoryItemToStorage_def Let_def by (intro shop_if shop_option then_do_shop shop_statements that)
  have rewards: "same_shop b (fst (bag_rewards G t a c op source rewards out))" if "same_shop b t" for t rewards out
    using that
  proof (induction rewards arbitrary: t out)
    case (Cons r rewards)
    show ?case unfolding bag_rewards.simps Let_def
      by (intro shop_if then_do_shop bag add shop_statements Cons.IH Cons.prems)
  qed simp
  show ?thesis unfolding applyRewardsToBag_def by (intro then_do_shop rewards shop_if shop_statements assms)
qed

lemma mark_offer_sold:
  "mark_offer k i q offers = Inr sold \<Longrightarrow> \<exists>us offer vs. offers = us @ offer # vs \<and> sold = us @ offer\<lparr>mo_Purchased := True\<rparr> # vs \<and>
     mo_SlotIndex offer = k \<and> \<not> mo_Purchased offer \<and> mo_Quantity offer = q \<and> TrimSpace (mo_ItemID offer) = TrimSpace i \<and>
     (\<forall>u \<in> set us. mo_SlotIndex u \<noteq> k)"
proof (induction offers arbitrary: sold)
  case (Cons offer offers)
  show ?case
  proof (cases "mo_SlotIndex offer = k")
    case True
    then show ?thesis using Cons.prems by (intro exI [of _ "[]"] exI [of _ offer] exI [of _ offers]) (auto split: if_splits)
  next
    case False
    then obtain rest where rest: "mark_offer k i q offers = Inr rest" "sold = offer # rest"
      using Cons.prems by (auto split: sum.splits)
    from Cons.IH [OF rest(1)] obtain us o' vs where IH: "offers = us @ o' # vs" "rest = us @ o'\<lparr>mo_Purchased := True\<rparr> # vs"
      "mo_SlotIndex o' = k" "\<not> mo_Purchased o'" "mo_Quantity o' = q" "TrimSpace (mo_ItemID o') = TrimSpace i"
      "\<forall>u \<in> set us. mo_SlotIndex u \<noteq> k" by blast
    show ?thesis
      by (intro exI [of _ "offer # us"] exI [of _ o'] exI [of _ vs]) (use IH rest False in simp)
  qed
qed simp

definition gold_of :: "db \<Rightarrow> int \<Rightarrow> int" where
  "gold_of s c = wl_gold (wallet_in (db_wallets s) c)"

definition bought_today :: "db \<Rightarrow> ShopBuyRequest \<Rightarrow> int" where
  "bought_today s req = (case db_daily s (daily_key req) of None \<Rightarrow> 0 | Some (_, n) \<Rightarrow> n)"

lemma deliver_effect:
  assumes "deliverShopPurchase G s req source = (t, Inr u)"
  shows "gold_of t (sb_CharacterID req) = gold_of s (sb_CharacterID req) + (if sb_GrantGold req > 0 then sb_GrantGold req else 0)"
    "\<forall>d. d \<noteq> sb_CharacterID req \<longrightarrow> db_wallets t d = db_wallets s d" "db_daily t = db_daily s" "db_boards t = db_boards s"
proof -
  let ?c = "sb_CharacterID req"
  have "gold_of t ?c = gold_of s ?c + (if sb_GrantGold req > 0 then sb_GrantGold req else 0) \<and>
    (\<forall>d. d \<noteq> ?c \<longrightarrow> db_wallets t d = db_wallets s d) \<and> db_daily t = db_daily s \<and> db_boards t = db_boards s"
  proof (cases "sb_GrantGold req > 0")
    case True
    then show ?thesis using assms
      by (auto simp: deliverShopPurchase_def then_do_ok credit_gold_def ensure_wallet_def gold_of_def wallet_in_def
        split: if_splits option.splits)
  next
    case False
    obtain x where "applyRewardsToBag G s (sb_AccountID req) ?c (sb_OpID req) source (sb_RewardPlan req) = (t, Inr x)"
      using assms False by (auto simp: deliverShopPurchase_def then_do_ok split: if_splits)
    then have "same_shop s t"
      using applyRewardsToBag_shop [of s s G "sb_AccountID req" ?c "sb_OpID req" source "sb_RewardPlan req"] by (simp add: same_shop_def)
    then show ?thesis using False by (simp add: same_shop_def gold_of_def)
  qed
  then show "gold_of t ?c = gold_of s ?c + (if sb_GrantGold req > 0 then sb_GrantGold req else 0)"
    "\<forall>d. d \<noteq> ?c \<longrightarrow> db_wallets t d = db_wallets s d" "db_daily t = db_daily s" "db_boards t = db_boards s" by blast+
qed

lemma daily_effect:
  assumes "recordShopDailyPurchase s req = (t, Inr u)" "0 < sb_ShopSlotIndex req" "0 < sb_Quantity req"
  shows "bought_today t req = bought_today s req + sb_Quantity req" "bought_today t req \<le> sb_ShopDailyLimit req"
    "\<forall>k. k \<noteq> daily_key req \<longrightarrow> db_daily t k = db_daily s k" "db_wallets t = db_wallets s" "db_boards t = db_boards s"
  using assms
  by (auto simp: recordShopDailyPurchase_def bought_today_def w64_nonneg split: if_splits option.splits)

text \<open>The sale of the offer in slot \<open>k\<close> of a board.\<close>

definition offer_sold :: "db \<Rightarrow> db \<Rightarrow> int \<times> string \<Rightarrow> int \<Rightarrow> string \<Rightarrow> int \<Rightarrow> bool" where
  "offer_sold s t key k i q \<longleftrightarrow> (\<exists>row us offer vs. db_boards s key = Some row \<and> mb_Offers (br_state row) = us @ offer # vs \<and>
     mo_SlotIndex offer = k \<and> \<not> mo_Purchased offer \<and> mo_Quantity offer = q \<and> TrimSpace (mo_ItemID offer) = TrimSpace i \<and>
     db_boards t = (db_boards s)(key \<mapsto> row\<lparr>br_state := (br_state row)\<lparr>mb_Offers := us @ offer\<lparr>mo_Purchased := True\<rparr> # vs\<rparr>\<rparr>))"

lemma mark_effect:
  assumes "markMysteryShopOfferPurchased s c shop k i q = (t, Inr u)"
  shows "offer_sold s t (c, TrimSpace shop) k i q" "db_wallets t = db_wallets s" "db_daily t = db_daily s"
proof -
  obtain row sold where row: "db_boards s (c, TrimSpace shop) = Some row" "mark_offer k i q (mb_Offers (br_state row)) = Inr sold"
     "t = s\<lparr>db_boards := (db_boards s)((c, TrimSpace shop) \<mapsto> row\<lparr>br_state := (br_state row)\<lparr>mb_Offers := sold\<rparr>\<rparr>)\<rparr>"
    using assms by (auto simp: markMysteryShopOfferPurchased_def then_do_ok split: option.splits)
  show "offer_sold s t (c, TrimSpace shop) k i q" unfolding offer_sold_def using mark_offer_sold [OF row(2)] row(1,3) by fastforce
  show "db_wallets t = db_wallets s" "db_daily t = db_daily s" by (simp_all add: row(3))
qed

lemma debit_effect:
  assumes "debit_gold s c n = (t, Inr u)"
  shows "n \<le> gold_of s c" "gold_of t c = gold_of s c - n" "\<forall>d. d \<noteq> c \<longrightarrow> db_wallets t d = db_wallets s d"
    "db_daily t = db_daily s" "db_boards t = db_boards s"
  using assms by (auto simp: debit_gold_def gold_of_def wallet_in_def split: option.splits if_splits)

lemma ensure_wallet_effect:
  "gold_of (ensure_wallet c s) d = gold_of s d" "d \<noteq> c \<Longrightarrow> db_wallets (ensure_wallet c s) d = db_wallets s d"
  "db_daily (ensure_wallet c s) = db_daily s" "db_boards (ensure_wallet c s) = db_boards s"
  by (simp_all add: ensure_wallet_def gold_of_def wallet_in_def)

lemma buy_with_gold_steps:
  assumes "buy_with_gold G req s = (t, Inr result)"
  obtains s1 s2 s3 s4 where
    "(if sb_ShopSlotIndex req > 0 then recordShopDailyPurchase (ensure_wallet (sb_CharacterID req) s) req
      else (ensure_wallet (sb_CharacterID req) s, Inr ())) = (s1, Inr ())"
    "debit_gold s1 (sb_CharacterID req) (sb_GoldCost req) = (s2, Inr ())"
    "deliverShopPurchase G s2 req ''shop_buy'' = (s3, Inr ())"
    "(if sb_MysterySlotIndex req > 0
      then markMysteryShopOfferPurchased s3 (sb_CharacterID req) (sb_ShopID req) (sb_MysterySlotIndex req) (sb_ItemID req) (sb_Quantity req)
      else (s3, Inr ())) = (s4, Inr ())"
    "same_shop s4 t"
proof -
  obtain s1 s2 s3 s4 s5 x where run: "(if sb_ShopSlotIndex req > 0 then recordShopDailyPurchase (ensure_wallet (sb_CharacterID req) s) req
      else (ensure_wallet (sb_CharacterID req) s, Inr ())) = (s1, Inr ())"
    "debit_gold s1 (sb_CharacterID req) (sb_GoldCost req) = (s2, Inr ())"
    "deliverShopPurchase G s2 req ''shop_buy'' = (s3, Inr ())"
    "(if sb_MysterySlotIndex req > 0
      then markMysteryShopOfferPurchased s3 (sb_CharacterID req) (sb_ShopID req) (sb_MysterySlotIndex req) (sb_ItemID req) (sb_Quantity req)
      else (s3, Inr ())) = (s4, Inr ())"
    "insertEconomyLedger s4 (sb_AccountID req) (sb_CharacterID req) ''SHOP_BUY_GOLD'' (sb_ItemID req) (sb_GoldCost req) (sb_OpID req) = (s5, Inr ())"
    "economySnapshot G s5 (sb_AccountID req) (sb_CharacterID req) = (t, Inr x)"
    using assms unfolding buy_with_gold_def then_do_ok lockCharacter_def by (auto simp del: if_split_asm split del: if_split)
  have "same_shop s4 s4" by (simp add: same_shop_def)
  from shop_statements(8) [OF this] have "same_shop s4 s5" by (metis run(5) fst_conv)
  from shop_statements(9) [OF this] have "same_shop s4 t" by (metis run(6) fst_conv)
  then show ?thesis using that run(1-4) by blast
qed

section \<open>The properties\<close>

text \<open>
  Property C30. A purchase with gold takes the price once and within the limits: the character had the gold and has that much less
  (more by what the purchase grants), nobody else's purse changes; a shop with daily limits has recorded the quantity for the
  day, within the limit, and nothing else; and of a mystery shop exactly the chosen offer, until then unsold and of that
  item and quantity, is marked as sold.
\<close>

theorem gold_purchase_effect:
  assumes "Pg_ShopBuyGold G req s = (t, Inr result)" "db_idempotency s (TrimSpace (sb_OpID req)) = None"
  shows "sb_GoldCost req \<le> gold_of s (sb_CharacterID req) \<and>
    gold_of t (sb_CharacterID req) = gold_of s (sb_CharacterID req) - sb_GoldCost req + max 0 (sb_GrantGold req) \<and>
    (\<forall>d. d \<noteq> sb_CharacterID req \<longrightarrow> db_wallets t d = db_wallets s d) \<and>
    (0 < sb_ShopSlotIndex req \<longrightarrow> bought_today t req = bought_today s req + sb_Quantity req \<and>
      bought_today t req \<le> sb_ShopDailyLimit req) \<and>
    (\<forall>k. 0 < sb_ShopSlotIndex req \<and> k = daily_key req \<or> db_daily t k = db_daily s k) \<and>
    (0 < sb_MysterySlotIndex req \<longrightarrow> offer_sold s t (sb_CharacterID req, TrimSpace (sb_ShopID req)) (sb_MysterySlotIndex req)
      (sb_ItemID req) (sb_Quantity req)) \<and>
    (sb_MysterySlotIndex req \<le> 0 \<longrightarrow> db_boards t = db_boards s)"
proof -
  let ?c = "sb_CharacterID req" and ?s = "begin_tx s"
  have q: "0 < sb_Quantity req" and run: "runIdempotentAction G RespShopBuy purchase_of ''shop_buy_gold'' (sb_OpID req) (sb_AccountID req) ?c
      (ReqShopBuy req) (buy_with_gold G req) s = (t, Inr result)"
    using assms(1) by (auto simp: Pg_ShopBuyGold_def split: if_splits)
  obtain t1 where body: "buy_with_gold G req ?s = (t1, Inr result)" and t: "t = t1\<lparr>db_idempotency := db_idempotency t\<rparr>"
    using runIdempotentAction_fresh [OF run assms(2)] .
  obtain s1 s2 s3 s4 where daily: "(if sb_ShopSlotIndex req > 0 then recordShopDailyPurchase (ensure_wallet ?c ?s) req
      else (ensure_wallet ?c ?s, Inr ())) = (s1, Inr ())"
    and debit: "debit_gold s1 ?c (sb_GoldCost req) = (s2, Inr ())" and deliver: "deliverShopPurchase G s2 req ''shop_buy'' = (s3, Inr ())"
    and mark: "(if sb_MysterySlotIndex req > 0
      then markMysteryShopOfferPurchased s3 ?c (sb_ShopID req) (sb_MysterySlotIndex req) (sb_ItemID req) (sb_Quantity req)
      else (s3, Inr ())) = (s4, Inr ())" and same: "same_shop s4 t1"
    using buy_with_gold_steps [OF body] by metis
  have start: "db_wallets ?s = db_wallets s" "db_daily ?s = db_daily s" "db_boards ?s = db_boards s" "\<And>d. gold_of ?s d = gold_of s d"
    by (simp_all add: begin_tx_def gold_of_def)
  have s1: "gold_of s1 ?c = gold_of s ?c" "\<forall>d. d \<noteq> ?c \<longrightarrow> db_wallets s1 d = db_wallets s d" "db_boards s1 = db_boards s"
      "0 < sb_ShopSlotIndex req \<longrightarrow> bought_today s1 req = bought_today s req + sb_Quantity req \<and> bought_today s1 req \<le> sb_ShopDailyLimit req"
      "\<forall>k. 0 < sb_ShopSlotIndex req \<and> k = daily_key req \<or> db_daily s1 k = db_daily s k"
    using daily daily_effect [of "ensure_wallet ?c ?s" req s1 "()", OF _ _ q] ensure_wallet_effect [where c = ?c and s = ?s] start
    by (auto simp: gold_of_def bought_today_def split: if_splits)
  note s2 = debit_effect [OF debit] and s3 = deliver_effect [OF deliver]
  have s4: "db_wallets s4 = db_wallets s3" "db_daily s4 = db_daily s3"
      "0 < sb_MysterySlotIndex req \<longrightarrow> offer_sold s3 s4 (?c, TrimSpace (sb_ShopID req)) (sb_MysterySlotIndex req) (sb_ItemID req) (sb_Quantity req)"
    using mark mark_effect by (auto split: if_splits)
  have "db_wallets t = db_wallets t1" "db_daily t = db_daily t1" "db_boards t = db_boards t1" by (subst t, simp)+
  then have wallets: "db_wallets t = db_wallets s3" and dailies: "db_daily t = db_daily s1" and boards: "db_boards t = db_boards s4"
    using same s4 s2(4) s3(3) by (simp_all add: same_shop_def)
  have "db_boards s3 = db_boards s" using s1(3) s2(5) s3(4) by simp
  then have board: "0 < sb_MysterySlotIndex req \<longrightarrow> offer_sold s t (?c, TrimSpace (sb_ShopID req)) (sb_MysterySlotIndex req) (sb_ItemID req) (sb_Quantity req)"
    using s4(3) boards by (simp add: offer_sold_def)
  have "sb_GoldCost req \<le> gold_of s ?c" using s2(1) s1(1) by simp
  moreover have "gold_of t ?c = gold_of s ?c - sb_GoldCost req + max 0 (sb_GrantGold req)"
    using s3(1) s2(2) s1(1) wallets by (auto simp: gold_of_def)
  moreover have "\<forall>d. d \<noteq> ?c \<longrightarrow> db_wallets t d = db_wallets s d" using wallets s3(2) s2(3) s1(2) by simp
  moreover have "bought_today t req = bought_today s1 req" using dailies by (simp add: bought_today_def)
  then have "0 < sb_ShopSlotIndex req \<longrightarrow> bought_today t req = bought_today s req + sb_Quantity req \<and>
      bought_today t req \<le> sb_ShopDailyLimit req" using s1(4) by metis
  moreover have "\<forall>k. 0 < sb_ShopSlotIndex req \<and> k = daily_key req \<or> db_daily t k = db_daily s k" using s1(5) dailies by simp
  moreover have "sb_MysterySlotIndex req \<le> 0 \<longrightarrow> db_boards t = db_boards s" using boards mark s1(3) s2(5) s3(4) by auto
  ultimately show ?thesis using board by blast
qed

definition sample_order :: ShopBuyRequest where
  "sample_order = \<lparr>sb_OpID = ''op3'', sb_AccountID = 7, sb_CharacterID = 5, sb_ShopID = ''inn'', sb_ItemID = ''ore'', sb_Quantity = 2,
     sb_MysterySlotIndex = 1, sb_ShopSlotIndex = 1, sb_ShopDailyLimit = 5, sb_ShopBusinessDate = ''d'', sb_GoldCost = 30,
     sb_TokenCost = 0, sb_ReceiverWallet = [], sb_GrantGold = 5,
     sb_RewardPlan = \<lparr>rp_IsBoss = False, rp_Items = [], rp_TokenReward = 0\<rparr>, sb_ConfigSnapshot = []\<rparr>"

definition sample_board :: board_row where
  "sample_board = \<lparr>br_account_id = 7, br_state = \<lparr>mb_ShopID = ''inn'', mb_CharacterID = 5, mb_NextFreeRefreshAt = 0, mb_GeneratedAt = 0,
     mb_Offers = [\<lparr>mo_SlotIndex = 1, mo_ItemID = ''ore'', mo_Quantity = 2, mo_Rarity = 1, mo_GoldPrice = 30, mo_TokenPrice = 0,
       mo_DiscountBps = 0, mo_Purchased = False\<rparr>]\<rparr>\<rparr>"

definition sample_shop :: db where
  "sample_shop = sample_db\<lparr>db_wallets := [5 \<mapsto> \<lparr>wl_gold = 100, wl_gems = 0, wl_stamina = 0\<rparr>],
     db_daily := [(5, ''inn'', 1, ''d'') \<mapsto> (7, 2)], db_boards := [(5, ''inn'') \<mapsto> sample_board]\<rparr>"

definition sample_view :: "db \<Rightarrow> int \<Rightarrow> int \<Rightarrow> EconomySnapshot" where
  "sample_view s a c = projr (snd (economySnapshot sample_pg s a c))"

lemma sample_snapshot:
  "db_characters s c = Some (sample_character a) \<Longrightarrow> db_accounts s a = Some x \<Longrightarrow>
   economySnapshot sample_pg s a c = (ensure_token a s, Inr (sample_view s a c))"
  using economySnapshot_runs [of s c "sample_character a" a sample_pg] by (auto simp: sample_view_def)

lemma sample_texts: "TrimSpace ''op3'' = ''op3''" "TrimSpace ''inn'' = ''inn''" "TrimSpace ''ore'' = ''ore''" "TrimSpace ''d'' = ''d''"
  by code_simp+

lemma sample_bought: "\<exists>t x. buy_with_gold sample_pg sample_order (begin_tx sample_shop) = (t, Inr x)"
  unfolding buy_with_gold_def
  by (simp add: statements begin_tx_def sample_shop_def sample_order_def sample_texts recordShopDailyPurchase_def daily_key_def
    ensure_wallet_def wallet_in_def debit_gold_def credit_gold_def deliverShopPurchase_def markMysteryShopOfferPurchased_def
    sample_board_def w64_def sample_snapshot [where x = True] del: fun_upd_apply set_filter cong: then_do_weak_cong)

theorem gold_purchase_effect_witness:
  "\<exists>t result. Pg_ShopBuyGold sample_pg sample_order sample_shop = (t, Inr result) \<and> gold_of t 5 = 75 \<and> bought_today t sample_order = 4"
proof -
  have fields: "sb_OpID sample_order = ''op3''" "sb_CharacterID sample_order = 5" "sb_GoldCost sample_order = 30"
      "sb_GrantGold sample_order = 5" "sb_Quantity sample_order = 2" "sb_ShopSlotIndex sample_order = 1"
      "sb_ShopID sample_order = ''inn''" "sb_ItemID sample_order = ''ore''"
    by (simp_all add: sample_order_def)
  have new: "db_idempotency sample_shop (TrimSpace (sb_OpID sample_order)) = None" by (simp add: sample_shop_def)
  have "is_ok (snd (Pg_ShopBuyGold sample_pg sample_order sample_shop))"
    using sample_bought new unfolding Pg_ShopBuyGold_def by (auto intro: runIdempotentAction_runs simp: fields sample_texts)
  then obtain t result where run: "Pg_ShopBuyGold sample_pg sample_order sample_shop = (t, Inr result)"
    by (metis is_okE prod.collapse)
  have "gold_of sample_shop 5 = 100" by (simp add: gold_of_def wallet_in_def sample_shop_def)
  moreover have "bought_today sample_shop sample_order = 2"
    by (simp add: bought_today_def daily_key_def sample_shop_def sample_order_def sample_texts)
  ultimately have "gold_of t 5 = 75 \<and> bought_today t sample_order = 4"
    using gold_purchase_effect [OF run new] by (simp add: fields)
  with run show ?thesis by blast
qed

end
