(* ===== verification/MarketProps.thy ===== *)
theory MarketProps
  imports ShopProps
begin

text \<open>
  The marketplace as an escrow: what is listed is taken out of its owner's storage and held until it is
  sold or given back. In every reachable database the things held are exactly those the open listings promise,
  so nothing is lost, nothing is sold twice, and a sale or a cancellation always finds what it hands over.
\<close>

section \<open>Holdings and promises\<close>

type_synonym asset = "string \<times> int \<times> string \<times> int \<times> int \<times> int option"

definition held_item :: "inventory_row \<Rightarrow> asset" where
  "held_item r = (''ITEM'', iv_id r, iv_item_id r, iv_quantity r, iv_character_id r, None)"

definition held_equipment :: "equipment_row \<Rightarrow> asset" where
  "held_equipment r = (''EQUIPMENT'', ew_id r, ew_item_id r, 1, coalesce 0 (ew_character_id r), Some (ew_account_id r))"

definition promised :: "MarketplaceListing \<Rightarrow> asset" where
  "promised l = (ml_AssetType l, ml_AssetID l, ml_ItemID l, ml_Quantity l, ml_SellerCharacterID l,
     if ml_AssetType l = ''EQUIPMENT'' then Some (ml_SellerAccountID l) else None)"

definition holdings :: "inventory_row list \<Rightarrow> equipment_row list \<Rightarrow> asset multiset" where
  "holdings stacks equ = mset (map held_item (listed_items stacks)) + mset (map held_equipment (listed_equipment equ))"

definition is_open :: "MarketplaceListing \<Rightarrow> bool" where
  "is_open l \<longleftrightarrow> ml_Status l = ''LISTED''"

definition promises :: "(string \<times> MarketplaceListing) list \<Rightarrow> asset multiset" where
  "promises ls = mset (map promised (filter is_open (map snd ls)))"

definition escrow :: "db \<Rightarrow> bool" where
  "escrow s \<longleftrightarrow> holdings (db_inventory s) (db_equipment s) = promises (db_listings s) \<and>
     distinct (map (ml_ID \<circ> snd) (db_listings s)) \<and>
     (\<forall>l \<in> snd ` set (db_listings s). ml_ID l \<le> db_seq s ''marketplace_listings'')"

definition market_sound :: "db \<Rightarrow> bool" where
  "market_sound s \<longleftrightarrow> storage_sound s \<and> escrow s"

lemma item_op_market: "market_sound s \<Longrightarrow> item_op s t \<Longrightarrow> market_sound t"
  by (auto simp: market_sound_def item_op_def apart_from_market_def escrow_def holdings_def intro: order_trans)

section \<open>Calls that leave goods and listings alone\<close>

definition same_goods :: "db \<Rightarrow> db \<Rightarrow> bool" where
  "same_goods b t \<longleftrightarrow> db_inventory t = db_inventory b \<and> db_equipment t = db_equipment b \<and> db_listings t = db_listings b \<and>
     db_idempotency t = db_idempotency b \<and> grows b t"

lemma same_goods_refl [simp]: "same_goods b b"
  by (simp add: same_goods_def)

lemma same_goods_trans: "same_goods a b \<Longrightarrow> same_goods b c \<Longrightarrow> same_goods a c"
  by (auto simp: same_goods_def intro: grows_trans)

lemma same_goods_other [simp]:
  "same_goods b (s\<lparr>db_ledger := x1\<rparr>) = same_goods b s" "same_goods b (s\<lparr>db_loot := x2\<rparr>) = same_goods b s"
  "same_goods b (s\<lparr>db_tokens := x3\<rparr>) = same_goods b s" "same_goods b (s\<lparr>db_catalog := x4\<rparr>) = same_goods b s"
  "same_goods b (s\<lparr>db_market_slots := x5\<rparr>) = same_goods b s" "same_goods b (s\<lparr>db_ticks := x6\<rparr>) = same_goods b s"
  "same_goods b (s\<lparr>db_wallets := x7\<rparr>) = same_goods b s" "same_goods b (s\<lparr>db_consumptions := x8\<rparr>) = same_goods b s"
  "same_goods b (s\<lparr>db_orders := x9\<rparr>) = same_goods b s" "same_goods b (s\<lparr>db_payments := x10\<rparr>) = same_goods b s"
  by (simp_all add: same_goods_def)

lemma same_goods_nextval: "same_goods b s \<Longrightarrow> same_goods b (snd (nextval x s))"
  by (auto simp: same_goods_def nextval_def grows_def intro: order_trans)

lemma ends_goods: "same_goods b (fst p) \<Longrightarrow> ends (same_goods b) b p"
  by (simp add: ends_def same_goods_def)

lemma then_do_goods:
  "same_goods b (fst p) \<Longrightarrow> (\<And>t x. p = (t, Inr x) \<Longrightarrow> same_goods b t \<Longrightarrow> same_goods b (fst (k t x))) \<Longrightarrow>
   same_goods b (fst (then_do p k))"
  by (cases p; cases "snd p") auto

lemma goods_calls:
  assumes "same_goods b s"
  shows "same_goods b (fst (s, r))" "same_goods b (fst (lockCharacter s a c))"
    "same_goods b (fst (insertEconomyLedger s a c k ref n op))" "same_goods b (fst (economySnapshot G s a c))"
    "same_goods b (fst (spendToken s a n))" "same_goods b (fst (insertSystemConsumption s op a c sp purpose n m j i))"
    "same_goods b (snd (db_now s))" "same_goods b (fst (assertPurchaseCooldown s a rules))"
    "same_goods b (fst (assertListingSlotAvailable s a rules))" "same_goods b (snd (ensureMarketSlots s a))"
    "same_goods b (fst (lockListing s n))" "same_goods b (fst (lockPaymentOrder s op))"
  using assms
  by (simp_all add: lockCharacter_def insertEconomyLedger_def economySnapshot_def ensure_token_def spendToken_def
    insertSystemConsumption_def db_now_def assertPurchaseCooldown_def assertListingSlotAvailable_def ensureMarketSlots_def
    lockListing_def lockPaymentOrder_def Let_def split: option.split sum.split prod.split list.split)

lemma goods_limits:
  assumes "same_goods b s"
  shows "same_goods b (fst (assertDailyListingCreateLimit G s a rules))" "same_goods b (fst (assertDailyCancelLimit G s a rules))"
    "same_goods b (fst (assertDailyPurchaseLimit G s a rules))"
  using assms
  by (simp_all add: assertDailyListingCreateLimit_def assertDailyCancelLimit_def assertDailyPurchaseLimit_def db_now_def then_do_def
    split: sum.split)

lemma goods_grants:
  assumes "same_goods b s"
  shows "same_goods b (fst (grantLockedTokenInTxAt s a n u))" "same_goods b (fst (pay_seller s l n op rules))"
    "same_goods b (fst (insert_order s op row))" "same_goods b (fst (insertPaymentOrder s a c p n w e d))"
proof -
  have grant: "same_goods b (fst (grantLockedTokenInTxAt s a n u))" if "same_goods b s" for s a n u
    using same_goods_nextval [OF that, of "''locked_token_records''"] that
    by (simp add: grantLockedTokenInTxAt_def Let_def ensure_token_def nextval_def)
  then show "same_goods b (fst (grantLockedTokenInTxAt s a n u))" using assms by blast
  show "same_goods b (fst (pay_seller s l n op rules))"
    unfolding pay_seller_def Let_def db_now_def prod.case
    by (intro then_do_goods grant goods_calls) (simp_all add: assms grant)
  show "same_goods b (fst (insert_order s op row))" "same_goods b (fst (insertPaymentOrder s a c p n w e d))"
    using same_goods_nextval [OF assms] by (simp_all add: insert_order_def insertPaymentOrder_def nextval_def Let_def)
qed

lemma same_goods_sound: "same_goods b t \<Longrightarrow> market_sound b \<Longrightarrow> market_sound t"
proof -
  assume g: "same_goods b t" and b: "market_sound b"
  have le: "db_seq b x \<le> db_seq t x" for x using g by (simp add: same_goods_def grows_def)
  have "iv_id r \<le> db_seq t ''inventory_items''" if "r \<in> set (db_inventory b)" for r
    using b that le order_trans by (fastforce simp: market_sound_def storage_sound_def)
  moreover have "ew_id r \<le> db_seq t ''equipment_items''" if "r \<in> set (db_equipment b)" for r
    using b that le order_trans by (fastforce simp: market_sound_def storage_sound_def)
  moreover have "ml_ID l \<le> db_seq t ''marketplace_listings''" if "l \<in> snd ` set (db_listings b)" for l
    using b that le order_trans by (fastforce simp: market_sound_def escrow_def)
  ultimately show ?thesis
    using g b by (simp add: same_goods_def market_sound_def storage_sound_def escrow_def places_def)
qed

section \<open>Taking goods and handing them over\<close>

lemma sound_stack:
  assumes "storage_sound s" "db_inventory s = us @ row # vs" "iv_id row' = iv_id row" "inventory_ok (us @ row' # vs)"
    and ok: "place_ok (places s) (inv_place row) (inv_place row')"
    and nonneg: "\<And>p. inv_place row' = Some p \<Longrightarrow> inv_place row = Some p \<or> 0 \<le> snd (snd p)"
  shows "storage_sound (s\<lparr>db_inventory := us @ row' # vs\<rparr>)"
proof -
  note sound = soundD [OF assms(1), unfolded assms(2)]
  have "distinct (List.map_filter inv_place (us @ row' # vs) @ List.map_filter equ_place (db_equipment s))"
    using places_update(1) [where xs = "[]" and g = inv_place and us = us and row = row and vs = vs and row' = row'
      and ys = "List.map_filter equ_place (db_equipment s)"] sound(5) ok by (simp add: places_def assms(2))
  moreover have "\<forall>r \<in> set (us @ row' # vs). iv_id r \<le> db_seq s ''inventory_items''" using sound(3) assms(3) by auto
  moreover have "\<forall>p \<in> set (List.map_filter inv_place (us @ row' # vs)). 0 \<le> snd (snd p)"
    using sound(6) nonneg by (fastforce simp: set_map_filter)
  ultimately show ?thesis using assms(1,4) sound(7) by (auto simp: storage_sound_def places_def)
qed

lemma sound_equipment:
  assumes "storage_sound s" "db_equipment s = us @ row # vs" "ew_id row' = ew_id row" "equipment_ok (us @ row' # vs)"
    and ok: "place_ok (places s) (equ_place row) (equ_place row')"
    and nonneg: "\<And>p. equ_place row' = Some p \<Longrightarrow> equ_place row = Some p \<or> 0 \<le> snd (snd p)"
  shows "storage_sound (s\<lparr>db_equipment := us @ row' # vs\<rparr>)"
proof -
  note sound = soundD [OF assms(1), unfolded assms(2)]
  have "distinct (List.map_filter inv_place (db_inventory s) @ List.map_filter equ_place (us @ row' # vs))"
    using places_update(1) [where ys = "[]" and g = equ_place and us = us and row = row and vs = vs and row' = row'
      and xs = "List.map_filter inv_place (db_inventory s)"] sound(5) ok by (simp add: places_def assms(2))
  moreover have "\<forall>r \<in> set (us @ row' # vs). ew_id r \<le> db_seq s ''equipment_items''" using sound(4) assms(3) by auto
  moreover have "\<forall>p \<in> set (List.map_filter equ_place (us @ row' # vs)). 0 \<le> snd (snd p)"
    using sound(7) nonneg by (fastforce simp: set_map_filter)
  ultimately show ?thesis using assms(1,4) sound(6) by (auto simp: storage_sound_def places_def)
qed

definition taken :: "db \<Rightarrow> asset \<Rightarrow> db \<Rightarrow> bool" where
  "taken b a t \<longleftrightarrow> storage_sound t \<and>
     holdings (db_inventory t) (db_equipment t) = holdings (db_inventory b) (db_equipment b) + {#a#} \<and>
     db_listings t = db_listings b \<and> db_idempotency t = db_idempotency b \<and> grows b t"

definition still :: "db \<Rightarrow> db \<Rightarrow> bool" where
  "still b t \<longleftrightarrow> storage_sound t \<and> same_goods b t"

lemma stillI: "market_sound b \<Longrightarrow> same_goods b t \<Longrightarrow> still b t"
  using same_goods_sound by (simp add: still_def market_sound_def)

lemma still_sound: "market_sound b \<Longrightarrow> same_goods b t \<Longrightarrow> storage_sound t"
  using same_goods_sound by (simp add: market_sound_def)

lemma holdings_split:
  "holdings (us @ r # vs) e = holdings (us @ vs) e + (if iv_location r = ''LISTED'' then {#held_item r#} else {#})"
  "holdings i (us' @ r' # vs') = holdings i (us' @ vs') + (if ew_location r' = ''LISTED'' then {#held_equipment r'#} else {#})"
  by (simp_all add: holdings_def listed_items_def listed_equipment_def)

lemma listed_no_place:
  "inv_place (r\<lparr>iv_location := ''LISTED'', iv_slot := k\<rparr>) = None" "equ_place (r'\<lparr>ew_location := ''LISTED'', ew_slot := k\<rparr>) = None"
  by (simp_all add: inv_place_def equ_place_def split: option.split)

lemma take_stack:
  assumes "storage_sound s" "same_goods b s" "row \<in> set (db_inventory s)" "iv_location row \<noteq> ''LISTED''"
  shows "ends (taken b (held_item row)) b
    (update_inventory s (\<lambda>r. iv_id r = iv_id row) (\<lambda>r. r\<lparr>iv_location := ''LISTED'', iv_slot := None\<rparr>))"
proof -
  let ?f = "\<lambda>r. r\<lparr>iv_location := ''LISTED'', iv_slot := None\<rparr>"
  have g: "grows b s" using assms(2) by (simp add: same_goods_def)
  have "kept s s" using assms(1) by simp
  from ids_one_row(1) [OF this, of "iv_id row"]
  show ?thesis
  proof (cases rule: modify_one [where f = ?f])
    case 1
    then show ?thesis using assms(3) by (auto simp: filter_empty_conv)
  next
    case (2 us row' vs)
    have "row' = row" using same_row(2) [OF \<open>kept s s\<close>, of row' row] 2(1,2) assms(3) by simp
    note split = 2 [unfolded this]
    have "storage_sound (s\<lparr>db_inventory := us @ ?f row # vs\<rparr>)" if "inventory_ok (us @ ?f row # vs)"
      by (rule sound_stack [OF assms(1) split(1) _ that]) (simp_all add: place_ok_def listed_no_place)
    moreover have "holdings (us @ ?f row # vs) (db_equipment s) = holdings (db_inventory b) (db_equipment b) + {#held_item row#}"
    proof -
      have "holdings (db_inventory b) (db_equipment b) = holdings (us @ vs) (db_equipment s)"
        using assms(2,4) split(1) holdings_split(1) [of us row vs] by (simp add: same_goods_def)
      then show ?thesis by (simp add: holdings_split(1) held_item_def)
    qed
    ultimately show ?thesis using g assms(2) unfolding update_inventory_outcome split(3) by (simp add: taken_def same_goods_def)
  qed
qed

lemma take_equipment:
  assumes "storage_sound s" "same_goods b s" "row \<in> set (db_equipment s)" "ew_location row \<in> {''IN_BAG'', ''IN_WAREHOUSE''}"
  shows "ends (taken b (held_equipment row)) b
    (update_equipment s (\<lambda>r. ew_id r = ew_id row \<and> ew_location r \<in> {''IN_BAG'', ''IN_WAREHOUSE''})
      (\<lambda>r. r\<lparr>ew_location := ''LISTED'', ew_slot := None\<rparr>))"
proof -
  let ?f = "\<lambda>r. r\<lparr>ew_location := ''LISTED'', ew_slot := None\<rparr>"
  let ?P = "\<lambda>r. ew_id r = ew_id row \<and> ew_location r \<in> {''IN_BAG'', ''IN_WAREHOUSE''}"
  have g: "grows b s" using assms(2) by (simp add: same_goods_def)
  have "kept s s" using assms(1) by simp
  from ids_one_row(3) [OF this, of "ew_id row" "\<lambda>r. ew_location r \<in> {''IN_BAG'', ''IN_WAREHOUSE''}"]
  show ?thesis
  proof (cases rule: modify_one [where f = ?f])
    case 1
    then show ?thesis using assms(3,4) by (auto simp: filter_empty_conv)
  next
    case (2 us row' vs)
    have "row' = row" using same_row(1) [OF \<open>kept s s\<close>, of row' row] 2(1,2) assms(3) by simp
    note split = 2 [unfolded this]
    have "storage_sound (s\<lparr>db_equipment := us @ ?f row # vs\<rparr>)" if "equipment_ok (us @ ?f row # vs)"
      by (rule sound_equipment [OF assms(1) split(1) _ that]) (simp_all add: place_ok_def listed_no_place)
    moreover have "holdings (db_inventory s) (us @ ?f row # vs) = holdings (db_inventory b) (db_equipment b) + {#held_equipment row#}"
    proof -
      have "holdings (db_inventory b) (db_equipment b) = holdings (db_inventory s) (us @ vs)"
        using assms(2,4) split(1) holdings_split(2) [of _ us row vs] by (auto simp: same_goods_def)
      then show ?thesis by (simp add: holdings_split(2) held_equipment_def)
    qed
    ultimately show ?thesis using g assms(2) unfolding update_equipment_outcome split(3) by (simp add: taken_def same_goods_def)
  qed
qed

text \<open>The rule for a chain whose continuation needs the result of the first call.\<close>

lemma ends_bind:
  "grows b (fst p) \<Longrightarrow> (\<And>t x. p = (t, Inr x) \<Longrightarrow> ends J b (k t x)) \<Longrightarrow> ends J b (then_do p k)"
  by (cases p; cases "snd p") auto

lemma ends_grows: "ends I b p \<Longrightarrow> grows b (fst p)"
  by (simp add: ends_def)

text \<open>Part of a stack: the row keeps the rest, and a new row without a slot holds what is listed.\<close>

lemma take_part:
  fixes s b row q
  defines "shrunk \<equiv> update_inventory s (\<lambda>r. iv_id r = iv_id row) (\<lambda>r. r\<lparr>iv_quantity := iv_quantity r - q\<rparr>)"
  assumes "storage_sound s" "same_goods b s" "row \<in> set (db_inventory s)" "iv_location row \<noteq> ''LISTED''"
    and run: "then_do shrunk (\<lambda>s _. insert_inventory s c i q ''LISTED'' None ''UNBOUND'') = (t, Inr n)"
  shows "taken b (''ITEM'', n, i, q, c, None) t"
proof -
  obtain s1 m where shrunk: "shrunk = (s1, Inr m)" and ins: "insert_inventory s1 c i q ''LISTED'' None ''UNBOUND'' = (t, Inr n)"
    using run by (auto simp: then_do_ok)
  have "kept s s" using assms(2) by simp
  then have k: "ends (kept s) s shrunk" unfolding shrunk_def using assms(4,5) by (intro stack_update_kept stack_change_quantity) simp_all
  then have s1: "kept s s1" by (rule endsD [OF _ shrunk])
  have same: "db_equipment s1 = db_equipment s" "db_listings s1 = db_listings s" "db_idempotency s1 = db_idempotency s" "db_seq s1 = db_seq s"
    using shrunk by (auto simp: shrunk_def update_inventory_outcome split: if_splits)
  have held: "holdings (db_inventory s1) (db_equipment s1) = holdings (db_inventory b) (db_equipment b)"
    using s1 assms(3) by (simp add: kept_def apart_from_market_def holdings_def same_goods_def)
  define row' where "row' = \<lparr>iv_id = db_seq s1 ''inventory_items'' + 1, iv_character_id = c, iv_item_id = i, iv_quantity = q,
    iv_location = ''LISTED'', iv_slot = None, iv_bind_type = ''UNBOUND''\<rparr>"
  have t: "n = db_seq s1 ''inventory_items'' + 1" "inventory_ok (db_inventory s1 @ [row'])"
      "t = s1\<lparr>db_seq := (db_seq s1)(''inventory_items'' := n), db_inventory := db_inventory s1 @ [row']\<rparr>"
    using ins by (simp_all add: insert_inventory_ok Let_def row'_def)
  note sound = soundD [OF kept_sound [OF s1]]
  have "inv_place row' = None" by (simp add: inv_place_def row'_def)
  then have "places t = places s1" by (simp add: t(3) places_def map_filter_append map_filter_Cons List.map_filter_def)
  moreover have "\<forall>r \<in> set (db_inventory t). iv_id r \<le> db_seq t ''inventory_items''"
    using sound(3) by (fastforce simp: t(3) row'_def t(1))
  ultimately have "storage_sound t" using kept_sound [OF s1] t(2) by (simp add: storage_sound_def t(3))
  moreover have "grows b t" using assms(3) by (auto simp: same_goods_def grows_def t(1,3) same intro: order_trans)
  moreover have "holdings (db_inventory s1 @ [row']) (db_equipment s1) = holdings (db_inventory s1) (db_equipment s1) + {#held_item row'#}"
    using holdings_split(1) [of "db_inventory s1" row' "[]"] by (simp add: row'_def)
  ultimately show ?thesis
    using held assms(3) same by (simp add: taken_def t(3) held_item_def row'_def t(1) same_goods_def)
qed

lemma take_part_grows:
  "grows b s \<Longrightarrow> grows b (fst (then_do (update_inventory s P f) (\<lambda>s _. insert_inventory s c i q L k bind)))"
  by (auto simp: update_inventory_outcome insert_inventory_def nextval_def put_inventory_def grows_def then_do_def Let_def
    intro: order_trans split: sum.split)

section \<open>Listing\<close>

definition market_body :: "db \<Rightarrow> db \<Rightarrow> bool" where
  "market_body b t \<longleftrightarrow> market_sound t \<and> db_idempotency t = db_idempotency b"

lemma insertListing_body:
  assumes "market_sound b" "taken b (assetType, assetID, itemID, quantity, mlq_CharacterID req,
      if assetType = ''EQUIPMENT'' then Some (mlq_AccountID req) else None) s"
  shows "ends (market_body b) b (insertListing s req assetType assetID itemID quantity deposit feeBps)"
proof -
  let ?n = "db_seq s ''marketplace_listings'' + 1"
  define row where "row = \<lparr>ml_ID = ?n, ml_SellerAccountID = mlq_AccountID req, ml_SellerCharacterID = mlq_CharacterID req,
    ml_AssetType = assetType, ml_AssetID = assetID, ml_ItemID = itemID, ml_Quantity = quantity,
    ml_PriceToken = mlq_PriceToken req, ml_ListingDepositToken = deposit, ml_FeeBps = feeBps, ml_Status = ''LISTED'',
    ml_CreatedAt = db_txnow s, ml_UpdatedAt = db_txnow s, ml_CancelledAt = None, ml_SoldAt = None\<rparr>"
  define t where "t = s\<lparr>db_seq := (db_seq s)(''marketplace_listings'' := ?n), db_listings := db_listings s @ [(mlq_OpID req, row)]\<rparr>"
  have ids: "ml_ID l \<le> db_seq s ''marketplace_listings''" if "l \<in> snd ` set (db_listings s)" for l
  proof -
    have "ml_ID l \<le> db_seq b ''marketplace_listings''"
      using assms that unfolding market_sound_def escrow_def taken_def by fastforce
    also have "\<dots> \<le> db_seq s ''marketplace_listings''" using assms(2) by (simp add: taken_def grows_def)
    finally show ?thesis .
  qed
  have "promises (db_listings t) = promises (db_listings s) + {#promised row#}"
    by (simp add: promises_def t_def is_open_def row_def)
  moreover have "promised row = (assetType, assetID, itemID, quantity, mlq_CharacterID req,
      if assetType = ''EQUIPMENT'' then Some (mlq_AccountID req) else None)" by (simp add: promised_def row_def)
  moreover have "distinct (map (ml_ID \<circ> snd) (db_listings t))"
    using ids assms by (fastforce simp: t_def row_def taken_def market_sound_def escrow_def)
  moreover have "\<forall>l \<in> snd ` set (db_listings t). ml_ID l \<le> db_seq t ''marketplace_listings''"
    using ids by (fastforce simp: t_def row_def)
  moreover have "storage_sound t" using assms(2) by (simp add: t_def taken_def storage_sound_def places_def)
  ultimately have "market_body b t"
    using assms by (simp add: market_body_def market_sound_def escrow_def taken_def) (simp add: t_def)
  moreover have g: "grows b (s\<lparr>db_seq := (db_seq s)(''marketplace_listings'' := ?n)\<rparr>)"
    using assms(2) by (auto simp: taken_def grows_def intro: order_trans)
  ultimately show ?thesis
    by (simp add: insertListing_def nextval_def row_def [symmetric] Let_def) (simp add: t_def grows_def)
qed

lemma goods_then:
  assumes "same_goods b (fst p)" "\<And>t x. p = (t, Inr x) \<Longrightarrow> same_goods b t \<Longrightarrow> ends J b (k t x)"
  shows "ends J b (then_do p k)"
  by (rule ends_then_do [OF ends_goods [OF assms(1)]]) (rule assms(2))

lemma same_grows: "same_goods b t \<Longrightarrow> grows b t"
  by (simp add: same_goods_def)

text \<open>What follows once goods and listings agree again leaves both alone.\<close>

lemma body_goods:
  assumes "market_body b s" "grows b s" "same_goods s (fst p)"
  shows "ends (market_body b) b p"
  using assms same_goods_sound [OF assms(3)] grows_trans [OF assms(2) same_grows [OF assms(3)]]
  by (simp add: ends_def market_body_def same_goods_def)

lemma then_do_assoc: "then_do (then_do p k) h = then_do p (\<lambda>s x. then_do (k s x) h)"
  by (cases p; cases "snd p") auto

lemma then_do_if: "then_do (if c then p else q) k = (if c then then_do p k else then_do q k)"
  by simp

lemma lockEquipmentForListing_body:
  assumes "market_sound b" "same_goods b s"
  shows "ends (market_body b) b (lockEquipmentForListing s req deposit feeBps)"
proof (cases "List.find (\<lambda>r. ew_account_id r = mlq_AccountID req \<and> ew_character_id r = Some (mlq_CharacterID req) \<and>
             ew_equipment_uid r = TrimSpace (mlq_EquipmentUID req)) (db_equipment s)")
  case None
  then show ?thesis using same_grows [OF assms(2)] by (simp add: lockEquipmentForListing_def Let_def)
next
  case (Some row)
  have row: "row \<in> set (db_equipment s)" "ew_account_id row = mlq_AccountID req" "ew_character_id row = Some (mlq_CharacterID req)"
    using find_SomeD [OF Some] by simp_all
  have "held_equipment row = (''EQUIPMENT'', ew_id row, ew_item_id row, 1, mlq_CharacterID req,
      if ''EQUIPMENT'' = ''EQUIPMENT'' then Some (mlq_AccountID req) else None)"
    using row by (simp add: held_equipment_def coalesce_def)
  note take = take_equipment [OF still_sound [OF assms] assms(2) row(1), unfolded this]
  show ?thesis
    unfolding lockEquipmentForListing_def Let_def Some option.case
    by (intro ends_if ends_then_do [OF ends_or_fail [OF take] insertListing_body])
      (use assms same_grows in auto)
qed

lemma lockItemForListing_body:
  assumes "market_sound b" "same_goods b s"
  shows "ends (market_body b) b (lockItemForListing G s req deposit feeBps)"
proof -
  have g: "grows b s" using assms(2) by (rule same_grows)
  define L where "L = (if ToUpper (pg_case G) (TrimSpace (mlq_SourceLocation req)) = [] then ''BAG''
    else ToUpper (pg_case G) (TrimSpace (mlq_SourceLocation req)))"
  show ?thesis
  proof (cases "List.find (row_at (mlq_CharacterID req) L (mlq_SlotIndex req)) (db_inventory s)")
    case None
    then show ?thesis using g by (simp add: lockItemForListing_def Let_def L_def [symmetric])
  next
    case (Some row)
    have row: "row \<in> set (db_inventory s)" "iv_character_id row = mlq_CharacterID req" "iv_location row = L"
      using find_SomeD [OF Some] by (simp_all add: row_at_def)
    note sound = still_sound [OF assms]
    have none: "(if ''ITEM'' = ''EQUIPMENT'' then Some (mlq_AccountID req) else None) = None" by simp
    have whole: "ends (market_body b) b (then_do (then_do (update_inventory s (\<lambda>r. iv_id r = iv_id row)
          (\<lambda>r. r\<lparr>iv_location := ''LISTED'', iv_slot := None\<rparr>)) (\<lambda>s _. (s, Inr (iv_id row)))) (\<lambda>s listedID.
        insertListing s req ''ITEM'' listedID (iv_item_id row) (mlq_Quantity req) deposit feeBps))"
      if "L \<noteq> ''LISTED''" "mlq_Quantity req = iv_quantity row"
    proof -
      have "held_item row = (''ITEM'', iv_id row, iv_item_id row, mlq_Quantity req, mlq_CharacterID req, None)"
        using row that by (simp add: held_item_def)
      note take = take_stack [OF sound assms(2) row(1), unfolded this]
      show ?thesis
        unfolding then_do_assoc then_do_simps
        by (intro ends_then_do [OF take insertListing_body]) (use assms row that in \<open>auto simp: none\<close>)
    qed
    have part: "ends (market_body b) b (then_do (then_do (update_inventory s (\<lambda>r. iv_id r = iv_id row)
          (\<lambda>r. r\<lparr>iv_quantity := iv_quantity r - mlq_Quantity req\<rparr>)) (\<lambda>s _.
          insert_inventory s (mlq_CharacterID req) (iv_item_id row) (mlq_Quantity req) ''LISTED'' None ''UNBOUND'')) (\<lambda>s listedID.
        insertListing s req ''ITEM'' listedID (iv_item_id row) (mlq_Quantity req) deposit feeBps))"
      if "L \<noteq> ''LISTED''"
    proof (rule ends_bind [OF take_part_grows [OF g] insertListing_body [OF assms(1)]])
      fix t n assume run: "then_do (update_inventory s (\<lambda>r. iv_id r = iv_id row) (\<lambda>r. r\<lparr>iv_quantity := iv_quantity r - mlq_Quantity req\<rparr>))
        (\<lambda>s _. insert_inventory s (mlq_CharacterID req) (iv_item_id row) (mlq_Quantity req) ''LISTED'' None ''UNBOUND'') = (t, Inr n)"
      show "taken b (''ITEM'', n, iv_item_id row, mlq_Quantity req, mlq_CharacterID req,
          if ''ITEM'' = ''EQUIPMENT'' then Some (mlq_AccountID req) else None) t"
        unfolding none by (rule take_part [OF sound assms(2) row(1) _ run]) (use row that in simp)
    qed
    show ?thesis
      unfolding lockItemForListing_def Let_def L_def [symmetric] Some option.case then_do_if
      by (intro ends_if whole part) (use g in auto)
  qed
qed

lemma body_snapshot:
  assumes "market_body b s" "grows b s"
  shows "ends (market_body b) b (then_do (economySnapshot G s a c) (\<lambda>s y. (s, Inr (f y))))"
  by (intro body_goods [OF assms] then_do_goods goods_calls) simp_all

lemma create_listing_body:
  assumes "market_sound b"
  shows "ends (market_body b) b (create_listing G rules req b)"
proof -
  have lock: "ends (market_body b) b (then_do (if mlq_AssetType req = ''EQUIPMENT'' then lockEquipmentForListing s req d f
             else if mlq_AssetType req = ''ITEM'' then lockItemForListing G s req d f
             else (s, Inl (ErrMsg ''assetType must be EQUIPMENT or ITEM''))) (\<lambda>s listing.
          then_do (economySnapshot G s (mlq_AccountID req) (mlq_CharacterID req)) (\<lambda>s snapshot.
          (s, Inr \<lparr>mlr_Listing = listing, mlr_Snapshot = snapshot\<rparr>))))" if s: "same_goods b s" for s d f
    using same_grows [OF s] lockEquipmentForListing_body [OF assms s] lockItemForListing_body [OF assms s]
    by (intro ends_then_do [OF _ body_snapshot] ends_if) simp_all
  show ?thesis
    unfolding create_listing_def Let_def
    by (intro ends_if lock goods_then goods_calls goods_limits) (use same_grows in simp_all)
qed

section \<open>Handing over\<close>

definition given :: "db \<Rightarrow> asset \<Rightarrow> db \<Rightarrow> bool" where
  "given b a t \<longleftrightarrow> storage_sound t \<and>
     holdings (db_inventory t) (db_equipment t) + {#a#} = holdings (db_inventory b) (db_equipment b) \<and>
     db_listings t = db_listings b \<and> db_idempotency t = db_idempotency b \<and> grows b t"

definition on_offer :: "db \<Rightarrow> MarketplaceListing \<Rightarrow> bool" where
  "on_offer b l \<longleftrightarrow> l \<in> snd ` set (db_listings b) \<and> is_open l"

lemma offered_held:
  assumes "market_sound b" "on_offer b l"
  shows "promised l \<in># holdings (db_inventory b) (db_equipment b)"
proof -
  have "promised l \<in># promises (db_listings b)" using assms(2) by (auto simp: on_offer_def promises_def)
  then show ?thesis using assms(1) by (simp add: market_sound_def escrow_def)
qed

text \<open>So the thing an open listing offers is there, and it is what the listing says.\<close>

lemma offered_stack:
  assumes "market_sound b" "on_offer b l" "ml_AssetType l = ''ITEM''"
  obtains row where "row \<in> set (db_inventory b)" "iv_location row = ''LISTED''" "held_item row = promised l" "iv_id row = ml_AssetID l"
  using offered_held [OF assms(1,2)] assms(3)
  by (auto simp: holdings_def listed_items_def listed_equipment_def held_item_def held_equipment_def promised_def)

lemma offered_equipment:
  assumes "market_sound b" "on_offer b l" "ml_AssetType l = ''EQUIPMENT''"
  obtains row where "row \<in> set (db_equipment b)" "ew_location row = ''LISTED''" "held_equipment row = promised l"
    "ew_id row = ml_AssetID l" "ew_account_id row = ml_SellerAccountID l"
  using offered_held [OF assms(1,2)] assms(3)
  by (auto simp: holdings_def listed_items_def listed_equipment_def held_item_def held_equipment_def promised_def)

lemma give_stack:
  assumes "market_sound b" "same_goods b s" "row \<in> set (db_inventory s)" "iv_location row = ''LISTED''"
    and P: "P row" "\<And>r. P r \<Longrightarrow> iv_id r = iv_id row"
    and f: "iv_id (f row) = iv_id row" "iv_location (f row) = ''BAG''" "iv_character_id (f row) = c" "iv_slot (f row) = Some k"
    and free: "(c, ''BAG'', k) \<notin> set (places s)" "0 \<le> k"
  shows "ends (given b (held_item row)) b (update_inventory s P f)"
proof -
  note s = still_sound [OF assms(1,2)]
  have g: "grows b s" using assms(2) by (rule same_grows)
  have "distinct (map iv_id (db_inventory s))" using s by (simp add: storage_sound_def inventory_ok_def)
  then have "one_row P (db_inventory s)" by (rule one_row_key) (rule P)
  then show ?thesis
  proof (cases rule: modify_one [where f = f])
    case 1
    then show ?thesis using assms(3) P(1) by (auto simp: filter_empty_conv)
  next
    case (2 us row' vs)
    have "kept s s" "row' \<in> set (db_inventory s)" using s 2(1) by simp_all
    then have "row' = row" using same_row(2) [OF _ _ assms(3) P(2)] 2(2) by blast
    note split = 2 [unfolded this]
    have place: "inv_place (f row) = Some (c, ''BAG'', k)" using f by (simp add: inv_place_def)
    have "storage_sound (s\<lparr>db_inventory := us @ f row # vs\<rparr>)" if "inventory_ok (us @ f row # vs)"
      by (rule sound_stack [OF s split(1) f(1) that]) (use free in \<open>simp_all add: place_ok_def place\<close>)
    moreover have "holdings (us @ f row # vs) (db_equipment s) + {#held_item row#} = holdings (db_inventory b) (db_equipment b)"
    proof -
      have "holdings (us @ row # vs) (db_equipment s) = holdings (us @ vs) (db_equipment s) + {#held_item row#}"
        using assms(4) by (simp add: holdings_split(1))
      moreover have "holdings (us @ f row # vs) (db_equipment s) = holdings (us @ vs) (db_equipment s)"
        using f(2) by (simp add: holdings_split(1))
      ultimately show ?thesis using assms(2) by (simp add: same_goods_def split(1))
    qed
    ultimately show ?thesis using g assms(2) unfolding update_inventory_outcome split(3) by (simp add: given_def same_goods_def)
  qed
qed

lemma give_equipment:
  assumes "market_sound b" "same_goods b s" "row \<in> set (db_equipment s)" "ew_location row = ''LISTED''"
    and P: "P row" "\<And>r. P r \<Longrightarrow> ew_id r = ew_id row"
    and f: "ew_id (f row) = ew_id row" "ew_location (f row) = ''IN_BAG''" "ew_character_id (f row) = Some c" "ew_slot (f row) = Some k"
    and free: "(c, ''BAG'', k) \<notin> set (places s)" "0 \<le> k"
  shows "ends (given b (held_equipment row)) b (update_equipment s P f)"
proof -
  note s = still_sound [OF assms(1,2)]
  have g: "grows b s" using assms(2) by (rule same_grows)
  have "distinct (map ew_id (db_equipment s))" using s by (simp add: storage_sound_def equipment_ok_def)
  then have "one_row P (db_equipment s)" by (rule one_row_key) (rule P)
  then show ?thesis
  proof (cases rule: modify_one [where f = f])
    case 1
    then show ?thesis using assms(3) P(1) by (auto simp: filter_empty_conv)
  next
    case (2 us row' vs)
    have "kept s s" "row' \<in> set (db_equipment s)" using s 2(1) by simp_all
    then have "row' = row" using same_row(1) [OF _ _ assms(3) P(2)] 2(2) by blast
    note split = 2 [unfolded this]
    have place: "equ_place (f row) = Some (c, ''BAG'', k)" using f by (simp add: equ_place_def)
    have "storage_sound (s\<lparr>db_equipment := us @ f row # vs\<rparr>)" if "equipment_ok (us @ f row # vs)"
      by (rule sound_equipment [OF s split(1) f(1) that]) (use free in \<open>simp_all add: place_ok_def place\<close>)
    moreover have "holdings (db_inventory s) (us @ f row # vs) + {#held_equipment row#} = holdings (db_inventory b) (db_equipment b)"
    proof -
      have "holdings (db_inventory s) (us @ row # vs) = holdings (db_inventory s) (us @ vs) + {#held_equipment row#}"
        using assms(4) by (simp add: holdings_split(2))
      moreover have "holdings (db_inventory s) (us @ f row # vs) = holdings (db_inventory s) (us @ vs)"
        using f(2) by (simp add: holdings_split(2))
      ultimately show ?thesis using assms(2) by (simp add: same_goods_def split(1))
    qed
    ultimately show ?thesis using g assms(2) unfolding update_equipment_outcome split(3) by (simp add: given_def same_goods_def)
  qed
qed

lemma goods_resolve:
  assumes "same_goods b s" "L \<in> {''BAG'', ''WAREHOUSE''}"
    and "\<And>k. (c, L, k) \<notin> set (places s) \<Longrightarrow> 0 \<le> k \<Longrightarrow> ends J b (f s k)"
  shows "ends J b (then_do (s, resolveStorageSlot s c L n) f)"
  using assms same_grows by (cases "resolveStorageSlot s c L n") (auto dest: resolveStorageSlot_free)

lemma transferListedAssetToBuyer_gives:
  assumes "market_sound b" "same_goods b s" "on_offer b l"
  shows "ends (given b (promised l)) b (transferListedAssetToBuyer s l a c)"
proof -
  have same: "db_inventory s = db_inventory b" "db_equipment s = db_equipment b" using assms(2) by (simp_all add: same_goods_def)
  have item: "ends (given b (promised l)) b (update_inventory s (\<lambda>r. iv_id r = ml_AssetID l \<and> iv_location r = ''LISTED'')
          (\<lambda>r. r\<lparr>iv_character_id := c, iv_location := ''BAG'', iv_slot := Some k\<rparr>))"
    if k: "ml_AssetType l = ''ITEM''" "(c, ''BAG'', k) \<notin> set (places s)" "0 \<le> k" for k
  proof -
    obtain row where row: "row \<in> set (db_inventory s)" "iv_location row = ''LISTED''" "held_item row = promised l" "iv_id row = ml_AssetID l"
      using offered_stack [OF assms(1,3) k(1)] by (metis same(1))
    show ?thesis
      by (rule give_stack [OF assms(1,2) row(1,2), unfolded row(3), where c = c and k = k]) (use row k in simp_all)
  qed
  have equipment: "ends (given b (promised l)) b (update_equipment s (\<lambda>r. ew_id r = ml_AssetID l \<and> ew_location r = ''LISTED'')
          (\<lambda>r. r\<lparr>ew_account_id := a, ew_character_id := Some c, ew_location := ''IN_BAG'', ew_slot := Some k\<rparr>))"
    if k: "ml_AssetType l = ''EQUIPMENT''" "(c, ''BAG'', k) \<notin> set (places s)" "0 \<le> k" for k
  proof -
    obtain row where row: "row \<in> set (db_equipment s)" "ew_location row = ''LISTED''" "held_equipment row = promised l" "ew_id row = ml_AssetID l"
      using offered_equipment [OF assms(1,3) k(1)] by (metis same(2))
    show ?thesis
      by (rule give_equipment [OF assms(1,2) row(1,2), unfolded row(3), where c = c and k = k]) (use row k in simp_all)
  qed
  show ?thesis
    unfolding transferListedAssetToBuyer_def
    by (intro ends_if goods_resolve ends_or_fail item equipment) (use assms(2) same_grows in auto)
qed

lemma returnListedAssetToSellerBag_gives:
  assumes "market_sound b" "same_goods b s" "on_offer b l"
  shows "ends (given b (promised l)) b (returnListedAssetToSellerBag s l)"
proof -
  let ?c = "ml_SellerCharacterID l"
  have same: "db_inventory s = db_inventory b" "db_equipment s = db_equipment b" using assms(2) by (simp_all add: same_goods_def)
  have item: "ends (given b (promised l)) b (update_inventory s (\<lambda>r. iv_id r = ml_AssetID l \<and> iv_location r = ''LISTED'')
          (\<lambda>r. r\<lparr>iv_character_id := ?c, iv_location := ''BAG'', iv_slot := Some k\<rparr>))"
    if k: "ml_AssetType l = ''ITEM''" "(?c, ''BAG'', k) \<notin> set (places s)" "0 \<le> k" for k
  proof -
    obtain row where row: "row \<in> set (db_inventory s)" "iv_location row = ''LISTED''" "held_item row = promised l" "iv_id row = ml_AssetID l"
      using offered_stack [OF assms(1,3) k(1)] by (metis same(1))
    show ?thesis
      by (rule give_stack [OF assms(1,2) row(1,2), unfolded row(3), where c = ?c and k = k]) (use row k in simp_all)
  qed
  have equipment: "ends (given b (promised l)) b (update_equipment s
          (\<lambda>r. ew_id r = ml_AssetID l \<and> ew_location r = ''LISTED'' \<and> ew_account_id r = ml_SellerAccountID l)
          (\<lambda>r. r\<lparr>ew_location := ''IN_BAG'', ew_slot := Some k, ew_character_id := Some ?c\<rparr>))"
    if k: "ml_AssetType l = ''EQUIPMENT''" "(?c, ''BAG'', k) \<notin> set (places s)" "0 \<le> k" for k
  proof -
    obtain row where row: "row \<in> set (db_equipment s)" "ew_location row = ''LISTED''" "held_equipment row = promised l" "ew_id row = ml_AssetID l"
        "ew_account_id row = ml_SellerAccountID l"
      using offered_equipment [OF assms(1,3) k(1)] by (metis same(2))
    show ?thesis
      by (rule give_equipment [OF assms(1,2) row(1,2), unfolded row(3), where c = ?c and k = k]) (use row k in simp_all)
  qed
  show ?thesis
    unfolding returnListedAssetToSellerBag_def
    by (intro ends_if goods_resolve ends_or_fail item equipment) (use assms(2) same_grows in auto)
qed

text \<open>Closing the listing restores the balance.\<close>

lemma close_listing_body:
  assumes "market_sound b" "given b (promised l) s" "on_offer b l" "ml_ID (f l) = ml_ID l" "\<not> is_open (f l)"
  shows "ends (market_body b) b (close_listing s (ml_ID l) f)"
proof -
  have sound: "storage_sound s" "grows b s" "db_listings s = db_listings b" "db_idempotency s = db_idempotency b"
    and held: "holdings (db_inventory s) (db_equipment s) + {#promised l#} = promises (db_listings b)"
    using assms(1,2) by (simp_all add: given_def market_sound_def escrow_def)
  have ids: "distinct (map (ml_ID \<circ> snd) (db_listings b))" "\<forall>l \<in> snd ` set (db_listings b). ml_ID l \<le> db_seq b ''marketplace_listings''"
    using assms(1) by (simp_all add: market_sound_def escrow_def)
  obtain us op vs where split: "db_listings b = us @ (op, l) # vs"
    using assms(3) unfolding on_offer_def by (metis (no_types, lifting) image_iff prod.collapse split_list)
  let ?g = "\<lambda>l'. if ml_ID l' = ml_ID l \<and> ml_Status l' = ''LISTED'' then f l' else l'"
  have open_l: "is_open l" "ml_Status l = ''LISTED''" using assms(3) by (simp_all add: on_offer_def is_open_def)
  have other: "ml_ID (snd x) \<noteq> ml_ID l" if "x \<in> set us \<union> set vs" for x
    using that ids(1) by (auto simp: split image_iff)
  have "apsnd ?g x = x" if "x \<in> set us \<union> set vs" for x
    using other [OF that] by (cases x) simp
  then have rest: "map (apsnd ?g) us = us" "map (apsnd ?g) vs = vs" by (auto intro!: map_idI)
  have new: "map (apsnd ?g) (db_listings b) = us @ (op, f l) # vs" using rest by (simp add: split open_l)
  define t where "t = s\<lparr>db_listings := us @ (op, f l) # vs\<rparr>"
  have "promises (db_listings b) = promises (us @ (op, f l) # vs) + {#promised l#}"
    using assms(5) open_l by (simp add: promises_def split)
  then have "holdings (db_inventory t) (db_equipment t) = promises (db_listings t)" using held by (simp add: t_def)
  moreover have "distinct (map (ml_ID \<circ> snd) (db_listings t))" using ids(1) assms(4) by (simp add: t_def split)
  moreover have "\<forall>l \<in> snd ` set (db_listings t). ml_ID l \<le> db_seq t ''marketplace_listings''"
  proof -
    have "db_seq b ''marketplace_listings'' \<le> db_seq t ''marketplace_listings''" using sound(2) by (simp add: t_def grows_def)
    moreover have "ml_ID l' \<le> db_seq b ''marketplace_listings''" if "l' \<in> snd ` set (db_listings t)" for l'
      using that ids(2) assms(4) unfolding t_def split by auto
    ultimately show ?thesis by (meson order_trans)
  qed
  moreover have "storage_sound t" using sound(1) by (simp add: t_def storage_sound_def places_def)
  ultimately have "market_body b t" using sound(4) by (simp add: market_body_def market_sound_def escrow_def) (simp add: t_def)
  then show ?thesis using sound(2) by (simp add: close_listing_def Let_def sound(3) new t_def)
qed

lemma given_ticks [simp]: "given b a (s\<lparr>db_ticks := x\<rparr>) = given b a s"
  by (simp add: given_def storage_sound_def places_def grows_def)

lemma market_body_ticks [simp]: "market_body b (s\<lparr>db_ticks := x\<rparr>) = market_body b s"
  by (simp add: market_body_def market_sound_def escrow_def storage_sound_def places_def)

lemma lockListing_offer:
  assumes "same_goods b s" "lockListing s n = (t, Inr l)"
  shows "t = s" "l \<in> snd ` set (db_listings b)"
  using assms by (auto simp: lockListing_def same_goods_def dest!: find_SomeD split: option.splits)

lemma order_tail:
  assumes "market_body b s" "grows b s"
  shows "ends (market_body b) b (then_do (insert_order s op row) (\<lambda>s x. then_do (economySnapshot G s a c) (\<lambda>s y. (s, Inr (f x y)))))"
  by (intro body_goods [OF assms] then_do_goods goods_calls goods_grants) simp_all

lemma ledger_tail:
  assumes "market_body b s" "grows b s"
  shows "ends (market_body b) b (then_do (if d then insertEconomyLedger s a c k ref n op else (s, Inr ()))
    (\<lambda>s _. then_do (economySnapshot G s a c) (\<lambda>s y. (s, Inr (f y)))))"
  unfolding then_do_if by (intro ends_if; intro body_goods [OF assms] then_do_goods goods_calls) simp_all

lemma sale_chain:
  assumes "market_sound b" "same_goods b s" "on_offer b l" "\<And>now. ml_ID (f now l) = ml_ID l \<and> \<not> is_open (f now l)"
    and tail: "\<And>now s. market_body b s \<Longrightarrow> grows b s \<Longrightarrow> ends (market_body b) b (k now s)"
    and give: "ends (given b (promised l)) b p"
  shows "ends (market_body b) b (then_do p (\<lambda>s _. case db_now s of (now, s) \<Rightarrow>
    then_do (or_fail (close_listing s (ml_ID l) (f now)) e) (\<lambda>s _. k now s)))"
  unfolding db_now_def prod.case
  by (intro ends_then_do [OF give] ends_then_do [OF ends_or_fail [OF close_listing_body [OF assms(1) _ assms(3)]] tail])
    (use assms(4) in simp_all)

lemma buy_listing_body:
  assumes "market_sound b"
  shows "ends (market_body b) b (buy_listing G rules req b)"
proof -
  note finish = sale_chain [OF assms, where f = "\<lambda>now l. l\<lparr>ml_Status := ''SOLD'', ml_SoldAt := Some now, ml_UpdatedAt := now\<rparr>",
    OF _ _ _ order_tail transferListedAssetToBuyer_gives [OF assms]]
  show ?thesis
    unfolding buy_listing_def Let_def
    by (intro ends_if finish goods_then goods_calls goods_grants goods_limits) (use same_grows lockListing_offer in \<open>auto simp: on_offer_def is_open_def\<close>)
qed

lemma cancel_listing_body:
  assumes "market_sound b"
  shows "ends (market_body b) b (cancel_listing G rules req b)"
proof -
  note finish = sale_chain [OF assms, where f = "\<lambda>now l. l\<lparr>ml_Status := ''CANCELLED'', ml_CancelledAt := Some now, ml_UpdatedAt := now\<rparr>",
    OF _ _ _ ledger_tail returnListedAssetToSellerBag_gives [OF assms]]
  show ?thesis
    unfolding cancel_listing_def Let_def
    by (intro ends_if finish goods_then goods_calls goods_grants goods_limits) (use same_grows lockListing_offer in \<open>auto simp: on_offer_def is_open_def\<close>)
qed

section \<open>Operations as a whole\<close>

definition market_op :: "db \<Rightarrow> db \<Rightarrow> bool" where
  "market_op s t \<longleftrightarrow> market_sound t \<and> db_idempotency s \<subseteq>\<^sub>m db_idempotency t"

lemma item_market_op: "market_sound s \<Longrightarrow> item_op s t \<Longrightarrow> market_op s t"
  using item_op_market by (simp add: market_op_def item_op_def)

lemma market_sound_other [simp]:
  "market_sound (begin_tx s) = market_sound s" "market_sound (s\<lparr>db_idempotency := x\<rparr>) = market_sound s"
  by (simp_all add: begin_tx_def market_sound_def escrow_def storage_sound_def places_def)

lemma body_market_op:
  assumes body: "\<And>b. market_sound b \<Longrightarrow> ends (market_body b) b (run b)" and s: "market_sound s"
  shows "market_op s (fst (runIdempotentAction G wrap unwrap scope op a c req run s))"
proof -
  have ran: "ends (market_body (begin_tx s)) (begin_tx s) (run (begin_tx s))" using body s by simp
  then have "grows s (fst (run (begin_tx s)))" by (simp add: ends_def grows_def begin_tx_def)
  then show ?thesis
  proof (cases rule: runIdempotentAction_cases
      [where G = G and wrap = wrap and unwrap = unwrap and scope = scope and op = op and a = a and c = c and req = req])
    case unchanged
    then show ?thesis using s by (intro item_market_op same_tables_item_op) (simp_all add: market_sound_def)
  next
    case (ran t x)
    then have "market_body (begin_tx s) t" using endsD [OF \<open>ends _ _ _\<close>] by blast
    then show ?thesis using ran by (auto simp: market_op_def market_body_def map_le_def begin_tx_def)
  qed
qed

lemma goods_market_op:
  assumes "\<And>b. same_goods b (fst (run b))" "market_sound s"
  shows "market_op s (fst (runIdempotentAction G wrap unwrap scope op a c req run s))"
  by (intro body_market_op assms(2) body_goods [OF _ _ assms(1)]) (simp_all add: market_body_def)

lemma Pg_Marketplace_sound:
  assumes "market_sound s"
  shows "market_op s (fst (Pg_MarketplaceCreateListing G req1 s))" "market_op s (fst (Pg_MarketplaceBuy G req2 s))"
    "market_op s (fst (Pg_MarketplaceCancel G req3 s))"
  unfolding Pg_MarketplaceCreateListing_def Pg_MarketplaceBuy_def Pg_MarketplaceCancel_def Let_def
  by (intro body_market_op create_listing_body buy_listing_body cancel_listing_body assms; assumption)+

lemma goods_if: "(c \<Longrightarrow> same_goods b (fst p)) \<Longrightarrow> (\<not> c \<Longrightarrow> same_goods b (fst q)) \<Longrightarrow> same_goods b (fst (if c then p else q))"
  by simp

lemma goods_option:
  "(x = None \<Longrightarrow> same_goods b (fst p)) \<Longrightarrow> (\<And>y. x = Some y \<Longrightarrow> same_goods b (fst (q y))) \<Longrightarrow>
   same_goods b (fst (case x of None \<Rightarrow> p | Some y \<Rightarrow> q y))"
  by (simp split: option.split)

lemma goods_or_fail: "same_goods b (fst p) \<Longrightarrow> same_goods b (fst (or_fail p e))"
  unfolding or_fail_def by (erule then_do_goods) simp

lemmas goods_steps = goods_if goods_option then_do_goods goods_or_fail goods_calls goods_grants

lemma Pg_payments_sound:
  assumes "market_sound s"
  shows "market_op s (fst (Pg_MarketplaceExpandWalletSlots G req1 s))" "market_op s (fst (Pg_CreateBagExpandPayment G req2 s))"
    "market_op s (fst (Pg_CreateTradingLicensePayment G req2 s))"
  unfolding Pg_MarketplaceExpandWalletSlots_def Pg_CreateBagExpandPayment_def Pg_CreateTradingLicensePayment_def
    Let_def db_now_def ensureMarketSlots_def prod.case
  by (intro goods_market_op goods_steps assms; simp)+

lemma Pg_MarketplaceSubmitWalletExpandPayment_sound:
  "market_sound s \<Longrightarrow> market_op s (fst (Pg_MarketplaceSubmitWalletExpandPayment G req s))"
  unfolding Pg_MarketplaceSubmitWalletExpandPayment_def Let_def db_now_def prod.case
  by (intro goods_market_op goods_steps; simp)

lemma Pg_CreateShopBuyPayment_sound: "market_sound s \<Longrightarrow> market_op s (fst (Pg_CreateShopBuyPayment G req s))"
  unfolding Pg_CreateShopBuyPayment_def if_distrib [of fst] Let_def db_now_def prod.case
  by (simp add: market_op_def) (intro impI goods_market_op [unfolded market_op_def] goods_steps; simp)

lemma Pg_MarketplaceSlots_sound: "market_sound s \<Longrightarrow> market_op s (fst (Pg_MarketplaceSlots a rules s))"
proof -
  assume s: "market_sound s"
  have "same_goods (begin_tx s) (fst (Pg_MarketplaceSlots a rules s))"
    by (simp add: Pg_MarketplaceSlots_def ensureMarketSlots_def Let_def)
  then show ?thesis
    using s same_goods_sound [of "begin_tx s"] by (simp add: market_op_def) (simp add: same_goods_def begin_tx_def)
qed

lemma Pg_MarketplaceExpandMaterialSlots_kept:
  "storage_sound s \<Longrightarrow> item_op s (fst (Pg_MarketplaceExpandMaterialSlots G req s))"
  unfolding Pg_MarketplaceExpandMaterialSlots_def Let_def ensureMarketSlots_def prod.case
  by (intro body_item_op body_keptI ends_if ends_then_do [OF lockCharacter_kept] ends_then_do [OF consumeBagItem_kept]
    ends_then_do [OF insertEconomyLedger_kept] ends_then_do [OF economySnapshot_kept]; simp)

section \<open>Every history of the database\<close>

inductive db_step :: "pg \<Rightarrow> db \<Rightarrow> db \<Rightarrow> bool" for G where
  deposit: "db_step G s (fst (Pg_WarehouseDeposit G req s))"
| withdraw: "db_step G s (fst (Pg_WarehouseWithdraw G req s))"
| equip: "db_step G s (fst (Pg_EquipItem G req s))"
| unequip: "db_step G s (fst (Pg_UnequipItem G req s))"
| loot_claim: "db_step G s (fst (Pg_LootClaim G loot s))"
| loot_claim_all: "db_step G s (fst (Pg_LootClaimAll G loot s))"
| loot_discard: "db_step G s (fst (Pg_LootDiscard G loot s))"
| discard: "db_step G s (fst (Pg_InventoryDiscard G thrown s))"
| organize_bag: "permutes arrange \<Longrightarrow> db_step G s (fst (Pg_InventoryOrganize G arrange req n s))"
| organize_warehouse: "permutes arrange \<Longrightarrow> db_step G s (fst (Pg_WarehouseOrganize G arrange req n s))"
| rewards: "applyRewardsToBag G (begin_tx s) a c op source plan = (t, Inr out) \<Longrightarrow> db_step G s t"
| shop_buy: "db_step G s (fst (Pg_ShopBuyGold G order s))"
| shop_sell: "db_step G s (fst (Pg_ShopSell G sale s))"
| shop_payment: "db_step G s (fst (Pg_CreateShopBuyPayment G order s))"
| refresh: "db_step G s (fst (Pg_RefreshMysteryShop G board s))"
| enhance: "db_step G s (fst (Pg_EquipmentEnhance G work s))"
| recycle: "db_step G s (fst (Pg_EquipmentNPCRecycle G scrap s))"
| repair: "db_step G s (fst (Pg_EquipmentRepair G damage s))"
| purge: "db_step G s (fst (Pg_PurgeExpiredNPCRecycledEquipment now n s))"
| wear: "wearEquippedGear (begin_tx s) a c points d = (t, Inr u) \<Longrightarrow> db_step G s t"
| list_asset: "db_step G s (fst (Pg_MarketplaceCreateListing G listing s))"
| buy: "db_step G s (fst (Pg_MarketplaceBuy G purchase s))"
| cancel: "db_step G s (fst (Pg_MarketplaceCancel G cancellation s))"
| expand_material: "db_step G s (fst (Pg_MarketplaceExpandMaterialSlots G slots s))"
| expand_wallet: "db_step G s (fst (Pg_MarketplaceExpandWalletSlots G slots s))"
| show_slots: "db_step G s (fst (Pg_MarketplaceSlots a rules s))"
| bag_payment: "db_step G s (fst (Pg_CreateBagExpandPayment G growth s))"
| license_payment: "db_step G s (fst (Pg_CreateTradingLicensePayment G growth s))"
| submit_payment: "db_step G s (fst (Pg_MarketplaceSubmitWalletExpandPayment G payment s))"

lemmas item_steps = Pg_WarehouseDeposit_kept Pg_WarehouseWithdraw_kept Pg_EquipItem_kept Pg_UnequipItem_kept Pg_LootClaim_kept
  Pg_LootClaimAll_kept Pg_LootDiscard_kept Pg_InventoryDiscard_kept Pg_Organize_kept rewards_kept Pg_MarketplaceExpandMaterialSlots_kept
  Pg_ShopBuyGold_kept Pg_ShopSell_kept Pg_RefreshMysteryShop_kept Pg_EquipmentEnhance_kept Pg_EquipmentNPCRecycle_kept
  Pg_EquipmentRepair_kept Pg_PurgeExpiredNPCRecycledEquipment_kept wear_kept

lemmas market_steps = Pg_Marketplace_sound Pg_payments_sound Pg_MarketplaceSubmitWalletExpandPayment_sound Pg_MarketplaceSlots_sound
  Pg_CreateShopBuyPayment_sound

lemma db_step_sound:
  assumes "market_sound s" "db_step G s t"
  shows "market_op s t"
proof -
  have "storage_sound s" using assms(1) by (simp add: market_sound_def)
  note item = item_steps [OF this, THEN item_market_op [OF assms(1)]] and market = market_steps [OF assms(1)]
  show ?thesis using assms(2) by cases (use item market in auto)
qed

text \<open>A database in which nothing has been traded: whatever is owned lies in slots of its own.\<close>

definition before_trading :: "db \<Rightarrow> bool" where
  "before_trading s \<longleftrightarrow> storage_sound s \<and> listed_items (db_inventory s) = [] \<and> listed_equipment (db_equipment s) = [] \<and> db_listings s = []"

lemma before_trading_sound: "before_trading s \<Longrightarrow> market_sound s"
  by (simp add: before_trading_def market_sound_def escrow_def holdings_def promises_def)

interpretation goods: machine before_trading "db_step G" market_sound for G
  by unfold_locales (use before_trading_sound db_step_sound in \<open>auto simp: market_op_def\<close>)

section \<open>What is on offer can be handed over\<close>

lemma first_free_finds:
  "m \<in> {k..<k + int n} \<Longrightarrow> (c, L, m) \<notin> set (places s) \<Longrightarrow> L \<in> {''BAG'', ''WAREHOUSE''} \<Longrightarrow>
   \<exists>j. first_free s c L n k = Inr j \<and> j \<in> {k..<k + int n}"
proof (induction n arbitrary: k)
  case (Suc n)
  show ?case
  proof (cases "(c, L, k) \<in> set (places s)")
    case True
    then have "m \<in> {k + 1..<k + 1 + int n}" using Suc.prems(1,2) by (cases "m = k") auto
    from Suc.IH [OF this Suc.prems(2,3)] show ?thesis
      using True Suc.prems(3) by (subst first_free.simps) (auto simp: storageSlotFree_iff)
  next
    case False
    then show ?thesis using Suc.prems(3) by (subst first_free.simps) (simp add: storageSlotFree_iff)
  qed
qed simp

definition room_in_bag :: "db \<Rightarrow> int \<Rightarrow> bool" where
  "room_in_bag s c \<longleftrightarrow> (\<exists>k \<in> {0..<1000}. (c, ''BAG'', k) \<notin> set (places s))"

lemma room_resolves:
  assumes "room_in_bag s c"
  obtains k where "resolveStorageSlot s c ''BAG'' (- 1) = Inr k" "0 \<le> k" "k < 1000" "(c, ''BAG'', k) \<notin> set (places s)"
proof -
  obtain m where m: "m \<in> {0..<0 + int 1000}" "(c, ''BAG'', m) \<notin> set (places s)" using assms by (auto simp: room_in_bag_def)
  obtain k where k: "first_free s c ''BAG'' 1000 0 = Inr k" "k \<in> {0..<0 + int 1000}"
    using first_free_finds [OF m] by auto
  then have "resolveStorageSlot s c ''BAG'' (- 1) = Inr k" by (simp add: resolveStorageSlot_def)
  with k show ?thesis using that resolveStorageSlot_free [of s c "''BAG''" "- 1" k] by simp
qed

lemma distinct_replace:
  assumes "distinct (map key (filter Q (us @ r # vs)))" "Q r' \<Longrightarrow> \<forall>x \<in> set us \<union> set vs. key x \<noteq> key r'"
  shows "distinct (map key (filter Q (us @ r' # vs)))"
proof -
  have "distinct (map key (filter Q us @ filter Q vs))" using assms(1) by (auto split: if_splits)
  moreover have "key r' \<notin> key ` set (filter Q us @ filter Q vs)" if "Q r'" using assms(2) [OF that] by force
  ultimately show ?thesis by (cases "Q r'") (simp_all add: image_Un)
qed

lemma stack_delivered:
  assumes s: "storage_sound s" and row: "row \<in> set (db_inventory s)"
    and P: "P row" "\<And>r. P r \<Longrightarrow> iv_id r = iv_id row"
    and f: "f row = row\<lparr>iv_character_id := c, iv_location := ''BAG'', iv_slot := Some k\<rparr>"
    and free: "(c, ''BAG'', k) \<notin> set (places s)" "0 \<le> k" "k < 1000"
  shows "\<exists>u. or_fail (update_inventory s P f) e = (u, Inr ()) \<and> f row \<in> set (db_inventory u)"
proof -
  have ok: "inventory_ok (db_inventory s)" using s by (simp add: storage_sound_def)
  then have "distinct (map iv_id (db_inventory s))" by (simp add: inventory_ok_def)
  then have "one_row P (db_inventory s)" by (rule one_row_key) (rule P)
  then show ?thesis
  proof (cases rule: modify_one [where f = f])
    case 1
    then show ?thesis using row P(1) by (auto simp: filter_empty_conv)
  next
    case (2 us row' vs)
    have "kept s s" "row' \<in> set (db_inventory s)" using s 2(1) by simp_all
    then have "row' = row" using same_row(2) [OF _ _ row P(2)] 2(2) by blast
    note split = 2 [unfolded this]
    have other: "(iv_character_id r, iv_location r, iv_slot r) \<noteq> (c, ''BAG'', Some k)" if "r \<in> set us \<union> set vs" for r
    proof
      assume at: "(iv_character_id r, iv_location r, iv_slot r) = (c, ''BAG'', Some k)"
      then have "inv_place r = Some (c, ''BAG'', k)" by (simp add: inv_place_def)
      then have "(c, ''BAG'', k) \<in> set (places s)" using that split(1) by (auto simp: places_def set_map_filter)
      with free(1) show False by simp
    qed
    have "distinct (map iv_id (us @ f row # vs))" using ok by (simp add: inventory_ok_def split(1) f)
    moreover have "\<forall>r \<in> set (us @ f row # vs). stack_ok r"
      using ok free(2,3) by (simp add: inventory_ok_def split(1) f stack_ok_def int4_def)
    moreover have "distinct (map (\<lambda>r. (iv_character_id r, iv_location r, iv_slot r)) (filter in_slot (us @ f row # vs)))"
      by (rule distinct_replace [where r = row]) (use ok other in \<open>simp_all add: inventory_ok_def split(1) f\<close>)
    ultimately have "inventory_ok (us @ f row # vs)" by (simp only: inventory_ok_def)
    then show ?thesis by (simp add: or_fail_def update_inventory_outcome split(3,4))
  qed
qed

lemma equipment_delivered:
  assumes s: "storage_sound s" and row: "row \<in> set (db_equipment s)"
    and P: "P row" "\<And>r. P r \<Longrightarrow> ew_id r = ew_id row"
    and f: "ew_id (f row) = ew_id row" "ew_equipment_uid (f row) = ew_equipment_uid row" "ew_equip_slot (f row) = ew_equip_slot row"
      "ew_location (f row) = ''IN_BAG''" "ew_character_id (f row) = Some c" "ew_slot (f row) = Some k"
    and free: "(c, ''BAG'', k) \<notin> set (places s)" "0 \<le> k" "k < 1000"
  shows "\<exists>u. or_fail (update_equipment s P f) e = (u, Inr ()) \<and> f row \<in> set (db_equipment u)"
proof -
  have ok: "equipment_ok (db_equipment s)" using s by (simp add: storage_sound_def)
  then have "distinct (map ew_id (db_equipment s))" by (simp add: equipment_ok_def)
  then have "one_row P (db_equipment s)" by (rule one_row_key) (rule P)
  then show ?thesis
  proof (cases rule: modify_one [where f = f])
    case 1
    then show ?thesis using row P(1) by (auto simp: filter_empty_conv)
  next
    case (2 us row' vs)
    have "kept s s" "row' \<in> set (db_equipment s)" using s 2(1) by simp_all
    then have "row' = row" using same_row(1) [OF _ _ row P(2)] 2(2) by blast
    note split = 2 [unfolded this]
    have other: "(ew_character_id r, ew_location r, ew_slot r) \<noteq> (Some c, ''IN_BAG'', Some k)" if "r \<in> set us \<union> set vs" for r
    proof
      assume at: "(ew_character_id r, ew_location r, ew_slot r) = (Some c, ''IN_BAG'', Some k)"
      then have "equ_place r = Some (c, ''BAG'', k)" by (simp add: equ_place_def)
      then have "(c, ''BAG'', k) \<in> set (places s)" using that split(1) by (auto simp: places_def set_map_filter)
      with free(1) show False by simp
    qed
    have "distinct (map ew_id (us @ f row # vs))" "distinct (map ew_equipment_uid (us @ f row # vs))"
      using ok by (simp_all add: equipment_ok_def split(1) f)
    moreover have "\<forall>r \<in> set (us @ f row # vs). int4 (ew_slot r) \<and> int4 (ew_equip_slot r)"
      using ok free(2,3) by (simp add: equipment_ok_def split(1) f int4_def)
    moreover have "distinct (map (\<lambda>r. (ew_character_id r, ew_location r, ew_slot r)) (filter stored (us @ f row # vs)))"
      by (rule distinct_replace [where r = row]) (use ok other in \<open>simp_all add: equipment_ok_def split(1) f\<close>)
    moreover have "distinct (map (\<lambda>r. (ew_character_id r, ew_equip_slot r)) (filter worn (us @ f row # vs)))"
      by (rule distinct_replace [where r = row]) (use ok in \<open>simp_all add: equipment_ok_def split(1) f worn_def\<close>)
    ultimately have "equipment_ok (us @ f row # vs)" by (simp only: equipment_ok_def)
    then show ?thesis by (simp add: or_fail_def update_equipment_outcome split(3,4))
  qed
qed

section \<open>Answers are given once\<close>

text \<open>
  An operation that stores its answer: whatever happens later, calling it again gives the same answer and
  does nothing more.
\<close>

locale replayed = machine init step inv
  for init :: "'s \<Rightarrow> bool" and step :: "'s \<Rightarrow> 's \<Rightarrow> bool" and inv :: "'s \<Rightarrow> bool" +
  fixes operation :: "'s \<Rightarrow> 's \<times> 'a result" and stored :: "'s \<Rightarrow> 'a \<Rightarrow> bool" and again :: "'s \<Rightarrow> 's"
  assumes operation_step: "step s (fst (operation s))"
    and operation_stores: "operation s = (t, Inr x) \<Longrightarrow> stored t x"
    and stored_kept: "inv s \<Longrightarrow> stored s x \<Longrightarrow> step s t \<Longrightarrow> stored t x"
    and stored_replays: "stored s x \<Longrightarrow> operation s = (again s, Inr x)"
begin

lemma stored_steps: "step\<^sup>*\<^sup>* s t \<Longrightarrow> inv s \<Longrightarrow> stored s x \<Longrightarrow> stored t x"
  by (induction rule: rtranclp_induct) (auto intro: stored_kept inv_steps)

lemma answered_once:
  assumes "inv s" "operation s = (t, Inr x)" "step\<^sup>*\<^sup>* t u"
  shows "operation u = (again u, Inr x)"
proof (rule stored_replays, rule stored_steps [OF assms(3)])
  show "inv t" using inv_step [OF assms(1) operation_step] assms(2) by simp
  show "stored t x" by (rule operation_stores) (rule assms(2))
qed

end

definition answered ::
  "pg \<Rightarrow> (db_response \<Rightarrow> 'a option) \<Rightarrow> string \<Rightarrow> string \<Rightarrow> int \<Rightarrow> int \<Rightarrow> db_request \<Rightarrow> db \<Rightarrow> 'a \<Rightarrow> bool" where
  "answered G unwrap scope op a c req s x \<longleftrightarrow> TrimSpace op \<noteq> [] \<and> (\<exists>row. db_idempotency s (TrimSpace op) = Some row \<and>
     ik_scope row = scope \<and> ik_account_id row = a \<and> ik_character_id row = c \<and> ik_request_hash row \<in> {[], pg_hash G req} \<and>
     unwrap (ik_response row) = Some x)"

lemma run_answered:
  assumes "runIdempotentAction G wrap unwrap scope op a c req run s = (t, Inr x)" "unwrap (wrap x) = Some x"
  shows "answered G unwrap scope op a c req t x"
  using assms by (auto simp: runIdempotentAction_def answered_def begin_tx_def Let_def split: if_splits option.splits prod.splits sum.splits)

lemma answered_replays:
  "answered G unwrap scope op a c req s x \<Longrightarrow> runIdempotentAction G wrap unwrap scope op a c req run s = (begin_tx s, Inr x)"
  by (auto simp: runIdempotentAction_def answered_def begin_tx_def Let_def)

lemma answered_kept:
  assumes "market_sound s" "answered G unwrap scope op a c req s x" "db_step G' s t"
  shows "answered G unwrap scope op a c req t x"
proof -
  have "db_idempotency s \<subseteq>\<^sub>m db_idempotency t" using db_step_sound [OF assms(1,3)] by (simp add: market_op_def)
  then show ?thesis using assms(2) unfolding answered_def map_le_def by (metis domI)
qed

interpretation purchase: replayed before_trading "db_step G" market_sound "Pg_MarketplaceBuy G req"
  "answered G sale_of ''marketplace_buy'' (mbq_OpID req) (mbq_AccountID req) (mbq_CharacterID req) (ReqMarketBuy req)" begin_tx for G req
proof unfold_locales
  show "db_step G s (fst (Pg_MarketplaceBuy G req s))" for s by (rule db_step.buy)
qed (auto simp: Pg_MarketplaceBuy_def sale_of_def intro: run_answered answered_kept answered_replays)

interpretation listing: replayed before_trading "db_step G" market_sound "Pg_MarketplaceCreateListing G req"
  "answered G listing_of ''marketplace_list'' (mlq_OpID req) (mlq_AccountID req) (mlq_CharacterID req)
     (ReqMarketList (req\<lparr>mlq_AssetType := ToUpper (pg_case G) (TrimSpace (mlq_AssetType req))\<rparr>))" begin_tx for G req
proof unfold_locales
  show "db_step G s (fst (Pg_MarketplaceCreateListing G req s))" for s by (rule db_step.list_asset)
qed (auto simp: Pg_MarketplaceCreateListing_def listing_of_def Let_def intro: run_answered answered_kept answered_replays)

interpretation cancellation: replayed before_trading "db_step G" market_sound "Pg_MarketplaceCancel G req"
  "answered G listing_of ''marketplace_cancel'' (mcq_OpID req) (mcq_AccountID req) 0 (ReqMarketCancel req)" begin_tx for G req
proof unfold_locales
  show "db_step G s (fst (Pg_MarketplaceCancel G req s))" for s by (rule db_step.cancel)
qed (auto simp: Pg_MarketplaceCancel_def listing_of_def intro: run_answered answered_kept answered_replays)

section \<open>A sample sale\<close>

definition sample_listing :: MarketplaceListRequest where
  "sample_listing = \<lparr>mlq_OpID = ''op1'', mlq_AccountID = 7, mlq_CharacterID = 5, mlq_AssetType = ''EQUIPMENT'',
     mlq_EquipmentUID = ''sword-1'', mlq_SourceLocation = [], mlq_SlotIndex = 0, mlq_Quantity = 1, mlq_PriceToken = 100,
     mlq_Rules = default_market\<rparr>"

definition sample_offer :: MarketplaceListing where
  "sample_offer = \<lparr>ml_ID = 4, ml_SellerAccountID = 7, ml_SellerCharacterID = 5, ml_AssetType = ''EQUIPMENT'', ml_AssetID = 1,
     ml_ItemID = ''sword'', ml_Quantity = 1, ml_PriceToken = 100, ml_ListingDepositToken = 1, ml_FeeBps = 500,
     ml_Status = ''LISTED'', ml_CreatedAt = 0, ml_UpdatedAt = 0, ml_CancelledAt = None, ml_SoldAt = None\<rparr>"

lemma sample_settings:
  "mk_Enabled default_market" "mk_MinListPrice default_market = 1" "mk_FeeBps default_market = 500"
  "mk_MaxListingsCreatedPerDay default_market = 50" "bpsCeil 100 (mk_ListingDepositBps default_market) = 1"
  "SlotCapacity default_market 0 0 = 5"
  "TrimSpace ''sword-1'' = ''sword-1''" "''op1'' @ ''#deposit'' = ''op1#deposit''" "MarketplaceRules_withDefaults default_market = default_market"
  by code_simp+

lemma sample_deposit:
  "\<exists>t. spendTokenInTx 0 (db_tokens sample_db) 7 1 = Inr (t, \<lparr>ts_Locked = 0, ts_Withdrawable = 1, ts_External = 0,
     ts_SpendSource = spendSourceLabel 0 1 0, ts_LockedSegments = []\<rparr>)"
  by (simp add: spendTokenInTx_def sample_db_def token_in_def zero_AccountToken_def Let_def w64_def)

lemma sample_catalog: "tradable (sample_db\<lparr>db_txnow := n, db_ticks := m, db_market_slots := x, db_tokens := y, db_consumptions := z, db_ledger := v\<rparr>) ''sword''"
  by (simp add: tradable_def sample_db_def)

lemma sample_listed:
  "\<exists>t x. create_listing sample_pg default_market sample_listing (begin_tx sample_db) = (t, Inr x) \<and> db_listings t = [(''op1'', sample_offer)] \<and>
     db_inventory t = db_inventory sample_db \<and> db_equipment t = [sample_sword\<lparr>ew_location := ''LISTED'', ew_slot := None\<rparr>]"
proof -
  obtain tokens where spend: "spendTokenInTx 0 (db_tokens sample_db) 7 1 = Inr (tokens, \<lparr>ts_Locked = 0, ts_Withdrawable = 1, ts_External = 0,
     ts_SpendSource = spendSourceLabel 0 1 0, ts_LockedSegments = []\<rparr>)" using sample_deposit by blast
  obtain w where w: "dayRangeInLocation sample_pg 1 (mk_DailyLimitTimezone default_market) = Inr w"
    by (simp add: dayRangeInLocation_def sample_pg_def)
  show ?thesis
    unfolding create_listing_def
    by (simp add: statements sample_begin sample_settings sample_listing_def assertHasTradingLicense_def assertMarketNotRestricted_def
      assertDailyListingCreateLimit_def db_now_def w count_created_def assertListingSlotAvailable_def ensureMarketSlots_def coalesce_def
      countActiveListings_def spendToken_def spend insertSystemConsumption_def lockEquipmentForListing_def
      sample_sword_def sample_catalog insertListing_def live_equipment_def ensure_token_def sample_offer_def sample_snapshot [where x = True]
      del: fun_upd_apply set_filter cong: then_do_weak_cong)
qed

text \<open>What the new owner of a listed thing has.\<close>

definition has_bought :: "db \<Rightarrow> int \<Rightarrow> int \<Rightarrow> MarketplaceListing \<Rightarrow> bool" where
  "has_bought u a c l \<longleftrightarrow>
     (if ml_AssetType l = ''EQUIPMENT''
      then \<exists>r \<in> set (db_equipment u). ew_id r = ml_AssetID l \<and> ew_item_id r = ml_ItemID l \<and> ew_account_id r = a \<and>
        ew_character_id r = Some c \<and> ew_location r = ''IN_BAG''
      else \<exists>r \<in> set (db_inventory u). iv_id r = ml_AssetID l \<and> iv_item_id r = ml_ItemID l \<and> iv_quantity r = ml_Quantity l \<and>
        iv_character_id r = c \<and> iv_location r = ''BAG'')"

lemma on_offer_type: "market_sound s \<Longrightarrow> on_offer s l \<Longrightarrow> ml_AssetType l = ''EQUIPMENT'' \<or> ml_AssetType l = ''ITEM''"
  using offered_held [of s l] by (auto simp: holdings_def held_item_def held_equipment_def promised_def)

lemma equipment_to_bag:
  assumes "storage_sound s" "row \<in> set (db_equipment s)" "held_equipment row = promised l" "ml_AssetType l = ''EQUIPMENT''"
    and "P row" "\<And>r. P r \<Longrightarrow> ew_id r = ew_id row"
    and f: "ew_id (f row) = ew_id row" "ew_equipment_uid (f row) = ew_equipment_uid row" "ew_equip_slot (f row) = ew_equip_slot row"
      "ew_location (f row) = ''IN_BAG''" "ew_character_id (f row) = Some c" "ew_slot (f row) = Some k"
      "ew_item_id (f row) = ew_item_id row" "ew_account_id (f row) = a"
    and "(c, ''BAG'', k) \<notin> set (places s)" "0 \<le> k" "k < 1000"
  shows "\<exists>u. or_fail (update_equipment s P f) e = (u, Inr ()) \<and> has_bought u a c l"
proof -
  obtain u where u: "or_fail (update_equipment s P f) e = (u, Inr ())" "f row \<in> set (db_equipment u)"
    using equipment_delivered [where P = P and f = f, OF assms(1,2,5,6) f(1-6) assms(15-17)] by blast
  have "ew_id row = ml_AssetID l" "ew_item_id row = ml_ItemID l" using assms(3) by (simp_all add: held_equipment_def promised_def)
  then have "has_bought u a c l" unfolding has_bought_def using u(2) f assms(4) by auto
  with u(1) show ?thesis by blast
qed

lemma stack_to_bag:
  assumes "storage_sound s" "row \<in> set (db_inventory s)" "held_item row = promised l" "ml_AssetType l = ''ITEM''"
    and "P row" "\<And>r. P r \<Longrightarrow> iv_id r = iv_id row"
    and f: "f row = row\<lparr>iv_character_id := c, iv_location := ''BAG'', iv_slot := Some k\<rparr>"
    and "(c, ''BAG'', k) \<notin> set (places s)" "0 \<le> k" "k < 1000"
  shows "\<exists>u. or_fail (update_inventory s P f) e = (u, Inr ()) \<and> has_bought u a c l"
proof -
  obtain u where u: "or_fail (update_inventory s P f) e = (u, Inr ())" "f row \<in> set (db_inventory u)"
    using stack_delivered [where P = P and f = f, OF assms(1,2,5,6) f assms(8-10)] by blast
  have "iv_id (f row) = ml_AssetID l" "iv_item_id (f row) = ml_ItemID l" "iv_quantity (f row) = ml_Quantity l"
      "iv_character_id (f row) = c" "iv_location (f row) = ''BAG''"
    using assms(3) by (simp_all add: held_item_def promised_def f)
  then have "has_bought u a c l" unfolding has_bought_def using u(2) assms(4) by auto
  with u(1) show ?thesis by blast
qed

lemma transfer_delivers:
  assumes "market_sound s" "on_offer s l" "room_in_bag s c"
  shows "\<exists>u. transferListedAssetToBuyer s l a c = (u, Inr ()) \<and> has_bought u a c l"
proof -
  have sound: "storage_sound s" using assms(1) by (simp add: market_sound_def)
  obtain k where k: "resolveStorageSlot s c ''BAG'' (- 1) = Inr k" "(c, ''BAG'', k) \<notin> set (places s)" "0 \<le> k" "k < 1000"
    using room_resolves [OF assms(3)] by metis
  from on_offer_type [OF assms(1,2)] show ?thesis
  proof
    assume type: "ml_AssetType l = ''EQUIPMENT''"
    from offered_equipment [OF assms(1,2) type] obtain row where row: "row \<in> set (db_equipment s)" "ew_location row = ''LISTED''"
      "held_equipment row = promised l" "ew_id row = ml_AssetID l" by metis
    show ?thesis
      unfolding transferListedAssetToBuyer_def k(1) then_do_simps if_P [OF type]
      by (rule equipment_to_bag [OF sound row(1,3) type _ _ _ _ _ _ _ _ _ _ k(2-4)]) (use row in simp_all)
  next
    assume type: "ml_AssetType l = ''ITEM''"
    then have other: "ml_AssetType l \<noteq> ''EQUIPMENT''" by simp
    from offered_stack [OF assms(1,2) type] obtain row where row: "row \<in> set (db_inventory s)" "iv_location row = ''LISTED''"
      "held_item row = promised l" "iv_id row = ml_AssetID l" by metis
    show ?thesis
      unfolding transferListedAssetToBuyer_def k(1) then_do_simps if_P [OF type] if_not_P [OF other]
      by (rule stack_to_bag [OF sound row(1,3) type _ _ _ k(2-4)]) (use row in simp_all)
  qed
qed

lemma return_delivers:
  assumes "market_sound s" "on_offer s l" "room_in_bag s (ml_SellerCharacterID l)"
  shows "\<exists>u. returnListedAssetToSellerBag s l = (u, Inr ()) \<and> has_bought u (ml_SellerAccountID l) (ml_SellerCharacterID l) l"
proof -
  have sound: "storage_sound s" using assms(1) by (simp add: market_sound_def)
  obtain k where k: "resolveStorageSlot s (ml_SellerCharacterID l) ''BAG'' (- 1) = Inr k"
      "(ml_SellerCharacterID l, ''BAG'', k) \<notin> set (places s)" "0 \<le> k" "k < 1000"
    using room_resolves [OF assms(3)] by metis
  from on_offer_type [OF assms(1,2)] show ?thesis
  proof
    assume type: "ml_AssetType l = ''EQUIPMENT''"
    from offered_equipment [OF assms(1,2) type] obtain row where row: "row \<in> set (db_equipment s)" "ew_location row = ''LISTED''"
      "held_equipment row = promised l" "ew_id row = ml_AssetID l" "ew_account_id row = ml_SellerAccountID l" by metis
    show ?thesis
      unfolding returnListedAssetToSellerBag_def k(1) then_do_simps if_P [OF type]
      by (rule equipment_to_bag [OF sound row(1,3) type _ _ _ _ _ _ _ _ _ _ k(2-4)]) (use row in simp_all)
  next
    assume type: "ml_AssetType l = ''ITEM''"
    then have other: "ml_AssetType l \<noteq> ''EQUIPMENT''" by simp
    from offered_stack [OF assms(1,2) type] obtain row where row: "row \<in> set (db_inventory s)" "iv_location row = ''LISTED''"
      "held_item row = promised l" "iv_id row = ml_AssetID l" by metis
    show ?thesis
      unfolding returnListedAssetToSellerBag_def k(1) then_do_simps if_P [OF type] if_not_P [OF other]
      by (rule stack_to_bag [OF sound row(1,3) type _ _ _ k(2-4)]) (use row in simp_all)
  qed
qed

lemma sample_before: "before_trading sample_db"
  by (simp add: before_trading_def sample_db_sound listed_items_def listed_equipment_def sample_stack_def sample_sword_def)

definition sample_market :: db where
  "sample_market = fst (Pg_MarketplaceCreateListing sample_pg sample_listing sample_db)"

lemma sample_market_step: "(db_step sample_pg)\<^sup>*\<^sup>* sample_db sample_market"
  unfolding sample_market_def by (rule r_into_rtranclp) (rule db_step.list_asset)

lemma sample_market_tables:
  "db_listings sample_market = [(''op1'', sample_offer)]" "db_inventory sample_market = db_inventory sample_db"
  "db_equipment sample_market = [sample_sword\<lparr>ew_location := ''LISTED'', ew_slot := None\<rparr>]"
proof -
  have names: "ToUpper (pg_case sample_pg) (TrimSpace ''EQUIPMENT'') = ''EQUIPMENT''" "TrimSpace ''op1'' = ''op1''" by code_simp+
  then have "sample_listing\<lparr>mlq_AssetType := ToUpper (pg_case sample_pg) (TrimSpace (mlq_AssetType sample_listing))\<rparr> = sample_listing"
    by (simp add: sample_listing_def)
  moreover have "mlq_Rules sample_listing = default_market" "mlq_OpID sample_listing = ''op1''" by (simp_all add: sample_listing_def)
  ultimately have "Pg_MarketplaceCreateListing sample_pg sample_listing = runIdempotentAction sample_pg RespMarketList listing_of
      ''marketplace_list'' ''op1'' (mlq_AccountID sample_listing) (mlq_CharacterID sample_listing) (ReqMarketList sample_listing)
      (create_listing sample_pg default_market sample_listing)"
    by (simp add: Pg_MarketplaceCreateListing_def Let_def sample_settings)
  then show "db_listings sample_market = [(''op1'', sample_offer)]" "db_inventory sample_market = db_inventory sample_db"
    "db_equipment sample_market = [sample_sword\<lparr>ew_location := ''LISTED'', ew_slot := None\<rparr>]"
    using sample_listed by (auto simp: sample_market_def runIdempotentAction_def names Let_def begin_tx_def)
qed

section \<open>The properties\<close>

text \<open>
  Property C2. Goods are held in escrow: after any sequence of storage, reward, shop, marketplace and payment operations on a database in
  which nothing was traded, the things withdrawn from their owners are exactly those that the open listings offer, with the
  same item, quantity, character and, for equipment, account; so nothing is lost on the market and nothing is offered twice.
\<close>

theorem goods_in_escrow:
  assumes "before_trading s" "(db_step G)\<^sup>*\<^sup>* s t"
  shows "holdings (db_inventory t) (db_equipment t) = promises (db_listings t)"
  using goods.reachable_inv [OF assms] by (simp add: market_sound_def escrow_def)

theorem goods_in_escrow_witness:
  "holdings (db_inventory sample_market) (db_equipment sample_market) = {#(''EQUIPMENT'', 1, ''sword'', 1, 5, Some 7)#}"
  using goods_in_escrow [OF sample_before sample_market_step]
  by (simp add: sample_market_tables promises_def is_open_def promised_def sample_offer_def)

text \<open>
  Property C23. One thing per slot: after any such sequence no slot of a bag or a warehouse holds two things, be they
  stacks or pieces of equipment, although the unique indexes see one table each; no slot is negative.
\<close>

theorem one_thing_per_slot:
  assumes "before_trading s" "(db_step G)\<^sup>*\<^sup>* s t"
  shows "distinct (places t) \<and> (\<forall>p \<in> set (places t). 0 \<le> snd (snd p))"
  using goods.reachable_inv [OF assms] by (simp add: market_sound_def storage_sound_def)

theorem one_thing_per_slot_witness: "distinct (places sample_market) \<and> (5, ''BAG'', 9) \<in> set (places sample_market)"
proof
  show "distinct (places sample_market)" using one_thing_per_slot [OF sample_before sample_market_step] by blast
  show "(5, ''BAG'', 9) \<in> set (places sample_market)"
    by (simp add: places_def sample_market_tables sample_stack_def inv_place_def map_filter_Cons)
qed

text \<open>
  Property C37. An open listing can always be honoured: in every reachable database, if the buyer has a free slot among the
  first thousand of the bag, the transfer succeeds and the buyer holds what was listed, in the listed quantity; and if the
  seller has one, a cancellation gives the same thing back. The errors for a missing thing cannot occur.
\<close>

theorem open_listing_honoured:
  assumes "before_trading s" "(db_step G)\<^sup>*\<^sup>* s t" "on_offer t l"
  shows "(room_in_bag t c \<longrightarrow> (\<exists>u. transferListedAssetToBuyer t l a c = (u, Inr ()) \<and> has_bought u a c l)) \<and>
    (room_in_bag t (ml_SellerCharacterID l) \<longrightarrow>
      (\<exists>u. returnListedAssetToSellerBag t l = (u, Inr ()) \<and> has_bought u (ml_SellerAccountID l) (ml_SellerCharacterID l) l))"
  using transfer_delivers [OF goods.reachable_inv [OF assms(1,2)] assms(3)]
    return_delivers [OF goods.reachable_inv [OF assms(1,2)] assms(3)] by blast

theorem open_listing_honoured_witness:
  "(\<exists>u. transferListedAssetToBuyer sample_market sample_offer 8 6 = (u, Inr ()) \<and> has_bought u 8 6 sample_offer) \<and>
   (\<exists>u. returnListedAssetToSellerBag sample_market sample_offer = (u, Inr ()) \<and> has_bought u 7 5 sample_offer)"
proof -
  have "on_offer sample_market sample_offer" by (simp add: on_offer_def sample_market_tables is_open_def sample_offer_def)
  moreover have "room_in_bag sample_market 6" "room_in_bag sample_market (ml_SellerCharacterID sample_offer)"
    unfolding room_in_bag_def places_def sample_market_tables
    by (rule bexI [of _ 0], simp_all add: sample_stack_def sample_sword_def sample_offer_def inv_place_def equ_place_def map_filter_Cons List.map_filter_def)+
  moreover have "ml_SellerAccountID sample_offer = 7" "ml_SellerCharacterID sample_offer = 5" by (simp_all add: sample_offer_def)
  ultimately show ?thesis
    using open_listing_honoured [OF sample_before sample_market_step, of sample_offer 6 8] by simp
qed

text \<open>
  Property C24. A purchase is made once: when a purchase has succeeded, the same request, after any further operations, returns
  the same answer and changes nothing but the clock, so the buyer is charged once and gets the goods once.
\<close>

theorem purchase_made_once:
  assumes "market_sound s" "Pg_MarketplaceBuy G req s = (t, Inr result)" "(db_step G)\<^sup>*\<^sup>* t u"
  shows "Pg_MarketplaceBuy G req u = (begin_tx u, Inr result)"
  by (rule purchase.answered_once [OF assms])

definition sample_purchase :: MarketplaceBuyRequest where
  "sample_purchase = \<lparr>mbq_OpID = ''op2'', mbq_AccountID = 8, mbq_CharacterID = 6, mbq_ListingID = 4, mbq_Rules = default_market\<rparr>"

definition sample_stall :: db where
  "sample_stall = sample_db\<lparr>db_seq := (\<lambda>_. 4), db_equipment := [sample_sword\<lparr>ew_location := ''LISTED'', ew_slot := None\<rparr>],
     db_listings := [(''op1'', sample_offer)]\<rparr>"

lemma sample_stall_sound: "market_sound sample_stall"
  by (simp add: market_sound_def storage_sound_def escrow_def sample_stall_def sample_stack_def sample_sword_def sample_offer_def
    inventory_ok_def equipment_ok_def places_def map_filter_Cons inv_place_def equ_place_def stack_ok_def int4_def in_slot_def
    stored_def worn_def List.map_filter_def holdings_def promises_def listed_items_def listed_equipment_def held_equipment_def
    coalesce_def is_open_def promised_def)

lemma sample_payment:
  "\<exists>t. spendTokenInTx 0 (db_tokens sample_db) 8 100 = Inr (t, \<lparr>ts_Locked = 0, ts_Withdrawable = 100, ts_External = 0,
     ts_SpendSource = spendSourceLabel 0 100 0, ts_LockedSegments = []\<rparr>)"
  by (simp add: spendTokenInTx_def sample_db_def token_in_def zero_AccountToken_def Let_def w64_def)

lemma sample_sale_settings:
  "sale_split default_market 100 = \<lparr>sale_fee = 5, sale_burn = 1, sale_treasury = 3, sale_rewards = 1, sale_net = 95\<rparr>"
  "mk_MaxPurchasesPerDay default_market = 100" "mk_PurchaseCooldownSeconds default_market = 0" "mk_DefaultCooldownHours default_market = 74"
  by code_simp+

lemma sample_sold:
  "\<exists>t x. buy_listing sample_pg default_market sample_purchase (begin_tx sample_stall) = (t, Inr x)"
proof -
  obtain tokens where spend: "spendTokenInTx 0 (db_tokens sample_db) 8 100 = Inr (tokens, \<lparr>ts_Locked = 0, ts_Withdrawable = 100,
     ts_External = 0, ts_SpendSource = spendSourceLabel 0 100 0, ts_LockedSegments = []\<rparr>)" using sample_payment by blast
  obtain w where w: "dayRangeInLocation sample_pg 1 (mk_DailyLimitTimezone default_market) = Inr w"
    by (simp add: dayRangeInLocation_def sample_pg_def)
  have begin_stall: "begin_tx sample_stall = sample_stall\<lparr>db_txnow := 0, db_ticks := 1\<rparr>"
    by (simp add: begin_tx_def sample_stall_def)
  show ?thesis
    unfolding buy_listing_def begin_stall
    by (simp add: statements sample_stall_def sample_settings sample_sale_settings sample_purchase_def assertHasTradingLicense_def
      assertMarketNotRestricted_def assertDailyPurchaseLimit_def assertPurchaseCooldown_def db_now_def w lockListing_def
      sample_offer_def spendToken_def spend insertSystemConsumption_def pay_seller_def grantLockedTokenInTxAt_def ensure_token_def
      transferListedAssetToBuyer_def resolveStorageSlot_def first_free.simps storageSlotFree_def sample_stack_def sample_sword_def
      close_listing_def insert_order_def sample_snapshot [where x = True]
      del: fun_upd_apply set_filter cong: then_do_weak_cong)
qed

theorem purchase_made_once_witness:
  "\<exists>t result. Pg_MarketplaceBuy sample_pg sample_purchase sample_stall = (t, Inr result) \<and>
     Pg_MarketplaceBuy sample_pg sample_purchase t = (begin_tx t, Inr result)"
proof -
  have "TrimSpace (mbq_OpID sample_purchase) = ''op2''" "mbq_Rules sample_purchase = default_market"
    by (simp_all add: sample_purchase_def) code_simp
  moreover have "db_idempotency sample_stall ''op2'' = None" by (simp add: sample_stall_def)
  ultimately have "is_ok (snd (Pg_MarketplaceBuy sample_pg sample_purchase sample_stall))"
    using sample_sold unfolding Pg_MarketplaceBuy_def by (auto intro: runIdempotentAction_runs simp: sample_settings)
  then obtain t result where run: "Pg_MarketplaceBuy sample_pg sample_purchase sample_stall = (t, Inr result)"
    by (metis is_okE prod.collapse)
  then show ?thesis using purchase_made_once [OF sample_stall_sound run rtranclp.rtrancl_refl] by blast
qed

end
