(* ===== verification/Spec2Isabelle.thy ===== *)
theory Spec2Isabelle
  imports WholeStore TokenSpend RewardProps AccountServiceProps MiddlewareProps Deposits MysteryBoardProps
    MarketProps
begin

text \<open>
  A verification development for the Aeonblight backend (\<open>src/\<close>, Go): the account API, the economy
  API, the administration API and the economy worker of a Solana-based game, over one repository.

  \<^bold>\<open>The program.\<close> Three HTTP services and a worker share the interface \<open>store.Repository\<close>
  (\<open>internal/platform/store\<close>). It has two implementations: \<open>Store\<close> (\<open>store.go\<close>), maps guarded by one
  mutex, and \<open>PostgresStore\<close>, SQL transactions. The account service (\<open>internal/account\<close>) logs players in
  with wallet signatures (\<open>internal/chain/solana.go\<close>), issues tokens
  (\<open>internal/platform/security/token.go\<close>) and sessions, keeps a cache in Redis
  (\<open>internal/platform/redisx\<close>) and sends players to game servers with one-time tickets. The economy
  rules (\<open>internal/economy/rules/config.go\<close>) turn the configuration into reward plans and prices; the
  economy service (\<open>internal/economy/service.go\<close>) asks the repository for them. The worker unlocks tokens and pays withdrawals. Internal calls carry signed requests
  (\<open>internal/platform/security/service_request.go\<close>).

  \<^bold>\<open>Theories and what they model.\<close>

  \<^item> \<open>Prelude\<close>: 64-bit integers as \<open>int\<close> with \<open>w64\<close> (wrap-around) and \<open>i64\<close> (range), time in
    nanoseconds, errors as \<open>err + 'a\<close>, Go strings as byte lists with \<open>TrimSpace\<close>, \<open>ToUpper\<close>,
    \<open>FormatInt\<close>, maps and the orders in which they are visited.
  \<^item> \<open>Contracts\<close>: the locales \<open>machine\<close> (transition system with an invariant) and \<open>single_use\<close>
    (a credential a successful use spends), interpreted for the registry, the treasury, the whole in-memory repository, the goods in the database, service
    nonces, administrators, wallet and administrator nonces, launch tickets, refresh tokens and dungeon runs.
  \<^item> \<open>StoreState\<close>: the rows and the state of \<open>Store\<close> as records; \<open>next\<close>, \<open>ensureTokenLocked\<close>,
    \<open>addLedgerLocked\<close>, \<open>Audit\<close>.
  \<^item> \<open>Treasury\<close>, \<open>TreasuryProps\<close>: grants, unlocks, withdrawal requests, the automatic queue and the
    review (\<open>GrantLocked\<close>, \<open>SettleUnlocks\<close>, \<open>CreateWithdrawal\<close>, \<open>ProcessAutoWithdrawals\<close>,
    \<open>ReviewWithdrawal\<close>). C3, C5, C6: the limits of the queue, what happens to approved
    withdrawals, the status machine as an abstract specification the store refines. Lemmas: the
    equations of the balances, exact and modulo 2^64, what the queue pays, the order of unlocks, refunds.
  \<^item> \<open>Accounts\<close>: wallet nonces, accounts, bans, characters and player state. C9.
  \<^item> \<open>Sessions\<close>: launch tickets, account sessions and refresh tokens. C13, C15, C16.
  \<^item> \<open>Presence\<close>: game servers and online players.
  \<^item> \<open>Progression\<close>: levels from experience, in 64-bit arithmetic. C20.
  \<^item> \<open>EconomyTypes\<close>, \<open>Dungeon\<close>: dungeon runs, gathering, boss contributions and the mystery shop as the
    in-memory repository implements them. Lemmas: the effect of a finished run, cancelling, the cooldown of
    gathering.
  \<^item> \<open>Solana\<close>: base58, addresses, wallet signatures. C27.
  \<^item> \<open>Deposits\<close>: what a transaction on the chain credits and which payments are accepted
    (\<open>InboundTokenCredits\<close>, \<open>VerifyInboundPayment\<close>, \<open>GameToRawAmount\<close>), raw amounts as 64-bit words. C25: an
    accepted payment was received, if every owner has one token account; C28: what a transaction that moves nothing is
    credited otherwise.
  \<^item> \<open>TokenSpend\<close>: \<open>token_spend.go\<close>, the order in which a payment takes locked, withdrawable and
    external funds, over the two tables it touches. C29.
  \<^item> \<open>Pricing\<close>: the price rules with their defaults, and how a sale and a repair divide a price. C31.
  \<^item> \<open>Security\<close>: access tokens and signed service requests. C39, C40.
  \<^item> \<open>RedisCache\<close>: the interface \<open>Client\<close>, the in-process client and the disabled client. The locale
    \<open>expiring_cache\<close> is the contract, interpreted on \<open>MemoryClient\<close>.
  \<^item> \<open>AccountService\<close>, \<open>AccountServiceProps\<close>: \<open>account/service.go\<close> and \<open>sessions.go\<close> over the in-memory
    repository and any cache client. The locale \<open>session_guard\<close> is what the calls that need a session
    promise, interpreted on \<open>RequireActiveSession\<close>, \<open>Launch\<close>, \<open>EnterOnline\<close> and
    \<open>ResolveDungeonRecovery\<close>. C32 to C35.
  \<^item> \<open>AdminStore\<close>: administrators, their login nonces, service identities, request nonces, the audit list
    and the operation log of the in-memory repository (\<open>admin_users.go\<close>, \<open>service_identities.go\<close>).
  \<^item> \<open>WholeStore\<close>: every operation of the in-memory repository that changes the store, as the steps of one
    machine (\<open>store_step\<close>, \<open>run_trace\<close>), and what holds in every store it reaches. C1: balances are backed by what was
    granted, locked and withdrawn, in 64-bit arithmetic, and exactly while no account was granted \<open>2 ^ 63\<close>; C10: a login
    returns the account of the wallet; C11: the slots of characters; C21: a dungeon run is finished at most once per entry.
  \<^item> \<open>Middleware\<close>, \<open>MiddlewareProps\<close>: \<open>httpx/middleware.go\<close> and the administrator login of
    \<open>admin/http.go\<close>, each handler as its decision. C12: disabling an administrator is final; C14: a
    signed request is not accepted twice, if it was signed before it was accepted; C17: exactly when it is otherwise.
  \<^item> \<open>RulesConfig\<close>, \<open>RewardPlans\<close>, \<open>RewardProps\<close>, \<open>EquipmentView\<close>: the configuration types and
    accessors, the reward plans with their random rolls, the live view of equipment. C38; a lemma
    bounds what a loot pool gives.
  \<^item> \<open>ConfigLoader\<close>, \<open>ConfigProps\<close>: \<open>LoadDir\<close>, the loaders and \<open>validate\<close>. C26: how a loaded configuration is
    keyed; C19: it computes the rewards of every floor, node, crop and boss, but for two kinds of entries the validation
    lets pass; C18: and its lottery may panic.
  \<^item> \<open>MysteryShop\<close>: the offers of a mystery shop and the window of a shop day. C7: with a loaded
    configuration a board can always be rolled and its offers are unlocked, known and, up to the price at which
    64 bits overflow, fairly priced.
  \<^item> \<open>EconomyRepository\<close>: the calls the economy service makes on a repository, as a record of functions over
    any state with their requests and results, and the in-memory repository as such a record.
  \<^item> \<open>EconomyService\<close>, \<open>EconomyServiceProps\<close>, \<open>MysteryBoardProps\<close>: the calls of the economy service over any
    repository. C4: what a purchase in a regular shop charges; C36: what a badge draw pays. The locale
    \<open>board_repository\<close> is what the mystery shop relies on, interpreted on the in-memory repository; C8: an
    offer is sold once.
  \<^item> \<open>Database\<close>: the tables of the SQL repository that items and the marketplace use, with the constraints of
    the schema, the statements, transactions and \<open>runIdempotentAction\<close>.
  \<^item> \<open>ItemStore\<close>, \<open>MarketStore\<close>: the operations on items, equipment and loot (\<open>postgres.go\<close>, \<open>inventory.go\<close>), the
    marketplace and payment orders (\<open>marketplace.go\<close>, \<open>growth_payments.go\<close>).
  \<^item> \<open>StorageProps\<close>, \<open>OrganizeProps\<close>: what the item operations keep of the tables, as rules for chains of calls
    (\<open>ends\<close>, \<open>kept\<close>). C22: organising a bag loses nothing and leaves the rest of the database alone.
  \<^item> \<open>ShopStore\<close>, \<open>ShopProps\<close>: buying with gold, payment orders of purchases, selling, the board of the mystery shop
    (\<open>shop.go\<close>), enhancing, recycling and repairing equipment (\<open>equipment_enhance.go\<close>, \<open>equipment_recycle.go\<close>,
    \<open>equipment_repair.go\<close>). C30: what a purchase with gold changes; lemmas: all these calls keep the tables sound.
  \<^item> \<open>MarketProps\<close>: all operations of \<open>ItemStore\<close>, \<open>MarketStore\<close> and \<open>ShopStore\<close> as the steps of one machine (\<open>db_step\<close>). C2: the
    marketplace holds exactly what the open listings offer; C23: a slot holds one thing, across two tables; C37: an open
    listing can be honoured; C24: a purchase is made once. The locale \<open>replayed\<close> is what \<open>runIdempotentAction\<close> promises,
    interpreted on listing, buying and cancelling.

  \<^bold>\<open>Conventions.\<close> An operation of the repository takes the store and returns the store and a
  result; the store is returned on errors too, since some of them change it. A Go panic is the error
  \<open>Panic\<close>. A loop over a Go map takes the visiting order as an argument and the theorems hold for
  every order; where the result depends on it, that is a theorem (C38). Reading the clock advances
  \<open>ticks\<close> and returns \<open>clock ticks\<close>, so consecutive readings may differ. Each repository call holds the
  mutex and is atomic; interleavings of clients are sequences of calls, and the theorems about
  credentials quantify over all of them. Every function of the model is total and no loop needs fuel.

  \<^bold>\<open>Parameters.\<close> What the program takes from elsewhere is an argument: SHA-256, HMAC, Ed25519
  verification, JSON encoding of claims, upper and lower case outside ASCII, quoting in error
  messages, floating-point arithmetic (\<open>float_ops\<close>), the random generator (\<open>rand\<close>), random bytes, the
  files of the configuration, the time zone database (\<open>location\<close>), the cache client. Hypotheses about them are named: \<open>lawful\<close> (a draw
  below n is below n), a codec that reads back the claims signed (C39), a signature scheme that accepts only
  signed messages (C40); each has a witness with a concrete function.

  \<^bold>\<open>Not modelled.\<close> The rest of the SQL repository (accounts, sessions, dungeons, bounties, NFTs, the chain, the delivery of paid orders), whose
  in-memory counterparts are modelled or which has tables of its own; HTTP routing and the decoding and writing of JSON, health probes and
  start-up, which are input and output; the Solana RPC client and the sending of payouts (network); the
  Redis client (third-party driver), covered by the theorems for any client; the read-only listings for
  administrators; the calls of the economy service that only hand a request to the marketplace, to NFT
  minting or to the chain.
\<close>

end
